(* ===== verification/Prelude.thy ===== *)
theory Prelude
  imports Complex_Main "HOL-Library.Word" "HOL-Library.AList" "HOL-Library.Product_Lexorder"
    "HOL-Library.Multiset" "HOL-Library.List_Lexorder" "HOL-Library.Char_ord"
begin

text \<open>
  What the component theories share: the result type of code that may raise, folds that stop at
  the first error, Python dictionaries as association lists in insertion order, identifiers and
  timestamps, and generic lemmas about sorting and lookup.
\<close>

section \<open>Hint collections\<close>

named_theorems result_simps \<open>rewrites of successful results\<close>
named_theorems dict_simps \<open>rewrites of dictionary lookup and update\<close>

section \<open>Results: a value, or the exception that was raised\<close>

text \<open>
  A Python function that may raise returns \<open>Inl\<close> of its exception or \<open>Inr\<close> of its value.
  \<open>bindR\<close> runs the rest of the function only when the first part returned.
\<close>

definition bindR :: "'e + 'a \<Rightarrow> ('a \<Rightarrow> 'e + 'b) \<Rightarrow> 'e + 'b" where
  "bindR m f = (case m of Inl e \<Rightarrow> Inl e | Inr x \<Rightarrow> f x)"

lemma bindR_simps [simp]:
  "bindR (Inl e) f = Inl e"
  "bindR (Inr x) f = f x"
  by (simp_all add: bindR_def)

lemma bindR_Inr_iff [result_simps]:
  "bindR m f = Inr y \<longleftrightarrow> (\<exists>x. m = Inr x \<and> f x = Inr y)"
  by (cases m) auto

lemma bindR_Inl_iff:
  "bindR m f = Inl e \<longleftrightarrow> m = Inl e \<or> (\<exists>x. m = Inr x \<and> f x = Inl e)"
  by (cases m) auto

lemma bindR_cong [fundef_cong]:
  "m = m' \<Longrightarrow> (\<And>x. m' = Inr x \<Longrightarrow> f x = f' x) \<Longrightarrow> bindR m f = bindR m' f'"
  by (cases m') auto

lemma bindR_weak_cong: "m = m' \<Longrightarrow> bindR m f = bindR m' f"
  by simp

text \<open>\<open>requireR b e\<close> is \<open>if not b: raise e\<close>.\<close>

definition requireR :: "bool \<Rightarrow> 'e \<Rightarrow> 'e + unit" where
  "requireR b e = (if b then Inr () else Inl e)"

lemma requireR_Inr [result_simps]: "requireR b e = Inr u \<longleftrightarrow> b"
  by (simp add: requireR_def)

lemma requireR_Inl: "requireR b e = Inl e' \<longleftrightarrow> \<not> b \<and> e = e'"
  by (simp add: requireR_def)

lemma requireR_cases [simp]:
  "requireR True e = Inr ()"
  "requireR False e = Inl e"
  by (simp_all add: requireR_def)

lemma if_Inl_eq_Inr [result_simps]:
  "(if b then Inl e else x) = Inr y \<longleftrightarrow> \<not> b \<and> x = Inr y"
  "(if b then x else Inl e) = Inr y \<longleftrightarrow> b \<and> x = Inr y"
  by auto

section \<open>Loops that may raise\<close>

fun foldR :: "('s \<Rightarrow> 'x \<Rightarrow> 'e + 's) \<Rightarrow> 's \<Rightarrow> 'x list \<Rightarrow> 'e + 's" where
  "foldR f s [] = Inr s"
| "foldR f s (x # xs) = bindR (f s x) (\<lambda>s'. foldR f s' xs)"

lemma foldR_append: "foldR f s (xs @ ys) = bindR (foldR f s xs) (\<lambda>s'. foldR f s' ys)"
proof (induction xs arbitrary: s)
  case (Cons x xs)
  show ?case by (cases "f s x") (simp_all add: Cons.IH)
qed simp

lemma foldR_snoc: "foldR f s (xs @ [x]) = bindR (foldR f s xs) (\<lambda>s'. f s' x)"
proof (cases "foldR f s xs")
  case (Inr s')
  then show ?thesis by (cases "f s' x") (simp_all add: foldR_append)
qed (simp add: foldR_append)

lemma foldR_cong [fundef_cong]:
  "s = s' \<Longrightarrow> xs = ys \<Longrightarrow> (\<And>t x. x \<in> set ys \<Longrightarrow> f t x = g t x) \<Longrightarrow> foldR f s xs = foldR g s' ys"
proof (induction ys arbitrary: s s' xs)
  case (Cons y ys)
  then show ?case by (cases "g s' y") auto
qed simp

text \<open>
  The contract of a loop that may raise: \<open>inv h s\<close> relates the items processed so far to the
  state, and one step keeps it as long as the history stays well formed (\<open>ok\<close>). What follows for
  whole runs, for the states in the middle of a run, and for the place where a run stops, is proved
  once, here.
\<close>

locale history_invariant =
  fixes step :: "'s \<Rightarrow> 'x \<Rightarrow> 'e + 's"
    and start :: 's
    and inv :: "'x list \<Rightarrow> 's \<Rightarrow> bool"
    and ok :: "'x list \<Rightarrow> bool"
  assumes start_inv: "inv [] start"
    and step_inv: "inv h s \<Longrightarrow> ok (h @ [x]) \<Longrightarrow> step s x = Inr s' \<Longrightarrow> inv (h @ [x]) s'"
    and ok_prefix: "ok (h @ h') \<Longrightarrow> ok h"
begin

lemma run_inv: "ok h \<Longrightarrow> foldR step start h = Inr s \<Longrightarrow> inv h s"
proof (induction h arbitrary: s rule: rev_induct)
  case Nil
  then show ?case using start_inv by simp
next
  case (snoc x h)
  from snoc.prems(2) obtain t where t: "foldR step start h = Inr t" "step t x = Inr s"
    by (auto simp: foldR_snoc result_simps)
  from snoc.prems(1) have "ok h" by (rule ok_prefix)
  from this t(1) have "inv h t" by (rule snoc.IH)
  from this snoc.prems(1) t(2) show ?case by (rule step_inv)
qed

lemma prefix_inv:
  assumes "ok (h @ h')" and "foldR step start (h @ h') = Inr s"
  obtains t where "foldR step start h = Inr t" and "inv h t" and "foldR step t h' = Inr s"
proof -
  from assms(2) obtain t where t: "foldR step start h = Inr t" "foldR step t h' = Inr s"
    by (auto simp: foldR_append result_simps)
  have "inv h t" using ok_prefix [OF assms(1)] t(1) by (rule run_inv)
  with t show thesis by (blast intro: that)
qed

lemma error_at:
  "ok h \<Longrightarrow> foldR step start h = Inl e \<Longrightarrow>
     \<exists>h1 x h2 t. h = h1 @ x # h2 \<and> inv h1 t \<and> ok (h1 @ [x]) \<and> step t x = Inl e"
proof (induction h rule: rev_induct)
  case (snoc x h)
  have ok_h: "ok h" using snoc.prems(1) by (rule ok_prefix)
  show ?case
  proof (cases "foldR step start h")
    case (Inl e')
    with snoc.prems(2) have "e' = e" by (simp add: foldR_snoc)
    with snoc.IH [OF ok_h] Inl obtain h1 y h2 t
      where "h = h1 @ y # h2" "inv h1 t" "ok (h1 @ [y])" "step t y = Inl e" by blast
    then show ?thesis by (metis append_Cons append_assoc)
  next
    case (Inr t)
    with run_inv [OF ok_h] snoc.prems show ?thesis by (auto simp: foldR_snoc)
  qed
qed simp

end

section \<open>Dictionaries\<close>

text \<open>
  A Python dictionary remembers insertion order and a store to an existing key keeps its place:
  \<open>AList.update\<close> is exactly that, \<open>map_of\<close> is the lookup. \<open>dict_ok\<close> says that no key occurs
  twice.
\<close>

type_synonym ('k, 'v) dict = "('k \<times> 'v) list"

abbreviation dict_get :: "('k, 'v) dict \<Rightarrow> 'k \<Rightarrow> 'v option" where
  "dict_get d k \<equiv> map_of d k"

abbreviation dict_set :: "'k \<Rightarrow> 'v \<Rightarrow> ('k, 'v) dict \<Rightarrow> ('k, 'v) dict" where
  "dict_set k v d \<equiv> AList.update k v d"

abbreviation dict_ok :: "('k, 'v) dict \<Rightarrow> bool" where
  "dict_ok d \<equiv> distinct (map fst d)"

definition dict_setdefault :: "'k \<Rightarrow> 'v \<Rightarrow> ('k, 'v) dict \<Rightarrow> ('k, 'v) dict" where
  "dict_setdefault k v d = (case dict_get d k of None \<Rightarrow> dict_set k v d | Some _ \<Rightarrow> d)"

lemma dict_get_set [dict_simps]:
  "dict_get (dict_set k v d) k' = (if k' = k then Some v else dict_get d k')"
  by (simp add: update_conv')

lemma dict_get_setdefault [dict_simps]:
  "dict_get (dict_setdefault k v d) k' =
    (if k' = k then (case dict_get d k of None \<Rightarrow> Some v | Some w \<Rightarrow> Some w) else dict_get d k')"
  by (auto simp: dict_setdefault_def update_conv' split: option.splits)

lemma dict_keys_set [dict_simps]: "fst ` set (dict_set k v d) = insert k (fst ` set d)"
  using dom_update [of k v d] by (simp add: dom_map_of_conv_image_fst)

lemma dict_keys_setdefault [dict_simps]:
  "fst ` set (dict_setdefault k v d) = insert k (fst ` set d)"
proof (cases "dict_get d k")
  case (Some w)
  then have "k \<in> fst ` set d" by (force dest: map_of_SomeD)
  with Some show ?thesis by (auto simp: dict_setdefault_def)
qed (simp add: dict_setdefault_def dict_keys_set)

lemma dict_set_member: "x \<in> set (dict_set k v d) \<Longrightarrow> x = (k, v) \<or> x \<in> set d"
  by (induction d) (auto split: if_splits)

lemma dict_ok_set: "dict_ok d \<Longrightarrow> dict_ok (dict_set k v d)"
  by (rule distinct_update)

lemma dict_ok_setdefault: "dict_ok d \<Longrightarrow> dict_ok (dict_setdefault k v d)"
  by (simp add: dict_setdefault_def distinct_update split: option.splits)

lemma dict_in_set_iff: "dict_ok d \<Longrightarrow> (k, v) \<in> set d \<longleftrightarrow> dict_get d k = Some v"
  by simp

lemma dict_set_fresh: "dict_get d k = None \<Longrightarrow> dict_set k v d = d @ [(k, v)]"
  by (induction d) (auto split: if_splits)

section \<open>Sorting\<close>

text \<open>
  Python's \<open>sorted(xs, key=f)\<close> is a stable sort, and so is \<open>sort_key\<close>. Where the key
  identifies the element the result does not depend on the order of the input.
\<close>

lemma sort_key_mset_cong:
  assumes "mset xs = mset ys" and "inj_on f (set xs)"
  shows "sort_key f xs = sort_key f ys"
  by (rule sort_key_inj_key_eq) (use assms in auto)

lemma sort_key_filter_cong:
  assumes "mset xs = mset ys" and "inj_on f (set xs)"
  shows "sort_key f (filter P xs) = sort_key f (filter P ys)"
  by (rule sort_key_mset_cong) (use assms in \<open>auto intro: inj_on_subset\<close>)

lemma sorted_distinct_map_strict:
  "sorted (map f xs) \<Longrightarrow> distinct (map f xs) \<Longrightarrow> sorted_wrt (\<lambda>x y. f x < f y) xs"
  by (induction xs) (auto simp: less_le)

lemma sort_key_Nil_iff: "sort_key f xs = [] \<longleftrightarrow> xs = []"
  by (metis length_0_conv length_sort)

lemma sort_key_first:
  assumes "sort_key f xs = y # ys"
  shows "y \<in> set xs" "\<And>x. x \<in> set xs \<Longrightarrow> f y \<le> f x"
proof -
  have "set (y # ys) = set xs" using assms by (metis set_sort)
  then show "y \<in> set xs" by auto
  have "sorted (map f (y # ys))" using assms by (metis sorted_sort_key)
  with \<open>set (y # ys) = set xs\<close> show "f y \<le> f x" if "x \<in> set xs" for x using that by auto
qed

section \<open>Identifiers\<close>

text \<open>
  A UUID is its 128-bit value. \<open>str(uuid)\<close> is a fixed-width, lower-case hexadecimal text with
  the dashes at fixed places, so comparing two such texts is comparing the two values as unsigned
  numbers, and the keys \<open>str(item.id)\<close> of the program's sorts are modelled by the word itself.
\<close>

type_synonym uuid = "128 word"

text \<open>\<open>str(uuid)\<close> where a message shows it: 32 hexadecimal digits in groups of 8, 4, 4, 4 and 12.\<close>

definition hex_char :: "nat \<Rightarrow> char" where
  "hex_char n = ''0123456789abcdef'' ! n"

definition uuid_text :: "uuid \<Rightarrow> string" where
  "uuid_text u = concat (map (\<lambda>i. (if i \<in> {8, 12, 16, 20} then ''-'' else [])
     @ [hex_char (unat (take_bit 4 (drop_bit (4 * (31 - i)) u)))]) [0..<32])"

section \<open>Timestamps\<close>

text \<open>
  A \<open>datetime\<close> with a \<open>tzinfo\<close> is the instant it denotes (microseconds since the epoch in UTC)
  and its UTC offset in microseconds; without one it is the wall-clock reading. Two aware values compare by their instants;
  the offset still shows in \<open>isoformat()\<close>.
\<close>

datatype datetime = Naive int | Aware (utc_instant: int) (utc_offset: int)

fun is_aware :: "datetime \<Rightarrow> bool" where
  "is_aware (Naive _) = False"
| "is_aware (Aware _ _) = True"

text \<open>\<open>value.replace(tzinfo=UTC) if value.tzinfo is None else value\<close>\<close>

fun as_utc :: "datetime \<Rightarrow> datetime" where
  "as_utc (Naive w) = Aware w 0"
| "as_utc (Aware t z) = Aware t z"

text \<open>\<open>value.replace(tzinfo=UTC) if value.tzinfo is None else value.astimezone(UTC)\<close>\<close>

fun to_utc :: "datetime \<Rightarrow> datetime" where
  "to_utc (Naive w) = Aware w 0"
| "to_utc (Aware t z) = Aware t 0"

text \<open>The instant of an aware value; a naive one is read as UTC, as the code does before it compares.\<close>

fun instant :: "datetime \<Rightarrow> int" where
  "instant (Naive w) = w"
| "instant (Aware t z) = t"

lemma is_aware_as_utc [simp]: "is_aware (as_utc d)" "is_aware (to_utc d)"
  by (cases d; simp)+

lemma instant_as_utc [simp]: "instant (as_utc d) = instant d" "instant (to_utc d) = instant d"
  by (cases d; simp)+

lemma as_utc_aware [simp]: "is_aware d \<Longrightarrow> as_utc d = d"
  by (cases d) auto

lemma to_utc_eq_iff [simp]: "to_utc a = to_utc b \<longleftrightarrow> instant a = instant b"
  by (cases a; cases b) auto

section \<open>Text\<close>

text \<open>\<open>str.strip()\<close> on the ASCII whitespace characters.\<close>

definition is_space :: "char \<Rightarrow> bool" where
  "is_space c = (let n = (of_char c :: nat)
     in n = 32 \<or> 9 \<le> n \<and> n \<le> 13 \<or> 28 \<le> n \<and> n \<le> 31)"

definition strip :: "string \<Rightarrow> string" where
  "strip s = rev (dropWhile is_space (rev (dropWhile is_space s)))"

lemma strip_Nil [simp]: "strip [] = []"
  by (simp add: strip_def)

lemma strip_eq_Nil_iff: "strip s = [] \<longleftrightarrow> (\<forall>c \<in> set s. is_space c)"
proof -
  have "(\<forall>x \<in> set (dropWhile is_space s). is_space x) \<longleftrightarrow> (\<forall>x \<in> set s. is_space x)"
    by (induction s) auto
  then show ?thesis by (simp add: strip_def)
qed

end
