(* ===== verification/Rounding.thy ===== *)
theory Rounding
  imports Decimal
begin

text \<open>
  The values of decimals as rational numbers, and correct rounding to 28 significant digits
  (half to even) as a function \<open>rnd\<close> on the rationals. Every operation of theory
  \<open>Decimal\<close> computes \<open>rnd\<close> of the exact result; the component proofs use only these
  equations and the order properties of \<open>rnd\<close>.
\<close>

named_theorems dec_simps \<open>decimal operations and comparisons as operations on rational values\<close>

section \<open>Values\<close>

definition dval :: "dec \<Rightarrow> rat" where
  "dval d = of_int (coeff d) * 10 powi (dexp d)"

lemma ten_powi_pos [simp]: "(0::rat) < 10 powi e"
  by simp

lemma ten_powi_add: "(10::rat) powi (e + int k) = 10 powi e * 10 ^ k"
  by (simp add: power_int_add)

lemma ten_powi_less: "d < e \<Longrightarrow> 10 * (10::rat) powi d \<le> 10 powi e"
proof -
  assume "d < e"
  then have "(10::rat) powi (d + 1) \<le> 10 powi e" by (intro power_int_increasing) auto
  then show ?thesis by (simp add: power_int_add)
qed

lemma dval_scaled: "e \<le> dexp d \<Longrightarrow> dval d = of_int (scaled d e) * 10 powi e"
  using ten_powi_add [of e "nat (dexp d - e)"] by (simp add: dval_def scaled_def mult_ac)

lemma dval_zero [simp]: "dval dzero = 0" and dval_unit [simp]: "dval dunit = 1"
  by (simp_all add: dval_def)

lemma dval_Dec_0 [simp]: "dval (Dec 0 e) = 0"
  by (simp add: dval_def)

lemma dval_compare:
  fixes a b :: dec
  defines "e \<equiv> min (dexp a) (dexp b)"
  shows "dval a \<le> dval b \<longleftrightarrow> scaled a e \<le> scaled b e"
    and "dval a < dval b \<longleftrightarrow> scaled a e < scaled b e"
    and "dval a = dval b \<longleftrightarrow> scaled a e = scaled b e"
  by (simp_all add: dval_scaled [of e a] dval_scaled [of e b] e_def)

lemma dle_iff [dec_simps]: "dle a b \<longleftrightarrow> dval a \<le> dval b"
  and dlt_iff [dec_simps]: "dlt a b \<longleftrightarrow> dval a < dval b"
  and deq_iff [dec_simps]: "deq a b \<longleftrightarrow> dval a = dval b"
  by (simp_all add: dle_def dlt_def deq_def Let_def dval_compare)

section \<open>Rounding a positive rational\<close>

definition rounds_pos :: "rat \<Rightarrow> rat \<Rightarrow> bool" where
  "rounds_pos x y \<longleftrightarrow> (\<exists>u q :: int. 10 ^ 27 * 10 powi u \<le> x \<and> x < 10 ^ 28 * 10 powi u \<and>
     y = of_int q * 10 powi u \<and> 2 * \<bar>x - y\<bar> \<le> 10 powi u \<and>
     (2 * \<bar>x - y\<bar> = 10 powi u \<longrightarrow> even q))"

lemma twice_abs_le: "2 * \<bar>x - y\<bar> \<le> (p :: rat) \<longleftrightarrow> 2 * (x - y) \<le> p \<and> 2 * (y - x) \<le> p"
  by (auto simp: abs_if)

lemma rounds_posE:
  assumes "rounds_pos x y"
  obtains u q :: int where "10 ^ 27 * 10 powi u \<le> x" "x < 10 ^ 28 * 10 powi u"
    "y = of_int q * 10 powi u" "2 * \<bar>x - y\<bar> \<le> 10 powi u"
    "2 * \<bar>x - y\<bar> = 10 powi u \<longrightarrow> even q" "10 ^ 27 \<le> q" "q \<le> 10 ^ 28"
proof -
  from assms obtain u q :: int where r: "10 ^ 27 * 10 powi u \<le> x" "x < 10 ^ 28 * 10 powi u"
    "y = of_int q * 10 powi u" "2 * \<bar>x - y\<bar> \<le> 10 powi u"
    "2 * \<bar>x - y\<bar> = 10 powi u \<longrightarrow> even q"
    unfolding rounds_pos_def by blast
  define p :: rat where "p = 10 powi u"
  have p: "0 < p" by (simp add: p_def)
  have near: "2 * (x - y) \<le> p" "2 * (y - x) \<le> p"
    using r(4) by (simp_all add: twice_abs_le p_def)
  have bounds: "A - p < y" "y < B + p" if "A \<le> x" "x < B" for A B
    using that near p by simp_all
  have "10 ^ 27 * p - p < y" "y < 10 ^ 28 * p + p"
    using bounds [OF r(1,2)] by (simp_all only: p_def)
  then have "(10 ^ 27 - 1) * p < of_int q * p" "of_int q * p < (10 ^ 28 + 1) * p"
    using r(3) unfolding p_def [symmetric] by (simp_all only: left_diff_distrib distrib_right mult_1)
  then have "(10 ^ 27 - 1 :: rat) < of_int q" "of_int q < (10 ^ 28 + 1 :: rat)"
    using p by (simp_all only: mult_less_cancel_right_pos)
  then have "10 ^ 27 \<le> q" "q \<le> 10 ^ 28"
    using of_int_less_iff [of "10 ^ 27 - 1" q, where ?'a = rat]
      of_int_less_iff [of q "10 ^ 28 + 1", where ?'a = rat] by simp_all
  with r show thesis by (rule that)
qed

lemma rounds_pos_mono:
  assumes "rounds_pos x x'" and "rounds_pos y y'" and "x \<le> y"
  shows "x' \<le> y'"
proof -
  from assms(1) obtain u q :: int where x: "10 ^ 27 * 10 powi u \<le> x" "x < 10 ^ 28 * 10 powi u"
    "x' = of_int q * 10 powi u" "2 * \<bar>x - x'\<bar> \<le> 10 powi u"
    "2 * \<bar>x - x'\<bar> = 10 powi u \<longrightarrow> even q" "10 ^ 27 \<le> q" "q \<le> 10 ^ 28"
    by (rule rounds_posE)
  from assms(2) obtain v r :: int where y: "10 ^ 27 * 10 powi v \<le> y" "y < 10 ^ 28 * 10 powi v"
    "y' = of_int r * 10 powi v" "2 * \<bar>y - y'\<bar> \<le> 10 powi v"
    "2 * \<bar>y - y'\<bar> = 10 powi v \<longrightarrow> even r" "10 ^ 27 \<le> r" "r \<le> 10 ^ 28"
    by (rule rounds_posE)
  consider "v < u" | "u < v" | "u = v" by linarith
  then show ?thesis
  proof cases
    case 1
    then have "10 * (10::rat) powi v \<le> 10 powi u" by (rule ten_powi_less)
    then have "10 ^ 28 * (10::rat) powi v \<le> 10 ^ 27 * 10 powi u" by simp
    with x(1) y(2) assms(3) show ?thesis by linarith
  next
    case 2
    then have "10 * (10::rat) powi u \<le> 10 powi v" by (rule ten_powi_less)
    then have le: "10 ^ 28 * (10::rat) powi u \<le> 10 ^ 27 * 10 powi v" by simp
    have "of_int q \<le> (10 ^ 28 :: rat)" using x(7) of_int_le_iff [of q "10 ^ 28", where ?'a = rat] by simp
    then have "x' \<le> 10 ^ 28 * 10 powi u" unfolding x(3) by (intro mult_right_mono) simp_all
    moreover have "(10 ^ 27 :: rat) \<le> of_int r"
      using y(6) of_int_le_iff [of "10 ^ 27" r, where ?'a = rat] by simp
    then have "10 ^ 27 * 10 powi v \<le> y'" unfolding y(3) by (intro mult_right_mono) simp_all
    ultimately show ?thesis using le by linarith
  next
    case 3
    define p :: rat where "p = 10 powi u"
    have p: "0 < p" by (simp add: p_def)
    show ?thesis
    proof (rule ccontr)
      assume "\<not> x' \<le> y'"
      then have "of_int r * p < of_int q * p" using x(3) y(3) 3 by (simp add: p_def)
      then have "r + 1 \<le> q" using p by simp
      then have "of_int (r + 1) \<le> (of_int q :: rat)" by (simp only: of_int_le_iff)
      then have "of_int (r + 1) * p \<le> of_int q * p" using p by (intro mult_right_mono) auto
      then have step: "y' + p \<le> x'" using x(3) y(3) 3 by (simp add: p_def algebra_simps)
      have "2 * (x' - x) \<le> p" "2 * (y - y') \<le> p"
        using x(4) y(4) 3 by (simp_all add: twice_abs_le p_def)
      with step assms(3) have "2 * (x' - x) = p" "2 * (y - y') = p" "x' = y' + p" by simp_all
      with p have tie: "2 * \<bar>x - x'\<bar> = p" "2 * \<bar>y - y'\<bar> = p" "x' = y' + p"
        by (simp_all add: abs_if)
      then have "even q" "even r" using x(5) y(5) 3 by (auto simp: p_def)
      moreover have "of_int q * p = of_int (r + 1) * p"
        using tie(3) x(3) y(3) 3 by (simp add: p_def algebra_simps)
      then have "q = r + 1" using p by simp
      ultimately show False by simp
    qed
  qed
qed

lemma rounds_pos_unique: "rounds_pos x y \<Longrightarrow> rounds_pos x z \<Longrightarrow> y = z"
  by (rule antisym) (auto intro: rounds_pos_mono)

lemma rounds_pos_pos: "rounds_pos x y \<Longrightarrow> 0 < y \<and> 0 < x"
proof -
  assume "rounds_pos x y"
  then obtain u q :: int where "10 ^ 27 * 10 powi u \<le> x" "y = of_int q * 10 powi u" "10 ^ 27 \<le> q"
    by (rule rounds_posE)
  moreover have "(0::rat) < 10 ^ 27 * 10 powi u" by simp
  ultimately have "0 < x" by linarith
  moreover have "0 < q" using \<open>10 ^ 27 \<le> q\<close> by simp
  ultimately show ?thesis using \<open>y = of_int q * 10 powi u\<close> by simp
qed

lemma decade_ex:
  fixes x :: rat
  assumes "0 < x"
  shows "\<exists>u :: int. 10 ^ 27 * 10 powi u \<le> x \<and> x < 10 ^ 28 * 10 powi u"
proof -
  define X :: real where "X = of_rat x"
  define k where "k = \<lfloor>log 10 X\<rfloor>"
  have X: "0 < X" using assms by (simp add: X_def)
  have real_powi: "of_rat (10 powi e) = (10 :: real) powi e" for e :: int
    by (cases e rule: int_cases4)
      (simp_all add: power_int_minus of_rat_power of_rat_inverse)
  have "of_int k \<le> log 10 X" "log 10 X < of_int (k + 1)" by (simp_all add: k_def)
  then have "10 powr of_int k \<le> X" "X < 10 powr of_int (k + 1)"
    using X by (simp_all only: le_log_iff log_less_iff one_less_numeral_iff semiring_norm)
  then have "of_rat (10 powi k) \<le> X" "X < of_rat (10 powi (k + 1))"
    by (simp_all add: real_powi powr_real_of_int' del: of_int_add)
  then have x: "10 powi k \<le> x" "x < 10 powi (k + 1)"
    by (simp_all add: X_def of_rat_less_eq of_rat_less)
  define u where "u = k - 27"
  have k: "k = u + int 27" "k + 1 = u + int 28" by (simp_all add: u_def)
  have "10 powi k = (10 ^ 27 :: rat) * 10 powi u" "10 powi (k + 1) = (10 ^ 28 :: rat) * 10 powi u"
    unfolding k(1) unfolding k(1) [symmetric] k(2) by (simp_all only: ten_powi_add mult.commute k(1))
  with x show ?thesis by (intro exI [of _ u]) simp
qed

text \<open>The integer rounding of the code is the nearest integer, to even on a tie.\<close>

lemma round_half_even_near:
  assumes "0 < m"
  shows "\<bar>2 * n - 2 * (round_half_even n m * m)\<bar> \<le> m"
    and "\<bar>2 * n - 2 * (round_half_even n m * m)\<bar> = m \<Longrightarrow> even (round_half_even n m)"
proof -
  define q r where "q = n div m" and "r = n mod m"
  have n: "n = q * m + r" and r: "0 \<le> r" "r < m"
    using assms by (simp_all add: q_def r_def)
  have rhe: "round_half_even n m = (if m < 2 * r \<or> 2 * r = m \<and> odd q then q + 1 else q)"
    by (simp add: round_half_even_def Let_def q_def r_def)
  have diff: "2 * n - 2 * (round_half_even n m * m) =
    (if m < 2 * r \<or> 2 * r = m \<and> odd q then 2 * r - 2 * m else 2 * r)"
    by (subst n) (simp add: rhe algebra_simps)
  show "\<bar>2 * n - 2 * (round_half_even n m * m)\<bar> \<le> m"
    unfolding diff using r by auto
  show "even (round_half_even n m)" if "\<bar>2 * n - 2 * (round_half_even n m * m)\<bar> = m"
    using that [unfolded diff] r unfolding rhe by (auto split: if_splits)
qed

text \<open>
  Rounding the integer \<open>n\<close> by \<open>10 ^ k\<close> rounds every rational \<open>x\<close> that lies on the same side of
  each multiple of \<open>10 ^ k / 2\<close> as \<open>n\<close> does. With \<open>x = n\<close> this is plain rounding; the division
  uses it with its sticky digit.
\<close>

lemma rounds_pos_int:
  assumes k: "1 \<le> k"
    and side: "\<And>j :: int. 2 * x < of_int (j * 10 ^ k) * 10 powi e \<longleftrightarrow> 2 * n < j * 10 ^ k"
      "\<And>j :: int. of_int (j * 10 ^ k) * 10 powi e < 2 * x \<longleftrightarrow> j * 10 ^ k < 2 * n"
    and range: "10 ^ 27 * 10 ^ k \<le> n" "n < 10 ^ 28 * 10 ^ k"
  shows "rounds_pos x (of_int (round_half_even n (10 ^ k)) * 10 powi (e + int k))"
proof -
  define q where "q = round_half_even n (10 ^ k)"
  define p :: rat where "p = 10 powi e"
  have pow: "(10 :: rat) powi (e + int k) = p * 10 ^ k" by (simp add: ten_powi_add p_def)
  have le: "of_int (j * 10 ^ k) * p \<le> 2 * x \<longleftrightarrow> j * 10 ^ k \<le> 2 * n"
    "2 * x \<le> of_int (j * 10 ^ k) * p \<longleftrightarrow> 2 * n \<le> j * 10 ^ k" for j
    using side [of j] by (auto simp: p_def simp flip: not_less)
  have m: "(0::int) < 10 ^ k" by simp
  note near = round_half_even_near [OF m, of n, folded q_def]
  have "(2 * q - 1) * 10 ^ k \<le> 2 * n" "2 * n \<le> (2 * q + 1) * 10 ^ k"
    using near(1) by (auto simp: algebra_simps abs_le_iff)
  then have x: "of_int ((2 * q - 1) * 10 ^ k) * p \<le> 2 * x" "2 * x \<le> of_int ((2 * q + 1) * 10 ^ k) * p"
    by (simp_all only: le)
  have tie: "even q" if "2 * x = of_int ((2 * q - 1) * 10 ^ k) * p \<or> 2 * x = of_int ((2 * q + 1) * 10 ^ k) * p"
  proof -
    from that have "2 * n = (2 * q - 1) * 10 ^ k \<or> 2 * n = (2 * q + 1) * 10 ^ k"
      using le [of "2 * q - 1"] le [of "2 * q + 1"] by auto
    then have "2 * n - 2 * (q * 10 ^ k) = - (10 ^ k) \<or> 2 * n - 2 * (q * 10 ^ k) = 10 ^ k"
      by (auto simp: algebra_simps)
    then have "\<bar>2 * n - 2 * (q * 10 ^ k)\<bar> = 10 ^ k" by auto
    then show ?thesis by (rule near(2))
  qed
  have "2 * (10 ^ 27 * (10 powi (e + int k))) \<le> 2 * x"
    using range(1) le(1) [of "2 * 10 ^ 27"] by (simp add: pow mult_ac)
  moreover have "2 * x < 2 * (10 ^ 28 * (10 powi (e + int k)))"
    using range(2) side(1) [of "2 * 10 ^ 28"] by (simp add: pow mult_ac p_def)
  moreover have "2 * \<bar>x - of_int q * (p * 10 ^ k)\<bar> \<le> p * 10 ^ k"
    unfolding twice_abs_le using x by (simp add: algebra_simps)
  moreover have "even q" if "2 * \<bar>x - of_int q * (p * 10 ^ k)\<bar> = p * 10 ^ k"
  proof (rule tie)
    from that have "2 * (x - of_int q * (p * 10 ^ k)) = p * 10 ^ k \<or>
      2 * (of_int q * (p * 10 ^ k) - x) = p * 10 ^ k" by (auto simp: abs_if split: if_splits)
    then show "2 * x = of_int ((2 * q - 1) * 10 ^ k) * p \<or> 2 * x = of_int ((2 * q + 1) * 10 ^ k) * p"
      by (auto simp: algebra_simps)
  qed
  ultimately show ?thesis
    unfolding rounds_pos_def q_def [symmetric] pow by (intro exI [of _ "e + int k"] exI [of _ q]) (simp add: pow)
qed

lemma rounds_pos_ex:
  assumes "0 < x"
  shows "\<exists>y. rounds_pos x y"
proof -
  from decade_ex [OF assms] obtain u :: int
    where u: "10 ^ 27 * 10 powi u \<le> x" "x < 10 ^ 28 * 10 powi u" by blast
  define p :: rat where "p = 10 powi u"
  define z where "z = x / p"
  define F where "F = \<lfloor>z\<rfloor>"
  define q where "q = (if 1 < 2 * (z - of_int F) \<or> 2 * (z - of_int F) = 1 \<and> odd F then F + 1 else F)"
  have p: "0 < p" by (simp add: p_def)
  have f: "of_int F \<le> z" "z < of_int F + 1" unfolding F_def by linarith+
  have "2 * \<bar>z - of_int q\<bar> \<le> 1" using f by (auto simp: q_def abs_if)
  moreover have "even q" if "2 * \<bar>z - of_int q\<bar> = 1"
    using f that by (auto simp: q_def abs_if split: if_splits)
  moreover have "\<bar>x - of_int q * p\<bar> = \<bar>z - of_int q\<bar> * p"
  proof -
    have "x = z * p" using p by (simp add: z_def)
    then have "x - of_int q * p = (z - of_int q) * p" by (simp add: left_diff_distrib)
    with p show ?thesis by (simp add: abs_mult)
  qed
  ultimately have "2 * \<bar>x - of_int q * p\<bar> \<le> p" "2 * \<bar>x - of_int q * p\<bar> = p \<longrightarrow> even q"
    using p by simp_all
  then have "rounds_pos x (of_int q * p)"
    using u unfolding rounds_pos_def p_def by blast
  then show ?thesis by blast
qed

section \<open>Rounding to the context\<close>

definition rnd :: "rat \<Rightarrow> rat" where
  "rnd x = (if x = 0 then 0 else sgn x * (THE y. rounds_pos \<bar>x\<bar> y))"

lemma rnd_pos_eqI: "rounds_pos x y \<Longrightarrow> rnd x = y"
  using rounds_pos_pos [of x y] by (auto simp: rnd_def intro: the_equality rounds_pos_unique)

lemma rnd_0 [simp]: "rnd 0 = 0"
  by (simp add: rnd_def)

lemma rnd_minus [simp]: "rnd (- x) = - rnd x"
  by (simp add: rnd_def)

lemma rnd_rounds: "0 < x \<Longrightarrow> rounds_pos x (rnd x)"
  using rounds_pos_ex [of x] rnd_pos_eqI by auto

lemma rnd_pos: "0 < x \<Longrightarrow> 0 < rnd x"
  using rnd_rounds rounds_pos_pos by blast

lemma rnd_sign [simp]:
  "0 < rnd x \<longleftrightarrow> 0 < x" "rnd x < 0 \<longleftrightarrow> x < 0" "rnd x = 0 \<longleftrightarrow> x = 0"
  "0 \<le> rnd x \<longleftrightarrow> 0 \<le> x" "rnd x \<le> 0 \<longleftrightarrow> x \<le> 0"
proof -
  have neg: "rnd x < 0" if "x < 0" using rnd_pos [of "- x"] that by simp
  show "0 < rnd x \<longleftrightarrow> 0 < x" "rnd x < 0 \<longleftrightarrow> x < 0" "rnd x = 0 \<longleftrightarrow> x = 0"
    "0 \<le> rnd x \<longleftrightarrow> 0 \<le> x" "rnd x \<le> 0 \<longleftrightarrow> x \<le> 0"
    using neg rnd_pos [of x] by (cases x "0 :: rat" rule: linorder_cases; auto)+
qed

lemma rnd_mono: "x \<le> y \<Longrightarrow> rnd x \<le> rnd y"
proof -
  assume xy: "x \<le> y"
  consider "0 < x" | "y < 0" | "x \<le> 0" "0 \<le> y" by linarith
  then show ?thesis
  proof cases
    case 1
    with xy show ?thesis by (intro rounds_pos_mono [OF rnd_rounds rnd_rounds]) auto
  next
    case 2
    with xy have "rnd (- y) \<le> rnd (- x)" by (intro rounds_pos_mono [OF rnd_rounds rnd_rounds]) auto
    then show ?thesis by simp
  next
    case 3
    then have "rnd x \<le> 0" "0 \<le> rnd y" by simp_all
    then show ?thesis by linarith
  qed
qed

text \<open>Values of at most 28 digits are not changed.\<close>

definition representable :: "rat \<Rightarrow> bool" where
  "representable r \<longleftrightarrow> (\<exists>c e :: int. \<bar>c\<bar> < 10 ^ 28 \<and> r = of_int c * 10 powi e)"

lemma representable_minus [simp]: "representable (- r) \<longleftrightarrow> representable r"
proof -
  have "representable (- x)" if "representable x" for x
  proof -
    from that obtain c e :: int where "\<bar>c\<bar> < 10 ^ 28" "x = of_int c * 10 powi e"
      by (auto simp: representable_def)
    then have "\<bar>- c\<bar> < 10 ^ 28 \<and> - x = of_int (- c) * 10 powi e" by simp
    then show ?thesis unfolding representable_def by blast
  qed
  from this [of r] this [of "- r"] show ?thesis by auto
qed

lemma rounds_pos_self:
  assumes "0 < c" "c < 10 ^ 28"
  shows "rounds_pos (of_int c * 10 powi e) (of_int c * 10 powi e)"
proof -
  define n where "n = ndigits c"
  have n: "1 \<le> n" "n \<le> 28" using assms(2) ndigits_pos [of c] by (simp_all add: n_def ndigits_le_iff)
  have c: "10 ^ (n - 1) \<le> c" "c < 10 ^ n"
  proof -
    show "c < 10 ^ n" using ndigits_le_iff [of n c] n by (simp add: n_def)
    show "10 ^ (n - 1) \<le> c"
    proof (cases "n = 1")
      case True
      with assms show ?thesis by simp
    next
      case False
      with n have "\<not> ndigits c \<le> n - 1" by (simp add: n_def)
      then show ?thesis using False n by (simp add: ndigits_le_iff)
    qed
  qed
  define u where "u = e - int (28 - n)"
  have e: "e = u + int (28 - n)" by (simp add: u_def)
  define q where "q = c * 10 ^ (28 - n)"
  have x: "of_int c * 10 powi e = of_int q * (10 :: rat) powi u"
    unfolding e ten_powi_add by (simp add: q_def)
  have "10 ^ (n - 1) * 10 ^ (28 - n) \<le> q" "q < 10 ^ n * 10 ^ (28 - n)"
    using c by (simp_all add: q_def)
  then have q: "10 ^ 27 \<le> q" "q < 10 ^ 28"
    using n by (simp_all flip: power_add)
  then have "(10 ^ 27 :: rat) \<le> of_int q" "(of_int q :: rat) < 10 ^ 28"
    using of_int_le_iff [of "10 ^ 27" q, where ?'a = rat] of_int_less_iff [of q "10 ^ 28", where ?'a = rat]
    by simp_all
  then have "10 ^ 27 * 10 powi u \<le> of_int q * (10 :: rat) powi u"
    "of_int q * (10 :: rat) powi u < 10 ^ 28 * 10 powi u"
    by (simp_all only: mult_le_cancel_right_pos mult_less_cancel_right_pos ten_powi_pos)
  then show ?thesis
    unfolding rounds_pos_def x by (intro exI [of _ u] exI [of _ q]) simp
qed

lemma rnd_representable: "representable r \<Longrightarrow> rnd r = r"
proof -
  assume "representable r"
  then obtain c e :: int where r: "\<bar>c\<bar> < 10 ^ 28" "r = of_int c * 10 powi e"
    by (auto simp: representable_def)
  consider "c = 0" | "0 < c" | "c < 0" by linarith
  then show ?thesis
  proof cases
    case 2
    with r show ?thesis using rnd_pos_eqI [OF rounds_pos_self [of c e]] by simp
  next
    case 3
    with r show ?thesis using rnd_pos_eqI [OF rounds_pos_self [of "- c" e]] by simp
  qed (use r in simp)
qed

section \<open>The operations round correctly\<close>

lemma ndigits_range:
  assumes "0 < n"
  shows "10 ^ (ndigits n - 1) \<le> n" and "n < 10 ^ ndigits n"
proof -
  show "n < 10 ^ ndigits n" using ndigits_le_iff [of "ndigits n" n] ndigits_pos [of n] by simp
  show "10 ^ (ndigits n - 1) \<le> n"
  proof (cases "ndigits n = 1")
    case False
    with ndigits_pos [of n] have "\<not> ndigits n \<le> ndigits n - 1" "1 \<le> ndigits n - 1" by simp_all
    then show ?thesis using ndigits_le_iff [of "ndigits n - 1" n] by simp
  qed (use assms in simp)
qed

text \<open>
  Rounding an integer of more than 28 digits gives the rounded value of every rational on the same
  side of the rounding boundaries.
\<close>

lemma rnd_dfix_near:
  fixes x :: rat
  assumes n: "0 < n" "28 < ndigits n"
    and side: "\<And>i :: int. x < of_int (5 * i) * 10 powi e \<longleftrightarrow> n < 5 * i"
      "\<And>i :: int. of_int (5 * i) * 10 powi e < x \<longleftrightarrow> 5 * i < n"
  shows "dval (dfix (Dec n e)) = rnd x"
proof -
  define k where "k = ndigits n - 28"
  define q where "q = round_half_even n (10 ^ k)"
  have k: "1 \<le> k" "ndigits n = 28 + k" "ndigits n - 1 = 27 + k" using n by (simp_all add: k_def)
  have rng: "10 ^ 27 * 10 ^ k \<le> n" "n < 10 ^ 28 * 10 ^ k"
    using ndigits_range [OF n(1)] by (simp_all only: k(3) power_add) (simp only: k(2) power_add)
  have ten: "(10 :: int) ^ k = 10 * 10 ^ (k - 1)" using k(1) by (simp flip: power_Suc)
  have five: "j * 10 ^ k = 2 * (5 * (j * 10 ^ (k - 1)))" for j :: int by (simp add: ten)
  have "rounds_pos x (of_int q * 10 powi (e + int k))"
    unfolding q_def
  proof (rule rounds_pos_int [OF k(1) _ _ rng(1) rng(2)])
    show "2 * x < of_int (j * 10 ^ k) * 10 powi e \<longleftrightarrow> 2 * n < j * 10 ^ k" for j :: int
      using side(1) [of "j * 10 ^ (k - 1)"] unfolding five by (simp add: mult_ac)
    show "of_int (j * 10 ^ k) * 10 powi e < 2 * x \<longleftrightarrow> j * 10 ^ k < 2 * n" for j :: int
      using side(2) [of "j * 10 ^ (k - 1)"] unfolding five by (simp add: mult_ac)
  qed
  then have r: "rnd x = of_int q * 10 powi (e + int k)" by (rule rnd_pos_eqI)
  have m: "(0::int) < 10 ^ k" by simp
  have near: "2 * (q * 10 ^ k) \<le> 2 * n + 10 ^ k"
    using round_half_even_near(1) [OF m, of n, folded q_def] by (simp add: abs_le_iff)
  moreover have "2 * n < 2 * 10 ^ 28 * 10 ^ k" using rng(2) by simp
  ultimately have "(2 * q) * 10 ^ k < (2 * 10 ^ 28 + 1) * 10 ^ k"
    unfolding distrib_right mult.assoc mult_1 by linarith
  then have "2 * q < 2 * 10 ^ 28 + 1" using m by (simp only: mult_less_cancel_right_pos)
  then have q: "q \<le> 10 ^ 28" by simp
  have fix_eq: "dfix (Dec n e) =
    (if 28 < ndigits q then Dec (q div 10) (e + int k + 1) else Dec q (e + int k))"
    using n by (simp add: dfix_def prec_def Let_def k_def [symmetric] q_def [symmetric])
  show ?thesis
  proof (cases "28 < ndigits q")
    case True
    then have "q = 10 ^ 28" using q ndigits_le_iff [of 28 q] by simp
    then show ?thesis using ten_powi_add [of "e + int k" 1] by (simp add: fix_eq r dval_def)
  next
    case False
    then show ?thesis by (simp add: fix_eq r dval_def)
  qed
qed

lemma dfix_neg: "dfix (Dec (- c) e) = (case dfix (Dec c e) of Dec c' e' \<Rightarrow> Dec (- c') e')"
  by (simp add: dfix_def Let_def)

lemma dval_dfix: "dval (dfix d) = rnd (dval d)"
proof -
  have pos: "dval (dfix (Dec c e)) = rnd (dval (Dec c e))" if "0 < c" for c e
  proof (cases "28 < ndigits c")
    case True
    with that show ?thesis by (intro rnd_dfix_near) (simp_all add: dval_def flip: of_int_mult)
  next
    case False
    with that have "c < 10 ^ 28" using ndigits_le_iff [of 28 c] by simp
    with that have "representable (dval (Dec c e))"
      unfolding representable_def dval_def by (intro exI [of _ c] exI [of _ e]) simp
    with False that show ?thesis by (simp add: rnd_representable dfix_def prec_def Let_def)
  qed
  obtain c e where d: "d = Dec c e" by (cases d)
  consider "0 < c" | "c = 0" | "c < 0" by linarith
  then show ?thesis
  proof cases
    case 1
    with d pos show ?thesis by simp
  next
    case 2
    with d show ?thesis by (simp add: dfix_def Let_def prec_def)
  next
    case 3
    have "dfix d = (case dfix (Dec (- c) e) of Dec c' e' \<Rightarrow> Dec (- c') e')"
      using dfix_neg [of "- c" e] d by simp
    moreover have "dval (Dec c e) = - dval (Dec (- c) e)" by (simp add: dval_def)
    ultimately show ?thesis using pos [of "- c" e] 3 d
      by (cases "dfix (Dec (- c) e)") (simp add: dval_def)
  qed
qed

lemma dval_dadd [dec_simps]: "dval (dadd a b) = rnd (dval a + dval b)"
proof -
  define e where "e = min (dexp a) (dexp b)"
  have "e \<le> dexp a" "e \<le> dexp b" by (simp_all add: e_def)
  then have "dval a + dval b = of_int (scaled a e) * 10 powi e + of_int (scaled b e) * 10 powi e"
    by (simp only: dval_scaled)
  then have "dval (Dec (scaled a e + scaled b e) e) = dval a + dval b"
    by (simp add: dval_def [of "Dec _ _"] distrib_right)
  then show ?thesis by (simp add: dadd_def Let_def dval_dfix flip: e_def)
qed

lemma dval_neg_copy: "dval (Dec (- coeff b) (dexp b)) = - dval b"
  by (simp add: dval_def)

lemma dval_dsub [dec_simps]: "dval (dsub a b) = rnd (dval a - dval b)"
  by (simp add: dsub_def dval_dadd dval_neg_copy)

lemma dval_dneg [dec_simps]: "dval (dneg a) = - rnd (dval a)"
  by (simp add: dneg_def dval_dfix dval_neg_copy)

lemma dval_dabs [dec_simps]: "dval (dabs a) = rnd \<bar>dval a\<bar>"
  by (simp add: dabs_def dval_dfix) (simp add: dval_def abs_mult)

lemma dval_dmul [dec_simps]: "dval (dmul a b) = rnd (dval a * dval b)"
  by (simp add: dmul_def dval_dfix) (simp add: dval_def power_int_add mult_ac)

lemma dval_dmax [dec_simps]: "dval (dmax a b) = max (dval a) (dval b)"
  by (simp add: dmax_def dlt_iff max_def)

section \<open>Division\<close>

lemma dval_strip_zeros: "dval (strip_zeros n c e) = of_int c * 10 powi e"
proof (induction n c e rule: strip_zeros.induct)
  case (2 n c e)
  show ?case
  proof (cases "c mod 10 = 0")
    case True
    then have "c = c div 10 * 10" by presburger
    then have "of_int c = (of_int (c div 10) * 10 :: rat)" by (metis of_int_mult of_int_numeral)
    with 2 True show ?thesis using ten_powi_add [of e 1] by simp
  qed (simp add: dval_def)
qed (simp add: dval_def)

text \<open>
  The sticky digit: a quotient with a remainder is moved off the multiples of five, which keeps it
  on the right side of every rounding boundary.
\<close>

lemma le_div_iff: "0 < m \<Longrightarrow> c \<le> n div m \<longleftrightarrow> c * m \<le> n" for m n c :: int
proof
  assume m: "0 < m"
  show "c * m \<le> n" if "c \<le> n div m"
  proof -
    have "c * m \<le> n div m * m" using that m by (intro mult_right_mono) auto
    also have "\<dots> \<le> n" using m pos_mod_sign [OF m, of n] by (simp flip: minus_mod_eq_div_mult)
    finally show ?thesis .
  qed
  show "c \<le> n div m" if "c * m \<le> n" using zdiv_mono1 [OF that m] m by simp
qed

lemma sticky_side:
  fixes n m q :: int
  assumes m: "0 < m" and r: "n mod m \<noteq> 0"
  defines "q \<equiv> (if n div m mod 5 = 0 then n div m + 1 else n div m)"
  shows "n < 5 * i * m \<longleftrightarrow> q < 5 * i" and "5 * i * m < n \<longleftrightarrow> 5 * i < q"
proof -
  have move: "c < 5 * i \<longleftrightarrow> (if c mod 5 = 0 then c + 1 else c) < 5 * i"
    "5 * i \<le> c \<longleftrightarrow> 5 * i < (if c mod 5 = 0 then c + 1 else c)" for c :: int
    by (cases "c mod 5 = 0"; simp; presburger)+
  have "n < 5 * i * m \<longleftrightarrow> n div m < 5 * i" using le_div_iff [OF m, of "5 * i" n] by linarith
  also have "\<dots> \<longleftrightarrow> q < 5 * i" unfolding q_def by (rule move)
  finally show "n < 5 * i * m \<longleftrightarrow> q < 5 * i" .
  have "n \<noteq> 5 * i * m" using r by auto
  then have "5 * i * m < n \<longleftrightarrow> 5 * i * m \<le> n" by auto
  also have "\<dots> \<longleftrightarrow> 5 * i \<le> n div m" using m by (simp only: le_div_iff)
  also have "\<dots> \<longleftrightarrow> 5 * i < q" unfolding q_def by (rule move)
  finally show "5 * i * m < n \<longleftrightarrow> 5 * i < q" .
qed

lemma rnd_sticky:
  assumes m: "0 < m" and r: "n mod m \<noteq> 0" and big: "10 ^ 28 * m \<le> n"
  shows "dval (dfix (Dec (if n div m mod 5 = 0 then n div m + 1 else n div m) e)) =
    rnd (of_int n / of_int m * 10 powi e)"
proof -
  define q where "q = (if n div m mod 5 = 0 then n div m + 1 else n div m)"
  have "10 ^ 28 \<le> n div m" using big m by (simp only: le_div_iff)
  then have q: "10 ^ 28 \<le> q" by (simp add: q_def)
  then have "28 < ndigits q" using ndigits_le_iff [of 28 q] by (simp add: not_le flip: not_less)
  moreover have "0 < q" using q by simp
  moreover have frac: "of_int n / of_int m < (of_int (5 * i) :: rat) \<longleftrightarrow> q < 5 * i"
    "(of_int (5 * i) :: rat) < of_int n / of_int m \<longleftrightarrow> 5 * i < q" for i
    using sticky_side [OF m r, of i, folded q_def] m
    by (simp_all add: pos_divide_less_eq pos_less_divide_eq flip: of_int_mult)
  ultimately have "dval (dfix (Dec q e)) = rnd (of_int n / of_int m * 10 powi e)"
    by (intro rnd_dfix_near) (simp_all only: mult_less_cancel_right_pos ten_powi_pos)
  then show ?thesis by (simp only: q_def)
qed

text \<open>The scaled division has a quotient of at least 29 digits.\<close>

lemma shifted_quotient:
  fixes x y :: int
  assumes "0 < x" and "0 < y"
  defines "s \<equiv> int (ndigits y) - int (ndigits x) + int prec + 1"
  shows "10 ^ 28 * (y * 10 ^ nat (- s)) \<le> x * 10 ^ nat s"
proof -
  note X = ndigits_range [OF assms(1)] and Y = ndigits_range [OF assms(2)]
  have nx: "1 \<le> ndigits x" by (rule ndigits_pos)
  have exps: "28 + (ndigits y + nat (- s)) = ndigits x - 1 + nat s" using nx by (simp add: s_def prec_def)
  have "10 ^ 28 * (y * 10 ^ nat (- s)) \<le> 10 ^ 28 * (10 ^ ndigits y * 10 ^ nat (- s))"
    using Y(2) by (intro mult_left_mono mult_right_mono) auto
  also have "\<dots> = 10 ^ (ndigits x - 1) * 10 ^ nat s" by (simp only: power_add [symmetric] exps)
  also have "\<dots> \<le> x * 10 ^ nat s" using X(1) by (intro mult_right_mono) auto
  finally show ?thesis .
qed

lemma ten_powi_diff: "(10::rat) powi e * 10 ^ nat s / 10 ^ nat (- s) = 10 powi (e + s)"
proof (cases "0 \<le> s")
  case True
  then show ?thesis using ten_powi_add [of e "nat s"] by simp
next
  case False
  then show ?thesis using ten_powi_add [of "e + s" "nat (- s)"] by simp
qed

lemma rnd_of_int_sgn: "rnd (of_int (sgn c) * x) = of_int (sgn c) * rnd x"
  by (cases c "0 :: int" rule: linorder_cases) simp_all

lemma dval_ddiv [dec_simps]:
  assumes "dval b \<noteq> 0"
  shows "dval (ddiv a b) = rnd (dval a / dval b)"
proof (cases "coeff a = 0")
  case True
  then show ?thesis by (simp add: ddiv_def dval_def)
next
  case False
  define x y s where "x = \<bar>coeff a\<bar>" and "y = \<bar>coeff b\<bar>" and "s = sgn (coeff a) * sgn (coeff b)"
  define shift where "shift = int (ndigits y) - int (ndigits x) + int prec + 1"
  define e where "e = dexp a - dexp b - shift"
  define n m where "n = x * 10 ^ nat shift" and "m = y * 10 ^ nat (- shift)"
  have pos: "0 < x" "0 < y" "0 < m" "0 < n"
    using False assms by (auto simp: x_def y_def m_def n_def dval_def)
  have big: "10 ^ 28 * m \<le> n"
    using shifted_quotient [OF pos(1,2), folded shift_def] by (simp only: n_def m_def)
  have sgn_ab: "coeff a = sgn (coeff a) * x" "coeff b = sgn (coeff b) * y" "sgn (coeff b) \<noteq> 0"
    using assms by (auto simp: x_def y_def dval_def sgn_mult_abs sgn_0_0)
  have "dval a / dval b = of_int s * (of_int x / of_int y * (10 powi dexp a / 10 powi dexp b))"
    unfolding dval_def by (subst sgn_ab(1), subst sgn_ab(2)) (use sgn_ab(3) in \<open>auto simp: s_def sgn_if\<close>)
  also have "(10::rat) powi dexp a / 10 powi dexp b = 10 powi e * 10 ^ nat shift / 10 ^ nat (- shift)"
    unfolding ten_powi_diff by (simp add: e_def power_int_diff)
  also have "of_int x / of_int y * \<dots> = of_int n / of_int m * 10 powi e"
    using pos by (simp add: n_def m_def field_simps)
  finally have quot: "dval a / dval b = of_int s * (of_int n / of_int m * 10 powi e)" .
  have sgn_s: "s = sgn (coeff a * coeff b)" by (simp add: s_def sgn_mult)
  have div: "ddiv a b = (if n mod m \<noteq> 0
      then dfix (Dec (s * (if n div m mod 5 = 0 then n div m + 1 else n div m)) e)
      else (case strip_zeros (nat shift) (n div m) e of Dec c e' \<Rightarrow> dfix (Dec (s * c) e')))"
    using False unfolding ddiv_def Let_def x_def y_def s_def shift_def e_def n_def m_def
    by (simp only: if_False)
  have sign: "dval (dfix (Dec (s * c) e')) = of_int s * rnd (dval (Dec c e'))" for c e'
    unfolding dval_dfix by (simp add: dval_def sgn_s mult.assoc rnd_of_int_sgn)
  have rnd_s: "rnd (of_int s * z) = of_int s * rnd z" for z
    by (simp only: sgn_s rnd_of_int_sgn)
  show ?thesis
  proof (cases "n mod m = 0")
    case False
    from rnd_sticky [OF pos(3) False big, of e] have "rnd (dval (Dec (if n div m mod 5 = 0 then n div m + 1
      else n div m) e)) = rnd (of_int n / of_int m * 10 powi e)" by (simp only: dval_dfix)
    with False show ?thesis by (simp only: div quot sign rnd_s if_True not_False_eq_True)
  next
    case True
    then have "n div m * m = n" using div_mult_mod_eq [of n m] by simp
    then have "(of_int (n div m) * of_int m :: rat) = of_int n" by (simp only: flip: of_int_mult)
    then have "dval (strip_zeros (nat shift) (n div m) e) = of_int n / of_int m * 10 powi e"
      using pos by (simp add: dval_strip_zeros field_simps)
    with True show ?thesis unfolding quot rnd_s
      by (cases "strip_zeros (nat shift) (n div m) e") (simp add: div sign)
  qed
qed

section \<open>Results stay within the context\<close>

lemma representable_rnd [simp]: "representable (rnd x)"
proof -
  have pos: "representable (rnd x)" if "0 < x" for x
  proof -
    from rnd_rounds [OF that] obtain u q :: int where q: "rnd x = of_int q * 10 powi u" "10 ^ 27 \<le> q" "q \<le> 10 ^ 28"
      by (rule rounds_posE)
    show ?thesis
    proof (cases "q = 10 ^ 28")
      case True
      then have "rnd x = of_int 1 * 10 powi (u + int 28)" using q(1) by (simp only: ten_powi_add) simp
      then show ?thesis unfolding representable_def by (intro exI [of _ 1] exI [of _ "u + int 28"]) simp
    next
      case False
      with q show ?thesis unfolding representable_def by (intro exI [of _ q] exI [of _ u]) simp
    qed
  qed
  consider "x = 0" | "0 < x" | "x < 0" by linarith
  then show ?thesis
  proof cases
    case 1
    then show ?thesis unfolding representable_def by (intro exI [of _ 0]) simp
  next
    case 2
    then show ?thesis by (rule pos)
  next
    case 3
    with pos [of "- x"] show ?thesis by simp
  qed
qed

lemma rnd_idem [simp]: "rnd (rnd x) = rnd x"
  by (simp add: rnd_representable)

lemma representable_0 [simp]: "representable 0" and representable_1 [simp]: "representable 1"
  using rnd_0 representable_rnd [of 0] rnd_representable [of 1]
  by (simp_all add: representable_def exI [of _ 1] exI [of _ 0])

lemma rnd_1 [simp]: "rnd 1 = 1"
  by (simp add: rnd_representable)

text \<open>Rounding cannot cross a representable bound.\<close>

lemma rnd_le_representable: "x \<le> r \<Longrightarrow> representable r \<Longrightarrow> rnd x \<le> r"
  using rnd_mono [of x r] by (simp add: rnd_representable)

lemma representable_le_rnd: "r \<le> x \<Longrightarrow> representable r \<Longrightarrow> r \<le> rnd x"
  using rnd_mono [of r x] by (simp add: rnd_representable)

section \<open>Sums of non-negative values\<close>

lemma foldl_dadd_ge:
  assumes "representable (dval s)" and "0 \<le> dval s" and "\<forall>x \<in> set xs. 0 \<le> dval x"
  shows "dval s \<le> dval (foldl dadd s xs)" "representable (dval (foldl dadd s xs))"
    "\<forall>x \<in> set xs. representable (dval x) \<longrightarrow> dval x \<le> dval (foldl dadd s xs)"
proof -
  have "dval s \<le> dval (foldl dadd s xs) \<and> representable (dval (foldl dadd s xs))
      \<and> (\<forall>x \<in> set xs. representable (dval x) \<longrightarrow> dval x \<le> dval (foldl dadd s xs))"
    using assms
  proof (induction xs arbitrary: s)
    case (Cons x xs)
    let ?s = "dadd s x"
    have s: "dval s \<le> dval ?s" "representable (dval x) \<Longrightarrow> dval x \<le> dval ?s"
      using Cons.prems by (auto simp: dval_dadd intro: representable_le_rnd)
    have "0 \<le> dval ?s" using s(1) Cons.prems(2) by linarith
    moreover have "representable (dval ?s)" by (simp add: dval_dadd)
    ultimately have "0 \<le> dval ?s" "representable (dval ?s)" .
    with Cons.IH [of ?s] Cons.prems s show ?case by force
  qed simp
  then show "dval s \<le> dval (foldl dadd s xs)" "representable (dval (foldl dadd s xs))"
    "\<forall>x \<in> set xs. representable (dval x) \<longrightarrow> dval x \<le> dval (foldl dadd s xs)" by blast+
qed

lemma dsum_nonneg: "\<forall>x \<in> set xs. 0 \<le> dval x \<Longrightarrow> 0 \<le> dval (dsum xs)"
  using foldl_dadd_ge(1) [of dzero xs] by (simp add: dsum_def)

end
