(* ===== verification/Portfolio_Types.thy ===== *)
theory Portfolio_Types
  imports Rounding
begin

text \<open>
  The data of \<open>app/ledger/types.py\<close>, \<open>app/portfolio/types.py\<close> and
  \<open>app/portfolio/errors.py\<close>: transaction kinds, the normalized ledger record the engine reads,
  the portfolio state it returns, its exceptions, and the canonical dictionaries that are hashed.
  A field \<open>x\<close> of a Python class is a record field with the class's prefix (\<open>lt_\<close>,
  \<open>ps_\<close>, \<open>pf_\<close>, ..), because record fields of Isabelle are global names.
\<close>

section \<open>JSON values\<close>

text \<open>
  What the code hands to \<open>json.dumps\<close> or stores in a JSON column. Leaves that it renders with
  \<open>str(..)\<close> or \<open>isoformat()\<close> keep the value: on UUIDs, decimals, dates and aware
  timestamps these renderings are injective. The digest (SHA-256 of the dumped text) is an argument
  of the definitions that use it; nothing is assumed of it.
\<close>

text \<open>A Python float: \<open>Float m e\<close> is \<open>m * 2 ^ e\<close> (the sign of zero is not kept).\<close>

datatype py_float = Float int int | Float_Inf bool | Float_NaN

datatype json =
    JNull | JBool bool | JInt int | JFloat py_float | JStr string | JUuid uuid | JDec dec | JTime datetime | JDate int
  | JList "json list" | JObj "(string \<times> json) list"

type_synonym digest = "json \<Rightarrow> string"

definition json_opt :: "('a \<Rightarrow> json) \<Rightarrow> 'a option \<Rightarrow> json" where
  "json_opt f x = (case x of None \<Rightarrow> JNull | Some y \<Rightarrow> f y)"

section \<open>Ledger vocabulary\<close>

datatype transaction_type =
    BUY | SELL | CASH_DEPOSIT | CASH_WITHDRAWAL | DIVIDEND | FEE | OPENING_CASH | OPENING_POSITION
  | REVERSAL

fun transaction_type_value :: "transaction_type \<Rightarrow> string" where
  "transaction_type_value BUY = ''BUY''"
| "transaction_type_value SELL = ''SELL''"
| "transaction_type_value CASH_DEPOSIT = ''CASH_DEPOSIT''"
| "transaction_type_value CASH_WITHDRAWAL = ''CASH_WITHDRAWAL''"
| "transaction_type_value DIVIDEND = ''DIVIDEND''"
| "transaction_type_value FEE = ''FEE''"
| "transaction_type_value OPENING_CASH = ''OPENING_CASH''"
| "transaction_type_value OPENING_POSITION = ''OPENING_POSITION''"
| "transaction_type_value REVERSAL = ''REVERSAL''"

datatype transaction_status = POSTED | REVERSED

section \<open>Portfolio records\<close>

datatype cost_basis_status = KNOWN | UNKNOWN

fun cost_basis_status_value :: "cost_basis_status \<Rightarrow> string" where
  "cost_basis_status_value KNOWN = ''KNOWN''"
| "cost_basis_status_value UNKNOWN = ''UNKNOWN''"

record ledger_transaction =
  lt_id :: uuid
  lt_fund_id :: uuid
  lt_account_id :: uuid
  lt_transaction_type :: transaction_type
  lt_effective_at :: datetime
  lt_recorded_at :: datetime
  lt_source :: string
  lt_external_id :: string
  lt_instrument_id :: "uuid option"
  lt_quantity :: "dec option"
  lt_unit_price :: "dec option"
  lt_amount :: "dec option"
  lt_fees :: dec
  lt_currency :: string
  lt_trade_date :: "int option"
  lt_settlement_date :: "int option"
  lt_reverses_transaction_id :: "uuid option"

definition lt_canonical_dict :: "ledger_transaction \<Rightarrow> json" where
  "lt_canonical_dict t = JObj [
     (''id'', JUuid (lt_id t)),
     (''fund_id'', JUuid (lt_fund_id t)),
     (''account_id'', JUuid (lt_account_id t)),
     (''transaction_type'', JStr (transaction_type_value (lt_transaction_type t))),
     (''effective_at'', JTime (lt_effective_at t)),
     (''recorded_at'', JTime (lt_recorded_at t)),
     (''source'', JStr (lt_source t)),
     (''external_id'', JStr (lt_external_id t)),
     (''instrument_id'', json_opt JUuid (lt_instrument_id t)),
     (''quantity'', json_opt JDec (lt_quantity t)),
     (''unit_price'', json_opt JDec (lt_unit_price t)),
     (''amount'', json_opt JDec (lt_amount t)),
     (''fees'', JDec (lt_fees t)),
     (''currency'', JStr (lt_currency t)),
     (''trade_date'', json_opt JDate (lt_trade_date t)),
     (''settlement_date'', json_opt JDate (lt_settlement_date t)),
     (''reverses_transaction_id'', json_opt JUuid (lt_reverses_transaction_id t))]"

record cash_balance =
  cb_account_id :: uuid
  cb_currency :: string
  cb_amount :: dec

record position_state =
  ps_account_id :: uuid
  ps_instrument_id :: uuid
  ps_quantity :: dec
  ps_total_cost_basis :: "dec option"
  ps_average_cost :: "dec option"
  ps_cost_basis_status :: cost_basis_status
  ps_source_transaction_ids :: "uuid list"

record reconstruction_metadata =
  md_as_of :: datetime
  md_calculation_version :: string
  md_canonical_input_hash :: string
  md_applied_transaction_count :: nat
  md_applied_transaction_ids :: "uuid list"
  md_last_applied_transaction_id :: "uuid option"

text \<open>
  The warning texts \<open>NEGATIVE_CASH:account\<close> and \<open>UNKNOWN_COST_BASIS:account:instrument\<close>. The
  identifiers have a fixed width, so the texts sort by their kind and then by the identifiers.
\<close>

datatype portfolio_warning = NEGATIVE_CASH uuid | UNKNOWN_COST_BASIS uuid uuid

fun warning_key :: "portfolio_warning \<Rightarrow> nat \<times> uuid \<times> uuid" where
  "warning_key (NEGATIVE_CASH a) = (0, a, 0)"
| "warning_key (UNKNOWN_COST_BASIS a i) = (1, a, i)"

lemma warning_key_inject [simp]: "warning_key v = warning_key w \<longleftrightarrow> v = w"
  by (cases v; cases w) auto

instantiation portfolio_warning :: linorder
begin

definition less_eq_portfolio_warning :: "portfolio_warning \<Rightarrow> portfolio_warning \<Rightarrow> bool" where
  "less_eq_portfolio_warning v w \<longleftrightarrow> warning_key v \<le> warning_key w"

definition less_portfolio_warning :: "portfolio_warning \<Rightarrow> portfolio_warning \<Rightarrow> bool" where
  "less_portfolio_warning v w \<longleftrightarrow> warning_key v < warning_key w"

instance
proof
  show "x < y \<longleftrightarrow> x \<le> y \<and> \<not> y \<le> x" for x y :: portfolio_warning
    unfolding less_eq_portfolio_warning_def less_portfolio_warning_def by (rule less_le_not_le)
  show "x \<le> x" for x :: portfolio_warning by (simp add: less_eq_portfolio_warning_def)
  show "x \<le> y \<Longrightarrow> y \<le> z \<Longrightarrow> x \<le> z" for x y z :: portfolio_warning
    unfolding less_eq_portfolio_warning_def by (rule order_trans)
  show "x \<le> y \<Longrightarrow> y \<le> x \<Longrightarrow> x = y" for x y :: portfolio_warning
    unfolding less_eq_portfolio_warning_def using antisym [of "warning_key x" "warning_key y"] by simp
  show "x \<le> y \<or> y \<le> x" for x y :: portfolio_warning
    unfolding less_eq_portfolio_warning_def by (rule linear)
qed

end

fun warning_json :: "portfolio_warning \<Rightarrow> json" where
  "warning_json (NEGATIVE_CASH a) = JList [JStr ''NEGATIVE_CASH'', JUuid a]"
| "warning_json (UNKNOWN_COST_BASIS a i) = JList [JStr ''UNKNOWN_COST_BASIS'', JUuid a, JUuid i]"

record portfolio_state =
  pf_fund_id :: uuid
  pf_account_id :: "uuid option"
  pf_currency :: string
  pf_cash :: dec
  pf_cash_by_account :: "cash_balance list"
  pf_positions :: "position_state list"
  pf_warnings :: "portfolio_warning list"
  pf_metadata :: reconstruction_metadata

definition pf_canonical_dict :: "portfolio_state \<Rightarrow> json" where
  "pf_canonical_dict s = JObj [
     (''fund_id'', JUuid (pf_fund_id s)),
     (''account_id'', json_opt JUuid (pf_account_id s)),
     (''currency'', JStr (pf_currency s)),
     (''cash'', JDec (pf_cash s)),
     (''cash_by_account'', JList (map (\<lambda>b. JObj [
        (''account_id'', JUuid (cb_account_id b)),
        (''currency'', JStr (cb_currency b)),
        (''amount'', JDec (cb_amount b))]) (pf_cash_by_account s))),
     (''positions'', JList (map (\<lambda>p. JObj [
        (''account_id'', JUuid (ps_account_id p)),
        (''instrument_id'', JUuid (ps_instrument_id p)),
        (''quantity'', JDec (ps_quantity p)),
        (''total_cost_basis'', json_opt JDec (ps_total_cost_basis p)),
        (''average_cost'', json_opt JDec (ps_average_cost p)),
        (''cost_basis_status'', JStr (cost_basis_status_value (ps_cost_basis_status p))),
        (''source_transaction_ids'', JList (map JUuid (ps_source_transaction_ids p)))])
       (pf_positions s))),
     (''warnings'', JList (map warning_json (pf_warnings s))),
     (''metadata'', JObj [
        (''as_of'', JTime (md_as_of (pf_metadata s))),
        (''calculation_version'', JStr (md_calculation_version (pf_metadata s))),
        (''canonical_input_hash'', JStr (md_canonical_input_hash (pf_metadata s))),
        (''applied_transaction_count'', JInt (int (md_applied_transaction_count (pf_metadata s)))),
        (''applied_transaction_ids'',
           JList (map JUuid (md_applied_transaction_ids (pf_metadata s)))),
        (''last_applied_transaction_id'',
           json_opt JUuid (md_last_applied_transaction_id (pf_metadata s)))])]"

section \<open>Errors\<close>

text \<open>
  The exception classes of the reconstruction, with the message and the identifier the message
  ends with. \<open>PyKeyError\<close> is the built-in \<open>KeyError\<close> of a dictionary read; that the engine never
  raises it is one of the lemmas.
\<close>

datatype portfolio_error =
    InvalidEngineInput string "uuid option"
  | NegativeHoldingError uuid string
  | InvalidReversalError string "uuid option"
  | NegativeCostBasisError uuid
  | PyKeyError uuid

end
