(* ===== verification/Models.thy ===== *)
theory Models
  imports Portfolio_Types
begin

text \<open>
  \<open>app/models.py\<close> and the enumerations of the \<open>types\<close> modules its columns use. A mapped class
  \<open>X\<close> is the record \<open>x_row\<close>, a column is a field with the class's prefix, a JSON column holds a
  \<open>json\<close> value, a timestamp a \<open>datetime\<close>, a date its day number; the database is one list of
  rows per table, in insertion order. The exceptions of all services are one datatype, so that
  services can call each other.
\<close>

section \<open>Enumerations\<close>

datatype import_batch_status =
    Batch_RECEIVED | Batch_PROCESSING | Batch_COMPLETED | Batch_COMPLETED_WITH_ERRORS
  | Batch_FAILED

datatype import_record_status =
    Record_RECEIVED | Record_NORMALIZED | Record_POSTED | Record_DUPLICATE | Record_CONFLICT
  | Record_REJECTED

datatype snapshot_status =
    Snapshot_CURRENT | Snapshot_SUPERSEDED

datatype cost_basis_persistence_status =
    Persisted_KNOWN | Persisted_UNKNOWN

datatype reconciliation_kind =
    Kind_CASH | Kind_POSITION

datatype reconciliation_status =
    Recon_MATCHED | Recon_BREACH | Recon_UNAVAILABLE

datatype identifier_scheme =
    Scheme_TICKER | Scheme_FIGI | Scheme_CUSIP | Scheme_ISIN | Scheme_PROVIDER

datatype price_type =
    Price_CLOSE | Price_ADJUSTED_CLOSE

datatype market_data_batch_status =
    MarketBatch_RECEIVED | MarketBatch_COMPLETED | MarketBatch_COMPLETED_WITH_CONFLICTS
  | MarketBatch_FAILED

datatype policy_operator =
    Policy_MAX | Policy_MIN

datatype policy_evaluation_status =
    Policy_PASS | Policy_BREACH | Policy_UNAVAILABLE

datatype policy_rule_severity =
    Severity_BLOCKING | Severity_WARNING

datatype scenario_kind =
    Scenario_HYPOTHETICAL | Scenario_HISTORICAL

datatype shock_target_type =
    Target_SECURITY | Target_MARKET | Target_SECTOR | Target_RATE | Target_FACTOR

datatype shock_unit =
    Unit_RELATIVE_RETURN | Unit_YIELD_CHANGE | Unit_FACTOR_MOVE

datatype proposal_status =
    DRAFT | SUBMITTED | UNDER_REVIEW | CHANGES_REQUESTED | APPROVED | REJECTED | WITHDRAWN

datatype proposal_action =
    Action_BUY | Action_SELL | Action_EXIT | Action_HOLD

datatype review_recommendation =
    Review_SUPPORT | Review_OPPOSE | Review_COMMENT

datatype workflow_action =
    Workflow_CREATED | Workflow_REVISED | Workflow_ANALYZED | Workflow_SUBMITTED
  | Workflow_REVIEW_STARTED | Workflow_REVIEW_RECORDED | Workflow_CHANGES_REQUESTED
  | Workflow_APPROVED | Workflow_REJECTED | Workflow_WITHDRAWN

datatype governance_role =
    Role_ANALYST | Role_MANAGER | Role_ADVISOR

datatype permission =
    Perm_CREATE_PROPOSAL | Perm_REVISE_PROPOSAL | Perm_RECORD_ANALYSIS | Perm_SUBMIT_PROPOSAL
  | Perm_START_REVIEW | Perm_RECORD_REVIEW | Perm_REQUEST_CHANGES | Perm_APPROVE_PROPOSAL
  | Perm_REJECT_PROPOSAL | Perm_WITHDRAW_PROPOSAL | Perm_VIEW_GOVERNANCE
  | Perm_USE_AI_ASSISTANT

datatype tool_execution_status =
    Tool_SUCCEEDED | Tool_UNAVAILABLE | Tool_DENIED | Tool_INVALID

datatype conversation_status =
    Conversation_ACTIVE | Conversation_COMPLETED | Conversation_REFUSED | Conversation_FAILED

datatype ai_message_role =
    Message_USER | Message_ASSISTANT | Message_REFUSAL

section \<open>Rows\<close>

record fund_row =
  fd_id :: uuid
  fd_slug :: string
  fd_name :: string
  fd_base_currency :: string
  fd_timezone :: string
  fd_created_at :: datetime

record user_row =
  usr_id :: uuid
  usr_email :: string
  usr_display_name :: string
  usr_is_active :: bool
  usr_created_at :: datetime

record role_row =
  rl_id :: uuid
  rl_code :: string
  rl_name :: string

record user_role_row =
  ur_user_id :: uuid
  ur_role_id :: uuid
  ur_fund_id :: uuid

record instrument_row =
  ins_id :: uuid
  ins_symbol :: string
  ins_name :: string
  ins_asset_type :: string
  ins_exchange :: string
  ins_currency :: string
  ins_is_active :: bool

record account_row =
  acct_id :: uuid
  acct_fund_id :: uuid
  acct_code :: string
  acct_name :: string
  acct_currency :: string
  acct_created_at :: datetime

record import_batch_row =
  ib_id :: uuid
  ib_fund_id :: uuid
  ib_source :: string
  ib_filename :: "string option"
  ib_content_sha256 :: string
  ib_parser_version :: string
  ib_status :: import_batch_status
  ib_initiated_by_user_id :: "uuid option"
  ib_received_at :: datetime
  ib_completed_at :: "datetime option"
  ib_total_count :: int
  ib_posted_count :: int
  ib_duplicate_count :: int
  ib_rejected_count :: int
  ib_conflict_count :: int
  ib_failure_summary :: "string option"

record transaction_row =
  tx_id :: uuid
  tx_fund_id :: uuid
  tx_account_id :: uuid
  tx_instrument_id :: "uuid option"
  tx_transaction_type :: transaction_type
  tx_quantity :: "dec option"
  tx_unit_price :: "dec option"
  tx_amount :: "dec option"
  tx_fees :: dec
  tx_currency :: string
  tx_effective_at :: datetime
  tx_recorded_at :: datetime
  tx_trade_date :: "int option"
  tx_settlement_date :: "int option"
  tx_source :: string
  tx_external_id :: string
  tx_normalized_payload_hash :: string
  tx_status :: transaction_status
  tx_import_batch_id :: "uuid option"
  tx_created_by_user_id :: "uuid option"
  tx_reverses_transaction_id :: "uuid option"
  tx_correction_command_id :: "uuid option"
  tx_description :: "string option"
  tx_source_metadata :: json

record import_conflict_row =
  ic_id :: uuid
  ic_fund_id :: uuid
  ic_import_batch_id :: uuid
  ic_existing_transaction_id :: uuid
  ic_source :: string
  ic_external_id :: string
  ic_existing_payload_hash :: string
  ic_incoming_payload_hash :: string
  ic_incoming_payload :: json
  ic_detected_at :: datetime

record import_record_row =
  ir_id :: uuid
  ir_import_batch_id :: uuid
  ir_row_number :: int
  ir_source_locator :: string
  ir_raw_payload :: json
  ir_normalized_payload :: "json option"
  ir_raw_payload_hash :: string
  ir_status :: import_record_status
  ir_transaction_id :: "uuid option"
  ir_import_conflict_id :: "uuid option"
  ir_error_code :: "string option"
  ir_error_message :: "string option"
  ir_created_at :: datetime

record audit_event_row =
  ae_id :: uuid
  ae_fund_id :: uuid
  ae_actor_user_id :: "uuid option"
  ae_action :: string
  ae_entity_type :: string
  ae_entity_id :: uuid
  ae_occurred_at :: datetime
  ae_details :: json

record portfolio_snapshot_row =
  snap_id :: uuid
  snap_fund_id :: uuid
  snap_account_id :: "uuid option"
  snap_as_of :: datetime
  snap_revision :: int
  snap_status :: snapshot_status
  snap_calculation_version :: string
  snap_canonical_input_hash :: string
  snap_canonical_state :: json
  snap_applied_transaction_count :: int
  snap_last_applied_transaction_id :: "uuid option"
  snap_supersedes_snapshot_id :: "uuid option"
  snap_created_at :: datetime

record snapshot_cash_row =
  sc_id :: uuid
  sc_snapshot_id :: uuid
  sc_account_id :: uuid
  sc_currency :: string
  sc_amount :: dec

record snapshot_position_row =
  sp_id :: uuid
  sp_snapshot_id :: uuid
  sp_account_id :: uuid
  sp_instrument_id :: uuid
  sp_quantity :: dec
  sp_total_cost_basis :: "dec option"
  sp_average_cost :: "dec option"
  sp_cost_basis_status :: cost_basis_persistence_status
  sp_source_transaction_ids :: json

record reconciliation_observation_row =
  ob_id :: uuid
  ob_fund_id :: uuid
  ob_account_id :: uuid
  ob_as_of :: datetime
  ob_kind :: reconciliation_kind
  ob_instrument_id :: "uuid option"
  ob_reported_value :: dec
  ob_currency :: string
  ob_source :: string
  ob_external_id :: string
  ob_import_batch_id :: "uuid option"
  ob_evidence :: json
  ob_recorded_at :: datetime

record reconciliation_run_row =
  rr_id :: uuid
  rr_snapshot_id :: uuid
  rr_tolerance :: dec
  rr_evidence_hash :: string
  rr_status :: reconciliation_status
  rr_created_at :: datetime
  rr_created_by_user_id :: "uuid option"

record reconciliation_item_row =
  ri_id :: uuid
  ri_reconciliation_run_id :: uuid
  ri_observation_id :: uuid
  ri_expected_value :: dec
  ri_reported_value :: dec
  ri_difference :: dec
  ri_tolerance :: dec
  ri_status :: reconciliation_status

record security_identifier_row =
  si_id :: uuid
  si_instrument_id :: uuid
  si_scheme :: identifier_scheme
  si_value :: string
  si_provider :: string
  si_valid_from :: "datetime option"
  si_valid_to :: "datetime option"
  si_is_primary :: bool

record market_data_batch_row =
  mb_id :: uuid
  mb_provider :: string
  mb_dataset :: string
  mb_request_hash :: string
  mb_status :: market_data_batch_status
  mb_started_at :: datetime
  mb_completed_at :: "datetime option"
  mb_inserted_count :: int
  mb_duplicate_count :: int
  mb_conflict_count :: int

record market_price_row =
  mp_id :: uuid
  mp_instrument_id :: uuid
  mp_batch_id :: uuid
  mp_provider :: string
  mp_price_type :: price_type
  mp_observed_at :: datetime
  mp_received_at :: datetime
  mp_price :: dec
  mp_currency :: string
  mp_source_identifier :: string
  mp_source_metadata :: json

record market_price_conflict_row =
  mpc_id :: uuid
  mpc_batch_id :: uuid
  mpc_existing_price_id :: uuid
  mpc_incoming_price :: dec
  mpc_incoming_currency :: string
  mpc_incoming_metadata :: json
  mpc_detected_at :: datetime

record instrument_classification_row =
  cl_id :: uuid
  cl_instrument_id :: uuid
  cl_sector :: string
  cl_asset_class :: string
  cl_geography :: string
  cl_effective_from :: datetime
  cl_effective_to :: "datetime option"
  cl_source :: string
  cl_source_metadata :: json
  cl_recorded_at :: datetime

record risk_policy_row =
  rp_id :: uuid
  rp_fund_id :: uuid
  rp_name :: string
  rp_version :: int
  rp_effective_from :: datetime
  rp_effective_to :: "datetime option"
  rp_created_at :: datetime
  rp_created_by_user_id :: "uuid option"

record risk_policy_rule_row =
  rule_id :: uuid
  rule_policy_id :: uuid
  rule_metric_key :: string
  rule_operator :: policy_operator
  rule_threshold :: dec
  rule_unit :: string
  rule_explanation_template :: string
  rule_severity :: policy_rule_severity

record risk_evaluation_row =
  re_id :: uuid
  re_fund_id :: uuid
  re_policy_id :: uuid
  re_as_of :: datetime
  re_input_hash :: string
  re_calculation_version :: string
  re_created_at :: datetime

record risk_evaluation_item_row =
  rei_id :: uuid
  rei_evaluation_id :: uuid
  rei_rule_id :: uuid
  rei_status :: policy_evaluation_status
  rei_observed_value :: "dec option"
  rei_threshold :: dec
  rei_breach_amount :: "dec option"
  rei_unit :: string
  rei_explanation :: string

record scenario_definition_row =
  sd_id :: uuid
  sd_fund_id :: uuid
  sd_name :: string
  sd_version :: int
  sd_kind :: scenario_kind
  sd_description :: string
  sd_source_metadata :: json
  sd_created_at :: datetime
  sd_created_by_user_id :: "uuid option"

record scenario_shock_row =
  shr_id :: uuid
  shr_scenario_id :: uuid
  shr_target_type :: shock_target_type
  shr_target :: string
  shr_magnitude :: dec
  shr_unit :: shock_unit
  shr_sequence :: int

record instrument_risk_sensitivity_row =
  irs_id :: uuid
  irs_instrument_id :: uuid
  irs_effective_from :: datetime
  irs_effective_to :: "datetime option"
  irs_rate_duration :: "dec option"
  irs_factor_loadings :: json
  irs_source :: string
  irs_source_metadata :: json
  irs_recorded_at :: datetime

record scenario_run_row =
  sr_id :: uuid
  sr_fund_id :: uuid
  sr_scenario_id :: uuid
  sr_policy_id :: uuid
  sr_as_of :: datetime
  sr_canonical_input_hash :: string
  sr_calculation_version :: string
  sr_baseline_value :: dec
  sr_projected_value :: dec
  sr_pnl_impact :: dec
  sr_portfolio_return_impact :: dec
  sr_benchmark_scenario_return :: dec
  sr_result_summary :: json
  sr_created_at :: datetime

record scenario_position_result_row =
  spr_id :: uuid
  spr_scenario_run_id :: uuid
  spr_instrument_id :: uuid
  spr_baseline_market_value :: dec
  spr_projected_market_value :: dec
  spr_return_impact :: dec
  spr_pnl_impact :: dec
  spr_contribution_evidence :: json

record investment_proposal_row =
  ip_id :: uuid
  ip_fund_id :: uuid
  ip_created_by_user_id :: uuid
  ip_status :: proposal_status
  ip_current_version :: int
  ip_row_version :: int
  ip_created_at :: datetime
  ip_updated_at :: datetime

record proposal_version_row =
  pv_id :: uuid
  pv_proposal_id :: uuid
  pv_version :: int
  pv_title :: string
  pv_thesis :: string
  pv_portfolio_input_hash :: string
  pv_portfolio_as_of :: datetime
  pv_content_hash :: string
  pv_created_by_user_id :: uuid
  pv_created_at :: datetime
  pv_supersedes_version_id :: "uuid option"

record proposal_line_row =
  pl_id :: uuid
  pl_proposal_version_id :: uuid
  pl_instrument_id :: uuid
  pl_action :: proposal_action
  pl_current_weight :: dec
  pl_proposed_weight :: dec
  pl_estimated_notional :: dec
  pl_rationale :: string

record proposal_analysis_row =
  pa_id :: uuid
  pa_proposal_version_id :: uuid
  pa_risk_evaluation_id :: uuid
  pa_scenario_run_id :: "uuid option"
  pa_recorded_by_user_id :: uuid
  pa_recorded_at :: datetime
  pa_evidence_hash :: string

record proposal_review_row =
  prv_id :: uuid
  prv_proposal_id :: uuid
  prv_proposal_version_id :: uuid
  prv_reviewer_user_id :: uuid
  prv_reviewer_role :: string
  prv_recommendation :: review_recommendation
  prv_comment :: string
  prv_created_at :: datetime

record proposal_transition_row =
  pt_id :: uuid
  pt_proposal_id :: uuid
  pt_proposal_version_id :: uuid
  pt_action :: workflow_action
  pt_from_status :: "proposal_status option"
  pt_to_status :: proposal_status
  pt_actor_user_id :: uuid
  pt_actor_role :: string
  pt_reason :: "string option"
  pt_decision_provenance :: json
  pt_occurred_at :: datetime
  pt_resulting_row_version :: int

record ai_conversation_row =
  aic_id :: uuid
  aic_fund_id :: uuid
  aic_actor_user_id :: uuid
  aic_status :: conversation_status
  aic_model :: string
  aic_created_at :: datetime
  aic_completed_at :: "datetime option"

record ai_message_row =
  aim_id :: uuid
  aim_conversation_id :: uuid
  aim_role :: ai_message_role
  aim_content :: string
  aim_content_hash :: string
  aim_citations :: json
  aim_provider_response_id :: "string option"
  aim_created_at :: datetime

record ai_tool_call_row =
  atc_id :: uuid
  atc_conversation_id :: uuid
  atc_provider_call_id :: string
  atc_tool_name :: string
  atc_arguments :: json
  atc_status :: tool_execution_status
  atc_result :: "json option"
  atc_result_hash :: "string option"
  atc_sources :: json
  atc_error :: "string option"
  atc_occurred_at :: datetime

section \<open>The database\<close>

record database =
  db_funds :: "fund_row list"
  db_users :: "user_row list"
  db_roles :: "role_row list"
  db_user_roles :: "user_role_row list"
  db_instruments :: "instrument_row list"
  db_accounts :: "account_row list"
  db_import_batches :: "import_batch_row list"
  db_transactions :: "transaction_row list"
  db_import_conflicts :: "import_conflict_row list"
  db_import_records :: "import_record_row list"
  db_audit_events :: "audit_event_row list"
  db_portfolio_snapshots :: "portfolio_snapshot_row list"
  db_snapshot_cash :: "snapshot_cash_row list"
  db_snapshot_positions :: "snapshot_position_row list"
  db_reconciliation_observations :: "reconciliation_observation_row list"
  db_reconciliation_runs :: "reconciliation_run_row list"
  db_reconciliation_items :: "reconciliation_item_row list"
  db_security_identifiers :: "security_identifier_row list"
  db_market_data_batches :: "market_data_batch_row list"
  db_market_prices :: "market_price_row list"
  db_market_price_conflicts :: "market_price_conflict_row list"
  db_instrument_classifications :: "instrument_classification_row list"
  db_risk_policies :: "risk_policy_row list"
  db_risk_policy_rules :: "risk_policy_rule_row list"
  db_risk_evaluations :: "risk_evaluation_row list"
  db_risk_evaluation_items :: "risk_evaluation_item_row list"
  db_scenario_definitions :: "scenario_definition_row list"
  db_scenario_shocks :: "scenario_shock_row list"
  db_instrument_risk_sensitivities :: "instrument_risk_sensitivity_row list"
  db_scenario_runs :: "scenario_run_row list"
  db_scenario_position_results :: "scenario_position_result_row list"
  db_investment_proposals :: "investment_proposal_row list"
  db_proposal_versions :: "proposal_version_row list"
  db_proposal_lines :: "proposal_line_row list"
  db_proposal_analyses :: "proposal_analysis_row list"
  db_proposal_reviews :: "proposal_review_row list"
  db_proposal_transitions :: "proposal_transition_row list"
  db_ai_conversations :: "ai_conversation_row list"
  db_ai_messages :: "ai_message_row list"
  db_ai_tool_calls :: "ai_tool_call_row list"

section \<open>Exceptions\<close>

text \<open>
  The exception classes of the packages' \<open>errors\<close> modules with their message, the
  \<open>IntegrityError\<close> of a flush that violates a declared constraint, and the built-in exceptions
  the services can meet.
\<close>

datatype app_error =
    PortfolioReconstructionError portfolio_error
  | TransactionValidationError string | OpeningBalanceError string | ReversalError string
  | ImportPipelineError string | RowNormalizationError string string | CsvError string
  | SnapshotError string | ReconciliationError string
  | MarketDataError string | InvalidPriceObservation string | UnknownSecurityIdentifier string
  | MissingPriceError string | MissingValuationPrice string | ValuationError string
  | ExposureError string | AnalyticsError string | RiskError string | InvalidScenario string
  | GovernanceError string | AuthorizationDenied string | InvalidWorkflowTransition string
  | ConcurrentProposalUpdate string | PolicyEvidenceRequired string
  | ToolAuthorizationDenied string | InvalidToolCall string | DataUnavailable string
  | ModelProtocolError string
  | IntegrityError string | NoResultFound | AssertionError | KeyError | ValueError string
  | InvalidOperation | DivisionByZero | OverflowError | TypeError | AttributeError
  | JSONDecodeError

end
