(* ===== verification/Liquidity.thy ===== *)
theory Liquidity
  imports Rounding Models
begin

text \<open>
  \<open>app/governance/liquidity.py\<close>: days to liquidate, cash weight and the weight that is liquid
  within a horizon.
\<close>

record position_liquidity_input =
  pl_in_instrument_id :: uuid
  pl_in_market_value :: dec
  pl_in_average_daily_volume_value :: "dec option"

record position_liquidity =
  plq_instrument_id :: uuid
  plq_days_to_liquidate :: "dec option"
  plq_market_value :: dec

record liquidity_result =
  lq_cash_weight :: dec
  lq_liquid_within_horizon_weight :: dec
  lq_maximum_days_to_liquidate :: "dec option"
  lq_positions :: "position_liquidity list"
  lq_warnings :: "string list"

text \<open>The variables of the loop of \<open>calculate\<close>.\<close>

record liquidity_state =
  ls_output :: "position_liquidity list"
  ls_warnings :: "string list"
  ls_liquid_value :: dec
  ls_all_known :: bool

definition liquidity_step ::
  "dec \<Rightarrow> dec \<Rightarrow> liquidity_state \<Rightarrow> position_liquidity_input \<Rightarrow> app_error + liquidity_state" where
  "liquidity_step participation_rate horizon_days s item =
     (if dlt (pl_in_market_value item) dzero
      then Inl (GovernanceError ''Phase 5 liquidity supports long-only positions'')
      else (case pl_in_average_daily_volume_value item of
        None \<Rightarrow> Inr (s\<lparr>ls_all_known := False,
          ls_warnings := ls_warnings s @ [''missing liquidity evidence for '' @ uuid_text (pl_in_instrument_id item)],
          ls_output := ls_output s @ [\<lparr>plq_instrument_id = pl_in_instrument_id item,
            plq_days_to_liquidate = None, plq_market_value = pl_in_market_value item\<rparr>]\<rparr>)
      | Some volume \<Rightarrow>
          if dle volume dzero then Inr (s\<lparr>ls_all_known := False,
            ls_warnings := ls_warnings s @ [''missing liquidity evidence for '' @ uuid_text (pl_in_instrument_id item)],
            ls_output := ls_output s @ [\<lparr>plq_instrument_id = pl_in_instrument_id item,
              plq_days_to_liquidate = None, plq_market_value = pl_in_market_value item\<rparr>]\<rparr>)
          else let days = ddiv (pl_in_market_value item) (dmul volume participation_rate) in
            Inr (s\<lparr>ls_liquid_value := (if dle days horizon_days
                then dadd (ls_liquid_value s) (pl_in_market_value item) else ls_liquid_value s),
              ls_output := ls_output s @ [\<lparr>plq_instrument_id = pl_in_instrument_id item,
                plq_days_to_liquidate = Some days, plq_market_value = pl_in_market_value item\<rparr>]\<rparr>)))"

text \<open>\<open>max(xs)\<close> of a non-empty sequence: the first of the greatest values.\<close>

definition dmaximum :: "dec list \<Rightarrow> dec" where
  "dmaximum xs = foldl dmax (hd xs) (tl xs)"

definition liquidity_calculate ::
  "position_liquidity_input list \<Rightarrow> dec \<Rightarrow> dec \<Rightarrow> dec \<Rightarrow> dec \<Rightarrow> app_error + liquidity_result" where
  "liquidity_calculate positions cash_value portfolio_value participation_rate horizon_days =
     bindR (requireR (\<not> (dle portfolio_value dzero \<or> dlt cash_value dzero))
       (GovernanceError ''liquidity requires positive portfolio value and nonnegative cash'')) (\<lambda>_.
     bindR (requireR (dlt dzero participation_rate \<and> dle participation_rate dunit \<and> \<not> dlt horizon_days dzero)
       (GovernanceError ''invalid participation rate or liquidity horizon'')) (\<lambda>_.
     bindR (foldR (liquidity_step participation_rate horizon_days)
       \<lparr>ls_output = [], ls_warnings = [], ls_liquid_value = cash_value, ls_all_known = True\<rparr> positions) (\<lambda>s.
     let known_days = List.map_filter plq_days_to_liquidate (ls_output s) in
     Inr \<lparr>lq_cash_weight = ddiv cash_value portfolio_value,
       lq_liquid_within_horizon_weight = ddiv (ls_liquid_value s) portfolio_value,
       lq_maximum_days_to_liquidate =
         (if ls_all_known s \<and> known_days \<noteq> [] then Some (dmaximum known_days) else None),
       lq_positions = sort_key plq_instrument_id (ls_output s),
       lq_warnings = ls_warnings s\<rparr>)))"

definition liquidity_metrics :: "liquidity_result \<Rightarrow> (string, dec) dict" where
  "liquidity_metrics r =
     [(''liquidity.cash_weight'', lq_cash_weight r),
      (''liquidity.liquid_within_horizon_weight'', lq_liquid_within_horizon_weight r)]
     @ (case lq_maximum_days_to_liquidate r of None \<Rightarrow> []
        | Some d \<Rightarrow> [(''liquidity.maximum_days_to_liquidate'', d)])"

end
