(* ===== verification/Liquidity_Properties.thy ===== *)
theory Liquidity_Properties
  imports Liquidity
begin

text \<open>
  What the liquidity engine reports: it fails exactly on the inputs it documents, the maximum is
  there only when every position has evidence, and the weights are ordered.
\<close>

definition has_volume :: "position_liquidity_input \<Rightarrow> bool" where
  "has_volume p \<longleftrightarrow> (case pl_in_average_daily_volume_value p of None \<Rightarrow> False | Some v \<Rightarrow> dlt dzero v)"

definition liquidity_days :: "dec \<Rightarrow> position_liquidity_input \<Rightarrow> dec option" where
  "liquidity_days rate p = (if has_volume p
     then Some (ddiv (pl_in_market_value p) (dmul (the (pl_in_average_daily_volume_value p)) rate)) else None)"

definition within_horizon :: "dec \<Rightarrow> dec \<Rightarrow> position_liquidity_input \<Rightarrow> bool" where
  "within_horizon rate h p \<longleftrightarrow> (case liquidity_days rate p of None \<Rightarrow> False | Some d \<Rightarrow> dle d h)"

definition liquidity_row :: "dec \<Rightarrow> position_liquidity_input \<Rightarrow> position_liquidity" where
  "liquidity_row rate p = \<lparr>plq_instrument_id = pl_in_instrument_id p, plq_days_to_liquidate = liquidity_days rate p,
     plq_market_value = pl_in_market_value p\<rparr>"

definition missing_warning :: "position_liquidity_input \<Rightarrow> string" where
  "missing_warning p = ''missing liquidity evidence for '' @ uuid_text (pl_in_instrument_id p)"

text \<open>One iteration, and the loop, in closed form.\<close>

lemma liquidity_step_eq:
  "liquidity_step rate h s p = (if dlt (pl_in_market_value p) dzero
     then Inl (GovernanceError ''Phase 5 liquidity supports long-only positions'')
     else Inr (s\<lparr>ls_output := ls_output s @ [liquidity_row rate p],
       ls_warnings := ls_warnings s @ (if has_volume p then [] else [missing_warning p]),
       ls_liquid_value := (if within_horizon rate h p then dadd (ls_liquid_value s) (pl_in_market_value p)
         else ls_liquid_value s),
       ls_all_known := (ls_all_known s \<and> has_volume p)\<rparr>))"
  by (cases "pl_in_average_daily_volume_value p")
    (auto simp: liquidity_step_def liquidity_row_def has_volume_def within_horizon_def liquidity_days_def
      missing_warning_def Let_def dec_simps)

lemma liquidity_loop:
  "foldR (liquidity_step rate h) s ps = (if \<exists>p \<in> set ps. dlt (pl_in_market_value p) dzero
     then Inl (GovernanceError ''Phase 5 liquidity supports long-only positions'')
     else Inr (s\<lparr>ls_output := ls_output s @ map (liquidity_row rate) ps,
       ls_warnings := ls_warnings s @ map missing_warning (filter (\<lambda>p. \<not> has_volume p) ps),
       ls_liquid_value := foldl dadd (ls_liquid_value s) (map pl_in_market_value (filter (within_horizon rate h) ps)),
       ls_all_known := (ls_all_known s \<and> (\<forall>p \<in> set ps. has_volume p))\<rparr>))"
  by (induction ps arbitrary: s) (simp_all add: liquidity_step_eq)

lemma foldl_dmax:
  "(\<forall>x \<in> set (y # xs). dval x \<le> dval (foldl dmax y xs)) \<and> foldl dmax y xs \<in> set (y # xs)"
proof (induction xs arbitrary: y)
  case (Cons x xs)
  have "dval y \<le> dval (dmax y x)" "dval x \<le> dval (dmax y x)" "dmax y x \<in> {y, x}"
    by (auto simp: dval_dmax dmax_def dec_simps)
  with Cons [of "dmax y x"] show ?case by fastforce
qed simp

lemma liquidity_calculate_Inr:
  assumes "liquidity_calculate ps cash pv rate h = Inr r"
  shows "dlt dzero pv" "dle dzero cash" "dlt dzero rate" "dle rate dunit" "dle dzero h"
    "\<And>p. p \<in> set ps \<Longrightarrow> dle dzero (pl_in_market_value p)"
    "lq_cash_weight r = ddiv cash pv"
    "lq_liquid_within_horizon_weight r =
       ddiv (foldl dadd cash (map pl_in_market_value (filter (within_horizon rate h) ps))) pv"
    "lq_maximum_days_to_liquidate r = (if (\<forall>p \<in> set ps. has_volume p) \<and> ps \<noteq> []
       then Some (dmaximum (map (the \<circ> liquidity_days rate) ps)) else None)"
    "lq_positions r = sort_key plq_instrument_id (map (liquidity_row rate) ps)"
    "lq_warnings r = map missing_warning (filter (\<lambda>p. \<not> has_volume p) ps)"
proof -
  have known: "List.map_filter plq_days_to_liquidate (map (liquidity_row rate) xs) = map (the \<circ> liquidity_days rate) xs"
    if "\<forall>p \<in> set xs. has_volume p" for xs
    using that by (induction xs) (simp_all add: map_filter_simps liquidity_row_def liquidity_days_def)
  show "dlt dzero pv" "dle dzero cash" "dlt dzero rate" "dle rate dunit" "dle dzero h"
    using assms by (auto simp: liquidity_calculate_def result_simps dec_simps)
  show "dle dzero (pl_in_market_value p)" if "p \<in> set ps" for p
    using assms that by (auto simp: liquidity_calculate_def result_simps liquidity_loop dec_simps split: if_splits)
  have r: "r = \<lparr>lq_cash_weight = ddiv cash pv, lq_liquid_within_horizon_weight =
      ddiv (foldl dadd cash (map pl_in_market_value (filter (within_horizon rate h) ps))) pv,
    lq_maximum_days_to_liquidate = (if (\<forall>p \<in> set ps. has_volume p) \<and> ps \<noteq> []
       then Some (dmaximum (map (the \<circ> liquidity_days rate) ps)) else None),
    lq_positions = sort_key plq_instrument_id (map (liquidity_row rate) ps),
    lq_warnings = map missing_warning (filter (\<lambda>p. \<not> has_volume p) ps)\<rparr>"
    using assms by (auto simp: liquidity_calculate_def result_simps liquidity_loop Let_def known split: if_splits)
  then show "lq_cash_weight r = ddiv cash pv"
    "lq_liquid_within_horizon_weight r =
       ddiv (foldl dadd cash (map pl_in_market_value (filter (within_horizon rate h) ps))) pv"
    "lq_maximum_days_to_liquidate r = (if (\<forall>p \<in> set ps. has_volume p) \<and> ps \<noteq> []
       then Some (dmaximum (map (the \<circ> liquidity_days rate) ps)) else None)"
    "lq_positions r = sort_key plq_instrument_id (map (liquidity_row rate) ps)"
    "lq_warnings r = map missing_warning (filter (\<lambda>p. \<not> has_volume p) ps)"
    by simp_all
qed

theorem liquidity_fails_iff:
  "(\<exists>e. liquidity_calculate ps cash pv rate h = Inl e) \<longleftrightarrow>
     dval pv \<le> 0 \<or> dval cash < 0 \<or> dval rate \<le> 0 \<or> 1 < dval rate \<or> dval h < 0
     \<or> (\<exists>p \<in> set ps. dval (pl_in_market_value p) < 0)"
  by (auto simp: liquidity_calculate_def requireR_def liquidity_loop dec_simps Let_def)

theorem liquidity_maximum_evidence:
  assumes "liquidity_calculate ps cash pv rate h = Inr r"
  shows "case lq_maximum_days_to_liquidate r of
      None \<Rightarrow> ps = [] \<or> (\<exists>p \<in> set ps. \<not> has_volume p)
    | Some d \<Rightarrow> ps \<noteq> [] \<and> lq_warnings r = []
        \<and> (\<forall>q \<in> set (lq_positions r). \<exists>x. plq_days_to_liquidate q = Some x \<and> dval x \<le> dval d)
        \<and> (\<exists>q \<in> set (lq_positions r). plq_days_to_liquidate q = Some d)"
proof (cases "(\<forall>p \<in> set ps. has_volume p) \<and> ps \<noteq> []")
  case False
  then show ?thesis using liquidity_calculate_Inr(9) [OF assms] by auto
next
  case True
  let ?days = "map (the \<circ> liquidity_days rate) ps"
  have d: "liquidity_days rate p = Some (the (liquidity_days rate p))" if "p \<in> set ps" for p
    using True that by (simp add: liquidity_days_def)
  have "(\<forall>x \<in> set ?days. dval x \<le> dval (dmaximum ?days)) \<and> dmaximum ?days \<in> set ?days"
    using foldl_dmax [of "hd ?days" "tl ?days"] True by (simp add: dmaximum_def)
  moreover have "set (lq_positions r) = liquidity_row rate ` set ps"
    by (simp add: liquidity_calculate_Inr(10) [OF assms])
  moreover have "lq_warnings r = []" using True by (simp add: liquidity_calculate_Inr(11) [OF assms])
  moreover have "lq_maximum_days_to_liquidate r = Some (dmaximum ?days)"
    using True by (simp add: liquidity_calculate_Inr(9) [OF assms])
  moreover have "\<exists>x. plq_days_to_liquidate (liquidity_row rate p) = Some x \<and> x \<in> set ?days" if "p \<in> set ps" for p
    using d [OF that] that by (auto simp: liquidity_row_def)
  moreover have "\<exists>p \<in> set ps. plq_days_to_liquidate (liquidity_row rate p) = Some x" if "x \<in> set ?days" for x
    using d that by (auto simp: liquidity_row_def)
  ultimately show ?thesis using True by (simp only: option.case set_map) blast
qed

text \<open>More positions make the liquid value no smaller, in rounded addition too.\<close>

lemma foldl_dadd_mono:
  assumes "\<forall>p \<in> set ps. 0 \<le> dval (v p)" and "\<And>p. P p \<Longrightarrow> Q p" and "dval c \<le> dval c'" and "representable (dval c')"
  shows "dval (foldl dadd c (map v (filter P ps))) \<le> dval (foldl dadd c' (map v (filter Q ps)))"
  using assms(1,3,4)
proof (induction ps arbitrary: c c')
  case (Cons p ps)
  have p: "0 \<le> dval (v p)" and ps: "\<forall>p \<in> set ps. 0 \<le> dval (v p)" using Cons.prems by simp_all
  have grow: "dval c' \<le> dval (dadd c' (v p))" using p Cons.prems by (simp add: dval_dadd representable_le_rnd)
  have both: "dval (dadd c (v p)) \<le> dval (dadd c' (v p))" using Cons.prems by (simp add: dval_dadd rnd_mono)
  have rep: "representable (dval (dadd c' (v p)))" by (simp add: dval_dadd)
  show ?case
    using Cons.IH [OF ps both rep] Cons.IH [OF ps _ rep, of c] Cons.IH [OF ps Cons.prems(2,3)] assms(2) [of p] grow Cons.prems(2)
    by (auto intro: order_trans)
qed simp

theorem liquidity_weight_monotone:
  assumes "liquidity_calculate ps cash pv rate h = Inr r" and "liquidity_calculate ps cash pv rate h' = Inr r'"
    and "dval h \<le> dval h'" and "representable (dval cash)"
  shows "0 \<le> dval (lq_cash_weight r)
    \<and> dval (lq_cash_weight r) \<le> dval (lq_liquid_within_horizon_weight r)
    \<and> dval (lq_liquid_within_horizon_weight r) \<le> dval (lq_liquid_within_horizon_weight r')"
proof -
  note a = liquidity_calculate_Inr [OF assms(1)] and b = liquidity_calculate_Inr [OF assms(2)]
  have pv: "0 < dval pv" using a(1) by (simp add: dec_simps)
  have v: "\<forall>p \<in> set ps. 0 \<le> dval (pl_in_market_value p)" using a(6) by (simp add: dec_simps)
  have "dval cash \<le> dval (foldl dadd cash (map pl_in_market_value (filter (within_horizon rate h) ps)))"
    using foldl_dadd_mono [OF v, where P = "\<lambda>_. False" and Q = "within_horizon rate h" and c = cash and c' = cash] assms(4)
    by simp
  moreover have "dval (foldl dadd cash (map pl_in_market_value (filter (within_horizon rate h) ps)))
      \<le> dval (foldl dadd cash (map pl_in_market_value (filter (within_horizon rate h') ps)))"
    by (rule foldl_dadd_mono [OF v])
      (use assms(3,4) in \<open>auto simp: within_horizon_def dec_simps split: option.splits\<close>)
  moreover have "0 \<le> dval cash" using a(2) by (simp add: dec_simps)
  ultimately show ?thesis using pv
    by (simp add: a(7,8) b(8) dval_ddiv rnd_mono divide_right_mono)
qed

section \<open>Witnesses\<close>

definition example_liquidity :: "position_liquidity_input list" where
  "example_liquidity = [
     \<lparr>pl_in_instrument_id = 8, pl_in_market_value = Dec 400 0, pl_in_average_daily_volume_value = Some (Dec 1000 0)\<rparr>,
     \<lparr>pl_in_instrument_id = 7, pl_in_market_value = Dec 500 0, pl_in_average_daily_volume_value = Some (Dec 500 0)\<rparr>]"

definition example_liquidity_result :: "dec \<Rightarrow> liquidity_result" where
  "example_liquidity_result liquid = \<lparr>lq_cash_weight = Dec 1 (- 1), lq_liquid_within_horizon_weight = liquid,
     lq_maximum_days_to_liquidate = Some (Dec 1 1),
     lq_positions = [\<lparr>plq_instrument_id = 7, plq_days_to_liquidate = Some (Dec 1 1), plq_market_value = Dec 500 0\<rparr>,
       \<lparr>plq_instrument_id = 8, plq_days_to_liquidate = Some (Dec 4 0), plq_market_value = Dec 400 0\<rparr>],
     lq_warnings = []\<rparr>"

lemma example_liquidity_calculated:
  "liquidity_calculate example_liquidity (Dec 100 0) (Dec 1000 0) (Dec 10 (- 2)) (Dec 5 0) =
     Inr (example_liquidity_result (Dec 5 (- 1)))"
  "liquidity_calculate example_liquidity (Dec 100 0) (Dec 1000 0) (Dec 10 (- 2)) (Dec 20 0) =
     Inr (example_liquidity_result dunit)"
proof -
  have eval: "dmul (Dec 1000 0) (Dec 10 (- 2)) = Dec 10000 (- 2)" "dmul (Dec 500 0) (Dec 10 (- 2)) = Dec 5000 (- 2)"
    "ddiv (Dec 400 0) (Dec 10000 (- 2)) = Dec 4 0" "ddiv (Dec 500 0) (Dec 5000 (- 2)) = Dec 1 1"
    "dadd (Dec 100 0) (Dec 400 0) = Dec 500 0" "ddiv (Dec 500 0) (Dec 1000 0) = Dec 5 (- 1)"
    "ddiv (Dec 100 0) (Dec 1000 0) = Dec 1 (- 1)" "dadd (Dec 500 0) (Dec 500 0) = Dec 1000 0"
    "ddiv (Dec 1000 0) (Dec 1000 0) = dunit"
    by (simp_all add: dec_eval cong: let_weak_cong)
  note defs = liquidity_calculate_def liquidity_step_def example_liquidity_def example_liquidity_result_def eval
    dmaximum_def map_filter_simps dle_def dlt_def dmax_def scaled_def
  show "liquidity_calculate example_liquidity (Dec 100 0) (Dec 1000 0) (Dec 10 (- 2)) (Dec 5 0) =
      Inr (example_liquidity_result (Dec 5 (- 1)))"
    by (simp add: defs)
  show "liquidity_calculate example_liquidity (Dec 100 0) (Dec 1000 0) (Dec 10 (- 2)) (Dec 20 0) =
      Inr (example_liquidity_result dunit)"
    by (simp add: defs)
qed

theorem liquidity_maximum_evidence_witness:
  "\<exists>q \<in> set (lq_positions (example_liquidity_result (Dec 5 (- 1)))). plq_days_to_liquidate q = Some (Dec 1 1)"
  using liquidity_maximum_evidence [OF example_liquidity_calculated(1)] by (simp add: example_liquidity_result_def)

theorem liquidity_weight_monotone_witness:
  "0 \<le> dval (Dec 1 (- 1)) \<and> dval (Dec 1 (- 1)) \<le> dval (Dec 5 (- 1)) \<and> dval (Dec 5 (- 1)) \<le> dval dunit"
proof -
  have "dval (Dec 5 0) \<le> dval (Dec 20 0)" by (simp add: dval_def)
  moreover have "representable (dval (Dec 100 0))"
    unfolding representable_def by (rule exI [of _ 100], rule exI [of _ 0]) (simp add: dval_def)
  ultimately show ?thesis
    using liquidity_weight_monotone [OF example_liquidity_calculated] by (simp add: example_liquidity_result_def)
qed

end
