(* ===== verification/Schema.thy ===== *)
theory Schema
  imports Models
begin

text \<open>
  The constraints \<open>app/models.py\<close> declares: for every table the column checks (lengths of the
  string columns and the \<open>CheckConstraint\<close>s), the primary key and \<open>UniqueConstraint\<close>s as the
  relation \<open>x_clash\<close> between two rows that cannot both be stored (a NULL never equals another
  NULL), and the foreign keys. A flush of an added object is \<open>insert_x\<close>: it stores the row or
  raises \<open>IntegrityError\<close>. Not modelled: the rounding of a value to the scale of its
  \<open>Numeric(28, s)\<close> column.
\<close>

section \<open>Tables\<close>

definition varchar :: "nat \<Rightarrow> string \<Rightarrow> bool" where
  "varchar n s \<longleftrightarrow> length s \<le> n"

text \<open>\<open>refers key rows v\<close>: some row has the key \<open>v\<close>.\<close>

definition refers :: "('r \<Rightarrow> 'k) \<Rightarrow> 'r list \<Rightarrow> 'k \<Rightarrow> bool" where
  "refers key rows v \<longleftrightarrow> v \<in> key ` set rows"

definition insert_row ::
  "string \<Rightarrow> ('r \<Rightarrow> 'r \<Rightarrow> bool) \<Rightarrow> ('r \<Rightarrow> bool) \<Rightarrow> ('r \<Rightarrow> bool) \<Rightarrow> 'r \<Rightarrow> 'r list \<Rightarrow> app_error + 'r list" where
  "insert_row name clash checks refs r rows =
     (if checks r \<and> refs r \<and> (\<forall>r' \<in> set rows. \<not> clash r' r) then Inr (rows @ [r])
      else Inl (IntegrityError name))"

text \<open>\<open>session.get(Table, key)\<close> and \<open>session.scalar(select(Table).where(p))\<close>: the first row.\<close>

definition first_row :: "('r \<Rightarrow> bool) \<Rightarrow> 'r list \<Rightarrow> 'r option" where
  "first_row p rows = find p rows"

text \<open>An assignment to attributes of the mapped object with the given key, flushed.\<close>

definition update_row :: "('r \<Rightarrow> 'k) \<Rightarrow> 'k \<Rightarrow> ('r \<Rightarrow> 'r) \<Rightarrow> 'r list \<Rightarrow> 'r list" where
  "update_row key k f rows = map (\<lambda>r. if key r = k then f r else r) rows"

text \<open>A table that satisfies its constraints: no two rows clash, every row passes its checks.\<close>

definition table_ok :: "('r \<Rightarrow> 'r \<Rightarrow> bool) \<Rightarrow> ('r \<Rightarrow> bool) \<Rightarrow> 'r list \<Rightarrow> bool" where
  "table_ok clash checks rows \<longleftrightarrow> sorted_wrt (\<lambda>r r'. \<not> clash r r') rows \<and> (\<forall>r \<in> set rows. checks r)"

lemma insert_row_Inr [result_simps]:
  "insert_row name clash checks refs r rows = Inr rows' \<longleftrightarrow>
     checks r \<and> refs r \<and> (\<forall>r' \<in> set rows. \<not> clash r' r) \<and> rows' = rows @ [r]"
  by (auto simp: insert_row_def)

lemma insert_row_Inl [simp]: "insert_row name clash checks refs r rows = Inl e \<longleftrightarrow>
     \<not> (checks r \<and> refs r \<and> (\<forall>r' \<in> set rows. \<not> clash r' r)) \<and> e = IntegrityError name"
  by (auto simp: insert_row_def)

lemma first_row_Some: "first_row p rows = Some r \<Longrightarrow> r \<in> set rows \<and> p r"
  by (auto simp: first_row_def find_Some_iff)

lemma first_row_None: "first_row p rows = None \<longleftrightarrow> (\<forall>r \<in> set rows. \<not> p r)"
  by (auto simp: first_row_def find_None_iff)

lemma first_row_append:
  "first_row p (xs @ ys) = (case first_row p xs of None \<Rightarrow> first_row p ys | Some r \<Rightarrow> Some r)"
  unfolding first_row_def by (induction xs) auto

lemma first_row_simps [simp]:
  "first_row p [] = None"
  "first_row p (r # rs) = (if p r then Some r else first_row p rs)"
  by (simp_all add: first_row_def)

lemma first_row_update:
  "(\<And>r. p (f r) = p r) \<Longrightarrow> first_row p (update_row key k f rows) =
     map_option (\<lambda>r. if key r = k then f r else r) (first_row p rows)"
  by (induction rows) (auto simp: update_row_def)

lemma update_row_fresh: "k \<notin> key ` set rows \<Longrightarrow> update_row key k f rows = rows"
  by (induction rows) (auto simp: update_row_def)

lemma set_update_row: "set (update_row key k f rows) = (\<lambda>r. if key r = k then f r else r) ` set rows"
  by (simp add: update_row_def)

text \<open>
  The contract of a table with a primary key: two rows with the same key clash. A table's
  constraints survive an insert that returns and an update of columns no constraint names.
\<close>

locale keyed_table =
  fixes clash :: "'r \<Rightarrow> 'r \<Rightarrow> bool" and checks :: "'r \<Rightarrow> bool" and key :: "'r \<Rightarrow> 'k"
  assumes clash_key: "key r = key r' \<Longrightarrow> clash r r'"
begin

lemma insert_ok:
  "table_ok clash checks rows \<Longrightarrow> insert_row name clash checks refs r rows = Inr rows' \<Longrightarrow>
     table_ok clash checks rows'"
  by (auto simp: table_ok_def result_simps sorted_wrt_append)

lemma keys_distinct: "table_ok clash checks rows \<Longrightarrow> distinct (map key rows)"
  unfolding table_ok_def by (induction rows) (auto dest: clash_key)

lemma find_key:
  assumes "table_ok clash checks rows" and "r \<in> set rows"
  shows "first_row (\<lambda>r'. key r' = key r) rows = Some r"
  using keys_distinct [OF assms(1)] assms(2) by (induction rows) auto

lemma update_ok:
  assumes "table_ok clash checks rows"
    and "\<And>r. r \<in> set rows \<Longrightarrow> checks r \<Longrightarrow> checks (f r)"
    and "\<And>r r'. clash (f r) r' = clash r r'" and "\<And>r r'. clash r (f r') = clash r r'"
  shows "table_ok clash checks (update_row key k f rows)"
proof -
  have "clash (if b then f r else r) (if b' then f r' else r') = clash r r'" for b b' r r'
    by (simp add: assms(3,4))
  with assms(1,2) show ?thesis by (auto simp: table_ok_def update_row_def sorted_wrt_map)
qed

end

section \<open>Checks and unique constraints\<close>

definition fund_checks :: "fund_row \<Rightarrow> bool" where
  "fund_checks r \<longleftrightarrow>
     varchar 64 (fd_slug r)
     \<and> varchar 160 (fd_name r)
     \<and> varchar 3 (fd_base_currency r)
     \<and> varchar 64 (fd_timezone r)"

definition fund_clash :: "fund_row \<Rightarrow> fund_row \<Rightarrow> bool" where
  "fund_clash r r' \<longleftrightarrow>
     (fd_id r = fd_id r')
     \<or> (fd_slug r = fd_slug r')"

definition user_checks :: "user_row \<Rightarrow> bool" where
  "user_checks r \<longleftrightarrow>
     varchar 320 (usr_email r)
     \<and> varchar 160 (usr_display_name r)"

definition user_clash :: "user_row \<Rightarrow> user_row \<Rightarrow> bool" where
  "user_clash r r' \<longleftrightarrow>
     (usr_id r = usr_id r')
     \<or> (usr_email r = usr_email r')"

definition role_checks :: "role_row \<Rightarrow> bool" where
  "role_checks r \<longleftrightarrow>
     varchar 32 (rl_code r)
     \<and> varchar 80 (rl_name r)"

definition role_clash :: "role_row \<Rightarrow> role_row \<Rightarrow> bool" where
  "role_clash r r' \<longleftrightarrow>
     (rl_id r = rl_id r')
     \<or> (rl_code r = rl_code r')"

definition user_role_checks :: "user_role_row \<Rightarrow> bool" where
  "user_role_checks r \<longleftrightarrow>
     True"

definition user_role_clash :: "user_role_row \<Rightarrow> user_role_row \<Rightarrow> bool" where
  "user_role_clash r r' \<longleftrightarrow>
     (ur_user_id r = ur_user_id r' \<and> ur_role_id r = ur_role_id r' \<and> ur_fund_id r = ur_fund_id r')"

definition instrument_checks :: "instrument_row \<Rightarrow> bool" where
  "instrument_checks r \<longleftrightarrow>
     varchar 24 (ins_symbol r)
     \<and> varchar 200 (ins_name r)
     \<and> varchar 32 (ins_asset_type r)
     \<and> varchar 32 (ins_exchange r)
     \<and> varchar 3 (ins_currency r)"

definition instrument_clash :: "instrument_row \<Rightarrow> instrument_row \<Rightarrow> bool" where
  "instrument_clash r r' \<longleftrightarrow>
     (ins_id r = ins_id r')
     \<or> (ins_symbol r = ins_symbol r' \<and> ins_exchange r = ins_exchange r')"

definition account_checks :: "account_row \<Rightarrow> bool" where
  "account_checks r \<longleftrightarrow>
     varchar 64 (acct_code r)
     \<and> varchar 160 (acct_name r)
     \<and> varchar 3 (acct_currency r)
     \<and> acct_currency r = ''USD''"

definition account_clash :: "account_row \<Rightarrow> account_row \<Rightarrow> bool" where
  "account_clash r r' \<longleftrightarrow>
     (acct_id r = acct_id r')
     \<or> (acct_fund_id r = acct_fund_id r' \<and> acct_code r = acct_code r')
     \<or> (acct_id r = acct_id r' \<and> acct_fund_id r = acct_fund_id r')"

definition import_batch_checks :: "import_batch_row \<Rightarrow> bool" where
  "import_batch_checks r \<longleftrightarrow>
     varchar 64 (ib_source r)
     \<and> pred_option (varchar 255) (ib_filename r)
     \<and> varchar 64 (ib_content_sha256 r)
     \<and> varchar 32 (ib_parser_version r)
     \<and> pred_option (varchar 1000) (ib_failure_summary r)
     \<and> length (ib_content_sha256 r) = 64
     \<and> 0 \<le> ib_total_count r
     \<and> 0 \<le> ib_posted_count r
     \<and> 0 \<le> ib_duplicate_count r
     \<and> 0 \<le> ib_rejected_count r
     \<and> 0 \<le> ib_conflict_count r"

definition import_batch_clash :: "import_batch_row \<Rightarrow> import_batch_row \<Rightarrow> bool" where
  "import_batch_clash r r' \<longleftrightarrow>
     (ib_id r = ib_id r')
     \<or> (ib_fund_id r = ib_fund_id r' \<and> ib_source r = ib_source r' \<and> ib_content_sha256 r = ib_content_sha256 r')"

definition ck_transactions_type_fields :: "transaction_row \<Rightarrow> bool" where
  "ck_transactions_type_fields r \<longleftrightarrow>
     (tx_transaction_type r \<in> {BUY, SELL} \<and> tx_instrument_id r \<noteq> None
        \<and> tx_quantity r \<noteq> None \<and> tx_unit_price r \<noteq> None \<and> tx_amount r = None)
     \<or> (tx_transaction_type r \<in> {CASH_DEPOSIT, CASH_WITHDRAWAL}
        \<and> tx_instrument_id r = None \<and> tx_quantity r = None \<and> tx_unit_price r = None
        \<and> tx_amount r \<noteq> None \<and> deq (tx_fees r) dzero)
     \<or> (tx_transaction_type r = DIVIDEND \<and> tx_instrument_id r \<noteq> None
        \<and> tx_quantity r = None \<and> tx_unit_price r = None \<and> tx_amount r \<noteq> None
        \<and> deq (tx_fees r) dzero)
     \<or> (tx_transaction_type r = FEE \<and> tx_quantity r = None \<and> tx_unit_price r = None
        \<and> tx_amount r \<noteq> None \<and> deq (tx_fees r) dzero)
     \<or> (tx_transaction_type r = OPENING_CASH \<and> tx_instrument_id r = None
        \<and> tx_quantity r = None \<and> tx_unit_price r = None \<and> tx_amount r \<noteq> None
        \<and> deq (tx_fees r) dzero)
     \<or> (tx_transaction_type r = OPENING_POSITION \<and> tx_instrument_id r \<noteq> None
        \<and> tx_quantity r \<noteq> None \<and> tx_amount r = None \<and> deq (tx_fees r) dzero)
     \<or> (tx_transaction_type r = REVERSAL \<and> tx_instrument_id r = None
        \<and> tx_quantity r = None \<and> tx_unit_price r = None \<and> tx_amount r = None
        \<and> deq (tx_fees r) dzero \<and> tx_reverses_transaction_id r \<noteq> None)"

definition transaction_checks :: "transaction_row \<Rightarrow> bool" where
  "transaction_checks r \<longleftrightarrow>
     varchar 3 (tx_currency r)
     \<and> varchar 64 (tx_source r)
     \<and> varchar 160 (tx_external_id r)
     \<and> varchar 64 (tx_normalized_payload_hash r)
     \<and> pred_option (varchar 500) (tx_description r)
     \<and> tx_currency r = ''USD''
     \<and> length (tx_normalized_payload_hash r) = 64
     \<and> dle dzero (tx_fees r)
     \<and> pred_option (\<lambda>q. dlt dzero q) (tx_quantity r)
     \<and> pred_option (\<lambda>p. dlt dzero p) (tx_unit_price r)
     \<and> pred_option (\<lambda>a. dlt dzero a) (tx_amount r)
     \<and> ck_transactions_type_fields r
     \<and> (tx_transaction_type r = REVERSAL) = (tx_reverses_transaction_id r \<noteq> None)"

definition transaction_clash :: "transaction_row \<Rightarrow> transaction_row \<Rightarrow> bool" where
  "transaction_clash r r' \<longleftrightarrow>
     (tx_id r = tx_id r')
     \<or> (tx_fund_id r = tx_fund_id r' \<and> tx_source r = tx_source r' \<and> tx_external_id r = tx_external_id r')
     \<or> (tx_reverses_transaction_id r \<noteq> None \<and> tx_reverses_transaction_id r = tx_reverses_transaction_id r')"

definition import_conflict_checks :: "import_conflict_row \<Rightarrow> bool" where
  "import_conflict_checks r \<longleftrightarrow>
     varchar 64 (ic_source r)
     \<and> varchar 160 (ic_external_id r)
     \<and> varchar 64 (ic_existing_payload_hash r)
     \<and> varchar 64 (ic_incoming_payload_hash r)
     \<and> length (ic_existing_payload_hash r) = 64
     \<and> length (ic_incoming_payload_hash r) = 64"

definition import_conflict_clash :: "import_conflict_row \<Rightarrow> import_conflict_row \<Rightarrow> bool" where
  "import_conflict_clash r r' \<longleftrightarrow>
     (ic_id r = ic_id r')
     \<or> (ic_import_batch_id r = ic_import_batch_id r' \<and> ic_source r = ic_source r' \<and> ic_external_id r = ic_external_id r' \<and> ic_incoming_payload_hash r = ic_incoming_payload_hash r')"

definition import_record_checks :: "import_record_row \<Rightarrow> bool" where
  "import_record_checks r \<longleftrightarrow>
     varchar 255 (ir_source_locator r)
     \<and> varchar 64 (ir_raw_payload_hash r)
     \<and> pred_option (varchar 64) (ir_error_code r)
     \<and> pred_option (varchar 1000) (ir_error_message r)
     \<and> 0 < ir_row_number r
     \<and> length (ir_raw_payload_hash r) = 64"

definition import_record_clash :: "import_record_row \<Rightarrow> import_record_row \<Rightarrow> bool" where
  "import_record_clash r r' \<longleftrightarrow>
     (ir_id r = ir_id r')
     \<or> (ir_import_batch_id r = ir_import_batch_id r' \<and> ir_row_number r = ir_row_number r')"

definition audit_event_checks :: "audit_event_row \<Rightarrow> bool" where
  "audit_event_checks r \<longleftrightarrow>
     varchar 80 (ae_action r)
     \<and> varchar 80 (ae_entity_type r)"

definition audit_event_clash :: "audit_event_row \<Rightarrow> audit_event_row \<Rightarrow> bool" where
  "audit_event_clash r r' \<longleftrightarrow>
     (ae_id r = ae_id r')"

definition portfolio_snapshot_checks :: "portfolio_snapshot_row \<Rightarrow> bool" where
  "portfolio_snapshot_checks r \<longleftrightarrow>
     varchar 64 (snap_calculation_version r)
     \<and> varchar 64 (snap_canonical_input_hash r)
     \<and> 0 < snap_revision r
     \<and> 0 \<le> snap_applied_transaction_count r
     \<and> length (snap_canonical_input_hash r) = 64"

definition portfolio_snapshot_clash :: "portfolio_snapshot_row \<Rightarrow> portfolio_snapshot_row \<Rightarrow> bool" where
  "portfolio_snapshot_clash r r' \<longleftrightarrow>
     (snap_id r = snap_id r')"

definition snapshot_cash_checks :: "snapshot_cash_row \<Rightarrow> bool" where
  "snapshot_cash_checks r \<longleftrightarrow>
     varchar 3 (sc_currency r)
     \<and> sc_currency r = ''USD''"

definition snapshot_cash_clash :: "snapshot_cash_row \<Rightarrow> snapshot_cash_row \<Rightarrow> bool" where
  "snapshot_cash_clash r r' \<longleftrightarrow>
     (sc_id r = sc_id r')
     \<or> (sc_snapshot_id r = sc_snapshot_id r' \<and> sc_account_id r = sc_account_id r' \<and> sc_currency r = sc_currency r')"

definition snapshot_position_checks :: "snapshot_position_row \<Rightarrow> bool" where
  "snapshot_position_checks r \<longleftrightarrow>
     dlt dzero (sp_quantity r)
     \<and> (case sp_cost_basis_status r of Persisted_KNOWN \<Rightarrow> sp_total_cost_basis r \<noteq> None \<and> sp_average_cost r \<noteq> None | Persisted_UNKNOWN \<Rightarrow> sp_total_cost_basis r = None \<and> sp_average_cost r = None)"

definition snapshot_position_clash :: "snapshot_position_row \<Rightarrow> snapshot_position_row \<Rightarrow> bool" where
  "snapshot_position_clash r r' \<longleftrightarrow>
     (sp_id r = sp_id r')
     \<or> (sp_snapshot_id r = sp_snapshot_id r' \<and> sp_account_id r = sp_account_id r' \<and> sp_instrument_id r = sp_instrument_id r')"

definition reconciliation_observation_checks :: "reconciliation_observation_row \<Rightarrow> bool" where
  "reconciliation_observation_checks r \<longleftrightarrow>
     varchar 3 (ob_currency r)
     \<and> varchar 64 (ob_source r)
     \<and> varchar 160 (ob_external_id r)
     \<and> ob_currency r = ''USD''
     \<and> (case ob_kind r of Kind_CASH \<Rightarrow> ob_instrument_id r = None | Kind_POSITION \<Rightarrow> ob_instrument_id r \<noteq> None \<and> dle dzero (ob_reported_value r))"

definition reconciliation_observation_clash :: "reconciliation_observation_row \<Rightarrow> reconciliation_observation_row \<Rightarrow> bool" where
  "reconciliation_observation_clash r r' \<longleftrightarrow>
     (ob_id r = ob_id r')
     \<or> (ob_fund_id r = ob_fund_id r' \<and> ob_source r = ob_source r' \<and> ob_external_id r = ob_external_id r')"

definition reconciliation_run_checks :: "reconciliation_run_row \<Rightarrow> bool" where
  "reconciliation_run_checks r \<longleftrightarrow>
     varchar 64 (rr_evidence_hash r)
     \<and> dle dzero (rr_tolerance r)
     \<and> length (rr_evidence_hash r) = 64"

definition reconciliation_run_clash :: "reconciliation_run_row \<Rightarrow> reconciliation_run_row \<Rightarrow> bool" where
  "reconciliation_run_clash r r' \<longleftrightarrow>
     (rr_id r = rr_id r')
     \<or> (rr_snapshot_id r = rr_snapshot_id r' \<and> deq (rr_tolerance r) (rr_tolerance r') \<and> rr_evidence_hash r = rr_evidence_hash r')"

definition reconciliation_item_checks :: "reconciliation_item_row \<Rightarrow> bool" where
  "reconciliation_item_checks r \<longleftrightarrow>
     True"

definition reconciliation_item_clash :: "reconciliation_item_row \<Rightarrow> reconciliation_item_row \<Rightarrow> bool" where
  "reconciliation_item_clash r r' \<longleftrightarrow>
     (ri_id r = ri_id r')
     \<or> (ri_reconciliation_run_id r = ri_reconciliation_run_id r' \<and> ri_observation_id r = ri_observation_id r')"

definition security_identifier_checks :: "security_identifier_row \<Rightarrow> bool" where
  "security_identifier_checks r \<longleftrightarrow>
     varchar 64 (si_value r)
     \<and> varchar 64 (si_provider r)
     \<and> (case (si_valid_to r, si_valid_from r) of (Some t, Some f) \<Rightarrow> instant f < instant t | _ \<Rightarrow> True)"

definition security_identifier_clash :: "security_identifier_row \<Rightarrow> security_identifier_row \<Rightarrow> bool" where
  "security_identifier_clash r r' \<longleftrightarrow>
     (si_id r = si_id r')
     \<or> (si_scheme r = si_scheme r' \<and> si_value r = si_value r' \<and> si_provider r = si_provider r')"

definition market_data_batch_checks :: "market_data_batch_row \<Rightarrow> bool" where
  "market_data_batch_checks r \<longleftrightarrow>
     varchar 64 (mb_provider r)
     \<and> varchar 64 (mb_dataset r)
     \<and> varchar 64 (mb_request_hash r)
     \<and> length (mb_request_hash r) = 64
     \<and> 0 \<le> mb_inserted_count r
     \<and> 0 \<le> mb_duplicate_count r
     \<and> 0 \<le> mb_conflict_count r"

definition market_data_batch_clash :: "market_data_batch_row \<Rightarrow> market_data_batch_row \<Rightarrow> bool" where
  "market_data_batch_clash r r' \<longleftrightarrow>
     (mb_id r = mb_id r')
     \<or> (mb_provider r = mb_provider r' \<and> mb_dataset r = mb_dataset r' \<and> mb_request_hash r = mb_request_hash r')"

definition market_price_checks :: "market_price_row \<Rightarrow> bool" where
  "market_price_checks r \<longleftrightarrow>
     varchar 64 (mp_provider r)
     \<and> varchar 3 (mp_currency r)
     \<and> varchar 64 (mp_source_identifier r)
     \<and> dlt dzero (mp_price r)
     \<and> mp_currency r = ''USD''"

definition market_price_clash :: "market_price_row \<Rightarrow> market_price_row \<Rightarrow> bool" where
  "market_price_clash r r' \<longleftrightarrow>
     (mp_id r = mp_id r')
     \<or> (mp_instrument_id r = mp_instrument_id r' \<and> mp_provider r = mp_provider r' \<and> mp_price_type r = mp_price_type r' \<and> instant (mp_observed_at r) = instant (mp_observed_at r'))"

definition market_price_conflict_checks :: "market_price_conflict_row \<Rightarrow> bool" where
  "market_price_conflict_checks r \<longleftrightarrow>
     varchar 3 (mpc_incoming_currency r)
     \<and> dlt dzero (mpc_incoming_price r)
     \<and> mpc_incoming_currency r = ''USD''"

definition market_price_conflict_clash :: "market_price_conflict_row \<Rightarrow> market_price_conflict_row \<Rightarrow> bool" where
  "market_price_conflict_clash r r' \<longleftrightarrow>
     (mpc_id r = mpc_id r')
     \<or> (mpc_batch_id r = mpc_batch_id r' \<and> mpc_existing_price_id r = mpc_existing_price_id r' \<and> deq (mpc_incoming_price r) (mpc_incoming_price r'))"

definition instrument_classification_checks :: "instrument_classification_row \<Rightarrow> bool" where
  "instrument_classification_checks r \<longleftrightarrow>
     varchar 80 (cl_sector r)
     \<and> varchar 80 (cl_asset_class r)
     \<and> varchar 80 (cl_geography r)
     \<and> varchar 64 (cl_source r)
     \<and> pred_option (\<lambda>t. instant (cl_effective_from r) < instant t) (cl_effective_to r)"

definition instrument_classification_clash :: "instrument_classification_row \<Rightarrow> instrument_classification_row \<Rightarrow> bool" where
  "instrument_classification_clash r r' \<longleftrightarrow>
     (cl_id r = cl_id r')
     \<or> (cl_instrument_id r = cl_instrument_id r' \<and> instant (cl_effective_from r) = instant (cl_effective_from r'))"

definition risk_policy_checks :: "risk_policy_row \<Rightarrow> bool" where
  "risk_policy_checks r \<longleftrightarrow>
     varchar 160 (rp_name r)
     \<and> 0 < rp_version r
     \<and> pred_option (\<lambda>t. instant (rp_effective_from r) < instant t) (rp_effective_to r)"

definition risk_policy_clash :: "risk_policy_row \<Rightarrow> risk_policy_row \<Rightarrow> bool" where
  "risk_policy_clash r r' \<longleftrightarrow>
     (rp_id r = rp_id r')
     \<or> (rp_fund_id r = rp_fund_id r' \<and> rp_name r = rp_name r' \<and> rp_version r = rp_version r')"

definition risk_policy_rule_checks :: "risk_policy_rule_row \<Rightarrow> bool" where
  "risk_policy_rule_checks r \<longleftrightarrow>
     varchar 160 (rule_metric_key r)
     \<and> varchar 32 (rule_unit r)
     \<and> varchar 500 (rule_explanation_template r)
     \<and> dle dzero (rule_threshold r)"

definition risk_policy_rule_clash :: "risk_policy_rule_row \<Rightarrow> risk_policy_rule_row \<Rightarrow> bool" where
  "risk_policy_rule_clash r r' \<longleftrightarrow>
     (rule_id r = rule_id r')
     \<or> (rule_policy_id r = rule_policy_id r' \<and> rule_metric_key r = rule_metric_key r')"

definition risk_evaluation_checks :: "risk_evaluation_row \<Rightarrow> bool" where
  "risk_evaluation_checks r \<longleftrightarrow>
     varchar 64 (re_input_hash r)
     \<and> varchar 64 (re_calculation_version r)
     \<and> length (re_input_hash r) = 64"

definition risk_evaluation_clash :: "risk_evaluation_row \<Rightarrow> risk_evaluation_row \<Rightarrow> bool" where
  "risk_evaluation_clash r r' \<longleftrightarrow>
     (re_id r = re_id r')
     \<or> (re_policy_id r = re_policy_id r' \<and> instant (re_as_of r) = instant (re_as_of r') \<and> re_input_hash r = re_input_hash r')"

definition risk_evaluation_item_checks :: "risk_evaluation_item_row \<Rightarrow> bool" where
  "risk_evaluation_item_checks r \<longleftrightarrow>
     varchar 32 (rei_unit r)
     \<and> varchar 1000 (rei_explanation r)
     \<and> dle dzero (rei_threshold r)
     \<and> pred_option (\<lambda>b. dle dzero b) (rei_breach_amount r)"

definition risk_evaluation_item_clash :: "risk_evaluation_item_row \<Rightarrow> risk_evaluation_item_row \<Rightarrow> bool" where
  "risk_evaluation_item_clash r r' \<longleftrightarrow>
     (rei_id r = rei_id r')
     \<or> (rei_evaluation_id r = rei_evaluation_id r' \<and> rei_rule_id r = rei_rule_id r')"

definition scenario_definition_checks :: "scenario_definition_row \<Rightarrow> bool" where
  "scenario_definition_checks r \<longleftrightarrow>
     varchar 160 (sd_name r)
     \<and> varchar 1000 (sd_description r)
     \<and> 0 < sd_version r"

definition scenario_definition_clash :: "scenario_definition_row \<Rightarrow> scenario_definition_row \<Rightarrow> bool" where
  "scenario_definition_clash r r' \<longleftrightarrow>
     (sd_id r = sd_id r')
     \<or> (sd_fund_id r = sd_fund_id r' \<and> sd_name r = sd_name r' \<and> sd_version r = sd_version r')"

definition scenario_shock_checks :: "scenario_shock_row \<Rightarrow> bool" where
  "scenario_shock_checks r \<longleftrightarrow>
     varchar 160 (shr_target r)
     \<and> 0 < shr_sequence r"

definition scenario_shock_clash :: "scenario_shock_row \<Rightarrow> scenario_shock_row \<Rightarrow> bool" where
  "scenario_shock_clash r r' \<longleftrightarrow>
     (shr_id r = shr_id r')
     \<or> (shr_scenario_id r = shr_scenario_id r' \<and> shr_sequence r = shr_sequence r')"

definition instrument_risk_sensitivity_checks :: "instrument_risk_sensitivity_row \<Rightarrow> bool" where
  "instrument_risk_sensitivity_checks r \<longleftrightarrow>
     varchar 64 (irs_source r)
     \<and> pred_option (\<lambda>t. instant (irs_effective_from r) < instant t) (irs_effective_to r)
     \<and> pred_option (\<lambda>d. dle dzero d) (irs_rate_duration r)"

definition instrument_risk_sensitivity_clash :: "instrument_risk_sensitivity_row \<Rightarrow> instrument_risk_sensitivity_row \<Rightarrow> bool" where
  "instrument_risk_sensitivity_clash r r' \<longleftrightarrow>
     (irs_id r = irs_id r')
     \<or> (irs_instrument_id r = irs_instrument_id r' \<and> instant (irs_effective_from r) = instant (irs_effective_from r'))"

definition scenario_run_checks :: "scenario_run_row \<Rightarrow> bool" where
  "scenario_run_checks r \<longleftrightarrow>
     varchar 64 (sr_canonical_input_hash r)
     \<and> varchar 64 (sr_calculation_version r)
     \<and> length (sr_canonical_input_hash r) = 64
     \<and> dlt dzero (sr_baseline_value r)
     \<and> dlt dzero (sr_projected_value r)"

definition scenario_run_clash :: "scenario_run_row \<Rightarrow> scenario_run_row \<Rightarrow> bool" where
  "scenario_run_clash r r' \<longleftrightarrow>
     (sr_id r = sr_id r')
     \<or> (sr_scenario_id r = sr_scenario_id r' \<and> instant (sr_as_of r) = instant (sr_as_of r') \<and> sr_canonical_input_hash r = sr_canonical_input_hash r')"

definition scenario_position_result_checks :: "scenario_position_result_row \<Rightarrow> bool" where
  "scenario_position_result_checks r \<longleftrightarrow>
     dle dzero (spr_baseline_market_value r)
     \<and> dle dzero (spr_projected_market_value r)"

definition scenario_position_result_clash :: "scenario_position_result_row \<Rightarrow> scenario_position_result_row \<Rightarrow> bool" where
  "scenario_position_result_clash r r' \<longleftrightarrow>
     (spr_id r = spr_id r')
     \<or> (spr_scenario_run_id r = spr_scenario_run_id r' \<and> spr_instrument_id r = spr_instrument_id r')"

definition investment_proposal_checks :: "investment_proposal_row \<Rightarrow> bool" where
  "investment_proposal_checks r \<longleftrightarrow>
     0 < ip_current_version r
     \<and> 0 < ip_row_version r"

definition investment_proposal_clash :: "investment_proposal_row \<Rightarrow> investment_proposal_row \<Rightarrow> bool" where
  "investment_proposal_clash r r' \<longleftrightarrow>
     (ip_id r = ip_id r')"

definition proposal_version_checks :: "proposal_version_row \<Rightarrow> bool" where
  "proposal_version_checks r \<longleftrightarrow>
     varchar 200 (pv_title r)
     \<and> varchar 5000 (pv_thesis r)
     \<and> varchar 64 (pv_portfolio_input_hash r)
     \<and> varchar 64 (pv_content_hash r)
     \<and> 0 < pv_version r
     \<and> length (pv_portfolio_input_hash r) = 64
     \<and> length (pv_content_hash r) = 64"

definition proposal_version_clash :: "proposal_version_row \<Rightarrow> proposal_version_row \<Rightarrow> bool" where
  "proposal_version_clash r r' \<longleftrightarrow>
     (pv_id r = pv_id r')
     \<or> (pv_proposal_id r = pv_proposal_id r' \<and> pv_version r = pv_version r')"

definition proposal_line_checks :: "proposal_line_row \<Rightarrow> bool" where
  "proposal_line_checks r \<longleftrightarrow>
     varchar 1000 (pl_rationale r)
     \<and> dle dzero (pl_current_weight r)
     \<and> dle (pl_current_weight r) dunit
     \<and> dle dzero (pl_proposed_weight r)
     \<and> dle (pl_proposed_weight r) dunit
     \<and> dle dzero (pl_estimated_notional r)"

definition proposal_line_clash :: "proposal_line_row \<Rightarrow> proposal_line_row \<Rightarrow> bool" where
  "proposal_line_clash r r' \<longleftrightarrow>
     (pl_id r = pl_id r')
     \<or> (pl_proposal_version_id r = pl_proposal_version_id r' \<and> pl_instrument_id r = pl_instrument_id r')"

definition proposal_analysis_checks :: "proposal_analysis_row \<Rightarrow> bool" where
  "proposal_analysis_checks r \<longleftrightarrow>
     varchar 64 (pa_evidence_hash r)
     \<and> length (pa_evidence_hash r) = 64"

definition proposal_analysis_clash :: "proposal_analysis_row \<Rightarrow> proposal_analysis_row \<Rightarrow> bool" where
  "proposal_analysis_clash r r' \<longleftrightarrow>
     (pa_id r = pa_id r')
     \<or> (pa_proposal_version_id r = pa_proposal_version_id r' \<and> pa_evidence_hash r = pa_evidence_hash r')"

definition proposal_review_checks :: "proposal_review_row \<Rightarrow> bool" where
  "proposal_review_checks r \<longleftrightarrow>
     varchar 32 (prv_reviewer_role r)
     \<and> varchar 2000 (prv_comment r)"

definition proposal_review_clash :: "proposal_review_row \<Rightarrow> proposal_review_row \<Rightarrow> bool" where
  "proposal_review_clash r r' \<longleftrightarrow>
     (prv_id r = prv_id r')"

definition proposal_transition_checks :: "proposal_transition_row \<Rightarrow> bool" where
  "proposal_transition_checks r \<longleftrightarrow>
     varchar 32 (pt_actor_role r)
     \<and> pred_option (varchar 2000) (pt_reason r)
     \<and> 0 < pt_resulting_row_version r"

definition proposal_transition_clash :: "proposal_transition_row \<Rightarrow> proposal_transition_row \<Rightarrow> bool" where
  "proposal_transition_clash r r' \<longleftrightarrow>
     (pt_id r = pt_id r')"

definition ai_conversation_checks :: "ai_conversation_row \<Rightarrow> bool" where
  "ai_conversation_checks r \<longleftrightarrow>
     varchar 80 (aic_model r)"

definition ai_conversation_clash :: "ai_conversation_row \<Rightarrow> ai_conversation_row \<Rightarrow> bool" where
  "ai_conversation_clash r r' \<longleftrightarrow>
     (aic_id r = aic_id r')"

definition ai_message_checks :: "ai_message_row \<Rightarrow> bool" where
  "ai_message_checks r \<longleftrightarrow>
     varchar 20000 (aim_content r)
     \<and> varchar 64 (aim_content_hash r)
     \<and> pred_option (varchar 160) (aim_provider_response_id r)
     \<and> length (aim_content_hash r) = 64"

definition ai_message_clash :: "ai_message_row \<Rightarrow> ai_message_row \<Rightarrow> bool" where
  "ai_message_clash r r' \<longleftrightarrow>
     (aim_id r = aim_id r')"

definition ai_tool_call_checks :: "ai_tool_call_row \<Rightarrow> bool" where
  "ai_tool_call_checks r \<longleftrightarrow>
     varchar 160 (atc_provider_call_id r)
     \<and> varchar 80 (atc_tool_name r)
     \<and> pred_option (varchar 64) (atc_result_hash r)
     \<and> pred_option (varchar 2000) (atc_error r)
     \<and> pred_option (\<lambda>h. length h = 64) (atc_result_hash r)"

definition ai_tool_call_clash :: "ai_tool_call_row \<Rightarrow> ai_tool_call_row \<Rightarrow> bool" where
  "ai_tool_call_clash r r' \<longleftrightarrow>
     (atc_id r = atc_id r')
     \<or> (atc_conversation_id r = atc_conversation_id r' \<and> atc_provider_call_id r = atc_provider_call_id r')"

section \<open>Foreign keys\<close>

text \<open>A foreign key is checked after the row is stored: a reference to the row's own table may name the row itself.\<close>

definition user_role_refs :: "database \<Rightarrow> user_role_row \<Rightarrow> bool" where
  "user_role_refs db r \<longleftrightarrow>
     refers usr_id (db_users db) (ur_user_id r)
     \<and> refers rl_id (db_roles db) (ur_role_id r)
     \<and> refers fd_id (db_funds db) (ur_fund_id r)"

definition account_refs :: "database \<Rightarrow> account_row \<Rightarrow> bool" where
  "account_refs db r \<longleftrightarrow>
     refers fd_id (db_funds db) (acct_fund_id r)"

definition import_batch_refs :: "database \<Rightarrow> import_batch_row \<Rightarrow> bool" where
  "import_batch_refs db r \<longleftrightarrow>
     refers fd_id (db_funds db) (ib_fund_id r)
     \<and> pred_option (refers usr_id (db_users db)) (ib_initiated_by_user_id r)"

definition transaction_refs :: "database \<Rightarrow> transaction_row \<Rightarrow> bool" where
  "transaction_refs db r \<longleftrightarrow>
     refers fd_id (db_funds db) (tx_fund_id r)
     \<and> pred_option (refers ins_id (db_instruments db)) (tx_instrument_id r)
     \<and> pred_option (refers ib_id (db_import_batches db)) (tx_import_batch_id r)
     \<and> pred_option (refers usr_id (db_users db)) (tx_created_by_user_id r)
     \<and> pred_option (refers tx_id (db_transactions db @ [r])) (tx_reverses_transaction_id r)
     \<and> refers (\<lambda>a. (acct_id a, acct_fund_id a)) (db_accounts db) (tx_account_id r, tx_fund_id r)"

definition import_conflict_refs :: "database \<Rightarrow> import_conflict_row \<Rightarrow> bool" where
  "import_conflict_refs db r \<longleftrightarrow>
     refers fd_id (db_funds db) (ic_fund_id r)
     \<and> refers ib_id (db_import_batches db) (ic_import_batch_id r)
     \<and> refers tx_id (db_transactions db) (ic_existing_transaction_id r)"

definition import_record_refs :: "database \<Rightarrow> import_record_row \<Rightarrow> bool" where
  "import_record_refs db r \<longleftrightarrow>
     refers ib_id (db_import_batches db) (ir_import_batch_id r)
     \<and> pred_option (refers tx_id (db_transactions db)) (ir_transaction_id r)
     \<and> pred_option (refers ic_id (db_import_conflicts db)) (ir_import_conflict_id r)"

definition audit_event_refs :: "database \<Rightarrow> audit_event_row \<Rightarrow> bool" where
  "audit_event_refs db r \<longleftrightarrow>
     refers fd_id (db_funds db) (ae_fund_id r)
     \<and> pred_option (refers usr_id (db_users db)) (ae_actor_user_id r)"

definition portfolio_snapshot_refs :: "database \<Rightarrow> portfolio_snapshot_row \<Rightarrow> bool" where
  "portfolio_snapshot_refs db r \<longleftrightarrow>
     refers fd_id (db_funds db) (snap_fund_id r)
     \<and> pred_option (refers acct_id (db_accounts db)) (snap_account_id r)
     \<and> pred_option (refers tx_id (db_transactions db)) (snap_last_applied_transaction_id r)
     \<and> pred_option (refers snap_id (db_portfolio_snapshots db @ [r])) (snap_supersedes_snapshot_id r)"

definition snapshot_cash_refs :: "database \<Rightarrow> snapshot_cash_row \<Rightarrow> bool" where
  "snapshot_cash_refs db r \<longleftrightarrow>
     refers snap_id (db_portfolio_snapshots db) (sc_snapshot_id r)
     \<and> refers acct_id (db_accounts db) (sc_account_id r)"

definition snapshot_position_refs :: "database \<Rightarrow> snapshot_position_row \<Rightarrow> bool" where
  "snapshot_position_refs db r \<longleftrightarrow>
     refers snap_id (db_portfolio_snapshots db) (sp_snapshot_id r)
     \<and> refers acct_id (db_accounts db) (sp_account_id r)
     \<and> refers ins_id (db_instruments db) (sp_instrument_id r)"

definition reconciliation_observation_refs :: "database \<Rightarrow> reconciliation_observation_row \<Rightarrow> bool" where
  "reconciliation_observation_refs db r \<longleftrightarrow>
     refers fd_id (db_funds db) (ob_fund_id r)
     \<and> refers acct_id (db_accounts db) (ob_account_id r)
     \<and> pred_option (refers ins_id (db_instruments db)) (ob_instrument_id r)
     \<and> pred_option (refers ib_id (db_import_batches db)) (ob_import_batch_id r)"

definition reconciliation_run_refs :: "database \<Rightarrow> reconciliation_run_row \<Rightarrow> bool" where
  "reconciliation_run_refs db r \<longleftrightarrow>
     refers snap_id (db_portfolio_snapshots db) (rr_snapshot_id r)
     \<and> pred_option (refers usr_id (db_users db)) (rr_created_by_user_id r)"

definition reconciliation_item_refs :: "database \<Rightarrow> reconciliation_item_row \<Rightarrow> bool" where
  "reconciliation_item_refs db r \<longleftrightarrow>
     refers rr_id (db_reconciliation_runs db) (ri_reconciliation_run_id r)
     \<and> refers ob_id (db_reconciliation_observations db) (ri_observation_id r)"

definition security_identifier_refs :: "database \<Rightarrow> security_identifier_row \<Rightarrow> bool" where
  "security_identifier_refs db r \<longleftrightarrow>
     refers ins_id (db_instruments db) (si_instrument_id r)"

definition market_price_refs :: "database \<Rightarrow> market_price_row \<Rightarrow> bool" where
  "market_price_refs db r \<longleftrightarrow>
     refers ins_id (db_instruments db) (mp_instrument_id r)
     \<and> refers mb_id (db_market_data_batches db) (mp_batch_id r)"

definition market_price_conflict_refs :: "database \<Rightarrow> market_price_conflict_row \<Rightarrow> bool" where
  "market_price_conflict_refs db r \<longleftrightarrow>
     refers mb_id (db_market_data_batches db) (mpc_batch_id r)
     \<and> refers mp_id (db_market_prices db) (mpc_existing_price_id r)"

definition instrument_classification_refs :: "database \<Rightarrow> instrument_classification_row \<Rightarrow> bool" where
  "instrument_classification_refs db r \<longleftrightarrow>
     refers ins_id (db_instruments db) (cl_instrument_id r)"

definition risk_policy_refs :: "database \<Rightarrow> risk_policy_row \<Rightarrow> bool" where
  "risk_policy_refs db r \<longleftrightarrow>
     refers fd_id (db_funds db) (rp_fund_id r)
     \<and> pred_option (refers usr_id (db_users db)) (rp_created_by_user_id r)"

definition risk_policy_rule_refs :: "database \<Rightarrow> risk_policy_rule_row \<Rightarrow> bool" where
  "risk_policy_rule_refs db r \<longleftrightarrow>
     refers rp_id (db_risk_policies db) (rule_policy_id r)"

definition risk_evaluation_refs :: "database \<Rightarrow> risk_evaluation_row \<Rightarrow> bool" where
  "risk_evaluation_refs db r \<longleftrightarrow>
     refers fd_id (db_funds db) (re_fund_id r)
     \<and> refers rp_id (db_risk_policies db) (re_policy_id r)"

definition risk_evaluation_item_refs :: "database \<Rightarrow> risk_evaluation_item_row \<Rightarrow> bool" where
  "risk_evaluation_item_refs db r \<longleftrightarrow>
     refers re_id (db_risk_evaluations db) (rei_evaluation_id r)
     \<and> refers rule_id (db_risk_policy_rules db) (rei_rule_id r)"

definition scenario_definition_refs :: "database \<Rightarrow> scenario_definition_row \<Rightarrow> bool" where
  "scenario_definition_refs db r \<longleftrightarrow>
     refers fd_id (db_funds db) (sd_fund_id r)
     \<and> pred_option (refers usr_id (db_users db)) (sd_created_by_user_id r)"

definition scenario_shock_refs :: "database \<Rightarrow> scenario_shock_row \<Rightarrow> bool" where
  "scenario_shock_refs db r \<longleftrightarrow>
     refers sd_id (db_scenario_definitions db) (shr_scenario_id r)"

definition instrument_risk_sensitivity_refs :: "database \<Rightarrow> instrument_risk_sensitivity_row \<Rightarrow> bool" where
  "instrument_risk_sensitivity_refs db r \<longleftrightarrow>
     refers ins_id (db_instruments db) (irs_instrument_id r)"

definition scenario_run_refs :: "database \<Rightarrow> scenario_run_row \<Rightarrow> bool" where
  "scenario_run_refs db r \<longleftrightarrow>
     refers fd_id (db_funds db) (sr_fund_id r)
     \<and> refers sd_id (db_scenario_definitions db) (sr_scenario_id r)
     \<and> refers rp_id (db_risk_policies db) (sr_policy_id r)"

definition scenario_position_result_refs :: "database \<Rightarrow> scenario_position_result_row \<Rightarrow> bool" where
  "scenario_position_result_refs db r \<longleftrightarrow>
     refers sr_id (db_scenario_runs db) (spr_scenario_run_id r)
     \<and> refers ins_id (db_instruments db) (spr_instrument_id r)"

definition investment_proposal_refs :: "database \<Rightarrow> investment_proposal_row \<Rightarrow> bool" where
  "investment_proposal_refs db r \<longleftrightarrow>
     refers fd_id (db_funds db) (ip_fund_id r)
     \<and> refers usr_id (db_users db) (ip_created_by_user_id r)"

definition proposal_version_refs :: "database \<Rightarrow> proposal_version_row \<Rightarrow> bool" where
  "proposal_version_refs db r \<longleftrightarrow>
     refers ip_id (db_investment_proposals db) (pv_proposal_id r)
     \<and> refers usr_id (db_users db) (pv_created_by_user_id r)
     \<and> pred_option (refers pv_id (db_proposal_versions db @ [r])) (pv_supersedes_version_id r)"

definition proposal_line_refs :: "database \<Rightarrow> proposal_line_row \<Rightarrow> bool" where
  "proposal_line_refs db r \<longleftrightarrow>
     refers pv_id (db_proposal_versions db) (pl_proposal_version_id r)
     \<and> refers ins_id (db_instruments db) (pl_instrument_id r)"

definition proposal_analysis_refs :: "database \<Rightarrow> proposal_analysis_row \<Rightarrow> bool" where
  "proposal_analysis_refs db r \<longleftrightarrow>
     refers pv_id (db_proposal_versions db) (pa_proposal_version_id r)
     \<and> refers re_id (db_risk_evaluations db) (pa_risk_evaluation_id r)
     \<and> pred_option (refers sr_id (db_scenario_runs db)) (pa_scenario_run_id r)
     \<and> refers usr_id (db_users db) (pa_recorded_by_user_id r)"

definition proposal_review_refs :: "database \<Rightarrow> proposal_review_row \<Rightarrow> bool" where
  "proposal_review_refs db r \<longleftrightarrow>
     refers ip_id (db_investment_proposals db) (prv_proposal_id r)
     \<and> refers pv_id (db_proposal_versions db) (prv_proposal_version_id r)
     \<and> refers usr_id (db_users db) (prv_reviewer_user_id r)"

definition proposal_transition_refs :: "database \<Rightarrow> proposal_transition_row \<Rightarrow> bool" where
  "proposal_transition_refs db r \<longleftrightarrow>
     refers ip_id (db_investment_proposals db) (pt_proposal_id r)
     \<and> refers pv_id (db_proposal_versions db) (pt_proposal_version_id r)
     \<and> refers usr_id (db_users db) (pt_actor_user_id r)"

definition ai_conversation_refs :: "database \<Rightarrow> ai_conversation_row \<Rightarrow> bool" where
  "ai_conversation_refs db r \<longleftrightarrow>
     refers fd_id (db_funds db) (aic_fund_id r)
     \<and> refers usr_id (db_users db) (aic_actor_user_id r)"

definition ai_message_refs :: "database \<Rightarrow> ai_message_row \<Rightarrow> bool" where
  "ai_message_refs db r \<longleftrightarrow>
     refers aic_id (db_ai_conversations db) (aim_conversation_id r)"

definition ai_tool_call_refs :: "database \<Rightarrow> ai_tool_call_row \<Rightarrow> bool" where
  "ai_tool_call_refs db r \<longleftrightarrow>
     refers aic_id (db_ai_conversations db) (atc_conversation_id r)"

section \<open>Inserting rows\<close>

definition insert_fund :: "database \<Rightarrow> fund_row \<Rightarrow> app_error + database" where
  "insert_fund db r = bindR (insert_row ''funds'' fund_clash fund_checks
     (\<lambda>_. True) r (db_funds db)) (\<lambda>rs. Inr (db\<lparr>db_funds := rs\<rparr>))"

definition insert_user :: "database \<Rightarrow> user_row \<Rightarrow> app_error + database" where
  "insert_user db r = bindR (insert_row ''users'' user_clash user_checks
     (\<lambda>_. True) r (db_users db)) (\<lambda>rs. Inr (db\<lparr>db_users := rs\<rparr>))"

definition insert_role :: "database \<Rightarrow> role_row \<Rightarrow> app_error + database" where
  "insert_role db r = bindR (insert_row ''roles'' role_clash role_checks
     (\<lambda>_. True) r (db_roles db)) (\<lambda>rs. Inr (db\<lparr>db_roles := rs\<rparr>))"

definition insert_user_role :: "database \<Rightarrow> user_role_row \<Rightarrow> app_error + database" where
  "insert_user_role db r = bindR (insert_row ''user_roles'' user_role_clash user_role_checks
     (user_role_refs db) r (db_user_roles db)) (\<lambda>rs. Inr (db\<lparr>db_user_roles := rs\<rparr>))"

definition insert_instrument :: "database \<Rightarrow> instrument_row \<Rightarrow> app_error + database" where
  "insert_instrument db r = bindR (insert_row ''instruments'' instrument_clash instrument_checks
     (\<lambda>_. True) r (db_instruments db)) (\<lambda>rs. Inr (db\<lparr>db_instruments := rs\<rparr>))"

definition insert_account :: "database \<Rightarrow> account_row \<Rightarrow> app_error + database" where
  "insert_account db r = bindR (insert_row ''accounts'' account_clash account_checks
     (account_refs db) r (db_accounts db)) (\<lambda>rs. Inr (db\<lparr>db_accounts := rs\<rparr>))"

definition insert_import_batch :: "database \<Rightarrow> import_batch_row \<Rightarrow> app_error + database" where
  "insert_import_batch db r = bindR (insert_row ''import_batches'' import_batch_clash import_batch_checks
     (import_batch_refs db) r (db_import_batches db)) (\<lambda>rs. Inr (db\<lparr>db_import_batches := rs\<rparr>))"

definition insert_transaction :: "database \<Rightarrow> transaction_row \<Rightarrow> app_error + database" where
  "insert_transaction db r = bindR (insert_row ''transactions'' transaction_clash transaction_checks
     (transaction_refs db) r (db_transactions db)) (\<lambda>rs. Inr (db\<lparr>db_transactions := rs\<rparr>))"

definition insert_import_conflict :: "database \<Rightarrow> import_conflict_row \<Rightarrow> app_error + database" where
  "insert_import_conflict db r = bindR (insert_row ''import_conflicts'' import_conflict_clash import_conflict_checks
     (import_conflict_refs db) r (db_import_conflicts db)) (\<lambda>rs. Inr (db\<lparr>db_import_conflicts := rs\<rparr>))"

definition insert_import_record :: "database \<Rightarrow> import_record_row \<Rightarrow> app_error + database" where
  "insert_import_record db r = bindR (insert_row ''import_records'' import_record_clash import_record_checks
     (import_record_refs db) r (db_import_records db)) (\<lambda>rs. Inr (db\<lparr>db_import_records := rs\<rparr>))"

definition insert_audit_event :: "database \<Rightarrow> audit_event_row \<Rightarrow> app_error + database" where
  "insert_audit_event db r = bindR (insert_row ''audit_events'' audit_event_clash audit_event_checks
     (audit_event_refs db) r (db_audit_events db)) (\<lambda>rs. Inr (db\<lparr>db_audit_events := rs\<rparr>))"

definition insert_portfolio_snapshot :: "database \<Rightarrow> portfolio_snapshot_row \<Rightarrow> app_error + database" where
  "insert_portfolio_snapshot db r = bindR (insert_row ''portfolio_snapshots'' portfolio_snapshot_clash portfolio_snapshot_checks
     (portfolio_snapshot_refs db) r (db_portfolio_snapshots db)) (\<lambda>rs. Inr (db\<lparr>db_portfolio_snapshots := rs\<rparr>))"

definition insert_snapshot_cash :: "database \<Rightarrow> snapshot_cash_row \<Rightarrow> app_error + database" where
  "insert_snapshot_cash db r = bindR (insert_row ''snapshot_cash'' snapshot_cash_clash snapshot_cash_checks
     (snapshot_cash_refs db) r (db_snapshot_cash db)) (\<lambda>rs. Inr (db\<lparr>db_snapshot_cash := rs\<rparr>))"

definition insert_snapshot_position :: "database \<Rightarrow> snapshot_position_row \<Rightarrow> app_error + database" where
  "insert_snapshot_position db r = bindR (insert_row ''snapshot_positions'' snapshot_position_clash snapshot_position_checks
     (snapshot_position_refs db) r (db_snapshot_positions db)) (\<lambda>rs. Inr (db\<lparr>db_snapshot_positions := rs\<rparr>))"

definition insert_reconciliation_observation :: "database \<Rightarrow> reconciliation_observation_row \<Rightarrow> app_error + database" where
  "insert_reconciliation_observation db r = bindR (insert_row ''reconciliation_observations'' reconciliation_observation_clash reconciliation_observation_checks
     (reconciliation_observation_refs db) r (db_reconciliation_observations db)) (\<lambda>rs. Inr (db\<lparr>db_reconciliation_observations := rs\<rparr>))"

definition insert_reconciliation_run :: "database \<Rightarrow> reconciliation_run_row \<Rightarrow> app_error + database" where
  "insert_reconciliation_run db r = bindR (insert_row ''reconciliation_runs'' reconciliation_run_clash reconciliation_run_checks
     (reconciliation_run_refs db) r (db_reconciliation_runs db)) (\<lambda>rs. Inr (db\<lparr>db_reconciliation_runs := rs\<rparr>))"

definition insert_reconciliation_item :: "database \<Rightarrow> reconciliation_item_row \<Rightarrow> app_error + database" where
  "insert_reconciliation_item db r = bindR (insert_row ''reconciliation_items'' reconciliation_item_clash reconciliation_item_checks
     (reconciliation_item_refs db) r (db_reconciliation_items db)) (\<lambda>rs. Inr (db\<lparr>db_reconciliation_items := rs\<rparr>))"

definition insert_security_identifier :: "database \<Rightarrow> security_identifier_row \<Rightarrow> app_error + database" where
  "insert_security_identifier db r = bindR (insert_row ''security_identifiers'' security_identifier_clash security_identifier_checks
     (security_identifier_refs db) r (db_security_identifiers db)) (\<lambda>rs. Inr (db\<lparr>db_security_identifiers := rs\<rparr>))"

definition insert_market_data_batch :: "database \<Rightarrow> market_data_batch_row \<Rightarrow> app_error + database" where
  "insert_market_data_batch db r = bindR (insert_row ''market_data_batches'' market_data_batch_clash market_data_batch_checks
     (\<lambda>_. True) r (db_market_data_batches db)) (\<lambda>rs. Inr (db\<lparr>db_market_data_batches := rs\<rparr>))"

definition insert_market_price :: "database \<Rightarrow> market_price_row \<Rightarrow> app_error + database" where
  "insert_market_price db r = bindR (insert_row ''market_prices'' market_price_clash market_price_checks
     (market_price_refs db) r (db_market_prices db)) (\<lambda>rs. Inr (db\<lparr>db_market_prices := rs\<rparr>))"

definition insert_market_price_conflict :: "database \<Rightarrow> market_price_conflict_row \<Rightarrow> app_error + database" where
  "insert_market_price_conflict db r = bindR (insert_row ''market_price_conflicts'' market_price_conflict_clash market_price_conflict_checks
     (market_price_conflict_refs db) r (db_market_price_conflicts db)) (\<lambda>rs. Inr (db\<lparr>db_market_price_conflicts := rs\<rparr>))"

definition insert_instrument_classification :: "database \<Rightarrow> instrument_classification_row \<Rightarrow> app_error + database" where
  "insert_instrument_classification db r = bindR (insert_row ''instrument_classifications'' instrument_classification_clash instrument_classification_checks
     (instrument_classification_refs db) r (db_instrument_classifications db)) (\<lambda>rs. Inr (db\<lparr>db_instrument_classifications := rs\<rparr>))"

definition insert_risk_policy :: "database \<Rightarrow> risk_policy_row \<Rightarrow> app_error + database" where
  "insert_risk_policy db r = bindR (insert_row ''risk_policies'' risk_policy_clash risk_policy_checks
     (risk_policy_refs db) r (db_risk_policies db)) (\<lambda>rs. Inr (db\<lparr>db_risk_policies := rs\<rparr>))"

definition insert_risk_policy_rule :: "database \<Rightarrow> risk_policy_rule_row \<Rightarrow> app_error + database" where
  "insert_risk_policy_rule db r = bindR (insert_row ''risk_policy_rules'' risk_policy_rule_clash risk_policy_rule_checks
     (risk_policy_rule_refs db) r (db_risk_policy_rules db)) (\<lambda>rs. Inr (db\<lparr>db_risk_policy_rules := rs\<rparr>))"

definition insert_risk_evaluation :: "database \<Rightarrow> risk_evaluation_row \<Rightarrow> app_error + database" where
  "insert_risk_evaluation db r = bindR (insert_row ''risk_evaluations'' risk_evaluation_clash risk_evaluation_checks
     (risk_evaluation_refs db) r (db_risk_evaluations db)) (\<lambda>rs. Inr (db\<lparr>db_risk_evaluations := rs\<rparr>))"

definition insert_risk_evaluation_item :: "database \<Rightarrow> risk_evaluation_item_row \<Rightarrow> app_error + database" where
  "insert_risk_evaluation_item db r = bindR (insert_row ''risk_evaluation_items'' risk_evaluation_item_clash risk_evaluation_item_checks
     (risk_evaluation_item_refs db) r (db_risk_evaluation_items db)) (\<lambda>rs. Inr (db\<lparr>db_risk_evaluation_items := rs\<rparr>))"

definition insert_scenario_definition :: "database \<Rightarrow> scenario_definition_row \<Rightarrow> app_error + database" where
  "insert_scenario_definition db r = bindR (insert_row ''scenario_definitions'' scenario_definition_clash scenario_definition_checks
     (scenario_definition_refs db) r (db_scenario_definitions db)) (\<lambda>rs. Inr (db\<lparr>db_scenario_definitions := rs\<rparr>))"

definition insert_scenario_shock :: "database \<Rightarrow> scenario_shock_row \<Rightarrow> app_error + database" where
  "insert_scenario_shock db r = bindR (insert_row ''scenario_shocks'' scenario_shock_clash scenario_shock_checks
     (scenario_shock_refs db) r (db_scenario_shocks db)) (\<lambda>rs. Inr (db\<lparr>db_scenario_shocks := rs\<rparr>))"

definition insert_instrument_risk_sensitivity :: "database \<Rightarrow> instrument_risk_sensitivity_row \<Rightarrow> app_error + database" where
  "insert_instrument_risk_sensitivity db r = bindR (insert_row ''instrument_risk_sensitivities'' instrument_risk_sensitivity_clash instrument_risk_sensitivity_checks
     (instrument_risk_sensitivity_refs db) r (db_instrument_risk_sensitivities db)) (\<lambda>rs. Inr (db\<lparr>db_instrument_risk_sensitivities := rs\<rparr>))"

definition insert_scenario_run :: "database \<Rightarrow> scenario_run_row \<Rightarrow> app_error + database" where
  "insert_scenario_run db r = bindR (insert_row ''scenario_runs'' scenario_run_clash scenario_run_checks
     (scenario_run_refs db) r (db_scenario_runs db)) (\<lambda>rs. Inr (db\<lparr>db_scenario_runs := rs\<rparr>))"

definition insert_scenario_position_result :: "database \<Rightarrow> scenario_position_result_row \<Rightarrow> app_error + database" where
  "insert_scenario_position_result db r = bindR (insert_row ''scenario_position_results'' scenario_position_result_clash scenario_position_result_checks
     (scenario_position_result_refs db) r (db_scenario_position_results db)) (\<lambda>rs. Inr (db\<lparr>db_scenario_position_results := rs\<rparr>))"

definition insert_investment_proposal :: "database \<Rightarrow> investment_proposal_row \<Rightarrow> app_error + database" where
  "insert_investment_proposal db r = bindR (insert_row ''investment_proposals'' investment_proposal_clash investment_proposal_checks
     (investment_proposal_refs db) r (db_investment_proposals db)) (\<lambda>rs. Inr (db\<lparr>db_investment_proposals := rs\<rparr>))"

definition insert_proposal_version :: "database \<Rightarrow> proposal_version_row \<Rightarrow> app_error + database" where
  "insert_proposal_version db r = bindR (insert_row ''proposal_versions'' proposal_version_clash proposal_version_checks
     (proposal_version_refs db) r (db_proposal_versions db)) (\<lambda>rs. Inr (db\<lparr>db_proposal_versions := rs\<rparr>))"

definition insert_proposal_line :: "database \<Rightarrow> proposal_line_row \<Rightarrow> app_error + database" where
  "insert_proposal_line db r = bindR (insert_row ''proposal_lines'' proposal_line_clash proposal_line_checks
     (proposal_line_refs db) r (db_proposal_lines db)) (\<lambda>rs. Inr (db\<lparr>db_proposal_lines := rs\<rparr>))"

definition insert_proposal_analysis :: "database \<Rightarrow> proposal_analysis_row \<Rightarrow> app_error + database" where
  "insert_proposal_analysis db r = bindR (insert_row ''proposal_analyses'' proposal_analysis_clash proposal_analysis_checks
     (proposal_analysis_refs db) r (db_proposal_analyses db)) (\<lambda>rs. Inr (db\<lparr>db_proposal_analyses := rs\<rparr>))"

definition insert_proposal_review :: "database \<Rightarrow> proposal_review_row \<Rightarrow> app_error + database" where
  "insert_proposal_review db r = bindR (insert_row ''proposal_reviews'' proposal_review_clash proposal_review_checks
     (proposal_review_refs db) r (db_proposal_reviews db)) (\<lambda>rs. Inr (db\<lparr>db_proposal_reviews := rs\<rparr>))"

definition insert_proposal_transition :: "database \<Rightarrow> proposal_transition_row \<Rightarrow> app_error + database" where
  "insert_proposal_transition db r = bindR (insert_row ''proposal_transitions'' proposal_transition_clash proposal_transition_checks
     (proposal_transition_refs db) r (db_proposal_transitions db)) (\<lambda>rs. Inr (db\<lparr>db_proposal_transitions := rs\<rparr>))"

definition insert_ai_conversation :: "database \<Rightarrow> ai_conversation_row \<Rightarrow> app_error + database" where
  "insert_ai_conversation db r = bindR (insert_row ''ai_conversations'' ai_conversation_clash ai_conversation_checks
     (ai_conversation_refs db) r (db_ai_conversations db)) (\<lambda>rs. Inr (db\<lparr>db_ai_conversations := rs\<rparr>))"

definition insert_ai_message :: "database \<Rightarrow> ai_message_row \<Rightarrow> app_error + database" where
  "insert_ai_message db r = bindR (insert_row ''ai_messages'' ai_message_clash ai_message_checks
     (ai_message_refs db) r (db_ai_messages db)) (\<lambda>rs. Inr (db\<lparr>db_ai_messages := rs\<rparr>))"

definition insert_ai_tool_call :: "database \<Rightarrow> ai_tool_call_row \<Rightarrow> app_error + database" where
  "insert_ai_tool_call db r = bindR (insert_row ''ai_tool_calls'' ai_tool_call_clash ai_tool_call_checks
     (ai_tool_call_refs db) r (db_ai_tool_calls db)) (\<lambda>rs. Inr (db\<lparr>db_ai_tool_calls := rs\<rparr>))"

section \<open>Filling a table in one unit of work\<close>

text \<open>
  The contract of \<open>session.add\<close> in a loop: a table of the database (\<open>rows_of\<close>, \<open>put\<close>) whose rows refer to
  other tables only. A loop that inserts a list of rows returns exactly when every row satisfies the
  declared constraints and clashes with no stored row and with no other row of the list.
\<close>

locale child_table =
  fixes rows_of :: "database \<Rightarrow> 'r list" and put :: "'r list \<Rightarrow> database \<Rightarrow> database"
    and name :: string and clash :: "'r \<Rightarrow> 'r \<Rightarrow> bool" and checks :: "'r \<Rightarrow> bool"
    and refs :: "database \<Rightarrow> 'r \<Rightarrow> bool" and insert_one :: "database \<Rightarrow> 'r \<Rightarrow> app_error + database"
  assumes insert_one: "insert_one db r =
      bindR (insert_row name clash checks (refs db) r (rows_of db)) (\<lambda>rs. Inr (put rs db))"
    and rows_put: "rows_of (put rs db) = rs"
    and put_put: "put rs (put rs' db) = put rs db"
    and put_rows: "put (rows_of db) db = db"
    and refs_put: "refs (put rs db) = refs db"
begin

lemma insert_all:
  "foldR insert_one db rs = Inr db' \<longleftrightarrow>
     (\<forall>r \<in> set rs. checks r \<and> refs db r \<and> (\<forall>r' \<in> set (rows_of db). \<not> clash r' r))
     \<and> sorted_wrt (\<lambda>r r'. \<not> clash r r') rs \<and> db' = put (rows_of db @ rs) db"
proof (induction rs arbitrary: db)
  case (Cons r rs)
  have "foldR insert_one db (r # rs) = Inr db' \<longleftrightarrow>
      checks r \<and> refs db r \<and> (\<forall>r' \<in> set (rows_of db). \<not> clash r' r)
      \<and> foldR insert_one (put (rows_of db @ [r]) db) rs = Inr db'"
    by (auto simp: insert_one result_simps)
  then show ?case unfolding Cons.IH by (auto simp: rows_put put_put refs_put)
qed (auto simp: put_rows)

lemma insert_all_rows: "foldR insert_one db rs = Inr db' \<Longrightarrow> db' = put (rows_of db @ rs) db"
  unfolding insert_all by blast

lemma insert_all_Inl: "foldR insert_one db rs = Inl e \<Longrightarrow> e = IntegrityError name"
  by (induction rs arbitrary: db) (auto simp: insert_one bindR_Inl_iff)

end

section \<open>The empty database\<close>

definition empty_database :: database where
  "empty_database =
     \<lparr>db_funds = [], db_users = [], db_roles = [], db_user_roles = [],
      db_instruments = [], db_accounts = [], db_import_batches = [], db_transactions = [],
      db_import_conflicts = [], db_import_records = [], db_audit_events = [], db_portfolio_snapshots = [],
      db_snapshot_cash = [], db_snapshot_positions = [], db_reconciliation_observations = [], db_reconciliation_runs = [],
      db_reconciliation_items = [], db_security_identifiers = [], db_market_data_batches = [], db_market_prices = [],
      db_market_price_conflicts = [], db_instrument_classifications = [], db_risk_policies = [], db_risk_policy_rules = [],
      db_risk_evaluations = [], db_risk_evaluation_items = [], db_scenario_definitions = [], db_scenario_shocks = [],
      db_instrument_risk_sensitivities = [], db_scenario_runs = [], db_scenario_position_results = [], db_investment_proposals = [],
      db_proposal_versions = [], db_proposal_lines = [], db_proposal_analyses = [], db_proposal_reviews = [],
      db_proposal_transitions = [], db_ai_conversations = [], db_ai_messages = [], db_ai_tool_calls = []\<rparr>"

end
