(* ===== verification/Rendering.thy ===== *)
theory Rendering
  imports Decimal
begin

text \<open>
  The renderings that the messages and explanations of the program show: \<open>str\<close> of an integer and of
  a \<open>Decimal\<close>, \<open>isoformat()\<close> of a timestamp, and \<open>str.format\<close> on replacement fields that are bare
  names.
\<close>

section \<open>Numbers\<close>

function nat_text :: "nat \<Rightarrow> string" where
  "nat_text n = (if n < 10 then [hex_char n] else nat_text (n div 10) @ [hex_char (n mod 10)])"
  by pat_completeness auto
termination
  by (relation "measure id") auto

declare nat_text.simps [simp del]

definition int_text :: "int \<Rightarrow> string" where
  "int_text n = (if n < 0 then ''-'' else []) @ nat_text (nat \<bar>n\<bar>)"

text \<open>A number of \<open>w\<close> digits, as \<open>%0wd\<close> pads it.\<close>

definition padded :: "nat \<Rightarrow> int \<Rightarrow> string" where
  "padded w n = (let t = nat_text (nat n) in replicate (w - length t) CHR ''0'' @ t)"

text \<open>\<open>Decimal.__str__\<close>: plain notation for exponents in \<open>(-6 - digits, 0]\<close>, else scientific notation.\<close>

definition dec_text :: "dec \<Rightarrow> string" where
  "dec_text d =
     (let digits = nat_text (nat \<bar>coeff d\<bar>); k = int (length digits); leftdigits = dexp d + k;
          dotplace = (if dexp d \<le> 0 \<and> - 6 < leftdigits then leftdigits else 1) in
      (if coeff d < 0 then ''-'' else [])
      @ (if dotplace \<le> 0 then ''0.'' @ replicate (nat (- dotplace)) CHR ''0'' @ digits
         else if k \<le> dotplace then digits @ replicate (nat (dotplace - k)) CHR ''0''
         else take (nat dotplace) digits @ ''.'' @ drop (nat dotplace) digits)
      @ (if leftdigits = dotplace then []
         else ''E'' @ (if leftdigits < dotplace then ''-'' else ''+'') @ nat_text (nat \<bar>leftdigits - dotplace\<bar>)))"

section \<open>Timestamps\<close>

text \<open>Year, month and day of a day number (day 0 is 1970-01-01) in the proleptic Gregorian calendar.\<close>

definition civil_date :: "int \<Rightarrow> int \<times> int \<times> int" where
  "civil_date days =
     (let z = days + 719468; era = z div 146097; doe = z mod 146097;
          yoe = (doe - doe div 1460 + doe div 36524 - doe div 146096) div 365;
          doy = doe - (365 * yoe + yoe div 4 - yoe div 100);
          mp = (5 * doy + 2) div 153;
          m = (if mp < 10 then mp + 3 else mp - 9) in
      (yoe + era * 400 + (if m \<le> 2 then 1 else 0), m, doy - (153 * mp + 2) div 5 + 1))"

definition date_text :: "int \<Rightarrow> string" where
  "date_text days = (case civil_date days of (y, m, d) \<Rightarrow>
     padded 4 y @ ''-'' @ padded 2 m @ ''-'' @ padded 2 d)"

text \<open>\<open>HH:MM:SS[.ffffff]\<close> of a number of microseconds in a day.\<close>

definition clock_text :: "int \<Rightarrow> string" where
  "clock_text us =
     (let s = us div 1000000; f = us mod 1000000 in
      padded 2 (s div 3600) @ '':'' @ padded 2 (s div 60 mod 60) @ '':'' @ padded 2 (s mod 60)
      @ (if f = 0 then [] else ''.'' @ padded 6 f))"

text \<open>\<open>+HH:MM[:SS[.ffffff]]\<close>\<close>

definition offset_text :: "int \<Rightarrow> string" where
  "offset_text z =
     (let a = \<bar>z\<bar>; s = a div 1000000; f = a mod 1000000 in
      (if z < 0 then ''-'' else ''+'') @ padded 2 (s div 3600) @ '':'' @ padded 2 (s div 60 mod 60)
      @ (if s mod 60 = 0 \<and> f = 0 then [] else '':'' @ padded 2 (s mod 60) @ (if f = 0 then [] else ''.'' @ padded 6 f)))"

definition wall_text :: "int \<Rightarrow> string" where
  "wall_text w = date_text (w div 86400000000) @ ''T'' @ clock_text (w mod 86400000000)"

fun isoformat :: "datetime \<Rightarrow> string" where
  "isoformat (Naive w) = wall_text w"
| "isoformat (Aware t z) = wall_text (t + z) @ offset_text z"

section \<open>Format strings\<close>

text \<open>
  \<open>template.format(**values)\<close> on the templates whose replacement fields are bare names: literal
  text, \<open>{{\<close> and \<open>}}\<close>, and \<open>{name}\<close>. \<open>None\<close> is any other template (a conversion, a format
  specification, an attribute, an index, a positional field, a stray brace).
\<close>

definition field_char :: "char \<Rightarrow> bool" where
  "field_char c \<longleftrightarrow> c \<notin> set ''{}[].!:''"

function plain_format :: "(string \<times> string) list \<Rightarrow> string \<Rightarrow> string option" where
  "plain_format vs t = (case t of
     [] \<Rightarrow> Some []
   | c # rest \<Rightarrow>
       if c = CHR ''{'' \<and> rest \<noteq> [] \<and> hd rest = CHR ''{'' \<or> c = CHR ''}'' \<and> rest \<noteq> [] \<and> hd rest = CHR ''}''
       then map_option ((#) c) (plain_format vs (tl rest))
       else if c = CHR ''{'' then
         (let name = takeWhile field_char rest; after = dropWhile field_char rest in
          if after \<noteq> [] \<and> hd after = CHR ''}'' then
            (case map_of vs name of None \<Rightarrow> None
             | Some v \<Rightarrow> map_option ((@) v) (plain_format vs (tl after)))
          else None)
       else if c = CHR ''}'' then None
       else map_option ((#) c) (plain_format vs rest))"
  by pat_completeness auto
termination
proof (relation "measure (length \<circ> snd)"; (auto; fail)?)
  fix vs :: "(string \<times> string) list" and t c rest name after
  assume "t = c # rest" "after = dropWhile field_char rest"
  then show "((vs, tl after), (vs, t)) \<in> measure (length \<circ> snd)"
    using length_dropWhile_le [of field_char rest] by simp
qed

declare plain_format.simps [simp del]


end
