(* ===== verification/Market_Data.thy ===== *)
theory Market_Data
  imports Schema Rendering
begin

text \<open>
  \<open>app/market_data\<close>: price observations. A provider is its name and the function that answers a
  request; \<open>ids 0\<close> is the identifier of the batch and \<open>ids (k + 1)\<close> the one item \<open>k\<close> of the answer
  takes for the row it adds. Durations are numbers of microseconds.
\<close>

section \<open>Types\<close>

datatype price_ingestion_status = Ingestion_INSERTED | Ingestion_DUPLICATE | Ingestion_CONFLICT

datatype freshness_status = FRESH | STALE

fun price_type_value :: "price_type \<Rightarrow> string" where
  "price_type_value Price_CLOSE = ''CLOSE''"
| "price_type_value Price_ADJUSTED_CLOSE = ''ADJUSTED_CLOSE''"

record price_request =
  pr_identifiers :: "string list"
  pr_start :: datetime
  pr_end :: datetime
  pr_price_type :: price_type

record provider_price =
  pp_identifier :: string
  pp_observed_at :: datetime
  pp_price :: dec
  pp_currency :: string
  pp_price_type :: price_type
  pp_source_metadata :: "json option"

record price_quote =
  pq_observation_id :: uuid
  pq_instrument_id :: uuid
  pq_provider :: string
  pq_price_type :: price_type
  pq_observed_at :: datetime
  pq_received_at :: datetime
  pq_price :: dec
  pq_currency :: string
  pq_source_identifier :: string
  pq_freshness :: freshness_status
  pq_age_seconds :: dec
  pq_source_metadata :: json

record price_ingestion_result =
  pir_identifier :: string
  pir_status :: price_ingestion_status
  pir_observation_id :: "uuid option"
  pir_conflict_id :: "uuid option"

record batch_ingestion_result =
  bir_batch_id :: uuid
  bir_inserted_count :: int
  bir_duplicate_count :: int
  bir_conflict_count :: int
  bir_results :: "price_ingestion_result list"

text \<open>The protocol \<open>MarketDataProvider\<close>.\<close>

record market_data_provider =
  provider_name :: string
  fetch_prices :: "price_request \<Rightarrow> app_error + provider_price list"

section \<open>Validation and identity\<close>

definition market_aware :: "datetime \<Rightarrow> string \<Rightarrow> app_error + unit" where
  "market_aware t name = requireR (is_aware t) (InvalidPriceObservation (name @ '' must be timezone-aware''))"

definition validate_price :: "provider_price \<Rightarrow> app_error + unit" where
  "validate_price item =
     bindR (market_aware (pp_observed_at item) ''observed_at'') (\<lambda>_.
     bindR (requireR (dlt dzero (pp_price item)) (InvalidPriceObservation ''price must be positive'')) (\<lambda>_.
     bindR (requireR (pp_currency item = ''USD'')
       (InvalidPriceObservation ''Phase 2 valuation supports USD prices only'')) (\<lambda>_.
     requireR (strip (pp_identifier item) \<noteq> []) (InvalidPriceObservation ''identifier is required''))))"

definition request_hash :: "digest \<Rightarrow> string \<Rightarrow> price_request \<Rightarrow> string" where
  "request_hash H provider r = H (JObj [
     (''provider'', JStr provider),
     (''identifiers'', JList (map JStr (sort (pr_identifiers r)))),
     (''start'', JTime (to_utc (pr_start r))),
     (''end'', JTime (to_utc (pr_end r))),
     (''price_type'', JStr (price_type_value (pr_price_type r)))])"

text \<open>
  The candidates of \<open>_resolve\<close>: the provider's own identifiers before the general ones (every
  candidate has one of the two provider texts), primary ones first; rows equal in both keep the
  order of the table.
\<close>

definition identifier_candidates :: "database \<Rightarrow> string \<Rightarrow> string \<Rightarrow> security_identifier_row list" where
  "identifier_candidates db provider v =
     sort_key (\<lambda>r. (of_bool (si_provider r \<noteq> provider) :: nat, of_bool (\<not> si_is_primary r) :: nat))
       (filter (\<lambda>r. si_value r = v \<and> si_provider r \<in> {provider, []} \<and> si_scheme r \<in> {Scheme_PROVIDER, Scheme_TICKER})
         (db_security_identifiers db))"

definition valid_at :: "security_identifier_row \<Rightarrow> int \<Rightarrow> bool" where
  "valid_at r t \<longleftrightarrow> (case si_valid_from r of None \<Rightarrow> True | Some f \<Rightarrow> instant f \<le> t)
     \<and> (case si_valid_to r of None \<Rightarrow> True | Some u \<Rightarrow> t < instant u)"

definition resolve_identifier :: "database \<Rightarrow> string \<Rightarrow> string \<Rightarrow> datetime \<Rightarrow> app_error + uuid" where
  "resolve_identifier db provider v observed_at =
     (case find (\<lambda>r. valid_at r (instant observed_at)) (identifier_candidates db provider v) of
        Some r \<Rightarrow> Inr (si_instrument_id r)
      | None \<Rightarrow> Inl (UnknownSecurityIdentifier (''unmapped identifier '' @ provider @ '':'' @ v)))"

text \<open>\<open>metadata or {}\<close>\<close>

definition metadata_or_empty :: "json option \<Rightarrow> json" where
  "metadata_or_empty m = (case m of None \<Rightarrow> JObj [] | Some j \<Rightarrow> j)"

section \<open>Ingestion\<close>

definition stored_price ::
  "database \<Rightarrow> uuid \<Rightarrow> string \<Rightarrow> price_type \<Rightarrow> datetime \<Rightarrow> market_price_row option" where
  "stored_price db instrument_id provider ptype observed_at = first_row (\<lambda>r. mp_instrument_id r = instrument_id
     \<and> mp_provider r = provider \<and> mp_price_type r = ptype \<and> instant (mp_observed_at r) = instant observed_at)
     (db_market_prices db)"

definition ingest_one ::
  "uuid \<Rightarrow> database \<Rightarrow> uuid \<Rightarrow> string \<Rightarrow> datetime \<Rightarrow> provider_price \<Rightarrow> app_error + price_ingestion_result \<times> database" where
  "ingest_one i db batch_id provider received_at item =
     bindR (validate_price item) (\<lambda>_.
     bindR (resolve_identifier db provider (pp_identifier item) (pp_observed_at item)) (\<lambda>instrument_id.
     let observed_at = to_utc (pp_observed_at item) in
     (case stored_price db instrument_id provider (pp_price_type item) observed_at of
        Some existing \<Rightarrow>
          if deq (mp_price existing) (pp_price item) \<and> mp_currency existing = pp_currency item
          then Inr (\<lparr>pir_identifier = pp_identifier item, pir_status = Ingestion_DUPLICATE,
            pir_observation_id = Some (mp_id existing), pir_conflict_id = None\<rparr>, db)
          else
            bindR (insert_market_price_conflict db \<lparr>mpc_id = i, mpc_batch_id = batch_id,
              mpc_existing_price_id = mp_id existing, mpc_incoming_price = pp_price item,
              mpc_incoming_currency = pp_currency item,
              mpc_incoming_metadata = metadata_or_empty (pp_source_metadata item),
              mpc_detected_at = received_at\<rparr>) (\<lambda>db'.
            Inr (\<lparr>pir_identifier = pp_identifier item, pir_status = Ingestion_CONFLICT,
              pir_observation_id = Some (mp_id existing), pir_conflict_id = Some i\<rparr>, db'))
      | None \<Rightarrow>
          bindR (insert_market_price db \<lparr>mp_id = i, mp_instrument_id = instrument_id, mp_batch_id = batch_id,
            mp_provider = provider, mp_price_type = pp_price_type item, mp_observed_at = observed_at,
            mp_received_at = received_at, mp_price = pp_price item, mp_currency = pp_currency item,
            mp_source_identifier = pp_identifier item,
            mp_source_metadata = metadata_or_empty (pp_source_metadata item)\<rparr>) (\<lambda>db'.
          Inr (\<lparr>pir_identifier = pp_identifier item, pir_status = Ingestion_INSERTED,
            pir_observation_id = Some i, pir_conflict_id = None\<rparr>, db')))))"

text \<open>The generator over the provider's answer: item \<open>k\<close> sees the rows the earlier items added.\<close>

definition ingest_items ::
  "(nat \<Rightarrow> uuid) \<Rightarrow> database \<Rightarrow> uuid \<Rightarrow> string \<Rightarrow> datetime \<Rightarrow> provider_price list
     \<Rightarrow> app_error + price_ingestion_result list \<times> database" where
  "ingest_items ids db batch_id provider received_at items =
     foldR (\<lambda>(results, db) (k, item).
         bindR (ingest_one (ids (Suc k)) db batch_id provider received_at item) (\<lambda>(r, db').
         Inr (results @ [r], db')))
       ([], db) (enumerate 0 items)"

definition status_count :: "price_ingestion_status \<Rightarrow> price_ingestion_result list \<Rightarrow> int" where
  "status_count s rs = int (length (filter (\<lambda>r. pir_status r = s) rs))"

definition batch_result :: "database \<Rightarrow> market_data_batch_row \<Rightarrow> batch_ingestion_result" where
  "batch_result db batch =
     \<lparr>bir_batch_id = mb_id batch, bir_inserted_count = mb_inserted_count batch,
      bir_duplicate_count = mb_duplicate_count batch, bir_conflict_count = mb_conflict_count batch,
      bir_results = map (\<lambda>r. \<lparr>pir_identifier = mp_source_identifier r, pir_status = Ingestion_INSERTED,
          pir_observation_id = Some (mp_id r), pir_conflict_id = None\<rparr>)
        (filter (\<lambda>r. mp_batch_id r = mb_id batch) (db_market_prices db))\<rparr>"

definition new_batch :: "uuid \<Rightarrow> string \<Rightarrow> price_request \<Rightarrow> string \<Rightarrow> datetime \<Rightarrow> market_data_batch_row" where
  "new_batch i provider request h received_at =
     \<lparr>mb_id = i, mb_provider = provider, mb_dataset = price_type_value (pr_price_type request),
      mb_request_hash = h, mb_status = MarketBatch_RECEIVED, mb_started_at = received_at,
      mb_completed_at = None, mb_inserted_count = 0, mb_duplicate_count = 0, mb_conflict_count = 0\<rparr>"

definition completed_batch ::
  "market_data_batch_row \<Rightarrow> price_ingestion_result list \<Rightarrow> datetime \<Rightarrow> market_data_batch_row" where
  "completed_batch batch results received_at =
     batch\<lparr>mb_inserted_count := status_count Ingestion_INSERTED results,
       mb_duplicate_count := status_count Ingestion_DUPLICATE results,
       mb_conflict_count := status_count Ingestion_CONFLICT results,
       mb_status := (if status_count Ingestion_CONFLICT results \<noteq> 0
         then MarketBatch_COMPLETED_WITH_CONFLICTS else MarketBatch_COMPLETED),
       mb_completed_at := Some received_at\<rparr>"

definition ingest ::
  "digest \<Rightarrow> (nat \<Rightarrow> uuid) \<Rightarrow> database \<Rightarrow> market_data_provider \<Rightarrow> price_request \<Rightarrow> datetime
     \<Rightarrow> app_error + batch_ingestion_result \<times> database" where
  "ingest H ids db provider request received_at =
     bindR (market_aware received_at ''received_at'') (\<lambda>_.
     bindR (market_aware (pr_start request) ''request.start'') (\<lambda>_.
     bindR (market_aware (pr_end request) ''request.end'') (\<lambda>_.
     bindR (requireR (\<not> instant (pr_end request) < instant (pr_start request))
       (InvalidPriceObservation ''request end precedes start'')) (\<lambda>_.
     let h = request_hash H (provider_name provider) request in
     (case first_row (\<lambda>r. mb_provider r = provider_name provider
         \<and> mb_dataset r = price_type_value (pr_price_type request) \<and> mb_request_hash r = h)
         (db_market_data_batches db) of
        Some existing \<Rightarrow> Inr (batch_result db existing, db)
      | None \<Rightarrow>
          let batch = new_batch (ids 0) (provider_name provider) request h received_at in
          bindR (insert_market_data_batch db batch) (\<lambda>db1.
          bindR (fetch_prices provider request) (\<lambda>items.
          bindR (ingest_items ids db1 (mb_id batch) (provider_name provider) received_at items) (\<lambda>(results, db2).
          let done = completed_batch batch results received_at in
          Inr (\<lparr>bir_batch_id = mb_id done, bir_inserted_count = mb_inserted_count done,
              bir_duplicate_count = mb_duplicate_count done, bir_conflict_count = mb_conflict_count done,
              bir_results = results\<rparr>,
            db2\<lparr>db_market_data_batches := update_row mb_id (mb_id batch) (\<lambda>_. done)
              (db_market_data_batches db2)\<rparr>)))))))))"

section \<open>Quotes\<close>

text \<open>\<open>Decimal(str(age.total_seconds()))\<close>: the seconds with at least one decimal, no other trailing zero.\<close>

definition seconds_decimal :: "int \<Rightarrow> dec" where
  "seconds_decimal us = strip_zeros 5 us (- 6)"

definition quote_candidates ::
  "database \<Rightarrow> uuid \<Rightarrow> datetime \<Rightarrow> string option \<Rightarrow> price_type \<Rightarrow> market_price_row list" where
  "quote_candidates db instrument_id as_of provider ptype =
     sort_key (\<lambda>r. (- instant (mp_observed_at r), mp_provider r, mp_id r))
       (filter (\<lambda>r. mp_instrument_id r = instrument_id \<and> mp_price_type r = ptype
         \<and> instant (mp_observed_at r) \<le> instant as_of
         \<and> (case provider of None \<Rightarrow> True | Some p \<Rightarrow> mp_provider r = p)) (db_market_prices db))"

definition quote_of :: "market_price_row \<Rightarrow> datetime \<Rightarrow> int \<Rightarrow> price_quote" where
  "quote_of r as_of max_age =
     (let observed_at = to_utc (mp_observed_at r); age = instant as_of - instant observed_at in
      \<lparr>pq_observation_id = mp_id r, pq_instrument_id = mp_instrument_id r, pq_provider = mp_provider r,
       pq_price_type = mp_price_type r, pq_observed_at = observed_at, pq_received_at = to_utc (mp_received_at r),
       pq_price = mp_price r, pq_currency = mp_currency r, pq_source_identifier = mp_source_identifier r,
       pq_freshness = (if max_age < age then STALE else FRESH), pq_age_seconds = seconds_decimal age,
       pq_source_metadata = mp_source_metadata r\<rparr>)"

definition latest_quote ::
  "database \<Rightarrow> uuid \<Rightarrow> datetime \<Rightarrow> int \<Rightarrow> string option \<Rightarrow> price_type \<Rightarrow> app_error + price_quote" where
  "latest_quote db instrument_id as_of max_age provider ptype =
     bindR (market_aware as_of ''as_of'') (\<lambda>_.
     bindR (requireR (\<not> max_age < 0) (InvalidPriceObservation ''max_age cannot be negative'')) (\<lambda>_.
     (case quote_candidates db instrument_id as_of provider ptype of
        [] \<Rightarrow> Inl (MissingPriceError (''no '' @ price_type_value ptype @ '' price at or before ''
          @ isoformat as_of @ '' for '' @ uuid_text instrument_id))
      | r # _ \<Rightarrow> Inr (quote_of r as_of max_age))))"

end
