(* ===== verification/Portfolio_Engine.thy ===== *)
theory Portfolio_Engine
  imports Portfolio_Types
begin

text \<open>
  \<open>app/portfolio/engine.py\<close>: \<open>PortfolioEngine.reconstruct\<close> replays a fund's ledger up to an
  instant. The loop's five local collections are the record \<open>engine_state\<close>, its body is
  \<open>engine_step\<close>; every method is a definition of the same name, and every \<open>raise\<close> is an
  \<open>Inl\<close>. The loop's invariant is an interpretation of \<open>step_invariant\<close>.
\<close>

section \<open>State\<close>

definition ENGINE_VERSION :: string where
  "ENGINE_VERSION = ''portfolio-reconstruction-v1''"

record position =
  pos_quantity :: dec
  pos_known_cost :: dec
  pos_uncertainty_count :: int
  pos_source_transaction_ids :: "uuid list"

definition new_position :: position where
  "new_position = \<lparr>pos_quantity = dzero, pos_known_cost = dzero, pos_uncertainty_count = 0,
     pos_source_transaction_ids = []\<rparr>"

record effect =
  eff_transaction_type :: transaction_type
  eff_account_id :: uuid
  eff_instrument_id :: "uuid option"
  eff_cash_delta :: dec
  eff_quantity_delta :: dec
  eff_known_cost_delta :: dec
  eff_uncertainty_delta :: int

record engine_state =
  es_cash :: "(uuid, dec) dict"
  es_positions :: "(uuid \<times> uuid, position) dict"
  es_effects :: "(uuid, effect) dict"
  es_transaction_types :: "(uuid, transaction_type) dict"
  es_reversed_targets :: "uuid set"

definition engine_init :: engine_state where
  "engine_init = \<lparr>es_cash = [], es_positions = [], es_effects = [], es_transaction_types = [],
     es_reversed_targets = {}\<rparr>"

section \<open>Required fields and the shape of a transaction\<close>

definition required_amount :: "ledger_transaction \<Rightarrow> portfolio_error + dec" where
  "required_amount t = (case lt_amount t of
     None \<Rightarrow> Inl (InvalidEngineInput ''positive amount required'' (Some (lt_id t)))
   | Some a \<Rightarrow> if dle a dzero
       then Inl (InvalidEngineInput ''positive amount required'' (Some (lt_id t))) else Inr a)"

definition required_quantity :: "ledger_transaction \<Rightarrow> portfolio_error + dec" where
  "required_quantity t = (case lt_quantity t of
     None \<Rightarrow> Inl (InvalidEngineInput ''positive quantity required'' (Some (lt_id t)))
   | Some q \<Rightarrow> if dle q dzero
       then Inl (InvalidEngineInput ''positive quantity required'' (Some (lt_id t))) else Inr q)"

definition required_price :: "ledger_transaction \<Rightarrow> portfolio_error + dec" where
  "required_price t = (case lt_unit_price t of
     None \<Rightarrow> Inl (InvalidEngineInput ''positive unit price required'' (Some (lt_id t)))
   | Some p \<Rightarrow> if dle p dzero
       then Inl (InvalidEngineInput ''positive unit price required'' (Some (lt_id t))) else Inr p)"

definition required_instrument :: "ledger_transaction \<Rightarrow> portfolio_error + uuid" where
  "required_instrument t = (case lt_instrument_id t of
     None \<Rightarrow> Inl (InvalidEngineInput ''instrument required'' (Some (lt_id t)))
   | Some i \<Rightarrow> Inr i)"

definition required_reversal_target :: "ledger_transaction \<Rightarrow> portfolio_error + uuid" where
  "required_reversal_target t = (case lt_reverses_transaction_id t of
     None \<Rightarrow> Inl (InvalidReversalError ''reversal target required'' (Some (lt_id t)))
   | Some r \<Rightarrow> Inr r)"

definition require_no_position_fields :: "ledger_transaction \<Rightarrow> portfolio_error + unit" where
  "require_no_position_fields t = requireR
     (\<not> (lt_instrument_id t \<noteq> None \<or> lt_quantity t \<noteq> None \<or> lt_unit_price t \<noteq> None
         \<or> lt_reverses_transaction_id t \<noteq> None \<or> \<not> deq (lt_fees t) dzero))
     (InvalidEngineInput ''invalid cash-only fields'' (Some (lt_id t)))"

definition validate_transaction_shape :: "ledger_transaction \<Rightarrow> portfolio_error + unit" where
  "validate_transaction_shape t =
    (if lt_transaction_type t \<in> {BUY, SELL} then
       bindR (required_instrument t) (\<lambda>_.
       bindR (required_quantity t) (\<lambda>_.
       bindR (required_price t) (\<lambda>_.
       requireR (\<not> (lt_amount t \<noteq> None \<or> lt_reverses_transaction_id t \<noteq> None))
         (InvalidEngineInput ''invalid trade fields'' (Some (lt_id t))))))
     else if lt_transaction_type t \<in> {CASH_DEPOSIT, CASH_WITHDRAWAL} then
       bindR (required_amount t) (\<lambda>_. require_no_position_fields t)
     else if lt_transaction_type t = DIVIDEND then
       bindR (required_instrument t) (\<lambda>_.
       bindR (required_amount t) (\<lambda>_.
       requireR (\<not> (lt_quantity t \<noteq> None \<or> lt_unit_price t \<noteq> None
            \<or> \<not> deq (lt_fees t) dzero \<or> lt_reverses_transaction_id t \<noteq> None))
         (InvalidEngineInput ''invalid dividend fields'' (Some (lt_id t)))))
     else if lt_transaction_type t = FEE then
       bindR (required_amount t) (\<lambda>_.
       requireR (\<not> (lt_quantity t \<noteq> None \<or> lt_unit_price t \<noteq> None
            \<or> \<not> deq (lt_fees t) dzero \<or> lt_reverses_transaction_id t \<noteq> None))
         (InvalidEngineInput ''invalid fee fields'' (Some (lt_id t))))
     else if lt_transaction_type t = OPENING_CASH then
       bindR (required_amount t) (\<lambda>_. require_no_position_fields t)
     else if lt_transaction_type t = OPENING_POSITION then
       bindR (required_instrument t) (\<lambda>_.
       bindR (required_quantity t) (\<lambda>_.
       requireR (\<not> (lt_amount t \<noteq> None \<or> \<not> deq (lt_fees t) dzero
            \<or> lt_reverses_transaction_id t \<noteq> None))
         (InvalidEngineInput ''invalid opening-position fields'' (Some (lt_id t)))))
     else if lt_transaction_type t = REVERSAL then
       bindR (required_reversal_target t) (\<lambda>_.
       requireR (\<not> (lt_instrument_id t \<noteq> None \<or> lt_quantity t \<noteq> None \<or> lt_unit_price t \<noteq> None
            \<or> lt_amount t \<noteq> None \<or> \<not> deq (lt_fees t) dzero))
         (InvalidEngineInput ''invalid reversal fields'' (Some (lt_id t))))
     else Inl (InvalidEngineInput ''unsupported transaction type'' None))"

text \<open>The body of the validation loop; \<open>seen\<close> is \<open>seen_ids\<close>.\<close>

definition validate_scope_step ::
  "uuid \<Rightarrow> uuid set \<Rightarrow> ledger_transaction \<Rightarrow> portfolio_error + uuid set" where
  "validate_scope_step fund_id seen t =
     bindR (requireR (lt_id t \<notin> seen)
       (InvalidEngineInput ''duplicate transaction id'' (Some (lt_id t)))) (\<lambda>_.
     bindR (requireR (lt_fund_id t = fund_id)
       (InvalidEngineInput ''all transactions must belong to the requested fund'' None)) (\<lambda>_.
     bindR (requireR (\<not> (\<not> is_aware (lt_effective_at t) \<or> \<not> is_aware (lt_recorded_at t)))
       (InvalidEngineInput ''transaction timestamps must be timezone-aware'' None)) (\<lambda>_.
     bindR (requireR (lt_currency t = ''USD'')
       (InvalidEngineInput ''Phase 1 reconstruction supports USD only'' None)) (\<lambda>_.
     bindR (requireR (\<not> dlt (lt_fees t) dzero)
       (InvalidEngineInput ''fees cannot be negative'' (Some (lt_id t)))) (\<lambda>_.
     bindR (validate_transaction_shape t) (\<lambda>_.
     Inr (insert (lt_id t) seen)))))))"

definition validate_scope_and_timestamps ::
  "uuid \<Rightarrow> ledger_transaction list \<Rightarrow> portfolio_error + unit" where
  "validate_scope_and_timestamps fund_id ts =
     bindR (foldR (validate_scope_step fund_id) {} ts) (\<lambda>_. Inr ())"

section \<open>Effects\<close>

definition cash_effect :: "ledger_transaction \<Rightarrow> dec \<Rightarrow> effect" where
  "cash_effect t amount =
     \<lparr>eff_transaction_type = lt_transaction_type t, eff_account_id = lt_account_id t,
      eff_instrument_id = None, eff_cash_delta = amount, eff_quantity_delta = dzero,
      eff_known_cost_delta = dzero, eff_uncertainty_delta = 0\<rparr>"

definition buy_effect :: "ledger_transaction \<Rightarrow> portfolio_error + effect" where
  "buy_effect t =
     bindR (required_instrument t) (\<lambda>i.
     bindR (required_quantity t) (\<lambda>q.
     bindR (required_price t) (\<lambda>p.
     (let purchase_cost = dadd (dmul q p) (lt_fees t) in
      Inr \<lparr>eff_transaction_type = lt_transaction_type t, eff_account_id = lt_account_id t,
        eff_instrument_id = Some i, eff_cash_delta = dneg purchase_cost,
        eff_quantity_delta = q, eff_known_cost_delta = purchase_cost,
        eff_uncertainty_delta = 0\<rparr>))))"

definition sell_effect ::
  "ledger_transaction \<Rightarrow> (uuid \<times> uuid, position) dict \<Rightarrow> portfolio_error + effect" where
  "sell_effect t positions =
     bindR (required_instrument t) (\<lambda>i.
     bindR (required_quantity t) (\<lambda>q.
     bindR (required_price t) (\<lambda>p.
     (let pos = (case dict_get positions (lt_account_id t, i) of
                   None \<Rightarrow> new_position | Some x \<Rightarrow> x) in
      if dlt (pos_quantity pos) q
      then Inl (NegativeHoldingError (lt_id t) ''sell exceeds available quantity'')
      else
        let sale_cash = dsub (dmul q p) (lt_fees t) in
        bindR
          (if pos_uncertainty_count pos = 0 then
             if deq (pos_quantity pos) dzero
             then Inl (NegativeHoldingError (lt_id t) ''sell has no available quantity'')
             else Inr (ddiv (dmul (pos_known_cost pos) q) (pos_quantity pos), 0)
           else Inr (if deq q (pos_quantity pos) then pos_known_cost pos else dzero, 1))
          (\<lambda>(basis_removed, uncertainty_delta).
          Inr \<lparr>eff_transaction_type = lt_transaction_type t, eff_account_id = lt_account_id t,
            eff_instrument_id = Some i, eff_cash_delta = sale_cash,
            eff_quantity_delta = dneg q, eff_known_cost_delta = dneg basis_removed,
            eff_uncertainty_delta = uncertainty_delta\<rparr>)))))"

definition opening_position_effect :: "ledger_transaction \<Rightarrow> portfolio_error + effect" where
  "opening_position_effect t =
     bindR (required_instrument t) (\<lambda>i.
     bindR (required_quantity t) (\<lambda>q.
     (let (known_cost, uncertainty_delta) = (case lt_unit_price t of
            None \<Rightarrow> (dzero, 1) | Some p \<Rightarrow> (dmul q p, 0)) in
      Inr \<lparr>eff_transaction_type = lt_transaction_type t, eff_account_id = lt_account_id t,
        eff_instrument_id = Some i, eff_cash_delta = dzero,
        eff_quantity_delta = q, eff_known_cost_delta = known_cost,
        eff_uncertainty_delta = uncertainty_delta\<rparr>)))"

fun apply_original ::
  "ledger_transaction \<Rightarrow> (uuid \<times> uuid, position) dict \<Rightarrow> portfolio_error + effect" where
  "apply_original t positions = (case lt_transaction_type t of
     OPENING_CASH \<Rightarrow> bindR (required_amount t) (\<lambda>a. Inr (cash_effect t a))
   | CASH_DEPOSIT \<Rightarrow> bindR (required_amount t) (\<lambda>a. Inr (cash_effect t a))
   | CASH_WITHDRAWAL \<Rightarrow> bindR (required_amount t) (\<lambda>a. Inr (cash_effect t (dneg a)))
   | DIVIDEND \<Rightarrow> bindR (required_instrument t) (\<lambda>_.
       bindR (required_amount t) (\<lambda>a. Inr (cash_effect t a)))
   | FEE \<Rightarrow> bindR (required_amount t) (\<lambda>a. Inr (cash_effect t (dneg a)))
   | BUY \<Rightarrow> buy_effect t
   | SELL \<Rightarrow> sell_effect t positions
   | OPENING_POSITION \<Rightarrow> opening_position_effect t
   | REVERSAL \<Rightarrow> Inl (InvalidEngineInput ''unsupported transaction type'' None))"

definition inverse_effect :: "effect \<Rightarrow> effect" where
  "inverse_effect target =
     \<lparr>eff_transaction_type = REVERSAL, eff_account_id = eff_account_id target,
      eff_instrument_id = eff_instrument_id target,
      eff_cash_delta = dneg (eff_cash_delta target),
      eff_quantity_delta = dneg (eff_quantity_delta target),
      eff_known_cost_delta = dneg (eff_known_cost_delta target),
      eff_uncertainty_delta = - eff_uncertainty_delta target\<rparr>"

definition reversal_effect ::
  "ledger_transaction \<Rightarrow> (uuid, effect) dict \<Rightarrow> (uuid, transaction_type) dict \<Rightarrow> uuid set
     \<Rightarrow> portfolio_error + effect" where
  "reversal_effect t effects transaction_types reversed_targets =
     bindR (required_reversal_target t) (\<lambda>target_id.
     (case dict_get effects target_id of
        None \<Rightarrow> Inl (InvalidReversalError
          ''reversal target was not applied before reversal'' (Some target_id))
      | Some target \<Rightarrow>
          if dict_get transaction_types target_id = Some REVERSAL
          then Inl (InvalidReversalError ''a reversal cannot target another reversal'' None)
          else if target_id \<in> reversed_targets
          then Inl (InvalidReversalError ''transaction already reversed'' (Some target_id))
          else if eff_account_id target \<noteq> lt_account_id t
          then Inl (InvalidReversalError ''reversal must use the target account'' None)
          else Inr (inverse_effect target)))"

definition position_after :: "uuid \<Rightarrow> effect \<Rightarrow> position \<Rightarrow> portfolio_error + position" where
  "position_after transaction_id e p =
     (let new_quantity = dadd (pos_quantity p) (eff_quantity_delta e) in
      if dlt new_quantity dzero
      then Inl (NegativeHoldingError transaction_id ''transaction creates a negative holding'')
      else let new_cost = dadd (pos_known_cost p) (eff_known_cost_delta e) in
      if dlt new_cost dzero then Inl (NegativeCostBasisError transaction_id)
      else let new_uncertainty = pos_uncertainty_count p + eff_uncertainty_delta e in
      if new_uncertainty < 0
      then Inl (InvalidReversalError ''reversal removed cost-basis uncertainty that was absent'' None)
      else Inr \<lparr>pos_quantity = new_quantity, pos_known_cost = new_cost,
        pos_uncertainty_count = new_uncertainty,
        pos_source_transaction_ids = pos_source_transaction_ids p @ [transaction_id]\<rparr>)"

definition apply_position_effect ::
  "uuid \<Rightarrow> effect \<Rightarrow> uuid \<Rightarrow> (uuid \<times> uuid, position) dict
     \<Rightarrow> portfolio_error + (uuid \<times> uuid, position) dict" where
  "apply_position_effect transaction_id e instrument_id positions =
     (let k = (eff_account_id e, instrument_id);
          ps = dict_setdefault k new_position positions in
      bindR (position_after transaction_id e (the (dict_get ps k)))
        (\<lambda>p. Inr (dict_set k p ps)))"

section \<open>The loop\<close>

text \<open>
  One iteration. A failed iteration loses its intermediate writes with the exception, which the
  callers never catch between iterations.
\<close>

definition transaction_effect ::
  "engine_state \<Rightarrow> ledger_transaction \<Rightarrow> portfolio_error + effect \<times> engine_state" where
  "transaction_effect s t =
     (if lt_transaction_type t = REVERSAL then
        bindR (reversal_effect t (es_effects s) (es_transaction_types s) (es_reversed_targets s)) (\<lambda>e.
        bindR (required_reversal_target t) (\<lambda>target_id.
        Inr (e, s\<lparr>es_reversed_targets := insert target_id (es_reversed_targets s)\<rparr>)))
      else
        bindR (apply_original t (es_positions s)) (\<lambda>e.
        Inr (e, s\<lparr>es_effects := dict_set (lt_id t) e (es_effects s),
          es_transaction_types :=
            dict_set (lt_id t) (lt_transaction_type t) (es_transaction_types s)\<rparr>)))"

definition engine_step :: "engine_state \<Rightarrow> ledger_transaction \<Rightarrow> portfolio_error + engine_state" where
  "engine_step s t =
     (let cash = dict_setdefault (lt_account_id t) dzero (es_cash s) in
      bindR (transaction_effect s t) (\<lambda>(e, s').
      (case dict_get cash (eff_account_id e) of
         None \<Rightarrow> Inl (PyKeyError (eff_account_id e))
       | Some c \<Rightarrow>
           let cash' = dict_set (eff_account_id e) (dadd c (eff_cash_delta e)) cash in
           (case eff_instrument_id e of
              None \<Rightarrow> Inr (s'\<lparr>es_cash := cash'\<rparr>)
            | Some i \<Rightarrow> bindR (apply_position_effect (lt_id t) e i (es_positions s))
                (\<lambda>ps. Inr (s'\<lparr>es_cash := cash', es_positions := ps\<rparr>))))))"

section \<open>Output\<close>

definition position_state_of :: "(uuid \<times> uuid) \<times> position \<Rightarrow> position_state" where
  "position_state_of kp = (case kp of ((account_id, instrument_id), p) \<Rightarrow>
     \<lparr>ps_account_id = account_id, ps_instrument_id = instrument_id, ps_quantity = pos_quantity p,
      ps_total_cost_basis = (if pos_uncertainty_count p \<noteq> 0 then None else Some (pos_known_cost p)),
      ps_average_cost = (if pos_uncertainty_count p \<noteq> 0 then None
        else Some (ddiv (pos_known_cost p) (pos_quantity p))),
      ps_cost_basis_status = (if pos_uncertainty_count p \<noteq> 0 then UNKNOWN else KNOWN),
      ps_source_transaction_ids = pos_source_transaction_ids p\<rparr>)"

definition positions_out :: "(uuid \<times> uuid, position) dict \<Rightarrow> position_state list" where
  "positions_out positions =
     map position_state_of
       (filter (\<lambda>kp. \<not> deq (pos_quantity (snd kp)) dzero) (sort_key fst positions))"

definition portfolio_warnings ::
  "cash_balance list \<Rightarrow> position_state list \<Rightarrow> portfolio_warning list" where
  "portfolio_warnings cash positions = sort
     (map (\<lambda>b. NEGATIVE_CASH (cb_account_id b)) (filter (\<lambda>b. dlt (cb_amount b) dzero) cash)
      @ map (\<lambda>p. UNKNOWN_COST_BASIS (ps_account_id p) (ps_instrument_id p))
          (filter (\<lambda>p. ps_cost_basis_status p = UNKNOWN) positions))"

definition input_hash ::
  "digest \<Rightarrow> uuid \<Rightarrow> uuid option \<Rightarrow> datetime \<Rightarrow> ledger_transaction list \<Rightarrow> string" where
  "input_hash H fund_id account_id as_of ordered = H (JObj [
     (''fund_id'', JUuid fund_id),
     (''account_id'', json_opt JUuid account_id),
     (''as_of'', JTime as_of),
     (''calculation_version'', JStr ENGINE_VERSION),
     (''transactions'', JList (map lt_canonical_dict ordered))])"

definition transaction_key :: "ledger_transaction \<Rightarrow> int \<times> int \<times> uuid" where
  "transaction_key t = (instant (lt_effective_at t), instant (lt_recorded_at t), lt_id t)"

definition included_transactions ::
  "datetime \<Rightarrow> uuid option \<Rightarrow> ledger_transaction list \<Rightarrow> ledger_transaction list" where
  "included_transactions as_of account_id ts = filter (\<lambda>t.
     instant (lt_effective_at t) \<le> instant as_of
     \<and> (account_id = None \<or> account_id = Some (lt_account_id t))) ts"

definition ordered_transactions ::
  "datetime \<Rightarrow> uuid option \<Rightarrow> ledger_transaction list \<Rightarrow> ledger_transaction list" where
  "ordered_transactions as_of account_id ts =
     sort_key transaction_key (included_transactions as_of account_id ts)"

text \<open>The part after the loop.\<close>

definition portfolio_output ::
  "digest \<Rightarrow> uuid \<Rightarrow> uuid option \<Rightarrow> datetime \<Rightarrow> ledger_transaction list \<Rightarrow> engine_state
     \<Rightarrow> portfolio_state" where
  "portfolio_output H fund_id account_id as_of ordered s =
     (let output_positions = positions_out (es_positions s);
          cash_by_account = map (\<lambda>(a, c). \<lparr>cb_account_id = a, cb_currency = ''USD'', cb_amount = c\<rparr>)
            (sort_key fst (es_cash s));
          applied_ids = map lt_id ordered in
      \<lparr>pf_fund_id = fund_id, pf_account_id = account_id, pf_currency = ''USD'',
       pf_cash = dsum (map snd (es_cash s)),
       pf_cash_by_account = cash_by_account,
       pf_positions = output_positions,
       pf_warnings = portfolio_warnings cash_by_account output_positions,
       pf_metadata = \<lparr>md_as_of = as_of, md_calculation_version = ENGINE_VERSION,
         md_canonical_input_hash = input_hash H fund_id account_id as_of ordered,
         md_applied_transaction_count = length ordered,
         md_applied_transaction_ids = applied_ids,
         md_last_applied_transaction_id = (if applied_ids \<noteq> [] then Some (last applied_ids) else None)\<rparr>\<rparr>)"

definition reconstruct ::
  "digest \<Rightarrow> uuid \<Rightarrow> ledger_transaction list \<Rightarrow> datetime \<Rightarrow> uuid option
     \<Rightarrow> portfolio_error + portfolio_state" where
  "reconstruct H fund_id supplied as_of account_id =
     bindR (requireR (is_aware as_of)
       (InvalidEngineInput ''as_of must be timezone-aware'' None)) (\<lambda>_.
     bindR (validate_scope_and_timestamps fund_id supplied) (\<lambda>_.
     (let ordered = ordered_transactions as_of account_id supplied in
      bindR (foldR engine_step engine_init ordered) (\<lambda>s.
      Inr (portfolio_output H fund_id account_id as_of ordered s)))))"

end
