(* ===== verification/Snapshots.thy ===== *)
theory Snapshots
  imports Schema Portfolio_Engine
begin

text \<open>
  \<open>app/snapshots\<close>: persisted portfolio states (\<open>service.py\<close>) and their reconciliation with
  reported values (\<open>reconciliation.py\<close>). \<open>ids\<close> and \<open>clock\<close> number the results of the calls of
  \<open>uuid4()\<close> and of the clock in the order the method makes them. In a stored state a leaf that is
  the rendering of an identifier or a timestamp is that value, so \<open>UUID(text)\<close> and
  \<open>fromisoformat(text)\<close> read it back; any other text is a \<open>JStr\<close>, on which they raise.
\<close>

section \<open>Reading the ledger\<close>

definition domain_transaction :: "transaction_row \<Rightarrow> ledger_transaction" where
  "domain_transaction r =
     \<lparr>lt_id = tx_id r, lt_fund_id = tx_fund_id r, lt_account_id = tx_account_id r,
      lt_transaction_type = tx_transaction_type r, lt_effective_at = as_utc (tx_effective_at r),
      lt_recorded_at = as_utc (tx_recorded_at r), lt_source = tx_source r,
      lt_external_id = tx_external_id r, lt_instrument_id = tx_instrument_id r,
      lt_quantity = tx_quantity r, lt_unit_price = tx_unit_price r, lt_amount = tx_amount r,
      lt_fees = tx_fees r, lt_currency = tx_currency r, lt_trade_date = tx_trade_date r,
      lt_settlement_date = tx_settlement_date r,
      lt_reverses_transaction_id = tx_reverses_transaction_id r\<rparr>"

definition fund_ledger :: "database \<Rightarrow> uuid \<Rightarrow> uuid option \<Rightarrow> ledger_transaction list" where
  "fund_ledger db fund_id account_id = map domain_transaction (filter (\<lambda>r. tx_fund_id r = fund_id
     \<and> (case account_id of None \<Rightarrow> True | Some a \<Rightarrow> tx_account_id r = a)) (db_transactions db))"

definition ledger_by_ids :: "database \<Rightarrow> uuid list \<Rightarrow> app_error + ledger_transaction list" where
  "ledger_by_ids db ids =
     (if ids = [] then Inr []
      else let rows = filter (\<lambda>r. tx_id r \<in> set ids) (db_transactions db) in
        if length rows \<noteq> length ids
        then Inl (SnapshotError ''snapshot ledger evidence is incomplete'')
        else Inr (map domain_transaction rows))"

definition run_engine ::
  "digest \<Rightarrow> uuid \<Rightarrow> ledger_transaction list \<Rightarrow> datetime \<Rightarrow> uuid option \<Rightarrow> app_error + portfolio_state" where
  "run_engine H fund_id ts as_of account_id = (case reconstruct H fund_id ts as_of account_id of
     Inl e \<Rightarrow> Inl (PortfolioReconstructionError e) | Inr s \<Rightarrow> Inr s)"

section \<open>Snapshot service\<close>

datatype snapshot_outcome = Outcome_CREATED | Outcome_REUSED | Outcome_REVISED

record snapshot_result =
  sres_outcome :: snapshot_outcome
  sres_snapshot :: portfolio_snapshot_row

record snapshot_verification =
  sv_snapshot_id :: uuid
  sv_reproducible :: bool
  sv_expected_input_hash :: string
  sv_actual_input_hash :: string

definition current_snapshot ::
  "database \<Rightarrow> uuid \<Rightarrow> uuid option \<Rightarrow> datetime \<Rightarrow> portfolio_snapshot_row option" where
  "current_snapshot db fund_id account_id as_of = first_row (\<lambda>r. snap_fund_id r = fund_id
     \<and> instant (snap_as_of r) = instant as_of \<and> snap_status r = Snapshot_CURRENT
     \<and> snap_account_id r = account_id) (db_portfolio_snapshots db)"

definition snapshot_cash_of :: "uuid \<Rightarrow> uuid \<Rightarrow> cash_balance \<Rightarrow> snapshot_cash_row" where
  "snapshot_cash_of i snapshot_id b =
     \<lparr>sc_id = i, sc_snapshot_id = snapshot_id, sc_account_id = cb_account_id b,
      sc_currency = cb_currency b, sc_amount = cb_amount b\<rparr>"

fun persisted_status :: "cost_basis_status \<Rightarrow> cost_basis_persistence_status" where
  "persisted_status KNOWN = Persisted_KNOWN"
| "persisted_status UNKNOWN = Persisted_UNKNOWN"

definition snapshot_position_of :: "uuid \<Rightarrow> uuid \<Rightarrow> position_state \<Rightarrow> snapshot_position_row" where
  "snapshot_position_of i snapshot_id p =
     \<lparr>sp_id = i, sp_snapshot_id = snapshot_id, sp_account_id = ps_account_id p,
      sp_instrument_id = ps_instrument_id p, sp_quantity = ps_quantity p,
      sp_total_cost_basis = ps_total_cost_basis p, sp_average_cost = ps_average_cost p,
      sp_cost_basis_status = persisted_status (ps_cost_basis_status p),
      sp_source_transaction_ids = JList (map JUuid (ps_source_transaction_ids p))\<rparr>"

text \<open>The object \<open>create\<close> adds, its evidence rows, and the database after the last flush.\<close>

definition new_snapshot ::
  "(nat \<Rightarrow> uuid) \<Rightarrow> (nat \<Rightarrow> datetime) \<Rightarrow> uuid \<Rightarrow> uuid option \<Rightarrow> datetime \<Rightarrow> portfolio_state
     \<Rightarrow> portfolio_snapshot_row option \<Rightarrow> portfolio_snapshot_row" where
  "new_snapshot ids clock fund_id account_id as_of state current =
     \<lparr>snap_id = ids 0, snap_fund_id = fund_id, snap_account_id = account_id, snap_as_of = as_of,
      snap_revision = (case current of None \<Rightarrow> 1 | Some c \<Rightarrow> snap_revision c + 1),
      snap_status = Snapshot_CURRENT,
      snap_calculation_version = md_calculation_version (pf_metadata state),
      snap_canonical_input_hash = md_canonical_input_hash (pf_metadata state),
      snap_canonical_state = pf_canonical_dict state,
      snap_applied_transaction_count = int (md_applied_transaction_count (pf_metadata state)),
      snap_last_applied_transaction_id = md_last_applied_transaction_id (pf_metadata state),
      snap_supersedes_snapshot_id = map_option snap_id current, snap_created_at = clock 0\<rparr>"

definition snapshot_audit ::
  "(nat \<Rightarrow> uuid) \<Rightarrow> nat \<Rightarrow> (nat \<Rightarrow> datetime) \<Rightarrow> uuid option \<Rightarrow> portfolio_snapshot_row \<Rightarrow> audit_event_row" where
  "snapshot_audit ids n clock actor snapshot =
     \<lparr>ae_id = ids n, ae_fund_id = snap_fund_id snapshot, ae_actor_user_id = actor,
      ae_action = ''PORTFOLIO_SNAPSHOT_CREATED'', ae_entity_type = ''PortfolioSnapshot'',
      ae_entity_id = snap_id snapshot, ae_occurred_at = clock 1,
      ae_details = JObj [
        (''revision'', JInt (snap_revision snapshot)),
        (''as_of'', JTime (snap_as_of snapshot)),
        (''canonical_input_hash'', JStr (snap_canonical_input_hash snapshot)),
        (''supersedes_snapshot_id'', json_opt JUuid (snap_supersedes_snapshot_id snapshot))]\<rparr>"

definition store_snapshot ::
  "(nat \<Rightarrow> uuid) \<Rightarrow> (nat \<Rightarrow> datetime) \<Rightarrow> uuid option \<Rightarrow> portfolio_state \<Rightarrow> portfolio_snapshot_row
     \<Rightarrow> database \<Rightarrow> app_error + database" where
  "store_snapshot ids clock actor state snapshot db =
     (let cash = pf_cash_by_account state; positions = pf_positions state;
          n = length cash; m = length positions in
      bindR (insert_portfolio_snapshot db snapshot) (\<lambda>db1.
      bindR (foldR insert_snapshot_cash db1
        (map (\<lambda>(i, b). snapshot_cash_of (ids (Suc i)) (snap_id snapshot) b) (enumerate 0 cash))) (\<lambda>db2.
      bindR (foldR insert_snapshot_position db2
        (map (\<lambda>(i, p). snapshot_position_of (ids (Suc (n + i))) (snap_id snapshot) p)
          (enumerate 0 positions))) (\<lambda>db3.
      insert_audit_event db3 (snapshot_audit ids (Suc (n + m)) clock actor snapshot)))))"

definition supersede :: "portfolio_snapshot_row option \<Rightarrow> database \<Rightarrow> database" where
  "supersede current db = (case current of None \<Rightarrow> db
     | Some c \<Rightarrow> db\<lparr>db_portfolio_snapshots := update_row snap_id (snap_id c)
         (\<lambda>r. r\<lparr>snap_status := Snapshot_SUPERSEDED\<rparr>) (db_portfolio_snapshots db)\<rparr>)"

definition snapshot_service_create ::
  "digest \<Rightarrow> (nat \<Rightarrow> uuid) \<Rightarrow> (nat \<Rightarrow> datetime) \<Rightarrow> database \<Rightarrow> uuid \<Rightarrow> datetime \<Rightarrow> uuid option
     \<Rightarrow> uuid option \<Rightarrow> app_error + snapshot_result \<times> database" where
  "snapshot_service_create H ids clock db fund_id as_of account_id actor =
     bindR (run_engine H fund_id (fund_ledger db fund_id account_id) as_of account_id) (\<lambda>state.
     let current = current_snapshot db fund_id account_id as_of in
     if (case current of None \<Rightarrow> False
         | Some c \<Rightarrow> snap_canonical_input_hash c = md_canonical_input_hash (pf_metadata state)
             \<and> snap_canonical_state c = pf_canonical_dict state)
     then Inr (\<lparr>sres_outcome = Outcome_REUSED, sres_snapshot = the current\<rparr>, db)
     else
       let snapshot = new_snapshot ids clock fund_id account_id as_of state current in
       bindR (store_snapshot ids clock actor state snapshot (supersede current db)) (\<lambda>db'.
       Inr (\<lparr>sres_outcome = (case current of None \<Rightarrow> Outcome_CREATED | Some _ \<Rightarrow> Outcome_REVISED),
         sres_snapshot = snapshot\<rparr>, db')))"

section \<open>Verification\<close>

definition json_get :: "string \<Rightarrow> json \<Rightarrow> json option" where
  "json_get k j = (case j of JObj kvs \<Rightarrow> map_of kvs k | _ \<Rightarrow> None)"

fun is_text :: "json \<Rightarrow> bool" where
  "is_text (JStr _) = True" | "is_text (JUuid _) = True" | "is_text (JDec _) = True"
| "is_text (JTime _) = True" | "is_text (JDate _) = True" | "is_text _ = False"

fun parse_uuid :: "json \<Rightarrow> app_error + uuid" where
  "parse_uuid (JUuid u) = Inr u"
| "parse_uuid _ = Inl (ValueError ''badly formed hexadecimal UUID string'')"

fun parse_uuids :: "json list \<Rightarrow> app_error + uuid list" where
  "parse_uuids [] = Inr []"
| "parse_uuids (j # js) = bindR (parse_uuid j) (\<lambda>u. bindR (parse_uuids js) (\<lambda>us. Inr (u # us)))"

fun parse_datetime :: "json \<Rightarrow> app_error + datetime" where
  "parse_datetime (JTime t) = Inr t"
| "parse_datetime (JDate d) = Inr (Naive (d * 86400000000))"
| "parse_datetime _ = Inl (ValueError ''Invalid isoformat string'')"

definition snapshot_service_verify ::
  "digest \<Rightarrow> database \<Rightarrow> uuid \<Rightarrow> app_error + snapshot_verification" where
  "snapshot_service_verify H db snapshot_id =
     (case first_row (\<lambda>r. snap_id r = snapshot_id) (db_portfolio_snapshots db) of
        None \<Rightarrow> Inl (SnapshotError ''snapshot does not exist'')
      | Some snapshot \<Rightarrow> (case json_get ''metadata'' (snap_canonical_state snapshot) of
          Some (JObj metadata) \<Rightarrow>
            (case (json_get ''applied_transaction_ids'' (JObj metadata), json_get ''as_of'' (JObj metadata)) of
               (Some (JList raw_ids), Some raw_as_of) \<Rightarrow>
                 if \<not> is_text raw_as_of then Inl (SnapshotError ''snapshot replay metadata is invalid'')
                 else bindR (parse_uuids raw_ids) (\<lambda>ids.
                   bindR (ledger_by_ids db ids) (\<lambda>ts.
                   bindR (parse_datetime raw_as_of) (\<lambda>as_of.
                   bindR (run_engine H (snap_fund_id snapshot) ts as_of (snap_account_id snapshot)) (\<lambda>state.
                   Inr \<lparr>sv_snapshot_id = snap_id snapshot,
                     sv_reproducible = (md_canonical_input_hash (pf_metadata state) =
                         snap_canonical_input_hash snapshot
                       \<and> pf_canonical_dict state = snap_canonical_state snapshot),
                     sv_expected_input_hash = snap_canonical_input_hash snapshot,
                     sv_actual_input_hash = md_canonical_input_hash (pf_metadata state)\<rparr>))))
             | _ \<Rightarrow> Inl (SnapshotError ''snapshot replay metadata is invalid''))
        | _ \<Rightarrow> Inl (SnapshotError ''snapshot metadata is missing'')))"

end
