(* ===== verification/Valuation.thy ===== *)
theory Valuation
  imports Market_Data Snapshots
begin

text \<open>
  \<open>app/valuation\<close>: the value of a reconstructed portfolio at given quotes, the realized profit and
  loss of the sales of a ledger (\<open>engine.py\<close>), and the historical valuation that combines them
  with the stored transactions and prices (\<open>service.py\<close>).
\<close>

section \<open>Types\<close>

record position_valuation =
  pv_account_id :: uuid
  pv_instrument_id :: uuid
  pv_quantity :: dec
  pv_price :: dec
  pv_market_value :: dec
  pv_cost_basis :: "dec option"
  pv_unrealized_pnl :: "dec option"
  pv_cost_basis_status :: cost_basis_status
  pv_quote :: price_quote

record valuation_result =
  vr_fund_id :: uuid
  vr_as_of :: datetime
  vr_currency :: string
  vr_cash_value :: dec
  vr_securities_value :: dec
  vr_portfolio_value :: dec
  vr_unrealized_pnl :: "dec option"
  vr_realized_pnl :: "dec option"
  vr_positions :: "position_valuation list"
  vr_warnings :: "string list"
  vr_reconstruction_input_hash :: string

record realized_pnl_result =
  rpl_amount :: "dec option"
  rpl_warnings :: "string list"

section \<open>Valuation engine\<close>

fun warning_text :: "portfolio_warning \<Rightarrow> string" where
  "warning_text (NEGATIVE_CASH a) = ''NEGATIVE_CASH:'' @ uuid_text a"
| "warning_text (UNKNOWN_COST_BASIS a i) = ''UNKNOWN_COST_BASIS:'' @ uuid_text a @ '':'' @ uuid_text i"

definition value_position ::
  "string \<Rightarrow> (uuid \<Rightarrow> price_quote option) \<Rightarrow> position_valuation list \<times> string list \<Rightarrow> position_state
     \<Rightarrow> app_error + position_valuation list \<times> string list" where
  "value_position currency quotes s position =
     (case s of (positions, warnings) \<Rightarrow>
     (case quotes (ps_instrument_id position) of
        None \<Rightarrow> Inl (MissingValuationPrice (''missing price for instrument '' @ uuid_text (ps_instrument_id position)))
      | Some quote \<Rightarrow>
          if pq_currency quote \<noteq> currency
          then Inl (MissingValuationPrice (''currency mismatch for instrument '' @ uuid_text (ps_instrument_id position)))
          else
            let market_value = dmul (ps_quantity position) (pq_price quote);
                unrealized = map_option (dsub market_value) (ps_total_cost_basis position) in
            Inr (positions @ [\<lparr>pv_account_id = ps_account_id position, pv_instrument_id = ps_instrument_id position,
                pv_quantity = ps_quantity position, pv_price = pq_price quote, pv_market_value = market_value,
                pv_cost_basis = ps_total_cost_basis position, pv_unrealized_pnl = unrealized,
                pv_cost_basis_status = ps_cost_basis_status position, pv_quote = quote\<rparr>],
              warnings @ (if pq_freshness quote = STALE
                then [''stale price for '' @ uuid_text (ps_instrument_id position) @ '': observed ''
                  @ isoformat (pq_observed_at quote)] else []))))"

definition valuation_value ::
  "portfolio_state \<Rightarrow> (uuid \<Rightarrow> price_quote option) \<Rightarrow> realized_pnl_result \<Rightarrow> app_error + valuation_result" where
  "valuation_value state quotes realized =
     bindR (foldR (value_position (pf_currency state) quotes)
       ([], map warning_text (pf_warnings state) @ rpl_warnings realized) (pf_positions state))
     (\<lambda>(positions, warnings).
     let securities = dsum (map pv_market_value positions);
         unrealized_values = map pv_unrealized_pnl positions in
     Inr \<lparr>vr_fund_id = pf_fund_id state, vr_as_of = md_as_of (pf_metadata state), vr_currency = pf_currency state,
       vr_cash_value = pf_cash state, vr_securities_value = securities,
       vr_portfolio_value = dadd (pf_cash state) securities,
       vr_unrealized_pnl = (if None \<in> set unrealized_values then None
         else Some (dsum (map the unrealized_values))),
       vr_realized_pnl = rpl_amount realized, vr_positions = positions, vr_warnings = warnings,
       vr_reconstruction_input_hash = md_canonical_input_hash (pf_metadata state)\<rparr>)"

section \<open>Realized profit and loss\<close>

text \<open>The variables of the loop.\<close>

record realized_state =
  rs_prefix :: "ledger_transaction list"
  rs_effects :: "(uuid, dec option) dict"
  rs_total :: dec
  rs_active_unknown_sales :: "uuid set"
  rs_warnings :: "string list"

text \<open>The effect of a sale on the position the prefix left, and the warning it raises.\<close>

definition sale_effect :: "portfolio_state \<Rightarrow> ledger_transaction \<Rightarrow> dec option \<times> string list" where
  "sale_effect prior t =
     (case find (\<lambda>p. ps_account_id p = lt_account_id t \<and> Some (ps_instrument_id p) = lt_instrument_id t)
         (pf_positions prior) of
        None \<Rightarrow> (None, [])
      | Some position \<Rightarrow> (case (lt_quantity t, lt_unit_price t) of
          (Some q, Some p) \<Rightarrow>
            (case (ps_cost_basis_status position, ps_average_cost position) of
               (KNOWN, Some average) \<Rightarrow>
                 (Some (dsub (dsub (dmul q p) (lt_fees t)) (dmul q average)), [])
             | _ \<Rightarrow> (None, [''realized P&L unavailable for sell '' @ uuid_text (lt_id t) @ '': unknown cost basis'']))
        | _ \<Rightarrow> (None, [])))"

definition realized_step ::
  "digest \<Rightarrow> uuid \<Rightarrow> uuid option \<Rightarrow> realized_state \<Rightarrow> ledger_transaction \<Rightarrow> app_error + realized_state" where
  "realized_step H fund_id account_id s t =
     bindR (if lt_transaction_type t = SELL then
        bindR (run_engine H fund_id (rs_prefix s) (lt_effective_at t) account_id) (\<lambda>prior.
        (case sale_effect prior t of (effect, warnings) \<Rightarrow>
          Inr (s\<lparr>rs_effects := dict_set (lt_id t) effect (rs_effects s),
            rs_warnings := rs_warnings s @ warnings,
            rs_active_unknown_sales := (if effect = None then insert (lt_id t) (rs_active_unknown_sales s)
              else rs_active_unknown_sales s),
            rs_total := (case effect of None \<Rightarrow> rs_total s | Some e \<Rightarrow> dadd (rs_total s) e)\<rparr>)))
      else if lt_transaction_type t = REVERSAL then
        Inr (case lt_reverses_transaction_id t of None \<Rightarrow> s
          | Some target \<Rightarrow> (case dict_get (rs_effects s) target of
              None \<Rightarrow> s
            | Some None \<Rightarrow> s\<lparr>rs_active_unknown_sales := rs_active_unknown_sales s - {target}\<rparr>
            | Some (Some e) \<Rightarrow> s\<lparr>rs_total := dsub (rs_total s) e\<rparr>))
      else Inr s)
     (\<lambda>s'. Inr (s'\<lparr>rs_prefix := rs_prefix s @ [t]\<rparr>))"

definition realized_calculate ::
  "digest \<Rightarrow> uuid \<Rightarrow> ledger_transaction list \<Rightarrow> datetime \<Rightarrow> uuid option \<Rightarrow> app_error + realized_pnl_result" where
  "realized_calculate H fund_id ts as_of account_id =
     bindR (foldR (realized_step H fund_id account_id)
       \<lparr>rs_prefix = [], rs_effects = [], rs_total = dzero, rs_active_unknown_sales = {}, rs_warnings = []\<rparr>
       (ordered_transactions as_of account_id ts)) (\<lambda>s.
     Inr \<lparr>rpl_amount = (if rs_active_unknown_sales s \<noteq> {} then None else Some (rs_total s)),
       rpl_warnings = rs_warnings s\<rparr>)"

section \<open>Historical valuation\<close>

text \<open>
  The rows of \<open>_transactions\<close>. A naive \<open>as_of\<close> is refused by the engine that reads the list, so the
  comparison with the stored timestamps matters for aware ones only.
\<close>

definition ledger_at :: "database \<Rightarrow> uuid \<Rightarrow> datetime \<Rightarrow> uuid option \<Rightarrow> ledger_transaction list" where
  "ledger_at db fund_id as_of account_id = map domain_transaction (filter (\<lambda>r. tx_fund_id r = fund_id
     \<and> instant (tx_effective_at r) \<le> instant as_of
     \<and> (case account_id of None \<Rightarrow> True | Some a \<Rightarrow> tx_account_id r = a)) (db_transactions db))"

text \<open>
  The dictionary comprehension over a set of instruments. Every lookup can raise:
  \<open>InvalidPriceObservation\<close> for a negative age, whatever the instrument, and otherwise
  \<open>MissingPriceError\<close>; which instrument that message names depends on the order of the set, which
  the model takes from the positions.
\<close>

definition quotes_at ::
  "database \<Rightarrow> uuid list \<Rightarrow> datetime \<Rightarrow> int \<Rightarrow> string option \<Rightarrow> price_type \<Rightarrow> app_error + (uuid, price_quote) dict" where
  "quotes_at db instruments as_of max_age provider ptype =
     foldR (\<lambda>d i. bindR (latest_quote db i as_of max_age provider ptype) (\<lambda>q. Inr (dict_set i q d)))
       [] (remdups instruments)"

definition value_at ::
  "digest \<Rightarrow> database \<Rightarrow> uuid \<Rightarrow> datetime \<Rightarrow> int \<Rightarrow> uuid option \<Rightarrow> string option \<Rightarrow> price_type
     \<Rightarrow> app_error + valuation_result" where
  "value_at H db fund_id as_of max_price_age account_id provider ptype =
     (let transactions = ledger_at db fund_id as_of account_id in
      bindR (run_engine H fund_id transactions as_of account_id) (\<lambda>state.
      bindR (quotes_at db (map ps_instrument_id (pf_positions state)) as_of max_price_age provider ptype) (\<lambda>quotes.
      bindR (realized_calculate H fund_id transactions as_of account_id) (\<lambda>realized.
      valuation_value state (dict_get quotes) realized))))"

end
