(* ===== verification/Market_Data_Properties.thy ===== *)
theory Market_Data_Properties
  imports Market_Data
begin

text \<open>
  What the market data service keeps: every item of an answer is on record after its ingestion, a
  request is answered from the stored batch when it is repeated, a quote is the latest observation
  at its cutoff, and nothing observed later changes it.
\<close>

section \<open>One item\<close>

definition grown :: "database \<Rightarrow> market_price_row list \<Rightarrow> market_price_conflict_row list \<Rightarrow> database" where
  "grown db ps cs = db\<lparr>db_market_prices := db_market_prices db @ ps,
     db_market_price_conflicts := db_market_price_conflicts db @ cs\<rparr>"

lemma grown_simps [simp]:
  "db_market_prices (grown db ps cs) = db_market_prices db @ ps"
  "db_market_price_conflicts (grown db ps cs) = db_market_price_conflicts db @ cs"
  "db_market_data_batches (grown db ps cs) = db_market_data_batches db"
  "db_security_identifiers (grown db ps cs) = db_security_identifiers db"
  "grown db [] [] = db" "grown (grown db ps cs) ps' cs' = grown db (ps @ ps') (cs @ cs')"
  by (simp_all add: grown_def)

text \<open>
  The stored evidence of an item: an observation of the provider for the instrument the item's identifier
  resolves to, of its type and instant, which the item added (with its price, currency and
  identifier) or repeats, or with which it is in conflict; a conflict is stored with what came in.
\<close>

definition on_record :: "string \<Rightarrow> database \<Rightarrow> uuid \<Rightarrow> provider_price \<Rightarrow> price_ingestion_result \<Rightarrow> bool" where
  "on_record provider db batch_id item r \<longleftrightarrow> pir_identifier r = pp_identifier item
     \<and> (\<exists>p \<in> set (db_market_prices db). pir_observation_id r = Some (mp_id p) \<and> mp_provider p = provider
        \<and> resolve_identifier db provider (pp_identifier item) (pp_observed_at item) = Inr (mp_instrument_id p)
        \<and> mp_price_type p = pp_price_type item \<and> instant (mp_observed_at p) = instant (pp_observed_at item)
        \<and> (pir_status r = Ingestion_INSERTED \<longrightarrow> mp_batch_id p = batch_id \<and> mp_price p = pp_price item
             \<and> mp_currency p = pp_currency item \<and> mp_source_identifier p = pp_identifier item)
        \<and> (pir_status r \<noteq> Ingestion_INSERTED \<longrightarrow> (pir_status r = Ingestion_DUPLICATE
             \<longleftrightarrow> dval (mp_price p) = dval (pp_price item) \<and> mp_currency p = pp_currency item)))
     \<and> (pir_status r = Ingestion_CONFLICT \<longrightarrow> (\<exists>c \<in> set (db_market_price_conflicts db). mpc_batch_id c = batch_id
          \<and> pir_conflict_id r = Some (mpc_id c) \<and> pir_observation_id r = Some (mpc_existing_price_id c)
          \<and> mpc_incoming_price c = pp_price item \<and> mpc_incoming_currency c = pp_currency item))"

lemma resolve_identifier_cong:
  "db_security_identifiers db' = db_security_identifiers db \<Longrightarrow> resolve_identifier db' = resolve_identifier db"
  by (simp add: resolve_identifier_def identifier_candidates_def fun_eq_iff)

lemma on_record_grown: "on_record prov db b item r \<Longrightarrow> on_record prov (grown db ps cs) b item r"
  unfolding on_record_def resolve_identifier_cong [of "grown db ps cs" db, simplified] by auto

lemma ingest_one_Inr:
  assumes "ingest_one i db b prov t item = Inr (r, db')"
  obtains ps cs where "db' = grown db ps cs"
    "length ps = of_bool (pir_status r = Ingestion_INSERTED)" "length cs = of_bool (pir_status r = Ingestion_CONFLICT)"
    "\<And>p. p \<in> set ps \<Longrightarrow> instant (mp_observed_at p) = instant (pp_observed_at item) \<and> mp_batch_id p = b"
    "on_record prov db' b item r"
proof -
  note [simp] = resolve_identifier_cong [of "grown db ps cs" db for ps cs, simplified]
  from assms obtain k where k: "resolve_identifier db prov (pp_identifier item) (pp_observed_at item) = Inr k"
    by (auto simp: ingest_one_def result_simps)
  show thesis
  proof (cases "stored_price db k prov (pp_price_type item) (to_utc (pp_observed_at item))")
    case None
    with assms k obtain p where p: "insert_market_price db p = Inr db'" "pir_status r = Ingestion_INSERTED"
      "mp_observed_at p = to_utc (pp_observed_at item)" "mp_batch_id p = b" "mp_price p = pp_price item"
      "mp_price_type p = pp_price_type item" "pir_observation_id r = Some (mp_id p)" "mp_instrument_id p = k"
      "mp_provider p = prov" "mp_currency p = pp_currency item" "mp_source_identifier p = pp_identifier item"
      "pir_identifier r = pp_identifier item"
      by (fastforce simp: ingest_one_def result_simps Let_def)
    then have "db' = grown db [p] []"
      by (auto simp: insert_market_price_def result_simps grown_def)
    then show thesis using p k by (intro that [of "[p]" "[]"]) (auto simp: on_record_def)
  next
    case (Some e)
    then have e: "e \<in> set (db_market_prices db)" "mp_price_type e = pp_price_type item" "mp_instrument_id e = k"
      "mp_provider e = prov" "instant (mp_observed_at e) = instant (pp_observed_at item)"
      by (auto simp: stored_price_def dest: first_row_Some)
    from assms Some k consider (same) "deq (mp_price e) (pp_price item)" "mp_currency e = pp_currency item" "db' = db"
        "pir_status r = Ingestion_DUPLICATE" "pir_observation_id r = Some (mp_id e)" "pir_identifier r = pp_identifier item"
      | (other) c where "insert_market_price_conflict db c = Inr db'" "pir_status r = Ingestion_CONFLICT"
        "\<not> (deq (mp_price e) (pp_price item) \<and> mp_currency e = pp_currency item)"
        "pir_observation_id r = Some (mp_id e)" "mpc_batch_id c = b" "mpc_existing_price_id c = mp_id e"
        "mpc_incoming_price c = pp_price item" "mpc_incoming_currency c = pp_currency item"
        "pir_conflict_id r = Some (mpc_id c)" "pir_identifier r = pp_identifier item"
      by (fastforce simp: ingest_one_def result_simps Let_def split: if_splits)
    then show thesis
    proof cases
      case same
      then show thesis using e k by (intro that [of "[]" "[]"]) (auto simp: on_record_def dec_simps)
    next
      case (other c)
      then have "db' = grown db [] [c]"
        by (auto simp: insert_market_price_conflict_def result_simps grown_def)
      then show thesis using e other k by (intro that [of "[]" "[c]"]) (auto simp: on_record_def dec_simps)
    qed
  qed
qed

section \<open>The items of an answer\<close>

lemma status_count_simps [simp]:
  "status_count s [] = 0" "status_count s (rs @ [r]) = status_count s rs + of_bool (pir_status r = s)"
  by (simp_all add: status_count_def)

lemma status_count_total:
  "status_count Ingestion_INSERTED rs + status_count Ingestion_DUPLICATE rs + status_count Ingestion_CONFLICT rs =
     int (length rs)"
proof (induction rs rule: rev_induct)
  case (snoc r rs)
  then show ?case by (cases "pir_status r") simp_all
qed simp

lemma ingest_items_Inr:
  assumes "ingest_items ids db b prov t items = Inr (rs, db')"
  obtains ps cs where "db' = grown db ps cs" "list_all2 (on_record prov db' b) items rs"
    "status_count Ingestion_INSERTED rs = int (length ps)" "status_count Ingestion_CONFLICT rs = int (length cs)"
    "\<And>p. p \<in> set ps \<Longrightarrow> mp_batch_id p = b \<and> (\<exists>item \<in> set items. instant (mp_observed_at p) = instant (pp_observed_at item))"
  using assms
proof (induction items arbitrary: rs db' thesis rule: rev_induct)
  case Nil
  then show ?case by (simp add: ingest_items_def)
next
  case (snoc item items)
  from snoc.prems(2) obtain rs1 db1 r where one: "ingest_items ids db b prov t items = Inr (rs1, db1)"
    "ingest_one (ids (Suc (length items))) db1 b prov t item = Inr (r, db')" "rs = rs1 @ [r]"
    by (auto simp: ingest_items_def enumerate_append_eq foldR_append result_simps split: prod.splits)
  from snoc.IH [OF _ one(1)] obtain ps cs where a: "db1 = grown db ps cs" "list_all2 (on_record prov db1 b) items rs1"
    "status_count Ingestion_INSERTED rs1 = int (length ps)" "status_count Ingestion_CONFLICT rs1 = int (length cs)"
    "\<And>p. p \<in> set ps \<Longrightarrow> mp_batch_id p = b \<and> (\<exists>item \<in> set items. instant (mp_observed_at p) = instant (pp_observed_at item))"
    by blast
  obtain ps' cs' where c: "db' = grown db1 ps' cs'"
    "length ps' = of_bool (pir_status r = Ingestion_INSERTED)" "length cs' = of_bool (pir_status r = Ingestion_CONFLICT)"
    "\<And>p. p \<in> set ps' \<Longrightarrow> instant (mp_observed_at p) = instant (pp_observed_at item) \<and> mp_batch_id p = b"
    "on_record prov db' b item r" using ingest_one_Inr [OF one(2)] by blast
  have "list_all2 (on_record prov db' b) items rs1"
    by (rule list_all2_mono [OF a(2)]) (simp add: c(1) on_record_grown)
  then show ?case
    using a c(2-5) by (intro snoc.prems(1) [of "ps @ ps'" "cs @ cs'"])
      (auto simp: one(3) c(1) intro!: list_all2_appendI)
qed

section \<open>Ingestion\<close>

lemma ingest_cases:
  assumes "ingest H ids db P req t = Inr (res, db')"
  obtains (known) b where "res = batch_result db b" "db' = db"
      "first_row (\<lambda>r. mb_provider r = provider_name P \<and> mb_dataset r = price_type_value (pr_price_type req)
         \<and> mb_request_hash r = request_hash H (provider_name P) req) (db_market_data_batches db) = Some b"
  | (fresh) items ps cs b where "fetch_prices P req = Inr items"
      "first_row (\<lambda>r. mb_provider r = provider_name P \<and> mb_dataset r = price_type_value (pr_price_type req)
         \<and> mb_request_hash r = request_hash H (provider_name P) req) (db_market_data_batches db) = None"
      "bir_batch_id res = ids 0" "ids 0 \<notin> mb_id ` set (db_market_data_batches db)"
      "db_market_prices db' = db_market_prices db @ ps"
      "db_market_price_conflicts db' = db_market_price_conflicts db @ cs"
      "db_market_data_batches db' = db_market_data_batches db @ [b]"
      "db_security_identifiers db' = db_security_identifiers db"
      "mb_id b = ids 0" "mb_provider b = provider_name P" "mb_dataset b = price_type_value (pr_price_type req)"
      "mb_request_hash b = request_hash H (provider_name P) req"
      "mb_inserted_count b = bir_inserted_count res" "mb_duplicate_count b = bir_duplicate_count res"
      "mb_conflict_count b = bir_conflict_count res"
      "list_all2 (on_record (provider_name P) db' (ids 0)) items (bir_results res)"
      "bir_inserted_count res = int (length ps)" "bir_conflict_count res = int (length cs)"
      "bir_inserted_count res + bir_duplicate_count res + bir_conflict_count res = int (length items)"
      "\<And>p. p \<in> set ps \<Longrightarrow> mp_batch_id p = ids 0
         \<and> (\<exists>item \<in> set items. instant (mp_observed_at p) = instant (pp_observed_at item))"
      "bir_inserted_count res = status_count Ingestion_INSERTED (bir_results res)"
      "bir_duplicate_count res = status_count Ingestion_DUPLICATE (bir_results res)"
      "bir_conflict_count res = status_count Ingestion_CONFLICT (bir_results res)"
proof (cases "first_row (\<lambda>r. mb_provider r = provider_name P \<and> mb_dataset r = price_type_value (pr_price_type req)
    \<and> mb_request_hash r = request_hash H (provider_name P) req) (db_market_data_batches db)")
  case (Some b)
  with assms show thesis by (intro known [of b]) (auto simp: ingest_def result_simps Let_def)
next
  case None
  define batch where "batch = new_batch (ids 0) (provider_name P) req (request_hash H (provider_name P) req) t"
  from assms None obtain db1 items rs db2 where r: "insert_market_data_batch db batch = Inr db1"
    "fetch_prices P req = Inr items" "ingest_items ids db1 (ids 0) (provider_name P) t items = Inr (rs, db2)"
    "db' = db2\<lparr>db_market_data_batches := update_row mb_id (ids 0) (\<lambda>_. completed_batch batch rs t) (db_market_data_batches db2)\<rparr>"
    "res = \<lparr>bir_batch_id = ids 0, bir_inserted_count = status_count Ingestion_INSERTED rs,
       bir_duplicate_count = status_count Ingestion_DUPLICATE rs, bir_conflict_count = status_count Ingestion_CONFLICT rs,
       bir_results = rs\<rparr>"
    by (auto simp: ingest_def result_simps Let_def batch_def new_batch_def completed_batch_def split: prod.splits)
  have b1: "db1 = db\<lparr>db_market_data_batches := db_market_data_batches db @ [batch]\<rparr>"
    "ids 0 \<notin> mb_id ` set (db_market_data_batches db)"
    using r(1) by (auto simp: insert_market_data_batch_def result_simps market_data_batch_clash_def batch_def new_batch_def)
  obtain ps cs where g: "db2 = grown db1 ps cs" "list_all2 (on_record (provider_name P) db2 (ids 0)) items rs"
    "status_count Ingestion_INSERTED rs = int (length ps)" "status_count Ingestion_CONFLICT rs = int (length cs)"
    "\<And>p. p \<in> set ps \<Longrightarrow> mp_batch_id p = ids 0 \<and> (\<exists>item \<in> set items. instant (mp_observed_at p) = instant (pp_observed_at item))"
    using ingest_items_Inr [OF r(3)] by blast
  have upd: "update_row mb_id (ids 0) (\<lambda>_. completed_batch batch rs t) (db_market_data_batches db @ [batch]) =
      db_market_data_batches db @ [completed_batch batch rs t]"
    using update_row_fresh [OF b1(2)] by (simp add: update_row_def batch_def new_batch_def)
  have "list_all2 (on_record (provider_name P) db' (ids 0)) items rs"
    by (rule list_all2_mono [OF g(2)]) (simp add: r(4) on_record_def resolve_identifier_cong [of "db2\<lparr>db_market_data_batches := x\<rparr>" db2 for x])
  then show thesis
    using g(3-5) r(2) None b1(2) upd list_all2_lengthD [OF g(2)] status_count_total [of rs]
    by (intro fresh [of items ps cs "completed_batch batch rs t"])
      (simp_all add: r(4,5) g(1) b1(1) completed_batch_def batch_def new_batch_def)
qed

text \<open>C26: An ingestion that stores a new batch accounts for every price the provider returned, in
  order. Each result refers to a stored observation of that provider, of the instrument the
  identifier resolves to at the observation time, of the same price type and instant: INSERTED
  with the item's price, currency and identifier under the new batch, otherwise DUPLICATE exactly
  when price and currency agree, and CONFLICT with a stored conflict row of the batch that holds
  the incoming price. The counts of the report and of the stored batch row are the numbers of
  results of each kind, and of the rows added.\<close>

theorem ingest_accounts:
  assumes "ingest H ids db P req t = Inr (res, db')" and "db' \<noteq> db"
  shows "\<exists>items. fetch_prices P req = Inr items
    \<and> list_all2 (on_record (provider_name P) db' (bir_batch_id res)) items (bir_results res)
    \<and> bir_inserted_count res = status_count Ingestion_INSERTED (bir_results res)
    \<and> bir_duplicate_count res = status_count Ingestion_DUPLICATE (bir_results res)
    \<and> bir_conflict_count res = status_count Ingestion_CONFLICT (bir_results res)
    \<and> bir_inserted_count res + bir_duplicate_count res + bir_conflict_count res = int (length items)
    \<and> (\<exists>b. db_market_data_batches db' = db_market_data_batches db @ [b] \<and> mb_id b = bir_batch_id res
         \<and> mb_inserted_count b = bir_inserted_count res \<and> mb_duplicate_count b = bir_duplicate_count res
         \<and> mb_conflict_count b = bir_conflict_count res)
    \<and> (\<exists>ps. db_market_prices db' = db_market_prices db @ ps \<and> int (length ps) = bir_inserted_count res)
    \<and> (\<exists>cs. db_market_price_conflicts db' = db_market_price_conflicts db @ cs \<and> int (length cs) = bir_conflict_count res)"
  using assms(1)
proof (cases rule: ingest_cases)
  case (known b)
  with assms(2) show ?thesis by simp
next
  case (fresh items ps cs b)
  then show ?thesis by (intro exI [of _ items]) simp
qed

theorem ingest_idempotent:
  assumes "ingest H ids db P req t = Inr (res, db')"
    and "provider_name P' = provider_name P" and "is_aware t'"
    and refs: "mp_batch_id ` set (db_market_prices db) \<subseteq> mb_id ` set (db_market_data_batches db)"
  shows "\<exists>rs. ingest H ids' db' P' req t' = Inr (res\<lparr>bir_results := rs\<rparr>, db')
    \<and> (db' \<noteq> db \<longrightarrow> int (length rs) = bir_inserted_count res)"
proof -
  have req: "is_aware (pr_start req)" "is_aware (pr_end req)" "\<not> instant (pr_end req) < instant (pr_start req)"
    using assms(1) by (auto simp: ingest_def market_aware_def result_simps)
  have again: "ingest H ids' db' P' req t' = Inr (batch_result db' b, db')"
    if "first_row (\<lambda>r. mb_provider r = provider_name P \<and> mb_dataset r = price_type_value (pr_price_type req)
         \<and> mb_request_hash r = request_hash H (provider_name P) req) (db_market_data_batches db') = Some b" for b
    using that req assms(2,3) by (simp add: ingest_def market_aware_def Let_def)
  from assms(1) show ?thesis
  proof (cases rule: ingest_cases)
    case (known b)
    then show ?thesis using again [of b] by (auto simp: batch_result_def)
  next
    case (fresh items ps cs b)
    have "batch_result db' b = res\<lparr>bir_results := bir_results (batch_result db' b)\<rparr>"
      using fresh(3,9,13-15) by (simp add: batch_result_def)
    moreover have "filter (\<lambda>r. mp_batch_id r = ids 0) (db_market_prices db @ ps) = ps"
    proof -
      have "filter (\<lambda>r. mp_batch_id r = ids 0) (db_market_prices db) = []"
        using fresh(4) subsetD [OF refs] by (metis (mono_tags, lifting) filter_False imageI)
      moreover have "filter (\<lambda>r. mp_batch_id r = ids 0) ps = ps" using fresh(20) by simp
      ultimately show ?thesis by simp
    qed
    then have "length (bir_results (batch_result db' b)) = length ps"
      using fresh(5,9) by (simp add: batch_result_def)
    moreover have "ingest H ids' db' P' req t' = Inr (batch_result db' b, db')"
      using again [of b] fresh(2,7,10-12) by (simp add: first_row_append)
    ultimately show ?thesis
      using fresh(17) by (intro exI [of _ "bir_results (batch_result db' b)"]) simp
  qed
qed

section \<open>Quotes\<close>

text \<open>The observations a quote may use.\<close>

definition eligible_price :: "uuid \<Rightarrow> datetime \<Rightarrow> string option \<Rightarrow> price_type \<Rightarrow> market_price_row \<Rightarrow> bool" where
  "eligible_price i as_of provider ptype r \<longleftrightarrow> mp_instrument_id r = i \<and> mp_price_type r = ptype
     \<and> instant (mp_observed_at r) \<le> instant as_of \<and> (provider = None \<or> provider = Some (mp_provider r))"

lemma quote_candidates_eq:
  "quote_candidates db i as_of provider ptype =
     sort_key (\<lambda>r. (- instant (mp_observed_at r), mp_provider r, mp_id r))
       (filter (eligible_price i as_of provider ptype) (db_market_prices db))"
  unfolding quote_candidates_def eligible_price_def
  by (rule arg_cong [where f = "sort_key _"], rule filter_cong [OF refl]) (auto split: option.splits)

lemma latest_quote_Inr:
  assumes "latest_quote db i as_of age provider ptype = Inr q"
  obtains r where "r \<in> set (db_market_prices db)" "eligible_price i as_of provider ptype r" "q = quote_of r as_of age"
    "\<And>r'. r' \<in> set (db_market_prices db) \<Longrightarrow> eligible_price i as_of provider ptype r' \<Longrightarrow>
       instant (mp_observed_at r') \<le> instant (mp_observed_at r)"
proof -
  from assms obtain r rs where c: "quote_candidates db i as_of provider ptype = r # rs" "q = quote_of r as_of age"
    by (auto simp: latest_quote_def result_simps split: list.splits)
  note first = sort_key_first [OF c(1) [unfolded quote_candidates_eq]]
  show thesis
  proof (rule that [of r])
    show "r \<in> set (db_market_prices db)" "eligible_price i as_of provider ptype r" using first(1) by auto
    show "instant (mp_observed_at r') \<le> instant (mp_observed_at r)"
      if "r' \<in> set (db_market_prices db)" "eligible_price i as_of provider ptype r'" for r'
      using first(2) [of r'] that by auto
  qed (rule c(2))
qed

lemma latest_quote_available:
  assumes "is_aware as_of" and "0 \<le> age"
  shows "(\<exists>q. latest_quote db i as_of age provider ptype = Inr q) \<longleftrightarrow>
    (\<exists>r \<in> set (db_market_prices db). eligible_price i as_of provider ptype r)"
proof -
  have "quote_candidates db i as_of provider ptype = [] \<longleftrightarrow>
      filter (eligible_price i as_of provider ptype) (db_market_prices db) = []"
    unfolding quote_candidates_eq by (rule sort_key_Nil_iff)
  moreover have "(\<exists>q. latest_quote db i as_of age provider ptype = Inr q) \<longleftrightarrow> quote_candidates db i as_of provider ptype \<noteq> []"
    using assms by (cases "quote_candidates db i as_of provider ptype") (simp_all add: latest_quote_def market_aware_def)
  ultimately show ?thesis by (simp add: filter_empty_conv)
qed

definition no_price_error :: "price_type \<Rightarrow> datetime \<Rightarrow> uuid \<Rightarrow> app_error" where
  "no_price_error ptype as_of i = MissingPriceError (''no '' @ price_type_value ptype @ '' price at or before ''
     @ isoformat as_of @ '' for '' @ uuid_text i)"

lemma latest_quote_outcome:
  assumes "is_aware as_of"
  shows "latest_quote db i as_of age provider ptype = Inl e \<longleftrightarrow>
    (if age < 0 then e = InvalidPriceObservation ''max_age cannot be negative''
     else e = no_price_error ptype as_of i
       \<and> (\<forall>r \<in> set (db_market_prices db). \<not> eligible_price i as_of provider ptype r))"
    and "age < 0 \<Longrightarrow> latest_quote db i as_of age provider ptype \<noteq> Inr q"
proof -
  have "quote_candidates db i as_of provider ptype = [] \<longleftrightarrow>
      (\<forall>r \<in> set (db_market_prices db). \<not> eligible_price i as_of provider ptype r)"
    unfolding quote_candidates_eq by (simp add: sort_key_Nil_iff filter_empty_conv)
  with assms show "latest_quote db i as_of age provider ptype = Inl e \<longleftrightarrow>
    (if age < 0 then e = InvalidPriceObservation ''max_age cannot be negative''
     else e = no_price_error ptype as_of i
       \<and> (\<forall>r \<in> set (db_market_prices db). \<not> eligible_price i as_of provider ptype r))"
    and "age < 0 \<Longrightarrow> latest_quote db i as_of age provider ptype \<noteq> Inr q"
    by (cases "quote_candidates db i as_of provider ptype";
        auto simp: latest_quote_def market_aware_def no_price_error_def)+
qed

theorem latest_quote_latest:
  assumes "latest_quote db i as_of age provider ptype = Inr q"
  shows "\<exists>r \<in> set (db_market_prices db). eligible_price i as_of provider ptype r
    \<and> pq_observation_id q = mp_id r \<and> pq_price q = mp_price r \<and> pq_currency q = mp_currency r
    \<and> (\<forall>r' \<in> set (db_market_prices db). eligible_price i as_of provider ptype r' \<longrightarrow>
          instant (mp_observed_at r') \<le> instant (mp_observed_at r))
    \<and> (pq_freshness q = STALE \<longleftrightarrow> age < instant as_of - instant (mp_observed_at r))"
  using assms by (rule latest_quote_Inr) (auto simp: quote_of_def Let_def)

lemma latest_quote_appended:
  assumes "db_market_prices db' = db_market_prices db @ ps"
    and "\<And>p. p \<in> set ps \<Longrightarrow> instant as_of < instant (mp_observed_at p)"
  shows "latest_quote db' i as_of age provider ptype = latest_quote db i as_of age provider ptype"
proof -
  have "\<not> eligible_price i as_of provider ptype p" if "p \<in> set ps" for p
    using assms(2) [OF that] by (simp add: eligible_price_def)
  then have "filter (eligible_price i as_of provider ptype) ps = []" by simp
  then have "quote_candidates db' i as_of provider ptype = quote_candidates db i as_of provider ptype"
    unfolding quote_candidates_eq assms(1) filter_append by simp
  then show ?thesis unfolding latest_quote_def by simp
qed

lemma ingest_appends:
  assumes "ingest H ids db P req t = Inr (res, db')"
  obtains ps where "db_market_prices db' = db_market_prices db @ ps"
    "\<And>p. p \<in> set ps \<Longrightarrow> \<exists>items. fetch_prices P req = Inr items
      \<and> (\<exists>item \<in> set items. instant (mp_observed_at p) = instant (pp_observed_at item))"
  using assms
proof (cases rule: ingest_cases)
  case (known b)
  then show thesis by (intro that [of "[]"]) simp_all
next
  case (fresh items ps cs b)
  then show thesis by (intro that [of ps]) auto
qed

theorem ingest_no_lookahead:
  assumes "ingest H ids db P req t = Inr (res, db')" and "fetch_prices P req = Inr items"
    and "\<And>item. item \<in> set items \<Longrightarrow> instant as_of < instant (pp_observed_at item)"
  shows "latest_quote db' i as_of age provider ptype = latest_quote db i as_of age provider ptype"
proof -
  obtain ps where ps: "db_market_prices db' = db_market_prices db @ ps"
    "\<And>p. p \<in> set ps \<Longrightarrow> \<exists>items. fetch_prices P req = Inr items
      \<and> (\<exists>item \<in> set items. instant (mp_observed_at p) = instant (pp_observed_at item))"
    using ingest_appends [OF assms(1)] by blast
  show ?thesis
    by (rule latest_quote_appended [OF ps(1)]) (use ps(2) assms(2,3) in fastforce)
qed

end
