(* ===== verification/Portfolio_Invariant.thy ===== *)
theory Portfolio_Invariant
  imports Portfolio_Engine
begin

text \<open>
  The invariant of the reconstruction loop: what its five collections are, as functions of the
  transactions processed so far (\<open>history_inv\<close>), and what holds of every position
  (\<open>position_inv\<close>). Both are kept by every step that returns; \<open>engine\<close> interprets
  \<open>history_invariant\<close> with them, and the properties of \<open>Portfolio_Properties\<close> read
  the final state, the state before a given transaction and the place of an error off it.
\<close>

section \<open>Validation\<close>

definition valid_transaction :: "uuid \<Rightarrow> ledger_transaction \<Rightarrow> bool" where
  "valid_transaction fund_id t \<longleftrightarrow> lt_fund_id t = fund_id \<and> is_aware (lt_effective_at t)
     \<and> is_aware (lt_recorded_at t) \<and> lt_currency t = ''USD'' \<and> \<not> dlt (lt_fees t) dzero
     \<and> validate_transaction_shape t = Inr ()"

definition valid_ledger :: "uuid \<Rightarrow> ledger_transaction list \<Rightarrow> bool" where
  "valid_ledger fund_id ts \<longleftrightarrow> distinct (map lt_id ts) \<and> (\<forall>t \<in> set ts. valid_transaction fund_id t)"

lemma validate_scope_step_Inr:
  "validate_scope_step f seen t = Inr seen' \<longleftrightarrow>
     lt_id t \<notin> seen \<and> valid_transaction f t \<and> seen' = insert (lt_id t) seen"
  by (auto simp: validate_scope_step_def valid_transaction_def result_simps)

lemma validate_scope_run:
  "foldR (validate_scope_step f) seen ts = Inr seen' \<longleftrightarrow>
     distinct (map lt_id ts) \<and> lt_id ` set ts \<inter> seen = {} \<and> (\<forall>t \<in> set ts. valid_transaction f t)
     \<and> seen' = lt_id ` set ts \<union> seen"
  by (induction ts arbitrary: seen) (auto simp: result_simps validate_scope_step_Inr)

lemma validate_iff: "validate_scope_and_timestamps f ts = Inr () \<longleftrightarrow> valid_ledger f ts"
  by (auto simp: validate_scope_and_timestamps_def valid_ledger_def result_simps validate_scope_run)

lemma valid_ledger_append: "valid_ledger f (xs @ ys) \<Longrightarrow> valid_ledger f xs"
  by (auto simp: valid_ledger_def)

lemma valid_ledger_mset: "mset xs = mset ys \<Longrightarrow> valid_ledger f xs \<longleftrightarrow> valid_ledger f ys"
  unfolding valid_ledger_def by (metis mset_eq_setD mset_eq_imp_distinct_iff mset_map)

lemma required_simps [result_simps]:
  "required_amount t = Inr a \<longleftrightarrow> lt_amount t = Some a \<and> 0 < dval a"
  "required_quantity t = Inr a \<longleftrightarrow> lt_quantity t = Some a \<and> 0 < dval a"
  "required_price t = Inr a \<longleftrightarrow> lt_unit_price t = Some a \<and> 0 < dval a"
  "required_instrument t = Inr i \<longleftrightarrow> lt_instrument_id t = Some i"
  "required_reversal_target t = Inr i \<longleftrightarrow> lt_reverses_transaction_id t = Some i"
  by (auto simp: required_amount_def required_quantity_def required_price_def required_instrument_def
      required_reversal_target_def dec_simps result_simps split: option.splits)

lemma valid_shape:
  assumes "validate_transaction_shape t = Inr ()"
  shows "(lt_transaction_type t = REVERSAL \<longleftrightarrow> lt_reverses_transaction_id t \<noteq> None)"
  using assms by (cases "lt_transaction_type t")
    (auto simp: validate_transaction_shape_def require_no_position_fields_def result_simps)

lemma apply_original_effect:
  assumes "apply_original t ps = Inr e"
  shows "eff_account_id e = lt_account_id t" "eff_uncertainty_delta e \<in> {0, 1}"
    "eff_transaction_type e = lt_transaction_type t"
    "eff_instrument_id e = None \<Longrightarrow> eff_uncertainty_delta e = 0"
    "eff_instrument_id e = Some i \<Longrightarrow> lt_instrument_id t = Some i"
  using assms
  by (auto simp: cash_effect_def buy_effect_def sell_effect_def opening_position_effect_def result_simps
      Let_def split: transaction_type.splits if_splits option.splits)

section \<open>One step\<close>

definition cash_of :: "engine_state \<Rightarrow> uuid \<Rightarrow> dec" where
  "cash_of s a = (case dict_get (es_cash s) a of None \<Rightarrow> dzero | Some c \<Rightarrow> c)"

definition position_of :: "(uuid \<times> uuid, position) dict \<Rightarrow> uuid \<times> uuid \<Rightarrow> position" where
  "position_of ps k = (case dict_get ps k of None \<Rightarrow> new_position | Some p \<Rightarrow> p)"

text \<open>What one transaction does once its effect is known.\<close>

definition applied :: "engine_state \<Rightarrow> ledger_transaction \<Rightarrow> effect \<Rightarrow> engine_state \<Rightarrow> bool" where
  "applied s t e s' \<longleftrightarrow> eff_account_id e = lt_account_id t
     \<and> es_cash s' = dict_set (lt_account_id t) (dadd (cash_of s (lt_account_id t)) (eff_cash_delta e))
          (dict_setdefault (lt_account_id t) dzero (es_cash s))
     \<and> (case eff_instrument_id e of None \<Rightarrow> es_positions s' = es_positions s
        | Some i \<Rightarrow> apply_position_effect (lt_id t) e i (es_positions s) = Inr (es_positions s'))"

lemma transaction_effect_rest:
  "transaction_effect s t = Inr (e, s1) \<Longrightarrow> es_cash s1 = es_cash s \<and> es_positions s1 = es_positions s"
  by (auto simp: transaction_effect_def result_simps split: if_splits)

lemma engine_state_eq_iff:
  fixes s1 s' :: engine_state
  shows
  "s1\<lparr>es_cash := c, es_positions := ps\<rparr> = s' \<longleftrightarrow> es_cash s' = c \<and> es_positions s' = ps
     \<and> es_effects s' = es_effects s1 \<and> es_transaction_types s' = es_transaction_types s1
     \<and> es_reversed_targets s' = es_reversed_targets s1" (is "?s = s' \<longleftrightarrow> ?fields")
proof
  show "?s = s' \<Longrightarrow> ?fields" by (hypsubst, simp)
  show "?fields \<Longrightarrow> ?s = s'" by (intro engine_state.equality) simp_all
qed

lemma engine_state_cash_eq_iff:
  fixes s1 s' :: engine_state
  shows
  "s1\<lparr>es_cash := c\<rparr> = s' \<longleftrightarrow> es_cash s' = c \<and> es_positions s' = es_positions s1
     \<and> es_effects s' = es_effects s1 \<and> es_transaction_types s' = es_transaction_types s1
     \<and> es_reversed_targets s' = es_reversed_targets s1"
  using engine_state_eq_iff [where ?s1.0 = s1 and c = c and ps = "es_positions s1" and s' = s'] by simp

lemma transaction_effect_account:
  assumes "transaction_effect s t = Inr (e, s1)"
  shows "eff_account_id e = lt_account_id t"
proof (cases "lt_transaction_type t = REVERSAL")
  case True
  with assms show ?thesis
    by (auto simp: transaction_effect_def reversal_effect_def inverse_effect_def result_simps
        split: option.splits)
next
  case False
  with assms have "apply_original t (es_positions s) = Inr e"
    by (auto simp: transaction_effect_def result_simps simp del: apply_original.simps)
  then show ?thesis by (rule apply_original_effect)
qed

lemma engine_step_Inr:
  "engine_step s t = Inr s' \<longleftrightarrow> (\<exists>e s1. transaction_effect s t = Inr (e, s1) \<and> applied s t e s'
     \<and> es_effects s' = es_effects s1 \<and> es_transaction_types s' = es_transaction_types s1
     \<and> es_reversed_targets s' = es_reversed_targets s1)"
proof (cases "transaction_effect s t")
  case (Inl err)
  then show ?thesis by (simp add: engine_step_def)
next
  case (Inr x)
  then obtain e s1 where e: "transaction_effect s t = Inr (e, s1)" by (cases x) auto
  have acct: "eff_account_id e = lt_account_id t" using e by (rule transaction_effect_account)
  have cash: "dict_get (dict_setdefault (lt_account_id t) dzero (es_cash s)) (lt_account_id t) =
    Some (cash_of s (lt_account_id t))"
    by (simp add: dict_simps cash_of_def split: option.splits)
  show ?thesis
  proof (cases "eff_instrument_id e")
    case None
    with transaction_effect_rest [OF e] acct show ?thesis
      by (auto simp: engine_step_def e cash applied_def engine_state_eq_iff
        engine_state_cash_eq_iff)
  next
    case (Some i)
    with transaction_effect_rest [OF e] acct show ?thesis
      by (cases "apply_position_effect (lt_id t) e i (es_positions s)")
        (auto simp: engine_step_def e cash applied_def engine_state_eq_iff
        engine_state_cash_eq_iff)
  qed
qed

lemma reversal_effect_Inr:
  "reversal_effect t effects types targets = Inr e \<longleftrightarrow> (\<exists>r target. lt_reverses_transaction_id t = Some r
     \<and> dict_get effects r = Some target \<and> dict_get types r \<noteq> Some REVERSAL \<and> r \<notin> targets
     \<and> eff_account_id target = lt_account_id t \<and> e = inverse_effect target)"
  by (auto simp: reversal_effect_def result_simps split: option.splits)

lemma inverse_effect_simps [simp]:
  "eff_transaction_type (inverse_effect e) = REVERSAL"
  "eff_account_id (inverse_effect e) = eff_account_id e"
  "eff_instrument_id (inverse_effect e) = eff_instrument_id e"
  "eff_cash_delta (inverse_effect e) = dneg (eff_cash_delta e)"
  "eff_quantity_delta (inverse_effect e) = dneg (eff_quantity_delta e)"
  "eff_known_cost_delta (inverse_effect e) = dneg (eff_known_cost_delta e)"
  "eff_uncertainty_delta (inverse_effect e) = - eff_uncertainty_delta e"
  by (simp_all add: inverse_effect_def)

lemma engine_step_original:
  "lt_transaction_type t \<noteq> REVERSAL \<Longrightarrow>
   engine_step s t = Inr s' \<longleftrightarrow> (\<exists>e. apply_original t (es_positions s) = Inr e \<and> applied s t e s'
     \<and> es_effects s' = dict_set (lt_id t) e (es_effects s)
     \<and> es_transaction_types s' =
         dict_set (lt_id t) (lt_transaction_type t) (es_transaction_types s)
     \<and> es_reversed_targets s' = es_reversed_targets s)"
  by (auto simp: engine_step_Inr transaction_effect_def result_simps simp del: apply_original.simps)

lemma engine_step_reversal:
  "lt_transaction_type t = REVERSAL \<Longrightarrow>
   engine_step s t = Inr s' \<longleftrightarrow> (\<exists>r target. lt_reverses_transaction_id t = Some r
     \<and> dict_get (es_effects s) r = Some target \<and> dict_get (es_transaction_types s) r \<noteq> Some REVERSAL
     \<and> r \<notin> es_reversed_targets s \<and> applied s t (inverse_effect target) s'
     \<and> es_effects s' = es_effects s \<and> es_transaction_types s' = es_transaction_types s
     \<and> es_reversed_targets s' = insert r (es_reversed_targets s))"
  by (auto simp: engine_step_Inr transaction_effect_def reversal_effect_Inr result_simps applied_def)

lemma applied_cash:
  assumes "applied s t e s'"
  shows "cash_of s' a =
      (if a = lt_account_id t then dadd (cash_of s a) (eff_cash_delta e) else cash_of s a)"
    and "fst ` set (es_cash s') = insert (lt_account_id t) (fst ` set (es_cash s))"
    and "dict_ok (es_cash s) \<Longrightarrow> dict_ok (es_cash s')"
  using assms
  by (auto simp: applied_def cash_of_def dict_simps dict_ok_set dict_ok_setdefault
      dict_setdefault_def split: option.splits)

lemma position_after_Inr:
  "position_after i e p = Inr p' \<longleftrightarrow>
     p' = \<lparr>pos_quantity = dadd (pos_quantity p) (eff_quantity_delta e),
           pos_known_cost = dadd (pos_known_cost p) (eff_known_cost_delta e),
           pos_uncertainty_count = pos_uncertainty_count p + eff_uncertainty_delta e,
           pos_source_transaction_ids = pos_source_transaction_ids p @ [i]\<rparr>
     \<and> 0 \<le> dval (pos_quantity p') \<and> 0 \<le> dval (pos_known_cost p') \<and> 0 \<le> pos_uncertainty_count p'"
  by (auto simp: position_after_def Let_def dec_simps not_less)

lemma apply_position_effect_Inr:
  assumes "apply_position_effect tid e i ps = Inr ps'"
  defines "k \<equiv> (eff_account_id e, i)"
  shows "position_after tid e (position_of ps k) = Inr (position_of ps' k)"
    and "k' \<noteq> k \<Longrightarrow> position_of ps' k' = position_of ps k'"
    and "fst ` set ps' = insert k (fst ` set ps)"
    and "dict_ok ps \<Longrightarrow> dict_ok ps'"
proof -
  have the: "the (dict_get (dict_setdefault k new_position ps) k) = position_of ps k"
    by (auto simp: dict_simps position_of_def split: option.splits)
  from assms(1) obtain p where p: "position_after tid e (position_of ps k) = Inr p"
    and ps': "ps' = dict_set k p (dict_setdefault k new_position ps)"
    by (auto simp: apply_position_effect_def result_simps Let_def k_def [symmetric] the)
  show "position_after tid e (position_of ps k) = Inr (position_of ps' k)"
    and "k' \<noteq> k \<Longrightarrow> position_of ps' k' = position_of ps k'"
    using p by (simp_all add: ps' position_of_def dict_simps)
  show "fst ` set ps' = insert k (fst ` set ps)" and "dict_ok ps \<Longrightarrow> dict_ok ps'"
    by (simp_all only: ps' dict_simps dict_ok_set dict_ok_setdefault insert_absorb2)
qed


section \<open>What the state remembers of the history\<close>

abbreviation originals :: "ledger_transaction list \<Rightarrow> ledger_transaction list" where
  "originals h \<equiv> filter (\<lambda>t. lt_transaction_type t \<noteq> REVERSAL) h"

definition reversed_ids :: "ledger_transaction list \<Rightarrow> uuid set" where
  "reversed_ids h = {r. \<exists>t \<in> set h. lt_transaction_type t = REVERSAL \<and> lt_reverses_transaction_id t = Some r}"

text \<open>The cash and quantity change of an original transaction depend on the transaction alone.\<close>

fun original_cash_delta :: "ledger_transaction \<Rightarrow> dec" where
  "original_cash_delta t = (case lt_transaction_type t of
     BUY \<Rightarrow> dneg (dadd (dmul (the (lt_quantity t)) (the (lt_unit_price t))) (lt_fees t))
   | SELL \<Rightarrow> dsub (dmul (the (lt_quantity t)) (the (lt_unit_price t))) (lt_fees t)
   | CASH_WITHDRAWAL \<Rightarrow> dneg (the (lt_amount t)) | FEE \<Rightarrow> dneg (the (lt_amount t))
   | CASH_DEPOSIT \<Rightarrow> the (lt_amount t) | DIVIDEND \<Rightarrow> the (lt_amount t)
   | OPENING_CASH \<Rightarrow> the (lt_amount t) | _ \<Rightarrow> dzero)"

fun original_quantity_delta :: "ledger_transaction \<Rightarrow> dec" where
  "original_quantity_delta t = (case lt_transaction_type t of
     BUY \<Rightarrow> the (lt_quantity t) | OPENING_POSITION \<Rightarrow> the (lt_quantity t)
   | SELL \<Rightarrow> dneg (the (lt_quantity t)) | _ \<Rightarrow> dzero)"

fun traded_instrument :: "ledger_transaction \<Rightarrow> uuid option" where
  "traded_instrument t = (if lt_transaction_type t \<in> {BUY, SELL, OPENING_POSITION}
     then lt_instrument_id t else None)"

definition effect_of :: "ledger_transaction \<Rightarrow> effect \<Rightarrow> bool" where
  "effect_of t e \<longleftrightarrow> eff_transaction_type e = lt_transaction_type t \<and> eff_account_id e = lt_account_id t
     \<and> eff_instrument_id e = traded_instrument t \<and> eff_cash_delta e = original_cash_delta t
     \<and> eff_quantity_delta e = original_quantity_delta t \<and> eff_uncertainty_delta e \<in> {0, 1}
     \<and> (eff_uncertainty_delta e = 1 \<longrightarrow> lt_transaction_type t \<in> {SELL, OPENING_POSITION})
     \<and> (lt_transaction_type t = OPENING_POSITION
          \<longrightarrow> eff_uncertainty_delta e = (if lt_unit_price t = None then 1 else 0))"

lemma apply_original_effect_of: "apply_original t ps = Inr e \<Longrightarrow> effect_of t e"
  by (auto simp: effect_of_def cash_effect_def buy_effect_def sell_effect_def
      opening_position_effect_def result_simps Let_def
      split: transaction_type.splits if_splits option.splits)

definition position_accounts :: "engine_state \<Rightarrow> uuid set" where
  "position_accounts s = fst ` fst ` set (es_positions s)"

definition history_inv :: "ledger_transaction list \<Rightarrow> engine_state \<Rightarrow> bool" where
  "history_inv h s \<longleftrightarrow>
     list_all2 (\<lambda>t ie. fst ie = lt_id t \<and> effect_of t (snd ie)) (originals h) (es_effects s)
     \<and> es_transaction_types s = map (\<lambda>t. (lt_id t, lt_transaction_type t)) (originals h)
     \<and> es_reversed_targets s = reversed_ids h \<and> reversed_ids h \<subseteq> lt_id ` set (originals h)
     \<and> distinct (map lt_reverses_transaction_id (filter (\<lambda>t. lt_transaction_type t = REVERSAL) h))
     \<and> fst ` set (es_cash s) = lt_account_id ` set h
     \<and> position_accounts s \<subseteq> lt_account_id ` set h \<and> dict_ok (es_cash s) \<and> dict_ok (es_positions s)"

lemma reversed_ids_append:
  "reversed_ids (h @ [t]) = (if lt_transaction_type t = REVERSAL
     then set_option (lt_reverses_transaction_id t) \<union> reversed_ids h else reversed_ids h)"
  by (auto simp: reversed_ids_def)

lemma list_all2_keys:
  "list_all2 (\<lambda>t ie. fst ie = f t \<and> P t (snd ie)) ts d \<Longrightarrow> map fst d = map f ts"
  by (induction rule: list_all2_induct) auto

lemma list_all2_get:
  "list_all2 (\<lambda>t ie. fst ie = f t \<and> P t (snd ie)) ts d \<Longrightarrow> dict_get d k = Some e
     \<Longrightarrow> \<exists>t \<in> set ts. f t = k \<and> P t e"
  by (induction rule: list_all2_induct) (auto split: if_splits)

lemma applied_rest:
  assumes "applied s t e s'"
  shows "dict_ok (es_positions s) \<Longrightarrow> dict_ok (es_positions s')"
    and "position_accounts s' \<subseteq> insert (lt_account_id t) (position_accounts s)"
proof -
  show "dict_ok (es_positions s) \<Longrightarrow> dict_ok (es_positions s')"
    using assms apply_position_effect_Inr(4) by (auto simp: applied_def split: option.splits)
  show "position_accounts s' \<subseteq> insert (lt_account_id t) (position_accounts s)"
  proof (cases "eff_instrument_id e")
    case None
    with assms show ?thesis by (auto simp: applied_def position_accounts_def)
  next
    case (Some i)
    with assms have "apply_position_effect (lt_id t) e i (es_positions s) = Inr (es_positions s')"
      and "eff_account_id e = lt_account_id t" by (simp_all add: applied_def)
    then show ?thesis
      by (simp add: position_accounts_def apply_position_effect_Inr(3))
  qed
qed

lemma history_inv_step:
  assumes inv: "history_inv h s" and ok: "valid_ledger f (h @ [t])"
    and step: "engine_step s t = Inr s'"
  shows "history_inv (h @ [t]) s'"
proof (cases "lt_transaction_type t = REVERSAL")
  case True
  with step obtain r target where r: "lt_reverses_transaction_id t = Some r"
    "dict_get (es_effects s) r = Some target" "r \<notin> es_reversed_targets s"
    and ap: "applied s t (inverse_effect target) s'" and same: "es_effects s' = es_effects s"
    "es_transaction_types s' = es_transaction_types s"
    "es_reversed_targets s' = insert r (es_reversed_targets s)"
    by (auto simp: engine_step_reversal)
  from inv r(2) have "r \<in> lt_id ` set (originals h)"
    unfolding history_inv_def by (blast dest: list_all2_get)
  moreover have "Some r \<notin> lt_reverses_transaction_id ` set (filter (\<lambda>t. lt_transaction_type t = REVERSAL) h)"
    using inv r(3) by (auto simp: history_inv_def reversed_ids_def)
  ultimately show ?thesis using inv True r(1) same applied_cash(2,3) [OF ap] applied_rest [OF ap]
    by (auto simp: history_inv_def reversed_ids_append)
next
  case False
  with step obtain e where e: "apply_original t (es_positions s) = Inr e" and ap: "applied s t e s'"
    and upd: "es_effects s' = dict_set (lt_id t) e (es_effects s)"
    "es_transaction_types s' = dict_set (lt_id t) (lt_transaction_type t) (es_transaction_types s)"
    "es_reversed_targets s' = es_reversed_targets s"
    by (auto simp: engine_step_original simp del: apply_original.simps)
  have fresh: "lt_id t \<notin> lt_id ` set h" using ok by (auto simp: valid_ledger_def)
  then have new: "dict_get (es_effects s) (lt_id t) = None" "dict_get (es_transaction_types s) (lt_id t) = None"
  proof -
    have "map fst (es_effects s) = map lt_id (originals h)"
      using inv by (intro list_all2_keys [where P = effect_of]) (simp add: history_inv_def)
    then have "fst ` set (es_effects s) = lt_id ` set (originals h)" by (metis set_map)
    with fresh show "dict_get (es_effects s) (lt_id t) = None" by (auto simp: map_of_eq_None_iff)
    show "dict_get (es_transaction_types s) (lt_id t) = None"
      using inv fresh by (auto simp: history_inv_def map_of_eq_None_iff image_iff)
  qed
  have upd': "es_effects s' = es_effects s @ [(lt_id t, e)]"
    "es_transaction_types s' = es_transaction_types s @ [(lt_id t, lt_transaction_type t)]"
    using upd(1,2) new by (simp_all add: dict_set_fresh)
  show ?thesis using inv False applied_cash(2,3) [OF ap] applied_rest [OF ap] apply_original_effect_of [OF e]
    by (auto simp: history_inv_def reversed_ids_append upd(3) upd' list_all2_appendI)
qed


section \<open>Positions\<close>

definition effect_on :: "uuid \<times> uuid \<Rightarrow> effect \<Rightarrow> bool" where
  "effect_on k e \<longleftrightarrow> eff_account_id e = fst k \<and> eff_instrument_id e = Some (snd k)"

definition open_uncertainty :: "(uuid, effect) dict \<Rightarrow> uuid set \<Rightarrow> uuid \<times> uuid \<Rightarrow> int" where
  "open_uncertainty effects targets k =
     (\<Sum>ie \<leftarrow> effects. if fst ie \<notin> targets \<and> effect_on k (snd ie) then eff_uncertainty_delta (snd ie) else 0)"

definition position_inv :: "engine_state \<Rightarrow> bool" where
  "position_inv s \<longleftrightarrow> (\<forall>k. let p = position_of (es_positions s) k in
     0 \<le> dval (pos_quantity p) \<and> 0 \<le> dval (pos_known_cost p)
     \<and> pos_uncertainty_count p = open_uncertainty (es_effects s) (es_reversed_targets s) k)"

lemma position_invD:
  assumes "position_inv s"
  shows "0 \<le> dval (pos_quantity (position_of (es_positions s) k))"
    and "0 \<le> dval (pos_known_cost (position_of (es_positions s) k))"
    and "pos_uncertainty_count (position_of (es_positions s) k) =
      open_uncertainty (es_effects s) (es_reversed_targets s) k"
  using assms unfolding position_inv_def Let_def by blast+

lemma open_uncertainty_simps [simp]:
  "open_uncertainty [] R k = 0"
  "open_uncertainty ((i, e) # d) R k =
     (if i \<notin> R \<and> effect_on k e then eff_uncertainty_delta e else 0) + open_uncertainty d R k"
  "open_uncertainty (d @ d') R k = open_uncertainty d R k + open_uncertainty d' R k"
  by (simp_all add: open_uncertainty_def)

lemma open_uncertainty_other:
  "r \<notin> fst ` set d \<Longrightarrow> open_uncertainty d (insert r R) k = open_uncertainty d R k"
  by (induction d) auto

lemma open_uncertainty_reverse:
  "dict_ok d \<Longrightarrow> dict_get d r = Some e \<Longrightarrow> r \<notin> R \<Longrightarrow> open_uncertainty d (insert r R) k =
     open_uncertainty d R k - (if effect_on k e then eff_uncertainty_delta e else 0)"
proof (induction d)
  case (Cons ie d)
  then show ?case
    by (cases ie; cases "fst ie = r") (auto simp: open_uncertainty_other)
qed simp

lemma open_uncertainty_nonneg:
  "(\<And>ie. ie \<in> set d \<Longrightarrow> 0 \<le> eff_uncertainty_delta (snd ie)) \<Longrightarrow> 0 \<le> open_uncertainty d R k"
  unfolding open_uncertainty_def by (intro sum_list_nonneg) auto

lemma position_of_applied:
  assumes "applied s t e s'"
  shows "position_of (es_positions s') k =
      (if effect_on k e then
         \<lparr>pos_quantity = dadd (pos_quantity (position_of (es_positions s) k)) (eff_quantity_delta e),
          pos_known_cost = dadd (pos_known_cost (position_of (es_positions s) k)) (eff_known_cost_delta e),
          pos_uncertainty_count = pos_uncertainty_count (position_of (es_positions s) k)
            + eff_uncertainty_delta e,
          pos_source_transaction_ids =
            pos_source_transaction_ids (position_of (es_positions s) k) @ [lt_id t]\<rparr>
       else position_of (es_positions s) k)" (is ?new)
    and "effect_on k e \<Longrightarrow> 0 \<le> dval (pos_quantity (position_of (es_positions s') k))
      \<and> 0 \<le> dval (pos_known_cost (position_of (es_positions s') k))" (is "_ \<Longrightarrow> ?nonneg")
proof -
  have "?new \<and> (effect_on k e \<longrightarrow> ?nonneg)"
  proof (cases "eff_instrument_id e")
    case None
    with assms show ?thesis by (simp add: applied_def effect_on_def)
  next
    case (Some i)
    with assms have ap: "apply_position_effect (lt_id t) e i (es_positions s) = Inr (es_positions s')"
      by (simp add: applied_def)
    show ?thesis
    proof (cases "k = (eff_account_id e, i)")
      case True
      with apply_position_effect_Inr(1) [OF ap] Some show ?thesis
        by (auto simp: position_after_Inr effect_on_def)
    next
      case False
      with apply_position_effect_Inr(2) [OF ap] Some show ?thesis
        by (cases k) (auto simp: effect_on_def)
    qed
  qed
  then show ?new "effect_on k e \<Longrightarrow> ?nonneg" by blast+
qed


lemma effect_on_inverse [simp]: "effect_on k (inverse_effect e) = effect_on k e"
  by (simp add: effect_on_def)

lemma history_effects:
  assumes "history_inv h s" and "valid_ledger f h"
  shows "dict_ok (es_effects s)" and "map fst (es_effects s) = map lt_id (originals h)"
    and "\<And>r e. dict_get (es_effects s) r = Some e \<Longrightarrow> \<exists>t \<in> set (originals h). lt_id t = r \<and> effect_of t e"
    and "\<And>ie. ie \<in> set (es_effects s) \<Longrightarrow> 0 \<le> eff_uncertainty_delta (snd ie)"
    and "i \<notin> lt_id ` set h \<Longrightarrow> dict_get (es_effects s) i = None"
proof -
  have all: "list_all2 (\<lambda>t ie. fst ie = lt_id t \<and> effect_of t (snd ie)) (originals h) (es_effects s)"
    using assms(1) by (simp add: history_inv_def)
  show keys: "map fst (es_effects s) = map lt_id (originals h)"
    using all by (rule list_all2_keys)
  show ok: "dict_ok (es_effects s)"
    using assms(2) by (simp add: keys valid_ledger_def distinct_map_filter)
  show get: "\<exists>t \<in> set (originals h). lt_id t = r \<and> effect_of t e" if "dict_get (es_effects s) r = Some e" for r e
    using all that by (rule list_all2_get)
  show "0 \<le> eff_uncertainty_delta (snd ie)" if "ie \<in> set (es_effects s)" for ie
    using get [of "fst ie" "snd ie"] that ok by (auto simp: effect_of_def)
  have "fst ` set (es_effects s) = lt_id ` set (originals h)" using keys by (metis set_map)
  then show "i \<notin> lt_id ` set h \<Longrightarrow> dict_get (es_effects s) i = None"
    by (auto simp: map_of_eq_None_iff)
qed

lemma position_inv_step:
  assumes hist: "history_inv h s" and inv: "position_inv s" and ok: "valid_ledger f (h @ [t])"
    and step: "engine_step s t = Inr s'"
  shows "position_inv s'"
proof -
  have ok': "valid_ledger f h" using ok by (rule valid_ledger_append)
  note eff = history_effects [OF hist ok']
  note old = position_invD(3) [OF inv]
  have count: "pos_uncertainty_count (position_of (es_positions s') k) =
      open_uncertainty (es_effects s') (es_reversed_targets s') k \<and>
      (\<exists>e. applied s t e s')" for k
  proof (cases "lt_transaction_type t = REVERSAL")
    case True
    with step obtain r target where "dict_get (es_effects s) r = Some target" "r \<notin> es_reversed_targets s"
      and ap: "applied s t (inverse_effect target) s'" and "es_effects s' = es_effects s"
      "es_reversed_targets s' = insert r (es_reversed_targets s)"
      by (auto simp: engine_step_reversal)
    with eff(1) show ?thesis
      by (auto simp: old position_of_applied(1) [OF ap] open_uncertainty_reverse)
  next
    case False
    with step obtain e where ap: "applied s t e s'"
      and upd: "es_effects s' = dict_set (lt_id t) e (es_effects s)"
      "es_reversed_targets s' = es_reversed_targets s"
      by (auto simp: engine_step_original simp del: apply_original.simps)
    have "lt_id t \<notin> lt_id ` set h" using ok by (auto simp: valid_ledger_def)
    moreover from this have "dict_get (es_effects s) (lt_id t) = None"
      by (rule eff(5))
    moreover have "reversed_ids h \<subseteq> lt_id ` set h" "es_reversed_targets s = reversed_ids h"
      using hist by (auto simp: history_inv_def)
    ultimately show ?thesis using ap
      by (auto simp: old position_of_applied(1) [OF ap] upd dict_set_fresh)
  qed
  then obtain e where ap: "applied s t e s'" by blast
  have "0 \<le> dval (pos_quantity (position_of (es_positions s') k))
      \<and> 0 \<le> dval (pos_known_cost (position_of (es_positions s') k))" for k
  proof (cases "effect_on k e")
    case True
    then show ?thesis by (rule position_of_applied(2) [OF ap])
  next
    case False
    then show ?thesis by (simp add: position_of_applied(1) [OF ap] position_invD [OF inv])
  qed
  with count show ?thesis by (simp add: position_inv_def Let_def)
qed

section \<open>Unknown cost and provenance\<close>

text \<open>An opening position without a price is the only origin of uncertainty.\<close>

definition unpriced_on :: "uuid \<times> uuid \<Rightarrow> ledger_transaction \<Rightarrow> bool" where
  "unpriced_on k t \<longleftrightarrow> lt_transaction_type t = OPENING_POSITION \<and> lt_unit_price t = None
     \<and> lt_account_id t = fst k \<and> lt_instrument_id t = Some (snd k)"

definition known_inv :: "ledger_transaction list \<Rightarrow> engine_state \<Rightarrow> bool" where
  "known_inv h s \<longleftrightarrow> (\<forall>k. (\<forall>t \<in> set h. \<not> unpriced_on k t) \<longrightarrow>
     (\<forall>ie \<in> set (es_effects s). effect_on k (snd ie) \<longrightarrow> eff_uncertainty_delta (snd ie) = 0))"

lemma known_invD:
  "known_inv h s \<Longrightarrow> (\<And>t. t \<in> set h \<Longrightarrow> \<not> unpriced_on k t) \<Longrightarrow> ie \<in> set (es_effects s)
     \<Longrightarrow> effect_on k (snd ie) \<Longrightarrow> eff_uncertainty_delta (snd ie) = 0"
  unfolding known_inv_def by blast

lemma known_invI:
  "(\<And>k ie. (\<And>t. t \<in> set h \<Longrightarrow> \<not> unpriced_on k t) \<Longrightarrow> ie \<in> set (es_effects s)
     \<Longrightarrow> effect_on k (snd ie) \<Longrightarrow> eff_uncertainty_delta (snd ie) = 0) \<Longrightarrow> known_inv h s"
  unfolding known_inv_def by blast

lemma open_uncertainty_zero:
  "(\<And>ie. ie \<in> set d \<Longrightarrow> effect_on k (snd ie) \<Longrightarrow> eff_uncertainty_delta (snd ie) = 0)
     \<Longrightarrow> open_uncertainty d R k = 0"
  unfolding open_uncertainty_def by (induction d) auto

lemma apply_original_known:
  assumes "apply_original t ps = Inr e" and "effect_on k e" and "\<not> unpriced_on k t"
    and "pos_uncertainty_count (position_of ps k) = 0"
  shows "eff_uncertainty_delta e = 0"
  using assms
  by (auto simp: cash_effect_def buy_effect_def sell_effect_def opening_position_effect_def result_simps
      Let_def effect_on_def unpriced_on_def position_of_def
      split: transaction_type.splits if_splits option.splits)

lemma known_inv_step:
  assumes pos: "position_inv s" and inv: "known_inv h s" and step: "engine_step s t = Inr s'"
  shows "known_inv (h @ [t]) s'"
proof (cases "lt_transaction_type t = REVERSAL")
  case True
  with step have "es_effects s' = es_effects s" by (auto simp: engine_step_reversal)
  with inv show ?thesis by (auto intro!: known_invI known_invD [OF inv])
next
  case False
  with step obtain e where e: "apply_original t (es_positions s) = Inr e"
    and upd: "es_effects s' = dict_set (lt_id t) e (es_effects s)"
    by (auto simp: engine_step_original simp del: apply_original.simps)
  have "eff_uncertainty_delta (snd ie) = 0"
    if k: "\<And>u. u \<in> set (h @ [t]) \<Longrightarrow> \<not> unpriced_on k u" and ie: "ie \<in> set (es_effects s')" "effect_on k (snd ie)"
    for k ie
  proof -
    have old: "eff_uncertainty_delta (snd x) = 0" if "x \<in> set (es_effects s)" "effect_on k (snd x)" for x
      by (rule known_invD [OF inv _ that]) (use k in simp)
    have "pos_uncertainty_count (position_of (es_positions s) k) = 0"
      unfolding position_invD(3) [OF pos] using old by (rule open_uncertainty_zero)
    with apply_original_known [OF e] k have new: "effect_on k e \<Longrightarrow> eff_uncertainty_delta e = 0"
      by simp
    have "ie \<in> set (es_effects s) \<or> snd ie = e"
      using ie(1) dict_set_member unfolding upd by fastforce
    with old new ie(2) show ?thesis by blast
  qed
  then show ?thesis by (rule known_invI)
qed

text \<open>The position a transaction touches: its own, or for a reversal that of its target.\<close>

definition position_key :: "ledger_transaction list \<Rightarrow> ledger_transaction \<Rightarrow> (uuid \<times> uuid) option" where
  "position_key h t = map_option (Pair (lt_account_id t))
     (if lt_transaction_type t = REVERSAL
      then Option.bind (find (\<lambda>u. Some (lt_id u) = lt_reverses_transaction_id t) h) traded_instrument
      else traded_instrument t)"

definition source_inv :: "ledger_transaction list \<Rightarrow> engine_state \<Rightarrow> bool" where
  "source_inv h s \<longleftrightarrow> (\<forall>k. pos_source_transaction_ids (position_of (es_positions s) k) =
     map lt_id (filter (\<lambda>t. position_key h t = Some k) h))"

lemma position_key_effect:
  "effect_of t e \<Longrightarrow> lt_transaction_type t \<noteq> REVERSAL \<Longrightarrow> effect_on k e \<longleftrightarrow> position_key h t = Some k"
  by (cases k) (auto simp: effect_of_def effect_on_def position_key_def simp del: traded_instrument.simps)

lemma find_append: "find P (xs @ ys) = (case find P xs of None \<Rightarrow> find P ys | Some x \<Rightarrow> Some x)"
  by (induction xs) auto

lemma position_key_append:
  assumes "history_inv h s" and "t \<in> set h"
  shows "position_key (h @ [x]) t = position_key h t"
proof (cases "lt_transaction_type t = REVERSAL")
  case True
  have "find (\<lambda>u. Some (lt_id u) = lt_reverses_transaction_id t) h \<noteq> None
      \<or> lt_reverses_transaction_id t = None"
  proof (cases "lt_reverses_transaction_id t")
    case (Some r)
    with True assms(2) have "r \<in> reversed_ids h" by (auto simp: reversed_ids_def)
    with assms(1) have "r \<in> lt_id ` set h" by (auto simp: history_inv_def)
    with Some show ?thesis by (auto simp: find_None_iff)
  qed simp
  then show ?thesis by (auto simp: position_key_def find_append split: option.splits)
qed (simp add: position_key_def)

lemma find_unique:
  "distinct (map f xs) \<Longrightarrow> u \<in> set xs \<Longrightarrow> f u = y \<Longrightarrow> find (\<lambda>x. f x = y) xs = Some u"
  by (induction xs) auto

lemma source_inv_step:
  assumes hist: "history_inv h s" and inv: "source_inv h s" and ok: "valid_ledger f (h @ [t])"
    and step: "engine_step s t = Inr s'"
  shows "source_inv (h @ [t]) s'"
proof -
  have key: "\<exists>e. applied s t e s' \<and> (\<forall>k. effect_on k e \<longleftrightarrow> position_key (h @ [t]) t = Some k)"
  proof (cases "lt_transaction_type t = REVERSAL")
    case True
    with step obtain r target where r: "lt_reverses_transaction_id t = Some r"
      "dict_get (es_effects s) r = Some target" and ap: "applied s t (inverse_effect target) s'"
      by (auto simp: engine_step_reversal)
    from history_effects(3) [OF hist valid_ledger_append [OF ok] r(2)] obtain u
      where u: "u \<in> set h" "lt_transaction_type u \<noteq> REVERSAL" "lt_id u = r" "effect_of u target" by auto
    have "find (\<lambda>v. lt_id v = r) (h @ [t]) = Some u"
      using ok u by (intro find_unique) (auto simp: valid_ledger_def)
    then have "position_key (h @ [t]) t = map_option (Pair (lt_account_id t)) (traded_instrument u)"
      using True r(1) by (simp add: position_key_def del: traded_instrument.simps)
    moreover have "eff_account_id target = lt_account_id t" using ap by (simp add: applied_def)
    ultimately have "effect_on k (inverse_effect target) \<longleftrightarrow> position_key (h @ [t]) t = Some k" for k
      using u(4) by (cases k) (auto simp: effect_of_def effect_on_def simp del: traded_instrument.simps)
    with ap show ?thesis by blast
  next
    case False
    with step obtain e where e: "apply_original t (es_positions s) = Inr e" and ap: "applied s t e s'"
      by (auto simp: engine_step_original simp del: apply_original.simps)
    with position_key_effect [OF apply_original_effect_of [OF e] False] show ?thesis by blast
  qed
  then obtain e where ap: "applied s t e s'"
    and e: "effect_on k e \<longleftrightarrow> position_key (h @ [t]) t = Some k" for k by blast
  have "filter (\<lambda>u. position_key (h @ [t]) u = Some k) h = filter (\<lambda>u. position_key h u = Some k) h" for k
    using position_key_append [OF hist] by (intro filter_cong) auto
  with inv show ?thesis
    by (simp add: source_inv_def position_of_applied(1) [OF ap] e)
qed

section \<open>The invariant of the loop\<close>

definition engine_inv :: "ledger_transaction list \<Rightarrow> engine_state \<Rightarrow> bool" where
  "engine_inv h s \<longleftrightarrow> history_inv h s \<and> position_inv s \<and> known_inv h s \<and> source_inv h s"

interpretation engine: history_invariant engine_step engine_init engine_inv "valid_ledger f" for f
proof
  show "engine_inv [] engine_init"
    by (simp add: engine_inv_def history_inv_def position_inv_def engine_init_def reversed_ids_def
        position_accounts_def position_of_def new_position_def known_inv_def source_inv_def)
  show "engine_inv (h @ [x]) s'" if "engine_inv h s" "valid_ledger f (h @ [x])" "engine_step s x = Inr s'"
    for h s x s'
    using that history_inv_step position_inv_step known_inv_step source_inv_step
    by (auto simp: engine_inv_def)
  show "valid_ledger f h" if "valid_ledger f (h @ h')" for h h'
    using that by (rule valid_ledger_append)
qed

lemma distinct_map_sort_key: "distinct (map g (sort_key f xs)) \<longleftrightarrow> distinct (map g xs)"
  by (rule mset_eq_imp_distinct_iff) simp

lemma ordered_transactions_set:
  "set (ordered_transactions a acc ts) \<subseteq> set ts"
  "valid_ledger f ts \<Longrightarrow> valid_ledger f (ordered_transactions a acc ts)"
  by (auto simp: ordered_transactions_def included_transactions_def valid_ledger_def
      distinct_map_filter distinct_map_sort_key)

lemma reconstruct_Inr:
  "reconstruct H f ts a acc = Inr st \<longleftrightarrow> is_aware a \<and> valid_ledger f ts \<and>
     (\<exists>s. foldR engine_step engine_init (ordered_transactions a acc ts) = Inr s \<and>
       st = portfolio_output H f acc a (ordered_transactions a acc ts) s)"
  by (auto simp: reconstruct_def result_simps validate_iff Let_def)

lemma reconstruct_inv:
  assumes "reconstruct H f ts a acc = Inr st"
  obtains s where "foldR engine_step engine_init (ordered_transactions a acc ts) = Inr s"
    and "engine_inv (ordered_transactions a acc ts) s"
    and "st = portfolio_output H f acc a (ordered_transactions a acc ts) s"
    and "valid_ledger f (ordered_transactions a acc ts)"
  using assms engine.run_inv ordered_transactions_set(2) unfolding reconstruct_Inr by blast

end
