(* ===== verification/Portfolio_Properties.thy ===== *)
theory Portfolio_Properties
  imports Portfolio_Invariant
begin

text \<open>
  What \<open>PortfolioEngine.reconstruct\<close> guarantees: the result is a function of the set of
  transactions in scope, positions are well formed, internal errors cannot occur, reversals undo one
  earlier transaction each, the cost status and the listed sources of a position are those of its
  history.
\<close>

section \<open>Determinism\<close>

lemma transaction_key_inj: "distinct (map lt_id ts) \<Longrightarrow> inj_on transaction_key (set ts)"
  by (auto simp: transaction_key_def inj_on_def distinct_map)

lemma ordered_transactions_cong:
  assumes "valid_ledger f ts" and "mset (included_transactions a acc ts) = mset (included_transactions a acc ts')"
  shows "ordered_transactions a acc ts = ordered_transactions a acc ts'"
  unfolding ordered_transactions_def
proof (rule sort_key_mset_cong [OF assms(2)])
  have "inj_on transaction_key (set ts)"
    using assms(1) by (intro transaction_key_inj) (simp add: valid_ledger_def)
  then show "inj_on transaction_key (set (included_transactions a acc ts))"
    by (rule inj_on_subset) (auto simp: included_transactions_def)
qed

lemma reconstruct_cong:
  assumes "valid_ledger f ts" "valid_ledger f ts'"
    and "mset (included_transactions a acc ts) = mset (included_transactions a acc ts')"
  shows "reconstruct H f ts a acc = reconstruct H f ts' a acc"
  using assms ordered_transactions_cong [OF assms(1,3)]
  by (simp add: reconstruct_def validate_iff [THEN iffD2])

text \<open>C6: The reconstruction is a function of the set of ledger records: supplying the same
  transactions in any other order gives the same state, byte for byte (including the input hash),
  and fails exactly when the other order fails.\<close>

theorem reconstruct_permutation:
  assumes "mset ts = mset ts'"
  shows "reconstruct H f ts a acc = Inr st \<longleftrightarrow> reconstruct H f ts' a acc = Inr st"
proof (cases "valid_ledger f ts")
  case True
  moreover from this have "valid_ledger f ts'" using valid_ledger_mset [OF assms] by blast
  moreover have "mset (included_transactions a acc ts) = mset (included_transactions a acc ts')"
    using assms by (simp add: included_transactions_def)
  ultimately show ?thesis by (simp add: reconstruct_cong [of f ts ts'])
next
  case False
  with valid_ledger_mset [OF assms] show ?thesis by (simp add: reconstruct_Inr)
qed

text \<open>C17: Point-in-time correctness: let the supplied records be, in any order, some transactions and
  further ones effective after as_of. If the whole input passes the validation of scope and
  timestamps, the result at as_of is that of the transactions without the later ones; if it does
  not, the later ones included, the result is that validation error (a naive as_of is refused
  first, with the same error).\<close>

theorem reconstruct_point_in_time:
  assumes "mset supplied = mset (ts @ later)"
    and "\<And>t. t \<in> set later \<Longrightarrow> instant a < instant (lt_effective_at t)"
  shows "reconstruct H f supplied a acc =
    (if is_aware a then (case validate_scope_and_timestamps f supplied of
         Inl e \<Rightarrow> Inl e | Inr _ \<Rightarrow> reconstruct H f ts a acc)
     else reconstruct H f ts a acc)"
proof (cases "validate_scope_and_timestamps f supplied")
  case (Inl e)
  then show ?thesis by (simp add: reconstruct_def)
next
  case (Inr u)
  then have "valid_ledger f supplied" by (simp add: validate_iff)
  moreover from this have "valid_ledger f ts"
    using valid_ledger_mset [OF assms(1)] valid_ledger_append by blast
  moreover have "included_transactions a acc later = []"
    using assms(2) by (force simp: included_transactions_def filter_empty_conv)
  then have "mset (included_transactions a acc supplied) = mset (included_transactions a acc ts)"
    using arg_cong [OF assms(1), of "filter_mset (\<lambda>t. instant (lt_effective_at t) \<le> instant a \<and> (acc = None \<or> acc = Some (lt_account_id t)))"]
    unfolding included_transactions_def by (simp flip: mset_filter)
  ultimately show ?thesis using reconstruct_cong [of f supplied ts a acc H] Inr by simp
qed

section \<open>Positions\<close>

lemma sort_key_fst_strict:
  fixes d :: "('k :: linorder \<times> 'v) list"
  assumes "dict_ok d"
  shows "sorted_wrt (\<lambda>x y. fst x < fst y) (sort_key fst d)"
  using assms by (intro sorted_distinct_map_strict) (simp_all add: distinct_map_sort_key)

lemma positions_out_sorted:
  assumes "dict_ok ps"
  shows "sorted_wrt (\<lambda>p q. (ps_account_id p, ps_instrument_id p) < (ps_account_id q, ps_instrument_id q))
    (positions_out ps)"
proof -
  have "sorted_wrt (\<lambda>x y. fst x < fst y) (filter (\<lambda>kp. \<not> deq (pos_quantity (snd kp)) dzero) (sort_key fst ps))"
    by (rule sorted_wrt_filter) (rule sort_key_fst_strict [OF assms])
  then show ?thesis
    unfolding positions_out_def sorted_wrt_map
    by (rule sorted_wrt_mono_rel [rotated]) (auto simp: position_state_of_def split: prod.splits)
qed

lemma positions_out_iff:
  assumes "dict_ok ps"
  shows "p \<in> set (positions_out ps) \<longleftrightarrow>
    (\<exists>k. p = position_state_of (k, position_of ps k) \<and> k \<in> fst ` set ps
       \<and> dval (pos_quantity (position_of ps k)) \<noteq> 0)"
proof -
  have "set (positions_out ps) = position_state_of ` {kx \<in> set ps. dval (pos_quantity (snd kx)) \<noteq> 0}"
    by (auto simp: positions_out_def dec_simps)
  also have "{kx \<in> set ps. dval (pos_quantity (snd kx)) \<noteq> 0} =
    (\<lambda>k. (k, position_of ps k)) ` {k \<in> fst ` set ps. dval (pos_quantity (position_of ps k)) \<noteq> 0}"
  proof (intro set_eqI iffI)
    fix kx
    assume "kx \<in> {kx \<in> set ps. dval (pos_quantity (snd kx)) \<noteq> 0}"
    moreover from this assms have "kx = (fst kx, position_of ps (fst kx))"
      by (cases kx) (auto simp: position_of_def)
    ultimately show "kx \<in> (\<lambda>k. (k, position_of ps k)) `
        {k \<in> fst ` set ps. dval (pos_quantity (position_of ps k)) \<noteq> 0}"
      by (metis (mono_tags, lifting) image_eqI mem_Collect_eq snd_conv)
  qed (use assms in \<open>auto simp: position_of_def\<close>)
  finally show ?thesis by blast
qed

lemma positions_facts:
  assumes "reconstruct H f ts a acc = Inr st"
  shows "sorted_wrt (\<lambda>p q. (ps_account_id p, ps_instrument_id p) < (ps_account_id q, ps_instrument_id q))
      (pf_positions st)
    \<and> (\<forall>p \<in> set (pf_positions st). 0 < dval (ps_quantity p)
        \<and> (acc = None \<or> acc = Some (ps_account_id p))
        \<and> (case ps_cost_basis_status p of
             KNOWN \<Rightarrow> \<exists>c. ps_total_cost_basis p = Some c \<and> 0 \<le> dval c
               \<and> ps_average_cost p = Some (ddiv c (ps_quantity p))
           | UNKNOWN \<Rightarrow> ps_total_cost_basis p = None \<and> ps_average_cost p = None))"
proof -
  from assms obtain s where run: "engine_inv (ordered_transactions a acc ts) s"
    and st: "pf_positions st = positions_out (es_positions s)"
    by (rule reconstruct_inv) (auto simp: portfolio_output_def Let_def)
  have ok: "dict_ok (es_positions s)" and "position_inv s"
    and accts: "position_accounts s \<subseteq> lt_account_id ` set (ordered_transactions a acc ts)"
    using run by (simp_all add: engine_inv_def history_inv_def)
  note inv = position_invD [OF this(2)]
  have "0 < dval (ps_quantity p) \<and> (acc = None \<or> acc = Some (ps_account_id p))
        \<and> (case ps_cost_basis_status p of
             KNOWN \<Rightarrow> \<exists>c. ps_total_cost_basis p = Some c \<and> 0 \<le> dval c
               \<and> ps_average_cost p = Some (ddiv c (ps_quantity p))
           | UNKNOWN \<Rightarrow> ps_total_cost_basis p = None \<and> ps_average_cost p = None)"
    if "p \<in> set (pf_positions st)" for p
  proof -
    from that st obtain k where k: "p = position_state_of (k, position_of (es_positions s) k)"
      "k \<in> fst ` set (es_positions s)" "dval (pos_quantity (position_of (es_positions s) k)) \<noteq> 0"
      by (auto simp: positions_out_iff [OF ok])
    from k(2) have "fst k \<in> position_accounts s" unfolding position_accounts_def by (rule imageI)
    with accts have "acc = None \<or> acc = Some (fst k)"
      by (auto simp: ordered_transactions_def included_transactions_def)
    with k(3) inv(1,2) [of k] show ?thesis
      by (cases k) (simp add: k(1) position_state_of_def less_le split: prod.splits)
  qed
  with positions_out_sorted [OF ok] st show ?thesis by simp
qed

text \<open>C16: Every listed position has a positive quantity, belongs to the requested account, and
  carries a non-negative total cost with average = total / quantity exactly when its cost basis is
  KNOWN, neither when it is UNKNOWN; the positions are strictly sorted by account and instrument.\<close>

theorem reconstruct_positions:
  assumes "reconstruct H f ts a acc = Inr st"
  shows "sorted_wrt (\<lambda>p q. (ps_account_id p, ps_instrument_id p) < (ps_account_id q, ps_instrument_id q))
      (pf_positions st)
    \<and> (\<forall>p \<in> set (pf_positions st). 0 < dval (ps_quantity p)
        \<and> (acc = None \<or> acc = Some (ps_account_id p))
        \<and> (case ps_cost_basis_status p of
             KNOWN \<Rightarrow> \<exists>c. ps_total_cost_basis p = Some c \<and> 0 \<le> dval c
               \<and> ps_average_cost p = Some (ddiv c (ps_quantity p))
           | UNKNOWN \<Rightarrow> ps_total_cost_basis p = None \<and> ps_average_cost p = None))"
  by (rule positions_facts [OF assms])

section \<open>Errors\<close>

definition internal_errors :: "portfolio_error set" where
  "internal_errors = range PyKeyError
     \<union> {InvalidEngineInput ''unsupported transaction type'' None,
        InvalidReversalError ''a reversal cannot target another reversal'' None,
        InvalidReversalError ''reversal removed cost-basis uncertainty that was absent'' None}
     \<union> range (\<lambda>i. NegativeHoldingError i ''sell has no available quantity'')"

lemma not_internal [simp]:
  "InvalidEngineInput m (Some i) \<notin> internal_errors"
  "InvalidReversalError m (Some i) \<notin> internal_errors"
  "NegativeCostBasisError i \<notin> internal_errors"
  "NegativeHoldingError i ''sell exceeds available quantity'' \<notin> internal_errors"
  "NegativeHoldingError i ''transaction creates a negative holding'' \<notin> internal_errors"
  "InvalidReversalError ''reversal must use the target account'' None \<notin> internal_errors"
  by (auto simp: internal_errors_def)

lemma validation_error:
  "validate_scope_and_timestamps f ts = Inl e \<Longrightarrow> e \<notin> internal_errors"
proof -
  have shape: "validate_transaction_shape t = Inl e \<Longrightarrow> e \<notin> internal_errors" for t e
    by (cases "lt_transaction_type t")
      (auto simp: validate_transaction_shape_def require_no_position_fields_def bindR_Inl_iff
        requireR_Inl required_amount_def required_quantity_def required_price_def
        required_instrument_def required_reversal_target_def split: option.splits if_splits)
  have step: "validate_scope_step f seen t = Inl e \<Longrightarrow> e \<notin> internal_errors" for seen t e
    by (auto simp: validate_scope_step_def bindR_Inl_iff requireR_Inl dest!: shape)
      (auto simp: internal_errors_def)
  have "foldR (validate_scope_step f) seen ts = Inl e \<Longrightarrow> e \<notin> internal_errors" for seen
    by (induction ts arbitrary: seen) (auto simp: bindR_Inl_iff dest: step)
  then show "validate_scope_and_timestamps f ts = Inl e \<Longrightarrow> e \<notin> internal_errors"
    by (simp add: validate_scope_and_timestamps_def bindR_Inl_iff)
qed

lemma apply_original_error:
  assumes "apply_original t (es_positions s) = Inl e" and "lt_transaction_type t \<noteq> REVERSAL"
  shows "e \<notin> internal_errors"
  using assms
  by (cases "lt_transaction_type t")
    (auto simp: buy_effect_def sell_effect_def opening_position_effect_def bindR_Inl_iff Let_def
      required_amount_def required_quantity_def required_price_def dec_simps
      required_instrument_def split: option.splits if_splits)


lemma original_never_reversal_type:
  "history_inv h s \<Longrightarrow> dict_get (es_transaction_types s) r \<noteq> Some REVERSAL"
  by (auto simp: history_inv_def dest!: map_of_SomeD)

text \<open>The count after a transaction cannot be negative: a reversal takes back what is still counted.\<close>

lemma transaction_effect_uncertainty:
  assumes inv: "engine_inv h s" and ok: "valid_ledger f (h @ [t])"
    and e: "transaction_effect s t = Inr (e, s1)" and k: "effect_on k e"
  shows "0 \<le> pos_uncertainty_count (position_of (es_positions s) k) + eff_uncertainty_delta e"
proof -
  have hist: "history_inv h s" and pos: "position_inv s" using inv by (simp_all add: engine_inv_def)
  note eff = history_effects [OF hist valid_ledger_append [OF ok]]
  have nonneg: "0 \<le> open_uncertainty (es_effects s) R k" for R
    using eff(4) by (rule open_uncertainty_nonneg)
  show ?thesis
  proof (cases "lt_transaction_type t = REVERSAL")
    case True
    with e obtain r target where r: "dict_get (es_effects s) r = Some target" "r \<notin> es_reversed_targets s"
      and e': "e = inverse_effect target"
      by (auto simp: transaction_effect_def reversal_effect_Inr result_simps)
    have "open_uncertainty (es_effects s) (insert r (es_reversed_targets s)) k =
        open_uncertainty (es_effects s) (es_reversed_targets s) k - eff_uncertainty_delta target"
      using open_uncertainty_reverse [OF eff(1) r] k e' by simp
    with nonneg [of "insert r (es_reversed_targets s)"] show ?thesis
      by (simp add: position_invD(3) [OF pos] e')
  next
    case False
    with e have "apply_original t (es_positions s) = Inr e"
      by (auto simp: transaction_effect_def result_simps simp del: apply_original.simps)
    from apply_original_effect(2) [OF this] nonneg show ?thesis
      by (auto simp: position_invD(3) [OF pos])
  qed
qed

lemma engine_step_error:
  assumes inv: "engine_inv h s" and ok: "valid_ledger f (h @ [t])" and err: "engine_step s t = Inl e"
  shows "e \<notin> internal_errors"
proof (cases "transaction_effect s t")
  case (Inl e')
  with err have e': "e' = e" by (simp add: engine_step_def Let_def)
  show ?thesis
  proof (cases "lt_transaction_type t = REVERSAL")
    case True
    with Inl original_never_reversal_type inv show ?thesis
      by (auto simp: e' transaction_effect_def reversal_effect_def bindR_Inl_iff engine_inv_def
          required_reversal_target_def split: option.splits if_splits)
  next
    case False
    with Inl have "apply_original t (es_positions s) = Inl e"
      by (simp add: transaction_effect_def bindR_Inl_iff e' del: apply_original.simps)
    from this False show ?thesis by (rule apply_original_error)
  qed
next
  case (Inr x)
  then obtain d s1 where d: "transaction_effect s t = Inr (d, s1)" by (cases x) auto
  have acct: "eff_account_id d = lt_account_id t" using d by (rule transaction_effect_account)
  have "dict_get (dict_setdefault (lt_account_id t) dzero (es_cash s)) (lt_account_id t) \<noteq> None"
    by (simp add: dict_simps split: option.splits)
  with err acct obtain i where i: "eff_instrument_id d = Some i"
    and ap: "apply_position_effect (lt_id t) d i (es_positions s) = Inl e"
    by (auto simp: engine_step_def d Let_def bindR_Inl_iff split: option.splits)
  define k where "k = (eff_account_id d, i)"
  have "effect_on k d" by (simp add: k_def effect_on_def i)
  from transaction_effect_uncertainty [OF inv ok d this]
  have count: "0 \<le> pos_uncertainty_count (position_of (es_positions s) k) + eff_uncertainty_delta d" .
  have "the (dict_get (dict_setdefault k new_position (es_positions s)) k) = position_of (es_positions s) k"
    by (auto simp: dict_simps position_of_def split: option.splits)
  with ap have "position_after (lt_id t) d (position_of (es_positions s) k) = Inl e"
    by (simp add: apply_position_effect_def bindR_Inl_iff k_def Let_def)
  with count show ?thesis
    by (auto simp: position_after_def Let_def split: if_splits)
qed

text \<open>C34: No ledger drives the engine into its defensive branches: never a KeyError on the cash
  dictionary, never "a reversal cannot target another reversal", never "sell has no available
  quantity", never a negative uncertainty count, never an unsupported type.\<close>

theorem reconstruct_no_internal_error:
  "reconstruct H f ts a acc \<notin> Inl ` internal_errors"
proof
  assume "reconstruct H f ts a acc \<in> Inl ` internal_errors"
  then obtain e where e: "reconstruct H f ts a acc = Inl e" "e \<in> internal_errors" by auto
  have "validate_scope_and_timestamps f ts \<noteq> Inl e" using e(2) validation_error by blast
  moreover have "e \<noteq> InvalidEngineInput ''as_of must be timezone-aware'' None"
    using e(2) by (auto simp: internal_errors_def)
  ultimately have run: "foldR engine_step engine_init (ordered_transactions a acc ts) = Inl e"
    and "validate_scope_and_timestamps f ts = Inr ()"
    using e(1) by (auto simp: reconstruct_def bindR_Inl_iff requireR_Inl Let_def)
  then have ok: "valid_ledger f (ordered_transactions a acc ts)"
    by (intro ordered_transactions_set(2)) (simp add: validate_iff)
  from engine.error_at [OF this run] engine_step_error e(2) show False by blast
qed

section \<open>Reversals\<close>

lemma engine_reversal_at:
  assumes ok: "valid_ledger f (h1 @ t # h2)" and run: "foldR engine_step engine_init (h1 @ t # h2) = Inr s"
    and t: "lt_transaction_type t = REVERSAL"
  obtains u where "u \<in> set h1" "lt_transaction_type u \<noteq> REVERSAL"
    "lt_reverses_transaction_id t = Some (lt_id u)" "lt_account_id u = lt_account_id t"
proof -
  from ok run obtain s1 where inv: "engine_inv h1 s1" and rest: "foldR engine_step s1 (t # h2) = Inr s"
    by (rule engine.prefix_inv)
  from rest obtain s2 where "engine_step s1 t = Inr s2" by (auto simp: result_simps)
  with t obtain r target where r: "lt_reverses_transaction_id t = Some r"
    "dict_get (es_effects s1) r = Some target" "applied s1 t (inverse_effect target) s2"
    by (auto simp: engine_step_reversal)
  from history_effects(3) [of h1 s1, OF _ valid_ledger_append [OF ok] r(2)] inv
  obtain u where "u \<in> set h1" "lt_transaction_type u \<noteq> REVERSAL" "lt_id u = r" "effect_of u target"
    by (auto simp: engine_inv_def)
  with r show thesis by (intro that [of u]) (auto simp: effect_of_def applied_def)
qed

theorem reconstruct_reversals:
  assumes "reconstruct H f ts a acc = Inr st"
  defines "h \<equiv> ordered_transactions a acc ts"
  shows "distinct (map lt_reverses_transaction_id (filter (\<lambda>t. lt_transaction_type t = REVERSAL) h))
    \<and> (\<forall>i < length h. lt_transaction_type (h ! i) = REVERSAL \<longrightarrow>
        (\<exists>j < i. lt_transaction_type (h ! j) \<noteq> REVERSAL \<and> lt_account_id (h ! j) = lt_account_id (h ! i)
           \<and> lt_reverses_transaction_id (h ! i) = Some (lt_id (h ! j))))"
proof -
  from assms(1) obtain s where run: "foldR engine_step engine_init h = Inr s"
    and inv: "engine_inv h s" and ok: "valid_ledger f h"
    unfolding h_def by (rule reconstruct_inv)
  have "\<exists>j < i. lt_transaction_type (h ! j) \<noteq> REVERSAL \<and> lt_account_id (h ! j) = lt_account_id (h ! i)
           \<and> lt_reverses_transaction_id (h ! i) = Some (lt_id (h ! j))"
    if i: "i < length h" "lt_transaction_type (h ! i) = REVERSAL" for i
  proof -
    have h: "take i h @ h ! i # drop (Suc i) h = h" using i(1) by (rule id_take_nth_drop [symmetric])
    from engine_reversal_at [of f "take i h" "h ! i" "drop (Suc i) h" s] ok run i(2)
    obtain u where u: "u \<in> set (take i h)" "lt_transaction_type u \<noteq> REVERSAL"
      "lt_reverses_transaction_id (h ! i) = Some (lt_id u)" "lt_account_id u = lt_account_id (h ! i)"
      unfolding h by metis
    from u(1) obtain j where "j < i" "h ! j = u" using i(1) by (auto simp: in_set_conv_nth)
    with u(2-4) show ?thesis by blast
  qed
  with inv show ?thesis by (auto simp: engine_inv_def history_inv_def)
qed

section \<open>Cost status and provenance\<close>

lemma reconstruct_position:
  assumes "reconstruct H f ts a acc = Inr st" and "p \<in> set (pf_positions st)"
  obtains s k where "engine_inv (ordered_transactions a acc ts) s"
    and "valid_ledger f (ordered_transactions a acc ts)"
    and "k = (ps_account_id p, ps_instrument_id p)"
    and "p = position_state_of (k, position_of (es_positions s) k)"
proof -
  from assms(1) obtain s where inv: "engine_inv (ordered_transactions a acc ts) s"
    and ok: "valid_ledger f (ordered_transactions a acc ts)"
    and st: "pf_positions st = positions_out (es_positions s)"
    by (rule reconstruct_inv) (auto simp: portfolio_output_def Let_def)
  have "dict_ok (es_positions s)" using inv by (simp add: engine_inv_def history_inv_def)
  with assms(2) st obtain k where p: "p = position_state_of (k, position_of (es_positions s) k)"
    by (auto simp: positions_out_iff)
  moreover have "k = (ps_account_id p, ps_instrument_id p)"
    by (cases k) (simp add: p position_state_of_def)
  ultimately show thesis using inv ok by (intro that)
qed

theorem position_known_without_unpriced:
  assumes "reconstruct H f ts a acc = Inr st" and "p \<in> set (pf_positions st)"
    and "\<And>t. t \<in> set (ordered_transactions a acc ts)
       \<Longrightarrow> \<not> unpriced_on (ps_account_id p, ps_instrument_id p) t"
  shows "ps_cost_basis_status p = KNOWN"
proof -
  from assms(1,2) obtain s k where inv: "engine_inv (ordered_transactions a acc ts) s"
    and k: "k = (ps_account_id p, ps_instrument_id p)"
    and p: "p = position_state_of (k, position_of (es_positions s) k)"
    by (rule reconstruct_position)
  have pos: "position_inv s" and known: "known_inv (ordered_transactions a acc ts) s"
    using inv by (simp_all add: engine_inv_def)
  have "pos_uncertainty_count (position_of (es_positions s) k) = 0"
    unfolding position_invD(3) [OF pos]
    by (rule open_uncertainty_zero, rule known_invD [OF known]) (use assms(3) k in auto)
  with p show ?thesis by (cases k) (simp add: position_state_of_def)
qed

lemma open_uncertainty_pos:
  "(\<And>ie. ie \<in> set d \<Longrightarrow> 0 \<le> eff_uncertainty_delta (snd ie)) \<Longrightarrow> (i, e) \<in> set d \<Longrightarrow> i \<notin> R
     \<Longrightarrow> effect_on k e \<Longrightarrow> eff_uncertainty_delta e \<le> open_uncertainty d R k"
  unfolding open_uncertainty_def
  by (rule order_trans [OF _ member_le_sum_list])
    (auto simp: image_iff intro!: bexI [of _ "(i, e)"])

theorem position_unknown_while_unpriced:
  assumes "reconstruct H f ts a acc = Inr st" and "p \<in> set (pf_positions st)"
    and "t \<in> set (ordered_transactions a acc ts)"
    and "unpriced_on (ps_account_id p, ps_instrument_id p) t"
    and "lt_id t \<notin> reversed_ids (ordered_transactions a acc ts)"
  shows "ps_cost_basis_status p = UNKNOWN"
proof -
  from assms(1,2) obtain s k where inv: "engine_inv (ordered_transactions a acc ts) s"
    and ok: "valid_ledger f (ordered_transactions a acc ts)"
    and k: "k = (ps_account_id p, ps_instrument_id p)"
    and p: "p = position_state_of (k, position_of (es_positions s) k)"
    by (rule reconstruct_position)
  have pos: "position_inv s" and hist: "history_inv (ordered_transactions a acc ts) s"
    using inv by (simp_all add: engine_inv_def)
  note eff = history_effects [OF hist ok]
  have type: "lt_transaction_type t = OPENING_POSITION" and price: "lt_unit_price t = None"
    and acct: "lt_account_id t = fst k" "lt_instrument_id t = Some (snd k)"
    using assms(4) by (simp_all add: unpriced_on_def k)
  have "lt_id t \<in> set (map fst (es_effects s))" using assms(3) type by (simp add: eff(2))
  then obtain e where e: "dict_get (es_effects s) (lt_id t) = Some e"
    by (metis map_of_eq_None_iff not_None_eq list.set_map)
  from eff(3) [OF e] obtain u where u: "u \<in> set (ordered_transactions a acc ts)" "lt_id u = lt_id t"
    "effect_of u e" by auto
  have "u = t" using ok u(1,2) assms(3) by (auto simp: valid_ledger_def distinct_map inj_on_def)
  with u(3) type price acct have "effect_on k e" "eff_uncertainty_delta e = 1"
    by (auto simp: effect_of_def effect_on_def)
  moreover have "(lt_id t, e) \<in> set (es_effects s)" using e by (rule map_of_SomeD)
  moreover have "lt_id t \<notin> es_reversed_targets s"
    using assms(5) hist by (simp add: history_inv_def)
  ultimately have "1 \<le> open_uncertainty (es_effects s) (es_reversed_targets s) k"
    using open_uncertainty_pos [OF eff(4)] by metis
  then have "pos_uncertainty_count (position_of (es_positions s) k) \<noteq> 0"
    by (simp add: position_invD(3) [OF pos])
  with p show ?thesis by (cases k) (simp add: position_state_of_def)
qed

theorem position_sources:
  assumes "reconstruct H f ts a acc = Inr st" and "p \<in> set (pf_positions st)"
  shows "ps_source_transaction_ids p = map lt_id (filter (\<lambda>t.
      position_key (ordered_transactions a acc ts) t = Some (ps_account_id p, ps_instrument_id p))
      (ordered_transactions a acc ts))"
proof -
  from assms obtain s k where inv: "engine_inv (ordered_transactions a acc ts) s"
    and k: "k = (ps_account_id p, ps_instrument_id p)"
    and p: "p = position_state_of (k, position_of (es_positions s) k)"
    by (rule reconstruct_position)
  have "ps_source_transaction_ids p = pos_source_transaction_ids (position_of (es_positions s) k)"
    by (subst p, cases k) (simp add: position_state_of_def)
  with inv k show ?thesis by (simp add: engine_inv_def source_inv_def)
qed

end
