(* ===== verification/Portfolio_Exact.thy ===== *)
theory Portfolio_Exact
  imports Portfolio_Properties
begin

text \<open>
  When the decimal context does not round. Transactions whose fields fit the columns of the
  \<open>transactions\<close> table (quantities with 12 decimals, prices with 8, money with 4) and whose gross
  cash stays below \<open>10^8\<close> keep every intermediate cash balance within 28 digits, and those whose gross
  quantity stays below \<open>10^16\<close> every quantity; then the engine's balances, respectively quantities, are
  the exact sums over the transactions that no reversal took back (\<open>net_flow\<close>).
\<close>

section \<open>Exact amounts\<close>

text \<open>The cash and the quantity an original transaction moves, as rational numbers.\<close>

definition exact_cash_flow :: "ledger_transaction \<Rightarrow> rat" where
  "exact_cash_flow t = (case lt_transaction_type t of
     BUY \<Rightarrow> - (dval (the (lt_quantity t)) * dval (the (lt_unit_price t)) + dval (lt_fees t))
   | SELL \<Rightarrow> dval (the (lt_quantity t)) * dval (the (lt_unit_price t)) - dval (lt_fees t)
   | CASH_WITHDRAWAL \<Rightarrow> - dval (the (lt_amount t)) | FEE \<Rightarrow> - dval (the (lt_amount t))
   | CASH_DEPOSIT \<Rightarrow> dval (the (lt_amount t)) | DIVIDEND \<Rightarrow> dval (the (lt_amount t))
   | OPENING_CASH \<Rightarrow> dval (the (lt_amount t)) | _ \<Rightarrow> 0)"

definition exact_quantity_flow :: "ledger_transaction \<Rightarrow> rat" where
  "exact_quantity_flow t = (case lt_transaction_type t of
     BUY \<Rightarrow> dval (the (lt_quantity t)) | OPENING_POSITION \<Rightarrow> dval (the (lt_quantity t))
   | SELL \<Rightarrow> - dval (the (lt_quantity t)) | _ \<Rightarrow> 0)"

text \<open>The net flow of a history: what its originals move that no reversal took back.\<close>

definition net_flow ::
  "(ledger_transaction \<Rightarrow> rat) \<Rightarrow> (ledger_transaction \<Rightarrow> bool) \<Rightarrow> ledger_transaction list \<Rightarrow> rat" where
  "net_flow g P h = (\<Sum>t \<leftarrow> originals h. if lt_id t \<notin> reversed_ids h \<and> P t then g t else 0)"

text \<open>Gross weights that bound every intermediate result.\<close>

definition cash_weight :: "ledger_transaction \<Rightarrow> rat" where
  "cash_weight t = (case lt_transaction_type t of
     BUY \<Rightarrow> dval (the (lt_quantity t)) * dval (the (lt_unit_price t)) + dval (lt_fees t)
   | SELL \<Rightarrow> dval (the (lt_quantity t)) * dval (the (lt_unit_price t)) + dval (lt_fees t)
   | OPENING_POSITION \<Rightarrow> 0 | REVERSAL \<Rightarrow> 0 | _ \<Rightarrow> dval (the (lt_amount t)))"

definition quantity_weight :: "ledger_transaction \<Rightarrow> rat" where
  "quantity_weight t = (if lt_transaction_type t \<in> {BUY, SELL, OPENING_POSITION}
     then dval (the (lt_quantity t)) else 0)"

lemmas flow_defs = exact_cash_flow_def exact_quantity_flow_def cash_weight_def quantity_weight_def

text \<open>\<open>on_grid n x\<close>: \<open>x\<close> is a multiple of \<open>10\<close> to the \<open>-n\<close>, the values of a \<open>Numeric(_, n)\<close> column.\<close>

definition on_grid :: "nat \<Rightarrow> rat \<Rightarrow> bool" where
  "on_grid n x \<longleftrightarrow> x * 10 ^ n \<in> \<int>"

definition database_scales :: "ledger_transaction \<Rightarrow> bool" where
  "database_scales t \<longleftrightarrow> (case lt_quantity t of None \<Rightarrow> True | Some q \<Rightarrow> on_grid 12 (dval q))
     \<and> (case lt_unit_price t of None \<Rightarrow> True | Some p \<Rightarrow> on_grid 8 (dval p))
     \<and> (case lt_amount t of None \<Rightarrow> True | Some m \<Rightarrow> on_grid 4 (dval m)) \<and> on_grid 4 (dval (lt_fees t))"

text \<open>
  The histories on which a flow is exact: valid rows within the column scales, with a bounded gross
  weight. Cash asks for the weight \<open>cash_weight\<close> and the bound \<open>10^8\<close>, quantities for
  \<open>quantity_weight\<close> and \<open>10^16\<close>; neither asks for the bound of the other.
\<close>

definition exact_ledger :: "(ledger_transaction \<Rightarrow> rat) \<Rightarrow> nat \<Rightarrow> uuid \<Rightarrow> ledger_transaction list \<Rightarrow> bool" where
  "exact_ledger w m f h \<longleftrightarrow> valid_ledger f h \<and> (\<forall>t \<in> set h. database_scales t)
     \<and> sum_list (map w (originals h)) < 10 ^ m"

lemma on_grid_simps [simp]: "on_grid n 0" "on_grid n (- x) = on_grid n x"
  by (simp_all add: on_grid_def)

lemma on_grid_add [intro]: "on_grid n x \<Longrightarrow> on_grid n y \<Longrightarrow> on_grid n (x + y)"
  and on_grid_diff [intro]: "on_grid n x \<Longrightarrow> on_grid n y \<Longrightarrow> on_grid n (x - y)"
  by (simp_all add: on_grid_def ring_distribs)

lemma on_grid_mult: "on_grid m x \<Longrightarrow> on_grid n y \<Longrightarrow> on_grid (m + n) (x * y)"
  unfolding on_grid_def by (drule (1) Ints_mult) (simp add: power_add mult_ac)

lemma on_grid_mono: "on_grid m x \<Longrightarrow> m \<le> n \<Longrightarrow> on_grid n x"
proof -
  assume "on_grid m x" and "m \<le> n"
  then have "x * 10 ^ m * 10 ^ (n - m) \<in> \<int>" by (auto simp: on_grid_def)
  also have "x * 10 ^ m * 10 ^ (n - m) = x * 10 ^ n"
    using \<open>m \<le> n\<close> by (simp add: mult.assoc flip: power_add)
  finally show ?thesis by (simp add: on_grid_def)
qed

lemma on_grid_sum: "(\<And>x. x \<in> set xs \<Longrightarrow> on_grid n x) \<Longrightarrow> on_grid n (sum_list xs)"
  by (induction xs) auto

lemma representable_grid:
  assumes "on_grid n x" and "\<bar>x\<bar> < 10 ^ m" and "m + n = 28"
  shows "rnd x = x"
proof (rule rnd_representable)
  from assms(1) obtain c where c: "x * 10 ^ n = of_int c" unfolding on_grid_def by (elim Ints_cases)
  have "\<bar>x * 10 ^ n\<bar> < 10 ^ m * 10 ^ n" using assms(2) by (simp add: abs_mult)
  also have "(10 :: rat) ^ m * 10 ^ n = 10 ^ 28" by (simp add: assms(3) flip: power_add)
  finally have "of_int \<bar>c\<bar> < (of_int (10 ^ 28) :: rat)" by (simp add: c)
  then have "\<bar>c\<bar> < 10 ^ 28" by (simp only: of_int_less_iff)
  moreover have "x = of_int c * 10 powi (- int n)"
    by (simp add: power_int_minus field_simps flip: c)
  ultimately show "representable x" unfolding representable_def by blast
qed


lemma rnd_cash_grid: "on_grid 20 x \<Longrightarrow> \<bar>x\<bar> < 10 ^ 8 \<Longrightarrow> rnd x = x"
  and rnd_quantity_grid: "on_grid 12 x \<Longrightarrow> \<bar>x\<bar> < 10 ^ 16 \<Longrightarrow> rnd x = x"
  by (rule representable_grid [of 20 _ 8]; simp) (rule representable_grid [of 12 _ 16]; simp)

section \<open>Net flows, step by step\<close>

lemma net_flow_original:
  "lt_transaction_type t \<noteq> REVERSAL \<Longrightarrow> lt_id t \<notin> reversed_ids h \<Longrightarrow>
     net_flow g P (h @ [t]) = net_flow g P h + (if P t then g t else 0)"
  by (simp add: net_flow_def reversed_ids_append)

lemma sum_list_take_back:
  "distinct (map lt_id ts) \<Longrightarrow> u \<in> set ts \<Longrightarrow> lt_id u \<notin> R \<Longrightarrow>
     (\<Sum>t \<leftarrow> ts. if lt_id t \<notin> insert (lt_id u) R \<and> P t then g t else (0 :: rat)) =
     (\<Sum>t \<leftarrow> ts. if lt_id t \<notin> R \<and> P t then g t else 0) - (if P u then g u else 0)"
proof (induction ts)
  case (Cons t ts)
  show ?case
  proof (cases "lt_id t = lt_id u")
    case True
    with Cons.prems have u: "t = u" and "lt_id u \<notin> lt_id ` set ts" by auto
    then have "lt_id x \<noteq> lt_id u" if "x \<in> set ts" for x using that by (metis imageI)
    then have "(\<Sum>t \<leftarrow> ts. if lt_id t \<notin> insert (lt_id u) R \<and> P t then g t else 0) =
        (\<Sum>t \<leftarrow> ts. if lt_id t \<notin> R \<and> P t then g t else 0)"
      by (intro arg_cong [where f = sum_list] map_cong) auto
    with u Cons.prems(3) show ?thesis by simp
  next
    case False
    with Cons show ?thesis by auto
  qed
qed simp

lemma net_flow_reversal:
  assumes "lt_transaction_type t = REVERSAL" and "lt_reverses_transaction_id t = Some (lt_id u)"
    and "u \<in> set (originals h)" and "distinct (map lt_id h)" and "lt_id u \<notin> reversed_ids h"
  shows "net_flow g P (h @ [t]) = net_flow g P h - (if P u then g u else 0)"
  using sum_list_take_back [of "originals h" u "reversed_ids h" P g] assms
  by (simp add: net_flow_def reversed_ids_append distinct_map_filter)

lemma net_flow_abs:
  assumes "\<And>t. t \<in> set (originals h) \<Longrightarrow> \<bar>g t\<bar> \<le> w t"
  shows "\<bar>net_flow g P h\<bar> \<le> sum_list (map w (originals h))"
proof -
  have bound: "\<bar>\<Sum>t \<leftarrow> ts. if Q t then g t else 0\<bar> \<le> sum_list (map w ts)"
    if "\<And>t. t \<in> set ts \<Longrightarrow> \<bar>g t\<bar> \<le> w t" for Q ts
    using that
  proof (induction ts)
    case (Cons t ts)
    then have "\<bar>\<Sum>t \<leftarrow> ts. if Q t then g t else 0\<bar> \<le> sum_list (map w ts)" "\<bar>g t\<bar> \<le> w t" by auto
    then show ?case by auto
  qed simp
  show ?thesis unfolding net_flow_def using assms by (rule bound)
qed

lemma net_flow_grid:
  "(\<And>t. t \<in> set (originals h) \<Longrightarrow> on_grid n (g t)) \<Longrightarrow> on_grid n (net_flow g P h)"
  unfolding net_flow_def by (intro on_grid_sum) auto

lemma valid_transaction_cases [consumes 1, case_names trade position cash reversal]:
  assumes "valid_transaction f t"
  obtains q p where "lt_transaction_type t = BUY \<or> lt_transaction_type t = SELL"
      "lt_quantity t = Some q" "lt_unit_price t = Some p" "0 < dval q" "0 < dval p" "0 \<le> dval (lt_fees t)"
  | q where "lt_transaction_type t = OPENING_POSITION" "lt_quantity t = Some q" "0 < dval q"
  | m where "lt_transaction_type t \<in> {CASH_DEPOSIT, CASH_WITHDRAWAL, DIVIDEND, FEE, OPENING_CASH}"
      "lt_amount t = Some m" "0 < dval m"
  | "lt_transaction_type t = REVERSAL"
proof -
  have fees: "0 \<le> dval (lt_fees t)" using assms by (simp add: valid_transaction_def dec_simps)
  have shape: "validate_transaction_shape t = Inr ()" using assms by (simp add: valid_transaction_def)
  show thesis
    using shape fees that by (cases "lt_transaction_type t")
      (simp_all add: validate_transaction_shape_def result_simps, blast+)
qed

lemma flow_weight:
  assumes "valid_transaction f t"
  shows "\<bar>exact_cash_flow t\<bar> \<le> cash_weight t \<and> \<bar>exact_quantity_flow t\<bar> \<le> quantity_weight t
    \<and> 0 \<le> cash_weight t \<and> 0 \<le> quantity_weight t"
  using assms
proof (cases rule: valid_transaction_cases)
  case (trade q p)
  from trade(4,5) have "0 < dval q * dval p" by (rule mult_pos_pos)
  with trade show ?thesis by (elim disjE) (simp_all add: flow_defs abs_le_iff)
next
  case (cash m)
  then show ?thesis by (elim insertE) (simp_all add: flow_defs)
qed (simp_all add: flow_defs)

lemma flow_grid:
  assumes "valid_transaction f t" and "database_scales t"
  shows "on_grid 20 (exact_cash_flow t) \<and> on_grid 12 (exact_quantity_flow t)"
  using assms(1)
proof (cases rule: valid_transaction_cases)
  case (trade q p)
  with assms(2) have "on_grid 20 (dval q * dval p)" "on_grid 20 (dval (lt_fees t))" "on_grid 12 (dval q)"
    using on_grid_mult [of 12 "dval q" 8 "dval p"] on_grid_mono [of 4 _ 20]
    by (simp_all add: database_scales_def)
  with trade show ?thesis using on_grid_add on_grid_diff
    by (elim disjE) (simp_all add: flow_defs)
next
  case (cash m)
  with assms(2) have "on_grid 20 (dval m)"
    using on_grid_mono [of 4 _ 20] by (simp add: database_scales_def)
  with cash show ?thesis by (elim insertE) (simp_all add: flow_defs)
next
  case (position q)
  with assms(2) show ?thesis by (simp add: flow_defs database_scales_def)
qed (simp add: flow_defs)

lemma original_cash_delta_exact:
  assumes "valid_transaction f t" and "database_scales t" and "cash_weight t < 10 ^ 8"
  shows "dval (original_cash_delta t) = exact_cash_flow t"
  using assms(1)
proof (cases rule: valid_transaction_cases)
  case (trade q p)
  have grid: "on_grid 20 (dval q * dval p)" "on_grid 20 (dval (lt_fees t))"
    using trade assms(2) on_grid_mult [of 12 "dval q" 8 "dval p"] on_grid_mono [of 4 _ 20]
    by (simp_all add: database_scales_def)
  have pos: "0 < dval q * dval p" using trade(4,5) by (rule mult_pos_pos)
  have "dval q * dval p + dval (lt_fees t) < 10 ^ 8" using trade assms(3) by (auto simp: flow_defs)
  with pos trade(6) have "rnd (dval q * dval p) = dval q * dval p"
    "rnd (dval q * dval p + dval (lt_fees t)) = dval q * dval p + dval (lt_fees t)"
    "rnd (dval q * dval p - dval (lt_fees t)) = dval q * dval p - dval (lt_fees t)"
    using grid by (auto intro!: rnd_cash_grid simp: abs_less_iff)
  with trade show ?thesis by (elim disjE) (simp_all add: flow_defs dec_simps)
next
  case (cash m)
  then have "\<bar>dval m\<bar> < 10 ^ 8" using assms(3) by (elim insertE) (simp_all add: flow_defs)
  moreover have "on_grid 20 (dval m)"
    using cash assms(2) on_grid_mono [of 4 _ 20] by (simp add: database_scales_def)
  ultimately have "rnd (dval m) = dval m" by (intro rnd_cash_grid)
  with cash show ?thesis by (elim insertE) (simp_all add: flow_defs dec_simps)
qed (simp_all add: flow_defs)


section \<open>Exact cash and quantities\<close>

definition on_account :: "uuid \<Rightarrow> ledger_transaction \<Rightarrow> bool" where
  "on_account a t \<longleftrightarrow> lt_account_id t = a"

definition on_position :: "uuid \<times> uuid \<Rightarrow> ledger_transaction \<Rightarrow> bool" where
  "on_position k t \<longleftrightarrow> lt_account_id t = fst k \<and> traded_instrument t = Some (snd k)"

definition exact_inv :: "(ledger_transaction \<Rightarrow> rat) \<Rightarrow> (engine_state \<Rightarrow> 'k \<Rightarrow> dec) \<Rightarrow>
    ('k \<Rightarrow> ledger_transaction \<Rightarrow> bool) \<Rightarrow> ledger_transaction list \<Rightarrow> engine_state \<Rightarrow> bool" where
  "exact_inv g balance on_key h s \<longleftrightarrow> engine_inv h s \<and> (\<forall>k. dval (balance s k) = net_flow g (on_key k) h)"

text \<open>
  What the engine keeps per key (a cash balance per account, a quantity per position) and the flow
  that moves it: \<open>delta\<close> is the change an effect carries, \<open>touches\<close> the keys it changes.
\<close>

locale exact_flow =
  fixes g w :: "ledger_transaction \<Rightarrow> rat" and n m :: nat
    and delta :: "effect \<Rightarrow> dec" and balance :: "engine_state \<Rightarrow> 'k \<Rightarrow> dec"
    and touches :: "'k \<Rightarrow> effect \<Rightarrow> bool" and on_key :: "'k \<Rightarrow> ledger_transaction \<Rightarrow> bool"
  assumes digits: "m + n = 28"
    and weight: "valid_transaction f t \<Longrightarrow> \<bar>g t\<bar> \<le> w t"
    and grid: "valid_transaction f t \<Longrightarrow> database_scales t \<Longrightarrow> on_grid n (g t)"
    and delta_exact: "valid_transaction f t \<Longrightarrow> database_scales t \<Longrightarrow> w t < 10 ^ m \<Longrightarrow> effect_of t e \<Longrightarrow>
      dval (delta e) = g t"
    and delta_inverse: "delta (inverse_effect e) = dneg (delta e)"
    and touches_inverse: "touches k (inverse_effect e) \<longleftrightarrow> touches k e"
    and touches_of: "effect_of t e \<Longrightarrow> touches k e \<longleftrightarrow> on_key k t"
    and balance_start: "dval (balance engine_init k) = 0"
    and balance_applied: "applied s t e s' \<Longrightarrow>
      balance s' k = (if touches k e then dadd (balance s k) (delta e) else balance s k)"
begin

lemma weight_nonneg: "valid_transaction f t \<Longrightarrow> 0 \<le> w t"
  using weight [of f t] by linarith

lemma ledger_append: "exact_ledger w m f (h @ h') \<Longrightarrow> exact_ledger w m f h"
proof -
  assume ex: "exact_ledger w m f (h @ h')"
  then have "0 \<le> sum_list (map w (originals h'))"
    by (intro sum_list_nonneg) (auto simp: exact_ledger_def valid_ledger_def intro: weight_nonneg)
  with ex show "exact_ledger w m f h" by (auto simp: exact_ledger_def valid_ledger_def)
qed

lemma ledger_member:
  assumes "exact_ledger w m f h" and "t \<in> set (originals h)"
  shows "valid_transaction f t" "database_scales t" "w t < 10 ^ m"
proof -
  show "valid_transaction f t" and "database_scales t"
    using assms by (auto simp: exact_ledger_def valid_ledger_def)
  have "w t \<le> sum_list (map w (originals h))"
    using assms by (intro member_le_sum_list) (auto simp: exact_ledger_def valid_ledger_def intro: weight_nonneg)
  with assms(1) show "w t < 10 ^ m" by (simp add: exact_ledger_def)
qed

lemma net_flow_exact:
  assumes "exact_ledger w m f h"
  shows "rnd (net_flow g P h) = net_flow g P h"
proof (rule representable_grid [OF _ _ digits])
  note mem = ledger_member [OF assms]
  show "on_grid n (net_flow g P h)" using grid mem(1,2) by (blast intro: net_flow_grid)
  have "\<bar>net_flow g P h\<bar> \<le> sum_list (map w (originals h))"
    using weight mem(1) by (blast intro: net_flow_abs)
  with assms show "\<bar>net_flow g P h\<bar> < 10 ^ m" by (simp add: exact_ledger_def)
qed

lemma flow_exact:
  assumes "exact_ledger w m f h" and "u \<in> set (originals h)"
  shows "rnd (g u) = g u"
proof (rule representable_grid [OF _ _ digits])
  note mem = ledger_member [OF assms]
  show "on_grid n (g u)" using mem(1,2) by (rule grid)
  show "\<bar>g u\<bar> < 10 ^ m" using weight [OF mem(1)] mem(3) by simp
qed

lemma step_flow:
  assumes eng: "engine_inv h s" and ok: "exact_ledger w m f (h @ [t])" and step: "engine_step s t = Inr s'"
  obtains e where "applied s t e s'"
    "\<And>k. net_flow g (on_key k) (h @ [t]) =
       net_flow g (on_key k) h + (if touches k e then dval (delta e) else 0)"
proof -
  have hist: "history_inv h s" using eng by (simp add: engine_inv_def)
  have valid: "valid_ledger f (h @ [t])" and valid_h: "valid_ledger f h"
    using ok valid_ledger_append by (auto simp: exact_ledger_def)
  show thesis
  proof (cases "lt_transaction_type t = REVERSAL")
    case True
    with step obtain r target where r: "lt_reverses_transaction_id t = Some r"
      "dict_get (es_effects s) r = Some target" "r \<notin> es_reversed_targets s"
      and ap: "applied s t (inverse_effect target) s'"
      by (auto simp: engine_step_reversal)
    from history_effects(3) [OF hist valid_h r(2)] obtain u
      where u: "u \<in> set (originals h)" "lt_id u = r" "effect_of u target" by auto
    have "lt_id u \<notin> reversed_ids h" using hist r(3) u(2) by (simp add: history_inv_def)
    then have net: "net_flow g P (h @ [t]) = net_flow g P h - (if P u then g u else 0)" for P
      using True r(1) u(1,2) valid_h by (intro net_flow_reversal) (simp_all add: valid_ledger_def)
    note mem = ledger_member [OF ledger_append [OF ok] u(1)]
    have "dval (delta (inverse_effect target)) = - g u"
      using delta_exact [OF mem u(3)] flow_exact [OF ledger_append [OF ok] u(1)]
      by (simp add: delta_inverse dec_simps)
    then show thesis
      by (intro that [OF ap]) (simp add: net touches_inverse touches_of [OF u(3)])
  next
    case False
    with step obtain e where e: "apply_original t (es_positions s) = Inr e" and ap: "applied s t e s'"
      by (auto simp: engine_step_original simp del: apply_original.simps)
    have t: "t \<in> set (originals (h @ [t]))" using False by simp
    have "lt_id t \<notin> reversed_ids h" using hist valid by (auto simp: history_inv_def valid_ledger_def)
    then have net: "net_flow g P (h @ [t]) = net_flow g P h + (if P t then g t else 0)" for P
      using False by (intro net_flow_original)
    note eff = apply_original_effect_of [OF e]
    show thesis
      by (rule that [OF ap]) (simp add: net touches_of [OF eff] delta_exact [OF ledger_member [OF ok t] eff])
  qed
qed

lemma inv_step:
  assumes inv: "exact_inv g balance on_key h s" and ok: "exact_ledger w m f (h @ [t])"
    and step: "engine_step s t = Inr s'"
  shows "exact_inv g balance on_key (h @ [t]) s'"
proof -
  have eng: "engine_inv h s" using inv by (simp add: exact_inv_def)
  have valid: "valid_ledger f (h @ [t])" using ok by (simp add: exact_ledger_def)
  from eng ok step obtain e where ap: "applied s t e s'"
    and net: "\<And>k. net_flow g (on_key k) (h @ [t]) =
       net_flow g (on_key k) h + (if touches k e then dval (delta e) else 0)"
    by (rule step_flow) blast
  have "dval (balance s' k) = net_flow g (on_key k) (h @ [t])" for k
    using inv net_flow_exact [OF ok, of "on_key k"]
    by (simp add: exact_inv_def balance_applied [OF ap] net dec_simps split: if_splits)
  then show ?thesis using engine.step_inv [OF eng valid step] by (simp add: exact_inv_def)
qed

lemma inv_start: "exact_inv g balance on_key [] engine_init"
  using engine.start_inv by (simp add: exact_inv_def balance_start net_flow_def)

lemma history: "history_invariant engine_step engine_init (exact_inv g balance on_key) (exact_ledger w m f)"
  by unfold_locales (rule inv_start inv_step ledger_append; assumption?)+

lemma reconstruct_exact:
  assumes "reconstruct H f ts a acc = Inr st" and "exact_ledger w m f (ordered_transactions a acc ts)"
  obtains s where "exact_inv g balance on_key (ordered_transactions a acc ts) s"
    and "st = portfolio_output H f acc a (ordered_transactions a acc ts) s"
  using assms history_invariant.run_inv [OF history] unfolding reconstruct_Inr by blast

end

text \<open>The two flows of the engine.\<close>

definition account_touched :: "uuid \<Rightarrow> effect \<Rightarrow> bool" where
  "account_touched a e \<longleftrightarrow> eff_account_id e = a"

definition held_quantity :: "engine_state \<Rightarrow> uuid \<times> uuid \<Rightarrow> dec" where
  "held_quantity s k = pos_quantity (position_of (es_positions s) k)"

lemma dval_start: "cash_of engine_init a = dzero" "held_quantity engine_init k = dzero"
  by (simp_all add: cash_of_def held_quantity_def position_of_def engine_init_def new_position_def)

interpretation cash: exact_flow exact_cash_flow cash_weight 20 8 eff_cash_delta cash_of account_touched on_account
proof
  fix f t e
  assume t: "valid_transaction f t" "database_scales t" "cash_weight t < 10 ^ 8" "effect_of t e"
  then show "dval (eff_cash_delta e) = exact_cash_flow t"
    using original_cash_delta_exact [OF t(1-3)] by (simp add: effect_of_def)
next
  fix s t e s' k
  assume "applied s t e s'"
  then show "cash_of s' k = (if account_touched k e then dadd (cash_of s k) (eff_cash_delta e) else cash_of s k)"
    using applied_cash(1) [of s t e s' k] by (auto simp: account_touched_def applied_def)
qed (use flow_weight flow_grid in \<open>auto simp: account_touched_def on_account_def effect_of_def dval_start\<close>)

interpretation quantity: exact_flow exact_quantity_flow quantity_weight 12 16 eff_quantity_delta held_quantity
  effect_on on_position
proof
  fix f t e
  assume t: "valid_transaction f t" "database_scales t" "quantity_weight t < 10 ^ 16" "effect_of t e"
  then have "rnd (exact_quantity_flow t) = exact_quantity_flow t"
    using flow_weight [OF t(1)] flow_grid [OF t(1,2)] by (intro rnd_quantity_grid) simp_all
  then have "dval (original_quantity_delta t) = exact_quantity_flow t"
    by (auto simp: exact_quantity_flow_def dec_simps split: transaction_type.splits)
  then show "dval (eff_quantity_delta e) = exact_quantity_flow t"
    using t(4) by (simp add: effect_of_def del: original_quantity_delta.simps)
next
  fix s t e s' k
  assume "applied s t e s'"
  then show "held_quantity s' k =
      (if effect_on k e then dadd (held_quantity s k) (eff_quantity_delta e) else held_quantity s k)"
    using position_of_applied(1) [of s t e s'] by (cases k) (auto simp: held_quantity_def)
qed (use flow_weight flow_grid in \<open>auto simp: effect_on_def on_position_def effect_of_def dval_start\<close>)

text \<open>The running total over accounts is itself a net flow, so no addition of it rounds.\<close>

lemma dsum_cash_exact:
  assumes "exact_ledger cash_weight 8 f h" and "distinct (map fst d)" and "set (map fst d) \<inter> A = {}"
    and "\<And>a x. (a, x) \<in> set d \<Longrightarrow> dval x = net_flow exact_cash_flow (on_account a) h"
    and "dval acc = net_flow exact_cash_flow (\<lambda>t. lt_account_id t \<in> A) h"
  shows "dval (foldl dadd acc (map snd d)) =
    net_flow exact_cash_flow (\<lambda>t. lt_account_id t \<in> A \<union> set (map fst d)) h"
  using assms(2-)
proof (induction d arbitrary: acc A)
  case (Cons ax d)
  obtain a x where ax: "ax = (a, x)" by (cases ax)
  have "net_flow exact_cash_flow (\<lambda>t. lt_account_id t \<in> insert a A) h =
      net_flow exact_cash_flow (\<lambda>t. lt_account_id t \<in> A) h + net_flow exact_cash_flow (on_account a) h"
    using Cons.prems(2) by (auto simp: net_flow_def on_account_def ax simp flip: sum_list_addf
        intro!: arg_cong [where f = sum_list])
  moreover have "dval x = net_flow exact_cash_flow (on_account a) h" using Cons.prems(3) by (simp add: ax)
  ultimately have "dval (dadd acc x) = net_flow exact_cash_flow (\<lambda>t. lt_account_id t \<in> insert a A) h"
    using cash.net_flow_exact [OF assms(1), of "\<lambda>t. lt_account_id t \<in> insert a A"] Cons.prems(4)
    by (simp add: dec_simps)
  from Cons.IH [OF _ _ _ this] Cons.prems ax show ?case by auto
qed simp

text \<open>C2: Cash conservation: on transactions within the database scales whose gross cash is below
  10^8, every account balance and the total of a successful reconstruction equal the exact
  rational sum of the cash flows of the transactions that were not reversed; no addition or
  product rounds and reversals cancel exactly. Nothing is asked of the size of the quantities.\<close>

theorem reconstruct_cash_exact:
  assumes "reconstruct H f ts a acc = Inr st" and "exact_ledger cash_weight 8 f (ordered_transactions a acc ts)"
  shows "(\<forall>b \<in> set (pf_cash_by_account st). dval (cb_amount b) =
        net_flow exact_cash_flow (on_account (cb_account_id b)) (ordered_transactions a acc ts))
    \<and> dval (pf_cash st) = net_flow exact_cash_flow (\<lambda>_. True) (ordered_transactions a acc ts)"
proof -
  define h where "h = ordered_transactions a acc ts"
  from assms obtain s where inv: "exact_inv exact_cash_flow cash_of on_account h s" and st: "st = portfolio_output H f acc a h s"
    unfolding h_def by (rule cash.reconstruct_exact)
  have ok: "dict_ok (es_cash s)" and keys: "fst ` set (es_cash s) = lt_account_id ` set h"
    using inv by (simp_all add: exact_inv_def engine_inv_def history_inv_def)
  have bal: "dval x = net_flow exact_cash_flow (on_account b) h" if "(b, x) \<in> set (es_cash s)" for b x
  proof -
    have "cash_of s b = x" using that ok by (simp add: cash_of_def)
    with inv show ?thesis by (auto simp: exact_inv_def)
  qed
  then have "\<forall>b \<in> set (pf_cash_by_account st). dval (cb_amount b) =
      net_flow exact_cash_flow (on_account (cb_account_id b)) h"
    by (auto simp: st portfolio_output_def Let_def)
  moreover have "dval (pf_cash st) = net_flow exact_cash_flow (\<lambda>_. True) h"
  proof -
    have "dval (dsum (map snd (es_cash s))) =
        net_flow exact_cash_flow (\<lambda>t. lt_account_id t \<in> {} \<union> set (map fst (es_cash s))) h"
      unfolding dsum_def using assms(2) ok bal
      by (intro dsum_cash_exact) (auto simp: h_def net_flow_def)
    also have "\<dots> = net_flow exact_cash_flow (\<lambda>_. True) h"
      unfolding net_flow_def using keys by (intro arg_cong [where f = sum_list] map_cong) auto
    finally show ?thesis by (simp add: st portfolio_output_def Let_def)
  qed
  ultimately show ?thesis unfolding h_def by blast
qed

text \<open>C3: Quantity conservation: on transactions within the database scales whose gross quantity (the
  sum of the quantities of all buys, sells and opening positions in scope) is below 10^16, the
  quantity of every position a successful reconstruction lists is the exact sum of the unreversed
  buys and opening positions minus the unreversed sells. No bound on cash is needed.\<close>

theorem reconstruct_quantity_exact:
  assumes "reconstruct H f ts a acc = Inr st" and "exact_ledger quantity_weight 16 f (ordered_transactions a acc ts)"
    and "p \<in> set (pf_positions st)"
  shows "dval (ps_quantity p) = net_flow exact_quantity_flow
    (on_position (ps_account_id p, ps_instrument_id p)) (ordered_transactions a acc ts)"
proof -
  from assms(1,2) obtain s where inv: "exact_inv exact_quantity_flow held_quantity on_position (ordered_transactions a acc ts) s"
    and st: "st = portfolio_output H f acc a (ordered_transactions a acc ts) s"
    by (rule quantity.reconstruct_exact)
  have ok: "dict_ok (es_positions s)" using inv by (simp add: exact_inv_def engine_inv_def history_inv_def)
  from assms(3) obtain k where p: "p = position_state_of (k, position_of (es_positions s) k)"
    by (auto simp: st portfolio_output_def Let_def positions_out_iff [OF ok])
  have "ps_quantity p = pos_quantity (position_of (es_positions s) k)"
    and "k = (ps_account_id p, ps_instrument_id p)"
    by (cases k, simp add: p position_state_of_def)+
  with inv show ?thesis by (simp add: exact_inv_def held_quantity_def)
qed

end
