(* ===== verification/Portfolio_Accounts.thy ===== *)
theory Portfolio_Accounts
  imports Portfolio_Exact
begin

text \<open>
  Accounts do not interfere: replaying the whole fund and reading one account off the result is the
  same as replaying that account alone (\<open>reconstruct(.., account_id)\<close>). The simulation relation
  \<open>only\<close> projects the loop's state to one account; every step on another account leaves the
  projection unchanged.
\<close>

section \<open>Projection to one account\<close>

text \<open>\<open>only b s sb\<close>: \<open>sb\<close> is what the loop's state would be had only account \<open>b\<close> been replayed.\<close>

definition only :: "uuid \<Rightarrow> engine_state \<Rightarrow> engine_state \<Rightarrow> bool" where
  "only b s sb \<longleftrightarrow> es_cash sb = filter (\<lambda>x. fst x = b) (es_cash s)
     \<and> es_positions sb = filter (\<lambda>x. fst (fst x) = b) (es_positions s)
     \<and> es_effects sb = filter (\<lambda>x. eff_account_id (snd x) = b) (es_effects s)
     \<and> es_reversed_targets sb \<subseteq> es_reversed_targets s
     \<and> (\<forall>r. dict_get (es_transaction_types sb) r \<noteq> Some REVERSAL)"

lemma dict_get_filter: "dict_get (filter (\<lambda>x. P (fst x)) d) k = (if P k then dict_get d k else None)"
  by (induction d) auto

lemma dict_set_filter:
  "filter (\<lambda>x. P (fst x)) (dict_set k v d) =
     (if P k then dict_set k v (filter (\<lambda>x. P (fst x)) d) else filter (\<lambda>x. P (fst x)) d)"
  by (induction d) auto

lemma dict_setdefault_filter:
  "filter (\<lambda>x. P (fst x)) (dict_setdefault k v d) =
     (if P k then dict_setdefault k v (filter (\<lambda>x. P (fst x)) d) else filter (\<lambda>x. P (fst x)) d)"
  by (auto simp: dict_setdefault_def dict_get_filter dict_set_filter split: option.splits)

lemma apply_original_only:
  assumes "\<And>i. dict_get ps (lt_account_id t, i) = dict_get ps' (lt_account_id t, i)"
  shows "apply_original t ps = apply_original t ps'"
  using assms by (auto simp: sell_effect_def split: transaction_type.splits)

lemma apply_position_effect_only:
  assumes "apply_position_effect tid e i ps = Inr ps'"
  shows "eff_account_id e = b \<Longrightarrow> apply_position_effect tid e i (filter (\<lambda>x. fst (fst x) = b) ps) =
      Inr (filter (\<lambda>x. fst (fst x) = b) ps')"
    and "eff_account_id e \<noteq> b \<Longrightarrow> filter (\<lambda>x. fst (fst x) = b) ps' = filter (\<lambda>x. fst (fst x) = b) ps"
proof -
  note filt = dict_setdefault_filter [of "\<lambda>k. fst k = b"] dict_set_filter [of "\<lambda>k. fst k = b"]
    dict_get_filter [of "\<lambda>k. fst k = b"]
  define k where "k = (eff_account_id e, i)"
  define ps1 where "ps1 = dict_setdefault k new_position ps"
  from assms obtain p where p: "position_after tid e (the (dict_get ps1 k)) = Inr p" "ps' = dict_set k p ps1"
    by (auto simp: apply_position_effect_def Let_def result_simps k_def ps1_def)
  have ps1: "filter (\<lambda>x. fst (fst x) = b) ps1 = (if fst k = b
      then dict_setdefault k new_position (filter (\<lambda>x. fst (fst x) = b) ps) else filter (\<lambda>x. fst (fst x) = b) ps)"
    unfolding ps1_def by (rule filt(1))
  show "filter (\<lambda>x. fst (fst x) = b) ps' = filter (\<lambda>x. fst (fst x) = b) ps" if "eff_account_id e \<noteq> b"
    using that ps1 filt(2) [of k p ps1] by (simp add: p(2) k_def)
  show "apply_position_effect tid e i (filter (\<lambda>x. fst (fst x) = b) ps) =
      Inr (filter (\<lambda>x. fst (fst x) = b) ps')" if "eff_account_id e = b"
  proof -
    have "dict_setdefault k new_position (filter (\<lambda>x. fst (fst x) = b) ps) = filter (\<lambda>x. fst (fst x) = b) ps1"
      using that ps1 by (simp add: k_def)
    moreover have "dict_get (filter (\<lambda>x. fst (fst x) = b) ps1) k = dict_get ps1 k"
      using that filt(3) [of ps1 k] by (simp add: k_def)
    moreover have "filter (\<lambda>x. fst (fst x) = b) ps' = dict_set k p (filter (\<lambda>x. fst (fst x) = b) ps1)"
      using that filt(2) [of k p ps1] by (simp add: p(2) k_def)
    ultimately show ?thesis using p(1) by (simp add: apply_position_effect_def Let_def k_def)
  qed
qed

lemma applied_only:
  assumes ap: "applied s t e s'" and "es_cash sb = filter (\<lambda>x. fst x = b) (es_cash s)"
    and "es_positions sb = filter (\<lambda>x. fst (fst x) = b) (es_positions s)"
    and "es_cash sb' = filter (\<lambda>x. fst x = b) (es_cash s')"
    and "es_positions sb' = filter (\<lambda>x. fst (fst x) = b) (es_positions s')"
  shows "lt_account_id t = b \<Longrightarrow> applied sb t e sb'"
    and "lt_account_id t \<noteq> b \<Longrightarrow> es_cash sb' = es_cash sb \<and> es_positions sb' = es_positions sb"
proof -
  have cash: "cash_of sb b = cash_of s b"
    using dict_get_filter [of "\<lambda>k. k = b" "es_cash s" b] by (simp add: cash_of_def assms(2))
  note filt = dict_setdefault_filter [of "\<lambda>k. k = b"] dict_set_filter [of "\<lambda>k. k = b"]
  show "applied sb t e sb'" if "lt_account_id t = b"
    using ap apply_position_effect_only(1) [of "lt_id t" e _ "es_positions s" "es_positions s'" b]
    by (auto simp: that filt cash applied_def assms(2-) split: option.splits)
  show "es_cash sb' = es_cash sb \<and> es_positions sb' = es_positions sb" if "lt_account_id t \<noteq> b"
    using ap apply_position_effect_only(2) [of "lt_id t" e _ "es_positions s" "es_positions s'" b]
    by (auto simp: that filt applied_def assms(2-) split: option.splits)
qed


lemma only_step:
  assumes rel: "only b s sb" and inv: "engine_inv h s" and ok: "valid_ledger f (h @ [t])"
    and step: "engine_step s t = Inr s'"
  shows "if lt_account_id t = b then \<exists>sb'. engine_step sb t = Inr sb' \<and> only b s' sb' else only b s' sb"
proof -
  have hist: "history_inv h s" and hist': "history_inv (h @ [t]) s'"
    using inv engine.step_inv [OF inv ok step] by (simp_all add: engine_inv_def)
  note eff = history_effects [OF hist valid_ledger_append [OF ok]]
  have fresh: "dict_get (es_effects s) (lt_id t) = None"
    using ok by (intro eff(5)) (auto simp: valid_ledger_def)
  have get: "dict_get (es_effects sb) r = Some e" if "dict_get (es_effects s) r = Some e" "eff_account_id e = b" for r e
    using that eff(1) rel by (auto simp: only_def distinct_map_filter)
  define sb' where "sb' = s'\<lparr>es_cash := filter (\<lambda>x. fst x = b) (es_cash s'),
    es_positions := filter (\<lambda>x. fst (fst x) = b) (es_positions s'),
    es_effects := filter (\<lambda>x. eff_account_id (snd x) = b) (es_effects s'),
    es_transaction_types := (if lt_transaction_type t = REVERSAL then es_transaction_types sb
      else dict_set (lt_id t) (lt_transaction_type t) (es_transaction_types sb)),
    es_reversed_targets := (if lt_transaction_type t = REVERSAL
      then insert (the (lt_reverses_transaction_id t)) (es_reversed_targets sb) else es_reversed_targets sb)\<rparr>"
  have cash: "es_cash sb = filter (\<lambda>x. fst x = b) (es_cash s)"
    and pos: "es_positions sb = filter (\<lambda>x. fst (fst x) = b) (es_positions s)"
    using rel by (simp_all add: only_def)
  show ?thesis
  proof (cases "lt_transaction_type t = REVERSAL")
    case True
    with step obtain r target where r: "lt_reverses_transaction_id t = Some r"
      "dict_get (es_effects s) r = Some target" "r \<notin> es_reversed_targets s"
      and ap: "applied s t (inverse_effect target) s'" and upd: "es_effects s' = es_effects s"
      "es_reversed_targets s' = insert r (es_reversed_targets s)"
      by (auto simp: engine_step_reversal)
    note only = applied_only [OF ap cash pos, of sb']
    have acct: "eff_account_id target = lt_account_id t" using ap by (simp add: applied_def)
    show ?thesis
    proof (cases "lt_account_id t = b")
      case acct_b: True
      have "engine_step sb t = Inr sb'"
        using only(1) acct_b True r get [OF r(2)] acct rel
        by (auto simp: engine_step_reversal sb'_def only_def upd)
      moreover have "only b s' sb'" using rel True r by (auto simp: only_def sb'_def upd)
      ultimately show ?thesis using acct_b by auto
    next
      case False
      with only(2) rel show ?thesis by (auto simp: only_def sb'_def upd)
    qed
  next
    case False
    with step obtain e where e: "apply_original t (es_positions s) = Inr e" and ap: "applied s t e s'"
      and upd: "es_effects s' = dict_set (lt_id t) e (es_effects s)"
      "es_reversed_targets s' = es_reversed_targets s"
      by (auto simp: engine_step_original simp del: apply_original.simps)
    note only = applied_only [OF ap cash pos, of sb']
    have acct: "eff_account_id e = lt_account_id t" using e by (rule apply_original_effect)
    have upd': "es_effects s' = es_effects s @ [(lt_id t, e)]" by (simp add: upd dict_set_fresh fresh)
    show ?thesis
    proof (cases "lt_account_id t = b")
      case acct_b: True
      have fresh_b: "dict_get (es_effects sb) (lt_id t) = None"
        using fresh rel by (auto simp: only_def map_of_eq_None_iff image_iff)
      have "apply_original t (es_positions sb) = Inr e"
        unfolding e [symmetric] pos by (rule apply_original_only)
          (simp add: dict_get_filter [of "\<lambda>k. fst k = b"] acct_b)
      then have "engine_step sb t = Inr sb'"
        using only(1) acct_b False acct rel fresh_b
        by (auto simp: engine_step_original sb'_def only_def upd(2) upd' dict_set_fresh
            simp del: apply_original.simps)
      moreover have "only b s' sb'" using rel False
        by (auto simp: only_def sb'_def upd dict_simps)
      ultimately show ?thesis using acct_b by auto
    next
      case other: False
      with only(2) rel acct show ?thesis by (auto simp: only_def sb'_def upd' upd(2))
    qed
  qed
qed

lemma only_run:
  "valid_ledger f h \<Longrightarrow> foldR engine_step engine_init h = Inr s \<Longrightarrow>
     \<exists>sb. foldR engine_step engine_init (filter (\<lambda>t. lt_account_id t = b) h) = Inr sb \<and> only b s sb"
proof (induction h arbitrary: s rule: rev_induct)
  case Nil
  then show ?case by (auto simp: only_def engine_init_def)
next
  case (snoc t h)
  from snoc.prems(2) obtain s1 where s1: "foldR engine_step engine_init h = Inr s1" "engine_step s1 t = Inr s"
    by (auto simp: foldR_snoc result_simps)
  have ok: "valid_ledger f h" using snoc.prems(1) by (rule valid_ledger_append)
  from snoc.IH [OF ok s1(1)] obtain sb where
    sb: "foldR engine_step engine_init (filter (\<lambda>t. lt_account_id t = b) h) = Inr sb" "only b s1 sb" by blast
  from only_step [OF sb(2) engine.run_inv [OF ok s1(1)] snoc.prems(1) s1(2)] sb(1)
  show ?case by (auto simp: foldR_snoc split: if_splits)
qed


lemma ordered_transactions_account:
  "ordered_transactions a (Some b) ts = filter (\<lambda>t. lt_account_id t = b) (ordered_transactions a None ts)"
proof -
  have "included_transactions a (Some b) ts = filter (\<lambda>t. lt_account_id t = b) (included_transactions a None ts)"
    by (auto simp: included_transactions_def intro: filter_cong)
  then show ?thesis by (simp add: ordered_transactions_def filter_sort)
qed

theorem reconstruct_account_independent:
  assumes "reconstruct H f ts a None = Inr st"
  shows "\<exists>sb. reconstruct H f ts a (Some b) = Inr sb
    \<and> pf_positions sb = filter (\<lambda>p. ps_account_id p = b) (pf_positions st)
    \<and> pf_cash_by_account sb = filter (\<lambda>c. cb_account_id c = b) (pf_cash_by_account st)"
proof -
  from assms obtain s where run: "foldR engine_step engine_init (ordered_transactions a None ts) = Inr s"
    and ok: "valid_ledger f (ordered_transactions a None ts)"
    and st: "st = portfolio_output H f None a (ordered_transactions a None ts) s"
    by (rule reconstruct_inv)
  from only_run [OF ok run] obtain sb where
    sb: "foldR engine_step engine_init (ordered_transactions a (Some b) ts) = Inr sb" and rel: "only b s sb"
    unfolding ordered_transactions_account by blast
  have "reconstruct H f ts a (Some b) =
      Inr (portfolio_output H f (Some b) a (ordered_transactions a (Some b) ts) sb)"
    using assms sb by (auto simp: reconstruct_Inr)
  moreover have "positions_out (es_positions sb) = filter (\<lambda>p. ps_account_id p = b) (positions_out (es_positions s))"
    using rel by (auto simp: only_def positions_out_def filter_map o_def position_state_of_def
        filter_sort [symmetric] conj_commute split: prod.splits intro!: arg_cong [where f = "map _"] filter_cong)
  moreover have "sort_key fst (es_cash sb) = filter (\<lambda>x. fst x = b) (sort_key fst (es_cash s))"
    using rel by (simp add: only_def filter_sort)
  ultimately show ?thesis
    by (auto simp: st portfolio_output_def Let_def filter_map o_def split_def)
qed

end
