(* ===== verification/Ledger.thy ===== *)
theory Ledger
  imports Schema
begin

text \<open>
  \<open>app/ledger\<close>: the command \<open>CreateTransaction\<close>, its validation, the repository's queries and
  \<open>TransactionService.create\<close>. \<open>uuid4()\<close>, \<open>datetime.now\<close> and the digest are arguments. A
  method that returns has a new database; one that raises leaves the database as it was, because
  the caller's transaction is rolled back.
\<close>

section \<open>Commands\<close>

record create_transaction =
  ct_fund_id :: uuid
  ct_account_id :: uuid
  ct_transaction_type :: transaction_type
  ct_effective_at :: datetime
  ct_recorded_at :: datetime
  ct_source :: string
  ct_external_id :: string
  ct_instrument_id :: "uuid option"
  ct_quantity :: "dec option"
  ct_unit_price :: "dec option"
  ct_amount :: "dec option"
  ct_fees :: dec
  ct_currency :: string
  ct_trade_date :: "int option"
  ct_settlement_date :: "int option"
  ct_import_batch_id :: "uuid option"
  ct_created_by_user_id :: "uuid option"
  ct_reverses_transaction_id :: "uuid option"
  ct_correction_command_id :: "uuid option"
  ct_description :: "string option"
  ct_source_metadata :: "json option"

text \<open>\<open>_json_value\<close>: dictionaries are sorted by key at every level, leaves are rendered.\<close>

fun json_value :: "json \<Rightarrow> json" where
  "json_value (JObj kvs) = JObj (map (\<lambda>(k, v). (k, json_value v)) (sort_key fst kvs))"
| "json_value (JList xs) = JList (map json_value xs)"
| "json_value j = j"

definition json_fields :: "(string \<times> json) list \<Rightarrow> (string \<times> json) list" where
  "json_fields kvs = map (\<lambda>(k, v). (k, json_value v)) kvs"

text \<open>\<open>sorted(asdict(self).items())\<close>: the field names in alphabetical order.\<close>

definition canonical_payload :: "create_transaction \<Rightarrow> (string \<times> json) list" where
  "canonical_payload c = json_fields [
     (''account_id'', JUuid (ct_account_id c)),
     (''amount'', json_opt JDec (ct_amount c)),
     (''correction_command_id'', json_opt JUuid (ct_correction_command_id c)),
     (''created_by_user_id'', json_opt JUuid (ct_created_by_user_id c)),
     (''currency'', JStr (ct_currency c)),
     (''description'', json_opt JStr (ct_description c)),
     (''effective_at'', JTime (ct_effective_at c)),
     (''external_id'', JStr (ct_external_id c)),
     (''fees'', JDec (ct_fees c)),
     (''fund_id'', JUuid (ct_fund_id c)),
     (''import_batch_id'', json_opt JUuid (ct_import_batch_id c)),
     (''instrument_id'', json_opt JUuid (ct_instrument_id c)),
     (''quantity'', json_opt JDec (ct_quantity c)),
     (''recorded_at'', JTime (ct_recorded_at c)),
     (''reverses_transaction_id'', json_opt JUuid (ct_reverses_transaction_id c)),
     (''settlement_date'', json_opt JDate (ct_settlement_date c)),
     (''source'', JStr (ct_source c)),
     (''source_metadata'', json_opt (\<lambda>j. j) (ct_source_metadata c)),
     (''trade_date'', json_opt JDate (ct_trade_date c)),
     (''transaction_type'', JStr (transaction_type_value (ct_transaction_type c))),
     (''unit_price'', json_opt JDec (ct_unit_price c))]"

definition economic_payload :: "create_transaction \<Rightarrow> (string \<times> json) list" where
  "economic_payload c = filter (\<lambda>(k, v). k \<notin> {''recorded_at'', ''import_batch_id'',
     ''created_by_user_id'', ''correction_command_id'', ''description'', ''source_metadata''})
     (canonical_payload c)"

definition payload_hash :: "digest \<Rightarrow> (string \<times> json) list \<Rightarrow> string" where
  "payload_hash H payload = H (JObj payload)"

section \<open>Validation\<close>

definition positive_or_none :: "string \<Rightarrow> dec option \<Rightarrow> app_error + unit" where
  "positive_or_none name v = (case v of None \<Rightarrow> Inr ()
     | Some x \<Rightarrow> if dle x dzero
         then Inl (TransactionValidationError (name @ '' must be greater than zero'')) else Inr ())"

definition require_field :: "'a option \<Rightarrow> string \<Rightarrow> app_error + unit" where
  "require_field v name =
     requireR (v \<noteq> None) (TransactionValidationError (name @ '' is required''))"

definition forbid_field :: "'a option \<Rightarrow> string \<Rightarrow> app_error + unit" where
  "forbid_field v name =
     requireR (v = None) (TransactionValidationError (name @ '' is not allowed''))"

definition require_zero_fees :: "create_transaction \<Rightarrow> app_error + unit" where
  "require_zero_fees c = requireR (deq (ct_fees c) dzero)
     (TransactionValidationError ''fees are allowed only on BUY and SELL'')"

definition forbid_trade_fields :: "create_transaction \<Rightarrow> bool \<Rightarrow> app_error + unit" where
  "forbid_trade_fields c permit_instrument =
     bindR (if \<not> permit_instrument then forbid_field (ct_instrument_id c) ''instrument_id'' else Inr ()) (\<lambda>_.
     bindR (forbid_field (ct_quantity c) ''quantity'') (\<lambda>_.
     bindR (forbid_field (ct_unit_price c) ''unit_price'') (\<lambda>_.
     bindR (forbid_field (ct_reverses_transaction_id c) ''reverses_transaction_id'') (\<lambda>_.
     require_zero_fees c))))"

definition validate_kind :: "create_transaction \<Rightarrow> app_error + unit" where
  "validate_kind c = (case ct_transaction_type c of
       REVERSAL \<Rightarrow>
         bindR (require_field (ct_reverses_transaction_id c) ''reverses_transaction_id'') (\<lambda>_.
         bindR (forbid_field (ct_instrument_id c) ''instrument_id'') (\<lambda>_.
         bindR (forbid_field (ct_quantity c) ''quantity'') (\<lambda>_.
         bindR (forbid_field (ct_unit_price c) ''unit_price'') (\<lambda>_.
         bindR (forbid_field (ct_amount c) ''amount'') (\<lambda>_.
         require_zero_fees c)))))
     | OPENING_POSITION \<Rightarrow>
         bindR (require_field (ct_instrument_id c) ''instrument_id'') (\<lambda>_.
         bindR (require_field (ct_quantity c) ''quantity'') (\<lambda>_.
         bindR (forbid_field (ct_amount c) ''amount'') (\<lambda>_.
         bindR (forbid_field (ct_reverses_transaction_id c) ''reverses_transaction_id'') (\<lambda>_.
         require_zero_fees c))))
     | OPENING_CASH \<Rightarrow>
         bindR (require_field (ct_amount c) ''amount'') (\<lambda>_. forbid_trade_fields c False)
     | FEE \<Rightarrow>
         bindR (require_field (ct_amount c) ''amount'') (\<lambda>_.
         bindR (forbid_field (ct_quantity c) ''quantity'') (\<lambda>_.
         bindR (forbid_field (ct_unit_price c) ''unit_price'') (\<lambda>_.
         bindR (forbid_field (ct_reverses_transaction_id c) ''reverses_transaction_id'') (\<lambda>_.
         require_zero_fees c))))
     | DIVIDEND \<Rightarrow>
         bindR (require_field (ct_instrument_id c) ''instrument_id'') (\<lambda>_.
         bindR (require_field (ct_amount c) ''amount'') (\<lambda>_.
         bindR (forbid_field (ct_quantity c) ''quantity'') (\<lambda>_.
         bindR (forbid_field (ct_unit_price c) ''unit_price'') (\<lambda>_.
         bindR (forbid_field (ct_reverses_transaction_id c) ''reverses_transaction_id'') (\<lambda>_.
         require_zero_fees c)))))
     | CASH_DEPOSIT \<Rightarrow>
         bindR (require_field (ct_amount c) ''amount'') (\<lambda>_. forbid_trade_fields c False)
     | CASH_WITHDRAWAL \<Rightarrow>
         bindR (require_field (ct_amount c) ''amount'') (\<lambda>_. forbid_trade_fields c False)
     | _ \<Rightarrow>
         bindR (require_field (ct_instrument_id c) ''instrument_id'') (\<lambda>_.
         bindR (require_field (ct_quantity c) ''quantity'') (\<lambda>_.
         bindR (require_field (ct_unit_price c) ''unit_price'') (\<lambda>_.
         bindR (forbid_field (ct_amount c) ''amount'') (\<lambda>_.
         forbid_field (ct_reverses_transaction_id c) ''reverses_transaction_id'')))))"

definition validate_transaction :: "create_transaction \<Rightarrow> app_error + unit" where
  "validate_transaction c =
     bindR (requireR (ct_currency c = ''USD'')
       (TransactionValidationError ''Phase 1 supports USD transactions only'')) (\<lambda>_.
     bindR (requireR (is_aware (ct_effective_at c) \<and> is_aware (ct_recorded_at c))
       (TransactionValidationError ''effective_at and recorded_at must be timezone-aware'')) (\<lambda>_.
     bindR (requireR (strip (ct_source c) \<noteq> [] \<and> strip (ct_external_id c) \<noteq> [])
       (TransactionValidationError ''source and external_id are required'')) (\<lambda>_.
     bindR (requireR (\<not> 500 < length (case ct_description c of None \<Rightarrow> [] | Some d \<Rightarrow> d))
       (TransactionValidationError ''description exceeds 500 characters'')) (\<lambda>_.
     bindR (positive_or_none ''quantity'' (ct_quantity c)) (\<lambda>_.
     bindR (positive_or_none ''unit_price'' (ct_unit_price c)) (\<lambda>_.
     bindR (positive_or_none ''amount'' (ct_amount c)) (\<lambda>_.
     bindR (requireR (\<not> dlt (ct_fees c) dzero)
       (TransactionValidationError ''fees cannot be negative'')) (\<lambda>_.
     bindR (validate_kind c) (\<lambda>_.
     bindR (requireR (\<not> (ct_source c \<notin> {''manual'', ''phase1_fixture''} \<and> ct_import_batch_id c = None))
       (TransactionValidationError ''import_batch_id is required for imported transactions'')) (\<lambda>_.
     requireR (\<not> (ct_source c = ''manual'' \<and> ct_created_by_user_id c = None))
       (TransactionValidationError ''created_by_user_id is required for manual transactions'')
     ))))))))))"

section \<open>Repository\<close>

definition by_source_identity :: "database \<Rightarrow> uuid \<Rightarrow> string \<Rightarrow> string \<Rightarrow> transaction_row option" where
  "by_source_identity db fund_id source external_id = first_row (\<lambda>r. tx_fund_id r = fund_id
     \<and> tx_source r = source \<and> tx_external_id r = external_id) (db_transactions db)"

definition by_id :: "database \<Rightarrow> uuid \<Rightarrow> transaction_row option" where
  "by_id db i = first_row (\<lambda>r. tx_id r = i) (db_transactions db)"

definition has_posted_cash_activity :: "database \<Rightarrow> uuid \<Rightarrow> bool" where
  "has_posted_cash_activity db account_id \<longleftrightarrow> first_row (\<lambda>r. tx_account_id r = account_id
     \<and> tx_status r = POSTED \<and> tx_transaction_type r \<in>
       {BUY, SELL, CASH_DEPOSIT, CASH_WITHDRAWAL, DIVIDEND, FEE, OPENING_CASH})
     (db_transactions db) \<noteq> None"

definition has_posted_quantity_activity :: "database \<Rightarrow> uuid \<Rightarrow> uuid \<Rightarrow> bool" where
  "has_posted_quantity_activity db account_id instrument_id \<longleftrightarrow> first_row (\<lambda>r.
     tx_account_id r = account_id \<and> tx_instrument_id r = Some instrument_id
     \<and> tx_status r = POSTED \<and> tx_transaction_type r \<in> {BUY, SELL, OPENING_POSITION})
     (db_transactions db) \<noteq> None"

definition reversal_for :: "database \<Rightarrow> uuid \<Rightarrow> transaction_row option" where
  "reversal_for db i = first_row (\<lambda>r. tx_transaction_type r = REVERSAL
     \<and> tx_reverses_transaction_id r = Some i) (db_transactions db)"

section \<open>Service\<close>

datatype creation_status = CREATED | DUPLICATE | CONFLICT

record creation_result =
  cr_status :: creation_status
  cr_transaction :: transaction_row
  cr_conflict :: "import_conflict_row option"

definition validate_import_batch :: "database \<Rightarrow> create_transaction \<Rightarrow> app_error + unit" where
  "validate_import_batch db c = (case ct_import_batch_id c of
     None \<Rightarrow> Inr ()
   | Some b \<Rightarrow> (case first_row (\<lambda>r. ib_id r = b) (db_import_batches db) of
       None \<Rightarrow> Inl (TransactionValidationError ''import batch does not exist'')
     | Some batch \<Rightarrow> requireR (ib_fund_id batch = ct_fund_id c \<and> ib_source batch = ct_source c)
         (TransactionValidationError ''import batch must belong to the same fund and source'')))"

definition validate_opening_order :: "database \<Rightarrow> create_transaction \<Rightarrow> app_error + unit" where
  "validate_opening_order db c =
     (if ct_transaction_type c = OPENING_CASH then
        requireR (\<not> has_posted_cash_activity db (ct_account_id c))
          (OpeningBalanceError ''opening cash must be the account's first posted activity'')
      else if ct_transaction_type c = OPENING_POSITION then
        (case ct_instrument_id c of
           None \<Rightarrow> Inl AssertionError
         | Some i \<Rightarrow> requireR (\<not> has_posted_quantity_activity db (ct_account_id c) i)
             (OpeningBalanceError
               ''opening position must be the account/instrument's first posted activity''))
      else Inr ())"

definition validate_reversal ::
  "database \<Rightarrow> create_transaction \<Rightarrow> app_error + transaction_row option" where
  "validate_reversal db c =
     (if ct_transaction_type c \<noteq> REVERSAL then Inr None
      else (case ct_reverses_transaction_id c of
        None \<Rightarrow> Inl AssertionError
      | Some target_id \<Rightarrow> (case by_id db target_id of
          None \<Rightarrow> Inl (ReversalError ''reversal target does not exist'')
        | Some target \<Rightarrow>
            bindR (requireR (tx_transaction_type target \<noteq> REVERSAL)
              (ReversalError ''a reversal cannot target another reversal'')) (\<lambda>_.
            bindR (requireR (tx_fund_id target = ct_fund_id c \<and> tx_account_id target = ct_account_id c)
              (ReversalError ''reversal target must belong to the same fund and account'')) (\<lambda>_.
            bindR (requireR (reversal_for db (tx_id target) = None)
              (ReversalError ''transaction has already been reversed'')) (\<lambda>_.
            Inr (Some target)))))))"

text \<open>The constructor call \<open>Transaction(id=uuid4(), .., **values)\<close>.\<close>

definition transaction_of :: "uuid \<Rightarrow> string \<Rightarrow> create_transaction \<Rightarrow> transaction_row" where
  "transaction_of i h c =
     \<lparr>tx_id = i, tx_fund_id = ct_fund_id c, tx_account_id = ct_account_id c,
      tx_instrument_id = ct_instrument_id c, tx_transaction_type = ct_transaction_type c,
      tx_quantity = ct_quantity c, tx_unit_price = ct_unit_price c, tx_amount = ct_amount c,
      tx_fees = ct_fees c, tx_currency = ct_currency c, tx_effective_at = ct_effective_at c,
      tx_recorded_at = ct_recorded_at c, tx_trade_date = ct_trade_date c,
      tx_settlement_date = ct_settlement_date c, tx_source = ct_source c,
      tx_external_id = ct_external_id c, tx_normalized_payload_hash = h, tx_status = POSTED,
      tx_import_batch_id = ct_import_batch_id c, tx_created_by_user_id = ct_created_by_user_id c,
      tx_reverses_transaction_id = ct_reverses_transaction_id c,
      tx_correction_command_id = ct_correction_command_id c, tx_description = ct_description c,
      tx_source_metadata = (case ct_source_metadata c of None \<Rightarrow> JObj [] | Some m \<Rightarrow> m)\<rparr>"

definition record_conflict ::
  "uuid \<Rightarrow> datetime \<Rightarrow> database \<Rightarrow> create_transaction \<Rightarrow> (string \<times> json) list \<Rightarrow> string
     \<Rightarrow> transaction_row \<Rightarrow> app_error + creation_result \<times> database" where
  "record_conflict i now db c payload h existing = (case ct_import_batch_id c of
     None \<Rightarrow> Inr (\<lparr>cr_status = CONFLICT, cr_transaction = existing, cr_conflict = None\<rparr>, db)
   | Some b \<Rightarrow> (case first_row (\<lambda>r. ic_import_batch_id r = b \<and> ic_source r = ct_source c
         \<and> ic_external_id r = ct_external_id c \<and> ic_incoming_payload_hash r = h) (db_import_conflicts db) of
       Some prior \<Rightarrow>
         Inr (\<lparr>cr_status = CONFLICT, cr_transaction = existing, cr_conflict = Some prior\<rparr>, db)
     | None \<Rightarrow>
         let conflict = \<lparr>ic_id = i, ic_fund_id = ct_fund_id c, ic_import_batch_id = b,
               ic_existing_transaction_id = tx_id existing, ic_source = ct_source c,
               ic_external_id = ct_external_id c,
               ic_existing_payload_hash = tx_normalized_payload_hash existing,
               ic_incoming_payload_hash = h, ic_incoming_payload = JObj payload,
               ic_detected_at = now\<rparr> in
         (case first_row (\<lambda>r. ib_id r = b) (db_import_batches db) of
            None \<Rightarrow> Inl NoResultFound
          | Some batch \<Rightarrow>
              bindR (insert_import_conflict db conflict) (\<lambda>db1.
              Inr (\<lparr>cr_status = CONFLICT, cr_transaction = existing, cr_conflict = Some conflict\<rparr>,
                db1\<lparr>db_import_batches := update_row ib_id b
                  (\<lambda>r. r\<lparr>ib_conflict_count := ib_conflict_count r + 1\<rparr>) (db_import_batches db1)\<rparr>)))))"

definition transaction_service_create ::
  "digest \<Rightarrow> uuid \<Rightarrow> datetime \<Rightarrow> database \<Rightarrow> create_transaction
     \<Rightarrow> app_error + creation_result \<times> database" where
  "transaction_service_create H i now db c =
     (let payload = canonical_payload c; h = payload_hash H (economic_payload c) in
      bindR (validate_transaction c) (\<lambda>_.
      bindR (validate_import_batch db c) (\<lambda>_.
      (case by_source_identity db (ct_fund_id c) (ct_source c) (ct_external_id c) of
         Some existing \<Rightarrow>
           if tx_normalized_payload_hash existing = h
           then Inr (\<lparr>cr_status = DUPLICATE, cr_transaction = existing, cr_conflict = None\<rparr>, db)
           else record_conflict i now db c payload h existing
       | None \<Rightarrow>
           bindR (validate_opening_order db c) (\<lambda>_.
           bindR (validate_reversal db c) (\<lambda>target.
           let t = transaction_of i h c in
           bindR (insert_transaction db t) (\<lambda>db1.
           Inr (\<lparr>cr_status = CREATED, cr_transaction = t, cr_conflict = None\<rparr>,
             (case target of None \<Rightarrow> db1
              | Some target \<Rightarrow> db1\<lparr>db_transactions := update_row tx_id (tx_id target)
                  (\<lambda>r. r\<lparr>tx_status := REVERSED\<rparr>) (db_transactions db1)\<rparr>)))))))))"

end
