(* ===== verification/Ledger_Properties.thy ===== *)
theory Ledger_Properties
  imports Ledger
begin

text \<open>
  What \<open>TransactionService.create\<close> guarantees: it only appends, it is idempotent on the economic
  content of a source identity, a conflict is recorded once, the ledger it builds satisfies every
  declared constraint and has at most one reversal per transaction, and validation leaves no
  constraint of the table to the database.
\<close>

section \<open>Tables of the ledger\<close>

interpretation transactions: keyed_table transaction_clash transaction_checks tx_id
  by unfold_locales (simp add: transaction_clash_def)

interpretation import_conflicts: keyed_table import_conflict_clash import_conflict_checks ic_id
  by unfold_locales (simp add: import_conflict_clash_def)

interpretation import_batches: keyed_table import_batch_clash import_batch_checks ib_id
  by unfold_locales (simp add: import_batch_clash_def)

section \<open>Validation covers the database checks\<close>

lemma field_rules [result_simps]:
  "positive_or_none n v = Inr u \<longleftrightarrow> pred_option (\<lambda>x. dlt dzero x) v"
  "require_field w n = Inr u \<longleftrightarrow> w \<noteq> None"
  "forbid_field w n = Inr u \<longleftrightarrow> w = None"
  "require_zero_fees c = Inr u \<longleftrightarrow> deq (ct_fees c) dzero"
  by (auto simp: positive_or_none_def require_field_def forbid_field_def require_zero_fees_def result_simps
      dec_simps split: option.splits)

lemma validation_covers_checks:
  assumes "validate_transaction c = Inr ()" and "varchar 64 (ct_source c)" and "varchar 160 (ct_external_id c)"
    and "\<And>j. length (H j) = 64"
  shows "transaction_checks (transaction_of i (payload_hash H (economic_payload c)) c)"
proof -
  have kind: "validate_kind c = Inr ()" and rest: "ct_currency c = ''USD''" "\<not> dlt (ct_fees c) dzero"
    "pred_option (\<lambda>x. dlt dzero x) (ct_quantity c)" "pred_option (\<lambda>x. dlt dzero x) (ct_unit_price c)"
    "pred_option (\<lambda>x. dlt dzero x) (ct_amount c)"
    "\<not> 500 < length (case ct_description c of None \<Rightarrow> [] | Some d \<Rightarrow> d)"
    using assms(1) by (simp_all add: validate_transaction_def result_simps)
  have "ck_transactions_type_fields (transaction_of i (payload_hash H (economic_payload c)) c)
      \<and> (ct_transaction_type c = REVERSAL) = (ct_reverses_transaction_id c \<noteq> None)"
    using kind by (cases "ct_transaction_type c")
      (simp_all add: validate_kind_def ck_transactions_type_fields_def transaction_of_def
        forbid_trade_fields_def result_simps)
  with rest assms(2-) show ?thesis
    by (simp add: transaction_checks_def transaction_of_def varchar_def payload_hash_def dec_simps
        not_less split: option.splits)
qed

section \<open>What create does\<close>

lemma by_id_Some: "by_id db k = Some u \<Longrightarrow> u \<in> set (db_transactions db) \<and> tx_id u = k"
  by (auto simp: by_id_def dest: first_row_Some)

lemma validate_reversal_Some:
  "validate_reversal db c = Inr (Some u) \<longleftrightarrow> ct_transaction_type c = REVERSAL
     \<and> (\<exists>k. ct_reverses_transaction_id c = Some k \<and> by_id db k = Some u \<and> tx_transaction_type u \<noteq> REVERSAL
          \<and> tx_fund_id u = ct_fund_id c \<and> tx_account_id u = ct_account_id c \<and> reversal_for db k = None)"
  by (auto simp: validate_reversal_def result_simps dest: by_id_Some split: option.splits)

lemma validate_reversal_None:
  "validate_reversal db c = Inr None \<longleftrightarrow> ct_transaction_type c \<noteq> REVERSAL"
  by (auto simp: validate_reversal_def result_simps split: option.splits)


text \<open>The two ways a call returns without storing a transaction, and the one that stores it.\<close>

lemma create_cases:
  assumes "transaction_service_create H i now db c = Inr (res, db')"
  obtains (existing) existing where
      "by_source_identity db (ct_fund_id c) (ct_source c) (ct_external_id c) = Some existing"
      "cr_transaction res = existing" "cr_status res \<noteq> CREATED" "db_transactions db' = db_transactions db"
      "cr_status res = DUPLICATE \<longleftrightarrow> tx_normalized_payload_hash existing = payload_hash H (economic_payload c)"
    | (created) target db1 where
      "by_source_identity db (ct_fund_id c) (ct_source c) (ct_external_id c) = None"
      "validate_opening_order db c = Inr ()" "validate_reversal db c = Inr target"
      "cr_transaction res = transaction_of i (payload_hash H (economic_payload c)) c"
      "cr_status res = CREATED" "cr_conflict res = None"
      "insert_transaction db (cr_transaction res) = Inr db1"
      "db' = (case target of None \<Rightarrow> db1 | Some t \<Rightarrow> db1\<lparr>db_transactions :=
         update_row tx_id (tx_id t) (\<lambda>r. r\<lparr>tx_status := REVERSED\<rparr>) (db_transactions db1)\<rparr>)"
proof (cases "by_source_identity db (ct_fund_id c) (ct_source c) (ct_external_id c)")
  case None
  with assms show thesis
    by (auto simp: transaction_service_create_def Let_def result_simps intro: created)
next
  case (Some existing)
  have "db_transactions db' = db_transactions db \<and> cr_transaction res = existing \<and> cr_status res = CONFLICT"
    if "record_conflict i now db c p h existing = Inr (res, db')" for p h
    using that by (auto simp: record_conflict_def Let_def result_simps insert_import_conflict_def
        split: option.splits)
  with Some assms show thesis
    by (intro existing [of existing])
      (auto simp: transaction_service_create_def Let_def result_simps split: if_splits)
qed

lemma insert_transaction_Inr:
  "insert_transaction db t = Inr db1 \<longleftrightarrow> transaction_checks t \<and> transaction_refs db t
     \<and> (\<forall>r \<in> set (db_transactions db). \<not> transaction_clash r t)
     \<and> db1 = db\<lparr>db_transactions := db_transactions db @ [t]\<rparr>"
  by (auto simp: insert_transaction_def result_simps)


section \<open>Append-only\<close>

abbreviation economic_row :: "transaction_row \<Rightarrow> transaction_row" where
  "economic_row r \<equiv> r\<lparr>tx_status := POSTED\<rparr>"

lemma update_status_economic:
  "map economic_row (update_row tx_id k (\<lambda>r. r\<lparr>tx_status := REVERSED\<rparr>) rows) = map economic_row rows"
  by (simp add: update_row_def)

lemma created_transactions:
  assumes "insert_transaction db t = Inr db1"
    and "db' = (case target of None \<Rightarrow> db1 | Some u \<Rightarrow> db1\<lparr>db_transactions :=
         update_row tx_id (tx_id u) (\<lambda>r. r\<lparr>tx_status := REVERSED\<rparr>) (db_transactions db1)\<rparr>)"
  shows "db_transactions db' = (case target of None \<Rightarrow> db_transactions db @ [t]
     | Some u \<Rightarrow> update_row tx_id (tx_id u) (\<lambda>r. r\<lparr>tx_status := REVERSED\<rparr>) (db_transactions db @ [t]))"
  using assms by (auto simp: insert_transaction_Inr split: option.splits)

lemma create_appends:
  assumes "transaction_service_create H i now db c = Inr (res, db')"
  shows "map economic_row (db_transactions db') = map economic_row (db_transactions db)
    @ (if cr_status res = CREATED then [cr_transaction res] else [])"
  using assms
proof (cases rule: create_cases)
  case (existing e)
  then show ?thesis by simp
next
  case (created target db1)
  have "economic_row (cr_transaction res) = cr_transaction res"
    by (simp add: created(4) transaction_of_def)
  with created_transactions [OF created(7,8)] show ?thesis
    by (simp add: created(5) update_status_economic split: option.splits)
qed

theorem create_append_only:
  assumes "transaction_service_create H i now db c = Inr (res, db')"
  shows "map economic_row (db_transactions db') = map economic_row (db_transactions db)
    @ (if cr_status res = CREATED then [cr_transaction res] else [])"
  using assms by (rule create_appends)

section \<open>Idempotency\<close>

lemma economic_payload_identity:
  "economic_payload c = economic_payload c' \<Longrightarrow>
     ct_fund_id c = ct_fund_id c' \<and> ct_source c = ct_source c' \<and> ct_external_id c = ct_external_id c'"
  by (simp add: economic_payload_def canonical_payload_def json_fields_def)

lemma by_source_identity_created:
  assumes "by_source_identity db (ct_fund_id c) (ct_source c) (ct_external_id c) = None"
    and "insert_transaction db (transaction_of i h c) = Inr db1"
    and "validate_reversal db c = Inr target"
    and "db' = (case target of None \<Rightarrow> db1 | Some u \<Rightarrow> db1\<lparr>db_transactions :=
         update_row tx_id (tx_id u) (\<lambda>r. r\<lparr>tx_status := REVERSED\<rparr>) (db_transactions db1)\<rparr>)"
  shows "by_source_identity db' (ct_fund_id c) (ct_source c) (ct_external_id c) = Some (transaction_of i h c)"
proof -
  let ?p = "\<lambda>r. tx_fund_id r = ct_fund_id c \<and> tx_source r = ct_source c \<and> tx_external_id r = ct_external_id c"
  have none: "\<And>r. r \<in> set (db_transactions db) \<Longrightarrow> \<not> ?p r"
    using assms(1) by (simp add: by_source_identity_def first_row_None)
  have fresh: "tx_id r \<noteq> i" if "r \<in> set (db_transactions db)" for r
    using assms(2) that by (auto simp: insert_transaction_Inr transaction_clash_def transaction_of_def)
  have skip: "first_row ?p (rows @ rows') = first_row ?p rows'" if "\<And>r. r \<in> set rows \<Longrightarrow> \<not> ?p r" for rows rows'
    using that first_row_None [of ?p rows] by (simp add: first_row_append)
  have target: "tx_id u \<noteq> i" if "target = Some u" for u
    using assms(3) that fresh by (auto simp: validate_reversal_Some dest!: by_id_Some)
  have old: "\<not> ?p r" if "r \<in> set (update_row tx_id k (\<lambda>r. r\<lparr>tx_status := REVERSED\<rparr>) (db_transactions db))" for r k
    using that none by (auto simp: set_update_row split: if_splits)
  have new: "?p (transaction_of i h c)" by (simp add: transaction_of_def)
  show ?thesis
  proof (cases target)
    case None
    with new skip [OF none] show ?thesis
      unfolding by_source_identity_def created_transactions [OF assms(2,4)] by simp
  next
    case (Some u)
    let ?f = "update_row tx_id (tx_id u) (\<lambda>r. r\<lparr>tx_status := REVERSED\<rparr>)"
    have "?f (db_transactions db @ [transaction_of i h c]) = ?f (db_transactions db) @ [transaction_of i h c]"
      using target [OF Some] by (simp add: update_row_def transaction_of_def)
    with Some new skip [OF old] show ?thesis
      unfolding by_source_identity_def created_transactions [OF assms(2,4)] by simp
  qed
qed

text \<open>C21: After a transaction was created, any command with the same economic payload that passes
  validation yields DUPLICATE with the stored row and leaves the database unchanged, whatever id,
  clock and import batch it comes with.\<close>

theorem create_idempotent:
  assumes "transaction_service_create H i now db c = Inr (res, db')" and "cr_status res = CREATED"
    and "economic_payload c' = economic_payload c"
    and "validate_transaction c' = Inr ()" and "validate_import_batch db' c' = Inr ()"
  shows "transaction_service_create H i' now' db' c' =
    Inr (\<lparr>cr_status = DUPLICATE, cr_transaction = cr_transaction res, cr_conflict = None\<rparr>, db')"
  using assms(1)
proof (cases rule: create_cases)
  case (created target db1)
  note ident = economic_payload_identity [OF assms(3)]
  have "by_source_identity db' (ct_fund_id c') (ct_source c') (ct_external_id c') = Some (cr_transaction res)"
    using by_source_identity_created [OF created(1) _ created(3,8)] created(4,7) ident by simp
  moreover have "tx_normalized_payload_hash (cr_transaction res) = payload_hash H (economic_payload c')"
    by (simp add: created(4) transaction_of_def assms(3))
  ultimately show ?thesis
    using assms(4,5) by (simp add: transaction_service_create_def Let_def)
qed (use assms(2) in simp)


section \<open>Conflicts\<close>

lemma record_conflict_batch:
  assumes "record_conflict i now db c p h e = Inr (res, db')" and "ct_import_batch_id c = Some b"
  obtains (prior) r where "first_row (\<lambda>r. ic_import_batch_id r = b \<and> ic_source r = ct_source c
         \<and> ic_external_id r = ct_external_id c \<and> ic_incoming_payload_hash r = h) (db_import_conflicts db) = Some r"
      "res = \<lparr>cr_status = CONFLICT, cr_transaction = e, cr_conflict = Some r\<rparr>" "db' = db"
    | (new) r where "first_row (\<lambda>r. ic_import_batch_id r = b \<and> ic_source r = ct_source c
         \<and> ic_external_id r = ct_external_id c \<and> ic_incoming_payload_hash r = h) (db_import_conflicts db) = None"
      "ic_import_batch_id r = b" "ic_source r = ct_source c" "ic_external_id r = ct_external_id c"
      "ic_incoming_payload_hash r = h"
      "res = \<lparr>cr_status = CONFLICT, cr_transaction = e, cr_conflict = Some r\<rparr>"
      "db' = db\<lparr>db_import_conflicts := db_import_conflicts db @ [r], db_import_batches := update_row ib_id b
         (\<lambda>r. r\<lparr>ib_conflict_count := ib_conflict_count r + 1\<rparr>) (db_import_batches db)\<rparr>"
proof (cases "first_row (\<lambda>r. ic_import_batch_id r = b \<and> ic_source r = ct_source c
         \<and> ic_external_id r = ct_external_id c \<and> ic_incoming_payload_hash r = h) (db_import_conflicts db)")
  case (Some r)
  with assms show thesis by (intro prior [of r]) (simp_all add: record_conflict_def)
next
  case None
  define r where "r = \<lparr>ic_id = i, ic_fund_id = ct_fund_id c, ic_import_batch_id = b,
    ic_existing_transaction_id = tx_id e, ic_source = ct_source c, ic_external_id = ct_external_id c,
    ic_existing_payload_hash = tx_normalized_payload_hash e, ic_incoming_payload_hash = h,
    ic_incoming_payload = JObj p, ic_detected_at = now\<rparr>"
  from assms None obtain db1 where "insert_import_conflict db r = Inr db1"
    and res: "res = \<lparr>cr_status = CONFLICT, cr_transaction = e, cr_conflict = Some r\<rparr>"
    and db': "db' = db1\<lparr>db_import_batches := update_row ib_id b
      (\<lambda>r. r\<lparr>ib_conflict_count := ib_conflict_count r + 1\<rparr>) (db_import_batches db1)\<rparr>"
    unfolding record_conflict_def Let_def r_def
    by (cases "first_row (\<lambda>r. ib_id r = b) (db_import_batches db)")
      (simp_all add: bindR_Inr_iff, blast)
  then have "db1 = db\<lparr>db_import_conflicts := db_import_conflicts db @ [r]\<rparr>"
    by (auto simp: insert_import_conflict_def result_simps)
  with db' res None show thesis by (intro new [of r]) (simp_all add: r_def)
qed

theorem create_conflict_once:
  assumes "transaction_service_create H i now db c = Inr (res, db')" and "cr_status res = CONFLICT"
    and "ct_import_batch_id c = Some b"
  shows "transaction_service_create H i' now' db' c = Inr (res, db')"
proof -
  define h where "h = payload_hash H (economic_payload c)"
  from assms(1,2) obtain e where e: "by_source_identity db (ct_fund_id c) (ct_source c) (ct_external_id c) = Some e"
    "tx_normalized_payload_hash e \<noteq> h" and rec: "record_conflict i now db c (canonical_payload c) h e = Inr (res, db')"
    and val: "validate_transaction c = Inr ()" "validate_import_batch db c = Inr ()"
    by (auto simp: transaction_service_create_def Let_def result_simps h_def split: option.splits if_splits)
  have tx: "db_transactions db' = db_transactions db"
    using assms(1,2) by (cases rule: create_cases) simp_all
  have batch: "validate_import_batch db' c = Inr ()"
    and rec': "record_conflict i' now' db' c (canonical_payload c) h e = Inr (res, db')"
  proof -
    from rec assms(3) show "validate_import_batch db' c = Inr ()"
    proof (cases rule: record_conflict_batch)
      case (new r)
      from val(2) assms(3) obtain batch where "first_row (\<lambda>r. ib_id r = b) (db_import_batches db) = Some batch"
        "ib_fund_id batch = ct_fund_id c" "ib_source batch = ct_source c"
        by (cases "first_row (\<lambda>r. ib_id r = b) (db_import_batches db)")
          (auto simp: validate_import_batch_def result_simps)
      with new assms(3) show ?thesis
        by (simp add: validate_import_batch_def first_row_update result_simps)
    qed (use val in simp)
    from rec assms(3) show "record_conflict i' now' db' c (canonical_payload c) h e = Inr (res, db')"
    proof (cases rule: record_conflict_batch)
      case (prior r)
      then show ?thesis by (simp add: record_conflict_def assms(3))
    next
      case (new r)
      then show ?thesis
        by (simp add: record_conflict_def assms(3) first_row_append)
    qed
  qed
  have "by_source_identity db' (ct_fund_id c) (ct_source c) (ct_external_id c) = Some e"
    using e(1) by (simp add: by_source_identity_def tx)
  with batch rec' e(2) val(1) show ?thesis
    by (simp add: transaction_service_create_def Let_def h_def)
qed

section \<open>Runs of the service\<close>

text \<open>
  The databases the service reaches from one without transactions, while other code changes the
  other tables as it likes.
\<close>

inductive ledger_run :: "digest \<Rightarrow> database \<Rightarrow> bool" for H where
  start: "db_transactions db = [] \<Longrightarrow> ledger_run H db"
| create: "ledger_run H db \<Longrightarrow> transaction_service_create H i now db c = Inr (res, db') \<Longrightarrow> ledger_run H db'"
| other: "ledger_run H db \<Longrightarrow> db_transactions db' = db_transactions db \<Longrightarrow> ledger_run H db'"

text \<open>
  What the service requires of a row against the rows stored before it: the target of a reversal is
  one of them, of the same fund and account, no reversal and not yet reversed; an opening balance
  finds only reversed activity of its account (of its account and instrument). The rule reads no
  status, only which reversals came before.
\<close>

definition reversed_in :: "transaction_row list \<Rightarrow> transaction_row \<Rightarrow> bool" where
  "reversed_in rows t \<longleftrightarrow>
     (\<exists>r \<in> set rows. tx_transaction_type r = REVERSAL \<and> tx_reverses_transaction_id r = Some (tx_id t))"

definition admissible :: "transaction_row list \<Rightarrow> transaction_row \<Rightarrow> bool" where
  "admissible earlier t \<longleftrightarrow>
     (tx_transaction_type t = REVERSAL \<longrightarrow>
        (\<exists>u \<in> set earlier. tx_reverses_transaction_id t = Some (tx_id u) \<and> tx_transaction_type u \<noteq> REVERSAL
           \<and> tx_fund_id u = tx_fund_id t \<and> tx_account_id u = tx_account_id t \<and> \<not> reversed_in earlier u))
     \<and> (tx_transaction_type t = OPENING_CASH \<longrightarrow>
        (\<forall>u \<in> set earlier. tx_account_id u = tx_account_id t
           \<and> tx_transaction_type u \<in> {BUY, SELL, CASH_DEPOSIT, CASH_WITHDRAWAL, DIVIDEND, FEE, OPENING_CASH}
           \<longrightarrow> reversed_in earlier u))
     \<and> (tx_transaction_type t = OPENING_POSITION \<longrightarrow>
        (\<forall>u \<in> set earlier. tx_account_id u = tx_account_id t \<and> tx_instrument_id u = tx_instrument_id t
           \<and> tx_transaction_type u \<in> {BUY, SELL, OPENING_POSITION} \<longrightarrow> reversed_in earlier u))"

definition history_ok :: "transaction_row list \<Rightarrow> bool" where
  "history_ok rows \<longleftrightarrow> (\<forall>j < length rows. admissible (take j rows) (rows ! j))"

definition ledger_ok :: "transaction_row list \<Rightarrow> bool" where
  "ledger_ok rows \<longleftrightarrow> table_ok transaction_clash transaction_checks rows \<and> history_ok rows
     \<and> (\<forall>t \<in> set rows. tx_status t = REVERSED \<longleftrightarrow> reversed_in rows t)"

lemma history_ok_simps [simp]:
  "history_ok []" "history_ok (rows @ [t]) \<longleftrightarrow> history_ok rows \<and> admissible rows t"
  by (auto simp: history_ok_def less_Suc_eq nth_append)

lemma admissible_economic: "admissible (map economic_row rows) (economic_row t) \<longleftrightarrow> admissible rows t"
  by (simp add: admissible_def reversed_in_def)

lemma history_ok_economic:
  assumes "map economic_row rows' = map economic_row rows" and "history_ok rows"
  shows "history_ok rows'"
proof -
  have "history_ok (map economic_row xs) \<longleftrightarrow> history_ok xs" for xs
    by (simp add: history_ok_def take_map admissible_economic)
  with assms show ?thesis by metis
qed

lemma history_target:
  assumes "history_ok rows" and "r \<in> set rows" and "tx_transaction_type r = REVERSAL"
  obtains u where "u \<in> set rows" "tx_reverses_transaction_id r = Some (tx_id u)"
proof -
  from assms obtain j where "j < length rows" "admissible (take j rows) r"
    by (auto simp: history_ok_def in_set_conv_nth)
  with assms(3) that show thesis by (auto simp: admissible_def dest!: in_set_takeD)
qed

text \<open>Storing a transaction that is no reversal.\<close>

lemma ledger_ok_insert:
  assumes "ledger_ok rows" and "table_ok transaction_clash transaction_checks (rows @ [t])"
    and "tx_transaction_type t \<noteq> REVERSAL" and "tx_status t = POSTED" and "admissible rows t"
    and "\<And>r. r \<in> set rows \<Longrightarrow> tx_reverses_transaction_id r \<noteq> Some (tx_id t)"
  shows "ledger_ok (rows @ [t])"
proof -
  have "reversed_in (rows @ [t]) x \<longleftrightarrow> reversed_in rows x" for x
    using assms(3) by (auto simp: reversed_in_def)
  moreover have "\<not> reversed_in rows t" using assms(6) by (auto simp: reversed_in_def)
  ultimately show ?thesis using assms(1,2,4,5) by (simp add: ledger_ok_def)
qed

lemma transaction_checks_status: "transaction_checks (r\<lparr>tx_status := st\<rparr>) = transaction_checks r"
  unfolding transaction_checks_def ck_transactions_type_fields_def by simp

text \<open>Storing a reversal and marking its target.\<close>

lemma ledger_ok_reverse:
  assumes "ledger_ok rows" and "table_ok transaction_clash transaction_checks (rows @ [t])"
    and "tx_transaction_type t = REVERSAL" and "tx_status t = POSTED" and "admissible rows t"
    and "tx_reverses_transaction_id t = Some i"
    and "\<And>r. r \<in> set rows \<Longrightarrow> tx_reverses_transaction_id r \<noteq> Some (tx_id t)" and "i \<noteq> tx_id t"
  shows "ledger_ok (update_row tx_id i (\<lambda>r. r\<lparr>tx_status := REVERSED\<rparr>) (rows @ [t]))"
proof -
  define g where "g r = (if tx_id r = i then r\<lparr>tx_status := REVERSED\<rparr> else r)" for r :: transaction_row
  have upd: "update_row tx_id i (\<lambda>r. r\<lparr>tx_status := REVERSED\<rparr>) (rows @ [t]) = map g (rows @ [t])"
    by (simp add: update_row_def g_def)
  have g: "economic_row (g r) = economic_row r" "tx_id (g r) = tx_id r"
    "tx_transaction_type (g r) = tx_transaction_type r"
    "tx_reverses_transaction_id (g r) = tx_reverses_transaction_id r"
    "tx_status (g r) = (if tx_id r = i then REVERSED else tx_status r)" for r
    by (simp_all add: g_def)
  have "table_ok transaction_clash transaction_checks (map g (rows @ [t]))"
    unfolding upd [symmetric]
    by (rule transactions.update_ok [OF assms(2)]) (simp_all add: transaction_checks_status transaction_clash_def)
  moreover have "history_ok (map g (rows @ [t]))"
    by (rule history_ok_economic [of _ "rows @ [t]"]) (use assms(1,5) in \<open>simp_all add: g(1) ledger_ok_def\<close>)
  moreover have "reversed_in (map g (rows @ [t])) (g r) \<longleftrightarrow> reversed_in rows r \<or> tx_id r = i" for r
    using assms(3,6) by (auto simp: reversed_in_def g)
  moreover have "\<not> reversed_in rows t" using assms(7) by (auto simp: reversed_in_def)
  ultimately show ?thesis unfolding upd
    using assms(1,4,8) by (auto simp: ledger_ok_def g)
qed

lemma ledger_ok_unreferenced:
  assumes "ledger_ok rows" and "i \<notin> tx_id ` set rows" and "r \<in> set rows"
  shows "tx_reverses_transaction_id r \<noteq> Some i"
proof (cases "tx_transaction_type r = REVERSAL")
  case True
  with assms(1,3) obtain t where "t \<in> set rows" "tx_reverses_transaction_id r = Some (tx_id t)"
    by (auto simp: ledger_ok_def elim: history_target)
  with assms(2) show ?thesis by auto
next
  case False
  with assms(1,3) show ?thesis by (auto simp: ledger_ok_def table_ok_def transaction_checks_def)
qed

text \<open>The checks of the service establish the rule.\<close>

lemma validated_admissible:
  assumes "ledger_ok (db_transactions db)" and "validate_opening_order db c = Inr ()"
    and "validate_reversal db c = Inr target"
  shows "admissible (db_transactions db) (transaction_of i h c)"
proof -
  let ?rows = "db_transactions db"
  have undone: "reversed_in ?rows u" if "u \<in> set ?rows" "tx_status u \<noteq> POSTED" for u
    using that assms(1) by (cases "tx_status u") (auto simp: ledger_ok_def)
  have "reversed_in ?rows u" if "ct_transaction_type c = OPENING_CASH" "u \<in> set ?rows" "tx_account_id u = ct_account_id c"
    "tx_transaction_type u \<in> {BUY, SELL, CASH_DEPOSIT, CASH_WITHDRAWAL, DIVIDEND, FEE, OPENING_CASH}" for u
  proof (rule undone [OF that(2)])
    show "tx_status u \<noteq> POSTED" using that assms(2)
      by (auto simp: validate_opening_order_def has_posted_cash_activity_def result_simps first_row_None)
  qed
  moreover have "reversed_in ?rows u" if "ct_transaction_type c = OPENING_POSITION" "u \<in> set ?rows"
    "tx_account_id u = ct_account_id c" "tx_instrument_id u = ct_instrument_id c"
    "tx_transaction_type u \<in> {BUY, SELL, OPENING_POSITION}" for u
  proof (rule undone [OF that(2)])
    show "tx_status u \<noteq> POSTED" using that assms(2)
      by (auto simp: validate_opening_order_def has_posted_quantity_activity_def result_simps first_row_None
          split: option.splits)
  qed
  moreover have "\<exists>u \<in> set ?rows. ct_reverses_transaction_id c = Some (tx_id u) \<and> tx_transaction_type u \<noteq> REVERSAL
      \<and> tx_fund_id u = ct_fund_id c \<and> tx_account_id u = ct_account_id c \<and> \<not> reversed_in ?rows u"
    if "ct_transaction_type c = REVERSAL"
  proof -
    from that assms(3) obtain u where "target = Some u" using validate_reversal_None [of db c] by (cases target) auto
    with assms(3) show ?thesis
      by (auto simp: validate_reversal_Some reversed_in_def reversal_for_def first_row_None dest!: by_id_Some)
  qed
  ultimately show ?thesis by (simp add: admissible_def transaction_of_def)
qed

lemma create_ledger_ok:
  assumes "transaction_service_create H i now db c = Inr (res, db')" and ok: "ledger_ok (db_transactions db)"
  shows "ledger_ok (db_transactions db')"
  using assms(1)
proof (cases rule: create_cases)
  case (created target db1)
  define t where "t = cr_transaction res"
  have t: "t = transaction_of i (payload_hash H (economic_payload c)) c" by (simp add: t_def created(4))
  note db' = created_transactions [OF created(7,8), folded t_def]
  from created(7) have ins: "insert_row ''transactions'' transaction_clash transaction_checks (transaction_refs db) t
      (db_transactions db) = Inr (db_transactions db @ [t])"
    by (auto simp: insert_transaction_def result_simps t_def)
  have table: "table_ok transaction_clash transaction_checks (db_transactions db @ [t])"
    using ok ins transactions.insert_ok by (auto simp: ledger_ok_def)
  have new: "i \<notin> tx_id ` set (db_transactions db)"
    using ins by (auto simp: result_simps t transaction_of_def transaction_clash_def)
  note unref = ledger_ok_unreferenced [OF ok new]
  have id: "tx_id t = i" "tx_status t = POSTED" by (simp_all add: t transaction_of_def)
  have adm: "admissible (db_transactions db) t"
    unfolding t by (rule validated_admissible [OF ok created(2,3)])
  show ?thesis
  proof (cases target)
    case None
    with created(3) have "tx_transaction_type t \<noteq> REVERSAL"
      by (simp add: validate_reversal_None t transaction_of_def)
    with ledger_ok_insert [OF ok table] unref id adm None show ?thesis by (simp add: db')
  next
    case (Some u)
    with created(3) have u: "u \<in> set (db_transactions db)" "tx_reverses_transaction_id t = Some (tx_id u)"
      "tx_transaction_type t = REVERSAL"
      by (auto simp: validate_reversal_Some t transaction_of_def dest!: by_id_Some)
    have "tx_id u \<noteq> tx_id t" using u(1) new id(1) by (metis imageI)
    with ledger_ok_reverse [OF ok table u(3) id(2) adm u(2)] unref id(1) Some show ?thesis
      by (simp add: db')
  qed
qed (use ok in simp)

text \<open>C19: Every transaction table that TransactionService.create calls reach from an empty one,
  whatever happens to the other tables in between, satisfies the schema checks and uniqueness, and
  every row obeys the ledger rules against the rows stored before it: the target of a reversal is
  an earlier row of the same fund and account that is no reversal and was not reversed before; an
  opening cash row finds every earlier cash-moving row of its account reversed, an opening
  position every earlier trade or opening position of its account and instrument; and a row is
  REVERSED exactly when some stored reversal targets it.\<close>

theorem ledger_run_ok:
  assumes "ledger_run H db"
  shows "ledger_ok (db_transactions db)"
  using assms
proof induction
  case (start db)
  then show ?case by (simp add: ledger_ok_def table_ok_def)
next
  case (create db i now c res db')
  from create.hyps(2) create.IH show ?case by (rule create_ledger_ok)
next
  case (other db db')
  then show ?case by simp
qed


section \<open>No constraint is left to the database\<close>

theorem create_no_constraint_violation:
  assumes ok: "ledger_ok (db_transactions db)" and fresh: "i \<notin> tx_id ` set (db_transactions db)"
    and refs: "transaction_refs db (transaction_of i (payload_hash H (economic_payload c)) c)"
    and fits: "varchar 64 (ct_source c)" "varchar 160 (ct_external_id c)"
    and digest: "\<And>j. length (H j) = 64"
  shows "transaction_service_create H i now db c \<noteq> Inl (IntegrityError ''transactions'')"
proof
  assume err: "transaction_service_create H i now db c = Inl (IntegrityError ''transactions'')"
  define t where "t = transaction_of i (payload_hash H (economic_payload c)) c"
  have errors: "validate_transaction c \<noteq> Inl (IntegrityError n)" "validate_import_batch db c \<noteq> Inl (IntegrityError n)"
    "validate_opening_order db c \<noteq> Inl (IntegrityError n)" "validate_reversal db c \<noteq> Inl (IntegrityError n)" for n
    by (auto simp: validate_transaction_def validate_kind_def bindR_Inl_iff requireR_Inl positive_or_none_def
        require_field_def forbid_field_def require_zero_fees_def forbid_trade_fields_def
        validate_import_batch_def validate_opening_order_def validate_reversal_def
        split: transaction_type.splits option.splits if_splits)
  have conflict: "record_conflict i now db c p h e \<noteq> Inl (IntegrityError ''transactions'')" for p h e
    by (auto simp: record_conflict_def insert_import_conflict_def bindR_Inl_iff Let_def split: option.splits)
  from err errors conflict obtain target where valid: "validate_transaction c = Inr ()"
    and none: "by_source_identity db (ct_fund_id c) (ct_source c) (ct_external_id c) = None"
    and target: "validate_reversal db c = Inr target" and ins: "insert_transaction db t = Inl (IntegrityError ''transactions'')"
    by (auto simp: transaction_service_create_def Let_def bindR_Inl_iff t_def split: option.splits if_splits)
  have checks: "transaction_checks t" unfolding t_def
    using valid fits digest by (rule validation_covers_checks)
  have "\<not> transaction_clash r t" if r: "r \<in> set (db_transactions db)" for r
  proof
    assume clash: "transaction_clash r t"
    have "tx_id r \<noteq> i" using fresh r by auto
    moreover have "\<not> (tx_fund_id r = ct_fund_id c \<and> tx_source r = ct_source c \<and> tx_external_id r = ct_external_id c)"
      using none r by (simp add: by_source_identity_def first_row_None)
    ultimately have "tx_reverses_transaction_id r \<noteq> None"
      "tx_reverses_transaction_id r = ct_reverses_transaction_id c"
      using clash by (auto simp: transaction_clash_def t_def transaction_of_def)
    then obtain k where k: "tx_reverses_transaction_id r = Some k" "ct_reverses_transaction_id c = Some k" by auto
    have "tx_transaction_type r = REVERSAL" using ok r k(1) by (auto simp: ledger_ok_def table_ok_def transaction_checks_def)
    moreover have "ct_transaction_type c = REVERSAL"
      using checks k(2) by (auto simp: transaction_checks_def t_def transaction_of_def)
    ultimately have "target \<noteq> None" using target validate_reversal_None [of db c] by auto
    with target k(2) have "reversal_for db k = None" by (auto simp: validate_reversal_Some)
    with r k(1) \<open>tx_transaction_type r = REVERSAL\<close> show False
      by (simp add: reversal_for_def first_row_None)
  qed
  with checks refs ins show False
    by (auto simp: insert_transaction_def bindR_Inl_iff t_def)
qed

section \<open>Errors\<close>

text \<open>The exceptions of \<open>ledger/errors.py\<close>.\<close>

definition ledger_error :: "app_error \<Rightarrow> bool" where
  "ledger_error e \<longleftrightarrow> (\<exists>m. e = TransactionValidationError m \<or> e = OpeningBalanceError m \<or> e = ReversalError m)"

lemma validate_error:
  assumes "validate_transaction c = Inl e"
  shows "\<exists>m. e = TransactionValidationError m"
proof -
  have "\<exists>m. e = TransactionValidationError m" if "validate_kind c = Inl e"
    using that by (cases "ct_transaction_type c")
      (auto simp: validate_kind_def require_field_def forbid_field_def require_zero_fees_def forbid_trade_fields_def bindR_Inl_iff requireR_Inl split: if_splits)
  with assms show ?thesis
    by (auto simp: validate_transaction_def positive_or_none_def bindR_Inl_iff requireR_Inl split: option.splits if_splits)
qed

lemma create_error:
  assumes "transaction_service_create H i now db c = Inl e"
  shows "ledger_error e \<or> (\<exists>t. e = IntegrityError t)"
proof (cases "validate_transaction c")
  case (Inl e')
  with assms validate_error [of c e] show ?thesis by (auto simp: transaction_service_create_def ledger_error_def Let_def)
next
  case valid: (Inr u)
  show ?thesis
  proof (cases "validate_import_batch db c")
    case (Inl e')
    with assms valid show ?thesis
      by (auto simp: transaction_service_create_def validate_import_batch_def ledger_error_def Let_def requireR_Inl split: option.splits)
  next
    case batch: (Inr u')
    show ?thesis
    proof (cases "by_source_identity db (ct_fund_id c) (ct_source c) (ct_external_id c)")
      case (Some t)
      with assms valid batch show ?thesis
        by (auto simp: transaction_service_create_def record_conflict_def validate_import_batch_def Let_def bindR_Inl_iff requireR_Inl
            insert_import_conflict_def split: option.splits if_splits)
    next
      case None
      have "e = AssertionError \<Longrightarrow> False" if "validate_opening_order db c = Inl e"
        using that valid by (auto simp: validate_opening_order_def validate_transaction_def validate_kind_def
            require_field_def result_simps requireR_Inl split: if_splits option.splits)
      moreover have "e = AssertionError \<Longrightarrow> False" if "validate_reversal db c = Inl e"
        using that valid by (auto simp: validate_reversal_def validate_transaction_def validate_kind_def
            require_field_def result_simps bindR_Inl_iff requireR_Inl split: if_splits option.splits)
      ultimately show ?thesis
        using assms valid batch None
        by (auto simp: transaction_service_create_def Let_def bindR_Inl_iff requireR_Inl ledger_error_def insert_transaction_def
            validate_opening_order_def validate_reversal_def split: option.splits if_splits)
    qed
  qed
qed

end
