(* ===== verification/Snapshot_Properties.thy ===== *)
theory Snapshot_Properties
  imports Snapshots Portfolio_Accounts Ledger_Properties
begin

text \<open>
  What \<open>SnapshotService\<close> guarantees: the stored ledger is always accepted by the engine's input
  validation, a stored snapshot replays bit for bit as long as the ledger only grows, taking the
  same snapshot again reuses the stored one, and the revisions of a fund, account and instant form
  a chain whose last element is the only current one.
\<close>

section \<open>The ledger the engine reads\<close>

lemma domain_transaction_valid:
  assumes "transaction_checks r"
  shows "valid_transaction (tx_fund_id r) (domain_transaction r)"
proof -
  have "validate_transaction_shape (domain_transaction r) = Inr ()"
    using assms by (cases "tx_transaction_type r")
      (auto simp: transaction_checks_def ck_transactions_type_fields_def validate_transaction_shape_def
        require_no_position_fields_def domain_transaction_def result_simps dec_simps)
  with assms show ?thesis
    by (simp add: valid_transaction_def domain_transaction_def transaction_checks_def dec_simps)
qed

lemma domain_transaction_economic: "domain_transaction (r\<lparr>tx_status := st\<rparr>) = domain_transaction r"
  by (simp add: domain_transaction_def)

lemma domain_transaction_fields [simp]:
  "lt_id (domain_transaction r) = tx_id r"
  "lt_fund_id (domain_transaction r) = tx_fund_id r"
  "lt_account_id (domain_transaction r) = tx_account_id r"
  by (simp_all add: domain_transaction_def)

lemma domain_ledger_valid:
  assumes "table_ok transaction_clash transaction_checks rows" and "\<And>r. r \<in> set rows' \<Longrightarrow> tx_fund_id r = f"
    and "rows' = filter P rows"
  shows "valid_ledger f (map domain_transaction rows')"
proof -
  have "distinct (map tx_id rows')"
    using transactions.keys_distinct [OF assms(1)] assms(3) by (simp add: distinct_map_filter)
  then have "distinct (map lt_id (map domain_transaction rows'))" by (simp add: o_def)
  moreover have "valid_transaction f (domain_transaction r)" if "r \<in> set rows'" for r
    using domain_transaction_valid [of r] assms that by (auto simp: table_ok_def)
  ultimately show ?thesis by (simp add: valid_ledger_def)
qed

theorem stored_ledger_is_valid_input:
  assumes "table_ok transaction_clash transaction_checks (db_transactions db)"
  shows "validate_scope_and_timestamps f (fund_ledger db f acc) = Inr ()"
  unfolding validate_iff fund_ledger_def
  by (rule domain_ledger_valid [OF assms]) auto

section \<open>What create stores\<close>

interpretation snapshots: keyed_table portfolio_snapshot_clash portfolio_snapshot_checks snap_id
  by unfold_locales (simp add: portfolio_snapshot_clash_def)

lemma foldR_insert_frame:
  assumes "foldR ins db rs = Inr db'" and "\<And>db r db'. ins db r = Inr db' \<Longrightarrow> g db' = g db"
  shows "g db' = g db"
  using assms by (induction rs arbitrary: db) (auto simp: result_simps)

lemma store_snapshot_Inr:
  assumes "store_snapshot ids clock actor state s db = Inr db'"
  shows "insert_row ''portfolio_snapshots'' portfolio_snapshot_clash portfolio_snapshot_checks
      (portfolio_snapshot_refs db) s (db_portfolio_snapshots db) = Inr (db_portfolio_snapshots db')"
    and "db_transactions db' = db_transactions db"
proof -
  from assms obtain db1 db2 db3 cs ps where 1: "insert_portfolio_snapshot db s = Inr db1"
    and 2: "foldR insert_snapshot_cash db1 cs = Inr db2"
    and 3: "foldR insert_snapshot_position db2 ps = Inr db3"
    and 4: "insert_audit_event db3 (snapshot_audit ids (Suc (length (pf_cash_by_account state)
      + length (pf_positions state))) clock actor s) = Inr db'"
    by (auto simp: store_snapshot_def Let_def result_simps)
  have "db_portfolio_snapshots db2 = db_portfolio_snapshots db1" "db_transactions db2 = db_transactions db1"
    by (rule foldR_insert_frame [OF 2]; auto simp: insert_snapshot_cash_def result_simps)+
  moreover have "db_portfolio_snapshots db3 = db_portfolio_snapshots db2" "db_transactions db3 = db_transactions db2"
    by (rule foldR_insert_frame [OF 3]; auto simp: insert_snapshot_position_def result_simps)+
  moreover have "db_portfolio_snapshots db' = db_portfolio_snapshots db3" "db_transactions db' = db_transactions db3"
    using 4 by (auto simp: insert_audit_event_def result_simps)
  ultimately show "insert_row ''portfolio_snapshots'' portfolio_snapshot_clash portfolio_snapshot_checks
      (portfolio_snapshot_refs db) s (db_portfolio_snapshots db) = Inr (db_portfolio_snapshots db')"
    and "db_transactions db' = db_transactions db"
    using 1 by (auto simp: insert_portfolio_snapshot_def result_simps)
qed

lemma supersede_simps:
  "db_transactions (supersede c db) = db_transactions db"
  "db_portfolio_snapshots (supersede c db) = (case c of None \<Rightarrow> db_portfolio_snapshots db
     | Some s \<Rightarrow> update_row snap_id (snap_id s) (\<lambda>r. r\<lparr>snap_status := Snapshot_SUPERSEDED\<rparr>)
         (db_portfolio_snapshots db))"
  by (auto simp: supersede_def split: option.splits)

lemma snapshot_create_cases:
  assumes "snapshot_service_create H ids clock db f a acc actor = Inr (res, db')"
  obtains (reused) state c where "reconstruct H f (fund_ledger db f acc) a acc = Inr state"
      "current_snapshot db f acc a = Some c"
      "snap_canonical_input_hash c = md_canonical_input_hash (pf_metadata state)"
      "snap_canonical_state c = pf_canonical_dict state" "res = \<lparr>sres_outcome = Outcome_REUSED, sres_snapshot = c\<rparr>" "db' = db"
    | (stored) state current where "reconstruct H f (fund_ledger db f acc) a acc = Inr state"
      "current = current_snapshot db f acc a"
      "sres_outcome res = (case current of None \<Rightarrow> Outcome_CREATED | Some _ \<Rightarrow> Outcome_REVISED)"
      "sres_snapshot res = new_snapshot ids clock f acc a state current"
      "store_snapshot ids clock actor state (sres_snapshot res) (supersede current db) = Inr db'"
proof -
  from assms obtain state where state: "reconstruct H f (fund_ledger db f acc) a acc = Inr state"
    by (auto simp: snapshot_service_create_def run_engine_def result_simps split: sum.splits)
  show thesis
  proof (cases "case current_snapshot db f acc a of None \<Rightarrow> False
         | Some c \<Rightarrow> snap_canonical_input_hash c = md_canonical_input_hash (pf_metadata state)
             \<and> snap_canonical_state c = pf_canonical_dict state")
    case True
    with assms state show thesis
      by (intro reused [of state "the (current_snapshot db f acc a)"])
        (auto simp: snapshot_service_create_def run_engine_def Let_def split: option.splits)
  next
    case False
    with assms state show thesis
      by (intro stored [of state "current_snapshot db f acc a"])
        (auto simp: snapshot_service_create_def run_engine_def Let_def result_simps)
  qed
qed


section \<open>A stored snapshot replays\<close>

lemma json_get_state:
  "json_get ''metadata'' (pf_canonical_dict s) = Some (JObj [
        (''as_of'', JTime (md_as_of (pf_metadata s))),
        (''calculation_version'', JStr (md_calculation_version (pf_metadata s))),
        (''canonical_input_hash'', JStr (md_canonical_input_hash (pf_metadata s))),
        (''applied_transaction_count'', JInt (int (md_applied_transaction_count (pf_metadata s)))),
        (''applied_transaction_ids'', JList (map JUuid (md_applied_transaction_ids (pf_metadata s)))),
        (''last_applied_transaction_id'', json_opt JUuid (md_last_applied_transaction_id (pf_metadata s)))])"
  by (simp add: json_get_def pf_canonical_dict_def)

lemma json_get_metadata:
  "json_get ''applied_transaction_ids'' (JObj [(''as_of'', a), (''calculation_version'', b),
     (''canonical_input_hash'', c), (''applied_transaction_count'', d),
     (''applied_transaction_ids'', e), (''last_applied_transaction_id'', g)]) = Some e"
  "json_get ''as_of'' (JObj [(''as_of'', a), (''calculation_version'', b),
     (''canonical_input_hash'', c), (''applied_transaction_count'', d),
     (''applied_transaction_ids'', e), (''last_applied_transaction_id'', g)]) = Some a"
  by (simp_all add: json_get_def)

lemma parse_uuids_map [simp]: "parse_uuids (map JUuid us) = Inr us"
  by (induction us) auto

lemma reconstruct_metadata:
  assumes "reconstruct H f ts a acc = Inr st"
  shows "md_as_of (pf_metadata st) = a"
    and "md_applied_transaction_ids (pf_metadata st) = map lt_id (ordered_transactions a acc ts)"
  using assms by (auto simp: reconstruct_Inr portfolio_output_def Let_def)

lemma filter_append_only:
  assumes "map economic_row rows' = map economic_row rows @ later"
    and "distinct (map tx_id rows')"
    and "I \<subseteq> tx_id ` set rows"
  shows "mset (map domain_transaction (filter (\<lambda>r. tx_id r \<in> I) rows')) =
     mset (map domain_transaction (filter (\<lambda>r. tx_id r \<in> I) rows))"
proof -
  define n where "n = length rows"
  have eco: "domain_transaction r = domain_transaction (economic_row r)" for r
    by (simp add: domain_transaction_economic)
  have len: "length rows' = n + length later" using arg_cong [OF assms(1), of length] by (simp add: n_def)
  have take: "map economic_row (take n rows') = map economic_row rows"
    using arg_cong [OF assms(1), of "take n"] by (simp add: take_map n_def)
  have ids: "map tx_id (take n rows') = map tx_id rows"
    using arg_cong [OF take, of "map tx_id"] by (simp add: o_def)
  have "tx_id r \<notin> I" if "r \<in> set (drop n rows')" for r
  proof
    assume "tx_id r \<in> I"
    then have "tx_id r \<in> set (map tx_id (take n rows'))" using assms(3) ids by auto
    moreover have "distinct (map tx_id (take n rows') @ map tx_id (drop n rows'))"
      using assms(2) by (metis append_take_drop_id map_append)
    ultimately show False using that by auto
  qed
  then have "filter (\<lambda>r. tx_id r \<in> I) rows' = filter (\<lambda>r. tx_id r \<in> I) (take n rows')"
    by (subst append_take_drop_id [of n rows', symmetric]) (auto simp del: append_take_drop_id simp: filter_empty_conv)
  moreover have "map domain_transaction (filter (\<lambda>r. tx_id r \<in> I) xs) =
      map domain_transaction (filter (\<lambda>r. tx_id r \<in> I) (map economic_row xs))" for xs
    by (induction xs) (auto simp: domain_transaction_economic)
  ultimately show ?thesis using take by metis
qed


lemma insert_row_found:
  assumes "insert_row n portfolio_snapshot_clash portfolio_snapshot_checks refs s rows = Inr rows'"
  shows "first_row (\<lambda>r. snap_id r = snap_id s) rows' = Some s"
proof -
  have "first_row (\<lambda>r. snap_id r = snap_id s) rows = None"
    using assms by (auto simp: first_row_None result_simps portfolio_snapshot_clash_def)
  with assms show ?thesis by (auto simp: result_simps first_row_append)
qed

text \<open>Replaying the applied transactions alone reproduces the state.\<close>

lemma replay_applied:
  assumes st: "reconstruct H f (fund_ledger db f acc) a acc = Inr st"
    and rows: "map economic_row rows' = map economic_row (db_transactions db) @ later"
    and ok: "table_ok transaction_clash transaction_checks rows'"
    and I: "I = set (md_applied_transaction_ids (pf_metadata st))"
  defines "ts \<equiv> map domain_transaction (filter (\<lambda>r. tx_id r \<in> I) rows')"
  shows "reconstruct H f ts a acc = Inr st"
    and "length ts = length (md_applied_transaction_ids (pf_metadata st))"
proof -
  define h where "h = ordered_transactions a acc (fund_ledger db f acc)"
  have ids: "md_applied_transaction_ids (pf_metadata st) = map lt_id h"
    unfolding h_def by (rule reconstruct_metadata [OF st])
  have valid: "valid_ledger f (fund_ledger db f acc)" "valid_ledger f h"
    using st ordered_transactions_set(2) by (auto simp: reconstruct_Inr h_def)
  have sub: "set h \<subseteq> set (fund_ledger db f acc)" unfolding h_def by (rule ordered_transactions_set)
  have db_ids: "distinct (map tx_id rows')" using ok by (rule transactions.keys_distinct)
  have pre: "map tx_id (take (length (db_transactions db)) rows') = map tx_id (db_transactions db)"
    using arg_cong [OF rows, of "\<lambda>xs. map tx_id (take (length (db_transactions db)) xs)"]
    by (simp add: take_map o_def)
  have dist: "distinct (map tx_id (db_transactions db))"
    using db_ids pre by (metis distinct_take take_map)
  have "mset ts = mset (map domain_transaction (filter (\<lambda>r. tx_id r \<in> I) (db_transactions db)))"
    unfolding ts_def
  proof (rule filter_append_only [OF rows db_ids])
    have "set (fund_ledger db f acc) \<subseteq> domain_transaction ` set (db_transactions db)"
      by (auto simp: fund_ledger_def)
    with sub show "I \<subseteq> tx_id ` set (db_transactions db)" unfolding I ids by force
  qed
  moreover have "mset (map domain_transaction (filter (\<lambda>r. tx_id r \<in> I) (db_transactions db))) = mset h"
  proof (rule set_eq_iff_mset_eq_distinct [THEN iffD1])
    show "distinct h" using valid(2) by (auto simp: valid_ledger_def distinct_map)
    show dd: "distinct (map domain_transaction (filter (\<lambda>r. tx_id r \<in> I) (db_transactions db)))"
      by (rule distinct_map [of lt_id, THEN iffD1, THEN conjunct1])
        (simp add: o_def distinct_map_filter dist)
    show "set (map domain_transaction (filter (\<lambda>r. tx_id r \<in> I) (db_transactions db))) = set h"
    proof (intro set_eqI iffI)
      fix t
      assume "t \<in> set h"
      with sub show "t \<in> set (map domain_transaction (filter (\<lambda>r. tx_id r \<in> I) (db_transactions db)))"
        by (force simp: fund_ledger_def I ids)
    next
      fix t
      assume "t \<in> set (map domain_transaction (filter (\<lambda>r. tx_id r \<in> I) (db_transactions db)))"
      then obtain r where r: "r \<in> set (db_transactions db)" "tx_id r \<in> I" "t = domain_transaction r" by auto
      from r(2) obtain u where u: "u \<in> set h" "lt_id u = tx_id r" by (auto simp: I ids)
      with sub obtain r' where r': "r' \<in> set (db_transactions db)" "u = domain_transaction r'"
        by (auto simp: fund_ledger_def)
      have "tx_id r' = tx_id r" using u(2) r'(2) by simp
      with dist r(1) r'(1) have "r' = r" by (auto simp: distinct_map inj_on_def)
      with u(1) r(3) r'(2) show "t \<in> set h" by simp
    qed
  qed
  ultimately have mset: "mset ts = mset h" by simp
  have keep: "included_transactions a acc h = h"
    unfolding included_transactions_def
    by (rule filter_True) (auto simp: h_def ordered_transactions_def included_transactions_def)
  have "valid_ledger f ts" using valid(2) valid_ledger_mset [OF mset] by simp
  moreover have "mset (included_transactions a acc ts) = mset h"
    using arg_cong [OF keep, of mset] by (simp add: included_transactions_def mset)
  moreover have "mset h = mset (included_transactions a acc (fund_ledger db f acc))"
    by (simp add: h_def ordered_transactions_def)
  ultimately have "reconstruct H f ts a acc = reconstruct H f (fund_ledger db f acc) a acc"
    using valid(1) by (intro reconstruct_cong) simp_all
  with st show "reconstruct H f ts a acc = Inr st" by simp
  show "length ts = length (md_applied_transaction_ids (pf_metadata st))"
    using mset_eq_length [OF mset] by (simp add: ids)
qed

text \<open>
  What verify reads of a snapshot row: everything but its status, which a later revision sets to
  \<open>SUPERSEDED\<close>. Later snapshots of any scope leave that part of every stored row alone.
\<close>

definition snapshot_content :: "portfolio_snapshot_row \<Rightarrow> portfolio_snapshot_row" where
  "snapshot_content s = s\<lparr>snap_status := Snapshot_CURRENT\<rparr>"

lemma snapshot_content_simps [simp]:
  "snap_id (snapshot_content s) = snap_id s" "snap_fund_id (snapshot_content s) = snap_fund_id s"
  "snap_account_id (snapshot_content s) = snap_account_id s"
  "snap_canonical_state (snapshot_content s) = snap_canonical_state s"
  "snap_canonical_input_hash (snapshot_content s) = snap_canonical_input_hash s"
  "snapshot_content (s\<lparr>snap_status := x\<rparr>) = snapshot_content s"
  by (simp_all add: snapshot_content_def)

lemma first_row_content:
  assumes "first_row (\<lambda>r. snap_id r = i) rows = Some s"
    and "map snapshot_content rows' = map snapshot_content rows @ revisions"
  shows "\<exists>s'. first_row (\<lambda>r. snap_id r = i) rows' = Some s' \<and> snapshot_content s' = snapshot_content s"
  using assms
proof (induction rows arbitrary: rows')
  case (Cons r rows)
  then obtain r' rest where rows': "rows' = r' # rest" "snapshot_content r' = snapshot_content r"
    "map snapshot_content rest = map snapshot_content rows @ revisions" by (cases rows') auto
  have "snap_id r' = snap_id r" using arg_cong [OF rows'(2), of snap_id] by simp
  with Cons rows' show ?case by (auto simp: first_row_def split: if_splits)
qed (simp add: first_row_def)

lemma create_keeps_content:
  assumes "snapshot_service_create H ids clock db f a acc actor = Inr (res, db')"
  shows "\<exists>revisions. map snapshot_content (db_portfolio_snapshots db') = map snapshot_content (db_portfolio_snapshots db) @ revisions"
    and "db_transactions db' = db_transactions db"
  using assms
proof (induction rule: snapshot_create_cases)
  case (stored state current)
  note stores = store_snapshot_Inr [OF stored(5)]
  have "map snapshot_content (update_row snap_id i (\<lambda>r. r\<lparr>snap_status := Snapshot_SUPERSEDED\<rparr>) rows) =
      map snapshot_content rows" for i rows
    by (simp add: update_row_def)
  then show "\<exists>revisions. map snapshot_content (db_portfolio_snapshots db') = map snapshot_content (db_portfolio_snapshots db) @ revisions"
    using stores(1) by (auto simp: result_simps supersede_simps split: option.splits)
  show "db_transactions db' = db_transactions db" using stores(2) by (simp add: supersede_simps)
qed simp_all

text \<open>Verification at the end of any run of appends and revisions after create.\<close>

text \<open>C12: A snapshot that create stores stays reproducible: verify, run later on a valid transaction
  table that has only grown (rows appended, statuses changed) and on a snapshot table whose
  earlier rows have changed at most their status, so also after later revisions have superseded
  it, rebuilds the state from the stored transaction ids and finds the same input hash and the
  same content.\<close>

theorem snapshot_verifies:
  assumes create: "snapshot_service_create H ids clock db f a acc actor = Inr (res, db1)"
    and new: "sres_outcome res \<noteq> Outcome_REUSED"
    and later: "map economic_row (db_transactions db2) = map economic_row (db_transactions db1) @ added"
    and ok: "table_ok transaction_clash transaction_checks (db_transactions db2)"
    and kept: "map snapshot_content (db_portfolio_snapshots db2) = map snapshot_content (db_portfolio_snapshots db1) @ revisions"
  shows "snapshot_service_verify H db2 (snap_id (sres_snapshot res)) =
    Inr \<lparr>sv_snapshot_id = snap_id (sres_snapshot res), sv_reproducible = True,
      sv_expected_input_hash = snap_canonical_input_hash (sres_snapshot res),
      sv_actual_input_hash = snap_canonical_input_hash (sres_snapshot res)\<rparr>"
  using create
proof (cases rule: snapshot_create_cases)
  case (reused state c)
  with new show ?thesis by simp
next
  case (stored state current)
  define s where "s = sres_snapshot res"
  define I where "I = md_applied_transaction_ids (pf_metadata state)"
  note stores = store_snapshot_Inr [OF stored(5), folded s_def]
  from first_row_content [OF insert_row_found [OF stores(1)] kept] obtain s'
    where found: "first_row (\<lambda>r. snap_id r = snap_id s) (db_portfolio_snapshots db2) = Some s'"
      and content: "snapshot_content s' = snapshot_content s" by blast
  have tx: "map economic_row (db_transactions db2) = map economic_row (db_transactions db) @ added"
    using later stores(2) by (simp add: supersede_simps)
  note replay = replay_applied [OF stored(1) tx ok refl, folded I_def]
  have by_ids: "ledger_by_ids db2 I = Inr (map domain_transaction (filter (\<lambda>r. tx_id r \<in> set I) (db_transactions db2)))"
    using replay(2) by (simp add: ledger_by_ids_def Let_def)
  have s: "s = new_snapshot ids clock f acc a state current" by (simp add: s_def stored(4))
  have s_fields: "snap_canonical_state s' = pf_canonical_dict state" "snap_fund_id s' = f" "snap_account_id s' = acc"
    "snap_canonical_input_hash s' = md_canonical_input_hash (pf_metadata state)" "snap_id s' = snap_id s"
    "snap_canonical_input_hash s = md_canonical_input_hash (pf_metadata state)"
    using arg_cong [OF content, of snap_canonical_state] arg_cong [OF content, of snap_fund_id]
      arg_cong [OF content, of snap_account_id] arg_cong [OF content, of snap_canonical_input_hash]
      arg_cong [OF content, of snap_id]
    by (simp_all add: s new_snapshot_def)
  from found by_ids replay(1) reconstruct_metadata(1) [OF stored(1)] show ?thesis
    unfolding s_def [symmetric] snapshot_service_verify_def s_fields json_get_state found option.case json.case
      json_get_metadata I_def [symmetric] prod.case
    by (simp add: run_engine_def s_fields)
qed

section \<open>Revision chains\<close>

definition same_scope :: "portfolio_snapshot_row \<Rightarrow> portfolio_snapshot_row \<Rightarrow> bool" where
  "same_scope r s \<longleftrightarrow> snap_fund_id r = snap_fund_id s \<and> snap_account_id r = snap_account_id s
     \<and> instant (snap_as_of r) = instant (snap_as_of s)"

definition revision_ok :: "portfolio_snapshot_row list \<Rightarrow> portfolio_snapshot_row \<Rightarrow> bool" where
  "revision_ok rows r \<longleftrightarrow> (snap_revision r = 1 \<and> snap_supersedes_snapshot_id r = None) \<or>
     (\<exists>s \<in> set rows. snap_supersedes_snapshot_id r = Some (snap_id s) \<and> same_scope s r
        \<and> snap_revision r = snap_revision s + 1 \<and> snap_status s = Snapshot_SUPERSEDED)"

definition current_ok :: "portfolio_snapshot_row list \<Rightarrow> portfolio_snapshot_row \<Rightarrow> bool" where
  "current_ok rows r \<longleftrightarrow> (\<exists>c \<in> set rows. same_scope c r \<and> snap_status c = Snapshot_CURRENT
     \<and> (\<forall>s \<in> set rows. same_scope s r \<longrightarrow> snap_revision s \<le> snap_revision c \<and>
          (snap_status s = Snapshot_CURRENT \<or> snap_revision s = snap_revision c \<longrightarrow> s = c)))"

definition snapshots_ok :: "portfolio_snapshot_row list \<Rightarrow> bool" where
  "snapshots_ok rows \<longleftrightarrow> table_ok portfolio_snapshot_clash portfolio_snapshot_checks rows
     \<and> (\<forall>r \<in> set rows. revision_ok rows r \<and> current_ok rows r)"

inductive snapshot_run :: "digest \<Rightarrow> database \<Rightarrow> bool" for H where
  start: "db_portfolio_snapshots db = [] \<Longrightarrow> snapshot_run H db"
| create: "snapshot_run H db \<Longrightarrow> snapshot_service_create H ids clock db f a acc actor = Inr (res, db')
     \<Longrightarrow> snapshot_run H db'"
| other: "snapshot_run H db \<Longrightarrow> db_portfolio_snapshots db' = db_portfolio_snapshots db \<Longrightarrow> snapshot_run H db'"

lemma same_scope_trans:
  "same_scope r r" "same_scope r s \<Longrightarrow> same_scope s r" "same_scope r s \<Longrightarrow> same_scope s t \<Longrightarrow> same_scope r t"
  by (auto simp: same_scope_def)

definition scope_of :: "uuid \<Rightarrow> uuid option \<Rightarrow> datetime \<Rightarrow> portfolio_snapshot_row \<Rightarrow> bool" where
  "scope_of f acc a r \<longleftrightarrow> snap_fund_id r = f \<and> snap_account_id r = acc \<and> instant (snap_as_of r) = instant a"

lemma current_okI:
  assumes "c \<in> set rows" "same_scope c r" "snap_status c = Snapshot_CURRENT"
    and "\<And>s. s \<in> set rows \<Longrightarrow> same_scope s r \<Longrightarrow> snap_revision s \<le> snap_revision c \<and>
      (snap_status s = Snapshot_CURRENT \<or> snap_revision s = snap_revision c \<longrightarrow> s = c)"
  shows "current_ok rows r"
  unfolding current_ok_def by (rule bexI [OF _ assms(1)]) (use assms in blast)

lemma current_okE:
  assumes "current_ok rows r"
  obtains c where "c \<in> set rows" "same_scope c r" "snap_status c = Snapshot_CURRENT"
    "\<And>s. s \<in> set rows \<Longrightarrow> same_scope s r \<Longrightarrow> snap_revision s \<le> snap_revision c \<and>
      (snap_status s = Snapshot_CURRENT \<or> snap_revision s = snap_revision c \<longrightarrow> s = c)"
  using assms unfolding current_ok_def by blast

lemma scope_of_same: "scope_of f acc a r \<Longrightarrow> same_scope s r \<longleftrightarrow> scope_of f acc a s"
  by (auto simp: scope_of_def same_scope_def)

lemma current_snapshot_scope:
  "current_snapshot db f acc a = first_row (\<lambda>r. scope_of f acc a r \<and> snap_status r = Snapshot_CURRENT)
     (db_portfolio_snapshots db)"
  unfolding current_snapshot_def by (rule arg_cong [of _ _ "\<lambda>p. first_row p _"]) (auto simp: scope_of_def)

lemma current_snapshot_ok:
  assumes ok: "snapshots_ok (db_portfolio_snapshots db)"
  shows "current_snapshot db f acc a = None \<longleftrightarrow> (\<forall>r \<in> set (db_portfolio_snapshots db). \<not> scope_of f acc a r)"
    and "current_snapshot db f acc a = Some c \<Longrightarrow> c \<in> set (db_portfolio_snapshots db) \<and> scope_of f acc a c
      \<and> snap_status c = Snapshot_CURRENT \<and> (\<forall>s \<in> set (db_portfolio_snapshots db). scope_of f acc a s \<longrightarrow>
          snap_revision s \<le> snap_revision c \<and> (snap_status s = Snapshot_CURRENT \<longrightarrow> s = c))"
proof -
  have cur: "current_ok (db_portfolio_snapshots db) r" if "r \<in> set (db_portfolio_snapshots db)" for r
    using ok that by (simp add: snapshots_ok_def)
  show "current_snapshot db f acc a = None \<longleftrightarrow> (\<forall>r \<in> set (db_portfolio_snapshots db). \<not> scope_of f acc a r)"
  proof
    assume none: "current_snapshot db f acc a = None"
    show "\<forall>r \<in> set (db_portfolio_snapshots db). \<not> scope_of f acc a r"
    proof
      fix r assume r: "r \<in> set (db_portfolio_snapshots db)"
      from cur [OF r] obtain c where c: "c \<in> set (db_portfolio_snapshots db)" "same_scope c r"
        "snap_status c = Snapshot_CURRENT" unfolding current_ok_def by blast
      with none have "\<not> scope_of f acc a c" by (auto simp: current_snapshot_scope first_row_None)
      with c(2) scope_of_same show "\<not> scope_of f acc a r" by blast
    qed
  qed (simp add: current_snapshot_scope first_row_None)
  assume "current_snapshot db f acc a = Some c"
  then have c: "c \<in> set (db_portfolio_snapshots db)" "scope_of f acc a c" "snap_status c = Snapshot_CURRENT"
    by (auto simp: current_snapshot_scope dest: first_row_Some)
  from cur [OF c(1)] obtain d where d: "d \<in> set (db_portfolio_snapshots db)"
    "\<And>s. s \<in> set (db_portfolio_snapshots db) \<Longrightarrow> same_scope s c \<Longrightarrow> snap_revision s \<le> snap_revision d
       \<and> (snap_status s = Snapshot_CURRENT \<longrightarrow> s = d)"
    unfolding current_ok_def by blast
  from d(2) [OF c(1) same_scope_trans(1)] c(3) have "c = d" by simp
  with d(2) have "\<forall>s \<in> set (db_portfolio_snapshots db). scope_of f acc a s \<longrightarrow>
      snap_revision s \<le> snap_revision c \<and> (snap_status s = Snapshot_CURRENT \<longrightarrow> s = c)"
    using scope_of_same [OF c(2)] by blast
  with c show "c \<in> set (db_portfolio_snapshots db) \<and> scope_of f acc a c
      \<and> snap_status c = Snapshot_CURRENT \<and> (\<forall>s \<in> set (db_portfolio_snapshots db). scope_of f acc a s \<longrightarrow>
          snap_revision s \<le> snap_revision c \<and> (snap_status s = Snapshot_CURRENT \<longrightarrow> s = c))" by blast
qed


lemma snapshots_ok_first:
  assumes ok: "snapshots_ok rows" and table: "table_ok portfolio_snapshot_clash portfolio_snapshot_checks (rows @ [s])"
    and none: "\<And>r. r \<in> set rows \<Longrightarrow> \<not> same_scope r s"
    and s: "snap_revision s = 1" "snap_supersedes_snapshot_id s = None" "snap_status s = Snapshot_CURRENT"
  shows "snapshots_ok (rows @ [s])"
proof -
  have "revision_ok (rows @ [s]) r \<and> current_ok (rows @ [s]) r" if r: "r \<in> set rows" for r
  proof
    from ok r have r': "revision_ok rows r" "current_ok rows r" by (auto simp: snapshots_ok_def)
    from r'(1) show "revision_ok (rows @ [s]) r" unfolding revision_ok_def by auto
    have "\<not> same_scope s r" using none [OF r] same_scope_trans(2) by blast
    from r'(2) show "current_ok (rows @ [s]) r"
    proof (rule current_okE)
      fix c assume c: "c \<in> set rows" "same_scope c r" "snap_status c = Snapshot_CURRENT"
        "\<And>x. x \<in> set rows \<Longrightarrow> same_scope x r \<Longrightarrow> snap_revision x \<le> snap_revision c \<and>
          (snap_status x = Snapshot_CURRENT \<or> snap_revision x = snap_revision c \<longrightarrow> x = c)"
      show ?thesis
      proof (rule current_okI [of c])
        fix x assume "x \<in> set (rows @ [s])" "same_scope x r"
        with \<open>\<not> same_scope s r\<close> show "snap_revision x \<le> snap_revision c \<and>
          (snap_status x = Snapshot_CURRENT \<or> snap_revision x = snap_revision c \<longrightarrow> x = c)"
          by (intro c(4)) auto
      qed (simp_all add: c(1-3))
    qed
  qed
  moreover have "current_ok (rows @ [s]) s"
  proof (rule current_okI [of s])
    fix x assume "x \<in> set (rows @ [s])" "same_scope x s"
    with none [of x] have "x = s" by auto
    then show "snap_revision x \<le> snap_revision s \<and>
      (snap_status x = Snapshot_CURRENT \<or> snap_revision x = snap_revision s \<longrightarrow> x = s)" by simp
  qed (simp_all add: s same_scope_trans(1))
  moreover have "revision_ok (rows @ [s]) s" using s by (simp add: revision_ok_def)
  ultimately show ?thesis using table by (simp add: snapshots_ok_def)
qed

lemma snapshots_ok_next:
  assumes ok: "snapshots_ok rows" and c: "c \<in> set rows" "same_scope c s" "snap_status c = Snapshot_CURRENT"
    and rows': "rows' = update_row snap_id (snap_id c) (\<lambda>r. r\<lparr>snap_status := Snapshot_SUPERSEDED\<rparr>) rows @ [s]"
    and table: "table_ok portfolio_snapshot_clash portfolio_snapshot_checks rows'"
    and last: "\<And>r. r \<in> set rows \<Longrightarrow> same_scope r s \<Longrightarrow> snap_revision r \<le> snap_revision c \<and>
      (snap_status r = Snapshot_CURRENT \<longrightarrow> r = c)"
    and s: "snap_revision s = snap_revision c + 1" "snap_supersedes_snapshot_id s = Some (snap_id c)"
      "snap_status s = Snapshot_CURRENT"
  shows "snapshots_ok rows'"
proof -
  define g where "g r = (if snap_id r = snap_id c then r\<lparr>snap_status := Snapshot_SUPERSEDED\<rparr> else r)"
    for r :: portfolio_snapshot_row
  have set': "set rows' = g ` set rows \<union> {s}" by (simp add: rows' set_update_row g_def [abs_def] Un_commute)
  have g: "snap_id (g r) = snap_id r" "snap_revision (g r) = snap_revision r"
    "snap_supersedes_snapshot_id (g r) = snap_supersedes_snapshot_id r"
    "same_scope (g r) x = same_scope r x" "same_scope x (g r) = same_scope x r" for r x
    by (simp_all add: g_def same_scope_def)
  have superseded: "snap_status (g r) = (if snap_id r = snap_id c then Snapshot_SUPERSEDED else snap_status r)" for r
    by (simp add: g_def)
  have id: "r = c" if "r \<in> set rows" "snap_id r = snap_id c" for r
    using ok that c(1) snapshots.keys_distinct [of rows] by (auto simp: snapshots_ok_def distinct_map inj_on_def)
  have same: "g r = r" if "r \<in> set rows" "\<not> same_scope r s" for r
    using id [OF that(1)] that(2) c(2) by (auto simp: g_def)
  have rev: "revision_ok rows' (g r)" if r: "r \<in> set rows" for r
  proof -
    from ok r have "revision_ok rows r" by (simp add: snapshots_ok_def)
    then show ?thesis
    proof (cases "snap_supersedes_snapshot_id r")
      case (Some k)
      with \<open>revision_ok rows r\<close> obtain x where x: "x \<in> set rows" "snap_supersedes_snapshot_id r = Some (snap_id x)"
        "same_scope x r" "snap_revision r = snap_revision x + 1" "snap_status x = Snapshot_SUPERSEDED"
        unfolding revision_ok_def by auto
      then show ?thesis unfolding revision_ok_def
        by (intro disjI2 bexI [of _ "g x"]) (simp_all add: g superseded set')
    qed (auto simp: revision_ok_def g)
  qed
  have latest: "current_ok rows' x" if "same_scope x s" for x
  proof -
    have "snap_revision y \<le> snap_revision s \<and> (snap_status y = Snapshot_CURRENT \<or> snap_revision y = snap_revision s \<longrightarrow> y = s)"
      if y: "y \<in> set rows'" "same_scope y x" for y
    proof (cases "y = s")
      case False
      with y(1) obtain r where r: "r \<in> set rows" "y = g r" by (auto simp: set')
      have "same_scope r s" using y(2) \<open>same_scope x s\<close> r(2) g(4) same_scope_trans(3) by blast
      from last [OF r(1) this] r(2) s(1) show ?thesis by (auto simp: g superseded)
    qed simp
    then show ?thesis
      by (rule current_okI [of s, rotated -1]) (simp_all add: set' s(3) same_scope_trans(2) [OF \<open>same_scope x s\<close>])
  qed
  have cur: "current_ok rows' (g r)" if r: "r \<in> set rows" for r
  proof (cases "same_scope r s")
    case True
    then show ?thesis using latest g(4) by blast
  next
    case False
    from ok r have "current_ok rows r" by (simp add: snapshots_ok_def)
    then obtain d where d: "d \<in> set rows" "same_scope d r" "snap_status d = Snapshot_CURRENT"
      "\<And>x. x \<in> set rows \<Longrightarrow> same_scope x r \<Longrightarrow> snap_revision x \<le> snap_revision d \<and>
          (snap_status x = Snapshot_CURRENT \<or> snap_revision x = snap_revision d \<longrightarrow> x = d)"
      by (rule current_okE) blast
    have "\<not> same_scope d s" using False d(2) same_scope_trans(2,3) by blast
    then have gd: "g d = d" using same d(1) by simp
    have "snap_revision y \<le> snap_revision d \<and> (snap_status y = Snapshot_CURRENT \<or> snap_revision y = snap_revision d \<longrightarrow> y = d)"
      if y: "y \<in> set rows'" "same_scope y r" for y
    proof -
      have "y \<noteq> s" using y(2) False same_scope_trans(2) by blast
      with y(1) obtain x where x: "x \<in> set rows" "y = g x" by (auto simp: set')
      have "\<not> same_scope x s" using False y(2) x(2) g(4) same_scope_trans(2,3) by blast
      then have "y = x" using x same by simp
      with d(4) x(1) y(2) show ?thesis by simp
    qed
    moreover have "d \<in> set rows'" using imageI [OF d(1), of g] gd by (simp add: set')
    ultimately have "current_ok rows' r" using d(2,3) current_okI [of d rows' r] by blast
    then show ?thesis unfolding current_ok_def g .
  qed
  have "revision_ok rows' s" unfolding revision_ok_def
    using c(1,2) s by (intro disjI2 bexI [of _ "g c"]) (simp_all add: g superseded set')
  with rev cur latest [OF same_scope_trans(1)] table show ?thesis
    by (auto simp: snapshots_ok_def set')
qed


lemma snapshot_create_ok:
  assumes create: "snapshot_service_create H ids clock db f a acc actor = Inr (res, db')"
    and ok: "snapshots_ok (db_portfolio_snapshots db)"
  shows "snapshots_ok (db_portfolio_snapshots db')"
    and "current_snapshot db' f acc a = Some (sres_snapshot res)"
proof -
  have "snapshots_ok (db_portfolio_snapshots db') \<and> current_snapshot db' f acc a = Some (sres_snapshot res)"
    using create
  proof (cases rule: snapshot_create_cases)
    case (reused state c)
    with ok show ?thesis by simp
  next
    case (stored state current)
    define s where "s = sres_snapshot res"
    define rows where "rows = db_portfolio_snapshots (supersede current db)"
    have ins: "insert_row ''portfolio_snapshots'' portfolio_snapshot_clash portfolio_snapshot_checks
      (portfolio_snapshot_refs (supersede current db)) s rows = Inr (db_portfolio_snapshots db')"
      unfolding rows_def s_def by (rule store_snapshot_Inr(1) [OF stored(5)])
    then have db': "db_portfolio_snapshots db' = rows @ [s]" by (auto simp: result_simps)
    have s: "snap_status s = Snapshot_CURRENT" "scope_of f acc a s"
      "snap_revision s = (case current of None \<Rightarrow> 1 | Some c \<Rightarrow> snap_revision c + 1)"
      "snap_supersedes_snapshot_id s = map_option snap_id current"
      by (simp_all add: s_def stored(4) new_snapshot_def scope_of_def)
    have checks: "portfolio_snapshot_checks (r\<lparr>snap_status := st\<rparr>) = portfolio_snapshot_checks r" for r st
      by (simp add: portfolio_snapshot_checks_def)
    have tbl: "table_ok portfolio_snapshot_clash portfolio_snapshot_checks (db_portfolio_snapshots db)"
      using ok by (simp add: snapshots_ok_def)
    have "table_ok portfolio_snapshot_clash portfolio_snapshot_checks rows"
    proof (cases current)
      case (Some c)
      have "table_ok portfolio_snapshot_clash portfolio_snapshot_checks (update_row snap_id (snap_id c)
          (\<lambda>r. r\<lparr>snap_status := Snapshot_SUPERSEDED\<rparr>) (db_portfolio_snapshots db))"
        by (rule snapshots.update_ok [OF tbl]) (simp_all add: checks portfolio_snapshot_clash_def)
      with Some show ?thesis by (simp add: rows_def supersede_simps)
    qed (simp add: rows_def supersede_simps tbl)
    then have table: "table_ok portfolio_snapshot_clash portfolio_snapshot_checks (rows @ [s])"
      using snapshots.insert_ok ins unfolding db' by blast
    show ?thesis
    proof (cases current)
      case None
      then have same: "rows = db_portfolio_snapshots db" by (simp add: rows_def supersede_simps)
      have none: "\<not> scope_of f acc a r" if "r \<in> set rows" for r
        using current_snapshot_ok(1) [OF ok] that stored(2) None unfolding same by blast
      have "snapshots_ok (rows @ [s])"
        by (rule snapshots_ok_first [OF _ table]) (use ok None none s in \<open>simp_all add: same scope_of_same\<close>)
      moreover have "first_row (\<lambda>r. scope_of f acc a r \<and> snap_status r = Snapshot_CURRENT) rows = None"
        using none by (simp add: first_row_None)
      ultimately show ?thesis using s(1,2)
        by (simp add: current_snapshot_scope db' first_row_append s_def)
    next
      case (Some c)
      from current_snapshot_ok(2) [OF ok, of f acc a c] Some stored(2)
      have c: "c \<in> set (db_portfolio_snapshots db)" "scope_of f acc a c" "snap_status c = Snapshot_CURRENT"
        "\<And>x. x \<in> set (db_portfolio_snapshots db) \<Longrightarrow> scope_of f acc a x \<Longrightarrow>
           snap_revision x \<le> snap_revision c \<and> (snap_status x = Snapshot_CURRENT \<longrightarrow> x = c)" by simp_all
      have rows: "rows = update_row snap_id (snap_id c) (\<lambda>r. r\<lparr>snap_status := Snapshot_SUPERSEDED\<rparr>) (db_portfolio_snapshots db)"
        using Some by (simp add: rows_def supersede_simps)
      have "snapshots_ok (rows @ [s])"
      proof (rule snapshots_ok_next [OF ok c(1) _ c(3) _ table])
        show "same_scope c s" using c(2) scope_of_same [OF s(2)] by simp
        show "snap_revision r \<le> snap_revision c \<and> (snap_status r = Snapshot_CURRENT \<longrightarrow> r = c)"
          if "r \<in> set (db_portfolio_snapshots db)" "same_scope r s" for r
          using c(4) [OF that(1)] that(2) scope_of_same [OF s(2)] by simp
      qed (simp_all add: rows s Some)
      moreover have "first_row (\<lambda>r. scope_of f acc a r \<and> snap_status r = Snapshot_CURRENT) rows = None"
        unfolding first_row_None
      proof
        fix r assume "r \<in> set rows"
        then obtain x where x: "x \<in> set (db_portfolio_snapshots db)"
          "r = (if snap_id x = snap_id c then x\<lparr>snap_status := Snapshot_SUPERSEDED\<rparr> else x)"
          by (auto simp: rows set_update_row)
        with c(4) [OF x(1)] show "\<not> (scope_of f acc a r \<and> snap_status r = Snapshot_CURRENT)"
          by auto
      qed
      ultimately show ?thesis using s(1,2)
        by (simp add: current_snapshot_scope db' first_row_append s_def)
    qed
  qed
  then show "snapshots_ok (db_portfolio_snapshots db')" "current_snapshot db' f acc a = Some (sres_snapshot res)"
    by simp_all
qed

theorem snapshot_run_ok:
  assumes "snapshot_run H db"
  shows "snapshots_ok (db_portfolio_snapshots db)"
  using assms
proof induction
  case (start db)
  then show ?case by (simp add: snapshots_ok_def table_ok_def)
next
  case (create db ids clock f a acc actor res db')
  from create.hyps(2) create.IH show ?case by (rule snapshot_create_ok)
next
  case (other db db')
  then show ?case by simp
qed

theorem snapshot_create_idempotent:
  assumes ok: "snapshots_ok (db_portfolio_snapshots db)"
    and create: "snapshot_service_create H ids clock db f a acc actor = Inr (res, db')"
  shows "snapshot_service_create H ids' clock' db' f a acc actor' =
    Inr (\<lparr>sres_outcome = Outcome_REUSED, sres_snapshot = sres_snapshot res\<rparr>, db')"
proof -
  have cur: "current_snapshot db' f acc a = Some (sres_snapshot res)"
    using create ok by (rule snapshot_create_ok)
  from create show ?thesis
  proof (cases rule: snapshot_create_cases)
    case (reused state c)
    then show ?thesis by (simp add: snapshot_service_create_def run_engine_def)
  next
    case (stored state current)
    have "fund_ledger db' f acc = fund_ledger db f acc"
      using store_snapshot_Inr(2) [OF stored(5)] by (simp add: fund_ledger_def supersede_simps)
    with stored(1) cur show ?thesis
      by (simp add: snapshot_service_create_def run_engine_def stored(4) new_snapshot_def)
  qed
qed

end
