(* ===== verification/Valuation_Properties.thy ===== *)
theory Valuation_Properties
  imports Valuation Market_Data_Properties Snapshot_Properties Portfolio_Exact
begin

text \<open>
  The realized profit-and-loss loop never meets an error of the engine it calls, and its amount is
  missing exactly when a sale that stands had an unknown cost basis; a historical valuation succeeds
  exactly when the ledger replays, every position has a price and the allowed age is not negative, its total is exact within stated
  bounds, and nothing dated after the cutoff changes it.
\<close>

section \<open>The prefixes the realized loop reconstructs\<close>

definition replayable :: "uuid \<Rightarrow> uuid option \<Rightarrow> ledger_transaction list \<Rightarrow> bool" where
  "replayable f acc h \<longleftrightarrow> valid_ledger f h \<and> sorted (map transaction_key h)
     \<and> (\<forall>t \<in> set h. acc = None \<or> acc = Some (lt_account_id t))
     \<and> (\<exists>s. foldR engine_step engine_init h = Inr s)"

lemma replayable_append: "replayable f acc (h @ h') \<Longrightarrow> replayable f acc h"
  by (auto simp: replayable_def sorted_append foldR_append result_simps intro: valid_ledger_append)

lemma replayable_ordered:
  assumes "reconstruct H f ts a acc = Inr st"
  shows "replayable f acc (ordered_transactions a acc ts)"
  using assms ordered_transactions_set(2) unfolding reconstruct_Inr replayable_def
  by (auto simp: ordered_transactions_def included_transactions_def)

definition prior_state :: "digest \<Rightarrow> uuid \<Rightarrow> uuid option \<Rightarrow> ledger_transaction list \<Rightarrow> ledger_transaction \<Rightarrow> portfolio_state" where
  "prior_state H f acc h t = (case foldR engine_step engine_init h of
     Inr s \<Rightarrow> portfolio_output H f acc (lt_effective_at t) h s)"

lemma reconstruct_prefix:
  assumes "replayable f acc (h @ [t])"
  shows "reconstruct H f h (lt_effective_at t) acc = Inr (prior_state H f acc h t)"
proof -
  have "sorted (map transaction_key h)" "\<And>u. u \<in> set h \<Longrightarrow> transaction_key u \<le> transaction_key t"
    "valid_ledger f h" "is_aware (lt_effective_at t)" "\<forall>u \<in> set h. acc = None \<or> acc = Some (lt_account_id u)"
    using assms by (auto simp: replayable_def sorted_append valid_ledger_def valid_transaction_def)
  moreover from this(2) have "instant (lt_effective_at u) \<le> instant (lt_effective_at t)" if "u \<in> set h" for u
    using that by (fastforce simp: transaction_key_def)
  ultimately have "ordered_transactions (lt_effective_at t) acc h = h"
    by (simp add: ordered_transactions_def included_transactions_def sort_key_id_if_sorted)
  moreover obtain s where "foldR engine_step engine_init h = Inr s"
    using replayable_append [OF assms] by (auto simp: replayable_def)
  ultimately show ?thesis
    using \<open>valid_ledger f h\<close> \<open>is_aware _\<close> by (simp add: reconstruct_Inr prior_state_def)
qed

section \<open>A sale\<close>

text \<open>The position a sale is taken from, in the state before it.\<close>

definition sold_position :: "portfolio_state \<Rightarrow> ledger_transaction \<Rightarrow> position_state \<Rightarrow> bool" where
  "sold_position prior t p \<longleftrightarrow> p \<in> set (pf_positions prior) \<and> ps_account_id p = lt_account_id t
     \<and> Some (ps_instrument_id p) = lt_instrument_id t"

lemma sale_position:
  assumes ok: "replayable f acc (h @ [t])" and sell: "lt_transaction_type t = SELL"
  obtains p where "sold_position (prior_state H f acc h t) t p"
    "\<And>q. sold_position (prior_state H f acc h t) t q \<Longrightarrow> q = p"
    "fst (sale_effect (prior_state H f acc h t) t) = None \<longleftrightarrow> ps_cost_basis_status p = UNKNOWN"
proof -
  from ok obtain s s' where run: "foldR engine_step engine_init h = Inr s" "engine_step s t = Inr s'"
    by (auto simp: replayable_def foldR_snoc result_simps)
  have "engine_inv h s" using engine.run_inv run(1) replayable_append [OF ok] by (auto simp: replayable_def)
  then have dict: "dict_ok (es_positions s)" by (simp add: engine_inv_def history_inv_def)
  from run(2) sell obtain e where e: "sell_effect t (es_positions s) = Inr e"
    by (auto simp: engine_step_original)
  then obtain i q x where t: "lt_instrument_id t = Some i" "lt_quantity t = Some q" "0 < dval q" "lt_unit_price t = Some x"
    and pos: "dval q \<le> dval (pos_quantity (position_of (es_positions s) (lt_account_id t, i)))"
    by (auto simp: sell_effect_def result_simps Let_def dec_simps position_of_def split: if_splits option.splits)
  define k where "k = (lt_account_id t, i)"
  define p where "p = position_state_of (k, position_of (es_positions s) k)"
  have positions: "pf_positions (prior_state H f acc h t) = positions_out (es_positions s)"
    by (simp add: prior_state_def run(1) portfolio_output_def Let_def)
  have nz: "dval (pos_quantity (position_of (es_positions s) k)) \<noteq> 0" using pos t(3) by (simp add: k_def)
  then have "k \<in> fst ` set (es_positions s)"
    by (auto simp: position_of_def new_position_def split: option.splits dest!: map_of_SomeD) (metis fst_conv image_eqI)
  with nz have sold: "sold_position (prior_state H f acc h t) t p"
    using t(1) by (auto simp: sold_position_def positions positions_out_iff [OF dict] p_def k_def position_state_of_def)
  have unique: "y = p" if "sold_position (prior_state H f acc h t) t y" for y
    using that t(1) by (auto simp: sold_position_def positions positions_out_iff [OF dict] p_def k_def position_state_of_def)
  have "find (\<lambda>y. ps_account_id y = lt_account_id t \<and> Some (ps_instrument_id y) = lt_instrument_id t)
      (pf_positions (prior_state H f acc h t)) = Some p"
  proof (cases "find (\<lambda>y. ps_account_id y = lt_account_id t \<and> Some (ps_instrument_id y) = lt_instrument_id t)
      (pf_positions (prior_state H f acc h t))")
    case None
    with sold show ?thesis by (auto simp: find_None_iff sold_position_def)
  next
    case (Some y)
    then have "sold_position (prior_state H f acc h t) t y"
      by (auto simp: find_Some_iff sold_position_def)
    with Some unique show ?thesis by simp
  qed
  then have "fst (sale_effect (prior_state H f acc h t) t) = None \<longleftrightarrow> ps_cost_basis_status p = UNKNOWN"
    by (simp add: sale_effect_def t p_def k_def position_state_of_def)
  with sold unique show thesis by (rule that)
qed

section \<open>Realized profit and loss\<close>

definition realized_start :: realized_state where
  "realized_start = \<lparr>rs_prefix = [], rs_effects = [], rs_total = dzero, rs_active_unknown_sales = {}, rs_warnings = []\<rparr>"

text \<open>\<open>sale_in H f acc h i e\<close>: the history has a sale with identifier \<open>i\<close> and effect \<open>e\<close>.\<close>

definition sale_in ::
  "digest \<Rightarrow> uuid \<Rightarrow> uuid option \<Rightarrow> ledger_transaction list \<Rightarrow> uuid \<Rightarrow> dec option \<Rightarrow> bool" where
  "sale_in H f acc h i e \<longleftrightarrow> (\<exists>h1 t h2. h = h1 @ t # h2 \<and> lt_transaction_type t = SELL \<and> lt_id t = i
     \<and> e = fst (sale_effect (prior_state H f acc h1 t) t))"

lemma sale_in_Nil [simp]: "\<not> sale_in H f acc [] i e"
  by (simp add: sale_in_def)

lemma sale_in_snoc: "sale_in H f acc (h @ [t]) i e \<longleftrightarrow> sale_in H f acc h i e
    \<or> lt_transaction_type t = SELL \<and> lt_id t = i \<and> e = fst (sale_effect (prior_state H f acc h t) t)"
proof
  assume "sale_in H f acc (h @ [t]) i e"
  then obtain h1 u h2 where u: "h @ [t] = h1 @ u # h2" "lt_transaction_type u = SELL" "lt_id u = i"
    "e = fst (sale_effect (prior_state H f acc h1 u) u)" by (auto simp: sale_in_def)
  show "sale_in H f acc h i e \<or> lt_transaction_type t = SELL \<and> lt_id t = i \<and> e = fst (sale_effect (prior_state H f acc h t) t)"
  proof (cases h2 rule: rev_cases)
    case Nil
    with u show ?thesis by simp
  next
    case (snoc h3 v)
    with u show ?thesis by (auto simp: sale_in_def)
  qed
next
  assume "sale_in H f acc h i e \<or> lt_transaction_type t = SELL \<and> lt_id t = i \<and> e = fst (sale_effect (prior_state H f acc h t) t)"
  then show "sale_in H f acc (h @ [t]) i e"
    unfolding sale_in_def by (elim disjE exE conjE) force+
qed

lemma sale_in_id: "sale_in H f acc h i e \<Longrightarrow> i \<in> lt_id ` set h"
  by (auto simp: sale_in_def)

definition realized_inv :: "digest \<Rightarrow> uuid \<Rightarrow> uuid option \<Rightarrow> ledger_transaction list \<Rightarrow> realized_state \<Rightarrow> bool" where
  "realized_inv H f acc h s \<longleftrightarrow> rs_prefix s = h
     \<and> (\<forall>i e. dict_get (rs_effects s) i = Some e \<longleftrightarrow> sale_in H f acc h i e)
     \<and> rs_active_unknown_sales s = {i. sale_in H f acc h i None} - reversed_ids h"

lemma replayable_facts:
  assumes "replayable f acc (h @ [t])"
  shows "lt_id t \<notin> lt_id ` set h" "reversed_ids h \<subseteq> lt_id ` set h"
proof -
  show "lt_id t \<notin> lt_id ` set h" using assms by (auto simp: replayable_def valid_ledger_def)
  obtain s where "engine_inv h s" using engine.run_inv replayable_append [OF assms] by (auto simp: replayable_def)
  then show "reversed_ids h \<subseteq> lt_id ` set h" by (auto simp: engine_inv_def history_inv_def)
qed

lemma realized_step_run:
  assumes ok: "replayable f acc (h @ [t])" and prefix: "rs_prefix s = h"
  shows "realized_step H f acc s t = Inr ((if lt_transaction_type t = SELL then
      (case sale_effect (prior_state H f acc h t) t of (effect, warnings) \<Rightarrow>
        s\<lparr>rs_effects := dict_set (lt_id t) effect (rs_effects s), rs_warnings := rs_warnings s @ warnings,
          rs_active_unknown_sales := (if effect = None then insert (lt_id t) (rs_active_unknown_sales s)
            else rs_active_unknown_sales s),
          rs_total := (case effect of None \<Rightarrow> rs_total s | Some e \<Rightarrow> dadd (rs_total s) e)\<rparr>)
     else if lt_transaction_type t = REVERSAL then
        (case lt_reverses_transaction_id t of None \<Rightarrow> s
          | Some target \<Rightarrow> (case dict_get (rs_effects s) target of
              None \<Rightarrow> s
            | Some None \<Rightarrow> s\<lparr>rs_active_unknown_sales := rs_active_unknown_sales s - {target}\<rparr>
            | Some (Some e) \<Rightarrow> s\<lparr>rs_total := dsub (rs_total s) e\<rparr>))
     else s)\<lparr>rs_prefix := h @ [t]\<rparr>)"
  using reconstruct_prefix [OF ok, of H] prefix
  by (simp add: realized_step_def run_engine_def split: prod.split)

interpretation realized: history_invariant "realized_step H f acc" realized_start "realized_inv H f acc" "replayable f acc" for H f acc
proof
  show "realized_inv H f acc [] realized_start"
    by (simp add: realized_inv_def realized_start_def reversed_ids_def)
  show "replayable f acc h" if "replayable f acc (h @ h')" for h h'
    using that by (rule replayable_append)
  show "realized_inv H f acc (h @ [t]) s'"
    if inv: "realized_inv H f acc h s" and ok: "replayable f acc (h @ [t])" and step: "realized_step H f acc s t = Inr s'" for h s t s'
  proof -
    have prefix: "rs_prefix s = h" and eff: "\<And>i e. dict_get (rs_effects s) i = Some e \<longleftrightarrow> sale_in H f acc h i e"
      and active: "rs_active_unknown_sales s = {i. sale_in H f acc h i None} - reversed_ids h"
      using inv by (auto simp: realized_inv_def)
    note new = replayable_facts [OF ok]
    have fresh: "\<not> sale_in H f acc h (lt_id t) e" "lt_id t \<notin> reversed_ids h" for e
      using new sale_in_id by blast+
    consider (sell) "lt_transaction_type t = SELL" | (rev) "lt_transaction_type t = REVERSAL"
      | (other) "lt_transaction_type t \<noteq> SELL" "lt_transaction_type t \<noteq> REVERSAL" by blast
    then show ?thesis
    proof cases
      case sell
      have "reversed_ids (h @ [t]) = reversed_ids h" using sell by (auto simp: reversed_ids_def)
      then show ?thesis
        using step sell fresh active
        unfolding realized_step_run [OF ok prefix] realized_inv_def sale_in_snoc
        by (auto simp: dict_simps eff split: prod.splits if_splits)
    next
      case rev
      then have rid: "reversed_ids (h @ [t]) = (case lt_reverses_transaction_id t of None \<Rightarrow> reversed_ids h
          | Some r \<Rightarrow> insert r (reversed_ids h))"
        by (auto simp: reversed_ids_def split: option.splits)
      have none: "dict_get (rs_effects s) r = Some None" if "sale_in H f acc h r None" for r
        using that eff by blast
      have run: "s' = (case lt_reverses_transaction_id t of None \<Rightarrow> s
          | Some target \<Rightarrow> (case dict_get (rs_effects s) target of
              None \<Rightarrow> s
            | Some None \<Rightarrow> s\<lparr>rs_active_unknown_sales := rs_active_unknown_sales s - {target}\<rparr>
            | Some (Some e) \<Rightarrow> s\<lparr>rs_total := dsub (rs_total s) e\<rparr>))\<lparr>rs_prefix := h @ [t]\<rparr>"
        using step rev by (simp add: realized_step_run [OF ok prefix])
      then have "rs_prefix s' = h @ [t]" "rs_effects s' = rs_effects s" by (simp_all split: option.split)
      moreover have "rs_active_unknown_sales s' = {i. sale_in H f acc h i None} - reversed_ids (h @ [t])"
      proof (cases "lt_reverses_transaction_id t")
        case None
        then show ?thesis using active by (simp add: run rid)
      next
        case (Some r)
        show ?thesis
        proof (cases "dict_get (rs_effects s) r = Some None")
          case True
          then show ?thesis using active Some by (auto simp: run rid)
        next
          case False
          then have "\<not> sale_in H f acc h r None" using none by blast
          then show ?thesis using active Some False by (auto simp: run rid split: option.split)
        qed
      qed
      ultimately show ?thesis
        using rev eff by (simp add: realized_inv_def sale_in_snoc)
    next
      case other
      have "reversed_ids (h @ [t]) = reversed_ids h" using other by (auto simp: reversed_ids_def)
      then show ?thesis
        using step other active
        unfolding realized_step_run [OF ok prefix] realized_inv_def sale_in_snoc by (auto simp: eff)
    qed
  qed
qed

lemma realized_run:
  assumes "replayable f acc h"
  obtains s where "foldR (realized_step H f acc) realized_start h = Inr s" "realized_inv H f acc h s"
proof -
  have "\<exists>s. foldR (realized_step H f acc) realized_start h = Inr s"
    using assms
  proof (induction h rule: rev_induct)
    case (snoc t h)
    then obtain s where s: "foldR (realized_step H f acc) realized_start h = Inr s"
      using replayable_append by blast
    then have "rs_prefix s = h"
      using realized.run_inv [OF replayable_append [OF snoc.prems] s] by (simp add: realized_inv_def)
    with snoc.prems s show ?case by (simp add: foldR_snoc realized_step_run)
  qed simp
  with assms realized.run_inv that show thesis by blast
qed

lemma realized_calculate_run:
  assumes "reconstruct H f ts a acc = Inr st"
  obtains s where "realized_calculate H f ts a acc = Inr \<lparr>rpl_amount = (if rs_active_unknown_sales s \<noteq> {} then None
      else Some (rs_total s)), rpl_warnings = rs_warnings s\<rparr>"
    "realized_inv H f acc (ordered_transactions a acc ts) s"
proof -
  obtain s where "foldR (realized_step H f acc) realized_start (ordered_transactions a acc ts) = Inr s"
    "realized_inv H f acc (ordered_transactions a acc ts) s"
    by (rule realized_run [OF replayable_ordered [OF assms]])
  then show thesis by (intro that [of s]) (simp_all add: realized_calculate_def realized_start_def)
qed

theorem realized_pnl_available:
  assumes "reconstruct H f ts a acc = Inr st"
  shows "\<exists>r. realized_calculate H f ts a acc = Inr r
    \<and> (rpl_amount r = None \<longleftrightarrow> (\<exists>h1 t h2 prior p. ordered_transactions a acc ts = h1 @ t # h2
        \<and> lt_transaction_type t = SELL \<and> lt_id t \<notin> reversed_ids (ordered_transactions a acc ts)
        \<and> reconstruct H f h1 (lt_effective_at t) acc = Inr prior \<and> sold_position prior t p
        \<and> ps_cost_basis_status p = UNKNOWN))"
proof -
  let ?h = "ordered_transactions a acc ts"
  obtain s where s: "realized_calculate H f ts a acc = Inr \<lparr>rpl_amount = (if rs_active_unknown_sales s \<noteq> {} then None
      else Some (rs_total s)), rpl_warnings = rs_warnings s\<rparr>" and inv: "realized_inv H f acc ?h s"
    using realized_calculate_run [OF assms] by blast
  have unknown: "fst (sale_effect (prior_state H f acc h1 t) t) = None \<longleftrightarrow>
      (\<exists>prior p. reconstruct H f h1 (lt_effective_at t) acc = Inr prior \<and> sold_position prior t p
        \<and> ps_cost_basis_status p = UNKNOWN)" if "?h = h1 @ t # h2" "lt_transaction_type t = SELL" for h1 t h2
  proof -
    have ok: "replayable f acc (h1 @ [t])"
      using replayable_append [of f acc "h1 @ [t]" h2] replayable_ordered [OF assms] that(1) by simp
    note sell = that(2)
    obtain p where p: "sold_position (prior_state H f acc h1 t) t p"
      "\<And>q. sold_position (prior_state H f acc h1 t) t q \<Longrightarrow> q = p"
      "fst (sale_effect (prior_state H f acc h1 t) t) = None \<longleftrightarrow> ps_cost_basis_status p = UNKNOWN"
      using sale_position [OF ok sell, of H] by blast
    show ?thesis unfolding p(3) reconstruct_prefix [OF ok] using p(1,2) by blast
  qed
  have "rs_active_unknown_sales s \<noteq> {} \<longleftrightarrow> (\<exists>i. sale_in H f acc ?h i None \<and> i \<notin> reversed_ids ?h)"
    using inv by (auto simp: realized_inv_def)
  also have "\<dots> \<longleftrightarrow> (\<exists>h1 t h2. ?h = h1 @ t # h2 \<and> lt_transaction_type t = SELL \<and> lt_id t \<notin> reversed_ids ?h
      \<and> fst (sale_effect (prior_state H f acc h1 t) t) = None)"
    unfolding sale_in_def by metis
  also have "\<dots> \<longleftrightarrow> (\<exists>h1 t h2 prior p. ?h = h1 @ t # h2
        \<and> lt_transaction_type t = SELL \<and> lt_id t \<notin> reversed_ids ?h
        \<and> reconstruct H f h1 (lt_effective_at t) acc = Inr prior \<and> sold_position prior t p
        \<and> ps_cost_basis_status p = UNKNOWN)"
    using unknown by blast
  finally show ?thesis using s by auto
qed

section \<open>Historical valuation\<close>

lemma ledger_at_fund_ledger:
  "ledger_at db f a acc = filter (\<lambda>t. instant (lt_effective_at t) \<le> instant a) (fund_ledger db f acc)"
  unfolding ledger_at_def fund_ledger_def filter_map filter_filter
  by (rule arg_cong [where f = "map domain_transaction"], rule filter_cong) (auto simp: domain_transaction_def)

text \<open>The engine reads the same state off the rows of the valuation and off those of a snapshot.\<close>

lemma reconstruct_ledger_at:
  assumes "table_ok transaction_clash transaction_checks (db_transactions db)"
  shows "reconstruct H f (ledger_at db f a acc) a acc = reconstruct H f (fund_ledger db f acc) a acc"
proof (rule reconstruct_cong)
  show "valid_ledger f (fund_ledger db f acc)"
    unfolding fund_ledger_def by (rule domain_ledger_valid [OF assms]) auto
  then show "valid_ledger f (ledger_at db f a acc)"
    by (auto simp: ledger_at_fund_ledger valid_ledger_def distinct_map_filter)
  show "mset (included_transactions a acc (ledger_at db f a acc)) = mset (included_transactions a acc (fund_ledger db f acc))"
    by (simp add: ledger_at_fund_ledger included_transactions_def conj_commute cong: filter_cong)
qed

lemma quotes_at_run:
  "(\<exists>d'. foldR (\<lambda>d i. bindR (latest_quote db i a age prov pt) (\<lambda>q. Inr (dict_set i q d))) d is = Inr d') \<longleftrightarrow>
     (\<forall>i \<in> set is. \<exists>q. latest_quote db i a age prov pt = Inr q)"
proof (induction "is" arbitrary: d)
  case (Cons i "is")
  then show ?case by (cases "latest_quote db i a age prov pt") auto
qed simp

lemma quotes_at_error:
  "foldR (\<lambda>d i. bindR (latest_quote db i a age prov pt) (\<lambda>q. Inr (dict_set i q d))) d is = Inl e \<Longrightarrow>
     \<exists>i \<in> set is. latest_quote db i a age prov pt = Inl e"
proof (induction "is" arbitrary: d)
  case (Cons i "is")
  then show ?case by (cases "latest_quote db i a age prov pt") auto
qed simp

lemma quotes_at_get:
  assumes "foldR (\<lambda>d i. bindR (latest_quote db i a age prov pt) (\<lambda>q. Inr (dict_set i q d))) d is = Inr d'"
  shows "(\<forall>i \<in> set is. \<exists>q. latest_quote db i a age prov pt = Inr q \<and> dict_get d' i = Some q)
    \<and> (\<forall>i. i \<notin> set is \<longrightarrow> dict_get d' i = dict_get d i)"
  using assms
proof (induction "is" arbitrary: d)
  case (Cons i "is")
  from Cons.prems obtain q where q: "latest_quote db i a age prov pt = Inr q"
    "foldR (\<lambda>d i. bindR (latest_quote db i a age prov pt) (\<lambda>q. Inr (dict_set i q d))) (dict_set i q d) is = Inr d'"
    by (auto simp: result_simps)
  from Cons.IH [OF q(2)] q(1) show ?case by (cases "i \<in> set is") (auto simp: dict_simps)
qed simp

text \<open>A quoted position.\<close>

definition valued :: "(uuid \<Rightarrow> price_quote option) \<Rightarrow> position_state \<Rightarrow> position_valuation \<Rightarrow> bool" where
  "valued quotes p v \<longleftrightarrow> pv_account_id v = ps_account_id p \<and> pv_instrument_id v = ps_instrument_id p
     \<and> pv_quantity v = ps_quantity p \<and> pv_cost_basis_status v = ps_cost_basis_status p
     \<and> (\<exists>q. quotes (ps_instrument_id p) = Some q \<and> pv_quote v = q \<and> pv_price v = pq_price q
       \<and> pv_market_value v = dmul (ps_quantity p) (pq_price q)
       \<and> pv_unrealized_pnl v = map_option (dsub (pv_market_value v)) (ps_total_cost_basis p))"

lemma value_positions_run:
  "(\<exists>out. foldR (value_position c quotes) (vs, ws) ps = Inr out) \<longleftrightarrow>
     (\<forall>p \<in> set ps. \<exists>q. quotes (ps_instrument_id p) = Some q \<and> pq_currency q = c)"
proof (induction ps arbitrary: vs ws)
  case (Cons p ps)
  then show ?case
    by (cases "quotes (ps_instrument_id p)") (auto simp: value_position_def Let_def)
qed simp

lemma value_position_Inr:
  assumes "value_position c quotes (vs, ws) p = Inr out"
  shows "\<exists>v ws'. out = (vs @ [v], ws') \<and> valued quotes p v"
  using assms by (cases "quotes (ps_instrument_id p)") (auto simp: value_position_def Let_def valued_def split: if_splits)

lemma value_positions_Inr:
  "foldR (value_position c quotes) (vs, ws) ps = Inr (vs', ws') \<Longrightarrow> \<exists>out. vs' = vs @ out \<and> list_all2 (valued quotes) ps out"
proof (induction ps arbitrary: vs ws)
  case (Cons p ps)
  from Cons.prems obtain v ws1 where q: "foldR (value_position c quotes) (vs @ [v], ws1) ps = Inr (vs', ws')" "valued quotes p v"
    by (auto simp: result_simps dest!: value_position_Inr)
  from Cons.IH [OF q(1)] q(2) show ?case by auto
qed simp

lemma position_currency: "reconstruct H f ts a acc = Inr st \<Longrightarrow> pf_currency st = ''USD''"
  by (auto simp: reconstruct_Inr portfolio_output_def Let_def)

lemma value_at_success:
  assumes tx: "table_ok transaction_clash transaction_checks (db_transactions db)"
    and usd: "\<And>r. r \<in> set (db_market_prices db) \<Longrightarrow> market_price_checks r"
    and st: "reconstruct H f (fund_ledger db f acc) a acc = Inr st"
  shows "(\<exists>r. value_at H db f a age acc prov pt = Inr r) \<longleftrightarrow> (pf_positions st \<noteq> [] \<longrightarrow> 0 \<le> age)
      \<and> (\<forall>p \<in> set (pf_positions st). \<exists>r \<in> set (db_market_prices db). eligible_price (ps_instrument_id p) a prov pt r)"
    and "value_at H db f a age acc prov pt = Inl e \<Longrightarrow>
      \<exists>p \<in> set (pf_positions st). latest_quote db (ps_instrument_id p) a age prov pt = Inl e"
proof -
  note Inr = st
  then have aware: "is_aware a" by (simp add: reconstruct_Inr)
  have at: "reconstruct H f (ledger_at db f a acc) a acc = Inr st" using Inr by (simp add: reconstruct_ledger_at [OF tx])
  obtain rpl where realized: "realized_calculate H f (ledger_at db f a acc) a acc = Inr rpl"
    using realized_calculate_run [OF at] by blast
  let ?is = "remdups (map ps_instrument_id (pf_positions st))"
  have available: "(\<exists>d. quotes_at db (map ps_instrument_id (pf_positions st)) a age prov pt = Inr d) \<longleftrightarrow>
      (pf_positions st \<noteq> [] \<longrightarrow> 0 \<le> age)
      \<and> (\<forall>p \<in> set (pf_positions st). \<exists>r \<in> set (db_market_prices db). eligible_price (ps_instrument_id p) a prov pt r)"
  proof (cases "0 \<le> age")
    case True
    then show ?thesis unfolding quotes_at_def quotes_at_run by (simp add: latest_quote_available [OF aware True])
  next
    case False
    then show ?thesis unfolding quotes_at_def quotes_at_run
      by (cases "pf_positions st") (auto simp: latest_quote_outcome [OF aware])
  qed
  have priced: "\<exists>r. valuation_value st (dict_get d) rpl = Inr r"
    if d: "quotes_at db (map ps_instrument_id (pf_positions st)) a age prov pt = Inr d" for d
  proof -
    have "\<exists>q. dict_get d (ps_instrument_id p) = Some q \<and> pq_currency q = pf_currency st" if p: "p \<in> set (pf_positions st)" for p
    proof -
      from quotes_at_get [OF d [unfolded quotes_at_def]] p obtain q
        where q: "latest_quote db (ps_instrument_id p) a age prov pt = Inr q" "dict_get d (ps_instrument_id p) = Some q"
        by auto
      from q(1) have "pq_currency q = ''USD''"
        by (rule latest_quote_Inr) (auto simp: quote_of_def Let_def dest!: usd simp: market_price_checks_def)
      with q(2) position_currency [OF st] show ?thesis by simp
    qed
    then obtain vs ws where "foldR (value_position (pf_currency st) (dict_get d))
        ([], map warning_text (pf_warnings st) @ rpl_warnings rpl) (pf_positions st) = Inr (vs, ws)"
      using value_positions_run [of "pf_currency st" "dict_get d" "[]" _ "pf_positions st"] by fastforce
    then show ?thesis by (simp add: valuation_value_def Let_def)
  qed
  have "(\<exists>r. value_at H db f a age acc prov pt = Inr r) \<longleftrightarrow>
      (\<exists>d. quotes_at db (map ps_instrument_id (pf_positions st)) a age prov pt = Inr d)"
    using priced by (auto simp: value_at_def run_engine_def at realized result_simps Let_def)
  then show "(\<exists>r. value_at H db f a age acc prov pt = Inr r) \<longleftrightarrow> (pf_positions st \<noteq> [] \<longrightarrow> 0 \<le> age)
      \<and> (\<forall>p \<in> set (pf_positions st). \<exists>r \<in> set (db_market_prices db). eligible_price (ps_instrument_id p) a prov pt r)"
    unfolding available .
  assume e: "value_at H db f a age acc prov pt = Inl e"
  have "quotes_at db (map ps_instrument_id (pf_positions st)) a age prov pt = Inl e"
  proof (cases "quotes_at db (map ps_instrument_id (pf_positions st)) a age prov pt")
    case (Inl e')
    with e show ?thesis by (simp add: value_at_def run_engine_def at)
  next
    case (Inr d)
    with e priced [OF Inr] show ?thesis by (auto simp: value_at_def run_engine_def at realized)
  qed
  then show "\<exists>p \<in> set (pf_positions st). latest_quote db (ps_instrument_id p) a age prov pt = Inl e"
    unfolding quotes_at_def by (auto dest!: quotes_at_error)
qed

lemma value_at_Inr:
  assumes "value_at H db f a age acc prov pt = Inr r"
  obtains st quotes where "reconstruct H f (ledger_at db f a acc) a acc = Inr st"
    "list_all2 (valued quotes) (pf_positions st) (vr_positions r)"
    "vr_cash_value r = pf_cash st" "vr_securities_value r = dsum (map pv_market_value (vr_positions r))"
    "vr_portfolio_value r = dadd (pf_cash st) (vr_securities_value r)"
    "\<And>p. p \<in> set (pf_positions st) \<Longrightarrow> \<exists>q. quotes (ps_instrument_id p) = Some q
       \<and> latest_quote db (ps_instrument_id p) a age prov pt = Inr q"
proof -
  from assms obtain st d rpl where r: "reconstruct H f (ledger_at db f a acc) a acc = Inr st"
    "quotes_at db (map ps_instrument_id (pf_positions st)) a age prov pt = Inr d"
    "valuation_value st (dict_get d) rpl = Inr r"
    by (auto simp: value_at_def run_engine_def result_simps Let_def split: sum.splits)
  from r(3) obtain vs ws where v: "foldR (value_position (pf_currency st) (dict_get d))
      ([], map warning_text (pf_warnings st) @ rpl_warnings rpl) (pf_positions st) = Inr (vs, ws)"
    "vr_positions r = vs" "vr_cash_value r = pf_cash st" "vr_securities_value r = dsum (map pv_market_value vs)"
    "vr_portfolio_value r = dadd (pf_cash st) (dsum (map pv_market_value vs))"
    by (auto simp: valuation_value_def result_simps Let_def split: prod.splits)
  show thesis
    by (rule that [of st "dict_get d"])
      (use r(1) v value_positions_Inr [OF v(1)] quotes_at_get [OF r(2) [unfolded quotes_at_def]] in auto)
qed

text \<open>C4: On transaction and price tables that satisfy the schema checks, valuing a fund at a cutoff
  fails with the engine's error when its stored ledger does not reconstruct. Otherwise it succeeds
  exactly when every held instrument has an eligible price and the maximum price age is not
  negative (a fund without positions needs neither), and the only errors are
  InvalidPriceObservation for a negative age and MissingPriceError naming a held instrument that
  has no eligible price.\<close>

theorem value_at_available:
  assumes tx: "table_ok transaction_clash transaction_checks (db_transactions db)"
    and usd: "\<And>r. r \<in> set (db_market_prices db) \<Longrightarrow> market_price_checks r"
  shows "case reconstruct H f (fund_ledger db f acc) a acc of
      Inl e \<Rightarrow> value_at H db f a age acc prov pt = Inl (PortfolioReconstructionError e)
    | Inr st \<Rightarrow>
        ((\<exists>r. value_at H db f a age acc prov pt = Inr r) \<longleftrightarrow> (pf_positions st \<noteq> [] \<longrightarrow> 0 \<le> age)
          \<and> (\<forall>p \<in> set (pf_positions st). \<exists>r \<in> set (db_market_prices db). eligible_price (ps_instrument_id p) a prov pt r))
        \<and> (\<forall>e. value_at H db f a age acc prov pt = Inl e \<longrightarrow>
            (if age < 0 then e = InvalidPriceObservation ''max_age cannot be negative''
             else \<exists>p \<in> set (pf_positions st). e = no_price_error pt a (ps_instrument_id p)
               \<and> (\<forall>r \<in> set (db_market_prices db). \<not> eligible_price (ps_instrument_id p) a prov pt r)))"
proof (cases "reconstruct H f (fund_ledger db f acc) a acc")
  case (Inl e)
  then show ?thesis by (simp add: value_at_def run_engine_def reconstruct_ledger_at [OF tx])
next
  case (Inr st)
  then have "is_aware a" by (simp add: reconstruct_Inr)
  have "if age < 0 then e = InvalidPriceObservation ''max_age cannot be negative''
     else \<exists>p \<in> set (pf_positions st). e = no_price_error pt a (ps_instrument_id p)
       \<and> (\<forall>r \<in> set (db_market_prices db). \<not> eligible_price (ps_instrument_id p) a prov pt r)"
    if "value_at H db f a age acc prov pt = Inl e" for e
    using value_at_success(2) [OF tx usd Inr that]
    by (cases "age < 0") (auto simp: latest_quote_outcome(1) [OF \<open>is_aware a\<close>])
  then show ?thesis using value_at_success(1) [OF tx usd Inr] by (simp add: Inr)
qed

section \<open>Exactness\<close>

lemma foldl_dadd_exact:
  assumes "\<forall>x \<in> set xs. on_grid 20 (dval x)" and "on_grid 20 (dval c)"
    and "\<bar>dval c\<bar> + sum_list (map (\<lambda>x. \<bar>dval x\<bar>) xs) < 10 ^ 8"
  shows "dval (foldl dadd c xs) = dval c + sum_list (map dval xs)"
  using assms
proof (induction xs arbitrary: c)
  case (Cons x xs)
  have nonneg: "0 \<le> sum_list (map (\<lambda>x. \<bar>dval x\<bar>) xs)" by (rule sum_list_nonneg) auto
  have "\<bar>dval c + dval x\<bar> < 10 ^ 8" using Cons.prems(3) nonneg by simp
  then have add: "dval (dadd c x) = dval c + dval x"
    using Cons.prems by (simp add: dval_dadd rnd_cash_grid on_grid_add)
  then have "\<bar>dval (dadd c x)\<bar> + sum_list (map (\<lambda>x. \<bar>dval x\<bar>) xs) < 10 ^ 8" using Cons.prems(3) by simp
  with Cons add show ?case by (simp add: on_grid_add)
qed simp

text \<open>C18: When the quantities have 12 decimals, the prices 8 and the cash balance 20, and the
  absolute cash and market values add up to less than 10^8, the portfolio value of a valuation is
  exactly the cash plus the sum of quantity times price over the positions: nothing is lost to
  rounding.\<close>

theorem valuation_exact:
  assumes run: "value_at H db f a age acc prov pt = Inr r"
    and grid: "\<And>v. v \<in> set (vr_positions r) \<Longrightarrow> on_grid 12 (dval (pv_quantity v)) \<and> on_grid 8 (dval (pv_price v))"
      "on_grid 20 (dval (vr_cash_value r))"
    and bound: "\<bar>dval (vr_cash_value r)\<bar> + (\<Sum>v \<leftarrow> vr_positions r. \<bar>dval (pv_quantity v) * dval (pv_price v)\<bar>) < 10 ^ 8"
  shows "dval (vr_portfolio_value r) =
    dval (vr_cash_value r) + (\<Sum>v \<leftarrow> vr_positions r. dval (pv_quantity v) * dval (pv_price v))"
proof -
  let ?e = "\<lambda>v. dval (pv_quantity v) * dval (pv_price v)"
  obtain st :: portfolio_state and quotes where r: "list_all2 (valued quotes) (pf_positions st) (vr_positions r)"
    "vr_cash_value r = pf_cash st" "vr_securities_value r = dsum (map pv_market_value (vr_positions r))"
    "vr_portfolio_value r = dadd (pf_cash st) (vr_securities_value r)"
    using run by (rule value_at_Inr) blast
  have each: "dval (pv_market_value v) = ?e v" "on_grid 20 (?e v)" if v: "v \<in> set (vr_positions r)" for v
  proof -
    show g: "on_grid 20 (?e v)" using on_grid_mult [of 12 _ 8] grid(1) [OF v] by simp
    have "\<bar>?e v\<bar> \<le> (\<Sum>v \<leftarrow> vr_positions r. \<bar>?e v\<bar>)"
      using v by (intro member_le_sum_list) auto
    then have "\<bar>?e v\<bar> < 10 ^ 8" using bound by simp
    moreover obtain p where "valued quotes p v" using r(1) v by (auto simp: list_all2_conv_all_nth in_set_conv_nth)
    ultimately show "dval (pv_market_value v) = ?e v"
      using g by (auto simp: valued_def dval_dmul rnd_cash_grid)
  qed
  have sums: "(\<Sum>v \<leftarrow> vr_positions r. g (dval (pv_market_value v))) = (\<Sum>v \<leftarrow> vr_positions r. g (?e v))" for g :: "rat \<Rightarrow> rat"
    using each(1) by (intro arg_cong [where f = sum_list] map_cong) simp_all
  have nonneg: "0 \<le> (\<Sum>v \<leftarrow> vr_positions r. \<bar>?e v\<bar>)" by (rule sum_list_nonneg) auto
  have sec: "dval (vr_securities_value r) = (\<Sum>v \<leftarrow> vr_positions r. ?e v)"
    using foldl_dadd_exact [of "map pv_market_value (vr_positions r)" dzero] each bound nonneg sums [of abs] sums [of id]
    by (simp add: r(3) dsum_def o_def)
  have "\<bar>\<Sum>v \<leftarrow> vr_positions r. ?e v\<bar> \<le> (\<Sum>v \<leftarrow> vr_positions r. \<bar>?e v\<bar>)"
    using sum_list_abs [of "map ?e (vr_positions r)"] by (simp add: o_def)
  then have "\<bar>dval (vr_cash_value r) + (\<Sum>v \<leftarrow> vr_positions r. ?e v)\<bar> < 10 ^ 8" using bound by linarith
  moreover have "on_grid 20 (\<Sum>v \<leftarrow> vr_positions r. ?e v)" by (rule on_grid_sum) (use each(2) in auto)
  ultimately show ?thesis
    using grid(2) by (simp add: r(2,4) sec dval_dadd rnd_cash_grid on_grid_add)
qed

section \<open>No look-ahead\<close>

text \<open>C5: A valuation at a cutoff does not depend on what happens later: transactions effective and
  prices observed after the cutoff, appended to the tables, leave the result unchanged.\<close>

theorem value_at_no_lookahead:
  assumes "map economic_row (db_transactions db') = map economic_row (db_transactions db) @ added"
    and "\<And>t. t \<in> set added \<Longrightarrow> instant a < instant (tx_effective_at t)"
    and "db_market_prices db' = db_market_prices db @ ps"
    and "\<And>p. p \<in> set ps \<Longrightarrow> instant a < instant (mp_observed_at p)"
  shows "value_at H db' f a age acc prov pt = value_at H db f a age acc prov pt"
proof -
  let ?P = "\<lambda>r. tx_fund_id r = f \<and> instant (tx_effective_at r) \<le> instant a
     \<and> (case acc of None \<Rightarrow> True | Some x \<Rightarrow> tx_account_id r = x)"
  have eco: "map domain_transaction (filter ?P rows) = map domain_transaction (filter ?P (map economic_row rows))" for rows
    by (induction rows) (auto simp: domain_transaction_economic split: option.split)
  have "\<not> ?P r" if "r \<in> set added" for r using assms(2) [OF that] by simp
  then have none: "filter ?P added = []" by (simp add: filter_empty_conv)
  have ledger: "ledger_at db' f a acc = ledger_at db f a acc"
    unfolding ledger_at_def eco [of "db_transactions db'"] eco [of "db_transactions db"] assms(1) filter_append none by simp
  have quote: "latest_quote db' i a age prov pt = latest_quote db i a age prov pt" for i
    by (rule latest_quote_appended [OF assms(3,4)])
  then have "quotes_at db' is a age prov pt = quotes_at db is a age prov pt" for "is"
    unfolding quotes_at_def by simp
  with ledger show ?thesis unfolding value_at_def by simp
qed

end
