(* ===== verification/Portfolio_Witnesses.thy ===== *)
theory Portfolio_Witnesses
  imports Portfolio_Accounts
begin

text \<open>
  A concrete fund ledger, evaluated through the engine inside the logic, on which the hypotheses of
  the properties hold; and the ledger on which a full liquidation fails.
\<close>

section \<open>Summary of the result\<close>

lemma portfolio_warnings_iff:
  "NEGATIVE_CASH b \<in> set (portfolio_warnings cash ps) \<longleftrightarrow>
     (\<exists>c \<in> set cash. cb_account_id c = b \<and> dval (cb_amount c) < 0)"
  "UNKNOWN_COST_BASIS b i \<in> set (portfolio_warnings cash ps) \<longleftrightarrow>
     (\<exists>p \<in> set ps. ps_account_id p = b \<and> ps_instrument_id p = i \<and> ps_cost_basis_status p = UNKNOWN)"
  by (auto simp: portfolio_warnings_def dec_simps)

theorem reconstruct_summary:
  assumes "reconstruct H f ts a acc = Inr st"
  shows "md_applied_transaction_ids (pf_metadata st) = map lt_id (ordered_transactions a acc ts)
    \<and> sorted_wrt (\<lambda>t u. transaction_key t < transaction_key u) (ordered_transactions a acc ts)
    \<and> map cb_account_id (pf_cash_by_account st) =
        sorted_list_of_set (lt_account_id ` set (ordered_transactions a acc ts))
    \<and> (\<forall>b. NEGATIVE_CASH b \<in> set (pf_warnings st) \<longleftrightarrow>
        (\<exists>c \<in> set (pf_cash_by_account st). cb_account_id c = b \<and> dval (cb_amount c) < 0))
    \<and> (\<forall>b i. UNKNOWN_COST_BASIS b i \<in> set (pf_warnings st) \<longleftrightarrow>
        (\<exists>p \<in> set (pf_positions st). ps_account_id p = b \<and> ps_instrument_id p = i
           \<and> ps_cost_basis_status p = UNKNOWN))"
proof -
  define h where "h = ordered_transactions a acc ts"
  from assms obtain s where inv: "engine_inv h s" and st: "st = portfolio_output H f acc a h s"
    and ok: "valid_ledger f h"
    unfolding h_def by (rule reconstruct_inv)
  have keys: "dict_ok (es_cash s)" "fst ` set (es_cash s) = lt_account_id ` set h"
    using inv by (simp_all add: engine_inv_def history_inv_def)
  have "map cb_account_id (pf_cash_by_account st) = map fst (sort_key fst (es_cash s))"
    by (simp add: st portfolio_output_def Let_def o_def split_def)
  moreover have "map fst (sort_key fst (es_cash s)) = sorted_list_of_set (lt_account_id ` set h)"
    using keys by (intro sorted_distinct_set_unique) (simp_all add: distinct_map_sort_key)
  moreover have "sorted_wrt (\<lambda>t u. transaction_key t < transaction_key u) h"
  proof (rule sorted_distinct_map_strict)
    show "sorted (map transaction_key h)" by (simp add: h_def ordered_transactions_def)
    show "distinct (map transaction_key h)"
      using ok transaction_key_inj by (auto simp: valid_ledger_def distinct_map)
  qed
  moreover have "pf_warnings st = portfolio_warnings (pf_cash_by_account st) (pf_positions st)"
    and "md_applied_transaction_ids (pf_metadata st) = map lt_id h"
    by (simp_all add: st portfolio_output_def Let_def)
  ultimately show ?thesis
    unfolding h_def [symmetric] by (simp add: portfolio_warnings_iff)
qed

section \<open>An example\<close>

definition no_digest :: digest where
  "no_digest j = ''''"

definition example_transaction :: "uuid \<Rightarrow> transaction_type \<Rightarrow> int \<Rightarrow> ledger_transaction" where
  "example_transaction i kind effective =
     \<lparr>lt_id = i, lt_fund_id = 1, lt_account_id = 2, lt_transaction_type = kind,
      lt_effective_at = Aware effective 0, lt_recorded_at = Aware effective 0, lt_source = ''csv'',
      lt_external_id = replicate (unat i) CHR ''x'', lt_instrument_id = None, lt_quantity = None, lt_unit_price = None,
      lt_amount = None, lt_fees = dzero, lt_currency = ''USD'', lt_trade_date = None,
      lt_settlement_date = None, lt_reverses_transaction_id = None\<rparr>"

definition example_cash :: "uuid \<Rightarrow> transaction_type \<Rightarrow> int \<Rightarrow> dec \<Rightarrow> ledger_transaction" where
  "example_cash i kind effective m = (example_transaction i kind effective)\<lparr>lt_amount := Some m\<rparr>"

definition example_trade ::
  "uuid \<Rightarrow> transaction_type \<Rightarrow> int \<Rightarrow> uuid \<Rightarrow> dec \<Rightarrow> dec option \<Rightarrow> dec \<Rightarrow> ledger_transaction" where
  "example_trade i kind effective instrument q p fees = (example_transaction i kind effective)
     \<lparr>lt_instrument_id := Some instrument, lt_quantity := Some q, lt_unit_price := p, lt_fees := fees\<rparr>"

definition example_reversal :: "uuid \<Rightarrow> int \<Rightarrow> uuid \<Rightarrow> ledger_transaction" where
  "example_reversal i effective target = (example_transaction i REVERSAL effective)\<lparr>lt_reverses_transaction_id := Some target\<rparr>"

lemmas example_defs = example_transaction_def example_cash_def example_trade_def example_reversal_def

text \<open>Opening cash 1000, an unpriced and a priced holding, a sale and its reversal, another account.\<close>

definition example_ledger :: "ledger_transaction list" where
  "example_ledger =
    [example_cash 10 OPENING_CASH 1 (Dec 1000 0),
     example_trade 11 OPENING_POSITION 2 7 (Dec 5 0) None dzero,
     example_trade 12 BUY 3 8 (Dec 10 0) (Some (Dec 20 0)) (Dec 1 0),
     example_trade 13 SELL 4 8 (Dec 4 0) (Some (Dec 25 0)) (Dec 1 0),
     example_reversal 14 5 13,
     (example_cash 15 CASH_DEPOSIT 6 (Dec 505 (- 1)))\<lparr>lt_account_id := 3\<rparr>,
     example_cash 16 CASH_WITHDRAWAL 9 (Dec 5 0)]"

lemmas step_defs = engine_step_def transaction_effect_def reversal_effect_def
  inverse_effect_def apply_position_effect_def position_after_def cash_effect_def buy_effect_def
  sell_effect_def opening_position_effect_def required_amount_def required_quantity_def
  required_price_def required_instrument_def required_reversal_target_def new_position_def
  engine_init_def dict_setdefault_def


lemmas engine_eval = ordered_transactions_def included_transactions_def transaction_key_def
  step_defs dec_eval example_defs

lemma example_ordered: "ordered_transactions (Aware 7 0) None example_ledger = [
     example_cash 10 OPENING_CASH 1 (Dec 1000 0),
     example_trade 11 OPENING_POSITION 2 7 (Dec 5 0) None dzero,
     example_trade 12 BUY 3 8 (Dec 10 0) (Some (Dec 20 0)) (Dec 1 0),
     example_trade 13 SELL 4 8 (Dec 4 0) (Some (Dec 25 0)) (Dec 1 0),
     example_reversal 14 5 13,
     (example_cash 15 CASH_DEPOSIT 6 (Dec 505 (- 1)))\<lparr>lt_account_id := 3\<rparr>]"
  by (simp add: ordered_transactions_def included_transactions_def transaction_key_def example_defs
      example_ledger_def)

lemma example_valid: "valid_ledger 1 example_ledger"
  by (simp add: valid_ledger_def example_ledger_def example_defs valid_transaction_def
    validate_transaction_shape_def require_no_position_fields_def step_defs dec_eval)

definition example_state :: portfolio_state where
  "example_state =
     \<lparr>pf_fund_id = 1, pf_account_id = None, pf_currency = ''USD'', pf_cash = Dec 8495 (- 1),
      pf_cash_by_account =
        [\<lparr>cb_account_id = 2, cb_currency = ''USD'', cb_amount = Dec 799 0\<rparr>,
         \<lparr>cb_account_id = 3, cb_currency = ''USD'', cb_amount = Dec 505 (- 1)\<rparr>],
      pf_positions =
        [\<lparr>ps_account_id = 2, ps_instrument_id = 7, ps_quantity = Dec 5 0, ps_total_cost_basis = None,
          ps_average_cost = None, ps_cost_basis_status = UNKNOWN, ps_source_transaction_ids = [11]\<rparr>,
         \<lparr>ps_account_id = 2, ps_instrument_id = 8, ps_quantity = Dec 10 0,
          ps_total_cost_basis = Some (Dec 2010 (- 1)), ps_average_cost = Some (Dec 201 (- 1)),
          ps_cost_basis_status = KNOWN, ps_source_transaction_ids = [12, 13, 14]\<rparr>],
      pf_warnings = [UNKNOWN_COST_BASIS 2 7],
      pf_metadata = \<lparr>md_as_of = Aware 7 0, md_calculation_version = ENGINE_VERSION,
        md_canonical_input_hash = [], md_applied_transaction_count = 6,
        md_applied_transaction_ids = [10, 11, 12, 13, 14, 15],
        md_last_applied_transaction_id = Some 15\<rparr>\<rparr>"

lemma example_reconstruct: "reconstruct no_digest 1 example_ledger (Aware 7 0) None = Inr example_state"
proof -
  have "\<exists>s. foldR engine_step engine_init (ordered_transactions (Aware 7 0) None example_ledger) = Inr s
    \<and> portfolio_output no_digest 1 None (Aware 7 0) (ordered_transactions (Aware 7 0) None example_ledger) s =
      example_state"
    unfolding example_ordered
    by (simp add: step_defs dec_eval example_defs portfolio_output_def positions_out_def position_state_of_def
        portfolio_warnings_def input_hash_def no_digest_def less_eq_portfolio_warning_def example_state_def
        cong: bindR_weak_cong let_weak_cong)
  with example_valid show ?thesis by (auto simp: reconstruct_Inr)
qed

section \<open>Witnesses\<close>

lemma reconstruct_summary_witness:
  "md_applied_transaction_ids (pf_metadata example_state) =
     map lt_id (ordered_transactions (Aware 7 0) None example_ledger)"
  using reconstruct_summary [OF example_reconstruct] by blast

lemma reconstruct_permutation_witness:
  "reconstruct no_digest 1 (rev example_ledger) (Aware 7 0) None = Inr example_state"
  using reconstruct_permutation [of "rev example_ledger" example_ledger no_digest 1 "Aware 7 0" None example_state]
    example_reconstruct by simp

lemma reconstruct_point_in_time_witness:
  "reconstruct no_digest 1 (butlast example_ledger) (Aware 7 0) None = Inr example_state"
proof -
  have split: "example_ledger = butlast example_ledger @ [last example_ledger]"
    by (simp add: example_ledger_def)
  have "instant (Aware 7 0) < instant (lt_effective_at t)" if "t \<in> set [last example_ledger]" for t
    using that by (simp add: example_ledger_def example_defs)
  with reconstruct_point_in_time [of example_ledger "butlast example_ledger" "[last example_ledger]" "Aware 7 0"
      no_digest 1 None] example_reconstruct split
  show ?thesis using example_valid by (simp add: validate_iff [THEN iffD2])
qed

lemma reconstruct_positions_witness:
  "0 < dval (ps_quantity (pf_positions example_state ! 0))"
proof -
  have "pf_positions example_state ! 0 \<in> set (pf_positions example_state)"
    by (simp add: example_state_def)
  with reconstruct_positions [OF example_reconstruct] show ?thesis by blast
qed

lemma reconstruct_reversals_witness:
  "\<exists>j < 4. lt_reverses_transaction_id (ordered_transactions (Aware 7 0) None example_ledger ! 4) =
     Some (lt_id (ordered_transactions (Aware 7 0) None example_ledger ! j))"
proof -
  have "4 < length (ordered_transactions (Aware 7 0) None example_ledger)"
    and "lt_transaction_type (ordered_transactions (Aware 7 0) None example_ledger ! 4) = REVERSAL"
    by (simp_all add: example_ordered example_defs)
  with reconstruct_reversals [OF example_reconstruct] show ?thesis by blast
qed

lemma position_known_without_unpriced_witness:
  "ps_cost_basis_status (pf_positions example_state ! 1) = KNOWN"
  by (rule position_known_without_unpriced [OF example_reconstruct])
    (auto simp: example_state_def example_ordered unpriced_on_def example_defs)

lemma position_unknown_while_unpriced_witness:
  "ps_cost_basis_status (pf_positions example_state ! 0) = UNKNOWN"
  by (rule position_unknown_while_unpriced [OF example_reconstruct,
        where t = "example_trade 11 OPENING_POSITION 2 7 (Dec 5 0) None dzero"])
    (auto simp: example_state_def example_ordered unpriced_on_def example_defs reversed_ids_def)

lemma position_sources_witness:
  "ps_source_transaction_ids (pf_positions example_state ! 1) = map lt_id (filter (\<lambda>t.
     position_key (ordered_transactions (Aware 7 0) None example_ledger) t = Some (2, 8))
     (ordered_transactions (Aware 7 0) None example_ledger))"
  using position_sources [OF example_reconstruct, of "pf_positions example_state ! 1"]
  by (simp add: example_state_def)

lemma example_exact:
  "exact_ledger cash_weight 8 1 (ordered_transactions (Aware 7 0) None example_ledger)"
  "exact_ledger quantity_weight 16 1 (ordered_transactions (Aware 7 0) None example_ledger)"
proof -
  have "valid_ledger 1 (ordered_transactions (Aware 7 0) None example_ledger)"
    using example_valid by (rule ordered_transactions_set(2))
  then show "exact_ledger cash_weight 8 1 (ordered_transactions (Aware 7 0) None example_ledger)"
    "exact_ledger quantity_weight 16 1 (ordered_transactions (Aware 7 0) None example_ledger)"
    unfolding exact_ledger_def
    by (auto simp: example_ordered example_defs database_scales_def on_grid_def dval_def flow_defs
        power_int_minus)
qed

lemma reconstruct_cash_exact_witness:
  "dval (pf_cash example_state) =
     net_flow exact_cash_flow (\<lambda>_. True) (ordered_transactions (Aware 7 0) None example_ledger)"
  using reconstruct_cash_exact [OF example_reconstruct example_exact(1)] by blast

lemma reconstruct_quantity_exact_witness:
  "dval (ps_quantity (pf_positions example_state ! 1)) =
     net_flow exact_quantity_flow (on_position (2, 8)) (ordered_transactions (Aware 7 0) None example_ledger)"
  using reconstruct_quantity_exact [OF example_reconstruct example_exact(2), of "pf_positions example_state ! 1"]
  by (simp add: example_state_def)

lemma reconstruct_account_independent_witness:
  "\<exists>sb. reconstruct no_digest 1 example_ledger (Aware 7 0) (Some 3) = Inr sb \<and> pf_positions sb = []"
  using reconstruct_account_independent [OF example_reconstruct, of 3] by (auto simp: example_state_def)

section \<open>A full liquidation that fails\<close>

text \<open>Five shares at 19 and one at 6; then one share and then the remaining five are sold.\<close>

definition liquidation_ledger :: "ledger_transaction list" where
  "liquidation_ledger =
    [example_trade 1 BUY 1 8 (Dec 5 0) (Some (Dec 19 0)) dzero,
     example_trade 2 BUY 2 8 (Dec 1 0) (Some (Dec 6 0)) dzero,
     example_trade 3 SELL 3 8 (Dec 1 0) (Some (Dec 20 0)) dzero,
     example_trade 4 SELL 4 8 (Dec 5 0) (Some (Dec 20 0)) dzero]"

lemma liquidation_ordered:
  "ordered_transactions (Aware 9 0) None liquidation_ledger = liquidation_ledger"
  by (simp add: engine_eval liquidation_ledger_def)

theorem liquidation_fails:
  "reconstruct H 1 liquidation_ledger (Aware 9 0) None = Inl (NegativeCostBasisError 4)"
proof -
  have "foldR engine_step engine_init liquidation_ledger = Inl (NegativeCostBasisError 4)"
    by (simp add: liquidation_ledger_def step_defs dec_eval example_defs cong: bindR_weak_cong let_weak_cong)
  moreover have "valid_ledger 1 liquidation_ledger"
    by (simp add: valid_ledger_def liquidation_ledger_def example_defs valid_transaction_def
      validate_transaction_shape_def step_defs dec_eval)
  ultimately show ?thesis
    by (simp add: reconstruct_def liquidation_ordered validate_iff [THEN iffD2])
qed

end
