(* ===== verification/Examples.thy ===== *)
theory Examples
  imports Ledger Portfolio_Witnesses
begin

text \<open>
  A small concrete database, commands on it and digests for the witnesses of the services'
  properties.
\<close>

definition hash_text :: "char \<Rightarrow> string" where
  "hash_text c = replicate 64 c"

definition example_db :: database where
  "example_db = empty_database\<lparr>
     db_funds := [\<lparr>fd_id = 1, fd_slug = ''hawk'', fd_name = ''Hawk'', fd_base_currency = ''USD'',
       fd_timezone = ''UTC'', fd_created_at = Aware 0 0\<rparr>],
     db_users := [
       \<lparr>usr_id = 5, usr_email = ''a'', usr_display_name = ''A'', usr_is_active = True, usr_created_at = Aware 0 0\<rparr>,
       \<lparr>usr_id = 6, usr_email = ''m'', usr_display_name = ''M'', usr_is_active = True, usr_created_at = Aware 0 0\<rparr>],
     db_roles := [\<lparr>rl_id = 1, rl_code = ''analyst'', rl_name = ''Analyst''\<rparr>,
       \<lparr>rl_id = 2, rl_code = ''manager'', rl_name = ''Manager''\<rparr>],
     db_user_roles := [\<lparr>ur_user_id = 5, ur_role_id = 1, ur_fund_id = 1\<rparr>,
       \<lparr>ur_user_id = 6, ur_role_id = 2, ur_fund_id = 1\<rparr>],
     db_instruments := [\<lparr>ins_id = 8, ins_symbol = ''X'', ins_name = ''X'', ins_asset_type = ''EQUITY'',
       ins_exchange = ''N'', ins_currency = ''USD'', ins_is_active = True\<rparr>],
     db_accounts := [\<lparr>acct_id = 2, acct_fund_id = 1, acct_code = ''main'', acct_name = ''Main'',
       acct_currency = ''USD'', acct_created_at = Aware 0 0\<rparr>],
     db_import_batches := [\<lparr>ib_id = 6, ib_fund_id = 1, ib_source = ''csv'', ib_filename = None,
       ib_content_sha256 = hash_text CHR ''0'', ib_parser_version = ''1'', ib_status = Batch_PROCESSING,
       ib_initiated_by_user_id = None, ib_received_at = Aware 0 0, ib_completed_at = None,
       ib_total_count = 0, ib_posted_count = 0, ib_duplicate_count = 0, ib_rejected_count = 0,
       ib_conflict_count = 0, ib_failure_summary = None\<rparr>]\<rparr>"

definition example_command ::
  "transaction_type \<Rightarrow> int \<Rightarrow> string \<Rightarrow> dec option \<Rightarrow> uuid option \<Rightarrow> create_transaction" where
  "example_command kind effective external amount target =
     \<lparr>ct_fund_id = 1, ct_account_id = 2, ct_transaction_type = kind, ct_effective_at = Aware effective 0,
      ct_recorded_at = Aware 100 0, ct_source = ''csv'', ct_external_id = external, ct_instrument_id = None,
      ct_quantity = None, ct_unit_price = None, ct_amount = amount, ct_fees = dzero, ct_currency = ''USD'',
      ct_trade_date = None, ct_settlement_date = None, ct_import_batch_id = Some 6,
      ct_created_by_user_id = None, ct_reverses_transaction_id = target, ct_correction_command_id = None,
      ct_description = None, ct_source_metadata = None\<rparr>"

abbreviation "example_deposit \<equiv> example_command CASH_DEPOSIT 10 ''d1'' (Some (Dec 100 0)) None"
abbreviation "example_other \<equiv> example_command CASH_DEPOSIT 10 ''d1'' (Some (Dec 99 0)) None"
abbreviation "example_undo \<equiv> example_command REVERSAL 5 ''r1'' None (Some 20)"

text \<open>A digest that tells the first deposit from everything else.\<close>

definition example_digest :: digest where
  "example_digest j = hash_text (if j = JObj (economic_payload example_deposit) then CHR ''0'' else CHR ''1'')"

lemma length_example_digest [simp]: "length (example_digest j) = 64"
  by (simp add: example_digest_def hash_text_def)

lemmas create_eval = transaction_service_create_def validate_transaction_def validate_kind_def
  validate_import_batch_def validate_opening_order_def validate_reversal_def require_field_def
  forbid_field_def positive_or_none_def require_zero_fees_def forbid_trade_fields_def
  by_source_identity_def by_id_def reversal_for_def insert_transaction_def insert_row_def
  transaction_checks_def ck_transactions_type_fields_def transaction_clash_def transaction_refs_def
  varchar_def refers_def strip_def is_space_def example_db_def example_command_def empty_database_def
  payload_hash_def transaction_of_def hash_text_def

definition example_row :: transaction_row where
  "example_row = transaction_of 20 (hash_text CHR ''0'') example_deposit"

definition example_posted :: database where
  "example_posted = example_db\<lparr>db_transactions := [example_row]\<rparr>"

lemma example_created:
  "transaction_service_create example_digest 20 (Aware 100 0) example_db example_deposit =
     Inr (\<lparr>cr_status = CREATED, cr_transaction = example_row, cr_conflict = None\<rparr>, example_posted)"
  by (simp add: create_eval example_digest_def example_row_def example_posted_def dec_eval
      cong: bindR_weak_cong let_weak_cong)

end
