(* ===== verification/Market_Witnesses.thy ===== *)
theory Market_Witnesses
  imports Valuation_Properties Examples
begin

text \<open>
  An ingestion of one price into the example database and a valuation of the example ledger,
  evaluated: the witnesses of the market data and valuation properties.
\<close>

section \<open>An ingestion\<close>

definition example_request :: price_request where
  "example_request = \<lparr>pr_identifiers = [''X''], pr_start = Aware 5 0, pr_end = Aware 9 0, pr_price_type = Price_CLOSE\<rparr>"

definition example_provider :: market_data_provider where
  "example_provider = \<lparr>provider_name = ''p'', fetch_prices = (\<lambda>_. Inr [\<lparr>pp_identifier = ''X'', pp_observed_at = Aware 6 0,
     pp_price = Dec 25 0, pp_currency = ''USD'', pp_price_type = Price_CLOSE, pp_source_metadata = None\<rparr>])\<rparr>"

definition example_listed :: database where
  "example_listed = example_db\<lparr>db_security_identifiers := [\<lparr>si_id = 50, si_instrument_id = 8, si_scheme = Scheme_TICKER,
     si_value = ''X'', si_provider = [], si_valid_from = None, si_valid_to = None, si_is_primary = True\<rparr>]\<rparr>"

definition example_price :: market_price_row where
  "example_price = \<lparr>mp_id = 61, mp_instrument_id = 8, mp_batch_id = 60, mp_provider = ''p'', mp_price_type = Price_CLOSE,
     mp_observed_at = Aware 6 0, mp_received_at = Aware 9 0, mp_price = Dec 25 0, mp_currency = ''USD'',
     mp_source_identifier = ''X'', mp_source_metadata = JObj []\<rparr>"

definition example_ingested :: database where
  "example_ingested = example_listed\<lparr>db_market_prices := [example_price],
     db_market_data_batches := [\<lparr>mb_id = 60, mb_provider = ''p'', mb_dataset = ''CLOSE'',
       mb_request_hash = request_hash example_digest ''p'' example_request, mb_status = MarketBatch_COMPLETED,
       mb_started_at = Aware 9 0, mb_completed_at = Some (Aware 9 0), mb_inserted_count = 1, mb_duplicate_count = 0,
       mb_conflict_count = 0\<rparr>]\<rparr>"

definition example_ingestion :: batch_ingestion_result where
  "example_ingestion = \<lparr>bir_batch_id = 60, bir_inserted_count = 1, bir_duplicate_count = 0, bir_conflict_count = 0,
     bir_results = [\<lparr>pir_identifier = ''X'', pir_status = Ingestion_INSERTED, pir_observation_id = Some 61,
       pir_conflict_id = None\<rparr>]\<rparr>"

lemma example_ingest:
  "ingest example_digest (\<lambda>k. 60 + of_nat k) example_listed example_provider example_request (Aware 9 0) =
     Inr (example_ingestion, example_ingested)"
proof -
  have h: "length (request_hash example_digest ''p'' example_request) = 64"
    by (simp add: request_hash_def)
  show ?thesis
    by (simp add: ingest_def market_aware_def example_request_def [THEN arg_cong [where f = pr_start]]
      example_request_def [THEN arg_cong [where f = pr_end]] example_request_def [THEN arg_cong [where f = pr_price_type]]
      example_provider_def example_listed_def example_db_def empty_database_def Let_def new_batch_def
      insert_market_data_batch_def insert_row_def market_data_batch_checks_def varchar_def h
      ingest_items_def ingest_one_def validate_price_def strip_def is_space_def resolve_identifier_def
      identifier_candidates_def valid_at_def stored_price_def insert_market_price_def market_price_checks_def
      market_price_refs_def refers_def metadata_or_empty_def status_count_def completed_batch_def update_row_def
      example_ingestion_def example_ingested_def example_price_def dlt_def scaled_def)
qed

lemma example_later: "example_ingested \<noteq> example_listed"
proof
  assume "example_ingested = example_listed"
  then have "db_market_prices example_ingested = db_market_prices example_listed" by simp
  then show False by (simp add: example_ingested_def example_listed_def example_db_def empty_database_def)
qed

theorem ingest_accounts_witness:
  "\<exists>items. fetch_prices example_provider example_request = Inr items
     \<and> list_all2 (on_record (provider_name example_provider) example_ingested 60) items (bir_results example_ingestion)"
  using ingest_accounts [OF example_ingest example_later] by (auto simp: example_ingestion_def)

theorem ingest_idempotent_witness:
  "\<exists>rs. ingest example_digest (\<lambda>k. 70 + of_nat k) example_ingested example_provider example_request (Aware 20 0) =
     Inr (example_ingestion\<lparr>bir_results := rs\<rparr>, example_ingested)"
proof -
  have "mp_batch_id ` set (db_market_prices example_listed) \<subseteq> mb_id ` set (db_market_data_batches example_listed)"
    by (simp add: example_listed_def example_db_def empty_database_def)
  with ingest_idempotent [OF example_ingest refl, of "Aware 20 0" "\<lambda>k. 70 + of_nat k"] show ?thesis by auto
qed

lemma example_quote: "latest_quote example_ingested 8 (Aware 7 0) 0 None Price_CLOSE = Inr (quote_of example_price (Aware 7 0) 0)"
  by (simp add: latest_quote_def market_aware_def quote_candidates_def example_ingested_def example_price_def)

theorem latest_quote_latest_witness:
  "\<exists>r \<in> set (db_market_prices example_ingested). eligible_price 8 (Aware 7 0) None Price_CLOSE r
     \<and> pq_price (quote_of example_price (Aware 7 0) 0) = mp_price r"
  using latest_quote_latest [OF example_quote] by blast

theorem ingest_no_lookahead_witness:
  "latest_quote example_ingested 8 (Aware 5 0) 0 None Price_CLOSE = latest_quote example_listed 8 (Aware 5 0) 0 None Price_CLOSE"
  by (rule ingest_no_lookahead [OF example_ingest, OF example_provider_def [THEN arg_cong [where f = "\<lambda>P. fetch_prices P example_request"], simplified]])
    auto

section \<open>A valuation\<close>

text \<open>The example ledger as stored rows, with a price of either holding.\<close>

definition row_of :: "ledger_transaction \<Rightarrow> transaction_row" where
  "row_of t = \<lparr>tx_id = lt_id t, tx_fund_id = lt_fund_id t, tx_account_id = lt_account_id t,
     tx_instrument_id = lt_instrument_id t, tx_transaction_type = lt_transaction_type t, tx_quantity = lt_quantity t,
     tx_unit_price = lt_unit_price t, tx_amount = lt_amount t, tx_fees = lt_fees t, tx_currency = lt_currency t,
     tx_effective_at = lt_effective_at t, tx_recorded_at = lt_recorded_at t, tx_trade_date = lt_trade_date t,
     tx_settlement_date = lt_settlement_date t, tx_source = lt_source t, tx_external_id = lt_external_id t,
     tx_normalized_payload_hash = hash_text CHR ''0'', tx_status = POSTED, tx_import_batch_id = None,
     tx_created_by_user_id = None, tx_reverses_transaction_id = lt_reverses_transaction_id t,
     tx_correction_command_id = None, tx_description = None, tx_source_metadata = JNull\<rparr>"

definition example_market :: database where
  "example_market = empty_database\<lparr>db_transactions := map row_of example_ledger,
     db_market_prices := [example_price, example_price\<lparr>mp_id := 62, mp_instrument_id := 7, mp_price := Dec 11 0\<rparr>]\<rparr>"

theorem realized_pnl_available_witness:
  "\<exists>r x. realized_calculate no_digest 1 example_ledger (Aware 7 0) None = Inr r \<and> rpl_amount r = Some x"
proof -
  have "lt_id t \<in> reversed_ids (ordered_transactions (Aware 7 0) None example_ledger)"
    if "t \<in> set (ordered_transactions (Aware 7 0) None example_ledger)" "lt_transaction_type t = SELL" for t
    using that unfolding example_ordered reversed_ids_def by (auto simp: example_defs)
  then have "\<nexists>h1 t h2 prior p. ordered_transactions (Aware 7 0) None example_ledger = h1 @ t # h2
      \<and> lt_transaction_type t = SELL \<and> lt_id t \<notin> reversed_ids (ordered_transactions (Aware 7 0) None example_ledger)
      \<and> reconstruct no_digest 1 h1 (lt_effective_at t) None = Inr prior \<and> sold_position prior t p
      \<and> ps_cost_basis_status p = UNKNOWN" (is "\<not> ?unknown") by (metis in_set_conv_decomp)
  moreover have "\<exists>r. realized_calculate no_digest 1 example_ledger (Aware 7 0) None = Inr r \<and> (rpl_amount r = None \<longleftrightarrow> ?unknown)"
    by (rule realized_pnl_available [OF example_reconstruct])
  ultimately show ?thesis by (metis option.exhaust)
qed

lemma example_market_ledger: "fund_ledger example_market 1 None = example_ledger"
  by (simp add: fund_ledger_def example_market_def example_ledger_def row_of_def domain_transaction_def example_defs)

lemma example_market_rows:
  "table_ok transaction_clash transaction_checks (db_transactions example_market)"
  "\<And>r. r \<in> set (db_market_prices example_market) \<Longrightarrow> market_price_checks r"
  "\<And>p. p \<in> set (pf_positions example_state) \<Longrightarrow>
     \<exists>r \<in> set (db_market_prices example_market). eligible_price (ps_instrument_id p) (Aware 7 0) None Price_CLOSE r"
proof -
  show "table_ok transaction_clash transaction_checks (db_transactions example_market)"
    by (simp add: table_ok_def example_market_def example_ledger_def row_of_def example_defs transaction_clash_def
      transaction_checks_def ck_transactions_type_fields_def varchar_def hash_text_def dec_eval)
  show "market_price_checks r" if "r \<in> set (db_market_prices example_market)" for r
    using that by (auto simp: example_market_def example_price_def market_price_checks_def varchar_def dec_eval)
  show "\<exists>r \<in> set (db_market_prices example_market). eligible_price (ps_instrument_id p) (Aware 7 0) None Price_CLOSE r"
    if "p \<in> set (pf_positions example_state)" for p
    using that by (auto simp: example_state_def example_market_def example_price_def eligible_price_def)
qed

theorem value_at_available_witness:
  "\<exists>r. value_at no_digest example_market 1 (Aware 7 0) 0 None None Price_CLOSE = Inr r"
  using value_at_available [OF example_market_rows(1,2), where H = no_digest and f = 1 and acc = None and a = "Aware 7 0" and age = 0 and prov = None and pt = Price_CLOSE]
    example_market_rows(3) example_reconstruct by (simp add: example_market_ledger)

lemma example_valued:
  obtains r v1 v2 where "value_at no_digest example_market 1 (Aware 7 0) 0 None None Price_CLOSE = Inr r"
    "vr_positions r = [v1, v2]" "pv_quantity v1 = Dec 5 0" "pv_price v1 = Dec 11 0"
    "pv_quantity v2 = Dec 10 0" "pv_price v2 = Dec 25 0" "vr_cash_value r = Dec 8495 (- 1)"
    "vr_fund_id r = 1" "vr_portfolio_value r = dadd (vr_cash_value r) (vr_securities_value r)"
proof -
  obtain r where r: "value_at no_digest example_market 1 (Aware 7 0) 0 None None Price_CLOSE = Inr r"
    using value_at_success(1) [OF example_market_rows(1,2), where H = no_digest and f = 1 and acc = None and a = "Aware 7 0" and age = 0 and prov = None and pt = Price_CLOSE]
      example_market_rows(3) example_reconstruct by (auto simp: example_market_ledger)
  have state: "reconstruct no_digest 1 (ledger_at example_market 1 (Aware 7 0) None) (Aware 7 0) None = Inr example_state"
    by (simp add: reconstruct_ledger_at [OF example_market_rows(1)] example_market_ledger example_reconstruct)
  obtain quotes where v: "list_all2 (valued quotes) (pf_positions example_state) (vr_positions r)"
    "vr_cash_value r = pf_cash example_state" "vr_portfolio_value r = dadd (pf_cash example_state) (vr_securities_value r)"
    "\<And>p. p \<in> set (pf_positions example_state) \<Longrightarrow> \<exists>q. quotes (ps_instrument_id p) = Some q
       \<and> latest_quote example_market (ps_instrument_id p) (Aware 7 0) 0 None Price_CLOSE = Inr q"
    using r by (rule value_at_Inr) (auto simp: state)
  have q: "latest_quote example_market 7 (Aware 7 0) 0 None Price_CLOSE = Inr q \<Longrightarrow> pq_price q = Dec 11 0"
    "latest_quote example_market 8 (Aware 7 0) 0 None Price_CLOSE = Inr q \<Longrightarrow> pq_price q = Dec 25 0" for q
    by (auto simp: latest_quote_def market_aware_def quote_candidates_def example_market_def example_price_def quote_of_def Let_def)
  obtain v1 v2 where vs: "vr_positions r = [v1, v2]" "pv_quantity v1 = Dec 5 0" "pv_price v1 = Dec 11 0"
    "pv_quantity v2 = Dec 10 0" "pv_price v2 = Dec 25 0"
    using v(1) v(4) q by (fastforce simp: example_state_def list_all2_Cons1 valued_def)
  have "vr_fund_id r = pf_fund_id example_state" using r state
    by (auto simp: value_at_def run_engine_def valuation_value_def result_simps Let_def)
  with r vs v(2,3) show thesis by (intro that [of r v1 v2]) (simp_all add: example_state_def)
qed

theorem valuation_exact_witness:
  "\<exists>r. value_at no_digest example_market 1 (Aware 7 0) 0 None None Price_CLOSE = Inr r
     \<and> dval (vr_portfolio_value r) = 8495 / 10 + (5 * 11 + 10 * 25)"
proof -
  obtain r v1 v2 where r: "value_at no_digest example_market 1 (Aware 7 0) 0 None None Price_CLOSE = Inr r"
    and vs: "vr_positions r = [v1, v2]" "pv_quantity v1 = Dec 5 0" "pv_price v1 = Dec 11 0"
      "pv_quantity v2 = Dec 10 0" "pv_price v2 = Dec 25 0" and cash: "vr_cash_value r = Dec 8495 (- 1)"
    by (rule example_valued)
  have vals: "dval (Dec 5 0) = 5" "dval (Dec 11 0) = 11" "dval (Dec 10 0) = 10" "dval (Dec 25 0) = 25" "dval (Dec 8495 (- 1)) = 8495 / 10"
    by (simp_all add: dval_def power_int_minus)
  have "dval (vr_portfolio_value r) = dval (vr_cash_value r) + (\<Sum>v \<leftarrow> vr_positions r. dval (pv_quantity v) * dval (pv_price v))"
  proof (rule valuation_exact [OF r])
    show "on_grid 12 (dval (pv_quantity v)) \<and> on_grid 8 (dval (pv_price v))" if "v \<in> set (vr_positions r)" for v
      using that vs vals by (auto simp: on_grid_def)
    show "on_grid 20 (dval (vr_cash_value r))" by (simp add: cash vals on_grid_def)
    show "\<bar>dval (vr_cash_value r)\<bar> + (\<Sum>v \<leftarrow> vr_positions r. \<bar>dval (pv_quantity v) * dval (pv_price v)\<bar>) < 10 ^ 8"
      by (simp add: cash vs vals)
  qed
  with r show ?thesis by (auto simp: cash vs vals)
qed

theorem value_at_no_lookahead_witness:
  "value_at no_digest (example_market\<lparr>db_market_prices := db_market_prices example_market @ [example_price\<lparr>mp_id := 63, mp_observed_at := Aware 8 0\<rparr>]\<rparr>)
     1 (Aware 7 0) 0 None None Price_CLOSE = value_at no_digest example_market 1 (Aware 7 0) 0 None None Price_CLOSE"
  by (rule value_at_no_lookahead [where added = "[]" and ps = "[example_price\<lparr>mp_id := 63, mp_observed_at := Aware 8 0\<rparr>]"])
    (simp_all add: example_price_def)

end
