(* ===== verification/Governance.thy ===== *)
theory Governance
  imports Schema
begin

text \<open>
  \<open>app/governance\<close>: roles and permissions (\<open>authorization.py\<close>), and the proposal workflow of
  \<open>ProposalService\<close> (\<open>service.py\<close>). \<open>ids\<close> numbers the results of \<open>uuid4()\<close> in the order a
  method makes the calls. A method that returns has committed its database; one that raises leaves
  the database as it was. Objects that wait in the session are stored where they are added.
\<close>

section \<open>Values of the enums\<close>

fun governance_role_value :: "governance_role \<Rightarrow> string" where
  "governance_role_value Role_ANALYST = ''analyst''"
| "governance_role_value Role_MANAGER = ''manager''"
| "governance_role_value Role_ADVISOR = ''advisor''"

fun permission_value :: "permission \<Rightarrow> string" where
  "permission_value Perm_CREATE_PROPOSAL = ''CREATE_PROPOSAL''"
| "permission_value Perm_REVISE_PROPOSAL = ''REVISE_PROPOSAL''"
| "permission_value Perm_RECORD_ANALYSIS = ''RECORD_ANALYSIS''"
| "permission_value Perm_SUBMIT_PROPOSAL = ''SUBMIT_PROPOSAL''"
| "permission_value Perm_START_REVIEW = ''START_REVIEW''"
| "permission_value Perm_RECORD_REVIEW = ''RECORD_REVIEW''"
| "permission_value Perm_REQUEST_CHANGES = ''REQUEST_CHANGES''"
| "permission_value Perm_APPROVE_PROPOSAL = ''APPROVE_PROPOSAL''"
| "permission_value Perm_REJECT_PROPOSAL = ''REJECT_PROPOSAL''"
| "permission_value Perm_WITHDRAW_PROPOSAL = ''WITHDRAW_PROPOSAL''"
| "permission_value Perm_VIEW_GOVERNANCE = ''VIEW_GOVERNANCE''"
| "permission_value Perm_USE_AI_ASSISTANT = ''USE_AI_ASSISTANT''"

fun proposal_status_value :: "proposal_status \<Rightarrow> string" where
  "proposal_status_value DRAFT = ''DRAFT''"
| "proposal_status_value SUBMITTED = ''SUBMITTED''"
| "proposal_status_value UNDER_REVIEW = ''UNDER_REVIEW''"
| "proposal_status_value CHANGES_REQUESTED = ''CHANGES_REQUESTED''"
| "proposal_status_value APPROVED = ''APPROVED''"
| "proposal_status_value REJECTED = ''REJECTED''"
| "proposal_status_value WITHDRAWN = ''WITHDRAWN''"

fun proposal_action_value :: "proposal_action \<Rightarrow> string" where
  "proposal_action_value Action_BUY = ''BUY''"
| "proposal_action_value Action_SELL = ''SELL''"
| "proposal_action_value Action_EXIT = ''EXIT''"
| "proposal_action_value Action_HOLD = ''HOLD''"

fun review_recommendation_value :: "review_recommendation \<Rightarrow> string" where
  "review_recommendation_value Review_SUPPORT = ''SUPPORT''"
| "review_recommendation_value Review_OPPOSE = ''OPPOSE''"
| "review_recommendation_value Review_COMMENT = ''COMMENT''"

fun workflow_action_value :: "workflow_action \<Rightarrow> string" where
  "workflow_action_value Workflow_CREATED = ''CREATED''"
| "workflow_action_value Workflow_REVISED = ''REVISED''"
| "workflow_action_value Workflow_ANALYZED = ''ANALYZED''"
| "workflow_action_value Workflow_SUBMITTED = ''SUBMITTED''"
| "workflow_action_value Workflow_REVIEW_STARTED = ''REVIEW_STARTED''"
| "workflow_action_value Workflow_REVIEW_RECORDED = ''REVIEW_RECORDED''"
| "workflow_action_value Workflow_CHANGES_REQUESTED = ''CHANGES_REQUESTED''"
| "workflow_action_value Workflow_APPROVED = ''APPROVED''"
| "workflow_action_value Workflow_REJECTED = ''REJECTED''"
| "workflow_action_value Workflow_WITHDRAWN = ''WITHDRAWN''"

text \<open>\<open>str.lower()\<close> on the ASCII letters.\<close>

definition lower :: "string \<Rightarrow> string" where
  "lower s = map (\<lambda>c. let n = (of_char c :: nat) in
     if 65 \<le> n \<and> n \<le> 90 then char_of (n + 32) else c) s"

section \<open>Authorization\<close>

fun ROLE_PERMISSIONS :: "governance_role \<Rightarrow> permission list" where
  "ROLE_PERMISSIONS Role_ANALYST =
     [Perm_CREATE_PROPOSAL, Perm_REVISE_PROPOSAL, Perm_RECORD_ANALYSIS, Perm_SUBMIT_PROPOSAL,
      Perm_WITHDRAW_PROPOSAL, Perm_VIEW_GOVERNANCE, Perm_USE_AI_ASSISTANT]"
| "ROLE_PERMISSIONS Role_MANAGER =
     [Perm_RECORD_ANALYSIS, Perm_START_REVIEW, Perm_RECORD_REVIEW, Perm_REQUEST_CHANGES,
      Perm_APPROVE_PROPOSAL, Perm_REJECT_PROPOSAL, Perm_VIEW_GOVERNANCE, Perm_USE_AI_ASSISTANT]"
| "ROLE_PERMISSIONS Role_ADVISOR =
     [Perm_RECORD_REVIEW, Perm_REQUEST_CHANGES, Perm_VIEW_GOVERNANCE, Perm_USE_AI_ASSISTANT]"

text \<open>\<open>GovernanceRole(code)\<close> for a code that is the value of a role.\<close>

definition role_of_code :: "string \<Rightarrow> governance_role option" where
  "role_of_code code = find (\<lambda>r. governance_role_value r = code) [Role_ANALYST, Role_MANAGER, Role_ADVISOR]"

definition role_codes :: "database \<Rightarrow> uuid \<Rightarrow> uuid \<Rightarrow> string list" where
  "role_codes db actor fund_id = map (\<lambda>(r, ur). rl_code r)
     (filter (\<lambda>(r, ur). ur_role_id ur = rl_id r \<and> ur_user_id ur = actor \<and> ur_fund_id ur = fund_id)
       (List.product (db_roles db) (db_user_roles db)))"

definition authorization_require ::
  "database \<Rightarrow> uuid \<Rightarrow> uuid \<Rightarrow> permission \<Rightarrow> app_error + governance_role" where
  "authorization_require db actor fund_id permission =
     (case first_row (\<lambda>r. usr_id r = actor) (db_users db) of
        None \<Rightarrow> Inl (AuthorizationDenied ''actor is missing or inactive'')
      | Some user \<Rightarrow>
          if \<not> usr_is_active user then Inl (AuthorizationDenied ''actor is missing or inactive'')
          else (case sort_key governance_role_value (filter (\<lambda>r. permission \<in> set (ROLE_PERMISSIONS r))
                  (List.map_filter role_of_code (role_codes db actor fund_id))) of
              [] \<Rightarrow> Inl (AuthorizationDenied (''actor lacks '' @ permission_value permission @ '' for fund ''
                @ uuid_text fund_id))
            | role # _ \<Rightarrow> Inr role))"

section \<open>Proposal content\<close>

record proposal_line_input =
  pli_instrument_id :: uuid
  pli_action :: proposal_action
  pli_current_weight :: dec
  pli_proposed_weight :: dec
  pli_estimated_notional :: dec
  pli_rationale :: string

record proposal_version_input =
  pvi_title :: string
  pvi_thesis :: string
  pvi_portfolio_input_hash :: string
  pvi_portfolio_as_of :: datetime
  pvi_lines :: "proposal_line_input list"

fun valid_direction :: "proposal_action \<Rightarrow> dec \<Rightarrow> dec \<Rightarrow> bool" where
  "valid_direction Action_BUY current proposed \<longleftrightarrow> dlt current proposed"
| "valid_direction Action_SELL current proposed \<longleftrightarrow> dlt dzero proposed \<and> dlt proposed current"
| "valid_direction Action_EXIT current proposed \<longleftrightarrow> dlt dzero current \<and> deq proposed dzero"
| "valid_direction Action_HOLD current proposed \<longleftrightarrow> deq proposed current"

definition validate_line :: "proposal_line_input \<Rightarrow> app_error + unit" where
  "validate_line l =
     bindR (requireR (dle dzero (pli_current_weight l) \<and> dle (pli_current_weight l) dunit
         \<and> dle dzero (pli_proposed_weight l) \<and> dle (pli_proposed_weight l) dunit
         \<and> dle dzero (pli_estimated_notional l))
       (InvalidWorkflowTransition ''proposal weights or notional are invalid'')) (\<lambda>_.
     requireR (valid_direction (pli_action l) (pli_current_weight l) (pli_proposed_weight l)
         \<and> strip (pli_rationale l) \<noteq> [])
       (InvalidWorkflowTransition ''proposal action or rationale is inconsistent''))"

definition validate_content :: "proposal_version_input \<Rightarrow> app_error + unit" where
  "validate_content content =
     bindR (requireR (strip (pvi_title content) \<noteq> [] \<and> strip (pvi_thesis content) \<noteq> [])
       (InvalidWorkflowTransition ''proposal title and thesis are required'')) (\<lambda>_.
     bindR (requireR (length (pvi_portfolio_input_hash content) = 64)
       (InvalidWorkflowTransition ''portfolio input hash must contain 64 characters'')) (\<lambda>_.
     bindR (requireR (is_aware (pvi_portfolio_as_of content))
       (InvalidWorkflowTransition ''portfolio cutoff must be timezone-aware'')) (\<lambda>_.
     bindR (requireR (pvi_lines content \<noteq> [])
       (InvalidWorkflowTransition ''at least one proposal line is required'')) (\<lambda>_.
     bindR (requireR (distinct (map pli_instrument_id (pvi_lines content)))
       (InvalidWorkflowTransition ''proposal instruments must be unique'')) (\<lambda>_.
     foldR (\<lambda>_. validate_line) () (pvi_lines content))))))"

definition aware_required :: "datetime \<Rightarrow> app_error + unit" where
  "aware_required t = requireR (is_aware t)
     (InvalidWorkflowTransition ''workflow timestamps must be timezone-aware'')"

definition sorted_lines :: "proposal_version_input \<Rightarrow> proposal_line_input list" where
  "sorted_lines content = sort_key pli_instrument_id (pvi_lines content)"

definition content_hash_of :: "digest \<Rightarrow> proposal_version_input \<Rightarrow> string" where
  "content_hash_of H content = H (JObj [
     (''title'', JStr (strip (pvi_title content))),
     (''thesis'', JStr (strip (pvi_thesis content))),
     (''portfolio_input_hash'', JStr (pvi_portfolio_input_hash content)),
     (''portfolio_as_of'', JTime (to_utc (pvi_portfolio_as_of content))),
     (''lines'', JList (map (\<lambda>l. JObj [
        (''instrument_id'', JUuid (pli_instrument_id l)),
        (''action'', JStr (proposal_action_value (pli_action l))),
        (''current_weight'', JDec (pli_current_weight l)),
        (''proposed_weight'', JDec (pli_proposed_weight l)),
        (''estimated_notional'', JDec (pli_estimated_notional l)),
        (''rationale'', JStr (strip (pli_rationale l)))]) (sorted_lines content)))])"

section \<open>Reading a proposal\<close>

definition the_proposal :: "database \<Rightarrow> uuid \<Rightarrow> app_error + investment_proposal_row" where
  "the_proposal db i = (case first_row (\<lambda>r. ip_id r = i) (db_investment_proposals db) of
     None \<Rightarrow> Inl (InvalidWorkflowTransition ''proposal does not exist'') | Some p \<Rightarrow> Inr p)"

definition the_version :: "database \<Rightarrow> investment_proposal_row \<Rightarrow> app_error + proposal_version_row" where
  "the_version db p = (case first_row (\<lambda>r. pv_proposal_id r = ip_id p
       \<and> pv_version r = ip_current_version p) (db_proposal_versions db) of
     None \<Rightarrow> Inl (InvalidWorkflowTransition ''current proposal version is missing'') | Some v \<Rightarrow> Inr v)"

definition require_owner :: "investment_proposal_row \<Rightarrow> uuid \<Rightarrow> app_error + unit" where
  "require_owner p actor = requireR (ip_created_by_user_id p = actor)
     (AuthorizationDenied ''only the proposal author may perform this action'')"

definition required_reason :: "string \<Rightarrow> app_error + string" where
  "required_reason reason = (if strip reason = []
     then Inl (InvalidWorkflowTransition ''a reason is required'') else Inr (strip reason))"

section \<open>The steps every operation shares\<close>

text \<open>The guarded update: it matches the row only while its version is the expected one.\<close>

definition advance ::
  "database \<Rightarrow> investment_proposal_row \<Rightarrow> int \<Rightarrow> proposal_status \<Rightarrow> datetime \<Rightarrow> int option
     \<Rightarrow> app_error + investment_proposal_row \<times> database" where
  "advance db p expected status occurred_at current_version =
     bindR (aware_required occurred_at) (\<lambda>_.
     bindR (requireR (\<not> instant occurred_at < instant (ip_updated_at p))
       (InvalidWorkflowTransition ''workflow timestamp precedes the prior transition'')) (\<lambda>_.
     let matches = (\<lambda>r. ip_id r = ip_id p \<and> ip_row_version r = expected);
         set_values = (\<lambda>r. r\<lparr>ip_status := status,
           ip_current_version := (case current_version of None \<Rightarrow> ip_current_version p | Some v \<Rightarrow> v),
           ip_row_version := expected + 1, ip_updated_at := occurred_at\<rparr>) in
     if length (filter matches (db_investment_proposals db)) \<noteq> 1
     then Inl (ConcurrentProposalUpdate ''proposal changed; reload before retrying'')
     else Inr (set_values p, db\<lparr>db_investment_proposals :=
       map (\<lambda>r. if matches r then set_values r else r) (db_investment_proposals db)\<rparr>)))"

definition version_of ::
  "digest \<Rightarrow> uuid \<Rightarrow> investment_proposal_row \<Rightarrow> uuid \<Rightarrow> proposal_version_input \<Rightarrow> datetime \<Rightarrow> uuid option
     \<Rightarrow> proposal_version_row" where
  "version_of H i p actor content occurred_at supersedes =
     \<lparr>pv_id = i, pv_proposal_id = ip_id p, pv_version = ip_current_version p,
      pv_title = strip (pvi_title content), pv_thesis = strip (pvi_thesis content),
      pv_portfolio_input_hash = pvi_portfolio_input_hash content,
      pv_portfolio_as_of = pvi_portfolio_as_of content, pv_content_hash = content_hash_of H content,
      pv_created_by_user_id = actor, pv_created_at = occurred_at, pv_supersedes_version_id = supersedes\<rparr>"

definition line_of :: "uuid \<Rightarrow> uuid \<Rightarrow> proposal_line_input \<Rightarrow> proposal_line_row" where
  "line_of i version_id l =
     \<lparr>pl_id = i, pl_proposal_version_id = version_id, pl_instrument_id = pli_instrument_id l,
      pl_action = pli_action l, pl_current_weight = pli_current_weight l,
      pl_proposed_weight = pli_proposed_weight l, pl_estimated_notional = pli_estimated_notional l,
      pl_rationale = strip (pli_rationale l)\<rparr>"

definition add_version ::
  "digest \<Rightarrow> (nat \<Rightarrow> uuid) \<Rightarrow> nat \<Rightarrow> database \<Rightarrow> investment_proposal_row \<Rightarrow> uuid \<Rightarrow> proposal_version_input
     \<Rightarrow> datetime \<Rightarrow> uuid option \<Rightarrow> app_error + proposal_version_row \<times> database" where
  "add_version H ids n db p actor content occurred_at supersedes =
     (let version = version_of H (ids n) p actor content occurred_at supersedes in
      bindR (insert_proposal_version db version) (\<lambda>db1.
      bindR (foldR insert_proposal_line db1 (map (\<lambda>(k, l). line_of (ids (Suc (n + k))) (pv_id version) l)
        (enumerate 0 (sorted_lines content)))) (\<lambda>db2.
      Inr (version, db2))))"

definition transition_of ::
  "uuid \<Rightarrow> investment_proposal_row \<Rightarrow> proposal_version_row \<Rightarrow> workflow_action \<Rightarrow> proposal_status option
     \<Rightarrow> proposal_status \<Rightarrow> uuid \<Rightarrow> governance_role \<Rightarrow> string option \<Rightarrow> json \<Rightarrow> datetime
     \<Rightarrow> proposal_transition_row" where
  "transition_of i p v action from_status to_status actor role reason provenance occurred_at =
     \<lparr>pt_id = i, pt_proposal_id = ip_id p, pt_proposal_version_id = pv_id v, pt_action = action,
      pt_from_status = from_status, pt_to_status = to_status, pt_actor_user_id = actor,
      pt_actor_role = governance_role_value role, pt_reason = reason,
      pt_decision_provenance = provenance, pt_occurred_at = occurred_at,
      pt_resulting_row_version = ip_row_version p\<rparr>"

definition proposal_audit ::
  "uuid \<Rightarrow> investment_proposal_row \<Rightarrow> proposal_transition_row \<Rightarrow> audit_event_row" where
  "proposal_audit i p t =
     \<lparr>ae_id = i, ae_fund_id = ip_fund_id p, ae_actor_user_id = Some (pt_actor_user_id t),
      ae_action = ''proposal.'' @ lower (workflow_action_value (pt_action t)),
      ae_entity_type = ''investment_proposal'', ae_entity_id = ip_id p, ae_occurred_at = pt_occurred_at t,
      ae_details = JObj [
        (''transition_id'', JUuid (pt_id t)),
        (''proposal_version_id'', JUuid (pt_proposal_version_id t)),
        (''from_status'', json_opt (\<lambda>s. JStr (proposal_status_value s)) (pt_from_status t)),
        (''to_status'', JStr (proposal_status_value (pt_to_status t))),
        (''row_version'', JInt (ip_row_version p)),
        (''provenance'', pt_decision_provenance t)]\<rparr>"

definition history ::
  "(nat \<Rightarrow> uuid) \<Rightarrow> nat \<Rightarrow> database \<Rightarrow> investment_proposal_row \<Rightarrow> proposal_version_row \<Rightarrow> workflow_action
     \<Rightarrow> proposal_status option \<Rightarrow> proposal_status \<Rightarrow> uuid \<Rightarrow> governance_role \<Rightarrow> string option \<Rightarrow> json
     \<Rightarrow> datetime \<Rightarrow> app_error + database" where
  "history ids n db p v action from_status to_status actor role reason provenance occurred_at =
     (let t = transition_of (ids n) p v action from_status to_status actor role reason provenance occurred_at in
      bindR (insert_proposal_transition db t) (\<lambda>db1.
      insert_audit_event db1 (proposal_audit (ids (Suc n)) p t)))"

section \<open>Evidence\<close>

definition latest_analysis :: "database \<Rightarrow> uuid \<Rightarrow> proposal_analysis_row option" where
  "latest_analysis db version_id =
     (let rows = filter (\<lambda>a. pa_proposal_version_id a = version_id) (db_proposal_analyses db) in
      if rows = [] then None
      else Some (last (sort_key (\<lambda>a. (instant (pa_recorded_at a), pa_id a)) rows)))"

definition policy_rows ::
  "database \<Rightarrow> uuid \<Rightarrow> (risk_evaluation_item_row \<times> risk_policy_rule_row) list" where
  "policy_rows db evaluation_id = filter (\<lambda>(item, rule). rule_id rule = rei_rule_id item
       \<and> rei_evaluation_id item = evaluation_id)
     (List.product (db_risk_evaluation_items db) (db_risk_policy_rules db))"

definition join_text :: "string \<Rightarrow> string list \<Rightarrow> string" where
  "join_text sep xs = (case xs of [] \<Rightarrow> [] | y # ys \<Rightarrow> y @ concat (map (\<lambda>z. sep @ z) ys))"

definition blockers :: "(risk_evaluation_item_row \<times> risk_policy_rule_row) list \<Rightarrow> string list" where
  "blockers rows = map (\<lambda>(item, rule). rule_metric_key rule)
     (filter (\<lambda>(item, rule). rule_severity rule = Severity_BLOCKING \<and> rei_status item \<noteq> Policy_PASS) rows)"

definition required_clear_analysis ::
  "database \<Rightarrow> proposal_version_row \<Rightarrow> app_error + proposal_analysis_row" where
  "required_clear_analysis db version = (case latest_analysis db (pv_id version) of
     None \<Rightarrow> Inl (PolicyEvidenceRequired ''current proposal version has no risk analysis'')
   | Some analysis \<Rightarrow>
       let rows = policy_rows db (pa_risk_evaluation_id analysis) in
       if rows = [] then Inl (PolicyEvidenceRequired ''risk evaluation contains no policy results'')
       else if blockers rows \<noteq> [] then Inl (PolicyEvidenceRequired
         (''blocking policy results prevent submission or approval: '' @ join_text '', '' (sort (blockers rows))))
       else Inr analysis)"

definition analysis_hash ::
  "digest \<Rightarrow> proposal_version_row \<Rightarrow> risk_evaluation_row \<Rightarrow> scenario_run_row option \<Rightarrow> string" where
  "analysis_hash H version risk scenario = H (JObj [
     (''proposal_content_hash'', JStr (pv_content_hash version)),
     (''portfolio_input_hash'', JStr (pv_portfolio_input_hash version)),
     (''risk_evaluation_id'', JUuid (re_id risk)),
     (''risk_input_hash'', JStr (re_input_hash risk)),
     (''scenario_run_id'', json_opt (\<lambda>s. JUuid (sr_id s)) scenario),
     (''scenario_input_hash'', json_opt (\<lambda>s. JStr (sr_canonical_input_hash s)) scenario)])"

definition decision_provenance ::
  "proposal_version_row \<Rightarrow> proposal_analysis_row \<Rightarrow> (string \<times> json) list" where
  "decision_provenance version analysis = [
     (''proposal_version_id'', JUuid (pv_id version)),
     (''proposal_content_hash'', JStr (pv_content_hash version)),
     (''portfolio_input_hash'', JStr (pv_portfolio_input_hash version)),
     (''portfolio_as_of'', JTime (to_utc (pv_portfolio_as_of version))),
     (''analysis_id'', JUuid (pa_id analysis)),
     (''analysis_evidence_hash'', JStr (pa_evidence_hash analysis)),
     (''risk_evaluation_id'', JUuid (pa_risk_evaluation_id analysis)),
     (''scenario_run_id'', json_opt JUuid (pa_scenario_run_id analysis))]"

section \<open>Operations of the service\<close>

definition proposal_create ::
  "digest \<Rightarrow> (nat \<Rightarrow> uuid) \<Rightarrow> database \<Rightarrow> uuid \<Rightarrow> uuid \<Rightarrow> proposal_version_input \<Rightarrow> datetime
     \<Rightarrow> app_error + investment_proposal_row \<times> database" where
  "proposal_create H ids db fund_id actor content occurred_at =
     bindR (authorization_require db actor fund_id Perm_CREATE_PROPOSAL) (\<lambda>role.
     bindR (validate_content content) (\<lambda>_.
     bindR (aware_required occurred_at) (\<lambda>_.
     let proposal = \<lparr>ip_id = ids 0, ip_fund_id = fund_id, ip_created_by_user_id = actor, ip_status = DRAFT,
           ip_current_version = 1, ip_row_version = 1, ip_created_at = occurred_at,
           ip_updated_at = occurred_at\<rparr> in
     bindR (insert_investment_proposal db proposal) (\<lambda>db1.
     bindR (add_version H ids 1 db1 proposal actor content occurred_at None) (\<lambda>(version, db2).
     bindR (history ids (2 + length (pvi_lines content)) db2 proposal version Workflow_CREATED None DRAFT
       actor role None (JObj [(''content_hash'', JStr (pv_content_hash version))]) occurred_at) (\<lambda>db3.
     Inr (proposal, db3)))))))"

definition proposal_revise ::
  "digest \<Rightarrow> (nat \<Rightarrow> uuid) \<Rightarrow> database \<Rightarrow> uuid \<Rightarrow> uuid \<Rightarrow> int \<Rightarrow> proposal_version_input \<Rightarrow> datetime
     \<Rightarrow> app_error + investment_proposal_row \<times> database" where
  "proposal_revise H ids db proposal_id actor expected content occurred_at =
     bindR (the_proposal db proposal_id) (\<lambda>proposal.
     bindR (authorization_require db actor (ip_fund_id proposal) Perm_REVISE_PROPOSAL) (\<lambda>role.
     bindR (require_owner proposal actor) (\<lambda>_.
     bindR (requireR (ip_status proposal \<in> {DRAFT, CHANGES_REQUESTED})
       (InvalidWorkflowTransition ''only draft or changes-requested proposals can be revised'')) (\<lambda>_.
     bindR (validate_content content) (\<lambda>_.
     bindR (the_version db proposal) (\<lambda>previous.
     bindR (advance db proposal expected DRAFT occurred_at (Some (ip_current_version proposal + 1)))
       (\<lambda>(proposal', db1).
     bindR (add_version H ids 0 db1 proposal' actor content occurred_at (Some (pv_id previous)))
       (\<lambda>(version, db2).
     bindR (history ids (1 + length (pvi_lines content)) db2 proposal' version Workflow_REVISED
       (Some (ip_status proposal)) DRAFT actor role None
       (JObj [(''content_hash'', JStr (pv_content_hash version)),
         (''supersedes_version_id'', JUuid (pv_id previous))]) occurred_at) (\<lambda>db3.
     Inr (proposal', db3))))))))))"

text \<open>The checks of the evidence \<open>record_analysis\<close> binds.\<close>

definition evidence_scenario ::
  "database \<Rightarrow> investment_proposal_row \<Rightarrow> proposal_version_row \<Rightarrow> uuid option
     \<Rightarrow> app_error + scenario_run_row option" where
  "evidence_scenario db proposal version scenario_run_id = (case scenario_run_id of
     None \<Rightarrow> Inr None
   | Some k \<Rightarrow> (case first_row (\<lambda>r. sr_id r = k) (db_scenario_runs db) of
       None \<Rightarrow> Inl (PolicyEvidenceRequired ''scenario evidence does not match proposal scope'')
     | Some s \<Rightarrow> if sr_fund_id s \<noteq> ip_fund_id proposal
           \<or> instant (sr_as_of s) \<noteq> instant (pv_portfolio_as_of version)
         then Inl (PolicyEvidenceRequired ''scenario evidence does not match proposal scope'')
         else Inr (Some s)))"

definition evidence_risk ::
  "database \<Rightarrow> investment_proposal_row \<Rightarrow> proposal_version_row \<Rightarrow> uuid \<Rightarrow> app_error + risk_evaluation_row" where
  "evidence_risk db proposal version risk_evaluation_id =
     (case first_row (\<lambda>r. re_id r = risk_evaluation_id) (db_risk_evaluations db) of
        None \<Rightarrow> Inl (PolicyEvidenceRequired ''risk evaluation does not belong to the proposal fund'')
      | Some risk \<Rightarrow>
          if re_fund_id risk \<noteq> ip_fund_id proposal
          then Inl (PolicyEvidenceRequired ''risk evaluation does not belong to the proposal fund'')
          else if instant (re_as_of risk) \<noteq> instant (pv_portfolio_as_of version)
          then Inl (PolicyEvidenceRequired ''risk evaluation cutoff differs from proposal cutoff'')
          else Inr risk)"

definition proposal_record_analysis ::
  "digest \<Rightarrow> (nat \<Rightarrow> uuid) \<Rightarrow> database \<Rightarrow> uuid \<Rightarrow> uuid \<Rightarrow> int \<Rightarrow> uuid \<Rightarrow> uuid option \<Rightarrow> datetime
     \<Rightarrow> app_error + proposal_analysis_row \<times> database" where
  "proposal_record_analysis H ids db proposal_id actor expected risk_evaluation_id scenario_run_id occurred_at =
     bindR (the_proposal db proposal_id) (\<lambda>proposal.
     bindR (authorization_require db actor (ip_fund_id proposal) Perm_RECORD_ANALYSIS) (\<lambda>role.
     bindR (requireR (ip_status proposal = DRAFT)
       (InvalidWorkflowTransition ''analysis can only be bound to a draft'')) (\<lambda>_.
     bindR (the_version db proposal) (\<lambda>version.
     bindR (evidence_risk db proposal version risk_evaluation_id) (\<lambda>risk.
     bindR (evidence_scenario db proposal version scenario_run_id) (\<lambda>scenario.
     let h = analysis_hash H version risk scenario in
     (case first_row (\<lambda>r. pa_proposal_version_id r = pv_id version \<and> pa_evidence_hash r = h)
         (db_proposal_analyses db) of
        Some existing \<Rightarrow> Inr (existing, db)
      | None \<Rightarrow>
          bindR (advance db proposal expected DRAFT occurred_at None) (\<lambda>(proposal', db1).
          let analysis = \<lparr>pa_id = ids 0, pa_proposal_version_id = pv_id version,
                pa_risk_evaluation_id = re_id risk, pa_scenario_run_id = scenario_run_id,
                pa_recorded_by_user_id = actor, pa_recorded_at = occurred_at, pa_evidence_hash = h\<rparr> in
          bindR (insert_proposal_analysis db1 analysis) (\<lambda>db2.
          bindR (history ids 1 db2 proposal' version Workflow_ANALYZED (Some DRAFT) DRAFT actor role None
            (JObj [(''analysis_id'', JUuid (pa_id analysis)), (''risk_evaluation_id'', JUuid (re_id risk)),
              (''scenario_run_id'', json_opt (\<lambda>s. JUuid (sr_id s)) scenario), (''evidence_hash'', JStr h)])
            occurred_at) (\<lambda>db3.
          Inr (analysis, db3)))))))))))"

definition proposal_submit ::
  "(nat \<Rightarrow> uuid) \<Rightarrow> database \<Rightarrow> uuid \<Rightarrow> uuid \<Rightarrow> int \<Rightarrow> datetime
     \<Rightarrow> app_error + investment_proposal_row \<times> database" where
  "proposal_submit ids db proposal_id actor expected occurred_at =
     bindR (the_proposal db proposal_id) (\<lambda>proposal.
     bindR (authorization_require db actor (ip_fund_id proposal) Perm_SUBMIT_PROPOSAL) (\<lambda>role.
     bindR (require_owner proposal actor) (\<lambda>_.
     bindR (requireR (ip_status proposal = DRAFT)
       (InvalidWorkflowTransition ''only a draft can be submitted'')) (\<lambda>_.
     bindR (the_version db proposal) (\<lambda>version.
     bindR (required_clear_analysis db version) (\<lambda>analysis.
     bindR (advance db proposal expected SUBMITTED occurred_at None) (\<lambda>(proposal', db1).
     bindR (history ids 0 db1 proposal' version Workflow_SUBMITTED (Some DRAFT) SUBMITTED actor role None
       (JObj (decision_provenance version analysis)) occurred_at) (\<lambda>db2.
     Inr (proposal', db2)))))))))"

definition status_transition ::
  "(nat \<Rightarrow> uuid) \<Rightarrow> database \<Rightarrow> uuid \<Rightarrow> uuid \<Rightarrow> int \<Rightarrow> permission \<Rightarrow> proposal_status list \<Rightarrow> proposal_status
     \<Rightarrow> workflow_action \<Rightarrow> string option \<Rightarrow> datetime \<Rightarrow> bool
     \<Rightarrow> app_error + investment_proposal_row \<times> database" where
  "status_transition ids db proposal_id actor expected permission allowed_from to_status action reason
       occurred_at prevent_self_decision =
     bindR (the_proposal db proposal_id) (\<lambda>proposal.
     bindR (authorization_require db actor (ip_fund_id proposal) permission) (\<lambda>role.
     bindR (requireR (\<not> (prevent_self_decision \<and> actor = ip_created_by_user_id proposal))
       (AuthorizationDenied ''proposal authors cannot decide their own proposals'')) (\<lambda>_.
     bindR (requireR (ip_status proposal \<in> set allowed_from)
       (InvalidWorkflowTransition (workflow_action_value action @ '' is invalid from ''
         @ proposal_status_value (ip_status proposal)))) (\<lambda>_.
     bindR (the_version db proposal) (\<lambda>version.
     bindR (advance db proposal expected to_status occurred_at None) (\<lambda>(proposal', db1).
     bindR (history ids 0 db1 proposal' version action (Some (ip_status proposal)) to_status actor role reason
       (JObj [(''content_hash'', JStr (pv_content_hash version))]) occurred_at) (\<lambda>db2.
     Inr (proposal', db2))))))))"

definition proposal_start_review ::
  "(nat \<Rightarrow> uuid) \<Rightarrow> database \<Rightarrow> uuid \<Rightarrow> uuid \<Rightarrow> int \<Rightarrow> datetime
     \<Rightarrow> app_error + investment_proposal_row \<times> database" where
  "proposal_start_review ids db proposal_id actor expected occurred_at =
     status_transition ids db proposal_id actor expected Perm_START_REVIEW [SUBMITTED] UNDER_REVIEW
       Workflow_REVIEW_STARTED None occurred_at False"

definition proposal_record_review ::
  "(nat \<Rightarrow> uuid) \<Rightarrow> database \<Rightarrow> uuid \<Rightarrow> uuid \<Rightarrow> int \<Rightarrow> review_recommendation \<Rightarrow> string \<Rightarrow> datetime
     \<Rightarrow> app_error + proposal_review_row \<times> database" where
  "proposal_record_review ids db proposal_id actor expected recommendation comment occurred_at =
     bindR (the_proposal db proposal_id) (\<lambda>proposal.
     bindR (authorization_require db actor (ip_fund_id proposal) Perm_RECORD_REVIEW) (\<lambda>role.
     bindR (requireR (ip_status proposal \<in> {SUBMITTED, UNDER_REVIEW})
       (InvalidWorkflowTransition ''reviews require a submitted proposal'')) (\<lambda>_.
     bindR (requireR (strip comment \<noteq> [])
       (InvalidWorkflowTransition ''review comment is required'')) (\<lambda>_.
     bindR (the_version db proposal) (\<lambda>version.
     bindR (advance db proposal expected (ip_status proposal) occurred_at None) (\<lambda>(proposal', db1).
     let review = \<lparr>prv_id = ids 0, prv_proposal_id = ip_id proposal', prv_proposal_version_id = pv_id version,
           prv_reviewer_user_id = actor, prv_reviewer_role = governance_role_value role,
           prv_recommendation = recommendation, prv_comment = strip comment, prv_created_at = occurred_at\<rparr> in
     bindR (insert_proposal_review db1 review) (\<lambda>db2.
     bindR (history ids 1 db2 proposal' version Workflow_REVIEW_RECORDED (Some (ip_status proposal'))
       (ip_status proposal') actor role (Some (strip comment))
       (JObj [(''review_id'', JUuid (prv_id review)),
         (''recommendation'', JStr (review_recommendation_value recommendation))]) occurred_at) (\<lambda>db3.
     Inr (review, db3)))))))))"

definition proposal_request_changes ::
  "(nat \<Rightarrow> uuid) \<Rightarrow> database \<Rightarrow> uuid \<Rightarrow> uuid \<Rightarrow> int \<Rightarrow> string \<Rightarrow> datetime
     \<Rightarrow> app_error + investment_proposal_row \<times> database" where
  "proposal_request_changes ids db proposal_id actor expected reason occurred_at =
     bindR (required_reason reason) (\<lambda>r.
     status_transition ids db proposal_id actor expected Perm_REQUEST_CHANGES [SUBMITTED, UNDER_REVIEW]
       CHANGES_REQUESTED Workflow_CHANGES_REQUESTED (Some r) occurred_at False)"

definition proposal_approve ::
  "(nat \<Rightarrow> uuid) \<Rightarrow> database \<Rightarrow> uuid \<Rightarrow> uuid \<Rightarrow> int \<Rightarrow> string \<Rightarrow> datetime
     \<Rightarrow> app_error + investment_proposal_row \<times> database" where
  "proposal_approve ids db proposal_id actor expected reason occurred_at =
     bindR (the_proposal db proposal_id) (\<lambda>proposal.
     bindR (authorization_require db actor (ip_fund_id proposal) Perm_APPROVE_PROPOSAL) (\<lambda>role.
     bindR (requireR (actor \<noteq> ip_created_by_user_id proposal)
       (AuthorizationDenied ''proposal authors cannot approve their own proposals'')) (\<lambda>_.
     bindR (requireR (ip_status proposal = UNDER_REVIEW)
       (InvalidWorkflowTransition ''only a proposal under review can be approved'')) (\<lambda>_.
     bindR (the_version db proposal) (\<lambda>version.
     bindR (required_clear_analysis db version) (\<lambda>analysis.
     let review_count = length (filter (\<lambda>r. prv_proposal_version_id r = pv_id version)
           (db_proposal_reviews db)) in
     bindR (requireR (review_count \<noteq> 0)
       (InvalidWorkflowTransition ''approval requires review history for this version'')) (\<lambda>_.
     bindR (advance db proposal expected APPROVED occurred_at None) (\<lambda>(proposal', db1).
     bindR (history ids 0 db1 proposal' version Workflow_APPROVED (Some UNDER_REVIEW) APPROVED actor role
       (if strip reason = [] then None else Some (strip reason))
       (JObj (decision_provenance version analysis @ [(''review_count'', JInt (int review_count))]))
       occurred_at) (\<lambda>db2.
     Inr (proposal', db2))))))))))"

definition proposal_reject ::
  "(nat \<Rightarrow> uuid) \<Rightarrow> database \<Rightarrow> uuid \<Rightarrow> uuid \<Rightarrow> int \<Rightarrow> string \<Rightarrow> datetime
     \<Rightarrow> app_error + investment_proposal_row \<times> database" where
  "proposal_reject ids db proposal_id actor expected reason occurred_at =
     bindR (required_reason reason) (\<lambda>r.
     status_transition ids db proposal_id actor expected Perm_REJECT_PROPOSAL [UNDER_REVIEW] REJECTED
       Workflow_REJECTED (Some r) occurred_at True)"

definition proposal_withdraw ::
  "(nat \<Rightarrow> uuid) \<Rightarrow> database \<Rightarrow> uuid \<Rightarrow> uuid \<Rightarrow> int \<Rightarrow> string \<Rightarrow> datetime
     \<Rightarrow> app_error + investment_proposal_row \<times> database" where
  "proposal_withdraw ids db proposal_id actor expected reason occurred_at =
     bindR (the_proposal db proposal_id) (\<lambda>proposal.
     bindR (require_owner proposal actor) (\<lambda>_.
     bindR (required_reason reason) (\<lambda>r.
     status_transition ids db proposal_id actor expected Perm_WITHDRAW_PROPOSAL
       [DRAFT, SUBMITTED, CHANGES_REQUESTED] WITHDRAWN Workflow_WITHDRAWN (Some r) occurred_at False)))"

end
