(* ===== verification/Governance_Steps.thy ===== *)
theory Governance_Steps
  imports Governance
begin

text \<open>
  The calls of \<open>ProposalService\<close> as commands, the abstract workflow of proposals as a step
  relation, and the simulation: a call that changes the database makes exactly one transition of
  the abstract workflow, under the permission the action needs.
\<close>

section \<open>Commands\<close>

text \<open>One call of the service, and the database it leaves.\<close>

datatype governance_command =
    Create uuid proposal_version_input
  | Revise uuid int proposal_version_input
  | Record_analysis uuid int uuid "uuid option"
  | Submit uuid int
  | Start_review uuid int
  | Record_review uuid int review_recommendation string
  | Request_changes uuid int string
  | Approve uuid int string
  | Reject uuid int string
  | Withdraw uuid int string

fun governance_exec ::
  "digest \<Rightarrow> (nat \<Rightarrow> uuid) \<Rightarrow> database \<Rightarrow> uuid \<Rightarrow> datetime \<Rightarrow> governance_command \<Rightarrow> app_error + database" where
  "governance_exec H ids db actor t (Create f c) = map_sum id snd (proposal_create H ids db f actor c t)"
| "governance_exec H ids db actor t (Revise i n c) = map_sum id snd (proposal_revise H ids db i actor n c t)"
| "governance_exec H ids db actor t (Record_analysis i n r s) =
     map_sum id snd (proposal_record_analysis H ids db i actor n r s t)"
| "governance_exec H ids db actor t (Submit i n) = map_sum id snd (proposal_submit ids db i actor n t)"
| "governance_exec H ids db actor t (Start_review i n) = map_sum id snd (proposal_start_review ids db i actor n t)"
| "governance_exec H ids db actor t (Record_review i n r c) =
     map_sum id snd (proposal_record_review ids db i actor n r c t)"
| "governance_exec H ids db actor t (Request_changes i n r) =
     map_sum id snd (proposal_request_changes ids db i actor n r t)"
| "governance_exec H ids db actor t (Approve i n r) = map_sum id snd (proposal_approve ids db i actor n r t)"
| "governance_exec H ids db actor t (Reject i n r) = map_sum id snd (proposal_reject ids db i actor n r t)"
| "governance_exec H ids db actor t (Withdraw i n r) = map_sum id snd (proposal_withdraw ids db i actor n r t)"

lemma map_sum_snd_Inr [result_simps]: "map_sum id snd m = Inr y \<longleftrightarrow> (\<exists>x. m = Inr (x, y))"
  by (cases m) auto

section \<open>The shared steps\<close>

interpretation proposals: keyed_table investment_proposal_clash investment_proposal_checks ip_id
  by unfold_locales (simp add: investment_proposal_clash_def)

lemma history_Inr:
  assumes "history ids n db p v action from_status to_status actor role reason provenance t = Inr db'"
  shows "db_proposal_transitions db' = db_proposal_transitions db
      @ [transition_of (ids n) p v action from_status to_status actor role reason provenance t]"
    and "db_investment_proposals db' = db_investment_proposals db"
    and "db_proposal_versions db' = db_proposal_versions db"
    and "db_proposal_reviews db' = db_proposal_reviews db"
    and "db_proposal_analyses db' = db_proposal_analyses db"
    and "db_proposal_lines db' = db_proposal_lines db"
    and "db_audit_events db' = db_audit_events db @ [proposal_audit (ids (Suc n)) p
      (transition_of (ids n) p v action from_status to_status actor role reason provenance t)]"
  using assms by (auto simp: history_def Let_def result_simps insert_proposal_transition_def insert_audit_event_def)

lemma add_version_Inr:
  assumes "add_version H ids n db p actor c t s = Inr (v, db')"
  shows "v = version_of H (ids n) p actor c t s"
    and "db_proposal_versions db' = db_proposal_versions db @ [v]"
    and "db_investment_proposals db' = db_investment_proposals db"
    and "db_proposal_transitions db' = db_proposal_transitions db"
    and "db_proposal_reviews db' = db_proposal_reviews db"
    and "db_proposal_analyses db' = db_proposal_analyses db"
proof -
  from assms obtain db1 ls where 1: "insert_proposal_version db v = Inr db1" "v = version_of H (ids n) p actor c t s"
    and 2: "foldR insert_proposal_line db1 ls = Inr db'"
    by (auto simp: add_version_def Let_def result_simps)
  have frame: "g db' = g db1" if "\<And>db r db'. insert_proposal_line db r = Inr db' \<Longrightarrow> g db' = g db" for g :: "database \<Rightarrow> 'a"
    using 2 that by (induction ls arbitrary: db1) (auto simp: result_simps)
  from 1 show "v = version_of H (ids n) p actor c t s" by simp
  from 1 show "db_proposal_versions db' = db_proposal_versions db @ [v]"
    by (subst frame [of db_proposal_versions]) (auto simp: insert_proposal_version_def insert_proposal_line_def result_simps)
  from 1 show "db_investment_proposals db' = db_investment_proposals db"
    by (subst frame [of db_investment_proposals]) (auto simp: insert_proposal_version_def insert_proposal_line_def result_simps)
  from 1 show "db_proposal_transitions db' = db_proposal_transitions db"
    by (subst frame [of db_proposal_transitions]) (auto simp: insert_proposal_version_def insert_proposal_line_def result_simps)
  from 1 show "db_proposal_reviews db' = db_proposal_reviews db"
    by (subst frame [of db_proposal_reviews]) (auto simp: insert_proposal_version_def insert_proposal_line_def result_simps)
  from 1 show "db_proposal_analyses db' = db_proposal_analyses db"
    by (subst frame [of db_proposal_analyses]) (auto simp: insert_proposal_version_def insert_proposal_line_def result_simps)
qed

text \<open>The row \<open>advance\<close> writes.\<close>

definition advanced ::
  "investment_proposal_row \<Rightarrow> proposal_status \<Rightarrow> datetime \<Rightarrow> int option \<Rightarrow> investment_proposal_row" where
  "advanced p status t cv = p\<lparr>ip_status := status,
     ip_current_version := (case cv of None \<Rightarrow> ip_current_version p | Some v \<Rightarrow> v),
     ip_row_version := ip_row_version p + 1, ip_updated_at := t\<rparr>"

lemma filter_unique:
  assumes "distinct (map key rows)" and "p \<in> set rows"
  shows "filter (\<lambda>r. key r = key p \<and> Q r) rows = (if Q p then [p] else [])"
  using assms by (induction rows) (auto simp: filter_empty_conv rev_image_eqI)

lemma the_proposal_Inr: "the_proposal db i = Inr p \<longleftrightarrow> first_row (\<lambda>r. ip_id r = i) (db_investment_proposals db) = Some p"
  by (auto simp: the_proposal_def split: option.splits)

lemma advance_Inr:
  assumes ok: "table_ok investment_proposal_clash investment_proposal_checks (db_investment_proposals db)"
    and p: "p \<in> set (db_investment_proposals db)"
  shows "advance db p e st t cv = Inr (p', db') \<longleftrightarrow>
     is_aware t \<and> instant (ip_updated_at p) \<le> instant t \<and> ip_row_version p = e \<and> p' = advanced p st t cv
     \<and> db' = db\<lparr>db_investment_proposals := update_row ip_id (ip_id p) (\<lambda>_. p') (db_investment_proposals db)\<rparr>"
proof -
  have dist: "distinct (map ip_id (db_investment_proposals db))" using ok by (rule proposals.keys_distinct)
  have id: "r = p" if "r \<in> set (db_investment_proposals db)" "ip_id r = ip_id p" for r
    using dist that p by (auto simp: distinct_map inj_on_def)
  have "length (filter (\<lambda>r. ip_id r = ip_id p \<and> ip_row_version r = e) (db_investment_proposals db)) \<noteq> 1
      \<longleftrightarrow> ip_row_version p \<noteq> e"
    using filter_unique [OF dist p, of "\<lambda>r. ip_row_version r = e"] by simp
  moreover have "map (\<lambda>r. if ip_id r = ip_id p \<and> ip_row_version r = e then r\<lparr>ip_status := st,
        ip_current_version := (case cv of None \<Rightarrow> ip_current_version p | Some v \<Rightarrow> v),
        ip_row_version := e + 1, ip_updated_at := t\<rparr> else r) (db_investment_proposals db) =
      update_row ip_id (ip_id p) (\<lambda>_. advanced p st t cv) (db_investment_proposals db)"
    if "ip_row_version p = e"
    using that id by (auto simp: update_row_def advanced_def)
  ultimately show ?thesis
    by (auto simp: advance_def aware_required_def result_simps Let_def advanced_def)
qed

section \<open>The abstract workflow\<close>

inductive workflow :: "workflow_action \<Rightarrow> proposal_status option \<Rightarrow> proposal_status \<Rightarrow> bool" where
  created: "workflow Workflow_CREATED None DRAFT"
| revised: "s \<in> {DRAFT, CHANGES_REQUESTED} \<Longrightarrow> workflow Workflow_REVISED (Some s) DRAFT"
| analyzed: "workflow Workflow_ANALYZED (Some DRAFT) DRAFT"
| submitted: "workflow Workflow_SUBMITTED (Some DRAFT) SUBMITTED"
| review_started: "workflow Workflow_REVIEW_STARTED (Some SUBMITTED) UNDER_REVIEW"
| review_recorded: "s \<in> {SUBMITTED, UNDER_REVIEW} \<Longrightarrow> workflow Workflow_REVIEW_RECORDED (Some s) s"
| changes_requested: "s \<in> {SUBMITTED, UNDER_REVIEW} \<Longrightarrow> workflow Workflow_CHANGES_REQUESTED (Some s) CHANGES_REQUESTED"
| approved: "workflow Workflow_APPROVED (Some UNDER_REVIEW) APPROVED"
| rejected: "workflow Workflow_REJECTED (Some UNDER_REVIEW) REJECTED"
| withdrawn: "s \<in> {DRAFT, SUBMITTED, CHANGES_REQUESTED} \<Longrightarrow> workflow Workflow_WITHDRAWN (Some s) WITHDRAWN"

inductive_simps workflow_simps [simp]:
  "workflow Workflow_CREATED s s'" "workflow Workflow_REVISED s s'" "workflow Workflow_ANALYZED s s'"
  "workflow Workflow_SUBMITTED s s'" "workflow Workflow_REVIEW_STARTED s s'"
  "workflow Workflow_REVIEW_RECORDED s s'" "workflow Workflow_CHANGES_REQUESTED s s'"
  "workflow Workflow_APPROVED s s'" "workflow Workflow_REJECTED s s'" "workflow Workflow_WITHDRAWN s s'"

inductive_cases workflow_from_None: "workflow a None s"
inductive_cases workflow_from_Some: "workflow a (Some s) s'"

lemma workflow_terminal: "workflow a (Some s) s' \<Longrightarrow> s \<notin> {APPROVED, REJECTED, WITHDRAWN}"
  by (erule workflow_from_Some) auto

fun action_permission :: "workflow_action \<Rightarrow> permission" where
  "action_permission Workflow_CREATED = Perm_CREATE_PROPOSAL"
| "action_permission Workflow_REVISED = Perm_REVISE_PROPOSAL"
| "action_permission Workflow_ANALYZED = Perm_RECORD_ANALYSIS"
| "action_permission Workflow_SUBMITTED = Perm_SUBMIT_PROPOSAL"
| "action_permission Workflow_REVIEW_STARTED = Perm_START_REVIEW"
| "action_permission Workflow_REVIEW_RECORDED = Perm_RECORD_REVIEW"
| "action_permission Workflow_CHANGES_REQUESTED = Perm_REQUEST_CHANGES"
| "action_permission Workflow_APPROVED = Perm_APPROVE_PROPOSAL"
| "action_permission Workflow_REJECTED = Perm_REJECT_PROPOSAL"
| "action_permission Workflow_WITHDRAWN = Perm_WITHDRAW_PROPOSAL"

definition separation_of_duties :: "workflow_action \<Rightarrow> uuid \<Rightarrow> uuid \<Rightarrow> bool" where
  "separation_of_duties action actor author \<longleftrightarrow>
     (action \<in> {Workflow_APPROVED, Workflow_REJECTED} \<longrightarrow> actor \<noteq> author) \<and>
     (action \<in> {Workflow_CREATED, Workflow_REVISED, Workflow_SUBMITTED, Workflow_WITHDRAWN} \<longrightarrow> actor = author)"

text \<open>One transition of proposal \<open>i\<close>: what changes in the database and what it rests on.\<close>

definition moved ::
  "database \<Rightarrow> database \<Rightarrow> uuid \<Rightarrow> datetime \<Rightarrow> uuid \<Rightarrow> int \<Rightarrow> investment_proposal_row \<Rightarrow> proposal_transition_row \<Rightarrow> bool" where
  "moved db db' actor t i n p tr \<longleftrightarrow>
     first_row (\<lambda>r. ip_id r = i) (db_investment_proposals db) = Some p \<and> ip_row_version p = n
     \<and> instant (ip_updated_at p) \<le> instant t
     \<and> separation_of_duties (pt_action tr) actor (ip_created_by_user_id p)
     \<and> workflow (pt_action tr) (Some (ip_status p)) (pt_to_status tr)
     \<and> pt_proposal_id tr = i \<and> pt_from_status tr = Some (ip_status p) \<and> pt_actor_user_id tr = actor
     \<and> pt_resulting_row_version tr = n + 1 \<and> pt_occurred_at tr = t
     \<and> (\<exists>role. authorization_require db actor (ip_fund_id p) (action_permission (pt_action tr)) = Inr role
          \<and> pt_actor_role tr = governance_role_value role)
     \<and> db_investment_proposals db' = update_row ip_id i (\<lambda>_. advanced p (pt_to_status tr) t
          (if pt_action tr = Workflow_REVISED then Some (ip_current_version p + 1) else None))
          (db_investment_proposals db)
     \<and> db_proposal_transitions db' = db_proposal_transitions db @ [tr]"

lemma first_row_key: "first_row (\<lambda>r. ip_id r = i) rows = Some p \<Longrightarrow> p \<in> set rows \<and> ip_id p = i"
  by (auto dest: first_row_Some)

lemma moved_step:
  assumes ok: "table_ok investment_proposal_clash investment_proposal_checks (db_investment_proposals db)"
    and p: "the_proposal db i = Inr p"
    and role: "authorization_require db actor (ip_fund_id p) (action_permission action) = Inr role"
    and flow: "workflow action (Some (ip_status p)) st"
    and duty: "separation_of_duties action actor (ip_created_by_user_id p)"
    and adv: "advance db p n st t (if action = Workflow_REVISED then Some (ip_current_version p + 1) else None) = Inr (p', db1)"
    and same: "db_investment_proposals db2 = db_investment_proposals db1"
      "db_proposal_transitions db2 = db_proposal_transitions db1"
    and hist: "history ids k db2 p' v action (Some (ip_status p)) st actor role reason prov t = Inr db'"
  shows "\<exists>tr. moved db db' actor t i n p tr \<and> pt_action tr = action \<and> pt_proposal_version_id tr = pv_id v"
proof -
  from p have first: "first_row (\<lambda>r. ip_id r = i) (db_investment_proposals db) = Some p" by (simp add: the_proposal_Inr)
  then have in_db: "p \<in> set (db_investment_proposals db)" and id: "ip_id p = i" by (auto dest: first_row_key)
  define tr where "tr = transition_of (ids k) p' v action (Some (ip_status p)) st actor role reason prov t"
  from adv [unfolded advance_Inr [OF ok in_db]]
  have a: "instant (ip_updated_at p) \<le> instant t" "ip_row_version p = n"
    "p' = advanced p st t (if action = Workflow_REVISED then Some (ip_current_version p + 1) else None)"
    "db1 = db\<lparr>db_investment_proposals := update_row ip_id (ip_id p) (\<lambda>_. p') (db_investment_proposals db)\<rparr>"
    by blast+
  have tr: "pt_proposal_id tr = i" "pt_action tr = action" "pt_from_status tr = Some (ip_status p)" "pt_to_status tr = st"
    "pt_actor_user_id tr = actor" "pt_actor_role tr = governance_role_value role" "pt_occurred_at tr = t"
    "pt_resulting_row_version tr = n + 1" "pt_proposal_version_id tr = pv_id v"
    by (simp_all add: tr_def transition_of_def a advanced_def id)
  have trans: "db_proposal_transitions db' = db_proposal_transitions db @ [tr]"
    and props: "db_investment_proposals db' = update_row ip_id i (\<lambda>_. p') (db_investment_proposals db)"
    using history_Inr(1,2) [OF hist] same a(4) id by (simp_all add: tr_def)
  have "moved db db' actor t i n p tr"
    unfolding moved_def tr using first a(1,2) flow duty role trans props by (simp add: a(3))
  with tr show ?thesis by blast
qed

text \<open>The proposal a command is about and the version it expects.\<close>

fun command_target :: "governance_command \<Rightarrow> (uuid \<times> int) option" where
  "command_target (Create _ _) = None"
| "command_target (Revise i n _) = Some (i, n)"
| "command_target (Record_analysis i n _ _) = Some (i, n)"
| "command_target (Submit i n) = Some (i, n)"
| "command_target (Start_review i n) = Some (i, n)"
| "command_target (Record_review i n _ _) = Some (i, n)"
| "command_target (Request_changes i n _) = Some (i, n)"
| "command_target (Approve i n _) = Some (i, n)"
| "command_target (Reject i n _) = Some (i, n)"
| "command_target (Withdraw i n _) = Some (i, n)"

fun command_action :: "governance_command \<Rightarrow> workflow_action" where
  "command_action (Create _ _) = Workflow_CREATED"
| "command_action (Revise _ _ _) = Workflow_REVISED"
| "command_action (Record_analysis _ _ _ _) = Workflow_ANALYZED"
| "command_action (Submit _ _) = Workflow_SUBMITTED"
| "command_action (Start_review _ _) = Workflow_REVIEW_STARTED"
| "command_action (Record_review _ _ _ _) = Workflow_REVIEW_RECORDED"
| "command_action (Request_changes _ _ _) = Workflow_CHANGES_REQUESTED"
| "command_action (Approve _ _ _) = Workflow_APPROVED"
| "command_action (Reject _ _ _) = Workflow_REJECTED"
| "command_action (Withdraw _ _ _) = Workflow_WITHDRAWN"

lemma status_transition_moved:
  assumes ok: "table_ok investment_proposal_clash investment_proposal_checks (db_investment_proposals db)"
    and run: "status_transition ids db i actor n perm from_list st action reason t prevent = Inr (res, db')"
    and perm: "perm = action_permission action" and "action \<noteq> Workflow_REVISED"
    and flow: "\<And>s. s \<in> set from_list \<Longrightarrow> workflow action (Some s) st"
    and duty: "\<And>p. the_proposal db i = Inr p \<Longrightarrow> \<not> (prevent \<and> actor = ip_created_by_user_id p) \<Longrightarrow>
      separation_of_duties action actor (ip_created_by_user_id p)"
  shows "\<exists>p tr. moved db db' actor t i n p tr \<and> pt_action tr = action"
proof -
  from run obtain p role v db1 where p: "the_proposal db i = Inr p"
    "authorization_require db actor (ip_fund_id p) (action_permission action) = Inr role"
    "ip_status p \<in> set from_list" "\<not> (prevent \<and> actor = ip_created_by_user_id p)"
    "advance db p n st t None = Inr (res, db1)"
    "history ids 0 db1 res v action (Some (ip_status p)) st actor role reason
       (JObj [(''content_hash'', JStr (pv_content_hash v))]) t = Inr db'"
    by (auto simp: status_transition_def result_simps perm split: prod.splits)
  have "\<exists>tr. moved db db' actor t i n p tr \<and> pt_action tr = action \<and> pt_proposal_version_id tr = pv_id v"
    by (rule moved_step [OF ok p(1,2) flow [OF p(3)] duty [OF p(1,4)] _ refl refl p(6)]) (use p(5) assms(4) in simp)
  then show ?thesis by blast
qed

lemma exec_moved:
  assumes ok: "table_ok investment_proposal_clash investment_proposal_checks (db_investment_proposals db)"
    and run: "governance_exec H ids db actor t c = Inr db'" and target: "command_target c = Some (i, n)"
  obtains (same) p where "the_proposal db i = Inr p" "ip_status p = DRAFT" "command_action c = Workflow_ANALYZED" "db' = db"
    | (moved) p tr where "moved db db' actor t i n p tr" "pt_action tr = command_action c"
proof -
  have "(\<exists>p. the_proposal db i = Inr p \<and> ip_status p = DRAFT \<and> command_action c = Workflow_ANALYZED \<and> db' = db)
      \<or> (\<exists>p tr. moved db db' actor t i n p tr \<and> pt_action tr = command_action c)"
  proof (cases c)
  case (Revise i' n' content)
  with run target obtain p role db1 p' v db2 and prev :: proposal_version_row where r: "the_proposal db i = Inr p"
    "authorization_require db actor (ip_fund_id p) Perm_REVISE_PROPOSAL = Inr role"
    "ip_status p \<in> {DRAFT, CHANGES_REQUESTED}" "require_owner p actor = Inr ()"
    "advance db p n DRAFT t (Some (ip_current_version p + 1)) = Inr (p', db1)"
    "add_version H ids 0 db1 p' actor content t (Some (pv_id prev)) = Inr (v, db2)"
    "history ids (1 + length (pvi_lines content)) db2 p' v Workflow_REVISED (Some (ip_status p)) DRAFT actor role None
       (JObj [(''content_hash'', JStr (pv_content_hash v)), (''supersedes_version_id'', JUuid (pv_id prev))]) t = Inr db'"
    by (auto simp: proposal_revise_def result_simps simp del: insert_iff split: prod.splits del: insertE)
  note frame = add_version_Inr(3,4) [OF r(6)]
  show ?thesis
    using moved_step [OF ok r(1), of actor Workflow_REVISED role DRAFT n t p' db1 db2, OF _ _ _ _ frame r(7)] r(2-5) Revise by (auto simp: separation_of_duties_def require_owner_def result_simps)
next
  case (Record_analysis i' n' re sr)
  show ?thesis
  proof (cases "db' = db")
    case True
    with run target Record_analysis show ?thesis
      by (auto simp: proposal_record_analysis_def result_simps)
  next
    case False
  with run target Record_analysis obtain p role db1 p' an db2 prov and v :: proposal_version_row where r: "the_proposal db i = Inr p"
    "authorization_require db actor (ip_fund_id p) Perm_RECORD_ANALYSIS = Inr role"
    "ip_status p = DRAFT" "advance db p n DRAFT t None = Inr (p', db1)" "insert_proposal_analysis db1 an = Inr db2"
    "history ids 1 db2 p' v Workflow_ANALYZED (Some (ip_status p)) DRAFT actor role None prov t = Inr db'"
    by (auto simp: proposal_record_analysis_def result_simps Let_def split: prod.splits option.splits)
  have frame: "db_investment_proposals db2 = db_investment_proposals db1" "db_proposal_transitions db2 = db_proposal_transitions db1"
    using r(5) by (auto simp: insert_proposal_analysis_def result_simps)
  show ?thesis
    using moved_step [OF ok r(1), of actor Workflow_ANALYZED role DRAFT n t p' db1 db2, OF _ _ _ _ frame r(6)] r(2-4) Record_analysis by (auto simp: separation_of_duties_def)
  qed
next
  case (Submit i' n')
  with run target obtain p role db1 p' prov and v :: proposal_version_row where r: "the_proposal db i = Inr p"
    "authorization_require db actor (ip_fund_id p) Perm_SUBMIT_PROPOSAL = Inr role"
    "ip_status p = DRAFT" "require_owner p actor = Inr ()" "advance db p n SUBMITTED t None = Inr (p', db1)"
    "history ids 0 db1 p' v Workflow_SUBMITTED (Some (ip_status p)) SUBMITTED actor role None prov t = Inr db'"
    by (auto simp: proposal_submit_def result_simps Let_def split: prod.splits)
  show ?thesis
    using moved_step [OF ok r(1), of actor Workflow_SUBMITTED role SUBMITTED n t p' db1 db1, OF _ _ _ _ refl refl r(6)] r(2-5) Submit by (auto simp: separation_of_duties_def require_owner_def result_simps)
next
  case (Record_review i' n' rec comment)
  with run target obtain p role db1 p' rv db2 prov and v :: proposal_version_row where r: "the_proposal db i = Inr p"
    "authorization_require db actor (ip_fund_id p) Perm_RECORD_REVIEW = Inr role"
    "ip_status p \<in> {SUBMITTED, UNDER_REVIEW}" "advance db p n (ip_status p) t None = Inr (p', db1)"
    "insert_proposal_review db1 rv = Inr db2"
    "history ids 1 db2 p' v Workflow_REVIEW_RECORDED (Some (ip_status p')) (ip_status p') actor role (Some (strip comment)) prov t = Inr db'"
    by (auto simp: proposal_record_review_def result_simps Let_def simp del: insert_iff split: prod.splits del: insertE)
  have st: "ip_status p' = ip_status p"
    using r(4) ok the_proposal_Inr [of db i p] r(1) by (auto simp: advance_Inr advanced_def dest!: first_row_key)
  have frame: "db_investment_proposals db2 = db_investment_proposals db1" "db_proposal_transitions db2 = db_proposal_transitions db1"
    using r(5) by (auto simp: insert_proposal_review_def result_simps)
  show ?thesis
    using moved_step [OF ok r(1), of actor Workflow_REVIEW_RECORDED role "ip_status p" n t p' db1 db2, OF _ _ _ _ frame r(6) [unfolded st]] r(2-4) Record_review by (auto simp: separation_of_duties_def)
next
  case (Approve i' n' reason)
  with run target obtain p role db1 p' prov rs and v :: proposal_version_row where r: "the_proposal db i = Inr p"
    "authorization_require db actor (ip_fund_id p) Perm_APPROVE_PROPOSAL = Inr role"
    "ip_status p = UNDER_REVIEW" "actor \<noteq> ip_created_by_user_id p" "advance db p n APPROVED t None = Inr (p', db1)"
    "history ids 0 db1 p' v Workflow_APPROVED (Some (ip_status p)) APPROVED actor role rs prov t = Inr db'"
    by (auto simp: proposal_approve_def result_simps Let_def split: prod.splits)
  show ?thesis
    using moved_step [OF ok r(1), of actor Workflow_APPROVED role APPROVED n t p' db1 db1, OF _ _ _ _ refl refl r(6)] r(2-5) Approve by (auto simp: separation_of_duties_def)
next
  case (Start_review i' n')
  with run target have r: "\<exists>res. status_transition ids db i actor n Perm_START_REVIEW [SUBMITTED] UNDER_REVIEW
       Workflow_REVIEW_STARTED None t False = Inr (res, db')"
    by (auto simp: proposal_start_review_def result_simps)
  then show ?thesis using Start_review
    by (auto simp: separation_of_duties_def dest!: status_transition_moved [OF ok])
next
  case (Request_changes i' n' reason)
  with run target have r: "\<exists>res re. status_transition ids db i actor n Perm_REQUEST_CHANGES [SUBMITTED, UNDER_REVIEW]
       CHANGES_REQUESTED Workflow_CHANGES_REQUESTED (Some re) t False = Inr (res, db')"
    by (auto simp: proposal_request_changes_def result_simps)
  then show ?thesis using Request_changes
    by (auto simp: separation_of_duties_def dest!: status_transition_moved [OF ok])
next
  case (Reject i' n' reason)
  with run target have r: "\<exists>res re. status_transition ids db i actor n Perm_REJECT_PROPOSAL [UNDER_REVIEW] REJECTED
       Workflow_REJECTED (Some re) t True = Inr (res, db')"
    by (auto simp: proposal_reject_def result_simps)
  then show ?thesis using Reject
    by (auto simp: separation_of_duties_def dest!: status_transition_moved [OF ok])
next
  case (Withdraw i' n' reason)
  with run target obtain p res re where r: "the_proposal db i = Inr p" "ip_created_by_user_id p = actor"
     "status_transition ids db i actor n Perm_WITHDRAW_PROPOSAL [DRAFT, SUBMITTED, CHANGES_REQUESTED] WITHDRAWN
       Workflow_WITHDRAWN (Some re) t False = Inr (res, db')"
    by (auto simp: proposal_withdraw_def require_owner_def result_simps)
  have "\<exists>p tr. moved db db' actor t i n p tr \<and> pt_action tr = Workflow_WITHDRAWN"
    by (rule status_transition_moved [OF ok r(3)]) (use r(1,2) in \<open>auto simp: separation_of_duties_def\<close>)
  then show ?thesis using Withdraw by simp
qed (use target in simp)
  then show thesis using same moved by blast
qed

end
