(* ===== verification/Governance_Properties.thy ===== *)
theory Governance_Properties
  imports Governance_Steps
begin

text \<open>
  What holds of every proposal the service reaches: its stored transitions are a path of the
  abstract workflow that ends in its status and row version, terminal proposals accept no command,
  of two commands with the same expected version one at most takes effect, and a decision rests on
  the permissions, the reviews and the policy evidence it needs.
\<close>

section \<open>The trail of a proposal\<close>

text \<open>\<open>workflow_path author trs s n u\<close>: the transitions lead to status \<open>s\<close>, row version \<open>n\<close>, at time \<open>u\<close>.\<close>

inductive workflow_path :: "uuid \<Rightarrow> proposal_transition_row list \<Rightarrow> proposal_status \<Rightarrow> int \<Rightarrow> datetime \<Rightarrow> bool" where
  first: "workflow (pt_action tr) None (pt_to_status tr) \<Longrightarrow> pt_from_status tr = None \<Longrightarrow>
     pt_resulting_row_version tr = 1 \<Longrightarrow> separation_of_duties (pt_action tr) (pt_actor_user_id tr) author \<Longrightarrow>
     workflow_path author [tr] (pt_to_status tr) 1 (pt_occurred_at tr)"
| later: "workflow_path author trs s n u \<Longrightarrow> workflow (pt_action tr) (Some s) (pt_to_status tr) \<Longrightarrow>
     pt_from_status tr = Some s \<Longrightarrow> pt_resulting_row_version tr = n + 1 \<Longrightarrow>
     separation_of_duties (pt_action tr) (pt_actor_user_id tr) author \<Longrightarrow>
     instant u \<le> instant (pt_occurred_at tr) \<Longrightarrow>
     workflow_path author (trs @ [tr]) (pt_to_status tr) (n + 1) (pt_occurred_at tr)"

definition trail :: "database \<Rightarrow> uuid \<Rightarrow> proposal_transition_row list" where
  "trail db i = filter (\<lambda>t. pt_proposal_id t = i) (db_proposal_transitions db)"

definition governance_ok :: "database \<Rightarrow> bool" where
  "governance_ok db \<longleftrightarrow>
     table_ok investment_proposal_clash investment_proposal_checks (db_investment_proposals db)
     \<and> (\<forall>p \<in> set (db_investment_proposals db). workflow_path (ip_created_by_user_id p) (trail db (ip_id p))
          (ip_status p) (ip_row_version p) (ip_updated_at p))
     \<and> (\<forall>t \<in> set (db_proposal_transitions db). refers ip_id (db_investment_proposals db) (pt_proposal_id t))"

inductive governance_run :: "digest \<Rightarrow> database \<Rightarrow> bool" for H where
  start: "db_investment_proposals db = [] \<Longrightarrow> db_proposal_transitions db = [] \<Longrightarrow> governance_run H db"
| exec: "governance_run H db \<Longrightarrow> governance_exec H ids db actor t c = Inr db' \<Longrightarrow> governance_run H db'"
| other: "governance_run H db \<Longrightarrow> db_investment_proposals db' = db_investment_proposals db \<Longrightarrow>
     db_proposal_transitions db' = db_proposal_transitions db \<Longrightarrow> governance_run H db'"

lemma exec_created:
  assumes "governance_exec H ids db actor t (Create f c) = Inr db'"
  obtains p tr where "db_investment_proposals db' = db_investment_proposals db @ [p]"
    "investment_proposal_checks p" "\<forall>r \<in> set (db_investment_proposals db). ip_id r \<noteq> ip_id p"
    "ip_status p = DRAFT" "ip_row_version p = 1" "ip_updated_at p = t" "ip_created_by_user_id p = actor"
    "db_proposal_transitions db' = db_proposal_transitions db @ [tr]"
    "pt_proposal_id tr = ip_id p" "pt_action tr = Workflow_CREATED" "pt_from_status tr = None"
    "pt_to_status tr = DRAFT" "pt_resulting_row_version tr = 1" "pt_actor_user_id tr = actor" "pt_occurred_at tr = t"
proof -
  from assms obtain role p db1 v db2 db3 where
    r: "p = \<lparr>ip_id = ids 0, ip_fund_id = f, ip_created_by_user_id = actor, ip_status = DRAFT, ip_current_version = 1,
          ip_row_version = 1, ip_created_at = t, ip_updated_at = t\<rparr>"
    "insert_investment_proposal db p = Inr db1" "add_version H ids 1 db1 p actor c t None = Inr (v, db2)"
    "history ids (2 + length (pvi_lines c)) db2 p v Workflow_CREATED None DRAFT actor role None
       (JObj [(''content_hash'', JStr (pv_content_hash v))]) t = Inr db'"
    by (auto simp: proposal_create_def result_simps Let_def split: prod.splits)
  define tr where "tr = transition_of (ids (2 + length (pvi_lines c))) p v Workflow_CREATED None DRAFT actor role None
       (JObj [(''content_hash'', JStr (pv_content_hash v))]) t"
  have ins: "db_investment_proposals db1 = db_investment_proposals db @ [p]" "investment_proposal_checks p"
    "\<forall>r \<in> set (db_investment_proposals db). ip_id r \<noteq> ip_id p" "db_proposal_transitions db1 = db_proposal_transitions db"
    using r(2) by (auto simp: insert_investment_proposal_def result_simps investment_proposal_clash_def)
  show thesis
    by (rule that [of p tr]) (use ins history_Inr(1,2) [OF r(4)] add_version_Inr(3,4) [OF r(3)] in
      \<open>simp_all add: tr_def transition_of_def r(1)\<close>)
qed

lemma proposals_table:
  "table_ok investment_proposal_clash investment_proposal_checks rows \<longleftrightarrow>
     distinct (map ip_id rows) \<and> (\<forall>r \<in> set rows. investment_proposal_checks r)"
proof -
  have "sorted_wrt (\<lambda>r r'. \<not> investment_proposal_clash r r') rows = distinct (map ip_id rows)"
    by (induction rows) (auto simp: investment_proposal_clash_def)
  then show ?thesis by (simp add: table_ok_def)
qed

lemma map_update_row: "key q = k \<Longrightarrow> map key (update_row key k (\<lambda>_. q) rows) = map key rows"
  by (simp add: update_row_def)

lemma first_row_update_key:
  "key q = k \<Longrightarrow> first_row (\<lambda>r. key r = k) (update_row key k (\<lambda>_. q) rows) =
     map_option (\<lambda>_. q) (first_row (\<lambda>r. key r = k) rows)"
  by (induction rows) (auto simp: update_row_def)

lemma trail_append: "db_proposal_transitions db' = db_proposal_transitions db @ [tr] \<Longrightarrow>
  trail db' i = trail db i @ (if pt_proposal_id tr = i then [tr] else [])"
  by (simp add: trail_def)

lemma exec_governance_ok:
  assumes run: "governance_exec H ids db actor t c = Inr db'" and ok: "governance_ok db"
  shows "governance_ok db'"
proof -
  have tbl: "table_ok investment_proposal_clash investment_proposal_checks (db_investment_proposals db)"
    and paths: "\<And>p. p \<in> set (db_investment_proposals db) \<Longrightarrow> workflow_path (ip_created_by_user_id p)
      (trail db (ip_id p)) (ip_status p) (ip_row_version p) (ip_updated_at p)"
    and refs: "\<And>x. x \<in> set (db_proposal_transitions db) \<Longrightarrow> refers ip_id (db_investment_proposals db) (pt_proposal_id x)"
    using ok by (auto simp: governance_ok_def)
  show ?thesis
  proof (cases "command_target c")
    case None
    then obtain f content where c: "c = Create f content" by (cases c) auto
    obtain p tr where n: "db_investment_proposals db' = db_investment_proposals db @ [p]"
      "investment_proposal_checks p" "\<forall>r \<in> set (db_investment_proposals db). ip_id r \<noteq> ip_id p"
      "ip_status p = DRAFT" "ip_row_version p = 1" "ip_updated_at p = t" "ip_created_by_user_id p = actor"
      "db_proposal_transitions db' = db_proposal_transitions db @ [tr]"
      "pt_proposal_id tr = ip_id p" "pt_action tr = Workflow_CREATED" "pt_from_status tr = None"
      "pt_to_status tr = DRAFT" "pt_resulting_row_version tr = 1" "pt_actor_user_id tr = actor" "pt_occurred_at tr = t"
      by (rule exec_created [OF run [unfolded c]])
    have "trail db (ip_id p) = []"
      using refs n(3) by (force simp: trail_def filter_empty_conv refers_def)
    then have "workflow_path (ip_created_by_user_id p) (trail db' (ip_id p)) (ip_status p) (ip_row_version p) (ip_updated_at p)"
      using workflow_path.first [of tr actor] n by (simp add: trail_append [OF n(8)] separation_of_duties_def)
    moreover have "workflow_path (ip_created_by_user_id q) (trail db' (ip_id q)) (ip_status q) (ip_row_version q) (ip_updated_at q)"
      if "q \<in> set (db_investment_proposals db)" for q
    proof -
      have "trail db' (ip_id q) = trail db (ip_id q)"
        using n(3,9) that by (auto simp: trail_append [OF n(8)])
      with paths [OF that] show ?thesis by simp
    qed
    moreover have "table_ok investment_proposal_clash investment_proposal_checks (db_investment_proposals db')"
      using tbl n(1-3) by (auto simp: table_ok_def sorted_wrt_append investment_proposal_clash_def)
    moreover have "refers ip_id (db_investment_proposals db') (pt_proposal_id x)" if "x \<in> set (db_proposal_transitions db')" for x
      using that refs n(1,8,9) by (auto simp: refers_def)
    ultimately show ?thesis unfolding governance_ok_def n(1) by auto
  next
    case (Some k)
    then obtain i n where "command_target c = Some (i, n)" by (cases k) auto
    with tbl run show ?thesis
    proof (cases rule: exec_moved)
      case (same p)
      with ok show ?thesis by simp
    next
      case (moved p tr)
      define p' where "p' = advanced p (pt_to_status tr) t
          (if pt_action tr = Workflow_REVISED then Some (ip_current_version p + 1) else None)"
      from moved(1) have m: "first_row (\<lambda>r. ip_id r = i) (db_investment_proposals db) = Some p" "ip_row_version p = n"
        "instant (ip_updated_at p) \<le> instant t" "separation_of_duties (pt_action tr) actor (ip_created_by_user_id p)"
        "workflow (pt_action tr) (Some (ip_status p)) (pt_to_status tr)" "pt_proposal_id tr = i"
        "pt_from_status tr = Some (ip_status p)" "pt_actor_user_id tr = actor" "pt_resulting_row_version tr = n + 1"
        "pt_occurred_at tr = t"
        "db_investment_proposals db' = update_row ip_id i (\<lambda>_. p') (db_investment_proposals db)"
        "db_proposal_transitions db' = db_proposal_transitions db @ [tr]"
        unfolding moved_def p'_def by blast+
      have p: "p \<in> set (db_investment_proposals db)" "ip_id p = i" using first_row_key [OF m(1)] by simp_all
      have p': "ip_id p' = i" "ip_status p' = pt_to_status tr" "ip_row_version p' = n + 1" "ip_updated_at p' = t"
        "ip_created_by_user_id p' = ip_created_by_user_id p" "investment_proposal_checks p'"
        using p m(2) tbl by (auto simp: p'_def advanced_def investment_proposal_checks_def table_ok_def)
      have rows: "r \<in> set (db_investment_proposals db') \<longleftrightarrow> r = p' \<or> r \<in> set (db_investment_proposals db) \<and> ip_id r \<noteq> i" for r
        using p unfolding m(11) set_update_row by auto
      have "workflow_path (ip_created_by_user_id p') (trail db' (ip_id p')) (ip_status p') (ip_row_version p') (ip_updated_at p')"
        using workflow_path.later [OF paths [OF p(1)], of tr] p m(2-10) p' by (simp add: trail_append [OF m(12)])
      moreover have "trail db' (ip_id r) = trail db (ip_id r)" if "ip_id r \<noteq> i" for r
        using that m(6) by (simp add: trail_append [OF m(12)])
      moreover have "refers ip_id (db_investment_proposals db') (pt_proposal_id x)"
        if "x \<in> set (db_proposal_transitions db')" for x
      proof -
        have "ip_id ` set (db_investment_proposals db') = ip_id ` set (db_investment_proposals db)"
          using arg_cong [OF map_update_row [where key = ip_id, OF p'(1)], of set "db_investment_proposals db"]
          unfolding m(11) by simp
        moreover have "i \<in> ip_id ` set (db_investment_proposals db)" using p by blast
        ultimately show ?thesis using that refs m(6,12) by (auto simp: refers_def)
      qed
      moreover have "table_ok investment_proposal_clash investment_proposal_checks (db_investment_proposals db')"
        using tbl p'(1,6) unfolding m(11) proposals_table by (auto simp: map_update_row [where key = ip_id, OF p'(1)] set_update_row)
      ultimately show ?thesis using paths unfolding governance_ok_def Ball_def rows by metis
    qed
  qed
qed

lemma governance_run_ok:
  assumes "governance_run H db"
  shows "governance_ok db"
  using assms
proof induction
  case (start db)
  then show ?case by (simp add: governance_ok_def table_ok_def)
next
  case (exec db ids actor t c db')
  from exec.hyps(2) exec.IH show ?case by (rule exec_governance_ok)
next
  case (other db db')
  then show ?case by (simp add: governance_ok_def trail_def)
qed

text \<open>C7: For every proposal the service reaches, the stored transitions are a path of the abstract
  workflow that starts at CREATED, ends in the status, row version and update time of the
  proposal, has consecutive row versions and ordered times, and in which the author never approves
  or rejects.\<close>

theorem governance_history:
  assumes "governance_run H db" and "the_proposal db i = Inr p"
  shows "workflow_path (ip_created_by_user_id p) (trail db i) (ip_status p) (ip_row_version p) (ip_updated_at p)"
  using governance_run_ok [OF assms(1)] assms(2)
  by (auto simp: governance_ok_def the_proposal_Inr dest!: first_row_key)

theorem terminal_proposals_final:
  assumes "governance_ok db" and "the_proposal db i = Inr p" and "ip_status p \<in> {APPROVED, REJECTED, WITHDRAWN}"
    and "command_target c = Some (i, n)"
  shows "\<exists>e. governance_exec H ids db actor t c = Inl e"
proof (rule ccontr)
  assume "\<nexists>e. governance_exec H ids db actor t c = Inl e"
  then obtain db' where run: "governance_exec H ids db actor t c = Inr db'"
    by (cases "governance_exec H ids db actor t c") auto
  from assms(1) have ok: "table_ok investment_proposal_clash investment_proposal_checks (db_investment_proposals db)"
    by (simp add: governance_ok_def)
  from ok run assms(4) show False
  proof (cases rule: exec_moved)
    case (same q)
    with assms(2,3) show False by simp
  next
    case (moved q tr)
    with assms(2,3) show False by (auto simp: moved_def the_proposal_Inr dest!: workflow_terminal)
  qed
qed

text \<open>C14: Of two commands issued against the same row version of a proposal, once the first has
  changed the database the second fails or changes nothing, whoever issues it and whatever it
  asks.\<close>

theorem no_lost_update:
  assumes "governance_ok db"
    and first: "governance_exec H ids db actor t c = Inr db1" and "db1 \<noteq> db"
    and target: "command_target c = Some (i, n)" "command_target c' = Some (i, n)"
  shows "(\<exists>e. governance_exec H ids' db1 actor' t' c' = Inl e) \<or> governance_exec H ids' db1 actor' t' c' = Inr db1"
proof (cases "governance_exec H ids' db1 actor' t' c'")
  case (Inr db2)
  note second = this
  have ok: "table_ok investment_proposal_clash investment_proposal_checks (db_investment_proposals db)"
    "table_ok investment_proposal_clash investment_proposal_checks (db_investment_proposals db1)"
    using assms(1) exec_governance_ok [OF first assms(1)] by (auto simp: governance_ok_def)
  from ok(1) first target(1) obtain p tr where m: "moved db db1 actor t i n p tr"
    by (cases rule: exec_moved) (use assms(3) in auto)
  then have p: "p \<in> set (db_investment_proposals db)" "ip_id p = i" "ip_row_version p = n"
    by (auto simp: moved_def dest: first_row_key)
  from m p have "first_row (\<lambda>r. ip_id r = i) (db_investment_proposals db1) = Some (advanced p (pt_to_status tr) t
      (if pt_action tr = Workflow_REVISED then Some (ip_current_version p + 1) else None))"
    by (auto simp: moved_def first_row_update_key advanced_def)
  moreover from ok(2) second target(2) have "db2 = db1 \<or> (\<exists>q tr'. moved db1 db2 actor' t' i n q tr')"
    by (cases rule: exec_moved) auto
  ultimately have "db2 = db1" using p(3) by (auto simp: moved_def advanced_def)
  with Inr show ?thesis by simp
qed simp

section \<open>Authority\<close>

definition granted_role :: "database \<Rightarrow> uuid \<Rightarrow> uuid \<Rightarrow> governance_role \<Rightarrow> bool" where
  "granted_role db actor fund_id role \<longleftrightarrow> (\<exists>r \<in> set (db_roles db). rl_code r = governance_role_value role \<and>
     (\<exists>ur \<in> set (db_user_roles db). ur_role_id ur = rl_id r \<and> ur_user_id ur = actor \<and> ur_fund_id ur = fund_id))"

lemma governance_role_value_inject: "governance_role_value r = governance_role_value r' \<longleftrightarrow> r = r'"
  by (cases r; cases r') simp_all

lemma role_of_code_Some: "role_of_code code = Some r \<longleftrightarrow> code = governance_role_value r"
  by (cases r) (auto simp: role_of_code_def)

lemma role_of_code_None: "role_of_code (governance_role_value r) \<noteq> None"
  by (cases r) (simp_all add: role_of_code_def)

lemma granted_roles:
  "role \<in> set (List.map_filter role_of_code (role_codes db actor f)) \<longleftrightarrow> granted_role db actor f role"
proof -
  have "role \<in> set (List.map_filter role_of_code cs) \<longleftrightarrow> governance_role_value role \<in> set cs" for cs
    by (induction cs) (auto simp: map_filter_simps role_of_code_Some governance_role_value_inject
        role_of_code_None split: option.split)
  moreover have "c \<in> set (role_codes db actor f) \<longleftrightarrow> (\<exists>r \<in> set (db_roles db). rl_code r = c \<and>
     (\<exists>ur \<in> set (db_user_roles db). ur_role_id ur = rl_id r \<and> ur_user_id ur = actor \<and> ur_fund_id ur = f))" for c
    by (auto simp: role_codes_def)
  ultimately show ?thesis by (simp add: granted_role_def)
qed

theorem authorization_iff:
  "authorization_require db actor f perm = Inr role \<longleftrightarrow>
     (\<exists>u. first_row (\<lambda>r. usr_id r = actor) (db_users db) = Some u \<and> usr_is_active u)
     \<and> granted_role db actor f role \<and> perm \<in> set (ROLE_PERMISSIONS role)
     \<and> (\<forall>r. granted_role db actor f r \<and> perm \<in> set (ROLE_PERMISSIONS r) \<longrightarrow>
          governance_role_value role \<le> governance_role_value r)"
proof -
  define xs where "xs = filter (\<lambda>r. perm \<in> set (ROLE_PERMISSIONS r)) (List.map_filter role_of_code (role_codes db actor f))"
  have xs: "r \<in> set xs \<longleftrightarrow> granted_role db actor f r \<and> perm \<in> set (ROLE_PERMISSIONS r)" for r
    by (auto simp: xs_def granted_roles)
  have "(case sort_key governance_role_value xs of [] \<Rightarrow> Inl e | r # _ \<Rightarrow> Inr r) = Inr role \<longleftrightarrow>
      role \<in> set xs \<and> (\<forall>r \<in> set xs. governance_role_value role \<le> governance_role_value r)" for e :: app_error
  proof (cases "sort_key governance_role_value xs")
    case Nil
    then have "xs = []" by (metis set_empty set_sort)
    then show ?thesis using Nil by simp
  next
    case (Cons y ys)
    note hd = sort_key_first [OF Cons]
    have "role = y" if "role \<in> set xs" "\<forall>r \<in> set xs. governance_role_value role \<le> governance_role_value r"
      using hd(1) hd(2) [OF that(1)] that(2) governance_role_value_inject [of role y] by force
    then show ?thesis using Cons hd by auto
  qed
  then show ?thesis
    unfolding authorization_require_def xs_def [symmetric]
    by (auto simp: xs split: option.splits)
qed

lemma authorized_role:
  assumes "authorization_require db actor f perm = Inr role"
  shows "granted_role db actor f role" "perm \<in> set (ROLE_PERMISSIONS role)"
  using assms unfolding authorization_require_def
  by (auto simp: granted_roles split: option.splits if_splits list.splits dest!: sort_key_first(1))

section \<open>Decisions\<close>

lemma latest_analysis_Some:
  assumes "latest_analysis db v = Some a"
  shows "a \<in> set (db_proposal_analyses db)" "pa_proposal_version_id a = v"
    "\<And>b. b \<in> set (db_proposal_analyses db) \<Longrightarrow> pa_proposal_version_id b = v \<Longrightarrow>
      instant (pa_recorded_at b) \<le> instant (pa_recorded_at a)"
proof -
  define rows where "rows = filter (\<lambda>a. pa_proposal_version_id a = v) (db_proposal_analyses db)"
  define xs where "xs = sort_key (\<lambda>a. (instant (pa_recorded_at a), pa_id a)) rows"
  have a: "rows \<noteq> []" "a = last xs" using assms by (auto simp: latest_analysis_def Let_def rows_def xs_def split: if_splits)
  then have "xs \<noteq> []" by (metis xs_def set_empty set_sort)
  have set: "set xs = set rows" by (simp add: xs_def)
  then have "a \<in> set rows" using a(2) \<open>xs \<noteq> []\<close> by (metis last_in_set)
  then show "a \<in> set (db_proposal_analyses db)" "pa_proposal_version_id a = v" by (auto simp: rows_def)
  fix b assume "b \<in> set (db_proposal_analyses db)" "pa_proposal_version_id b = v"
  then have "b \<in> set xs" by (simp add: set rows_def)
  moreover have "sorted (map (\<lambda>a. (instant (pa_recorded_at a), pa_id a)) xs)" by (simp add: xs_def)
  ultimately have "(instant (pa_recorded_at b), pa_id b) \<le> (instant (pa_recorded_at a), pa_id a)"
    using a(2) \<open>xs \<noteq> []\<close> by (induction xs) auto
  then show "instant (pa_recorded_at b) \<le> instant (pa_recorded_at a)" by auto
qed

text \<open>The evidence a decision rests on: the latest analysis of the version, with no blocker.\<close>

definition clear_evidence :: "database \<Rightarrow> uuid \<Rightarrow> proposal_analysis_row \<Rightarrow> bool" where
  "clear_evidence db version_id a \<longleftrightarrow>
     a \<in> set (db_proposal_analyses db) \<and> pa_proposal_version_id a = version_id
     \<and> (\<forall>b \<in> set (db_proposal_analyses db). pa_proposal_version_id b = version_id \<longrightarrow>
          instant (pa_recorded_at b) \<le> instant (pa_recorded_at a))
     \<and> (\<exists>item \<in> set (db_risk_evaluation_items db). \<exists>rule \<in> set (db_risk_policy_rules db).
          rei_evaluation_id item = pa_risk_evaluation_id a \<and> rei_rule_id item = rule_id rule)
     \<and> (\<forall>item \<in> set (db_risk_evaluation_items db). \<forall>rule \<in> set (db_risk_policy_rules db).
          rei_evaluation_id item = pa_risk_evaluation_id a \<longrightarrow> rei_rule_id item = rule_id rule \<longrightarrow>
          rule_severity rule = Severity_BLOCKING \<longrightarrow> rei_status item = Policy_PASS)"

lemma required_clear_analysis_Inr:
  assumes "required_clear_analysis db v = Inr a"
  shows "clear_evidence db (pv_id v) a"
proof -
  from assms have a: "latest_analysis db (pv_id v) = Some a" and ne: "policy_rows db (pa_risk_evaluation_id a) \<noteq> []"
    and b: "blockers (policy_rows db (pa_risk_evaluation_id a)) = []"
    by (auto simp: required_clear_analysis_def Let_def split: option.splits if_splits)
  from ne have "\<exists>item \<in> set (db_risk_evaluation_items db). \<exists>rule \<in> set (db_risk_policy_rules db).
          rei_evaluation_id item = pa_risk_evaluation_id a \<and> rei_rule_id item = rule_id rule"
    by (force simp: policy_rows_def filter_empty_conv)
  moreover have "rei_status item = Policy_PASS" if "item \<in> set (db_risk_evaluation_items db)"
    "rule \<in> set (db_risk_policy_rules db)" "rei_evaluation_id item = pa_risk_evaluation_id a"
    "rei_rule_id item = rule_id rule" "rule_severity rule = Severity_BLOCKING" for item rule
    using b that by (force simp: blockers_def policy_rows_def filter_empty_conv)
  ultimately show ?thesis using latest_analysis_Some [OF a] by (auto simp: clear_evidence_def)
qed

text \<open>C15: An approval that succeeds was made by a manager of the fund who is not the author, on a
  proposal under review whose current version has a review and whose latest analysis has policy
  results and no blocking rule that failed to pass; it does not touch the ledger.\<close>

theorem approve_requires:
  assumes "proposal_approve ids db i actor n reason t = Inr (p', db')"
  shows "\<exists>p v a. the_proposal db i = Inr p \<and> ip_status p = UNDER_REVIEW \<and> actor \<noteq> ip_created_by_user_id p
    \<and> granted_role db actor (ip_fund_id p) Role_MANAGER
    \<and> the_version db p = Inr v \<and> clear_evidence db (pv_id v) a
    \<and> (\<exists>r \<in> set (db_proposal_reviews db). prv_proposal_version_id r = pv_id v)
    \<and> db_transactions db' = db_transactions db"
proof -
  from assms obtain p role v a db1 q prov rs where r: "the_proposal db i = Inr p"
    "authorization_require db actor (ip_fund_id p) Perm_APPROVE_PROPOSAL = Inr role"
    "actor \<noteq> ip_created_by_user_id p" "ip_status p = UNDER_REVIEW" "the_version db p = Inr v"
    "required_clear_analysis db v = Inr a" "filter (\<lambda>r. prv_proposal_version_id r = pv_id v) (db_proposal_reviews db) \<noteq> []"
    "advance db p n APPROVED t None = Inr (q, db1)"
    "history ids 0 db1 q v Workflow_APPROVED (Some UNDER_REVIEW) APPROVED actor role rs prov t = Inr db'"
    by (auto simp: proposal_approve_def result_simps Let_def split: prod.splits)
  have "db_transactions db' = db_transactions db"
    using r(8,9) by (auto simp: advance_def history_def Let_def result_simps insert_proposal_transition_def
        insert_audit_event_def split: if_splits)
  moreover have role: "granted_role db actor (ip_fund_id p) role"
    "Perm_APPROVE_PROPOSAL \<in> set (ROLE_PERMISSIONS role)"
    using authorized_role [OF r(2)] by simp_all
  moreover have "role = Role_MANAGER" using role(2) by (cases role) auto
  ultimately show ?thesis using r required_clear_analysis_Inr [OF r(6)]
    by (intro exI [of _ p] exI [of _ v] exI [of _ a]) (auto simp: filter_empty_conv)
qed

end
