(* ===== verification/Governance_Witnesses.thy ===== *)
theory Governance_Witnesses
  imports Examples Governance_Properties
begin

text \<open>
  A proposal from creation to approval, evaluated: \<open>gov_db k\<close> is the database after the first
  \<open>k + 1\<close> of the calls create, analyze, submit, start review, record review, approve. The
  witnesses of the governance theorems are these states.
\<close>

section \<open>A proposal from draft to approval\<close>

definition gov_content :: proposal_version_input where
  "gov_content = \<lparr>pvi_title = ''t'', pvi_thesis = ''x'', pvi_portfolio_input_hash = hash_text CHR ''0'',
     pvi_portfolio_as_of = Aware 50 0, pvi_lines = [\<lparr>pli_instrument_id = 8, pli_action = Action_BUY,
       pli_current_weight = dzero, pli_proposed_weight = Dec 1 (- 1), pli_estimated_notional = Dec 100 0,
       pli_rationale = ''r''\<rparr>]\<rparr>"

definition gov_base :: database where
  "gov_base = example_db\<lparr>
     db_risk_policies := [\<lparr>rp_id = 71, rp_fund_id = 1, rp_name = ''P'', rp_version = 1, rp_effective_from = Aware 0 0,
       rp_effective_to = None, rp_created_at = Aware 0 0, rp_created_by_user_id = None\<rparr>],
     db_risk_policy_rules := [\<lparr>rule_id = 70, rule_policy_id = 71, rule_metric_key = ''m'', rule_operator = Policy_MAX,
       rule_threshold = dunit, rule_unit = ''w'', rule_explanation_template = ''e'', rule_severity = Severity_BLOCKING\<rparr>],
     db_risk_evaluations := [\<lparr>re_id = 72, re_fund_id = 1, re_policy_id = 71, re_as_of = Aware 50 0,
       re_input_hash = hash_text CHR ''1'', re_calculation_version = ''risk-policy-v1'', re_created_at = Aware 50 0\<rparr>],
     db_risk_evaluation_items := [\<lparr>rei_id = 73, rei_evaluation_id = 72, rei_rule_id = 70, rei_status = Policy_PASS,
       rei_observed_value = Some dzero, rei_threshold = dunit, rei_breach_amount = Some dzero, rei_unit = ''w'',
       rei_explanation = ''e''\<rparr>]\<rparr>"

definition gov_draft :: investment_proposal_row where
  "gov_draft = \<lparr>ip_id = 100, ip_fund_id = 1, ip_created_by_user_id = 5, ip_status = DRAFT, ip_current_version = 1,
     ip_row_version = 1, ip_created_at = Aware 60 0, ip_updated_at = Aware 60 0\<rparr>"

definition gov_version :: proposal_version_row where
  "gov_version = version_of example_digest 101 gov_draft 5 gov_content (Aware 60 0) None"

definition gov_state ::
  "investment_proposal_row \<Rightarrow> proposal_analysis_row list \<Rightarrow> proposal_review_row list
     \<Rightarrow> proposal_transition_row list \<Rightarrow> audit_event_row list \<Rightarrow> database" where
  "gov_state p ans rvs ts es = gov_base\<lparr>db_investment_proposals := [p], db_proposal_versions := [gov_version],
     db_proposal_lines := [line_of 102 101 (hd (pvi_lines gov_content))], db_proposal_analyses := ans,
     db_proposal_reviews := rvs, db_proposal_transitions := ts, db_audit_events := es\<rparr>"

lemma gov_base_tables:
  "db_investment_proposals gov_base = []" "db_proposal_versions gov_base = []" "db_proposal_lines gov_base = []"
  "db_proposal_transitions gov_base = []" "db_audit_events gov_base = []" "db_proposal_analyses gov_base = []"
  "db_proposal_reviews gov_base = []" "db_scenario_runs gov_base = []"
  "fd_id ` set (db_funds gov_base) = {1}" "usr_id ` set (db_users gov_base) = {5, 6}"
  "ins_id ` set (db_instruments gov_base) = {8}" "re_id ` set (db_risk_evaluations gov_base) = {72}"
  by (simp_all add: gov_base_def example_db_def empty_database_def)

lemma gov_authority:
  assumes "db_users db = db_users gov_base" "db_roles db = db_roles gov_base" "db_user_roles db = db_user_roles gov_base"
  shows "perm \<in> set (ROLE_PERMISSIONS Role_ANALYST) \<Longrightarrow> authorization_require db 5 1 perm = Inr Role_ANALYST"
    and "perm \<in> set (ROLE_PERMISSIONS Role_MANAGER) \<Longrightarrow> authorization_require db 6 1 perm = Inr Role_MANAGER"
  by (simp_all add: authorization_require_def assms role_codes_def gov_base_def example_db_def role_of_code_def
      map_filter_simps del: ROLE_PERMISSIONS.simps)

lemma gov_state_tables:
  "db_investment_proposals (gov_state p ans rvs ts es) = [p]" "db_proposal_versions (gov_state p ans rvs ts es) = [gov_version]"
  "db_proposal_analyses (gov_state p ans rvs ts es) = ans" "db_proposal_reviews (gov_state p ans rvs ts es) = rvs"
  "db_proposal_transitions (gov_state p ans rvs ts es) = ts" "db_audit_events (gov_state p ans rvs ts es) = es"
  "db_users (gov_state p ans rvs ts es) = db_users gov_base" "db_roles (gov_state p ans rvs ts es) = db_roles gov_base"
  "db_user_roles (gov_state p ans rvs ts es) = db_user_roles gov_base" "db_funds (gov_state p ans rvs ts es) = db_funds gov_base"
  "db_risk_evaluations (gov_state p ans rvs ts es) = db_risk_evaluations gov_base"
  "db_risk_evaluation_items (gov_state p ans rvs ts es) = db_risk_evaluation_items gov_base"
  "db_risk_policy_rules (gov_state p ans rvs ts es) = db_risk_policy_rules gov_base"
  "db_scenario_runs (gov_state p ans rvs ts es) = []"
  by (simp_all add: gov_state_def gov_base_tables)

lemma gov_state_updates:
  "(gov_state p ans rvs ts es)\<lparr>db_proposal_transitions := ts'\<rparr> = gov_state p ans rvs ts' es"
  "(gov_state p ans rvs ts es)\<lparr>db_audit_events := es'\<rparr> = gov_state p ans rvs ts es'"
  "(gov_state p ans rvs ts es)\<lparr>db_proposal_analyses := ans'\<rparr> = gov_state p ans' rvs ts es"
  "(gov_state p ans rvs ts es)\<lparr>db_proposal_reviews := rvs'\<rparr> = gov_state p ans rvs' ts es"
  by (simp_all add: gov_state_def)

lemma gov_version_fields:
  "pv_id gov_version = 101" "pv_proposal_id gov_version = 100" "pv_version gov_version = 1"
  "pv_portfolio_as_of gov_version = Aware 50 0"
  by (simp_all add: gov_version_def version_of_def gov_draft_def gov_content_def)

lemma gov_advance:
  assumes "is_aware t" "instant (ip_updated_at p) \<le> instant t" "ip_row_version p = n"
  shows "advance (gov_state p ans rvs ts es) p n st t None =
    Inr (advanced p st t None, gov_state (advanced p st t None) ans rvs ts es)"
  using assms by (simp add: advance_def aware_required_def Let_def gov_state_tables advanced_def)
    (simp add: gov_state_def)

lemma workflow_action_length: "length (lower (workflow_action_value a)) \<le> 20"
  by (cases a) (simp_all add: lower_def)

lemma gov_history:
  assumes "\<forall>r \<in> set ts. pt_id r \<noteq> ids n" "\<forall>e \<in> set es. ae_id e \<noteq> ids (Suc n)" "ip_id p = 100" "ip_fund_id p = 1"
    "0 < ip_row_version p" "actor \<in> {5, 6}" "pred_option (varchar 2000) reason"
    and tr: "tr = transition_of (ids n) p gov_version action from_status st actor role reason prov t"
  shows "history ids n (gov_state p ans rvs ts es) p gov_version action from_status st actor role reason prov t =
    Inr (gov_state p ans rvs (ts @ [tr]) (es @ [proposal_audit (ids (Suc n)) p tr]))"
proof -
  have role: "length (governance_role_value role) \<le> 32" by (cases role) simp_all
  have "proposal_transition_checks tr" "proposal_transition_refs (gov_state p ans rvs ts es) tr"
    "\<forall>r \<in> set ts. \<not> proposal_transition_clash r tr"
    using assms(3-7) role assms(1) by (simp_all add: tr transition_of_def proposal_transition_checks_def varchar_def
      proposal_transition_refs_def refers_def gov_state_tables gov_base_tables gov_version_fields proposal_transition_clash_def)
  then have "insert_proposal_transition (gov_state p ans rvs ts es) tr = Inr (gov_state p ans rvs (ts @ [tr]) es)"
    by (simp add: insert_proposal_transition_def insert_row_def gov_state_tables gov_state_updates)
  moreover have "audit_event_checks (proposal_audit i p tr)" "audit_event_refs (gov_state p ans rvs (ts @ [tr]) es) (proposal_audit i p tr)"
    "i = ids (Suc n) \<Longrightarrow> \<forall>e \<in> set es. \<not> audit_event_clash e (proposal_audit i p tr)" for i
    using assms(3-7) workflow_action_length [of action] assms(2)
    by (simp_all add: tr transition_of_def proposal_audit_def audit_event_checks_def varchar_def
      audit_event_refs_def refers_def gov_state_tables gov_base_tables audit_event_clash_def)
  then have "insert_audit_event (gov_state p ans rvs (ts @ [tr]) es) (proposal_audit (ids (Suc n)) p tr) =
      Inr (gov_state p ans rvs (ts @ [tr]) (es @ [proposal_audit (ids (Suc n)) p tr]))"
    by (simp add: insert_audit_event_def insert_row_def gov_state_tables gov_state_updates)
  ultimately show ?thesis by (simp add: history_def tr Let_def)
qed


abbreviation gov_ids :: "uuid \<Rightarrow> nat \<Rightarrow> uuid" where
  "gov_ids b n \<equiv> b + of_nat n"

abbreviation gov_at :: "int \<Rightarrow> proposal_status \<Rightarrow> int \<Rightarrow> investment_proposal_row" where
  "gov_at n s t \<equiv> gov_draft\<lparr>ip_status := s, ip_row_version := n, ip_updated_at := Aware t 0\<rparr>"

definition gov_analysis :: proposal_analysis_row where
  "gov_analysis = \<lparr>pa_id = 110, pa_proposal_version_id = 101, pa_risk_evaluation_id = 72, pa_scenario_run_id = None,
     pa_recorded_by_user_id = 5, pa_recorded_at = Aware 61 0,
     pa_evidence_hash = analysis_hash example_digest gov_version (hd (db_risk_evaluations gov_base)) None\<rparr>"

definition gov_review :: proposal_review_row where
  "gov_review = \<lparr>prv_id = 140, prv_proposal_id = 100, prv_proposal_version_id = 101, prv_reviewer_user_id = 6,
     prv_reviewer_role = ''manager'', prv_recommendation = Review_SUPPORT, prv_comment = ''ok'',
     prv_created_at = Aware 64 0\<rparr>"

definition gov_trs :: "proposal_transition_row list" where
  "gov_trs = [
     transition_of 103 gov_draft gov_version Workflow_CREATED None DRAFT 5 Role_ANALYST None
       (JObj [(''content_hash'', JStr (pv_content_hash gov_version))]) (Aware 60 0),
     transition_of 111 (gov_at 2 DRAFT 61) gov_version Workflow_ANALYZED (Some DRAFT) DRAFT 5 Role_ANALYST None
       (JObj [(''analysis_id'', JUuid 110), (''risk_evaluation_id'', JUuid 72), (''scenario_run_id'', JNull),
         (''evidence_hash'', JStr (pa_evidence_hash gov_analysis))]) (Aware 61 0),
     transition_of 120 (gov_at 3 SUBMITTED 62) gov_version Workflow_SUBMITTED (Some DRAFT) SUBMITTED 5 Role_ANALYST None
       (JObj (decision_provenance gov_version gov_analysis)) (Aware 62 0),
     transition_of 130 (gov_at 4 UNDER_REVIEW 63) gov_version Workflow_REVIEW_STARTED (Some SUBMITTED) UNDER_REVIEW 6
       Role_MANAGER None (JObj [(''content_hash'', JStr (pv_content_hash gov_version))]) (Aware 63 0),
     transition_of 141 (gov_at 5 UNDER_REVIEW 64) gov_version Workflow_REVIEW_RECORDED (Some UNDER_REVIEW) UNDER_REVIEW 6
       Role_MANAGER (Some ''ok'') (JObj [(''review_id'', JUuid 140), (''recommendation'', JStr ''SUPPORT'')]) (Aware 64 0),
     transition_of 150 (gov_at 6 APPROVED 65) gov_version Workflow_APPROVED (Some UNDER_REVIEW) APPROVED 6
       Role_MANAGER None (JObj (decision_provenance gov_version gov_analysis @ [(''review_count'', JInt 1)])) (Aware 65 0)]"

definition gov_audits :: "audit_event_row list" where
  "gov_audits = map2 (\<lambda>i (n, s, t, k). proposal_audit i (gov_at n s t) (gov_trs ! k))
     [104, 112, 121, 131, 142, 151]
     [(1, DRAFT, 60, 0), (2, DRAFT, 61, 1), (3, SUBMITTED, 62, 2), (4, UNDER_REVIEW, 63, 3), (5, UNDER_REVIEW, 64, 4),
      (6, APPROVED, 65, 5)]"

definition gov_db :: "nat \<Rightarrow> database" where
  "gov_db k = gov_state ([gov_draft, gov_at 2 DRAFT 61, gov_at 3 SUBMITTED 62, gov_at 4 UNDER_REVIEW 63,
       gov_at 5 UNDER_REVIEW 64, gov_at 6 APPROVED 65] ! k)
     (if 1 \<le> k then [gov_analysis] else []) (if 4 \<le> k then [gov_review] else [])
     (take (Suc k) gov_trs) (take (Suc k) gov_audits)"

lemma transition_of_id [simp]: "pt_id (transition_of i p v a f st u r re pr t) = i"
  by (simp add: transition_of_def)

lemma proposal_audit_id [simp]: "ae_id (proposal_audit i p t) = i"
  by (simp add: proposal_audit_def)

lemmas gov_db_eval = gov_db_def gov_trs_def gov_audits_def

lemma gov_draft_fields:
  "ip_id gov_draft = 100" "ip_fund_id gov_draft = 1" "ip_created_by_user_id gov_draft = 5" "ip_status gov_draft = DRAFT"
  "ip_current_version gov_draft = 1" "ip_row_version gov_draft = 1" "ip_updated_at gov_draft = Aware 60 0"
  by (simp_all add: gov_draft_def)

lemma gov_at_1: "gov_at 1 DRAFT 60 = gov_draft"
  by (simp add: gov_draft_def)

lemma gov_trs_ids: "map pt_id gov_trs = [103, 111, 120, 130, 141, 150]"
  by (simp add: gov_trs_def transition_of_def)

lemma gov_audit_ids: "map ae_id gov_audits = [104, 112, 121, 131, 142, 151]"
  by (simp add: gov_audits_def proposal_audit_def)

lemma gov_validated: "validate_content gov_content = Inr ()"
  by (simp add: validate_content_def gov_content_def validate_line_def strip_def is_space_def hash_text_def dec_eval
    cong: bindR_weak_cong)

lemma gov_created:
  "proposal_create example_digest (gov_ids 100) gov_base 1 5 gov_content (Aware 60 0) = Inr (gov_draft, gov_db 0)"
proof -
  let ?db1 = "gov_base\<lparr>db_investment_proposals := [gov_draft]\<rparr>"
  have "insert_investment_proposal gov_base gov_draft = Inr ?db1"
    by (simp add: insert_investment_proposal_def insert_row_def gov_base_tables investment_proposal_checks_def
      investment_proposal_refs_def gov_draft_fields refers_def)
  moreover have "add_version example_digest (gov_ids 100) 1 ?db1 gov_draft 5 gov_content (Aware 60 0) None =
      Inr (gov_version, gov_state gov_draft [] [] [] [])"
  proof -
    have "insert_proposal_version ?db1 gov_version = Inr (?db1\<lparr>db_proposal_versions := [gov_version]\<rparr>)"
      by (simp add: insert_proposal_version_def insert_row_def gov_base_tables proposal_version_checks_def
        proposal_version_refs_def gov_version_def version_of_def gov_draft_fields gov_content_def content_hash_of_def
        refers_def varchar_def strip_def is_space_def hash_text_def)
    moreover have "insert_proposal_line (?db1\<lparr>db_proposal_versions := [gov_version]\<rparr>)
        (line_of 102 101 (hd (pvi_lines gov_content))) = Inr (gov_state gov_draft [] [] [] [])"
      by (simp add: insert_proposal_line_def insert_row_def gov_base_tables proposal_line_checks_def proposal_line_refs_def
        line_of_def gov_content_def refers_def varchar_def strip_def is_space_def gov_version_fields dec_eval gov_state_def)
    moreover have "sorted_lines gov_content = pvi_lines gov_content" "length (pvi_lines gov_content) = 1"
      by (simp_all add: sorted_lines_def gov_content_def)
    ultimately show ?thesis
      by (auto simp: add_version_def Let_def gov_version_def length_Suc_conv gov_version_fields [unfolded gov_version_def])
  qed
  moreover have "history (gov_ids 100) 3 (gov_state gov_draft [] [] [] []) gov_draft gov_version Workflow_CREATED None DRAFT 5
      Role_ANALYST None (JObj [(''content_hash'', JStr (pv_content_hash gov_version))]) (Aware 60 0) = Inr (gov_db 0)"
    by (subst gov_history [OF _ _ _ _ _ _ _ refl]) (simp_all add: gov_draft_fields gov_db_eval gov_at_1)
  moreover have "2 + length (pvi_lines gov_content) = 3" by (simp add: gov_content_def)
  ultimately show ?thesis
    by (simp add: proposal_create_def gov_authority gov_validated aware_required_def gov_draft_def [symmetric] Let_def
      numeral_3_eq_3)
qed

lemma gov_the_proposal: "the_proposal (gov_db k) 100 = Inr ([gov_draft, gov_at 2 DRAFT 61, gov_at 3 SUBMITTED 62,
    gov_at 4 UNDER_REVIEW 63, gov_at 5 UNDER_REVIEW 64, gov_at 6 APPROVED 65] ! k)" if "k < 6"
  using that by (auto simp: the_proposal_def gov_db_def gov_state_tables gov_draft_fields less_Suc_eq numeral_eq_Suc)

lemma gov_advanced:
  "advanced gov_draft st (Aware t 0) None = gov_at 2 st t"
  "advanced (gov_at n s u) st (Aware t 0) None = gov_at (n + 1) st t"
  by (simp_all add: advanced_def gov_draft_def)

lemma gov_the_version: "the_version (gov_state p ans rvs ts es) q = Inr gov_version"
  if "ip_id q = 100" "ip_current_version q = 1"
  using that by (simp add: the_version_def gov_state_tables gov_version_fields)

lemma gov_analyzed:
  "proposal_record_analysis example_digest (gov_ids 110) (gov_db 0) 100 5 1 72 None (Aware 61 0) = Inr (gov_analysis, gov_db 1)"
proof -
  define ts es where "ts = take (Suc 0) gov_trs" and "es = take (Suc 0) gov_audits"
  have db: "gov_db 0 = gov_state gov_draft [] [] ts es" by (simp add: gov_db_def ts_def es_def)
  have "insert_proposal_analysis (gov_state (gov_at 2 DRAFT 61) [] [] ts es) gov_analysis =
      Inr (gov_state (gov_at 2 DRAFT 61) [gov_analysis] [] ts es)"
    by (simp add: insert_proposal_analysis_def insert_row_def gov_state_tables gov_state_updates gov_base_tables
      proposal_analysis_checks_def proposal_analysis_refs_def gov_analysis_def refers_def gov_version_fields
      analysis_hash_def varchar_def)
  moreover have "history (gov_ids 110) 1 (gov_state (gov_at 2 DRAFT 61) [gov_analysis] [] ts es) (gov_at 2 DRAFT 61) gov_version
      Workflow_ANALYZED (Some DRAFT) DRAFT 5 Role_ANALYST None
      (JObj [(''analysis_id'', JUuid 110), (''risk_evaluation_id'', JUuid 72), (''scenario_run_id'', JNull),
        (''evidence_hash'', JStr (pa_evidence_hash gov_analysis))]) (Aware 61 0) = Inr (gov_db 1)"
    by (subst gov_history [OF _ _ _ _ _ _ _ refl])
      (simp_all add: gov_draft_fields gov_db_eval gov_at_1 ts_def es_def)
  moreover have "evidence_risk (gov_db 0) gov_draft gov_version 72 = Inr (hd (db_risk_evaluations gov_base))"
    by (simp add: evidence_risk_def gov_db_def gov_state_tables gov_base_def gov_draft_fields gov_version_fields)
  moreover have "re_id (hd (db_risk_evaluations gov_base)) = 72" by (simp add: gov_base_def)
  moreover have "gov_analysis = \<lparr>pa_id = 110, pa_proposal_version_id = 101, pa_risk_evaluation_id = 72, pa_scenario_run_id = None,
     pa_recorded_by_user_id = 5, pa_recorded_at = Aware 61 0,
     pa_evidence_hash = analysis_hash example_digest gov_version (hd (db_risk_evaluations gov_base)) None\<rparr>"
    by (simp add: gov_analysis_def)
  moreover have "pa_evidence_hash gov_analysis = analysis_hash example_digest gov_version (hd (db_risk_evaluations gov_base)) None"
    by (simp add: gov_analysis_def)
  moreover have "the_proposal (gov_db 0) 100 = Inr gov_draft" using gov_the_proposal [of 0] by simp
  ultimately show ?thesis
    by (simp add: proposal_record_analysis_def gov_authority db gov_state_tables gov_draft_fields gov_the_version json_opt_def
      evidence_scenario_def Let_def gov_advance gov_advanced gov_version_fields)
qed

lemma gov_clear: "required_clear_analysis (gov_state p [gov_analysis] rvs ts es) gov_version = Inr gov_analysis"
  by (simp add: required_clear_analysis_def latest_analysis_def Let_def gov_state_tables gov_analysis_def gov_version_fields
    policy_rows_def blockers_def gov_base_def)

lemma gov_submitted:
  "proposal_submit (gov_ids 120) (gov_db 1) 100 5 2 (Aware 62 0) = Inr (gov_at 3 SUBMITTED 62, gov_db 2)"
proof -
  define ts es where "ts = take 2 gov_trs" and "es = take 2 gov_audits"
  have db: "gov_db 1 = gov_state (gov_at 2 DRAFT 61) [gov_analysis] [] ts es"
    by (simp add: gov_db_def ts_def es_def numeral_2_eq_2)
  have "history (gov_ids 120) 0 (gov_state (gov_at 3 SUBMITTED 62) [gov_analysis] [] ts es) (gov_at 3 SUBMITTED 62) gov_version
      Workflow_SUBMITTED (Some DRAFT) SUBMITTED 5 Role_ANALYST None (JObj (decision_provenance gov_version gov_analysis))
      (Aware 62 0) = Inr (gov_db 2)"
    by (subst gov_history [OF _ _ _ _ _ _ _ refl])
      (simp_all add: gov_draft_fields gov_db_eval gov_at_1 ts_def es_def)
  moreover have "the_proposal (gov_state (gov_at 2 DRAFT 61) [gov_analysis] [] ts es) 100 = Inr (gov_at 2 DRAFT 61)"
    using gov_the_proposal [of 1] unfolding db by simp
  ultimately show ?thesis unfolding db
    by (simp add: proposal_submit_def gov_authority gov_state_tables gov_draft_fields gov_the_version require_owner_def
      gov_clear gov_advance gov_advanced)
qed

lemma gov_review_started:
  "proposal_start_review (gov_ids 130) (gov_db 2) 100 6 3 (Aware 63 0) = Inr (gov_at 4 UNDER_REVIEW 63, gov_db 3)"
proof -
  define ts es where "ts = take 3 gov_trs" and "es = take 3 gov_audits"
  have db: "gov_db 2 = gov_state (gov_at 3 SUBMITTED 62) [gov_analysis] [] ts es"
    by (simp add: gov_db_def ts_def es_def)
  have "history (gov_ids 130) 0 (gov_state (gov_at 4 UNDER_REVIEW 63) [gov_analysis] [] ts es) (gov_at 4 UNDER_REVIEW 63)
      gov_version Workflow_REVIEW_STARTED (Some SUBMITTED) UNDER_REVIEW 6 Role_MANAGER None
      (JObj [(''content_hash'', JStr (pv_content_hash gov_version))]) (Aware 63 0) = Inr (gov_db 3)"
    by (subst gov_history [OF _ _ _ _ _ _ _ refl])
      (simp_all add: gov_draft_fields gov_db_eval gov_at_1 ts_def es_def)
  moreover have "the_proposal (gov_state (gov_at 3 SUBMITTED 62) [gov_analysis] [] ts es) 100 = Inr (gov_at 3 SUBMITTED 62)"
    using gov_the_proposal [of 2] by (simp add: db)
  ultimately show ?thesis unfolding db
    by (simp add: proposal_start_review_def status_transition_def gov_authority gov_state_tables gov_draft_fields
      gov_the_version gov_advance gov_advanced)
qed

lemma gov_review_recorded:
  "proposal_record_review (gov_ids 140) (gov_db 3) 100 6 4 Review_SUPPORT ''ok'' (Aware 64 0) = Inr (gov_review, gov_db 4)"
proof -
  define ts es where "ts = take 4 gov_trs" and "es = take 4 gov_audits"
  have db: "gov_db 3 = gov_state (gov_at 4 UNDER_REVIEW 63) [gov_analysis] [] ts es"
    by (simp add: gov_db_def ts_def es_def)
  let ?q = "gov_at 5 UNDER_REVIEW 64"
  have "insert_proposal_review (gov_state ?q [gov_analysis] [] ts es) gov_review =
      Inr (gov_state ?q [gov_analysis] [gov_review] ts es)"
    by (simp add: insert_proposal_review_def insert_row_def gov_state_tables gov_state_updates gov_base_tables
      proposal_review_checks_def proposal_review_refs_def gov_review_def refers_def gov_version_fields varchar_def
      gov_draft_fields strip_def is_space_def)
  moreover have "history (gov_ids 140) 1 (gov_state ?q [gov_analysis] [gov_review] ts es) ?q gov_version
      Workflow_REVIEW_RECORDED (Some UNDER_REVIEW) UNDER_REVIEW 6 Role_MANAGER (Some ''ok'')
      (JObj [(''review_id'', JUuid 140), (''recommendation'', JStr ''SUPPORT'')]) (Aware 64 0) = Inr (gov_db 4)"
    by (subst gov_history [OF _ _ _ _ _ _ _ refl])
      (simp_all add: gov_draft_fields gov_db_eval gov_at_1 ts_def es_def varchar_def)
  moreover have "the_proposal (gov_state (gov_at 4 UNDER_REVIEW 63) [gov_analysis] [] ts es) 100 = Inr (gov_at 4 UNDER_REVIEW 63)"
    using gov_the_proposal [of 3] by (simp add: db)
  moreover have "strip ''ok'' = ''ok''" by (simp add: strip_def is_space_def)
  moreover have "gov_review = \<lparr>prv_id = 140, prv_proposal_id = 100, prv_proposal_version_id = 101, prv_reviewer_user_id = 6,
     prv_reviewer_role = ''manager'', prv_recommendation = Review_SUPPORT, prv_comment = ''ok'',
     prv_created_at = Aware 64 0\<rparr>" by (simp add: gov_review_def)
  ultimately show ?thesis unfolding db
    by (simp add: proposal_record_review_def gov_authority gov_state_tables gov_draft_fields
      gov_the_version gov_advance gov_advanced Let_def gov_version_fields)
qed

lemma gov_approved:
  "proposal_approve (gov_ids 150) (gov_db 4) 100 6 5 [] (Aware 65 0) = Inr (gov_at 6 APPROVED 65, gov_db 5)"
proof -
  define ts es where "ts = take 5 gov_trs" and "es = take 5 gov_audits"
  have db: "gov_db 4 = gov_state (gov_at 5 UNDER_REVIEW 64) [gov_analysis] [gov_review] ts es"
    by (simp add: gov_db_def ts_def es_def)
  let ?q = "gov_at 6 APPROVED 65"
  have "history (gov_ids 150) 0 (gov_state ?q [gov_analysis] [gov_review] ts es) ?q gov_version
      Workflow_APPROVED (Some UNDER_REVIEW) APPROVED 6 Role_MANAGER None
      (JObj (decision_provenance gov_version gov_analysis @ [(''review_count'', JInt 1)])) (Aware 65 0) = Inr (gov_db 5)"
    by (subst gov_history [OF _ _ _ _ _ _ _ refl])
      (simp_all add: gov_draft_fields gov_db_eval gov_at_1 ts_def es_def varchar_def)
  moreover have "the_proposal (gov_state (gov_at 5 UNDER_REVIEW 64) [gov_analysis] [gov_review] ts es) 100 =
      Inr (gov_at 5 UNDER_REVIEW 64)"
    using gov_the_proposal [of 4] by (simp add: db)
  moreover have "prv_proposal_version_id gov_review = 101" by (simp add: gov_review_def)
  ultimately show ?thesis unfolding db
    by (simp add: proposal_approve_def gov_authority gov_state_tables gov_draft_fields gov_clear strip_def
      gov_the_version gov_advance gov_advanced Let_def gov_version_fields)
qed

lemma gov_run:
  "governance_run example_digest (gov_db 0)" "governance_run example_digest (gov_db 5)"
  "governance_run example_digest (gov_db 4)"
proof -
  note exec = governance_run.exec [where H = example_digest]
  have "governance_run example_digest gov_base"
    by (rule governance_run.start) (simp_all add: gov_base_tables)
  then show 0: "governance_run example_digest (gov_db 0)"
    by (rule exec [where ids = "gov_ids 100" and actor = 5 and t = "Aware 60 0" and c = "Create 1 gov_content"]) (simp add: gov_created)
  then have "governance_run example_digest (gov_db 1)"
    by (rule exec [where ids = "gov_ids 110" and actor = 5 and t = "Aware 61 0" and c = "Record_analysis 100 1 72 None"])
      (simp add: gov_analyzed)
  then have "governance_run example_digest (gov_db 2)"
    by (rule exec [where ids = "gov_ids 120" and actor = 5 and t = "Aware 62 0" and c = "Submit 100 2"]) (simp add: gov_submitted del: One_nat_def)
  then have "governance_run example_digest (gov_db 3)"
    by (rule exec [where ids = "gov_ids 130" and actor = 6 and t = "Aware 63 0" and c = "Start_review 100 3"]) (simp add: gov_review_started)
  then show 4: "governance_run example_digest (gov_db 4)"
    by (rule exec [where ids = "gov_ids 140" and actor = 6 and t = "Aware 64 0" and c = "Record_review 100 4 Review_SUPPORT ''ok''"])
      (simp add: gov_review_recorded)
  from 4 show "governance_run example_digest (gov_db 5)"
    by (rule exec [where ids = "gov_ids 150" and actor = 6 and t = "Aware 65 0" and c = "Approve 100 5 []"]) (simp add: gov_approved)
qed

section \<open>Witnesses\<close>

lemma gov_final:
  "the_proposal (gov_db 5) 100 = Inr (gov_at 6 APPROVED 65)"
  "the_proposal (gov_db 4) 100 = Inr (gov_at 5 UNDER_REVIEW 64)"
  using gov_the_proposal [of 5] gov_the_proposal [of 4] by simp_all

theorem governance_history_witness:
  "governance_run example_digest (gov_db 5) \<and> the_proposal (gov_db 5) 100 = Inr (gov_at 6 APPROVED 65)
   \<and> workflow_path 5 (trail (gov_db 5) 100) APPROVED 6 (Aware 65 0)"
  using governance_history [OF gov_run(2) gov_final(1)] gov_run(2) gov_final(1) by (simp add: gov_draft_fields)

theorem terminal_proposals_final_witness:
  "\<exists>e. governance_exec example_digest (gov_ids 200) (gov_db 5) 5 (Aware 70 0) (Withdraw 100 6 ''r'') = Inl e"
  by (rule terminal_proposals_final [OF governance_run_ok [OF gov_run(2)] gov_final(1)]) simp_all

theorem no_lost_update_witness:
  "governance_exec example_digest (gov_ids 150) (gov_db 4) 6 (Aware 65 0) (Approve 100 5 []) = Inr (gov_db 5)
   \<and> ((\<exists>e. governance_exec example_digest (gov_ids 160) (gov_db 5) 6 (Aware 66 0) (Reject 100 5 ''no'') = Inl e)
     \<or> governance_exec example_digest (gov_ids 160) (gov_db 5) 6 (Aware 66 0) (Reject 100 5 ''no'') = Inr (gov_db 5))"
proof -
  have approve: "governance_exec example_digest (gov_ids 150) (gov_db 4) 6 (Aware 65 0) (Approve 100 5 []) = Inr (gov_db 5)"
    by (simp add: gov_approved)
  moreover have "gov_db 5 \<noteq> gov_db 4"
    using gov_final by (auto simp: gov_draft_def)
  ultimately show ?thesis
    using no_lost_update [OF governance_run_ok [OF gov_run(3)] approve, of 100 5 "Reject 100 5 ''no''"] by simp
qed

theorem authorization_iff_witness:
  "authorization_require (gov_db 0) 6 1 Perm_APPROVE_PROPOSAL = Inr Role_MANAGER
   \<and> granted_role (gov_db 0) 6 1 Role_MANAGER"
proof -
  have "authorization_require (gov_db 0) 6 1 Perm_APPROVE_PROPOSAL = Inr Role_MANAGER"
    by (simp add: gov_authority gov_db_def gov_state_tables)
  with authorization_iff [of "gov_db 0" 6 1 Perm_APPROVE_PROPOSAL Role_MANAGER] show ?thesis by simp
qed

theorem approve_requires_witness:
  "proposal_approve (gov_ids 150) (gov_db 4) 100 6 5 [] (Aware 65 0) = Inr (gov_at 6 APPROVED 65, gov_db 5)
   \<and> (\<exists>v a. the_version (gov_db 4) (gov_at 5 UNDER_REVIEW 64) = Inr v \<and> clear_evidence (gov_db 4) (pv_id v) a)"
  using approve_requires [OF gov_approved] gov_approved gov_final(2) by auto

end
