(* ===== verification/Numerics.thy ===== *)
theory Numerics
  imports Rounding Models
begin

text \<open>
  The operations of \<open>decimal\<close> beyond the four of \<open>Decimal\<close>: squares, square roots, and divisions
  whose divisor may be zero.
\<close>

section \<open>Powers\<close>

text \<open>
  \<open>x ** 2\<close>: libmpdec multiplies with three more digits than the context has and then rounds to the
  context, so the square is rounded twice.
\<close>

definition round_to :: "nat \<Rightarrow> dec \<Rightarrow> dec" where
  "round_to p d =
     (let n = \<bar>coeff d\<bar>; k = ndigits n - p in
      if ndigits n \<le> p then d
      else let q = round_half_even n (10 ^ k) in
        if p < ndigits q then Dec (sgn (coeff d) * (q div 10)) (dexp d + int k + 1)
        else Dec (sgn (coeff d) * q) (dexp d + int k))"

definition dsquare :: "dec \<Rightarrow> dec" where
  "dsquare x = round_to prec (round_to (prec + 3) (Dec (coeff x * coeff x) (2 * dexp x)))"

section \<open>Division\<close>

text \<open>\<open>a / b\<close>, with the exceptions of the default context.\<close>

definition ddivR :: "dec \<Rightarrow> dec \<Rightarrow> app_error + dec" where
  "ddivR a b = (if deq b dzero then Inl (if deq a dzero then InvalidOperation else DivisionByZero)
     else Inr (ddiv a b))"

section \<open>Square root\<close>

text \<open>Newton's iteration \<open>n = (n + c // n) >> 1\<close>, from above, until \<open>n <= c // n\<close>.\<close>

function newton_root :: "int \<Rightarrow> int \<Rightarrow> int" where
  "newton_root c n = (if n \<le> 0 \<or> n \<le> c div n then n else newton_root c ((n + c div n) div 2))"
  by pat_completeness auto
termination
proof (relation "measure (\<lambda>(c, n). nat n)")
  fix c n :: int
  assume "\<not> (n \<le> 0 \<or> n \<le> c div n)"
  then have "0 < n" "(n + c div n) div 2 < n" by auto
  then show "((c, (n + c div n) div 2), c, n) \<in> measure (\<lambda>(c, n). nat n)" by simp
qed simp

declare newton_root.simps [simp del]

text \<open>\<open>Decimal.sqrt\<close>: the integer root of the coefficient shifted to 29 digit pairs, with a sticky digit.\<close>

definition dsqrt :: "dec \<Rightarrow> dec" where
  "dsqrt x =
     (if coeff x = 0 then Dec 0 (dexp x div 2)
      else
        let digits = ndigits (coeff x); odd_exp = (dexp x mod 2 = 1);
            c = (if odd_exp then coeff x * 10 else coeff x);
            l = (if odd_exp then digits div 2 + 1 else (digits + 1) div 2);
            shift = int prec + 1 - int l;
            c' = (if 0 \<le> shift then c * 100 ^ nat shift else c div 100 ^ nat (- shift));
            n = newton_root c' (10 ^ (prec + 1));
            exact = ((0 \<le> shift \<or> c mod 100 ^ nat (- shift) = 0) \<and> n * n = c') in
        if exact then dfix (Dec (if 0 \<le> shift then n div 10 ^ nat shift else n * 10 ^ nat (- shift)) (dexp x div 2))
        else dfix (Dec (if n mod 5 = 0 then n + 1 else n) (dexp x div 2 - shift)))"

definition dsqrtR :: "dec \<Rightarrow> app_error + dec" where
  "dsqrtR x = (if dlt x dzero then Inl InvalidOperation else Inr (dsqrt x))"

end
