(* ===== verification/Exposures.thy ===== *)
theory Exposures
  imports Valuation Numerics
begin

text \<open>
  \<open>app/exposures\<close>: weights, category exposures and concentration of a valuation (\<open>engine.py\<close>) and
  the classification in force at its cutoff (\<open>service.py\<close>). The three category dictionaries keep
  their insertion order; the output sorts them.
\<close>

section \<open>Types\<close>

record instrument_classification =
  ic_instrument_id :: uuid
  ic_sector :: string
  ic_asset_class :: string
  ic_geography :: string
  ic_effective_from :: "datetime option"
  ic_effective_to :: "datetime option"

record position_exposure_input =
  pe_instrument_id :: uuid
  pe_market_value :: dec

record position_weight =
  pw_instrument_id :: uuid
  pw_market_value :: dec
  pw_weight :: dec

record category_exposure =
  ce_category :: string
  ce_market_value :: dec
  ce_weight :: dec

record exposure_result =
  er_portfolio_value :: dec
  er_cash_value :: dec
  er_position_weights :: "position_weight list"
  er_sector_exposure :: "category_exposure list"
  er_asset_allocation :: "category_exposure list"
  er_geographic_exposure :: "category_exposure list"
  er_top_holdings :: "position_weight list"
  er_largest_position_weight :: dec
  er_herfindahl_index :: dec
  er_warnings :: "string list"

section \<open>Engine\<close>

text \<open>The sort keys \<open>-weight\<close> and \<open>-value\<close> compare by value, hence by \<open>dval\<close>.\<close>

definition weight_rows :: "dec \<Rightarrow> position_exposure_input list \<Rightarrow> position_weight list" where
  "weight_rows whole rows = sort_key (\<lambda>w. (- dval (pw_weight w), pw_instrument_id w))
     (map (\<lambda>p. \<lparr>pw_instrument_id = pe_instrument_id p, pw_market_value = pe_market_value p,
        pw_weight = ddiv (pe_market_value p) whole\<rparr>) rows)"

definition labels_of :: "(uuid \<Rightarrow> instrument_classification option) \<Rightarrow> uuid \<Rightarrow> string \<times> string \<times> string" where
  "labels_of classifications i = (case classifications i of
     None \<Rightarrow> (''UNCLASSIFIED'', ''UNCLASSIFIED'', ''UNCLASSIFIED'')
   | Some c \<Rightarrow> (ic_sector c, ic_asset_class c, ic_geography c))"

text \<open>\<open>d[k] += v\<close> on a \<open>defaultdict(lambda: ZERO)\<close>.\<close>

definition dict_add :: "string \<Rightarrow> dec \<Rightarrow> (string, dec) dict \<Rightarrow> (string, dec) dict" where
  "dict_add k v d = dict_set k (dadd (case dict_get d k of None \<Rightarrow> dzero | Some w \<Rightarrow> w) v) d"

record category_state =
  cs_sector :: "(string, dec) dict"
  cs_asset :: "(string, dec) dict"
  cs_geography :: "(string, dec) dict"
  cs_warnings :: "string list"

definition add_labels :: "string \<times> string \<times> string \<Rightarrow> dec \<Rightarrow> category_state \<Rightarrow> category_state" where
  "add_labels l v s = (case l of (sec, asset, geo) \<Rightarrow>
     s\<lparr>cs_sector := dict_add sec v (cs_sector s), cs_asset := dict_add asset v (cs_asset s),
       cs_geography := dict_add geo v (cs_geography s)\<rparr>)"

definition category_step ::
  "(uuid \<Rightarrow> instrument_classification option) \<Rightarrow> category_state \<Rightarrow> position_exposure_input \<Rightarrow> category_state" where
  "category_step classifications s p =
     add_labels (labels_of classifications (pe_instrument_id p)) (pe_market_value p)
       (if classifications (pe_instrument_id p) = None
        then s\<lparr>cs_warnings := cs_warnings s @ [''missing classification for '' @ uuid_text (pe_instrument_id p)]\<rparr>
        else s)"

definition category_totals ::
  "(uuid \<Rightarrow> instrument_classification option) \<Rightarrow> dec \<Rightarrow> position_exposure_input list \<Rightarrow> category_state" where
  "category_totals classifications cash rows =
     (let s = foldl (category_step classifications)
            \<lparr>cs_sector = [], cs_asset = [], cs_geography = [], cs_warnings = []\<rparr> rows in
      if deq cash dzero then s else add_labels (''CASH'', ''CASH'', ''CASH'') cash s)"

definition categories :: "(string, dec) dict \<Rightarrow> dec \<Rightarrow> category_exposure list" where
  "categories d whole = map (\<lambda>(c, v). \<lparr>ce_category = c, ce_market_value = v, ce_weight = ddiv v whole\<rparr>)
     (sort_key (\<lambda>(c, v). (- dval v, c)) d)"

definition exposure_calculate ::
  "position_exposure_input list \<Rightarrow> dec \<Rightarrow> (uuid \<Rightarrow> instrument_classification option) \<Rightarrow> int
     \<Rightarrow> app_error + exposure_result" where
  "exposure_calculate rows cash classifications top_n =
     bindR (requireR (\<not> (dlt cash dzero \<or> (\<exists>p \<in> set rows. dlt (pe_market_value p) dzero)))
       (ExposureError ''Phase 3 exposure supports long-only, nonnegative values'')) (\<lambda>_.
     bindR (requireR (0 < top_n) (ExposureError ''top_n must be positive'')) (\<lambda>_.
     let whole = dadd cash (dsum (map pe_market_value rows)) in
     bindR (requireR (dlt dzero whole) (ExposureError ''portfolio value must be positive'')) (\<lambda>_.
     let weights = weight_rows whole rows; s = category_totals classifications cash rows in
     Inr \<lparr>er_portfolio_value = whole, er_cash_value = cash, er_position_weights = weights,
       er_sector_exposure = categories (cs_sector s) whole,
       er_asset_allocation = categories (cs_asset s) whole,
       er_geographic_exposure = categories (cs_geography s) whole,
       er_top_holdings = take (nat top_n) weights,
       er_largest_position_weight = (case weights of [] \<Rightarrow> dzero | w # _ \<Rightarrow> pw_weight w),
       er_herfindahl_index = dsum (map (\<lambda>w. dsquare (pw_weight w)) weights),
       er_warnings = cs_warnings s\<rparr>)))"

section \<open>Service\<close>

definition effective_classifications ::
  "database \<Rightarrow> uuid set \<Rightarrow> datetime \<Rightarrow> instrument_classification_row list" where
  "effective_classifications db instruments as_of =
     sort_key (\<lambda>r. (cl_instrument_id r, - instant (cl_effective_from r)))
       (filter (\<lambda>r. cl_instrument_id r \<in> instruments \<and> instant (cl_effective_from r) \<le> instant as_of
         \<and> (case cl_effective_to r of None \<Rightarrow> True | Some t \<Rightarrow> instant as_of < instant t))
       (db_instrument_classifications db))"

definition classification_of :: "instrument_classification_row \<Rightarrow> instrument_classification" where
  "classification_of r = \<lparr>ic_instrument_id = cl_instrument_id r, ic_sector = cl_sector r,
     ic_asset_class = cl_asset_class r, ic_geography = cl_geography r,
     ic_effective_from = Some (as_utc (cl_effective_from r)),
     ic_effective_to = map_option as_utc (cl_effective_to r)\<rparr>"

definition classifications_at ::
  "database \<Rightarrow> uuid set \<Rightarrow> datetime \<Rightarrow> (uuid, instrument_classification) dict" where
  "classifications_at db instruments as_of =
     foldl (\<lambda>d r. dict_setdefault (cl_instrument_id r) (classification_of r) d) []
       (effective_classifications db instruments as_of)"

definition exposure_service_calculate ::
  "database \<Rightarrow> valuation_result \<Rightarrow> int \<Rightarrow> app_error + exposure_result" where
  "exposure_service_calculate db valuation top_n =
     (let classifications = classifications_at db (set (map pv_instrument_id (vr_positions valuation))) (vr_as_of valuation) in
      exposure_calculate
        (map (\<lambda>p. \<lparr>pe_instrument_id = pv_instrument_id p, pe_market_value = pv_market_value p\<rparr>) (vr_positions valuation))
        (vr_cash_value valuation) (dict_get classifications) top_n)"

end
