(* ===== verification/Risk_Policy.thy ===== *)
theory Risk_Policy
  imports Exposures
begin

text \<open>
  \<open>app/risk/policy.py\<close> and \<open>service.py\<close>: policy rules checked against metrics, and the evaluation a
  proposal is later bound to. \<open>F\<close> renders an explanation template whose replacement fields are not
  bare names (format specifications, conversions, indices); nothing is assumed of it.
\<close>

section \<open>Types\<close>

record risk_result =
  rk_observation_count :: int
  rk_confidence_level :: dec
  rk_annualized_volatility :: "dec option"
  rk_beta :: "dec option"
  rk_value_at_risk_return :: dec
  rk_expected_shortfall_return :: dec
  rk_value_at_risk_amount :: dec
  rk_expected_shortfall_amount :: dec
  rk_tracking_error :: "dec option"
  rk_largest_position_weight :: dec
  rk_herfindahl_index :: dec

record policy_rule_input =
  pri_rule_id :: uuid
  pri_metric_key :: string
  pri_operator :: policy_operator
  pri_threshold :: dec
  pri_unit :: string
  pri_explanation_template :: string

record policy_evaluation_item =
  pei_rule_id :: uuid
  pei_metric_key :: string
  pei_status :: policy_evaluation_status
  pei_observed_value :: "dec option"
  pei_threshold :: dec
  pei_breach_amount :: "dec option"
  pei_unit :: string
  pei_explanation :: string

type_synonym formatter = "string \<Rightarrow> (string \<times> string) list \<Rightarrow> app_error + string"

section \<open>Policy engine\<close>

definition explanation :: "formatter \<Rightarrow> policy_rule_input \<Rightarrow> dec \<Rightarrow> dec \<Rightarrow> app_error + string" where
  "explanation F rule observed amount =
     (let vs = [(''metric'', pri_metric_key rule), (''observed'', dec_text observed),
            (''threshold'', dec_text (pri_threshold rule)), (''breach'', dec_text (dmax amount dzero)),
            (''unit'', pri_unit rule)] in
      case plain_format vs (pri_explanation_template rule) of
        Some text \<Rightarrow> Inr text | None \<Rightarrow> F (pri_explanation_template rule) vs)"

definition evaluate_rule ::
  "formatter \<Rightarrow> (string \<Rightarrow> dec option) \<Rightarrow> policy_rule_input \<Rightarrow> app_error + policy_evaluation_item" where
  "evaluate_rule F metrics rule =
     (case metrics (pri_metric_key rule) of
        None \<Rightarrow> Inr \<lparr>pei_rule_id = pri_rule_id rule, pei_metric_key = pri_metric_key rule,
          pei_status = Policy_UNAVAILABLE, pei_observed_value = None, pei_threshold = pri_threshold rule,
          pei_breach_amount = None, pei_unit = pri_unit rule,
          pei_explanation = pri_metric_key rule @ '' is unavailable; threshold '' @ dec_text (pri_threshold rule)
            @ '' '' @ pri_unit rule\<rparr>
      | Some observed \<Rightarrow>
          let amount = (if pri_operator rule = Policy_MAX then dsub observed (pri_threshold rule)
                else dsub (pri_threshold rule) observed);
              breached = dlt dzero amount in
          bindR (explanation F rule observed amount) (\<lambda>text.
          Inr \<lparr>pei_rule_id = pri_rule_id rule, pei_metric_key = pri_metric_key rule,
            pei_status = (if breached then Policy_BREACH else Policy_PASS), pei_observed_value = Some observed,
            pei_threshold = pri_threshold rule,
            pei_breach_amount = Some (if breached then dmax amount dzero else dzero), pei_unit = pri_unit rule,
            pei_explanation = text\<rparr>))"

definition policy_evaluate ::
  "formatter \<Rightarrow> policy_rule_input list \<Rightarrow> (string \<Rightarrow> dec option) \<Rightarrow> app_error + policy_evaluation_item list" where
  "policy_evaluate F rules metrics =
     foldR (\<lambda>out rule. bindR (evaluate_rule F metrics rule) (\<lambda>item. Inr (out @ [item])))
       [] (sort_key pri_rule_id rules)"

section \<open>Metrics\<close>

text \<open>\<open>d.update(e)\<close>\<close>

definition dict_update :: "(string, dec) dict \<Rightarrow> (string, dec) dict \<Rightarrow> (string, dec) dict" where
  "dict_update d e = foldl (\<lambda>d (k, v). dict_set k v d) d e"

definition exposure_metrics ::
  "(string, dec) dict \<Rightarrow> (string, dec) dict \<Rightarrow> (string, dec) dict \<Rightarrow> dec \<Rightarrow> dec \<Rightarrow> (string, dec) dict" where
  "exposure_metrics sector asset_class geography largest herfindahl =
     dict_update (dict_update (dict_update
       [(''concentration.largest_position_weight'', largest), (''concentration.herfindahl_index'', herfindahl)]
       (map (\<lambda>(k, v). (''sector.'' @ k, v)) sector))
       (map (\<lambda>(k, v). (''asset_class.'' @ k, v)) asset_class))
       (map (\<lambda>(k, v). (''geography.'' @ k, v)) geography)"

definition category_weights :: "category_exposure list \<Rightarrow> (string, dec) dict" where
  "category_weights cs = dict_update [] (map (\<lambda>c. (ce_category c, ce_weight c)) cs)"

definition portfolio_risk_metrics :: "exposure_result \<Rightarrow> risk_result \<Rightarrow> (string, dec) dict" where
  "portfolio_risk_metrics exposure risk =
     dict_update (dict_update
       (exposure_metrics (category_weights (er_sector_exposure exposure))
          (category_weights (er_asset_allocation exposure)) (category_weights (er_geographic_exposure exposure))
          (er_largest_position_weight exposure) (er_herfindahl_index exposure))
       (List.map_filter (\<lambda>(k, v). map_option (Pair k) v)
          [(''risk.volatility'', rk_annualized_volatility risk), (''risk.beta'', rk_beta risk),
           (''risk.tracking_error'', rk_tracking_error risk)]))
       [(''risk.var_return'', rk_value_at_risk_return risk),
        (''risk.expected_shortfall_return'', rk_expected_shortfall_return risk)]"

section \<open>Policy service\<close>

definition RISK_CALCULATION_VERSION :: string where
  "RISK_CALCULATION_VERSION = ''risk-policy-v1''"

definition risk_aware :: "datetime \<Rightarrow> app_error + unit" where
  "risk_aware t = requireR (is_aware t) (RiskError ''evaluation timestamps must be timezone-aware'')"

definition evaluation_hash :: "digest \<Rightarrow> uuid \<Rightarrow> datetime \<Rightarrow> (string, dec) dict \<Rightarrow> string" where
  "evaluation_hash H policy_id as_of metrics = H (JObj [
     (''policy_id'', JUuid policy_id),
     (''as_of'', JTime (to_utc as_of)),
     (''metrics'', JObj (map (\<lambda>(k, v). (k, JDec v)) (sort_key fst metrics))),
     (''calculation_version'', JStr RISK_CALCULATION_VERSION)])"

definition rule_input :: "risk_policy_rule_row \<Rightarrow> policy_rule_input" where
  "rule_input r = \<lparr>pri_rule_id = rule_id r, pri_metric_key = rule_metric_key r, pri_operator = rule_operator r,
     pri_threshold = rule_threshold r, pri_unit = rule_unit r,
     pri_explanation_template = rule_explanation_template r\<rparr>"

definition policy_in_force :: "database \<Rightarrow> uuid \<Rightarrow> uuid \<Rightarrow> datetime \<Rightarrow> app_error + risk_policy_row" where
  "policy_in_force db fund_id policy_id as_of =
     (case first_row (\<lambda>r. rp_id r = policy_id) (db_risk_policies db) of
        None \<Rightarrow> Inl (RiskError ''risk policy does not belong to the requested fund'')
      | Some policy \<Rightarrow>
          if rp_fund_id policy \<noteq> fund_id
          then Inl (RiskError ''risk policy does not belong to the requested fund'')
          else if instant as_of < instant (rp_effective_from policy)
            \<or> (case rp_effective_to policy of None \<Rightarrow> False | Some t \<Rightarrow> instant t \<le> instant as_of)
          then Inl (RiskError ''risk policy is not effective at the evaluation cutoff'')
          else Inr policy)"

definition evaluation_item :: "uuid \<Rightarrow> uuid \<Rightarrow> policy_evaluation_item \<Rightarrow> risk_evaluation_item_row" where
  "evaluation_item i evaluation_id result =
     \<lparr>rei_id = i, rei_evaluation_id = evaluation_id, rei_rule_id = pei_rule_id result,
      rei_status = pei_status result, rei_observed_value = pei_observed_value result,
      rei_threshold = pei_threshold result, rei_breach_amount = pei_breach_amount result,
      rei_unit = pei_unit result, rei_explanation = pei_explanation result\<rparr>"

definition evaluate_and_record ::
  "digest \<Rightarrow> formatter \<Rightarrow> (nat \<Rightarrow> uuid) \<Rightarrow> database \<Rightarrow> uuid \<Rightarrow> uuid \<Rightarrow> datetime \<Rightarrow> (string, dec) dict \<Rightarrow> datetime
     \<Rightarrow> app_error + (uuid \<times> policy_evaluation_item list) \<times> database" where
  "evaluate_and_record H F ids db fund_id policy_id as_of metrics created_at =
     bindR (risk_aware as_of) (\<lambda>_.
     bindR (risk_aware created_at) (\<lambda>_.
     bindR (policy_in_force db fund_id policy_id as_of) (\<lambda>policy.
     let rules = filter (\<lambda>r. rule_policy_id r = policy_id) (db_risk_policy_rules db) in
     bindR (policy_evaluate F (map rule_input rules) (dict_get metrics)) (\<lambda>results.
     let h = evaluation_hash H policy_id as_of metrics in
     (case first_row (\<lambda>r. re_policy_id r = policy_id \<and> instant (re_as_of r) = instant as_of \<and> re_input_hash r = h)
         (db_risk_evaluations db) of
        Some existing \<Rightarrow> Inr ((re_id existing, results), db)
      | None \<Rightarrow>
          let evaluation = \<lparr>re_id = ids 0, re_fund_id = fund_id, re_policy_id = policy_id, re_as_of = as_of,
                re_input_hash = h, re_calculation_version = RISK_CALCULATION_VERSION, re_created_at = created_at\<rparr> in
          bindR (insert_risk_evaluation db evaluation) (\<lambda>db1.
          bindR (foldR insert_risk_evaluation_item db1
            (map (\<lambda>(k, result). evaluation_item (ids (Suc k)) (re_id evaluation) result) (enumerate 0 results))) (\<lambda>db2.
          Inr ((re_id evaluation, results), db2))))))))"

end
