(* ===== verification/Policy_Properties.thy ===== *)
theory Policy_Properties
  imports Risk_Policy
begin

text \<open>
  The policy engine decides a rule exactly as its operator compares the unrounded values, and the
  service stores exactly the results the engine gave.
\<close>

section \<open>The verdict of a rule\<close>

definition within_limit :: "policy_operator \<Rightarrow> dec \<Rightarrow> dec \<Rightarrow> bool" where
  "within_limit operator threshold x \<longleftrightarrow>
     (if operator = Policy_MAX then dval x \<le> dval threshold else dval threshold \<le> dval x)"

text \<open>What an item must say of a rule: the rule's terms, the observed metric, the status and the excess.\<close>

definition judged :: "(string \<Rightarrow> dec option) \<Rightarrow> policy_rule_input \<Rightarrow> policy_evaluation_item \<Rightarrow> bool" where
  "judged metrics rule item \<longleftrightarrow>
     pei_rule_id item = pri_rule_id rule \<and> pei_metric_key item = pri_metric_key rule
     \<and> pei_threshold item = pri_threshold rule \<and> pei_unit item = pri_unit rule
     \<and> pei_observed_value item = metrics (pri_metric_key rule)
     \<and> (case metrics (pri_metric_key rule) of
          None \<Rightarrow> pei_status item = Policy_UNAVAILABLE \<and> pei_breach_amount item = None
        | Some x \<Rightarrow>
            if within_limit (pri_operator rule) (pri_threshold rule) x
            then pei_status item = Policy_PASS \<and> pei_breach_amount item = Some dzero
            else pei_status item = Policy_BREACH
              \<and> (\<exists>b. pei_breach_amount item = Some b \<and> 0 < dval b
                   \<and> dval b = rnd \<bar>dval x - dval (pri_threshold rule)\<bar>))"

lemma evaluate_rule_judged: "evaluate_rule F metrics rule = Inr item \<Longrightarrow> judged metrics rule item"
  by (auto simp: evaluate_rule_def judged_def within_limit_def result_simps Let_def dec_simps max_def not_le abs_if
      split: option.splits if_splits)

lemma foldR_collect:
  "foldR (\<lambda>out x. bindR (g x) (\<lambda>y. Inr (out @ [y]))) acc xs = Inr out \<longleftrightarrow>
     (\<exists>ys. out = acc @ ys \<and> list_all2 (\<lambda>x y. g x = Inr y) xs ys)"
  by (induction xs arbitrary: acc) (auto simp: result_simps list_all2_Cons1)

lemma policy_evaluate_Inr:
  "policy_evaluate F rules metrics = Inr items \<longleftrightarrow>
     list_all2 (\<lambda>rule item. evaluate_rule F metrics rule = Inr item) (sort_key pri_rule_id rules) items"
  by (simp add: policy_evaluate_def foldR_collect)

lemma policy_evaluate_judged:
  "policy_evaluate F rules metrics = Inr items \<Longrightarrow> list_all2 (judged metrics) (sort_key pri_rule_id rules) items"
  unfolding policy_evaluate_Inr by (erule list_all2_mono) (rule evaluate_rule_judged)

text \<open>C33: The policy engine returns one item per rule in the order of the rule ids: UNAVAILABLE
  exactly without the metric, BREACH exactly when the metric is beyond the threshold in exact
  comparison, otherwise PASS, with the excess rounded once and positive on a breach.\<close>

theorem policy_verdicts:
  assumes "policy_evaluate F rules metrics = Inr items"
  shows "list_all2 (judged metrics) (sort_key pri_rule_id rules) items"
  using assms by (rule policy_evaluate_judged)

lemma policy_evaluate_rule:
  assumes "policy_evaluate F rules metrics = Inr items" and "rule \<in> set rules"
  obtains item where "item \<in> set items" "judged metrics rule item"
proof -
  have "rule \<in> set (sort_key pri_rule_id rules)" using assms(2) by simp
  then obtain n where "n < length (sort_key pri_rule_id rules)" "sort_key pri_rule_id rules ! n = rule"
    by (auto simp only: in_set_conv_nth)
  with policy_evaluate_judged [OF assms(1)] show thesis
    by (intro that [of "items ! n"]) (auto simp: list_all2_conv_all_nth)
qed

section \<open>Recorded evaluations\<close>

interpretation evaluation_items: child_table db_risk_evaluation_items "\<lambda>rs db. db\<lparr>db_risk_evaluation_items := rs\<rparr>"
  "''risk_evaluation_items''" risk_evaluation_item_clash risk_evaluation_item_checks risk_evaluation_item_refs
  insert_risk_evaluation_item
  by unfold_locales (simp_all add: insert_risk_evaluation_item_def risk_evaluation_item_refs_def fun_eq_iff)

definition policy_rules :: "database \<Rightarrow> uuid \<Rightarrow> policy_rule_input list" where
  "policy_rules db policy_id = map rule_input (filter (\<lambda>r. rule_policy_id r = policy_id) (db_risk_policy_rules db))"

text \<open>The items stored for an evaluation are the engine's results on the policy's rules.\<close>

definition evaluation_recorded :: "digest \<Rightarrow> formatter \<Rightarrow> database \<Rightarrow> risk_evaluation_row \<Rightarrow> bool" where
  "evaluation_recorded H F db e \<longleftrightarrow> (\<exists>metrics items.
     policy_evaluate F (policy_rules db (re_policy_id e)) (dict_get metrics) = Inr items
     \<and> re_input_hash e = evaluation_hash H (re_policy_id e) (re_as_of e) metrics
     \<and> list_all2 (\<lambda>item row. row = evaluation_item (rei_id row) (re_id e) item) items
         (filter (\<lambda>r. rei_evaluation_id r = re_id e) (db_risk_evaluation_items db)))"

definition evaluations_ok :: "digest \<Rightarrow> formatter \<Rightarrow> database \<Rightarrow> bool" where
  "evaluations_ok H F db \<longleftrightarrow> distinct (map re_id (db_risk_evaluations db))
     \<and> (\<forall>e \<in> set (db_risk_evaluations db). evaluation_recorded H F db e)
     \<and> (\<forall>r \<in> set (db_risk_evaluation_items db). refers re_id (db_risk_evaluations db) (rei_evaluation_id r))"

text \<open>A call either finds its evaluation or stores a new one with its items.\<close>

lemma evaluate_and_record_cases:
  assumes "evaluate_and_record H F ids db f p a m t = Inr ((i, results), db')"
  obtains (reused) e where "first_row (\<lambda>r. re_policy_id r = p \<and> instant (re_as_of r) = instant a
        \<and> re_input_hash r = evaluation_hash H p a m) (db_risk_evaluations db) = Some e" "i = re_id e" "db' = db"
    | (stored) e rows where "first_row (\<lambda>r. re_policy_id r = p \<and> instant (re_as_of r) = instant a
        \<and> re_input_hash r = evaluation_hash H p a m) (db_risk_evaluations db) = None"
      "i = re_id e" "re_fund_id e = f" "re_policy_id e = p" "re_as_of e = a" "re_input_hash e = evaluation_hash H p a m"
      "\<forall>r \<in> set (db_risk_evaluations db). re_id r \<noteq> re_id e"
      "list_all2 (\<lambda>item row. row = evaluation_item (rei_id row) (re_id e) item) results rows"
      "db' = db\<lparr>db_risk_evaluations := db_risk_evaluations db @ [e],
        db_risk_evaluation_items := db_risk_evaluation_items db @ rows\<rparr>"
proof -
  let ?P = "\<lambda>r. re_policy_id r = p \<and> instant (re_as_of r) = instant a \<and> re_input_hash r = evaluation_hash H p a m"
  show thesis
  proof (cases "first_row ?P (db_risk_evaluations db)")
    case (Some e)
    with assms show ?thesis by (intro reused) (auto simp: evaluate_and_record_def result_simps Let_def)
  next
    case None
    define e where "e = \<lparr>re_id = ids 0, re_fund_id = f, re_policy_id = p, re_as_of = a,
      re_input_hash = evaluation_hash H p a m, re_calculation_version = RISK_CALCULATION_VERSION, re_created_at = t\<rparr>"
    define rows where "rows = map (\<lambda>(k, result). evaluation_item (ids (Suc k)) (re_id e) result) (enumerate 0 results)"
    from assms None obtain db1 where db1: "insert_risk_evaluation db e = Inr db1"
      "foldR insert_risk_evaluation_item db1 rows = Inr db'" "i = re_id e"
      by (auto simp: evaluate_and_record_def result_simps Let_def e_def rows_def)
    from db1(1) have e: "db1 = db\<lparr>db_risk_evaluations := db_risk_evaluations db @ [e]\<rparr>"
      "\<forall>r \<in> set (db_risk_evaluations db). re_id r \<noteq> re_id e"
      by (auto simp: insert_risk_evaluation_def result_simps risk_evaluation_clash_def)
    show ?thesis
    proof (rule stored [OF None db1(3) _ _ _ _ e(2)])
      show "list_all2 (\<lambda>item row. row = evaluation_item (rei_id row) (re_id e) item) results rows"
        by (simp add: rows_def list_all2_conv_all_nth nth_enumerate_eq evaluation_item_def)
      show "db' = db\<lparr>db_risk_evaluations := db_risk_evaluations db @ [e],
          db_risk_evaluation_items := db_risk_evaluation_items db @ rows\<rparr>"
        using evaluation_items.insert_all_rows [OF db1(2)] by (simp add: e(1))
    qed (simp_all add: e_def)
  qed
qed

lemma evaluate_and_record_results:
  assumes "evaluate_and_record H F ids db f p a m t = Inr ((i, results), db')"
  shows "policy_evaluate F (policy_rules db p) (dict_get m) = Inr results"
  using assms by (auto simp: evaluate_and_record_def result_simps Let_def policy_rules_def split: option.splits)

theorem evaluate_idempotent:
  assumes "evaluate_and_record H F ids db f p a m t = Inr (out, db')" and "is_aware t'"
  shows "evaluate_and_record H F ids' db' f p a m t' = Inr (out, db')"
proof -
  obtain i results where out: "out = (i, results)" by (cases out)
  note run = assms(1) [unfolded out]
  from run have g: "is_aware a" "\<exists>q. policy_in_force db f p a = Inr q"
    "policy_evaluate F (map rule_input (filter (\<lambda>r. rule_policy_id r = p) (db_risk_policy_rules db))) (dict_get m) = Inr results"
    by (auto simp: evaluate_and_record_def result_simps Let_def risk_aware_def split: option.splits)
  let ?P = "\<lambda>r. re_policy_id r = p \<and> instant (re_as_of r) = instant a \<and> re_input_hash r = evaluation_hash H p a m"
  have "first_row ?P (db_risk_evaluations db') = Some e \<Longrightarrow> re_id e = i \<Longrightarrow>
      db_risk_policies db' = db_risk_policies db \<Longrightarrow> db_risk_policy_rules db' = db_risk_policy_rules db \<Longrightarrow> ?thesis" for e
    using g assms(2) by (auto simp: evaluate_and_record_def risk_aware_def out policy_in_force_def)
  then show ?thesis using run
    by (elim evaluate_and_record_cases) (auto simp: first_row_append)
qed

lemma evaluation_recorded_stored:
  assumes ok: "evaluations_ok H F db" and e: "e \<in> set (db_risk_evaluations db)"
    and rows: "\<forall>r \<in> set rows. rei_evaluation_id r \<noteq> re_id e"
    and db': "db_risk_policy_rules db' = db_risk_policy_rules db"
      "db_risk_evaluation_items db' = db_risk_evaluation_items db @ rows"
  shows "evaluation_recorded H F db' e"
proof -
  have "filter (\<lambda>r. rei_evaluation_id r = re_id e) rows = []" using rows by (simp add: filter_empty_conv)
  with ok e show ?thesis by (simp add: evaluations_ok_def evaluation_recorded_def policy_rules_def db')
qed

lemma evaluate_and_record_ok:
  assumes ok: "evaluations_ok H F db" and run: "evaluate_and_record H F ids db f p a m t = Inr ((i, results), db')"
  shows "evaluations_ok H F db'"
  using run
proof (cases rule: evaluate_and_record_cases)
  case reused
  with ok show ?thesis by simp
next
  case (stored e rows)
  have "list_all2 (\<lambda>_ row. rei_evaluation_id row = re_id e) results rows"
    using stored(8) by (rule list_all2_mono) (drule arg_cong [where f = rei_evaluation_id], simp add: evaluation_item_def)
  then have ids: "rei_evaluation_id r = re_id e" if "r \<in> set rows" for r
    using that by (auto simp: list_all2_conv_all_nth in_set_conv_nth)
  have old: "evaluation_recorded H F db' e'" if "e' \<in> set (db_risk_evaluations db)" for e'
    by (rule evaluation_recorded_stored [OF ok that, of rows]) (use ids stored(7) that stored(9) in auto)
  have "filter (\<lambda>r. rei_evaluation_id r = re_id e) (db_risk_evaluation_items db) = []"
    using ok stored(7) by (auto simp: evaluations_ok_def refers_def filter_empty_conv)
  moreover have "filter (\<lambda>r. rei_evaluation_id r = re_id e) rows = rows" using ids by (simp add: filter_id_conv)
  ultimately have "evaluation_recorded H F db' e"
    using evaluate_and_record_results [OF run] stored
    unfolding evaluation_recorded_def by (intro exI [of _ m] exI [of _ results]) (simp add: policy_rules_def)
  with old ok ids stored(7,9) show ?thesis by (auto simp: evaluations_ok_def refers_def)
qed

end
