(* ===== verification/Platform.thy ===== *)
theory Platform
  imports Governance_Properties Policy_Properties
begin

text \<open>
  The proposal service and the policy service on one database: what the risk evaluation bound to a
  proposal says of the portfolio when the proposal is approved.
\<close>

section \<open>What governance leaves alone\<close>

text \<open>The identity and the fund of every proposal.\<close>

definition proposal_funds :: "database \<Rightarrow> (uuid \<times> uuid) list" where
  "proposal_funds db = map (\<lambda>p. (ip_id p, ip_fund_id p)) (db_investment_proposals db)"

lemma list_all2_member: "list_all2 P xs ys \<Longrightarrow> x \<in> set xs \<Longrightarrow> (\<And>y. y \<in> set ys \<Longrightarrow> P x y \<Longrightarrow> thesis) \<Longrightarrow> thesis"
  by (induction xs ys rule: list_all2_induct) auto

lemma history_db:
  assumes "history ids n db p v action from_status to_status actor role reason provenance t = Inr db'"
  shows "\<exists>x y. db' = db\<lparr>db_proposal_transitions := x, db_audit_events := y\<rparr>"
  using assms by (auto simp: history_def Let_def result_simps insert_proposal_transition_def insert_audit_event_def)

lemma advance_db:
  assumes "advance db p n st t cv = Inr (p', db')"
  shows "\<exists>x. db' = db\<lparr>db_investment_proposals := x\<rparr> \<and> proposal_funds db' = proposal_funds db
    \<and> ip_id p' = ip_id p \<and> ip_fund_id p' = ip_fund_id p"
  using assms by (auto simp: advance_def result_simps Let_def proposal_funds_def split: if_splits)

interpretation proposal_lines: child_table db_proposal_lines "\<lambda>rs db. db\<lparr>db_proposal_lines := rs\<rparr>"
  "''proposal_lines''" proposal_line_clash proposal_line_checks proposal_line_refs insert_proposal_line
  by unfold_locales (simp_all add: insert_proposal_line_def proposal_line_refs_def fun_eq_iff)

lemma add_version_db:
  assumes "add_version H ids n db p actor c t s = Inr (v, db')"
  shows "\<exists>x. db' = db\<lparr>db_proposal_versions := db_proposal_versions db @ [v], db_proposal_lines := x\<rparr>
    \<and> v = version_of H (ids n) p actor c t s \<and> (\<forall>w \<in> set (db_proposal_versions db). pv_id w \<noteq> pv_id v)"
  using assms by (auto simp: add_version_def Let_def result_simps insert_proposal_version_def
      proposal_version_clash_def dest!: proposal_lines.insert_all_rows)

lemma status_transition_db:
  assumes "status_transition ids db i actor n perm from_list st action reason t prevent = Inr (res, db')"
  shows "\<exists>x y z. db' = db\<lparr>db_investment_proposals := x, db_proposal_transitions := y, db_audit_events := z\<rparr>
    \<and> proposal_funds db' = proposal_funds db"
  using assms by (auto simp: status_transition_def result_simps proposal_funds_def split: prod.splits
      dest!: advance_db history_db)

text \<open>An analysis rests on a version of a proposal and an evaluation of its fund and cutoff.\<close>

definition analysis_bound :: "database \<Rightarrow> proposal_analysis_row \<Rightarrow> bool" where
  "analysis_bound db a \<longleftrightarrow> (\<exists>v \<in> set (db_proposal_versions db). \<exists>f. \<exists>e \<in> set (db_risk_evaluations db).
     pv_id v = pa_proposal_version_id a \<and> (pv_proposal_id v, f) \<in> set (proposal_funds db)
     \<and> re_id e = pa_risk_evaluation_id a \<and> re_fund_id e = f
     \<and> instant (re_as_of e) = instant (pv_portfolio_as_of v))"

definition governance_frame :: "database \<Rightarrow> database \<Rightarrow> bool" where
  "governance_frame db db' \<longleftrightarrow>
     db_risk_evaluations db' = db_risk_evaluations db \<and> db_risk_evaluation_items db' = db_risk_evaluation_items db
     \<and> db_risk_policy_rules db' = db_risk_policy_rules db
     \<and> (\<exists>ps. proposal_funds db' = proposal_funds db @ ps)
     \<and> (db_proposal_versions db' = db_proposal_versions db
        \<or> (\<exists>v. db_proposal_versions db' = db_proposal_versions db @ [v]
             \<and> (\<forall>w \<in> set (db_proposal_versions db). pv_id w \<noteq> pv_id v)))
     \<and> (\<forall>a \<in> set (db_proposal_analyses db'). a \<in> set (db_proposal_analyses db) \<or> analysis_bound db a)"

lemma frame_simple:
  "db' = db\<lparr>db_investment_proposals := x, db_proposal_transitions := y, db_audit_events := z\<rparr> \<Longrightarrow>
     proposal_funds db' = proposal_funds db \<Longrightarrow> governance_frame db db'"
  by (simp add: governance_frame_def)

lemma record_analysis_frame:
  assumes run: "proposal_record_analysis H ids db i actor n re sr t = Inr (an, db')"
  shows "governance_frame db db'"
proof (cases "db' = db")
  case True
  then show ?thesis by (simp add: governance_frame_def)
next
  case False
  with run obtain p role db1 p' db2 prov st and v :: proposal_version_row and e where r:
    "the_proposal db i = Inr p" "the_version db p = Inr v" "evidence_risk db p v re = Inr e"
    "advance db p n DRAFT t None = Inr (p', db1)" "insert_proposal_analysis db1 an = Inr db2"
    "history ids 1 db2 p' v Workflow_ANALYZED st DRAFT actor role None prov t = Inr db'"
    "pa_proposal_version_id an = pv_id v" "pa_risk_evaluation_id an = re_id e"
    by (auto simp: proposal_record_analysis_def result_simps Let_def split: prod.splits option.splits)
  have v: "v \<in> set (db_proposal_versions db)" "pv_proposal_id v = ip_id p"
    using r(2) by (auto simp: the_version_def split: option.splits dest!: first_row_Some)
  have e: "e \<in> set (db_risk_evaluations db)" "re_fund_id e = ip_fund_id p"
    "instant (re_as_of e) = instant (pv_portfolio_as_of v)"
    using r(3) by (auto simp: evidence_risk_def split: option.splits if_splits dest!: first_row_Some)
  have "p \<in> set (db_investment_proposals db)" using r(1) by (auto simp: the_proposal_Inr dest: first_row_key)
  then have "analysis_bound db an"
    unfolding analysis_bound_def using v e r(7,8) by (force simp: proposal_funds_def)
  moreover have "\<exists>x. db2 = db1\<lparr>db_proposal_analyses := x\<rparr> \<and> set x = insert an (set (db_proposal_analyses db1))"
    using r(5) by (auto simp: insert_proposal_analysis_def result_simps)
  ultimately show ?thesis
    using advance_db [OF r(4)] history_db [OF r(6)] by (auto simp: governance_frame_def proposal_funds_def)
qed

lemma exec_frame:
  assumes run: "governance_exec H ids db actor t c = Inr db'"
  shows "governance_frame db db'"
proof (cases c)
  case (Create f content)
  with run obtain db1 v db2 role prov p where r: "insert_investment_proposal db p = Inr db1"
    "add_version H ids 1 db1 p actor content t None = Inr (v, db2)"
    "history ids (2 + length (pvi_lines content)) db2 p v Workflow_CREATED None DRAFT actor role None prov t = Inr db'"
    by (auto simp: proposal_create_def result_simps Let_def split: prod.splits)
  from r(1) have "db1 = db\<lparr>db_investment_proposals := db_investment_proposals db @ [p]\<rparr>"
    by (auto simp: insert_investment_proposal_def result_simps)
  with add_version_db [OF r(2)] history_db [OF r(3)] show ?thesis
    by (auto simp: governance_frame_def proposal_funds_def)
next
  case (Revise i n content)
  with run obtain p db1 p' v db2 role prov prev st k where r:
    "advance db p n DRAFT t (Some k) = Inr (p', db1)"
    "add_version H ids 0 db1 p' actor content t prev = Inr (v, db2)"
    "history ids (1 + length (pvi_lines content)) db2 p' v Workflow_REVISED st DRAFT actor role None prov t = Inr db'"
    by (auto simp: proposal_revise_def result_simps simp del: insert_iff split: prod.splits del: insertE)
  with advance_db [OF r(1)] add_version_db [OF r(2)] history_db [OF r(3)] show ?thesis
    by (auto simp: governance_frame_def proposal_funds_def)
next
  case (Record_analysis i n re sr)
  with run show ?thesis by (auto simp: result_simps dest: record_analysis_frame)
next
  case (Submit i n)
  with run obtain p db1 p' role prov st and v :: proposal_version_row where r: "advance db p n SUBMITTED t None = Inr (p', db1)"
    "history ids 0 db1 p' v Workflow_SUBMITTED st SUBMITTED actor role None prov t = Inr db'"
    by (auto simp: proposal_submit_def result_simps Let_def split: prod.splits)
  with advance_db [OF r(1)] history_db [OF r(2)] show ?thesis by (auto simp: governance_frame_def proposal_funds_def)
next
  case (Record_review i n rec comment)
  with run obtain p role db1 p' rv db2 prov st st' st'' rs and v :: proposal_version_row where r:
    "advance db p n st t None = Inr (p', db1)" "insert_proposal_review db1 rv = Inr db2"
    "history ids 1 db2 p' v Workflow_REVIEW_RECORDED st' st'' actor role rs prov t = Inr db'"
    by (auto simp: proposal_record_review_def result_simps Let_def simp del: insert_iff split: prod.splits del: insertE)
  from r(2) have "\<exists>x. db2 = db1\<lparr>db_proposal_reviews := x\<rparr>" by (auto simp: insert_proposal_review_def result_simps)
  with advance_db [OF r(1)] history_db [OF r(3)] show ?thesis by (auto simp: governance_frame_def proposal_funds_def)
next
  case (Approve i n reason)
  with run obtain p role db1 p' prov rs st and v :: proposal_version_row where r:
    "advance db p n APPROVED t None = Inr (p', db1)"
    "history ids 0 db1 p' v Workflow_APPROVED st APPROVED actor role rs prov t = Inr db'"
    by (auto simp: proposal_approve_def result_simps Let_def split: prod.splits)
  with advance_db [OF r(1)] history_db [OF r(2)] show ?thesis by (auto simp: governance_frame_def proposal_funds_def)
next
  case (Start_review i n)
  with run show ?thesis
    by (auto simp: proposal_start_review_def result_simps dest!: status_transition_db intro: frame_simple)
next
  case (Request_changes i n reason)
  with run show ?thesis
    by (auto simp: proposal_request_changes_def result_simps dest!: status_transition_db intro: frame_simple)
next
  case (Reject i n reason)
  with run show ?thesis
    by (auto simp: proposal_reject_def result_simps dest!: status_transition_db intro: frame_simple)
next
  case (Withdraw i n reason)
  with run show ?thesis
    by (auto simp: proposal_withdraw_def result_simps dest!: status_transition_db intro: frame_simple)
qed

section \<open>The platform\<close>

text \<open>
  Governance commands and policy evaluations, in any order, on a database without proposals and
  evaluations; its policies and rules are given.
\<close>

inductive platform_run :: "digest \<Rightarrow> formatter \<Rightarrow> database \<Rightarrow> bool" for H F where
  start: "db_investment_proposals db = [] \<Longrightarrow> db_proposal_transitions db = [] \<Longrightarrow> db_proposal_versions db = [] \<Longrightarrow>
     db_proposal_analyses db = [] \<Longrightarrow> db_risk_evaluations db = [] \<Longrightarrow> db_risk_evaluation_items db = [] \<Longrightarrow>
     platform_run H F db"
| govern: "platform_run H F db \<Longrightarrow> governance_exec H ids db actor t c = Inr db' \<Longrightarrow> platform_run H F db'"
| evaluate: "platform_run H F db \<Longrightarrow> evaluate_and_record H F ids db f p a m t = Inr (out, db') \<Longrightarrow> platform_run H F db'"

definition evidence_ok :: "database \<Rightarrow> bool" where
  "evidence_ok db \<longleftrightarrow> distinct (map pv_id (db_proposal_versions db))
     \<and> (\<forall>a \<in> set (db_proposal_analyses db). analysis_bound db a)"

lemma evaluations_ok_frame: "governance_frame db db' \<Longrightarrow> evaluations_ok H F db \<Longrightarrow> evaluations_ok H F db'"
  by (simp add: governance_frame_def evaluations_ok_def evaluation_recorded_def policy_rules_def)

lemma analysis_bound_grows:
  "analysis_bound db a \<Longrightarrow> set (db_proposal_versions db) \<subseteq> set (db_proposal_versions db') \<Longrightarrow>
     set (proposal_funds db) \<subseteq> set (proposal_funds db') \<Longrightarrow>
     set (db_risk_evaluations db) \<subseteq> set (db_risk_evaluations db') \<Longrightarrow> analysis_bound db' a"
  unfolding analysis_bound_def by blast

lemma evidence_ok_frame:
  assumes "governance_frame db db'" and "evidence_ok db"
  shows "evidence_ok db'"
proof -
  have "set (db_proposal_versions db) \<subseteq> set (db_proposal_versions db')"
    "set (proposal_funds db) \<subseteq> set (proposal_funds db')"
    "set (db_risk_evaluations db) \<subseteq> set (db_risk_evaluations db')"
    using assms(1) by (auto simp: governance_frame_def)
  note grows = analysis_bound_grows [OF _ this]
  have "distinct (map pv_id (db_proposal_versions db'))"
    using assms by (force simp: governance_frame_def evidence_ok_def)
  with grows assms show ?thesis by (auto simp: governance_frame_def evidence_ok_def)
qed

lemma evaluate_keeps:
  assumes "evaluate_and_record H F ids db f p a m t = Inr (out, db')"
  shows "db_investment_proposals db' = db_investment_proposals db"
    "db_proposal_transitions db' = db_proposal_transitions db"
    "evidence_ok db \<Longrightarrow> evidence_ok db'"
proof -
  obtain i results where out: "out = (i, results)" by (cases out)
  from assms [unfolded out] show "db_investment_proposals db' = db_investment_proposals db"
    "db_proposal_transitions db' = db_proposal_transitions db"
    by (auto elim: evaluate_and_record_cases)
  from assms [unfolded out] show "evidence_ok db'" if "evidence_ok db"
  proof (cases rule: evaluate_and_record_cases)
    case reused
    with that show ?thesis by simp
  next
    case (stored e rows)
    have "analysis_bound db a \<Longrightarrow> analysis_bound db' a" for a
      by (erule analysis_bound_grows) (auto simp: stored(9) proposal_funds_def)
    with that stored(9) show ?thesis by (simp add: evidence_ok_def)
  qed
qed

lemma platform_run_ok:
  assumes "platform_run H F db"
  shows "governance_ok db" "evidence_ok db" "evaluations_ok H F db"
proof -
  have "governance_run H db \<and> evidence_ok db \<and> evaluations_ok H F db"
    using assms
  proof induction
    case (start db)
    then show ?case by (simp add: governance_run.start evidence_ok_def evaluations_ok_def)
  next
    case (govern db ids actor t c db')
    then show ?case
      using exec_frame [OF govern.hyps(2)] evidence_ok_frame evaluations_ok_frame governance_run.exec by blast
  next
    case (evaluate db ids f p a m t out db')
    obtain i results where "out = (i, results)" by (cases out)
    with evaluate evaluate_keeps [OF evaluate.hyps(2)] show ?case
      using evaluate_and_record_ok governance_run.other by blast
  qed
  then show "governance_ok db" "evidence_ok db" "evaluations_ok H F db" by (auto intro: governance_run_ok)
qed

text \<open>C1: End to end: in every database that policy evaluations and governance commands reach, a
  proposal that is approved rests on an evaluation of its fund at its portfolio cutoff, recorded
  by the policy service, in which every blocking rule of the policy has its metric and the metric
  is within the threshold.\<close>

theorem approved_within_limits:
  assumes run: "platform_run H F db" and approve: "proposal_approve ids db i actor n reason t = Inr (p', db')"
  shows "\<exists>p v e metrics. the_proposal db i = Inr p \<and> the_version db p = Inr v
    \<and> e \<in> set (db_risk_evaluations db) \<and> re_fund_id e = ip_fund_id p
    \<and> instant (re_as_of e) = instant (pv_portfolio_as_of v)
    \<and> re_input_hash e = evaluation_hash H (re_policy_id e) (re_as_of e) metrics
    \<and> (\<forall>r \<in> set (db_risk_policy_rules db). rule_policy_id r = re_policy_id e \<longrightarrow> rule_severity r = Severity_BLOCKING \<longrightarrow>
         (\<exists>x. dict_get metrics (rule_metric_key r) = Some x \<and> within_limit (rule_operator r) (rule_threshold r) x))"
proof -
  note ok = platform_run_ok [OF run]
  from approve_requires [OF approve] obtain p v a where p: "the_proposal db i = Inr p" "the_version db p = Inr v"
    "clear_evidence db (pv_id v) a" by blast
  have v: "v \<in> set (db_proposal_versions db)" "pv_proposal_id v = ip_id p"
    using p(2) by (auto simp: the_version_def split: option.splits dest!: first_row_Some)
  have in_p: "p \<in> set (db_investment_proposals db)" using p(1) by (auto simp: the_proposal_Inr dest: first_row_key)
  from p(3) ok(2) obtain w f e where w: "w \<in> set (db_proposal_versions db)" "pv_id w = pv_id v"
    "(pv_proposal_id w, f) \<in> set (proposal_funds db)" "e \<in> set (db_risk_evaluations db)"
    "re_id e = pa_risk_evaluation_id a" "re_fund_id e = f" "instant (re_as_of e) = instant (pv_portfolio_as_of w)"
    by (auto simp: clear_evidence_def evidence_ok_def analysis_bound_def)
  have same: "w = v" using ok(2) w(1,2) v(1) by (auto simp: evidence_ok_def distinct_map inj_on_def)
  have "distinct (map ip_id (db_investment_proposals db))" using ok(1) by (simp add: governance_ok_def proposals_table)
  then have fund: "f = ip_fund_id p" using w(3) same v(2) in_p by (auto simp: proposal_funds_def distinct_map inj_on_def)
  from ok(3) w(4) obtain metrics items where m:
    "policy_evaluate F (policy_rules db (re_policy_id e)) (dict_get metrics) = Inr items"
    "re_input_hash e = evaluation_hash H (re_policy_id e) (re_as_of e) metrics"
    "list_all2 (\<lambda>item row. row = evaluation_item (rei_id row) (re_id e) item) items
       (filter (\<lambda>r. rei_evaluation_id r = re_id e) (db_risk_evaluation_items db))"
    unfolding evaluations_ok_def evaluation_recorded_def by blast
  have "\<exists>x. dict_get metrics (rule_metric_key r) = Some x \<and> within_limit (rule_operator r) (rule_threshold r) x"
    if r: "r \<in> set (db_risk_policy_rules db)" "rule_policy_id r = re_policy_id e" "rule_severity r = Severity_BLOCKING" for r
  proof -
    have "rule_input r \<in> set (policy_rules db (re_policy_id e))" using r by (simp add: policy_rules_def)
    with m(1) obtain item where item: "item \<in> set items" "judged (dict_get metrics) (rule_input r) item"
      by (rule policy_evaluate_rule)
    from m(3) item(1) obtain row where row: "row \<in> set (db_risk_evaluation_items db)" "rei_evaluation_id row = re_id e"
      "row = evaluation_item (rei_id row) (re_id e) item" by (rule list_all2_member) auto
    from row(3) have "rei_rule_id row = pei_rule_id item" "rei_status row = pei_status item"
      by (metis evaluation_item_def risk_evaluation_item_row.select_convs)+
    with item(2) have "rei_rule_id row = rule_id r" "pei_status item = rei_status row" by (simp_all add: judged_def rule_input_def)
    with p(3) row(1,2) r(1,3) w(5) have "pei_status item = Policy_PASS" by (auto simp: clear_evidence_def)
    with item(2) show ?thesis by (auto simp: judged_def rule_input_def split: option.splits if_splits)
  qed
  with p(1,2) w(4,6,7) fund same m(2) show ?thesis by (intro exI [of _ p] exI [of _ v] exI [of _ e] exI [of _ metrics]) simp
qed

end
