(* ===== verification/Platform_Witnesses.thy ===== *)
theory Platform_Witnesses
  imports Governance_Witnesses Platform
begin

text \<open>
  The database the proposal of \<open>Governance_Witnesses\<close> starts from is the result of a policy
  evaluation; so its approval is a run of the platform.
\<close>

section \<open>The evaluation\<close>

definition no_formatter :: formatter where
  "no_formatter template vs = Inl TypeError"

definition plain_base :: database where
  "plain_base = gov_base\<lparr>db_risk_evaluations := [], db_risk_evaluation_items := []\<rparr>"

definition gov_result :: policy_evaluation_item where
  "gov_result = \<lparr>pei_rule_id = 70, pei_metric_key = ''m'', pei_status = Policy_PASS, pei_observed_value = Some dzero,
     pei_threshold = dunit, pei_breach_amount = Some dzero, pei_unit = ''w'', pei_explanation = ''e''\<rparr>"

lemma plain_text: "plain_format vs ''e'' = Some ''e''"
  by (simp add: plain_format.simps)

lemma gov_rule_result:
  "policy_evaluate no_formatter (policy_rules plain_base 71) (dict_get [(''m'', dzero)]) = Inr [gov_result]"
  by (simp add: policy_evaluate_Inr policy_rules_def plain_base_def gov_base_def rule_input_def evaluate_rule_def
    explanation_def plain_text gov_result_def Let_def dec_simps)

lemma gov_evaluation_hash: "evaluation_hash example_digest 71 (Aware 50 0) [(''m'', dzero)] = hash_text CHR ''1''"
  by (simp add: evaluation_hash_def example_digest_def economic_payload_def canonical_payload_def json_fields_def example_command_def json_opt_def)

lemma gov_evaluated:
  "evaluate_and_record example_digest no_formatter (gov_ids 72) plain_base 1 71 (Aware 50 0) [(''m'', dzero)] (Aware 50 0) =
     Inr ((72, [gov_result]), gov_base)"
proof -
  have "policy_in_force plain_base 1 71 (Aware 50 0) = Inr (hd (db_risk_policies gov_base))"
    by (simp add: policy_in_force_def plain_base_def gov_base_def)
  then show ?thesis
    using gov_rule_result [unfolded policy_rules_def]
    by (simp add: evaluate_and_record_def risk_aware_def gov_evaluation_hash Let_def)
     (simp add: plain_base_def insert_risk_evaluation_def insert_row_def risk_evaluation_checks_def risk_evaluation_refs_def
      refers_def gov_base_def example_db_def empty_database_def varchar_def hash_text_def RISK_CALCULATION_VERSION_def
      insert_risk_evaluation_item_def risk_evaluation_item_checks_def risk_evaluation_item_refs_def evaluation_item_def
      gov_result_def dec_eval cong: bindR_weak_cong let_weak_cong)
qed

lemma gov_platform: "platform_run example_digest no_formatter (gov_db 4)"
proof -
  note exec = platform_run.govern [where H = example_digest and F = no_formatter]
  have "platform_run example_digest no_formatter plain_base"
    by (rule platform_run.start) (simp_all add: plain_base_def gov_base_tables)
  then have "platform_run example_digest no_formatter gov_base"
    using gov_evaluated by (rule platform_run.evaluate)
  then have "platform_run example_digest no_formatter (gov_db 0)"
    by (rule exec [where ids = "gov_ids 100" and actor = 5 and t = "Aware 60 0" and c = "Create 1 gov_content"]) (simp add: gov_created)
  then have "platform_run example_digest no_formatter (gov_db 1)"
    by (rule exec [where ids = "gov_ids 110" and actor = 5 and t = "Aware 61 0" and c = "Record_analysis 100 1 72 None"])
      (simp add: gov_analyzed)
  then have "platform_run example_digest no_formatter (gov_db 2)"
    by (rule exec [where ids = "gov_ids 120" and actor = 5 and t = "Aware 62 0" and c = "Submit 100 2"]) (simp add: gov_submitted del: One_nat_def)
  then have "platform_run example_digest no_formatter (gov_db 3)"
    by (rule exec [where ids = "gov_ids 130" and actor = 6 and t = "Aware 63 0" and c = "Start_review 100 3"]) (simp add: gov_review_started)
  then show ?thesis
    by (rule exec [where ids = "gov_ids 140" and actor = 6 and t = "Aware 64 0" and c = "Record_review 100 4 Review_SUPPORT ''ok''"])
      (simp add: gov_review_recorded)
qed

section \<open>Witnesses\<close>

theorem policy_verdicts_witness:
  "list_all2 (judged (dict_get [(''m'', dzero)])) (sort_key pri_rule_id (policy_rules plain_base 71)) [gov_result]"
  by (rule policy_verdicts [OF gov_rule_result])

theorem evaluate_idempotent_witness:
  "evaluate_and_record example_digest no_formatter (gov_ids 200) gov_base 1 71 (Aware 50 0) [(''m'', dzero)] (Aware 90 0) =
     Inr ((72, [gov_result]), gov_base)"
  by (rule evaluate_idempotent [OF gov_evaluated]) simp

theorem approved_within_limits_witness:
  "\<exists>metrics x. evaluation_hash example_digest 71 (Aware 50 0) metrics = hash_text CHR ''1''
     \<and> dict_get metrics ''m'' = Some x \<and> within_limit Policy_MAX dunit x"
proof -
  have rule: "\<exists>r \<in> set (db_risk_policy_rules (gov_db 4)). rule_policy_id r = 71 \<and> rule_severity r = Severity_BLOCKING
      \<and> rule_metric_key r = ''m'' \<and> rule_operator r = Policy_MAX \<and> rule_threshold r = dunit"
    by (simp add: gov_db_def gov_state_tables gov_base_def)
  have e: "re_policy_id e = 71 \<and> re_as_of e = Aware 50 0 \<and> re_input_hash e = hash_text CHR ''1''"
    if "e \<in> set (db_risk_evaluations (gov_db 4))" for e
    using that by (simp add: gov_db_def gov_state_tables gov_base_def)
  from approved_within_limits [OF gov_platform gov_approved] rule e show ?thesis by fastforce
qed

end
