(* ===== verification/Reconciliation.thy ===== *)
theory Reconciliation
  imports Schema
begin

text \<open>
  \<open>app/snapshots/reconciliation.py\<close>: recording a reported balance or holding once, and comparing
  a snapshot with the reported values. \<open>ids\<close> and \<open>clock\<close> number the results of \<open>uuid4()\<close> and of
  the clock.
\<close>

fun reconciliation_kind_value :: "reconciliation_kind \<Rightarrow> string" where
  "reconciliation_kind_value Kind_CASH = ''CASH''"
| "reconciliation_kind_value Kind_POSITION = ''POSITION''"

fun reconciliation_status_value :: "reconciliation_status \<Rightarrow> string" where
  "reconciliation_status_value Recon_MATCHED = ''MATCHED''"
| "reconciliation_status_value Recon_BREACH = ''BREACH''"
| "reconciliation_status_value Recon_UNAVAILABLE = ''UNAVAILABLE''"

section \<open>Observations\<close>

text \<open>The keyword arguments of \<open>record_observation\<close>.\<close>

record observation_input =
  oi_fund_id :: uuid
  oi_account_id :: uuid
  oi_as_of :: datetime
  oi_kind :: reconciliation_kind
  oi_reported_value :: dec
  oi_source :: string
  oi_external_id :: string
  oi_instrument_id :: "uuid option"
  oi_import_batch_id :: "uuid option"
  oi_evidence :: "json option"

definition same_instant :: "datetime \<Rightarrow> datetime \<Rightarrow> bool" where
  "same_instant left right \<longleftrightarrow> instant (as_utc left) = instant (as_utc right)"

definition validate_observation :: "observation_input \<Rightarrow> app_error + unit" where
  "validate_observation o1 =
     bindR (requireR (is_aware (oi_as_of o1))
       (ReconciliationError ''observation as_of must be timezone-aware'')) (\<lambda>_.
     bindR (requireR (strip (oi_source o1) \<noteq> [] \<and> strip (oi_external_id o1) \<noteq> [])
       (ReconciliationError ''source and external_id are required'')) (\<lambda>_.
     bindR (requireR (\<not> (oi_kind o1 = Kind_CASH \<and> oi_instrument_id o1 \<noteq> None))
       (ReconciliationError ''cash observation cannot reference an instrument'')) (\<lambda>_.
     if oi_kind o1 = Kind_POSITION then
       bindR (requireR (oi_instrument_id o1 \<noteq> None)
         (ReconciliationError ''position observation requires an instrument'')) (\<lambda>_.
       requireR (\<not> dlt (oi_reported_value o1) dzero)
         (ReconciliationError ''reported position cannot be negative''))
     else Inr ())))"

definition observation_of ::
  "uuid \<Rightarrow> datetime \<Rightarrow> observation_input \<Rightarrow> reconciliation_observation_row" where
  "observation_of i now o1 =
     \<lparr>ob_id = i, ob_fund_id = oi_fund_id o1, ob_account_id = oi_account_id o1, ob_as_of = oi_as_of o1,
      ob_kind = oi_kind o1, ob_instrument_id = oi_instrument_id o1,
      ob_reported_value = oi_reported_value o1, ob_currency = ''USD'', ob_source = oi_source o1,
      ob_external_id = oi_external_id o1, ob_import_batch_id = oi_import_batch_id o1,
      ob_evidence = (case oi_evidence o1 of None \<Rightarrow> JObj [] | Some e \<Rightarrow> e), ob_recorded_at = now\<rparr>"

definition record_observation ::
  "uuid \<Rightarrow> datetime \<Rightarrow> database \<Rightarrow> observation_input
     \<Rightarrow> app_error + reconciliation_observation_row \<times> database" where
  "record_observation i now db o1 =
     bindR (validate_observation o1) (\<lambda>_.
     (case first_row (\<lambda>r. ob_fund_id r = oi_fund_id o1 \<and> ob_source r = oi_source o1
           \<and> ob_external_id r = oi_external_id o1) (db_reconciliation_observations db) of
        Some existing \<Rightarrow>
          if ob_account_id existing = oi_account_id o1 \<and> ob_kind existing = oi_kind o1
             \<and> ob_instrument_id existing = oi_instrument_id o1
             \<and> deq (ob_reported_value existing) (oi_reported_value o1)
             \<and> same_instant (ob_as_of existing) (oi_as_of o1)
          then Inr (existing, db)
          else Inl (ReconciliationError ''observation identity conflicts with existing evidence'')
      | None \<Rightarrow>
          let observation = observation_of i now o1 in
          bindR (insert_reconciliation_observation db observation) (\<lambda>db'. Inr (observation, db'))))"

section \<open>Reconciliation\<close>

record reconciliation_result =
  rec_run :: reconciliation_run_row
  rec_items :: "reconciliation_item_row list"
  rec_reused :: bool

definition evidence_hash :: "digest \<Rightarrow> reconciliation_observation_row list \<Rightarrow> string" where
  "evidence_hash H observations = H (JList (map (\<lambda>r. JObj [
     (''id'', JUuid (ob_id r)),
     (''account_id'', JUuid (ob_account_id r)),
     (''kind'', JStr (reconciliation_kind_value (ob_kind r))),
     (''instrument_id'', json_opt JUuid (ob_instrument_id r)),
     (''reported_value'', JDec (ob_reported_value r)),
     (''source'', JStr (ob_source r)),
     (''external_id'', JStr (ob_external_id r))]) (sort_key ob_id observations)))"

definition snapshot_observations ::
  "database \<Rightarrow> portfolio_snapshot_row \<Rightarrow> reconciliation_observation_row list" where
  "snapshot_observations db s = filter (\<lambda>r. ob_fund_id r = snap_fund_id s
     \<and> instant (ob_as_of r) = instant (snap_as_of s)
     \<and> (case snap_account_id s of None \<Rightarrow> True | Some a \<Rightarrow> ob_account_id r = a))
     (db_reconciliation_observations db)"

definition snapshot_cash_dict :: "database \<Rightarrow> uuid \<Rightarrow> (uuid, dec) dict" where
  "snapshot_cash_dict db i = foldl (\<lambda>d r. dict_set (sc_account_id r) (sc_amount r) d) []
     (filter (\<lambda>r. sc_snapshot_id r = i) (db_snapshot_cash db))"

definition snapshot_position_dict :: "database \<Rightarrow> uuid \<Rightarrow> (uuid \<times> uuid, dec) dict" where
  "snapshot_position_dict db i = foldl (\<lambda>d r. dict_set (sp_account_id r, sp_instrument_id r) (sp_quantity r) d) []
     (filter (\<lambda>r. sp_snapshot_id r = i) (db_snapshot_positions db))"

definition expected_value ::
  "(uuid, dec) dict \<Rightarrow> (uuid \<times> uuid, dec) dict \<Rightarrow> reconciliation_observation_row \<Rightarrow> app_error + dec" where
  "expected_value cash positions r = (case ob_kind r of
     Kind_CASH \<Rightarrow> Inr (case dict_get cash (ob_account_id r) of None \<Rightarrow> dzero | Some x \<Rightarrow> x)
   | Kind_POSITION \<Rightarrow> (case ob_instrument_id r of
       None \<Rightarrow> Inl AssertionError
     | Some i \<Rightarrow> Inr (case dict_get positions (ob_account_id r, i) of None \<Rightarrow> dzero | Some x \<Rightarrow> x)))"

definition reconcile_item ::
  "uuid \<Rightarrow> uuid \<Rightarrow> dec \<Rightarrow> dec \<Rightarrow> reconciliation_observation_row \<Rightarrow> reconciliation_item_row" where
  "reconcile_item i run_id tolerance expected r =
     (let difference = dsub (ob_reported_value r) expected in
      \<lparr>ri_id = i, ri_reconciliation_run_id = run_id, ri_observation_id = ob_id r,
       ri_expected_value = expected, ri_reported_value = ob_reported_value r,
       ri_difference = difference, ri_tolerance = tolerance,
       ri_status = (if dle (dabs difference) tolerance then Recon_MATCHED else Recon_BREACH)\<rparr>)"

fun reconcile_items ::
  "(nat \<Rightarrow> uuid) \<Rightarrow> nat \<Rightarrow> uuid \<Rightarrow> dec \<Rightarrow> (uuid, dec) dict \<Rightarrow> (uuid \<times> uuid, dec) dict
     \<Rightarrow> reconciliation_observation_row list \<Rightarrow> app_error + reconciliation_item_row list" where
  "reconcile_items ids n run_id tolerance cash positions [] = Inr []"
| "reconcile_items ids n run_id tolerance cash positions (r # rs) =
     bindR (expected_value cash positions r) (\<lambda>expected.
     bindR (reconcile_items ids (Suc n) run_id tolerance cash positions rs) (\<lambda>items.
     Inr (reconcile_item (ids n) run_id tolerance expected r # items)))"

definition run_status :: "reconciliation_item_row list \<Rightarrow> reconciliation_status" where
  "run_status items =
     (if items = [] then Recon_UNAVAILABLE
      else if list_ex (\<lambda>i. ri_status i = Recon_BREACH) items then Recon_BREACH else Recon_MATCHED)"

definition reconciliation_audit ::
  "uuid \<Rightarrow> datetime \<Rightarrow> uuid option \<Rightarrow> portfolio_snapshot_row \<Rightarrow> reconciliation_run_row
     \<Rightarrow> reconciliation_item_row list \<Rightarrow> audit_event_row" where
  "reconciliation_audit i now actor s run items =
     \<lparr>ae_id = i, ae_fund_id = snap_fund_id s, ae_actor_user_id = actor,
      ae_action = ''PORTFOLIO_RECONCILIATION_COMPLETED'', ae_entity_type = ''ReconciliationRun'',
      ae_entity_id = rr_id run, ae_occurred_at = now,
      ae_details = JObj [
        (''snapshot_id'', JUuid (snap_id s)),
        (''status'', JStr (reconciliation_status_value (rr_status run))),
        (''tolerance'', JDec (rr_tolerance run)),
        (''evidence_hash'', JStr (rr_evidence_hash run)),
        (''item_count'', JInt (int (length items))),
        (''breach_count'', JInt (int (length (filter (\<lambda>i. ri_status i = Recon_BREACH) items))))]\<rparr>"

definition reconcile ::
  "digest \<Rightarrow> (nat \<Rightarrow> uuid) \<Rightarrow> (nat \<Rightarrow> datetime) \<Rightarrow> database \<Rightarrow> uuid \<Rightarrow> dec \<Rightarrow> uuid option
     \<Rightarrow> app_error + reconciliation_result \<times> database" where
  "reconcile H ids clock db snapshot_id tolerance actor =
     bindR (requireR (\<not> dlt tolerance dzero)
       (ReconciliationError ''tolerance cannot be negative'')) (\<lambda>_.
     (case first_row (\<lambda>r. snap_id r = snapshot_id) (db_portfolio_snapshots db) of
        None \<Rightarrow> Inl (ReconciliationError ''snapshot does not exist'')
      | Some snapshot \<Rightarrow>
          let observations = snapshot_observations db snapshot;
              h = evidence_hash H observations in
          (case first_row (\<lambda>r. rr_snapshot_id r = snapshot_id \<and> deq (rr_tolerance r) tolerance
                \<and> rr_evidence_hash r = h) (db_reconciliation_runs db) of
             Some existing \<Rightarrow> Inr (\<lparr>rec_run = existing, rec_items =
                 filter (\<lambda>i. ri_reconciliation_run_id i = rr_id existing) (db_reconciliation_items db),
                 rec_reused = True\<rparr>, db)
           | None \<Rightarrow>
               bindR (reconcile_items ids 1 (ids 0) tolerance (snapshot_cash_dict db (snap_id snapshot))
                 (snapshot_position_dict db (snap_id snapshot)) observations) (\<lambda>items.
               let run = \<lparr>rr_id = ids 0, rr_snapshot_id = snap_id snapshot, rr_tolerance = tolerance,
                     rr_evidence_hash = h, rr_status = run_status items, rr_created_at = clock 0,
                     rr_created_by_user_id = actor\<rparr> in
               bindR (insert_reconciliation_run db run) (\<lambda>db1.
               bindR (foldR insert_reconciliation_item db1 items) (\<lambda>db2.
               bindR (insert_audit_event db2 (reconciliation_audit (ids (Suc (length items))) (clock 1)
                 actor snapshot run items)) (\<lambda>db3.
               Inr (\<lparr>rec_run = run, rec_items = items, rec_reused = False\<rparr>, db3))))))))"

end
