(* ===== verification/Reconciliation_Properties.thy ===== *)
theory Reconciliation_Properties
  imports Reconciliation Snapshot_Properties
begin

text \<open>
  What \<open>ReconciliationService\<close> guarantees: an observation is recorded once and its content fixed,
  reconciling the same evidence again returns the stored run, the status of a run is right about
  the exact differences, and a fresh snapshot is reconciled against the balances and quantities
  the engine computed.
\<close>

section \<open>Observations\<close>

lemma same_instant_iff: "same_instant a b \<longleftrightarrow> instant a = instant b"
  by (simp add: same_instant_def)

text \<open>Two inputs that report the same value of the same thing.\<close>

definition same_evidence :: "observation_input \<Rightarrow> observation_input \<Rightarrow> bool" where
  "same_evidence o1 o2 \<longleftrightarrow> oi_account_id o1 = oi_account_id o2 \<and> oi_kind o1 = oi_kind o2
     \<and> oi_instrument_id o1 = oi_instrument_id o2 \<and> dval (oi_reported_value o1) = dval (oi_reported_value o2)
     \<and> instant (oi_as_of o1) = instant (oi_as_of o2)"

theorem record_observation_once:
  assumes "record_observation i now db o1 = Inr (r, db')"
    and "oi_fund_id o2 = oi_fund_id o1" "oi_source o2 = oi_source o1" "oi_external_id o2 = oi_external_id o1"
    and "validate_observation o2 = Inr ()"
  shows "record_observation j later db' o2 = (if same_evidence o1 o2 then Inr (r, db')
    else Inl (ReconciliationError ''observation identity conflicts with existing evidence''))"
proof -
  let ?P = "\<lambda>r. ob_fund_id r = oi_fund_id o1 \<and> ob_source r = oi_source o1 \<and> ob_external_id r = oi_external_id o1"
  have "first_row ?P (db_reconciliation_observations db') = Some r \<and> ob_account_id r = oi_account_id o1
      \<and> ob_kind r = oi_kind o1 \<and> ob_instrument_id r = oi_instrument_id o1
      \<and> dval (ob_reported_value r) = dval (oi_reported_value o1) \<and> instant (ob_as_of r) = instant (oi_as_of o1)"
  proof (cases "first_row ?P (db_reconciliation_observations db)")
    case None
    with assms(1) have "insert_reconciliation_observation db r = Inr db'" "r = observation_of i now o1"
      by (auto simp: record_observation_def result_simps Let_def)
    with None show ?thesis
      by (auto simp: insert_reconciliation_observation_def result_simps first_row_append observation_of_def)
  next
    case (Some e)
    with assms(1) show ?thesis
      by (auto simp: record_observation_def result_simps same_instant_iff dec_simps split: if_splits)
  qed
  with assms(2-5) show ?thesis
    by (simp add: record_observation_def same_evidence_def same_instant_iff dec_simps)
qed

section \<open>Reconciliation\<close>

lemma rnd_abs: "rnd \<bar>x\<bar> = \<bar>rnd x\<bar>"
  using rnd_sign(1,2) [of x] by (cases "0 \<le> x") (simp_all add: abs_if not_le)


lemma reconcile_items_Inr:
  assumes "reconcile_items ids n run tol cash positions rs = Inr items"
  shows "list_all2 (\<lambda>r it. \<exists>x k. expected_value cash positions r = Inr x \<and> it = reconcile_item (ids k) run tol x r) rs items"
  using assms
proof (induction rs arbitrary: n items)
  case (Cons r rs)
  then obtain x its where "expected_value cash positions r = Inr x"
    "reconcile_items ids (Suc n) run tol cash positions rs = Inr its" "items = reconcile_item (ids n) run tol x r # its"
    by (auto simp: result_simps)
  with Cons.IH [of "Suc n" its] show ?case by auto
qed simp

lemma reconcile_cases:
  assumes "reconcile H ids clock db k tol actor = Inr (res, db')"
  obtains (reused) s e where "first_row (\<lambda>r. snap_id r = k) (db_portfolio_snapshots db) = Some s"
      "first_row (\<lambda>r. rr_snapshot_id r = k \<and> deq (rr_tolerance r) tol
         \<and> rr_evidence_hash r = evidence_hash H (snapshot_observations db s)) (db_reconciliation_runs db) = Some e"
      "res = \<lparr>rec_run = e, rec_items = filter (\<lambda>i. ri_reconciliation_run_id i = rr_id e) (db_reconciliation_items db),
         rec_reused = True\<rparr>" "db' = db"
    | (fresh) s items run db1 db2 where "first_row (\<lambda>r. snap_id r = k) (db_portfolio_snapshots db) = Some s"
      "first_row (\<lambda>r. rr_snapshot_id r = k \<and> deq (rr_tolerance r) tol
         \<and> rr_evidence_hash r = evidence_hash H (snapshot_observations db s)) (db_reconciliation_runs db) = None"
      "reconcile_items ids 1 (ids 0) tol (snapshot_cash_dict db k) (snapshot_position_dict db k)
         (snapshot_observations db s) = Inr items"
      "run = \<lparr>rr_id = ids 0, rr_snapshot_id = k, rr_tolerance = tol,
         rr_evidence_hash = evidence_hash H (snapshot_observations db s), rr_status = run_status items,
         rr_created_at = clock 0, rr_created_by_user_id = actor\<rparr>"
      "insert_reconciliation_run db run = Inr db1" "foldR insert_reconciliation_item db1 items = Inr db2"
      "insert_audit_event db2 (reconciliation_audit (ids (Suc (length items))) (clock 1) actor s run items) = Inr db'"
      "res = \<lparr>rec_run = run, rec_items = items, rec_reused = False\<rparr>"
proof -
  from assms obtain s where s: "first_row (\<lambda>r. snap_id r = k) (db_portfolio_snapshots db) = Some s"
    by (auto simp: reconcile_def result_simps split: option.splits)
  then have id: "snap_id s = k" by (auto dest: first_row_Some)
  show thesis
  proof (cases "first_row (\<lambda>r. rr_snapshot_id r = k \<and> deq (rr_tolerance r) tol
         \<and> rr_evidence_hash r = evidence_hash H (snapshot_observations db s)) (db_reconciliation_runs db)")
    case (Some e)
    with assms s show thesis by (intro reused [of s e]) (auto simp: reconcile_def result_simps Let_def)
  next
    case None
    with assms s id show thesis by (auto simp: reconcile_def result_simps Let_def intro!: fresh)
  qed
qed

text \<open>C39: The status of a newly computed reconciliation run with a tolerance of at most 28 digits:
  UNAVAILABLE exactly when no observation is known, BREACH only if some reported value differs
  from the expected one by more than the tolerance, and with tolerance zero MATCHED exactly when
  every reported value equals the expected one, rounding of the differences included.\<close>

theorem reconcile_status:
  assumes "reconcile H ids clock db k tol actor = Inr (res, db')" and "\<not> rec_reused res"
    and "first_row (\<lambda>r. snap_id r = k) (db_portfolio_snapshots db) = Some s"
    and "representable (dval tol)"
  defines "obs \<equiv> snapshot_observations db s"
    and "gap \<equiv> \<lambda>r x. \<bar>dval (ob_reported_value r) - dval x\<bar>"
    and "expected \<equiv> expected_value (snapshot_cash_dict db k) (snapshot_position_dict db k)"
  shows "(rr_status (rec_run res) = Recon_UNAVAILABLE \<longleftrightarrow> obs = [])
    \<and> (rr_status (rec_run res) = Recon_BREACH \<longrightarrow> (\<exists>r \<in> set obs. \<exists>x. expected r = Inr x \<and> dval tol < gap r x))
    \<and> (dval tol = 0 \<longrightarrow> obs \<noteq> [] \<longrightarrow> (rr_status (rec_run res) = Recon_MATCHED \<longleftrightarrow>
        (\<forall>r \<in> set obs. \<exists>x. expected r = Inr x \<and> dval (ob_reported_value r) = dval x)))"
  using assms(1)
proof (cases rule: reconcile_cases)
  case (reused s e)
  with assms(2) show ?thesis by simp
next
  case (fresh s' items run db1 db2)
  with assms(3) have "s' = s" by simp
  from reconcile_items_Inr [OF fresh(3)]
  have items: "list_all2 (\<lambda>r it. \<exists>x k. expected r = Inr x \<and> it = reconcile_item (ids k) (ids 0) tol x r) obs items"
    by (simp add: obs_def expected_def \<open>s' = s\<close>)
  have status: "ri_status (reconcile_item i run tol x r) = (if rnd (gap r x) \<le> dval tol then Recon_MATCHED else Recon_BREACH)"
    for i run x r by (simp add: reconcile_item_def Let_def dec_simps gap_def rnd_abs)
  define e where "e r = projr (expected r)" for r
  have e: "expected r = Inr (e r)" if "r \<in> set obs" for r
    using items that unfolding e_def by (induction rule: list_all2_induct) auto
  have "(\<exists>it \<in> set items. ri_status it = Recon_BREACH) \<longleftrightarrow> (\<exists>r \<in> set obs. \<not> rnd (gap r (e r)) \<le> dval tol)"
    using items unfolding e_def by (induction rule: list_all2_induct) (auto simp: status)
  then have run: "rr_status (rec_run res) = (if obs = [] then Recon_UNAVAILABLE
      else if \<exists>r \<in> set obs. \<not> rnd (gap r (e r)) \<le> dval tol then Recon_BREACH else Recon_MATCHED)"
    using items by (auto simp: fresh(4,8) run_status_def list_ex_iff)
  have far: "dval tol < gap r x" if "\<not> rnd (gap r x) \<le> dval tol" for r x
    using that rnd_le_representable [OF _ assms(4), of "gap r x"] by force
  have zero: "gap r x \<le> 0 \<longleftrightarrow> dval (ob_reported_value r) = dval x" for r x
    by (simp add: gap_def)
  have breach: "\<exists>r \<in> set obs. \<exists>x. expected r = Inr x \<and> dval tol < gap r x" if "rr_status (rec_run res) = Recon_BREACH"
  proof -
    from that run obtain r where "r \<in> set obs" "\<not> rnd (gap r (e r)) \<le> dval tol" by (auto split: if_splits)
    with far e show ?thesis by blast
  qed
  have "(\<exists>x. expected r = Inr x \<and> dval (ob_reported_value r) = dval x) \<longleftrightarrow> gap r (e r) \<le> 0" if "r \<in> set obs" for r
    by (simp add: e [OF that] zero)
  with breach show ?thesis unfolding run by auto
qed


interpretation reconciliation_items: child_table db_reconciliation_items "\<lambda>rs db. db\<lparr>db_reconciliation_items := rs\<rparr>"
  "''reconciliation_items''" reconciliation_item_clash reconciliation_item_checks reconciliation_item_refs insert_reconciliation_item
  by unfold_locales (simp_all add: insert_reconciliation_item_def reconciliation_item_refs_def fun_eq_iff)

lemma foldR_insert_items:
  assumes "foldR insert_reconciliation_item db items = Inr db'"
  shows "db_reconciliation_items db' = db_reconciliation_items db @ items"
    and "db_reconciliation_runs db' = db_reconciliation_runs db"
    and "db_reconciliation_observations db' = db_reconciliation_observations db"
    and "db_portfolio_snapshots db' = db_portfolio_snapshots db"
  using reconciliation_items.insert_all_rows [OF assms] by simp_all

theorem reconcile_idempotent:
  assumes "reconcile H ids clock db k tol actor = Inr (res, db')"
    and refs: "\<And>i. i \<in> set (db_reconciliation_items db) \<Longrightarrow>
      refers rr_id (db_reconciliation_runs db) (ri_reconciliation_run_id i)"
  shows "reconcile H ids' clock' db' k tol actor' = Inr (res\<lparr>rec_reused := True\<rparr>, db')"
proof -
  have tol: "\<not> dlt tol dzero" using assms(1) by (auto simp: reconcile_def result_simps)
  from assms(1) show ?thesis
  proof (cases rule: reconcile_cases)
    case (reused s e)
    with tol show ?thesis by (simp add: reconcile_def Let_def)
  next
    case (fresh s items run db1 db2)
    have ins: "db_reconciliation_runs db1 = db_reconciliation_runs db @ [run]" "rr_id run \<notin> rr_id ` set (db_reconciliation_runs db)"
      "db_reconciliation_items db1 = db_reconciliation_items db" "db_reconciliation_observations db1 = db_reconciliation_observations db"
      "db_portfolio_snapshots db1 = db_portfolio_snapshots db"
      using fresh(5) by (auto simp: insert_reconciliation_run_def result_simps reconciliation_run_clash_def)
    have aud: "db_reconciliation_runs db' = db_reconciliation_runs db2" "db_reconciliation_items db' = db_reconciliation_items db2"
      "db_reconciliation_observations db' = db_reconciliation_observations db2" "db_portfolio_snapshots db' = db_portfolio_snapshots db2"
      using fresh(7) by (auto simp: insert_audit_event_def result_simps)
    note db' = aud foldR_insert_items [OF fresh(6)] ins(1,3-5)
    have "list_all (\<lambda>it. ri_reconciliation_run_id it = rr_id run) items"
      using reconcile_items_Inr [OF fresh(3)] unfolding list_all_iff
      by (induction rule: list_all2_induct) (auto simp: reconcile_item_def Let_def fresh(4))
    moreover have "ri_reconciliation_run_id it \<noteq> rr_id run" if "it \<in> set (db_reconciliation_items db)" for it
      using refs [OF that] ins(2) by (auto simp: refers_def)
    ultimately have items: "filter (\<lambda>it. ri_reconciliation_run_id it = rr_id run) (db_reconciliation_items db') = items"
      unfolding db' by (auto simp: list_all_iff filter_empty_conv)
    have obs: "snapshot_observations db' s = snapshot_observations db s" by (simp add: snapshot_observations_def db')
    have "first_row (\<lambda>r. rr_snapshot_id r = k \<and> deq (rr_tolerance r) tol
         \<and> rr_evidence_hash r = evidence_hash H (snapshot_observations db s)) (db_reconciliation_runs db') = Some run"
      using fresh(2) by (simp add: db' first_row_append fresh(4) dec_simps)
    with tol fresh(1) items obs show ?thesis
      by (simp add: reconcile_def Let_def db' fresh(8))
  qed
qed

section \<open>A snapshot is reconciled against the balances the engine computed\<close>

lemma dict_set_fold:
  fixes d :: "('k, 'v) dict"
  assumes "distinct (map fst kvs)"
  shows "dict_get (foldl (\<lambda>d (k, v). dict_set k v d) d kvs) x =
    (case map_of kvs x of None \<Rightarrow> dict_get d x | Some v \<Rightarrow> Some v)"
  using assms
proof (induction kvs arbitrary: d)
  case (Cons kv kvs)
  then show ?case
    by (cases kv) (force simp: dict_get_set split: option.splits dest: map_of_SomeD)
qed simp


interpretation snapshot_cash_rows: child_table db_snapshot_cash "\<lambda>rs db. db\<lparr>db_snapshot_cash := rs\<rparr>"
  "''snapshot_cash''" snapshot_cash_clash snapshot_cash_checks snapshot_cash_refs insert_snapshot_cash
  by unfold_locales (simp_all add: insert_snapshot_cash_def snapshot_cash_refs_def fun_eq_iff)

interpretation snapshot_position_rows: child_table db_snapshot_positions "\<lambda>rs db. db\<lparr>db_snapshot_positions := rs\<rparr>"
  "''snapshot_positions''" snapshot_position_clash snapshot_position_checks snapshot_position_refs insert_snapshot_position
  by unfold_locales (simp_all add: insert_snapshot_position_def snapshot_position_refs_def fun_eq_iff)

lemma foldR_insert_cash:
  assumes "foldR insert_snapshot_cash db rows = Inr db'"
  shows "db_snapshot_cash db' = db_snapshot_cash db @ rows" and "db_snapshot_positions db' = db_snapshot_positions db"
    and "sorted_wrt (\<lambda>r r'. \<not> snapshot_cash_clash r r') rows" and "\<forall>r \<in> set rows. snapshot_cash_checks r"
  using assms [unfolded snapshot_cash_rows.insert_all] by simp_all

lemma foldR_insert_positions:
  assumes "foldR insert_snapshot_position db rows = Inr db'"
  shows "db_snapshot_positions db' = db_snapshot_positions db @ rows" and "db_snapshot_cash db' = db_snapshot_cash db"
    and "sorted_wrt (\<lambda>r r'. \<not> snapshot_position_clash r r') rows"
  using assms [unfolded snapshot_position_rows.insert_all] by simp_all

lemma distinct_by_clash:
  assumes "sorted_wrt (\<lambda>r r'. \<not> clash r r') rows"
    and "\<And>r r'. r \<in> set rows \<Longrightarrow> r' \<in> set rows \<Longrightarrow> key r = key r' \<Longrightarrow> clash r r'"
  shows "distinct (map key rows)"
  using assms by (induction rows) fastforce+

theorem snapshot_expected_values:
  assumes create: "snapshot_service_create H ids clock db f a acc actor = Inr (res, db')"
    and new: "sres_outcome res \<noteq> Outcome_REUSED"
    and state: "reconstruct H f (fund_ledger db f acc) a acc = Inr st"
    and refs: "\<And>r. r \<in> set (db_snapshot_cash db) \<Longrightarrow> refers snap_id (db_portfolio_snapshots db) (sc_snapshot_id r)"
      "\<And>r. r \<in> set (db_snapshot_positions db) \<Longrightarrow> refers snap_id (db_portfolio_snapshots db) (sp_snapshot_id r)"
  defines "k \<equiv> snap_id (sres_snapshot res)"
  shows "dict_get (snapshot_cash_dict db' k) = map_of (map (\<lambda>c. (cb_account_id c, cb_amount c)) (pf_cash_by_account st))
    \<and> dict_get (snapshot_position_dict db' k) =
        map_of (map (\<lambda>p. ((ps_account_id p, ps_instrument_id p), ps_quantity p)) (pf_positions st))"
  using create
proof (cases rule: snapshot_create_cases)
  case (reused st' c)
  with new show ?thesis by simp
next
  case (stored st' current)
  with state have "st' = st" by simp
  define s where "s = sres_snapshot res"
  define cs where "cs = map (\<lambda>(i, b). snapshot_cash_of (ids (Suc i)) (snap_id s) b) (enumerate 0 (pf_cash_by_account st))"
  define ps where "ps = map (\<lambda>(i, p). snapshot_position_of (ids (Suc (length (pf_cash_by_account st) + i))) (snap_id s) p)
      (enumerate 0 (pf_positions st))"
  from stored(5) obtain db1 db2 db3 n where 1: "insert_portfolio_snapshot (supersede current db) s = Inr db1"
    and 2: "foldR insert_snapshot_cash db1 cs = Inr db2" and 3: "foldR insert_snapshot_position db2 ps = Inr db3"
    and 4: "insert_audit_event db3 (snapshot_audit ids n clock actor s) = Inr db'"
    by (auto simp: store_snapshot_def Let_def result_simps s_def cs_def ps_def \<open>st' = st\<close>)
  have base: "db_snapshot_cash db1 = db_snapshot_cash db" "db_snapshot_positions db1 = db_snapshot_positions db"
    using 1 by (auto simp: insert_portfolio_snapshot_def result_simps supersede_def split: option.splits)
  have "map snap_id (db_portfolio_snapshots (supersede current db)) = map snap_id (db_portfolio_snapshots db)"
    by (auto simp: supersede_def update_row_def split: option.split)
  then have "snap_id ` set (db_portfolio_snapshots (supersede current db)) = snap_id ` set (db_portfolio_snapshots db)"
    by (metis list.set_map)
  moreover have "k \<notin> snap_id ` set (db_portfolio_snapshots (supersede current db))"
    using 1 by (auto simp: insert_portfolio_snapshot_def result_simps portfolio_snapshot_clash_def k_def s_def)
  ultimately have fresh: "k \<notin> snap_id ` set (db_portfolio_snapshots db)" by simp
  have aud: "db_snapshot_cash db' = db_snapshot_cash db3" "db_snapshot_positions db' = db_snapshot_positions db3"
    using 4 by (auto simp: insert_audit_event_def result_simps)
  have cs: "sc_snapshot_id r = k" if "r \<in> set cs" for r
    using that by (auto simp: cs_def snapshot_cash_of_def k_def s_def)
  have ps: "sp_snapshot_id r = k" if "r \<in> set ps" for r
    using that by (auto simp: ps_def snapshot_position_of_def k_def s_def)
  have "filter (\<lambda>r. sc_snapshot_id r = k) (db_snapshot_cash db') = cs"
    using refs(1) base fresh cs foldR_insert_cash(1) [OF 2] foldR_insert_positions(2) [OF 3] aud
    by (auto simp: filter_empty_conv refers_def)
  moreover have "distinct (map sc_account_id cs)"
    by (rule distinct_by_clash [OF foldR_insert_cash(3) [OF 2]])
      (use foldR_insert_cash(4) [OF 2] cs in \<open>auto simp: snapshot_cash_clash_def snapshot_cash_checks_def\<close>)
  moreover have kc: "map (\<lambda>r. (sc_account_id r, sc_amount r)) cs =
      map (\<lambda>c. (cb_account_id c, cb_amount c)) (pf_cash_by_account st)"
    by (rule nth_equalityI) (auto simp: cs_def nth_enumerate_eq snapshot_cash_of_def)
  ultimately have "dict_get (snapshot_cash_dict db' k) =
      map_of (map (\<lambda>c. (cb_account_id c, cb_amount c)) (pf_cash_by_account st))"
    using dict_set_fold [of "map (\<lambda>r. (sc_account_id r, sc_amount r)) cs" "[]"]
    by (auto simp: snapshot_cash_dict_def foldl_map o_def kc [symmetric] fun_eq_iff split: option.splits)
  moreover have "dict_get (snapshot_position_dict db' k) =
        map_of (map (\<lambda>p. ((ps_account_id p, ps_instrument_id p), ps_quantity p)) (pf_positions st))"
  proof -
    have "filter (\<lambda>r. sp_snapshot_id r = k) (db_snapshot_positions db') = ps"
      using refs(2) base fresh ps foldR_insert_positions(1) [OF 3] foldR_insert_cash(2) [OF 2] aud
      by (auto simp: filter_empty_conv refers_def)
    moreover have "distinct (map (\<lambda>r. (sp_account_id r, sp_instrument_id r)) ps)"
      by (rule distinct_by_clash [OF foldR_insert_positions(3) [OF 3]])
        (use ps in \<open>auto simp: snapshot_position_clash_def\<close>)
    moreover have kp: "map (\<lambda>r. ((sp_account_id r, sp_instrument_id r), sp_quantity r)) ps =
        map (\<lambda>p. ((ps_account_id p, ps_instrument_id p), ps_quantity p)) (pf_positions st)"
      by (rule nth_equalityI) (auto simp: ps_def nth_enumerate_eq snapshot_position_of_def)
    ultimately show ?thesis
      using dict_set_fold [of "map (\<lambda>r. ((sp_account_id r, sp_instrument_id r), sp_quantity r)) ps" "[]"]
      by (auto simp: snapshot_position_dict_def foldl_map o_def kp [symmetric] fun_eq_iff split: option.splits)
  qed
  ultimately show ?thesis by blast
qed

end
