(* ===== verification/Service_Witnesses.thy ===== *)
theory Service_Witnesses
  imports Examples Reconciliation_Properties
begin

text \<open>
  The properties of the ledger, snapshot and reconciliation services applied to concrete calls on
  the example database, and the reversal that the ledger accepts and the engine rejects.
\<close>

section \<open>Transactions\<close>

theorem create_append_only_witness:
  "map economic_row (db_transactions example_posted) = map economic_row (db_transactions example_db) @ [example_row]"
  using create_append_only [OF example_created] by simp

theorem create_idempotent_witness:
  "transaction_service_create example_digest 21 (Aware 200 0) example_posted
     (example_deposit\<lparr>ct_recorded_at := Aware 150 0\<rparr>) =
     Inr (\<lparr>cr_status = DUPLICATE, cr_transaction = example_row, cr_conflict = None\<rparr>, example_posted)"
proof -
  have "economic_payload (example_deposit\<lparr>ct_recorded_at := Aware 150 0\<rparr>) = economic_payload example_deposit"
    by (simp add: economic_payload_def canonical_payload_def json_fields_def json_opt_def example_command_def)
  moreover have "validate_transaction (example_deposit\<lparr>ct_recorded_at := Aware 150 0\<rparr>) = Inr ()"
    by (simp add: create_eval dec_eval cong: bindR_weak_cong let_weak_cong)
  moreover have "validate_import_batch example_posted (example_deposit\<lparr>ct_recorded_at := Aware 150 0\<rparr>) = Inr ()"
    by (simp add: create_eval example_posted_def)
  ultimately show ?thesis using create_idempotent [OF example_created] by simp
qed

definition example_conflict :: import_conflict_row where
  "example_conflict = \<lparr>ic_id = 22, ic_fund_id = 1, ic_import_batch_id = 6, ic_existing_transaction_id = 20,
     ic_source = ''csv'', ic_external_id = ''d1'', ic_existing_payload_hash = hash_text CHR ''0'',
     ic_incoming_payload_hash = hash_text CHR ''1'', ic_incoming_payload = JObj (canonical_payload example_other),
     ic_detected_at = Aware 200 0\<rparr>"

definition example_conflicted :: database where
  "example_conflicted = example_posted\<lparr>db_import_conflicts := [example_conflict],
     db_import_batches := update_row ib_id 6 (\<lambda>r. r\<lparr>ib_conflict_count := 1\<rparr>) (db_import_batches example_db)\<rparr>"

lemma example_other_payload: "economic_payload example_other \<noteq> economic_payload example_deposit"
  by (simp add: economic_payload_def canonical_payload_def json_fields_def json_opt_def example_command_def)

lemma example_recorded:
  "transaction_service_create example_digest 22 (Aware 200 0) example_posted example_other =
     Inr (\<lparr>cr_status = CONFLICT, cr_transaction = example_row, cr_conflict = Some example_conflict\<rparr>, example_conflicted)"
proof -
  have h: "payload_hash example_digest (economic_payload example_other) = hash_text CHR ''1''"
    using example_other_payload by (simp add: payload_hash_def example_digest_def)
  have v: "validate_transaction example_other = Inr ()" "validate_import_batch example_posted example_other = Inr ()"
    by (simp_all add: create_eval dec_eval example_posted_def cong: bindR_weak_cong let_weak_cong)
  have e: "by_source_identity example_posted (ct_fund_id example_other) (ct_source example_other)
      (ct_external_id example_other) = Some example_row"
    by (simp add: create_eval example_posted_def example_row_def)
  show ?thesis unfolding transaction_service_create_def Let_def h v e bindR_simps option.case
    by (simp add: example_row_def transaction_of_def record_conflict_def insert_import_conflict_def
        import_conflict_checks_def import_conflict_refs_def import_conflict_clash_def insert_row_def
        varchar_def refers_def example_conflict_def example_conflicted_def example_posted_def
        example_command_def example_db_def empty_database_def update_row_def hash_text_def Let_def)
qed

theorem create_conflict_once_witness:
  "transaction_service_create example_digest 23 (Aware 300 0) example_conflicted example_other =
     Inr (\<lparr>cr_status = CONFLICT, cr_transaction = example_row, cr_conflict = Some example_conflict\<rparr>, example_conflicted)"
  by (rule create_conflict_once [OF example_recorded, of 6]) (simp_all add: example_command_def)

lemma example_run: "ledger_run example_digest example_posted"
  by (rule ledger_run.create [OF ledger_run.start example_created]) (simp add: example_db_def empty_database_def)

theorem ledger_run_ok_witness: "ledger_ok [example_row]"
  using ledger_run_ok [OF example_run] by (simp add: example_posted_def)

theorem create_no_constraint_violation_witness:
  "transaction_service_create example_digest 20 (Aware 100 0) example_db example_deposit \<noteq> Inl (IntegrityError ''transactions'')"
  by (rule create_no_constraint_violation)
    (simp_all add: create_eval example_digest_def ledger_ok_def table_ok_def)

section \<open>A reversal dated before its target\<close>

definition example_undo_row :: transaction_row where
  "example_undo_row = transaction_of 21 (hash_text CHR ''1'') example_undo"

theorem reversal_predates_target:
  "\<exists>db' res. transaction_service_create example_digest 21 (Aware 100 0) example_posted example_undo = Inr (res, db')
     \<and> cr_status res = CREATED
     \<and> validate_scope_and_timestamps 1 (fund_ledger db' 1 None) = Inr ()
     \<and> (\<exists>e. reconstruct no_digest 1 (fund_ledger db' 1 None) (Aware 50 0) None = Inl e)"
proof -
  have "economic_payload example_undo \<noteq> economic_payload example_deposit"
    by (simp add: economic_payload_def canonical_payload_def json_fields_def json_opt_def example_command_def)
  then have "transaction_service_create example_digest 21 (Aware 100 0) example_posted example_undo =
      Inr (\<lparr>cr_status = CREATED, cr_transaction = example_undo_row, cr_conflict = None\<rparr>,
        example_db\<lparr>db_transactions := [example_row\<lparr>tx_status := REVERSED\<rparr>, example_undo_row]\<rparr>)"
    by (simp add: create_eval example_digest_def example_undo_row_def example_posted_def example_row_def
        update_row_def dec_eval cong: bindR_weak_cong let_weak_cong)
  moreover have valid: "validate_scope_and_timestamps 1 (map domain_transaction
      [example_row\<lparr>tx_status := REVERSED\<rparr>, example_undo_row]) = Inr ()" 
    unfolding validate_iff by (simp add: valid_ledger_def valid_transaction_def validate_transaction_shape_def
      require_no_position_fields_def domain_transaction_def example_row_def example_undo_row_def transaction_of_def
      example_command_def step_defs dec_eval)
  moreover have "\<exists>e. reconstruct no_digest 1 (map domain_transaction
      [example_row\<lparr>tx_status := REVERSED\<rparr>, example_undo_row]) (Aware 50 0) None = Inl e"
  proof -
    have "ordered_transactions (Aware 50 0) None (map domain_transaction
        [example_row\<lparr>tx_status := REVERSED\<rparr>, example_undo_row]) =
        [domain_transaction example_undo_row, domain_transaction example_row]"
      by (simp add: ordered_transactions_def included_transactions_def transaction_key_def domain_transaction_def
        example_row_def example_undo_row_def transaction_of_def example_command_def)
    moreover have "\<exists>e. foldR engine_step engine_init [domain_transaction example_undo_row, domain_transaction example_row] = Inl e"
      by (simp add: domain_transaction_def example_row_def example_undo_row_def transaction_of_def
        example_command_def step_defs)
    ultimately show ?thesis unfolding reconstruct_def valid Let_def by auto
  qed
  ultimately show ?thesis
    by (simp add: fund_ledger_def example_db_def example_row_def example_undo_row_def transaction_of_def example_command_def)
qed

section \<open>Snapshots\<close>

abbreviation example_ids :: "uuid \<Rightarrow> nat \<Rightarrow> uuid" where
  "example_ids b n \<equiv> b + of_nat n"

abbreviation example_clock :: "nat \<Rightarrow> datetime" where
  "example_clock n \<equiv> Aware 300 0"

lemma example_fund_ledger: "fund_ledger example_posted 1 None = [domain_transaction example_row]"
  by (simp add: fund_ledger_def example_posted_def example_row_def transaction_of_def example_command_def)

definition example_engine_state :: engine_state where
  "example_engine_state = \<lparr>es_cash = [(2, Dec 100 0)], es_positions = [],
     es_effects = [(20, cash_effect (domain_transaction example_row) (Dec 100 0))],
     es_transaction_types = [(20, CASH_DEPOSIT)], es_reversed_targets = {}\<rparr>"

definition example_fund_state :: portfolio_state where
  "example_fund_state = portfolio_output example_digest 1 None (Aware 50 0) [domain_transaction example_row]
     example_engine_state"

lemma example_reconstructed:
  "reconstruct example_digest 1 (fund_ledger example_posted 1 None) (Aware 50 0) None = Inr example_fund_state"
proof -
  have "foldR engine_step engine_init [domain_transaction example_row] = Inr example_engine_state"
    by (simp add: example_engine_state_def domain_transaction_def example_row_def transaction_of_def
        example_command_def step_defs dec_eval)
  moreover have "ordered_transactions (Aware 50 0) None [domain_transaction example_row] = [domain_transaction example_row]"
    by (simp add: ordered_transactions_def included_transactions_def domain_transaction_def example_row_def
        transaction_of_def example_command_def)
  moreover have "valid_ledger 1 [domain_transaction example_row]"
    by (simp add: valid_ledger_def valid_transaction_def validate_transaction_shape_def
      require_no_position_fields_def domain_transaction_def example_row_def transaction_of_def
      example_command_def step_defs dec_eval)
  ultimately show ?thesis
    unfolding example_fund_ledger by (simp add: reconstruct_def validate_iff [THEN iffD2] Let_def example_fund_state_def)
qed

definition example_snapshot :: portfolio_snapshot_row where
  "example_snapshot = new_snapshot (example_ids 30) example_clock 1 None (Aware 50 0) example_fund_state None"

definition example_snapped :: database where
  "example_snapped = example_posted\<lparr>db_portfolio_snapshots := [example_snapshot],
     db_snapshot_cash := [\<lparr>sc_id = 31, sc_snapshot_id = 30, sc_account_id = 2, sc_currency = ''USD'', sc_amount = Dec 100 0\<rparr>],
     db_audit_events := [snapshot_audit (example_ids 30) 2 example_clock None example_snapshot]\<rparr>"

lemma example_state_fields:
  "pf_cash_by_account example_fund_state = [\<lparr>cb_account_id = 2, cb_currency = ''USD'', cb_amount = Dec 100 0\<rparr>]"
  "pf_positions example_fund_state = []"
  "md_calculation_version (pf_metadata example_fund_state) = ENGINE_VERSION"
  "length (md_canonical_input_hash (pf_metadata example_fund_state)) = 64"
  "md_applied_transaction_count (pf_metadata example_fund_state) = 1"
  "md_last_applied_transaction_id (pf_metadata example_fund_state) = Some 20"
  by (simp_all add: example_fund_state_def portfolio_output_def Let_def example_engine_state_def positions_out_def
    input_hash_def domain_transaction_def example_row_def transaction_of_def)

lemma example_stored: "store_snapshot (example_ids 30) example_clock None example_fund_state example_snapshot example_posted
    = Inr example_snapped"
  by (simp add: store_snapshot_def example_state_fields Let_def enumerate_eq_zip snapshot_cash_of_def
    insert_portfolio_snapshot_def insert_snapshot_cash_def insert_audit_event_def insert_row_def
    portfolio_snapshot_checks_def portfolio_snapshot_refs_def snapshot_cash_checks_def snapshot_cash_refs_def
    audit_event_checks_def audit_event_refs_def example_snapshot_def new_snapshot_def example_snapped_def
    example_posted_def example_db_def empty_database_def refers_def varchar_def snapshot_audit_def ENGINE_VERSION_def
    example_row_def transaction_of_def)

lemma example_snapshot_created:
  "snapshot_service_create example_digest (example_ids 30) example_clock example_posted 1 (Aware 50 0) None None =
     Inr (\<lparr>sres_outcome = Outcome_CREATED, sres_snapshot = example_snapshot\<rparr>, example_snapped)"
proof -
  have "current_snapshot example_posted 1 None (Aware 50 0) = None"
    by (simp add: current_snapshot_def example_posted_def example_db_def empty_database_def)
  then show ?thesis
    using example_stored by (simp add: snapshot_service_create_def run_engine_def example_reconstructed supersede_def
      example_snapshot_def)
qed


theorem stored_ledger_is_valid_input_witness:
  "validate_scope_and_timestamps 1 (fund_ledger example_posted 1 None) = Inr ()"
  by (rule stored_ledger_is_valid_input)
    (simp add: table_ok_def example_posted_def example_row_def create_eval dec_eval)

definition example_grown :: database where
  "example_grown = example_snapped\<lparr>db_transactions := [example_row\<lparr>tx_status := REVERSED\<rparr>, example_undo_row],
     db_portfolio_snapshots := [example_snapshot\<lparr>snap_status := Snapshot_SUPERSEDED\<rparr>,
       example_snapshot\<lparr>snap_id := 40, snap_revision := 2, snap_supersedes_snapshot_id := Some 30\<rparr>]\<rparr>"

theorem snapshot_verifies_witness:
  "snapshot_service_verify example_digest example_grown 30 =
    Inr \<lparr>sv_snapshot_id = 30, sv_reproducible = True,
      sv_expected_input_hash = snap_canonical_input_hash example_snapshot,
      sv_actual_input_hash = snap_canonical_input_hash example_snapshot\<rparr>"
proof -
  have "map economic_row (db_transactions example_grown) =
      map economic_row (db_transactions example_snapped) @ [economic_row example_undo_row]"
    by (simp add: example_grown_def example_snapped_def example_posted_def example_row_def transaction_of_def)
  moreover have "table_ok transaction_clash transaction_checks (db_transactions example_grown)"
    by (simp add: table_ok_def example_grown_def example_row_def example_undo_row_def create_eval dec_eval)
  moreover have "map snapshot_content (db_portfolio_snapshots example_grown) =
      map snapshot_content (db_portfolio_snapshots example_snapped) @ map snapshot_content
        [example_snapshot\<lparr>snap_id := 40, snap_revision := 2, snap_supersedes_snapshot_id := Some 30\<rparr>]"
    by (simp add: example_grown_def example_snapped_def)
  moreover have "snap_id example_snapshot = 30" by (simp add: example_snapshot_def new_snapshot_def)
  ultimately show ?thesis using snapshot_verifies [OF example_snapshot_created] by simp
qed

lemma example_snapshot_run: "snapshot_run example_digest example_snapped"
  by (rule snapshot_run.create [OF snapshot_run.start example_snapshot_created])
    (simp add: example_posted_def example_db_def empty_database_def)

theorem snapshot_run_ok_witness: "snapshots_ok [example_snapshot]"
  using snapshot_run_ok [OF example_snapshot_run] by (simp add: example_snapped_def)

theorem snapshot_create_idempotent_witness:
  "snapshot_service_create example_digest (example_ids 50) example_clock example_snapped 1 (Aware 50 0) None (Some 5) =
    Inr (\<lparr>sres_outcome = Outcome_REUSED, sres_snapshot = example_snapshot\<rparr>, example_snapped)"
proof -
  have "snapshots_ok (db_portfolio_snapshots example_posted)"
    by (simp add: snapshots_ok_def table_ok_def example_posted_def example_db_def empty_database_def)
  from snapshot_create_idempotent [OF this example_snapshot_created] show ?thesis by simp
qed

section \<open>Reconciliation\<close>

definition example_observation :: observation_input where
  "example_observation = \<lparr>oi_fund_id = 1, oi_account_id = 2, oi_as_of = Aware 50 0, oi_kind = Kind_CASH,
     oi_reported_value = Dec 101 0, oi_source = ''bank'', oi_external_id = ''s1'', oi_instrument_id = None,
     oi_import_batch_id = None, oi_evidence = None\<rparr>"

definition example_observed :: database where
  "example_observed = example_snapped\<lparr>db_reconciliation_observations :=
     [observation_of 40 (Aware 300 0) example_observation]\<rparr>"

lemma example_observation_recorded:
  "record_observation 40 (Aware 300 0) example_snapped example_observation =
     Inr (observation_of 40 (Aware 300 0) example_observation, example_observed)"
  by (simp add: record_observation_def Let_def validate_observation_def example_observation_def observation_of_def
    example_observed_def insert_reconciliation_observation_def insert_row_def reconciliation_observation_checks_def
    reconciliation_observation_refs_def reconciliation_observation_clash_def refers_def varchar_def strip_def
    is_space_def example_snapped_def example_posted_def example_db_def empty_database_def)

theorem record_observation_once_witness:
  "record_observation 41 (Aware 400 0) example_observed (example_observation\<lparr>oi_reported_value := Dec 102 0\<rparr>) =
     Inl (ReconciliationError ''observation identity conflicts with existing evidence'')"
proof -
  have "validate_observation (example_observation\<lparr>oi_reported_value := Dec 102 0\<rparr>) = Inr ()"
    by (simp add: validate_observation_def example_observation_def strip_def is_space_def)
  moreover have "\<not> same_evidence example_observation (example_observation\<lparr>oi_reported_value := Dec 102 0\<rparr>)"
    by (simp add: same_evidence_def example_observation_def dval_def)
  ultimately show ?thesis
    using record_observation_once [OF example_observation_recorded, of "example_observation\<lparr>oi_reported_value := Dec 102 0\<rparr>"]
    by (simp add: example_observation_def)
qed

lemma example_observed_tables:
  "db_portfolio_snapshots example_observed = [example_snapshot]"
  "db_reconciliation_observations example_observed = [observation_of 40 (Aware 300 0) example_observation]"
  "db_reconciliation_runs example_observed = []" "db_reconciliation_items example_observed = []"
  "db_snapshot_cash example_observed =
     [\<lparr>sc_id = 31, sc_snapshot_id = 30, sc_account_id = 2, sc_currency = ''USD'', sc_amount = Dec 100 0\<rparr>]"
  "db_snapshot_positions example_observed = []" "db_funds example_observed = db_funds example_db"
  "db_audit_events example_observed = [snapshot_audit (example_ids 30) 2 example_clock None example_snapshot]"
  by (simp_all add: example_observed_def example_snapped_def example_posted_def example_db_def empty_database_def)

lemma example_snapshot_fields:
  "snap_id example_snapshot = 30" "snap_fund_id example_snapshot = 1" "snap_account_id example_snapshot = None"
  "instant (snap_as_of example_snapshot) = 50"
  by (simp_all add: example_snapshot_def new_snapshot_def)

lemma example_snapshot_observations:
  "snapshot_observations example_observed example_snapshot = [observation_of 40 (Aware 300 0) example_observation]"
  by (simp add: snapshot_observations_def example_observed_tables example_snapshot_fields observation_of_def
    example_observation_def)

definition example_run_row :: reconciliation_run_row where
  "example_run_row = \<lparr>rr_id = 60, rr_snapshot_id = 30, rr_tolerance = dzero,
     rr_evidence_hash = evidence_hash example_digest [observation_of 40 (Aware 300 0) example_observation],
     rr_status = Recon_BREACH, rr_created_at = Aware 300 0, rr_created_by_user_id = None\<rparr>"

definition example_item :: reconciliation_item_row where
  "example_item = \<lparr>ri_id = 61, ri_reconciliation_run_id = 60, ri_observation_id = 40, ri_expected_value = Dec 100 0,
     ri_reported_value = Dec 101 0, ri_difference = Dec 1 0, ri_tolerance = dzero, ri_status = Recon_BREACH\<rparr>"

definition example_matched :: database where
  "example_matched = example_observed\<lparr>db_reconciliation_runs := [example_run_row],
     db_reconciliation_items := [example_item],
     db_audit_events := db_audit_events example_observed
       @ [reconciliation_audit 62 (Aware 300 0) None example_snapshot example_run_row [example_item]]\<rparr>"

lemma length_evidence_hash [simp]: "length (evidence_hash example_digest rs) = 64"
  by (simp add: evidence_hash_def)

lemma example_reconciled:
  "reconcile example_digest (example_ids 60) example_clock example_observed 30 dzero None =
     Inr (\<lparr>rec_run = example_run_row, rec_items = [example_item], rec_reused = False\<rparr>, example_matched)"
proof -
  let ?o = "observation_of 40 (Aware 300 0) example_observation"
  have "expected_value (snapshot_cash_dict example_observed 30) (snapshot_position_dict example_observed 30) ?o = Inr (Dec 100 0)"
    by (simp add: expected_value_def snapshot_cash_dict_def example_observed_tables observation_of_def example_observation_def)
  moreover have "reconcile_item 61 60 dzero (Dec 100 0) ?o = example_item"
  proof -
    have "dsub (Dec 101 0) (Dec 100 0) = Dec 1 0" "\<not> dle (dabs (Dec 1 0)) dzero"
      by (simp_all add: dec_eval cong: let_weak_cong)
    then show ?thesis by (simp add: reconcile_item_def observation_of_def example_observation_def example_item_def)
  qed
  ultimately have "reconcile_items (example_ids 60) 1 60 dzero (snapshot_cash_dict example_observed 30)
      (snapshot_position_dict example_observed 30) [?o] = Inr [example_item]" by simp
  moreover have "insert_reconciliation_run example_observed example_run_row =
      Inr (example_observed\<lparr>db_reconciliation_runs := [example_run_row]\<rparr>)"
    by (simp add: insert_reconciliation_run_def insert_row_def example_observed_tables reconciliation_run_checks_def
      reconciliation_run_refs_def example_run_row_def refers_def varchar_def example_snapshot_fields dec_simps)
  moreover have "insert_reconciliation_item (example_observed\<lparr>db_reconciliation_runs := [example_run_row]\<rparr>) example_item =
      Inr (example_observed\<lparr>db_reconciliation_runs := [example_run_row], db_reconciliation_items := [example_item]\<rparr>)"
    by (simp add: insert_reconciliation_item_def insert_row_def example_observed_tables reconciliation_item_checks_def
      reconciliation_item_refs_def example_item_def example_run_row_def refers_def observation_of_def dec_simps)
  moreover have "insert_audit_event (example_observed\<lparr>db_reconciliation_runs := [example_run_row],
      db_reconciliation_items := [example_item]\<rparr>)
      (reconciliation_audit 62 (Aware 300 0) None example_snapshot example_run_row [example_item]) = Inr example_matched"
    by (simp add: insert_audit_event_def insert_row_def example_observed_tables audit_event_checks_def audit_event_refs_def
      audit_event_clash_def reconciliation_audit_def example_snapshot_fields refers_def varchar_def snapshot_audit_def
      example_matched_def example_db_def)
  moreover have "run_status [example_item] = Recon_BREACH" by (simp add: run_status_def example_item_def)
  ultimately show ?thesis
    unfolding reconcile_def Let_def
    by (simp add: example_observed_tables(1,3) example_snapshot_fields example_snapshot_observations dec_simps
      example_run_row_def [symmetric])
qed


theorem reconcile_status_witness:
  "\<exists>x. expected_value (snapshot_cash_dict example_observed 30) (snapshot_position_dict example_observed 30)
     (observation_of 40 (Aware 300 0) example_observation) = Inr x
   \<and> 0 < \<bar>dval (ob_reported_value (observation_of 40 (Aware 300 0) example_observation)) - dval x\<bar>"
proof -
  have "first_row (\<lambda>r. snap_id r = 30) (db_portfolio_snapshots example_observed) = Some example_snapshot"
    by (simp add: example_observed_tables example_snapshot_fields)
  from reconcile_status [OF example_reconciled _ this] show ?thesis
    by (simp add: example_snapshot_observations example_run_row_def)
qed

theorem reconcile_idempotent_witness:
  "reconcile example_digest (example_ids 80) example_clock example_matched 30 dzero (Some 5) =
     Inr (\<lparr>rec_run = example_run_row, rec_items = [example_item], rec_reused = True\<rparr>, example_matched)"
  using reconcile_idempotent [OF example_reconciled] by (simp add: example_observed_tables)

theorem snapshot_expected_values_witness: "dict_get (snapshot_cash_dict example_snapped 30) 2 = Some (Dec 100 0)"
proof -
  have "dict_get (snapshot_cash_dict example_snapped (snap_id example_snapshot)) =
      map_of (map (\<lambda>c. (cb_account_id c, cb_amount c)) (pf_cash_by_account example_fund_state))"
    using snapshot_expected_values [OF example_snapshot_created _ example_reconstructed]
    by (simp add: example_posted_def example_db_def empty_database_def)
  then show ?thesis by (simp add: example_snapshot_fields example_state_fields)
qed

end
