(* ===== verification/Analytics.thy ===== *)
theory Analytics
  imports Numerics
begin

text \<open>
  \<open>app/analytics/engine.py\<close>: returns, drawdowns, volatility and Sharpe ratio of a series of portfolio
  values, comparison with a benchmark, attribution.
\<close>

section \<open>Types\<close>

record value_observation =
  vo_observed_at :: datetime
  vo_value :: dec
  vo_external_flow :: dec

record return_observation =
  ro_observed_at :: datetime
  ro_period_return :: dec
  ro_cumulative_return :: dec

record drawdown_observation =
  dd_observed_at :: datetime
  dd_drawdown :: dec

record attribution_input =
  ai_instrument_id :: uuid
  ai_beginning_weight :: dec
  ai_security_return :: dec

record attribution_result =
  ar_instrument_id :: uuid
  ar_contribution :: dec

record analytics_result =
  an_returns :: "return_observation list"
  an_drawdowns :: "drawdown_observation list"
  an_total_return :: dec
  an_annualized_volatility :: "dec option"
  an_annualized_sharpe :: "dec option"
  an_maximum_drawdown :: dec

record benchmark_comparison =
  bc_aligned_count :: int
  bc_portfolio_total_return :: dec
  bc_benchmark_total_return :: dec
  bc_excess_total_return :: dec
  bc_tracking_error :: "dec option"
  bc_beta :: "dec option"

section \<open>Statistics\<close>

abbreviation dint :: "int \<Rightarrow> dec" where
  "dint n \<equiv> Dec n 0"

definition mean :: "dec list \<Rightarrow> app_error + dec" where
  "mean xs = (if xs = [] then Inl (AnalyticsError ''at least one return is required'')
     else Inr (ddiv (dsum xs) (dint (int (length xs)))))"

definition sample_stddev :: "dec list \<Rightarrow> app_error + dec option" where
  "sample_stddev xs =
     (if length xs < 2 then Inr None
      else bindR (mean xs) (\<lambda>average.
        let variance = ddiv (dsum (map (\<lambda>x. dsquare (dsub x average)) xs)) (dint (int (length xs) - 1)) in
        bindR (dsqrtR variance) (\<lambda>r. Inr (Some r))))"

definition annualized_stddev :: "dec list \<Rightarrow> int \<Rightarrow> app_error + dec option" where
  "annualized_stddev xs periods =
     bindR (requireR (0 < periods) (AnalyticsError ''annualization periods must be positive'')) (\<lambda>_.
     bindR (sample_stddev xs) (\<lambda>r. case r of
       None \<Rightarrow> Inr None
     | Some s \<Rightarrow> bindR (dsqrtR (dint periods)) (\<lambda>a. Inr (Some (dmul s a)))))"

definition compound :: "dec list \<Rightarrow> dec" where
  "compound xs = dsub (foldl (\<lambda>growth x. dmul growth (dadd dunit x)) dunit xs) dunit"

definition beta :: "dec list \<Rightarrow> dec list \<Rightarrow> app_error + dec option" where
  "beta portfolio benchmark =
     (if length portfolio \<noteq> length benchmark \<or> length portfolio < 2 then Inr None
      else bindR (mean portfolio) (\<lambda>p_mean.
        bindR (mean benchmark) (\<lambda>b_mean.
        let denominator = dsum (map (\<lambda>b. dsquare (dsub b b_mean)) benchmark) in
        if deq denominator dzero then Inr None
        else Inr (Some (ddiv (dsum (map2 (\<lambda>p b. dmul (dsub p p_mean) (dsub b b_mean)) portfolio benchmark))
          denominator)))))"

section \<open>Series\<close>

text \<open>
  Timestamps order and compare as Python orders them: aware ones by instant, naive ones by reading,
  and a sort that compares an aware with a naive one raises.
\<close>

definition mixed_awareness :: "datetime list \<Rightarrow> bool" where
  "mixed_awareness ts \<longleftrightarrow> (\<exists>t \<in> set ts. is_aware t) \<and> (\<exists>t \<in> set ts. \<not> is_aware t)"

definition ordered_values :: "value_observation list \<Rightarrow> app_error + value_observation list" where
  "ordered_values observations =
     bindR (requireR (\<not> mixed_awareness (map vo_observed_at observations)) TypeError) (\<lambda>_.
     let ordered = sort_key (\<lambda>v. instant (vo_observed_at v)) observations in
     bindR (requireR (ordered \<noteq> []) (AnalyticsError ''at least one value observation is required'')) (\<lambda>_.
     bindR (requireR (distinct (map (\<lambda>v. instant (vo_observed_at v)) ordered))
       (AnalyticsError ''value timestamps must be unique'')) (\<lambda>_.
     bindR (foldR (\<lambda>_ v.
         bindR (requireR (is_aware (vo_observed_at v)) (AnalyticsError ''value timestamps must be timezone-aware'')) (\<lambda>_.
         requireR (dlt dzero (vo_value v)) (AnalyticsError ''portfolio values must be positive''))) () ordered) (\<lambda>_.
     Inr ordered))))"

text \<open>The variables of the loop; \<open>se_previous\<close> is \<open>ordered[index - 1]\<close>.\<close>

record series_state =
  se_previous :: value_observation
  se_growth :: dec
  se_peak_growth :: dec
  se_returns :: "return_observation list"
  se_drawdowns :: "drawdown_observation list"

definition series_step :: "series_state \<Rightarrow> value_observation \<Rightarrow> series_state" where
  "series_step s item =
     (let period_return = dsub (ddiv (dsub (vo_value item) (vo_external_flow item)) (vo_value (se_previous s))) dunit;
          growth = dmul (se_growth s) (dadd dunit period_return);
          peak = (if dlt (se_peak_growth s) growth then growth else se_peak_growth s) in
      \<lparr>se_previous = item, se_growth = growth, se_peak_growth = peak,
       se_returns = se_returns s @ [\<lparr>ro_observed_at = vo_observed_at item, ro_period_return = period_return,
         ro_cumulative_return = dsub growth dunit\<rparr>],
       se_drawdowns = se_drawdowns s @ [\<lparr>dd_observed_at = vo_observed_at item,
         dd_drawdown = dsub (ddiv growth peak) dunit\<rparr>]\<rparr>)"

definition series_start :: "value_observation \<Rightarrow> series_state" where
  "series_start v = \<lparr>se_previous = v, se_growth = dunit, se_peak_growth = dunit, se_returns = [],
     se_drawdowns = [\<lparr>dd_observed_at = vo_observed_at v, dd_drawdown = dzero\<rparr>]\<rparr>"

text \<open>\<open>min(xs)\<close>: the first of the smallest values.\<close>

definition dminimum :: "dec list \<Rightarrow> dec" where
  "dminimum xs = foldl (\<lambda>m x. if dlt x m then x else m) (hd xs) (tl xs)"

definition sharpe_ratio :: "dec list \<Rightarrow> dec option \<Rightarrow> int \<Rightarrow> dec \<Rightarrow> app_error + dec option" where
  "sharpe_ratio series stddev periods risk_free =
     (case stddev of
        None \<Rightarrow> Inr None
      | Some sd \<Rightarrow> if deq sd dzero then Inr None
          else bindR (ddivR risk_free (dint periods)) (\<lambda>period_rf.
            bindR (mean series) (\<lambda>m.
            bindR (dsqrtR (dint periods)) (\<lambda>a.
            Inr (Some (ddiv (dmul (dsub m period_rf) a) sd))))))"

definition analyze :: "value_observation list \<Rightarrow> int \<Rightarrow> dec \<Rightarrow> app_error + analytics_result" where
  "analyze observations periods risk_free =
     bindR (ordered_values observations) (\<lambda>ordered.
     let s = foldl series_step (series_start (hd ordered)) (tl ordered); series = map ro_period_return (se_returns s) in
     bindR (sample_stddev series) (\<lambda>stddev.
     bindR (case stddev of None \<Rightarrow> Inr None
       | Some sd \<Rightarrow> bindR (dsqrtR (dint periods)) (\<lambda>a. Inr (Some (dmul sd a)))) (\<lambda>volatility.
     bindR (sharpe_ratio series stddev periods risk_free) (\<lambda>sharpe.
     Inr \<lparr>an_returns = se_returns s, an_drawdowns = se_drawdowns s, an_total_return = dsub (se_growth s) dunit,
       an_annualized_volatility = volatility, an_annualized_sharpe = sharpe,
       an_maximum_drawdown = dminimum (map dd_drawdown (se_drawdowns s))\<rparr>))))"

section \<open>Benchmark\<close>

text \<open>The dictionaries by timestamp: equal timestamps are equal instants of the same awareness.\<close>

definition returns_by_time :: "return_observation list \<Rightarrow> (bool \<times> int, dec) dict" where
  "returns_by_time rs = foldl (\<lambda>d r. dict_set (is_aware (ro_observed_at r), instant (ro_observed_at r)) (ro_period_return r) d) [] rs"

definition aligned_times :: "(bool \<times> int, dec) dict \<Rightarrow> (bool \<times> int, dec) dict \<Rightarrow> (bool \<times> int) list" where
  "aligned_times p b = filter (\<lambda>k. dict_get b k \<noteq> None) (map fst p)"

definition compare :: "return_observation list \<Rightarrow> return_observation list \<Rightarrow> int \<Rightarrow> app_error + benchmark_comparison" where
  "compare portfolio_returns benchmark_returns periods =
     (let portfolio = returns_by_time portfolio_returns; benchmark = returns_by_time benchmark_returns;
          times = aligned_times portfolio benchmark in
      bindR (requireR (\<not> ((\<exists>k \<in> set times. fst k) \<and> (\<exists>k \<in> set times. \<not> fst k))) TypeError) (\<lambda>_.
      let timestamps = sort_key snd times in
      bindR (requireR (timestamps \<noteq> [])
        (AnalyticsError ''portfolio and benchmark have no aligned return observations'')) (\<lambda>_.
      let p = map (\<lambda>k. the (dict_get portfolio k)) timestamps; b = map (\<lambda>k. the (dict_get benchmark k)) timestamps in
      bindR (annualized_stddev (map2 dsub p b) periods) (\<lambda>tracking.
      bindR (beta p b) (\<lambda>bt.
      Inr \<lparr>bc_aligned_count = int (length timestamps), bc_portfolio_total_return = compound p,
        bc_benchmark_total_return = compound b, bc_excess_total_return = dsub (compound p) (compound b),
        bc_tracking_error = tracking, bc_beta = bt\<rparr>)))))"

section \<open>Attribution\<close>

definition attribute_returns :: "attribution_input list \<Rightarrow> app_error + attribution_result list" where
  "attribute_returns rows =
     bindR (requireR (\<forall>r \<in> set rows. \<not> dlt (ai_beginning_weight r) dzero)
       (AnalyticsError ''attribution weights cannot be negative'')) (\<lambda>_.
     bindR (requireR (\<not> dlt dunit (dsum (map ai_beginning_weight rows)))
       (AnalyticsError ''attribution weights cannot exceed total portfolio weight'')) (\<lambda>_.
     Inr (map (\<lambda>r. \<lparr>ar_instrument_id = ai_instrument_id r,
         ar_contribution = dmul (ai_beginning_weight r) (ai_security_return r)\<rparr>)
       (sort_key ai_instrument_id rows))))"

end
