(* ===== verification/Risk_Engine.thy ===== *)
theory Risk_Engine
  imports Analytics Risk_Policy
begin

text \<open>
  \<open>app/risk/engine.py\<close>: value at risk, expected shortfall, volatility and beta of a return series;
  and \<open>app/risk/pipeline.py\<close>: exposure, risk and policy evaluation of a valuation in one call.
\<close>

section \<open>Risk engine\<close>

text \<open>\<open>int(x.to_integral_value(rounding=ROUND_CEILING))\<close>\<close>

definition dceiling :: "dec \<Rightarrow> int" where
  "dceiling x = (if 0 \<le> dexp x then coeff x * 10 ^ nat (dexp x) else - ((- coeff x) div 10 ^ nat (- dexp x)))"

definition sorted_losses :: "dec list \<Rightarrow> dec list" where
  "sorted_losses returns = sort_key dval (map dneg returns)"

definition var_rank :: "dec \<Rightarrow> nat \<Rightarrow> int" where
  "var_rank confidence n = dceiling (dmul confidence (dint (int n)))"

definition value_at_risk :: "dec list \<Rightarrow> dec \<Rightarrow> dec" where
  "value_at_risk losses confidence = dmax dzero (losses ! nat (max 0 (var_rank confidence (length losses) - 1)))"

definition shortfall :: "dec list \<Rightarrow> dec \<Rightarrow> app_error + dec" where
  "shortfall losses var_return =
     (let tail = filter (\<lambda>x. dle var_return x) losses in
      bindR (ddivR (dsum tail) (dint (int (length tail)))) (\<lambda>m. Inr (dmax dzero m)))"

definition benchmark_measures ::
  "dec list \<Rightarrow> dec list \<Rightarrow> int \<Rightarrow> app_error + dec option \<times> dec option" where
  "benchmark_measures returns benchmark periods =
     (if benchmark = [] then Inr (None, None)
      else bindR (annualized_stddev (map2 dsub returns benchmark) periods) (\<lambda>tracking.
        bindR (beta returns benchmark) (\<lambda>b. Inr (tracking, b))))"

definition risk_calculate ::
  "dec list \<Rightarrow> dec list \<Rightarrow> dec \<Rightarrow> exposure_result \<Rightarrow> dec \<Rightarrow> int \<Rightarrow> app_error + risk_result" where
  "risk_calculate returns benchmark portfolio_value exposure confidence periods =
     bindR (requireR (returns \<noteq> []) (RiskError ''at least one portfolio return is required'')) (\<lambda>_.
     bindR (requireR (dlt dzero portfolio_value) (RiskError ''portfolio value must be positive'')) (\<lambda>_.
     bindR (requireR (dlt dzero confidence \<and> dlt confidence dunit)
       (RiskError ''confidence level must be between zero and one'')) (\<lambda>_.
     bindR (requireR (\<not> (benchmark \<noteq> [] \<and> length benchmark \<noteq> length returns))
       (RiskError ''benchmark and portfolio returns must be aligned'')) (\<lambda>_.
     let losses = sorted_losses returns; var_return = value_at_risk losses confidence in
     bindR (shortfall losses var_return) (\<lambda>expected_shortfall.
     bindR (benchmark_measures returns benchmark periods) (\<lambda>(tracking, portfolio_beta).
     bindR (annualized_stddev returns periods) (\<lambda>volatility.
     Inr \<lparr>rk_observation_count = int (length returns), rk_confidence_level = confidence,
       rk_annualized_volatility = volatility, rk_beta = portfolio_beta,
       rk_value_at_risk_return = var_return, rk_expected_shortfall_return = expected_shortfall,
       rk_value_at_risk_amount = dmul portfolio_value var_return,
       rk_expected_shortfall_amount = dmul portfolio_value expected_shortfall,
       rk_tracking_error = tracking, rk_largest_position_weight = er_largest_position_weight exposure,
       rk_herfindahl_index = er_herfindahl_index exposure\<rparr>)))))))"

section \<open>Pipeline\<close>

record portfolio_risk_analysis =
  pra_exposure :: exposure_result
  pra_risk :: risk_result
  pra_evaluation_id :: uuid
  pra_policy_results :: "policy_evaluation_item list"

definition risk_pipeline_analyze ::
  "digest \<Rightarrow> formatter \<Rightarrow> (nat \<Rightarrow> uuid) \<Rightarrow> database \<Rightarrow> valuation_result \<Rightarrow> dec list \<Rightarrow> dec list \<Rightarrow> uuid \<Rightarrow> datetime
     \<Rightarrow> dec \<Rightarrow> int \<Rightarrow> int \<Rightarrow> app_error + portfolio_risk_analysis \<times> database" where
  "risk_pipeline_analyze H F ids db valuation returns benchmark policy_id created_at confidence periods top_n =
     bindR (exposure_service_calculate db valuation top_n) (\<lambda>exposure.
     bindR (risk_calculate returns benchmark (vr_portfolio_value valuation) exposure confidence periods) (\<lambda>risk.
     bindR (evaluate_and_record H F ids db (vr_fund_id valuation) policy_id (vr_as_of valuation)
       (portfolio_risk_metrics exposure risk) created_at) (\<lambda>((evaluation_id, results), db').
     Inr (\<lparr>pra_exposure = exposure, pra_risk = risk, pra_evaluation_id = evaluation_id,
       pra_policy_results = results\<rparr>, db'))))"

end
