(* ===== verification/Analytics_Properties.thy ===== *)
theory Analytics_Properties
  imports Analytics
begin

text \<open>
  The analytics of a value series: drawdowns are never positive and the maximum drawdown is the
  smallest of them; later observations do not change the results of earlier periods.
\<close>

section \<open>Statistics\<close>

lemma dint_val: "dval (dint n) = of_int n"
  by (simp add: dval_def)

lemma dval_sign: "0 \<le> dval d \<longleftrightarrow> 0 \<le> coeff d"
proof -
  have "\<not> (10 :: rat) powi dexp d \<le> 0" by (simp add: not_le)
  then show ?thesis by (auto simp: dval_def zero_le_mult_iff)
qed

lemma round_to_nonneg: "0 \<le> dval d \<Longrightarrow> 0 \<le> dval (round_to p d)"
proof -
  assume d: "0 \<le> dval d"
  have "0 \<le> round_half_even \<bar>coeff d\<bar> (10 ^ k)" for k
    by (simp add: round_half_even_def Let_def pos_imp_zdiv_nonneg_iff add_nonneg_nonneg)
  with d show ?thesis by (auto simp: round_to_def Let_def dval_sign pos_imp_zdiv_nonneg_iff sgn_if intro!: mult_nonneg_nonneg)
qed

lemma dsquare_nonneg: "0 \<le> dval (dsquare x)"
  unfolding dsquare_def by (intro round_to_nonneg) (simp add: dval_sign)

lemma sample_stddev_total: "\<exists>r. sample_stddev xs = Inr r"
proof (cases "length xs < 2")
  case False
  then obtain m where m: "mean xs = Inr m" by (cases xs) (auto simp: mean_def)
  let ?v = "ddiv (dsum (map (\<lambda>x. dsquare (dsub x m)) xs)) (dint (int (length xs) - 1))"
  have "0 \<le> dval (dsum (map (\<lambda>x. dsquare (dsub x m)) xs))" by (rule dsum_nonneg) (simp add: dsquare_nonneg)
  then have "0 \<le> dval ?v" using False by (simp add: dval_ddiv dint_val)
  then show ?thesis using False m by (simp add: sample_stddev_def dsqrtR_def dlt_iff not_less Let_def)
qed (simp add: sample_stddev_def)

lemma annualized_stddev_total:
  assumes "0 < periods"
  shows "\<exists>r. annualized_stddev xs periods = Inr r"
proof -
  obtain s where "sample_stddev xs = Inr s" using sample_stddev_total by blast
  then show ?thesis using assms by (cases s) (auto simp: annualized_stddev_def dsqrtR_def dlt_iff dint_val)
qed

lemma beta_total: "\<exists>r. beta p b = Inr r"
  by (auto simp: beta_def mean_def Let_def)

section \<open>The loop\<close>

text \<open>What the loop keeps: the peak is positive and above the growth, drawdowns are not positive.\<close>

definition series_inv :: "series_state \<Rightarrow> bool" where
  "series_inv s \<longleftrightarrow> 0 < dval (se_peak_growth s) \<and> dval (se_growth s) \<le> dval (se_peak_growth s)
     \<and> se_drawdowns s \<noteq> [] \<and> (\<forall>d \<in> set (se_drawdowns s). dval (dd_drawdown d) \<le> 0)"

lemma drawdown_nonpos:
  assumes "0 < dval p" "dval g \<le> dval p"
  shows "dval (dsub (ddiv g p) dunit) \<le> 0"
proof -
  have "rnd (dval g / dval p) \<le> 1" using assms by (intro rnd_le_representable) simp_all
  with assms show ?thesis by (simp add: dval_dsub dval_ddiv)
qed

lemma series_step_inv: "series_inv s \<Longrightarrow> series_inv (series_step s v)"
  using drawdown_nonpos by (auto simp: series_inv_def series_step_def Let_def dlt_iff not_less)

lemma series_run_inv: "series_inv s \<Longrightarrow> series_inv (foldl series_step s vs)"
  by (induction vs arbitrary: s) (simp_all add: series_step_inv)

lemma series_run_times:
  "map ro_observed_at (se_returns (foldl series_step s vs)) = map ro_observed_at (se_returns s) @ map vo_observed_at vs"
  "map dd_observed_at (se_drawdowns (foldl series_step s vs)) = map dd_observed_at (se_drawdowns s) @ map vo_observed_at vs"
  by (induction vs arbitrary: s) (simp_all add: series_step_def Let_def)

lemma series_run_grows:
  "\<exists>rs ds. se_returns (foldl series_step s vs) = se_returns s @ rs \<and> se_drawdowns (foldl series_step s vs) = se_drawdowns s @ ds"
proof (induction vs arbitrary: s)
  case (Cons v vs)
  from Cons [of "series_step s v"] show ?case by (auto simp: series_step_def Let_def)
qed simp

lemma dminimum_least:
  assumes "xs \<noteq> []"
  shows "dminimum xs \<in> set xs" "\<And>x. x \<in> set xs \<Longrightarrow> dval (dminimum xs) \<le> dval x"
proof -
  have "foldl (\<lambda>m x. if dlt x m then x else m) m ys \<in> set (m # ys)
      \<and> (\<forall>x \<in> set (m # ys). dval (foldl (\<lambda>m x. if dlt x m then x else m) m ys) \<le> dval x)" for m ys
    by (induction ys arbitrary: m) (auto simp: dlt_iff, force+)
  from this [of "hd xs" "tl xs"] assms
  show "dminimum xs \<in> set xs" "\<And>x. x \<in> set xs \<Longrightarrow> dval (dminimum xs) \<le> dval x"
    by (auto simp: dminimum_def)
qed

section \<open>Ordered observations\<close>

lemma insort_key_append: "(\<forall>y \<in> set bs. f x \<le> f y) \<Longrightarrow> insort_key f x (as @ bs) = insort_key f x as @ bs"
  by (induction as) (auto, cases bs, auto)

lemma sort_key_append:
  "(\<And>x y. x \<in> set xs \<Longrightarrow> y \<in> set ys \<Longrightarrow> f x \<le> f y) \<Longrightarrow> sort_key f (xs @ ys) = sort_key f xs @ sort_key f ys"
  by (induction xs) (simp_all add: insort_key_append)

abbreviation observation_check :: "value_observation \<Rightarrow> app_error + unit" where
  "observation_check v \<equiv>
     bindR (requireR (is_aware (vo_observed_at v)) (AnalyticsError ''value timestamps must be timezone-aware'')) (\<lambda>_.
     requireR (dlt dzero (vo_value v)) (AnalyticsError ''portfolio values must be positive''))"

lemma foldR_unit: "foldR (\<lambda>_. g) () vs = Inr () \<longleftrightarrow> (\<forall>v \<in> set vs. g v = Inr ())"
proof (induction vs)
  case (Cons v vs)
  then show ?case by (cases "g v") simp_all
qed simp

lemma observation_check_Inr: "observation_check v = Inr () \<longleftrightarrow> is_aware (vo_observed_at v) \<and> 0 < dval (vo_value v)"
  by (simp add: requireR_def dlt_iff)

lemma ordered_values_Inr:
  assumes "ordered_values obs = Inr ordered"
  shows "ordered = sort_key (\<lambda>v. instant (vo_observed_at v)) obs" "ordered \<noteq> []"
    "\<forall>v \<in> set obs. is_aware (vo_observed_at v) \<and> 0 < dval (vo_value v)"
proof -
  let ?s = "sort_key (\<lambda>v. instant (vo_observed_at v)) obs"
  have o: "?s \<noteq> []" "?s = ordered" and "\<exists>u. foldR (\<lambda>_. observation_check) () ?s = Inr u"
    using assms unfolding ordered_values_def bindR_Inr_iff [of "requireR b e" for b e] requireR_Inr Let_def
    by (simp_all only: bindR_Inr_iff [of "foldR f s xs" for f s xs]) blast+
  then obtain u where u: "foldR (\<lambda>_. observation_check) () ?s = Inr u" by blast
  have c: "foldR (\<lambda>_. observation_check) () ?s = Inr ()" using u by (cases u) blast
  from o show "ordered = ?s" "ordered \<noteq> []" by simp_all
  from c show "\<forall>v \<in> set obs. is_aware (vo_observed_at v) \<and> 0 < dval (vo_value v)"
    unfolding foldR_unit observation_check_Inr by simp
qed

lemma analyze_Inr:
  assumes "analyze obs periods rf = Inr r"
  obtains v vs where "sort_key (\<lambda>v. instant (vo_observed_at v)) obs = v # vs"
    "an_returns r = se_returns (foldl series_step (series_start v) vs)"
    "an_drawdowns r = se_drawdowns (foldl series_step (series_start v) vs)"
    "an_total_return r = dsub (se_growth (foldl series_step (series_start v) vs)) dunit"
    "an_maximum_drawdown r = dminimum (map dd_drawdown (an_drawdowns r))"
    "\<forall>w \<in> set obs. is_aware (vo_observed_at w) \<and> 0 < dval (vo_value w)"
proof -
  from assms obtain ordered where o: "ordered_values obs = Inr ordered"
    "an_returns r = se_returns (foldl series_step (series_start (hd ordered)) (tl ordered))"
    "an_drawdowns r = se_drawdowns (foldl series_step (series_start (hd ordered)) (tl ordered))"
    "an_total_return r = dsub (se_growth (foldl series_step (series_start (hd ordered)) (tl ordered))) dunit"
    "an_maximum_drawdown r = dminimum (map dd_drawdown (an_drawdowns r))"
    by (auto simp: analyze_def result_simps Let_def)
  note ord = ordered_values_Inr [OF o(1)]
  show thesis by (rule that [of "hd ordered" "tl ordered"]) (use o ord in auto)
qed

lemma analyze_maximum:
  assumes "analyze obs periods rf = Inr r"
  shows "an_maximum_drawdown r \<in> dd_drawdown ` set (an_drawdowns r)"
    "\<forall>d \<in> set (an_drawdowns r). dval (an_maximum_drawdown r) \<le> dval (dd_drawdown d)"
proof -
  obtain v vs where r: "an_drawdowns r = se_drawdowns (foldl series_step (series_start v) vs)"
    "an_maximum_drawdown r = dminimum (map dd_drawdown (an_drawdowns r))"
    using assms by (rule analyze_Inr)
  have "map dd_drawdown (an_drawdowns r) \<noteq> []"
    using series_run_grows [of "series_start v" vs] by (auto simp: r(1) series_start_def)
  note dminimum_least [OF this]
  then show "an_maximum_drawdown r \<in> dd_drawdown ` set (an_drawdowns r)"
    "\<forall>d \<in> set (an_drawdowns r). dval (an_maximum_drawdown r) \<le> dval (dd_drawdown d)"
    unfolding r(2) by auto
qed

lemma sharpe_ratio_total:
  assumes "0 < periods" "sample_stddev series = Inr sd"
  shows "\<exists>r. sharpe_ratio series sd periods rf = Inr r"
proof (cases sd)
  case (Some s)
  then have "series \<noteq> []" using assms(2) by (auto simp: sample_stddev_def)
  with Some assms(1) show ?thesis
    by (simp add: sharpe_ratio_def ddivR_def dsqrtR_def mean_def deq_iff dlt_iff dint_val)
qed (simp add: sharpe_ratio_def)

lemma analyze_runs:
  assumes "ordered_values obs = Inr ordered" and "0 < periods"
  shows "\<exists>r. analyze obs periods rf = Inr r"
proof -
  define s where "s = foldl series_step (series_start (hd ordered)) (tl ordered)"
  obtain sd where sd: "sample_stddev (map ro_period_return (se_returns s)) = Inr sd" using sample_stddev_total by blast
  obtain sh where sh: "sharpe_ratio (map ro_period_return (se_returns s)) sd periods rf = Inr sh"
    using sharpe_ratio_total [OF assms(2) sd] by blast
  have "\<exists>v. (case sd of None \<Rightarrow> Inr None
      | Some sd \<Rightarrow> bindR (dsqrtR (dint periods)) (\<lambda>a. Inr (Some (dmul sd a)))) = Inr v"
    using assms(2) by (cases sd) (simp_all add: dsqrtR_def dlt_iff dint_val)
  then obtain vol where vol: "(case sd of None \<Rightarrow> Inr None
      | Some sd \<Rightarrow> bindR (dsqrtR (dint periods)) (\<lambda>a. Inr (Some (dmul sd a)))) = Inr vol" by blast
  show ?thesis unfolding analyze_def assms(1) bindR_simps Let_def s_def [symmetric] sd vol sh by blast
qed

lemma ordered_values_iff:
  "(\<exists>ordered. ordered_values obs = Inr ordered) \<longleftrightarrow> obs \<noteq> [] \<and> distinct (map (\<lambda>v. instant (vo_observed_at v)) obs)
     \<and> (\<forall>v \<in> set obs. is_aware (vo_observed_at v) \<and> 0 < dval (vo_value v))" (is "?L \<longleftrightarrow> ?R")
proof
  let ?s = "sort_key (\<lambda>v. instant (vo_observed_at v)) obs"
  have dist: "distinct (map (\<lambda>v. instant (vo_observed_at v)) ?s) \<longleftrightarrow> distinct (map (\<lambda>v. instant (vo_observed_at v)) obs)"
    by (intro mset_eq_imp_distinct_iff) simp
  show ?R if ?L
  proof -
    from that obtain ordered where o: "ordered_values obs = Inr ordered" by blast
    then have "distinct (map (\<lambda>v. instant (vo_observed_at v)) ?s)"
      unfolding ordered_values_def Let_def by (auto simp only: bindR_Inr_iff requireR_Inr)
    with ordered_values_Inr [OF o] dist show ?thesis by (auto simp: sort_key_Nil_iff)
  qed
  show ?L if ?R
  proof -
    from that have "foldR (\<lambda>_. observation_check) () ?s = Inr ()" by (simp add: foldR_unit requireR_def dlt_iff)
    with that dist show ?thesis by (auto simp: ordered_values_def Let_def mixed_awareness_def sort_key_Nil_iff)
  qed
qed

theorem analyze_available:
  assumes "0 < periods"
  shows "(\<exists>r. analyze obs periods rf = Inr r) \<longleftrightarrow> obs \<noteq> [] \<and> distinct (map (\<lambda>v. instant (vo_observed_at v)) obs)
     \<and> (\<forall>v \<in> set obs. is_aware (vo_observed_at v) \<and> 0 < dval (vo_value v))"
  unfolding ordered_values_iff [symmetric]
proof
  show "\<exists>ordered. ordered_values obs = Inr ordered" if "\<exists>r. analyze obs periods rf = Inr r"
    using that by (auto simp: analyze_def bindR_Inr_iff)
  assume "\<exists>ordered. ordered_values obs = Inr ordered"
  then obtain ordered where o: "ordered_values obs = Inr ordered" by blast
  show "\<exists>r. analyze obs periods rf = Inr r" using analyze_runs [OF o assms] .
qed

theorem analyze_drawdowns:
  assumes "analyze obs periods rf = Inr r"
  shows "length (an_drawdowns r) = length obs \<and> length (an_returns r) = length obs - 1
    \<and> dd_drawdown (hd (an_drawdowns r)) = dzero \<and> (\<forall>d \<in> set (an_drawdowns r). dval (dd_drawdown d) \<le> 0)
    \<and> an_maximum_drawdown r \<in> dd_drawdown ` set (an_drawdowns r)
    \<and> (\<forall>d \<in> set (an_drawdowns r). dval (an_maximum_drawdown r) \<le> dval (dd_drawdown d))"
proof -
  obtain v vs where r: "sort_key (\<lambda>v. instant (vo_observed_at v)) obs = v # vs"
    "an_returns r = se_returns (foldl series_step (series_start v) vs)"
    "an_drawdowns r = se_drawdowns (foldl series_step (series_start v) vs)"
    using assms by (rule analyze_Inr)
  have len: "length obs = Suc (length vs)" using arg_cong [OF r(1), of length] by simp
  have "series_inv (series_start v)" by (simp add: series_inv_def series_start_def)
  then have inv: "series_inv (foldl series_step (series_start v) vs)" by (rule series_run_inv)
  have lens: "length (an_drawdowns r) = length obs" "length (an_returns r) = length obs - 1"
    using arg_cong [OF series_run_times(1) [of "series_start v" vs], of length]
      arg_cong [OF series_run_times(2) [of "series_start v" vs], of length] len
    by (simp_all add: r series_start_def)
  obtain ds where "an_drawdowns r = se_drawdowns (series_start v) @ ds"
    using series_run_grows [of "series_start v" vs] r(3) by auto
  then have "dd_drawdown (hd (an_drawdowns r)) = dzero" by (simp add: series_start_def)
  with lens inv analyze_maximum [OF assms] show ?thesis unfolding series_inv_def r(3) by auto
qed

text \<open>C36: Later observations do not rewrite history: returns and drawdowns of a series are a prefix
  of those of any extension by observations that are not earlier, and the maximum drawdown only
  falls.\<close>

theorem analyze_no_lookahead:
  assumes "analyze obs periods rf = Inr r" and "analyze (obs @ later) periods rf = Inr r'"
    and later: "\<And>v w. v \<in> set obs \<Longrightarrow> w \<in> set later \<Longrightarrow> instant (vo_observed_at v) \<le> instant (vo_observed_at w)"
  shows "an_returns r = take (length (an_returns r)) (an_returns r')
    \<and> an_drawdowns r = take (length (an_drawdowns r)) (an_drawdowns r')
    \<and> dval (an_maximum_drawdown r') \<le> dval (an_maximum_drawdown r)"
proof -
  obtain v vs where r: "sort_key (\<lambda>v. instant (vo_observed_at v)) obs = v # vs"
    "an_returns r = se_returns (foldl series_step (series_start v) vs)"
    "an_drawdowns r = se_drawdowns (foldl series_step (series_start v) vs)"
    using assms(1) by (rule analyze_Inr)
  obtain v' vs' where r': "sort_key (\<lambda>v. instant (vo_observed_at v)) (obs @ later) = v' # vs'"
    "an_returns r' = se_returns (foldl series_step (series_start v') vs')"
    "an_drawdowns r' = se_drawdowns (foldl series_step (series_start v') vs')"
    using assms(2) by (rule analyze_Inr)
  have "v' # vs' = (v # vs) @ sort_key (\<lambda>v. instant (vo_observed_at v)) later"
    using r(1) r'(1) later by (simp add: sort_key_append)
  then have "v' = v" "vs' = vs @ sort_key (\<lambda>v. instant (vo_observed_at v)) later" by simp_all
  then obtain rs ds where more: "an_returns r' = an_returns r @ rs" "an_drawdowns r' = an_drawdowns r @ ds"
    using series_run_grows [of "foldl series_step (series_start v) vs" "sort_key (\<lambda>v. instant (vo_observed_at v)) later"]
      r r' by auto
  have "an_maximum_drawdown r \<in> dd_drawdown ` set (an_drawdowns r)" by (rule analyze_maximum(1) [OF assms(1)])
  then have "an_maximum_drawdown r \<in> dd_drawdown ` set (an_drawdowns r')" by (auto simp: more)
  then have "dval (an_maximum_drawdown r') \<le> dval (an_maximum_drawdown r)" using analyze_maximum(2) [OF assms(2)] by auto
  with more show ?thesis by simp
qed

end
