(* ===== verification/Risk_Properties.thy ===== *)
theory Risk_Properties
  imports Risk_Engine Analytics_Properties Valuation_Properties
begin

text \<open>
  Value at risk is an order statistic of the losses and expected shortfall the mean of its tail;
  on valid input the risk engine fails exactly when every return is a gain.
\<close>

section \<open>Ranks\<close>

lemma dceiling_ceiling: "dceiling x = \<lceil>dval x\<rceil>"
proof (cases "0 \<le> dexp x")
  case True
  then have "dval x = of_int (coeff x * 10 ^ nat (dexp x))" by (simp add: dval_def power_int_def)
  then show ?thesis using True unfolding dceiling_def by (simp only: ceiling_of_int if_True)
next
  case False
  then have "dval x = of_int (coeff x) / of_int (10 ^ nat (- dexp x))"
    by (simp add: dval_def power_int_def power_one_over)
  then show ?thesis using False unfolding dceiling_def by (simp only: ceiling_divide_eq_div) simp
qed

lemma var_rank_ceiling: "var_rank c n = \<lceil>rnd (dval c * of_nat n)\<rceil>"
  by (simp add: var_rank_def dceiling_ceiling dval_dmul dint_val)

lemma representable_nat: "int n < 10 ^ 28 \<Longrightarrow> representable (of_nat n)"
  unfolding representable_def by (intro exI [of _ "int n"] exI [of _ 0]) simp

lemma var_rank_range:
  assumes "0 < dval c" "dval c < 1" "0 < n" "int n < 10 ^ 28"
  shows "1 \<le> var_rank c n" "var_rank c n \<le> int n"
proof -
  have p: "0 < dval c * of_nat n" "dval c * of_nat n \<le> of_nat n" using assms by simp_all
  show "1 \<le> var_rank c n" unfolding var_rank_ceiling using rnd_pos [OF p(1)] by linarith
  have "rnd (dval c * of_nat n) \<le> of_int (int n)"
    using rnd_le_representable [OF p(2) representable_nat [OF assms(4)]] by simp
  then show "var_rank c n \<le> int n" unfolding var_rank_ceiling ceiling_le_iff .
qed

lemma var_rank_exact:
  assumes "representable (dval c * of_nat n)"
  shows "dval c * of_nat n \<le> of_int (var_rank c n)" "of_int (var_rank c n) < dval c * of_nat n + 1"
  unfolding var_rank_ceiling rnd_representable [OF assms] by linarith+

lemma length_filter_mono: "(\<And>x. P x \<Longrightarrow> Q x) \<Longrightarrow> length (filter P xs) \<le> length (filter Q xs)"
  by (induction xs) auto

lemma sorted_rank:
  fixes xs :: "'a :: linorder list"
  assumes "sorted xs" and "k < length xs"
  shows "Suc k \<le> length (filter (\<lambda>x. x \<le> xs ! k) xs)"
    and "v < xs ! k \<Longrightarrow> length (filter (\<lambda>x. x \<le> v) xs) \<le> k"
proof -
  have split: "length (filter P xs) = length (filter P (take m xs)) + length (filter P (drop m xs))" for P m
    by (metis append_take_drop_id filter_append length_append)
  have "filter (\<lambda>x. x \<le> xs ! k) (take (Suc k) xs) = take (Suc k) xs"
    unfolding filter_id_conv using sorted_nth_mono [OF assms(1) _ assms(2)]
    by (auto simp: in_set_conv_nth less_Suc_eq_le)
  then show "Suc k \<le> length (filter (\<lambda>x. x \<le> xs ! k) xs)"
    using split [of "\<lambda>x. x \<le> xs ! k" "Suc k"] assms(2) by simp
  show "length (filter (\<lambda>x. x \<le> v) xs) \<le> k" if "v < xs ! k"
  proof -
    have "xs ! k \<le> x" if "x \<in> set (drop k xs)" for x
      using that assms by (auto simp: in_set_conv_nth intro: sorted_nth_mono)
    then have "filter (\<lambda>x. x \<le> v) (drop k xs) = []" using that by (force simp: filter_empty_conv)
    moreover have "length (filter (\<lambda>x. x \<le> v) (take k xs)) \<le> k" by (rule le_trans [OF length_filter_le]) simp
    ultimately show ?thesis using split [of "\<lambda>x. x \<le> v" k] by simp
  qed
qed

section \<open>Value at risk\<close>

lemma losses_length [simp]: "length (sorted_losses rs) = length rs"
  by (simp add: sorted_losses_def)

lemma losses_sorted: "sorted (map dval (sorted_losses rs))"
  by (simp add: sorted_losses_def)

lemma losses_count:
  assumes "\<And>x. x \<in> set rs \<Longrightarrow> representable (dval x)"
  shows "length (filter P (map dval (sorted_losses rs))) = length (filter (\<lambda>x. P (- dval x)) rs)"
proof -
  have "mset (map dval (sorted_losses rs)) = mset (map dval (map dneg rs))"
    by (simp only: sorted_losses_def mset_map mset_sort)
  also have "map dval (map dneg rs) = map (\<lambda>x. - dval x) rs" using assms by (simp add: dval_dneg rnd_representable)
  finally have "mset (filter P (map dval (sorted_losses rs))) = mset (filter P (map (\<lambda>x. - dval x) rs))"
    by (simp only: mset_filter)
  from mset_eq_length [OF this] show ?thesis by (simp only: filter_map length_map o_def)
qed

lemma value_at_risk_nth:
  assumes "0 < dval c" "dval c < 1" "rs \<noteq> []" "int (length rs) < 10 ^ 28"
  obtains k where "k < length rs" "int k + 1 = var_rank c (length rs)"
    "value_at_risk (sorted_losses rs) c = dmax dzero (sorted_losses rs ! k)"
proof (rule that)
  let ?k = "nat (var_rank c (length rs) - 1)"
  note r = var_rank_range [OF assms(1,2) _ assms(4)]
  show k: "?k < length rs" "int ?k + 1 = var_rank c (length rs)" using r assms(3) by (simp_all add: nat_less_iff)
  show "value_at_risk (sorted_losses rs) c = dmax dzero (sorted_losses rs ! ?k)"
    using r(1) assms(3) by (simp add: value_at_risk_def max_def)
qed

lemma risk_inputs:
  assumes "risk_calculate rs bs pv e c periods = Inr r"
  shows "0 < dval c" "dval c < 1" "rs \<noteq> []" "rk_value_at_risk_return r = value_at_risk (sorted_losses rs) c"
    "shortfall (sorted_losses rs) (rk_value_at_risk_return r) = Inr (rk_expected_shortfall_return r)"
  using assms by (auto simp: risk_calculate_def result_simps Let_def dlt_iff split: prod.splits)

text \<open>C29: Value at risk is the confidence quantile of the losses: at least the confidence share of
  the periods lost no more than it, and for every smaller non-negative loss level fewer did. The
  returns, and the confidence level times their number, must need no more than 28 digits, so that
  the rank is not rounded.\<close>

theorem value_at_risk_quantile:
  assumes run: "risk_calculate rs bs pv e c periods = Inr r"
    and rep: "\<And>x. x \<in> set rs \<Longrightarrow> representable (dval x)" "representable (dval c * of_nat (length rs))"
    and size: "int (length rs) < 10 ^ 28"
  shows "0 \<le> dval (rk_value_at_risk_return r)
    \<and> dval c * of_nat (length rs) \<le> of_nat (length (filter (\<lambda>x. - dval x \<le> dval (rk_value_at_risk_return r)) rs))
    \<and> (\<forall>v. 0 \<le> v \<and> v < dval (rk_value_at_risk_return r) \<longrightarrow>
         of_nat (length (filter (\<lambda>x. - dval x \<le> v) rs)) < dval c * of_nat (length rs))"
proof -
  let ?v = "dval (rk_value_at_risk_return r)" and ?ls = "map dval (sorted_losses rs)"
  note c = risk_inputs [OF run]
  obtain k where k: "k < length rs" "int k + 1 = var_rank c (length rs)" "?v = max 0 (?ls ! k)"
    using value_at_risk_nth [OF c(1-3) size] c(4) by (metis dval_dmax dval_zero losses_length nth_map)
  note rank = var_rank_exact [OF rep(2), unfolded k(2) [symmetric]]
  have "Suc k \<le> length (filter (\<lambda>x. x \<le> ?ls ! k) ?ls)"
    using sorted_rank(1) [OF losses_sorted, of k rs] k(1) by simp
  also have "\<dots> \<le> length (filter (\<lambda>x. x \<le> ?v) ?ls)" unfolding k(3)
    by (rule length_filter_mono) auto
  finally have "Suc k \<le> length (filter (\<lambda>x. - dval x \<le> ?v) rs)" by (simp only: losses_count [OF rep(1)])
  then have "of_nat (Suc k) \<le> (of_nat (length (filter (\<lambda>x. - dval x \<le> ?v) rs)) :: rat)" by (simp only: of_nat_le_iff)
  with rank(1) have a: "dval c * of_nat (length rs) \<le> of_nat (length (filter (\<lambda>x. - dval x \<le> ?v) rs))" by simp
  have b: "of_nat (length (filter (\<lambda>x. - dval x \<le> w) rs)) < dval c * of_nat (length rs)" if "0 \<le> w" "w < ?v" for w
  proof -
    from that k(3) have "w < ?ls ! k" by auto
    then have "length (filter (\<lambda>x. - dval x \<le> w) rs) \<le> k"
      using sorted_rank(2) [OF losses_sorted, of k rs w] k(1) losses_count [OF rep(1), of rs "\<lambda>x. x \<le> w"] by simp
    then have "of_nat (length (filter (\<lambda>x. - dval x \<le> w) rs)) \<le> (of_nat k :: rat)" by simp
    also have "of_nat k < dval c * of_nat (length rs)" using rank(2) by simp
    finally show ?thesis .
  qed
  have "0 \<le> ?v" by (simp add: k(3))
  with a b show ?thesis by blast
qed

section \<open>Expected shortfall\<close>

theorem shortfall_tail_mean:
  assumes run: "risk_calculate rs bs pv e c periods = Inr r"
    and grid: "\<And>x. x \<in> set rs \<Longrightarrow> on_grid 20 (dval x)" "(\<Sum>x \<leftarrow> rs. \<bar>dval x\<bar>) < 10 ^ 8"
    and size: "int (length rs) < 10 ^ 28"
  defines "tail \<equiv> filter (\<lambda>x. dval (rk_value_at_risk_return r) \<le> - dval x) rs"
  shows "tail \<noteq> [] \<and> dval (rk_expected_shortfall_return r) = rnd ((\<Sum>x \<leftarrow> tail. - dval x) / of_nat (length tail))
    \<and> dval (rk_value_at_risk_return r) \<le> dval (rk_expected_shortfall_return r)"
proof -
  let ?v = "dval (rk_value_at_risk_return r)"
  let ?tl = "filter (\<lambda>x. dle (rk_value_at_risk_return r) x) (sorted_losses rs)"
  have abs_le: "\<bar>dval x\<bar> < 10 ^ 8" if "x \<in> set rs" for x
  proof -
    have "\<bar>dval x\<bar> \<le> (\<Sum>x \<leftarrow> rs. \<bar>dval x\<bar>)" using that by (intro member_le_sum_list) auto
    with grid(2) show ?thesis by linarith
  qed
  have neg: "dval (dneg x) = - dval x" if "x \<in> set rs" for x
    using grid(1) [OF that] abs_le [OF that] by (simp add: dval_dneg rnd_cash_grid)
  note c = risk_inputs [OF run]
  obtain m where m: "ddivR (dsum ?tl) (dint (int (length ?tl))) = Inr m" "rk_expected_shortfall_return r = dmax dzero m"
    using c(5) by (auto simp: shortfall_def Let_def result_simps)
  have v: "0 \<le> ?v" by (simp add: c(4) value_at_risk_def dval_dmax)
  have "mset ?tl = mset (filter (\<lambda>x. dle (rk_value_at_risk_return r) x) (map dneg rs))"
    by (simp add: sorted_losses_def)
  also have "filter (\<lambda>x. dle (rk_value_at_risk_return r) x) (map dneg rs) = map dneg tail"
    unfolding filter_map tail_def using neg by (intro arg_cong [where f = "map dneg"] filter_cong) (simp_all add: dle_iff)
  finally have tl: "mset ?tl = mset (map dneg tail)" .
  have sub: "x \<in> set rs" if "x \<in> set tail" for x using that by (simp add: tail_def)
  have len: "length ?tl = length tail" using mset_eq_length [OF tl] by simp
  have sums: "(\<Sum>x \<leftarrow> ?tl. f (dval x)) = (\<Sum>x \<leftarrow> tail. f (- dval x))" for f :: "rat \<Rightarrow> rat"
  proof -
    have "sum_mset (image_mset (\<lambda>x. f (dval x)) (mset ?tl)) = sum_mset (image_mset (\<lambda>x. f (dval x)) (mset (map dneg tail)))"
      by (simp only: tl)
    then have "(\<Sum>x \<leftarrow> ?tl. f (dval x)) = (\<Sum>x \<leftarrow> map dneg tail. f (dval x))" by (simp only: mset_map [symmetric] sum_mset_sum_list)
    also have "\<dots> = (\<Sum>x \<leftarrow> tail. f (- dval x))" using neg sub by (simp add: o_def cong: map_cong)
    finally show ?thesis .
  qed
  have ne: "tail \<noteq> []" using m(1) len by (auto simp: ddivR_def deq_iff dint_val split: if_splits)
  have "(\<Sum>x \<leftarrow> tail. \<bar>dval x\<bar>) \<le> (\<Sum>x \<leftarrow> rs. \<bar>dval x\<bar>)"
    unfolding tail_def by (induction rs) auto
  then have "(\<Sum>x \<leftarrow> ?tl. \<bar>dval x\<bar>) < 10 ^ 8" using grid(2) sums [of abs] by simp
  moreover have "\<forall>x \<in> set ?tl. on_grid 20 (dval x)"
    using mset_eq_setD [OF tl] grid(1) neg sub by auto
  ultimately have "dval (dsum ?tl) = (\<Sum>x \<leftarrow> tail. - dval x)"
    using foldl_dadd_exact [of ?tl dzero] sums [of id] by (simp add: dsum_def)
  then have mean: "dval m = rnd ((\<Sum>x \<leftarrow> tail. - dval x) / of_nat (length tail))"
    using m(1) ne by (auto simp: ddivR_def deq_iff dint_val dval_ddiv len split: if_splits)
  have "of_nat (length tail) * ?v \<le> (\<Sum>x \<leftarrow> tail. - dval x)"
    unfolding tail_def by (induction rs) (auto simp: algebra_simps)
  then have "?v \<le> (\<Sum>x \<leftarrow> tail. - dval x) / of_nat (length tail)" using ne by (simp add: pos_le_divide_eq mult.commute)
  moreover have "representable ?v"
  proof -
    obtain k where k: "k < length rs" "rk_value_at_risk_return r = dmax dzero (sorted_losses rs ! k)"
      using value_at_risk_nth [OF c(1-3) size] c(4) by metis
    have "sorted_losses rs ! k \<in> set (sorted_losses rs)" using k(1) by simp
    then have "representable (dval (sorted_losses rs ! k))" by (auto simp: sorted_losses_def dval_dneg)
    then show ?thesis by (simp add: k(2) dval_dmax max_def)
  qed
  ultimately have le: "?v \<le> dval m" unfolding mean by (rule representable_le_rnd)
  then have "dval (rk_expected_shortfall_return r) = dval m" using v by (simp add: m(2) dval_dmax max_absorb2)
  with le ne mean show ?thesis by simp
qed

section \<open>When the engine answers\<close>

lemma tail_empty:
  assumes "0 < dval c" "dval c < 1" "rs \<noteq> []" "int (length rs) < 10 ^ 28"
  shows "filter (\<lambda>x. dle (value_at_risk (sorted_losses rs) c) x) (sorted_losses rs) = [] \<longleftrightarrow> (\<forall>x \<in> set rs. 0 < dval x)"
proof -
  let ?ls = "sorted_losses rs"
  obtain k where k: "k < length rs" "value_at_risk ?ls c = dmax dzero (?ls ! k)"
    using value_at_risk_nth [OF assms] by metis
  have "?ls ! k \<in> set ?ls" using k(1) by simp
  then have "(\<exists>x \<in> set ?ls. dval (value_at_risk ?ls c) \<le> dval x) \<longleftrightarrow> (\<exists>x \<in> set ?ls. 0 \<le> dval x)"
    unfolding k(2) by (auto simp: dval_dmax max_def intro: order_trans)
  also have "\<dots> \<longleftrightarrow> (\<exists>x \<in> set rs. dval x \<le> 0)" by (auto simp: sorted_losses_def dval_dneg)
  finally show ?thesis by (auto simp: filter_empty_conv dle_iff not_le)
qed

lemma risk_answers:
  assumes "rs \<noteq> []" "0 < dval pv" "0 < dval c" "dval c < 1" "bs = [] \<or> length bs = length rs" "0 < periods"
    and size: "int (length rs) < 10 ^ 28"
  shows "if \<exists>x \<in> set rs. dval x \<le> 0 then \<exists>r. risk_calculate rs bs pv e c periods = Inr r
    else risk_calculate rs bs pv e c periods = Inl InvalidOperation"
proof -
  let ?v = "value_at_risk (sorted_losses rs) c"
  let ?tl = "filter (\<lambda>x. dle ?v x) (sorted_losses rs)"
  have guards: "requireR (rs \<noteq> []) E = Inr ()" "requireR (dlt dzero pv) E = Inr ()"
    "requireR (dlt dzero c \<and> dlt c dunit) E = Inr ()" "requireR (\<not> (bs \<noteq> [] \<and> length bs \<noteq> length rs)) E = Inr ()" for E :: app_error
    using assms by (auto simp: dlt_iff)
  obtain vol where vol: "annualized_stddev rs periods = Inr vol" using annualized_stddev_total [OF assms(6)] by blast
  obtain tracking b where bm: "benchmark_measures rs bs periods = Inr (tracking, b)"
    using annualized_stddev_total [OF assms(6), of "map2 dsub rs bs"] beta_total [of rs bs]
    by (cases "bs = []") (auto simp: benchmark_measures_def)
  note run = risk_calculate_def guards bindR_simps Let_def
  show ?thesis
  proof (cases "?tl = []")
    case True
    then have "shortfall (sorted_losses rs) ?v = Inl InvalidOperation"
      by (simp add: shortfall_def ddivR_def dsum_def deq_iff dint_val)
    then have "risk_calculate rs bs pv e c periods = Inl InvalidOperation" by (simp only: run)
    with True show ?thesis using tail_empty [OF assms(3,4,1) size] by (auto simp: not_le [symmetric])
  next
    case False
    then have "deq (dint (int (length ?tl))) dzero = False" by (simp add: deq_iff dint_val)
    then obtain es where "shortfall (sorted_losses rs) ?v = Inr es" by (auto simp: shortfall_def ddivR_def Let_def)
    then have "\<exists>r. risk_calculate rs bs pv e c periods = Inr r" by (simp only: run bm vol prod.case) blast
    with False show ?thesis using tail_empty [OF assms(3,4,1) size] by (auto simp: not_le [symmetric])
  qed
qed

text \<open>C32: On valid input (at least one and fewer than 10^28 returns, a positive portfolio value and
  period count, a confidence strictly between 0 and 1, a benchmark that is empty or of the same
  length) the risk engine answers exactly when some return is not a gain; when every return is
  positive it fails with InvalidOperation, dividing the empty tail by zero.\<close>

theorem risk_available:
  assumes "rs \<noteq> []" "0 < dval pv" "0 < dval c" "dval c < 1" "bs = [] \<or> length bs = length rs" "0 < periods"
    and size: "int (length rs) < 10 ^ 28"
  shows "if \<exists>x \<in> set rs. dval x \<le> 0 then \<exists>r. risk_calculate rs bs pv e c periods = Inr r
    else risk_calculate rs bs pv e c periods = Inl InvalidOperation"
  using assms by (rule risk_answers)

end
