(* ===== verification/Exposure_Properties.thy ===== *)
theory Exposure_Properties
  imports Exposures Portfolio_Exact Valuation_Properties
begin

text \<open>
  Category exposures are an exact partition of the portfolio value within the database scales;
  position weights are ordered proper fractions; the label of a position is the classification in
  force at the cutoff of the valuation.
\<close>

section \<open>Category totals\<close>

definition key_sum :: "'k \<Rightarrow> ('k \<times> rat) list \<Rightarrow> rat" where
  "key_sum k kvs = (\<Sum>(k', x) \<leftarrow> kvs. if k' = k then x else 0)"

lemma key_sum_append [simp]: "key_sum k (xs @ ys) = key_sum k xs + key_sum k ys"
  by (simp add: key_sum_def)

lemma key_sum_single [simp]: "key_sum k [] = 0" "key_sum k [(k', x)] = (if k' = k then x else 0)"
  by (simp_all add: key_sum_def)

lemma key_sum_absent: "k \<notin> fst ` set kvs \<Longrightarrow> key_sum k kvs = 0"
  by (induction kvs) (auto simp: key_sum_def)

lemma key_sum_range:
  assumes "\<forall>(k, x) \<in> set kvs. 0 \<le> x"
  shows "0 \<le> key_sum k kvs" "key_sum k kvs \<le> sum_list (map snd kvs)"
  using assms by (induction kvs) (auto simp: key_sum_def)

lemma sum_key_sum:
  assumes "finite K" and "fst ` set kvs \<subseteq> K"
  shows "(\<Sum>k \<in> K. key_sum k kvs) = sum_list (map snd kvs)"
  using assms(2)
proof (induction kvs)
  case (Cons a kvs)
  have "(\<Sum>k \<in> K. key_sum k (a # kvs)) = (\<Sum>k \<in> K. (if k = fst a then snd a else 0) + key_sum k kvs)"
    by (intro sum.cong) (auto simp: key_sum_def split: prod.splits)
  with Cons assms(1) show ?case by (simp add: sum.distrib)
qed (simp add: key_sum_def)

abbreviation exact_values :: "('k \<times> dec) list \<Rightarrow> ('k \<times> rat) list" where
  "exact_values kvs \<equiv> map (\<lambda>(k, v). (k, dval v)) kvs"

definition totals :: "(string \<times> dec) list \<Rightarrow> (string, dec) dict" where
  "totals kvs = foldl (\<lambda>d (k, v). dict_add k v d) [] kvs"

lemma totals_exact:
  assumes "\<forall>(k, v) \<in> set kvs. on_grid 20 (dval v) \<and> 0 \<le> dval v" and "sum_list (map (dval \<circ> snd) kvs) < 10 ^ 8"
  shows "dict_ok (totals kvs) \<and> fst ` set (totals kvs) = fst ` set kvs
    \<and> (\<forall>k v. dict_get (totals kvs) k = Some v \<longrightarrow> dval v = key_sum k (exact_values kvs))"
  using assms
proof (induction kvs rule: rev_induct)
  case (snoc a kvs)
  obtain k v where a: "a = (k, v)" by (cases a)
  let ?d = "totals kvs"
  let ?old = "case dict_get ?d k of None \<Rightarrow> dzero | Some w \<Rightarrow> w"
  have prems: "\<forall>(k, v) \<in> set kvs. on_grid 20 (dval v) \<and> 0 \<le> dval v" "on_grid 20 (dval v)" "0 \<le> dval v"
    "sum_list (map (dval \<circ> snd) kvs) + dval v < 10 ^ 8"
    using snoc.prems a by (auto simp: o_def)
  have "sum_list (map (dval \<circ> snd) kvs) < 10 ^ 8" using prems(3,4) by linarith
  from snoc.IH [OF prems(1) this] have IH: "dict_ok ?d" "fst ` set ?d = fst ` set kvs"
    "\<And>k v. dict_get ?d k = Some v \<Longrightarrow> dval v = key_sum k (exact_values kvs)"
    by blast+
  have step: "totals (kvs @ [a]) = dict_set k (dadd ?old v) ?d" by (simp add: totals_def a dict_add_def)
  have old: "dval ?old = key_sum k (exact_values kvs)"
  proof (cases "dict_get ?d k")
    case None
    then have "k \<notin> fst ` set (exact_values kvs)" using IH(2) by (force simp: map_of_eq_None_iff)
    then show ?thesis using None by (simp add: key_sum_absent)
  qed (use IH(3) in simp)
  have pos: "\<forall>(k, x) \<in> set (exact_values kvs). 0 \<le> x" "on_grid 20 (dval v)" "0 \<le> dval v"
    using prems by auto
  have "on_grid 20 (key_sum k (exact_values kvs))"
    unfolding key_sum_def using prems(1) by (intro on_grid_sum) auto
  moreover have "key_sum k (exact_values kvs) + dval v < 10 ^ 8"
    using key_sum_range(2) [OF pos(1), of k] prems(4) by (simp add: o_def split_def)
  ultimately have "dval (dadd ?old v) = key_sum k (exact_values kvs) + dval v"
    using pos key_sum_range(1) [OF pos(1), of k] by (simp add: dval_dadd old rnd_cash_grid on_grid_add)
  with IH a show ?case unfolding step
    by (auto simp: dict_simps dict_ok_set split: if_splits)
qed (simp add: totals_def)

section \<open>Exposures\<close>

text \<open>\<open>breakdown parts whole es\<close>: the exposures partition the labelled parts exactly, add up to the
  whole, and come largest first.\<close>

definition breakdown :: "(string \<times> rat) list \<Rightarrow> rat \<Rightarrow> category_exposure list \<Rightarrow> bool" where
  "breakdown parts whole es \<longleftrightarrow> distinct (map ce_category es) \<and> ce_category ` set es = fst ` set parts
     \<and> (\<forall>e \<in> set es. dval (ce_market_value e) = key_sum (ce_category e) parts)
     \<and> (\<Sum>e \<leftarrow> es. dval (ce_market_value e)) = whole
     \<and> sorted_wrt (\<lambda>e e'. dval (ce_market_value e') \<le> dval (ce_market_value e)) es"

lemma breakdown_categories:
  assumes "\<forall>(k, v) \<in> set kvs. on_grid 20 (dval v) \<and> 0 \<le> dval v" and "sum_list (map (dval \<circ> snd) kvs) < 10 ^ 8"
  shows "breakdown (exact_values kvs) (sum_list (map (dval \<circ> snd) kvs)) (categories (totals kvs) whole)"
proof -
  let ?es = "categories (totals kvs) whole" and ?key = "\<lambda>(c, v). (- dval v, c)"
  note t = totals_exact [OF assms]
  have es: "map ce_category ?es = map fst (sort_key ?key (totals kvs))"
    by (simp add: categories_def o_def split_def)
  have "mset (map fst (sort_key ?key (totals kvs))) = mset (map fst (totals kvs))" by simp
  from mset_eq_imp_distinct_iff [OF this] have dist: "distinct (map ce_category ?es)" using t es by simp
  have "set (map ce_category ?es) = fst ` set kvs" unfolding es using t by simp
  then have set_es: "ce_category ` set ?es = fst ` set kvs" by simp
  have val: "dval (ce_market_value e) = key_sum (ce_category e) (exact_values kvs)" if "e \<in> set ?es" for e
  proof -
    from that obtain c v where "(c, v) \<in> set (totals kvs)" "ce_category e = c" "ce_market_value e = v"
      by (auto simp: categories_def)
    with t show ?thesis by (metis dict_in_set_iff)
  qed
  have "(\<Sum>e \<leftarrow> ?es. dval (ce_market_value e)) = (\<Sum>e \<leftarrow> ?es. key_sum (ce_category e) (exact_values kvs))"
    using val by (intro arg_cong [where f = sum_list] map_cong) auto
  also have "\<dots> = (\<Sum>k \<in> set (map ce_category ?es). key_sum k (exact_values kvs))"
    using dist by (subst sum.distinct_set_conv_list) (simp_all add: o_def)
  also have "\<dots> = sum_list (map snd (exact_values kvs))"
    using set_es by (intro sum_key_sum) force+
  finally have total: "(\<Sum>e \<leftarrow> ?es. dval (ce_market_value e)) = sum_list (map snd (exact_values kvs))" .
  have "sorted (map ?key (sort_key ?key (totals kvs)))" by simp
  then have "sorted_wrt (\<lambda>p q. dval (snd q) \<le> dval (snd p)) (sort_key ?key (totals kvs))"
    unfolding sorted_wrt_map by (rule sorted_wrt_mono_rel [rotated]) (auto simp: less_eq_prod_def)
  then have "sorted_wrt (\<lambda>e e'. dval (ce_market_value e') \<le> dval (ce_market_value e)) ?es"
    by (simp add: categories_def sorted_wrt_map split_def)
  with dist set_es val total show ?thesis by (auto simp: breakdown_def image_image split_def o_def)
qed

text \<open>Positions by one of their three labels, and the cash.\<close>

definition labelled_parts ::
  "(string \<times> string \<times> string \<Rightarrow> string) \<Rightarrow> (uuid \<Rightarrow> instrument_classification option) \<Rightarrow> dec
     \<Rightarrow> position_exposure_input list \<Rightarrow> (string \<times> dec) list" where
  "labelled_parts label classifications cash rows =
     map (\<lambda>p. (label (labels_of classifications (pe_instrument_id p)), pe_market_value p)) rows
     @ (if deq cash dzero then [] else [(''CASH'', cash)])"

lemma category_totals_parts:
  "cs_sector (category_totals cls cash rows) = totals (labelled_parts fst cls cash rows)"
  "cs_asset (category_totals cls cash rows) = totals (labelled_parts (fst \<circ> snd) cls cash rows)"
  "cs_geography (category_totals cls cash rows) = totals (labelled_parts (snd \<circ> snd) cls cash rows)"
proof -
  have "cs_sector (foldl (category_step cls) s rows) = foldl (\<lambda>d (k, v). dict_add k v d) (cs_sector s)
        (map (\<lambda>p. (fst (labels_of cls (pe_instrument_id p)), pe_market_value p)) rows)
      \<and> cs_asset (foldl (category_step cls) s rows) = foldl (\<lambda>d (k, v). dict_add k v d) (cs_asset s)
        (map (\<lambda>p. ((fst \<circ> snd) (labels_of cls (pe_instrument_id p)), pe_market_value p)) rows)
      \<and> cs_geography (foldl (category_step cls) s rows) = foldl (\<lambda>d (k, v). dict_add k v d) (cs_geography s)
        (map (\<lambda>p. ((snd \<circ> snd) (labels_of cls (pe_instrument_id p)), pe_market_value p)) rows)" for s
    by (induction rows arbitrary: s) (simp_all add: category_step_def add_labels_def split_def)
  then show "cs_sector (category_totals cls cash rows) = totals (labelled_parts fst cls cash rows)"
    "cs_asset (category_totals cls cash rows) = totals (labelled_parts (fst \<circ> snd) cls cash rows)"
    "cs_geography (category_totals cls cash rows) = totals (labelled_parts (snd \<circ> snd) cls cash rows)"
    by (simp_all add: category_totals_def Let_def add_labels_def totals_def labelled_parts_def)
qed

text \<open>C28: When cash and market values are multiples of 10^-20 that add up to less than 10^8, the
  sector, asset class and geography exposures of a successful calculation each partition the
  portfolio exactly: one row per label that occurs, its value the exact sum of the positions with
  that label, cash under CASH, rows largest first, the total the portfolio value, which is exactly
  cash plus positions.\<close>

theorem exposure_breakdown:
  assumes run: "exposure_calculate rows cash cls n = Inr r"
    and grid: "on_grid 20 (dval cash)" "\<And>p. p \<in> set rows \<Longrightarrow> on_grid 20 (dval (pe_market_value p))"
    and bound: "dval cash + (\<Sum>p \<leftarrow> rows. dval (pe_market_value p)) < 10 ^ 8"
  shows "dval (er_portfolio_value r) = dval cash + (\<Sum>p \<leftarrow> rows. dval (pe_market_value p))
    \<and> breakdown (exact_values (labelled_parts fst cls cash rows)) (dval (er_portfolio_value r)) (er_sector_exposure r)
    \<and> breakdown (exact_values (labelled_parts (fst \<circ> snd) cls cash rows)) (dval (er_portfolio_value r)) (er_asset_allocation r)
    \<and> breakdown (exact_values (labelled_parts (snd \<circ> snd) cls cash rows)) (dval (er_portfolio_value r)) (er_geographic_exposure r)"
proof -
  let ?sum = "\<Sum>p \<leftarrow> rows. dval (pe_market_value p)"
  from run have nonneg: "0 \<le> dval cash" "\<And>p. p \<in> set rows \<Longrightarrow> 0 \<le> dval (pe_market_value p)"
    and whole: "er_portfolio_value r = dadd cash (dsum (map pe_market_value rows))"
    and out: "er_sector_exposure r = categories (cs_sector (category_totals cls cash rows)) (er_portfolio_value r)"
      "er_asset_allocation r = categories (cs_asset (category_totals cls cash rows)) (er_portfolio_value r)"
      "er_geographic_exposure r = categories (cs_geography (category_totals cls cash rows)) (er_portfolio_value r)"
    by (auto simp: exposure_calculate_def result_simps Let_def dec_simps not_less)
  have pos: "0 \<le> ?sum" using nonneg(2) by (intro sum_list_nonneg) auto
  have abs_sum: "(\<Sum>p \<leftarrow> rows. \<bar>dval (pe_market_value p)\<bar>) = ?sum"
    using nonneg(2) by (intro arg_cong [where f = sum_list] map_cong) auto
  have "dval (dsum (map pe_market_value rows)) = ?sum"
    using foldl_dadd_exact [of "map pe_market_value rows" dzero] grid(2) bound nonneg(1)
    by (simp add: dsum_def o_def abs_sum)
  moreover have "on_grid 20 ?sum" using grid(2) by (intro on_grid_sum) auto
  ultimately have total: "dval (er_portfolio_value r) = dval cash + ?sum"
    using grid(1) bound nonneg(1) pos by (simp add: whole dval_dadd rnd_cash_grid on_grid_add)
  have parts: "\<forall>(k, v) \<in> set (labelled_parts f cls cash rows). on_grid 20 (dval v) \<and> 0 \<le> dval v"
    "sum_list (map (dval \<circ> snd) (labelled_parts f cls cash rows)) = dval cash + ?sum" for f
    using nonneg grid by (auto simp: labelled_parts_def o_def deq_iff)
  have "breakdown (exact_values (labelled_parts f cls cash rows)) (dval cash + ?sum)
      (categories (totals (labelled_parts f cls cash rows)) whole)" for f whole
    using breakdown_categories [OF parts(1), of f whole] bound by (simp only: parts(2))
  then show ?thesis unfolding out category_totals_parts by (simp add: total)
qed

section \<open>Position weights\<close>

theorem exposure_weights:
  assumes run: "exposure_calculate rows cash cls n = Inr r"
    and rep: "\<And>p. p \<in> set rows \<Longrightarrow> representable (dval (pe_market_value p))"
  shows "mset (map (\<lambda>w. (pw_instrument_id w, pw_market_value w)) (er_position_weights r)) =
      mset (map (\<lambda>p. (pe_instrument_id p, pe_market_value p)) rows)
    \<and> (\<forall>w \<in> set (er_position_weights r). 0 \<le> dval (pw_weight w) \<and> dval (pw_weight w) \<le> 1
         \<and> dval (pw_weight w) \<le> dval (er_largest_position_weight r))
    \<and> sorted_wrt (\<lambda>w w'. dval (pw_weight w') \<le> dval (pw_weight w)) (er_position_weights r)
    \<and> er_top_holdings r = take (nat n) (er_position_weights r)"
proof -
  let ?key = "\<lambda>w. (- dval (pw_weight w), pw_instrument_id w)"
  from run have nonneg: "0 \<le> dval cash" "\<And>p. p \<in> set rows \<Longrightarrow> 0 \<le> dval (pe_market_value p)"
    and whole: "er_portfolio_value r = dadd cash (dsum (map pe_market_value rows))" "0 < dval (er_portfolio_value r)"
    and out: "er_position_weights r = weight_rows (er_portfolio_value r) rows" "er_top_holdings r = take (nat n) (er_position_weights r)"
      "er_largest_position_weight r = (case er_position_weights r of [] \<Rightarrow> dzero | w # _ \<Rightarrow> pw_weight w)"
    by (auto simp: exposure_calculate_def result_simps Let_def dec_simps not_less)
  have sum: "dval (pe_market_value p) \<le> dval (er_portfolio_value r)" if "p \<in> set rows" for p
  proof -
    have "dval (pe_market_value p) \<le> dval (dsum (map pe_market_value rows))" "representable (dval (dsum (map pe_market_value rows)))"
      using foldl_dadd_ge [of dzero "map pe_market_value rows"] nonneg(2) rep that by (simp_all add: dsum_def)
    moreover from this(2) have "dval (dsum (map pe_market_value rows)) \<le> dval (er_portfolio_value r)"
      unfolding whole(1) dval_dadd using nonneg(1) by (intro representable_le_rnd) simp_all
    ultimately show ?thesis by linarith
  qed
  have sorted: "sorted_wrt (\<lambda>w w'. dval (pw_weight w') \<le> dval (pw_weight w)) (er_position_weights r)"
  proof -
    have "sorted (map ?key (er_position_weights r))" by (simp add: out(1) weight_rows_def)
    then show ?thesis unfolding sorted_wrt_map by (rule sorted_wrt_mono_rel [rotated]) (auto simp: less_eq_prod_def)
  qed
  have "0 \<le> dval (pw_weight w) \<and> dval (pw_weight w) \<le> 1" if "w \<in> set (er_position_weights r)" for w
  proof -
    from that obtain p where p: "p \<in> set rows" "pw_weight w = ddiv (pe_market_value p) (er_portfolio_value r)"
      by (auto simp: out(1) weight_rows_def)
    have "dval (pe_market_value p) / dval (er_portfolio_value r) \<le> 1" using sum [OF p(1)] whole(2) by simp
    with nonneg(2) [OF p(1)] whole(2) p(2) show ?thesis
      by (auto simp: dval_ddiv intro: rnd_le_representable)
  qed
  moreover have "dval (pw_weight w) \<le> dval (er_largest_position_weight r)" if "w \<in> set (er_position_weights r)" for w
    using that sorted out(3) by (cases "er_position_weights r") auto
  moreover have "mset (map (\<lambda>w. (pw_instrument_id w, pw_market_value w)) (er_position_weights r)) =
      mset (map (\<lambda>p. (pe_instrument_id p, pe_market_value p)) rows)"
    by (simp add: out(1) weight_rows_def image_mset.compositionality o_def)
  ultimately show ?thesis using sorted out(2) by blast
qed

section \<open>Classification in force\<close>

definition in_force :: "uuid \<Rightarrow> datetime \<Rightarrow> instrument_classification_row \<Rightarrow> bool" where
  "in_force i as_of r \<longleftrightarrow> cl_instrument_id r = i \<and> instant (cl_effective_from r) \<le> instant as_of
     \<and> (case cl_effective_to r of None \<Rightarrow> True | Some t \<Rightarrow> instant as_of < instant t)"

text \<open>A dictionary filled with \<open>setdefault\<close> keeps the first value of every key.\<close>

lemma first_setdefault:
  "dict_get (foldl (\<lambda>d r. dict_setdefault (key r) (val r) d) d rows) k =
     (case dict_get d k of Some v \<Rightarrow> Some v | None \<Rightarrow> map_option val (find (\<lambda>r. key r = k) rows))"
  by (induction rows arbitrary: d) (auto simp: dict_get_setdefault split: option.splits)

theorem classification_in_force:
  assumes "i \<in> instruments"
  shows "case dict_get (classifications_at db instruments as_of) i of
      None \<Rightarrow> \<nexists>r. r \<in> set (db_instrument_classifications db) \<and> in_force i as_of r
    | Some c \<Rightarrow> \<exists>r \<in> set (db_instrument_classifications db). in_force i as_of r \<and> c = classification_of r
        \<and> (\<forall>r' \<in> set (db_instrument_classifications db). in_force i as_of r' \<longrightarrow>
             instant (cl_effective_from r') \<le> instant (cl_effective_from r))"
proof -
  let ?rows = "effective_classifications db instruments as_of" and ?key = "\<lambda>r. (cl_instrument_id r, - instant (cl_effective_from r))"
  have mem: "r \<in> set ?rows \<and> cl_instrument_id r = i \<longleftrightarrow> r \<in> set (db_instrument_classifications db) \<and> in_force i as_of r" for r
    using assms by (auto simp: effective_classifications_def in_force_def)
  have get: "dict_get (classifications_at db instruments as_of) i = map_option classification_of (find (\<lambda>r. cl_instrument_id r = i) ?rows)"
    by (simp add: classifications_at_def first_setdefault)
  show ?thesis
  proof (cases "find (\<lambda>r. cl_instrument_id r = i) ?rows")
    case None
    then show ?thesis using mem by (simp add: get) (auto simp: find_None_iff)
  next
    case (Some r)
    have srt: "sorted (map ?key ?rows)" by (simp add: effective_classifications_def)
    from Some obtain n where n: "n < length ?rows" "r = ?rows ! n" "cl_instrument_id r = i"
      "\<And>m. m < n \<Longrightarrow> cl_instrument_id (?rows ! m) \<noteq> i" by (auto simp: find_Some_iff)
    have "instant (cl_effective_from r') \<le> instant (cl_effective_from r)" if r': "r' \<in> set ?rows" "cl_instrument_id r' = i" for r'
    proof -
      from r' obtain m where m: "m < length ?rows" "?rows ! m = r'" by (auto simp: in_set_conv_nth)
      have "n \<le> m"
      proof (rule ccontr)
        assume "\<not> n \<le> m"
        with n(4) [of m] m(2) r'(2) show False by simp
      qed
      with srt n m have "?key r \<le> ?key r'" using sorted_nth_mono [OF srt, of n m] by simp
      with n(3) r'(2) show ?thesis by (simp add: less_eq_prod_def)
    qed
    moreover have "r \<in> set ?rows" using n by simp
    ultimately show ?thesis using mem n(3) by (auto simp: get Some)
  qed
qed

end
