(* ===== verification/Risk_Witnesses.thy ===== *)
theory Risk_Witnesses
  imports Risk_Properties Exposure_Properties
begin

text \<open>Small concrete inputs of the exposure, risk and analytics engines, evaluated.\<close>

section \<open>Exposures\<close>

definition example_rows :: "position_exposure_input list" where
  "example_rows = [\<lparr>pe_instrument_id = 8, pe_market_value = Dec 60 0\<rparr>, \<lparr>pe_instrument_id = 7, pe_market_value = Dec 30 0\<rparr>]"

definition example_classification :: "uuid \<Rightarrow> instrument_classification option" where
  "example_classification i = (if i = 8 then Some \<lparr>ic_instrument_id = 8, ic_sector = ''Tech'', ic_asset_class = ''Equity'',
     ic_geography = ''US'', ic_effective_from = None, ic_effective_to = None\<rparr> else None)"

lemma example_exposure: "\<exists>r. exposure_calculate example_rows (Dec 10 0) example_classification 1 = Inr r"
proof -
  have "dsum (map pe_market_value example_rows) = Dec 90 0" "dadd (Dec 10 0) (Dec 90 0) = Dec 100 0"
    by (simp_all add: example_rows_def dec_eval)
  then show ?thesis by (simp add: exposure_calculate_def Let_def) (simp add: example_rows_def dlt_iff dval_def)
qed

theorem exposure_breakdown_witness:
  "\<exists>r. exposure_calculate example_rows (Dec 10 0) example_classification 1 = Inr r \<and> dval (er_portfolio_value r) = 100
     \<and> breakdown [(''Tech'', 60), (''UNCLASSIFIED'', 30), (''CASH'', 10)] 100 (er_sector_exposure r)"
proof -
  obtain r where r: "exposure_calculate example_rows (Dec 10 0) example_classification 1 = Inr r"
    using example_exposure by blast
  have "\<And>p. p \<in> set example_rows \<Longrightarrow> on_grid 20 (dval (pe_market_value p))" "on_grid 20 (dval (Dec 10 0))"
    "dval (Dec 10 0) + (\<Sum>p \<leftarrow> example_rows. dval (pe_market_value p)) < 10 ^ 8"
    by (auto simp: example_rows_def on_grid_def dval_def)
  from exposure_breakdown [OF r this(2,1,3)] r show ?thesis
    by (auto simp: example_rows_def labelled_parts_def labels_of_def example_classification_def dval_def deq_iff)
qed

theorem exposure_weights_witness:
  "\<exists>r. exposure_calculate example_rows (Dec 10 0) example_classification 1 = Inr r
     \<and> (\<forall>w \<in> set (er_position_weights r). dval (pw_weight w) \<le> 1)"
proof -
  obtain r where r: "exposure_calculate example_rows (Dec 10 0) example_classification 1 = Inr r"
    using example_exposure by blast
  have "representable 60" "representable 30"
    using representable_nat [of 60] representable_nat [of 30] by simp_all
  then have "\<And>p. p \<in> set example_rows \<Longrightarrow> representable (dval (pe_market_value p))"
    by (auto simp: example_rows_def dval_def)
  from exposure_weights [OF r this] r show ?thesis by auto
qed

section \<open>Risk\<close>

definition example_returns :: "dec list" where
  "example_returns = [Dec 1 (- 2), Dec (- 3) (- 2)]"

lemma example_return_values: "map dval example_returns = [1 / 100, - 3 / 100]"
  by (simp add: example_returns_def dval_def power_int_minus)

lemma example_return_grid:
  "x \<in> set example_returns \<Longrightarrow> on_grid 20 (dval x)" "x \<in> set example_returns \<Longrightarrow> representable (dval x)"
proof -
  show "on_grid 20 (dval x)" if "x \<in> set example_returns"
    using that by (auto simp: example_returns_def on_grid_def dval_def power_int_minus)
  have "representable (dval (Dec k e))" if "\<bar>k\<bar> < 10 ^ 28" for k e
    using that by (auto simp: representable_def dval_def)
  then show "representable (dval x)" if "x \<in> set example_returns" using that by (auto simp: example_returns_def)
qed

lemma example_losses: "sorted_losses example_returns = [Dec (- 1) (- 2), Dec 3 (- 2)]"
  by (simp add: sorted_losses_def example_returns_def dec_eval dval_def power_int_minus)

definition example_measures :: exposure_result where
  "example_measures = \<lparr>er_portfolio_value = Dec 100 0, er_cash_value = Dec 100 0, er_position_weights = [],
     er_sector_exposure = [], er_asset_allocation = [], er_geographic_exposure = [], er_top_holdings = [],
     er_largest_position_weight = dzero, er_herfindahl_index = dzero, er_warnings = []\<rparr>"

lemma example_risk:
  "\<exists>r. risk_calculate example_returns [] (Dec 100 0) e (Dec 95 (- 2)) 252 = Inr r"
proof -
  obtain vol where vol: "annualized_stddev example_returns 252 = Inr vol" using annualized_stddev_total [of 252] by auto
  have v: "value_at_risk (sorted_losses example_returns) (Dec 95 (- 2)) = Dec 3 (- 2)"
    by (simp add: value_at_risk_def example_losses var_rank_def dceiling_def dec_eval)
  have "\<exists>es. shortfall (sorted_losses example_returns) (Dec 3 (- 2)) = Inr es"
    by (simp add: shortfall_def example_losses dle_iff dval_def power_int_minus ddivR_def deq_iff)
  then obtain es where es: "shortfall (sorted_losses example_returns) (Dec 3 (- 2)) = Inr es" by blast
  have "example_returns \<noteq> []" by (simp add: example_returns_def)
  then show ?thesis
    by (simp add: risk_calculate_def vol v es Let_def benchmark_measures_def dlt_iff dval_def power_int_minus)
qed

theorem value_at_risk_quantile_witness:
  "\<exists>r. risk_calculate example_returns [] (Dec 100 0) example_measures (Dec 95 (- 2)) 252 = Inr r
     \<and> length (filter (\<lambda>x. - dval x \<le> dval (rk_value_at_risk_return r)) example_returns) = 2"
proof -
  obtain r where r: "risk_calculate example_returns [] (Dec 100 0) example_measures (Dec 95 (- 2)) 252 = Inr r"
    using example_risk by blast
  have n: "length example_returns = 2" by (simp add: example_returns_def)
  have "representable (dval (Dec 95 (- 2)) * of_nat (length example_returns))"
    unfolding representable_def by (intro exI [of _ 190] exI [of _ "- 2"]) (simp add: n dval_def)
  from value_at_risk_quantile [OF r example_return_grid(2) this]
  have "95 / 100 * 2 \<le> (of_nat (length (filter (\<lambda>x. - dval x \<le> dval (rk_value_at_risk_return r)) example_returns)) :: rat)"
    by (simp add: n dval_def power_int_minus)
  moreover have "length (filter (\<lambda>x. - dval x \<le> dval (rk_value_at_risk_return r)) example_returns) \<le> 2"
    using length_filter_le [of _ example_returns] by (simp add: n)
  ultimately have "length (filter (\<lambda>x. - dval x \<le> dval (rk_value_at_risk_return r)) example_returns) = 2"
    by (simp add: le_Suc_eq numeral_2_eq_2) (auto simp: le_Suc_eq)
  with r show ?thesis by blast
qed

theorem shortfall_tail_mean_witness:
  "\<exists>r. risk_calculate example_returns [] (Dec 100 0) example_measures (Dec 95 (- 2)) 252 = Inr r
     \<and> dval (rk_value_at_risk_return r) \<le> dval (rk_expected_shortfall_return r)"
proof -
  obtain r where r: "risk_calculate example_returns [] (Dec 100 0) example_measures (Dec 95 (- 2)) 252 = Inr r"
    using example_risk by blast
  have "(\<Sum>x \<leftarrow> example_returns. \<bar>dval x\<bar>) < 10 ^ 8" "int (length example_returns) < 10 ^ 28"
    by (simp_all add: example_returns_def dval_def power_int_minus)
  from shortfall_tail_mean [OF r example_return_grid(1) this] r show ?thesis by blast
qed

theorem risk_available_witness:
  "risk_calculate [Dec 1 (- 2), Dec 2 (- 2)] [] (Dec 100 0) example_measures (Dec 95 (- 2)) 252 = Inl InvalidOperation"
  using risk_available [of "[Dec 1 (- 2), Dec 2 (- 2)]" "Dec 100 0" "Dec 95 (- 2)" "[]" 252 example_measures]
  by (simp add: dval_def power_int_minus)

section \<open>Analytics\<close>

definition example_value :: "int \<Rightarrow> int \<Rightarrow> value_observation" where
  "example_value t v = \<lparr>vo_observed_at = Aware t 0, vo_value = Dec v 0, vo_external_flow = dzero\<rparr>"

lemma example_analysis:
  "\<exists>r. analyze [example_value 1 100, example_value 2 120] 252 dzero = Inr r"
  "\<exists>r. analyze ([example_value 1 100, example_value 2 120] @ [example_value 3 90]) 252 dzero = Inr r"
proof -
  have "\<exists>r. analyze (map (\<lambda>(t, v). example_value t v) tvs) 252 dzero = Inr r"
    if "tvs \<noteq> []" "distinct (map fst tvs)" "\<forall>(t, v) \<in> set tvs. 0 < v" for tvs
  proof -
    have "\<exists>ordered. ordered_values (map (\<lambda>(t, v). example_value t v) tvs) = Inr ordered"
      using that by (auto simp: ordered_values_iff example_value_def o_def split_def dint_val)
    then show ?thesis using analyze_runs [of _ _ 252] by auto
  qed
  from this [of "[(1, 100), (2, 120)]"] this [of "[(1, 100), (2, 120), (3, 90)]"]
  show "\<exists>r. analyze [example_value 1 100, example_value 2 120] 252 dzero = Inr r"
    "\<exists>r. analyze ([example_value 1 100, example_value 2 120] @ [example_value 3 90]) 252 dzero = Inr r"
    by simp_all
qed

theorem analyze_available_witness:
  "\<exists>r. analyze [example_value 1 100, example_value 2 120] 252 dzero = Inr r"
  using analyze_available [of 252 "[example_value 1 100, example_value 2 120]" dzero] by (auto simp: example_value_def dint_val)

theorem analyze_drawdowns_witness:
  "\<exists>r. analyze [example_value 1 100, example_value 2 120] 252 dzero = Inr r \<and> length (an_drawdowns r) = 2"
proof -
  obtain r where r: "analyze [example_value 1 100, example_value 2 120] 252 dzero = Inr r" using example_analysis(1) by blast
  from analyze_drawdowns [OF r] r show ?thesis by simp
qed

theorem analyze_no_lookahead_witness:
  "\<exists>r r'. analyze [example_value 1 100, example_value 2 120] 252 dzero = Inr r
     \<and> analyze ([example_value 1 100, example_value 2 120] @ [example_value 3 90]) 252 dzero = Inr r'
     \<and> an_returns r = take (length (an_returns r)) (an_returns r')"
proof -
  obtain r r' where r: "analyze [example_value 1 100, example_value 2 120] 252 dzero = Inr r"
    "analyze ([example_value 1 100, example_value 2 120] @ [example_value 3 90]) 252 dzero = Inr r'"
    using example_analysis by blast
  have later: "instant (vo_observed_at v) \<le> instant (vo_observed_at w)"
    if "v \<in> set [example_value 1 100, example_value 2 120]" "w \<in> set [example_value 3 90]" for v w
    using that by (auto simp: example_value_def)
  from analyze_no_lookahead [OF r later] r show ?thesis by blast
qed

end
