(* ===== verification/Scenarios.thy ===== *)
theory Scenarios
  imports Risk_Engine Ledger
begin

text \<open>
  \<open>app/scenarios\<close>: stress scenarios. \<open>types.py\<close> and \<open>engine.py\<close> apply the shocks of a scenario to a
  valuation, \<open>comparison.py\<close> compares exposure, risk and policy before and after.
\<close>

section \<open>Types\<close>

fun scenario_kind_value :: "scenario_kind \<Rightarrow> string" where
  "scenario_kind_value Scenario_HYPOTHETICAL = ''HYPOTHETICAL''"
| "scenario_kind_value Scenario_HISTORICAL = ''HISTORICAL''"

fun shock_target_value :: "shock_target_type \<Rightarrow> string" where
  "shock_target_value Target_SECURITY = ''SECURITY''"
| "shock_target_value Target_MARKET = ''MARKET''"
| "shock_target_value Target_SECTOR = ''SECTOR''"
| "shock_target_value Target_RATE = ''RATE''"
| "shock_target_value Target_FACTOR = ''FACTOR''"

fun shock_unit_value :: "shock_unit \<Rightarrow> string" where
  "shock_unit_value Unit_RELATIVE_RETURN = ''RELATIVE_RETURN''"
| "shock_unit_value Unit_YIELD_CHANGE = ''YIELD_CHANGE''"
| "shock_unit_value Unit_FACTOR_MOVE = ''FACTOR_MOVE''"

record scenario_shock =
  shk_id :: uuid
  shk_target_type :: shock_target_type
  shk_target :: string
  shk_magnitude :: dec
  shk_unit :: shock_unit
  shk_sequence :: int

record scenario_definition =
  scd_id :: uuid
  scd_fund_id :: uuid
  scd_name :: string
  scd_version :: int
  scd_kind :: scenario_kind
  scd_shocks :: "scenario_shock list"
  scd_source_metadata :: json

record instrument_sensitivity =
  sen_instrument_id :: uuid
  sen_rate_duration :: "dec option"
  sen_factor_loadings :: "(string \<times> dec) list"

text \<open>\<open>dict(self.factor_loadings).get(factor)\<close>: of equal names the last one counts.\<close>

definition factor_loading :: "instrument_sensitivity \<Rightarrow> string \<Rightarrow> dec option" where
  "factor_loading s factor = map_of (rev (sen_factor_loadings s)) factor"

record shock_contribution =
  con_shock_id :: uuid
  con_target_type :: shock_target_type
  con_target :: string
  con_return_impact :: dec

record scenario_position_result =
  spo_instrument_id :: uuid
  spo_baseline_price :: dec
  spo_projected_price :: dec
  spo_baseline_market_value :: dec
  spo_projected_market_value :: dec
  spo_return_impact :: dec
  spo_pnl_impact :: dec
  spo_contributions :: "shock_contribution list"

record scenario_result =
  scr_definition :: scenario_definition
  scr_as_of :: datetime
  scr_baseline :: valuation_result
  scr_projected :: valuation_result
  scr_positions :: "scenario_position_result list"
  scr_pnl_impact :: dec
  scr_portfolio_return_impact :: dec
  scr_warnings :: "string list"
  scr_canonical_input_hash :: string
  scr_classifications :: "(uuid, instrument_classification) dict"

section \<open>Validation\<close>

text \<open>\<open>s.replace(p, '')\<close> for a nonempty \<open>p\<close>.\<close>

function delete_all :: "string \<Rightarrow> string \<Rightarrow> string" where
  "delete_all p s = (case s of [] \<Rightarrow> []
     | c # rest \<Rightarrow> if p \<noteq> [] \<and> take (length p) s = p then delete_all p (drop (length p) s)
         else c # delete_all p rest)"
  by pat_completeness auto
termination
  by (relation "measure (length \<circ> snd)") auto

declare delete_all.simps [simp del]

text \<open>\<open>s.strip('{}')\<close>\<close>

definition strip_braces :: "string \<Rightarrow> string" where
  "strip_braces s = (let brace = (\<lambda>c. c \<in> {CHR ''{'', CHR ''}''}) in
     rev (dropWhile brace (rev (dropWhile brace s))))"

definition hex_digit :: "char \<Rightarrow> bool" where
  "hex_digit c = (c \<in> set ''0123456789abcdefABCDEF'')"

text \<open>Hexadecimal digits, single underscores between them.\<close>

fun hex_run :: "string \<Rightarrow> bool" where
  "hex_run [] = False"
| "hex_run [c] = hex_digit c"
| "hex_run (c # d # s) = (hex_digit c \<and> (if d = CHR ''_'' then hex_run s else hex_run (d # s)))"

text \<open>The text \<open>int(s, 16)\<close> accepts, for \<open>s\<close> without a minus sign: blanks around it, a plus, \<open>0x\<close>.\<close>

definition base16_syntax :: "string \<Rightarrow> bool" where
  "base16_syntax s =
     (let blank = (\<lambda>c. let n = (of_char c :: nat) in n = 32 \<or> 9 \<le> n \<and> n \<le> 13);
          t = rev (dropWhile blank (rev (dropWhile blank s)));
          u = (if take 1 t = ''+'' then drop 1 t else t);
          v = (if take 2 u \<in> {''0x'', ''0X''}
               then (if take 1 (drop 2 u) = ''_'' then drop 3 u else drop 2 u) else u) in
      hex_run v)"

text \<open>The text the constructor \<open>UUID(s)\<close> of the standard library accepts.\<close>

definition uuid_syntax :: "string \<Rightarrow> bool" where
  "uuid_syntax s =
     (let h = filter (\<lambda>c. c \<noteq> CHR ''-'') (strip_braces (delete_all ''uuid:'' (delete_all ''urn:'' s))) in
      length h = 32 \<and> base16_syntax h)"

fun expected_unit :: "shock_target_type \<Rightarrow> shock_unit" where
  "expected_unit Target_SECURITY = Unit_RELATIVE_RETURN"
| "expected_unit Target_MARKET = Unit_RELATIVE_RETURN"
| "expected_unit Target_SECTOR = Unit_RELATIVE_RETURN"
| "expected_unit Target_RATE = Unit_YIELD_CHANGE"
| "expected_unit Target_FACTOR = Unit_FACTOR_MOVE"

definition validate_shock :: "scenario_shock \<Rightarrow> app_error + unit" where
  "validate_shock s =
     bindR (requireR (strip (shk_target s) \<noteq> []) (InvalidScenario ''shock target is required'')) (\<lambda>_.
     bindR (requireR (\<not> (shk_target_type s = Target_SECURITY \<and> \<not> uuid_syntax (shk_target s)))
       (InvalidScenario ''security shock target must be an instrument UUID'')) (\<lambda>_.
     bindR (requireR (\<not> (shk_target_type s = Target_MARKET \<and> shk_target s \<noteq> ''ALL''))
       (InvalidScenario ''market shock target must be ALL'')) (\<lambda>_.
     bindR (requireR (\<not> (shk_target_type s = Target_RATE \<and> shk_target s \<noteq> ''USD''))
       (InvalidScenario ''Phase 4 rate shock target must be USD'')) (\<lambda>_.
     requireR (shk_unit s = expected_unit (shk_target_type s))
       (InvalidScenario (shock_target_value (shk_target_type s) @ '' shock requires ''
         @ shock_unit_value (expected_unit (shk_target_type s))))))))"

definition validate_scenario :: "scenario_definition \<Rightarrow> app_error + unit" where
  "validate_scenario d =
     bindR (requireR (\<not> (scd_version d \<le> 0 \<or> strip (scd_name d) = []))
       (InvalidScenario ''scenario name and positive version are required'')) (\<lambda>_.
     bindR (requireR (\<not> (\<not> distinct (map shk_sequence (scd_shocks d)) \<or> (\<exists>s \<in> set (scd_shocks d). shk_sequence s \<le> 0)))
       (InvalidScenario ''shock sequence values must be unique and positive'')) (\<lambda>_.
     foldR (\<lambda>_. validate_shock) () (scd_shocks d)))"

section \<open>Shocks on a position\<close>

definition add_warning :: "string \<Rightarrow> string list \<Rightarrow> string list" where
  "add_warning w ws = (if w \<in> set ws then ws else ws @ [w])"

definition impact ::
  "uuid \<Rightarrow> scenario_shock \<Rightarrow> instrument_classification option \<Rightarrow> instrument_sensitivity option \<Rightarrow> string list
     \<Rightarrow> dec option \<times> string list" where
  "impact i s classification sensitivity warnings = (case shk_target_type s of
     Target_SECURITY \<Rightarrow> (if shk_target s = uuid_text i then Some (shk_magnitude s) else None, warnings)
   | Target_MARKET \<Rightarrow> (Some (shk_magnitude s), warnings)
   | Target_SECTOR \<Rightarrow> (case classification of
       None \<Rightarrow> (None, add_warning (''sector shock '' @ uuid_text (shk_id s) @ '' skipped for '' @ uuid_text i
         @ '': missing classification'') warnings)
     | Some c \<Rightarrow> (if ic_sector c = shk_target s then Some (shk_magnitude s) else None, warnings))
   | Target_RATE \<Rightarrow> (case Option.bind sensitivity sen_rate_duration of
       None \<Rightarrow> (None, add_warning (''rate shock '' @ uuid_text (shk_id s) @ '' skipped for '' @ uuid_text i
         @ '': missing duration'') warnings)
     | Some d \<Rightarrow> (Some (dmul (dneg d) (shk_magnitude s)), warnings))
   | Target_FACTOR \<Rightarrow> (case Option.bind sensitivity (\<lambda>t. factor_loading t (shk_target s)) of
       None \<Rightarrow> (None, add_warning (''factor shock '' @ uuid_text (shk_id s) @ '' skipped for '' @ uuid_text i
         @ '': missing '' @ shk_target s @ '' loading'') warnings)
     | Some l \<Rightarrow> (Some (dmul l (shk_magnitude s)), warnings)))"

definition contribution_step ::
  "uuid \<Rightarrow> instrument_classification option \<Rightarrow> instrument_sensitivity option
     \<Rightarrow> shock_contribution list \<times> string list \<Rightarrow> scenario_shock \<Rightarrow> shock_contribution list \<times> string list" where
  "contribution_step i classification sensitivity st s =
     (case impact i s classification sensitivity (snd st) of (r, warnings) \<Rightarrow>
        (case r of None \<Rightarrow> fst st
         | Some x \<Rightarrow> fst st @ [\<lparr>con_shock_id = shk_id s, con_target_type = shk_target_type s,
             con_target = shk_target s, con_return_impact = x\<rparr>], warnings))"

definition ordered_shocks :: "scenario_definition \<Rightarrow> scenario_shock list" where
  "ordered_shocks d = sort_key (\<lambda>s. (shk_sequence s, shk_id s)) (scd_shocks d)"

record shock_state =
  sk_results :: "scenario_position_result list"
  sk_projected :: "position_valuation list"
  sk_warnings :: "string list"

definition shock_position ::
  "scenario_definition \<Rightarrow> (uuid \<Rightarrow> instrument_classification option) \<Rightarrow> (uuid \<Rightarrow> instrument_sensitivity option)
     \<Rightarrow> shock_state \<Rightarrow> position_valuation \<Rightarrow> app_error + shock_state" where
  "shock_position d classifications sensitivities st p =
     (case foldl (contribution_step (pv_instrument_id p) (classifications (pv_instrument_id p))
          (sensitivities (pv_instrument_id p))) ([], sk_warnings st) (ordered_shocks d) of (contributions, warnings) \<Rightarrow>
      let return_impact = dsum (map con_return_impact contributions) in
      bindR (requireR (\<not> dle return_impact (dneg dunit))
        (InvalidScenario (''combined shocks imply a nonpositive price for '' @ uuid_text (pv_instrument_id p)))) (\<lambda>_.
      let projected_price = dmul (pv_price p) (dadd dunit return_impact);
          projected_value = dmul (pv_market_value p) (dadd dunit return_impact) in
      Inr \<lparr>sk_results = sk_results st @ [\<lparr>spo_instrument_id = pv_instrument_id p, spo_baseline_price = pv_price p,
             spo_projected_price = projected_price, spo_baseline_market_value = pv_market_value p,
             spo_projected_market_value = projected_value, spo_return_impact = return_impact,
             spo_pnl_impact = dsub projected_value (pv_market_value p), spo_contributions = contributions\<rparr>],
           sk_projected = sk_projected st @ [p\<lparr>pv_price := projected_price, pv_market_value := projected_value,
             pv_unrealized_pnl := map_option (dsub projected_value) (pv_cost_basis p)\<rparr>],
           sk_warnings = warnings\<rparr>))"

section \<open>Hash of the inputs\<close>

definition scenario_hash ::
  "digest \<Rightarrow> valuation_result \<Rightarrow> scenario_definition \<Rightarrow> (uuid, instrument_classification) dict
     \<Rightarrow> (uuid, instrument_sensitivity) dict \<Rightarrow> string" where
  "scenario_hash H valuation d classifications sensitivities = H (JObj [
     (''valuation_hash'', JStr (vr_reconstruction_input_hash valuation)),
     (''as_of'', JTime (vr_as_of valuation)),
     (''baseline'', JObj [
       (''cash'', JDec (vr_cash_value valuation)),
       (''portfolio_value'', JDec (vr_portfolio_value valuation)),
       (''positions'', JList (map (\<lambda>p. JObj [
          (''instrument_id'', JUuid (pv_instrument_id p)),
          (''price'', JDec (pv_price p)),
          (''market_value'', JDec (pv_market_value p)),
          (''quote_observation_id'', JUuid (pq_observation_id (pv_quote p)))])
          (sort_key pv_instrument_id (vr_positions valuation))))]),
     (''scenario'', JObj [
       (''id'', JUuid (scd_id d)),
       (''name'', JStr (scd_name d)),
       (''version'', JInt (scd_version d)),
       (''kind'', JStr (scenario_kind_value (scd_kind d))),
       (''source_metadata'', json_value (scd_source_metadata d)),
       (''shocks'', JList (map (\<lambda>s. JObj [
          (''id'', JUuid (shk_id s)),
          (''target_type'', JStr (shock_target_value (shk_target_type s))),
          (''target'', JStr (shk_target s)),
          (''magnitude'', JDec (shk_magnitude s)),
          (''unit'', JStr (shock_unit_value (shk_unit s))),
          (''sequence'', JInt (shk_sequence s))])
          (sort_key shk_sequence (scd_shocks d))))]),
     (''classifications'', JObj (map (\<lambda>(i, c). (uuid_text i,
        JList [JStr (ic_sector c), JStr (ic_asset_class c), JStr (ic_geography c)]))
        (sort_key fst classifications))),
     (''sensitivities'', JObj (map (\<lambda>(i, s). (uuid_text i, JObj [
        (''rate_duration'', json_opt JDec (sen_rate_duration s)),
        (''factor_loadings'', JList (map (\<lambda>(name, loading). JList [JStr name, JDec loading])
           (sort_key (\<lambda>(name, loading). (name, dval loading)) (sen_factor_loadings s))))]))
        (sort_key fst sensitivities))),
     (''calculation_version'', JStr ''scenario-v1'')])"

section \<open>Scenario engine\<close>

definition scenario_apply ::
  "digest \<Rightarrow> valuation_result \<Rightarrow> scenario_definition \<Rightarrow> (uuid, instrument_classification) dict
     \<Rightarrow> (uuid, instrument_sensitivity) dict \<Rightarrow> app_error + scenario_result" where
  "scenario_apply H valuation d classifications sensitivities =
     bindR (requireR (scd_fund_id d = vr_fund_id valuation)
       (InvalidScenario ''scenario and valuation must belong to the same fund'')) (\<lambda>_.
     bindR (validate_scenario d) (\<lambda>_.
     bindR (foldR (shock_position d (dict_get classifications) (dict_get sensitivities))
       \<lparr>sk_results = [], sk_projected = [], sk_warnings = []\<rparr> (vr_positions valuation)) (\<lambda>st.
     let securities = dsum (map pv_market_value (sk_projected st));
         pnl_impact = dsub securities (vr_securities_value valuation);
         unrealized_values = map pv_unrealized_pnl (sk_projected st) in
     bindR (ddivR pnl_impact (vr_portfolio_value valuation)) (\<lambda>portfolio_return.
     Inr \<lparr>scr_definition = d, scr_as_of = vr_as_of valuation, scr_baseline = valuation,
       scr_projected = valuation\<lparr>vr_securities_value := securities,
         vr_portfolio_value := dadd (vr_cash_value valuation) securities,
         vr_unrealized_pnl := (if None \<in> set unrealized_values then None else Some (dsum (map the unrealized_values))),
         vr_positions := sk_projected st, vr_warnings := vr_warnings valuation @ sk_warnings st\<rparr>,
       scr_positions = sk_results st, scr_pnl_impact = pnl_impact,
       scr_portfolio_return_impact = portfolio_return, scr_warnings = sk_warnings st,
       scr_canonical_input_hash = scenario_hash H valuation d classifications sensitivities,
       scr_classifications = classifications\<rparr>))))"

section \<open>Comparison before and after\<close>

record exposure_change =
  xc_dimension :: string
  xc_category :: string
  xc_before_weight :: dec
  xc_after_weight :: dec
  xc_change :: dec

record risk_change =
  rc_metric :: string
  rc_before_value :: "dec option"
  rc_after_value :: "dec option"
  rc_change :: "dec option"

record before_after_result =
  ba_scenario :: scenario_result
  ba_baseline_exposure :: exposure_result
  ba_projected_exposure :: exposure_result
  ba_exposure_changes :: "exposure_change list"
  ba_baseline_risk :: risk_result
  ba_projected_risk :: risk_result
  ba_risk_changes :: "risk_change list"
  ba_baseline_policy :: "policy_evaluation_item list"
  ba_projected_policy :: "policy_evaluation_item list"

definition weight_or_zero :: "(string, dec) dict \<Rightarrow> string \<Rightarrow> dec" where
  "weight_or_zero d c = (case dict_get d c of None \<Rightarrow> dzero | Some w \<Rightarrow> w)"

definition dimension_changes :: "string \<Rightarrow> category_exposure list \<Rightarrow> category_exposure list \<Rightarrow> exposure_change list" where
  "dimension_changes dimension before_rows after_rows =
     (let first = category_weights before_rows; second = category_weights after_rows in
      map (\<lambda>c. \<lparr>xc_dimension = dimension, xc_category = c, xc_before_weight = weight_or_zero first c,
          xc_after_weight = weight_or_zero second c,
          xc_change = dsub (weight_or_zero second c) (weight_or_zero first c)\<rparr>)
        (sort (remdups (map fst first @ map fst second))))"

definition exposure_changes :: "exposure_result \<Rightarrow> exposure_result \<Rightarrow> exposure_change list" where
  "exposure_changes before after =
     dimension_changes ''sector'' (er_sector_exposure before) (er_sector_exposure after)
     @ dimension_changes ''asset_class'' (er_asset_allocation before) (er_asset_allocation after)
     @ dimension_changes ''geography'' (er_geographic_exposure before) (er_geographic_exposure after)"

definition risk_changes :: "risk_result \<Rightarrow> risk_result \<Rightarrow> risk_change list" where
  "risk_changes before after = map (\<lambda>(name, first, second). \<lparr>rc_metric = name, rc_before_value = first,
       rc_after_value = second, rc_change = (case (first, second) of (Some x, Some y) \<Rightarrow> Some (dsub y x) | _ \<Rightarrow> None)\<rparr>)
     [(''volatility'', rk_annualized_volatility before, rk_annualized_volatility after),
      (''beta'', rk_beta before, rk_beta after),
      (''var_return'', Some (rk_value_at_risk_return before), Some (rk_value_at_risk_return after)),
      (''expected_shortfall_return'', Some (rk_expected_shortfall_return before), Some (rk_expected_shortfall_return after)),
      (''tracking_error'', rk_tracking_error before, rk_tracking_error after),
      (''largest_position_weight'', Some (rk_largest_position_weight before), Some (rk_largest_position_weight after)),
      (''herfindahl_index'', Some (rk_herfindahl_index before), Some (rk_herfindahl_index after))]"

definition exposure_inputs :: "valuation_result \<Rightarrow> position_exposure_input list" where
  "exposure_inputs v = map (\<lambda>p. \<lparr>pe_instrument_id = pv_instrument_id p, pe_market_value = pv_market_value p\<rparr>)
     (vr_positions v)"

definition scenario_compare ::
  "formatter \<Rightarrow> scenario_result \<Rightarrow> (uuid, instrument_classification) dict \<Rightarrow> dec list \<Rightarrow> dec list
     \<Rightarrow> policy_rule_input list \<Rightarrow> dec \<Rightarrow> dec \<Rightarrow> int \<Rightarrow> int \<Rightarrow> app_error + before_after_result" where
  "scenario_compare F scenario classifications returns benchmark rules benchmark_scenario_return confidence periods top_n =
     (let baseline = scr_baseline scenario; projected = scr_projected scenario in
      bindR (exposure_calculate (exposure_inputs baseline) (vr_cash_value baseline) (dict_get classifications) top_n)
        (\<lambda>baseline_exposure.
      bindR (exposure_calculate (exposure_inputs projected) (vr_cash_value projected) (dict_get classifications) top_n)
        (\<lambda>projected_exposure.
      bindR (risk_calculate returns benchmark (vr_portfolio_value baseline) baseline_exposure confidence periods)
        (\<lambda>baseline_risk.
      bindR (risk_calculate (returns @ [scr_portfolio_return_impact scenario]) (benchmark @ [benchmark_scenario_return])
        (vr_portfolio_value projected) projected_exposure confidence periods) (\<lambda>projected_risk.
      bindR (policy_evaluate F rules (dict_get (portfolio_risk_metrics baseline_exposure baseline_risk)))
        (\<lambda>baseline_policy.
      bindR (policy_evaluate F rules (dict_get (portfolio_risk_metrics projected_exposure projected_risk)))
        (\<lambda>projected_policy.
      Inr \<lparr>ba_scenario = scenario, ba_baseline_exposure = baseline_exposure,
        ba_projected_exposure = projected_exposure,
        ba_exposure_changes = exposure_changes baseline_exposure projected_exposure,
        ba_baseline_risk = baseline_risk, ba_projected_risk = projected_risk,
        ba_risk_changes = risk_changes baseline_risk projected_risk,
        ba_baseline_policy = baseline_policy, ba_projected_policy = projected_policy\<rparr>)))))))"

end
