(* ===== verification/Literals.thy ===== *)
theory Literals
  imports Rendering
begin

text \<open>
  The texts the program reads: \<open>Decimal(text)\<close> and \<open>datetime.fromisoformat(text)\<close> of the standard
  library, on ASCII text, as CPython 3.12 reads them.
\<close>

section \<open>Digits\<close>

definition digit :: "char \<Rightarrow> bool" where
  "digit c \<longleftrightarrow> 48 \<le> (of_char c :: nat) \<and> (of_char c :: nat) \<le> 57"

definition digits_value :: "string \<Rightarrow> int" where
  "digits_value s = foldl (\<lambda>n c. 10 * n + (of_char c - 48)) 0 s"

text \<open>A leading sign.\<close>

definition split_sign :: "string \<Rightarrow> int \<times> string" where
  "split_sign s = (case s of [] \<Rightarrow> (1, [])
     | c # rest \<Rightarrow> if c = CHR ''-'' then (- 1, rest) else if c = CHR ''+'' then (1, rest) else (1, s))"

definition upper_char :: "char \<Rightarrow> char" where
  "upper_char c = (if 97 \<le> (of_char c :: nat) \<and> (of_char c :: nat) \<le> 122 then char_of ((of_char c :: nat) - 32) else c)"

text \<open>\<open>s.upper()\<close>\<close>

definition upper :: "string \<Rightarrow> string" where
  "upper s = map upper_char s"

section \<open>Decimal literals\<close>

text \<open>
  \<open>Decimal(text)\<close> is exact. \<open>Special\<close> stands for NaN and the infinities, \<open>Malformed\<close> for the texts
  on which the constructor raises \<open>InvalidOperation\<close>.
\<close>

datatype decimal_literal = Finite dec | Special | Malformed

definition exponent_part :: "string \<Rightarrow> int option" where
  "exponent_part s = (case s of [] \<Rightarrow> Some 0
     | c # rest \<Rightarrow> (case split_sign rest of (sign, ds) \<Rightarrow>
         if c \<in> {CHR ''e'', CHR ''E''} \<and> ds \<noteq> [] \<and> list_all digit ds then Some (sign * digits_value ds) else None))"

definition special_literal :: "string \<Rightarrow> bool" where
  "special_literal s =
     (let u = upper s; v = (if take 1 u = ''S'' then drop 1 u else u) in
      u \<in> {''INF'', ''INFINITY''} \<or> take 3 v = ''NAN'' \<and> list_all digit (drop 3 v))"

definition decimal_literal :: "string \<Rightarrow> decimal_literal" where
  "decimal_literal s =
     (case split_sign (filter (\<lambda>c. c \<noteq> CHR ''_'') (strip s)) of (sign, u) \<Rightarrow>
      let whole = takeWhile digit u; rest = dropWhile digit u;
          point = (take 1 rest = ''.'');
          fraction = (if point then takeWhile digit (tl rest) else []);
          after = (if point then dropWhile digit (tl rest) else rest) in
      if whole @ fraction = [] then (if special_literal u then Special else Malformed)
      else (case exponent_part after of
          None \<Rightarrow> Malformed
        | Some e \<Rightarrow> Finite (Dec (sign * digits_value (whole @ fraction)) (e - int (length fraction)))))"

section \<open>Dates\<close>

text \<open>The day number of a date (day 0 is 1970-01-01), and the days of a month.\<close>

definition day_number :: "int \<Rightarrow> int \<Rightarrow> int \<Rightarrow> int" where
  "day_number y m d =
     (let y' = (if m \<le> 2 then y - 1 else y); era = y' div 400; yoe = y' mod 400;
          doy = (153 * ((m + 9) mod 12) + 2) div 5 + d - 1 in
      era * 146097 + (yoe * 365 + yoe div 4 - yoe div 100 + doy) - 719468)"

definition leap_year :: "int \<Rightarrow> bool" where
  "leap_year y = (y mod 4 = 0 \<and> (y mod 100 \<noteq> 0 \<or> y mod 400 = 0))"

definition month_days :: "int \<Rightarrow> int \<Rightarrow> int" where
  "month_days y m = (if m = 2 then (if leap_year y then 29 else 28) else if m \<in> {4, 6, 9, 11} then 30 else 31)"

definition valid_date :: "int \<Rightarrow> int \<Rightarrow> int \<Rightarrow> bool" where
  "valid_date y m d = (1 \<le> y \<and> y \<le> 9999 \<and> 1 \<le> m \<and> m \<le> 12 \<and> 1 \<le> d \<and> d \<le> month_days y m)"

text \<open>The first \<open>n\<close> characters as a number, when they are digits.\<close>

definition digits_prefix :: "nat \<Rightarrow> string \<Rightarrow> (int \<times> string) option" where
  "digits_prefix n s = (if length (take n s) = n \<and> list_all digit (take n s)
     then Some (digits_value (take n s), drop n s) else None)"

text \<open>Monday is 0; 1970-01-01 was a Thursday.\<close>

definition weekday :: "int \<Rightarrow> int" where
  "weekday n = (n + 3) mod 7"

definition iso_week_day :: "int \<Rightarrow> int \<Rightarrow> int \<Rightarrow> int option" where
  "iso_week_day y w d =
     (let first = weekday (day_number y 1 1);
          monday = day_number y 1 1 - first + (if first > 3 then 7 else 0);
          long = (first = 3 \<or> first = 2 \<and> leap_year y) in
      if 1 \<le> y \<and> y \<le> 9999 \<and> 1 \<le> w \<and> (w \<le> 52 \<or> w = 53 \<and> long) \<and> 1 \<le> d \<and> d \<le> 7
        \<and> day_number 1 1 1 \<le> monday + (w - 1) * 7 + d - 1 \<and> monday + (w - 1) * 7 + d - 1 \<le> day_number 9999 12 31
      then Some (monday + (w - 1) * 7 + d - 1) else None)"

text \<open>\<open>YYYY-MM-DD\<close>, \<open>YYYYMMDD\<close>, \<open>YYYY-Www[-D]\<close>, \<open>YYYYWww[D]\<close>\<close>

definition iso_date :: "string \<Rightarrow> int option" where
  "iso_date s = Option.bind (digits_prefix 4 s) (\<lambda>(y, r).
     let dash = (take 1 r = ''-''); r1 = (if dash then drop 1 r else r) in
     if take 1 r1 = ''W'' then
       Option.bind (digits_prefix 2 (drop 1 r1)) (\<lambda>(w, r2).
         if r2 = [] then iso_week_day y w 1
         else if dash \<and> take 1 r2 \<noteq> ''-'' then None
         else Option.bind (digits_prefix 1 (if dash then drop 1 r2 else r2)) (\<lambda>(d, r3). iso_week_day y w d))
     else
       Option.bind (digits_prefix 2 r1) (\<lambda>(m, r2).
         if dash \<and> take 1 r2 \<noteq> ''-'' then None
         else Option.bind (digits_prefix 2 (if dash then drop 1 r2 else r2)) (\<lambda>(d, r3).
           if valid_date y m d then Some (day_number y m d) else None)))"

text \<open>Where the date ends.\<close>

definition date_end :: "string \<Rightarrow> nat" where
  "date_end s =
     (let n = length s; ch = (\<lambda>i. take 1 (drop i s)) in
      if n = 7 then 7
      else if ch 4 = ''-'' then
        (if ch 5 = ''W'' then
           (if 8 < n \<and> ch 8 = ''-'' then (if 10 < n \<and> list_all digit (ch 10) then 8 else 10) else 8)
         else 10)
      else if ch 4 = ''W'' then
        (let idx = 7 + length (takeWhile digit (drop 7 s)) in
         if idx < 9 then idx else if even idx then 7 else 8)
      else 8)"

section \<open>Times\<close>

text \<open>
  \<open>parse_hh_mm_ss_ff\<close>: up to \<open>n\<close> numbers of two digits, separated by colons or not, then the text of
  the fraction; the flag says that a character was left over.
\<close>

fun clock_parts :: "nat \<Rightarrow> bool option \<Rightarrow> string \<Rightarrow> (int list \<times> string option \<times> bool) option" where
  "clock_parts 0 colons s = Some ([], Some s, False)"
| "clock_parts (Suc n) colons s = (case digits_prefix 2 s of
     None \<Rightarrow> None
   | Some (v, rest) \<Rightarrow> (case rest of
       [] \<Rightarrow> Some ([v], None, False)
     | c # more \<Rightarrow>
         let colon = (case colons of None \<Rightarrow> c = CHR '':'' | Some b \<Rightarrow> b) in
         if more = [] then Some ([v], None, True)
         else if colon \<and> c = CHR '':'' then
           map_option (\<lambda>(vs, r). (v # vs, r)) (clock_parts n (Some colon) more)
         else if c \<in> {CHR ''.'', CHR '',''} then Some ([v], Some more, False)
         else if \<not> colon then map_option (\<lambda>(vs, r). (v # vs, r)) (clock_parts n (Some colon) rest)
         else None))"

text \<open>Hours, minutes, seconds and microseconds, and whether something was left over.\<close>

definition iso_clock :: "string \<Rightarrow> ((int \<times> int \<times> int \<times> int) \<times> bool) option" where
  "iso_clock s = Option.bind (clock_parts 3 None s) (\<lambda>(vs, fraction, left_over).
     let field = (\<lambda>i. if i < length vs then vs ! i else 0) in
     (case fraction of
        None \<Rightarrow> Some ((field 0, field 1, field 2, 0), left_over)
      | Some f \<Rightarrow> let k = min 6 (length f) in
          if list_all digit (take k f)
          then Some ((field 0, field 1, field 2, digits_value (take k f) * 10 ^ (6 - k)), dropWhile digit (drop k f) \<noteq> [])
          else None))"

definition microseconds :: "int \<times> int \<times> int \<times> int \<Rightarrow> int" where
  "microseconds t = (case t of (h, m, s, us) \<Rightarrow> ((h * 60 + m) * 60 + s) * 1000000 + us)"

definition valid_clock :: "int \<times> int \<times> int \<times> int \<Rightarrow> bool" where
  "valid_clock t = (case t of (h, m, s, us) \<Rightarrow> h < 24 \<and> m < 60 \<and> s < 60)"

text \<open>The offset of a zone: \<open>None\<close> is malformed, \<open>Some None\<close> is no zone.\<close>

definition iso_zone :: "string \<Rightarrow> int option option" where
  "iso_zone z = (case z of
     [] \<Rightarrow> Some None
   | c # rest \<Rightarrow>
       if c = CHR ''Z'' then (if rest = [] then Some (Some 0) else None)
       else (case iso_clock rest of
           None \<Rightarrow> None
         | Some (t, left_over) \<Rightarrow>
             if left_over \<or> 86400000000 \<le> microseconds t then None
             else Some (Some (if c = CHR ''-'' then - microseconds t else microseconds t))))"

definition iso_time :: "string \<Rightarrow> (int \<times> int option) option" where
  "iso_time s =
     (let sign = (\<lambda>c. c \<in> {CHR ''+'', CHR ''-'', CHR ''Z''});
          zone = dropWhile (\<lambda>c. \<not> sign c) s in
      Option.bind (iso_clock (takeWhile (\<lambda>c. \<not> sign c) s)) (\<lambda>(t, left_over).
        if left_over \<and> zone = [] \<or> \<not> valid_clock t then None
        else map_option (Pair (microseconds t)) (iso_zone zone)))"

definition from_isoformat :: "string \<Rightarrow> datetime option" where
  "from_isoformat s =
     (if length s < 7 then None
      else Option.bind (iso_date (take (date_end s) s)) (\<lambda>days.
        if length s \<le> date_end s then Some (Naive (days * 86400000000))
        else map_option (\<lambda>(us, zone). (case zone of
            None \<Rightarrow> Naive (days * 86400000000 + us)
          | Some z \<Rightarrow> Aware (days * 86400000000 + us - z) z)) (iso_time (drop (Suc (date_end s)) s))))"

text \<open>\<open>value.replace('Z', '+00:00')\<close>\<close>

definition zulu :: "string \<Rightarrow> string" where
  "zulu s = concat (map (\<lambda>c. if c = CHR ''Z'' then ''+00:00'' else [c]) s)"

end
