(* ===== verification/Floats.thy ===== *)
theory Floats
  imports Rendering Portfolio_Types
begin

text \<open>
  The floats that \<open>json.loads\<close> makes of number literals: the IEEE 754 double nearest to a decimal,
  and \<open>repr\<close> of a double, the shortest text that reads back as the same double.
\<close>

section \<open>The nearest double\<close>

function bit_length :: "int \<Rightarrow> int" where
  "bit_length n = (if n \<le> 0 then 0 else 1 + bit_length (n div 2))"
  by pat_completeness auto
termination
  by (relation "measure nat") auto

declare bit_length.simps [simp del]

text \<open>\<open>m * 2 ^ e\<close> nearest to \<open>n / d\<close> with 53 bits and exponent at least -1074, for positive \<open>n\<close> and \<open>d\<close>.\<close>

definition double_near :: "int \<Rightarrow> int \<Rightarrow> int \<times> int" where
  "double_near n d =
     (let scale = (\<lambda>q. (n * 2 ^ nat (- q), d * 2 ^ nat q));
          q0 = bit_length n - bit_length d - 53;
          q1 = (case scale q0 of (a, b) \<Rightarrow> if 2 ^ 53 * b \<le> a then q0 + 1 else q0);
          q = max (- 1074) q1 in
      (case scale q of (a, b) \<Rightarrow> (round_half_even a b, q)))"

text \<open>The double of \<open>c * 10 ^ e\<close>; decimals far outside the range need no computation.\<close>

definition double_of_decimal :: "int \<Rightarrow> int \<Rightarrow> py_float" where
  "double_of_decimal c e =
     (let digits = e + int (ndigits c) in
      if c = 0 \<or> digits < - 330 then Float 0 0
      else if 310 < digits then Float_Inf (c < 0)
      else (case double_near (\<bar>c\<bar> * 10 ^ nat e) (10 ^ nat (- e)) of (m, q) \<Rightarrow>
        if 2 ^ 1024 \<le> m * 2 ^ nat q \<and> 0 \<le> q then Float_Inf (c < 0)
        else Float (if c < 0 then - m else m) q))"

section \<open>Text\<close>

text \<open>The decimals of \<open>k\<close> digits around \<open>n / d\<close>, nearest first, with the exponent of their last digit.\<close>

definition around :: "nat \<Rightarrow> int \<Rightarrow> int \<Rightarrow> int \<Rightarrow> (int \<times> int) list" where
  "around k p n d =
     (let e = p - int k; a = n * 10 ^ nat (- e); b = d * 10 ^ nat e;
          low = a div b; near = round_half_even a b in
      if a mod b = 0 then [(low, e)] else if near = low then [(low, e), (low + 1, e)] else [(low + 1, e), (low, e)])"

text \<open>The decimal point is after \<open>p\<close> digits: \<open>10 ^ (p - 1) \<le> n / d < 10 ^ p\<close>.\<close>

definition point_of :: "int \<Rightarrow> int \<Rightarrow> int" where
  "point_of n d =
     (let p = int (ndigits n) - int (ndigits d) in
      if d * 10 ^ nat p \<le> n * 10 ^ nat (- p) then p + 1 else p)"

definition same_double :: "int \<Rightarrow> int \<Rightarrow> int \<times> int \<Rightarrow> bool" where
  "same_double m q ce = (case double_of_decimal (fst ce) (snd ce) of
     Float m' q' \<Rightarrow> m' * 2 ^ nat (q' - min q q') = m * 2 ^ nat (q - min q q') | _ \<Rightarrow> False)"

definition shortest_decimal :: "int \<Rightarrow> int \<Rightarrow> int \<times> int" where
  "shortest_decimal m q =
     (let n = m * 2 ^ nat q; d = 2 ^ nat (- q) in
      (case filter (same_double m q) (concat (map (\<lambda>k. around k (point_of n d) n d) [1..<18])) of
         ce # _ \<Rightarrow> ce | [] \<Rightarrow> (0, 0)))"

text \<open>The digits of the shortest decimal without trailing zeros, and the position of the point.\<close>

definition float_text :: "py_float \<Rightarrow> string" where
  "float_text x = (case x of
     Float_NaN \<Rightarrow> ''nan''
   | Float_Inf negative \<Rightarrow> (if negative then ''-inf'' else ''inf'')
   | Float m q \<Rightarrow>
       if m = 0 then ''0.0''
       else (case shortest_decimal \<bar>m\<bar> q of (c, e) \<Rightarrow>
         let all = nat_text (nat c); digits = rev (dropWhile (\<lambda>c. c = CHR ''0'') (rev all));
             k = int (length digits); p = int (length all) + e;
             exponent = (if \<bar>p - 1\<bar> < 10 then ''0'' else []) @ nat_text (nat \<bar>p - 1\<bar>) in
         (if m < 0 then ''-'' else [])
         @ (if 16 < p \<or> p < - 3 then take 1 digits @ (if k = 1 then [] else ''.'' @ drop 1 digits)
              @ ''e'' @ (if p < 1 then ''-'' else ''+'') @ exponent
            else if p \<le> 0 then ''0.'' @ replicate (nat (- p)) CHR ''0'' @ digits
            else if k \<le> p then digits @ replicate (nat (p - k)) CHR ''0'' @ ''.0''
            else take (nat p) digits @ ''.'' @ drop (nat p) digits)))"

text \<open>\<open>Decimal(x)\<close> of a finite float is exact, with the least exponent that its binary fraction needs.\<close>

fun reduce_fraction :: "nat \<Rightarrow> int \<Rightarrow> dec" where
  "reduce_fraction 0 m = Dec m 0"
| "reduce_fraction (Suc k) m = (if even m then reduce_fraction k (m div 2) else Dec (m * 5 ^ Suc k) (- int (Suc k)))"

definition decimal_of_float :: "py_float \<Rightarrow> dec option" where
  "decimal_of_float x = (case x of
     Float m q \<Rightarrow> Some (if 0 \<le> q then Dec (m * 2 ^ nat q) 0 else reduce_fraction (nat (- q)) m)
   | _ \<Rightarrow> None)"

end
