(* ===== verification/Scenario_Service.thy ===== *)
theory Scenario_Service
  imports Scenarios Literals Floats
begin

text \<open>
  \<open>app/scenarios/service.py\<close>: a stored scenario applied to a valuation with the classifications and
  sensitivities in force at its cutoff, compared under a policy, and recorded. The lists handed to
  \<open>execute\<close> are the iterables it reads once. \<open>uuid4()\<close> is \<open>ids\<close>, the digest \<open>H\<close>.
\<close>

definition SCENARIO_CALCULATION_VERSION :: string where
  "SCENARIO_CALCULATION_VERSION = ''scenario-comparison-v1''"

record scenario_execution =
  sx_run_id :: uuid
  sx_analysis :: before_after_result

definition scenario_aware :: "datetime \<Rightarrow> app_error + unit" where
  "scenario_aware t = requireR (is_aware t) (InvalidScenario ''scenario timestamps must be timezone-aware'')"

section \<open>Preview\<close>

definition shock_of :: "scenario_shock_row \<Rightarrow> scenario_shock" where
  "shock_of r = \<lparr>shk_id = shr_id r, shk_target_type = shr_target_type r, shk_target = shr_target r,
     shk_magnitude = shr_magnitude r, shk_unit = shr_unit r, shk_sequence = shr_sequence r\<rparr>"

definition load_definition :: "database \<Rightarrow> uuid \<Rightarrow> uuid \<Rightarrow> app_error + scenario_definition" where
  "load_definition db scenario_id fund_id =
     (case first_row (\<lambda>r. sd_id r = scenario_id) (db_scenario_definitions db) of
        None \<Rightarrow> Inl (InvalidScenario ''scenario does not belong to the valuation fund'')
      | Some r \<Rightarrow>
          bindR (requireR (sd_fund_id r = fund_id)
            (InvalidScenario ''scenario does not belong to the valuation fund'')) (\<lambda>_.
          Inr \<lparr>scd_id = sd_id r, scd_fund_id = sd_fund_id r, scd_name = sd_name r, scd_version = sd_version r,
            scd_kind = sd_kind r,
            scd_shocks = map shock_of (sort_key (\<lambda>s. (shr_sequence s, shr_id s))
              (filter (\<lambda>s. shr_scenario_id s = scenario_id) (db_scenario_shocks db))),
            scd_source_metadata = sd_source_metadata r\<rparr>))"

text \<open>\<open>Decimal(value)\<close> of a JSON value; NaN and the infinities, which \<open>dec\<close> lacks, are refused here.\<close>

definition decimal_of_json :: "json \<Rightarrow> app_error + dec" where
  "decimal_of_json j = (case j of
     JStr s \<Rightarrow> (case decimal_literal s of Finite d \<Rightarrow> Inr d | _ \<Rightarrow> Inl InvalidOperation)
   | JDec d \<Rightarrow> Inr d
   | JInt n \<Rightarrow> Inr (Dec n 0)
   | JFloat x \<Rightarrow> (case decimal_of_float x of Some d \<Rightarrow> Inr d | None \<Rightarrow> Inl InvalidOperation)
   | JBool b \<Rightarrow> Inr (Dec (if b then 1 else 0) 0)
   | JNull \<Rightarrow> Inl TypeError
   | JObj _ \<Rightarrow> Inl TypeError
   | JList _ \<Rightarrow> Inl (ValueError ''argument must be a sequence of length 3'')
   | _ \<Rightarrow> Inl InvalidOperation)"

definition factor_loadings :: "json \<Rightarrow> app_error + (string \<times> dec) list" where
  "factor_loadings j = (case j of
     JObj kvs \<Rightarrow> bindR (foldR (\<lambda>out (name, j). bindR (decimal_of_json j) (\<lambda>d. Inr (out @ [(name, d)]))) [] kvs)
       (\<lambda>out. Inr (sort_key (\<lambda>(name, d). (name, dval d)) out))
   | _ \<Rightarrow> Inl AttributeError)"

definition sensitivity_of :: "instrument_risk_sensitivity_row \<Rightarrow> app_error + instrument_sensitivity" where
  "sensitivity_of r = bindR (factor_loadings (irs_factor_loadings r)) (\<lambda>loadings.
     Inr \<lparr>sen_instrument_id = irs_instrument_id r, sen_rate_duration = irs_rate_duration r,
       sen_factor_loadings = loadings\<rparr>)"

definition effective_sensitivities ::
  "database \<Rightarrow> uuid set \<Rightarrow> datetime \<Rightarrow> instrument_risk_sensitivity_row list" where
  "effective_sensitivities db instruments as_of =
     sort_key (\<lambda>r. (irs_instrument_id r, - instant (irs_effective_from r)))
       (filter (\<lambda>r. irs_instrument_id r \<in> instruments \<and> instant (irs_effective_from r) \<le> instant as_of
         \<and> (case irs_effective_to r of None \<Rightarrow> True | Some t \<Rightarrow> instant as_of < instant t))
       (db_instrument_risk_sensitivities db))"

definition sensitivities_at ::
  "database \<Rightarrow> uuid set \<Rightarrow> datetime \<Rightarrow> app_error + (uuid, instrument_sensitivity) dict" where
  "sensitivities_at db instruments as_of =
     foldR (\<lambda>d r. bindR (sensitivity_of r) (\<lambda>s. Inr (dict_setdefault (irs_instrument_id r) s d))) []
       (effective_sensitivities db instruments as_of)"

definition scenario_preview ::
  "digest \<Rightarrow> database \<Rightarrow> uuid \<Rightarrow> valuation_result \<Rightarrow> app_error + scenario_result" where
  "scenario_preview H db scenario_id valuation =
     bindR (load_definition db scenario_id (vr_fund_id valuation)) (\<lambda>d.
     let instruments = set (map pv_instrument_id (vr_positions valuation)) in
     bindR (sensitivities_at db instruments (vr_as_of valuation)) (\<lambda>sensitivities.
     scenario_apply H valuation d (classifications_at db instruments (vr_as_of valuation)) sensitivities))"

section \<open>Records of an execution\<close>

fun policy_status_value :: "policy_evaluation_status \<Rightarrow> string" where
  "policy_status_value Policy_PASS = ''PASS''"
| "policy_status_value Policy_BREACH = ''BREACH''"
| "policy_status_value Policy_UNAVAILABLE = ''UNAVAILABLE''"

definition policy_summary :: "policy_evaluation_item list \<Rightarrow> json" where
  "policy_summary items = JList (map (\<lambda>i. JObj [
     (''rule_id'', JUuid (pei_rule_id i)),
     (''metric_key'', JStr (pei_metric_key i)),
     (''status'', JStr (policy_status_value (pei_status i))),
     (''observed_value'', json_opt JDec (pei_observed_value i)),
     (''threshold'', JDec (pei_threshold i)),
     (''breach_amount'', json_opt JDec (pei_breach_amount i)),
     (''unit'', JStr (pei_unit i)),
     (''explanation'', JStr (pei_explanation i))]) items)"

definition result_summary :: "before_after_result \<Rightarrow> json" where
  "result_summary a = JObj [
     (''exposure_changes'', JList (map (\<lambda>c. JObj [
        (''dimension'', JStr (xc_dimension c)),
        (''category'', JStr (xc_category c)),
        (''before'', JDec (xc_before_weight c)),
        (''after'', JDec (xc_after_weight c)),
        (''change'', JDec (xc_change c))]) (ba_exposure_changes a))),
     (''risk_changes'', JList (map (\<lambda>c. JObj [
        (''metric'', JStr (rc_metric c)),
        (''before'', json_opt JDec (rc_before_value c)),
        (''after'', json_opt JDec (rc_after_value c)),
        (''change'', json_opt JDec (rc_change c))]) (ba_risk_changes a))),
     (''baseline_policy'', policy_summary (ba_baseline_policy a)),
     (''projected_policy'', policy_summary (ba_projected_policy a))]"

definition execution_hash ::
  "digest \<Rightarrow> string \<Rightarrow> dec list \<Rightarrow> dec list \<Rightarrow> uuid \<Rightarrow> dec \<Rightarrow> dec \<Rightarrow> int \<Rightarrow> int \<Rightarrow> string" where
  "execution_hash H scenario_digest returns benchmark policy_id benchmark_scenario_return confidence periods top_n =
     H (JObj [
       (''scenario_hash'', JStr scenario_digest),
       (''returns'', JList (map JDec returns)),
       (''benchmark'', JList (map JDec benchmark)),
       (''policy_id'', JUuid policy_id),
       (''benchmark_scenario_return'', JDec benchmark_scenario_return),
       (''confidence_level'', JDec confidence),
       (''annualization_periods'', JInt periods),
       (''top_n'', JInt top_n),
       (''calculation_version'', JStr SCENARIO_CALCULATION_VERSION)])"

definition contribution_evidence :: "shock_contribution list \<Rightarrow> json" where
  "contribution_evidence cs = JList (map (\<lambda>c. JObj [
     (''shock_id'', JUuid (con_shock_id c)),
     (''target_type'', JStr (shock_target_value (con_target_type c))),
     (''target'', JStr (con_target c)),
     (''return_impact'', JDec (con_return_impact c))]) cs)"

definition position_result_row :: "uuid \<Rightarrow> uuid \<Rightarrow> scenario_position_result \<Rightarrow> scenario_position_result_row" where
  "position_result_row i run_id p = \<lparr>spr_id = i, spr_scenario_run_id = run_id,
     spr_instrument_id = spo_instrument_id p, spr_baseline_market_value = spo_baseline_market_value p,
     spr_projected_market_value = spo_projected_market_value p, spr_return_impact = spo_return_impact p,
     spr_pnl_impact = spo_pnl_impact p, spr_contribution_evidence = contribution_evidence (spo_contributions p)\<rparr>"

section \<open>Execution\<close>

definition scenario_policy :: "database \<Rightarrow> uuid \<Rightarrow> uuid \<Rightarrow> datetime \<Rightarrow> app_error + risk_policy_row" where
  "scenario_policy db policy_id fund_id as_of =
     (case first_row (\<lambda>r. rp_id r = policy_id) (db_risk_policies db) of
        None \<Rightarrow> Inl (InvalidScenario ''risk policy does not belong to the valuation fund'')
      | Some policy \<Rightarrow>
          bindR (requireR (rp_fund_id policy = fund_id)
            (InvalidScenario ''risk policy does not belong to the valuation fund'')) (\<lambda>_.
          bindR (requireR (is_aware as_of) TypeError) (\<lambda>_.
          bindR (requireR (\<not> (instant as_of < instant (rp_effective_from policy)
              \<or> (case rp_effective_to policy of None \<Rightarrow> False | Some t \<Rightarrow> instant t \<le> instant as_of)))
            (InvalidScenario ''risk policy is not effective at the scenario cutoff'')) (\<lambda>_.
          Inr policy))))"

definition existing_run :: "database \<Rightarrow> uuid \<Rightarrow> datetime \<Rightarrow> string \<Rightarrow> scenario_run_row option" where
  "existing_run db scenario_id as_of h = first_row (\<lambda>r. sr_scenario_id r = scenario_id
     \<and> instant (sr_as_of r) = instant as_of \<and> sr_canonical_input_hash r = h) (db_scenario_runs db)"

definition scenario_run_of ::
  "uuid \<Rightarrow> uuid \<Rightarrow> uuid \<Rightarrow> string \<Rightarrow> dec \<Rightarrow> datetime \<Rightarrow> before_after_result \<Rightarrow> scenario_run_row" where
  "scenario_run_of i scenario_id policy_id h benchmark_scenario_return created_at a =
     (let s = ba_scenario a in
      \<lparr>sr_id = i, sr_fund_id = vr_fund_id (scr_baseline s), sr_scenario_id = scenario_id, sr_policy_id = policy_id,
       sr_as_of = vr_as_of (scr_baseline s), sr_canonical_input_hash = h,
       sr_calculation_version = SCENARIO_CALCULATION_VERSION,
       sr_baseline_value = vr_portfolio_value (scr_baseline s),
       sr_projected_value = vr_portfolio_value (scr_projected s), sr_pnl_impact = scr_pnl_impact s,
       sr_portfolio_return_impact = scr_portfolio_return_impact s,
       sr_benchmark_scenario_return = benchmark_scenario_return, sr_result_summary = result_summary a,
       sr_created_at = created_at\<rparr>)"

definition scenario_execute ::
  "digest \<Rightarrow> formatter \<Rightarrow> (nat \<Rightarrow> uuid) \<Rightarrow> database \<Rightarrow> uuid \<Rightarrow> valuation_result \<Rightarrow> dec list \<Rightarrow> dec list \<Rightarrow> uuid
     \<Rightarrow> datetime \<Rightarrow> dec \<Rightarrow> dec \<Rightarrow> int \<Rightarrow> int \<Rightarrow> app_error + scenario_execution \<times> database" where
  "scenario_execute H F ids db scenario_id valuation returns benchmark policy_id created_at
       benchmark_scenario_return confidence periods top_n =
     bindR (scenario_aware created_at) (\<lambda>_.
     bindR (scenario_preview H db scenario_id valuation) (\<lambda>scenario.
     bindR (scenario_policy db policy_id (vr_fund_id valuation) (vr_as_of valuation)) (\<lambda>_.
     let rules = map rule_input (filter (\<lambda>r. rule_policy_id r = policy_id) (db_risk_policy_rules db)) in
     bindR (scenario_compare F scenario (scr_classifications scenario) returns benchmark rules
       benchmark_scenario_return confidence periods top_n) (\<lambda>analysis.
     let h = execution_hash H (scr_canonical_input_hash scenario) returns benchmark policy_id
       benchmark_scenario_return confidence periods top_n in
     (case existing_run db scenario_id (vr_as_of valuation) h of
        Some existing \<Rightarrow> Inr (\<lparr>sx_run_id = sr_id existing, sx_analysis = analysis\<rparr>, db)
      | None \<Rightarrow>
          let run = scenario_run_of (ids 0) scenario_id policy_id h benchmark_scenario_return created_at analysis in
          bindR (insert_scenario_run db run) (\<lambda>db1.
          bindR (foldR insert_scenario_position_result db1
            (map (\<lambda>(k, p). position_result_row (ids (Suc k)) (sr_id run) p) (enumerate 0 (scr_positions scenario))))
            (\<lambda>db2. Inr (\<lparr>sx_run_id = sr_id run, sx_analysis = analysis\<rparr>, db2))))))))"

end
