(* ===== verification/Literals_Properties.thy ===== *)
theory Literals_Properties
  imports Literals
begin

text \<open>
  The reader of decimal literals inverts their rendering: \<open>Decimal(str(d))\<close> is \<open>d\<close>, coefficient and
  exponent.
\<close>

section \<open>Digits\<close>

lemma hex_char_digit:
  assumes "n < 10"
  shows "digit (hex_char n) \<and> (of_char (hex_char n) :: int) = 48 + int n"
proof -
  from assms have "n = 0 \<or> n = 1 \<or> n = 2 \<or> n = 3 \<or> n = 4 \<or> n = 5 \<or> n = 6 \<or> n = 7 \<or> n = 8 \<or> n = 9" by arith
  then show ?thesis by (elim disjE) (simp_all add: hex_char_def digit_def)
qed

lemma digits_value_snoc: "digits_value (s @ [c]) = 10 * digits_value s + (of_char c - 48)"
  by (simp add: digits_value_def)

lemma nat_text_digits: "list_all digit (nat_text n) \<and> nat_text n \<noteq> [] \<and> digits_value (nat_text n) = int n"
proof (induction n rule: nat_text.induct)
  case (1 n)
  show ?case
  proof (cases "n < 10")
    case True
    then show ?thesis using hex_char_digit [OF True] by (simp add: nat_text.simps [of n] digits_value_def)
  next
    case False
    have "n mod 10 < 10" by simp
    moreover have "10 * int (n div 10) + int (n mod 10) = int n" using div_mult_mod_eq [of n 10] by linarith
    ultimately show ?thesis using hex_char_digit 1 [OF False] False
      by (simp add: nat_text.simps [of n] digits_value_snoc)
  qed
qed

lemma digits_value_zeros: "digits_value (replicate n CHR ''0'' @ s) = digits_value s"
  by (induction n) (simp_all add: digits_value_def)

section \<open>Literals of plain parts\<close>

lemma digit_plain: "digit c \<Longrightarrow> \<not> is_space c \<and> c \<notin> {CHR ''_'', CHR ''-'', CHR ''+'', CHR ''.'', CHR ''E''}"
  by (auto simp: digit_def is_space_def)

lemma strip_plain:
  assumes "list_all (\<lambda>c. \<not> is_space c) s"
  shows "strip s = s"
proof -
  have drop: "list_all (\<lambda>c. \<not> is_space c) t \<Longrightarrow> dropWhile is_space t = t" for t by (cases t) simp_all
  show ?thesis using drop [OF assms] drop [of "rev s"] assms by (simp add: strip_def)
qed

lemma takeWhile_digits:
  "list_all digit w \<Longrightarrow> takeWhile digit (w @ s) = w @ takeWhile digit s"
  "list_all digit w \<Longrightarrow> dropWhile digit (w @ s) = dropWhile digit s"
  by (auto simp: list_all_iff takeWhile_append dropWhile_append)

lemma decimal_literal_parts:
  assumes w: "list_all digit w" "w \<noteq> []" and f: "list_all digit f" and e: "e = [] \<or> (\<exists>r. e = CHR ''E'' # r)"
    "list_all (\<lambda>c. \<not> is_space c \<and> c \<noteq> CHR ''_'') e" "exponent_part e = Some x"
  shows "decimal_literal ((if neg then ''-'' else []) @ w @ (if f = [] then [] else CHR ''.'' # f) @ e)
    = Finite (Dec ((if neg then - 1 else 1) * digits_value (w @ f)) (x - int (length f)))"
proof -
  let ?body = "w @ (if f = [] then [] else CHR ''.'' # f) @ e"
  let ?s = "(if neg then ''-'' else []) @ ?body"
  have digits: "list_all (\<lambda>c. \<not> is_space c \<and> c \<noteq> CHR ''_'') ds" if "list_all digit ds" for ds
    using that by (rule list.pred_mono_strong) (use digit_plain in blast)
  have marks: "\<not> is_space CHR ''.''" "\<not> is_space CHR ''-''" by (simp_all add: is_space_def)
  have plain: "list_all (\<lambda>c. \<not> is_space c \<and> c \<noteq> CHR ''_'') ?s"
    using digits [OF w(1)] digits [OF f] e(2) by (simp add: marks)
  then have kept: "filter (\<lambda>c. c \<noteq> CHR ''_'') (strip ?s) = ?s"
    by (subst strip_plain) (auto simp: list_all_iff intro!: filter_True)
  obtain c t where ct: "w = c # t" using w(2) by (cases w) auto
  have "digit c" using w(1) by (simp add: ct)
  then have sign: "split_sign ?s = (if neg then - 1 else 1, ?body)"
    using digit_plain [of c] by (cases neg) (simp_all add: split_sign_def ct)
  have nodigit: "\<not> digit CHR ''.''" "\<not> digit CHR ''E''" by (simp_all add: digit_def)
  have tail: "takeWhile digit e = []" "dropWhile digit e = e" "take 1 e \<noteq> ''.''"
    using e(1) nodigit by auto
  show ?thesis
  proof (cases "f = []")
    case True
    then have "takeWhile digit ?body = w" "dropWhile digit ?body = e" using w(1) tail by (simp_all add: takeWhile_digits)
    then show ?thesis
      using w(2) tail(3) e(3) True unfolding decimal_literal_def kept sign prod.case by (simp add: Let_def)
  next
    case False
    then have "takeWhile digit ?body = w" "dropWhile digit ?body = CHR ''.'' # f @ e"
      using w(1) nodigit by (simp_all add: takeWhile_digits)
    moreover have "takeWhile digit (f @ e) = f" "dropWhile digit (f @ e) = e" using f tail by (simp_all add: takeWhile_digits)
    ultimately show ?thesis
      using w(2) e(3) unfolding decimal_literal_def kept sign prod.case by (simp add: Let_def)
  qed
qed

section \<open>Texts of decimals\<close>

lemma exponent_part_text: "exponent_part (CHR ''E'' # (if n < 0 then ''-'' else ''+'') @ nat_text (nat \<bar>n\<bar>)) = Some n"
  using nat_text_digits [of "nat n"] nat_text_digits [of "nat (- n)"]
  by (cases "n < 0") (simp_all add: exponent_part_def split_sign_def)

lemma decimal_literal_text: "decimal_literal (dec_text d) = Finite d"
proof -
  obtain c e where d: "d = Dec c e" by (cases d)
  define ds where "ds = nat_text (nat \<bar>c\<bar>)"
  define k where "k = length ds"
  define neg where "neg = (c < 0)"
  let ?sign = "if neg then ''-'' else []"
  have ds: "list_all digit ds" "ds \<noteq> []" "(if neg then - 1 else 1) * digits_value ds = c" and k: "0 < k"
    using nat_text_digits [of "nat \<bar>c\<bar>"] by (auto simp: ds_def neg_def k_def)
  have parts: "list_all digit (take n ds)" "list_all digit (drop n ds)" for n
    using ds(1) by (auto simp: list_all_iff dest: in_set_takeD in_set_dropD)
  have zero: "digit CHR ''0''" by (simp add: digit_def)
  note literal = decimal_literal_parts [where neg = neg]
  show ?thesis
  proof (cases "e \<le> 0 \<and> - 6 < e + int k")
    case True
    consider "e + int k \<le> 0" | "0 < e + int k" "e = 0" | "0 < e + int k" "e < 0" using True by linarith
    then show ?thesis
    proof cases
      case 1
      define f where "f = replicate (nat (- (e + int k))) CHR ''0'' @ ds"
      have f: "list_all digit f" "f \<noteq> []" "int (length f) = - e" "digits_value (''0'' @ f) = digits_value ds"
        using ds(1,2) zero 1 digits_value_zeros [of 1] digits_value_zeros by (auto simp: f_def k_def list_all_iff)
      have "dec_text d = ?sign @ ''0'' @ (if f = [] then [] else CHR ''.'' # f) @ []"
        using True 1 f(2) by (simp add: dec_text_def d Let_def ds_def [symmetric] k_def [symmetric] neg_def f_def)
      also have "decimal_literal \<dots> = Finite (Dec ((if neg then - 1 else 1) * digits_value (''0'' @ f)) (0 - int (length f)))"
        using zero f(1) by (intro literal) (simp_all add: exponent_part_def)
      finally show ?thesis using ds(3) by (simp add: f(3,4) d del: append.simps)
    next
      case 2
      then have "dec_text d = ?sign @ ds @ [] @ []"
        using True ds(2) by (simp add: dec_text_def d Let_def ds_def [symmetric] k_def [symmetric] neg_def)
      then show ?thesis using literal [of ds "[]" "[]" 0] ds by (simp add: exponent_part_def d 2)
    next
      case 3
      define w f where "w = take (nat (e + int k)) ds" and "f = drop (nat (e + int k)) ds"
      have f: "list_all digit w" "list_all digit f" "w \<noteq> []" "f \<noteq> []" "int (length f) = - e" "w @ f = ds"
        using parts ds(2) 3 by (simp_all add: w_def f_def k_def)
      have "dec_text d = ?sign @ w @ (if f = [] then [] else CHR ''.'' # f) @ []"
        using True 3 f(4) by (simp add: dec_text_def d Let_def ds_def [symmetric] k_def [symmetric] neg_def w_def f_def)
      also have "decimal_literal \<dots> = Finite (Dec ((if neg then - 1 else 1) * digits_value (w @ f)) (0 - int (length f)))"
        using f by (intro literal) (simp_all add: exponent_part_def)
      finally show ?thesis using ds(3) by (simp add: f(5,6) d)
    qed
  next
    case False
    let ?x = "e + int k - 1"
    let ?e = "CHR ''E'' # (if ?x < 0 then ''-'' else ''+'') @ nat_text (nat \<bar>?x\<bar>)"
    define w f where "w = take 1 ds" and "f = drop 1 ds"
    have f: "list_all digit w" "list_all digit f" "w \<noteq> []" "int (length f) = int k - 1" "w @ f = ds"
      using parts ds(2) k k_def [symmetric] by (auto simp: w_def f_def)
    have plain: "list_all (\<lambda>c. \<not> is_space c \<and> c \<noteq> CHR ''_'') (nat_text n)" for n
      by (rule list.pred_mono_strong [of digit]) (use nat_text_digits digit_plain in blast)+
    have cond: "(e \<le> 0 \<and> - 6 < e + int k) = False" "(e + int k = 1) = False" "(1 \<le> (0 :: int)) = False"
      using False k by auto
    have "dec_text d = ?sign @ (if int k \<le> 1 then ds @ replicate (nat (1 - int k)) CHR ''0''
        else take (nat 1) ds @ ''.'' @ drop (nat 1) ds)
      @ (''E'' @ (if e + int k < 1 then ''-'' else ''+'') @ nat_text (nat \<bar>e + int k - 1\<bar>))"
      unfolding dec_text_def d Let_def dec.sel ds_def [symmetric] k_def [symmetric] neg_def [symmetric] cond if_False ..
    moreover have "(if int k \<le> 1 then ds @ replicate (nat (1 - int k)) CHR ''0'' else take (nat 1) ds @ ''.'' @ drop (nat 1) ds) =
        w @ (if f = [] then [] else CHR ''.'' # f)"
      using k k_def [symmetric] by (simp add: w_def f_def)
    ultimately have "dec_text d = ?sign @ w @ (if f = [] then [] else CHR ''.'' # f) @ ?e" by simp
    also have "decimal_literal \<dots> = Finite (Dec ((if neg then - 1 else 1) * digits_value (w @ f)) (?x - int (length f)))"
      using f exponent_part_text [of ?x] plain by (intro literal) (simp_all add: is_space_def)
    finally show ?thesis using ds(3) by (simp add: f(4,5) d)
  qed
qed

end
