(* ===== verification/Scenario_Properties.thy ===== *)
theory Scenario_Properties
  imports Scenario_Service Literals_Properties Exposure_Properties Policy_Properties Risk_Properties
begin

text \<open>
  What a scenario does to a valuation, when the comparison before and after can be computed, and
  what an execution records.
\<close>

section \<open>The shocks that reach a position\<close>

text \<open>The return a shock has on a position, without the warnings.\<close>

definition shock_return ::
  "uuid \<Rightarrow> instrument_classification option \<Rightarrow> instrument_sensitivity option \<Rightarrow> scenario_shock \<Rightarrow> dec option" where
  "shock_return i c sens s = (case shk_target_type s of
     Target_SECURITY \<Rightarrow> if shk_target s = uuid_text i then Some (shk_magnitude s) else None
   | Target_MARKET \<Rightarrow> Some (shk_magnitude s)
   | Target_SECTOR \<Rightarrow> if map_option ic_sector c = Some (shk_target s) then Some (shk_magnitude s) else None
   | Target_RATE \<Rightarrow> map_option (\<lambda>d. dmul (dneg d) (shk_magnitude s)) (Option.bind sens sen_rate_duration)
   | Target_FACTOR \<Rightarrow> map_option (\<lambda>l. dmul l (shk_magnitude s))
       (Option.bind sens (\<lambda>t. factor_loading t (shk_target s))))"

definition contribution_of :: "scenario_shock \<Rightarrow> dec \<Rightarrow> shock_contribution" where
  "contribution_of s x = \<lparr>con_shock_id = shk_id s, con_target_type = shk_target_type s,
     con_target = shk_target s, con_return_impact = x\<rparr>"

definition contributions ::
  "scenario_definition \<Rightarrow> uuid \<Rightarrow> instrument_classification option \<Rightarrow> instrument_sensitivity option \<Rightarrow> shock_contribution list" where
  "contributions d i c sens =
     List.map_filter (\<lambda>s. map_option (contribution_of s) (shock_return i c sens s)) (ordered_shocks d)"

lemma impact_return: "fst (impact i s c sens ws) = shock_return i c sens s"
  by (auto simp: impact_def shock_return_def split: shock_target_type.splits option.splits)

lemma contribution_steps:
  "fst (foldl (contribution_step i c sens) (cs, ws) ss) =
     cs @ List.map_filter (\<lambda>s. map_option (contribution_of s) (shock_return i c sens s)) ss"
proof (induction ss arbitrary: cs ws)
  case (Cons s ss)
  obtain cs' ws' where step: "contribution_step i c sens (cs, ws) s = (cs', ws')" by (meson surj_pair)
  then have "cs' = cs @ (case shock_return i c sens s of None \<Rightarrow> [] | Some x \<Rightarrow> [contribution_of s x])"
    using impact_return [of i s c sens ws]
    by (auto simp: contribution_step_def contribution_of_def split: prod.splits option.splits)
  then show ?case by (auto simp: step Cons.IH List.map_filter_simps split: option.splits)
qed (simp add: List.map_filter_simps)

text \<open>What the engine does with one position.\<close>

definition position_impact ::
  "scenario_definition \<Rightarrow> (uuid \<Rightarrow> instrument_classification option) \<Rightarrow> (uuid \<Rightarrow> instrument_sensitivity option)
     \<Rightarrow> position_valuation \<Rightarrow> dec" where
  "position_impact d cls sens p = dsum (map con_return_impact
     (contributions d (pv_instrument_id p) (cls (pv_instrument_id p)) (sens (pv_instrument_id p))))"

definition projected_position ::
  "scenario_definition \<Rightarrow> (uuid \<Rightarrow> instrument_classification option) \<Rightarrow> (uuid \<Rightarrow> instrument_sensitivity option)
     \<Rightarrow> position_valuation \<Rightarrow> position_valuation" where
  "projected_position d cls sens p =
     (let factor = dadd dunit (position_impact d cls sens p); v = dmul (pv_market_value p) factor in
      p\<lparr>pv_price := dmul (pv_price p) factor, pv_market_value := v,
        pv_unrealized_pnl := map_option (dsub v) (pv_cost_basis p)\<rparr>)"

definition position_result ::
  "scenario_definition \<Rightarrow> (uuid \<Rightarrow> instrument_classification option) \<Rightarrow> (uuid \<Rightarrow> instrument_sensitivity option)
     \<Rightarrow> position_valuation \<Rightarrow> scenario_position_result" where
  "position_result d cls sens p =
     (let q = projected_position d cls sens p in
      \<lparr>spo_instrument_id = pv_instrument_id p, spo_baseline_price = pv_price p, spo_projected_price = pv_price q,
       spo_baseline_market_value = pv_market_value p, spo_projected_market_value = pv_market_value q,
       spo_return_impact = position_impact d cls sens p, spo_pnl_impact = dsub (pv_market_value q) (pv_market_value p),
       spo_contributions = contributions d (pv_instrument_id p) (cls (pv_instrument_id p)) (sens (pv_instrument_id p))\<rparr>)"

lemma shock_position_eq:
  "shock_position d cls sens st p = (if - 1 < dval (position_impact d cls sens p)
     then Inr \<lparr>sk_results = sk_results st @ [position_result d cls sens p],
       sk_projected = sk_projected st @ [projected_position d cls sens p],
       sk_warnings = snd (foldl (contribution_step (pv_instrument_id p) (cls (pv_instrument_id p)) (sens (pv_instrument_id p)))
         ([], sk_warnings st) (ordered_shocks d))\<rparr>
     else Inl (InvalidScenario (''combined shocks imply a nonpositive price for '' @ uuid_text (pv_instrument_id p))))"
proof -
  let ?i = "pv_instrument_id p"
  obtain cs ws where st: "foldl (contribution_step ?i (cls ?i) (sens ?i)) ([], sk_warnings st) (ordered_shocks d) = (cs, ws)"
    by (meson surj_pair)
  then have cs: "cs = contributions d ?i (cls ?i) (sens ?i)"
    using contribution_steps [of ?i "cls ?i" "sens ?i" "[]" "sk_warnings st" "ordered_shocks d"]
    by (simp add: contributions_def)
  show ?thesis
    by (auto simp: shock_position_def st cs Let_def position_result_def projected_position_def
        position_impact_def dec_simps requireR_def not_le)
qed

lemma shock_positions_run:
  "foldR (shock_position d cls sens) st ps = Inr st' \<Longrightarrow>
     (\<forall>p \<in> set ps. - 1 < dval (position_impact d cls sens p))
     \<and> sk_results st' = sk_results st @ map (position_result d cls sens) ps
     \<and> sk_projected st' = sk_projected st @ map (projected_position d cls sens) ps"
  by (induction ps arbitrary: st) (auto simp: result_simps shock_position_eq split: if_splits)

lemma shock_positions_ok:
  "\<forall>p \<in> set ps. - 1 < dval (position_impact d cls sens p) \<Longrightarrow> \<exists>st'. foldR (shock_position d cls sens) st ps = Inr st'"
  by (induction ps arbitrary: st) (auto simp: shock_position_eq)

lemma scenario_apply_Inr:
  assumes "scenario_apply H v d cs ss = Inr r"
  shows "scd_fund_id d = vr_fund_id v" and "validate_scenario d = Inr ()"
    and "\<forall>p \<in> set (vr_positions v). - 1 < dval (position_impact d (dict_get cs) (dict_get ss) p)"
    and "scr_baseline r = v" and "scr_as_of r = vr_as_of v" and "scr_classifications r = cs"
    and "scr_positions r = map (position_result d (dict_get cs) (dict_get ss)) (vr_positions v)"
    and "vr_positions (scr_projected r) = map (projected_position d (dict_get cs) (dict_get ss)) (vr_positions v)"
    and "vr_cash_value (scr_projected r) = vr_cash_value v"
    and "vr_securities_value (scr_projected r) = dsum (map pv_market_value (vr_positions (scr_projected r)))"
    and "vr_portfolio_value (scr_projected r) = dadd (vr_cash_value v) (vr_securities_value (scr_projected r))"
    and "scr_pnl_impact r = dsub (vr_securities_value (scr_projected r)) (vr_securities_value v)"
    and "scr_portfolio_return_impact r = ddiv (scr_pnl_impact r) (vr_portfolio_value v)"
    and "dval (vr_portfolio_value v) \<noteq> 0"
    and "scr_canonical_input_hash r = scenario_hash H v d cs ss"
proof -
  from assms obtain st where st: "scd_fund_id d = vr_fund_id v" "validate_scenario d = Inr ()"
    "foldR (shock_position d (dict_get cs) (dict_get ss)) \<lparr>sk_results = [], sk_projected = [], sk_warnings = []\<rparr> (vr_positions v) = Inr st"
    and r: "ddivR (dsub (dsum (map pv_market_value (sk_projected st))) (vr_securities_value v)) (vr_portfolio_value v)
      = Inr (scr_portfolio_return_impact r)"
      "scr_baseline r = v" "scr_as_of r = vr_as_of v" "scr_classifications r = cs" "scr_positions r = sk_results st"
      "vr_positions (scr_projected r) = sk_projected st" "vr_cash_value (scr_projected r) = vr_cash_value v"
      "vr_securities_value (scr_projected r) = dsum (map pv_market_value (sk_projected st))"
      "vr_portfolio_value (scr_projected r) = dadd (vr_cash_value v) (dsum (map pv_market_value (sk_projected st)))"
      "scr_pnl_impact r = dsub (dsum (map pv_market_value (sk_projected st))) (vr_securities_value v)"
      "scr_canonical_input_hash r = scenario_hash H v d cs ss"
    by (cases "validate_scenario d") (auto simp: scenario_apply_def result_simps Let_def)
  from shock_positions_run [OF st(3)] st r
  show "scd_fund_id d = vr_fund_id v" "validate_scenario d = Inr ()"
    "\<forall>p \<in> set (vr_positions v). - 1 < dval (position_impact d (dict_get cs) (dict_get ss) p)"
    "scr_baseline r = v" "scr_as_of r = vr_as_of v" "scr_classifications r = cs"
    "scr_positions r = map (position_result d (dict_get cs) (dict_get ss)) (vr_positions v)"
    "vr_positions (scr_projected r) = map (projected_position d (dict_get cs) (dict_get ss)) (vr_positions v)"
    "vr_cash_value (scr_projected r) = vr_cash_value v"
    "vr_securities_value (scr_projected r) = dsum (map pv_market_value (vr_positions (scr_projected r)))"
    "vr_portfolio_value (scr_projected r) = dadd (vr_cash_value v) (vr_securities_value (scr_projected r))"
    "scr_pnl_impact r = dsub (vr_securities_value (scr_projected r)) (vr_securities_value v)"
    "scr_portfolio_return_impact r = ddiv (scr_pnl_impact r) (vr_portfolio_value v)"
    "dval (vr_portfolio_value v) \<noteq> 0" "scr_canonical_input_hash r = scenario_hash H v d cs ss"
    by (auto simp: ddivR_def dec_simps split: if_splits)
qed

lemma scenario_apply_available:
  assumes "scd_fund_id d = vr_fund_id v" and "validate_scenario d = Inr ()"
    and "\<forall>p \<in> set (vr_positions v). - 1 < dval (position_impact d (dict_get cs) (dict_get ss) p)"
    and "dval (vr_portfolio_value v) \<noteq> 0"
  shows "\<exists>r. scenario_apply H v d cs ss = Inr r"
proof -
  obtain st where "foldR (shock_position d (dict_get cs) (dict_get ss)) \<lparr>sk_results = [], sk_projected = [], sk_warnings = []\<rparr>
      (vr_positions v) = Inr st"
    using shock_positions_ok [OF assms(3)] by blast
  then show ?thesis using assms(1,2,4) by (simp add: scenario_apply_def ddivR_def dec_simps Let_def)
qed

section \<open>Long-only valuations stay long-only\<close>

definition long_only :: "valuation_result \<Rightarrow> bool" where
  "long_only v \<longleftrightarrow> 0 \<le> dval (vr_cash_value v) \<and> 0 < dval (vr_portfolio_value v)
     \<and> vr_portfolio_value v = dadd (vr_cash_value v) (vr_securities_value v)
     \<and> vr_securities_value v = dsum (map pv_market_value (vr_positions v))
     \<and> (\<forall>p \<in> set (vr_positions v). 0 < dval (pv_price p) \<and> 0 \<le> dval (pv_market_value p))"

lemma foldl_dadd_pos:
  "0 \<le> dval s \<Longrightarrow> \<forall>x \<in> set xs. 0 \<le> dval x \<Longrightarrow>
     0 < dval (foldl dadd s xs) \<longleftrightarrow> 0 < dval s \<or> (\<exists>x \<in> set xs. 0 < dval x)"
proof (induction xs arbitrary: s)
  case (Cons x xs)
  then have "0 \<le> dval (dadd s x)" "0 < dval (dadd s x) \<longleftrightarrow> 0 < dval s \<or> 0 < dval x"
    by (auto simp: dval_dadd)
  with Cons show ?case by simp
qed simp

lemma dsum_pos: "\<forall>x \<in> set xs. 0 \<le> dval x \<Longrightarrow> 0 < dval (dsum xs) \<longleftrightarrow> (\<exists>x \<in> set xs. 0 < dval x)"
  using foldl_dadd_pos [of dzero xs] by (simp add: dsum_def)

lemma projected_sign:
  assumes "- 1 < dval (position_impact d cls sens p)"
  shows "0 < dval (pv_price (projected_position d cls sens p)) \<longleftrightarrow> 0 < dval (pv_price p)"
    and "0 < dval (pv_market_value (projected_position d cls sens p)) \<longleftrightarrow> 0 < dval (pv_market_value p)"
    and "0 \<le> dval (pv_market_value (projected_position d cls sens p)) \<longleftrightarrow> 0 \<le> dval (pv_market_value p)"
proof -
  have "0 < rnd (1 + dval (position_impact d cls sens p))" using assms by simp
  then show "0 < dval (pv_price (projected_position d cls sens p)) \<longleftrightarrow> 0 < dval (pv_price p)"
    "0 < dval (pv_market_value (projected_position d cls sens p)) \<longleftrightarrow> 0 < dval (pv_market_value p)"
    "0 \<le> dval (pv_market_value (projected_position d cls sens p)) \<longleftrightarrow> 0 \<le> dval (pv_market_value p)"
    by (auto simp: projected_position_def Let_def dval_dmul dval_dadd zero_less_mult_iff zero_le_mult_iff)
qed

lemma projection_long_only:
  assumes run: "scenario_apply H v d cs ss = Inr r" and v: "long_only v"
  shows "long_only (scr_projected r)"
proof -
  note r = scenario_apply_Inr [OF run]
  let ?ps = "vr_positions v" and ?f = "projected_position d (dict_get cs) (dict_get ss)"
  have sign: "\<forall>p \<in> set ?ps. 0 < dval (pv_price (?f p)) \<and> 0 \<le> dval (pv_market_value (?f p))
      \<and> (0 < dval (pv_market_value (?f p)) \<longleftrightarrow> 0 < dval (pv_market_value p))"
    using r(3) v projected_sign [of d "dict_get cs" "dict_get ss"] by (auto simp: long_only_def)
  have "0 < dval (vr_cash_value v) \<or> (\<exists>p \<in> set ?ps. 0 < dval (pv_market_value p))"
  proof (rule ccontr)
    assume "\<not> ?thesis"
    then have "dval (vr_cash_value v) \<le> 0" "dval (dsum (map pv_market_value ?ps)) \<le> 0"
      using v dsum_pos [of "map pv_market_value ?ps"] by (auto simp: long_only_def not_less [symmetric])
    then have "dval (vr_portfolio_value v) \<le> 0" using v by (simp add: long_only_def dval_dadd)
    with v show False by (simp add: long_only_def)
  qed
  moreover have "0 \<le> dval (dsum (map pv_market_value (map ?f ?ps)))"
    "0 < dval (dsum (map pv_market_value (map ?f ?ps))) \<longleftrightarrow> (\<exists>p \<in> set ?ps. 0 < dval (pv_market_value p))"
    using sign dsum_nonneg [of "map pv_market_value (map ?f ?ps)"] dsum_pos [of "map pv_market_value (map ?f ?ps)"] by auto
  ultimately have "0 < dval (vr_portfolio_value (scr_projected r))"
    unfolding r(10,11) r(8) dval_dadd using v by (auto simp: long_only_def add_pos_nonneg add_nonneg_pos)
  with sign v show ?thesis unfolding long_only_def r(8) r(9) r(11) r(10) by auto
qed

text \<open>A valuation of a stored ledger is long-only unless the fund has borrowed cash.\<close>

lemma value_at_each:
  assumes run: "value_at H db f a age acc prov pt = Inr v"
    and prices: "\<And>r. r \<in> set (db_market_prices db) \<Longrightarrow> market_price_checks r"
    and w: "w \<in> set (vr_positions v)"
  shows "0 < dval (pv_price w) \<and> 0 < dval (pv_market_value w) \<and> representable (dval (pv_market_value w))
    \<and> (\<exists>r \<in> set (db_market_prices db). pv_price w = mp_price r)"
proof -
  from run obtain st :: portfolio_state and quotes where r: "reconstruct H f (ledger_at db f a acc) a acc = Inr st"
    "list_all2 (valued quotes) (pf_positions st) (vr_positions v)"
    and quotes: "\<And>p. p \<in> set (pf_positions st) \<Longrightarrow> \<exists>q. quotes (ps_instrument_id p) = Some q
       \<and> latest_quote db (ps_instrument_id p) a age prov pt = Inr q"
    by (rule value_at_Inr) blast
  from r(2) w obtain p where p: "p \<in> set (pf_positions st)" "valued quotes p w"
    unfolding list_all2_conv_all_nth in_set_conv_nth by metis
  then obtain q where q: "latest_quote db (ps_instrument_id p) a age prov pt = Inr q"
    "pv_price w = pq_price q" "pv_market_value w = dmul (ps_quantity p) (pq_price q)"
    using quotes [OF p(1)] by (auto simp: valued_def)
  from q(1) obtain row where row: "row \<in> set (db_market_prices db)" "pq_price q = mp_price row"
    by (rule latest_quote_Inr) (auto simp: quote_of_def Let_def)
  then have price: "0 < dval (pq_price q)" using prices [OF row(1)] by (simp add: market_price_checks_def dlt_iff)
  have "0 < dval (ps_quantity p)" using positions_facts [OF r(1)] p(1) by blast
  with price row show ?thesis by (auto simp: q(2,3) dval_dmul)
qed

lemma value_at_long_only:
  assumes run: "value_at H db f a age acc prov pt = Inr v"
    and prices: "\<And>r. r \<in> set (db_market_prices db) \<Longrightarrow> market_price_checks r"
    and cash: "0 \<le> dval (vr_cash_value v)" "0 < dval (vr_portfolio_value v)"
  shows "long_only v"
proof -
  from run have "vr_securities_value v = dsum (map pv_market_value (vr_positions v))"
    "vr_portfolio_value v = dadd (vr_cash_value v) (vr_securities_value v)"
    by (rule value_at_Inr; simp)+
  then show ?thesis using cash value_at_each [OF run prices] by (auto simp: long_only_def intro: less_imp_le)
qed

section \<open>Direction of a shock\<close>

lemma foldl_dadd_pointwise:
  "list_all2 (\<lambda>x y. dval x \<le> dval y) xs ys \<Longrightarrow> dval s \<le> dval t \<Longrightarrow> dval (foldl dadd s xs) \<le> dval (foldl dadd t ys)"
proof (induction xs ys arbitrary: s t rule: list_all2_induct)
  case (Cons x xs y ys)
  then have "dval (dadd s x) \<le> dval (dadd t y)" unfolding dval_dadd by (intro rnd_mono add_mono)
  then show ?case using Cons.IH by simp
qed simp

lemma dsum_mono: "(\<And>x. x \<in> set xs \<Longrightarrow> dval (f x) \<le> dval (g x)) \<Longrightarrow> dval (dsum (map f xs)) \<le> dval (dsum (map g xs))"
  unfolding dsum_def by (rule foldl_dadd_pointwise) (auto simp: list_all2_map1 list_all2_map2 intro: list.rel_refl_strong)

lemma shocked_direction:
  assumes "representable (dval x)" and "0 \<le> dval x" and "- 1 < dval r"
  shows "0 \<le> dval r \<Longrightarrow> dval x \<le> dval (dmul x (dadd dunit r))"
    and "dval r \<le> 0 \<Longrightarrow> dval (dmul x (dadd dunit r)) \<le> dval x"
proof -
  assume "0 \<le> dval r"
  then have "1 \<le> rnd (1 + dval r)" by (intro representable_le_rnd) simp_all
  then have "dval x \<le> dval x * rnd (1 + dval r)" using assms(2) mult_left_mono by fastforce
  with assms(1) show "dval x \<le> dval (dmul x (dadd dunit r))"
    by (simp add: dval_dmul dval_dadd representable_le_rnd)
next
  assume "dval r \<le> 0"
  then have "rnd (1 + dval r) \<le> 1" by (intro rnd_le_representable) simp_all
  then have "dval x * rnd (1 + dval r) \<le> dval x" using assms(2) mult_left_mono by fastforce
  with assms(1) show "dval (dmul x (dadd dunit r)) \<le> dval x"
    by (simp add: dval_dmul dval_dadd rnd_le_representable)
qed

text \<open>The result of one position moves in the direction of the shocks that reach it.\<close>

definition moved ::
  "scenario_definition \<Rightarrow> (uuid \<Rightarrow> instrument_classification option) \<Rightarrow> (uuid \<Rightarrow> instrument_sensitivity option)
     \<Rightarrow> position_valuation \<Rightarrow> scenario_position_result \<Rightarrow> bool" where
  "moved d cls sens p q \<longleftrightarrow> spo_instrument_id q = pv_instrument_id p
     \<and> spo_contributions q = contributions d (pv_instrument_id p) (cls (pv_instrument_id p)) (sens (pv_instrument_id p))
     \<and> spo_return_impact q = dsum (map con_return_impact (spo_contributions q))
     \<and> 0 < dval (spo_projected_price q) \<and> 0 < dval (spo_projected_market_value q)
     \<and> (0 \<le> dval (spo_return_impact q) \<longrightarrow> dval (pv_price p) \<le> dval (spo_projected_price q)
          \<and> dval (pv_market_value p) \<le> dval (spo_projected_market_value q))
     \<and> (dval (spo_return_impact q) \<le> 0 \<longrightarrow> dval (spo_projected_price q) \<le> dval (pv_price p)
          \<and> dval (spo_projected_market_value q) \<le> dval (pv_market_value p))"

text \<open>C13: A stress of a stored valuation, on stored prices that are positive and have at most 28
  digits, moves every value the right way despite the rounding: each projected price and each
  projected market value is positive and on the side of the baseline its impact points to; impacts
  that are all gains give no loss in total and no lower portfolio value, impacts that are all
  losses no profit and no higher portfolio value, whatever the cash balance; and with nonnegative
  cash and a positive baseline value the projected portfolio value is positive.\<close>

theorem stress_direction:
  assumes stored: "value_at H db f a age acc prov pt = Inr v"
    and prices: "\<And>r. r \<in> set (db_market_prices db) \<Longrightarrow> market_price_checks r \<and> representable (dval (mp_price r))"
    and run: "scenario_apply H v d cs ss = Inr r"
  shows "list_all2 (moved d (dict_get cs) (dict_get ss)) (vr_positions v) (scr_positions r)
    \<and> ((\<forall>q \<in> set (scr_positions r). 0 \<le> dval (spo_return_impact q)) \<longrightarrow> 0 \<le> dval (scr_pnl_impact r)
         \<and> dval (vr_portfolio_value v) \<le> dval (vr_portfolio_value (scr_projected r)))
    \<and> ((\<forall>q \<in> set (scr_positions r). dval (spo_return_impact q) \<le> 0) \<longrightarrow> dval (scr_pnl_impact r) \<le> 0
         \<and> dval (vr_portfolio_value (scr_projected r)) \<le> dval (vr_portfolio_value v))
    \<and> (0 \<le> dval (vr_cash_value v) \<and> 0 < dval (vr_portfolio_value v) \<longrightarrow> 0 < dval (vr_portfolio_value (scr_projected r)))"
proof -
  note r = scenario_apply_Inr [OF run]
  let ?f = "position_result d (dict_get cs) (dict_get ss)"
  let ?p = "\<lambda>p. spo_projected_market_value (?f p)"
  have rep: "0 < dval (pv_price p) \<and> 0 < dval (pv_market_value p) \<and> representable (dval (pv_market_value p))
      \<and> representable (dval (pv_price p))" if "p \<in> set (vr_positions v)" for p
    using value_at_each [OF stored _ that] prices by force
  have each: "moved d (dict_get cs) (dict_get ss) p (?f p)" if p: "p \<in> set (vr_positions v)" for p
  proof -
    have i: "- 1 < dval (position_impact d (dict_get cs) (dict_get ss) p)" using r(3) p by blast
    then show ?thesis
      using rep [OF p] shocked_direction [OF _ _ i, of "pv_price p"] shocked_direction [OF _ _ i, of "pv_market_value p"]
        projected_sign(1,2) [OF i]
      by (auto simp: moved_def position_result_def Let_def position_impact_def projected_position_def)
  qed
  have sums: "vr_securities_value v = dsum (map pv_market_value (vr_positions v))"
    "vr_portfolio_value v = dadd (vr_cash_value v) (vr_securities_value v)"
    by (rule value_at_Inr [OF stored]; simp)+
  have proj: "vr_securities_value (scr_projected r) = dsum (map ?p (vr_positions v))"
    by (simp add: r(8,10) position_result_def Let_def o_def)
  have up: "dval (vr_securities_value v) \<le> dval (vr_securities_value (scr_projected r))"
    if "\<forall>q \<in> set (scr_positions r). 0 \<le> dval (spo_return_impact q)"
    unfolding sums(1) proj by (rule dsum_mono) (use each that in \<open>auto simp: r(7) moved_def\<close>)
  have down: "dval (vr_securities_value (scr_projected r)) \<le> dval (vr_securities_value v)"
    if "\<forall>q \<in> set (scr_positions r). dval (spo_return_impact q) \<le> 0"
    unfolding sums(1) proj by (rule dsum_mono) (use each that in \<open>auto simp: r(7) moved_def\<close>)
  have total: "vr_portfolio_value (scr_projected r) = dadd (vr_cash_value v) (vr_securities_value (scr_projected r))"
    by (simp add: r(11))
  have "list_all2 (moved d (dict_get cs) (dict_get ss)) (vr_positions v) (scr_positions r)"
    using each by (simp add: r(7) list_all2_map2 list.rel_refl_strong)
  moreover have "0 < dval (vr_portfolio_value (scr_projected r))"
    if "0 \<le> dval (vr_cash_value v)" "0 < dval (vr_portfolio_value v)"
    using projection_long_only [OF run value_at_long_only [OF stored _ that]] prices unfolding long_only_def by blast
  ultimately show ?thesis
    using up down unfolding r(12) total sums(2) dval_dsub dval_dadd rnd_sign diff_ge_0_iff_ge diff_le_0_iff_le
    by (blast intro: rnd_mono add_left_mono)
qed

section \<open>The comparison can be computed\<close>

lemma exposure_available:
  "long_only v \<Longrightarrow> 0 < n \<Longrightarrow> \<exists>e. exposure_calculate (exposure_inputs v) (vr_cash_value v) cls n = Inr e"
proof -
  assume v: "long_only v" and n: "0 < n"
  have "map pe_market_value (exposure_inputs v) = map pv_market_value (vr_positions v)"
    by (simp add: exposure_inputs_def)
  moreover have "\<forall>p \<in> set (exposure_inputs v). 0 \<le> dval (pe_market_value p)"
    using v by (auto simp: exposure_inputs_def long_only_def)
  ultimately show ?thesis using v n
    by (auto simp: exposure_calculate_def requireR_def Let_def dec_simps long_only_def not_less)
qed

lemma compare_available:
  assumes run: "scenario_apply H v d cs ss = Inr s" and v: "long_only v"
    and series: "\<exists>x \<in> set rs. dval x \<le> 0" "length bs = length rs" "int (length rs) + 1 < 10 ^ 28"
    and parameters: "0 < dval c" "dval c < 1" "0 < periods" "0 < n"
    and rules: "\<And>m. \<exists>items. policy_evaluate F rules m = Inr items"
  shows "\<exists>a. scenario_compare F s cls rs bs rules b c periods n = Inr a \<and> ba_scenario a = s"
proof -
  note r = scenario_apply_Inr [OF run]
  have v': "long_only (scr_projected s)" by (rule projection_long_only [OF run v])
  obtain e where e: "exposure_calculate (exposure_inputs (scr_baseline s)) (vr_cash_value (scr_baseline s)) (dict_get cls) n = Inr e"
    using exposure_available [OF v parameters(4)] r(4) by metis
  obtain e' where e': "exposure_calculate (exposure_inputs (scr_projected s)) (vr_cash_value (scr_projected s)) (dict_get cls) n = Inr e'"
    using exposure_available [OF v' parameters(4)] by blast
  have pos: "0 < dval (vr_portfolio_value (scr_baseline s))" "0 < dval (vr_portfolio_value (scr_projected s))"
    using v v' by (auto simp only: r(4) long_only_def)
  have "rs \<noteq> []" using series(1) by auto
  then obtain k where k: "risk_calculate rs bs (vr_portfolio_value (scr_baseline s)) e c periods = Inr k"
    using risk_answers [of rs _ c bs periods e] series pos(1) parameters by auto
  obtain k' where k': "risk_calculate (rs @ [scr_portfolio_return_impact s]) (bs @ [b]) (vr_portfolio_value (scr_projected s)) e' c periods = Inr k'"
    using risk_answers [of "rs @ [scr_portfolio_return_impact s]" _ c "bs @ [b]" periods e'] series pos(2) parameters by auto
  obtain i i' where "policy_evaluate F rules (dict_get (portfolio_risk_metrics e k)) = Inr i"
    "policy_evaluate F rules (dict_get (portfolio_risk_metrics e' k')) = Inr i'"
    using rules by metis
  with e e' k k' show ?thesis by (simp add: scenario_compare_def Let_def)
qed

section \<open>Executions\<close>

interpretation scenario_position_rows: child_table db_scenario_position_results
  "\<lambda>rs db. db\<lparr>db_scenario_position_results := rs\<rparr>" "''scenario_position_results''"
  scenario_position_result_clash scenario_position_result_checks scenario_position_result_refs
  insert_scenario_position_result
  by unfold_locales (simp_all add: insert_scenario_position_result_def scenario_position_result_refs_def fun_eq_iff)

definition result_rows :: "(nat \<Rightarrow> uuid) \<Rightarrow> scenario_result \<Rightarrow> scenario_position_result_row list" where
  "result_rows ids s = map (\<lambda>(k, p). position_result_row (ids (Suc k)) (ids 0) p) (enumerate 0 (scr_positions s))"

lemma result_rows_nth:
  "length (result_rows ids s) = length (scr_positions s)"
  "k < length (scr_positions s) \<Longrightarrow> result_rows ids s ! k = position_result_row (ids (Suc k)) (ids 0) (scr_positions s ! k)"
  by (simp_all add: result_rows_def nth_enumerate_eq)

lemma result_rows_clash:
  assumes "inj_on ids {..length (scr_positions s)}"
  shows "sorted_wrt (\<lambda>r r'. \<not> scenario_position_result_clash r r') (result_rows ids s)
    \<longleftrightarrow> distinct (map spo_instrument_id (scr_positions s))"
proof -
  have "ids (Suc i) \<noteq> ids (Suc j)" if "i < j" "j < length (scr_positions s)" for i j
    using inj_onD [OF assms, of "Suc i" "Suc j"] that by auto
  then have "scenario_position_result_clash (result_rows ids s ! i) (result_rows ids s ! j)
      \<longleftrightarrow> spo_instrument_id (scr_positions s ! i) = spo_instrument_id (scr_positions s ! j)"
    if "i < j" "j < length (scr_positions s)" for i j
    using that by (simp add: result_rows_nth position_result_row_def scenario_position_result_clash_def)
  then show ?thesis
    by (auto simp: sorted_wrt_iff_nth_less distinct_conv_nth result_rows_nth(1)) (metis nat_neq_iff order_less_trans)
qed

lemma load_definition_Inr:
  "load_definition db k f = Inr d \<Longrightarrow> refers sd_id (db_scenario_definitions db) k \<and> scd_fund_id d = f"
  by (auto simp: load_definition_def refers_def result_simps split: option.splits dest: first_row_Some)

lemma scenario_policy_Inr:
  "scenario_policy db q f a = Inr policy \<Longrightarrow> refers rp_id (db_risk_policies db) q \<and> is_aware a"
  by (auto simp: scenario_policy_def refers_def result_simps split: option.splits dest: first_row_Some)

lemma preview_Inr:
  assumes "scenario_preview H db k v = Inr s"
  obtains d ss where "load_definition db k (vr_fund_id v) = Inr d"
    "scenario_apply H v d (classifications_at db (set (map pv_instrument_id (vr_positions v))) (vr_as_of v)) ss = Inr s"
  using assms by (auto simp: scenario_preview_def result_simps Let_def)

lemma scenario_execute_stored:
  assumes preview: "scenario_preview H db k v = Inr s" and v: "long_only v" and created: "is_aware t"
    and policy: "scenario_policy db q (vr_fund_id v) (vr_as_of v) = Inr policy"
    and series: "\<exists>x \<in> set rs. dval x \<le> 0" "length bs = length rs" "int (length rs) + 1 < 10 ^ 28"
    and parameters: "0 < dval c" "dval c < 1" "0 < periods" "0 < n"
    and rules: "\<And>m. \<exists>items. policy_evaluate F (policy_rules db q) m = Inr items"
    and new: "existing_run db k (vr_as_of v) h = None"
    and h: "h = execution_hash H (scr_canonical_input_hash s) rs bs q b c periods n"
    and hex: "\<And>j. length (H j) = 64"
    and refs: "refers fd_id (db_funds db) (vr_fund_id v)"
      "\<forall>p \<in> set (vr_positions v). refers ins_id (db_instruments db) (pv_instrument_id p)"
      "\<forall>r \<in> set (db_scenario_position_results db). refers sr_id (db_scenario_runs db) (spr_scenario_run_id r)"
    and ids: "inj_on ids {..length (vr_positions v)}" "ids 0 \<notin> sr_id ` set (db_scenario_runs db)"
      "\<forall>j. ids j \<notin> spr_id ` set (db_scenario_position_results db)"
  shows "if distinct (map pv_instrument_id (vr_positions v))
    then \<exists>a. ba_scenario a = s \<and> scenario_execute H F ids db k v rs bs q t b c periods n =
      Inr (\<lparr>sx_run_id = ids 0, sx_analysis = a\<rparr>,
        db\<lparr>db_scenario_runs := db_scenario_runs db @ [scenario_run_of (ids 0) k q h b t a],
           db_scenario_position_results := db_scenario_position_results db @ result_rows ids s\<rparr>)
    else scenario_execute H F ids db k v rs bs q t b c periods n = Inl (IntegrityError ''scenario_position_results'')"
proof -
  from preview obtain d ss where d: "load_definition db k (vr_fund_id v) = Inr d"
    and run: "scenario_apply H v d (classifications_at db (set (map pv_instrument_id (vr_positions v))) (vr_as_of v)) ss = Inr s"
    by (rule preview_Inr)
  note r = scenario_apply_Inr [OF run]
  obtain a where a: "scenario_compare F s (scr_classifications s) rs bs (policy_rules db q) b c periods n = Inr a" "ba_scenario a = s"
    using compare_available [OF run v series parameters rules] by blast
  define row where "row = scenario_run_of (ids 0) k q h b t a"
  have v': "long_only (scr_projected s)" by (rule projection_long_only [OF run v])
  have fields: "sr_id row = ids 0" "sr_fund_id row = vr_fund_id v" "sr_scenario_id row = k" "sr_policy_id row = q"
    "sr_as_of row = vr_as_of v" "sr_canonical_input_hash row = h" "sr_calculation_version row = SCENARIO_CALCULATION_VERSION"
    "sr_baseline_value row = vr_portfolio_value v" "sr_projected_value row = vr_portfolio_value (scr_projected s)"
    by (simp_all add: row_def scenario_run_of_def Let_def a(2) r(4))
  have "scenario_run_checks row"
    using v v' hex by (auto simp: scenario_run_checks_def fields h execution_hash_def varchar_def
        SCENARIO_CALCULATION_VERSION_def long_only_def dlt_iff)
  moreover have "scenario_run_refs db row"
    using refs(1) load_definition_Inr [OF d] scenario_policy_Inr [OF policy] by (simp add: scenario_run_refs_def fields)
  moreover have "\<forall>r' \<in> set (db_scenario_runs db). \<not> scenario_run_clash r' row"
    using new ids(2) by (force simp: scenario_run_clash_def fields existing_run_def first_row_None)
  ultimately have db1: "insert_scenario_run db row = Inr (db\<lparr>db_scenario_runs := db_scenario_runs db @ [row]\<rparr>)"
    by (simp add: insert_scenario_run_def insert_row_def)
  have len: "length (scr_positions s) = length (vr_positions v)" by (simp add: r(7))
  have instruments: "map spo_instrument_id (scr_positions s) = map pv_instrument_id (vr_positions v)"
    by (simp add: r(7) position_result_def Let_def o_def)
  have rows: "scenario_position_result_checks x \<and> scenario_position_result_refs (db\<lparr>db_scenario_runs := db_scenario_runs db @ [row]\<rparr>) x
      \<and> (\<forall>y \<in> set (db_scenario_position_results db). \<not> scenario_position_result_clash y x)" if x: "x \<in> set (result_rows ids s)" for x
  proof -
    from x obtain j where j: "j < length (vr_positions v)" "x = position_result_row (ids (Suc j)) (ids 0) (scr_positions s ! j)"
      by (auto simp: in_set_conv_nth result_rows_nth len)
    let ?p = "vr_positions v ! j"
    have p: "?p \<in> set (vr_positions v)" using j(1) by simp
    have spr: "spr_id x = ids (Suc j)" "spr_scenario_run_id x = ids 0" "spr_instrument_id x = pv_instrument_id ?p"
      "spr_baseline_market_value x = pv_market_value ?p" "spr_projected_market_value x = pv_market_value (vr_positions (scr_projected s) ! j)"
      using j by (simp_all add: position_result_row_def r(7,8) position_result_def Let_def)
    have "vr_positions (scr_projected s) ! j \<in> set (vr_positions (scr_projected s))" using j(1) r(8) by simp
    with v v' p have "scenario_position_result_checks x"
      by (simp add: scenario_position_result_checks_def spr dle_iff long_only_def)
    moreover have "scenario_position_result_refs (db\<lparr>db_scenario_runs := db_scenario_runs db @ [row]\<rparr>) x"
      using refs(2) p by (simp add: scenario_position_result_refs_def spr refers_def fields)
    moreover have "\<not> scenario_position_result_clash y x" if "y \<in> set (db_scenario_position_results db)" for y
      using that refs(3) ids(2,3) by (force simp: scenario_position_result_clash_def spr refers_def)
    ultimately show ?thesis by blast
  qed
  have clash: "sorted_wrt (\<lambda>r r'. \<not> scenario_position_result_clash r r') (result_rows ids s)
      \<longleftrightarrow> distinct (map pv_instrument_id (vr_positions v))"
    using result_rows_clash [of ids s] ids(1) by (simp add: len instruments)
  have "scenario_execute H F ids db k v rs bs q t b c periods n =
      bindR (foldR insert_scenario_position_result (db\<lparr>db_scenario_runs := db_scenario_runs db @ [row]\<rparr>) (result_rows ids s))
        (\<lambda>db2. Inr (\<lparr>sx_run_id = ids 0, sx_analysis = a\<rparr>, db2))"
    using created preview policy a(1) new db1 fields(1)
    by (simp add: scenario_execute_def scenario_aware_def policy_rules_def h Let_def result_rows_def row_def)
  note eq = this
  let ?db1 = "db\<lparr>db_scenario_runs := db_scenario_runs db @ [row]\<rparr>"
  show ?thesis
  proof (cases "distinct (map pv_instrument_id (vr_positions v))")
    case True
    then have "foldR insert_scenario_position_result ?db1 (result_rows ids s) =
        Inr (?db1\<lparr>db_scenario_position_results := db_scenario_position_results ?db1 @ result_rows ids s\<rparr>)"
      using rows clash by (simp add: scenario_position_rows.insert_all)
    with True a(2) show ?thesis unfolding eq row_def by (auto intro!: exI [of _ a])
  next
    case False
    with clash have "foldR insert_scenario_position_result ?db1 (result_rows ids s) \<noteq> Inr x" for x
      by (simp add: scenario_position_rows.insert_all)
    then obtain e where "foldR insert_scenario_position_result ?db1 (result_rows ids s) = Inl e"
      by (cases "foldR insert_scenario_position_result ?db1 (result_rows ids s)") blast+
    with False show ?thesis unfolding eq by (auto dest: scenario_position_rows.insert_all_Inl)
  qed
qed

text \<open>C24: An execution completes and stores exactly one run and one result per position, when: the
  scenario can be previewed on the valuation; the valuation is consistent, with nonnegative cash,
  a positive total, positive prices and nonnegative market values; the creation time is aware; the
  policy is one of the fund, effective at the cutoff, whose rules render; the return series has an
  observation that is not positive and the benchmark the same length (below 10^28); confidence is
  strictly between 0 and 1 and periods and top-n are positive; no run of this scenario, cutoff and
  hash is stored yet; digests have 64 characters; fund, instruments and earlier results refer to
  stored rows; and the new ids are distinct and unused. Under the same conditions a valuation that
  lists one instrument in two accounts never records a run: the unique key on run and instrument
  raises an integrity error.\<close>

theorem scenario_execute_recordable:
  assumes preview: "scenario_preview H db k v = Inr s" and v: "long_only v" and created: "is_aware t"
    and policy: "scenario_policy db q (vr_fund_id v) (vr_as_of v) = Inr policy"
    and series: "\<exists>x \<in> set rs. dval x \<le> 0" "length bs = length rs" "int (length rs) + 1 < 10 ^ 28"
    and parameters: "0 < dval c" "dval c < 1" "0 < periods" "0 < n"
    and rules: "\<And>m. \<exists>items. policy_evaluate F (policy_rules db q) m = Inr items"
    and new: "existing_run db k (vr_as_of v) h = None"
    and h: "h = execution_hash H (scr_canonical_input_hash s) rs bs q b c periods n"
    and hex: "\<And>j. length (H j) = 64"
    and refs: "refers fd_id (db_funds db) (vr_fund_id v)"
      "\<forall>p \<in> set (vr_positions v). refers ins_id (db_instruments db) (pv_instrument_id p)"
      "\<forall>r \<in> set (db_scenario_position_results db). refers sr_id (db_scenario_runs db) (spr_scenario_run_id r)"
    and ids: "inj_on ids {..length (vr_positions v)}" "ids 0 \<notin> sr_id ` set (db_scenario_runs db)"
      "\<forall>j. ids j \<notin> spr_id ` set (db_scenario_position_results db)"
  shows "if distinct (map pv_instrument_id (vr_positions v))
    then \<exists>a. ba_scenario a = s \<and> scenario_execute H F ids db k v rs bs q t b c periods n =
      Inr (\<lparr>sx_run_id = ids 0, sx_analysis = a\<rparr>,
        db\<lparr>db_scenario_runs := db_scenario_runs db @ [scenario_run_of (ids 0) k q h b t a],
           db_scenario_position_results := db_scenario_position_results db @ result_rows ids s\<rparr>)
    else scenario_execute H F ids db k v rs bs q t b c periods n = Inl (IntegrityError ''scenario_position_results'')"
  using assms by (rule scenario_execute_stored)

lemma scenario_execute_cases:
  assumes "scenario_execute H F ids db k v rs bs q t b c periods n = Inr (x, db')"
  obtains s policy a where "scenario_preview H db k v = Inr s"
    "scenario_policy db q (vr_fund_id v) (vr_as_of v) = Inr policy"
    "scenario_compare F s (scr_classifications s) rs bs (policy_rules db q) b c periods n = Inr a" "sx_analysis x = a"
    "existing_run db k (vr_as_of v) (execution_hash H (scr_canonical_input_hash s) rs bs q b c periods n) = None \<Longrightarrow>
       \<exists>rows. sx_run_id x = ids 0 \<and> db' = db\<lparr>db_scenario_runs := db_scenario_runs db @
         [scenario_run_of (ids 0) k q (execution_hash H (scr_canonical_input_hash s) rs bs q b c periods n) b t a],
         db_scenario_position_results := rows\<rparr>"
    "\<And>r. existing_run db k (vr_as_of v) (execution_hash H (scr_canonical_input_hash s) rs bs q b c periods n) = Some r \<Longrightarrow>
       sx_run_id x = sr_id r \<and> db' = db"
proof -
  from assms obtain s policy a where s: "scenario_preview H db k v = Inr s"
    "scenario_policy db q (vr_fund_id v) (vr_as_of v) = Inr policy"
    "scenario_compare F s (scr_classifications s) rs bs (policy_rules db q) b c periods n = Inr a"
    by (auto simp: scenario_execute_def result_simps policy_rules_def Let_def)
  let ?h = "execution_hash H (scr_canonical_input_hash s) rs bs q b c periods n"
  have "sx_analysis x = a" using assms s
    by (auto simp: scenario_execute_def result_simps policy_rules_def Let_def split: option.splits)
  moreover have "\<exists>rows. sx_run_id x = ids 0 \<and> db' = db\<lparr>db_scenario_runs := db_scenario_runs db @
      [scenario_run_of (ids 0) k q ?h b t a], db_scenario_position_results := rows\<rparr>"
    if "existing_run db k (vr_as_of v) ?h = None"
    using assms s that
    by (auto simp: scenario_execute_def result_simps policy_rules_def Let_def insert_scenario_run_def scenario_run_of_def
        dest!: scenario_position_rows.insert_all_rows)
  moreover have "sx_run_id x = sr_id r \<and> db' = db" if "existing_run db k (vr_as_of v) ?h = Some r" for r
    using assms s that by (auto simp: scenario_execute_def result_simps policy_rules_def Let_def)
  ultimately show thesis using s by (intro that)
qed

lemma scenario_compare_scenario:
  "scenario_compare F s cls rs bs rules b c periods n = Inr a \<Longrightarrow> ba_scenario a = s"
  by (auto simp: scenario_compare_def result_simps Let_def)

lemma scenario_tables_frame:
  fixes runs rows
  defines "u \<equiv> (\<lambda>db. db\<lparr>db_scenario_runs := runs, db_scenario_position_results := rows\<rparr>)"
  shows "scenario_preview H (u db) k v = scenario_preview H db k v" "policy_rules (u db) q = policy_rules db q"
    "scenario_policy (u db) q f a = scenario_policy db q f a"
proof -
  have "load_definition (u db) k f = load_definition db k f" "sensitivities_at (u db) is a = sensitivities_at db is a"
    "classifications_at (u db) is a = classifications_at db is a" for "is" f a
    by (simp_all add: load_definition_def sensitivities_at_def effective_sensitivities_def classifications_at_def
        effective_classifications_def u_def cong: option.case_cong)
  then show "scenario_preview H (u db) k v = scenario_preview H db k v" by (simp add: scenario_preview_def)
  show "policy_rules (u db) q = policy_rules db q" "scenario_policy (u db) q f a = scenario_policy db q f a"
    by (simp_all add: policy_rules_def scenario_policy_def u_def)
qed

text \<open>C25: Executing the same scenario on the same valuation, series and policy again, at any aware
  creation time, returns the stored run and the same analysis and stores nothing, whatever the
  ids.\<close>

theorem scenario_execute_idempotent:
  assumes run: "scenario_execute H F ids db k v rs bs q t b c periods n = Inr (x, db')" and "is_aware t'"
  shows "scenario_execute H F ids' db' k v rs bs q t' b c periods n = Inr (x, db')"
  using run
proof (cases rule: scenario_execute_cases)
  case (1 s policy a)
  let ?h = "execution_hash H (scr_canonical_input_hash s) rs bs q b c periods n"
  have a: "ba_scenario a = s" using 1(3) by (rule scenario_compare_scenario)
  have base: "scr_baseline s = v" using 1(1) by (rule preview_Inr) (rule scenario_apply_Inr(4))
  have "\<exists>r. existing_run db' k (vr_as_of v) ?h = Some r \<and> sr_id r = sx_run_id x"
    and "scenario_preview H db' k v = scenario_preview H db k v" "policy_rules db' q = policy_rules db q"
      "scenario_policy db' q (vr_fund_id v) (vr_as_of v) = scenario_policy db q (vr_fund_id v) (vr_as_of v)"
  proof (atomize (full), cases "existing_run db k (vr_as_of v) ?h")
    case None
    from 1(5) [OF this] obtain rows where x: "sx_run_id x = ids 0"
      "db' = db\<lparr>db_scenario_runs := db_scenario_runs db @ [scenario_run_of (ids 0) k q ?h b t a], db_scenario_position_results := rows\<rparr>"
      by blast
    with None have "existing_run db' k (vr_as_of v) ?h = Some (scenario_run_of (ids 0) k q ?h b t a)"
      by (simp add: existing_run_def first_row_append scenario_run_of_def Let_def a base)
    with x(1) show "(\<exists>r. existing_run db' k (vr_as_of v) ?h = Some r \<and> sr_id r = sx_run_id x)
        \<and> scenario_preview H db' k v = scenario_preview H db k v \<and> policy_rules db' q = policy_rules db q
        \<and> scenario_policy db' q (vr_fund_id v) (vr_as_of v) = scenario_policy db q (vr_fund_id v) (vr_as_of v)"
      unfolding x(2) scenario_tables_frame by (simp add: scenario_run_of_def Let_def)
  qed (use 1(6) in auto)
  then show ?thesis using 1(1-4) assms(2)
    by (cases x) (auto simp: scenario_execute_def scenario_aware_def policy_rules_def Let_def)
qed

theorem scenario_execute_needs_benchmark:
  "scenario_execute H F ids db k v rs [] q t b c periods n \<noteq> Inr (x, db')"
proof
  assume "scenario_execute H F ids db k v rs [] q t b c periods n = Inr (x, db')"
  then show False
  proof (cases rule: scenario_execute_cases)
    case (1 s policy a)
    then obtain e e' k k' where "risk_calculate rs [] (vr_portfolio_value (scr_baseline s)) e c periods = Inr k"
      "risk_calculate (rs @ [scr_portfolio_return_impact s]) [b] (vr_portfolio_value (scr_projected s)) e' c periods = Inr k'"
      by (auto simp: scenario_compare_def result_simps Let_def)
    then show False by (auto simp: risk_calculate_def result_simps)
  qed
qed

section \<open>What a preview reads\<close>

lemma table_key_inj:
  assumes "table_ok clash checks rows" and "\<And>r r'. f r = f r' \<Longrightarrow> clash r r'"
  shows "inj_on f (set rows)"
proof -
  have "keyed_table clash f" by (rule keyed_table.intro) (rule assms(2))
  then have "distinct (map f rows)" using assms(1) by (rule keyed_table.keys_distinct)
  then show ?thesis by (simp add: distinct_map)
qed

lemma sorted_rows_cong:
  assumes "table_ok clash checks rows" and "\<And>r r'. f r = f r' \<Longrightarrow> clash r r'"
    and "mset rows' = mset (filter P rows)"
  shows "sort_key f (filter Q rows') = sort_key f (filter Q (filter P rows))"
proof -
  have "set rows' = set (filter P rows)" using assms(3) by (rule mset_eq_setD)
  then have "inj_on f (set rows')" using inj_on_subset [OF table_key_inj [OF assms(1,2)]] by auto
  with assms(3) show ?thesis by (rule sort_key_filter_cong)
qed

definition shocks_of :: "database \<Rightarrow> uuid \<Rightarrow> scenario_shock_row list" where
  "shocks_of db k = filter (\<lambda>s. shr_scenario_id s = k) (db_scenario_shocks db)"

definition classifications_until :: "database \<Rightarrow> datetime \<Rightarrow> instrument_classification_row list" where
  "classifications_until db a = filter (\<lambda>r. instant (cl_effective_from r) \<le> instant a) (db_instrument_classifications db)"

definition sensitivities_until :: "database \<Rightarrow> datetime \<Rightarrow> instrument_risk_sensitivity_row list" where
  "sensitivities_until db a = filter (\<lambda>r. instant (irs_effective_from r) \<le> instant a) (db_instrument_risk_sensitivities db)"

theorem preview_point_in_time:
  assumes tables: "table_ok scenario_shock_clash scenario_shock_checks (db_scenario_shocks db)"
      "table_ok instrument_classification_clash instrument_classification_checks (db_instrument_classifications db)"
      "table_ok instrument_risk_sensitivity_clash instrument_risk_sensitivity_checks (db_instrument_risk_sensitivities db)"
    and same: "db_scenario_definitions db' = db_scenario_definitions db"
      "mset (shocks_of db' k) = mset (shocks_of db k)"
      "mset (classifications_until db' (vr_as_of v)) = mset (classifications_until db (vr_as_of v))"
      "mset (sensitivities_until db' (vr_as_of v)) = mset (sensitivities_until db (vr_as_of v))"
  shows "scenario_preview H db' k v = scenario_preview H db k v"
proof -
  let ?a = "vr_as_of v"
  have "sort_key (\<lambda>s. (shr_sequence s, shr_id s)) (shocks_of db' k) = sort_key (\<lambda>s. (shr_sequence s, shr_id s)) (shocks_of db k)"
    using sorted_rows_cong [OF tables(1), of "\<lambda>s. (shr_sequence s, shr_id s)" "shocks_of db' k" "\<lambda>s. shr_scenario_id s = k" "\<lambda>_. True"]
      same(2) by (simp add: scenario_shock_clash_def shocks_of_def)
  then have "load_definition db' k (vr_fund_id v) = load_definition db k (vr_fund_id v)"
    by (simp add: load_definition_def same(1) shocks_of_def cong: option.case_cong)
  moreover have "effective_classifications db' is ?a = effective_classifications db is ?a" for "is"
    using sorted_rows_cong [OF tables(2), of "\<lambda>r. (cl_instrument_id r, - instant (cl_effective_from r))" "classifications_until db' ?a"
        "\<lambda>r. instant (cl_effective_from r) \<le> instant ?a" "\<lambda>r. cl_instrument_id r \<in> is
          \<and> (case cl_effective_to r of None \<Rightarrow> True | Some t \<Rightarrow> instant ?a < instant t)"] same(3)
    by (simp add: effective_classifications_def classifications_until_def instrument_classification_clash_def conj_ac)
  moreover have "effective_sensitivities db' is ?a = effective_sensitivities db is ?a" for "is"
    using sorted_rows_cong [OF tables(3), of "\<lambda>r. (irs_instrument_id r, - instant (irs_effective_from r))" "sensitivities_until db' ?a"
        "\<lambda>r. instant (irs_effective_from r) \<le> instant ?a" "\<lambda>r. irs_instrument_id r \<in> is
          \<and> (case irs_effective_to r of None \<Rightarrow> True | Some t \<Rightarrow> instant ?a < instant t)"] same(4)
    by (simp add: effective_sensitivities_def sensitivities_until_def instrument_risk_sensitivity_clash_def conj_ac)
  ultimately show ?thesis by (simp add: scenario_preview_def classifications_at_def sensitivities_at_def)
qed

section \<open>Stored loadings\<close>

text \<open>C37: Factor loadings stored as the texts of their decimals are read back exactly, coefficient
  and exponent, whatever their size, in the order of the names.\<close>

theorem factor_loadings_read_back:
  "factor_loadings (JObj (map (\<lambda>(name, d). (name, JStr (dec_text d))) ls)) = Inr (sort_key (\<lambda>(name, d). (name, dval d)) ls)"
proof -
  have "foldR (\<lambda>out (name, j). bindR (decimal_of_json j) (\<lambda>d. Inr (out @ [(name, d)]))) out
      (map (\<lambda>(name, d). (name, JStr (dec_text d))) ls) = Inr (out @ ls)" for out
    by (induction ls arbitrary: out) (auto simp: decimal_of_json_def decimal_literal_text)
  from this [of "[]"] show ?thesis by (simp add: factor_loadings_def)
qed

end
