(* ===== verification/Scenario_Witnesses.thy ===== *)
theory Scenario_Witnesses
  imports Scenario_Properties Market_Witnesses Platform_Witnesses
begin

text \<open>
  A market shock of minus ten percent: applied to the valuation of the example ledger, and executed
  on a stored scenario under the policy of \<open>Platform_Witnesses\<close>.
\<close>

section \<open>A market shock on the example valuation\<close>

definition market_shock :: scenario_shock where
  "market_shock = \<lparr>shk_id = 81, shk_target_type = Target_MARKET, shk_target = ''ALL'', shk_magnitude = Dec (- 1) (- 1),
     shk_unit = Unit_RELATIVE_RETURN, shk_sequence = 1\<rparr>"

definition stress :: scenario_definition where
  "stress = \<lparr>scd_id = 80, scd_fund_id = 1, scd_name = ''s'', scd_version = 1, scd_kind = Scenario_HYPOTHETICAL,
     scd_shocks = [market_shock], scd_source_metadata = JNull\<rparr>"

lemma stress_valid: "validate_scenario stress = Inr ()"
  by (simp add: validate_scenario_def stress_def validate_shock_def market_shock_def strip_def is_space_def)

lemma stress_contributions: "contributions stress i c sens = [contribution_of market_shock (Dec (- 1) (- 1))]"
  by (simp add: contributions_def ordered_shocks_def stress_def market_shock_def shock_return_def List.map_filter_simps)

lemma stress_impact: "position_impact stress cls sens p = Dec (- 1) (- 1)"
  by (simp add: position_impact_def stress_contributions contribution_of_def dec_eval)

lemma tenth: "dval (Dec (- 1) (- 1)) = - 1 / 10"
  by (simp add: dval_def power_int_minus)

theorem stress_direction_witness:
  "\<exists>v r. value_at no_digest example_market 1 (Aware 7 0) 0 None None Price_CLOSE = Inr v
     \<and> scenario_apply no_digest v stress [] [] = Inr r \<and> length (scr_positions r) = 2 \<and> dval (scr_pnl_impact r) \<le> 0"
proof -
  obtain v v1 v2 where run: "value_at no_digest example_market 1 (Aware 7 0) 0 None None Price_CLOSE = Inr v"
    and v: "vr_positions v = [v1, v2]" "vr_cash_value v = Dec 8495 (- 1)" "vr_fund_id v = 1"
      "vr_portfolio_value v = dadd (vr_cash_value v) (vr_securities_value v)"
    by (rule example_valued)
  have sec: "vr_securities_value v = dsum (map pv_market_value (vr_positions v))" using run by (rule value_at_Inr) blast
  have prices: "market_price_checks r \<and> representable (dval (mp_price r))" if r: "r \<in> set (db_market_prices example_market)" for r
  proof -
    have "dval (mp_price r) \<in> {25, 11}" using r by (auto simp: example_market_def example_price_def dval_def)
    then show ?thesis using example_market_rows(2) [OF r] representable_nat [of 25] representable_nat [of 11] by auto
  qed
  have "0 \<le> dval (vr_cash_value v)" by (simp add: v(2) dval_def power_int_minus)
  moreover have "0 < dval (vr_portfolio_value v)"
  proof -
    have "0 \<le> dval (pv_market_value w)" if w: "w \<in> set (vr_positions v)" for w
      using value_at_each [OF run example_market_rows(2) w] by simp
    then have "0 \<le> dval (vr_securities_value v)" unfolding sec by (intro dsum_nonneg) auto
    then show ?thesis by (simp add: v(2,4) dval_dadd) (simp add: dval_def power_int_minus)
  qed
  moreover from this obtain r where r: "scenario_apply no_digest v stress [] [] = Inr r"
    using scenario_apply_available [of stress v "[]" "[]" no_digest] stress_valid v(3)
    by (auto simp: stress_impact tenth stress_def [THEN arg_cong [where f = scd_fund_id]])
  moreover have "scr_positions r = map (position_result stress (dict_get []) (dict_get [])) (vr_positions v)"
    using r by (rule scenario_apply_Inr(7))
  ultimately show ?thesis
    using stress_direction [OF run prices r] run r
    by (intro exI [of _ v] exI [of _ r]) (simp add: v(1) position_result_def Let_def stress_impact tenth)
qed

section \<open>Executions of a stored scenario\<close>

definition stress_db :: database where
  "stress_db = plain_base\<lparr>
     db_scenario_definitions := [\<lparr>sd_id = 80, sd_fund_id = 1, sd_name = ''s'', sd_version = 1, sd_kind = Scenario_HYPOTHETICAL,
       sd_description = [], sd_source_metadata = JNull, sd_created_at = Aware 0 0, sd_created_by_user_id = None\<rparr>],
     db_scenario_shocks := [\<lparr>shr_id = 81, shr_scenario_id = 80, shr_target_type = Target_MARKET, shr_target = ''ALL'',
       shr_magnitude = Dec (- 1) (- 1), shr_unit = Unit_RELATIVE_RETURN, shr_sequence = 1\<rparr>]\<rparr>"

definition stressed_position :: "uuid \<Rightarrow> position_valuation" where
  "stressed_position account = \<lparr>pv_account_id = account, pv_instrument_id = 8, pv_quantity = Dec 1 0, pv_price = Dec 25 0,
     pv_market_value = Dec 25 0, pv_cost_basis = None, pv_unrealized_pnl = None, pv_cost_basis_status = UNKNOWN,
     pv_quote = quote_of example_price (Aware 50 0) 0\<rparr>"

text \<open>The fund holds instrument 8 in each of the accounts.\<close>

definition stressed :: "uuid list \<Rightarrow> valuation_result" where
  "stressed accounts = (let ps = map stressed_position accounts; s = dsum (map pv_market_value ps) in
     \<lparr>vr_fund_id = 1, vr_as_of = Aware 50 0, vr_currency = ''USD'', vr_cash_value = dunit, vr_securities_value = s,
      vr_portfolio_value = dadd dunit s, vr_unrealized_pnl = None, vr_realized_pnl = None, vr_positions = ps,
      vr_warnings = [], vr_reconstruction_input_hash = hash_text CHR ''0''\<rparr>)"

lemma stressed_long_only: "long_only (stressed accounts)"
proof -
  have each: "dval (pv_price (stressed_position i)) = 25" "dval (pv_market_value (stressed_position i)) = 25" for i
    by (simp_all add: stressed_position_def dval_def)
  then have "0 \<le> dval (dsum (map pv_market_value (map stressed_position accounts)))"
    by (intro dsum_nonneg) auto
  then show ?thesis using each by (simp add: long_only_def stressed_def Let_def dval_dadd)
qed

lemma stress_definition: "load_definition stress_db 80 1 = Inr stress"
  by (simp add: load_definition_def stress_db_def shock_of_def stress_def market_shock_def)

lemma stress_previewed: "\<exists>s. scenario_preview H stress_db 80 (stressed accounts) = Inr s"
proof -
  have "sensitivities_at stress_db is a = Inr []" for "is" a
    by (simp add: sensitivities_at_def effective_sensitivities_def stress_db_def plain_base_def gov_base_def example_db_def empty_database_def)
  moreover have "vr_fund_id (stressed accounts) = 1" by (simp add: stressed_def Let_def)
  moreover have "0 < dval (vr_portfolio_value (stressed accounts))" using stressed_long_only [of accounts] unfolding long_only_def by blast
  ultimately show ?thesis
    using scenario_apply_available [of stress "stressed accounts"] stress_valid
    by (simp add: scenario_preview_def stress_definition stress_impact tenth stress_def [THEN arg_cong [where f = scd_fund_id]] Let_def)
qed

lemma stress_policy: "\<exists>p. scenario_policy stress_db 71 1 (Aware 50 0) = Inr p"
  by (simp add: scenario_policy_def stress_db_def plain_base_def gov_base_def)

lemma stress_rules: "\<exists>items. policy_evaluate no_formatter (policy_rules stress_db 71) m = Inr items"
  by (cases "m ''m''") (simp_all add: policy_evaluate_def policy_rules_def stress_db_def plain_base_def gov_base_def
      rule_input_def evaluate_rule_def explanation_def plain_text Let_def)

text \<open>The execution of the stored scenario on a holding in the given accounts, after one loss-free and one losing period.\<close>

abbreviation stress_run :: "uuid list \<Rightarrow> app_error + scenario_execution \<times> database" where
  "stress_run accounts \<equiv> scenario_execute example_digest no_formatter (gov_ids 200) stress_db 80 (stressed accounts)
     [Dec (- 1) (- 2)] [dzero] 71 (Aware 60 0) dzero (Dec 9 (- 1)) 252 10"

lemma stress_inputs:
  "is_aware (Aware 60 0)" "\<exists>x \<in> set [Dec (- 1) (- 2)]. dval x \<le> 0" "length [dzero] = length [Dec (- 1) (- 2)]"
  "int (length [Dec (- 1) (- 2)]) + 1 < 10 ^ 28" "0 < dval (Dec 9 (- 1))" "dval (Dec 9 (- 1)) < 1" "0 < (252 :: int)" "0 < (10 :: int)"
  "refers fd_id (db_funds stress_db) (vr_fund_id (stressed accounts))"
  "\<forall>p \<in> set (vr_positions (stressed accounts)). refers ins_id (db_instruments stress_db) (pv_instrument_id p)"
  "\<forall>r \<in> set (db_scenario_position_results stress_db). refers sr_id (db_scenario_runs stress_db) (spr_scenario_run_id r)"
  "gov_ids 200 0 \<notin> sr_id ` set (db_scenario_runs stress_db)"
  "\<forall>j. gov_ids 200 j \<notin> spr_id ` set (db_scenario_position_results stress_db)"
  "existing_run stress_db 80 (vr_as_of (stressed accounts)) h = None"
  by (simp_all add: stress_db_def plain_base_def gov_base_def example_db_def empty_database_def refers_def stressed_def
      stressed_position_def Let_def existing_run_def dval_def power_int_minus)

lemma stress_ids:
  "inj_on (gov_ids 200) {..length (vr_positions (stressed [2]))}" "inj_on (gov_ids 200) {..length (vr_positions (stressed [2, 3]))}"
  by (simp_all add: stressed_def Let_def inj_on_def atMost_Suc)

lemma stress_policy_at: "\<exists>p. scenario_policy stress_db 71 (vr_fund_id (stressed accounts)) (vr_as_of (stressed accounts)) = Inr p"
  using stress_policy by (simp add: stressed_def Let_def)

lemma stress_instruments:
  "distinct (map pv_instrument_id (vr_positions (stressed [2])))" "\<not> distinct (map pv_instrument_id (vr_positions (stressed [2, 3])))"
  by (simp_all add: stressed_def stressed_position_def Let_def)

theorem scenario_execute_recordable_witness:
  "(\<exists>x db'. stress_run [2] = Inr (x, db') \<and> length (db_scenario_runs db') = 1)
   \<and> stress_run [2, 3] = Inl (IntegrityError ''scenario_position_results'')"
proof -
  obtain s s' p p' where s: "scenario_preview example_digest stress_db 80 (stressed [2]) = Inr s"
    "scenario_preview example_digest stress_db 80 (stressed [2, 3]) = Inr s'"
    "scenario_policy stress_db 71 (vr_fund_id (stressed [2])) (vr_as_of (stressed [2])) = Inr p"
    "scenario_policy stress_db 71 (vr_fund_id (stressed [2, 3])) (vr_as_of (stressed [2, 3])) = Inr p'"
    using stress_previewed stress_policy_at by metis
  note recordable = scenario_execute_recordable [OF _ stressed_long_only stress_inputs(1) _ stress_inputs(2-8) stress_rules
      stress_inputs(14) refl length_example_digest stress_inputs(9-11) _ stress_inputs(12,13)]
  have "db_scenario_runs stress_db = []" by (simp add: stress_db_def plain_base_def gov_base_tables)
  with recordable [OF s(1,3) stress_ids(1), of dzero] recordable [OF s(2,4) stress_ids(2), of dzero] stress_instruments
  show ?thesis by auto
qed

lemma stress_executed: "\<exists>x db'. stress_run [2] = Inr (x, db')"
proof -
  obtain s p where s: "scenario_preview example_digest stress_db 80 (stressed [2]) = Inr s"
    "scenario_policy stress_db 71 (vr_fund_id (stressed [2])) (vr_as_of (stressed [2])) = Inr p"
    using stress_previewed stress_policy_at by metis
  show ?thesis
    using scenario_execute_stored [OF s(1) stressed_long_only stress_inputs(1) s(2) stress_inputs(2-8) stress_rules
      stress_inputs(14) refl length_example_digest stress_inputs(9-11) stress_ids(1) stress_inputs(12,13), of dzero]
      stress_instruments(1) by auto
qed

theorem scenario_execute_idempotent_witness:
  "\<exists>x db'. stress_run [2] = Inr (x, db') \<and> scenario_execute example_digest no_formatter (gov_ids 300) db' 80 (stressed [2])
     [Dec (- 1) (- 2)] [dzero] 71 (Aware 99 0) dzero (Dec 9 (- 1)) 252 10 = Inr (x, db')"
proof -
  obtain x db' where run: "stress_run [2] = Inr (x, db')" using stress_executed by blast
  have "is_aware (Aware 99 0)" by simp
  with run scenario_execute_idempotent [OF run] show ?thesis by blast
qed

section \<open>Two shocks, stored in either order\<close>

definition shock_row :: "uuid \<Rightarrow> int \<Rightarrow> scenario_shock_row" where
  "shock_row i n = \<lparr>shr_id = i, shr_scenario_id = 80, shr_target_type = Target_MARKET, shr_target = ''ALL'',
     shr_magnitude = Dec (- n) (- 1), shr_unit = Unit_RELATIVE_RETURN, shr_sequence = n\<rparr>"

definition later_class :: instrument_classification_row where
  "later_class = \<lparr>cl_id = 90, cl_instrument_id = 8, cl_sector = ''S'', cl_asset_class = ''A'', cl_geography = ''G'',
     cl_effective_from = Aware 60 0, cl_effective_to = None, cl_source = ''s'', cl_source_metadata = JNull, cl_recorded_at = Aware 60 0\<rparr>"

theorem preview_point_in_time_witness:
  "scenario_preview example_digest (stress_db\<lparr>db_scenario_shocks := [shock_row 82 2, shock_row 81 1], db_instrument_classifications := [later_class]\<rparr>)
     80 (stressed [2]) = scenario_preview example_digest (stress_db\<lparr>db_scenario_shocks := [shock_row 81 1, shock_row 82 2]\<rparr>) 80 (stressed [2])"
  by (rule preview_point_in_time)
    (simp_all add: table_ok_def shock_row_def scenario_shock_clash_def scenario_shock_checks_def varchar_def shocks_of_def
      classifications_until_def sensitivities_until_def later_class_def stressed_def Let_def stress_db_def plain_base_def gov_base_def
      example_db_def empty_database_def)

end
