(* ===== verification/Csv_Reader.thy ===== *)
theory Csv_Reader
  imports Models
begin

text \<open>
  \<open>csv.DictReader(io.StringIO(content))\<close> of the standard library with its default dialect, as CPython
  3.12 reads it: the character automaton of the reader, records that span lines, and the
  dictionaries by header. The records are a list that ends with the error, if there is one, because
  the code handles each record before it reads the next.
\<close>

section \<open>The automaton\<close>

datatype csv_state =
    Start_Record | Start_Field | In_Field | In_Quoted_Field | Quote_In_Quoted_Field | Eat_Newline

record csv_parser =
  cp_state :: csv_state
  cp_field :: string
  cp_fields :: "string list"

definition csv_start :: csv_parser where
  "csv_start = \<lparr>cp_state = Start_Record, cp_field = [], cp_fields = []\<rparr>"

definition field_limit :: nat where
  "field_limit = 131072"

definition add_char :: "char \<Rightarrow> csv_state \<Rightarrow> csv_parser \<Rightarrow> app_error + csv_parser" where
  "add_char c st p = (if field_limit \<le> length (cp_field p)
     then Inl (CsvError ''field larger than field limit (131072)'')
     else Inr (p\<lparr>cp_field := cp_field p @ [c], cp_state := st\<rparr>))"

definition save_field :: "csv_state \<Rightarrow> csv_parser \<Rightarrow> csv_parser" where
  "save_field st p = p\<lparr>cp_fields := cp_fields p @ [cp_field p], cp_field := [], cp_state := st\<rparr>"

definition newline :: "char \<Rightarrow> bool" where
  "newline c \<longleftrightarrow> c = CHR 10 \<or> c = CHR 13"

definition start_field :: "char \<Rightarrow> csv_parser \<Rightarrow> app_error + csv_parser" where
  "start_field c p =
     (if newline c then Inr (save_field Eat_Newline p)
      else if c = CHR 34 then Inr (p\<lparr>cp_state := In_Quoted_Field\<rparr>)
      else if c = CHR '','' then Inr (save_field Start_Field p)
      else add_char c In_Field p)"

text \<open>One character of a line.\<close>

definition csv_char :: "csv_parser \<Rightarrow> char \<Rightarrow> app_error + csv_parser" where
  "csv_char p c = (case cp_state p of
     Start_Record \<Rightarrow> if newline c then Inr (p\<lparr>cp_state := Eat_Newline\<rparr>) else start_field c p
   | Start_Field \<Rightarrow> start_field c p
   | In_Field \<Rightarrow>
       if newline c then Inr (save_field Eat_Newline p)
       else if c = CHR '','' then Inr (save_field Start_Field p)
       else add_char c In_Field p
   | In_Quoted_Field \<Rightarrow>
       if c = CHR 34 then Inr (p\<lparr>cp_state := Quote_In_Quoted_Field\<rparr>) else add_char c In_Quoted_Field p
   | Quote_In_Quoted_Field \<Rightarrow>
       if c = CHR 34 then add_char c In_Quoted_Field p
       else if c = CHR '','' then Inr (save_field Start_Field p)
       else if newline c then Inr (save_field Eat_Newline p)
       else add_char c In_Field p
   | Eat_Newline \<Rightarrow>
       if newline c then Inr p
       else Inl (CsvError (''new-line character seen in unquoted field - ''
         @ ''do you need to open the file with newline='' @ [CHR 39, CHR 39] @ ''?'')))"

text \<open>The end of a line.\<close>

definition csv_end_line :: "csv_parser \<Rightarrow> csv_parser" where
  "csv_end_line p = (case cp_state p of
     Start_Record \<Rightarrow> p
   | Start_Field \<Rightarrow> save_field Start_Record p
   | In_Field \<Rightarrow> save_field Start_Record p
   | In_Quoted_Field \<Rightarrow> p
   | Quote_In_Quoted_Field \<Rightarrow> save_field Start_Record p
   | Eat_Newline \<Rightarrow> p\<lparr>cp_state := Start_Record\<rparr>)"

definition csv_line :: "csv_parser \<Rightarrow> string \<Rightarrow> app_error + csv_parser" where
  "csv_line p line = bindR (foldR csv_char p line) (\<lambda>p'. Inr (csv_end_line p'))"

section \<open>Records\<close>

text \<open>The lines of a \<open>StringIO\<close>, each with its newline.\<close>

fun text_lines :: "string \<Rightarrow> string list" where
  "text_lines [] = []"
| "text_lines (c # s) = (if c = CHR 10 then [c] # text_lines s
     else (case text_lines s of [] \<Rightarrow> [[c]] | l # ls \<Rightarrow> (c # l) # ls))"

text \<open>One record, and the lines after it; \<open>None\<close> at the end of the input.\<close>

fun read_record :: "csv_parser \<Rightarrow> string list \<Rightarrow> app_error + (string list \<times> string list) option" where
  "read_record p [] = Inr (if cp_field p \<noteq> [] \<or> cp_state p = In_Quoted_Field
     then Some (cp_fields p @ [cp_field p], []) else None)"
| "read_record p (l # ls) = bindR (csv_line p l) (\<lambda>p'.
     if cp_state p' = Start_Record then Inr (Some (cp_fields p', ls)) else read_record p' ls)"

lemma read_record_lines: "read_record p (l # ls) = Inr (Some (r, ls')) \<Longrightarrow> length ls' \<le> length ls"
proof (induction ls arbitrary: p l)
  case Nil
  then show ?case by (auto simp: result_simps split: if_splits)
next
  case (Cons l' ls)
  from Cons.prems obtain p' where "csv_line p l = Inr p'"
    and "(if cp_state p' = Start_Record then Inr (Some (cp_fields p', l' # ls)) else read_record p' (l' # ls)) = Inr (Some (r, ls'))"
    by (auto simp: result_simps simp del: read_record.simps(2) simp: read_record.simps(2) [of p l])
  with Cons.IH [of p' l'] show ?case by (auto split: if_splits simp del: read_record.simps)
qed

function csv_records :: "string list \<Rightarrow> (app_error + string list) list" where
  "csv_records lines = (if lines = [] then []
     else (case read_record csv_start lines of
         Inl e \<Rightarrow> [Inl e]
       | Inr None \<Rightarrow> []
       | Inr (Some (r, rest)) \<Rightarrow> Inr r # csv_records rest))"
  by pat_completeness auto
termination
proof (relation "measure length")
  fix lines :: "string list" and x x' r rest
  assume "lines \<noteq> []" "read_record csv_start lines = Inr x" "x = Some x'" "(r, rest) = x'"
  then show "(rest, lines) \<in> measure length"
    using read_record_lines [of csv_start "hd lines" "tl lines" r rest] by (cases lines) (auto simp del: read_record.simps)
qed simp

declare csv_records.simps [simp del]

section \<open>Dictionaries by header\<close>

text \<open>
  Missing cells are \<open>None\<close>. The surplus cells of a long row, which \<open>DictReader\<close> keeps under the key
  \<open>None\<close>, are left out: no reader of the program looks at that key.
\<close>

definition csv_row :: "string list \<Rightarrow> string list \<Rightarrow> (string, string option) dict" where
  "csv_row header cells =
     foldl (\<lambda>d k. dict_set k None d) (foldl (\<lambda>d (k, v). dict_set k (Some v) d) [] (zip header cells))
       (drop (length cells) header)"

text \<open>The header is the first record; later records without any cell are skipped.\<close>

definition dict_reader :: "string \<Rightarrow> app_error + string list option \<times> (app_error + (string, string option) dict) list" where
  "dict_reader content = (case csv_records (text_lines content) of
     [] \<Rightarrow> Inr (None, [])
   | Inl e # _ \<Rightarrow> Inl e
   | Inr header # records \<Rightarrow> Inr (Some header,
       map (\<lambda>r. bindR r (\<lambda>cells. Inr (csv_row header cells))) (filter (\<lambda>r. r \<noteq> Inr []) records)))"

end
