(* ===== verification/Imports.thy ===== *)
theory Imports
  imports Csv_Reader Literals Ledger
begin

text \<open>
  \<open>app/imports\<close>: the CSV import of transactions (\<open>csv_pipeline.py\<close>) and the provenance of a
  transaction (\<open>provenance.py\<close>). \<open>H\<close> digests JSON payloads and \<open>D\<close> the text of the file; \<open>ids\<close> are
  the results of \<open>uuid4()\<close> and \<open>clock\<close> those of the clocks, in the order of the calls.
\<close>

section \<open>Report\<close>

record import_report =
  rep_batch_id :: uuid
  rep_status :: import_batch_status
  rep_total_count :: int
  rep_posted_count :: int
  rep_duplicate_count :: int
  rep_rejected_count :: int
  rep_conflict_count :: int
  rep_reused_batch :: bool

definition report_of :: "import_batch_row \<Rightarrow> bool \<Rightarrow> import_report" where
  "report_of b reused = \<lparr>rep_batch_id = ib_id b, rep_status = ib_status b, rep_total_count = ib_total_count b,
     rep_posted_count = ib_posted_count b, rep_duplicate_count = ib_duplicate_count b,
     rep_rejected_count = ib_rejected_count b, rep_conflict_count = ib_conflict_count b, rep_reused_batch = reused\<rparr>"

section \<open>Cells\<close>

type_synonym raw_row = "(string, string) dict"

definition optional_cell :: "raw_row \<Rightarrow> string \<Rightarrow> string option" where
  "optional_cell raw field = (let v = strip (case dict_get raw field of None \<Rightarrow> [] | Some s \<Rightarrow> s) in
     if v = [] then None else Some v)"

definition required_cell :: "raw_row \<Rightarrow> string \<Rightarrow> app_error + string" where
  "required_cell raw field = (case optional_cell raw field of
     None \<Rightarrow> Inl (RowNormalizationError ''MISSING_FIELD'' (field @ '' is required'')) | Some v \<Rightarrow> Inr v)"

text \<open>
  \<open>Decimal(value.replace(',', ''))\<close>. NaN and the infinities, which \<open>dec\<close> lacks, end the import here
  with the exception that a NaN raises when the ledger compares it.
\<close>

definition decimal_cell :: "raw_row \<Rightarrow> string \<Rightarrow> app_error + dec option" where
  "decimal_cell raw field = (case optional_cell raw field of
     None \<Rightarrow> Inr None
   | Some v \<Rightarrow> (case decimal_literal (filter (\<lambda>c. c \<noteq> CHR '','') v) of
       Finite d \<Rightarrow> Inr (Some d)
     | Special \<Rightarrow> Inl InvalidOperation
     | Malformed \<Rightarrow> Inl (RowNormalizationError ''INVALID_DECIMAL'' (''invalid '' @ field @ '': '' @ v))))"

definition datetime_cell :: "string \<Rightarrow> string \<Rightarrow> app_error + datetime" where
  "datetime_cell v field = (case from_isoformat (zulu v) of
     None \<Rightarrow> Inl (RowNormalizationError ''INVALID_DATETIME'' (''invalid '' @ field @ '': '' @ v))
   | Some t \<Rightarrow> bindR (requireR (is_aware t)
       (RowNormalizationError ''NAIVE_DATETIME'' (field @ '' must include a timezone''))) (\<lambda>_. Inr t))"

definition transaction_type_of :: "string \<Rightarrow> transaction_type option" where
  "transaction_type_of s = find (\<lambda>t. transaction_type_value t = s)
     [BUY, SELL, CASH_DEPOSIT, CASH_WITHDRAWAL, DIVIDEND, FEE, OPENING_CASH, OPENING_POSITION, REVERSAL]"

text \<open>
  The lookup of the type stands inside \<open>try .. except ValueError\<close>, and the exception for a missing
  cell is a \<open>ValueError\<close> too: it is reported as an unsupported type.
\<close>

definition type_cell :: "raw_row \<Rightarrow> app_error + transaction_type" where
  "type_cell raw =
     (let unsupported = RowNormalizationError ''UNSUPPORTED_TRANSACTION_TYPE''
        (''unsupported transaction type: '' @ (case dict_get raw ''transaction_type'' of None \<Rightarrow> [] | Some s \<Rightarrow> s)) in
      (case required_cell raw ''transaction_type'' of
         Inl _ \<Rightarrow> Inl unsupported
       | Inr s \<Rightarrow> (case transaction_type_of (upper s) of None \<Rightarrow> Inl unsupported | Some t \<Rightarrow> Inr t)))"

definition instrument_by_symbol :: "database \<Rightarrow> string \<Rightarrow> app_error + uuid" where
  "instrument_by_symbol db symbol =
     (case filter (\<lambda>i. upper (ins_symbol i) = upper symbol) (db_instruments db) of
        [] \<Rightarrow> Inl (RowNormalizationError ''UNKNOWN_INSTRUMENT'' (''unknown instrument: '' @ symbol))
      | [i] \<Rightarrow> Inr (ins_id i)
      | _ \<Rightarrow> Inl (RowNormalizationError ''AMBIGUOUS_INSTRUMENT'' (''instrument symbol is ambiguous: '' @ symbol)))"

definition normalize_row ::
  "database \<Rightarrow> raw_row \<Rightarrow> uuid \<Rightarrow> uuid \<Rightarrow> string \<Rightarrow> uuid \<Rightarrow> int \<Rightarrow> datetime \<Rightarrow> app_error + create_transaction" where
  "normalize_row db raw fund_id account_id source batch_id row_number recorded_at =
     bindR (required_cell raw ''external_id'') (\<lambda>external_id.
     bindR (type_cell raw) (\<lambda>kind.
     bindR (bindR (required_cell raw ''effective_at'') (\<lambda>v. datetime_cell v ''effective_at'')) (\<lambda>effective_at.
     bindR (case optional_cell raw ''instrument_symbol'' of None \<Rightarrow> Inr None
       | Some symbol \<Rightarrow> bindR (instrument_by_symbol db symbol) (\<lambda>i. Inr (Some i))) (\<lambda>instrument_id.
     bindR (decimal_cell raw ''quantity'') (\<lambda>quantity.
     bindR (decimal_cell raw ''unit_price'') (\<lambda>unit_price.
     bindR (decimal_cell raw ''amount'') (\<lambda>amount.
     bindR (decimal_cell raw ''fees'') (\<lambda>fees.
     Inr \<lparr>ct_fund_id = fund_id, ct_account_id = account_id, ct_transaction_type = kind,
       ct_effective_at = effective_at, ct_recorded_at = recorded_at, ct_source = source,
       ct_external_id = external_id, ct_instrument_id = instrument_id, ct_quantity = quantity,
       ct_unit_price = unit_price, ct_amount = amount,
       ct_fees = (case fees of None \<Rightarrow> dzero | Some d \<Rightarrow> if deq d dzero then dzero else d),
       ct_currency = (case optional_cell raw ''currency'' of None \<Rightarrow> ''USD'' | Some c \<Rightarrow> c),
       ct_trade_date = None, ct_settlement_date = None, ct_import_batch_id = Some batch_id,
       ct_created_by_user_id = None, ct_reverses_transaction_id = None, ct_correction_command_id = None,
       ct_description = optional_cell raw ''description'',
       ct_source_metadata = Some (JObj [(''row_number'', JInt row_number)])\<rparr>))))))))"

section \<open>One row\<close>

text \<open>\<open>{key: value or '' for key, value in source_row.items() if key is not None}\<close>\<close>

definition raw_of :: "(string, string option) dict \<Rightarrow> raw_row" where
  "raw_of row = map (\<lambda>(k, v). (k, case v of None \<Rightarrow> [] | Some s \<Rightarrow> s)) row"

definition raw_json :: "raw_row \<Rightarrow> json" where
  "raw_json raw = JObj (map (\<lambda>(k, v). (k, JStr v)) raw)"

text \<open>The exceptions of \<open>except (LedgerError, RowNormalizationError)\<close>, with \<open>error.code\<close> and \<open>str(error)\<close>.\<close>

definition rejection :: "app_error \<Rightarrow> (string \<times> string) option" where
  "rejection e = (case e of
     RowNormalizationError code m \<Rightarrow> Some (code, m)
   | TransactionValidationError m \<Rightarrow> Some (''VALIDATION_ERROR'', m)
   | OpeningBalanceError m \<Rightarrow> Some (''VALIDATION_ERROR'', m)
   | ReversalError m \<Rightarrow> Some (''VALIDATION_ERROR'', m)
   | _ \<Rightarrow> None)"

definition received_record ::
  "digest \<Rightarrow> uuid \<Rightarrow> uuid \<Rightarrow> string \<Rightarrow> int \<Rightarrow> datetime \<Rightarrow> raw_row \<Rightarrow> import_record_row" where
  "received_record H i batch_id filename row_number now raw =
     \<lparr>ir_id = i, ir_import_batch_id = batch_id, ir_row_number = row_number,
      ir_source_locator = filename @ '':row:'' @ int_text row_number, ir_raw_payload = raw_json raw,
      ir_normalized_payload = None, ir_raw_payload_hash = H (json_value (raw_json raw)), ir_status = Record_RECEIVED,
      ir_transaction_id = None, ir_import_conflict_id = None, ir_error_code = None, ir_error_message = None,
      ir_created_at = now\<rparr>"

fun record_status :: "creation_status \<Rightarrow> import_record_status" where
  "record_status CREATED = Record_POSTED"
| "record_status DUPLICATE = Record_DUPLICATE"
| "record_status CONFLICT = Record_CONFLICT"

definition accepted_record :: "import_record_row \<Rightarrow> create_transaction \<Rightarrow> creation_result \<Rightarrow> import_record_row" where
  "accepted_record r command result = r\<lparr>ir_normalized_payload := Some (JObj (canonical_payload command)),
     ir_transaction_id := Some (tx_id (cr_transaction result)), ir_status := record_status (cr_status result),
     ir_import_conflict_id := (if cr_status result = CONFLICT then map_option ic_id (cr_conflict result) else None)\<rparr>"

definition rejected_record :: "import_record_row \<Rightarrow> create_transaction option \<Rightarrow> string \<times> string \<Rightarrow> import_record_row" where
  "rejected_record r command cause = r\<lparr>ir_status := Record_REJECTED,
     ir_normalized_payload := map_option (\<lambda>c. JObj (canonical_payload c)) command,
     ir_error_code := Some (fst cause), ir_error_message := Some (take 1000 (snd cause))\<rparr>"

text \<open>The body of \<open>try\<close> and its handler: the record as it is left, and the database.\<close>

definition process_row ::
  "digest \<Rightarrow> uuid \<Rightarrow> datetime \<Rightarrow> database \<Rightarrow> uuid \<Rightarrow> uuid \<Rightarrow> string \<Rightarrow> import_record_row \<Rightarrow> raw_row
     \<Rightarrow> app_error + import_record_row \<times> database" where
  "process_row H i detected_at db fund_id account_id source r raw =
     (case normalize_row db raw fund_id account_id source (ir_import_batch_id r) (ir_row_number r) (ir_created_at r) of
        Inl e \<Rightarrow> (case rejection e of None \<Rightarrow> Inl e | Some cause \<Rightarrow> Inr (rejected_record r None cause, db))
      | Inr command \<Rightarrow> (case transaction_service_create H i detected_at db command of
          Inl e \<Rightarrow> (case rejection e of None \<Rightarrow> Inl e | Some cause \<Rightarrow> Inr (rejected_record r (Some command) cause, db))
        | Inr (result, db') \<Rightarrow> Inr (accepted_record r command result, db')))"

section \<open>The import\<close>

definition REQUIRED_COLUMNS :: "string list" where
  "REQUIRED_COLUMNS = [''effective_at'', ''external_id'', ''transaction_type'']"

definition join_comma :: "string list \<Rightarrow> string" where
  "join_comma ss = (case ss of [] \<Rightarrow> [] | s # rest \<Rightarrow> s @ concat (map ((@) '', '') rest))"

definition new_import_batch ::
  "uuid \<Rightarrow> uuid \<Rightarrow> string \<Rightarrow> string \<Rightarrow> string \<Rightarrow> string \<Rightarrow> uuid option \<Rightarrow> datetime \<Rightarrow> import_batch_row" where
  "new_import_batch i fund_id source filename content_hash parser_version user now =
     \<lparr>ib_id = i, ib_fund_id = fund_id, ib_source = source, ib_filename = Some filename,
      ib_content_sha256 = content_hash, ib_parser_version = parser_version, ib_status = Batch_PROCESSING,
      ib_initiated_by_user_id = user, ib_received_at = now, ib_completed_at = None, ib_total_count = 0,
      ib_posted_count = 0, ib_duplicate_count = 0, ib_rejected_count = 0, ib_conflict_count = 0,
      ib_failure_summary = None\<rparr>"

text \<open>The loop: the statuses so far and the database. Row \<open>k\<close> is the \<open>k\<close>-th record after the header.\<close>

definition import_step ::
  "digest \<Rightarrow> (nat \<Rightarrow> uuid) \<Rightarrow> (nat \<Rightarrow> datetime) \<Rightarrow> uuid \<Rightarrow> uuid \<Rightarrow> string \<Rightarrow> string \<Rightarrow> import_batch_row
     \<Rightarrow> import_record_status list \<times> database \<Rightarrow> app_error + (string, string option) dict
     \<Rightarrow> app_error + import_record_status list \<times> database" where
  "import_step H ids clock fund_id account_id source filename batch st source_row =
     (case st of (statuses, db) \<Rightarrow>
      bindR source_row (\<lambda>row.
      let k = length statuses; raw = raw_of row;
          r = received_record H (ids (2 * k + 1)) (ib_id batch) filename (int k + 2) (ib_received_at batch) raw in
      bindR (process_row H (ids (2 * k + 2)) (clock (k + 1)) db fund_id account_id source r raw) (\<lambda>(r', db1).
      bindR (insert_import_record db1 r') (\<lambda>db2.
      Inr (statuses @ [ir_status r'], db2)))))"

definition status_total :: "import_record_status \<Rightarrow> import_record_status list \<Rightarrow> int" where
  "status_total s statuses = int (length (filter (\<lambda>x. x = s) statuses))"

definition completed_import :: "import_record_status list \<Rightarrow> datetime \<Rightarrow> import_batch_row \<Rightarrow> import_batch_row" where
  "completed_import statuses completed_at b = b\<lparr>
     ib_total_count := int (length statuses), ib_posted_count := status_total Record_POSTED statuses,
     ib_duplicate_count := status_total Record_DUPLICATE statuses,
     ib_rejected_count := status_total Record_REJECTED statuses,
     ib_conflict_count := status_total Record_CONFLICT statuses, ib_completed_at := Some completed_at,
     ib_status := (if status_total Record_REJECTED statuses \<noteq> 0 \<or> status_total Record_CONFLICT statuses \<noteq> 0
       then Batch_COMPLETED_WITH_ERRORS else Batch_COMPLETED)\<rparr>"

definition import_audit :: "uuid \<Rightarrow> datetime \<Rightarrow> import_batch_row \<Rightarrow> audit_event_row" where
  "import_audit i completed_at b = \<lparr>ae_id = i, ae_fund_id = ib_fund_id b, ae_actor_user_id = ib_initiated_by_user_id b,
     ae_action = ''IMPORT_BATCH_COMPLETED'', ae_entity_type = ''ImportBatch'', ae_entity_id = ib_id b,
     ae_occurred_at = completed_at, ae_details = JObj [
       (''source'', JStr (ib_source b)),
       (''content_sha256'', JStr (ib_content_sha256 b)),
       (''total_count'', JInt (ib_total_count b)),
       (''posted_count'', JInt (ib_posted_count b)),
       (''duplicate_count'', JInt (ib_duplicate_count b)),
       (''rejected_count'', JInt (ib_rejected_count b)),
       (''conflict_count'', JInt (ib_conflict_count b))]\<rparr>"

definition finish_import ::
  "(nat \<Rightarrow> uuid) \<Rightarrow> (nat \<Rightarrow> datetime) \<Rightarrow> import_batch_row \<Rightarrow> import_record_status list \<Rightarrow> database
     \<Rightarrow> app_error + import_report \<times> database" where
  "finish_import ids clock batch statuses db =
     (let n = length statuses; completed_at = clock (n + 1); done = completed_import statuses completed_at batch in
      bindR (insert_audit_event (db\<lparr>db_import_batches := update_row ib_id (ib_id batch)
          (completed_import statuses completed_at) (db_import_batches db)\<rparr>)
        (import_audit (ids (2 * n + 1)) completed_at done)) (\<lambda>db1.
      Inr (report_of done False, db1)))"

definition import_text ::
  "digest \<Rightarrow> (string \<Rightarrow> string) \<Rightarrow> (nat \<Rightarrow> uuid) \<Rightarrow> (nat \<Rightarrow> datetime) \<Rightarrow> database \<Rightarrow> uuid \<Rightarrow> uuid \<Rightarrow> string \<Rightarrow> string
     \<Rightarrow> string \<Rightarrow> string \<Rightarrow> uuid option \<Rightarrow> app_error + import_report \<times> database" where
  "import_text H D ids clock db fund_id account_id source filename content parser_version user =
     bindR (requireR (strip source \<noteq> []) (ImportPipelineError ''source is required'')) (\<lambda>_.
     (case first_row (\<lambda>b. ib_fund_id b = fund_id \<and> ib_source b = source \<and> ib_content_sha256 b = D content)
         (db_import_batches db) of
        Some existing \<Rightarrow> Inr (report_of existing True, db)
      | None \<Rightarrow>
          bindR (dict_reader content) (\<lambda>(header, rows).
          let headers = (case header of None \<Rightarrow> [] | Some h \<Rightarrow> h);
              missing = filter (\<lambda>c. c \<notin> set headers) REQUIRED_COLUMNS in
          bindR (requireR (missing = [])
            (ImportPipelineError (''missing required CSV columns: '' @ join_comma missing))) (\<lambda>_.
          let batch = new_import_batch (ids 0) fund_id source filename (D content) parser_version user (clock 0) in
          bindR (insert_import_batch db batch) (\<lambda>db1.
          bindR (foldR (import_step H ids clock fund_id account_id source filename batch) ([], db1) rows)
            (\<lambda>(statuses, db2). finish_import ids clock batch statuses db2))))))"

section \<open>Provenance\<close>

record provenance_record =
  pvn_transaction_id :: uuid
  pvn_batch_id :: uuid
  pvn_source :: string
  pvn_external_id :: string
  pvn_filename :: "string option"
  pvn_content_sha256 :: string
  pvn_row_number :: int
  pvn_source_locator :: string
  pvn_status :: import_record_status
  pvn_received_at :: datetime
  pvn_raw_payload :: json
  pvn_normalized_payload :: "json option"

text \<open>\<open>str(raw_payload.get('external_id', ''))\<close>; \<open>S\<close> is \<open>str\<close> of a value that is not a text, which no import stores.\<close>

definition payload_text :: "(json \<Rightarrow> string) \<Rightarrow> json \<Rightarrow> string \<Rightarrow> string" where
  "payload_text S payload key = (case payload of
     JObj kvs \<Rightarrow> (case map_of kvs key of None \<Rightarrow> [] | Some (JStr s) \<Rightarrow> s | Some j \<Rightarrow> S j) | _ \<Rightarrow> [])"

definition provenance_of :: "(json \<Rightarrow> string) \<Rightarrow> uuid \<Rightarrow> import_record_row \<times> import_batch_row \<Rightarrow> provenance_record" where
  "provenance_of S transaction_id rb = (case rb of (r, b) \<Rightarrow>
     \<lparr>pvn_transaction_id = transaction_id, pvn_batch_id = ib_id b, pvn_source = ib_source b,
      pvn_external_id = payload_text S (ir_raw_payload r) ''external_id'', pvn_filename = ib_filename b,
      pvn_content_sha256 = ib_content_sha256 b, pvn_row_number = ir_row_number r,
      pvn_source_locator = ir_source_locator r, pvn_status = ir_status r, pvn_received_at = ib_received_at b,
      pvn_raw_payload = ir_raw_payload r, pvn_normalized_payload = ir_normalized_payload r\<rparr>)"

definition provenance_for :: "(json \<Rightarrow> string) \<Rightarrow> database \<Rightarrow> uuid \<Rightarrow> provenance_record list" where
  "provenance_for S db transaction_id = map (provenance_of S transaction_id)
     (sort_key (\<lambda>(r, b). (instant (ib_received_at b), ir_row_number r))
       [(r, b). r \<leftarrow> db_import_records db, b \<leftarrow> db_import_batches db,
          ib_id b = ir_import_batch_id r \<and> ir_transaction_id r = Some transaction_id])"

end
