(* ===== verification/Csv_Properties.thy ===== *)
theory Csv_Properties
  imports Csv_Reader
begin

text \<open>
  The CSV reader on files of plain records, the bound on the records it yields, and its errors.
\<close>

section \<open>Plain files\<close>

definition plain_cell :: "string \<Rightarrow> bool" where
  "plain_cell s \<longleftrightarrow> length s \<le> field_limit \<and> (\<forall>c \<in> set s. \<not> newline c \<and> c \<noteq> CHR 34 \<and> c \<noteq> CHR '','')"

fun plain_line :: "string list \<Rightarrow> string" where
  "plain_line [] = [CHR 10]"
| "plain_line [s] = s @ [CHR 10]"
| "plain_line (s # t # ss) = s @ CHR '','' # plain_line (t # ss)"

lemma text_lines_line: "CHR 10 \<notin> set l \<Longrightarrow> text_lines (l @ CHR 10 # s) = (l @ [CHR 10]) # text_lines s"
  by (induction l) auto

lemma plain_in_field:
  assumes "list_all (\<lambda>c. \<not> newline c \<and> c \<noteq> CHR '','') s" "length (cp_field p) + length s \<le> field_limit" "cp_state p = In_Field"
  shows "foldR csv_char p s = Inr (p\<lparr>cp_field := cp_field p @ s\<rparr>)"
  using assms
proof (induction s arbitrary: p)
  case (Cons c s)
  then have "csv_char p c = Inr (p\<lparr>cp_field := cp_field p @ [c]\<rparr>)"
    by (simp add: csv_char_def add_char_def)
  with Cons show ?case by simp
qed simp

lemma plain_field:
  assumes "plain_cell s" "s \<noteq> []" "cp_state p \<in> {Start_Record, Start_Field}" "cp_field p = []"
  shows "foldR csv_char p s = Inr (p\<lparr>cp_field := s, cp_state := In_Field\<rparr>)"
proof (cases s)
  case (Cons c t)
  have c: "\<not> newline c" "c \<noteq> CHR 34" "c \<noteq> CHR '',''" using assms(1) by (simp_all add: Cons plain_cell_def)
  have "csv_char p c = start_field c p" using assms(3) c(1) by (auto simp: csv_char_def)
  then have "csv_char p c = Inr (p\<lparr>cp_field := [c], cp_state := In_Field\<rparr>)"
    using c assms(4) by (simp add: start_field_def add_char_def field_limit_def)
  with Cons assms show ?thesis
    by (simp add: plain_in_field plain_cell_def list_all_iff)
qed (use assms in simp)

lemma plain_separator:
  assumes "plain_cell s" "cp_state p \<in> {Start_Record, Start_Field}" "cp_field p = []"
  shows "foldR csv_char p (s @ [CHR '','']) = Inr (p\<lparr>cp_fields := cp_fields p @ [s], cp_state := Start_Field\<rparr>)"
proof (cases "s = []")
  case True
  with assms show ?thesis
    by (cases p) (auto simp: csv_char_def start_field_def save_field_def newline_def)
next
  case False
  with plain_field [OF assms(1) False assms(2,3)] assms(3) show ?thesis
    by (simp add: foldR_append csv_char_def save_field_def newline_def)
qed

lemma plain_line_read:
  assumes "list_all plain_cell ss" "ss \<noteq> []" "cp_state p = Start_Record \<longrightarrow> ss \<noteq> [[]]"
    "cp_state p \<in> {Start_Record, Start_Field}" "cp_field p = []"
  shows "csv_line p (plain_line ss) = Inr (p\<lparr>cp_fields := cp_fields p @ ss, cp_state := Start_Record\<rparr>)"
  using assms
proof (induction ss arbitrary: p rule: plain_line.induct)
  case (2 s)
  show ?case
  proof (cases "s = []")
    case True
    with 2 show ?thesis
      by (cases p) (auto simp: csv_line_def csv_char_def start_field_def save_field_def newline_def csv_end_line_def)
  next
    case False
    with plain_field [of s p] 2 show ?thesis
      by (simp add: csv_line_def foldR_append csv_char_def save_field_def newline_def csv_end_line_def)
  qed
next
  case (3 s t ss)
  let ?q = "p\<lparr>cp_fields := cp_fields p @ [s], cp_state := Start_Field\<rparr>"
  have "csv_line p (plain_line (s # t # ss)) = csv_line ?q (plain_line (t # ss))"
    using plain_separator [of s p] 3(2,5,6) foldR_append [of csv_char p "s @ [CHR '','']" "plain_line (t # ss)"]
    by (simp add: csv_line_def)
  also have "\<dots> = Inr (?q\<lparr>cp_fields := cp_fields ?q @ t # ss, cp_state := Start_Record\<rparr>)"
    using 3(2,6) by (intro 3(1)) auto
  finally show ?case by simp
qed simp

definition plain_record :: "string list \<Rightarrow> bool" where
  "plain_record ss \<longleftrightarrow> list_all plain_cell ss \<and> ss \<noteq> [] \<and> ss \<noteq> [[]]"

text \<open>What the reader makes of a file of plain records.\<close>

lemma plain_line_ends: "list_all plain_cell ss \<Longrightarrow> \<exists>l. plain_line ss = l @ [CHR 10] \<and> CHR 10 \<notin> set l"
proof (induction ss rule: plain_line.induct)
  case (3 s t ss)
  then obtain l where l: "plain_line (t # ss) = l @ [CHR 10]" "CHR 10 \<notin> set l" by auto
  with 3(2) show ?case
    by (intro exI [of _ "s @ CHR '','' # l"]) (auto simp: plain_cell_def newline_def)
qed (auto simp: plain_cell_def newline_def)

lemma csv_records_plain:
  "list_all plain_record rs \<Longrightarrow> csv_records (text_lines (concat (map plain_line rs))) = map Inr rs"
proof (induction rs)
  case Nil
  then show ?case by (simp add: csv_records.simps)
next
  case (Cons r rs)
  then have r: "list_all plain_cell r" "r \<noteq> []" "r \<noteq> [[]]" by (auto simp: plain_record_def)
  obtain l where l: "plain_line r = l @ [CHR 10]" "CHR 10 \<notin> set l" using plain_line_ends [OF r(1)] by blast
  have lines: "text_lines (concat (map plain_line (r # rs))) = plain_line r # text_lines (concat (map plain_line rs))"
    using text_lines_line [OF l(2)] by (simp add: l(1))
  have "csv_line csv_start (plain_line r) = Inr \<lparr>cp_state = Start_Record, cp_field = [], cp_fields = r\<rparr>"
    using plain_line_read [OF r(1,2), of csv_start] r(3) by (simp add: csv_start_def)
  then have "read_record csv_start (plain_line r # ls) = Inr (Some (r, ls))" for ls by simp
  with Cons show ?case unfolding lines by (simp add: csv_records.simps [of "_ # _"])
qed

lemma dict_reader_plain:
  assumes "plain_record header" "list_all plain_record rows"
  shows "dict_reader (concat (map plain_line (header # rows))) = Inr (Some header, map (\<lambda>r. Inr (csv_row header r)) rows)"
proof -
  have "filter (\<lambda>r. r \<noteq> Inr []) (map Inr rows) = (map Inr rows :: (app_error + string list) list)"
    using assms(2) by (intro filter_True) (auto simp: list_all_iff plain_record_def)
  with csv_records_plain [of "header # rows"] assms show ?thesis by (simp add: dict_reader_def o_def)
qed

section \<open>Every record takes a line\<close>

lemma csv_records_bound: "length (csv_records lines) \<le> length lines"
proof (induction lines rule: csv_records.induct)
  case (1 lines)
  show ?case
  proof (cases lines)
    case (Cons l ls)
    then have lines: "lines \<noteq> []" "Suc 0 \<le> length lines" by simp_all
    show ?thesis
    proof (cases "read_record csv_start lines")
      case (Inl e)
      then show ?thesis using lines by (simp add: csv_records.simps [of lines])
    next
      case (Inr r)
      show ?thesis
      proof (cases r)
        case (Some x)
        obtain cells rest where x: "x = (cells, rest)" by (cases x)
        have "length rest \<le> length ls" using Inr Some read_record_lines [of csv_start l ls] by (simp add: Cons x)
        moreover have "length (csv_records rest) \<le> length rest" using 1 Inr Some x Cons by simp
        ultimately show ?thesis by (simp add: csv_records.simps [of lines] Inr Some x) (simp add: Cons)
      qed (simp add: csv_records.simps [of lines] Inr lines)
    qed
  qed (simp add: csv_records.simps)
qed

lemma dict_reader_bound:
  assumes "dict_reader content = Inr (Some header, rows)"
  shows "length rows < length (text_lines content)"
proof -
  from assms obtain records where records: "csv_records (text_lines content) = Inr header # records"
    "length rows = length (filter (\<lambda>r. r \<noteq> Inr []) records)"
    by (auto simp: dict_reader_def split: list.splits sum.splits)
  have "Suc (length records) \<le> length (text_lines content)"
    using csv_records_bound [of "text_lines content"] by (simp add: records(1))
  with records(2) length_filter_le [of "\<lambda>r. r \<noteq> Inr []" records] show ?thesis by linarith
qed

section \<open>Errors\<close>

lemma csv_line_error:
  assumes "csv_line p l = Inl e"
  shows "\<exists>m. e = CsvError m"
proof -
  have char: "csv_char p c = Inl e \<Longrightarrow> \<exists>m. e = CsvError m" for p c
    by (auto simp: csv_char_def start_field_def add_char_def split: csv_state.splits if_splits)
  have "foldR csv_char p l = Inl e" using assms by (auto simp: csv_line_def bindR_Inl_iff)
  then show ?thesis
    by (induction l arbitrary: p) (auto simp: bindR_Inl_iff dest: char)
qed

lemma read_record_error: "read_record p ls = Inl e \<Longrightarrow> \<exists>m. e = CsvError m"
  by (induction ls arbitrary: p) (auto simp: bindR_Inl_iff dest: csv_line_error split: if_splits)

lemma csv_records_error: "Inl e \<in> set (csv_records lines) \<Longrightarrow> \<exists>m. e = CsvError m"
proof (induction lines rule: csv_records.induct)
  case (1 lines)
  from 1(2) show ?case
    by (subst (asm) csv_records.simps) (auto split: if_splits sum.splits option.splits dest: read_record_error 1(1))
qed

lemma dict_reader_error:
  "dict_reader content = Inl e \<Longrightarrow> \<exists>m. e = CsvError m"
  "dict_reader content = Inr (header, rows) \<Longrightarrow> Inl e \<in> set rows \<Longrightarrow> \<exists>m. e = CsvError m"
  using csv_records_error [of e "text_lines content"]
  by (auto simp: dict_reader_def bindR_Inl_iff image_iff eq_commute [of "Inl e" "bindR _ _"] split: list.splits sum.splits)

end
