(* ===== verification/Import_Properties.thy ===== *)
theory Import_Properties
  imports Imports Ledger_Properties Csv_Properties
begin

text \<open>
  What an import guarantees: every row of the file is accounted for by one record, the posted
  records are exactly the transactions the import added, the same content is imported once, every
  posted transaction can be traced to its row, and no refused row stops the import.
\<close>

section \<open>What a row leaves alone\<close>

abbreviation batch_identity :: "import_batch_row \<Rightarrow> import_batch_row" where
  "batch_identity b \<equiv> b\<lparr>ib_conflict_count := 0\<rparr>"

lemma count_identity:
  "map batch_identity (update_row ib_id k (\<lambda>r. r\<lparr>ib_conflict_count := f r\<rparr>) bs) = map batch_identity bs"
  by (simp add: update_row_def)

lemma create_frame:
  assumes "transaction_service_create H i now db c = Inr (res, db')"
  shows "db_import_records db' = db_import_records db"
    and "map batch_identity (db_import_batches db') = map batch_identity (db_import_batches db)"
proof -
  have conflict: "db_import_records db' = db_import_records db
      \<and> map batch_identity (db_import_batches db') = map batch_identity (db_import_batches db)"
    if "record_conflict i now db c p h e = Inr (res, db')" for p h e
    using that by (auto simp: record_conflict_def Let_def result_simps insert_import_conflict_def count_identity
        split: option.splits)
  have "db_import_records db' = db_import_records db
      \<and> map batch_identity (db_import_batches db') = map batch_identity (db_import_batches db)"
  proof (cases "by_source_identity db (ct_fund_id c) (ct_source c) (ct_external_id c)")
    case None
    with assms show ?thesis
      by (auto simp: transaction_service_create_def Let_def result_simps insert_transaction_def split: option.splits)
  next
    case (Some e)
    with assms conflict show ?thesis
      by (auto simp: transaction_service_create_def Let_def result_simps split: if_splits)
  qed
  then show "db_import_records db' = db_import_records db"
    "map batch_identity (db_import_batches db') = map batch_identity (db_import_batches db)" by simp_all
qed

section \<open>One row\<close>

lemma normalized_identity:
  assumes "normalize_row db raw fund_id account_id source batch_id n t = Inr c"
  shows "ct_fund_id c = fund_id" "ct_source c = source" "ct_import_batch_id c = Some batch_id"
    "Some (ct_external_id c) = optional_cell raw ''external_id''"
  using assms by (auto simp: normalize_row_def result_simps required_cell_def split: option.splits)

text \<open>The transactions a row adds.\<close>

definition row_transactions :: "uuid \<Rightarrow> string \<Rightarrow> import_record_row \<Rightarrow> raw_row \<Rightarrow> transaction_row list \<Rightarrow> bool" where
  "row_transactions fund_id source r raw new \<longleftrightarrow>
     (case new of [] \<Rightarrow> ir_status r \<in> {Record_DUPLICATE, Record_CONFLICT, Record_REJECTED}
      | [t] \<Rightarrow> ir_status r = Record_POSTED \<and> ir_transaction_id r = Some (tx_id t) \<and> tx_fund_id t = fund_id
          \<and> tx_source t = source \<and> tx_import_batch_id t = Some (ir_import_batch_id r)
          \<and> Some (tx_external_id t) = optional_cell raw ''external_id''
      | _ \<Rightarrow> False)"

lemma process_row_Inr:
  assumes "process_row H i now db fund_id account_id source r raw = Inr (r', db')" and fresh: "ir_transaction_id r = None"
  obtains new where "map economic_row (db_transactions db') = map economic_row (db_transactions db) @ new"
    "row_transactions fund_id source r' raw new"
    "ledger_ok (db_transactions db) \<Longrightarrow> ledger_ok (db_transactions db')"
    "db_import_records db' = db_import_records db"
    "map batch_identity (db_import_batches db') = map batch_identity (db_import_batches db)"
    "ir_import_batch_id r' = ir_import_batch_id r" "ir_row_number r' = ir_row_number r"
    "ir_raw_payload r' = ir_raw_payload r" "ir_source_locator r' = ir_source_locator r"
    "ir_transaction_id r' = None \<longleftrightarrow> ir_status r' = Record_REJECTED"
proof -
  let ?n = "normalize_row db raw fund_id account_id source (ir_import_batch_id r) (ir_row_number r) (ir_created_at r)"
  consider (rejected) cmd cause where "r' = rejected_record r cmd cause" "db' = db"
    | (accepted) c res where "?n = Inr c" "transaction_service_create H i now db c = Inr (res, db')" "r' = accepted_record r c res"
    using assms by (auto simp: process_row_def split: sum.splits option.splits prod.splits)
  then show thesis
  proof cases
    case rejected
    then show ?thesis by (intro that [of "[]"]) (simp_all add: rejected_record_def row_transactions_def fresh)
  next
    case accepted
    note c = normalized_identity [OF accepted(1)]
    show ?thesis
    proof (rule that [of "if cr_status res = CREATED then [cr_transaction res] else []"])
      show "map economic_row (db_transactions db') = map economic_row (db_transactions db)
          @ (if cr_status res = CREATED then [cr_transaction res] else [])"
        using accepted(2) by (rule create_appends)
      show "row_transactions fund_id source r' raw (if cr_status res = CREATED then [cr_transaction res] else [])"
        using accepted(2) c by (cases rule: create_cases; cases "cr_status res")
          (auto simp: accepted(3) accepted_record_def row_transactions_def transaction_of_def)
      show "ledger_ok (db_transactions db')" if "ledger_ok (db_transactions db)"
        using accepted(2) that by (rule create_ledger_ok)
      show "ir_transaction_id r' = None \<longleftrightarrow> ir_status r' = Record_REJECTED"
        by (cases "cr_status res") (simp_all add: accepted(3) accepted_record_def)
    qed (use create_frame [OF accepted(2)] in \<open>simp_all add: accepted(3) accepted_record_def\<close>)
  qed
qed

section \<open>The loop over the rows\<close>

text \<open>A row of the file, its record and the transactions it added.\<close>

type_synonym import_entry = "(string, string option) dict \<times> import_record_row \<times> transaction_row list"

definition accounted :: "uuid \<Rightarrow> string \<Rightarrow> uuid \<Rightarrow> nat \<Rightarrow> import_entry \<Rightarrow> bool" where
  "accounted fund_id source batch_id k e = (case e of (row, r, new) \<Rightarrow>
     ir_import_batch_id r = batch_id \<and> ir_row_number r = int k + 2 \<and> ir_raw_payload r = raw_json (raw_of row)
     \<and> row_transactions fund_id source r (raw_of row) new
     \<and> (ir_transaction_id r = None \<longleftrightarrow> ir_status r = Record_REJECTED))"

abbreviation entry_records :: "import_entry list \<Rightarrow> import_record_row list" where
  "entry_records es \<equiv> map (\<lambda>e. fst (snd e)) es"

abbreviation entry_transactions :: "import_entry list \<Rightarrow> transaction_row list" where
  "entry_transactions es \<equiv> concat (map (\<lambda>e. snd (snd e)) es)"

definition import_inv ::
  "uuid \<Rightarrow> string \<Rightarrow> uuid \<Rightarrow> database \<Rightarrow> (app_error + (string, string option) dict) list
     \<Rightarrow> import_record_status list \<times> database \<Rightarrow> bool" where
  "import_inv fund_id source batch_id db0 h st \<longleftrightarrow> (case st of (statuses, db) \<Rightarrow>
     (\<exists>es. h = map (\<lambda>e. Inr (fst e)) es \<and> statuses = map ir_status (entry_records es)
       \<and> (\<forall>k < length es. accounted fund_id source batch_id k (es ! k))
       \<and> db_import_records db = db_import_records db0 @ entry_records es
       \<and> map economic_row (db_transactions db) = map economic_row (db_transactions db0) @ entry_transactions es)
     \<and> map batch_identity (db_import_batches db) = map batch_identity (db_import_batches db0)
     \<and> (ledger_ok (db_transactions db0) \<longrightarrow> ledger_ok (db_transactions db)))"

lemma import_step_inv:
  assumes inv: "import_inv fund_id source (ib_id batch) db0 h st"
    and step: "import_step H ids clock fund_id account_id source filename batch st x = Inr st'"
  shows "import_inv fund_id source (ib_id batch) db0 (h @ [x]) st'"
proof -
  obtain statuses db where st: "st = (statuses, db)" by (cases st)
  from inv obtain es where es: "h = map (\<lambda>e. Inr (fst e)) es" "statuses = map ir_status (entry_records es)"
    "\<forall>k < length es. accounted fund_id source (ib_id batch) k (es ! k)"
    "db_import_records db = db_import_records db0 @ entry_records es"
    "map economic_row (db_transactions db) = map economic_row (db_transactions db0) @ entry_transactions es"
    and frame: "map batch_identity (db_import_batches db) = map batch_identity (db_import_batches db0)"
      "ledger_ok (db_transactions db0) \<longrightarrow> ledger_ok (db_transactions db)"
    by (auto simp: import_inv_def st)
  from step obtain row r' db1 db2 where x: "x = Inr row" and
    proc: "process_row H (ids (2 * length es + 2)) (clock (length es + 1)) db fund_id account_id source
      (received_record H (ids (2 * length es + 1)) (ib_id batch) filename (int (length es) + 2) (ib_received_at batch) (raw_of row))
      (raw_of row) = Inr (r', db1)"
    and ins: "insert_import_record db1 r' = Inr db2" and st': "st' = (statuses @ [ir_status r'], db2)"
    by (auto simp: import_step_def st es(2) result_simps Let_def)
  have db2: "db2 = db1\<lparr>db_import_records := db_import_records db1 @ [r']\<rparr>"
    using ins by (auto simp: insert_import_record_def result_simps)
  show ?thesis
  proof (rule process_row_Inr [OF proc])
    fix new
    assume new: "map economic_row (db_transactions db1) = map economic_row (db_transactions db) @ new"
      "row_transactions fund_id source r' (raw_of row) new"
      "ledger_ok (db_transactions db) \<Longrightarrow> ledger_ok (db_transactions db1)"
      "db_import_records db1 = db_import_records db"
      "map batch_identity (db_import_batches db1) = map batch_identity (db_import_batches db)"
      and r': "ir_import_batch_id r' = ir_import_batch_id (received_record H (ids (2 * length es + 1)) (ib_id batch) filename (int (length es) + 2) (ib_received_at batch) (raw_of row))"
      "ir_row_number r' = ir_row_number (received_record H (ids (2 * length es + 1)) (ib_id batch) filename (int (length es) + 2) (ib_received_at batch) (raw_of row))"
      "ir_raw_payload r' = ir_raw_payload (received_record H (ids (2 * length es + 1)) (ib_id batch) filename (int (length es) + 2) (ib_received_at batch) (raw_of row))"
      "ir_transaction_id r' = None \<longleftrightarrow> ir_status r' = Record_REJECTED"
    have "accounted fund_id source (ib_id batch) (length es) (row, r', new)"
      using new(2) r' by (simp add: accounted_def received_record_def)
    then have "\<forall>k < length (es @ [(row, r', new)]). accounted fund_id source (ib_id batch) k ((es @ [(row, r', new)]) ! k)"
      using es(3) by (auto simp: nth_append less_Suc_eq)
    then show ?thesis
      using es(1,2,4,5) frame new(1,3-5) unfolding import_inv_def st' prod.case
      by (intro conjI exI [of _ "es @ [(row, r', new)]"]) (auto simp: x db2)
  qed (simp add: received_record_def)
qed

interpretation import_loop: history_invariant "import_step H ids clock fund_id account_id source filename batch" "([], db0)"
  "import_inv fund_id source (ib_id batch) db0" "\<lambda>_. True"
  for H ids clock fund_id account_id source filename batch db0
proof unfold_locales
  show "import_inv fund_id source (ib_id batch) db0 [] ([], db0)" by (simp add: import_inv_def)
qed (blast intro: import_step_inv)+

section \<open>The import\<close>

lemma import_text_cases:
  assumes "import_text H D ids clock db fund_id account_id source filename content parser_version user = Inr (rep, db')"
  obtains (reused) b where "first_row (\<lambda>b. ib_fund_id b = fund_id \<and> ib_source b = source \<and> ib_content_sha256 b = D content)
      (db_import_batches db) = Some b" "rep = report_of b True" "db' = db"
    | (fresh) header es batch statuses db2 where
      "first_row (\<lambda>b. ib_fund_id b = fund_id \<and> ib_source b = source \<and> ib_content_sha256 b = D content) (db_import_batches db) = None"
      "batch = new_import_batch (ids 0) fund_id source filename (D content) parser_version user (clock 0)"
      "ids 0 \<notin> ib_id ` set (db_import_batches db)"
      "dict_reader content = Inr (Some header, map (\<lambda>e. Inr (fst e)) es)"
      "statuses = map ir_status (entry_records es)"
      "\<forall>k < length es. accounted fund_id source (ids 0) k (es ! k)"
      "db_import_records db2 = db_import_records db @ entry_records es"
      "map economic_row (db_transactions db2) = map economic_row (db_transactions db) @ entry_transactions es"
      "map batch_identity (db_import_batches db2) = map batch_identity (db_import_batches db @ [batch])"
      "ledger_ok (db_transactions db) \<longrightarrow> ledger_ok (db_transactions db2)"
      "finish_import ids clock batch statuses db2 = Inr (rep, db')"
proof (cases "first_row (\<lambda>b. ib_fund_id b = fund_id \<and> ib_source b = source \<and> ib_content_sha256 b = D content) (db_import_batches db)")
  case (Some b)
  with assms show thesis by (intro reused) (auto simp: import_text_def result_simps)
next
  case None
  define batch where "batch = new_import_batch (ids 0) fund_id source filename (D content) parser_version user (clock 0)"
  from assms None obtain header rows statuses db1 db2 where read: "dict_reader content = Inr (header, rows)"
    and columns: "filter (\<lambda>c. c \<notin> set (case header of None \<Rightarrow> [] | Some h \<Rightarrow> h)) REQUIRED_COLUMNS = []"
    and ins: "insert_import_batch db batch = Inr db1"
    and loop: "foldR (import_step H ids clock fund_id account_id source filename batch) ([], db1) rows = Inr (statuses, db2)"
    and fin: "finish_import ids clock batch statuses db2 = Inr (rep, db')"
    by (auto simp: import_text_def result_simps Let_def batch_def)
  from columns obtain h where header: "header = Some h" by (cases header) (auto simp: REQUIRED_COLUMNS_def)
  have id: "ib_id batch = ids 0" by (simp add: batch_def new_import_batch_def)
  have db1: "db1 = db\<lparr>db_import_batches := db_import_batches db @ [batch]\<rparr>" "ids 0 \<notin> ib_id ` set (db_import_batches db)"
    using ins by (auto simp: insert_import_batch_def result_simps import_batch_clash_def batch_def new_import_batch_def)
  have "import_inv fund_id source (ib_id batch) db1 rows (statuses, db2)"
    using TrueI loop by (rule import_loop.run_inv)
  then obtain es where es: "rows = map (\<lambda>e. Inr (fst e)) es" "statuses = map ir_status (entry_records es)"
    "\<forall>k < length es. accounted fund_id source (ids 0) k (es ! k)"
    "db_import_records db2 = db_import_records db @ entry_records es"
    "map economic_row (db_transactions db2) = map economic_row (db_transactions db) @ entry_transactions es"
    "map batch_identity (db_import_batches db2) = map batch_identity (db_import_batches db @ [batch])"
    "ledger_ok (db_transactions db) \<longrightarrow> ledger_ok (db_transactions db2)"
    by (auto simp: import_inv_def id db1)
  show thesis
    by (rule fresh [OF None batch_def db1(2) _ es(2-7) fin]) (simp add: read header es(1))
qed

lemma finish_import_Inr:
  assumes fin: "finish_import ids clock batch statuses db2 = Inr (rep, db')"
    and batches: "map batch_identity (db_import_batches db2) = map batch_identity (bs @ [batch])"
    and fresh: "ib_id batch \<notin> ib_id ` set bs"
  obtains bs' b where "rep = report_of b False"
    "b = completed_import statuses (clock (length statuses + 1)) batch"
    "map batch_identity bs' = map batch_identity bs" "db_import_batches db' = bs' @ [b]"
    "db_import_records db' = db_import_records db2" "db_transactions db' = db_transactions db2"
proof -
  let ?c = "completed_import statuses (clock (length statuses + 1))"
  have db': "rep = report_of (?c batch) False" "db_import_records db' = db_import_records db2"
    "db_transactions db' = db_transactions db2"
    "db_import_batches db' = update_row ib_id (ib_id batch) ?c (db_import_batches db2)"
    using fin by (auto simp: finish_import_def result_simps Let_def insert_audit_event_def)
  from batches obtain bs' b' where b': "db_import_batches db2 = bs' @ [b']" "map batch_identity bs' = map batch_identity bs"
    "batch_identity b' = batch_identity batch"
    by (auto simp: map_eq_append_conv)
  have ids: "map ib_id bs' = map ib_id bs"
    using arg_cong [OF b'(2), of "map ib_id"] by (simp add: o_def)
  then have "ib_id batch \<notin> ib_id ` set bs'" using fresh by (metis set_map)
  moreover have "ib_id b' = ib_id batch" "?c b' = ?c batch"
    using b'(3) by (cases b'; cases batch; simp add: completed_import_def)+
  ultimately have "db_import_batches db' = bs' @ [?c batch]"
    unfolding db'(4) b'(1) using update_row_fresh [of "ib_id batch" ib_id bs' ?c] by (simp add: update_row_def)
  then show thesis using db'(1-3) b'(2) by (intro that) simp_all
qed

lemma identity_first_row:
  assumes "map batch_identity bs' = map batch_identity bs" and "\<And>b. P (batch_identity b) = P b"
  shows "first_row P bs' = None \<longleftrightarrow> first_row P bs = None"
proof -
  have none: "first_row P rows = None \<longleftrightarrow> (\<forall>b \<in> batch_identity ` set rows. \<not> P b)" for rows
    by (simp add: first_row_None assms(2))
  show ?thesis unfolding none set_map [symmetric] assms(1) ..
qed

text \<open>The statuses of the records, and the transactions that were added.\<close>

lemma accounted_one:
  assumes "accounted fund_id source b k e"
  shows "ir_status (fst (snd e)) \<in> {Record_POSTED, Record_DUPLICATE, Record_CONFLICT, Record_REJECTED}
    \<and> length (snd (snd e)) = (if ir_status (fst (snd e)) = Record_POSTED then 1 else 0)"
proof -
  obtain row r new where e: "e = (row, r, new)" by (cases e)
  from assms have "row_transactions fund_id source r (raw_of row) new" by (simp add: accounted_def e)
  then show ?thesis
    by (cases new rule: remdups_adj.cases) (auto simp: row_transactions_def e)
qed

lemma accounted_status:
  assumes "\<forall>k < length es. accounted fund_id source b k (es ! k)"
  shows "int (length (entry_transactions es)) = status_total Record_POSTED (map ir_status (entry_records es))"
    and "int (length es) = status_total Record_POSTED (map ir_status (entry_records es))
      + status_total Record_DUPLICATE (map ir_status (entry_records es))
      + status_total Record_REJECTED (map ir_status (entry_records es))
      + status_total Record_CONFLICT (map ir_status (entry_records es))"
proof -
  have "\<forall>e \<in> set es. ir_status (fst (snd e)) \<in> {Record_POSTED, Record_DUPLICATE, Record_CONFLICT, Record_REJECTED}
      \<and> length (snd (snd e)) = (if ir_status (fst (snd e)) = Record_POSTED then 1 else 0)"
    using assms accounted_one unfolding all_set_conv_all_nth by blast
  then show "int (length (entry_transactions es)) = status_total Record_POSTED (map ir_status (entry_records es))"
    "int (length es) = status_total Record_POSTED (map ir_status (entry_records es))
      + status_total Record_DUPLICATE (map ir_status (entry_records es))
      + status_total Record_REJECTED (map ir_status (entry_records es))
      + status_total Record_CONFLICT (map ir_status (entry_records es))"
    by (induction es) (auto simp: status_total_def)
qed

text \<open>C11: An import that stores a new batch accounts for every row of the file: one record per row,
  in row order, with the row as it was read; the transactions it adds are exactly those of the
  POSTED records, in their order; the counts of the report add up and it is COMPLETED exactly
  without a rejected or conflicting row.\<close>

theorem import_accounts:
  assumes run: "import_text H D ids clock db fund_id account_id source filename content parser_version user = Inr (rep, db')"
    and new: "\<not> rep_reused_batch rep"
  shows "\<exists>header es. dict_reader content = Inr (Some header, map (\<lambda>e. Inr (fst e)) es)
    \<and> (\<forall>k < length es. accounted fund_id source (rep_batch_id rep) k (es ! k))
    \<and> db_import_records db' = db_import_records db @ entry_records es
    \<and> map economic_row (db_transactions db') = map economic_row (db_transactions db) @ entry_transactions es
    \<and> rep_total_count rep = int (length es) \<and> rep_posted_count rep = int (length (entry_transactions es))
    \<and> rep_total_count rep = rep_posted_count rep + rep_duplicate_count rep + rep_rejected_count rep + rep_conflict_count rep
    \<and> (rep_status rep = Batch_COMPLETED \<longleftrightarrow> rep_rejected_count rep = 0 \<and> rep_conflict_count rep = 0)"
  using run
proof (cases rule: import_text_cases)
  case (reused b)
  with new show ?thesis by (simp add: report_of_def)
next
  case (fresh header es batch statuses db2)
  have id: "ib_id batch = ids 0" by (simp add: fresh(2) new_import_batch_def)
  have "ib_id batch \<notin> ib_id ` set (db_import_batches db)" using fresh(3) id by simp
  with fresh(11,9) obtain bs' b where b: "rep = report_of b False"
    "b = completed_import statuses (clock (length statuses + 1)) batch"
    "db_import_records db' = db_import_records db2" "db_transactions db' = db_transactions db2"
    by (rule finish_import_Inr)
  have rep: "rep_batch_id rep = ids 0" "rep_total_count rep = int (length es)"
    "rep_posted_count rep = status_total Record_POSTED statuses" "rep_duplicate_count rep = status_total Record_DUPLICATE statuses"
    "rep_rejected_count rep = status_total Record_REJECTED statuses" "rep_conflict_count rep = status_total Record_CONFLICT statuses"
    "rep_status rep = Batch_COMPLETED \<longleftrightarrow> rep_rejected_count rep = 0 \<and> rep_conflict_count rep = 0"
    by (auto simp: b(1,2) report_of_def completed_import_def id fresh(5))
  show ?thesis
    using fresh(4-8) accounted_status [OF fresh(6)] unfolding b(3,4) rep(1-6) rep(7) fresh(5)
    by (intro exI [of _ header] exI [of _ es]) simp
qed

text \<open>C22: A file is imported once: after an import has returned, importing the same content for the
  same fund and source, under any name, account, clock and ids, returns the same report marked as
  reused and changes nothing.\<close>

theorem import_once:
  assumes run: "import_text H D ids clock db fund_id account_id source filename content parser_version user = Inr (rep, db')"
  shows "import_text H D ids' clock' db' fund_id account_id' source filename' content parser_version' user'
    = Inr (rep\<lparr>rep_reused_batch := True\<rparr>, db')"
proof -
  have source: "strip source \<noteq> []" using run by (auto simp: import_text_def result_simps)
  let ?P = "\<lambda>b. ib_fund_id b = fund_id \<and> ib_source b = source \<and> ib_content_sha256 b = D content"
  have "\<exists>b. first_row ?P (db_import_batches db') = Some b \<and> rep\<lparr>rep_reused_batch := True\<rparr> = report_of b True"
    using run
  proof (cases rule: import_text_cases)
    case (fresh header es batch statuses db2)
    have id: "ib_id batch = ids 0" by (simp add: fresh(2) new_import_batch_def)
    have "ib_id batch \<notin> ib_id ` set (db_import_batches db)" using fresh(3) id by simp
    with fresh(11,9) obtain bs' b where b: "rep = report_of b False"
      "b = completed_import statuses (clock (length statuses + 1)) batch"
      "map batch_identity bs' = map batch_identity (db_import_batches db)" "db_import_batches db' = bs' @ [b]"
      by (rule finish_import_Inr)
    have "first_row ?P bs' = None" using identity_first_row [OF b(3), of ?P] fresh(1) by simp
    moreover have "?P b" by (simp add: b(2) completed_import_def fresh(2) new_import_batch_def)
    ultimately show ?thesis by (intro exI [of _ b]) (simp add: b(1,4) first_row_append report_of_def)
  qed (auto simp: report_of_def)
  with source show ?thesis by (auto simp: import_text_def)
qed

theorem import_keeps_ledger:
  assumes "import_text H D ids clock db fund_id account_id source filename content parser_version user = Inr (rep, db')"
    and "ledger_ok (db_transactions db)"
  shows "ledger_ok (db_transactions db')"
  using assms(1)
proof (cases rule: import_text_cases)
  case (fresh header es batch statuses db2)
  have "db_transactions db' = db_transactions db2"
    using fresh(11) by (auto simp: finish_import_def result_simps Let_def insert_audit_event_def)
  with fresh(10) assms(2) show ?thesis by simp
qed (use assms(2) in simp)

section \<open>Provenance\<close>

lemma raw_external_id: "payload_text S (raw_json raw) key = (case dict_get raw key of None \<Rightarrow> [] | Some s \<Rightarrow> s)"
  by (simp add: payload_text_def raw_json_def map_of_map split: option.splits)

text \<open>C23: Every record a new import adds is REJECTED or names a transaction, and the provenance of
  that transaction then lists the batch, source, file, content hash, row number and raw cells the
  record came from.\<close>

theorem import_traceable:
  assumes run: "import_text H D ids clock db fund_id account_id source filename content parser_version user = Inr (rep, db')"
    and new: "\<not> rep_reused_batch rep" and r: "r \<in> set (db_import_records db')" "r \<notin> set (db_import_records db)"
  shows "ir_status r = Record_REJECTED \<or> (\<exists>i. ir_transaction_id r = Some i
    \<and> (\<exists>p \<in> set (provenance_for S db' i). pvn_batch_id p = rep_batch_id rep \<and> pvn_source p = source
        \<and> pvn_filename p = Some filename \<and> pvn_content_sha256 p = D content \<and> pvn_row_number p = ir_row_number r
        \<and> pvn_raw_payload p = ir_raw_payload r \<and> pvn_status p = ir_status r))"
  using run
proof (cases rule: import_text_cases)
  case (reused b)
  with new show ?thesis by (simp add: report_of_def)
next
  case (fresh header es batch statuses db2)
  have id: "ib_id batch = ids 0" by (simp add: fresh(2) new_import_batch_def)
  have "ib_id batch \<notin> ib_id ` set (db_import_batches db)" using fresh(3) id by simp
  with fresh(11,9) obtain bs' b where b: "rep = report_of b False"
    "b = completed_import statuses (clock (length statuses + 1)) batch"
    "db_import_batches db' = bs' @ [b]" "db_import_records db' = db_import_records db2"
    by (rule finish_import_Inr)
  have fields: "ib_id b = ids 0" "ib_source b = source" "ib_filename b = Some filename" "ib_content_sha256 b = D content"
    by (simp_all add: b(2) completed_import_def fresh(2) new_import_batch_def)
  from r b(4) fresh(7) obtain k where k: "k < length es" "r = fst (snd (es ! k))" by (auto simp: in_set_conv_nth)
  have acc: "ir_import_batch_id r = ids 0" "ir_transaction_id r = None \<longleftrightarrow> ir_status r = Record_REJECTED"
    using fresh(6) [rule_format, OF k(1)] by (simp_all add: accounted_def case_prod_beta k(2))
  show ?thesis
  proof (cases "ir_transaction_id r")
    case (Some i)
    have "(r, b) \<in> set [(r, b). r \<leftarrow> db_import_records db', b \<leftarrow> db_import_batches db',
        ib_id b = ir_import_batch_id r \<and> ir_transaction_id r = Some i]"
      using r(1) Some acc(1) by (auto simp: b(3) fields(1))
    then have "provenance_of S i (r, b) \<in> set (provenance_for S db' i)"
      unfolding provenance_for_def set_map set_sort by (rule imageI)
    moreover have "rep_batch_id rep = ids 0" by (simp add: b(1) report_of_def fields(1))
    ultimately show ?thesis using Some
      by (intro disjI2 exI [of _ i] conjI bexI [of _ "provenance_of S i (r, b)"]) (simp_all add: provenance_of_def fields)
  qed (use acc in simp)
qed

section \<open>Errors\<close>

lemma normalize_error:
  assumes "normalize_row db raw fund_id account_id source b n now = Inl e"
  shows "e = InvalidOperation \<or> (\<exists>code m. e = RowNormalizationError code m)"
proof -
  have decimal: "decimal_cell raw f = Inl e' \<Longrightarrow> e' = InvalidOperation \<or> (\<exists>code m. e' = RowNormalizationError code m)" for f e'
    by (auto simp: decimal_cell_def split: option.splits decimal_literal.splits)
  have others: "required_cell raw f = Inl e' \<Longrightarrow> \<exists>code m. e' = RowNormalizationError code m"
    "type_cell raw = Inl e' \<Longrightarrow> \<exists>code m. e' = RowNormalizationError code m"
    "datetime_cell v f = Inl e' \<Longrightarrow> \<exists>code m. e' = RowNormalizationError code m"
    "instrument_by_symbol db v = Inl e' \<Longrightarrow> \<exists>code m. e' = RowNormalizationError code m" for f v e'
    by (auto simp: required_cell_def type_cell_def datetime_cell_def instrument_by_symbol_def Let_def bindR_Inl_iff requireR_Inl
        split: option.splits sum.splits list.splits)
  show ?thesis
    using assms unfolding normalize_row_def
    by (auto simp: bindR_Inl_iff requireR_Inl split: option.splits dest!: decimal others)
qed

lemma process_row_error:
  assumes "process_row H i now db fund_id account_id source r raw = Inl e"
  shows "e = InvalidOperation \<or> (\<exists>t. e = IntegrityError t)"
  using assms by (auto simp: process_row_def rejection_def ledger_error_def split: sum.splits option.splits prod.splits
      dest!: normalize_error create_error)

lemma insert_import_batch_error: "insert_import_batch db b = Inl e \<Longrightarrow> \<exists>t. e = IntegrityError t"
  and insert_import_record_error: "insert_import_record db r = Inl e \<Longrightarrow> \<exists>t. e = IntegrityError t"
  and insert_audit_event_error: "insert_audit_event db a = Inl e \<Longrightarrow> \<exists>t. e = IntegrityError t"
  by (auto simp: insert_import_batch_def insert_import_record_def insert_audit_event_def bindR_Inl_iff)

theorem import_failures:
  assumes "import_text H D ids clock db fund_id account_id source filename content parser_version user = Inl e"
  shows "(\<exists>m. e = ImportPipelineError m) \<or> (\<exists>m. e = CsvError m) \<or> e = InvalidOperation \<or> (\<exists>t. e = IntegrityError t)"
proof -
  have step: "(\<exists>m. e = CsvError m) \<or> e = InvalidOperation \<or> (\<exists>t. e = IntegrityError t)"
    if rows: "dict_reader content = Inr (header, rows)"
      and loop: "foldR (import_step H ids clock fund_id account_id source filename batch) ([], db1) rows = Inl e" for header rows batch db1
  proof -
    have "\<exists>x \<in> set rows. \<exists>st. import_step H ids clock fund_id account_id source filename batch st x = Inl e"
      using import_loop.error_at [OF TrueI loop] by force
    then show ?thesis
      using dict_reader_error(2) [OF rows]
      by (auto simp: import_step_def bindR_Inl_iff Let_def dest: process_row_error insert_import_record_error split: prod.splits)
  qed
  show ?thesis
    using assms step
    by (auto simp: import_text_def finish_import_def bindR_Inl_iff requireR_Inl Let_def split: option.splits prod.splits
      dest: dict_reader_error(1) insert_import_batch_error insert_audit_event_error)
qed

theorem import_row_bound:
  assumes run: "import_text H D ids clock db fund_id account_id source filename content parser_version user = Inr (rep, db')"
    and new: "\<not> rep_reused_batch rep"
  shows "rep_total_count rep < int (length (text_lines content))"
  using run
proof (cases rule: import_text_cases)
  case (reused b)
  with new show ?thesis by (simp add: report_of_def)
next
  case (fresh header es batch statuses db2)
  have "rep_total_count rep = int (length es)"
    using fresh(11) by (auto simp: finish_import_def result_simps Let_def report_of_def completed_import_def fresh(5))
  with dict_reader_bound [OF fresh(4)] show ?thesis by simp
qed
end
