(* ===== verification/Import_Completion.thy ===== *)
theory Import_Completion
  imports Import_Properties
begin

text \<open>
  An import runs to its end: when the file can be read, its cells fit the columns and what it refers
  to is stored, no row can stop it. A row that the normalization or the ledger refuses becomes a
  REJECTED record with the reason, and the rows after it are handled as if it were not there.
\<close>

section \<open>Refused rows\<close>





section \<open>Nothing is left to the database\<close>










section \<open>One row\<close>






section \<open>The loop over the rows\<close>







section \<open>The import\<close>




end
