(* ===== verification/Import_Witnesses.thy ===== *)
theory Import_Witnesses
  imports Import_Completion Examples
begin

text \<open>
  A file of two rows, a deposit that is posted and a row that is refused, imported into the example
  database; and a file without the required columns.
\<close>

section \<open>A file of two rows: a deposit, and a row without type\<close>

abbreviation "example_header \<equiv> [''external_id'', ''transaction_type'', ''effective_at'', ''amount'']"
abbreviation "example_good \<equiv> [''e1'', ''cash_deposit'', ''2024-01-01T00:00:00Z'', ''1000.50'']"
abbreviation "example_bad \<equiv> [''e2'', '''', ''2024-01-01T00:00:00Z'', ''5'']"

definition example_good_row :: "(string, string option) dict" where
  "example_good_row = zip example_header (map Some example_good)"

definition example_bad_row :: "(string, string option) dict" where
  "example_bad_row = zip example_header (map Some example_bad)"

definition example_file :: string where
  "example_file = concat (map plain_line [example_header, example_good, example_bad])"

lemma example_file_read:
  "dict_reader example_file = Inr (Some example_header, [Inr example_good_row, Inr example_bad_row])"
  unfolding example_file_def
  by (subst dict_reader_plain) (simp_all add: plain_record_def plain_cell_def newline_def field_limit_def csv_row_def example_good_row_def example_bad_row_def)

definition example_batch :: import_batch_row where
  "example_batch = new_import_batch 100 1 ''csv'' ''f.csv'' (hash_text CHR ''f'') ''1'' None (Aware 200 0)"

definition example_opened :: database where
  "example_opened = example_db\<lparr>db_import_batches := db_import_batches example_db @ [example_batch]\<rparr>"

lemma example_opened: "insert_import_batch example_db example_batch = Inr example_opened"
  by (simp add: insert_import_batch_def insert_row_def import_batch_clash_def import_batch_checks_def import_batch_refs_def
      example_batch_def new_import_batch_def example_opened_def example_db_def empty_database_def varchar_def refers_def hash_text_def)

lemma example_cells:
  "from_isoformat (zulu ''2024-01-01T00:00:00Z'') = Some (Aware 1704067200000000 0)"
  "decimal_literal ''1000.50'' = Finite (Dec 100050 (- 2))"
  "transaction_type_of (upper ''cash_deposit'') = Some CASH_DEPOSIT"
  "strip ''cash_deposit'' = ''cash_deposit''" "strip ''e1'' = ''e1''" "strip ''e2'' = ''e2''" "strip [] = []"
  "strip ''1000.50'' = ''1000.50''" "strip ''2024-01-01T00:00:00Z'' = ''2024-01-01T00:00:00Z''" 
  by code_simp+

lemma strip_csv: "strip ''csv'' = ''csv''"
  by code_simp

lemma map_of_nil [simp]: "map_of [] = (\<lambda>_. None)" by (rule map_of.simps)

definition example_row_command :: "int \<Rightarrow> create_transaction" where
  "example_row_command n = (example_command CASH_DEPOSIT 1704067200000000 ''e1'' (Some (Dec 100050 (- 2))) None)
     \<lparr>ct_recorded_at := Aware 200 0, ct_import_batch_id := Some 100, ct_source_metadata := Some (JObj [(''row_number'', JInt n)])\<rparr>"

lemma example_normalized:
  "normalize_row db (raw_of example_good_row) 1 2 ''csv'' 100 n (Aware 200 0) = Inr (example_row_command n)"
  by (simp add: example_good_row_def example_bad_row_def normalize_row_def raw_of_def required_cell_def optional_cell_def type_cell_def datetime_cell_def decimal_cell_def
      example_cells example_row_command_def example_command_def)

lemma example_refused:
  "normalize_row db (raw_of example_bad_row) 1 2 ''csv'' 100 n (Aware 200 0) =
     Inl (RowNormalizationError ''UNSUPPORTED_TRANSACTION_TYPE'' ''unsupported transaction type: '')"
  by (simp add: example_good_row_def example_bad_row_def normalize_row_def raw_of_def required_cell_def optional_cell_def type_cell_def
      example_cells)

definition example_booked :: transaction_row where
  "example_booked = transaction_of 102 (hash_text CHR ''1'') (example_row_command 2)"

lemma example_booking:
  "transaction_service_create example_digest 102 now example_opened (example_row_command 2) =
     Inr (\<lparr>cr_status = CREATED, cr_transaction = example_booked, cr_conflict = None\<rparr>,
       example_opened\<lparr>db_transactions := [example_booked]\<rparr>)"
  by (simp add: create_eval example_digest_def example_booked_def example_row_command_def example_opened_def
      example_batch_def new_import_batch_def economic_payload_def canonical_payload_def json_fields_def dec_eval
      cong: bindR_weak_cong let_weak_cong)


abbreviation example_import :: "app_error + import_report \<times> database" where
  "example_import \<equiv> import_text example_digest (\<lambda>_. hash_text CHR ''f'') (\<lambda>j. 100 + of_nat j) (\<lambda>j. Aware (200 + int j) 0)
     example_db 1 2 ''csv'' ''f.csv'' example_file ''1'' None"

definition example_records :: "import_record_row list" where
  "example_records = [
     accepted_record (received_record example_digest 101 100 ''f.csv'' 2 (Aware 200 0) (raw_of example_good_row))
       (example_row_command 2) \<lparr>cr_status = CREATED, cr_transaction = example_booked, cr_conflict = None\<rparr>,
     rejected_record (received_record example_digest 103 100 ''f.csv'' 3 (Aware 200 0) (raw_of example_bad_row))
       None (''UNSUPPORTED_TRANSACTION_TYPE'', ''unsupported transaction type: '')]"

definition example_imported :: database where
  "example_imported = example_opened\<lparr>db_transactions := [example_booked], db_import_records := example_records\<rparr>"

lemma example_rows_imported:
  "foldR (import_step example_digest (\<lambda>j. 100 + of_nat j) (\<lambda>j. Aware (200 + int j) 0) 1 2 ''csv'' ''f.csv'' example_batch) ([], example_opened)
     [Inr example_good_row, Inr example_bad_row] =
   Inr ([Record_POSTED, Record_REJECTED], example_imported)"
proof -
  have received: "ir_import_batch_id (received_record H i b f n now raw) = b" "ir_row_number (received_record H i b f n now raw) = n"
    "ir_created_at (received_record H i b f n now raw) = now" for H i b f n now raw
    by (simp_all add: received_record_def)
  have good: "process_row example_digest 102 now example_opened 1 2 ''csv'' (received_record example_digest 101 100 ''f.csv'' 2 (Aware 200 0)
      (raw_of example_good_row)) (raw_of example_good_row)
    = Inr (example_records ! 0, example_opened\<lparr>db_transactions := [example_booked]\<rparr>)" for now
    unfolding process_row_def received example_normalized sum.case example_booking prod.case by (simp add: example_records_def)
  have bad: "process_row example_digest i now db 1 2 ''csv'' (received_record example_digest 103 100 ''f.csv'' 3 (Aware 200 0)
      (raw_of example_bad_row)) (raw_of example_bad_row)
    = Inr (example_records ! 1, db)" for i now db
    unfolding process_row_def received example_refused sum.case by (simp add: rejection_def example_records_def)
  have statuses: "ir_status (example_records ! 0) = Record_POSTED" "ir_status (example_records ! 1) = Record_REJECTED"
    by (simp_all add: example_records_def accepted_record_def rejected_record_def)
  have small: "length (int_text 2) = 1" "length (int_text 3) = 1" by code_simp+
  have ins: "insert_import_record (example_opened\<lparr>db_transactions := [example_booked]\<rparr>) (example_records ! 0) =
      Inr (example_opened\<lparr>db_transactions := [example_booked], db_import_records := [example_records ! 0]\<rparr>)"
    "insert_import_record (example_opened\<lparr>db_transactions := [example_booked], db_import_records := [example_records ! 0]\<rparr>) (example_records ! 1)
      = Inr example_imported"
    by (simp_all add: small insert_import_record_def insert_row_def example_records_def accepted_record_def rejected_record_def received_record_def
      example_imported_def example_opened_def example_db_def empty_database_def example_batch_def new_import_batch_def example_booked_def transaction_of_def
      import_record_clash_def import_record_checks_def import_record_refs_def varchar_def refers_def)
  have batch: "ib_id example_batch = 100" "ib_received_at example_batch = Aware 200 0" by (simp_all add: example_batch_def new_import_batch_def)
  show ?thesis
    using good bad ins by (simp add: import_step_def batch statuses statuses(2) [unfolded One_nat_def] Let_def)
qed

definition example_report :: import_report where
  "example_report = report_of (completed_import [Record_POSTED, Record_REJECTED] (Aware 203 0) example_batch) False"

lemma example_report_counts:
  "rep_batch_id example_report = 100" "rep_status example_report = Batch_COMPLETED_WITH_ERRORS" "rep_total_count example_report = 2"
  "rep_posted_count example_report = 1" "rep_rejected_count example_report = 1" "\<not> rep_reused_batch example_report"
  by (simp_all add: example_report_def report_of_def completed_import_def example_batch_def new_import_batch_def status_total_def)

lemma example_import_run: "\<exists>db'. example_import = Inr (example_report, db') \<and> db_transactions db' = [example_booked] \<and> db_import_records db' = example_records"
proof -
  have new: "first_row (\<lambda>b. ib_fund_id b = 1 \<and> ib_source b = ''csv'' \<and> ib_content_sha256 b = hash_text CHR ''f'') (db_import_batches example_db) = None"
    by (simp add: example_db_def hash_text_def)
  have audit: "\<exists>db'. insert_audit_event (example_imported\<lparr>db_import_batches := bs\<rparr>) (import_audit 105 now (completed_import sts at' example_batch)) = Inr db'
      \<and> db_transactions db' = [example_booked] \<and> db_import_records db' = example_records" for bs now sts at'
    by (simp add: insert_audit_event_def insert_row_def audit_event_clash_def audit_event_checks_def audit_event_refs_def import_audit_def
      completed_import_def example_batch_def new_import_batch_def varchar_def refers_def example_imported_def example_opened_def
      example_db_def empty_database_def)
  have columns: "filter (\<lambda>c. c \<notin> set example_header) REQUIRED_COLUMNS = []" by (simp add: REQUIRED_COLUMNS_def)
  have batch: "new_import_batch 100 1 ''csv'' ''f.csv'' (hash_text CHR ''f'') ''1'' None (Aware 200 0) = example_batch" by (simp add: example_batch_def)
  have "finish_import (\<lambda>j. 100 + of_nat j) (\<lambda>j. Aware (200 + int j) 0) example_batch [Record_POSTED, Record_REJECTED] example_imported =
      bindR (insert_audit_event (example_imported\<lparr>db_import_batches := update_row ib_id (ib_id example_batch)
          (completed_import [Record_POSTED, Record_REJECTED] (Aware 203 0)) (db_import_batches example_imported)\<rparr>)
        (import_audit 105 (Aware 203 0) (completed_import [Record_POSTED, Record_REJECTED] (Aware 203 0) example_batch))) (\<lambda>db1. Inr (example_report, db1))"
    by (simp add: finish_import_def Let_def example_report_def)
  moreover have "example_import = finish_import (\<lambda>j. 100 + of_nat j) (\<lambda>j. Aware (200 + int j) 0) example_batch [Record_POSTED, Record_REJECTED] example_imported"
    using example_file_read columns by (simp add: import_text_def strip_csv new batch example_opened example_rows_imported Let_def del: foldR.simps)
  moreover obtain db' where "insert_audit_event (example_imported\<lparr>db_import_batches := update_row ib_id (ib_id example_batch)
        (completed_import [Record_POSTED, Record_REJECTED] (Aware 203 0)) (db_import_batches example_imported)\<rparr>)
      (import_audit 105 (Aware 203 0) (completed_import [Record_POSTED, Record_REJECTED] (Aware 203 0) example_batch)) = Inr db'"
    "db_transactions db' = [example_booked]" "db_import_records db' = example_records"
    using audit by blast
  ultimately show ?thesis by (simp add: bindR_def)
qed

theorem import_accounts_witness:
  "\<exists>db'. example_import = Inr (example_report, db') \<and> rep_total_count example_report = 2 \<and> rep_posted_count example_report = 1
     \<and> rep_rejected_count example_report = 1 \<and> (\<exists>es. map economic_row (db_transactions db') = map economic_row (db_transactions example_db) @ entry_transactions es)"
  using example_import_run import_accounts [of example_digest _ _ _ example_db 1 2 "''csv''" "''f.csv''" example_file "''1''" None example_report]
    example_report_counts by blast

theorem import_once_witness:
  "\<exists>db'. example_import = Inr (example_report, db') \<and> import_text example_digest (\<lambda>_. hash_text CHR ''f'') (\<lambda>j. 500) (\<lambda>j. Naive 0)
     db' 1 3 ''csv'' ''again.csv'' example_file ''2'' None = Inr (example_report\<lparr>rep_reused_batch := True\<rparr>, db')"
proof -
  obtain db' where run: "example_import = Inr (example_report, db')" using example_import_run by blast
  show ?thesis using run import_once [OF run] by blast
qed

theorem import_keeps_ledger_witness: "\<exists>db'. example_import = Inr (example_report, db') \<and> ledger_ok (db_transactions db')"
proof -
  have "ledger_ok (db_transactions example_db)" by (simp add: example_db_def empty_database_def ledger_ok_def table_ok_def)
  with example_import_run import_keeps_ledger show ?thesis by blast
qed

theorem import_traceable_witness:
  "\<exists>db' i. example_import = Inr (example_report, db') \<and> ir_transaction_id (example_records ! 0) = Some i
     \<and> (\<exists>p \<in> set (provenance_for (\<lambda>_. []) db' i). pvn_row_number p = 2 \<and> pvn_filename p = Some ''f.csv'')"
proof -
  obtain db' where run: "example_import = Inr (example_report, db')" "db_import_records db' = example_records" using example_import_run by blast
  have r: "example_records ! 0 \<in> set (db_import_records db')" "example_records ! 0 \<notin> set (db_import_records example_db)"
    "ir_status (example_records ! 0) = Record_POSTED" "ir_row_number (example_records ! 0) = 2"
    by (simp_all add: run(2) example_records_def accepted_record_def received_record_def example_db_def empty_database_def)
  show ?thesis using import_traceable [OF run(1) example_report_counts(6) r(1,2), of "\<lambda>_. []"] r(3,4) run(1) by auto
qed

theorem import_row_bound_witness: "rep_total_count example_report < int (length (text_lines example_file))"
  using example_import_run import_row_bound example_report_counts(6) by blast



section \<open>A file without the required columns\<close>

theorem import_failures_witness:
  "\<exists>e. import_text example_digest (\<lambda>_. []) (\<lambda>_. 0) (\<lambda>_. Naive 0) (example_db\<lparr>db_import_batches := []\<rparr>) 1 2 ''csv'' ''f.csv'' (plain_line [''amount'']) ''1'' None = Inl e
     \<and> ((\<exists>m. e = ImportPipelineError m) \<or> (\<exists>m. e = CsvError m) \<or> e = InvalidOperation \<or> (\<exists>t. e = IntegrityError t))"
proof -
  have "dict_reader (concat (map plain_line ([''amount''] # []))) = Inr (Some [''amount''], [])"
    by (subst dict_reader_plain) (simp_all add: plain_record_def plain_cell_def newline_def field_limit_def)
  then have "\<exists>e. import_text example_digest (\<lambda>_. []) (\<lambda>_. 0) (\<lambda>_. Naive 0) (example_db\<lparr>db_import_batches := []\<rparr>) 1 2 ''csv'' ''f.csv'' (plain_line [''amount'']) ''1'' None = Inl e"
    using strip_csv by (simp add: import_text_def REQUIRED_COLUMNS_def Let_def del: plain_line.simps)
  then show ?thesis using import_failures by blast
qed

end
