(* ===== verification/Csv_Provider.thy ===== *)
theory Csv_Provider
  imports Csv_Reader Literals Market_Data
begin

text \<open>
  \<open>app/market_data/csv_provider.py\<close>: the provider that reads the prices of a normalized CSV export.
\<close>

section \<open>Messages\<close>

text \<open>\<open>repr(s)\<close> of an ASCII text.\<close>

definition repr_char :: "char \<Rightarrow> char \<Rightarrow> string" where
  "repr_char quote c = (let n = (of_char c :: nat) in
     if c = quote \<or> n = 92 then [CHR 92, c]
     else if n = 9 then [CHR 92, CHR ''t''] else if n = 10 then [CHR 92, CHR ''n'']
     else if n = 13 then [CHR 92, CHR ''r'']
     else if n < 32 \<or> n = 127 then [CHR 92, CHR ''x'', hex_char (n div 16), hex_char (n mod 16)]
     else [c])"

definition py_repr :: "string \<Rightarrow> string" where
  "py_repr s = (let quote = (if CHR 39 \<in> set s \<and> CHR 34 \<notin> set s then CHR 34 else CHR 39) in
     [quote] @ concat (map (repr_char quote) s) @ [quote])"

section \<open>Rows\<close>

definition row_error :: "int \<Rightarrow> string \<Rightarrow> app_error" where
  "row_error n m = InvalidPriceObservation (''invalid CSV row '' @ int_text n @ '': '' @ m)"

text \<open>A required cell on which a text method is called; a short row has \<open>None\<close> there.\<close>

definition text_cell :: "int \<Rightarrow> string \<Rightarrow> (string, string option) dict \<Rightarrow> string \<Rightarrow> app_error + string" where
  "text_cell n attribute row key = (case dict_get row key of
     None \<Rightarrow> Inl (row_error n (py_repr key))
   | Some None \<Rightarrow> Inl (row_error n ([CHR 39] @ ''NoneType'' @ [CHR 39] @ '' object has no attribute '' @ py_repr attribute))
   | Some (Some s) \<Rightarrow> Inr s)"

definition observed_cell :: "int \<Rightarrow> (string, string option) dict \<Rightarrow> app_error + datetime" where
  "observed_cell n row =
     bindR (text_cell n ''replace'' row ''observed_at'') (\<lambda>s.
     (case from_isoformat (zulu s) of
        None \<Rightarrow> Inl (row_error n (''Invalid isoformat string: '' @ py_repr (zulu s)))
      | Some t \<Rightarrow> bindR (requireR (is_aware t) (row_error n ''observed_at must include a timezone'')) (\<lambda>_. Inr t)))"

text \<open>
  \<open>Decimal(row['price'])\<close>: on a short row the argument is \<open>None\<close> and the constructor raises
  \<open>TypeError\<close>, which the handler does not name. NaN and the infinities, which \<open>dec\<close> lacks, are
  refused as a NaN is when it is validated.
\<close>

definition price_cell :: "int \<Rightarrow> (string, string option) dict \<Rightarrow> app_error + dec" where
  "price_cell n row = (case dict_get row ''price'' of
     None \<Rightarrow> Inl (row_error n (py_repr ''price''))
   | Some None \<Rightarrow> Inl TypeError
   | Some (Some s) \<Rightarrow> (case decimal_literal s of
       Finite d \<Rightarrow> Inr d
     | Special \<Rightarrow> Inl InvalidOperation
     | Malformed \<Rightarrow> Inl (row_error n ''[<class 'decimal.ConversionSyntax'>]'')))"

text \<open>\<open>row.get(key) or fallback\<close>\<close>

definition cell_or :: "(string, string option) dict \<Rightarrow> string \<Rightarrow> string \<Rightarrow> string" where
  "cell_or row key fallback = (case dict_get row key of Some (Some s) \<Rightarrow> if s = [] then fallback else s | _ \<Rightarrow> fallback)"

definition price_type_cell :: "int \<Rightarrow> (string, string option) dict \<Rightarrow> price_type \<Rightarrow> app_error + price_type" where
  "price_type_cell n row fallback =
     (let s = cell_or row ''price_type'' (price_type_value fallback) in
      (case find (\<lambda>t. price_type_value t = s) [Price_CLOSE, Price_ADJUSTED_CLOSE] of
         None \<Rightarrow> Inl (row_error n (py_repr s @ '' is not a valid PriceType''))
       | Some t \<Rightarrow> Inr t))"

text \<open>\<open>request.start <= observed_at <= request.end\<close>, for an aware \<open>observed_at\<close>.\<close>

definition in_window :: "price_request \<Rightarrow> datetime \<Rightarrow> app_error + bool" where
  "in_window request t =
     bindR (requireR (is_aware (pr_start request)) TypeError) (\<lambda>_.
     if instant (pr_start request) \<le> instant t
     then bindR (requireR (is_aware (pr_end request)) TypeError) (\<lambda>_. Inr (instant t \<le> instant (pr_end request)))
     else Inr False)"

definition csv_price_row ::
  "price_request \<Rightarrow> int \<Rightarrow> (string, string option) dict \<Rightarrow> app_error + provider_price option" where
  "csv_price_row request n row =
     bindR (text_cell n ''strip'' row ''identifier'') (\<lambda>cell.
     bindR (observed_cell n row) (\<lambda>observed_at.
     bindR (price_cell n row) (\<lambda>price.
     bindR (price_type_cell n row (pr_price_type request)) (\<lambda>ptype.
     let identifier = strip cell in
     bindR (if identifier \<notin> set (pr_identifiers request) then Inr False else in_window request observed_at) (\<lambda>wanted.
     Inr (if wanted then Some \<lparr>pp_identifier = identifier, pp_observed_at = observed_at, pp_price = price,
         pp_currency = cell_or row ''currency'' ''USD'', pp_price_type = ptype,
         pp_source_metadata = Some (JObj [(''row_number'', JInt n)])\<rparr> else None))))))"

section \<open>Provider\<close>

definition csv_price_step ::
  "price_request \<Rightarrow> nat \<times> provider_price list \<Rightarrow> app_error + (string, string option) dict
     \<Rightarrow> app_error + nat \<times> provider_price list" where
  "csv_price_step request st source_row = (case st of (k, out) \<Rightarrow>
     bindR source_row (\<lambda>row.
     bindR (csv_price_row request (int k + 2) row) (\<lambda>p.
     Inr (Suc k, out @ (case p of None \<Rightarrow> [] | Some x \<Rightarrow> [x])))))"

definition csv_fetch_prices :: "string \<Rightarrow> price_request \<Rightarrow> app_error + provider_price list" where
  "csv_fetch_prices content request =
     bindR (dict_reader content) (\<lambda>(header, rows).
     bindR (requireR (case header of None \<Rightarrow> False
         | Some h \<Rightarrow> set [''identifier'', ''observed_at'', ''price''] \<subseteq> set h)
       (InvalidPriceObservation ''CSV requires identifier, observed_at, and price headers'')) (\<lambda>_.
     bindR (foldR (csv_price_step request) (0, []) rows) (\<lambda>(k, out). Inr out)))"

definition csv_market_data_provider :: "string \<Rightarrow> string \<Rightarrow> market_data_provider" where
  "csv_market_data_provider content name = \<lparr>provider_name = name, fetch_prices = csv_fetch_prices content\<rparr>"

end
