(* ===== verification/Csv_Provider_Properties.thy ===== *)
theory Csv_Provider_Properties
  imports Csv_Provider Csv_Properties Market_Data_Properties
begin

text \<open>
  What the CSV provider answers: the rows of the file that were asked for, in order, all inside the
  requested window, so that an ingestion from it cannot change a quote before the window.
\<close>

section \<open>One row\<close>

lemma csv_price_row_Inr:
  assumes "csv_price_row request n row = Inr (Some p)"
  shows "pp_identifier p \<in> set (pr_identifiers request)" "is_aware (pp_observed_at p)"
    "instant (pr_start request) \<le> instant (pp_observed_at p)" "instant (pp_observed_at p) \<le> instant (pr_end request)"
    "pp_source_metadata p = Some (JObj [(''row_number'', JInt n)])"
  using assms
  by (auto simp: csv_price_row_def observed_cell_def in_window_def result_simps Let_def split: if_splits option.splits)

section \<open>The loop\<close>

definition fetched :: "price_request \<Rightarrow> (string, string option) dict list \<Rightarrow> nat list \<Rightarrow> provider_price list \<Rightarrow> bool" where
  "fetched request rows ns out \<longleftrightarrow> sorted_wrt (<) ns
     \<and> list_all2 (\<lambda>n p. n < length rows \<and> csv_price_row request (int n + 2) (rows ! n) = Inr (Some p)) ns out
     \<and> (\<forall>n < length rows. n \<notin> set ns \<longrightarrow> csv_price_row request (int n + 2) (rows ! n) = Inr None)"

definition csv_inv :: "price_request \<Rightarrow> (app_error + (string, string option) dict) list \<Rightarrow> nat \<times> provider_price list \<Rightarrow> bool" where
  "csv_inv request h st \<longleftrightarrow> (case st of (k, out) \<Rightarrow> \<exists>rows ns. h = map Inr rows \<and> k = length rows \<and> fetched request rows ns out)"

lemma fetched_indices: "fetched request rows ns out \<Longrightarrow> n \<in> set ns \<Longrightarrow> n < length rows"
  by (auto simp: fetched_def list_all2_conv_all_nth in_set_conv_nth)

lemma csv_price_step_inv:
  assumes "csv_inv request h st" and "csv_price_step request st x = Inr st'"
  shows "csv_inv request (h @ [x]) st'"
proof -
  obtain out rows ns where st: "st = (length rows, out)" "h = map Inr rows" and f: "fetched request rows ns out"
    using assms(1) by (auto simp: csv_inv_def)
  from assms(2) obtain row p where x: "x = Inr row" and row: "csv_price_row request (int (length rows) + 2) row = Inr p"
    and st': "st' = (Suc (length rows), out @ (case p of None \<Rightarrow> [] | Some q \<Rightarrow> [q]))"
    by (auto simp: csv_price_step_def st(1) result_simps)
  have below: "n \<in> set ns \<Longrightarrow> n < length rows" for n using f by (rule fetched_indices)
  have "list_all2 (\<lambda>n p. n < length (rows @ [row]) \<and> csv_price_row request (int n + 2) ((rows @ [row]) ! n) = Inr (Some p)) ns out"
    using f unfolding fetched_def by (auto simp: nth_append elim!: list_all2_mono)
  then have "fetched request (rows @ [row]) (ns @ (case p of None \<Rightarrow> [] | Some q \<Rightarrow> [length rows])) (out @ (case p of None \<Rightarrow> [] | Some q \<Rightarrow> [q]))"
    using f row below by (cases p) (auto simp: fetched_def sorted_wrt_append nth_append less_Suc_eq list_all2_appendI)
  then show ?thesis
    by (auto simp: csv_inv_def st' x st(2) intro!: exI [of _ "rows @ [row]"])
qed

interpretation csv_loop: history_invariant "csv_price_step request" "(0, [])" "csv_inv request" "\<lambda>_. True" for request
proof unfold_locales
  show "csv_inv request [] (0, [])" by (auto simp: csv_inv_def fetched_def)
qed (blast intro: csv_price_step_inv)+

lemma csv_fetched:
  assumes "csv_fetch_prices content request = Inr prices"
  obtains header rows ns where "dict_reader content = Inr (Some header, map Inr rows)" "fetched request rows ns prices"
proof -
  from assms obtain header rows k where r: "dict_reader content = Inr (Some header, rows)"
    "foldR (csv_price_step request) (0, []) rows = Inr (k, prices)"
    by (auto simp: csv_fetch_prices_def result_simps split: option.splits)
  from csv_loop.run_inv [OF TrueI r(2)] show thesis using r(1) that by (auto simp: csv_inv_def)
qed

lemma fetched_each:
  assumes "fetched request rows ns prices" "p \<in> set prices"
  shows "\<exists>n. csv_price_row request n (rows ! nat (n - 2)) = Inr (Some p)"
proof -
  from assms obtain j where "j < length prices" "prices ! j = p" "csv_price_row request (int (ns ! j) + 2) (rows ! (ns ! j)) = Inr (Some p)"
    by (auto simp: fetched_def list_all2_conv_all_nth in_set_conv_nth)
  then show ?thesis by (intro exI [of _ "int (ns ! j) + 2"]) simp
qed

theorem csv_fetch_prices_window:
  assumes "csv_fetch_prices content request = Inr prices"
  shows "(\<exists>header rows ns. dict_reader content = Inr (Some header, map Inr rows) \<and> fetched request rows ns prices)
    \<and> (\<forall>p \<in> set prices. pp_identifier p \<in> set (pr_identifiers request) \<and> is_aware (pp_observed_at p)
        \<and> instant (pr_start request) \<le> instant (pp_observed_at p) \<and> instant (pp_observed_at p) \<le> instant (pr_end request))"
  using assms
proof (rule csv_fetched)
  fix header rows ns
  assume r: "dict_reader content = Inr (Some header, map Inr rows)" "fetched request rows ns prices"
  then show ?thesis using fetched_each [OF r(2)] csv_price_row_Inr by blast
qed

lemma csv_fetch_starts:
  assumes "csv_fetch_prices content request = Inr prices" "p \<in> set prices"
  shows "instant (pr_start request) \<le> instant (pp_observed_at p)"
  using assms(1)
proof (rule csv_fetched)
  fix header rows ns
  assume "fetched request rows ns prices"
  from fetched_each [OF this assms(2)] show ?thesis by (auto dest: csv_price_row_Inr(3))
qed

text \<open>C27: An ingestion from the CSV provider, whatever the file holds, never changes a quote at a
  cutoff before the requested window: the provider answers only observations inside the window.\<close>

theorem csv_ingest_no_lookahead:
  assumes run: "ingest H ids db (csv_market_data_provider content name) request t = Inr (res, db')"
    and start: "instant as_of < instant (pr_start request)"
  shows "latest_quote db' i as_of age provider ptype = latest_quote db i as_of age provider ptype"
  using run
proof (rule ingest_appends)
  fix ps
  assume ps: "db_market_prices db' = db_market_prices db @ ps"
    "\<And>p. p \<in> set ps \<Longrightarrow> \<exists>items. fetch_prices (csv_market_data_provider content name) request = Inr items
      \<and> (\<exists>item \<in> set items. instant (mp_observed_at p) = instant (pp_observed_at item))"
  show ?thesis
  proof (rule latest_quote_appended [OF ps(1)])
    fix p assume "p \<in> set ps"
    from ps(2) [OF this] start show "instant as_of < instant (mp_observed_at p)"
      by (auto simp: csv_market_data_provider_def dest!: csv_fetch_starts)
  qed
qed
end
