(* ===== verification/Csv_Provider_Witnesses.thy ===== *)
theory Csv_Provider_Witnesses
  imports Csv_Provider_Properties Market_Witnesses
begin

text \<open>A small CSV export of prices, read and ingested, on which the properties of the provider are applied.\<close>
section \<open>A file of two prices\<close>

abbreviation "price_header \<equiv> [''identifier'', ''observed_at'', ''price'']"
abbreviation "price_wanted \<equiv> ['' X'', ''2024-01-01T00:00:00Z'', ''25'']"
abbreviation "price_other \<equiv> [''Y'', ''2024-01-01T00:00:00Z'', ''26'']"

definition price_rows :: "(string, string option) dict list" where
  "price_rows = map (\<lambda>r. zip price_header (map Some r)) [price_wanted, price_other]"

definition price_file :: string where
  "price_file = concat (map plain_line [price_header, price_wanted, price_other])"

lemma price_file_read: "dict_reader price_file = Inr (Some price_header, map Inr price_rows)"
  unfolding price_file_def
  by (subst dict_reader_plain) (simp_all add: plain_record_def plain_cell_def newline_def field_limit_def csv_row_def price_rows_def)

definition price_window :: price_request where
  "price_window = \<lparr>pr_identifiers = [''X''], pr_start = Aware 1704067200000000 0, pr_end = Aware 1704067200000000 0, pr_price_type = Price_CLOSE\<rparr>"

definition fetched_price :: provider_price where
  "fetched_price = \<lparr>pp_identifier = ''X'', pp_observed_at = Aware 1704067200000000 0, pp_price = Dec 25 0, pp_currency = ''USD'',
     pp_price_type = Price_CLOSE, pp_source_metadata = Some (JObj [(''row_number'', JInt 2)])\<rparr>"

lemma price_cells:
  "from_isoformat (zulu ''2024-01-01T00:00:00Z'') = Some (Aware 1704067200000000 0)"
  "decimal_literal ''25'' = Finite (Dec 25 0)" "decimal_literal ''26'' = Finite (Dec 26 0)"
  "strip '' X'' = ''X''" "strip ''Y'' = ''Y''"
  by code_simp+

lemma price_fetched: "csv_fetch_prices price_file price_window = Inr [fetched_price]"
  using price_file_read
  by (simp add: csv_fetch_prices_def price_rows_def csv_price_step_def csv_price_row_def text_cell_def observed_cell_def price_cell_def
      price_type_cell_def cell_or_def in_window_def price_cells price_window_def fetched_price_def Let_def)

theorem csv_fetch_prices_window_witness:
  "csv_fetch_prices price_file price_window = Inr [fetched_price]
   \<and> (\<exists>header rows ns. dict_reader price_file = Inr (Some header, map Inr rows) \<and> fetched price_window rows ns [fetched_price])"
  using csv_fetch_prices_window [OF price_fetched] price_fetched by blast

lemma price_ingest:
  "\<exists>res db'. ingest example_digest (\<lambda>k. 60 + of_nat k) example_listed (csv_market_data_provider price_file ''p'') price_window (Aware 9 0) = Inr (res, db')"
proof -
  have h: "length (request_hash example_digest ''p'' price_window) = 64"
    by (simp add: request_hash_def)
  have "strip ''X'' = ''X''" by code_simp
  then show ?thesis
    using price_fetched
    by (simp add: ingest_def market_aware_def price_window_def [THEN arg_cong [where f = pr_start]]
      price_window_def [THEN arg_cong [where f = pr_end]] price_window_def [THEN arg_cong [where f = pr_price_type]]
      csv_market_data_provider_def example_listed_def example_db_def empty_database_def Let_def new_batch_def
      insert_market_data_batch_def insert_row_def market_data_batch_checks_def varchar_def h
      ingest_items_def ingest_one_def validate_price_def resolve_identifier_def fetched_price_def
      identifier_candidates_def valid_at_def stored_price_def insert_market_price_def market_price_checks_def
      market_price_refs_def refers_def metadata_or_empty_def dlt_def scaled_def)
qed

theorem csv_ingest_no_lookahead_witness:
  "\<exists>res db'. ingest example_digest (\<lambda>k. 60 + of_nat k) example_listed (csv_market_data_provider price_file ''p'') price_window (Aware 9 0) = Inr (res, db')
     \<and> latest_quote db' 8 (Aware 7 0) 0 None Price_CLOSE = latest_quote example_listed 8 (Aware 7 0) 0 None Price_CLOSE"
proof -
  obtain res db' where run: "ingest example_digest (\<lambda>k. 60 + of_nat k) example_listed (csv_market_data_provider price_file ''p'') price_window (Aware 9 0) = Inr (res, db')"
    using price_ingest by blast
  have "instant (Aware 7 0) < instant (pr_start price_window)" by (simp add: price_window_def)
  from csv_ingest_no_lookahead [OF run this] run show ?thesis by blast
qed
end
