(* ===== verification/Json_Text.thy ===== *)
theory Json_Text
  imports Literals Floats Models
begin

text \<open>
  \<open>json.loads(text)\<close> and \<open>json.dumps(value, sort_keys=True, separators=(",", ":"))\<close> of the standard
  library, as CPython 3.12 has them. A text is its UTF-8 bytes. A scanner makes tokens, a stack machine
  reads them from left to right and stops at the first error, so that the exception is the one the
  recursive scanner of CPython meets first. Not modelled: its recursion limit.
\<close>

section \<open>Strings\<close>

definition hex_value :: "char \<Rightarrow> nat" where
  "hex_value c = (let n = (of_char c :: nat) in if n < 58 then n - 48 else if n < 71 then n - 55 else n - 87)"

definition hex4 :: "string \<Rightarrow> (nat \<times> string) option" where
  "hex4 s = (if length (take 4 s) = 4 \<and> list_all (\<lambda>c. c \<in> set ''0123456789abcdefABCDEF'') (take 4 s)
     then Some (foldl (\<lambda>n c. 16 * n + hex_value c) 0 (take 4 s), drop 4 s) else None)"

text \<open>What follows \<open>\u\<close>: four digits, and the second half of a surrogate pair.\<close>

definition unicode_escape :: "string \<Rightarrow> (nat \<times> string) option" where
  "unicode_escape s = Option.bind (hex4 s) (\<lambda>(n, r).
     if 0xD800 \<le> n \<and> n \<le> 0xDBFF \<and> take 2 r = [CHR 92, CHR ''u''] then
       Option.bind (hex4 (drop 2 r)) (\<lambda>(m, r').
         if 0xDC00 \<le> m \<and> m \<le> 0xDFFF then Some (0x10000 + (n - 0xD800) * 1024 + (m - 0xDC00), r') else Some (n, r))
     else Some (n, r))"

definition utf8 :: "nat \<Rightarrow> string" where
  "utf8 n = map char_of
     (if n < 0x80 then [n]
      else if n < 0x800 then [0xC0 + n div 64, 0x80 + n mod 64]
      else if n < 0x10000 then [0xE0 + n div 4096, 0x80 + n div 64 mod 64, 0x80 + n mod 64]
      else [0xF0 + n div 262144, 0x80 + n div 4096 mod 64, 0x80 + n div 64 mod 64, 0x80 + n mod 64])"

definition simple_escapes :: "(char \<times> char) list" where
  "simple_escapes = [(CHR 34, CHR 34), (CHR 92, CHR 92), (CHR ''/'', CHR ''/''), (CHR ''b'', CHR 8),
     (CHR ''f'', CHR 12), (CHR ''n'', CHR 10), (CHR ''r'', CHR 13), (CHR ''t'', CHR 9)]"

lemma unicode_escape_shorter: "unicode_escape s = Some (n, r) \<Longrightarrow> length r < length s"
  by (auto simp: unicode_escape_def hex4_def bind_eq_Some_conv split: if_splits)

text \<open>The text up to the closing quote, and what follows it.\<close>

function scan_string :: "string \<Rightarrow> (string \<times> string) option" where
  "scan_string [] = None"
| "scan_string (c # s) =
     (if c = CHR 34 then Some ([], s)
      else if c = CHR 92 then
        (case s of [] \<Rightarrow> None
         | e # s' \<Rightarrow>
             if e = CHR ''u'' then
               (case unicode_escape s' of None \<Rightarrow> None
                | Some (n, r) \<Rightarrow> map_option (apfst ((@) (utf8 n))) (scan_string r))
             else (case map_of simple_escapes e of None \<Rightarrow> None
                | Some x \<Rightarrow> map_option (apfst ((#) x)) (scan_string s')))
      else if (of_char c :: nat) < 32 then None
      else map_option (apfst ((#) c)) (scan_string s))"
  by pat_completeness auto
termination
  by (relation "measure length") (auto dest: unicode_escape_shorter)

lemma scan_string_shorter: "scan_string s = Some (x, r) \<Longrightarrow> length r < length s"
proof (induction s arbitrary: x rule: scan_string.induct)
  case (2 c s)
  then show ?case
    by (auto split: if_splits list.splits option.splits prod.splits dest!: unicode_escape_shorter)
       fastforce+
qed simp

declare scan_string.simps [simp del]

section \<open>Tokens\<close>

datatype token =
    T_LBrace | T_RBrace | T_LBracket | T_RBracket | T_Comma | T_Colon | T_Value json | T_Long nat | T_Bad

text \<open>\<open>(\.\d+)?\<close> and \<open>([eE][-+]?\d+)?\<close> at the start of a text, and what follows.\<close>

definition scan_fraction :: "string \<Rightarrow> string \<times> string" where
  "scan_fraction s =
     (let ds = (if take 1 s = ''.'' then takeWhile digit (drop 1 s) else []) in
      (ds, if ds = [] then s else drop (Suc (length ds)) s))"

definition scan_exponent :: "string \<Rightarrow> int option \<times> string" where
  "scan_exponent s =
     (case split_sign (drop 1 s) of (sign, v) \<Rightarrow>
        if (take 1 s = ''e'' \<or> take 1 s = ''E'') \<and> takeWhile digit v \<noteq> []
        then (Some (sign * digits_value (takeWhile digit v)), dropWhile digit v) else (None, s))"

text \<open>
  A number: an integer of at most 4300 digits, the limit of the interpreter, or a float when it has a
  fraction or an exponent.
\<close>

definition scan_number :: "string \<Rightarrow> token \<times> string" where
  "scan_number s =
     (let negative = (take 1 s = ''-''); u = (if negative then drop 1 s else s);
          whole = (if take 1 u = ''0'' then ''0'' else takeWhile digit u) in
      if whole = [] then (T_Bad, [])
      else (case scan_fraction (drop (length whole) u) of (fraction, r) \<Rightarrow>
        (case scan_exponent r of (exponent, r') \<Rightarrow>
          let c = (if negative then - 1 else 1) * digits_value (whole @ fraction) in
          (if fraction \<noteq> [] \<or> exponent \<noteq> None
           then T_Value (JFloat (double_of_decimal c (case_option 0 id exponent - int (length fraction))))
           else if 4300 < length whole then T_Long (length whole) else T_Value (JInt c), r'))))"

lemma scan_fraction_shorter: "length (snd (scan_fraction s)) \<le> length s"
  by (simp add: scan_fraction_def Let_def)

lemma scan_exponent_shorter: "length (snd (scan_exponent s)) \<le> length s"
proof -
  have "length (snd (split_sign t)) \<le> length t" for t by (auto simp: split_sign_def split: list.splits)
  from this [of "drop 1 s"] have "length (dropWhile digit (snd (split_sign (drop 1 s)))) \<le> length s"
    using length_dropWhile_le [of digit "snd (split_sign (drop 1 s))"] by simp
  then show ?thesis by (auto simp: scan_exponent_def split: prod.splits)
qed

lemma scan_number_shorter: "length (snd (scan_number (c # s))) < Suc (length s)"
proof -
  have rest: "length (snd (scan_exponent (snd (scan_fraction t)))) \<le> length t" for t
    using scan_exponent_shorter scan_fraction_shorter by (rule order_trans)
  have "length (snd (scan_exponent (snd (scan_fraction (drop (length whole) u))))) < Suc (length s)"
    if "whole \<noteq> []" "length u \<le> Suc (length s)" for whole u :: string
    using rest [of "drop (length whole) u"] that by (cases whole) auto
  then show ?thesis by (simp add: scan_number_def Let_def split_beta)
qed

definition literals :: "(string \<times> token) list" where
  "literals = [(''{'', T_LBrace), (''}'', T_RBrace), (''['', T_LBracket), ('']'', T_RBracket), ('','', T_Comma),
     ('':'', T_Colon), (''null'', T_Value JNull), (''true'', T_Value (JBool True)), (''false'', T_Value (JBool False)),
     (''NaN'', T_Value (JFloat Float_NaN)), (''Infinity'', T_Value (JFloat (Float_Inf False))),
     (''-Infinity'', T_Value (JFloat (Float_Inf True)))]"

text \<open>The token at the start of a text that is not blank, and the text after it.\<close>

definition scan_token :: "string \<Rightarrow> token \<times> string" where
  "scan_token s =
     (if take 1 s = [CHR 34] then
        (case scan_string (drop 1 s) of None \<Rightarrow> (T_Bad, []) | Some (x, r) \<Rightarrow> (T_Value (JStr x), r))
      else (case find (\<lambda>(l, t). take (length l) s = l) literals of
          Some (l, t) \<Rightarrow> (t, drop (length l) s)
        | None \<Rightarrow> scan_number s))"

definition json_blank :: "char \<Rightarrow> bool" where
  "json_blank c \<longleftrightarrow> c = CHR 32 \<or> c = CHR 9 \<or> c = CHR 10 \<or> c = CHR 13"


lemma scan_token_shorter: "length (snd (scan_token (c # s))) < Suc (length s)"
proof (cases "c = CHR 34")
  case True
  then show ?thesis by (auto simp: scan_token_def split: option.splits dest: scan_string_shorter)
next
  case False
  show ?thesis
  proof (cases "find (\<lambda>(l, t). take (length l) (c # s) = l) literals")
    case None
    with False show ?thesis using scan_number_shorter [of c s] by (simp add: scan_token_def)
  next
    case (Some lt)
    then have "lt \<in> set literals" by (auto simp: find_Some_iff in_set_conv_nth)
    then have "fst lt \<noteq> []" by (auto simp: literals_def)
    with False Some show ?thesis by (cases "fst lt") (auto simp: scan_token_def split: prod.splits)
  qed
qed

function tokens :: "string \<Rightarrow> token list" where
  "tokens [] = []"
| "tokens (c # s) = (if json_blank c then tokens s
     else let p = scan_token (c # s) in fst p # tokens (snd p))"
  by pat_completeness auto
termination
  by (relation "measure length") (use scan_token_shorter in \<open>auto simp: less_Suc_eq_le\<close>)

declare tokens.simps [simp del]

section \<open>The parser\<close>

text \<open>The open lists and objects, innermost first; an object may wait for the value of a key.\<close>

datatype frame = F_List "json list" | F_Obj "(string, json) dict" | F_Key "(string, json) dict" string

text \<open>What the parser expects: after \<open>[\<close> and \<open>{\<close> the closing bracket is allowed.\<close>

datatype expected = E_Value | E_First | E_First_Key | E_Key | E_Colon | E_Next | E_Done json

definition deliver :: "json \<Rightarrow> frame list \<Rightarrow> app_error + expected \<times> frame list" where
  "deliver v stack = (case stack of
     [] \<Rightarrow> Inr (E_Done v, [])
   | F_List vs # fs \<Rightarrow> Inr (E_Next, F_List (vs @ [v]) # fs)
   | F_Key d k # fs \<Rightarrow> Inr (E_Next, F_Obj (dict_set k v d) # fs)
   | F_Obj _ # _ \<Rightarrow> Inl JSONDecodeError)"

definition long_integer :: "nat \<Rightarrow> app_error" where
  "long_integer n = ValueError (''Exceeds the limit (4300 digits) for integer string conversion: value has ''
     @ nat_text n @ '' digits; use sys.set_int_max_str_digits() to increase the limit'')"

definition read_value :: "frame list \<Rightarrow> token \<Rightarrow> app_error + expected \<times> frame list" where
  "read_value stack t = (case t of
     T_Value v \<Rightarrow> deliver v stack
   | T_Long n \<Rightarrow> Inl (long_integer n)
   | T_LBracket \<Rightarrow> Inr (E_First, F_List [] # stack)
   | T_LBrace \<Rightarrow> Inr (E_First_Key, F_Obj [] # stack)
   | _ \<Rightarrow> Inl JSONDecodeError)"

definition read_key :: "frame list \<Rightarrow> token \<Rightarrow> app_error + expected \<times> frame list" where
  "read_key stack t = (case (stack, t) of
     (F_Obj d # fs, T_Value (JStr k)) \<Rightarrow> Inr (E_Colon, F_Key d k # fs)
   | _ \<Rightarrow> Inl JSONDecodeError)"

definition read_next :: "frame list \<Rightarrow> token \<Rightarrow> app_error + expected \<times> frame list" where
  "read_next stack t = (case (stack, t) of
     (F_List vs # fs, T_RBracket) \<Rightarrow> deliver (JList vs) fs
   | (F_Obj d # fs, T_RBrace) \<Rightarrow> deliver (JObj d) fs
   | (F_List vs # fs, T_Comma) \<Rightarrow> Inr (E_Value, stack)
   | (F_Obj d # fs, T_Comma) \<Rightarrow> Inr (E_Key, stack)
   | _ \<Rightarrow> Inl JSONDecodeError)"

definition read_token :: "expected \<times> frame list \<Rightarrow> token \<Rightarrow> app_error + expected \<times> frame list" where
  "read_token s t = (case s of (expected, stack) \<Rightarrow> (case expected of
     E_Value \<Rightarrow> read_value stack t
   | E_First \<Rightarrow> if t = T_RBracket then read_next stack t else read_value stack t
   | E_First_Key \<Rightarrow> if t = T_RBrace then read_next stack t else read_key stack t
   | E_Key \<Rightarrow> read_key stack t
   | E_Colon \<Rightarrow> if t = T_Colon then Inr (E_Value, stack) else Inl JSONDecodeError
   | E_Next \<Rightarrow> read_next stack t
   | E_Done v \<Rightarrow> Inl JSONDecodeError))"

definition json_loads :: "string \<Rightarrow> app_error + json" where
  "json_loads s = bindR (foldR read_token (E_Value, []) (tokens s)) (\<lambda>(expected, stack).
     (case expected of E_Done v \<Rightarrow> Inr v | _ \<Rightarrow> Inl JSONDecodeError))"

section \<open>Text of a value\<close>

text \<open>The code points of a text, and their escapes in \<open>\uXXXX\<close> notation.\<close>

function code_points :: "string \<Rightarrow> nat list" where
  "code_points [] = []"
| "code_points (c # s) =
     (let n = (of_char c :: nat); k = (if n < 0xC0 then 0 else if n < 0xE0 then 1 else if n < 0xF0 then 2 else 3) in
      foldl (\<lambda>m d. m * 64 + of_char d mod 64) (if k = 0 then n else n mod 2 ^ (6 - k)) (take k s) # code_points (drop k s))"
  by pat_completeness auto
termination
  by (relation "measure length") auto

definition hex_escape :: "nat \<Rightarrow> string" where
  "hex_escape n = [CHR 92, CHR ''u'', hex_char (n div 4096 mod 16), hex_char (n div 256 mod 16),
     hex_char (n div 16 mod 16), hex_char (n mod 16)]"

definition escape_point :: "nat \<Rightarrow> string" where
  "escape_point n =
     (case map_of [(34, CHR 34), (92, CHR 92), (10, CHR ''n''), (13, CHR ''r''), (9, CHR ''t''), (12, CHR ''f''),
         (8, CHR ''b'')] n of
        Some c \<Rightarrow> [CHR 92, c]
      | None \<Rightarrow>
          if 32 \<le> n \<and> n < 127 then [char_of n]
          else if n < 0x10000 then hex_escape n
          else hex_escape (0xD800 + (n - 0x10000) div 1024) @ hex_escape (0xDC00 + (n - 0x10000) mod 1024))"

definition quoted :: "string \<Rightarrow> string" where
  "quoted s = CHR 34 # concat (map escape_point (code_points s)) @ [CHR 34]"

definition commas :: "string list \<Rightarrow> string" where
  "commas ts = concat (map (\<lambda>(k, t). (if k = 0 then [] else '','') @ t) (enumerate 0 ts))"

fun json_text :: "json \<Rightarrow> string" where
  "json_text JNull = ''null''"
| "json_text (JBool b) = (if b then ''true'' else ''false'')"
| "json_text (JInt n) = int_text n"
| "json_text (JFloat x) = (case x of Float_NaN \<Rightarrow> ''NaN''
     | Float_Inf negative \<Rightarrow> (if negative then ''-Infinity'' else ''Infinity'') | Float _ _ \<Rightarrow> float_text x)"
| "json_text (JStr s) = quoted s"
| "json_text (JUuid u) = quoted (uuid_text u)"
| "json_text (JDec d) = quoted (dec_text d)"
| "json_text (JTime t) = quoted (isoformat t)"
| "json_text (JDate d) = quoted (date_text d)"
| "json_text (JList vs) = ''['' @ commas (map json_text vs) @ '']''"
| "json_text (JObj kvs) = ''{'' @ commas (map (\<lambda>(k, t). quoted k @ '':'' @ t)
     (sort_key fst (map (\<lambda>(k, v). (k, json_text v)) kvs))) @ ''}''"

end
