(* ===== verification/Ai_Tools.thy ===== *)
theory Ai_Tools
  imports Json_Text Scenario_Service Governance
begin

text \<open>
  \<open>app/ai/types.py\<close>, \<open>app/ai/errors.py\<close> and \<open>app/ai/tools.py\<close>: the values the assistant passes
  around, the definitions of its tools, and the registry that authorizes, validates and runs a tool
  call. The tools themselves are the record \<open>portfolio_tools\<close>, the methods of the protocol
  \<open>ReadOnlyPortfolioTools\<close>.
\<close>

section \<open>Types\<close>

fun tool_status_value :: "tool_execution_status \<Rightarrow> string" where
  "tool_status_value Tool_SUCCEEDED = ''SUCCEEDED''"
| "tool_status_value Tool_UNAVAILABLE = ''UNAVAILABLE''"
| "tool_status_value Tool_DENIED = ''DENIED''"
| "tool_status_value Tool_INVALID = ''INVALID''"

fun conversation_status_value :: "conversation_status \<Rightarrow> string" where
  "conversation_status_value Conversation_ACTIVE = ''ACTIVE''"
| "conversation_status_value Conversation_COMPLETED = ''COMPLETED''"
| "conversation_status_value Conversation_REFUSED = ''REFUSED''"
| "conversation_status_value Conversation_FAILED = ''FAILED''"

record source_reference =
  src_type :: string
  src_id :: string
  src_label :: string
  src_as_of :: "datetime option"
  src_input_hash :: "string option"

definition source_dict :: "source_reference \<Rightarrow> json" where
  "source_dict s = JObj [
     (''source_type'', JStr (src_type s)),
     (''source_id'', JStr (src_id s)),
     (''label'', JStr (src_label s)),
     (''as_of'', json_opt JTime (src_as_of s)),
     (''input_hash'', json_opt JStr (src_input_hash s))]"

record tool_result =
  tr_data :: json
  tr_sources :: "source_reference list"
  tr_warnings :: "string list"

definition result_dict :: "tool_result \<Rightarrow> json" where
  "result_dict r = JObj [
     (''data'', tr_data r),
     (''sources'', JList (map source_dict (tr_sources r))),
     (''warnings'', JList (map JStr (tr_warnings r)))]"

record tool_context =
  ctx_conversation_id :: uuid
  ctx_actor_user_id :: uuid
  ctx_fund_id :: uuid

record tool_call =
  call_id :: string
  call_name :: string
  call_arguments_json :: string

record model_turn =
  turn_response_id :: string
  turn_text :: "string option"
  turn_tool_calls :: "tool_call list"

record assistant_answer =
  ans_conversation_id :: uuid
  ans_status :: conversation_status
  ans_text :: string
  ans_sources :: "source_reference list"
  ans_warnings :: "string list"

section \<open>Exceptions\<close>

text \<open>The subclasses of \<open>ValueError\<close>, and \<open>str(error)\<close> of an exception.\<close>

fun is_value_error :: "app_error \<Rightarrow> bool" where
  "is_value_error (PortfolioReconstructionError (PyKeyError _)) = False"
| "is_value_error (CsvError _) = False"
| "is_value_error (IntegrityError _) = False"
| "is_value_error NoResultFound = False"
| "is_value_error AssertionError = False"
| "is_value_error KeyError = False"
| "is_value_error InvalidOperation = False"
| "is_value_error DivisionByZero = False"
| "is_value_error OverflowError = False"
| "is_value_error TypeError = False"
| "is_value_error AttributeError = False"
| "is_value_error _ = True"

fun portfolio_error_text :: "portfolio_error \<Rightarrow> string" where
  "portfolio_error_text (InvalidEngineInput m u) = m @ (case u of None \<Rightarrow> [] | Some i \<Rightarrow> '': '' @ uuid_text i)"
| "portfolio_error_text (InvalidReversalError m u) = m @ (case u of None \<Rightarrow> [] | Some i \<Rightarrow> '': '' @ uuid_text i)"
| "portfolio_error_text (NegativeHoldingError i m) = m @ '': '' @ uuid_text i"
| "portfolio_error_text (NegativeCostBasisError i) = ''known cost basis became negative at transaction '' @ uuid_text i"
| "portfolio_error_text (PyKeyError i) = ''UUID('' @ [CHR 39] @ uuid_text i @ [CHR 39] @ '')''"

text \<open>The texts of the exceptions that carry no message in the model are left empty; no handler reads them.\<close>

fun error_text :: "app_error \<Rightarrow> string" where
  "error_text (PortfolioReconstructionError e) = portfolio_error_text e"
| "error_text (TransactionValidationError m) = m"
| "error_text (OpeningBalanceError m) = m"
| "error_text (ReversalError m) = m"
| "error_text (ImportPipelineError m) = m"
| "error_text (RowNormalizationError code m) = m"
| "error_text (CsvError m) = m"
| "error_text (SnapshotError m) = m"
| "error_text (ReconciliationError m) = m"
| "error_text (MarketDataError m) = m"
| "error_text (InvalidPriceObservation m) = m"
| "error_text (UnknownSecurityIdentifier m) = m"
| "error_text (MissingPriceError m) = m"
| "error_text (MissingValuationPrice m) = m"
| "error_text (ValuationError m) = m"
| "error_text (ExposureError m) = m"
| "error_text (AnalyticsError m) = m"
| "error_text (RiskError m) = m"
| "error_text (InvalidScenario m) = m"
| "error_text (GovernanceError m) = m"
| "error_text (AuthorizationDenied m) = m"
| "error_text (InvalidWorkflowTransition m) = m"
| "error_text (ConcurrentProposalUpdate m) = m"
| "error_text (PolicyEvidenceRequired m) = m"
| "error_text (ToolAuthorizationDenied m) = m"
| "error_text (InvalidToolCall m) = m"
| "error_text (DataUnavailable m) = m"
| "error_text (ModelProtocolError m) = m"
| "error_text (ValueError m) = m"
| "error_text _ = []"

section \<open>Tools\<close>

record portfolio_tools =
  rt_get_holdings :: "uuid \<Rightarrow> datetime \<Rightarrow> app_error + tool_result"
  rt_get_exposure :: "uuid \<Rightarrow> datetime \<Rightarrow> int \<Rightarrow> app_error + tool_result"
  rt_get_risk :: "uuid \<Rightarrow> datetime \<Rightarrow> app_error + tool_result"
  rt_get_portfolio_snapshot :: "uuid \<Rightarrow> datetime \<Rightarrow> app_error + tool_result"
  rt_run_scenario :: "uuid \<Rightarrow> uuid \<Rightarrow> datetime \<Rightarrow> int \<Rightarrow> app_error + tool_result"
  rt_get_policy_breaches :: "uuid \<Rightarrow> datetime \<Rightarrow> app_error + tool_result"

definition tool_schema :: "(string \<times> json) list \<Rightarrow> string list \<Rightarrow> json" where
  "tool_schema properties required = JObj [
     (''type'', JStr ''object''),
     (''properties'', JObj properties),
     (''required'', JList (map JStr required)),
     (''additionalProperties'', JBool False)]"

definition datetime_schema :: json where
  "datetime_schema = JObj [(''type'', JStr ''string''), (''format'', JStr ''date-time'')]"

definition tool_definition :: "string \<Rightarrow> string \<Rightarrow> json \<Rightarrow> json" where
  "tool_definition name description parameters = JObj [
     (''type'', JStr ''function''),
     (''name'', JStr name),
     (''description'', JStr description),
     (''strict'', JBool True),
     (''parameters'', parameters)]"

definition age_schema :: json where
  "age_schema = JObj [(''type'', JStr ''integer''), (''minimum'', JInt 0)]"

definition TOOL_DEFINITIONS :: "json list" where
  "TOOL_DEFINITIONS = [
     tool_definition ''get_holdings''
       ''Read holdings from the latest reproducible portfolio snapshot at or before a cutoff.''
       (tool_schema [(''as_of'', datetime_schema)] [''as_of'']),
     tool_definition ''get_exposure''
       (''Calculate point-in-time sector, asset, geography, position, '' @ ''and concentration exposure.'')
       (tool_schema [(''as_of'', datetime_schema), (''max_price_age_seconds'', age_schema)]
         [''as_of'', ''max_price_age_seconds'']),
     tool_definition ''get_risk'' ''Read persisted deterministic risk metrics at or before a cutoff.''
       (tool_schema [(''as_of'', datetime_schema)] [''as_of'']),
     tool_definition ''get_portfolio_snapshot''
       ''Read the latest immutable portfolio snapshot at or before a cutoff.''
       (tool_schema [(''as_of'', datetime_schema)] [''as_of'']),
     tool_definition ''run_scenario''
       ''Preview a versioned scenario without persisting or changing portfolio state.''
       (tool_schema [(''scenario_id'', JObj [(''type'', JStr ''string''), (''format'', JStr ''uuid'')]),
           (''as_of'', datetime_schema), (''max_price_age_seconds'', age_schema)]
         [''scenario_id'', ''as_of'', ''max_price_age_seconds'']),
     tool_definition ''get_policy_breaches''
       ''Read breach and unavailable outcomes from the latest policy evaluation.''
       (tool_schema [(''as_of'', datetime_schema)] [''as_of''])]"

section \<open>Arguments\<close>

record tool_arguments =
  arg_as_of :: datetime
  arg_max_price_age_seconds :: "int option"
  arg_scenario_id :: "uuid option"

text \<open>The fields each tool takes.\<close>

definition tool_fields :: "string \<Rightarrow> string set option" where
  "tool_fields = map_of [
     (''get_holdings'', {''as_of''}),
     (''get_exposure'', {''as_of'', ''max_price_age_seconds''}),
     (''get_risk'', {''as_of''}),
     (''get_portfolio_snapshot'', {''as_of''}),
     (''run_scenario'', {''scenario_id'', ''as_of'', ''max_price_age_seconds''}),
     (''get_policy_breaches'', {''as_of''})]"

text \<open>
  \<open>str(value)\<close> of a parsed JSON value. The text of a list or an object starts with a bracket or a
  brace and holds characters that neither a timestamp nor a UUID may contain; the model keeps the
  two brackets only.
\<close>

definition python_str :: "json \<Rightarrow> string" where
  "python_str j = (case j of
     JNull \<Rightarrow> ''None''
   | JBool b \<Rightarrow> if b then ''True'' else ''False''
   | JInt n \<Rightarrow> int_text n
   | JFloat x \<Rightarrow> float_text x
   | JStr s \<Rightarrow> s
   | JObj _ \<Rightarrow> ''{}''
   | JList _ \<Rightarrow> ''[]''
   | JUuid u \<Rightarrow> uuid_text u
   | JDec d \<Rightarrow> dec_text d
   | JTime t \<Rightarrow> isoformat t
   | JDate d \<Rightarrow> date_text d)"

text \<open>\<open>UUID(text)\<close>: the hexadecimal digits that remain once the accepted decorations are removed.\<close>

definition uuid_of_text :: "string \<Rightarrow> uuid option" where
  "uuid_of_text s = (if uuid_syntax s
     then Some (word_of_nat (foldl (\<lambda>n c. 16 * n + hex_value c) 0
       (filter hex_digit (delete_all ''uuid:'' (delete_all ''urn:'' s))))) else None)"

definition parse_as_of :: "json \<Rightarrow> app_error + datetime" where
  "parse_as_of j = (case from_isoformat (zulu (python_str j)) of
     None \<Rightarrow> Inl (InvalidToolCall ''as_of must be an ISO-8601 timestamp'')
   | Some t \<Rightarrow> if is_aware t then Inr t else Inl (InvalidToolCall ''as_of must include a timezone''))"

definition parse_age :: "json \<Rightarrow> app_error + int" where
  "parse_age j = (case j of JInt n \<Rightarrow> if n < 0 then Inl (InvalidToolCall ''max_price_age_seconds must be a nonnegative integer'') else Inr n
   | _ \<Rightarrow> Inl (InvalidToolCall ''max_price_age_seconds must be a nonnegative integer''))"

definition parse_scenario_id :: "json \<Rightarrow> app_error + uuid" where
  "parse_scenario_id j = (case uuid_of_text (python_str j) of
     None \<Rightarrow> Inl (InvalidToolCall ''scenario_id must be a UUID'') | Some u \<Rightarrow> Inr u)"

definition tool_field :: "(string, json) dict \<Rightarrow> string \<Rightarrow> json" where
  "tool_field raw name = (case dict_get raw name of None \<Rightarrow> JNull | Some j \<Rightarrow> j)"

definition parse_arguments :: "string \<Rightarrow> string \<Rightarrow> app_error + tool_arguments" where
  "parse_arguments name payload =
     bindR (requireR (length payload \<le> 8192) (InvalidToolCall ''tool arguments exceed 8192 bytes'')) (\<lambda>_.
     bindR (case json_loads payload of
         Inl JSONDecodeError \<Rightarrow> Inl (InvalidToolCall ''tool arguments are not valid JSON'') | r \<Rightarrow> r) (\<lambda>j.
     (case j of
        JObj raw \<Rightarrow>
          (case tool_fields name of
             None \<Rightarrow> Inl (InvalidToolCall (''unknown or non-read-only tool: '' @ name))
           | Some allowed \<Rightarrow>
               bindR (requireR (set (map fst raw) = allowed)
                 (InvalidToolCall ''tool arguments have missing or unexpected fields'')) (\<lambda>_.
               bindR (parse_as_of (tool_field raw ''as_of'')) (\<lambda>as_of.
               bindR (if ''max_price_age_seconds'' \<in> allowed
                 then bindR (parse_age (tool_field raw ''max_price_age_seconds'')) (\<lambda>n. Inr (Some n)) else Inr None) (\<lambda>age.
               bindR (if ''scenario_id'' \<in> allowed
                 then bindR (parse_scenario_id (tool_field raw ''scenario_id'')) (\<lambda>u. Inr (Some u)) else Inr None) (\<lambda>scenario.
               Inr \<lparr>arg_as_of = as_of, arg_max_price_age_seconds = age, arg_scenario_id = scenario\<rparr>)))))
      | _ \<Rightarrow> Inl (InvalidToolCall ''tool arguments must be a JSON object''))))"

section \<open>Execution\<close>

text \<open>\<open>arguments[key]\<close>\<close>

definition argument :: "'a option \<Rightarrow> app_error + 'a" where
  "argument x = (case x of None \<Rightarrow> Inl KeyError | Some v \<Rightarrow> Inr v)"

definition dispatch :: "portfolio_tools \<Rightarrow> string \<Rightarrow> tool_arguments \<Rightarrow> tool_context \<Rightarrow> app_error + tool_result" where
  "dispatch services name arguments context =
     (let fund_id = ctx_fund_id context; as_of = arg_as_of arguments in
      if name = ''get_holdings'' then rt_get_holdings services fund_id as_of
      else if name = ''get_exposure'' then
        bindR (argument (arg_max_price_age_seconds arguments)) (\<lambda>age. rt_get_exposure services fund_id as_of age)
      else if name = ''get_risk'' then rt_get_risk services fund_id as_of
      else if name = ''get_portfolio_snapshot'' then rt_get_portfolio_snapshot services fund_id as_of
      else if name = ''run_scenario'' then
        bindR (argument (arg_scenario_id arguments)) (\<lambda>scenario.
        bindR (argument (arg_max_price_age_seconds arguments)) (\<lambda>age.
        rt_run_scenario services fund_id scenario as_of age))
      else if name = ''get_policy_breaches'' then rt_get_policy_breaches services fund_id as_of
      else Inl (InvalidToolCall (''unknown or non-read-only tool: '' @ name)))"

record tool_execution =
  ex_status :: tool_execution_status
  ex_result :: "tool_result option"
  ex_error :: "string option"

text \<open>A denied, unavailable or invalid call is a value; any exception that is no \<open>ValueError\<close> escapes.\<close>

definition tool_outcome :: "app_error + tool_result \<Rightarrow> app_error + tool_execution" where
  "tool_outcome r = (case r of
     Inr result \<Rightarrow> Inr \<lparr>ex_status = Tool_SUCCEEDED, ex_result = Some result, ex_error = None\<rparr>
   | Inl (DataUnavailable m) \<Rightarrow> Inr \<lparr>ex_status = Tool_UNAVAILABLE, ex_result = None, ex_error = Some m\<rparr>
   | Inl e \<Rightarrow> if is_value_error e
       then Inr \<lparr>ex_status = Tool_INVALID, ex_result = None, ex_error = Some (error_text e)\<rparr> else Inl e)"

definition registry_execute ::
  "(database \<Rightarrow> portfolio_tools) \<Rightarrow> database \<Rightarrow> string \<Rightarrow> string \<Rightarrow> tool_context \<Rightarrow> app_error + tool_execution" where
  "registry_execute services db name arguments_json context =
     (case authorization_require db (ctx_actor_user_id context) (ctx_fund_id context) Perm_USE_AI_ASSISTANT of
        Inl (AuthorizationDenied m) \<Rightarrow> Inr \<lparr>ex_status = Tool_DENIED, ex_result = None, ex_error = Some m\<rparr>
      | Inl e \<Rightarrow> Inl e
      | Inr _ \<Rightarrow> tool_outcome (bindR (parse_arguments name arguments_json) (\<lambda>arguments.
          dispatch (services db) name arguments context)))"

end
