(* ===== verification/Sql_Tools.thy ===== *)
theory Sql_Tools
  imports Ai_Tools
begin

text \<open>
  \<open>app/ai/sql_tools.py\<close>: the read-only tools over the database. A query without \<open>order_by\<close> returns
  rows in insertion order; \<open>H\<close> is the digest of the services below.
\<close>

section \<open>Evidence\<close>

definition tools_snapshot :: "database \<Rightarrow> uuid \<Rightarrow> datetime \<Rightarrow> app_error + portfolio_snapshot_row" where
  "tools_snapshot db fund_id as_of =
     (case sort_key (\<lambda>r. (- instant (snap_as_of r), - snap_revision r))
        (filter (\<lambda>r. snap_fund_id r = fund_id \<and> snap_account_id r = None \<and> snap_status r = Snapshot_CURRENT
          \<and> instant (snap_as_of r) \<le> instant as_of) (db_portfolio_snapshots db)) of
        [] \<Rightarrow> Inl (DataUnavailable ''no reproducible portfolio snapshot exists at or before the cutoff'')
      | r # _ \<Rightarrow> Inr r)"

text \<open>\<open>timedelta(seconds=n)\<close> in microseconds; a timedelta has at most 999999999 days.\<close>

definition timedelta_seconds :: "int \<Rightarrow> app_error + int" where
  "timedelta_seconds n = (if n div 86400 \<le> 999999999 then Inr (n * 1000000) else Inl OverflowError)"

text \<open>\<open>except ValueError as error: raise DataUnavailable(f"{prefix}{error}")\<close>\<close>

definition unavailable :: "string \<Rightarrow> app_error + 'a \<Rightarrow> app_error + 'a" where
  "unavailable prefix r = (case r of
     Inr v \<Rightarrow> Inr v
   | Inl e \<Rightarrow> if is_value_error e then Inl (DataUnavailable (prefix @ error_text e)) else Inl e)"

definition tools_valuation :: "digest \<Rightarrow> database \<Rightarrow> uuid \<Rightarrow> datetime \<Rightarrow> int \<Rightarrow> app_error + valuation_result" where
  "tools_valuation H db fund_id as_of max_price_age_seconds =
     unavailable ''point-in-time valuation is unavailable: ''
       (bindR (timedelta_seconds max_price_age_seconds) (\<lambda>age.
        value_at H db fund_id as_of age None None Price_CLOSE))"

definition risk_evaluation_at :: "database \<Rightarrow> uuid \<Rightarrow> datetime \<Rightarrow> app_error + risk_evaluation_row" where
  "risk_evaluation_at db fund_id as_of =
     (case sort_key (\<lambda>r. (- instant (re_as_of r), - instant (re_created_at r)))
        (filter (\<lambda>r. re_fund_id r = fund_id \<and> instant (re_as_of r) \<le> instant as_of) (db_risk_evaluations db)) of
        [] \<Rightarrow> Inl (DataUnavailable ''no persisted policy/risk evaluation exists at or before the cutoff'')
      | r # _ \<Rightarrow> Inr r)"

text \<open>The items of an evaluation, each joined with its rule.\<close>

definition evaluated_rules ::
  "database \<Rightarrow> risk_evaluation_row \<Rightarrow> (risk_evaluation_item_row \<times> risk_policy_rule_row) list" where
  "evaluated_rules db evaluation = filter (\<lambda>(i, r). rule_id r = rei_rule_id i \<and> rei_evaluation_id i = re_id evaluation)
     (List.product (db_risk_evaluation_items db) (db_risk_policy_rules db))"

section \<open>Sources\<close>

definition snapshot_source :: "portfolio_snapshot_row \<Rightarrow> source_reference" where
  "snapshot_source r = \<lparr>src_type = ''portfolio_snapshot'', src_id = uuid_text (snap_id r),
     src_label = ''Portfolio snapshot revision '' @ int_text (snap_revision r),
     src_as_of = Some (to_utc (snap_as_of r)), src_input_hash = Some (snap_canonical_input_hash r)\<rparr>"

definition valuation_sources :: "valuation_result \<Rightarrow> source_reference list" where
  "valuation_sources v =
     map (\<lambda>p. \<lparr>src_type = ''market_price'', src_id = uuid_text (pq_observation_id (pv_quote p)),
       src_label = uuid_text (pv_instrument_id p) @ '' '' @ price_type_value (pq_price_type (pv_quote p))
         @ '' from '' @ pq_provider (pv_quote p),
       src_as_of = Some (pq_observed_at (pv_quote p)), src_input_hash = None\<rparr>) (vr_positions v)
     @ [\<lparr>src_type = ''portfolio_reconstruction'', src_id = vr_reconstruction_input_hash v,
         src_label = ''Deterministic portfolio reconstruction'', src_as_of = Some (vr_as_of v),
         src_input_hash = Some (vr_reconstruction_input_hash v)\<rparr>]"

text \<open>Every classification in force at the cutoff, whatever fund asks.\<close>

definition classification_sources :: "database \<Rightarrow> uuid \<Rightarrow> datetime \<Rightarrow> source_reference list" where
  "classification_sources db fund_id as_of =
     map (\<lambda>r. \<lparr>src_type = ''instrument_classification'', src_id = uuid_text (cl_id r),
       src_label = uuid_text (cl_instrument_id r) @ '': '' @ cl_sector r @ ''/'' @ cl_asset_class r @ ''/'' @ cl_geography r,
       src_as_of = Some (to_utc (cl_effective_from r)), src_input_hash = None\<rparr>)
     (sort_key cl_instrument_id (filter (\<lambda>r. instant (cl_effective_from r) \<le> instant as_of
       \<and> (case cl_effective_to r of None \<Rightarrow> True | Some t \<Rightarrow> instant as_of < instant t))
       (db_instrument_classifications db)))"

definition risk_sources ::
  "database \<Rightarrow> risk_evaluation_row \<Rightarrow> risk_policy_rule_row list \<Rightarrow> source_reference list" where
  "risk_sources db evaluation rules =
     \<lparr>src_type = ''risk_evaluation'', src_id = uuid_text (re_id evaluation),
       src_label = ''Risk evaluation '' @ re_calculation_version evaluation,
       src_as_of = Some (to_utc (re_as_of evaluation)), src_input_hash = Some (re_input_hash evaluation)\<rparr>
     # (case first_row (\<lambda>r. rp_id r = re_policy_id evaluation) (db_risk_policies db) of
          None \<Rightarrow> []
        | Some policy \<Rightarrow> [\<lparr>src_type = ''risk_policy'', src_id = uuid_text (rp_id policy),
            src_label = rp_name policy @ '' version '' @ int_text (rp_version policy),
            src_as_of = Some (to_utc (rp_effective_from policy)), src_input_hash = None\<rparr>])
     @ map (\<lambda>r. \<lparr>src_type = ''risk_policy_rule'', src_id = uuid_text (rule_id r), src_label = rule_metric_key r,
         src_as_of = None, src_input_hash = None\<rparr>) rules"

section \<open>Payloads\<close>

fun severity_value :: "policy_rule_severity \<Rightarrow> string" where
  "severity_value Severity_BLOCKING = ''BLOCKING''"
| "severity_value Severity_WARNING = ''WARNING''"

definition policy_item :: "risk_evaluation_item_row \<times> risk_policy_rule_row \<Rightarrow> json" where
  "policy_item ir = (case ir of (i, r) \<Rightarrow> JObj [
     (''metric_key'', JStr (rule_metric_key r)),
     (''status'', JStr (policy_status_value (rei_status i))),
     (''observed_value'', json_opt JDec (rei_observed_value i)),
     (''threshold'', JDec (rei_threshold i)),
     (''breach_amount'', json_opt JDec (rei_breach_amount i)),
     (''unit'', JStr (rei_unit i)),
     (''severity'', JStr (severity_value (rule_severity r))),
     (''explanation'', JStr (rei_explanation i))])"

definition category_list :: "category_exposure list \<Rightarrow> json" where
  "category_list rows = JList (map (\<lambda>c. JObj [
     (''category'', JStr (ce_category c)),
     (''market_value'', JDec (ce_market_value c)),
     (''weight'', JDec (ce_weight c))]) rows)"

text \<open>\<open>snapshot.canonical_state.get(key)\<close>\<close>

definition state_field :: "portfolio_snapshot_row \<Rightarrow> string \<Rightarrow> app_error + json" where
  "state_field r k = (case snap_canonical_state r of
     JObj kvs \<Rightarrow> Inr (case map_of kvs k of None \<Rightarrow> JNull | Some j \<Rightarrow> j) | _ \<Rightarrow> Inl AttributeError)"

section \<open>The tools\<close>

definition get_holdings :: "database \<Rightarrow> uuid \<Rightarrow> datetime \<Rightarrow> app_error + tool_result" where
  "get_holdings db fund_id as_of =
     bindR (tools_snapshot db fund_id as_of) (\<lambda>snapshot.
     bindR (state_field snapshot ''positions'') (\<lambda>positions.
     bindR (state_field snapshot ''cash'') (\<lambda>cash.
     (case positions of
        JList _ \<Rightarrow> Inr \<lparr>tr_data = JObj [(''as_of'', JTime (to_utc (snap_as_of snapshot))), (''cash'', cash),
            (''holdings'', positions)], tr_sources = [snapshot_source snapshot], tr_warnings = []\<rparr>
      | _ \<Rightarrow> Inl (DataUnavailable ''snapshot position evidence is unavailable'')))))"

definition get_portfolio_snapshot :: "database \<Rightarrow> uuid \<Rightarrow> datetime \<Rightarrow> app_error + tool_result" where
  "get_portfolio_snapshot db fund_id as_of =
     bindR (tools_snapshot db fund_id as_of) (\<lambda>snapshot.
     Inr \<lparr>tr_data = JObj [
         (''snapshot_id'', JUuid (snap_id snapshot)),
         (''as_of'', JTime (to_utc (snap_as_of snapshot))),
         (''revision'', JInt (snap_revision snapshot)),
         (''calculation_version'', JStr (snap_calculation_version snapshot)),
         (''state'', snap_canonical_state snapshot)],
       tr_sources = [snapshot_source snapshot], tr_warnings = []\<rparr>)"

definition get_exposure :: "digest \<Rightarrow> database \<Rightarrow> uuid \<Rightarrow> datetime \<Rightarrow> int \<Rightarrow> app_error + tool_result" where
  "get_exposure H db fund_id as_of max_price_age_seconds =
     bindR (tools_valuation H db fund_id as_of max_price_age_seconds) (\<lambda>valuation.
     bindR (exposure_service_calculate db valuation 10) (\<lambda>exposure.
     Inr \<lparr>tr_data = JObj [
         (''as_of'', JTime (vr_as_of valuation)),
         (''portfolio_value'', JDec (er_portfolio_value exposure)),
         (''cash_value'', JDec (er_cash_value exposure)),
         (''position_weights'', JList (map (\<lambda>w. JObj [
            (''instrument_id'', JUuid (pw_instrument_id w)),
            (''market_value'', JDec (pw_market_value w)),
            (''weight'', JDec (pw_weight w))]) (er_position_weights exposure))),
         (''sector'', category_list (er_sector_exposure exposure)),
         (''asset_class'', category_list (er_asset_allocation exposure)),
         (''geography'', category_list (er_geographic_exposure exposure)),
         (''largest_position_weight'', JDec (er_largest_position_weight exposure)),
         (''herfindahl_index'', JDec (er_herfindahl_index exposure))],
       tr_sources = valuation_sources valuation @ classification_sources db fund_id (vr_as_of valuation),
       tr_warnings = er_warnings exposure @ vr_warnings valuation\<rparr>))"

definition get_risk :: "database \<Rightarrow> uuid \<Rightarrow> datetime \<Rightarrow> app_error + tool_result" where
  "get_risk db fund_id as_of =
     bindR (risk_evaluation_at db fund_id as_of) (\<lambda>evaluation.
     let rows = filter (\<lambda>(i, r). take 5 (rule_metric_key r) = ''risk.'') (evaluated_rules db evaluation) in
     bindR (requireR (rows \<noteq> []) (DataUnavailable ''no persisted risk metrics are available for this cutoff'')) (\<lambda>_.
     Inr \<lparr>tr_data = JObj [
         (''as_of'', JTime (to_utc (re_as_of evaluation))),
         (''calculation_version'', JStr (re_calculation_version evaluation)),
         (''metrics'', JList (map policy_item rows))],
       tr_sources = risk_sources db evaluation (map snd rows), tr_warnings = []\<rparr>))"

definition get_policy_breaches :: "database \<Rightarrow> uuid \<Rightarrow> datetime \<Rightarrow> app_error + tool_result" where
  "get_policy_breaches db fund_id as_of =
     bindR (risk_evaluation_at db fund_id as_of) (\<lambda>evaluation.
     let rows = evaluated_rules db evaluation;
         reportable = filter (\<lambda>(i, r). rei_status i \<in> {Policy_BREACH, Policy_UNAVAILABLE}) rows in
     Inr \<lparr>tr_data = JObj [
         (''as_of'', JTime (to_utc (re_as_of evaluation))),
         (''breaches_and_unavailable'', JList (map policy_item reportable)),
         (''count'', JInt (int (length reportable)))],
       tr_sources = risk_sources db evaluation (map snd rows), tr_warnings = []\<rparr>)"

definition run_scenario :: "digest \<Rightarrow> database \<Rightarrow> uuid \<Rightarrow> uuid \<Rightarrow> datetime \<Rightarrow> int \<Rightarrow> app_error + tool_result" where
  "run_scenario H db fund_id scenario_id as_of max_price_age_seconds =
     bindR (tools_valuation H db fund_id as_of max_price_age_seconds) (\<lambda>valuation.
     bindR (unavailable ''scenario preview is unavailable: '' (scenario_preview H db scenario_id valuation)) (\<lambda>result.
     (case first_row (\<lambda>r. sd_id r = scenario_id) (db_scenario_definitions db) of
        None \<Rightarrow> Inl (DataUnavailable ''scenario definition is unavailable'')
      | Some d \<Rightarrow> Inr \<lparr>tr_data = JObj [
            (''scenario_id'', JUuid (sd_id d)),
            (''scenario_name'', JStr (sd_name d)),
            (''scenario_version'', JInt (sd_version d)),
            (''as_of'', JTime (scr_as_of result)),
            (''baseline_portfolio_value'', JDec (vr_portfolio_value (scr_baseline result))),
            (''projected_portfolio_value'', JDec (vr_portfolio_value (scr_projected result))),
            (''pnl_impact'', JDec (scr_pnl_impact result)),
            (''portfolio_return_impact'', JDec (scr_portfolio_return_impact result)),
            (''positions'', JList (map (\<lambda>p. JObj [
               (''instrument_id'', JUuid (spo_instrument_id p)),
               (''baseline_market_value'', JDec (spo_baseline_market_value p)),
               (''projected_market_value'', JDec (spo_projected_market_value p)),
               (''pnl_impact'', JDec (spo_pnl_impact p)),
               (''return_impact'', JDec (spo_return_impact p))]) (scr_positions result)))],
          tr_sources = valuation_sources valuation
            @ [\<lparr>src_type = ''scenario_definition'', src_id = uuid_text (sd_id d),
                src_label = sd_name d @ '' version '' @ int_text (sd_version d), src_as_of = None,
                src_input_hash = Some (scr_canonical_input_hash result)\<rparr>],
          tr_warnings = scr_warnings result @ vr_warnings valuation\<rparr>)))"

definition sql_tools :: "digest \<Rightarrow> database \<Rightarrow> portfolio_tools" where
  "sql_tools H db = \<lparr>rt_get_holdings = get_holdings db, rt_get_exposure = get_exposure H db,
     rt_get_risk = get_risk db, rt_get_portfolio_snapshot = get_portfolio_snapshot db,
     rt_run_scenario = run_scenario H db, rt_get_policy_breaches = get_policy_breaches db\<rparr>"

end
