(* ===== verification/Openai_Responses.thy ===== *)
theory Openai_Responses
  imports Ai_Service
begin

text \<open>
  \<open>app/ai/openai_responses.py\<close>: the provider on top of a client of the Responses API. The client is
  not part of the repository: it is the argument \<open>create\<close>, which gets the number of the request and
  its keyword arguments and returns an object that is a mapping, or has a \<open>model_dump\<close>, or neither,
  or raises.
\<close>

text \<open>What the adapter can see of a response: the values of a mapping are JSON values.\<close>

datatype raw_response = Raw_Mapping "(string, json) dict" | Raw_Dump json | Raw_Opaque

type_synonym responses_client = "nat \<Rightarrow> (string \<times> json) list \<Rightarrow> app_error + raw_response"

definition response_mapping :: "raw_response \<Rightarrow> app_error + (string, json) dict" where
  "response_mapping raw = (case raw of
     Raw_Mapping kvs \<Rightarrow> Inr kvs
   | Raw_Dump (JObj kvs) \<Rightarrow> Inr kvs
   | _ \<Rightarrow> Inl (ModelProtocolError ''provider response cannot be converted to a mapping''))"

text \<open>\<open>mapping.get(key)\<close>\<close>

definition get_or :: "(string, json) dict \<Rightarrow> string \<Rightarrow> json \<Rightarrow> json" where
  "get_or d k other = (case dict_get d k of None \<Rightarrow> other | Some j \<Rightarrow> j)"

text \<open>Iterating a list gives its items, a text its characters and a mapping its keys; none of the latter is a mapping.\<close>

definition json_items :: "json \<Rightarrow> app_error + json list" where
  "json_items j = (case j of
     JList items \<Rightarrow> Inr items
   | JStr s \<Rightarrow> Inr (map (\<lambda>c. JStr [c]) s)
   | JObj kvs \<Rightarrow> Inr (map (\<lambda>(k, v). JStr k) kvs)
   | _ \<Rightarrow> Inl TypeError)"

definition function_call :: "json \<Rightarrow> app_error + tool_call list" where
  "function_call item = (case item of
     JObj kvs \<Rightarrow>
       if get_or kvs ''type'' JNull \<noteq> JStr ''function_call'' then Inr []
       else (case (get_or kvs ''call_id'' JNull, get_or kvs ''name'' JNull, get_or kvs ''arguments'' JNull) of
           (JStr i, JStr n, JStr a) \<Rightarrow> Inr [\<lparr>call_id = i, call_name = n, call_arguments_json = a\<rparr>]
         | _ \<Rightarrow> Inl (ModelProtocolError ''provider returned an invalid function call''))
   | _ \<Rightarrow> Inr [])"

definition parse_turn :: "raw_response \<Rightarrow> app_error + model_turn" where
  "parse_turn raw =
     bindR (response_mapping raw) (\<lambda>payload.
     (case get_or payload ''id'' JNull of
        JStr response_id \<Rightarrow>
          bindR (json_items (get_or payload ''output'' (JList []))) (\<lambda>items.
          bindR (foldR (\<lambda>calls item. bindR (function_call item) (\<lambda>c. Inr (calls @ c))) [] items) (\<lambda>calls.
          Inr \<lparr>turn_response_id = response_id,
            turn_text = (case get_or payload ''output_text'' JNull of
              JStr t \<Rightarrow> if strip t \<noteq> [] then Some t else None | _ \<Rightarrow> None),
            turn_tool_calls = calls\<rparr>))
      | _ \<Rightarrow> Inl (ModelProtocolError ''provider response has no string id'')))"

definition start_request :: "string \<Rightarrow> string \<Rightarrow> string \<Rightarrow> json list \<Rightarrow> string \<Rightarrow> (string \<times> json) list" where
  "start_request model instructions user_prompt tools safety = [
     (''model'', JStr model),
     (''instructions'', JStr instructions),
     (''input'', JList [JObj [(''role'', JStr ''user''), (''content'', JStr user_prompt)]]),
     (''tools'', JList tools),
     (''tool_choice'', JStr ''required''),
     (''parallel_tool_calls'', JBool False),
     (''store'', JBool False),
     (''safety_identifier'', JStr safety)]"

definition continue_request ::
  "string \<Rightarrow> string \<Rightarrow> string \<Rightarrow> (string \<times> string) list \<Rightarrow> json list \<Rightarrow> string \<Rightarrow> (string \<times> json) list" where
  "continue_request model instructions previous_response_id tool_outputs tools safety = [
     (''model'', JStr model),
     (''instructions'', JStr instructions),
     (''previous_response_id'', JStr previous_response_id),
     (''input'', JList (map (\<lambda>(i, out). JObj [(''type'', JStr ''function_call_output''), (''call_id'', JStr i),
        (''output'', JStr out)]) tool_outputs)),
     (''tools'', JList tools),
     (''tool_choice'', JStr ''auto''),
     (''parallel_tool_calls'', JBool False),
     (''store'', JBool False),
     (''safety_identifier'', JStr safety)]"

definition openai_provider :: "responses_client \<Rightarrow> string \<Rightarrow> app_error + model_provider" where
  "openai_provider create model =
     bindR (requireR (strip model \<noteq> []) (ValueError ''model is required'')) (\<lambda>_.
     Inr \<lparr>prov_model = model,
       prov_start = (\<lambda>instructions user_prompt tools safety.
         bindR (create 0 (start_request model instructions user_prompt tools safety)) parse_turn),
       prov_continue_with_tools = (\<lambda>k instructions previous_response_id tool_outputs tools safety.
         bindR (create (Suc k) (continue_request model instructions previous_response_id tool_outputs tools safety))
           parse_turn)\<rparr>)"

end
