(* ===== verification/Ai_Properties.thy ===== *)
theory Ai_Properties
  imports Openai_Responses
begin

text \<open>
  What the assistant guarantees whatever the language model answers: it only appends evidence, every
  citation is a source of a recorded call, a tool sees nothing but its fund's data up to the cutoff,
  and a call that does not pass validation is an outcome, not an exception.
\<close>

section \<open>Evidence\<close>

text \<open>
  The interface \<open>ReadOnlyPortfolioTools\<close>: the tools do not read what a conversation writes, and every
  result they return names a source.
\<close>

definition with_conversations ::
  "ai_conversation_row list \<Rightarrow> ai_message_row list \<Rightarrow> ai_tool_call_row list \<Rightarrow> audit_event_row list \<Rightarrow> database \<Rightarrow> database" where
  "with_conversations cs ms ts es db = db\<lparr>db_ai_conversations := cs, db_ai_messages := ms, db_ai_tool_calls := ts,
     db_audit_events := es\<rparr>"

definition recorded_result ::
  "(database \<Rightarrow> portfolio_tools) \<Rightarrow> database \<Rightarrow> tool_context \<Rightarrow> ai_tool_call_row \<Rightarrow> tool_result \<Rightarrow> bool" where
  "recorded_result tools db context row r \<longleftrightarrow> atc_status row = Tool_SUCCEEDED
     \<and> atc_result row = Some (result_dict r) \<and> atc_sources row = JList (map source_dict (tr_sources r))
     \<and> (\<exists>arguments. dispatch (tools db) (atc_tool_name row) arguments context = Inr r)"

text \<open>What the rows of a conversation say about the sources collected so far.\<close>

definition transcript ::
  "(database \<Rightarrow> portfolio_tools) \<Rightarrow> database \<Rightarrow> tool_context \<Rightarrow> ai_tool_call_row list \<Rightarrow> source_reference list \<Rightarrow> bool" where
  "transcript tools db context rows sources \<longleftrightarrow>
     (\<forall>row \<in> set rows. atc_status row = Tool_SUCCEEDED \<longrightarrow> (\<exists>r. recorded_result tools db context row r))
     \<and> (sources = [] \<longleftrightarrow> (\<forall>row \<in> set rows. atc_status row \<noteq> Tool_SUCCEEDED))
     \<and> (\<forall>s \<in> set sources. \<exists>row \<in> set rows. \<exists>r. recorded_result tools db context row r \<and> s \<in> set (tr_sources r))"

lemma transcript_Nil [simp]: "transcript tools db context [] []"
  by (simp add: transcript_def)

lemma tool_outcome_cases:
  assumes "tool_outcome r = Inr x"
  shows "(\<exists>res. r = Inr res \<and> x = \<lparr>ex_status = Tool_SUCCEEDED, ex_result = Some res, ex_error = None\<rparr>)
    \<or> (\<exists>e. r = Inl e \<and> is_value_error e \<and> ex_result x = None \<and> ex_status x \<in> {Tool_UNAVAILABLE, Tool_INVALID}
        \<and> ex_error x = Some (error_text e) \<and> (ex_status x = Tool_UNAVAILABLE \<longleftrightarrow> (\<exists>m. e = DataUnavailable m)))"
  using assms by (cases r) (auto simp: tool_outcome_def split: app_error.splits if_splits)

lemma authorization_denied: "authorization_require db a f p = Inl e \<Longrightarrow> \<exists>m. e = AuthorizationDenied m"
  by (auto simp: authorization_require_def split: option.splits if_splits list.splits)

lemma execute_cases:
  assumes "registry_execute services db name payload context = Inr x"
  obtains m where "x = \<lparr>ex_status = Tool_DENIED, ex_result = None, ex_error = Some m\<rparr>"
      "authorization_require db (ctx_actor_user_id context) (ctx_fund_id context) Perm_USE_AI_ASSISTANT = Inl (AuthorizationDenied m)"
  | role where "authorization_require db (ctx_actor_user_id context) (ctx_fund_id context) Perm_USE_AI_ASSISTANT = Inr role"
      "tool_outcome (bindR (parse_arguments name payload) (\<lambda>a. dispatch (services db) name a context)) = Inr x"
proof (cases "authorization_require db (ctx_actor_user_id context) (ctx_fund_id context) Perm_USE_AI_ASSISTANT")
  case (Inl e)
  from authorization_denied [OF Inl] obtain m where "e = AuthorizationDenied m" ..
  with Inl assms show thesis by (auto simp: registry_execute_def intro: that(1))
next
  case (Inr role)
  with assms show thesis by (intro that(2)) (simp_all add: registry_execute_def)
qed

lemma execute_succeeded:
  assumes "registry_execute services db name payload context = Inr x" and "ex_status x = Tool_SUCCEEDED"
  obtains role arguments r where
    "authorization_require db (ctx_actor_user_id context) (ctx_fund_id context) Perm_USE_AI_ASSISTANT = Inr role"
    "parse_arguments name payload = Inr arguments" "dispatch (services db) name arguments context = Inr r"
    "ex_result x = Some r" "ex_error x = None"
proof (rule execute_cases [OF assms(1)])
  fix role
  assume role: "authorization_require db (ctx_actor_user_id context) (ctx_fund_id context) Perm_USE_AI_ASSISTANT = Inr role"
    and out: "tool_outcome (bindR (parse_arguments name payload) (\<lambda>a. dispatch (services db) name a context)) = Inr x"
  from tool_outcome_cases [OF out] assms(2) obtain r
    where "bindR (parse_arguments name payload) (\<lambda>a. dispatch (services db) name a context) = Inr r"
      "ex_result x = Some r" "ex_error x = None" by auto
  with role show thesis by (auto simp: result_simps intro: that)
qed (use assms(2) in auto)

lemma execute_result: "registry_execute services db name payload context = Inr x \<Longrightarrow>
    (ex_result x = None \<longleftrightarrow> ex_status x \<noteq> Tool_SUCCEEDED)"
  by (erule execute_cases) (auto dest!: tool_outcome_cases)

lemma call_step_Inr:
  assumes "call_step D ids clock svc context s call = Inr s'"
  obtains x arguments where
    "registry_execute (svc_tools svc) (ask_db s) (call_name call) (call_arguments_json call) context = Inr x"
    "audit_arguments (call_arguments_json call) = Inr arguments"
    "int (Suc (ask_call_count s)) \<le> svc_max_tool_calls svc"
    "ask_db s' = ask_db s" "ask_round s' = ask_round s" "ask_call_count s' = Suc (ask_call_count s)"
    "ask_sources s' = ask_sources s @ (case ex_result x of None \<Rightarrow> [] | Some r \<Rightarrow> tr_sources r)"
    "ask_pending s' = ask_pending s @ [tool_call_row D (ids (ask_call_count s + 3)) (clock (ask_call_count s + 2))
       (ctx_conversation_id context) call arguments x]"
proof -
  from assms obtain x arguments
    where x: "registry_execute (svc_tools svc) (ask_db s) (call_name call) (call_arguments_json call) context = Inr x"
        "audit_arguments (call_arguments_json call) = Inr arguments"
        "int (Suc (ask_call_count s)) \<le> svc_max_tool_calls svc"
      and "Inr s' = bindR (requireR (\<not> svc_max_tool_calls svc < int (Suc (ask_call_count s)))
        (ModelProtocolError ''provider exceeded the authorized tool-call limit'')) (\<lambda>_. bindR (Inr x) (\<lambda>x. bindR (Inr arguments) (\<lambda>arguments.
        let found = (case ex_result x of None \<Rightarrow> ([], []) | Some r \<Rightarrow> (tr_sources r, tr_warnings r)) in
        Inr (s\<lparr>ask_sources := ask_sources s @ fst found, ask_warnings := ask_warnings s @ snd found,
        ask_call_count := Suc (ask_call_count s),
        ask_pending := ask_pending s @ [tool_call_row D (ids (ask_call_count s + 3)) (clock (ask_call_count s + 2))
          (ctx_conversation_id context) call arguments x],
        ask_outputs := ask_outputs s @ [(call_id call,
          tool_output (ex_status x) (map_option result_dict (ex_result x)) (ex_error x))]\<rparr>))))"
    unfolding call_step_def Let_def bindR_Inr_iff by (elim exE conjE) (simp add: requireR_Inr linorder_not_less)
  then show thesis
    by (intro that [OF x]) (simp_all add: Let_def linorder_not_less split: option.split)
qed

locale evidenced_tools =
  fixes tools :: "database \<Rightarrow> portfolio_tools"
  assumes conversation_free: "tools (with_conversations cs ms ts es db) = tools db"
    and evidence: "dispatch (tools db) name arguments context = Inr r \<Longrightarrow> tr_sources r \<noteq> []"
begin

lemma call_step_transcript:
  assumes step: "call_step D ids clock svc context s call = Inr s'"
    and svc: "svc_tools svc = tools" and db: "tools (ask_db s) = tools db"
    and old: "transcript tools db context (stored @ ask_pending s) (ask_sources s)"
  shows "transcript tools db context (stored @ ask_pending s') (ask_sources s')"
proof -
  from step obtain x arguments
    where x: "registry_execute tools (ask_db s) (call_name call) (call_arguments_json call) context = Inr x"
      and s': "ask_sources s' = ask_sources s @ (case ex_result x of None \<Rightarrow> [] | Some r \<Rightarrow> tr_sources r)"
        "ask_pending s' = ask_pending s @ [tool_call_row D (ids (ask_call_count s + 3)) (clock (ask_call_count s + 2))
          (ctx_conversation_id context) call arguments x]"
    by (rule call_step_Inr) (unfold svc, rule that)
  show ?thesis
  proof (cases "ex_status x = Tool_SUCCEEDED")
    case True
    with x obtain a r where r: "dispatch (tools (ask_db s)) (call_name call) a context = Inr r" "ex_result x = Some r"
      by (rule execute_succeeded)
    with True db have "recorded_result tools db context (tool_call_row D (ids (ask_call_count s + 3))
        (clock (ask_call_count s + 2)) (ctx_conversation_id context) call arguments x) r"
      by (auto simp: recorded_result_def tool_call_row_def)
    with old r evidence [OF r(1)] show ?thesis
      by (auto simp: transcript_def s' tool_call_row_def True)
  next
    case False
    with execute_result [OF x] old show ?thesis
      by (auto simp: transcript_def s' tool_call_row_def)
  qed
qed

lemma calls_transcript:
  "foldR (call_step D ids clock svc context) s calls = Inr s' \<Longrightarrow> svc_tools svc = tools \<Longrightarrow> tools (ask_db s) = tools db \<Longrightarrow>
     transcript tools db context (stored @ ask_pending s) (ask_sources s) \<Longrightarrow>
     transcript tools db context (stored @ ask_pending s') (ask_sources s')"
proof (induction calls arbitrary: s)
  case (Cons call calls)
  from Cons.prems(1) obtain t where t: "call_step D ids clock svc context s call = Inr t"
      "foldR (call_step D ids clock svc context) t calls = Inr s'" by (auto simp: result_simps)
  have "ask_db t = ask_db s" using t(1) by (rule call_step_Inr)
  with Cons.IH [OF t(2)] call_step_transcript [OF t(1)] Cons.prems show ?case by simp
qed simp

end

section \<open>The evidence of the SQL tools\<close>

lemma sql_tools_conversation_free: "sql_tools H (with_conversations cs ms ts es db) = sql_tools H db"
proof -
  have snap: "tools_snapshot (with_conversations cs ms ts es db) = tools_snapshot db"
    by (simp add: tools_snapshot_def with_conversations_def fun_eq_iff)
  have ev: "risk_evaluation_at (with_conversations cs ms ts es db) = risk_evaluation_at db"
    by (simp add: risk_evaluation_at_def with_conversations_def fun_eq_iff)
  have rules: "evaluated_rules (with_conversations cs ms ts es db) = evaluated_rules db"
    "risk_sources (with_conversations cs ms ts es db) = risk_sources db"
    by (simp_all add: evaluated_rules_def risk_sources_def with_conversations_def fun_eq_iff)
  have val: "tools_valuation H (with_conversations cs ms ts es db) = tools_valuation H db"
    by (simp add: tools_valuation_def value_at_def ledger_at_def quotes_at_def latest_quote_def quote_candidates_def
        with_conversations_def fun_eq_iff)
  have cls: "classifications_at (with_conversations cs ms ts es db) = classifications_at db"
    "classification_sources (with_conversations cs ms ts es db) = classification_sources db"
    by (simp_all add: classifications_at_def effective_classifications_def classification_sources_def with_conversations_def fun_eq_iff)
  have exp: "exposure_service_calculate (with_conversations cs ms ts es db) = exposure_service_calculate db"
    by (simp add: exposure_service_calculate_def cls fun_eq_iff)
  have cls': "classifications_at (db\<lparr>db_ai_conversations := cs, db_ai_messages := ms, db_ai_tool_calls := ts,
      db_audit_events := es\<rparr>) = classifications_at db" using cls(1) by (simp add: with_conversations_def)
  have scen: "scenario_preview H (with_conversations cs ms ts es db) = scenario_preview H db"
    by (simp add: scenario_preview_def load_definition_def sensitivities_at_def effective_sensitivities_def cls' fun_eq_iff
        with_conversations_def cong: option.case_cong)
  have defs: "db_scenario_definitions (with_conversations cs ms ts es db) = db_scenario_definitions db"
    by (simp add: with_conversations_def)
  show ?thesis
    by (simp add: sql_tools_def get_holdings_def get_exposure_def get_risk_def get_portfolio_snapshot_def run_scenario_def
        get_policy_breaches_def snap ev rules val cls exp scen defs fun_eq_iff)
qed

lemma dispatch_cases:
  assumes "dispatch services name arguments context = Inr r"
  obtains "rt_get_holdings services (ctx_fund_id context) (arg_as_of arguments) = Inr r"
  | n where "rt_get_exposure services (ctx_fund_id context) (arg_as_of arguments) n = Inr r"
  | "rt_get_risk services (ctx_fund_id context) (arg_as_of arguments) = Inr r"
  | "rt_get_portfolio_snapshot services (ctx_fund_id context) (arg_as_of arguments) = Inr r"
  | k n where "rt_run_scenario services (ctx_fund_id context) k (arg_as_of arguments) n = Inr r"
  | "rt_get_policy_breaches services (ctx_fund_id context) (arg_as_of arguments) = Inr r"
  using assms by (auto simp: dispatch_def Let_def result_simps split: if_splits)

lemma get_holdings_Inr:
  assumes "get_holdings db fund_id as_of = Inr r"
  obtains snapshot where "tools_snapshot db fund_id as_of = Inr snapshot" "tr_sources r = [snapshot_source snapshot]"
proof -
  from assms obtain snapshot positions cash where "tools_snapshot db fund_id as_of = Inr snapshot"
    and "(case positions of JList _ \<Rightarrow> Inr \<lparr>tr_data = JObj [(''as_of'', JTime (to_utc (snap_as_of snapshot))), (''cash'', cash),
            (''holdings'', positions)], tr_sources = [snapshot_source snapshot], tr_warnings = []\<rparr>
      | _ \<Rightarrow> Inl (DataUnavailable ''snapshot position evidence is unavailable'')) = Inr r"
    unfolding get_holdings_def bindR_Inr_iff by (elim exE conjE)
  then show thesis by (cases positions) (auto intro: that)
qed

lemma sql_tools_evidence:
  assumes "dispatch (sql_tools H db) name arguments context = Inr r"
  shows "tr_sources r \<noteq> []"
  using assms
  by (rule dispatch_cases)
     (auto simp: sql_tools_def get_exposure_def get_risk_def get_portfolio_snapshot_def run_scenario_def
       get_policy_breaches_def risk_sources_def valuation_sources_def result_simps Let_def split: option.splits elim: get_holdings_Inr)

interpretation sql: evidenced_tools "sql_tools H" for H
  by unfold_locales (rule sql_tools_conversation_free, rule sql_tools_evidence)

section \<open>Rounds\<close>

interpretation ai_tool_calls: child_table db_ai_tool_calls "\<lambda>rs db. db\<lparr>db_ai_tool_calls := rs\<rparr>" "''ai_tool_calls''"
    ai_tool_call_clash ai_tool_call_checks ai_tool_call_refs insert_ai_tool_call
  by unfold_locales (auto simp: insert_ai_tool_call_def ai_tool_call_refs_def)

definition no_calls :: "database \<Rightarrow> ask_state" where
  "no_calls db = \<lparr>ask_db = db, ask_sources = [], ask_warnings = [], ask_call_count = 0, ask_round = 0, ask_pending = [],
     ask_outputs = []\<rparr>"

text \<open>The state after some rounds: the calls stored so far are the calls counted, within the limit.\<close>

definition rounds_inv :: "ai_service \<Rightarrow> database \<Rightarrow> tool_context \<Rightarrow> ask_state \<Rightarrow> ai_tool_call_row list \<Rightarrow> bool" where
  "rounds_inv svc db context s stored \<longleftrightarrow>
     ask_db s = db\<lparr>db_ai_tool_calls := db_ai_tool_calls db @ stored\<rparr>
     \<and> length stored = ask_call_count s \<and> (stored = [] \<or> int (length stored) \<le> svc_max_tool_calls svc)
     \<and> (\<forall>row \<in> set stored. atc_conversation_id row = ctx_conversation_id context)"

definition calls_inv :: "ai_service \<Rightarrow> tool_context \<Rightarrow> database \<Rightarrow> nat \<Rightarrow> nat \<Rightarrow> ask_state \<Rightarrow> bool" where
  "calls_inv svc context db stored k s \<longleftrightarrow> ask_db s = db \<and> ask_round s = k
     \<and> ask_call_count s = stored + length (ask_pending s)
     \<and> (ask_pending s = [] \<or> int (ask_call_count s) \<le> svc_max_tool_calls svc)
     \<and> (\<forall>row \<in> set (ask_pending s). atc_conversation_id row = ctx_conversation_id context)"

lemma calls_calls_inv:
  "foldR (call_step D ids clock svc context) s calls = Inr s' \<Longrightarrow> calls_inv svc context db stored k s \<Longrightarrow>
     calls_inv svc context db stored k s'"
proof (induction calls arbitrary: s)
  case (Cons call calls)
  from Cons.prems(1) obtain t where t: "call_step D ids clock svc context s call = Inr t"
      "foldR (call_step D ids clock svc context) t calls = Inr s'" by (auto simp: result_simps)
  from t(1) have "calls_inv svc context db stored k t"
    by (rule call_step_Inr) (use Cons.prems(2) in \<open>auto simp: calls_inv_def tool_call_row_def Let_def\<close>)
  with t(2) show ?case by (rule Cons.IH)
qed simp

lemma tool_round_Inr:
  assumes "tool_round D ids clock svc context s turn = Inr (s', turn')"
  obtains s1 where "foldR (call_step D ids clock svc context) (s\<lparr>ask_pending := [], ask_outputs := []\<rparr>) (turn_tool_calls turn) = Inr s1"
    "foldR insert_ai_tool_call (ask_db s1) (ask_pending s1) = Inr (ask_db s')"
    "prov_continue_with_tools (svc_provider svc) (ask_round s1) SYSTEM_INSTRUCTIONS (turn_response_id turn)
       (ask_outputs s1) TOOL_DEFINITIONS (safety_identifier D (ctx_actor_user_id context)) = Inr turn'"
    "ask_sources s' = ask_sources s1" "ask_warnings s' = ask_warnings s1" "ask_call_count s' = ask_call_count s1"
    "ask_round s' = Suc (ask_round s1)"
  using assms by (auto simp: tool_round_def result_simps)

lemma tool_round_inv:
  assumes run: "tool_round D ids clock svc context s turn = Inr (s', turn')"
    and inv: "rounds_inv svc db context s stored"
  obtains s1 where "foldR (call_step D ids clock svc context) (s\<lparr>ask_pending := [], ask_outputs := []\<rparr>) (turn_tool_calls turn) = Inr s1"
    "ask_sources s' = ask_sources s1" "rounds_inv svc db context s' (stored @ ask_pending s1)" "ask_round s' = Suc (ask_round s)"
proof (rule tool_round_Inr [OF run])
  fix s1
  assume calls: "foldR (call_step D ids clock svc context) (s\<lparr>ask_pending := [], ask_outputs := []\<rparr>) (turn_tool_calls turn) = Inr s1"
    and stored: "foldR insert_ai_tool_call (ask_db s1) (ask_pending s1) = Inr (ask_db s')"
    and fields: "ask_sources s' = ask_sources s1" "ask_call_count s' = ask_call_count s1" "ask_round s' = Suc (ask_round s1)"
  have "calls_inv svc context (ask_db s) (length stored) (ask_round s) (s\<lparr>ask_pending := [], ask_outputs := []\<rparr>)"
    using inv by (simp add: calls_inv_def rounds_inv_def)
  with calls have "calls_inv svc context (ask_db s) (length stored) (ask_round s) s1" by (rule calls_calls_inv)
  with inv fields ai_tool_calls.insert_all_rows [OF stored] show thesis
    by (intro that [OF calls]) (auto simp: calls_inv_def rounds_inv_def)
qed

lemma tool_rounds_inv:
  assumes "tool_rounds D ids clock svc context k s turn = Inr (s', final)" and "rounds_inv svc db context s stored"
  shows "\<exists>rows. rounds_inv svc db context s' rows"
  using assms
proof (induction k arbitrary: s turn stored)
  case (Suc k)
  show ?case
  proof (cases "turn_tool_calls turn = []")
    case True
    with Suc.prems show ?thesis by auto
  next
    case False
    with Suc.prems(1) obtain t turn' where t: "tool_round D ids clock svc context s turn = Inr (t, turn')"
        "tool_rounds D ids clock svc context k t turn' = Inr (s', final)" by (auto simp: result_simps)
    from t(1) Suc.prems(2) show ?thesis by (rule tool_round_inv) (rule Suc.IH [OF t(2)])
  qed
qed simp

context evidenced_tools
begin

lemma rounds_transcript:
  assumes "tool_rounds D ids clock svc context k s turn = Inr (s', final)" and "svc_tools svc = tools"
    and "rounds_inv svc (with_conversations cs ms ts es db) context s stored"
    and "transcript tools db context stored (ask_sources s)"
  shows "\<exists>rows. rounds_inv svc (with_conversations cs ms ts es db) context s' rows
    \<and> transcript tools db context rows (ask_sources s')"
  using assms
proof (induction k arbitrary: s turn stored)
  case (Suc k)
  show ?case
  proof (cases "turn_tool_calls turn = []")
    case True
    with Suc.prems show ?thesis by auto
  next
    case False
    with Suc.prems(1) obtain t turn' where t: "tool_round D ids clock svc context s turn = Inr (t, turn')"
        "tool_rounds D ids clock svc context k t turn' = Inr (s', final)" by (auto simp: result_simps)
    from t(1) Suc.prems(3) show ?thesis
    proof (rule tool_round_inv)
      fix s1
      assume calls: "foldR (call_step D ids clock svc context) (s\<lparr>ask_pending := [], ask_outputs := []\<rparr>) (turn_tool_calls turn) = Inr s1"
        and t_inv: "ask_sources t = ask_sources s1" "rounds_inv svc (with_conversations cs ms ts es db) context t (stored @ ask_pending s1)"
      have "ask_db s = with_conversations cs ms (ts @ stored) es db"
        using Suc.prems(3) by (simp add: rounds_inv_def with_conversations_def)
      then have "tools (ask_db s) = tools db" by (simp add: conversation_free)
      then have "transcript tools db context (stored @ ask_pending s1) (ask_sources s1)"
        using Suc.prems(2,4) by (intro calls_transcript [OF calls]) simp_all
      then show ?thesis using t_inv by (intro Suc.IH [OF t(2) Suc.prems(2) t_inv(2)]) simp
    qed
  qed
qed simp

end

section \<open>What a question stores\<close>

lemma insert_ai_conversation_Inr: "insert_ai_conversation db r = Inr db' \<longleftrightarrow>
    ai_conversation_checks r \<and> ai_conversation_refs db r \<and> (\<forall>c \<in> set (db_ai_conversations db). aic_id c \<noteq> aic_id r)
    \<and> db' = db\<lparr>db_ai_conversations := db_ai_conversations db @ [r]\<rparr>"
  by (auto simp: insert_ai_conversation_def result_simps ai_conversation_clash_def)

lemma insert_ai_message_Inr: "insert_ai_message db r = Inr db' \<longleftrightarrow>
    ai_message_checks r \<and> ai_message_refs db r \<and> (\<forall>m \<in> set (db_ai_messages db). \<not> ai_message_clash m r)
    \<and> db' = db\<lparr>db_ai_messages := db_ai_messages db @ [r]\<rparr>"
  by (auto simp: insert_ai_message_def result_simps)

lemma insert_audit_Inr: "insert_audit_event db r = Inr db' \<Longrightarrow> db' = db\<lparr>db_audit_events := db_audit_events db @ [r]\<rparr>"
  by (auto simp: insert_audit_event_def result_simps)

lemma open_conversation_Inr:
  assumes "open_conversation D ids clock model db actor fund_id cleaned = Inr db'"
  obtains e where "db' = with_conversations (db_ai_conversations db @ [new_conversation (ids 0) fund_id actor model (clock 0)])
      (db_ai_messages db @ [user_message D (ids 1) (ids 0) cleaned (clock 0)]) (db_ai_tool_calls db) (db_audit_events db @ [e]) db"
    "\<forall>c \<in> set (db_ai_conversations db). aic_id c \<noteq> ids 0" "ae_entity_id e = ids 0" "ae_fund_id e = fund_id"
  using assms
  by (auto simp: open_conversation_def result_simps insert_ai_conversation_Inr insert_ai_message_Inr with_conversations_def
      new_conversation_def ai_audit_def dest!: insert_audit_Inr)

lemma close_conversation_Inr:
  assumes "close_conversation D ids clock context s turn = Inr (ans, db')"
  obtains t i r e where "db' = with_conversations (update_row aic_id (ctx_conversation_id context)
        (\<lambda>r. r\<lparr>aic_status := ans_status ans, aic_completed_at := t\<rparr>) (db_ai_conversations (ask_db s)))
      (db_ai_messages (ask_db s) @ [answer_message D i (clock (ask_call_count s + 2)) ans r]) (db_ai_tool_calls (ask_db s))
      (db_audit_events (ask_db s) @ [e]) (ask_db s)"
    "ae_entity_id e = ctx_conversation_id context" "ae_fund_id e = ctx_fund_id context" "ans = answer_of context s turn"
proof -
  let ?n = "ask_call_count s"
  let ?cs = "update_row aic_id (ctx_conversation_id context)
    (\<lambda>r. r\<lparr>aic_status := ans_status ans, aic_completed_at := Some (clock (?n + 2))\<rparr>) (db_ai_conversations (ask_db s))"
  let ?m = "answer_message D (ids (?n + 3)) (clock (?n + 2)) ans (turn_response_id turn)"
  have ans: "ans = answer_of context s turn"
    using assms by (auto simp: close_conversation_def Let_def result_simps)
  from assms obtain db2 details where "insert_ai_message ((ask_db s)\<lparr>db_ai_conversations := ?cs\<rparr>) ?m = Inr db2"
    and audit: "insert_audit_event db2 (ai_audit (ids (?n + 4)) (clock (?n + 3)) (ctx_conversation_id context)
      (ctx_fund_id context) (ctx_actor_user_id context) ''AI_CONVERSATION_COMPLETED'' details) = Inr db'"
    unfolding close_conversation_def Let_def bindR_Inr_iff ans [symmetric] by blast
  from this(1) have "db2 = (ask_db s)\<lparr>db_ai_conversations := ?cs, db_ai_messages := db_ai_messages (ask_db s) @ [?m]\<rparr>"
    by (simp add: insert_ai_message_Inr)
  with insert_audit_Inr [OF audit] have "db' = with_conversations ?cs (db_ai_messages (ask_db s) @ [?m])
      (db_ai_tool_calls (ask_db s)) (db_audit_events (ask_db s) @ [ai_audit (ids (?n + 4)) (clock (?n + 3))
        (ctx_conversation_id context) (ctx_fund_id context) (ctx_actor_user_id context) ''AI_CONVERSATION_COMPLETED'' details]) (ask_db s)"
    by (simp add: with_conversations_def)
  then show thesis by (rule that) (simp_all add: ai_audit_def ans)
qed

lemma ask_Inr:
  assumes "ask D ids clock svc db actor fund_id prompt = Inr (ans, db')"
  obtains role cleaned db1 turn s final where
    "clean_prompt prompt = Inr cleaned" "authorization_require db actor fund_id Perm_USE_AI_ASSISTANT = Inr role"
    "open_conversation D ids clock (prov_model (svc_provider svc)) db actor fund_id cleaned = Inr db1"
    "prov_start (svc_provider svc) SYSTEM_INSTRUCTIONS cleaned TOOL_DEFINITIONS (safety_identifier D actor) = Inr turn"
    "tool_rounds D ids clock svc \<lparr>ctx_conversation_id = ids 0, ctx_actor_user_id = actor, ctx_fund_id = fund_id\<rparr>
       (nat (svc_max_tool_rounds svc)) (no_calls db1) turn = Inr (s, final)"
    "close_conversation D ids clock \<lparr>ctx_conversation_id = ids 0, ctx_actor_user_id = actor, ctx_fund_id = fund_id\<rparr> s final
       = Inr (ans, db')"
  using assms unfolding ask_def Let_def bindR_Inr_iff no_calls_def [symmetric] by (auto split: prod.splits)

lemma unique_sources_set: "set (unique_sources sources) \<subseteq> set sources"
  and unique_sources_Nil: "unique_sources sources = [] \<longleftrightarrow> sources = []"
proof -
  let ?d = "\<lambda>d sources. foldl (\<lambda>d s. dict_set (src_type s, src_id s) s d) d sources"
  have sub: "snd ` set (?d d sources) \<subseteq> snd ` set d \<union> set sources" for d
  proof (induction sources arbitrary: d)
    case (Cons s ss)
    have "snd ` set (AList.update k v d) \<subseteq> insert v (snd ` set d)" for k and v :: source_reference
      by (induction d) auto
    from this [of "(src_type s, src_id s)" s] Cons.IH [of "dict_set (src_type s, src_id s) s d"]
    have "snd ` set (?d d (s # ss)) \<subseteq> insert s (snd ` set d) \<union> set ss" by (simp only: foldl_Cons) blast
    then show ?case by simp
  qed simp
  from this [of "[]"] show "set (unique_sources sources) \<subseteq> set sources" by (simp add: unique_sources_def)
  have keys: "fst ` set (?d d sources) = fst ` set d \<union> (\<lambda>s. (src_type s, src_id s)) ` set sources" for d
  proof (induction sources arbitrary: d)
    case (Cons s ss)
    show ?case using Cons.IH [of "dict_set (src_type s, src_id s) s d"] by (simp add: dict_keys_set)
  qed simp
  have "?d [] sources = [] \<longleftrightarrow> fst ` set (?d [] sources) = {}" by simp
  then have "?d [] sources = [] \<longleftrightarrow> sources = []" unfolding keys by simp
  moreover have "map snd (sort_key fst d) = [] \<longleftrightarrow> d = []" for d :: "((string \<times> string) \<times> source_reference) list"
    using length_sort [of fst d] by (metis Nil_is_map_conv length_0_conv)
  ultimately show "unique_sources sources = [] \<longleftrightarrow> sources = []" by (simp add: unique_sources_def)
qed

text \<open>The rows a question adds, for any tools and any model.\<close>

lemma ask_rows:
  assumes run: "ask D ids clock svc db actor fund_id prompt = Inr (ans, db')"
  obtains cleaned turn s final c t i r e1 e2 rows db1 where
    "tool_rounds D ids clock svc \<lparr>ctx_conversation_id = ids 0, ctx_actor_user_id = actor, ctx_fund_id = fund_id\<rparr>
       (nat (svc_max_tool_rounds svc)) (no_calls db1) turn = Inr (s, final)"
    "db1 = with_conversations (db_ai_conversations db @ [c]) (db_ai_messages db @ [user_message D (ids 1) (ids 0) cleaned (clock 0)])
       (db_ai_tool_calls db) (db_audit_events db @ [e1]) db"
    "rounds_inv svc db1 \<lparr>ctx_conversation_id = ids 0, ctx_actor_user_id = actor, ctx_fund_id = fund_id\<rparr> s rows"
    "c = new_conversation (ids 0) fund_id actor (prov_model (svc_provider svc)) (clock 0)"
    "db' = with_conversations (db_ai_conversations db @ [c\<lparr>aic_status := ans_status ans, aic_completed_at := t\<rparr>])
       (db_ai_messages db @ [user_message D (ids 1) (ids 0) cleaned (clock 0),
          answer_message D i (clock (length rows + 2)) ans r])
       (db_ai_tool_calls db @ rows) (db_audit_events db @ [e1, e2]) db"
    "\<forall>e \<in> {e1, e2}. ae_entity_id e = ids 0 \<and> ae_fund_id e = fund_id"
    "ans = answer_of \<lparr>ctx_conversation_id = ids 0, ctx_actor_user_id = actor, ctx_fund_id = fund_id\<rparr> s final"
    "\<forall>c \<in> set (db_ai_conversations db). aic_id c \<noteq> ids 0" "cleaned = strip prompt"
proof (rule ask_Inr [OF run])
  fix role cleaned db1 turn s final
  let ?ctx = "\<lparr>ctx_conversation_id = ids 0, ctx_actor_user_id = actor, ctx_fund_id = fund_id\<rparr>"
  let ?c = "new_conversation (ids 0) fund_id actor (prov_model (svc_provider svc)) (clock 0)"
  assume "clean_prompt prompt = Inr cleaned"
    and opened: "open_conversation D ids clock (prov_model (svc_provider svc)) db actor fund_id cleaned = Inr db1"
    and rounds: "tool_rounds D ids clock svc ?ctx (nat (svc_max_tool_rounds svc)) (no_calls db1) turn = Inr (s, final)"
    and closed: "close_conversation D ids clock ?ctx s final = Inr (ans, db')"
  then have cleaned: "cleaned = strip prompt" by (simp add: clean_prompt_def Let_def result_simps)
  from opened obtain e1 where db1: "db1 = with_conversations (db_ai_conversations db @ [?c])
      (db_ai_messages db @ [user_message D (ids 1) (ids 0) cleaned (clock 0)]) (db_ai_tool_calls db) (db_audit_events db @ [e1]) db"
    and fresh: "\<forall>c \<in> set (db_ai_conversations db). aic_id c \<noteq> ids 0" and e1: "ae_entity_id e1 = ids 0" "ae_fund_id e1 = fund_id"
    by (rule open_conversation_Inr)
  have "rounds_inv svc db1 ?ctx (no_calls db1) []" by (simp add: rounds_inv_def no_calls_def)
  with rounds obtain rows where rows: "rounds_inv svc db1 ?ctx s rows" by (blast dest: tool_rounds_inv)
  then have s: "ask_db s = with_conversations (db_ai_conversations db @ [?c])
      (db_ai_messages db @ [user_message D (ids 1) (ids 0) cleaned (clock 0)]) (db_ai_tool_calls db @ rows) (db_audit_events db @ [e1]) db"
    and n: "ask_call_count s = length rows"
    by (simp_all add: rounds_inv_def db1 with_conversations_def)
  have one: "update_row aic_id (ids 0) f (db_ai_conversations db @ [?c]) = db_ai_conversations db @ [f ?c]" for f
    using fresh by (auto simp: update_row_def new_conversation_def intro!: map_idI)
  from closed obtain t i r e2 where "db' = with_conversations (db_ai_conversations db @ [?c\<lparr>aic_status := ans_status ans, aic_completed_at := t\<rparr>])
       (db_ai_messages db @ [user_message D (ids 1) (ids 0) cleaned (clock 0), answer_message D i (clock (length rows + 2)) ans r])
       (db_ai_tool_calls db @ rows) (db_audit_events db @ [e1, e2]) db"
      "ae_entity_id e2 = ids 0" "ae_fund_id e2 = fund_id" "ans = answer_of ?ctx s final"
    by (rule close_conversation_Inr) (auto simp: s n one with_conversations_def)
  with e1 fresh cleaned show thesis
    by (intro that [where s = s and final = final and t = t and i = i and r = r and ?e1.0 = e1 and ?e2.0 = e2,
        OF rounds db1 rows refl]) simp_all
qed

section \<open>Properties\<close>

text \<open>C10: Whatever the model answers, a question changes nothing but its own evidence: one
  conversation, two messages, two audit events and at most as many tool calls as allowed are
  appended, all of this conversation and this fund, and everything else in the database is as
  before; the actor held the permission.\<close>

theorem ask_read_only:
  assumes "ai_service_new provider tools max_rounds max_calls = Inr svc"
    and "ask D ids clock svc db actor fund_id prompt = Inr (ans, db')"
  shows "\<exists>conversation messages calls events.
    db' = db\<lparr>db_ai_conversations := db_ai_conversations db @ [conversation], db_ai_messages := db_ai_messages db @ messages,
      db_ai_tool_calls := db_ai_tool_calls db @ calls, db_audit_events := db_audit_events db @ events\<rparr>
    \<and> aic_id conversation = ans_conversation_id ans \<and> aic_fund_id conversation = fund_id
    \<and> aic_actor_user_id conversation = actor \<and> aic_status conversation = ans_status ans
    \<and> map aim_content messages = [strip prompt, ans_text ans]
    \<and> (\<forall>m \<in> set messages. aim_conversation_id m = ans_conversation_id ans)
    \<and> int (length calls) \<le> max_calls \<and> (\<forall>row \<in> set calls. atc_conversation_id row = ans_conversation_id ans)
    \<and> length events = 2 \<and> (\<forall>e \<in> set events. ae_entity_id e = ans_conversation_id ans \<and> ae_fund_id e = fund_id)
    \<and> (\<exists>role. authorization_require db actor fund_id Perm_USE_AI_ASSISTANT = Inr role)"
proof -
  from assms(1) have limit: "svc_max_tool_calls svc = max_calls" "1 \<le> max_calls" by (auto simp: ai_service_new_def result_simps)
  from assms(2) have role: "\<exists>role. authorization_require db actor fund_id Perm_USE_AI_ASSISTANT = Inr role" by (blast elim: ask_Inr)
  from assms(2) show ?thesis
  proof (rule ask_rows, goal_cases)
    case (1 cleaned turn s final c t i r e1 e2 rows db1)
    then have ans: "ans_conversation_id ans = ids 0" by (simp add: answer_of_def Let_def)
    from 1(3) limit have calls: "int (length rows) \<le> max_calls" "\<forall>row \<in> set rows. atc_conversation_id row = ids 0"
      by (auto simp: rounds_inv_def)
    show ?case
      by (intro exI [of _ "c\<lparr>aic_status := ans_status ans, aic_completed_at := t\<rparr>"] exI [of _ rows] exI [of _ "[e1, e2]"]
          exI [of _ "[user_message D (ids 1) (ids 0) cleaned (clock 0), answer_message D i (clock (length rows + 2)) ans r]"])
        (simp add: 1(4-6,9) ans calls role, simp add: with_conversations_def new_conversation_def user_message_def answer_message_def ans)
  qed
qed

text \<open>C8: Answers are grounded: an answer is shown as completed only when a recorded call of this
  question succeeded, every citation is a source of such a call, whose stored result is what the
  tool returns for the fund on the database as it was when the question was asked; otherwise the
  answer is the fixed refusal.\<close>

theorem ask_grounded:
  assumes "svc_tools svc = sql_tools H" and "ask D ids clock svc db actor fund_id prompt = Inr (ans, db')"
  defines "context \<equiv> \<lparr>ctx_conversation_id = ans_conversation_id ans, ctx_actor_user_id = actor, ctx_fund_id = fund_id\<rparr>"
  shows "\<exists>calls. db_ai_tool_calls db' = db_ai_tool_calls db @ calls
    \<and> (if ans_status ans = Conversation_COMPLETED then ans_text ans \<noteq> [] \<and> ans_sources ans \<noteq> []
       else ans_status ans = Conversation_REFUSED \<and> ans_text ans = REFUSAL_TEXT)
    \<and> (ans_sources ans = [] \<longleftrightarrow> (\<forall>row \<in> set calls. atc_status row \<noteq> Tool_SUCCEEDED))
    \<and> (\<forall>row \<in> set calls. atc_status row = Tool_SUCCEEDED \<longrightarrow> (\<exists>r. recorded_result (sql_tools H) db context row r))
    \<and> (\<forall>s \<in> set (ans_sources ans). \<exists>row \<in> set calls. \<exists>r. recorded_result (sql_tools H) db context row r \<and> s \<in> set (tr_sources r))"
  using assms(2)
proof (rule ask_rows, goal_cases)
  case (1 cleaned turn s final c t i r e1 e2 rows db1)
  let ?ctx = "\<lparr>ctx_conversation_id = ids 0, ctx_actor_user_id = actor, ctx_fund_id = fund_id\<rparr>"
  have ctx: "context = ?ctx" by (simp add: context_def 1(7) answer_of_def Let_def)
  from 1(1) assms(1) have "\<exists>rows'. rounds_inv svc db1 ?ctx s rows' \<and> transcript (sql_tools H) db ?ctx rows' (ask_sources s)"
    unfolding 1(2) by (rule sql.rounds_transcript [where stored = "[]"]) (simp_all add: rounds_inv_def no_calls_def)
  then obtain rows' where rows': "rounds_inv svc db1 ?ctx s rows'" "transcript (sql_tools H) db ?ctx rows' (ask_sources s)" by blast
  with 1(3) have "rows' = rows" by (simp add: rounds_inv_def) (metis ai_tool_calls.rows_put same_append_eq)
  with rows'(2) have "transcript (sql_tools H) db ?ctx rows (ask_sources s)" by simp
  moreover have "ans_sources ans = unique_sources (ask_sources s)" by (simp add: 1(7) answer_of_def Let_def)
  moreover have "if ans_status ans = Conversation_COMPLETED then ans_text ans \<noteq> [] \<and> ans_sources ans \<noteq> []
       else ans_status ans = Conversation_REFUSED \<and> ans_text ans = REFUSAL_TEXT" by (simp add: 1(7) answer_of_def Let_def)
  moreover have "db_ai_tool_calls db' = db_ai_tool_calls db @ rows" by (simp add: 1(5) with_conversations_def)
  ultimately show ?case
    using unique_sources_set [of "ask_sources s"] unique_sources_Nil [of "ask_sources s"]
    unfolding ctx transcript_def by (intro exI [of _ rows]) (auto simp: subset_iff)
qed

section \<open>Limits\<close>

text \<open>A provider that answers as \<open>P\<close> does in the first \<open>n\<close> rounds.\<close>

definition agrees :: "nat \<Rightarrow> model_provider \<Rightarrow> model_provider \<Rightarrow> bool" where
  "agrees n P P' \<longleftrightarrow> prov_model P' = prov_model P \<and> prov_start P' = prov_start P
     \<and> (\<forall>k < n. prov_continue_with_tools P' k = prov_continue_with_tools P k)"

lemma call_step_provider: "call_step D ids clock (svc\<lparr>svc_provider := P\<rparr>) = call_step D ids clock svc"
  by (simp add: call_step_def fun_eq_iff)

lemma calls_round: "foldR (call_step D ids clock svc context) s calls = Inr s' \<Longrightarrow> ask_round s' = ask_round s"
proof (induction calls arbitrary: s)
  case (Cons call calls)
  from Cons.prems obtain t where t: "call_step D ids clock svc context s call = Inr t"
      "foldR (call_step D ids clock svc context) t calls = Inr s'" by (auto simp: result_simps)
  from t(1) have "ask_round t = ask_round s" by (rule call_step_Inr)
  with Cons.IH [OF t(2)] show ?case by simp
qed simp

lemma tool_round_agrees:
  assumes run: "tool_round D ids clock svc context s turn = Inr r" and "ask_round s < n" and "agrees n (svc_provider svc) P"
  shows "tool_round D ids clock (svc\<lparr>svc_provider := P\<rparr>) context s turn = Inr r"
proof -
  obtain s' turn' where r: "r = (s', turn')" by (cases r)
  from run [unfolded r] obtain s1 where s1: "foldR (call_step D ids clock svc context) (s\<lparr>ask_pending := [], ask_outputs := []\<rparr>)
      (turn_tool_calls turn) = Inr s1" by (rule tool_round_Inr)
  from calls_round [OF this] assms(2,3) have "prov_continue_with_tools P (ask_round s1) = prov_continue_with_tools (svc_provider svc) (ask_round s1)"
    by (simp add: agrees_def)
  with run s1 show ?thesis by (simp add: tool_round_def call_step_provider)
qed

lemma tool_rounds_agrees:
  assumes "tool_rounds D ids clock svc context k s turn = Inr r" and "agrees (ask_round s + k - 1) (svc_provider svc) P"
  shows "tool_rounds D ids clock (svc\<lparr>svc_provider := P\<rparr>) context k s turn = Inr r"
  using assms
proof (induction k arbitrary: s turn)
  case (Suc k)
  show ?case
  proof (cases "turn_tool_calls turn = []")
    case True
    with Suc.prems show ?thesis by simp
  next
    case False
    with Suc.prems(1) obtain t turn' where t: "tool_round D ids clock svc context s turn = Inr (t, turn')"
        "tool_rounds D ids clock svc context k t turn' = Inr r" by (auto simp: result_simps)
    from t(2) have k: "0 < k" by (cases k) auto
    from t(1) have "ask_round t = Suc (ask_round s)" by (rule tool_round_Inr) (simp add: calls_round)
    with Suc.prems(2) have "agrees (ask_round t + k - 1) (svc_provider svc) P" by simp
    moreover have "tool_round D ids clock (svc\<lparr>svc_provider := P\<rparr>) context s turn = Inr (t, turn')"
      using t(1) by (rule tool_round_agrees [where n = "ask_round s + k"]) (use k Suc.prems(2) in auto)
    ultimately show ?thesis using False t(2) by (simp add: Suc.IH)
  qed
qed simp

text \<open>C31: The answer to the outputs of the last permitted round is never read: with n permitted tool
  rounds a question returns only when the model stops calling tools within n - 1 rounds, whatever
  it would have answered after the n-th.\<close>

theorem last_round_unused:
  assumes "agrees (nat (svc_max_tool_rounds svc) - 1) (svc_provider svc) P"
    and "ask D ids clock svc db actor fund_id prompt = Inr r"
  shows "ask D ids clock (svc\<lparr>svc_provider := P\<rparr>) db actor fund_id prompt = Inr r"
proof -
  obtain ans db' where r: "r = (ans, db')" by (cases r)
  from assms(2) [unfolded r] show ?thesis
  proof (rule ask_Inr, goal_cases)
    case (1 role cleaned db1 turn s final)
    from 1(5) have "tool_rounds D ids clock (svc\<lparr>svc_provider := P\<rparr>)
        \<lparr>ctx_conversation_id = ids 0, ctx_actor_user_id = actor, ctx_fund_id = fund_id\<rparr>
        (nat (svc_max_tool_rounds svc)) (no_calls db1) turn = Inr (s, final)"
      by (rule tool_rounds_agrees) (use assms(1) in \<open>simp add: no_calls_def\<close>)
    with 1 assms(1) show ?case by (simp add: ask_def r agrees_def no_calls_def [symmetric])
  qed
qed

end
