(* ===== verification/Ai_Tool_Properties.thy ===== *)
theory Ai_Tool_Properties
  imports Ai_Properties
begin

text \<open>
  What one tool call can read, which calls are run at all, and that a conversation is stored in tables
  that keep their constraints.
\<close>

section \<open>What a fund may know at a cutoff\<close>

text \<open>The database with the rows of one fund that were in force or observed by a cutoff, and what they refer to.\<close>

definition known_evaluations :: "database \<Rightarrow> uuid \<Rightarrow> datetime \<Rightarrow> risk_evaluation_row list" where
  "known_evaluations db f a = filter (\<lambda>r. re_fund_id r = f \<and> instant (re_as_of r) \<le> instant a) (db_risk_evaluations db)"

definition known_items :: "database \<Rightarrow> uuid \<Rightarrow> datetime \<Rightarrow> risk_evaluation_item_row list" where
  "known_items db f a = filter (\<lambda>i. rei_evaluation_id i \<in> re_id ` set (known_evaluations db f a)) (db_risk_evaluation_items db)"

definition known_scenarios :: "database \<Rightarrow> uuid \<Rightarrow> scenario_definition_row list" where
  "known_scenarios db f = filter (\<lambda>r. sd_fund_id r = f) (db_scenario_definitions db)"

definition known_by :: "database \<Rightarrow> uuid \<Rightarrow> datetime \<Rightarrow> database" where
  "known_by db f a = empty_database\<lparr>
     db_transactions := filter (\<lambda>r. tx_fund_id r = f \<and> instant (tx_effective_at r) \<le> instant a) (db_transactions db),
     db_portfolio_snapshots := filter (\<lambda>r. snap_fund_id r = f \<and> snap_account_id r = None \<and> snap_status r = Snapshot_CURRENT
       \<and> instant (snap_as_of r) \<le> instant a) (db_portfolio_snapshots db),
     db_market_prices := filter (\<lambda>r. instant (mp_observed_at r) \<le> instant a) (db_market_prices db),
     db_instrument_classifications := filter (\<lambda>r. instant (cl_effective_from r) \<le> instant a) (db_instrument_classifications db),
     db_instrument_risk_sensitivities := filter (\<lambda>r. instant (irs_effective_from r) \<le> instant a) (db_instrument_risk_sensitivities db),
     db_scenario_definitions := known_scenarios db f,
     db_scenario_shocks := filter (\<lambda>s. shr_scenario_id s \<in> sd_id ` set (known_scenarios db f)) (db_scenario_shocks db),
     db_risk_evaluations := known_evaluations db f a,
     db_risk_evaluation_items := known_items db f a,
     db_risk_policy_rules := filter (\<lambda>r. rule_id r \<in> rei_rule_id ` set (known_items db f a)) (db_risk_policy_rules db),
     db_risk_policies := filter (\<lambda>r. rp_id r \<in> re_policy_id ` set (known_evaluations db f a)) (db_risk_policies db)\<rparr>"

lemma filter_within: "(\<And>x. x \<in> set xs \<Longrightarrow> P x \<Longrightarrow> Q x) \<Longrightarrow> filter P (filter Q xs) = filter P xs"
  by (induction xs) auto

lemma find_within: "(\<And>x. P x \<Longrightarrow> Q x) \<Longrightarrow> first_row P (filter Q xs) = first_row P xs"
  unfolding first_row_def by (induction xs) auto

lemma filter_product_within:
  assumes "\<And>x y. P (x, y) \<Longrightarrow> x \<in> set xs \<Longrightarrow> y \<in> set ys \<Longrightarrow> A x \<and> B y"
  shows "filter P (List.product (filter A xs) (filter B ys)) = filter P (List.product xs ys)"
proof -
  have "filter P (map (Pair x) (filter B ys)) = filter P (map (Pair x) ys)" if "x \<in> set xs" for x
    using assms [of x] that by (auto simp: filter_map o_def intro!: arg_cong [where f = "map (Pair x)"] filter_cong)
  moreover have "filter P (map (Pair x) ys) = []" if "x \<in> set xs" "\<not> A x" for x
    using assms that by (auto simp: filter_empty_conv)
  ultimately show ?thesis using assms
  proof (induction xs)
    case (Cons x xs)
    from Cons.prems have "filter P (List.product (filter A xs) (filter B ys)) = filter P (List.product xs ys)"
      by (intro Cons.IH) auto
    with Cons.prems(1,2) [of x] show ?case by auto
  qed simp
qed

lemma tools_snapshot_known: "tools_snapshot (known_by db f a) f a = tools_snapshot db f a"
  by (simp add: tools_snapshot_def known_by_def conj_ac cong: conj_cong)

lemma risk_evaluation_known: "risk_evaluation_at (known_by db f a) f a = risk_evaluation_at db f a"
  by (simp add: risk_evaluation_at_def known_by_def known_evaluations_def cong: conj_cong)

lemma risk_evaluation_at_member:
  assumes "risk_evaluation_at db f a = Inr r"
  shows "r \<in> set (known_evaluations db f a)"
proof -
  let ?rows = "filter (\<lambda>r. re_fund_id r = f \<and> instant (re_as_of r) \<le> instant a) (db_risk_evaluations db)"
  from assms obtain rs where "sort_key (\<lambda>r. (- instant (re_as_of r), - instant (re_created_at r))) ?rows = r # rs"
    by (auto simp: risk_evaluation_at_def split: list.splits)
  then have "r \<in> set ?rows" by (rule sort_key_first(1))
  then show ?thesis by (simp add: known_evaluations_def)
qed

lemma evaluated_rules_known:
  assumes "r \<in> set (known_evaluations db f a)"
  shows "evaluated_rules (known_by db f a) r = evaluated_rules db r"
proof -
  have "evaluated_rules db r = filter (\<lambda>(i, q). rule_id q = rei_rule_id i \<and> rei_evaluation_id i = re_id r)
      (List.product (known_items db f a) (filter (\<lambda>q. rule_id q \<in> rei_rule_id ` set (known_items db f a)) (db_risk_policy_rules db)))"
    unfolding evaluated_rules_def known_items_def
    by (rule filter_product_within [symmetric]) (use assms in auto)
  then show ?thesis by (simp add: evaluated_rules_def known_by_def)
qed

lemma risk_sources_known:
  assumes "r \<in> set (known_evaluations db f a)"
  shows "risk_sources (known_by db f a) r rules = risk_sources db r rules"
  using assms by (simp add: risk_sources_def known_by_def find_within)

lemma valuation_known: "tools_valuation H (known_by db f a) f a age = tools_valuation H db f a age"
proof -
  have ledger: "ledger_at (known_by db f a) f a None = ledger_at db f a None"
    by (simp add: ledger_at_def known_by_def cong: conj_cong)
  have candidates: "quote_candidates (known_by db f a) i a None Price_CLOSE = quote_candidates db i a None Price_CLOSE" for i
    by (simp add: quote_candidates_def known_by_def conj_ac cong: conj_cong)
  show ?thesis
    by (simp add: tools_valuation_def value_at_def ledger quotes_at_def latest_quote_def candidates)
qed

lemma value_at_frame:
  assumes "value_at H db f a age acc prov pt = Inr v"
  shows "vr_fund_id v = f \<and> vr_as_of v = a"
proof -
  from assms obtain state quotes realized where state: "run_engine H f (ledger_at db f a acc) a acc = Inr state"
    and v: "valuation_value state quotes realized = Inr v"
    unfolding value_at_def Let_def bindR_Inr_iff by blast
  from state have "pf_fund_id state = f \<and> md_as_of (pf_metadata state) = a"
    by (auto simp: run_engine_def reconstruct_def portfolio_output_def Let_def result_simps split: sum.splits)
  with v show ?thesis by (auto simp: valuation_value_def Let_def result_simps)
qed

lemma tools_valuation_frame: "tools_valuation H db f a age = Inr v \<Longrightarrow> vr_fund_id v = f \<and> vr_as_of v = a"
  by (auto simp: tools_valuation_def unavailable_def result_simps dest: value_at_frame split: sum.splits if_splits)

lemma classifications_known:
  "classifications_at (known_by db f a) is a = classifications_at db is a"
  "classification_sources (known_by db f a) f a = classification_sources db f a"
  by (simp_all add: classifications_at_def effective_classifications_def classification_sources_def known_by_def conj_ac
      cong: conj_cong)

lemma sensitivities_known: "sensitivities_at (known_by db f a) is a = sensitivities_at db is a"
  by (simp add: sensitivities_at_def effective_sensitivities_def known_by_def conj_ac cong: conj_cong)

lemma find_filter_key:
  assumes "distinct (map key xs)"
  shows "find (\<lambda>r. key r = k) (filter Q xs) = (case find (\<lambda>r. key r = k) xs of None \<Rightarrow> None | Some r \<Rightarrow> if Q r then Some r else None)"
  using assms
proof (induction xs)
  case (Cons x xs)
  have "find (\<lambda>r. key r = key x) xs = None" using Cons.prems by (auto simp: find_None_iff) (metis imageI)
  with Cons show ?case by auto
qed simp

lemma scenario_known:
  assumes "distinct (map sd_id (db_scenario_definitions db))"
  shows "load_definition (known_by db f a) k f = load_definition db k f"
    and "load_definition db k f = Inr d \<Longrightarrow>
      first_row (\<lambda>r. sd_id r = k) (db_scenario_definitions (known_by db f a)) = first_row (\<lambda>r. sd_id r = k) (db_scenario_definitions db)"
proof -
  have row: "first_row (\<lambda>r. sd_id r = k) (known_scenarios db f) = (case first_row (\<lambda>r. sd_id r = k) (db_scenario_definitions db) of
      None \<Rightarrow> None | Some r \<Rightarrow> if sd_fund_id r = f then Some r else None)"
    unfolding first_row_def known_scenarios_def by (rule find_filter_key [OF assms])
  have shocks: "filter (\<lambda>s. shr_scenario_id s = k) (filter (\<lambda>s. shr_scenario_id s \<in> sd_id ` set (known_scenarios db f)) (db_scenario_shocks db))
      = filter (\<lambda>s. shr_scenario_id s = k) (db_scenario_shocks db)"
    if "first_row (\<lambda>r. sd_id r = k) (db_scenario_definitions db) = Some r" "sd_fund_id r = f" for r
    using first_row_Some [OF that(1)] that(2) by (intro filter_within) (force simp: known_scenarios_def)
  show "load_definition (known_by db f a) k f = load_definition db k f"
    using row shocks by (auto simp: load_definition_def known_by_def split: option.split)
  show "first_row (\<lambda>r. sd_id r = k) (db_scenario_definitions (known_by db f a)) = first_row (\<lambda>r. sd_id r = k) (db_scenario_definitions db)"
    if "load_definition db k f = Inr d"
    using that row by (auto simp: load_definition_def known_by_def result_simps split: option.splits)
qed

lemma preview_known:
  assumes "distinct (map sd_id (db_scenario_definitions db))" and "vr_fund_id v = f \<and> vr_as_of v = a"
  shows "scenario_preview H (known_by db f a) k v = scenario_preview H db k v"
  using assms(2) by (simp add: scenario_preview_def scenario_known [OF assms(1)] classifications_known sensitivities_known)

text \<open>C9: A tool call reads nothing but its own fund up to its cutoff: removing every other fund's
  transactions, snapshots, evaluations and scenarios, and everything observed or effective after
  the cutoff the model asked for, changes neither the result nor the error of any of the six
  tools.\<close>

theorem tools_confined:
  assumes "distinct (map sd_id (db_scenario_definitions db))"
  shows "dispatch (sql_tools H (known_by db (ctx_fund_id context) (arg_as_of arguments))) name arguments context
    = dispatch (sql_tools H db) name arguments context"
proof -
  let ?f = "ctx_fund_id context" and ?a = "arg_as_of arguments"
  let ?db = "known_by db ?f ?a"
  have holdings: "get_holdings ?db ?f ?a = get_holdings db ?f ?a" "get_portfolio_snapshot ?db ?f ?a = get_portfolio_snapshot db ?f ?a"
    by (simp_all add: get_holdings_def get_portfolio_snapshot_def tools_snapshot_known)
  have risk: "get_risk ?db ?f ?a = get_risk db ?f ?a" "get_policy_breaches ?db ?f ?a = get_policy_breaches db ?f ?a"
    unfolding get_risk_def get_policy_breaches_def risk_evaluation_known
    by (auto intro!: bindR_cong dest!: risk_evaluation_at_member simp: evaluated_rules_known risk_sources_known Let_def)
  have exposure: "get_exposure H ?db ?f ?a n = get_exposure H db ?f ?a n" for n
    unfolding get_exposure_def valuation_known
    by (auto intro!: bindR_cong dest!: tools_valuation_frame simp: exposure_service_calculate_def classifications_known)
  have scenario: "run_scenario H ?db ?f k ?a n = run_scenario H db ?f k ?a n" for k n
  proof (cases "tools_valuation H db ?f ?a n")
    case (Inr v)
    then have v: "vr_fund_id v = ?f \<and> vr_as_of v = ?a" by (rule tools_valuation_frame)
    note preview = preview_known [OF assms v, of H k]
    show ?thesis
    proof (cases "scenario_preview H db k v")
      case preview_ok: (Inr result)
      then obtain d where "load_definition db k (vr_fund_id v) = Inr d" by (auto simp: scenario_preview_def result_simps)
      with v have "first_row (\<lambda>r. sd_id r = k) (db_scenario_definitions ?db) = first_row (\<lambda>r. sd_id r = k) (db_scenario_definitions db)"
        using scenario_known(2) [OF assms] by simp
      with Inr preview_ok preview show ?thesis by (simp add: run_scenario_def valuation_known unavailable_def)
    qed (simp add: run_scenario_def valuation_known Inr preview unavailable_def)
  qed (simp add: run_scenario_def valuation_known)
  have "get_exposure H ?db ?f ?a = get_exposure H db ?f ?a" "run_scenario H ?db ?f k ?a = run_scenario H db ?f k ?a" for k
    by (rule ext, rule exposure, rule ext, rule scenario)
  then show ?thesis by (simp add: dispatch_def Let_def sql_tools_def holdings risk)
qed

section \<open>Which calls are run\<close>

lemma parse_arguments_Inr:
  assumes "parse_arguments name payload = Inr a"
  obtains raw where "length payload \<le> 8192" "json_loads payload = Inr (JObj raw)"
    "tool_fields name = Some (set (map fst raw))" "is_aware (arg_as_of a)"
    "pred_option (\<lambda>n. 0 \<le> n) (arg_max_price_age_seconds a)"
proof -
  from assms have size: "length payload \<le> 8192"
    and "\<exists>j. (case json_loads payload of Inl JSONDecodeError \<Rightarrow> Inl (InvalidToolCall ''tool arguments are not valid JSON'') | r \<Rightarrow> r) = Inr j"
    unfolding parse_arguments_def bindR_Inr_iff requireR_Inr by blast+
  then obtain j where j: "json_loads payload = Inr j" by (auto split: sum.splits app_error.splits)
  show thesis
  proof (cases j)
    case (JObj raw)
    with j size have run: "parse_arguments name payload = (case tool_fields name of
          None \<Rightarrow> Inl (InvalidToolCall (''unknown or non-read-only tool: '' @ name))
        | Some allowed \<Rightarrow> bindR (requireR (set (map fst raw) = allowed)
            (InvalidToolCall ''tool arguments have missing or unexpected fields'')) (\<lambda>_.
            bindR (parse_as_of (tool_field raw ''as_of'')) (\<lambda>as_of.
            bindR (if ''max_price_age_seconds'' \<in> allowed
              then bindR (parse_age (tool_field raw ''max_price_age_seconds'')) (\<lambda>n. Inr (Some n)) else Inr None) (\<lambda>age.
            bindR (if ''scenario_id'' \<in> allowed
              then bindR (parse_scenario_id (tool_field raw ''scenario_id'')) (\<lambda>u. Inr (Some u)) else Inr None) (\<lambda>scenario.
            Inr \<lparr>arg_as_of = as_of, arg_max_price_age_seconds = age, arg_scenario_id = scenario\<rparr>)))))"
      by (simp add: parse_arguments_def)
    with assms obtain allowed where allowed: "tool_fields name = Some allowed" by (auto split: option.splits)
    with assms run obtain age where same: "set (map fst raw) = allowed"
      and as_of: "parse_as_of (tool_field raw ''as_of'') = Inr (arg_as_of a)"
      and age: "(if ''max_price_age_seconds'' \<in> allowed
         then bindR (parse_age (tool_field raw ''max_price_age_seconds'')) (\<lambda>n. Inr (Some n)) else Inr None) = Inr age"
        "arg_max_price_age_seconds a = age"
      by (auto simp: result_simps simp del: set_map)
    have "is_aware (arg_as_of a)" using as_of by (auto simp: parse_as_of_def split: option.splits if_splits)
    moreover have "pred_option (\<lambda>n. 0 \<le> n) age"
      using age(1) by (auto simp: result_simps parse_age_def split: if_splits json.splits)
    ultimately show thesis using that [OF size] j JObj allowed same age(2) by simp
  qed (use assms j size in \<open>auto simp: parse_arguments_def\<close>)
qed

text \<open>C20: Every tool call ends in a verdict. It succeeds only for an authorized actor, with arguments
  that are a JSON object of at most 8192 bytes with exactly the fields of a known tool, an aware
  cutoff and no negative age, and then has a result with sources; it is denied exactly when the
  actor lacks the permission; and what escapes as an exception is never a ValueError.\<close>

theorem execute_verdicts:
  "(case registry_execute (sql_tools H) db name payload context of
      Inl e \<Rightarrow> \<not> is_value_error e
    | Inr x \<Rightarrow> (case ex_status x of
        Tool_SUCCEEDED \<Rightarrow> (\<exists>raw a r. length payload \<le> 8192 \<and> json_loads payload = Inr (JObj raw)
          \<and> tool_fields name = Some (set (map fst raw)) \<and> is_aware (arg_as_of a)
          \<and> pred_option (\<lambda>n. 0 \<le> n) (arg_max_price_age_seconds a)
          \<and> dispatch (sql_tools H db) name a context = Inr r \<and> tr_sources r \<noteq> []
          \<and> x = \<lparr>ex_status = Tool_SUCCEEDED, ex_result = Some r, ex_error = None\<rparr>)
      | Tool_DENIED \<Rightarrow> ex_result x = None
      | _ \<Rightarrow> ex_result x = None \<and> ex_error x \<noteq> None))
   \<and> ((\<exists>m. registry_execute (sql_tools H) db name payload context = Inr \<lparr>ex_status = Tool_DENIED, ex_result = None, ex_error = Some m\<rparr>)
      \<longleftrightarrow> (\<forall>role. authorization_require db (ctx_actor_user_id context) (ctx_fund_id context) Perm_USE_AI_ASSISTANT \<noteq> Inr role))"
proof -
  let ?auth = "authorization_require db (ctx_actor_user_id context) (ctx_fund_id context) Perm_USE_AI_ASSISTANT"
  let ?work = "bindR (parse_arguments name payload) (\<lambda>a. dispatch (sql_tools H db) name a context)"
  show ?thesis
  proof (cases ?auth)
    case (Inl e)
    with authorization_denied [OF Inl] show ?thesis by (auto simp: registry_execute_def)
  next
    case (Inr role)
    then have run: "registry_execute (sql_tools H) db name payload context = tool_outcome ?work" by (simp add: registry_execute_def)
    show ?thesis
    proof (cases ?work)
      case (Inl e)
      with run Inr show ?thesis by (auto simp: tool_outcome_def split: app_error.splits)
    next
      case work: (Inr r)
      then obtain a where a: "parse_arguments name payload = Inr a" "dispatch (sql_tools H db) name a context = Inr r"
        by (auto simp: result_simps)
      from a(1) obtain raw where "length payload \<le> 8192" "json_loads payload = Inr (JObj raw)"
        "tool_fields name = Some (set (map fst raw))" "is_aware (arg_as_of a)"
        "pred_option (\<lambda>n. 0 \<le> n) (arg_max_price_age_seconds a)" by (rule parse_arguments_Inr)
      with run work Inr a(2) sql_tools_evidence [OF a(2)] show ?thesis by (auto simp: tool_outcome_def)
    qed
  qed
qed

lemma authorization_conversations:
  "authorization_require (with_conversations cs ms ts es db) = authorization_require db"
proof -
  have "role_codes (with_conversations cs ms ts es db) = role_codes db"
    "db_users (with_conversations cs ms ts es db) = db_users db"
    by (simp_all add: role_codes_def with_conversations_def fun_eq_iff)
  then show ?thesis by (intro ext) (simp only: authorization_require_def)
qed

text \<open>C40: A model can abort a conversation: a price age of a billion days or more passes validation,
  overflows in timedelta, and the OverflowError escapes ask, so no evidence of the question is
  kept.\<close>

theorem huge_price_age_aborts:
  assumes "svc_tools svc = sql_tools H" and "1 \<le> svc_max_tool_calls svc" and "1 \<le> svc_max_tool_rounds svc"
    and "clean_prompt prompt = Inr cleaned" and "authorization_require db actor fund_id Perm_USE_AI_ASSISTANT = Inr role"
    and "open_conversation D ids clock (prov_model (svc_provider svc)) db actor fund_id cleaned = Inr db1"
    and "prov_start (svc_provider svc) SYSTEM_INSTRUCTIONS cleaned TOOL_DEFINITIONS (safety_identifier D actor) = Inr turn"
    and "turn_tool_calls turn = call # calls" and "call_name call = ''get_exposure''"
    and "parse_arguments ''get_exposure'' (call_arguments_json call) = Inr a"
    and "arg_max_price_age_seconds a = Some n" and "86400 * 10 ^ 9 \<le> n"
  shows "ask D ids clock svc db actor fund_id prompt = Inl OverflowError"
proof -
  let ?ctx = "\<lparr>ctx_conversation_id = ids 0, ctx_actor_user_id = actor, ctx_fund_id = fund_id\<rparr>"
  have "\<not> n div 86400 \<le> 999999999" using zdiv_mono1 [OF assms(12), of 86400] by simp
  then have overflow: "get_exposure H db' f t n = Inl OverflowError" for db' f t
    by (simp add: get_exposure_def tools_valuation_def timedelta_seconds_def unavailable_def)
  obtain m where m: "nat (svc_max_tool_rounds svc) = Suc m" using assms(3) by (metis Suc_pred' zero_less_nat_eq zless_iff_Suc_zadd zle_iff_zadd int_one_le_iff_zero_less)
  have same: "authorization_require db1 actor fund_id Perm_USE_AI_ASSISTANT = Inr role"
    using assms(6) by (rule open_conversation_Inr) (simp add: authorization_conversations assms(5))
  have "registry_execute (sql_tools H) db1 ''get_exposure'' (call_arguments_json call) ?ctx = Inl OverflowError"
    using same assms(10,11) overflow
    by (simp add: registry_execute_def dispatch_def sql_tools_def argument_def tool_outcome_def)
  then have "tool_rounds D ids clock svc ?ctx (nat (svc_max_tool_rounds svc)) (no_calls db1) turn = Inl OverflowError"
    using assms(1,2,8,9) m by (simp add: tool_round_def call_step_def no_calls_def)
  with assms(4-7) show ?thesis by (simp add: ask_def no_calls_def [symmetric])
qed

section \<open>The stored conversations\<close>

text \<open>The constraints of the three tables: checks, keys, and references to a stored conversation.\<close>

definition ai_tables_ok :: "database \<Rightarrow> bool" where
  "ai_tables_ok db \<longleftrightarrow> table_ok ai_conversation_clash ai_conversation_checks (db_ai_conversations db)
     \<and> table_ok ai_message_clash ai_message_checks (db_ai_messages db)
     \<and> table_ok ai_tool_call_clash ai_tool_call_checks (db_ai_tool_calls db)
     \<and> list_all (ai_conversation_refs db) (db_ai_conversations db)
     \<and> list_all (ai_message_refs db) (db_ai_messages db) \<and> list_all (ai_tool_call_refs db) (db_ai_tool_calls db)"

lemma table_ok_snoc: "table_ok clash checks (rows @ [r]) \<longleftrightarrow>
    table_ok clash checks rows \<and> checks r \<and> (\<forall>r' \<in> set rows. \<not> clash r' r)"
  by (auto simp: table_ok_def sorted_wrt_append)

lemma insert_conversation_ok: "insert_ai_conversation db r = Inr db' \<Longrightarrow> ai_tables_ok db \<Longrightarrow> ai_tables_ok db'"
  by (auto simp: insert_ai_conversation_Inr ai_tables_ok_def table_ok_snoc ai_conversation_clash_def ai_conversation_refs_def
      ai_message_refs_def ai_tool_call_refs_def refers_def list_all_iff)

lemma insert_message_ok: "insert_ai_message db r = Inr db' \<Longrightarrow> ai_tables_ok db \<Longrightarrow> ai_tables_ok db'"
  by (auto simp: insert_ai_message_Inr ai_tables_ok_def table_ok_snoc ai_conversation_refs_def ai_message_refs_def
      ai_tool_call_refs_def refers_def list_all_iff)

lemma insert_tool_call_ok: "insert_ai_tool_call db r = Inr db' \<Longrightarrow> ai_tables_ok db \<Longrightarrow> ai_tables_ok db'"
  by (auto simp: insert_ai_tool_call_def result_simps ai_tables_ok_def table_ok_snoc ai_conversation_refs_def
      ai_message_refs_def ai_tool_call_refs_def refers_def list_all_iff)

lemma insert_tool_calls_ok: "foldR insert_ai_tool_call db rows = Inr db' \<Longrightarrow> ai_tables_ok db \<Longrightarrow> ai_tables_ok db'"
  by (induction rows arbitrary: db) (auto simp: result_simps dest: insert_tool_call_ok)

lemma insert_audit_ok: "insert_audit_event db r = Inr db' \<Longrightarrow> ai_tables_ok db' = ai_tables_ok db"
  by (drule insert_audit_Inr) (simp add: ai_tables_ok_def ai_conversation_refs_def ai_message_refs_def ai_tool_call_refs_def list_all_iff)

lemma map_conversations_ok:
  assumes "ai_tables_ok db"
    and f: "\<And>r. aic_id (f r) = aic_id r" "\<And>r. aic_model (f r) = aic_model r" "\<And>r. aic_fund_id (f r) = aic_fund_id r"
      "\<And>r. aic_actor_user_id (f r) = aic_actor_user_id r"
  shows "ai_tables_ok (db\<lparr>db_ai_conversations := map f (db_ai_conversations db)\<rparr>)"
proof -
  let ?db = "db\<lparr>db_ai_conversations := map f (db_ai_conversations db)\<rparr>"
  have rows: "ai_conversation_clash (f r) (f r') = ai_conversation_clash r r'" "ai_conversation_checks (f r) = ai_conversation_checks r"
    "ai_conversation_refs ?db (f r) = ai_conversation_refs db r" for r r'
    by (simp_all add: ai_conversation_clash_def ai_conversation_checks_def ai_conversation_refs_def f)
  have "aic_id ` set (map f (db_ai_conversations db)) = aic_id ` set (db_ai_conversations db)" by (simp add: image_image f)
  then have "ai_message_refs ?db = ai_message_refs db" "ai_tool_call_refs ?db = ai_tool_call_refs db"
    by (simp_all add: ai_message_refs_def ai_tool_call_refs_def refers_def fun_eq_iff del: set_map)
  with assms(1) show ?thesis by (simp add: ai_tables_ok_def table_ok_def sorted_wrt_map rows list_all_iff)
qed

lemma update_conversation_ok: "ai_tables_ok db \<Longrightarrow>
    ai_tables_ok (db\<lparr>db_ai_conversations := update_row aic_id c (\<lambda>r. r\<lparr>aic_status := st, aic_completed_at := t\<rparr>)
    (db_ai_conversations db)\<rparr>)"
  unfolding update_row_def by (rule map_conversations_ok) simp_all

lemma tool_rounds_ok: "tool_rounds D ids clock svc context k s turn = Inr (s', final) \<Longrightarrow> ai_tables_ok (ask_db s) \<Longrightarrow> ai_tables_ok (ask_db s')"
proof (induction k arbitrary: s turn)
  case (Suc k)
  show ?case
  proof (cases "turn_tool_calls turn = []")
    case True
    with Suc.prems show ?thesis by auto
  next
    case False
    with Suc.prems(1) obtain t turn' where t: "tool_round D ids clock svc context s turn = Inr (t, turn')"
        "tool_rounds D ids clock svc context k t turn' = Inr (s', final)" by (auto simp: result_simps)
    from t(1) have "ai_tables_ok (ask_db t)"
    proof (rule tool_round_Inr)
      fix s1
      assume calls: "foldR (call_step D ids clock svc context) (s\<lparr>ask_pending := [], ask_outputs := []\<rparr>) (turn_tool_calls turn) = Inr s1"
        and stored: "foldR insert_ai_tool_call (ask_db s1) (ask_pending s1) = Inr (ask_db t)"
      have "ask_db s1 = ask_db s"
        using calls_calls_inv [OF calls, of "ask_db s" "ask_call_count s" "ask_round s"] by (simp add: calls_inv_def)
      with insert_tool_calls_ok [OF stored] Suc.prems(2) show ?thesis by simp
    qed
    then show ?thesis by (rule Suc.IH [OF t(2)])
  qed
qed simp

theorem ask_well_typed:
  assumes "ai_tables_ok db" and "ask D ids clock svc db actor fund_id prompt = Inr (ans, db')"
  shows "ai_tables_ok db'"
  using assms(2)
proof (rule ask_Inr, goal_cases)
  case (1 role cleaned db1 turn s final)
  from 1(3) assms(1) have "ai_tables_ok db1"
    by (auto simp: open_conversation_def result_simps insert_audit_ok dest!: insert_conversation_ok insert_message_ok)
  then have "ai_tables_ok (ask_db s)" using tool_rounds_ok [OF 1(5)] by (simp add: no_calls_def)
  then have "ai_tables_ok ((ask_db s)\<lparr>db_ai_conversations := update_row aic_id (ids 0)
      (\<lambda>r. r\<lparr>aic_status := st, aic_completed_at := t\<rparr>) (db_ai_conversations (ask_db s))\<rparr>)" for st t
    by (rule update_conversation_ok)
  moreover from 1(6) obtain st t m db2 e where "insert_ai_message ((ask_db s)\<lparr>db_ai_conversations := update_row aic_id (ids 0)
      (\<lambda>r. r\<lparr>aic_status := st, aic_completed_at := t\<rparr>) (db_ai_conversations (ask_db s))\<rparr>) m = Inr db2"
    "insert_audit_event db2 e = Inr db'"
    unfolding close_conversation_def Let_def bindR_Inr_iff by auto
  ultimately show ?case by (metis insert_message_ok insert_audit_ok)
qed

end
