(* ===== verification/Ai_Witnesses.thy ===== *)
theory Ai_Witnesses
  imports Ai_Tool_Properties
begin

text \<open>
  A concrete conversation: an analyst asks for the cash, the model reads the holdings of one snapshot and
  answers. The properties of the assistant are applied to it, and to a model that asks for a price age of
  a billion days.
\<close>

definition demo_digest :: "string \<Rightarrow> string" where
  "demo_digest s = replicate 64 CHR ''0''"

definition demo_hash :: digest where
  "demo_hash j = ''0''"

definition demo_ids :: "nat \<Rightarrow> uuid" where
  "demo_ids n = of_nat n"

definition demo_clock :: "nat \<Rightarrow> datetime" where
  "demo_clock n = Aware (int n) 0"

definition demo_snapshot :: portfolio_snapshot_row where
  "demo_snapshot = \<lparr>snap_id = 70, snap_fund_id = 1, snap_account_id = None, snap_as_of = Aware 0 0, snap_revision = 1,
     snap_status = Snapshot_CURRENT, snap_calculation_version = ''v1'', snap_canonical_input_hash = ''0'',
     snap_canonical_state = JObj [(''cash'', JDec (Dec 10 0)), (''positions'', JList [])],
     snap_applied_transaction_count = 1, snap_last_applied_transaction_id = None, snap_supersedes_snapshot_id = None,
     snap_created_at = Aware 0 0\<rparr>"

definition demo_db :: database where
  "demo_db = empty_database\<lparr>
     db_funds := [\<lparr>fd_id = 1, fd_slug = ''f'', fd_name = ''F'', fd_base_currency = ''USD'', fd_timezone = ''UTC'',
       fd_created_at = Aware 0 0\<rparr>],
     db_users := [\<lparr>usr_id = 2, usr_email = ''a'', usr_display_name = ''A'', usr_is_active = True, usr_created_at = Aware 0 0\<rparr>],
     db_roles := [\<lparr>rl_id = 3, rl_code = ''analyst'', rl_name = ''Analyst''\<rparr>],
     db_user_roles := [\<lparr>ur_user_id = 2, ur_role_id = 3, ur_fund_id = 1\<rparr>],
     db_portfolio_snapshots := [demo_snapshot]\<rparr>"

definition holdings_call :: tool_call where
  "holdings_call = \<lparr>call_id = ''c'', call_name = ''get_holdings'',
     call_arguments_json = ''{'' @ [CHR 34] @ ''as_of'' @ [CHR 34] @ '':'' @ [CHR 34] @ ''2025-01-01T00:00:00Z'' @ [CHR 34] @ ''}''\<rparr>"

definition demo_provider :: model_provider where
  "demo_provider = \<lparr>prov_model = ''m'',
     prov_start = (\<lambda>_ _ _ _. Inr \<lparr>turn_response_id = ''r0'', turn_text = None, turn_tool_calls = [holdings_call]\<rparr>),
     prov_continue_with_tools = (\<lambda>_ _ _ _ _ _. Inr \<lparr>turn_response_id = ''r1'', turn_text = Some ''Cash is 10.'', turn_tool_calls = []\<rparr>)\<rparr>"

definition demo_service :: ai_service where
  "demo_service = \<lparr>svc_provider = demo_provider, svc_tools = sql_tools demo_hash, svc_max_tool_rounds = 4, svc_max_tool_calls = 8\<rparr>"

lemma demo_service_new: "ai_service_new demo_provider (sql_tools demo_hash) 4 8 = Inr demo_service"
  by (simp add: ai_service_new_def demo_service_def)

lemma holdings_json: "json_loads (call_arguments_json holdings_call) = Inr (JObj [(''as_of'', JStr ''2025-01-01T00:00:00Z'')])"
  by code_simp

lemma holdings_as_of: "parse_as_of (JStr ''2025-01-01T00:00:00Z'') = Inr (Aware 1735689600000000 0)"
  by code_simp

lemma holdings_arguments: "parse_arguments ''get_holdings'' (call_arguments_json holdings_call)
    = Inr \<lparr>arg_as_of = Aware 1735689600000000 0, arg_max_price_age_seconds = None, arg_scenario_id = None\<rparr>"
  by (simp add: parse_arguments_def holdings_json tool_fields_def tool_field_def holdings_as_of)
    (simp add: holdings_call_def)

definition demo_context :: tool_context where
  "demo_context = \<lparr>ctx_conversation_id = 0, ctx_actor_user_id = 2, ctx_fund_id = 1\<rparr>"

definition demo_open :: "audit_event_row \<Rightarrow> database" where
  "demo_open e = demo_db\<lparr>db_ai_conversations := [new_conversation 0 1 2 ''m'' (Aware 0 0)],
     db_ai_messages := [user_message demo_digest 1 0 ''cash?'' (Aware 0 0)], db_audit_events := [e]\<rparr>"

lemma demo_cleaned: "clean_prompt ''cash?'' = Inr ''cash?''"
  by code_simp

lemma demo_authorized: "authorization_require demo_db 2 1 Perm_USE_AI_ASSISTANT = Inr Role_ANALYST"
  by code_simp

lemma demo_opened: "\<exists>e. open_conversation demo_digest demo_ids demo_clock ''m'' demo_db 2 1 ''cash?'' = Inr (demo_open e)
    \<and> ae_id e = 2"
  by (simp add: open_conversation_def insert_ai_conversation_Inr insert_ai_conversation_def insert_ai_message_def
      insert_audit_event_def insert_row_def demo_db_def demo_ids_def demo_clock_def ai_conversation_checks_def
      ai_conversation_refs_def new_conversation_def ai_message_checks_def ai_message_refs_def user_message_def
      audit_event_checks_def audit_event_refs_def ai_audit_def refers_def varchar_def empty_database_def demo_digest_def
      demo_open_def)

lemma demo_open_with: "demo_open e = with_conversations [new_conversation 0 1 2 ''m'' (Aware 0 0)]
    [user_message demo_digest 1 0 ''cash?'' (Aware 0 0)] [] [e] demo_db"
  by (simp add: demo_open_def with_conversations_def demo_db_def empty_database_def)

definition holdings_result :: tool_result where
  "holdings_result = \<lparr>tr_data = JObj [(''as_of'', JTime (Aware 0 0)), (''cash'', JDec (Dec 10 0)), (''holdings'', JList [])],
     tr_sources = [snapshot_source demo_snapshot], tr_warnings = []\<rparr>"

lemma demo_holdings: "get_holdings demo_db 1 (Aware 1735689600000000 0) = Inr holdings_result"
proof -
  have "tools_snapshot demo_db 1 (Aware 1735689600000000 0) = Inr demo_snapshot"
    by (simp add: tools_snapshot_def demo_db_def demo_snapshot_def)
  then show ?thesis
    by (simp add: get_holdings_def holdings_result_def state_field_def demo_snapshot_def)
qed

lemma demo_execute: "registry_execute (sql_tools demo_hash) (demo_open e) ''get_holdings'' (call_arguments_json holdings_call) demo_context
    = Inr \<lparr>ex_status = Tool_SUCCEEDED, ex_result = Some holdings_result, ex_error = None\<rparr>"
  by (simp add: registry_execute_def demo_open_with authorization_conversations sql_tools_conversation_free demo_context_def
      demo_authorized holdings_arguments dispatch_def tool_outcome_def)
    (simp add: sql_tools_def demo_holdings)

lemma demo_call:
  "call_step demo_digest demo_ids demo_clock demo_service demo_context (no_calls (demo_open e)) holdings_call
    = Inr ((no_calls (demo_open e))\<lparr>ask_sources := [snapshot_source demo_snapshot], ask_call_count := 1,
       ask_pending := [tool_call_row demo_digest 3 (Aware 2 0) 0 holdings_call (JObj [(''as_of'', JStr ''2025-01-01T00:00:00Z'')])
         \<lparr>ex_status = Tool_SUCCEEDED, ex_result = Some holdings_result, ex_error = None\<rparr>],
       ask_outputs := [(''c'', tool_output Tool_SUCCEEDED (Some (result_dict holdings_result)) None)]\<rparr>)"
proof -
  have "call_name holdings_call = ''get_holdings''" "call_id holdings_call = ''c''" by (simp_all add: holdings_call_def)
  then show ?thesis
    by (simp add: call_step_def no_calls_def demo_service_def demo_execute audit_arguments_def holdings_json)
      (simp add: holdings_result_def demo_ids_def demo_clock_def demo_context_def)
qed

lemma demo_ask: "\<exists>ans db'. ask demo_digest demo_ids demo_clock demo_service demo_db 2 1 ''cash?'' = Inr (ans, db')
    \<and> ans_status ans = Conversation_COMPLETED \<and> ans_text ans = ''Cash is 10.'' \<and> length (db_ai_tool_calls db') = 1"
proof -
  obtain e where opened: "open_conversation demo_digest demo_ids demo_clock ''m'' demo_db 2 1 ''cash?'' = Inr (demo_open e)"
    and e: "ae_id e = 2" using demo_opened by blast
  let ?row = "tool_call_row demo_digest 3 (Aware 2 0) 0 holdings_call (JObj [(''as_of'', JStr ''2025-01-01T00:00:00Z'')])
         \<lparr>ex_status = Tool_SUCCEEDED, ex_result = Some holdings_result, ex_error = None\<rparr>"
  let ?db = "(demo_open e)\<lparr>db_ai_tool_calls := [?row]\<rparr>"
  let ?s = "(no_calls ?db)\<lparr>ask_sources := [snapshot_source demo_snapshot], ask_call_count := 1, ask_round := 1,
       ask_pending := [?row], ask_outputs := [(''c'', tool_output Tool_SUCCEEDED (Some (result_dict holdings_result)) None)]\<rparr>"
  let ?final = "\<lparr>turn_response_id = ''r1'', turn_text = Some ''Cash is 10.'', turn_tool_calls = []\<rparr>"
  let ?first = "\<lparr>turn_response_id = ''r0'', turn_text = None, turn_tool_calls = [holdings_call]\<rparr>"
  have same: "(no_calls (demo_open e))\<lparr>ask_pending := [], ask_outputs := []\<rparr> = no_calls (demo_open e)" by (simp add: no_calls_def)
  have stored: "insert_ai_tool_call (demo_open e) ?row = Inr ?db"
    by (simp add: insert_ai_tool_call_def insert_row_def demo_open_def demo_db_def empty_database_def ai_tool_call_checks_def
        ai_tool_call_refs_def tool_call_row_def holdings_call_def varchar_def refers_def new_conversation_def demo_digest_def)
  have round: "tool_round demo_digest demo_ids demo_clock demo_service demo_context (no_calls (demo_open e)) ?first = Inr (?s, ?final)"
    unfolding tool_round_def same
    by (simp add: demo_call, simp add: no_calls_def stored demo_service_def demo_provider_def)
  have four: "nat 4 = Suc (Suc 2)" by simp
  have rounds: "tool_rounds demo_digest demo_ids demo_clock demo_service demo_context (nat 4) (no_calls (demo_open e)) ?first = Inr (?s, ?final)"
    unfolding four by (simp only: tool_rounds.simps(2) round bindR_simps case_prod_conv model_turn.simps list.distinct simp_thms if_False if_True)
  have shown: "shown_text ?final = ''Cash is 10.''" by code_simp
  have one: "unique_sources [snapshot_source demo_snapshot] = [snapshot_source demo_snapshot]" by (simp add: unique_sources_def)
  have closed: "\<exists>db'. close_conversation demo_digest demo_ids demo_clock demo_context ?s ?final = Inr (answer_of demo_context ?s ?final, db')
      \<and> length (db_ai_tool_calls db') = 1"
    by (simp add: e close_conversation_def Let_def no_calls_def insert_ai_message_def insert_audit_event_def insert_row_def
        answer_of_def one shown demo_open_def demo_db_def empty_database_def update_row_def new_conversation_def user_message_def
        answer_message_def ai_audit_def ai_message_checks_def ai_message_refs_def ai_message_clash_def audit_event_checks_def
        audit_event_refs_def audit_event_clash_def varchar_def refers_def demo_context_def demo_ids_def demo_digest_def)
  have ctx: "\<lparr>ctx_conversation_id = demo_ids 0, ctx_actor_user_id = 2, ctx_fund_id = 1\<rparr> = demo_context"
    by (simp add: demo_context_def demo_ids_def)
  have answer: "ans_status (answer_of demo_context ?s ?final) = Conversation_COMPLETED"
    "ans_text (answer_of demo_context ?s ?final) = ''Cash is 10.''"
    by (simp_all add: answer_of_def one shown)
  have "ask demo_digest demo_ids demo_clock demo_service demo_db 2 1 ''cash?''
      = close_conversation demo_digest demo_ids demo_clock demo_context ?s ?final"
    unfolding ask_def demo_cleaned demo_authorized bindR_simps Let_def ctx no_calls_def [symmetric]
    using rounds opened by (simp add: demo_service_def demo_provider_def)
  with closed answer show ?thesis by auto
qed

section \<open>The properties at work\<close>

lemma demo_service_fields: "svc_tools demo_service = sql_tools demo_hash" "svc_max_tool_calls demo_service = 8"
  "svc_max_tool_rounds demo_service = 4" "svc_provider demo_service = demo_provider"
  by (simp_all add: demo_service_def)

lemma demo_db_fields: "db_portfolio_snapshots demo_db = [demo_snapshot]" "db_ai_tool_calls demo_db = []"
  "db_scenario_definitions demo_db = []" "ai_tables_ok demo_db"
  by (simp_all add: demo_db_def empty_database_def ai_tables_ok_def table_ok_def)

lemma ask_read_only_witness:
  "\<exists>ans db'. ask demo_digest demo_ids demo_clock demo_service demo_db 2 1 ''cash?'' = Inr (ans, db')
     \<and> db_portfolio_snapshots db' = [demo_snapshot] \<and> length (db_ai_tool_calls db') \<le> 8"
proof -
  obtain ans db' where run: "ask demo_digest demo_ids demo_clock demo_service demo_db 2 1 ''cash?'' = Inr (ans, db')"
    using demo_ask by blast
  have "db_portfolio_snapshots db' = db_portfolio_snapshots demo_db
      \<and> (\<exists>calls. db_ai_tool_calls db' = db_ai_tool_calls demo_db @ calls \<and> int (length calls) \<le> 8)"
    using ask_read_only [OF demo_service_new run] by auto
  with run show ?thesis by (auto simp: demo_db_fields)
qed

lemma ask_grounded_witness:
  "\<exists>ans db' s row r. ask demo_digest demo_ids demo_clock demo_service demo_db 2 1 ''cash?'' = Inr (ans, db')
     \<and> ans_status ans = Conversation_COMPLETED \<and> s \<in> set (ans_sources ans) \<and> row \<in> set (db_ai_tool_calls db')
     \<and> atc_result row = Some (result_dict r) \<and> s \<in> set (tr_sources r)"
proof -
  obtain ans db' where run: "ask demo_digest demo_ids demo_clock demo_service demo_db 2 1 ''cash?'' = Inr (ans, db')"
    and ans: "ans_status ans = Conversation_COMPLETED" using demo_ask by blast
  from ask_grounded [OF demo_service_fields(1) run] obtain calls
    where calls: "db_ai_tool_calls db' = db_ai_tool_calls demo_db @ calls" "ans_sources ans \<noteq> []"
      "\<forall>s \<in> set (ans_sources ans). \<exists>row \<in> set calls. \<exists>r. recorded_result (sql_tools demo_hash) demo_db
        \<lparr>ctx_conversation_id = ans_conversation_id ans, ctx_actor_user_id = 2, ctx_fund_id = 1\<rparr> row r \<and> s \<in> set (tr_sources r)"
    by (auto simp: ans)
  from calls(2) have "hd (ans_sources ans) \<in> set (ans_sources ans)" by (rule hd_in_set)
  with calls(3) obtain row r where "row \<in> set calls" "atc_result row = Some (result_dict r)" "hd (ans_sources ans) \<in> set (tr_sources r)"
    unfolding recorded_result_def by blast
  with run ans \<open>hd (ans_sources ans) \<in> set (ans_sources ans)\<close> calls(1) show ?thesis
    by (intro exI [of _ ans] exI [of _ db'] exI [of _ "hd (ans_sources ans)"] exI [of _ row] exI [of _ r]) auto
qed

text \<open>A provider whose fourth answer is an error.\<close>

definition late_provider :: model_provider where
  "late_provider = demo_provider\<lparr>prov_continue_with_tools := (\<lambda>k i p outs t s.
     if k < 3 then prov_continue_with_tools demo_provider k i p outs t s else Inl AssertionError)\<rparr>"

lemma last_round_unused_witness:
  "\<exists>ans db'. ask demo_digest demo_ids demo_clock (demo_service\<lparr>svc_provider := late_provider\<rparr>) demo_db 2 1 ''cash?'' = Inr (ans, db')
     \<and> prov_continue_with_tools late_provider 3 [] [] [] [] [] = Inl AssertionError"
proof -
  obtain ans db' where run: "ask demo_digest demo_ids demo_clock demo_service demo_db 2 1 ''cash?'' = Inr (ans, db')"
    using demo_ask by blast
  have "agrees (nat (svc_max_tool_rounds demo_service) - 1) (svc_provider demo_service) late_provider"
    by (simp add: agrees_def demo_service_fields late_provider_def fun_eq_iff)
  from last_round_unused [OF this run] show ?thesis by (auto simp: late_provider_def)
qed

lemma tools_confined_witness:
  "dispatch (sql_tools demo_hash (known_by demo_db 1 (Aware 1735689600000000 0))) ''get_holdings''
     \<lparr>arg_as_of = Aware 1735689600000000 0, arg_max_price_age_seconds = None, arg_scenario_id = None\<rparr> demo_context = Inr holdings_result"
  using tools_confined [of demo_db demo_hash demo_context
      "\<lparr>arg_as_of = Aware 1735689600000000 0, arg_max_price_age_seconds = None, arg_scenario_id = None\<rparr>" "''get_holdings''"]
  by (simp add: demo_context_def demo_db_fields dispatch_def)
    (simp add: sql_tools_def demo_holdings)

lemma ask_well_typed_witness:
  "\<exists>ans db'. ask demo_digest demo_ids demo_clock demo_service demo_db 2 1 ''cash?'' = Inr (ans, db') \<and> ai_tables_ok db'
     \<and> length (db_ai_tool_calls db') = 1"
  using demo_ask ask_well_typed [OF demo_db_fields(4)] by blast

section \<open>A price age of a billion days\<close>

definition exposure_call :: tool_call where
  "exposure_call = \<lparr>call_id = ''c'', call_name = ''get_exposure'',
     call_arguments_json = ''{'' @ [CHR 34] @ ''as_of'' @ [CHR 34] @ '':'' @ [CHR 34] @ ''2025-01-01T00:00:00Z'' @ [CHR 34]
       @ '','' @ [CHR 34] @ ''max_price_age_seconds'' @ [CHR 34] @ '':86400000000000}''\<rparr>"

definition eager_service :: ai_service where
  "eager_service = demo_service\<lparr>svc_provider := demo_provider\<lparr>prov_start := (\<lambda>_ _ _ _.
     Inr \<lparr>turn_response_id = ''r0'', turn_text = None, turn_tool_calls = [exposure_call]\<rparr>)\<rparr>\<rparr>"

lemma exposure_json: "json_loads (call_arguments_json exposure_call)
    = Inr (JObj [(''as_of'', JStr ''2025-01-01T00:00:00Z''), (''max_price_age_seconds'', JInt 86400000000000)])"
  by code_simp

lemma exposure_arguments: "parse_arguments ''get_exposure'' (call_arguments_json exposure_call)
    = Inr \<lparr>arg_as_of = Aware 1735689600000000 0, arg_max_price_age_seconds = Some 86400000000000, arg_scenario_id = None\<rparr>"
  by (simp add: parse_arguments_def exposure_json tool_fields_def tool_field_def holdings_as_of parse_age_def insert_commute)
    (simp add: exposure_call_def)

lemma huge_price_age_aborts_witness:
  "ask demo_digest demo_ids demo_clock eager_service demo_db 2 1 ''cash?'' = Inl OverflowError"
proof -
  have fields: "svc_tools eager_service = sql_tools demo_hash" "svc_max_tool_calls eager_service = 8"
    "svc_max_tool_rounds eager_service = 4" "prov_model (svc_provider eager_service) = ''m''"
    by (simp_all add: eager_service_def demo_service_def demo_provider_def)
  obtain e where opened: "open_conversation demo_digest demo_ids demo_clock (prov_model (svc_provider eager_service)) demo_db 2 1 ''cash?''
      = Inr (demo_open e)" unfolding fields using demo_opened by blast
  show ?thesis
    by (rule huge_price_age_aborts [OF fields(1) _ _ demo_cleaned demo_authorized opened, where turn =
          "\<lparr>turn_response_id = ''r0'', turn_text = None, turn_tool_calls = [exposure_call]\<rparr>" and call = exposure_call
          and a = "\<lparr>arg_as_of = Aware 1735689600000000 0, arg_max_price_age_seconds = Some 86400000000000, arg_scenario_id = None\<rparr>"])
      (simp_all add: fields exposure_arguments, simp_all add: eager_service_def demo_service_def demo_provider_def exposure_call_def)
qed

end
