(* ===== verification/Sql_Schema.thy ===== *)
theory Sql_Schema
  imports Portfolio_Types
begin

text \<open>
  The part of PostgreSQL that the migrations use: table, index, function and trigger definitions as
  data, the catalog they are applied to with the dependencies PostgreSQL enforces, the three-valued
  evaluation of a condition on a row, and what the constraints of a table admit.
\<close>

section \<open>Conditions\<close>

datatype sql_expr = Col string | Lit string | Num int | Len string

datatype sql_comparison = Eq | Gt | Ge | Le

datatype sql_cond =
    Is_Null string | Not_Null string | One_Of string "string list" | Compare sql_expr sql_comparison sql_expr
  | Conj sql_cond sql_cond | Disj sql_cond sql_cond | Same sql_cond sql_cond

text \<open>The values of a row: numbers and timestamps compare by their number, documents are not compared.\<close>

datatype sql_value = V_Null | V_Text string | V_Num rat | V_Uuid uuid | V_Bool bool | V_Json json

type_synonym sql_row = "string \<Rightarrow> sql_value"

definition expr_value :: "sql_row \<Rightarrow> sql_expr \<Rightarrow> sql_value" where
  "expr_value r e = (case e of Col c \<Rightarrow> r c | Lit s \<Rightarrow> V_Text s | Num n \<Rightarrow> V_Num (of_int n)
     | Len c \<Rightarrow> (case r c of V_Text s \<Rightarrow> V_Num (of_nat (length s)) | _ \<Rightarrow> V_Null))"

definition compare_values :: "sql_comparison \<Rightarrow> sql_value \<Rightarrow> sql_value \<Rightarrow> bool option" where
  "compare_values cmp v w = (case (v, w) of
     (V_Num x, V_Num y) \<Rightarrow> Some (case cmp of Eq \<Rightarrow> x = y | Gt \<Rightarrow> x > y | Ge \<Rightarrow> x \<ge> y | Le \<Rightarrow> x \<le> y)
   | (V_Text s, V_Text t) \<Rightarrow> Some (s = t)
   | _ \<Rightarrow> None)"

text \<open>\<open>None\<close> is the truth value NULL.\<close>

definition and3 :: "bool option \<Rightarrow> bool option \<Rightarrow> bool option" where
  "and3 a b = (if a = Some False \<or> b = Some False then Some False else if a = None \<or> b = None then None else Some True)"

definition or3 :: "bool option \<Rightarrow> bool option \<Rightarrow> bool option" where
  "or3 a b = (if a = Some True \<or> b = Some True then Some True else if a = None \<or> b = None then None else Some False)"

fun cond_value :: "sql_row \<Rightarrow> sql_cond \<Rightarrow> bool option" where
  "cond_value r (Is_Null c) = Some (r c = V_Null)"
| "cond_value r (Not_Null c) = Some (r c \<noteq> V_Null)"
| "cond_value r (One_Of c vs) = (case r c of V_Text s \<Rightarrow> Some (s \<in> set vs) | _ \<Rightarrow> None)"
| "cond_value r (Compare a cmp b) = compare_values cmp (expr_value r a) (expr_value r b)"
| "cond_value r (Conj a b) = and3 (cond_value r a) (cond_value r b)"
| "cond_value r (Disj a b) = or3 (cond_value r a) (cond_value r b)"
| "cond_value r (Same a b) = (case (cond_value r a, cond_value r b) of (Some x, Some y) \<Rightarrow> Some (x = y) | _ \<Rightarrow> None)"

section \<open>Definitions\<close>

datatype column_type = Uuid | Varchar nat | Timestamptz | Date | Boolean | Integer | Numeric nat nat | Jsonb

record column =
  col_name :: string
  col_type :: column_type
  col_nullable :: bool
  col_default :: "string option"
  col_primary :: bool
  col_unique :: bool

definition required :: "string \<Rightarrow> column_type \<Rightarrow> column" where
  "required n t = \<lparr>col_name = n, col_type = t, col_nullable = False, col_default = None, col_primary = False, col_unique = False\<rparr>"

definition optional :: "string \<Rightarrow> column_type \<Rightarrow> column" where
  "optional n t = (required n t)\<lparr>col_nullable := True\<rparr>"

definition primary :: "string \<Rightarrow> column_type \<Rightarrow> column" where
  "primary n t = (required n t)\<lparr>col_primary := True\<rparr>"

definition unique :: "string \<Rightarrow> column_type \<Rightarrow> column" where
  "unique n t = (required n t)\<lparr>col_unique := True\<rparr>"

definition defaulted :: "string \<Rightarrow> column_type \<Rightarrow> string \<Rightarrow> column" where
  "defaulted n t d = (required n t)\<lparr>col_default := Some d\<rparr>"

lemmas column_kinds = required_def optional_def primary_def unique_def defaulted_def

datatype on_delete = No_Action | Restrict | Cascade

datatype table_constraint =
    Check string sql_cond
  | Foreign_Key "string list" string "string list" on_delete
  | Unique_Key string "string list"
  | Primary_Key "string list"

record sql_table =
  tab_name :: string
  tab_columns :: "column list"
  tab_constraints :: "table_constraint list"

datatype index_column = Asc string | Desc string

fun index_column_name :: "index_column \<Rightarrow> string" where
  "index_column_name (Asc n) = n"
| "index_column_name (Desc n) = n"

record sql_index =
  ix_name :: string
  ix_table :: string
  ix_columns :: "index_column list"
  ix_unique :: bool
  ix_where :: "sql_cond option"

text \<open>The bodies of the trigger functions: the update (or deletion) that raises the exception.\<close>

datatype trigger_guard =
    On_Delete | Changed "string list" | Old_In string "string list" | Old_Not string string | New_Not_In string "string list"
  | New_Null string | New_Less string | New_Not_Successor string

datatype trigger_event = Update_Event | Delete_Event

record trigger_function =
  tf_name :: string
  tf_message :: string
  tf_guards :: "trigger_guard list option"

record sql_trigger =
  tg_name :: string
  tg_table :: string
  tg_events :: "trigger_event list"
  tg_function :: string

datatype ddl =
    Create_Table sql_table | Drop_Table string
  | Create_Index sql_index | Drop_Index string
  | Add_Column string column | Drop_Column string string
  | Create_Check string string sql_cond | Drop_Constraint string string
  | Create_Function trigger_function | Drop_Function bool string
  | Create_Trigger sql_trigger | Drop_Trigger bool string string

section \<open>The catalog\<close>

record catalog =
  cat_tables :: "sql_table list"
  cat_indexes :: "sql_index list"
  cat_functions :: "trigger_function list"
  cat_triggers :: "sql_trigger list"

definition empty_catalog :: catalog where
  "empty_catalog = \<lparr>cat_tables = [], cat_indexes = [], cat_functions = [], cat_triggers = []\<rparr>"

datatype ddl_error = Duplicate_Object string | Undefined_Object string | Dependent_Objects string

fun constraint_columns :: "table_constraint \<Rightarrow> string list" where
  "constraint_columns (Check n c) = []"
| "constraint_columns (Foreign_Key cs t ds d) = cs"
| "constraint_columns (Unique_Key n cs) = cs"
| "constraint_columns (Primary_Key cs) = cs"

fun constraint_name :: "table_constraint \<Rightarrow> string option" where
  "constraint_name (Check n c) = Some n"
| "constraint_name (Unique_Key n cs) = Some n"
| "constraint_name _ = None"

definition column_names :: "sql_table \<Rightarrow> string list" where
  "column_names t = map col_name (tab_columns t)"

text \<open>The keys of a table, which a foreign key may refer to.\<close>

definition table_keys :: "sql_table \<Rightarrow> string list list" where
  "table_keys t = map (\<lambda>c. [col_name c]) (filter (\<lambda>c. col_primary c \<or> col_unique c) (tab_columns t))
     @ List.map_filter (\<lambda>k. case k of Unique_Key n cs \<Rightarrow> Some cs | Primary_Key cs \<Rightarrow> Some cs | _ \<Rightarrow> None) (tab_constraints t)"

text \<open>Tables, indexes and unique constraints share one name space.\<close>

definition table_relations :: "sql_table \<Rightarrow> string list" where
  "table_relations t = tab_name t #
     List.map_filter (\<lambda>k. case k of Unique_Key n cs \<Rightarrow> Some n | _ \<Rightarrow> None) (tab_constraints t)"

definition relation_names :: "catalog \<Rightarrow> string list" where
  "relation_names c = concat (map table_relations (cat_tables c)) @ map ix_name (cat_indexes c)"

definition find_table :: "catalog \<Rightarrow> string \<Rightarrow> sql_table option" where
  "find_table c n = find (\<lambda>t. tab_name t = n) (cat_tables c)"

definition the_table :: "catalog \<Rightarrow> string \<Rightarrow> ddl_error + sql_table" where
  "the_table c n = (case find_table c n of None \<Rightarrow> Inl (Undefined_Object n) | Some t \<Rightarrow> Inr t)"

text \<open>The columns of a table have different names and its constraints name only them.\<close>

definition columns_ok :: "sql_table \<Rightarrow> bool" where
  "columns_ok t \<longleftrightarrow> distinct (column_names t)
     \<and> list_all (\<lambda>k. list_all (\<lambda>n. n \<in> set (column_names t)) (constraint_columns k)) (tab_constraints t)"

text \<open>The foreign keys, each with the table and the columns it refers to: these must be a key there.\<close>

definition table_references :: "sql_table \<Rightarrow> (string \<times> string list) list" where
  "table_references t = List.map_filter (\<lambda>k. case k of Foreign_Key cs target ds d \<Rightarrow> Some (target, ds) | _ \<Rightarrow> None) (tab_constraints t)"

fun reference_ok :: "catalog \<Rightarrow> sql_table \<Rightarrow> string \<times> string list \<Rightarrow> bool" where
  "reference_ok c t (target, ds) = (if target = tab_name t then ds \<in> set (table_keys t)
     else case find_table c target of None \<Rightarrow> False | Some t' \<Rightarrow> ds \<in> set (table_keys t'))"

definition refers_to :: "string \<Rightarrow> sql_table \<Rightarrow> bool" where
  "refers_to n t \<longleftrightarrow> n \<in> fst ` set (table_references t)"

definition map_table :: "string \<Rightarrow> (sql_table \<Rightarrow> sql_table) \<Rightarrow> catalog \<Rightarrow> catalog" where
  "map_table n f c = c\<lparr>cat_tables := map (\<lambda>t. if tab_name t = n then f t else t) (cat_tables c)\<rparr>"

text \<open>
  Dropping a table drops its indexes and triggers and fails while another table refers to it; dropping
  a function fails while a trigger calls it.
\<close>

fun apply_ddl :: "catalog \<Rightarrow> ddl \<Rightarrow> ddl_error + catalog" where
  "apply_ddl c (Create_Table t) =
     bindR (requireR (distinct (table_relations t) \<and> list_all (\<lambda>n. n \<notin> set (relation_names c)) (table_relations t))
        (Duplicate_Object (tab_name t))) (\<lambda>_.
     bindR (requireR (columns_ok t) (Undefined_Object (tab_name t))) (\<lambda>_.
     bindR (requireR (list_all (reference_ok c t) (table_references t)) (Undefined_Object (tab_name t))) (\<lambda>_.
     Inr (c\<lparr>cat_tables := cat_tables c @ [t]\<rparr>))))"
| "apply_ddl c (Drop_Table n) =
     bindR (the_table c n) (\<lambda>_.
     bindR (requireR (\<not> list_ex (\<lambda>t. tab_name t \<noteq> n \<and> refers_to n t) (cat_tables c)) (Dependent_Objects n)) (\<lambda>_.
     Inr (c\<lparr>cat_tables := filter (\<lambda>t. tab_name t \<noteq> n) (cat_tables c),
       cat_indexes := filter (\<lambda>i. ix_table i \<noteq> n) (cat_indexes c),
       cat_triggers := filter (\<lambda>g. tg_table g \<noteq> n) (cat_triggers c)\<rparr>)))"
| "apply_ddl c (Create_Index i) =
     bindR (the_table c (ix_table i)) (\<lambda>t.
     bindR (requireR (ix_name i \<notin> set (relation_names c)) (Duplicate_Object (ix_name i))) (\<lambda>_.
     bindR (requireR (list_all (\<lambda>k. index_column_name k \<in> set (column_names t)) (ix_columns i)) (Undefined_Object (ix_name i))) (\<lambda>_.
     Inr (c\<lparr>cat_indexes := cat_indexes c @ [i]\<rparr>))))"
| "apply_ddl c (Drop_Index n) =
     bindR (requireR (n \<in> set (map ix_name (cat_indexes c))) (Undefined_Object n)) (\<lambda>_.
     Inr (c\<lparr>cat_indexes := filter (\<lambda>i. ix_name i \<noteq> n) (cat_indexes c)\<rparr>))"
| "apply_ddl c (Add_Column n col) =
     bindR (the_table c n) (\<lambda>t.
     bindR (requireR (col_name col \<notin> set (column_names t)) (Duplicate_Object (col_name col))) (\<lambda>_.
     Inr (map_table n (\<lambda>t. t\<lparr>tab_columns := tab_columns t @ [col]\<rparr>) c)))"
| "apply_ddl c (Drop_Column n col) =
     bindR (the_table c n) (\<lambda>t.
     bindR (requireR (col \<in> set (column_names t)) (Undefined_Object col)) (\<lambda>_.
     Inr (map_table n (\<lambda>t. t\<lparr>tab_columns := filter (\<lambda>k. col_name k \<noteq> col) (tab_columns t)\<rparr>) c)))"
| "apply_ddl c (Create_Check n table cond) =
     bindR (the_table c table) (\<lambda>t.
     bindR (requireR (Some n \<notin> set (map constraint_name (tab_constraints t))) (Duplicate_Object n)) (\<lambda>_.
     Inr (map_table table (\<lambda>t. t\<lparr>tab_constraints := tab_constraints t @ [Check n cond]\<rparr>) c)))"
| "apply_ddl c (Drop_Constraint n table) =
     bindR (the_table c table) (\<lambda>t.
     bindR (requireR (Some n \<in> set (map constraint_name (tab_constraints t))) (Undefined_Object n)) (\<lambda>_.
     Inr (map_table table (\<lambda>t. t\<lparr>tab_constraints := filter (\<lambda>k. constraint_name k \<noteq> Some n) (tab_constraints t)\<rparr>) c)))"
| "apply_ddl c (Create_Function f) =
     bindR (requireR (tf_name f \<notin> set (map tf_name (cat_functions c))) (Duplicate_Object (tf_name f))) (\<lambda>_.
     Inr (c\<lparr>cat_functions := cat_functions c @ [f]\<rparr>))"
| "apply_ddl c (Drop_Function if_exists n) =
     bindR (requireR (if_exists \<or> n \<in> set (map tf_name (cat_functions c))) (Undefined_Object n)) (\<lambda>_.
     bindR (requireR (n \<notin> set (map tg_function (cat_triggers c))) (Dependent_Objects n)) (\<lambda>_.
     Inr (c\<lparr>cat_functions := filter (\<lambda>f. tf_name f \<noteq> n) (cat_functions c)\<rparr>)))"
| "apply_ddl c (Create_Trigger g) =
     bindR (the_table c (tg_table g)) (\<lambda>_.
     bindR (requireR (tg_function g \<in> set (map tf_name (cat_functions c))) (Undefined_Object (tg_function g))) (\<lambda>_.
     bindR (requireR ((tg_name g, tg_table g) \<notin> set (map (\<lambda>h. (tg_name h, tg_table h)) (cat_triggers c)))
       (Duplicate_Object (tg_name g))) (\<lambda>_.
     Inr (c\<lparr>cat_triggers := cat_triggers c @ [g]\<rparr>))))"
| "apply_ddl c (Drop_Trigger if_exists n table) =
     bindR (requireR (if_exists \<or> (n, table) \<in> set (map (\<lambda>h. (tg_name h, tg_table h)) (cat_triggers c))) (Undefined_Object n)) (\<lambda>_.
     Inr (c\<lparr>cat_triggers := filter (\<lambda>h. (tg_name h, tg_table h) \<noteq> (n, table)) (cat_triggers c)\<rparr>))"

definition apply_all :: "catalog \<Rightarrow> ddl list \<Rightarrow> ddl_error + catalog" where
  "apply_all c ds = foldR apply_ddl c ds"

end
