(* ===== verification/Migrations.thy ===== *)
theory Migrations
  imports Sql_Schema
begin

text \<open>
  \<open>db/migrations/versions\<close>: the Alembic revisions, statement by statement. A table is a definition of its
  own, the indexes and triggers of a revision are lists, \<open>upgrade_k\<close> and \<open>downgrade_k\<close> are the two
  functions of a revision. The texts of the conditions are parsed; a function that always raises has
  no guards.
\<close>

section \<open>0001 phase0 baseline\<close>

definition table_funds :: sql_table where
  "table_funds = \<lparr>tab_name = ''funds'', tab_columns = [
       primary ''id'' Uuid,
       unique ''slug'' (Varchar 64),
       required ''name'' (Varchar 160),
       required ''base_currency'' (Varchar 3),
       required ''timezone'' (Varchar 64),
       required ''created_at'' Timestamptz],
     tab_constraints = []\<rparr>"

definition table_roles :: sql_table where
  "table_roles = \<lparr>tab_name = ''roles'', tab_columns = [
       primary ''id'' Uuid,
       unique ''code'' (Varchar 32),
       required ''name'' (Varchar 80)],
     tab_constraints = []\<rparr>"

definition table_users :: sql_table where
  "table_users = \<lparr>tab_name = ''users'', tab_columns = [
       primary ''id'' Uuid,
       unique ''email'' (Varchar 320),
       required ''display_name'' (Varchar 160),
       defaulted ''is_active'' Boolean ''true'',
       required ''created_at'' Timestamptz],
     tab_constraints = []\<rparr>"

definition table_user_roles :: sql_table where
  "table_user_roles = \<lparr>tab_name = ''user_roles'', tab_columns = [
       required ''user_id'' Uuid,
       required ''role_id'' Uuid,
       required ''fund_id'' Uuid],
     tab_constraints = [
       Foreign_Key [''user_id''] ''users'' [''id''] Cascade,
       Foreign_Key [''role_id''] ''roles'' [''id''] Cascade,
       Foreign_Key [''fund_id''] ''funds'' [''id''] Cascade,
       Primary_Key [''user_id'', ''role_id'', ''fund_id'']]\<rparr>"

definition table_instruments :: sql_table where
  "table_instruments = \<lparr>tab_name = ''instruments'', tab_columns = [
       primary ''id'' Uuid,
       required ''symbol'' (Varchar 24),
       required ''name'' (Varchar 200),
       required ''asset_type'' (Varchar 32),
       required ''exchange'' (Varchar 32),
       required ''currency'' (Varchar 3),
       defaulted ''is_active'' Boolean ''true''],
     tab_constraints = [
       Unique_Key ''uq_instruments_symbol_exchange'' [''symbol'', ''exchange'']]\<rparr>"

definition upgrade_0001 :: "ddl list" where
  "upgrade_0001 = [Create_Table table_funds]
     @ [Create_Table table_roles]
     @ [Create_Table table_users]
     @ [Create_Table table_user_roles]
     @ [Create_Table table_instruments]"

definition downgrade_0001 :: "ddl list" where
  "downgrade_0001 = [
     Drop_Table ''instruments'',
     Drop_Table ''user_roles'',
     Drop_Table ''users'',
     Drop_Table ''roles'',
     Drop_Table ''funds'']"

section \<open>0002 ledger foundation\<close>

definition table_accounts :: sql_table where
  "table_accounts = \<lparr>tab_name = ''accounts'', tab_columns = [
       primary ''id'' Uuid,
       required ''fund_id'' Uuid,
       required ''code'' (Varchar 64),
       required ''name'' (Varchar 160),
       required ''currency'' (Varchar 3),
       required ''created_at'' Timestamptz],
     tab_constraints = [
       Check ''ck_accounts_phase1_usd'' (Compare (Col ''currency'') Eq (Lit ''USD'')),
       Foreign_Key [''fund_id''] ''funds'' [''id''] Cascade,
       Unique_Key ''uq_accounts_fund_code'' [''fund_id'', ''code''],
       Unique_Key ''uq_accounts_id_fund'' [''id'', ''fund_id'']]\<rparr>"

definition table_import_batches :: sql_table where
  "table_import_batches = \<lparr>tab_name = ''import_batches'', tab_columns = [
       primary ''id'' Uuid,
       required ''fund_id'' Uuid,
       required ''source'' (Varchar 64),
       optional ''filename'' (Varchar 255),
       required ''content_sha256'' (Varchar 64),
       required ''parser_version'' (Varchar 32),
       required ''status'' (Varchar 32),
       optional ''initiated_by_user_id'' Uuid,
       required ''received_at'' Timestamptz,
       optional ''completed_at'' Timestamptz,
       defaulted ''total_count'' Integer ''0'',
       defaulted ''posted_count'' Integer ''0'',
       defaulted ''duplicate_count'' Integer ''0'',
       defaulted ''rejected_count'' Integer ''0'',
       defaulted ''conflict_count'' Integer ''0'',
       optional ''failure_summary'' (Varchar 1000)],
     tab_constraints = [
       Check ''ck_import_batches_sha256'' (Compare (Len ''content_sha256'') Eq (Num 64)),
       Check ''ck_import_batches_nonnegative_counts'' (Conj (Conj (Conj (Conj (Compare (Col ''total_count'') Ge (Num 0)) (Compare (Col ''posted_count'') Ge (Num 0))) (Compare (Col ''duplicate_count'') Ge (Num 0))) (Compare (Col ''rejected_count'') Ge (Num 0))) (Compare (Col ''conflict_count'') Ge (Num 0))),
       Check ''ck_import_batches_status'' (One_Of ''status'' [''RECEIVED'', ''PROCESSING'', ''COMPLETED'', ''COMPLETED_WITH_ERRORS'', ''FAILED'']),
       Foreign_Key [''fund_id''] ''funds'' [''id''] Cascade,
       Foreign_Key [''initiated_by_user_id''] ''users'' [''id''] No_Action,
       Unique_Key ''uq_import_batches_content'' [''fund_id'', ''source'', ''content_sha256'']]\<rparr>"

definition table_transactions :: sql_table where
  "table_transactions = \<lparr>tab_name = ''transactions'', tab_columns = [
       primary ''id'' Uuid,
       required ''fund_id'' Uuid,
       required ''account_id'' Uuid,
       optional ''instrument_id'' Uuid,
       required ''transaction_type'' (Varchar 32),
       optional ''quantity'' (Numeric 28 12),
       optional ''unit_price'' (Numeric 28 8),
       optional ''amount'' (Numeric 28 4),
       defaulted ''fees'' (Numeric 28 4) ''0'',
       required ''currency'' (Varchar 3),
       required ''effective_at'' Timestamptz,
       required ''recorded_at'' Timestamptz,
       optional ''trade_date'' Date,
       optional ''settlement_date'' Date,
       required ''source'' (Varchar 64),
       required ''external_id'' (Varchar 160),
       required ''normalized_payload_hash'' (Varchar 64),
       required ''status'' (Varchar 16),
       optional ''import_batch_id'' Uuid,
       optional ''created_by_user_id'' Uuid,
       optional ''reverses_transaction_id'' Uuid,
       optional ''correction_command_id'' Uuid,
       optional ''description'' (Varchar 500),
       defaulted ''source_metadata'' Jsonb ''{}''],
     tab_constraints = [
       Check ''ck_transactions_phase1_usd'' (Compare (Col ''currency'') Eq (Lit ''USD'')),
       Check ''ck_transactions_hash'' (Compare (Len ''normalized_payload_hash'') Eq (Num 64)),
       Check ''ck_transactions_nonnegative_fees'' (Compare (Col ''fees'') Ge (Num 0)),
       Check ''ck_transactions_quantity'' (Disj (Is_Null ''quantity'') (Compare (Col ''quantity'') Gt (Num 0))),
       Check ''ck_transactions_price'' (Disj (Is_Null ''unit_price'') (Compare (Col ''unit_price'') Gt (Num 0))),
       Check ''ck_transactions_amount'' (Disj (Is_Null ''amount'') (Compare (Col ''amount'') Gt (Num 0))),
       Check ''ck_transactions_status'' (One_Of ''status'' [''POSTED'', ''REVERSED'']),
       Check ''ck_transactions_type_fields'' (Disj (Disj (Disj (Disj (Disj (Disj (Conj (Conj (Conj (Conj (One_Of ''transaction_type'' [''BUY'', ''SELL'']) (Not_Null ''instrument_id'')) (Not_Null ''quantity'')) (Not_Null ''unit_price'')) (Is_Null ''amount'')) (Conj (Conj (Conj (Conj (Conj (One_Of ''transaction_type'' [''CASH_DEPOSIT'', ''CASH_WITHDRAWAL'']) (Is_Null ''instrument_id'')) (Is_Null ''quantity'')) (Is_Null ''unit_price'')) (Not_Null ''amount'')) (Compare (Col ''fees'') Eq (Num 0)))) (Conj (Conj (Conj (Conj (Conj (Compare (Col ''transaction_type'') Eq (Lit ''DIVIDEND'')) (Not_Null ''instrument_id'')) (Is_Null ''quantity'')) (Is_Null ''unit_price'')) (Not_Null ''amount'')) (Compare (Col ''fees'') Eq (Num 0)))) (Conj (Conj (Conj (Conj (Compare (Col ''transaction_type'') Eq (Lit ''FEE'')) (Is_Null ''quantity'')) (Is_Null ''unit_price'')) (Not_Null ''amount'')) (Compare (Col ''fees'') Eq (Num 0)))) (Conj (Conj (Conj (Conj (Conj (Compare (Col ''transaction_type'') Eq (Lit ''OPENING_CASH'')) (Is_Null ''instrument_id'')) (Is_Null ''quantity'')) (Is_Null ''unit_price'')) (Not_Null ''amount'')) (Compare (Col ''fees'') Eq (Num 0)))) (Conj (Conj (Conj (Conj (Compare (Col ''transaction_type'') Eq (Lit ''OPENING_POSITION'')) (Not_Null ''instrument_id'')) (Not_Null ''quantity'')) (Is_Null ''amount'')) (Compare (Col ''fees'') Eq (Num 0)))) (Conj (Conj (Conj (Conj (Conj (Conj (Compare (Col ''transaction_type'') Eq (Lit ''REVERSAL'')) (Is_Null ''instrument_id'')) (Is_Null ''quantity'')) (Is_Null ''unit_price'')) (Is_Null ''amount'')) (Compare (Col ''fees'') Eq (Num 0))) (Not_Null ''reverses_transaction_id''))),
       Check ''ck_transactions_reversal_reference'' (Same (Compare (Col ''transaction_type'') Eq (Lit ''REVERSAL'')) (Not_Null ''reverses_transaction_id'')),
       Foreign_Key [''fund_id''] ''funds'' [''id''] Restrict,
       Foreign_Key [''account_id'', ''fund_id''] ''accounts'' [''id'', ''fund_id''] Restrict,
       Foreign_Key [''instrument_id''] ''instruments'' [''id''] Restrict,
       Foreign_Key [''import_batch_id''] ''import_batches'' [''id''] Restrict,
       Foreign_Key [''created_by_user_id''] ''users'' [''id''] No_Action,
       Foreign_Key [''reverses_transaction_id''] ''transactions'' [''id''] Restrict,
       Unique_Key ''uq_transactions_source_identity'' [''fund_id'', ''source'', ''external_id''],
       Unique_Key ''uq_transactions_one_reversal'' [''reverses_transaction_id'']]\<rparr>"

definition indexes_0002 :: "ddl list" where
  "indexes_0002 = [
     Create_Index \<lparr>ix_name = ''ix_transactions_replay_order'', ix_table = ''transactions'',
       ix_columns = [Asc ''fund_id'', Asc ''effective_at'', Asc ''recorded_at'', Asc ''id''], ix_unique = False, ix_where = None\<rparr>,
     Create_Index \<lparr>ix_name = ''uq_transactions_opening_cash'', ix_table = ''transactions'',
       ix_columns = [Asc ''account_id''], ix_unique = True, ix_where = Some (Conj (Compare (Col ''transaction_type'') Eq (Lit ''OPENING_CASH'')) (Compare (Col ''status'') Eq (Lit ''POSTED'')))\<rparr>,
     Create_Index \<lparr>ix_name = ''uq_transactions_opening_position'', ix_table = ''transactions'',
       ix_columns = [Asc ''account_id'', Asc ''instrument_id''], ix_unique = True, ix_where = Some (Conj (Compare (Col ''transaction_type'') Eq (Lit ''OPENING_POSITION'')) (Compare (Col ''status'') Eq (Lit ''POSTED'')))\<rparr>]"

definition triggers_0002 :: "ddl list" where
  "triggers_0002 = [
     Create_Function \<lparr>tf_name = ''protect_transaction_economics'', tf_message = ''posted transaction economics are immutable'',
       tf_guards = Some [Changed [''fund_id'', ''account_id'', ''instrument_id'', ''transaction_type'', ''quantity'', ''unit_price'', ''amount'', ''fees'', ''currency'', ''effective_at'', ''recorded_at'', ''trade_date'', ''settlement_date'', ''source'', ''external_id'', ''normalized_payload_hash'', ''import_batch_id'', ''created_by_user_id'', ''reverses_transaction_id'', ''correction_command_id'', ''description'', ''source_metadata'']]\<rparr>,
     Create_Trigger \<lparr>tg_name = ''transactions_immutable_economics'', tg_table = ''transactions'',
       tg_events = [Update_Event], tg_function = ''protect_transaction_economics''\<rparr>]"

definition table_import_conflicts :: sql_table where
  "table_import_conflicts = \<lparr>tab_name = ''import_conflicts'', tab_columns = [
       primary ''id'' Uuid,
       required ''fund_id'' Uuid,
       required ''import_batch_id'' Uuid,
       required ''existing_transaction_id'' Uuid,
       required ''source'' (Varchar 64),
       required ''external_id'' (Varchar 160),
       required ''existing_payload_hash'' (Varchar 64),
       required ''incoming_payload_hash'' (Varchar 64),
       required ''incoming_payload'' Jsonb,
       required ''detected_at'' Timestamptz],
     tab_constraints = [
       Check ''ck_conflicts_existing_hash'' (Compare (Len ''existing_payload_hash'') Eq (Num 64)),
       Check ''ck_conflicts_incoming_hash'' (Compare (Len ''incoming_payload_hash'') Eq (Num 64)),
       Foreign_Key [''fund_id''] ''funds'' [''id''] Restrict,
       Foreign_Key [''import_batch_id''] ''import_batches'' [''id''] Restrict,
       Foreign_Key [''existing_transaction_id''] ''transactions'' [''id''] Restrict,
       Unique_Key ''uq_import_conflicts_evidence'' [''import_batch_id'', ''source'', ''external_id'', ''incoming_payload_hash'']]\<rparr>"

definition upgrade_0002 :: "ddl list" where
  "upgrade_0002 = [Create_Table table_accounts]
     @ [Create_Table table_import_batches]
     @ [Create_Table table_transactions]
     @ indexes_0002
     @ triggers_0002
     @ [Create_Table table_import_conflicts]"

definition downgrade_0002 :: "ddl list" where
  "downgrade_0002 = [
     Drop_Table ''import_conflicts'',
     Drop_Trigger False ''transactions_immutable_economics'' ''transactions'',
     Drop_Function False ''protect_transaction_economics'',
     Drop_Index ''uq_transactions_opening_position'',
     Drop_Index ''uq_transactions_opening_cash'',
     Drop_Index ''ix_transactions_replay_order'',
     Drop_Table ''transactions'',
     Drop_Table ''import_batches'',
     Drop_Table ''accounts'']"

section \<open>0003 import provenance\<close>

definition table_import_records :: sql_table where
  "table_import_records = \<lparr>tab_name = ''import_records'', tab_columns = [
       primary ''id'' Uuid,
       required ''import_batch_id'' Uuid,
       required ''row_number'' Integer,
       required ''source_locator'' (Varchar 255),
       required ''raw_payload'' Jsonb,
       optional ''normalized_payload'' Jsonb,
       required ''raw_payload_hash'' (Varchar 64),
       required ''status'' (Varchar 16),
       optional ''transaction_id'' Uuid,
       optional ''import_conflict_id'' Uuid,
       optional ''error_code'' (Varchar 64),
       optional ''error_message'' (Varchar 1000),
       required ''created_at'' Timestamptz],
     tab_constraints = [
       Check ''ck_import_records_positive_row'' (Compare (Col ''row_number'') Gt (Num 0)),
       Check ''ck_import_records_hash'' (Compare (Len ''raw_payload_hash'') Eq (Num 64)),
       Check ''ck_import_records_status'' (One_Of ''status'' [''RECEIVED'', ''NORMALIZED'', ''POSTED'', ''DUPLICATE'', ''CONFLICT'', ''REJECTED'']),
       Foreign_Key [''import_batch_id''] ''import_batches'' [''id''] Cascade,
       Foreign_Key [''transaction_id''] ''transactions'' [''id''] Restrict,
       Foreign_Key [''import_conflict_id''] ''import_conflicts'' [''id''] Restrict,
       Unique_Key ''uq_import_records_batch_row'' [''import_batch_id'', ''row_number'']]\<rparr>"

definition indexes_0003 :: "ddl list" where
  "indexes_0003 = [
     Create_Index \<lparr>ix_name = ''ix_import_records_transaction'', ix_table = ''import_records'',
       ix_columns = [Asc ''transaction_id''], ix_unique = False, ix_where = None\<rparr>]"

definition table_audit_events :: sql_table where
  "table_audit_events = \<lparr>tab_name = ''audit_events'', tab_columns = [
       primary ''id'' Uuid,
       required ''fund_id'' Uuid,
       optional ''actor_user_id'' Uuid,
       required ''action'' (Varchar 80),
       required ''entity_type'' (Varchar 80),
       required ''entity_id'' Uuid,
       required ''occurred_at'' Timestamptz,
       required ''details'' Jsonb],
     tab_constraints = [
       Foreign_Key [''fund_id''] ''funds'' [''id''] Restrict,
       Foreign_Key [''actor_user_id''] ''users'' [''id''] No_Action]\<rparr>"

definition indexes_0003b :: "ddl list" where
  "indexes_0003b = [
     Create_Index \<lparr>ix_name = ''ix_audit_events_entity'', ix_table = ''audit_events'',
       ix_columns = [Asc ''entity_type'', Asc ''entity_id'', Asc ''occurred_at''], ix_unique = False, ix_where = None\<rparr>]"

definition triggers_0003 :: "ddl list" where
  "triggers_0003 = [
     Create_Function \<lparr>tf_name = ''protect_final_import_record'', tf_message = ''final import evidence is immutable'',
       tf_guards = Some [On_Delete, Old_In ''status'' [''POSTED'', ''DUPLICATE'', ''CONFLICT'', ''REJECTED'']]\<rparr>,
     Create_Trigger \<lparr>tg_name = ''import_records_immutable_when_final'', tg_table = ''import_records'',
       tg_events = [Update_Event, Delete_Event], tg_function = ''protect_final_import_record''\<rparr>,
     Create_Function \<lparr>tf_name = ''protect_final_import_batch'', tf_message = ''final import batch is immutable'',
       tf_guards = Some [On_Delete, Old_In ''status'' [''COMPLETED'', ''COMPLETED_WITH_ERRORS'', ''FAILED'']]\<rparr>,
     Create_Trigger \<lparr>tg_name = ''import_batches_immutable_when_final'', tg_table = ''import_batches'',
       tg_events = [Update_Event, Delete_Event], tg_function = ''protect_final_import_batch''\<rparr>,
     Create_Function \<lparr>tf_name = ''protect_append_only_audit'', tf_message = ''audit events are append-only'',
       tf_guards = None\<rparr>,
     Create_Trigger \<lparr>tg_name = ''audit_events_append_only'', tg_table = ''audit_events'',
       tg_events = [Update_Event, Delete_Event], tg_function = ''protect_append_only_audit''\<rparr>]"

definition upgrade_0003 :: "ddl list" where
  "upgrade_0003 = [Create_Table table_import_records]
     @ indexes_0003
     @ [Create_Table table_audit_events]
     @ indexes_0003b
     @ triggers_0003"

definition downgrade_0003 :: "ddl list" where
  "downgrade_0003 = [
     Drop_Trigger False ''audit_events_append_only'' ''audit_events'',
     Drop_Function False ''protect_append_only_audit'',
     Drop_Trigger False ''import_batches_immutable_when_final'' ''import_batches'',
     Drop_Function False ''protect_final_import_batch'',
     Drop_Trigger False ''import_records_immutable_when_final'' ''import_records'',
     Drop_Function False ''protect_final_import_record'',
     Drop_Index ''ix_audit_events_entity'',
     Drop_Table ''audit_events'',
     Drop_Index ''ix_import_records_transaction'',
     Drop_Table ''import_records'']"

section \<open>0004 snapshots reconciliation\<close>

definition table_portfolio_snapshots :: sql_table where
  "table_portfolio_snapshots = \<lparr>tab_name = ''portfolio_snapshots'', tab_columns = [
       primary ''id'' Uuid,
       required ''fund_id'' Uuid,
       optional ''account_id'' Uuid,
       required ''as_of'' Timestamptz,
       required ''revision'' Integer,
       required ''status'' (Varchar 16),
       required ''calculation_version'' (Varchar 64),
       required ''canonical_input_hash'' (Varchar 64),
       required ''canonical_state'' Jsonb,
       required ''applied_transaction_count'' Integer,
       optional ''last_applied_transaction_id'' Uuid,
       optional ''supersedes_snapshot_id'' Uuid,
       required ''created_at'' Timestamptz],
     tab_constraints = [
       Check ''ck_snapshots_positive_revision'' (Compare (Col ''revision'') Gt (Num 0)),
       Check ''ck_snapshots_nonnegative_count'' (Compare (Col ''applied_transaction_count'') Ge (Num 0)),
       Check ''ck_snapshots_hash'' (Compare (Len ''canonical_input_hash'') Eq (Num 64)),
       Check ''ck_snapshots_status'' (One_Of ''status'' [''CURRENT'', ''SUPERSEDED'']),
       Foreign_Key [''fund_id''] ''funds'' [''id''] Restrict,
       Foreign_Key [''account_id''] ''accounts'' [''id''] Restrict,
       Foreign_Key [''last_applied_transaction_id''] ''transactions'' [''id''] Restrict,
       Foreign_Key [''supersedes_snapshot_id''] ''portfolio_snapshots'' [''id''] Restrict]\<rparr>"

definition indexes_0004 :: "ddl list" where
  "indexes_0004 = [
     Create_Index \<lparr>ix_name = ''uq_snapshots_fund_revision'', ix_table = ''portfolio_snapshots'',
       ix_columns = [Asc ''fund_id'', Asc ''as_of'', Asc ''revision''], ix_unique = True, ix_where = Some (Is_Null ''account_id'')\<rparr>,
     Create_Index \<lparr>ix_name = ''uq_snapshots_account_revision'', ix_table = ''portfolio_snapshots'',
       ix_columns = [Asc ''fund_id'', Asc ''account_id'', Asc ''as_of'', Asc ''revision''], ix_unique = True, ix_where = Some (Not_Null ''account_id'')\<rparr>,
     Create_Index \<lparr>ix_name = ''uq_snapshots_current_fund'', ix_table = ''portfolio_snapshots'',
       ix_columns = [Asc ''fund_id'', Asc ''as_of''], ix_unique = True, ix_where = Some (Conj (Is_Null ''account_id'') (Compare (Col ''status'') Eq (Lit ''CURRENT'')))\<rparr>,
     Create_Index \<lparr>ix_name = ''uq_snapshots_current_account'', ix_table = ''portfolio_snapshots'',
       ix_columns = [Asc ''fund_id'', Asc ''account_id'', Asc ''as_of''], ix_unique = True, ix_where = Some (Conj (Not_Null ''account_id'') (Compare (Col ''status'') Eq (Lit ''CURRENT'')))\<rparr>]"

definition table_snapshot_cash :: sql_table where
  "table_snapshot_cash = \<lparr>tab_name = ''snapshot_cash'', tab_columns = [
       primary ''id'' Uuid,
       required ''snapshot_id'' Uuid,
       required ''account_id'' Uuid,
       required ''currency'' (Varchar 3),
       required ''amount'' (Numeric 28 4)],
     tab_constraints = [
       Check ''ck_snapshot_cash_usd'' (Compare (Col ''currency'') Eq (Lit ''USD'')),
       Foreign_Key [''snapshot_id''] ''portfolio_snapshots'' [''id''] Cascade,
       Foreign_Key [''account_id''] ''accounts'' [''id''] Restrict,
       Unique_Key ''uq_snapshot_cash'' [''snapshot_id'', ''account_id'', ''currency'']]\<rparr>"

definition table_snapshot_positions :: sql_table where
  "table_snapshot_positions = \<lparr>tab_name = ''snapshot_positions'', tab_columns = [
       primary ''id'' Uuid,
       required ''snapshot_id'' Uuid,
       required ''account_id'' Uuid,
       required ''instrument_id'' Uuid,
       required ''quantity'' (Numeric 28 12),
       optional ''total_cost_basis'' (Numeric 28 4),
       optional ''average_cost'' (Numeric 28 8),
       required ''cost_basis_status'' (Varchar 16),
       required ''source_transaction_ids'' Jsonb],
     tab_constraints = [
       Check ''ck_snapshot_position_quantity'' (Compare (Col ''quantity'') Gt (Num 0)),
       Check ''ck_snapshot_position_basis_status'' (Disj (Conj (Conj (Compare (Col ''cost_basis_status'') Eq (Lit ''KNOWN'')) (Not_Null ''total_cost_basis'')) (Not_Null ''average_cost'')) (Conj (Conj (Compare (Col ''cost_basis_status'') Eq (Lit ''UNKNOWN'')) (Is_Null ''total_cost_basis'')) (Is_Null ''average_cost''))),
       Foreign_Key [''snapshot_id''] ''portfolio_snapshots'' [''id''] Cascade,
       Foreign_Key [''account_id''] ''accounts'' [''id''] Restrict,
       Foreign_Key [''instrument_id''] ''instruments'' [''id''] Restrict,
       Unique_Key ''uq_snapshot_position'' [''snapshot_id'', ''account_id'', ''instrument_id'']]\<rparr>"

definition table_reconciliation_observations :: sql_table where
  "table_reconciliation_observations = \<lparr>tab_name = ''reconciliation_observations'', tab_columns = [
       primary ''id'' Uuid,
       required ''fund_id'' Uuid,
       required ''account_id'' Uuid,
       required ''as_of'' Timestamptz,
       required ''kind'' (Varchar 16),
       optional ''instrument_id'' Uuid,
       required ''reported_value'' (Numeric 28 12),
       required ''currency'' (Varchar 3),
       required ''source'' (Varchar 64),
       required ''external_id'' (Varchar 160),
       optional ''import_batch_id'' Uuid,
       required ''evidence'' Jsonb,
       required ''recorded_at'' Timestamptz],
     tab_constraints = [
       Check ''ck_reconciliation_observation_usd'' (Compare (Col ''currency'') Eq (Lit ''USD'')),
       Check ''ck_reconciliation_observation_kind'' (Disj (Conj (Compare (Col ''kind'') Eq (Lit ''CASH'')) (Is_Null ''instrument_id'')) (Conj (Conj (Compare (Col ''kind'') Eq (Lit ''POSITION'')) (Not_Null ''instrument_id'')) (Compare (Col ''reported_value'') Ge (Num 0)))),
       Foreign_Key [''fund_id''] ''funds'' [''id''] Restrict,
       Foreign_Key [''account_id''] ''accounts'' [''id''] Restrict,
       Foreign_Key [''instrument_id''] ''instruments'' [''id''] Restrict,
       Foreign_Key [''import_batch_id''] ''import_batches'' [''id''] Restrict,
       Unique_Key ''uq_reconciliation_observation_source'' [''fund_id'', ''source'', ''external_id'']]\<rparr>"

definition indexes_0004b :: "ddl list" where
  "indexes_0004b = [
     Create_Index \<lparr>ix_name = ''ix_reconciliation_observation_cutoff'', ix_table = ''reconciliation_observations'',
       ix_columns = [Asc ''fund_id'', Asc ''as_of'', Asc ''account_id''], ix_unique = False, ix_where = None\<rparr>]"

definition table_reconciliation_runs :: sql_table where
  "table_reconciliation_runs = \<lparr>tab_name = ''reconciliation_runs'', tab_columns = [
       primary ''id'' Uuid,
       required ''snapshot_id'' Uuid,
       required ''tolerance'' (Numeric 28 12),
       required ''evidence_hash'' (Varchar 64),
       required ''status'' (Varchar 16),
       required ''created_at'' Timestamptz,
       optional ''created_by_user_id'' Uuid],
     tab_constraints = [
       Check ''ck_reconciliation_tolerance'' (Compare (Col ''tolerance'') Ge (Num 0)),
       Check ''ck_reconciliation_evidence_hash'' (Compare (Len ''evidence_hash'') Eq (Num 64)),
       Check ''ck_reconciliation_run_status'' (One_Of ''status'' [''MATCHED'', ''BREACH'', ''UNAVAILABLE'']),
       Foreign_Key [''snapshot_id''] ''portfolio_snapshots'' [''id''] Restrict,
       Foreign_Key [''created_by_user_id''] ''users'' [''id''] No_Action,
       Unique_Key ''uq_reconciliation_run'' [''snapshot_id'', ''tolerance'', ''evidence_hash'']]\<rparr>"

definition table_reconciliation_items :: sql_table where
  "table_reconciliation_items = \<lparr>tab_name = ''reconciliation_items'', tab_columns = [
       primary ''id'' Uuid,
       required ''reconciliation_run_id'' Uuid,
       required ''observation_id'' Uuid,
       required ''expected_value'' (Numeric 28 12),
       required ''reported_value'' (Numeric 28 12),
       required ''difference'' (Numeric 28 12),
       required ''tolerance'' (Numeric 28 12),
       required ''status'' (Varchar 16)],
     tab_constraints = [
       Check ''ck_reconciliation_item_status'' (One_Of ''status'' [''MATCHED'', ''BREACH'']),
       Foreign_Key [''reconciliation_run_id''] ''reconciliation_runs'' [''id''] Cascade,
       Foreign_Key [''observation_id''] ''reconciliation_observations'' [''id''] Restrict,
       Unique_Key ''uq_reconciliation_item'' [''reconciliation_run_id'', ''observation_id'']]\<rparr>"

definition triggers_0004 :: "ddl list" where
  "triggers_0004 = [
     Create_Function \<lparr>tf_name = ''protect_snapshot_content'', tf_message = ''snapshot content is immutable'',
       tf_guards = Some [Changed [''fund_id'', ''account_id'', ''as_of'', ''revision'', ''calculation_version'', ''canonical_input_hash'', ''canonical_state'', ''applied_transaction_count'', ''last_applied_transaction_id'', ''supersedes_snapshot_id'', ''created_at'']]\<rparr>,
     Create_Trigger \<lparr>tg_name = ''portfolio_snapshots_immutable_content'', tg_table = ''portfolio_snapshots'',
       tg_events = [Update_Event], tg_function = ''protect_snapshot_content''\<rparr>,
     Create_Function \<lparr>tf_name = ''protect_derived_evidence'', tf_message = ''derived evidence is immutable'',
       tf_guards = None\<rparr>,
     Create_Trigger \<lparr>tg_name = ''snapshot_cash_immutable'', tg_table = ''snapshot_cash'',
       tg_events = [Update_Event, Delete_Event], tg_function = ''protect_derived_evidence''\<rparr>,
     Create_Trigger \<lparr>tg_name = ''snapshot_positions_immutable'', tg_table = ''snapshot_positions'',
       tg_events = [Update_Event, Delete_Event], tg_function = ''protect_derived_evidence''\<rparr>,
     Create_Trigger \<lparr>tg_name = ''reconciliation_observations_immutable'', tg_table = ''reconciliation_observations'',
       tg_events = [Update_Event, Delete_Event], tg_function = ''protect_derived_evidence''\<rparr>,
     Create_Trigger \<lparr>tg_name = ''reconciliation_runs_immutable'', tg_table = ''reconciliation_runs'',
       tg_events = [Update_Event, Delete_Event], tg_function = ''protect_derived_evidence''\<rparr>,
     Create_Trigger \<lparr>tg_name = ''reconciliation_items_immutable'', tg_table = ''reconciliation_items'',
       tg_events = [Update_Event, Delete_Event], tg_function = ''protect_derived_evidence''\<rparr>]"

definition upgrade_0004 :: "ddl list" where
  "upgrade_0004 = [Create_Table table_portfolio_snapshots]
     @ indexes_0004
     @ [Create_Table table_snapshot_cash]
     @ [Create_Table table_snapshot_positions]
     @ [Create_Table table_reconciliation_observations]
     @ indexes_0004b
     @ [Create_Table table_reconciliation_runs]
     @ [Create_Table table_reconciliation_items]
     @ triggers_0004"

definition downgrade_0004 :: "ddl list" where
  "downgrade_0004 = [
     Drop_Trigger False ''reconciliation_items_immutable'' ''reconciliation_items'',
     Drop_Trigger False ''reconciliation_runs_immutable'' ''reconciliation_runs'',
     Drop_Trigger False ''reconciliation_observations_immutable'' ''reconciliation_observations'',
     Drop_Trigger False ''snapshot_positions_immutable'' ''snapshot_positions'',
     Drop_Trigger False ''snapshot_cash_immutable'' ''snapshot_cash'',
     Drop_Function False ''protect_derived_evidence'',
     Drop_Trigger False ''portfolio_snapshots_immutable_content'' ''portfolio_snapshots'',
     Drop_Function False ''protect_snapshot_content'',
     Drop_Table ''reconciliation_items'',
     Drop_Table ''reconciliation_runs'',
     Drop_Index ''ix_reconciliation_observation_cutoff'',
     Drop_Table ''reconciliation_observations'',
     Drop_Table ''snapshot_positions'',
     Drop_Table ''snapshot_cash'',
     Drop_Index ''uq_snapshots_current_account'',
     Drop_Index ''uq_snapshots_current_fund'',
     Drop_Index ''uq_snapshots_account_revision'',
     Drop_Index ''uq_snapshots_fund_revision'',
     Drop_Table ''portfolio_snapshots'']"

section \<open>0005 market data valuation\<close>

definition table_security_identifiers :: sql_table where
  "table_security_identifiers = \<lparr>tab_name = ''security_identifiers'', tab_columns = [
       primary ''id'' Uuid,
       required ''instrument_id'' Uuid,
       required ''scheme'' (Varchar 16),
       required ''value'' (Varchar 64),
       defaulted ''provider'' (Varchar 64) [],
       optional ''valid_from'' Timestamptz,
       optional ''valid_to'' Timestamptz,
       defaulted ''is_primary'' Boolean ''false''],
     tab_constraints = [
       Check ''ck_identifier_scheme'' (One_Of ''scheme'' [''TICKER'', ''FIGI'', ''CUSIP'', ''ISIN'', ''PROVIDER'']),
       Check ''ck_identifier_range'' (Disj (Disj (Is_Null ''valid_to'') (Is_Null ''valid_from'')) (Compare (Col ''valid_to'') Gt (Col ''valid_from''))),
       Foreign_Key [''instrument_id''] ''instruments'' [''id''] Restrict,
       Unique_Key ''uq_security_identifier'' [''scheme'', ''value'', ''provider'']]\<rparr>"

definition indexes_0005 :: "ddl list" where
  "indexes_0005 = [
     Create_Index \<lparr>ix_name = ''ix_security_identifier_lookup'', ix_table = ''security_identifiers'',
       ix_columns = [Asc ''value'', Asc ''provider''], ix_unique = False, ix_where = None\<rparr>]"

definition table_market_data_batches :: sql_table where
  "table_market_data_batches = \<lparr>tab_name = ''market_data_batches'', tab_columns = [
       primary ''id'' Uuid,
       required ''provider'' (Varchar 64),
       required ''dataset'' (Varchar 64),
       required ''request_hash'' (Varchar 64),
       required ''status'' (Varchar 32),
       required ''started_at'' Timestamptz,
       optional ''completed_at'' Timestamptz,
       defaulted ''inserted_count'' Integer ''0'',
       defaulted ''duplicate_count'' Integer ''0'',
       defaulted ''conflict_count'' Integer ''0''],
     tab_constraints = [
       Check ''ck_market_data_batch_hash'' (Compare (Len ''request_hash'') Eq (Num 64)),
       Check ''ck_market_data_batch_status'' (One_Of ''status'' [''RECEIVED'', ''COMPLETED'', ''COMPLETED_WITH_CONFLICTS'', ''FAILED'']),
       Check ''ck_market_data_batch_counts'' (Conj (Conj (Compare (Col ''inserted_count'') Ge (Num 0)) (Compare (Col ''duplicate_count'') Ge (Num 0))) (Compare (Col ''conflict_count'') Ge (Num 0))),
       Unique_Key ''uq_market_data_batch_request'' [''provider'', ''dataset'', ''request_hash'']]\<rparr>"

definition table_market_prices :: sql_table where
  "table_market_prices = \<lparr>tab_name = ''market_prices'', tab_columns = [
       primary ''id'' Uuid,
       required ''instrument_id'' Uuid,
       required ''batch_id'' Uuid,
       required ''provider'' (Varchar 64),
       required ''price_type'' (Varchar 24),
       required ''observed_at'' Timestamptz,
       required ''received_at'' Timestamptz,
       required ''price'' (Numeric 28 8),
       required ''currency'' (Varchar 3),
       required ''source_identifier'' (Varchar 64),
       required ''source_metadata'' Jsonb],
     tab_constraints = [
       Check ''ck_market_price_positive'' (Compare (Col ''price'') Gt (Num 0)),
       Check ''ck_market_price_usd'' (Compare (Col ''currency'') Eq (Lit ''USD'')),
       Check ''ck_market_price_type'' (One_Of ''price_type'' [''CLOSE'', ''ADJUSTED_CLOSE'']),
       Foreign_Key [''instrument_id''] ''instruments'' [''id''] Restrict,
       Foreign_Key [''batch_id''] ''market_data_batches'' [''id''] Restrict,
       Unique_Key ''uq_market_price_observation'' [''instrument_id'', ''provider'', ''price_type'', ''observed_at'']]\<rparr>"

definition indexes_0005b :: "ddl list" where
  "indexes_0005b = [
     Create_Index \<lparr>ix_name = ''ix_market_price_cutoff'', ix_table = ''market_prices'',
       ix_columns = [Asc ''instrument_id'', Asc ''price_type'', Desc ''observed_at''], ix_unique = False, ix_where = None\<rparr>]"

definition table_market_price_conflicts :: sql_table where
  "table_market_price_conflicts = \<lparr>tab_name = ''market_price_conflicts'', tab_columns = [
       primary ''id'' Uuid,
       required ''batch_id'' Uuid,
       required ''existing_price_id'' Uuid,
       required ''incoming_price'' (Numeric 28 8),
       required ''incoming_currency'' (Varchar 3),
       required ''incoming_metadata'' Jsonb,
       required ''detected_at'' Timestamptz],
     tab_constraints = [
       Check ''ck_market_price_conflict_positive'' (Compare (Col ''incoming_price'') Gt (Num 0)),
       Check ''ck_market_price_conflict_usd'' (Compare (Col ''incoming_currency'') Eq (Lit ''USD'')),
       Foreign_Key [''batch_id''] ''market_data_batches'' [''id''] Restrict,
       Foreign_Key [''existing_price_id''] ''market_prices'' [''id''] Restrict,
       Unique_Key ''uq_market_price_conflict'' [''batch_id'', ''existing_price_id'', ''incoming_price'']]\<rparr>"

definition triggers_0005 :: "ddl list" where
  "triggers_0005 = [
     Create_Function \<lparr>tf_name = ''protect_market_data_evidence'', tf_message = ''market data evidence is immutable'',
       tf_guards = None\<rparr>,
     Create_Trigger \<lparr>tg_name = ''market_prices_immutable'', tg_table = ''market_prices'',
       tg_events = [Update_Event, Delete_Event], tg_function = ''protect_market_data_evidence''\<rparr>,
     Create_Trigger \<lparr>tg_name = ''market_price_conflicts_immutable'', tg_table = ''market_price_conflicts'',
       tg_events = [Update_Event, Delete_Event], tg_function = ''protect_market_data_evidence''\<rparr>,
     Create_Trigger \<lparr>tg_name = ''security_identifiers_no_delete'', tg_table = ''security_identifiers'',
       tg_events = [Delete_Event], tg_function = ''protect_market_data_evidence''\<rparr>]"

definition upgrade_0005 :: "ddl list" where
  "upgrade_0005 = [Create_Table table_security_identifiers]
     @ indexes_0005
     @ [Create_Table table_market_data_batches]
     @ [Create_Table table_market_prices]
     @ indexes_0005b
     @ [Create_Table table_market_price_conflicts]
     @ triggers_0005"

definition downgrade_0005 :: "ddl list" where
  "downgrade_0005 = [
     Drop_Trigger True ''security_identifiers_no_delete'' ''security_identifiers'',
     Drop_Trigger True ''market_price_conflicts_immutable'' ''market_price_conflicts'',
     Drop_Trigger True ''market_prices_immutable'' ''market_prices'',
     Drop_Function True ''protect_market_data_evidence'',
     Drop_Table ''market_price_conflicts'',
     Drop_Index ''ix_market_price_cutoff'',
     Drop_Table ''market_prices'',
     Drop_Table ''market_data_batches'',
     Drop_Index ''ix_security_identifier_lookup'',
     Drop_Table ''security_identifiers'']"

section \<open>0006 analytics risk controls\<close>

definition table_instrument_classifications :: sql_table where
  "table_instrument_classifications = \<lparr>tab_name = ''instrument_classifications'', tab_columns = [
       primary ''id'' Uuid,
       required ''instrument_id'' Uuid,
       required ''sector'' (Varchar 80),
       required ''asset_class'' (Varchar 80),
       required ''geography'' (Varchar 80),
       required ''effective_from'' Timestamptz,
       optional ''effective_to'' Timestamptz,
       required ''source'' (Varchar 64),
       required ''source_metadata'' Jsonb,
       required ''recorded_at'' Timestamptz],
     tab_constraints = [
       Check ''ck_classification_range'' (Disj (Is_Null ''effective_to'') (Compare (Col ''effective_to'') Gt (Col ''effective_from''))),
       Foreign_Key [''instrument_id''] ''instruments'' [''id''] Restrict,
       Unique_Key ''uq_classification_effective'' [''instrument_id'', ''effective_from'']]\<rparr>"

definition indexes_0006 :: "ddl list" where
  "indexes_0006 = [
     Create_Index \<lparr>ix_name = ''ix_classification_cutoff'', ix_table = ''instrument_classifications'',
       ix_columns = [Asc ''instrument_id'', Desc ''effective_from''], ix_unique = False, ix_where = None\<rparr>]"

definition table_risk_policies :: sql_table where
  "table_risk_policies = \<lparr>tab_name = ''risk_policies'', tab_columns = [
       primary ''id'' Uuid,
       required ''fund_id'' Uuid,
       required ''name'' (Varchar 160),
       required ''version'' Integer,
       required ''effective_from'' Timestamptz,
       optional ''effective_to'' Timestamptz,
       required ''created_at'' Timestamptz,
       optional ''created_by_user_id'' Uuid],
     tab_constraints = [
       Check ''ck_risk_policy_version'' (Compare (Col ''version'') Gt (Num 0)),
       Check ''ck_risk_policy_range'' (Disj (Is_Null ''effective_to'') (Compare (Col ''effective_to'') Gt (Col ''effective_from''))),
       Foreign_Key [''fund_id''] ''funds'' [''id''] Restrict,
       Foreign_Key [''created_by_user_id''] ''users'' [''id''] No_Action,
       Unique_Key ''uq_risk_policy_version'' [''fund_id'', ''name'', ''version'']]\<rparr>"

definition table_risk_policy_rules :: sql_table where
  "table_risk_policy_rules = \<lparr>tab_name = ''risk_policy_rules'', tab_columns = [
       primary ''id'' Uuid,
       required ''policy_id'' Uuid,
       required ''metric_key'' (Varchar 160),
       required ''operator'' (Varchar 8),
       required ''threshold'' (Numeric 28 12),
       required ''unit'' (Varchar 32),
       required ''explanation_template'' (Varchar 500)],
     tab_constraints = [
       Check ''ck_risk_policy_operator'' (One_Of ''operator'' [''MAX'', ''MIN'']),
       Check ''ck_risk_policy_rule_threshold'' (Compare (Col ''threshold'') Ge (Num 0)),
       Foreign_Key [''policy_id''] ''risk_policies'' [''id''] Restrict,
       Unique_Key ''uq_risk_policy_rule_metric'' [''policy_id'', ''metric_key'']]\<rparr>"

definition table_risk_evaluations :: sql_table where
  "table_risk_evaluations = \<lparr>tab_name = ''risk_evaluations'', tab_columns = [
       primary ''id'' Uuid,
       required ''fund_id'' Uuid,
       required ''policy_id'' Uuid,
       required ''as_of'' Timestamptz,
       required ''input_hash'' (Varchar 64),
       required ''calculation_version'' (Varchar 64),
       required ''created_at'' Timestamptz],
     tab_constraints = [
       Check ''ck_risk_evaluation_hash'' (Compare (Len ''input_hash'') Eq (Num 64)),
       Foreign_Key [''fund_id''] ''funds'' [''id''] Restrict,
       Foreign_Key [''policy_id''] ''risk_policies'' [''id''] Restrict,
       Unique_Key ''uq_risk_evaluation_input'' [''policy_id'', ''as_of'', ''input_hash'']]\<rparr>"

definition table_risk_evaluation_items :: sql_table where
  "table_risk_evaluation_items = \<lparr>tab_name = ''risk_evaluation_items'', tab_columns = [
       primary ''id'' Uuid,
       required ''evaluation_id'' Uuid,
       required ''rule_id'' Uuid,
       required ''status'' (Varchar 16),
       optional ''observed_value'' (Numeric 28 12),
       required ''threshold'' (Numeric 28 12),
       optional ''breach_amount'' (Numeric 28 12),
       required ''unit'' (Varchar 32),
       required ''explanation'' (Varchar 1000)],
     tab_constraints = [
       Check ''ck_risk_evaluation_status'' (One_Of ''status'' [''PASS'', ''BREACH'', ''UNAVAILABLE'']),
       Check ''ck_risk_evaluation_threshold'' (Compare (Col ''threshold'') Ge (Num 0)),
       Check ''ck_risk_evaluation_breach'' (Disj (Is_Null ''breach_amount'') (Compare (Col ''breach_amount'') Ge (Num 0))),
       Foreign_Key [''evaluation_id''] ''risk_evaluations'' [''id''] Cascade,
       Foreign_Key [''rule_id''] ''risk_policy_rules'' [''id''] Restrict,
       Unique_Key ''uq_risk_evaluation_rule'' [''evaluation_id'', ''rule_id'']]\<rparr>"

definition triggers_0006 :: "ddl list" where
  "triggers_0006 = [
     Create_Function \<lparr>tf_name = ''protect_risk_evidence'', tf_message = ''risk evaluation evidence is immutable'',
       tf_guards = None\<rparr>,
     Create_Trigger \<lparr>tg_name = ''risk_evaluations_immutable'', tg_table = ''risk_evaluations'',
       tg_events = [Update_Event, Delete_Event], tg_function = ''protect_risk_evidence''\<rparr>,
     Create_Trigger \<lparr>tg_name = ''risk_evaluation_items_immutable'', tg_table = ''risk_evaluation_items'',
       tg_events = [Update_Event, Delete_Event], tg_function = ''protect_risk_evidence''\<rparr>]"

definition upgrade_0006 :: "ddl list" where
  "upgrade_0006 = [Create_Table table_instrument_classifications]
     @ indexes_0006
     @ [Create_Table table_risk_policies]
     @ [Create_Table table_risk_policy_rules]
     @ [Create_Table table_risk_evaluations]
     @ [Create_Table table_risk_evaluation_items]
     @ triggers_0006"

definition downgrade_0006 :: "ddl list" where
  "downgrade_0006 = [
     Drop_Trigger True ''risk_evaluation_items_immutable'' ''risk_evaluation_items'',
     Drop_Trigger True ''risk_evaluations_immutable'' ''risk_evaluations'',
     Drop_Function True ''protect_risk_evidence'',
     Drop_Table ''risk_evaluation_items'',
     Drop_Table ''risk_evaluations'',
     Drop_Table ''risk_policy_rules'',
     Drop_Table ''risk_policies'',
     Drop_Index ''ix_classification_cutoff'',
     Drop_Table ''instrument_classifications'']"

section \<open>0007 scenario stress testing\<close>

definition table_scenario_definitions :: sql_table where
  "table_scenario_definitions = \<lparr>tab_name = ''scenario_definitions'', tab_columns = [
       primary ''id'' Uuid,
       required ''fund_id'' Uuid,
       required ''name'' (Varchar 160),
       required ''version'' Integer,
       required ''kind'' (Varchar 16),
       required ''description'' (Varchar 1000),
       required ''source_metadata'' Jsonb,
       required ''created_at'' Timestamptz,
       optional ''created_by_user_id'' Uuid],
     tab_constraints = [
       Check ''ck_scenario_version'' (Compare (Col ''version'') Gt (Num 0)),
       Check ''ck_scenario_kind'' (One_Of ''kind'' [''HYPOTHETICAL'', ''HISTORICAL'']),
       Foreign_Key [''fund_id''] ''funds'' [''id''] Restrict,
       Foreign_Key [''created_by_user_id''] ''users'' [''id''] No_Action,
       Unique_Key ''uq_scenario_version'' [''fund_id'', ''name'', ''version'']]\<rparr>"

definition table_scenario_shocks :: sql_table where
  "table_scenario_shocks = \<lparr>tab_name = ''scenario_shocks'', tab_columns = [
       primary ''id'' Uuid,
       required ''scenario_id'' Uuid,
       required ''target_type'' (Varchar 16),
       required ''target'' (Varchar 160),
       required ''magnitude'' (Numeric 28 12),
       required ''unit'' (Varchar 24),
       required ''sequence'' Integer],
     tab_constraints = [
       Check ''ck_scenario_shock_sequence'' (Compare (Col ''sequence'') Gt (Num 0)),
       Check ''ck_scenario_shock_target_type'' (One_Of ''target_type'' [''SECURITY'', ''MARKET'', ''SECTOR'', ''RATE'', ''FACTOR'']),
       Check ''ck_scenario_shock_unit'' (One_Of ''unit'' [''RELATIVE_RETURN'', ''YIELD_CHANGE'', ''FACTOR_MOVE'']),
       Foreign_Key [''scenario_id''] ''scenario_definitions'' [''id''] Restrict,
       Unique_Key ''uq_scenario_shock_sequence'' [''scenario_id'', ''sequence'']]\<rparr>"

definition table_instrument_risk_sensitivities :: sql_table where
  "table_instrument_risk_sensitivities = \<lparr>tab_name = ''instrument_risk_sensitivities'', tab_columns = [
       primary ''id'' Uuid,
       required ''instrument_id'' Uuid,
       required ''effective_from'' Timestamptz,
       optional ''effective_to'' Timestamptz,
       optional ''rate_duration'' (Numeric 28 12),
       required ''factor_loadings'' Jsonb,
       required ''source'' (Varchar 64),
       required ''source_metadata'' Jsonb,
       required ''recorded_at'' Timestamptz],
     tab_constraints = [
       Check ''ck_sensitivity_range'' (Disj (Is_Null ''effective_to'') (Compare (Col ''effective_to'') Gt (Col ''effective_from''))),
       Check ''ck_sensitivity_duration'' (Disj (Is_Null ''rate_duration'') (Compare (Col ''rate_duration'') Ge (Num 0))),
       Foreign_Key [''instrument_id''] ''instruments'' [''id''] Restrict,
       Unique_Key ''uq_sensitivity_effective'' [''instrument_id'', ''effective_from'']]\<rparr>"

definition indexes_0007 :: "ddl list" where
  "indexes_0007 = [
     Create_Index \<lparr>ix_name = ''ix_sensitivity_cutoff'', ix_table = ''instrument_risk_sensitivities'',
       ix_columns = [Asc ''instrument_id'', Desc ''effective_from''], ix_unique = False, ix_where = None\<rparr>]"

definition table_scenario_runs :: sql_table where
  "table_scenario_runs = \<lparr>tab_name = ''scenario_runs'', tab_columns = [
       primary ''id'' Uuid,
       required ''fund_id'' Uuid,
       required ''scenario_id'' Uuid,
       required ''policy_id'' Uuid,
       required ''as_of'' Timestamptz,
       required ''canonical_input_hash'' (Varchar 64),
       required ''calculation_version'' (Varchar 64),
       required ''baseline_value'' (Numeric 28 4),
       required ''projected_value'' (Numeric 28 4),
       required ''pnl_impact'' (Numeric 28 4),
       required ''portfolio_return_impact'' (Numeric 28 12),
       required ''benchmark_scenario_return'' (Numeric 28 12),
       required ''result_summary'' Jsonb,
       required ''created_at'' Timestamptz],
     tab_constraints = [
       Check ''ck_scenario_run_hash'' (Compare (Len ''canonical_input_hash'') Eq (Num 64)),
       Check ''ck_scenario_run_values'' (Conj (Compare (Col ''baseline_value'') Gt (Num 0)) (Compare (Col ''projected_value'') Gt (Num 0))),
       Foreign_Key [''fund_id''] ''funds'' [''id''] Restrict,
       Foreign_Key [''scenario_id''] ''scenario_definitions'' [''id''] Restrict,
       Foreign_Key [''policy_id''] ''risk_policies'' [''id''] Restrict,
       Unique_Key ''uq_scenario_run_input'' [''scenario_id'', ''as_of'', ''canonical_input_hash'']]\<rparr>"

definition table_scenario_position_results :: sql_table where
  "table_scenario_position_results = \<lparr>tab_name = ''scenario_position_results'', tab_columns = [
       primary ''id'' Uuid,
       required ''scenario_run_id'' Uuid,
       required ''instrument_id'' Uuid,
       required ''baseline_market_value'' (Numeric 28 4),
       required ''projected_market_value'' (Numeric 28 4),
       required ''return_impact'' (Numeric 28 12),
       required ''pnl_impact'' (Numeric 28 4),
       required ''contribution_evidence'' Jsonb],
     tab_constraints = [
       Check ''ck_scenario_position_values'' (Conj (Compare (Col ''baseline_market_value'') Ge (Num 0)) (Compare (Col ''projected_market_value'') Ge (Num 0))),
       Foreign_Key [''scenario_run_id''] ''scenario_runs'' [''id''] Cascade,
       Foreign_Key [''instrument_id''] ''instruments'' [''id''] Restrict,
       Unique_Key ''uq_scenario_position_result'' [''scenario_run_id'', ''instrument_id'']]\<rparr>"

definition triggers_0007 :: "ddl list" where
  "triggers_0007 = [
     Create_Function \<lparr>tf_name = ''protect_scenario_evidence'', tf_message = ''scenario evidence is immutable'',
       tf_guards = None\<rparr>,
     Create_Trigger \<lparr>tg_name = ''scenario_runs_immutable'', tg_table = ''scenario_runs'',
       tg_events = [Update_Event, Delete_Event], tg_function = ''protect_scenario_evidence''\<rparr>,
     Create_Trigger \<lparr>tg_name = ''scenario_position_results_immutable'', tg_table = ''scenario_position_results'',
       tg_events = [Update_Event, Delete_Event], tg_function = ''protect_scenario_evidence''\<rparr>,
     Create_Trigger \<lparr>tg_name = ''scenario_definitions_immutable'', tg_table = ''scenario_definitions'',
       tg_events = [Update_Event, Delete_Event], tg_function = ''protect_scenario_evidence''\<rparr>,
     Create_Trigger \<lparr>tg_name = ''scenario_shocks_immutable'', tg_table = ''scenario_shocks'',
       tg_events = [Update_Event, Delete_Event], tg_function = ''protect_scenario_evidence''\<rparr>,
     Create_Trigger \<lparr>tg_name = ''instrument_risk_sensitivities_immutable'', tg_table = ''instrument_risk_sensitivities'',
       tg_events = [Update_Event, Delete_Event], tg_function = ''protect_scenario_evidence''\<rparr>]"

definition upgrade_0007 :: "ddl list" where
  "upgrade_0007 = [Create_Table table_scenario_definitions]
     @ [Create_Table table_scenario_shocks]
     @ [Create_Table table_instrument_risk_sensitivities]
     @ indexes_0007
     @ [Create_Table table_scenario_runs]
     @ [Create_Table table_scenario_position_results]
     @ triggers_0007"

definition downgrade_0007 :: "ddl list" where
  "downgrade_0007 = [
     Drop_Trigger True ''instrument_risk_sensitivities_immutable'' ''instrument_risk_sensitivities'',
     Drop_Trigger True ''scenario_shocks_immutable'' ''scenario_shocks'',
     Drop_Trigger True ''scenario_definitions_immutable'' ''scenario_definitions'',
     Drop_Trigger True ''scenario_position_results_immutable'' ''scenario_position_results'',
     Drop_Trigger True ''scenario_runs_immutable'' ''scenario_runs'',
     Drop_Function True ''protect_scenario_evidence'',
     Drop_Table ''scenario_position_results'',
     Drop_Table ''scenario_runs'',
     Drop_Index ''ix_sensitivity_cutoff'',
     Drop_Table ''instrument_risk_sensitivities'',
     Drop_Table ''scenario_shocks'',
     Drop_Table ''scenario_definitions'']"

section \<open>0008 investment governance\<close>

definition constraints_0008 :: "ddl list" where
  "constraints_0008 = [
     Add_Column ''risk_policy_rules'' (defaulted ''severity'' (Varchar 16) ''BLOCKING''),
     Create_Check ''ck_risk_policy_rule_severity'' ''risk_policy_rules'' (One_Of ''severity'' [''BLOCKING'', ''WARNING''])]"

definition table_investment_proposals :: sql_table where
  "table_investment_proposals = \<lparr>tab_name = ''investment_proposals'', tab_columns = [
       primary ''id'' Uuid,
       required ''fund_id'' Uuid,
       required ''created_by_user_id'' Uuid,
       required ''status'' (Varchar 24),
       required ''current_version'' Integer,
       required ''row_version'' Integer,
       required ''created_at'' Timestamptz,
       required ''updated_at'' Timestamptz],
     tab_constraints = [
       Check ''ck_proposal_current_version'' (Compare (Col ''current_version'') Gt (Num 0)),
       Check ''ck_proposal_row_version'' (Compare (Col ''row_version'') Gt (Num 0)),
       Check ''ck_proposal_status'' (One_Of ''status'' [''DRAFT'', ''SUBMITTED'', ''UNDER_REVIEW'', ''CHANGES_REQUESTED'', ''APPROVED'', ''REJECTED'', ''WITHDRAWN'']),
       Foreign_Key [''fund_id''] ''funds'' [''id''] Restrict,
       Foreign_Key [''created_by_user_id''] ''users'' [''id''] Restrict]\<rparr>"

definition table_proposal_versions :: sql_table where
  "table_proposal_versions = \<lparr>tab_name = ''proposal_versions'', tab_columns = [
       primary ''id'' Uuid,
       required ''proposal_id'' Uuid,
       required ''version'' Integer,
       required ''title'' (Varchar 200),
       required ''thesis'' (Varchar 5000),
       required ''portfolio_input_hash'' (Varchar 64),
       required ''portfolio_as_of'' Timestamptz,
       required ''content_hash'' (Varchar 64),
       required ''created_by_user_id'' Uuid,
       required ''created_at'' Timestamptz,
       optional ''supersedes_version_id'' Uuid],
     tab_constraints = [
       Check ''ck_proposal_version'' (Compare (Col ''version'') Gt (Num 0)),
       Check ''ck_proposal_portfolio_hash'' (Compare (Len ''portfolio_input_hash'') Eq (Num 64)),
       Check ''ck_proposal_content_hash'' (Compare (Len ''content_hash'') Eq (Num 64)),
       Foreign_Key [''proposal_id''] ''investment_proposals'' [''id''] Restrict,
       Foreign_Key [''created_by_user_id''] ''users'' [''id''] Restrict,
       Foreign_Key [''supersedes_version_id''] ''proposal_versions'' [''id''] Restrict,
       Unique_Key ''uq_proposal_version'' [''proposal_id'', ''version'']]\<rparr>"

definition table_proposal_lines :: sql_table where
  "table_proposal_lines = \<lparr>tab_name = ''proposal_lines'', tab_columns = [
       primary ''id'' Uuid,
       required ''proposal_version_id'' Uuid,
       required ''instrument_id'' Uuid,
       required ''action'' (Varchar 8),
       required ''current_weight'' (Numeric 28 12),
       required ''proposed_weight'' (Numeric 28 12),
       required ''estimated_notional'' (Numeric 28 4),
       required ''rationale'' (Varchar 1000)],
     tab_constraints = [
       Check ''ck_proposal_line_action'' (One_Of ''action'' [''BUY'', ''SELL'', ''EXIT'', ''HOLD'']),
       Check ''ck_proposal_line_current_weight'' (Conj (Compare (Col ''current_weight'') Ge (Num 0)) (Compare (Col ''current_weight'') Le (Num 1))),
       Check ''ck_proposal_line_proposed_weight'' (Conj (Compare (Col ''proposed_weight'') Ge (Num 0)) (Compare (Col ''proposed_weight'') Le (Num 1))),
       Check ''ck_proposal_line_notional'' (Compare (Col ''estimated_notional'') Ge (Num 0)),
       Foreign_Key [''proposal_version_id''] ''proposal_versions'' [''id''] Restrict,
       Foreign_Key [''instrument_id''] ''instruments'' [''id''] Restrict,
       Unique_Key ''uq_proposal_line_instrument'' [''proposal_version_id'', ''instrument_id'']]\<rparr>"

definition table_proposal_analyses :: sql_table where
  "table_proposal_analyses = \<lparr>tab_name = ''proposal_analyses'', tab_columns = [
       primary ''id'' Uuid,
       required ''proposal_version_id'' Uuid,
       required ''risk_evaluation_id'' Uuid,
       optional ''scenario_run_id'' Uuid,
       required ''recorded_by_user_id'' Uuid,
       required ''recorded_at'' Timestamptz,
       required ''evidence_hash'' (Varchar 64)],
     tab_constraints = [
       Check ''ck_proposal_analysis_hash'' (Compare (Len ''evidence_hash'') Eq (Num 64)),
       Foreign_Key [''proposal_version_id''] ''proposal_versions'' [''id''] Restrict,
       Foreign_Key [''risk_evaluation_id''] ''risk_evaluations'' [''id''] Restrict,
       Foreign_Key [''scenario_run_id''] ''scenario_runs'' [''id''] Restrict,
       Foreign_Key [''recorded_by_user_id''] ''users'' [''id''] Restrict,
       Unique_Key ''uq_proposal_analysis_evidence'' [''proposal_version_id'', ''evidence_hash'']]\<rparr>"

definition table_proposal_reviews :: sql_table where
  "table_proposal_reviews = \<lparr>tab_name = ''proposal_reviews'', tab_columns = [
       primary ''id'' Uuid,
       required ''proposal_id'' Uuid,
       required ''proposal_version_id'' Uuid,
       required ''reviewer_user_id'' Uuid,
       required ''reviewer_role'' (Varchar 32),
       required ''recommendation'' (Varchar 16),
       required ''comment'' (Varchar 2000),
       required ''created_at'' Timestamptz],
     tab_constraints = [
       Check ''ck_proposal_review_role'' (One_Of ''reviewer_role'' [''analyst'', ''manager'', ''advisor'']),
       Check ''ck_proposal_review_recommendation'' (One_Of ''recommendation'' [''SUPPORT'', ''OPPOSE'', ''COMMENT'']),
       Foreign_Key [''proposal_id''] ''investment_proposals'' [''id''] Restrict,
       Foreign_Key [''proposal_version_id''] ''proposal_versions'' [''id''] Restrict,
       Foreign_Key [''reviewer_user_id''] ''users'' [''id''] Restrict]\<rparr>"

definition table_proposal_transitions :: sql_table where
  "table_proposal_transitions = \<lparr>tab_name = ''proposal_transitions'', tab_columns = [
       primary ''id'' Uuid,
       required ''proposal_id'' Uuid,
       required ''proposal_version_id'' Uuid,
       required ''action'' (Varchar 24),
       optional ''from_status'' (Varchar 24),
       required ''to_status'' (Varchar 24),
       required ''actor_user_id'' Uuid,
       required ''actor_role'' (Varchar 32),
       optional ''reason'' (Varchar 2000),
       required ''decision_provenance'' Jsonb,
       required ''occurred_at'' Timestamptz,
       required ''resulting_row_version'' Integer],
     tab_constraints = [
       Check ''ck_proposal_transition_action'' (One_Of ''action'' [''CREATED'', ''REVISED'', ''ANALYZED'', ''SUBMITTED'', ''REVIEW_STARTED'', ''REVIEW_RECORDED'', ''CHANGES_REQUESTED'', ''APPROVED'', ''REJECTED'', ''WITHDRAWN'']),
       Check ''ck_proposal_transition_role'' (One_Of ''actor_role'' [''analyst'', ''manager'', ''advisor'']),
       Check ''ck_proposal_transition_version'' (Compare (Col ''resulting_row_version'') Gt (Num 0)),
       Foreign_Key [''proposal_id''] ''investment_proposals'' [''id''] Restrict,
       Foreign_Key [''proposal_version_id''] ''proposal_versions'' [''id''] Restrict,
       Foreign_Key [''actor_user_id''] ''users'' [''id''] Restrict]\<rparr>"

definition indexes_0008 :: "ddl list" where
  "indexes_0008 = [
     Create_Index \<lparr>ix_name = ''ix_proposal_transition_history'', ix_table = ''proposal_transitions'',
       ix_columns = [Asc ''proposal_id'', Asc ''occurred_at''], ix_unique = False, ix_where = None\<rparr>]"

definition triggers_0008 :: "ddl list" where
  "triggers_0008 = [
     Create_Function \<lparr>tf_name = ''protect_governance_evidence'', tf_message = ''governance evidence is immutable'',
       tf_guards = None\<rparr>,
     Create_Trigger \<lparr>tg_name = ''proposal_versions_immutable'', tg_table = ''proposal_versions'',
       tg_events = [Update_Event, Delete_Event], tg_function = ''protect_governance_evidence''\<rparr>,
     Create_Trigger \<lparr>tg_name = ''proposal_lines_immutable'', tg_table = ''proposal_lines'',
       tg_events = [Update_Event, Delete_Event], tg_function = ''protect_governance_evidence''\<rparr>,
     Create_Trigger \<lparr>tg_name = ''proposal_analyses_immutable'', tg_table = ''proposal_analyses'',
       tg_events = [Update_Event, Delete_Event], tg_function = ''protect_governance_evidence''\<rparr>,
     Create_Trigger \<lparr>tg_name = ''proposal_reviews_immutable'', tg_table = ''proposal_reviews'',
       tg_events = [Update_Event, Delete_Event], tg_function = ''protect_governance_evidence''\<rparr>,
     Create_Trigger \<lparr>tg_name = ''proposal_transitions_immutable'', tg_table = ''proposal_transitions'',
       tg_events = [Update_Event, Delete_Event], tg_function = ''protect_governance_evidence''\<rparr>,
     Create_Trigger \<lparr>tg_name = ''risk_policies_immutable'', tg_table = ''risk_policies'',
       tg_events = [Update_Event, Delete_Event], tg_function = ''protect_governance_evidence''\<rparr>,
     Create_Trigger \<lparr>tg_name = ''risk_policy_rules_immutable'', tg_table = ''risk_policy_rules'',
       tg_events = [Update_Event, Delete_Event], tg_function = ''protect_governance_evidence''\<rparr>,
     Create_Function \<lparr>tf_name = ''protect_proposal_identity'', tf_message = ''proposal identity or version invariant violated'',
       tf_guards = Some [On_Delete, Changed [''fund_id''], Changed [''created_by_user_id''], Changed [''created_at''], New_Less ''current_version'', New_Not_Successor ''row_version'']\<rparr>,
     Create_Trigger \<lparr>tg_name = ''investment_proposals_controlled_update'', tg_table = ''investment_proposals'',
       tg_events = [Update_Event, Delete_Event], tg_function = ''protect_proposal_identity''\<rparr>]"

definition upgrade_0008 :: "ddl list" where
  "upgrade_0008 = constraints_0008
     @ [Create_Table table_investment_proposals]
     @ [Create_Table table_proposal_versions]
     @ [Create_Table table_proposal_lines]
     @ [Create_Table table_proposal_analyses]
     @ [Create_Table table_proposal_reviews]
     @ [Create_Table table_proposal_transitions]
     @ indexes_0008
     @ triggers_0008"

definition downgrade_0008 :: "ddl list" where
  "downgrade_0008 = [
     Drop_Trigger True ''investment_proposals_controlled_update'' ''investment_proposals'',
     Drop_Function True ''protect_proposal_identity'',
     Drop_Trigger True ''risk_policy_rules_immutable'' ''risk_policy_rules'',
     Drop_Trigger True ''risk_policies_immutable'' ''risk_policies'',
     Drop_Trigger True ''proposal_transitions_immutable'' ''proposal_transitions'',
     Drop_Trigger True ''proposal_reviews_immutable'' ''proposal_reviews'',
     Drop_Trigger True ''proposal_analyses_immutable'' ''proposal_analyses'',
     Drop_Trigger True ''proposal_lines_immutable'' ''proposal_lines'',
     Drop_Trigger True ''proposal_versions_immutable'' ''proposal_versions'',
     Drop_Function True ''protect_governance_evidence'',
     Drop_Index ''ix_proposal_transition_history'',
     Drop_Table ''proposal_transitions'',
     Drop_Table ''proposal_reviews'',
     Drop_Table ''proposal_analyses'',
     Drop_Table ''proposal_lines'',
     Drop_Table ''proposal_versions'',
     Drop_Table ''investment_proposals'',
     Drop_Constraint ''ck_risk_policy_rule_severity'' ''risk_policy_rules'',
     Drop_Column ''risk_policy_rules'' ''severity'']"

section \<open>0009 ai intelligence\<close>

definition table_ai_conversations :: sql_table where
  "table_ai_conversations = \<lparr>tab_name = ''ai_conversations'', tab_columns = [
       primary ''id'' Uuid,
       required ''fund_id'' Uuid,
       required ''actor_user_id'' Uuid,
       required ''status'' (Varchar 16),
       required ''model'' (Varchar 80),
       required ''created_at'' Timestamptz,
       optional ''completed_at'' Timestamptz],
     tab_constraints = [
       Check ''ck_ai_conversation_status'' (One_Of ''status'' [''ACTIVE'', ''COMPLETED'', ''REFUSED'', ''FAILED'']),
       Foreign_Key [''fund_id''] ''funds'' [''id''] Restrict,
       Foreign_Key [''actor_user_id''] ''users'' [''id''] Restrict]\<rparr>"

definition table_ai_messages :: sql_table where
  "table_ai_messages = \<lparr>tab_name = ''ai_messages'', tab_columns = [
       primary ''id'' Uuid,
       required ''conversation_id'' Uuid,
       required ''role'' (Varchar 16),
       required ''content'' (Varchar 20000),
       required ''content_hash'' (Varchar 64),
       required ''citations'' Jsonb,
       optional ''provider_response_id'' (Varchar 160),
       required ''created_at'' Timestamptz],
     tab_constraints = [
       Check ''ck_ai_message_role'' (One_Of ''role'' [''USER'', ''ASSISTANT'', ''REFUSAL'']),
       Check ''ck_ai_message_hash'' (Compare (Len ''content_hash'') Eq (Num 64)),
       Foreign_Key [''conversation_id''] ''ai_conversations'' [''id''] Restrict]\<rparr>"

definition table_ai_tool_calls :: sql_table where
  "table_ai_tool_calls = \<lparr>tab_name = ''ai_tool_calls'', tab_columns = [
       primary ''id'' Uuid,
       required ''conversation_id'' Uuid,
       required ''provider_call_id'' (Varchar 160),
       required ''tool_name'' (Varchar 80),
       required ''arguments'' Jsonb,
       required ''status'' (Varchar 16),
       optional ''result'' Jsonb,
       optional ''result_hash'' (Varchar 64),
       required ''sources'' Jsonb,
       optional ''error'' (Varchar 2000),
       required ''occurred_at'' Timestamptz],
     tab_constraints = [
       Check ''ck_ai_tool_call_status'' (One_Of ''status'' [''SUCCEEDED'', ''UNAVAILABLE'', ''DENIED'', ''INVALID'']),
       Check ''ck_ai_tool_result_hash'' (Disj (Is_Null ''result_hash'') (Compare (Len ''result_hash'') Eq (Num 64))),
       Foreign_Key [''conversation_id''] ''ai_conversations'' [''id''] Restrict,
       Unique_Key ''uq_ai_tool_call'' [''conversation_id'', ''provider_call_id'']]\<rparr>"

definition indexes_0009 :: "ddl list" where
  "indexes_0009 = [
     Create_Index \<lparr>ix_name = ''ix_ai_conversation_history'', ix_table = ''ai_conversations'',
       ix_columns = [Asc ''fund_id'', Asc ''actor_user_id'', Asc ''created_at''], ix_unique = False, ix_where = None\<rparr>,
     Create_Index \<lparr>ix_name = ''ix_ai_message_history'', ix_table = ''ai_messages'',
       ix_columns = [Asc ''conversation_id'', Asc ''created_at''], ix_unique = False, ix_where = None\<rparr>,
     Create_Index \<lparr>ix_name = ''ix_ai_tool_call_history'', ix_table = ''ai_tool_calls'',
       ix_columns = [Asc ''conversation_id'', Asc ''occurred_at''], ix_unique = False, ix_where = None\<rparr>]"

definition triggers_0009 :: "ddl list" where
  "triggers_0009 = [
     Create_Function \<lparr>tf_name = ''protect_ai_evidence'', tf_message = ''AI evidence is immutable'',
       tf_guards = None\<rparr>,
     Create_Trigger \<lparr>tg_name = ''ai_messages_immutable'', tg_table = ''ai_messages'',
       tg_events = [Update_Event, Delete_Event], tg_function = ''protect_ai_evidence''\<rparr>,
     Create_Trigger \<lparr>tg_name = ''ai_tool_calls_immutable'', tg_table = ''ai_tool_calls'',
       tg_events = [Update_Event, Delete_Event], tg_function = ''protect_ai_evidence''\<rparr>,
     Create_Function \<lparr>tf_name = ''protect_ai_conversation'', tf_message = ''AI conversation invariant violated'',
       tf_guards = Some [On_Delete, Changed [''fund_id''], Changed [''actor_user_id''], Changed [''model''], Changed [''created_at''], Old_Not ''status'' ''ACTIVE'', New_Not_In ''status'' [''COMPLETED'', ''REFUSED'', ''FAILED''], New_Null ''completed_at'']\<rparr>,
     Create_Trigger \<lparr>tg_name = ''ai_conversations_controlled_update'', tg_table = ''ai_conversations'',
       tg_events = [Update_Event, Delete_Event], tg_function = ''protect_ai_conversation''\<rparr>]"

definition upgrade_0009 :: "ddl list" where
  "upgrade_0009 = [Create_Table table_ai_conversations]
     @ [Create_Table table_ai_messages]
     @ [Create_Table table_ai_tool_calls]
     @ indexes_0009
     @ triggers_0009"

definition downgrade_0009 :: "ddl list" where
  "downgrade_0009 = [
     Drop_Trigger True ''ai_conversations_controlled_update'' ''ai_conversations'',
     Drop_Function True ''protect_ai_conversation'',
     Drop_Trigger True ''ai_tool_calls_immutable'' ''ai_tool_calls'',
     Drop_Trigger True ''ai_messages_immutable'' ''ai_messages'',
     Drop_Function True ''protect_ai_evidence'',
     Drop_Index ''ix_ai_tool_call_history'',
     Drop_Index ''ix_ai_message_history'',
     Drop_Index ''ix_ai_conversation_history'',
     Drop_Table ''ai_tool_calls'',
     Drop_Table ''ai_messages'',
     Drop_Table ''ai_conversations'']"

section \<open>The chain\<close>

text \<open>The revisions in the order of their \<open>down_revision\<close>, each with its way back.\<close>

definition revisions :: "(string \<times> ddl list \<times> ddl list) list" where
  "revisions = [
     (''0001_phase0_baseline'', upgrade_0001, downgrade_0001),
     (''0002_ledger_foundation'', upgrade_0002, downgrade_0002),
     (''0003_import_provenance'', upgrade_0003, downgrade_0003),
     (''0004_snapshots_reconciliation'', upgrade_0004, downgrade_0004),
     (''0005_market_data_valuation'', upgrade_0005, downgrade_0005),
     (''0006_analytics_risk_controls'', upgrade_0006, downgrade_0006),
     (''0007_scenario_stress_testing'', upgrade_0007, downgrade_0007),
     (''0008_investment_governance'', upgrade_0008, downgrade_0008),
     (''0009_ai_intelligence'', upgrade_0009, downgrade_0009)]"

end
