(* ===== verification/Migration_Properties.thy ===== *)
theory Migration_Properties
  imports Migrations
begin

text \<open>
  The chain of revisions. A creating statement that succeeds has an inverse, and every downgrade is
  the list of the inverses of its upgrade; the chain runs from the empty catalog, revision by
  revision, to \<open>catalog_0009\<close>, whose tables and unique indexes are the lemmas at the end.
\<close>

section \<open>Creating statements and their inverses\<close>

text \<open>What a creating statement adds, where its checks pass.\<close>

fun enlarge :: "catalog \<Rightarrow> ddl \<Rightarrow> catalog" where
  "enlarge c (Create_Table t) = c\<lparr>cat_tables := cat_tables c @ [t]\<rparr>"
| "enlarge c (Create_Index i) = c\<lparr>cat_indexes := cat_indexes c @ [i]\<rparr>"
| "enlarge c (Add_Column n col) = map_table n (\<lambda>t. t\<lparr>tab_columns := tab_columns t @ [col]\<rparr>) c"
| "enlarge c (Create_Check n table cond) = map_table table (\<lambda>t. t\<lparr>tab_constraints := tab_constraints t @ [Check n cond]\<rparr>) c"
| "enlarge c (Create_Function f) = c\<lparr>cat_functions := cat_functions c @ [f]\<rparr>"
| "enlarge c (Create_Trigger g) = c\<lparr>cat_triggers := cat_triggers c @ [g]\<rparr>"
| "enlarge c _ = c"

fun new_relations :: "ddl \<Rightarrow> string list" where
  "new_relations (Create_Table t) = table_relations t"
| "new_relations (Create_Index i) = [ix_name i]"
| "new_relations _ = []"

definition function_names :: "catalog \<Rightarrow> string set" where
  "function_names c = tf_name ` set (cat_functions c)"

definition trigger_names :: "catalog \<Rightarrow> (string \<times> string) set" where
  "trigger_names c = (\<lambda>g. (tg_name g, tg_table g)) ` set (cat_triggers c)"

fun creatable :: "catalog \<Rightarrow> ddl \<Rightarrow> bool" where
  "creatable c (Create_Table t) \<longleftrightarrow> distinct (table_relations t)
     \<and> list_all (\<lambda>n. n \<notin> set (relation_names c)) (table_relations t) \<and> columns_ok t
     \<and> list_all (reference_ok c t) (table_references t)"
| "creatable c (Create_Index i) \<longleftrightarrow> (case find_table c (ix_table i) of None \<Rightarrow> False
     | Some t \<Rightarrow> list_all (\<lambda>k. index_column_name k \<in> set (column_names t)) (ix_columns i))
     \<and> ix_name i \<notin> set (relation_names c)"
| "creatable c (Add_Column n col) \<longleftrightarrow> (case find_table c n of None \<Rightarrow> False
     | Some t \<Rightarrow> col_name col \<notin> set (column_names t))"
| "creatable c (Create_Check n table cond) \<longleftrightarrow> (case find_table c table of None \<Rightarrow> False
     | Some t \<Rightarrow> Some n \<notin> set (map constraint_name (tab_constraints t)))"
| "creatable c (Create_Function f) \<longleftrightarrow> tf_name f \<notin> function_names c"
| "creatable c (Create_Trigger g) \<longleftrightarrow> find_table c (tg_table g) \<noteq> None \<and> tg_function g \<in> function_names c
     \<and> (tg_name g, tg_table g) \<notin> trigger_names c"
| "creatable c _ \<longleftrightarrow> False"

fun creates :: "ddl \<Rightarrow> bool" where
  "creates (Drop_Table n) = False" | "creates (Drop_Index n) = False"
| "creates (Drop_Column t n) = False" | "creates (Drop_Constraint n t) = False"
| "creates (Drop_Function b n) = False" | "creates (Drop_Trigger b n t) = False"
| "creates _ = True"

lemma apply_ddl_creates:
  "creates d \<Longrightarrow> apply_ddl c d = Inr c' \<longleftrightarrow> creatable c d \<and> c' = enlarge c d"
  by (cases d) (auto simp: the_table_def function_names_def trigger_names_def result_simps split: option.splits)

text \<open>The names a foreign key, an index and a trigger refer to exist; no two tables share a name.\<close>

definition catalog_ok :: "catalog \<Rightarrow> bool" where
  "catalog_ok c \<longleftrightarrow> distinct (map tab_name (cat_tables c))
     \<and> (\<forall>t \<in> set (cat_tables c). fst ` set (table_references t) \<subseteq> tab_name ` set (cat_tables c))
     \<and> ix_table ` set (cat_indexes c) \<subseteq> tab_name ` set (cat_tables c)
     \<and> tg_table ` set (cat_triggers c) \<subseteq> tab_name ` set (cat_tables c)
     \<and> tg_function ` set (cat_triggers c) \<subseteq> function_names c"

text \<open>The inverse; \<open>b\<close> is its IF EXISTS.\<close>

fun undo :: "bool \<Rightarrow> ddl \<Rightarrow> ddl" where
  "undo b (Create_Table t) = Drop_Table (tab_name t)"
| "undo b (Create_Index i) = Drop_Index (ix_name i)"
| "undo b (Add_Column t c) = Drop_Column t (col_name c)"
| "undo b (Create_Check n t c) = Drop_Constraint n t"
| "undo b (Create_Function f) = Drop_Function b (tf_name f)"
| "undo b (Create_Trigger g) = Drop_Trigger b (tg_name g) (tg_table g)"
| "undo b d = d"

lemma filter_fresh: "n \<notin> f ` set xs \<Longrightarrow> filter (\<lambda>x. f x \<noteq> n) xs = xs"
  by (induction xs) auto

lemma tab_name_relation: "t \<in> set (cat_tables c) \<Longrightarrow> tab_name t \<in> set (relation_names c)"
  by (auto simp: relation_names_def table_relations_def)

lemma find_table_Some: "find_table c n = Some t \<Longrightarrow> t \<in> set (cat_tables c) \<and> tab_name t = n"
  by (auto simp: find_table_def find_Some_iff)

lemma find_table_name: "find_table c n \<noteq> None \<Longrightarrow> n \<in> tab_name ` set (cat_tables c)"
  by (auto dest: find_table_Some)

lemma map_table_simps [simp]:
  "cat_indexes (map_table n f c) = cat_indexes c" "cat_triggers (map_table n f c) = cat_triggers c"
  "cat_functions (map_table n f c) = cat_functions c"
  "cat_tables (map_table n f c) = map (\<lambda>t. if tab_name t = n then f t else t) (cat_tables c)"
  by (simp_all add: map_table_def)

lemma table_references_simps [simp]:
  "table_references (t\<lparr>tab_columns := cs\<rparr>) = table_references t"
  "table_references (t\<lparr>tab_constraints := ks @ [Check n b]\<rparr>) = table_references (t\<lparr>tab_constraints := ks\<rparr>)"
  "table_references (t\<lparr>tab_constraints := tab_constraints t\<rparr>) = table_references t"
  by (simp_all add: table_references_def List.map_filter_def)

lemma reference_ok_name: "reference_ok c t r \<Longrightarrow> fst r \<in> insert (tab_name t) (tab_name ` set (cat_tables c))"
  by (cases r) (auto split: option.splits if_splits dest!: find_table_Some)

lemma fresh_table: "creatable c (Create_Table t) \<Longrightarrow> tab_name t \<notin> tab_name ` set (cat_tables c)"
  by (auto simp: table_relations_def dest: tab_name_relation)

lemma map_table_ok:
  assumes "\<And>t. tab_name (f t) = tab_name t" and "\<And>t. table_references (f t) = table_references t"
  shows "catalog_ok (map_table n f c) = catalog_ok c"
proof -
  have names: "tab_name ` set (cat_tables (map_table n f c)) = tab_name ` set (cat_tables c)"
    "map tab_name (cat_tables (map_table n f c)) = map tab_name (cat_tables c)"
    by (auto simp: image_image image_Un assms comp_def)
  have "(\<forall>t \<in> set (cat_tables (map_table n f c)). fst ` set (table_references t) \<subseteq> S)
      = (\<forall>t \<in> set (cat_tables c). fst ` set (table_references t) \<subseteq> S)" for S
    unfolding map_table_simps set_map ball_simps by (rule ball_cong) (auto simp: assms)
  with names show ?thesis by (simp only: catalog_ok_def function_names_def map_table_simps(1,2,3) if_True)
qed

lemma find_table_unique:
  assumes "catalog_ok c" and "find_table c n = Some t" and "t' \<in> set (cat_tables c)" and "tab_name t' = n"
  shows "t' = t"
  using assms find_table_Some [OF assms(2)] by (auto simp: catalog_ok_def distinct_map inj_on_def)

lemma map_table_undo:
  assumes "catalog_ok c" and "find_table c n = Some t" and "\<And>t. tab_name (f t) = tab_name t" and "g (f t) = t"
  shows "map_table n g (map_table n f c) = c"
proof -
  have "map ((\<lambda>t. if tab_name t = n then g t else t) \<circ> (\<lambda>t. if tab_name t = n then f t else t)) (cat_tables c)
      = cat_tables c"
    by (rule map_idI) (use assms find_table_unique [OF assms(1,2)] in auto)
  then show ?thesis by (simp add: map_table_def)
qed

lemma find_table_map_table:
  "(\<And>t. tab_name (f t) = tab_name t) \<Longrightarrow>
     find_table (map_table n f c) m = map_option (\<lambda>t. if tab_name t = n then f t else t) (find_table c m)"
proof -
  assume "\<And>t. tab_name (f t) = tab_name t"
  then have "find (\<lambda>t. tab_name t = m) (map (\<lambda>t. if tab_name t = n then f t else t) ts)
      = map_option (\<lambda>t. if tab_name t = n then f t else t) (find (\<lambda>t. tab_name t = m) ts)" for ts
    by (induction ts) auto
  then show ?thesis by (simp add: find_table_def)
qed

lemma enlarge_catalog_ok:
  assumes "catalog_ok c" and "creatable c d"
  shows "catalog_ok (enlarge c d)"
proof (cases d)
  case (Create_Table t)
  have "list_all (\<lambda>r. fst r \<in> insert (tab_name t) (tab_name ` set (cat_tables c))) (table_references t)"
    using assms(2) by (auto simp: Create_Table list_all_iff dest!: reference_ok_name simp del: reference_ok.simps)
  then have "fst ` set (table_references t) \<subseteq> insert (tab_name t) (tab_name ` set (cat_tables c))"
    by (auto simp: list_all_iff)
  moreover have "tab_name t \<notin> tab_name ` set (cat_tables c)"
    by (rule fresh_table) (use assms(2) Create_Table in simp)
  moreover have "A \<subseteq> B \<Longrightarrow> A \<subseteq> insert x B" for A B :: "string set" and x
    by blast
  ultimately show ?thesis using assms(1)
    by (simp add: Create_Table catalog_ok_def function_names_def)
next
  case (Create_Index i)
  then have "ix_table i \<in> tab_name ` set (cat_tables c)"
    using assms(2) by (intro find_table_name) (auto split: option.splits)
  then show ?thesis using assms(1) by (simp add: Create_Index catalog_ok_def function_names_def)
next
  case (Create_Function f)
  then show ?thesis using assms(1) by (auto simp: catalog_ok_def function_names_def)
next
  case (Create_Trigger g)
  then have "tg_table g \<in> tab_name ` set (cat_tables c) \<and> tg_function g \<in> function_names c"
    using assms(2) by (intro conjI find_table_name) auto
  then show ?thesis using assms(1) by (simp add: Create_Trigger catalog_ok_def function_names_def)
qed (use assms in \<open>auto simp: map_table_ok\<close>)

lemma undo_enlarge:
  assumes "catalog_ok c" and "creatable c d"
  shows "apply_ddl (enlarge c d) (undo b d) = Inr c"
proof (cases d)
  case (Create_Table t)
  have fresh: "tab_name t \<notin> tab_name ` set (cat_tables c)"
    by (rule fresh_table) (use assms(2) Create_Table in simp)
  then have "find (\<lambda>t'. tab_name t' = tab_name t) (cat_tables c @ [t]) \<noteq> None"
    by (auto simp: find_None_iff)
  moreover have "filter (\<lambda>t'. tab_name t' \<noteq> tab_name t) (cat_tables c) = cat_tables c"
       "filter (\<lambda>i. ix_table i \<noteq> tab_name t) (cat_indexes c) = cat_indexes c"
       "filter (\<lambda>g. tg_table g \<noteq> tab_name t) (cat_triggers c) = cat_triggers c"
    using assms(1) fresh by (auto simp: catalog_ok_def intro!: filter_fresh)
  moreover have "\<not> list_ex (\<lambda>t'. tab_name t' \<noteq> tab_name t \<and> refers_to (tab_name t) t') (cat_tables c)"
    using assms(1) fresh by (auto simp: catalog_ok_def refers_to_def list_ex_iff)
  ultimately show ?thesis
    by (auto simp: Create_Table the_table_def find_table_def split: option.splits)
next
  case (Create_Index i)
  have "ix_name i \<notin> ix_name ` set (cat_indexes c)"
    using assms(2) by (auto simp: Create_Index relation_names_def)
  then have "filter (\<lambda>j. ix_name j \<noteq> ix_name i) (cat_indexes c) = cat_indexes c"
    by (rule filter_fresh)
  then show ?thesis by (simp add: Create_Index)
next
  case (Add_Column n col)
  then obtain t where t: "find_table c n = Some t" "col_name col \<notin> set (column_names t)"
    using assms(2) by (auto split: option.splits)
  then have "filter (\<lambda>k. col_name k \<noteq> col_name col) (tab_columns t) = tab_columns t"
    by (simp add: filter_fresh column_names_def)
  with t find_table_Some [OF t(1)] show ?thesis
    by (simp add: Add_Column the_table_def find_table_map_table column_names_def map_table_undo [OF assms(1)])
next
  case (Create_Check k n cond)
  then obtain t where t: "find_table c n = Some t" "Some k \<notin> constraint_name ` set (tab_constraints t)"
    using assms(2) by (auto split: option.splits)
  then have "filter (\<lambda>k'. constraint_name k' \<noteq> Some k) (tab_constraints t) = tab_constraints t"
    by (intro filter_fresh) simp
  with t find_table_Some [OF t(1)] show ?thesis
    by (simp add: Create_Check the_table_def find_table_map_table map_table_undo [OF assms(1)])
next
  case (Create_Function f)
  have "tf_name f \<notin> tf_name ` set (cat_functions c)" using assms(2) by (simp add: Create_Function function_names_def)
  moreover from this have "filter (\<lambda>g. tf_name g \<noteq> tf_name f) (cat_functions c) = cat_functions c"
    by (rule filter_fresh)
  moreover have "tf_name f \<notin> tg_function ` set (cat_triggers c)"
    using assms by (auto simp: Create_Function catalog_ok_def)
  ultimately show ?thesis by (simp add: Create_Function)
next
  case (Create_Trigger g)
  have "filter (\<lambda>h. (tg_name h, tg_table h) \<noteq> (tg_name g, tg_table g)) (cat_triggers c) = cat_triggers c"
    using assms(2) by (intro filter_fresh) (simp add: Create_Trigger trigger_names_def)
  then show ?thesis by (simp add: Create_Trigger)
qed (use assms in auto)

lemma undo_all:
  assumes "catalog_ok c" and "list_all creates ds" and "apply_all c ds = Inr c'"
    and "list_all2 (\<lambda>d u. \<exists>b. u = undo b d) ds us"
  shows "catalog_ok c' \<and> apply_all c' (rev us) = Inr c"
  using assms(4,1-3)
proof (induction arbitrary: c rule: list_all2_induct)
  case (Cons d ds u us)
  then obtain b where u: "u = undo b d" by blast
  have d: "creatable c d" "apply_all (enlarge c d) ds = Inr c'"
    using Cons.prems by (auto simp: apply_all_def apply_ddl_creates result_simps)
  then have "catalog_ok c' \<and> apply_all c' (rev us) = Inr (enlarge c d)"
    using Cons.prems enlarge_catalog_ok [OF _ d(1)] by (intro Cons.IH) auto
  then show ?case using d(1) Cons.prems(1)
    by (simp add: apply_all_def foldR_snoc u undo_enlarge)
qed (simp add: apply_all_def)

section \<open>Successive statements\<close>

fun creatable_all :: "catalog \<Rightarrow> ddl list \<Rightarrow> bool" where
  "creatable_all c [] = True"
| "creatable_all c (d # ds) = (creatable c d \<and> creatable_all (enlarge c d) ds)"

lemma creatable_creates: "creatable c d \<Longrightarrow> creates d"
  by (cases d) auto

lemma apply_creatable: "creatable_all c ds \<Longrightarrow> apply_all c ds = Inr (foldl enlarge c ds)"
proof (induction ds arbitrary: c)
  case (Cons d ds)
  then have d: "creatable c d" by simp
  then have "apply_ddl c d = Inr (enlarge c d)" by (simp add: apply_ddl_creates [OF creatable_creates [OF d]])
  with Cons show ?case by (simp add: apply_all_def)
qed (simp add: apply_all_def)

lemma table_relations_simps [simp]:
  "table_relations (t\<lparr>tab_columns := cs\<rparr>) = table_relations t"
  "table_relations (t\<lparr>tab_constraints := tab_constraints t @ [Check n b]\<rparr>) = table_relations t"
  "table_relations (t\<lparr>tab_columns := cs, tab_constraints := tab_constraints t @ [Check n b]\<rparr>) = table_relations t"
  by (simp_all add: table_relations_def List.map_filter_def)

lemma relations_enlarge: "set (relation_names (enlarge c d)) = set (new_relations d) \<union> set (relation_names c)"
  by (cases d) (auto simp: relation_names_def split: if_splits)

lemma functions_enlarge:
  "function_names (enlarge c (Create_Table t)) = function_names c"
  "function_names (enlarge c (Create_Index i)) = function_names c"
  "function_names (enlarge c (Add_Column n col)) = function_names c"
  "function_names (enlarge c (Create_Check n tab b)) = function_names c"
  "function_names (enlarge c (Create_Function f)) = insert (tf_name f) (function_names c)"
  "function_names (enlarge c (Create_Trigger g)) = function_names c"
  by (simp_all add: function_names_def)

lemma triggers_enlarge:
  "trigger_names (enlarge c (Create_Table t)) = trigger_names c"
  "trigger_names (enlarge c (Create_Index i)) = trigger_names c"
  "trigger_names (enlarge c (Add_Column n col)) = trigger_names c"
  "trigger_names (enlarge c (Create_Check n tab b)) = trigger_names c"
  "trigger_names (enlarge c (Create_Function f)) = trigger_names c"
  "trigger_names (enlarge c (Create_Trigger g)) = insert (tg_name g, tg_table g) (trigger_names c)"
  by (simp_all add: trigger_names_def)

lemma find_table_enlarge:
  "find_table (enlarge c (Create_Table t)) n =
     (case find_table c n of None \<Rightarrow> if tab_name t = n then Some t else None | Some t' \<Rightarrow> Some t')"
  "find_table (enlarge c (Create_Index i)) n = find_table c n"
  "find_table (enlarge c (Add_Column m col)) n =
     map_option (\<lambda>t. if tab_name t = m then t\<lparr>tab_columns := tab_columns t @ [col]\<rparr> else t) (find_table c n)"
  "find_table (enlarge c (Create_Check k m b)) n =
     map_option (\<lambda>t. if tab_name t = m then t\<lparr>tab_constraints := tab_constraints t @ [Check k b]\<rparr> else t) (find_table c n)"
  "find_table (enlarge c (Create_Function f)) n = find_table c n"
  "find_table (enlarge c (Create_Trigger g)) n = find_table c n"
proof -
  have "find P (xs @ [x]) = (case find P xs of None \<Rightarrow> if P x then Some x else None | Some y \<Rightarrow> Some y)"
    for P and xs :: "sql_table list" and x
    by (induction xs) auto
  then show "find_table (enlarge c (Create_Table t)) n =
     (case find_table c n of None \<Rightarrow> if tab_name t = n then Some t else None | Some t' \<Rightarrow> Some t')"
    by (simp add: find_table_def)
qed (auto simp: find_table_map_table, auto simp: find_table_def)

lemma tables_enlarge:
  "cat_tables (enlarge c (Create_Table t)) = cat_tables c @ [t]"
  "cat_tables (enlarge c (Create_Index i)) = cat_tables c"
  "cat_tables (enlarge c (Add_Column m col)) =
     map (\<lambda>t. if tab_name t = m then t\<lparr>tab_columns := tab_columns t @ [col]\<rparr> else t) (cat_tables c)"
  "cat_tables (enlarge c (Create_Check k m b)) =
     map (\<lambda>t. if tab_name t = m then t\<lparr>tab_constraints := tab_constraints t @ [Check k b]\<rparr> else t) (cat_tables c)"
  "cat_tables (enlarge c (Create_Function f)) = cat_tables c"
  "cat_tables (enlarge c (Create_Trigger g)) = cat_tables c"
  by simp_all

lemmas enlarge_simps = relations_enlarge functions_enlarge triggers_enlarge find_table_enlarge tables_enlarge

declare enlarge.simps [simp del]

section \<open>The names of the tables\<close>

named_theorems schema_facts \<open>names, columns and keys of the tables, and the objects of each catalog\<close>

lemma table_funds_facts [schema_facts]:
  "tab_name table_funds = ''funds''"
  "table_relations table_funds = [''funds'']"
  "column_names table_funds = [''id'', ''slug'', ''name'', ''base_currency'', ''timezone'', ''created_at'']"
  "table_keys table_funds = [[''id''], [''slug'']]"
  "table_references table_funds = []"
  "columns_ok table_funds"
  by (simp_all add: table_funds_def table_relations_def column_names_def table_keys_def column_kinds columns_ok_def
    table_references_def List.map_filter_def)

lemma table_roles_facts [schema_facts]:
  "tab_name table_roles = ''roles''"
  "table_relations table_roles = [''roles'']"
  "column_names table_roles = [''id'', ''code'', ''name'']"
  "table_keys table_roles = [[''id''], [''code'']]"
  "table_references table_roles = []"
  "columns_ok table_roles"
  by (simp_all add: table_roles_def table_relations_def column_names_def table_keys_def column_kinds columns_ok_def
    table_references_def List.map_filter_def)

lemma table_users_facts [schema_facts]:
  "tab_name table_users = ''users''"
  "table_relations table_users = [''users'']"
  "column_names table_users = [''id'', ''email'', ''display_name'', ''is_active'', ''created_at'']"
  "table_keys table_users = [[''id''], [''email'']]"
  "table_references table_users = []"
  "columns_ok table_users"
  by (simp_all add: table_users_def table_relations_def column_names_def table_keys_def column_kinds columns_ok_def
    table_references_def List.map_filter_def)

lemma table_user_roles_facts [schema_facts]:
  "tab_name table_user_roles = ''user_roles''"
  "table_relations table_user_roles = [''user_roles'']"
  "column_names table_user_roles = [''user_id'', ''role_id'', ''fund_id'']"
  "table_keys table_user_roles = [[''user_id'', ''role_id'', ''fund_id'']]"
  "table_references table_user_roles = [(''users'', [''id'']), (''roles'', [''id'']), (''funds'', [''id''])]"
  "columns_ok table_user_roles"
  by (simp_all add: table_user_roles_def table_relations_def column_names_def table_keys_def column_kinds columns_ok_def
    table_references_def List.map_filter_def)

lemma table_instruments_facts [schema_facts]:
  "tab_name table_instruments = ''instruments''"
  "table_relations table_instruments = [''instruments'', ''uq_instruments_symbol_exchange'']"
  "column_names table_instruments = [''id'', ''symbol'', ''name'', ''asset_type'', ''exchange'', ''currency'', ''is_active'']"
  "table_keys table_instruments = [[''id''], [''symbol'', ''exchange'']]"
  "table_references table_instruments = []"
  "columns_ok table_instruments"
  by (simp_all add: table_instruments_def table_relations_def column_names_def table_keys_def column_kinds columns_ok_def
    table_references_def List.map_filter_def)

lemma table_accounts_facts [schema_facts]:
  "tab_name table_accounts = ''accounts''"
  "table_relations table_accounts = [''accounts'', ''uq_accounts_fund_code'', ''uq_accounts_id_fund'']"
  "column_names table_accounts = [''id'', ''fund_id'', ''code'', ''name'', ''currency'', ''created_at'']"
  "table_keys table_accounts = [[''id''], [''fund_id'', ''code''], [''id'', ''fund_id'']]"
  "table_references table_accounts = [(''funds'', [''id''])]"
  "columns_ok table_accounts"
  by (simp_all add: table_accounts_def table_relations_def column_names_def table_keys_def column_kinds columns_ok_def
    table_references_def List.map_filter_def)

lemma table_import_batches_facts [schema_facts]:
  "tab_name table_import_batches = ''import_batches''"
  "table_relations table_import_batches = [''import_batches'', ''uq_import_batches_content'']"
  "column_names table_import_batches = [''id'', ''fund_id'', ''source'', ''filename'', ''content_sha256'', ''parser_version'', ''status'', ''initiated_by_user_id'', ''received_at'', ''completed_at'', ''total_count'', ''posted_count'', ''duplicate_count'', ''rejected_count'', ''conflict_count'', ''failure_summary'']"
  "table_keys table_import_batches = [[''id''], [''fund_id'', ''source'', ''content_sha256'']]"
  "table_references table_import_batches = [(''funds'', [''id'']), (''users'', [''id''])]"
  "columns_ok table_import_batches"
  by (simp_all add: table_import_batches_def table_relations_def column_names_def table_keys_def column_kinds columns_ok_def
    table_references_def List.map_filter_def)

lemma table_transactions_facts [schema_facts]:
  "tab_name table_transactions = ''transactions''"
  "table_relations table_transactions = [''transactions'', ''uq_transactions_source_identity'', ''uq_transactions_one_reversal'']"
  "column_names table_transactions = [''id'', ''fund_id'', ''account_id'', ''instrument_id'', ''transaction_type'', ''quantity'', ''unit_price'', ''amount'', ''fees'', ''currency'', ''effective_at'', ''recorded_at'', ''trade_date'', ''settlement_date'', ''source'', ''external_id'', ''normalized_payload_hash'', ''status'', ''import_batch_id'', ''created_by_user_id'', ''reverses_transaction_id'', ''correction_command_id'', ''description'', ''source_metadata'']"
  "table_keys table_transactions = [[''id''], [''fund_id'', ''source'', ''external_id''], [''reverses_transaction_id'']]"
  "table_references table_transactions = [(''funds'', [''id'']), (''accounts'', [''id'', ''fund_id'']), (''instruments'', [''id'']), (''import_batches'', [''id'']), (''users'', [''id'']), (''transactions'', [''id''])]"
  "columns_ok table_transactions"
  by (simp_all add: table_transactions_def table_relations_def column_names_def table_keys_def column_kinds columns_ok_def
    table_references_def List.map_filter_def)

lemma table_import_conflicts_facts [schema_facts]:
  "tab_name table_import_conflicts = ''import_conflicts''"
  "table_relations table_import_conflicts = [''import_conflicts'', ''uq_import_conflicts_evidence'']"
  "column_names table_import_conflicts = [''id'', ''fund_id'', ''import_batch_id'', ''existing_transaction_id'', ''source'', ''external_id'', ''existing_payload_hash'', ''incoming_payload_hash'', ''incoming_payload'', ''detected_at'']"
  "table_keys table_import_conflicts = [[''id''], [''import_batch_id'', ''source'', ''external_id'', ''incoming_payload_hash'']]"
  "table_references table_import_conflicts = [(''funds'', [''id'']), (''import_batches'', [''id'']), (''transactions'', [''id''])]"
  "columns_ok table_import_conflicts"
  by (simp_all add: table_import_conflicts_def table_relations_def column_names_def table_keys_def column_kinds columns_ok_def
    table_references_def List.map_filter_def)

lemma table_import_records_facts [schema_facts]:
  "tab_name table_import_records = ''import_records''"
  "table_relations table_import_records = [''import_records'', ''uq_import_records_batch_row'']"
  "column_names table_import_records = [''id'', ''import_batch_id'', ''row_number'', ''source_locator'', ''raw_payload'', ''normalized_payload'', ''raw_payload_hash'', ''status'', ''transaction_id'', ''import_conflict_id'', ''error_code'', ''error_message'', ''created_at'']"
  "table_keys table_import_records = [[''id''], [''import_batch_id'', ''row_number'']]"
  "table_references table_import_records = [(''import_batches'', [''id'']), (''transactions'', [''id'']), (''import_conflicts'', [''id''])]"
  "columns_ok table_import_records"
  by (simp_all add: table_import_records_def table_relations_def column_names_def table_keys_def column_kinds columns_ok_def
    table_references_def List.map_filter_def)

lemma table_audit_events_facts [schema_facts]:
  "tab_name table_audit_events = ''audit_events''"
  "table_relations table_audit_events = [''audit_events'']"
  "column_names table_audit_events = [''id'', ''fund_id'', ''actor_user_id'', ''action'', ''entity_type'', ''entity_id'', ''occurred_at'', ''details'']"
  "table_keys table_audit_events = [[''id'']]"
  "table_references table_audit_events = [(''funds'', [''id'']), (''users'', [''id''])]"
  "columns_ok table_audit_events"
  by (simp_all add: table_audit_events_def table_relations_def column_names_def table_keys_def column_kinds columns_ok_def
    table_references_def List.map_filter_def)

lemma table_portfolio_snapshots_facts [schema_facts]:
  "tab_name table_portfolio_snapshots = ''portfolio_snapshots''"
  "table_relations table_portfolio_snapshots = [''portfolio_snapshots'']"
  "column_names table_portfolio_snapshots = [''id'', ''fund_id'', ''account_id'', ''as_of'', ''revision'', ''status'', ''calculation_version'', ''canonical_input_hash'', ''canonical_state'', ''applied_transaction_count'', ''last_applied_transaction_id'', ''supersedes_snapshot_id'', ''created_at'']"
  "table_keys table_portfolio_snapshots = [[''id'']]"
  "table_references table_portfolio_snapshots = [(''funds'', [''id'']), (''accounts'', [''id'']), (''transactions'', [''id'']), (''portfolio_snapshots'', [''id''])]"
  "columns_ok table_portfolio_snapshots"
  by (simp_all add: table_portfolio_snapshots_def table_relations_def column_names_def table_keys_def column_kinds columns_ok_def
    table_references_def List.map_filter_def)

lemma table_snapshot_cash_facts [schema_facts]:
  "tab_name table_snapshot_cash = ''snapshot_cash''"
  "table_relations table_snapshot_cash = [''snapshot_cash'', ''uq_snapshot_cash'']"
  "column_names table_snapshot_cash = [''id'', ''snapshot_id'', ''account_id'', ''currency'', ''amount'']"
  "table_keys table_snapshot_cash = [[''id''], [''snapshot_id'', ''account_id'', ''currency'']]"
  "table_references table_snapshot_cash = [(''portfolio_snapshots'', [''id'']), (''accounts'', [''id''])]"
  "columns_ok table_snapshot_cash"
  by (simp_all add: table_snapshot_cash_def table_relations_def column_names_def table_keys_def column_kinds columns_ok_def
    table_references_def List.map_filter_def)

lemma table_snapshot_positions_facts [schema_facts]:
  "tab_name table_snapshot_positions = ''snapshot_positions''"
  "table_relations table_snapshot_positions = [''snapshot_positions'', ''uq_snapshot_position'']"
  "column_names table_snapshot_positions = [''id'', ''snapshot_id'', ''account_id'', ''instrument_id'', ''quantity'', ''total_cost_basis'', ''average_cost'', ''cost_basis_status'', ''source_transaction_ids'']"
  "table_keys table_snapshot_positions = [[''id''], [''snapshot_id'', ''account_id'', ''instrument_id'']]"
  "table_references table_snapshot_positions = [(''portfolio_snapshots'', [''id'']), (''accounts'', [''id'']), (''instruments'', [''id''])]"
  "columns_ok table_snapshot_positions"
  by (simp_all add: table_snapshot_positions_def table_relations_def column_names_def table_keys_def column_kinds columns_ok_def
    table_references_def List.map_filter_def)

lemma table_reconciliation_observations_facts [schema_facts]:
  "tab_name table_reconciliation_observations = ''reconciliation_observations''"
  "table_relations table_reconciliation_observations = [''reconciliation_observations'', ''uq_reconciliation_observation_source'']"
  "column_names table_reconciliation_observations = [''id'', ''fund_id'', ''account_id'', ''as_of'', ''kind'', ''instrument_id'', ''reported_value'', ''currency'', ''source'', ''external_id'', ''import_batch_id'', ''evidence'', ''recorded_at'']"
  "table_keys table_reconciliation_observations = [[''id''], [''fund_id'', ''source'', ''external_id'']]"
  "table_references table_reconciliation_observations = [(''funds'', [''id'']), (''accounts'', [''id'']), (''instruments'', [''id'']), (''import_batches'', [''id''])]"
  "columns_ok table_reconciliation_observations"
  by (simp_all add: table_reconciliation_observations_def table_relations_def column_names_def table_keys_def column_kinds columns_ok_def
    table_references_def List.map_filter_def)

lemma table_reconciliation_runs_facts [schema_facts]:
  "tab_name table_reconciliation_runs = ''reconciliation_runs''"
  "table_relations table_reconciliation_runs = [''reconciliation_runs'', ''uq_reconciliation_run'']"
  "column_names table_reconciliation_runs = [''id'', ''snapshot_id'', ''tolerance'', ''evidence_hash'', ''status'', ''created_at'', ''created_by_user_id'']"
  "table_keys table_reconciliation_runs = [[''id''], [''snapshot_id'', ''tolerance'', ''evidence_hash'']]"
  "table_references table_reconciliation_runs = [(''portfolio_snapshots'', [''id'']), (''users'', [''id''])]"
  "columns_ok table_reconciliation_runs"
  by (simp_all add: table_reconciliation_runs_def table_relations_def column_names_def table_keys_def column_kinds columns_ok_def
    table_references_def List.map_filter_def)

lemma table_reconciliation_items_facts [schema_facts]:
  "tab_name table_reconciliation_items = ''reconciliation_items''"
  "table_relations table_reconciliation_items = [''reconciliation_items'', ''uq_reconciliation_item'']"
  "column_names table_reconciliation_items = [''id'', ''reconciliation_run_id'', ''observation_id'', ''expected_value'', ''reported_value'', ''difference'', ''tolerance'', ''status'']"
  "table_keys table_reconciliation_items = [[''id''], [''reconciliation_run_id'', ''observation_id'']]"
  "table_references table_reconciliation_items = [(''reconciliation_runs'', [''id'']), (''reconciliation_observations'', [''id''])]"
  "columns_ok table_reconciliation_items"
  by (simp_all add: table_reconciliation_items_def table_relations_def column_names_def table_keys_def column_kinds columns_ok_def
    table_references_def List.map_filter_def)

lemma table_security_identifiers_facts [schema_facts]:
  "tab_name table_security_identifiers = ''security_identifiers''"
  "table_relations table_security_identifiers = [''security_identifiers'', ''uq_security_identifier'']"
  "column_names table_security_identifiers = [''id'', ''instrument_id'', ''scheme'', ''value'', ''provider'', ''valid_from'', ''valid_to'', ''is_primary'']"
  "table_keys table_security_identifiers = [[''id''], [''scheme'', ''value'', ''provider'']]"
  "table_references table_security_identifiers = [(''instruments'', [''id''])]"
  "columns_ok table_security_identifiers"
  by (simp_all add: table_security_identifiers_def table_relations_def column_names_def table_keys_def column_kinds columns_ok_def
    table_references_def List.map_filter_def)

lemma table_market_data_batches_facts [schema_facts]:
  "tab_name table_market_data_batches = ''market_data_batches''"
  "table_relations table_market_data_batches = [''market_data_batches'', ''uq_market_data_batch_request'']"
  "column_names table_market_data_batches = [''id'', ''provider'', ''dataset'', ''request_hash'', ''status'', ''started_at'', ''completed_at'', ''inserted_count'', ''duplicate_count'', ''conflict_count'']"
  "table_keys table_market_data_batches = [[''id''], [''provider'', ''dataset'', ''request_hash'']]"
  "table_references table_market_data_batches = []"
  "columns_ok table_market_data_batches"
  by (simp_all add: table_market_data_batches_def table_relations_def column_names_def table_keys_def column_kinds columns_ok_def
    table_references_def List.map_filter_def)

lemma table_market_prices_facts [schema_facts]:
  "tab_name table_market_prices = ''market_prices''"
  "table_relations table_market_prices = [''market_prices'', ''uq_market_price_observation'']"
  "column_names table_market_prices = [''id'', ''instrument_id'', ''batch_id'', ''provider'', ''price_type'', ''observed_at'', ''received_at'', ''price'', ''currency'', ''source_identifier'', ''source_metadata'']"
  "table_keys table_market_prices = [[''id''], [''instrument_id'', ''provider'', ''price_type'', ''observed_at'']]"
  "table_references table_market_prices = [(''instruments'', [''id'']), (''market_data_batches'', [''id''])]"
  "columns_ok table_market_prices"
  by (simp_all add: table_market_prices_def table_relations_def column_names_def table_keys_def column_kinds columns_ok_def
    table_references_def List.map_filter_def)

lemma table_market_price_conflicts_facts [schema_facts]:
  "tab_name table_market_price_conflicts = ''market_price_conflicts''"
  "table_relations table_market_price_conflicts = [''market_price_conflicts'', ''uq_market_price_conflict'']"
  "column_names table_market_price_conflicts = [''id'', ''batch_id'', ''existing_price_id'', ''incoming_price'', ''incoming_currency'', ''incoming_metadata'', ''detected_at'']"
  "table_keys table_market_price_conflicts = [[''id''], [''batch_id'', ''existing_price_id'', ''incoming_price'']]"
  "table_references table_market_price_conflicts = [(''market_data_batches'', [''id'']), (''market_prices'', [''id''])]"
  "columns_ok table_market_price_conflicts"
  by (simp_all add: table_market_price_conflicts_def table_relations_def column_names_def table_keys_def column_kinds columns_ok_def
    table_references_def List.map_filter_def)

lemma table_instrument_classifications_facts [schema_facts]:
  "tab_name table_instrument_classifications = ''instrument_classifications''"
  "table_relations table_instrument_classifications = [''instrument_classifications'', ''uq_classification_effective'']"
  "column_names table_instrument_classifications = [''id'', ''instrument_id'', ''sector'', ''asset_class'', ''geography'', ''effective_from'', ''effective_to'', ''source'', ''source_metadata'', ''recorded_at'']"
  "table_keys table_instrument_classifications = [[''id''], [''instrument_id'', ''effective_from'']]"
  "table_references table_instrument_classifications = [(''instruments'', [''id''])]"
  "columns_ok table_instrument_classifications"
  by (simp_all add: table_instrument_classifications_def table_relations_def column_names_def table_keys_def column_kinds columns_ok_def
    table_references_def List.map_filter_def)

lemma table_risk_policies_facts [schema_facts]:
  "tab_name table_risk_policies = ''risk_policies''"
  "table_relations table_risk_policies = [''risk_policies'', ''uq_risk_policy_version'']"
  "column_names table_risk_policies = [''id'', ''fund_id'', ''name'', ''version'', ''effective_from'', ''effective_to'', ''created_at'', ''created_by_user_id'']"
  "table_keys table_risk_policies = [[''id''], [''fund_id'', ''name'', ''version'']]"
  "table_references table_risk_policies = [(''funds'', [''id'']), (''users'', [''id''])]"
  "columns_ok table_risk_policies"
  by (simp_all add: table_risk_policies_def table_relations_def column_names_def table_keys_def column_kinds columns_ok_def
    table_references_def List.map_filter_def)

lemma table_risk_policy_rules_facts [schema_facts]:
  "tab_name table_risk_policy_rules = ''risk_policy_rules''"
  "table_relations table_risk_policy_rules = [''risk_policy_rules'', ''uq_risk_policy_rule_metric'']"
  "column_names table_risk_policy_rules = [''id'', ''policy_id'', ''metric_key'', ''operator'', ''threshold'', ''unit'', ''explanation_template'']"
  "table_keys table_risk_policy_rules = [[''id''], [''policy_id'', ''metric_key'']]"
  "table_references table_risk_policy_rules = [(''risk_policies'', [''id''])]"
  "columns_ok table_risk_policy_rules"
  by (simp_all add: table_risk_policy_rules_def table_relations_def column_names_def table_keys_def column_kinds columns_ok_def
    table_references_def List.map_filter_def)

lemma table_risk_evaluations_facts [schema_facts]:
  "tab_name table_risk_evaluations = ''risk_evaluations''"
  "table_relations table_risk_evaluations = [''risk_evaluations'', ''uq_risk_evaluation_input'']"
  "column_names table_risk_evaluations = [''id'', ''fund_id'', ''policy_id'', ''as_of'', ''input_hash'', ''calculation_version'', ''created_at'']"
  "table_keys table_risk_evaluations = [[''id''], [''policy_id'', ''as_of'', ''input_hash'']]"
  "table_references table_risk_evaluations = [(''funds'', [''id'']), (''risk_policies'', [''id''])]"
  "columns_ok table_risk_evaluations"
  by (simp_all add: table_risk_evaluations_def table_relations_def column_names_def table_keys_def column_kinds columns_ok_def
    table_references_def List.map_filter_def)

lemma table_risk_evaluation_items_facts [schema_facts]:
  "tab_name table_risk_evaluation_items = ''risk_evaluation_items''"
  "table_relations table_risk_evaluation_items = [''risk_evaluation_items'', ''uq_risk_evaluation_rule'']"
  "column_names table_risk_evaluation_items = [''id'', ''evaluation_id'', ''rule_id'', ''status'', ''observed_value'', ''threshold'', ''breach_amount'', ''unit'', ''explanation'']"
  "table_keys table_risk_evaluation_items = [[''id''], [''evaluation_id'', ''rule_id'']]"
  "table_references table_risk_evaluation_items = [(''risk_evaluations'', [''id'']), (''risk_policy_rules'', [''id''])]"
  "columns_ok table_risk_evaluation_items"
  by (simp_all add: table_risk_evaluation_items_def table_relations_def column_names_def table_keys_def column_kinds columns_ok_def
    table_references_def List.map_filter_def)

lemma table_scenario_definitions_facts [schema_facts]:
  "tab_name table_scenario_definitions = ''scenario_definitions''"
  "table_relations table_scenario_definitions = [''scenario_definitions'', ''uq_scenario_version'']"
  "column_names table_scenario_definitions = [''id'', ''fund_id'', ''name'', ''version'', ''kind'', ''description'', ''source_metadata'', ''created_at'', ''created_by_user_id'']"
  "table_keys table_scenario_definitions = [[''id''], [''fund_id'', ''name'', ''version'']]"
  "table_references table_scenario_definitions = [(''funds'', [''id'']), (''users'', [''id''])]"
  "columns_ok table_scenario_definitions"
  by (simp_all add: table_scenario_definitions_def table_relations_def column_names_def table_keys_def column_kinds columns_ok_def
    table_references_def List.map_filter_def)

lemma table_scenario_shocks_facts [schema_facts]:
  "tab_name table_scenario_shocks = ''scenario_shocks''"
  "table_relations table_scenario_shocks = [''scenario_shocks'', ''uq_scenario_shock_sequence'']"
  "column_names table_scenario_shocks = [''id'', ''scenario_id'', ''target_type'', ''target'', ''magnitude'', ''unit'', ''sequence'']"
  "table_keys table_scenario_shocks = [[''id''], [''scenario_id'', ''sequence'']]"
  "table_references table_scenario_shocks = [(''scenario_definitions'', [''id''])]"
  "columns_ok table_scenario_shocks"
  by (simp_all add: table_scenario_shocks_def table_relations_def column_names_def table_keys_def column_kinds columns_ok_def
    table_references_def List.map_filter_def)

lemma table_instrument_risk_sensitivities_facts [schema_facts]:
  "tab_name table_instrument_risk_sensitivities = ''instrument_risk_sensitivities''"
  "table_relations table_instrument_risk_sensitivities = [''instrument_risk_sensitivities'', ''uq_sensitivity_effective'']"
  "column_names table_instrument_risk_sensitivities = [''id'', ''instrument_id'', ''effective_from'', ''effective_to'', ''rate_duration'', ''factor_loadings'', ''source'', ''source_metadata'', ''recorded_at'']"
  "table_keys table_instrument_risk_sensitivities = [[''id''], [''instrument_id'', ''effective_from'']]"
  "table_references table_instrument_risk_sensitivities = [(''instruments'', [''id''])]"
  "columns_ok table_instrument_risk_sensitivities"
  by (simp_all add: table_instrument_risk_sensitivities_def table_relations_def column_names_def table_keys_def column_kinds columns_ok_def
    table_references_def List.map_filter_def)

lemma table_scenario_runs_facts [schema_facts]:
  "tab_name table_scenario_runs = ''scenario_runs''"
  "table_relations table_scenario_runs = [''scenario_runs'', ''uq_scenario_run_input'']"
  "column_names table_scenario_runs = [''id'', ''fund_id'', ''scenario_id'', ''policy_id'', ''as_of'', ''canonical_input_hash'', ''calculation_version'', ''baseline_value'', ''projected_value'', ''pnl_impact'', ''portfolio_return_impact'', ''benchmark_scenario_return'', ''result_summary'', ''created_at'']"
  "table_keys table_scenario_runs = [[''id''], [''scenario_id'', ''as_of'', ''canonical_input_hash'']]"
  "table_references table_scenario_runs = [(''funds'', [''id'']), (''scenario_definitions'', [''id'']), (''risk_policies'', [''id''])]"
  "columns_ok table_scenario_runs"
  by (simp_all add: table_scenario_runs_def table_relations_def column_names_def table_keys_def column_kinds columns_ok_def
    table_references_def List.map_filter_def)

lemma table_scenario_position_results_facts [schema_facts]:
  "tab_name table_scenario_position_results = ''scenario_position_results''"
  "table_relations table_scenario_position_results = [''scenario_position_results'', ''uq_scenario_position_result'']"
  "column_names table_scenario_position_results = [''id'', ''scenario_run_id'', ''instrument_id'', ''baseline_market_value'', ''projected_market_value'', ''return_impact'', ''pnl_impact'', ''contribution_evidence'']"
  "table_keys table_scenario_position_results = [[''id''], [''scenario_run_id'', ''instrument_id'']]"
  "table_references table_scenario_position_results = [(''scenario_runs'', [''id'']), (''instruments'', [''id''])]"
  "columns_ok table_scenario_position_results"
  by (simp_all add: table_scenario_position_results_def table_relations_def column_names_def table_keys_def column_kinds columns_ok_def
    table_references_def List.map_filter_def)

lemma table_investment_proposals_facts [schema_facts]:
  "tab_name table_investment_proposals = ''investment_proposals''"
  "table_relations table_investment_proposals = [''investment_proposals'']"
  "column_names table_investment_proposals = [''id'', ''fund_id'', ''created_by_user_id'', ''status'', ''current_version'', ''row_version'', ''created_at'', ''updated_at'']"
  "table_keys table_investment_proposals = [[''id'']]"
  "table_references table_investment_proposals = [(''funds'', [''id'']), (''users'', [''id''])]"
  "columns_ok table_investment_proposals"
  by (simp_all add: table_investment_proposals_def table_relations_def column_names_def table_keys_def column_kinds columns_ok_def
    table_references_def List.map_filter_def)

lemma table_proposal_versions_facts [schema_facts]:
  "tab_name table_proposal_versions = ''proposal_versions''"
  "table_relations table_proposal_versions = [''proposal_versions'', ''uq_proposal_version'']"
  "column_names table_proposal_versions = [''id'', ''proposal_id'', ''version'', ''title'', ''thesis'', ''portfolio_input_hash'', ''portfolio_as_of'', ''content_hash'', ''created_by_user_id'', ''created_at'', ''supersedes_version_id'']"
  "table_keys table_proposal_versions = [[''id''], [''proposal_id'', ''version'']]"
  "table_references table_proposal_versions = [(''investment_proposals'', [''id'']), (''users'', [''id'']), (''proposal_versions'', [''id''])]"
  "columns_ok table_proposal_versions"
  by (simp_all add: table_proposal_versions_def table_relations_def column_names_def table_keys_def column_kinds columns_ok_def
    table_references_def List.map_filter_def)

lemma table_proposal_lines_facts [schema_facts]:
  "tab_name table_proposal_lines = ''proposal_lines''"
  "table_relations table_proposal_lines = [''proposal_lines'', ''uq_proposal_line_instrument'']"
  "column_names table_proposal_lines = [''id'', ''proposal_version_id'', ''instrument_id'', ''action'', ''current_weight'', ''proposed_weight'', ''estimated_notional'', ''rationale'']"
  "table_keys table_proposal_lines = [[''id''], [''proposal_version_id'', ''instrument_id'']]"
  "table_references table_proposal_lines = [(''proposal_versions'', [''id'']), (''instruments'', [''id''])]"
  "columns_ok table_proposal_lines"
  by (simp_all add: table_proposal_lines_def table_relations_def column_names_def table_keys_def column_kinds columns_ok_def
    table_references_def List.map_filter_def)

lemma table_proposal_analyses_facts [schema_facts]:
  "tab_name table_proposal_analyses = ''proposal_analyses''"
  "table_relations table_proposal_analyses = [''proposal_analyses'', ''uq_proposal_analysis_evidence'']"
  "column_names table_proposal_analyses = [''id'', ''proposal_version_id'', ''risk_evaluation_id'', ''scenario_run_id'', ''recorded_by_user_id'', ''recorded_at'', ''evidence_hash'']"
  "table_keys table_proposal_analyses = [[''id''], [''proposal_version_id'', ''evidence_hash'']]"
  "table_references table_proposal_analyses = [(''proposal_versions'', [''id'']), (''risk_evaluations'', [''id'']), (''scenario_runs'', [''id'']), (''users'', [''id''])]"
  "columns_ok table_proposal_analyses"
  by (simp_all add: table_proposal_analyses_def table_relations_def column_names_def table_keys_def column_kinds columns_ok_def
    table_references_def List.map_filter_def)

lemma table_proposal_reviews_facts [schema_facts]:
  "tab_name table_proposal_reviews = ''proposal_reviews''"
  "table_relations table_proposal_reviews = [''proposal_reviews'']"
  "column_names table_proposal_reviews = [''id'', ''proposal_id'', ''proposal_version_id'', ''reviewer_user_id'', ''reviewer_role'', ''recommendation'', ''comment'', ''created_at'']"
  "table_keys table_proposal_reviews = [[''id'']]"
  "table_references table_proposal_reviews = [(''investment_proposals'', [''id'']), (''proposal_versions'', [''id'']), (''users'', [''id''])]"
  "columns_ok table_proposal_reviews"
  by (simp_all add: table_proposal_reviews_def table_relations_def column_names_def table_keys_def column_kinds columns_ok_def
    table_references_def List.map_filter_def)

lemma table_proposal_transitions_facts [schema_facts]:
  "tab_name table_proposal_transitions = ''proposal_transitions''"
  "table_relations table_proposal_transitions = [''proposal_transitions'']"
  "column_names table_proposal_transitions = [''id'', ''proposal_id'', ''proposal_version_id'', ''action'', ''from_status'', ''to_status'', ''actor_user_id'', ''actor_role'', ''reason'', ''decision_provenance'', ''occurred_at'', ''resulting_row_version'']"
  "table_keys table_proposal_transitions = [[''id'']]"
  "table_references table_proposal_transitions = [(''investment_proposals'', [''id'']), (''proposal_versions'', [''id'']), (''users'', [''id''])]"
  "columns_ok table_proposal_transitions"
  by (simp_all add: table_proposal_transitions_def table_relations_def column_names_def table_keys_def column_kinds columns_ok_def
    table_references_def List.map_filter_def)

lemma table_ai_conversations_facts [schema_facts]:
  "tab_name table_ai_conversations = ''ai_conversations''"
  "table_relations table_ai_conversations = [''ai_conversations'']"
  "column_names table_ai_conversations = [''id'', ''fund_id'', ''actor_user_id'', ''status'', ''model'', ''created_at'', ''completed_at'']"
  "table_keys table_ai_conversations = [[''id'']]"
  "table_references table_ai_conversations = [(''funds'', [''id'']), (''users'', [''id''])]"
  "columns_ok table_ai_conversations"
  by (simp_all add: table_ai_conversations_def table_relations_def column_names_def table_keys_def column_kinds columns_ok_def
    table_references_def List.map_filter_def)

lemma table_ai_messages_facts [schema_facts]:
  "tab_name table_ai_messages = ''ai_messages''"
  "table_relations table_ai_messages = [''ai_messages'']"
  "column_names table_ai_messages = [''id'', ''conversation_id'', ''role'', ''content'', ''content_hash'', ''citations'', ''provider_response_id'', ''created_at'']"
  "table_keys table_ai_messages = [[''id'']]"
  "table_references table_ai_messages = [(''ai_conversations'', [''id''])]"
  "columns_ok table_ai_messages"
  by (simp_all add: table_ai_messages_def table_relations_def column_names_def table_keys_def column_kinds columns_ok_def
    table_references_def List.map_filter_def)

lemma table_ai_tool_calls_facts [schema_facts]:
  "tab_name table_ai_tool_calls = ''ai_tool_calls''"
  "table_relations table_ai_tool_calls = [''ai_tool_calls'', ''uq_ai_tool_call'']"
  "column_names table_ai_tool_calls = [''id'', ''conversation_id'', ''provider_call_id'', ''tool_name'', ''arguments'', ''status'', ''result'', ''result_hash'', ''sources'', ''error'', ''occurred_at'']"
  "table_keys table_ai_tool_calls = [[''id''], [''conversation_id'', ''provider_call_id'']]"
  "table_references table_ai_tool_calls = [(''ai_conversations'', [''id''])]"
  "columns_ok table_ai_tool_calls"
  by (simp_all add: table_ai_tool_calls_def table_relations_def column_names_def table_keys_def column_kinds columns_ok_def
    table_references_def List.map_filter_def)

section \<open>The chain\<close>

lemma empty_catalog_facts [schema_facts]:
  "cat_tables empty_catalog = []" "set (relation_names empty_catalog) = {}"
  "function_names empty_catalog = {}" "trigger_names empty_catalog = {}" "find_table empty_catalog n = None"
  by (simp_all add: empty_catalog_def relation_names_def function_names_def trigger_names_def find_table_def)

definition catalog_0001 :: catalog where
  "catalog_0001 = foldl enlarge empty_catalog upgrade_0001"

lemma catalog_0001_facts [schema_facts]:
  "cat_tables catalog_0001 = [table_funds, table_roles, table_users, table_user_roles, table_instruments]"
  "set (relation_names catalog_0001) = {''funds'', ''roles'', ''users'', ''user_roles'', ''instruments'', ''uq_instruments_symbol_exchange''}"
  "function_names catalog_0001 = {}"
  "trigger_names catalog_0001 = {}"
  "find_table catalog_0001 n = find (\<lambda>t. tab_name t = n) (cat_tables catalog_0001)"
  by (simp_all add: catalog_0001_def upgrade_0001_def
    enlarge_simps schema_facts find_table_def)

lemma catalog_0001_step: "apply_all empty_catalog upgrade_0001 = Inr catalog_0001"
  unfolding catalog_0001_def
  by (rule apply_creatable) (simp add: upgrade_0001_def enlarge_simps schema_facts)

definition catalog_0002 :: catalog where
  "catalog_0002 = foldl enlarge catalog_0001 upgrade_0002"

lemma catalog_0002_facts [schema_facts]:
  "cat_tables catalog_0002 = [table_funds, table_roles, table_users, table_user_roles, table_instruments, table_accounts,
     table_import_batches, table_transactions, table_import_conflicts]"
  "set (relation_names catalog_0002) = {''accounts'', ''uq_accounts_fund_code'', ''uq_accounts_id_fund'', ''import_batches'',
     ''uq_import_batches_content'', ''transactions'', ''uq_transactions_source_identity'',
     ''uq_transactions_one_reversal'', ''ix_transactions_replay_order'', ''uq_transactions_opening_cash'',
     ''uq_transactions_opening_position'', ''import_conflicts'', ''uq_import_conflicts_evidence''} \<union> set (relation_names catalog_0001)"
  "function_names catalog_0002 = insert ''protect_transaction_economics'' (function_names catalog_0001)"
  "trigger_names catalog_0002 = insert (''transactions_immutable_economics'', ''transactions'') (trigger_names catalog_0001)"
  "find_table catalog_0002 n = find (\<lambda>t. tab_name t = n) (cat_tables catalog_0002)"
  by (simp_all add: catalog_0002_def indexes_0002_def triggers_0002_def upgrade_0002_def
    enlarge_simps schema_facts find_table_def)

lemma catalog_0002_step: "apply_all catalog_0001 upgrade_0002 = Inr catalog_0002"
  unfolding catalog_0002_def
  by (rule apply_creatable) (simp add: indexes_0002_def triggers_0002_def upgrade_0002_def enlarge_simps schema_facts)

definition catalog_0003 :: catalog where
  "catalog_0003 = foldl enlarge catalog_0002 upgrade_0003"

lemma catalog_0003_facts [schema_facts]:
  "cat_tables catalog_0003 = [table_funds, table_roles, table_users, table_user_roles, table_instruments, table_accounts,
     table_import_batches, table_transactions, table_import_conflicts, table_import_records, table_audit_events]"
  "set (relation_names catalog_0003) = {''import_records'', ''uq_import_records_batch_row'', ''ix_import_records_transaction'', ''audit_events'',
     ''ix_audit_events_entity''} \<union> set (relation_names catalog_0002)"
  "function_names catalog_0003 = insert ''protect_append_only_audit'' (insert ''protect_final_import_batch'' (
     insert ''protect_final_import_record'' (function_names catalog_0002)))"
  "trigger_names catalog_0003 = insert (''audit_events_append_only'', ''audit_events'') (
     insert (''import_batches_immutable_when_final'', ''import_batches'') (
     insert (''import_records_immutable_when_final'', ''import_records'') (trigger_names catalog_0002)))"
  "find_table catalog_0003 n = find (\<lambda>t. tab_name t = n) (cat_tables catalog_0003)"
  by (simp_all add: catalog_0003_def indexes_0003_def indexes_0003b_def triggers_0003_def upgrade_0003_def
    enlarge_simps schema_facts find_table_def)

lemma catalog_0003_step: "apply_all catalog_0002 upgrade_0003 = Inr catalog_0003"
  unfolding catalog_0003_def
  by (rule apply_creatable) (simp add: indexes_0003_def indexes_0003b_def triggers_0003_def upgrade_0003_def enlarge_simps schema_facts)

definition catalog_0004 :: catalog where
  "catalog_0004 = foldl enlarge catalog_0003 upgrade_0004"

lemma catalog_0004_facts [schema_facts]:
  "cat_tables catalog_0004 = [table_funds, table_roles, table_users, table_user_roles, table_instruments, table_accounts,
     table_import_batches, table_transactions, table_import_conflicts, table_import_records, table_audit_events,
     table_portfolio_snapshots, table_snapshot_cash, table_snapshot_positions, table_reconciliation_observations,
     table_reconciliation_runs, table_reconciliation_items]"
  "set (relation_names catalog_0004) = {''portfolio_snapshots'', ''uq_snapshots_fund_revision'', ''uq_snapshots_account_revision'',
     ''uq_snapshots_current_fund'', ''uq_snapshots_current_account'', ''snapshot_cash'', ''uq_snapshot_cash'',
     ''snapshot_positions'', ''uq_snapshot_position'', ''reconciliation_observations'',
     ''uq_reconciliation_observation_source'', ''ix_reconciliation_observation_cutoff'', ''reconciliation_runs'',
     ''uq_reconciliation_run'', ''reconciliation_items'', ''uq_reconciliation_item''} \<union> set (relation_names catalog_0003)"
  "function_names catalog_0004 = insert ''protect_derived_evidence'' (insert ''protect_snapshot_content'' (function_names catalog_0003))"
  "trigger_names catalog_0004 = insert (''reconciliation_items_immutable'', ''reconciliation_items'') (
     insert (''reconciliation_runs_immutable'', ''reconciliation_runs'') (
     insert (''reconciliation_observations_immutable'', ''reconciliation_observations'') (
     insert (''snapshot_positions_immutable'', ''snapshot_positions'') (
     insert (''snapshot_cash_immutable'', ''snapshot_cash'') (
     insert (''portfolio_snapshots_immutable_content'', ''portfolio_snapshots'') (trigger_names catalog_0003))))))"
  "find_table catalog_0004 n = find (\<lambda>t. tab_name t = n) (cat_tables catalog_0004)"
  by (simp_all add: catalog_0004_def indexes_0004_def indexes_0004b_def triggers_0004_def upgrade_0004_def
    enlarge_simps schema_facts find_table_def)

lemma catalog_0004_step: "apply_all catalog_0003 upgrade_0004 = Inr catalog_0004"
  unfolding catalog_0004_def
  by (rule apply_creatable) (simp add: indexes_0004_def indexes_0004b_def triggers_0004_def upgrade_0004_def enlarge_simps schema_facts)

definition catalog_0005 :: catalog where
  "catalog_0005 = foldl enlarge catalog_0004 upgrade_0005"

lemma catalog_0005_facts [schema_facts]:
  "cat_tables catalog_0005 = [table_funds, table_roles, table_users, table_user_roles, table_instruments, table_accounts,
     table_import_batches, table_transactions, table_import_conflicts, table_import_records, table_audit_events,
     table_portfolio_snapshots, table_snapshot_cash, table_snapshot_positions, table_reconciliation_observations,
     table_reconciliation_runs, table_reconciliation_items, table_security_identifiers, table_market_data_batches,
     table_market_prices, table_market_price_conflicts]"
  "set (relation_names catalog_0005) = {''security_identifiers'', ''uq_security_identifier'', ''ix_security_identifier_lookup'',
     ''market_data_batches'', ''uq_market_data_batch_request'', ''market_prices'',
     ''uq_market_price_observation'', ''ix_market_price_cutoff'', ''market_price_conflicts'',
     ''uq_market_price_conflict''} \<union> set (relation_names catalog_0004)"
  "function_names catalog_0005 = insert ''protect_market_data_evidence'' (function_names catalog_0004)"
  "trigger_names catalog_0005 = insert (''security_identifiers_no_delete'', ''security_identifiers'') (
     insert (''market_price_conflicts_immutable'', ''market_price_conflicts'') (
     insert (''market_prices_immutable'', ''market_prices'') (trigger_names catalog_0004)))"
  "find_table catalog_0005 n = find (\<lambda>t. tab_name t = n) (cat_tables catalog_0005)"
  by (simp_all add: catalog_0005_def indexes_0005_def indexes_0005b_def triggers_0005_def upgrade_0005_def
    enlarge_simps schema_facts find_table_def)

lemma catalog_0005_step: "apply_all catalog_0004 upgrade_0005 = Inr catalog_0005"
  unfolding catalog_0005_def
  by (rule apply_creatable) (simp add: indexes_0005_def indexes_0005b_def triggers_0005_def upgrade_0005_def enlarge_simps schema_facts)

definition catalog_0006 :: catalog where
  "catalog_0006 = foldl enlarge catalog_0005 upgrade_0006"

lemma catalog_0006_facts [schema_facts]:
  "cat_tables catalog_0006 = [table_funds, table_roles, table_users, table_user_roles, table_instruments, table_accounts,
     table_import_batches, table_transactions, table_import_conflicts, table_import_records, table_audit_events,
     table_portfolio_snapshots, table_snapshot_cash, table_snapshot_positions, table_reconciliation_observations,
     table_reconciliation_runs, table_reconciliation_items, table_security_identifiers, table_market_data_batches,
     table_market_prices, table_market_price_conflicts, table_instrument_classifications, table_risk_policies,
     table_risk_policy_rules, table_risk_evaluations, table_risk_evaluation_items]"
  "set (relation_names catalog_0006) = {''instrument_classifications'', ''uq_classification_effective'', ''ix_classification_cutoff'',
     ''risk_policies'', ''uq_risk_policy_version'', ''risk_policy_rules'', ''uq_risk_policy_rule_metric'',
     ''risk_evaluations'', ''uq_risk_evaluation_input'', ''risk_evaluation_items'', ''uq_risk_evaluation_rule''} \<union> set (relation_names catalog_0005)"
  "function_names catalog_0006 = insert ''protect_risk_evidence'' (function_names catalog_0005)"
  "trigger_names catalog_0006 = insert (''risk_evaluation_items_immutable'', ''risk_evaluation_items'') (
     insert (''risk_evaluations_immutable'', ''risk_evaluations'') (trigger_names catalog_0005))"
  "find_table catalog_0006 n = find (\<lambda>t. tab_name t = n) (cat_tables catalog_0006)"
  by (simp_all add: catalog_0006_def indexes_0006_def triggers_0006_def upgrade_0006_def
    enlarge_simps schema_facts find_table_def)

lemma catalog_0006_step: "apply_all catalog_0005 upgrade_0006 = Inr catalog_0006"
  unfolding catalog_0006_def
  by (rule apply_creatable) (simp add: indexes_0006_def triggers_0006_def upgrade_0006_def enlarge_simps schema_facts)

definition catalog_0007 :: catalog where
  "catalog_0007 = foldl enlarge catalog_0006 upgrade_0007"

lemma catalog_0007_facts [schema_facts]:
  "cat_tables catalog_0007 = [table_funds, table_roles, table_users, table_user_roles, table_instruments, table_accounts,
     table_import_batches, table_transactions, table_import_conflicts, table_import_records, table_audit_events,
     table_portfolio_snapshots, table_snapshot_cash, table_snapshot_positions, table_reconciliation_observations,
     table_reconciliation_runs, table_reconciliation_items, table_security_identifiers, table_market_data_batches,
     table_market_prices, table_market_price_conflicts, table_instrument_classifications, table_risk_policies,
     table_risk_policy_rules, table_risk_evaluations, table_risk_evaluation_items, table_scenario_definitions,
     table_scenario_shocks, table_instrument_risk_sensitivities, table_scenario_runs,
     table_scenario_position_results]"
  "set (relation_names catalog_0007) = {''scenario_definitions'', ''uq_scenario_version'', ''scenario_shocks'', ''uq_scenario_shock_sequence'',
     ''instrument_risk_sensitivities'', ''uq_sensitivity_effective'', ''ix_sensitivity_cutoff'',
     ''scenario_runs'', ''uq_scenario_run_input'', ''scenario_position_results'', ''uq_scenario_position_result''} \<union> set (relation_names catalog_0006)"
  "function_names catalog_0007 = insert ''protect_scenario_evidence'' (function_names catalog_0006)"
  "trigger_names catalog_0007 = insert (''instrument_risk_sensitivities_immutable'', ''instrument_risk_sensitivities'') (
     insert (''scenario_shocks_immutable'', ''scenario_shocks'') (
     insert (''scenario_definitions_immutable'', ''scenario_definitions'') (
     insert (''scenario_position_results_immutable'', ''scenario_position_results'') (
     insert (''scenario_runs_immutable'', ''scenario_runs'') (trigger_names catalog_0006)))))"
  "find_table catalog_0007 n = find (\<lambda>t. tab_name t = n) (cat_tables catalog_0007)"
  by (simp_all add: catalog_0007_def indexes_0007_def triggers_0007_def upgrade_0007_def
    enlarge_simps schema_facts find_table_def)

lemma catalog_0007_step: "apply_all catalog_0006 upgrade_0007 = Inr catalog_0007"
  unfolding catalog_0007_def
  by (rule apply_creatable) (simp add: indexes_0007_def triggers_0007_def upgrade_0007_def enlarge_simps schema_facts)

definition table_risk_policy_rules_0008 :: sql_table where
  "table_risk_policy_rules_0008 = table_risk_policy_rules\<lparr>
     tab_columns := tab_columns table_risk_policy_rules @ [defaulted ''severity'' (Varchar 16) ''BLOCKING''],
     tab_constraints := tab_constraints table_risk_policy_rules
       @ [Check ''ck_risk_policy_rule_severity'' (One_Of ''severity'' [''BLOCKING'', ''WARNING''])]\<rparr>"

lemma table_risk_policy_rules_constraints [schema_facts]:
  "map constraint_name (tab_constraints table_risk_policy_rules)
     = [Some ''ck_risk_policy_operator'', Some ''ck_risk_policy_rule_threshold'', None, Some ''uq_risk_policy_rule_metric'']"
  by (simp add: table_risk_policy_rules_def)

lemma table_risk_policy_rules_0008_facts [schema_facts]:
  "tab_name table_risk_policy_rules_0008 = ''risk_policy_rules''"
  "table_relations table_risk_policy_rules_0008 = table_relations table_risk_policy_rules"
  "column_names table_risk_policy_rules_0008 = column_names table_risk_policy_rules @ [''severity'']"
  "table_keys table_risk_policy_rules_0008 = table_keys table_risk_policy_rules"
  "table_references table_risk_policy_rules_0008 = table_references table_risk_policy_rules"
  by (simp_all add: table_risk_policy_rules_0008_def schema_facts column_names_def table_keys_def defaulted_def required_def
    List.map_filter_def)

definition catalog_0008 :: catalog where
  "catalog_0008 = foldl enlarge catalog_0007 upgrade_0008"

lemma catalog_0008_facts [schema_facts]:
  "cat_tables catalog_0008 = [table_funds, table_roles, table_users, table_user_roles, table_instruments, table_accounts,
     table_import_batches, table_transactions, table_import_conflicts, table_import_records, table_audit_events,
     table_portfolio_snapshots, table_snapshot_cash, table_snapshot_positions, table_reconciliation_observations,
     table_reconciliation_runs, table_reconciliation_items, table_security_identifiers, table_market_data_batches,
     table_market_prices, table_market_price_conflicts, table_instrument_classifications, table_risk_policies,
     table_risk_policy_rules_0008, table_risk_evaluations, table_risk_evaluation_items,
     table_scenario_definitions, table_scenario_shocks, table_instrument_risk_sensitivities, table_scenario_runs,
     table_scenario_position_results, table_investment_proposals, table_proposal_versions, table_proposal_lines,
     table_proposal_analyses, table_proposal_reviews, table_proposal_transitions]"
  "set (relation_names catalog_0008) = {''investment_proposals'', ''proposal_versions'', ''uq_proposal_version'', ''proposal_lines'',
     ''uq_proposal_line_instrument'', ''proposal_analyses'', ''uq_proposal_analysis_evidence'',
     ''proposal_reviews'', ''proposal_transitions'', ''ix_proposal_transition_history''} \<union> set (relation_names catalog_0007)"
  "function_names catalog_0008 = insert ''protect_proposal_identity'' (insert ''protect_governance_evidence'' (function_names catalog_0007))"
  "trigger_names catalog_0008 = insert (''investment_proposals_controlled_update'', ''investment_proposals'') (
     insert (''risk_policy_rules_immutable'', ''risk_policy_rules'') (
     insert (''risk_policies_immutable'', ''risk_policies'') (
     insert (''proposal_transitions_immutable'', ''proposal_transitions'') (
     insert (''proposal_reviews_immutable'', ''proposal_reviews'') (
     insert (''proposal_analyses_immutable'', ''proposal_analyses'') (
     insert (''proposal_lines_immutable'', ''proposal_lines'') (
     insert (''proposal_versions_immutable'', ''proposal_versions'') (trigger_names catalog_0007))))))))"
  "find_table catalog_0008 n = find (\<lambda>t. tab_name t = n) (cat_tables catalog_0008)"
  by (simp_all add: catalog_0008_def constraints_0008_def indexes_0008_def triggers_0008_def upgrade_0008_def table_risk_policy_rules_0008_def
    enlarge_simps schema_facts find_table_def)

lemma catalog_0008_step: "apply_all catalog_0007 upgrade_0008 = Inr catalog_0008"
  unfolding catalog_0008_def
  by (rule apply_creatable) (simp add: constraints_0008_def indexes_0008_def triggers_0008_def upgrade_0008_def enlarge_simps schema_facts column_kinds)

definition catalog_0009 :: catalog where
  "catalog_0009 = foldl enlarge catalog_0008 upgrade_0009"

lemma catalog_0009_facts [schema_facts]:
  "cat_tables catalog_0009 = [table_funds, table_roles, table_users, table_user_roles, table_instruments, table_accounts,
     table_import_batches, table_transactions, table_import_conflicts, table_import_records, table_audit_events,
     table_portfolio_snapshots, table_snapshot_cash, table_snapshot_positions, table_reconciliation_observations,
     table_reconciliation_runs, table_reconciliation_items, table_security_identifiers, table_market_data_batches,
     table_market_prices, table_market_price_conflicts, table_instrument_classifications, table_risk_policies,
     table_risk_policy_rules_0008, table_risk_evaluations, table_risk_evaluation_items,
     table_scenario_definitions, table_scenario_shocks, table_instrument_risk_sensitivities, table_scenario_runs,
     table_scenario_position_results, table_investment_proposals, table_proposal_versions, table_proposal_lines,
     table_proposal_analyses, table_proposal_reviews, table_proposal_transitions, table_ai_conversations,
     table_ai_messages, table_ai_tool_calls]"
  "set (relation_names catalog_0009) = {''ai_conversations'', ''ai_messages'', ''ai_tool_calls'', ''uq_ai_tool_call'',
     ''ix_ai_conversation_history'', ''ix_ai_message_history'', ''ix_ai_tool_call_history''} \<union> set (relation_names catalog_0008)"
  "function_names catalog_0009 = insert ''protect_ai_conversation'' (insert ''protect_ai_evidence'' (function_names catalog_0008))"
  "trigger_names catalog_0009 = insert (''ai_conversations_controlled_update'', ''ai_conversations'') (
     insert (''ai_tool_calls_immutable'', ''ai_tool_calls'') (
     insert (''ai_messages_immutable'', ''ai_messages'') (trigger_names catalog_0008)))"
  "find_table catalog_0009 n = find (\<lambda>t. tab_name t = n) (cat_tables catalog_0009)"
  by (simp_all add: catalog_0009_def indexes_0009_def triggers_0009_def upgrade_0009_def
    enlarge_simps schema_facts find_table_def)

lemma catalog_0009_step: "apply_all catalog_0008 upgrade_0009 = Inr catalog_0009"
  unfolding catalog_0009_def
  by (rule apply_creatable) (simp add: indexes_0009_def triggers_0009_def upgrade_0009_def enlarge_simps schema_facts)

section \<open>Every downgrade inverts its upgrade\<close>

definition inverse_of :: "ddl list \<Rightarrow> ddl list \<Rightarrow> bool" where
  "inverse_of us ds \<longleftrightarrow> list_all creates us \<and> list_all2 (\<lambda>u d. \<exists>b. d = undo b u) us (rev ds)"

lemma inverse_restores:
  assumes "inverse_of us ds" and "catalog_ok c" and "apply_all c us = Inr c'"
  shows "catalog_ok c' \<and> apply_all c' ds = Inr c"
  using undo_all [of c us c' "rev ds"] assms by (simp add: inverse_of_def)

lemma some_bool: "Ex Not" "\<exists>b. b"
  by auto

lemma downgrades_invert:
  "inverse_of upgrade_0001 downgrade_0001"
  "inverse_of upgrade_0002 downgrade_0002"
  "inverse_of upgrade_0003 downgrade_0003"
  "inverse_of upgrade_0004 downgrade_0004"
  "inverse_of upgrade_0005 downgrade_0005"
  "inverse_of upgrade_0006 downgrade_0006"
  "inverse_of upgrade_0007 downgrade_0007"
  "inverse_of upgrade_0008 downgrade_0008"
  "inverse_of upgrade_0009 downgrade_0009"
  by (simp_all add: inverse_of_def upgrade_0001_def indexes_0002_def triggers_0002_def upgrade_0002_def indexes_0003_def indexes_0003b_def triggers_0003_def upgrade_0003_def indexes_0004_def indexes_0004b_def triggers_0004_def upgrade_0004_def indexes_0005_def indexes_0005b_def triggers_0005_def upgrade_0005_def indexes_0006_def triggers_0006_def upgrade_0006_def indexes_0007_def triggers_0007_def upgrade_0007_def constraints_0008_def indexes_0008_def triggers_0008_def upgrade_0008_def indexes_0009_def triggers_0009_def upgrade_0009_def
    downgrade_0001_def downgrade_0002_def downgrade_0003_def downgrade_0004_def downgrade_0005_def downgrade_0006_def downgrade_0007_def downgrade_0008_def downgrade_0009_def schema_facts column_kinds some_bool)

text \<open>Each revision runs on what its predecessor leaves and its downgrade gives that back.\<close>

fun reversible_chain :: "catalog \<Rightarrow> (string \<times> ddl list \<times> ddl list) list \<Rightarrow> bool" where
  "reversible_chain c [] = True"
| "reversible_chain c ((n, us, ds) # revs) = (case apply_all c us of Inl _ \<Rightarrow> False
     | Inr c' \<Rightarrow> apply_all c' ds = Inr c \<and> reversible_chain c' revs)"

lemma chain_down:
  "reversible_chain c revs \<Longrightarrow> \<exists>c'. apply_all c (concat (map (\<lambda>(n, us, ds). us) revs)) = Inr c'
     \<and> apply_all c' (concat (map (\<lambda>(n, us, ds). ds) (rev revs))) = Inr c"
proof (induction revs arbitrary: c)
  case (Cons r revs)
  obtain n us ds where r: "r = (n, us, ds)" by (cases r)
  with Cons.prems obtain c1 where c1: "apply_all c us = Inr c1" "apply_all c1 ds = Inr c" "reversible_chain c1 revs"
    by (auto split: sum.splits)
  from Cons.IH [OF c1(3)] obtain c' where "apply_all c1 (concat (map (\<lambda>(n, us, ds). us) revs)) = Inr c'"
    "apply_all c' (concat (map (\<lambda>(n, us, ds). ds) (rev revs))) = Inr c1" by blast
  with c1 show ?case by (auto simp: r apply_all_def foldR_append)
qed (simp add: apply_all_def)

lemma empty_catalog_ok: "catalog_ok empty_catalog"
  by (simp add: catalog_ok_def empty_catalog_def)

lemma revisions_reversible: "reversible_chain empty_catalog revisions"
proof -
  note d1 = inverse_restores [OF downgrades_invert(1) empty_catalog_ok catalog_0001_step]
  note d2 = inverse_restores [OF downgrades_invert(2) d1 [THEN conjunct1] catalog_0002_step]
  note d3 = inverse_restores [OF downgrades_invert(3) d2 [THEN conjunct1] catalog_0003_step]
  note d4 = inverse_restores [OF downgrades_invert(4) d3 [THEN conjunct1] catalog_0004_step]
  note d5 = inverse_restores [OF downgrades_invert(5) d4 [THEN conjunct1] catalog_0005_step]
  note d6 = inverse_restores [OF downgrades_invert(6) d5 [THEN conjunct1]
    catalog_0006_step]
  note d7 = inverse_restores [OF downgrades_invert(7) d6 [THEN conjunct1] catalog_0007_step]
  note d8 = inverse_restores [OF downgrades_invert(8) d7 [THEN conjunct1] catalog_0008_step]
  note d9 = inverse_restores [OF downgrades_invert(9) d8 [THEN conjunct1] catalog_0009_step]
  show ?thesis by (simp add: revisions_def catalog_0001_step d1 [THEN conjunct2] catalog_0002_step d2 [THEN conjunct2] catalog_0003_step d3 [THEN conjunct2] catalog_0004_step d4 [THEN conjunct2] catalog_0005_step d5 [THEN conjunct2]
    catalog_0006_step d6 [THEN conjunct2] catalog_0007_step d7 [THEN conjunct2] catalog_0008_step d8 [THEN conjunct2] catalog_0009_step d9 [THEN conjunct2])
qed

lemma head_step: "apply_all empty_catalog (concat (map (\<lambda>(n, us, ds). us) revisions)) = Inr catalog_0009"
  by (simp add: revisions_def apply_all_def foldR_append catalog_0001_step [unfolded apply_all_def] catalog_0002_step [unfolded apply_all_def] catalog_0003_step [unfolded apply_all_def] catalog_0004_step [unfolded apply_all_def] catalog_0005_step [unfolded apply_all_def] catalog_0006_step [unfolded apply_all_def] catalog_0007_step [unfolded apply_all_def] catalog_0008_step [unfolded apply_all_def] catalog_0009_step [unfolded apply_all_def])

text \<open>C38: The nine migrations form a chain: from an empty database every upgrade succeeds on the
  schema its predecessor leaves, and its downgrade gives exactly that schema back; so upgrading to
  the head and downgrading to the base leaves an empty database.\<close>

theorem migrations_reversible:
  "reversible_chain empty_catalog revisions
   \<and> (\<exists>c. apply_all empty_catalog (concat (map (\<lambda>(n, us, ds). us) revisions)) = Inr c
        \<and> apply_all c (concat (map (\<lambda>(n, us, ds). ds) (rev revisions))) = Inr empty_catalog)"
  using revisions_reversible chain_down by blast

end
