(* ===== verification/Sql_Insert.thy ===== *)
theory Sql_Insert
  imports Sql_Schema
begin

text \<open>
  What a migrated table stores: the types and NOT NULLs of its columns, its checks (a check that is
  NULL passes), its keys and unique indexes (two rows with a NULL in the key never clash) and its
  foreign keys, which hold after the row is stored. Ranges of integers and numerics are left out.
\<close>

definition value_admitted :: "column \<Rightarrow> sql_value \<Rightarrow> bool" where
  "value_admitted c v = (case v of
     V_Null \<Rightarrow> col_nullable c
   | V_Text s \<Rightarrow> (case col_type c of Varchar n \<Rightarrow> length s \<le> n | _ \<Rightarrow> False)
   | V_Num q \<Rightarrow> (case col_type c of Timestamptz \<Rightarrow> True | Date \<Rightarrow> True | Integer \<Rightarrow> True | Numeric p s \<Rightarrow> True | _ \<Rightarrow> False)
   | V_Uuid u \<Rightarrow> col_type c = Uuid
   | V_Bool b \<Rightarrow> col_type c = Boolean
   | V_Json j \<Rightarrow> col_type c = Jsonb)"

definition column_admits :: "sql_row \<Rightarrow> column \<Rightarrow> bool" where
  "column_admits r c \<longleftrightarrow> value_admitted c (r (col_name c))"

definition check_admits :: "sql_row \<Rightarrow> table_constraint \<Rightarrow> bool" where
  "check_admits r k = (case k of Check n b \<Rightarrow> cond_value r b \<noteq> Some False | _ \<Rightarrow> True)"

definition table_admits :: "sql_table \<Rightarrow> sql_row \<Rightarrow> bool" where
  "table_admits t r \<longleftrightarrow> list_all (column_admits r) (tab_columns t) \<and> list_all (check_admits r) (tab_constraints t)"

definition same_key :: "sql_row \<Rightarrow> sql_row \<Rightarrow> string list \<Rightarrow> bool" where
  "same_key r r' cs \<longleftrightarrow> list_all (\<lambda>c. r c \<noteq> V_Null \<and> r c = r' c) cs"

definition table_clash :: "sql_table \<Rightarrow> sql_row \<Rightarrow> sql_row \<Rightarrow> bool" where
  "table_clash t r r' \<longleftrightarrow> list_ex (same_key r r') (table_keys t)"

definition covered :: "sql_index \<Rightarrow> sql_row \<Rightarrow> bool" where
  "covered i r \<longleftrightarrow> (case ix_where i of None \<Rightarrow> True | Some b \<Rightarrow> cond_value r b = Some True)"

definition index_clash :: "sql_index \<Rightarrow> sql_row \<Rightarrow> sql_row \<Rightarrow> bool" where
  "index_clash i r r' \<longleftrightarrow> covered i r \<and> covered i r' \<and> same_key r r' (map index_column_name (ix_columns i))"

definition unique_indexes :: "catalog \<Rightarrow> string \<Rightarrow> sql_index list" where
  "unique_indexes c n = filter (\<lambda>i. ix_unique i \<and> ix_table i = n) (cat_indexes c)"

definition foreign_keys :: "sql_table \<Rightarrow> (string list \<times> string \<times> string list) list" where
  "foreign_keys t = List.map_filter (\<lambda>k. case k of Foreign_Key cs target ds d \<Rightarrow> Some (cs, target, ds) | _ \<Rightarrow> None) (tab_constraints t)"

type_synonym sql_database = "string \<Rightarrow> sql_row list"

fun resolves :: "sql_database \<Rightarrow> sql_row \<Rightarrow> string list \<times> string \<times> string list \<Rightarrow> bool" where
  "resolves D r (cs, target, ds) \<longleftrightarrow> list_ex (\<lambda>c. r c = V_Null) cs \<or> list_ex (\<lambda>r'. map r cs = map r' ds) (D target)"

definition sql_insert :: "catalog \<Rightarrow> sql_database \<Rightarrow> string \<Rightarrow> sql_row \<Rightarrow> sql_database option" where
  "sql_insert c D n r = (case find_table c n of None \<Rightarrow> None
   | Some t \<Rightarrow>
       let D' = D(n := D n @ [r]) in
       if table_admits t r
         \<and> \<not> list_ex (\<lambda>r'. table_clash t r' r \<or> list_ex (\<lambda>i. index_clash i r' r) (unique_indexes c n)) (D n)
         \<and> list_all (resolves D' r) (foreign_keys t)
       then Some D' else None)"

end
