(* ===== verification/Schema_Rows.thy ===== *)
theory Schema_Rows
  imports Schema Sql_Insert Rounding
begin

text \<open>
  The rows of \<open>app/models.py\<close> as SQL rows: an enumeration column holds the name of its member, a
  timestamp its instant, a date its day number, a JSON column its document; an absent value is NULL.
\<close>

section \<open>Values\<close>

definition int_value :: "int \<Rightarrow> sql_value" where
  "int_value n = V_Num (of_int n)"

definition dec_value :: "dec \<Rightarrow> sql_value" where
  "dec_value d = V_Num (dval d)"

definition time_value :: "datetime \<Rightarrow> sql_value" where
  "time_value t = V_Num (of_int (instant t))"

definition json_column :: "json \<Rightarrow> sql_value" where
  "json_column j = V_Json j"

definition enum_value :: "('e \<Rightarrow> string) \<Rightarrow> 'e \<Rightarrow> sql_value" where
  "enum_value name e = V_Text (name e)"

definition optional_value :: "('v \<Rightarrow> sql_value) \<Rightarrow> 'v option \<Rightarrow> sql_value" where
  "optional_value f v = (case v of None \<Rightarrow> V_Null | Some x \<Rightarrow> f x)"

definition column_values :: "(string \<times> sql_value) list \<Rightarrow> sql_row" where
  "column_values vs c = (case map_of vs c of None \<Rightarrow> V_Null | Some v \<Rightarrow> v)"

named_theorems row_simps \<open>evaluation of the constraints of a table on the SQL row of a record\<close>

section \<open>Names of enumeration members\<close>

fun import_batch_status_name :: "import_batch_status \<Rightarrow> string" where
  "import_batch_status_name Batch_RECEIVED = ''RECEIVED''"
| "import_batch_status_name Batch_PROCESSING = ''PROCESSING''"
| "import_batch_status_name Batch_COMPLETED = ''COMPLETED''"
| "import_batch_status_name Batch_COMPLETED_WITH_ERRORS = ''COMPLETED_WITH_ERRORS''"
| "import_batch_status_name Batch_FAILED = ''FAILED''"

lemma import_batch_status_name_facts [row_simps]:
  "21 \<le> m \<Longrightarrow> varchar m (import_batch_status_name x)"
  "import_batch_status_name x = ''RECEIVED'' \<or> import_batch_status_name x = ''PROCESSING'' \<or> import_batch_status_name x = ''COMPLETED'' \<or> import_batch_status_name x = ''COMPLETED_WITH_ERRORS'' \<or> import_batch_status_name x = ''FAILED''"
  by (cases x; simp add: varchar_def)+

lemma import_batch_status_name_inject [simp]: "import_batch_status_name x = import_batch_status_name y \<longleftrightarrow> x = y"
  by (cases x; cases y) simp_all

fun transaction_type_name :: "transaction_type \<Rightarrow> string" where
  "transaction_type_name BUY = ''BUY''"
| "transaction_type_name SELL = ''SELL''"
| "transaction_type_name CASH_DEPOSIT = ''CASH_DEPOSIT''"
| "transaction_type_name CASH_WITHDRAWAL = ''CASH_WITHDRAWAL''"
| "transaction_type_name DIVIDEND = ''DIVIDEND''"
| "transaction_type_name FEE = ''FEE''"
| "transaction_type_name OPENING_CASH = ''OPENING_CASH''"
| "transaction_type_name OPENING_POSITION = ''OPENING_POSITION''"
| "transaction_type_name REVERSAL = ''REVERSAL''"

lemma transaction_type_name_facts [row_simps]:
  "16 \<le> m \<Longrightarrow> varchar m (transaction_type_name x)"
  "transaction_type_name x = ''BUY'' \<or> transaction_type_name x = ''SELL'' \<or> transaction_type_name x = ''CASH_DEPOSIT'' \<or> transaction_type_name x = ''CASH_WITHDRAWAL'' \<or> transaction_type_name x = ''DIVIDEND'' \<or> transaction_type_name x = ''FEE'' \<or> transaction_type_name x = ''OPENING_CASH'' \<or> transaction_type_name x = ''OPENING_POSITION'' \<or> transaction_type_name x = ''REVERSAL''"
  by (cases x; simp add: varchar_def)+

lemma transaction_type_name_inject [simp]: "transaction_type_name x = transaction_type_name y \<longleftrightarrow> x = y"
  by (cases x; cases y) simp_all

fun transaction_status_name :: "transaction_status \<Rightarrow> string" where
  "transaction_status_name POSTED = ''POSTED''"
| "transaction_status_name REVERSED = ''REVERSED''"

lemma transaction_status_name_facts [row_simps]:
  "8 \<le> m \<Longrightarrow> varchar m (transaction_status_name x)"
  "transaction_status_name x = ''POSTED'' \<or> transaction_status_name x = ''REVERSED''"
  by (cases x; simp add: varchar_def)+

lemma transaction_status_name_inject [simp]: "transaction_status_name x = transaction_status_name y \<longleftrightarrow> x = y"
  by (cases x; cases y) simp_all

fun import_record_status_name :: "import_record_status \<Rightarrow> string" where
  "import_record_status_name Record_RECEIVED = ''RECEIVED''"
| "import_record_status_name Record_NORMALIZED = ''NORMALIZED''"
| "import_record_status_name Record_POSTED = ''POSTED''"
| "import_record_status_name Record_DUPLICATE = ''DUPLICATE''"
| "import_record_status_name Record_CONFLICT = ''CONFLICT''"
| "import_record_status_name Record_REJECTED = ''REJECTED''"

lemma import_record_status_name_facts [row_simps]:
  "10 \<le> m \<Longrightarrow> varchar m (import_record_status_name x)"
  "import_record_status_name x = ''RECEIVED'' \<or> import_record_status_name x = ''NORMALIZED'' \<or> import_record_status_name x = ''POSTED'' \<or> import_record_status_name x = ''DUPLICATE'' \<or> import_record_status_name x = ''CONFLICT'' \<or> import_record_status_name x = ''REJECTED''"
  by (cases x; simp add: varchar_def)+

lemma import_record_status_name_inject [simp]: "import_record_status_name x = import_record_status_name y \<longleftrightarrow> x = y"
  by (cases x; cases y) simp_all

fun snapshot_status_name :: "snapshot_status \<Rightarrow> string" where
  "snapshot_status_name Snapshot_CURRENT = ''CURRENT''"
| "snapshot_status_name Snapshot_SUPERSEDED = ''SUPERSEDED''"

lemma snapshot_status_name_facts [row_simps]:
  "10 \<le> m \<Longrightarrow> varchar m (snapshot_status_name x)"
  "snapshot_status_name x = ''CURRENT'' \<or> snapshot_status_name x = ''SUPERSEDED''"
  by (cases x; simp add: varchar_def)+

lemma snapshot_status_name_inject [simp]: "snapshot_status_name x = snapshot_status_name y \<longleftrightarrow> x = y"
  by (cases x; cases y) simp_all

fun cost_basis_persistence_status_name :: "cost_basis_persistence_status \<Rightarrow> string" where
  "cost_basis_persistence_status_name Persisted_KNOWN = ''KNOWN''"
| "cost_basis_persistence_status_name Persisted_UNKNOWN = ''UNKNOWN''"

lemma cost_basis_persistence_status_name_facts [row_simps]:
  "7 \<le> m \<Longrightarrow> varchar m (cost_basis_persistence_status_name x)"
  "cost_basis_persistence_status_name x = ''KNOWN'' \<or> cost_basis_persistence_status_name x = ''UNKNOWN''"
  by (cases x; simp add: varchar_def)+

lemma cost_basis_persistence_status_name_inject [simp]: "cost_basis_persistence_status_name x = cost_basis_persistence_status_name y \<longleftrightarrow> x = y"
  by (cases x; cases y) simp_all

fun reconciliation_kind_name :: "reconciliation_kind \<Rightarrow> string" where
  "reconciliation_kind_name Kind_CASH = ''CASH''"
| "reconciliation_kind_name Kind_POSITION = ''POSITION''"

lemma reconciliation_kind_name_facts [row_simps]:
  "8 \<le> m \<Longrightarrow> varchar m (reconciliation_kind_name x)"
  "reconciliation_kind_name x = ''CASH'' \<or> reconciliation_kind_name x = ''POSITION''"
  by (cases x; simp add: varchar_def)+

lemma reconciliation_kind_name_inject [simp]: "reconciliation_kind_name x = reconciliation_kind_name y \<longleftrightarrow> x = y"
  by (cases x; cases y) simp_all

fun reconciliation_status_name :: "reconciliation_status \<Rightarrow> string" where
  "reconciliation_status_name Recon_MATCHED = ''MATCHED''"
| "reconciliation_status_name Recon_BREACH = ''BREACH''"
| "reconciliation_status_name Recon_UNAVAILABLE = ''UNAVAILABLE''"

lemma reconciliation_status_name_facts [row_simps]:
  "11 \<le> m \<Longrightarrow> varchar m (reconciliation_status_name x)"
  "reconciliation_status_name x = ''MATCHED'' \<or> reconciliation_status_name x = ''BREACH'' \<or> reconciliation_status_name x = ''UNAVAILABLE''"
  by (cases x; simp add: varchar_def)+

lemma reconciliation_status_name_inject [simp]: "reconciliation_status_name x = reconciliation_status_name y \<longleftrightarrow> x = y"
  by (cases x; cases y) simp_all

fun identifier_scheme_name :: "identifier_scheme \<Rightarrow> string" where
  "identifier_scheme_name Scheme_TICKER = ''TICKER''"
| "identifier_scheme_name Scheme_FIGI = ''FIGI''"
| "identifier_scheme_name Scheme_CUSIP = ''CUSIP''"
| "identifier_scheme_name Scheme_ISIN = ''ISIN''"
| "identifier_scheme_name Scheme_PROVIDER = ''PROVIDER''"

lemma identifier_scheme_name_facts [row_simps]:
  "8 \<le> m \<Longrightarrow> varchar m (identifier_scheme_name x)"
  "identifier_scheme_name x = ''TICKER'' \<or> identifier_scheme_name x = ''FIGI'' \<or> identifier_scheme_name x = ''CUSIP'' \<or> identifier_scheme_name x = ''ISIN'' \<or> identifier_scheme_name x = ''PROVIDER''"
  by (cases x; simp add: varchar_def)+

lemma identifier_scheme_name_inject [simp]: "identifier_scheme_name x = identifier_scheme_name y \<longleftrightarrow> x = y"
  by (cases x; cases y) simp_all

fun market_data_batch_status_name :: "market_data_batch_status \<Rightarrow> string" where
  "market_data_batch_status_name MarketBatch_RECEIVED = ''RECEIVED''"
| "market_data_batch_status_name MarketBatch_COMPLETED = ''COMPLETED''"
| "market_data_batch_status_name MarketBatch_COMPLETED_WITH_CONFLICTS = ''COMPLETED_WITH_CONFLICTS''"
| "market_data_batch_status_name MarketBatch_FAILED = ''FAILED''"

lemma market_data_batch_status_name_facts [row_simps]:
  "24 \<le> m \<Longrightarrow> varchar m (market_data_batch_status_name x)"
  "market_data_batch_status_name x = ''RECEIVED'' \<or> market_data_batch_status_name x = ''COMPLETED'' \<or> market_data_batch_status_name x = ''COMPLETED_WITH_CONFLICTS'' \<or> market_data_batch_status_name x = ''FAILED''"
  by (cases x; simp add: varchar_def)+

lemma market_data_batch_status_name_inject [simp]: "market_data_batch_status_name x = market_data_batch_status_name y \<longleftrightarrow> x = y"
  by (cases x; cases y) simp_all

fun price_type_name :: "price_type \<Rightarrow> string" where
  "price_type_name Price_CLOSE = ''CLOSE''"
| "price_type_name Price_ADJUSTED_CLOSE = ''ADJUSTED_CLOSE''"

lemma price_type_name_facts [row_simps]:
  "14 \<le> m \<Longrightarrow> varchar m (price_type_name x)"
  "price_type_name x = ''CLOSE'' \<or> price_type_name x = ''ADJUSTED_CLOSE''"
  by (cases x; simp add: varchar_def)+

lemma price_type_name_inject [simp]: "price_type_name x = price_type_name y \<longleftrightarrow> x = y"
  by (cases x; cases y) simp_all

fun policy_operator_name :: "policy_operator \<Rightarrow> string" where
  "policy_operator_name Policy_MAX = ''MAX''"
| "policy_operator_name Policy_MIN = ''MIN''"

lemma policy_operator_name_facts [row_simps]:
  "3 \<le> m \<Longrightarrow> varchar m (policy_operator_name x)"
  "policy_operator_name x = ''MAX'' \<or> policy_operator_name x = ''MIN''"
  by (cases x; simp add: varchar_def)+

lemma policy_operator_name_inject [simp]: "policy_operator_name x = policy_operator_name y \<longleftrightarrow> x = y"
  by (cases x; cases y) simp_all

fun policy_rule_severity_name :: "policy_rule_severity \<Rightarrow> string" where
  "policy_rule_severity_name Severity_BLOCKING = ''BLOCKING''"
| "policy_rule_severity_name Severity_WARNING = ''WARNING''"

lemma policy_rule_severity_name_facts [row_simps]:
  "8 \<le> m \<Longrightarrow> varchar m (policy_rule_severity_name x)"
  "policy_rule_severity_name x = ''BLOCKING'' \<or> policy_rule_severity_name x = ''WARNING''"
  by (cases x; simp add: varchar_def)+

lemma policy_rule_severity_name_inject [simp]: "policy_rule_severity_name x = policy_rule_severity_name y \<longleftrightarrow> x = y"
  by (cases x; cases y) simp_all

fun policy_evaluation_status_name :: "policy_evaluation_status \<Rightarrow> string" where
  "policy_evaluation_status_name Policy_PASS = ''PASS''"
| "policy_evaluation_status_name Policy_BREACH = ''BREACH''"
| "policy_evaluation_status_name Policy_UNAVAILABLE = ''UNAVAILABLE''"

lemma policy_evaluation_status_name_facts [row_simps]:
  "11 \<le> m \<Longrightarrow> varchar m (policy_evaluation_status_name x)"
  "policy_evaluation_status_name x = ''PASS'' \<or> policy_evaluation_status_name x = ''BREACH'' \<or> policy_evaluation_status_name x = ''UNAVAILABLE''"
  by (cases x; simp add: varchar_def)+

lemma policy_evaluation_status_name_inject [simp]: "policy_evaluation_status_name x = policy_evaluation_status_name y \<longleftrightarrow> x = y"
  by (cases x; cases y) simp_all

fun scenario_kind_name :: "scenario_kind \<Rightarrow> string" where
  "scenario_kind_name Scenario_HYPOTHETICAL = ''HYPOTHETICAL''"
| "scenario_kind_name Scenario_HISTORICAL = ''HISTORICAL''"

lemma scenario_kind_name_facts [row_simps]:
  "12 \<le> m \<Longrightarrow> varchar m (scenario_kind_name x)"
  "scenario_kind_name x = ''HYPOTHETICAL'' \<or> scenario_kind_name x = ''HISTORICAL''"
  by (cases x; simp add: varchar_def)+

lemma scenario_kind_name_inject [simp]: "scenario_kind_name x = scenario_kind_name y \<longleftrightarrow> x = y"
  by (cases x; cases y) simp_all

fun shock_target_type_name :: "shock_target_type \<Rightarrow> string" where
  "shock_target_type_name Target_SECURITY = ''SECURITY''"
| "shock_target_type_name Target_MARKET = ''MARKET''"
| "shock_target_type_name Target_SECTOR = ''SECTOR''"
| "shock_target_type_name Target_RATE = ''RATE''"
| "shock_target_type_name Target_FACTOR = ''FACTOR''"

lemma shock_target_type_name_facts [row_simps]:
  "8 \<le> m \<Longrightarrow> varchar m (shock_target_type_name x)"
  "shock_target_type_name x = ''SECURITY'' \<or> shock_target_type_name x = ''MARKET'' \<or> shock_target_type_name x = ''SECTOR'' \<or> shock_target_type_name x = ''RATE'' \<or> shock_target_type_name x = ''FACTOR''"
  by (cases x; simp add: varchar_def)+

lemma shock_target_type_name_inject [simp]: "shock_target_type_name x = shock_target_type_name y \<longleftrightarrow> x = y"
  by (cases x; cases y) simp_all

fun shock_unit_name :: "shock_unit \<Rightarrow> string" where
  "shock_unit_name Unit_RELATIVE_RETURN = ''RELATIVE_RETURN''"
| "shock_unit_name Unit_YIELD_CHANGE = ''YIELD_CHANGE''"
| "shock_unit_name Unit_FACTOR_MOVE = ''FACTOR_MOVE''"

lemma shock_unit_name_facts [row_simps]:
  "15 \<le> m \<Longrightarrow> varchar m (shock_unit_name x)"
  "shock_unit_name x = ''RELATIVE_RETURN'' \<or> shock_unit_name x = ''YIELD_CHANGE'' \<or> shock_unit_name x = ''FACTOR_MOVE''"
  by (cases x; simp add: varchar_def)+

lemma shock_unit_name_inject [simp]: "shock_unit_name x = shock_unit_name y \<longleftrightarrow> x = y"
  by (cases x; cases y) simp_all

fun proposal_status_name :: "proposal_status \<Rightarrow> string" where
  "proposal_status_name DRAFT = ''DRAFT''"
| "proposal_status_name SUBMITTED = ''SUBMITTED''"
| "proposal_status_name UNDER_REVIEW = ''UNDER_REVIEW''"
| "proposal_status_name CHANGES_REQUESTED = ''CHANGES_REQUESTED''"
| "proposal_status_name APPROVED = ''APPROVED''"
| "proposal_status_name REJECTED = ''REJECTED''"
| "proposal_status_name WITHDRAWN = ''WITHDRAWN''"

lemma proposal_status_name_facts [row_simps]:
  "17 \<le> m \<Longrightarrow> varchar m (proposal_status_name x)"
  "proposal_status_name x = ''DRAFT'' \<or> proposal_status_name x = ''SUBMITTED'' \<or> proposal_status_name x = ''UNDER_REVIEW'' \<or> proposal_status_name x = ''CHANGES_REQUESTED'' \<or> proposal_status_name x = ''APPROVED'' \<or> proposal_status_name x = ''REJECTED'' \<or> proposal_status_name x = ''WITHDRAWN''"
  by (cases x; simp add: varchar_def)+

lemma proposal_status_name_inject [simp]: "proposal_status_name x = proposal_status_name y \<longleftrightarrow> x = y"
  by (cases x; cases y) simp_all

fun proposal_action_name :: "proposal_action \<Rightarrow> string" where
  "proposal_action_name Action_BUY = ''BUY''"
| "proposal_action_name Action_SELL = ''SELL''"
| "proposal_action_name Action_EXIT = ''EXIT''"
| "proposal_action_name Action_HOLD = ''HOLD''"

lemma proposal_action_name_facts [row_simps]:
  "4 \<le> m \<Longrightarrow> varchar m (proposal_action_name x)"
  "proposal_action_name x = ''BUY'' \<or> proposal_action_name x = ''SELL'' \<or> proposal_action_name x = ''EXIT'' \<or> proposal_action_name x = ''HOLD''"
  by (cases x; simp add: varchar_def)+

lemma proposal_action_name_inject [simp]: "proposal_action_name x = proposal_action_name y \<longleftrightarrow> x = y"
  by (cases x; cases y) simp_all

fun review_recommendation_name :: "review_recommendation \<Rightarrow> string" where
  "review_recommendation_name Review_SUPPORT = ''SUPPORT''"
| "review_recommendation_name Review_OPPOSE = ''OPPOSE''"
| "review_recommendation_name Review_COMMENT = ''COMMENT''"

lemma review_recommendation_name_facts [row_simps]:
  "7 \<le> m \<Longrightarrow> varchar m (review_recommendation_name x)"
  "review_recommendation_name x = ''SUPPORT'' \<or> review_recommendation_name x = ''OPPOSE'' \<or> review_recommendation_name x = ''COMMENT''"
  by (cases x; simp add: varchar_def)+

lemma review_recommendation_name_inject [simp]: "review_recommendation_name x = review_recommendation_name y \<longleftrightarrow> x = y"
  by (cases x; cases y) simp_all

fun workflow_action_name :: "workflow_action \<Rightarrow> string" where
  "workflow_action_name Workflow_CREATED = ''CREATED''"
| "workflow_action_name Workflow_REVISED = ''REVISED''"
| "workflow_action_name Workflow_ANALYZED = ''ANALYZED''"
| "workflow_action_name Workflow_SUBMITTED = ''SUBMITTED''"
| "workflow_action_name Workflow_REVIEW_STARTED = ''REVIEW_STARTED''"
| "workflow_action_name Workflow_REVIEW_RECORDED = ''REVIEW_RECORDED''"
| "workflow_action_name Workflow_CHANGES_REQUESTED = ''CHANGES_REQUESTED''"
| "workflow_action_name Workflow_APPROVED = ''APPROVED''"
| "workflow_action_name Workflow_REJECTED = ''REJECTED''"
| "workflow_action_name Workflow_WITHDRAWN = ''WITHDRAWN''"

lemma workflow_action_name_facts [row_simps]:
  "17 \<le> m \<Longrightarrow> varchar m (workflow_action_name x)"
  "workflow_action_name x = ''CREATED'' \<or> workflow_action_name x = ''REVISED'' \<or> workflow_action_name x = ''ANALYZED'' \<or> workflow_action_name x = ''SUBMITTED'' \<or> workflow_action_name x = ''REVIEW_STARTED'' \<or> workflow_action_name x = ''REVIEW_RECORDED'' \<or> workflow_action_name x = ''CHANGES_REQUESTED'' \<or> workflow_action_name x = ''APPROVED'' \<or> workflow_action_name x = ''REJECTED'' \<or> workflow_action_name x = ''WITHDRAWN''"
  by (cases x; simp add: varchar_def)+

lemma workflow_action_name_inject [simp]: "workflow_action_name x = workflow_action_name y \<longleftrightarrow> x = y"
  by (cases x; cases y) simp_all

fun conversation_status_name :: "conversation_status \<Rightarrow> string" where
  "conversation_status_name Conversation_ACTIVE = ''ACTIVE''"
| "conversation_status_name Conversation_COMPLETED = ''COMPLETED''"
| "conversation_status_name Conversation_REFUSED = ''REFUSED''"
| "conversation_status_name Conversation_FAILED = ''FAILED''"

lemma conversation_status_name_facts [row_simps]:
  "9 \<le> m \<Longrightarrow> varchar m (conversation_status_name x)"
  "conversation_status_name x = ''ACTIVE'' \<or> conversation_status_name x = ''COMPLETED'' \<or> conversation_status_name x = ''REFUSED'' \<or> conversation_status_name x = ''FAILED''"
  by (cases x; simp add: varchar_def)+

lemma conversation_status_name_inject [simp]: "conversation_status_name x = conversation_status_name y \<longleftrightarrow> x = y"
  by (cases x; cases y) simp_all

fun ai_message_role_name :: "ai_message_role \<Rightarrow> string" where
  "ai_message_role_name Message_USER = ''USER''"
| "ai_message_role_name Message_ASSISTANT = ''ASSISTANT''"
| "ai_message_role_name Message_REFUSAL = ''REFUSAL''"

lemma ai_message_role_name_facts [row_simps]:
  "9 \<le> m \<Longrightarrow> varchar m (ai_message_role_name x)"
  "ai_message_role_name x = ''USER'' \<or> ai_message_role_name x = ''ASSISTANT'' \<or> ai_message_role_name x = ''REFUSAL''"
  by (cases x; simp add: varchar_def)+

lemma ai_message_role_name_inject [simp]: "ai_message_role_name x = ai_message_role_name y \<longleftrightarrow> x = y"
  by (cases x; cases y) simp_all

fun tool_execution_status_name :: "tool_execution_status \<Rightarrow> string" where
  "tool_execution_status_name Tool_SUCCEEDED = ''SUCCEEDED''"
| "tool_execution_status_name Tool_UNAVAILABLE = ''UNAVAILABLE''"
| "tool_execution_status_name Tool_DENIED = ''DENIED''"
| "tool_execution_status_name Tool_INVALID = ''INVALID''"

lemma tool_execution_status_name_facts [row_simps]:
  "11 \<le> m \<Longrightarrow> varchar m (tool_execution_status_name x)"
  "tool_execution_status_name x = ''SUCCEEDED'' \<or> tool_execution_status_name x = ''UNAVAILABLE'' \<or> tool_execution_status_name x = ''DENIED'' \<or> tool_execution_status_name x = ''INVALID''"
  by (cases x; simp add: varchar_def)+

lemma tool_execution_status_name_inject [simp]: "tool_execution_status_name x = tool_execution_status_name y \<longleftrightarrow> x = y"
  by (cases x; cases y) simp_all

section \<open>Rows\<close>

definition fund_sql :: "fund_row \<Rightarrow> sql_row" where
  "fund_sql r = column_values [(''id'', V_Uuid (fd_id r)), (''slug'', V_Text (fd_slug r)), (''name'', V_Text (fd_name r)),
     (''base_currency'', V_Text (fd_base_currency r)), (''timezone'', V_Text (fd_timezone r)),
     (''created_at'', time_value (fd_created_at r))]"

definition user_sql :: "user_row \<Rightarrow> sql_row" where
  "user_sql r = column_values [(''id'', V_Uuid (usr_id r)), (''email'', V_Text (usr_email r)),
     (''display_name'', V_Text (usr_display_name r)), (''is_active'', V_Bool (usr_is_active r)),
     (''created_at'', time_value (usr_created_at r))]"

definition role_sql :: "role_row \<Rightarrow> sql_row" where
  "role_sql r = column_values [(''id'', V_Uuid (rl_id r)), (''code'', V_Text (rl_code r)), (''name'', V_Text (rl_name r))]"

definition user_role_sql :: "user_role_row \<Rightarrow> sql_row" where
  "user_role_sql r = column_values [(''user_id'', V_Uuid (ur_user_id r)), (''role_id'', V_Uuid (ur_role_id r)),
     (''fund_id'', V_Uuid (ur_fund_id r))]"

definition instrument_sql :: "instrument_row \<Rightarrow> sql_row" where
  "instrument_sql r = column_values [(''id'', V_Uuid (ins_id r)), (''symbol'', V_Text (ins_symbol r)), (''name'', V_Text (ins_name r)),
     (''asset_type'', V_Text (ins_asset_type r)), (''exchange'', V_Text (ins_exchange r)),
     (''currency'', V_Text (ins_currency r)), (''is_active'', V_Bool (ins_is_active r))]"

definition account_sql :: "account_row \<Rightarrow> sql_row" where
  "account_sql r = column_values [(''id'', V_Uuid (acct_id r)), (''fund_id'', V_Uuid (acct_fund_id r)), (''code'', V_Text (acct_code r)),
     (''name'', V_Text (acct_name r)), (''currency'', V_Text (acct_currency r)),
     (''created_at'', time_value (acct_created_at r))]"

definition import_batch_sql :: "import_batch_row \<Rightarrow> sql_row" where
  "import_batch_sql r = column_values [(''id'', V_Uuid (ib_id r)), (''fund_id'', V_Uuid (ib_fund_id r)), (''source'', V_Text (ib_source r)),
     (''filename'', optional_value V_Text (ib_filename r)),
     (''content_sha256'', V_Text (ib_content_sha256 r)), (''parser_version'', V_Text (ib_parser_version r)),
     (''status'', enum_value import_batch_status_name (ib_status r)),
     (''initiated_by_user_id'', optional_value V_Uuid (ib_initiated_by_user_id r)),
     (''received_at'', time_value (ib_received_at r)),
     (''completed_at'', optional_value time_value (ib_completed_at r)),
     (''total_count'', int_value (ib_total_count r)), (''posted_count'', int_value (ib_posted_count r)),
     (''duplicate_count'', int_value (ib_duplicate_count r)),
     (''rejected_count'', int_value (ib_rejected_count r)),
     (''conflict_count'', int_value (ib_conflict_count r)),
     (''failure_summary'', optional_value V_Text (ib_failure_summary r))]"

definition transaction_sql :: "transaction_row \<Rightarrow> sql_row" where
  "transaction_sql r = column_values [(''id'', V_Uuid (tx_id r)), (''fund_id'', V_Uuid (tx_fund_id r)),
     (''account_id'', V_Uuid (tx_account_id r)),
     (''instrument_id'', optional_value V_Uuid (tx_instrument_id r)),
     (''transaction_type'', enum_value transaction_type_name (tx_transaction_type r)),
     (''quantity'', optional_value dec_value (tx_quantity r)),
     (''unit_price'', optional_value dec_value (tx_unit_price r)),
     (''amount'', optional_value dec_value (tx_amount r)), (''fees'', dec_value (tx_fees r)),
     (''currency'', V_Text (tx_currency r)), (''effective_at'', time_value (tx_effective_at r)),
     (''recorded_at'', time_value (tx_recorded_at r)),
     (''trade_date'', optional_value int_value (tx_trade_date r)),
     (''settlement_date'', optional_value int_value (tx_settlement_date r)),
     (''source'', V_Text (tx_source r)), (''external_id'', V_Text (tx_external_id r)),
     (''normalized_payload_hash'', V_Text (tx_normalized_payload_hash r)),
     (''status'', enum_value transaction_status_name (tx_status r)),
     (''import_batch_id'', optional_value V_Uuid (tx_import_batch_id r)),
     (''created_by_user_id'', optional_value V_Uuid (tx_created_by_user_id r)),
     (''reverses_transaction_id'', optional_value V_Uuid (tx_reverses_transaction_id r)),
     (''correction_command_id'', optional_value V_Uuid (tx_correction_command_id r)),
     (''description'', optional_value V_Text (tx_description r)),
     (''source_metadata'', json_column (tx_source_metadata r))]"

definition import_conflict_sql :: "import_conflict_row \<Rightarrow> sql_row" where
  "import_conflict_sql r = column_values [(''id'', V_Uuid (ic_id r)), (''fund_id'', V_Uuid (ic_fund_id r)),
     (''import_batch_id'', V_Uuid (ic_import_batch_id r)),
     (''existing_transaction_id'', V_Uuid (ic_existing_transaction_id r)),
     (''source'', V_Text (ic_source r)), (''external_id'', V_Text (ic_external_id r)),
     (''existing_payload_hash'', V_Text (ic_existing_payload_hash r)),
     (''incoming_payload_hash'', V_Text (ic_incoming_payload_hash r)),
     (''incoming_payload'', json_column (ic_incoming_payload r)),
     (''detected_at'', time_value (ic_detected_at r))]"

definition import_record_sql :: "import_record_row \<Rightarrow> sql_row" where
  "import_record_sql r = column_values [(''id'', V_Uuid (ir_id r)), (''import_batch_id'', V_Uuid (ir_import_batch_id r)),
     (''row_number'', int_value (ir_row_number r)), (''source_locator'', V_Text (ir_source_locator r)),
     (''raw_payload'', json_column (ir_raw_payload r)),
     (''normalized_payload'', optional_value json_column (ir_normalized_payload r)),
     (''raw_payload_hash'', V_Text (ir_raw_payload_hash r)),
     (''status'', enum_value import_record_status_name (ir_status r)),
     (''transaction_id'', optional_value V_Uuid (ir_transaction_id r)),
     (''import_conflict_id'', optional_value V_Uuid (ir_import_conflict_id r)),
     (''error_code'', optional_value V_Text (ir_error_code r)),
     (''error_message'', optional_value V_Text (ir_error_message r)),
     (''created_at'', time_value (ir_created_at r))]"

definition audit_event_sql :: "audit_event_row \<Rightarrow> sql_row" where
  "audit_event_sql r = column_values [(''id'', V_Uuid (ae_id r)), (''fund_id'', V_Uuid (ae_fund_id r)),
     (''actor_user_id'', optional_value V_Uuid (ae_actor_user_id r)), (''action'', V_Text (ae_action r)),
     (''entity_type'', V_Text (ae_entity_type r)), (''entity_id'', V_Uuid (ae_entity_id r)),
     (''occurred_at'', time_value (ae_occurred_at r)), (''details'', json_column (ae_details r))]"

definition portfolio_snapshot_sql :: "portfolio_snapshot_row \<Rightarrow> sql_row" where
  "portfolio_snapshot_sql r = column_values [(''id'', V_Uuid (snap_id r)), (''fund_id'', V_Uuid (snap_fund_id r)),
     (''account_id'', optional_value V_Uuid (snap_account_id r)), (''as_of'', time_value (snap_as_of r)),
     (''revision'', int_value (snap_revision r)),
     (''status'', enum_value snapshot_status_name (snap_status r)),
     (''calculation_version'', V_Text (snap_calculation_version r)),
     (''canonical_input_hash'', V_Text (snap_canonical_input_hash r)),
     (''canonical_state'', json_column (snap_canonical_state r)),
     (''applied_transaction_count'', int_value (snap_applied_transaction_count r)),
     (''last_applied_transaction_id'', optional_value V_Uuid (snap_last_applied_transaction_id r)),
     (''supersedes_snapshot_id'', optional_value V_Uuid (snap_supersedes_snapshot_id r)),
     (''created_at'', time_value (snap_created_at r))]"

definition snapshot_cash_sql :: "snapshot_cash_row \<Rightarrow> sql_row" where
  "snapshot_cash_sql r = column_values [(''id'', V_Uuid (sc_id r)), (''snapshot_id'', V_Uuid (sc_snapshot_id r)),
     (''account_id'', V_Uuid (sc_account_id r)), (''currency'', V_Text (sc_currency r)),
     (''amount'', dec_value (sc_amount r))]"

definition snapshot_position_sql :: "snapshot_position_row \<Rightarrow> sql_row" where
  "snapshot_position_sql r = column_values [(''id'', V_Uuid (sp_id r)), (''snapshot_id'', V_Uuid (sp_snapshot_id r)),
     (''account_id'', V_Uuid (sp_account_id r)), (''instrument_id'', V_Uuid (sp_instrument_id r)),
     (''quantity'', dec_value (sp_quantity r)),
     (''total_cost_basis'', optional_value dec_value (sp_total_cost_basis r)),
     (''average_cost'', optional_value dec_value (sp_average_cost r)),
     (''cost_basis_status'', enum_value cost_basis_persistence_status_name (sp_cost_basis_status r)),
     (''source_transaction_ids'', json_column (sp_source_transaction_ids r))]"

definition reconciliation_observation_sql :: "reconciliation_observation_row \<Rightarrow> sql_row" where
  "reconciliation_observation_sql r = column_values [(''id'', V_Uuid (ob_id r)), (''fund_id'', V_Uuid (ob_fund_id r)),
     (''account_id'', V_Uuid (ob_account_id r)), (''as_of'', time_value (ob_as_of r)),
     (''kind'', enum_value reconciliation_kind_name (ob_kind r)),
     (''instrument_id'', optional_value V_Uuid (ob_instrument_id r)),
     (''reported_value'', dec_value (ob_reported_value r)), (''currency'', V_Text (ob_currency r)),
     (''source'', V_Text (ob_source r)), (''external_id'', V_Text (ob_external_id r)),
     (''import_batch_id'', optional_value V_Uuid (ob_import_batch_id r)),
     (''evidence'', json_column (ob_evidence r)), (''recorded_at'', time_value (ob_recorded_at r))]"

definition reconciliation_run_sql :: "reconciliation_run_row \<Rightarrow> sql_row" where
  "reconciliation_run_sql r = column_values [(''id'', V_Uuid (rr_id r)), (''snapshot_id'', V_Uuid (rr_snapshot_id r)),
     (''tolerance'', dec_value (rr_tolerance r)), (''evidence_hash'', V_Text (rr_evidence_hash r)),
     (''status'', enum_value reconciliation_status_name (rr_status r)),
     (''created_at'', time_value (rr_created_at r)),
     (''created_by_user_id'', optional_value V_Uuid (rr_created_by_user_id r))]"

definition reconciliation_item_sql :: "reconciliation_item_row \<Rightarrow> sql_row" where
  "reconciliation_item_sql r = column_values [(''id'', V_Uuid (ri_id r)), (''reconciliation_run_id'', V_Uuid (ri_reconciliation_run_id r)),
     (''observation_id'', V_Uuid (ri_observation_id r)),
     (''expected_value'', dec_value (ri_expected_value r)),
     (''reported_value'', dec_value (ri_reported_value r)), (''difference'', dec_value (ri_difference r)),
     (''tolerance'', dec_value (ri_tolerance r)),
     (''status'', enum_value reconciliation_status_name (ri_status r))]"

definition security_identifier_sql :: "security_identifier_row \<Rightarrow> sql_row" where
  "security_identifier_sql r = column_values [(''id'', V_Uuid (si_id r)), (''instrument_id'', V_Uuid (si_instrument_id r)),
     (''scheme'', enum_value identifier_scheme_name (si_scheme r)), (''value'', V_Text (si_value r)),
     (''provider'', V_Text (si_provider r)), (''valid_from'', optional_value time_value (si_valid_from r)),
     (''valid_to'', optional_value time_value (si_valid_to r)), (''is_primary'', V_Bool (si_is_primary r))]"

definition market_data_batch_sql :: "market_data_batch_row \<Rightarrow> sql_row" where
  "market_data_batch_sql r = column_values [(''id'', V_Uuid (mb_id r)), (''provider'', V_Text (mb_provider r)),
     (''dataset'', V_Text (mb_dataset r)), (''request_hash'', V_Text (mb_request_hash r)),
     (''status'', enum_value market_data_batch_status_name (mb_status r)),
     (''started_at'', time_value (mb_started_at r)),
     (''completed_at'', optional_value time_value (mb_completed_at r)),
     (''inserted_count'', int_value (mb_inserted_count r)),
     (''duplicate_count'', int_value (mb_duplicate_count r)),
     (''conflict_count'', int_value (mb_conflict_count r))]"

definition market_price_sql :: "market_price_row \<Rightarrow> sql_row" where
  "market_price_sql r = column_values [(''id'', V_Uuid (mp_id r)), (''instrument_id'', V_Uuid (mp_instrument_id r)),
     (''batch_id'', V_Uuid (mp_batch_id r)), (''provider'', V_Text (mp_provider r)),
     (''price_type'', enum_value price_type_name (mp_price_type r)),
     (''observed_at'', time_value (mp_observed_at r)), (''received_at'', time_value (mp_received_at r)),
     (''price'', dec_value (mp_price r)), (''currency'', V_Text (mp_currency r)),
     (''source_identifier'', V_Text (mp_source_identifier r)),
     (''source_metadata'', json_column (mp_source_metadata r))]"

definition market_price_conflict_sql :: "market_price_conflict_row \<Rightarrow> sql_row" where
  "market_price_conflict_sql r = column_values [(''id'', V_Uuid (mpc_id r)), (''batch_id'', V_Uuid (mpc_batch_id r)),
     (''existing_price_id'', V_Uuid (mpc_existing_price_id r)),
     (''incoming_price'', dec_value (mpc_incoming_price r)),
     (''incoming_currency'', V_Text (mpc_incoming_currency r)),
     (''incoming_metadata'', json_column (mpc_incoming_metadata r)),
     (''detected_at'', time_value (mpc_detected_at r))]"

definition instrument_classification_sql :: "instrument_classification_row \<Rightarrow> sql_row" where
  "instrument_classification_sql r = column_values [(''id'', V_Uuid (cl_id r)), (''instrument_id'', V_Uuid (cl_instrument_id r)),
     (''sector'', V_Text (cl_sector r)), (''asset_class'', V_Text (cl_asset_class r)),
     (''geography'', V_Text (cl_geography r)), (''effective_from'', time_value (cl_effective_from r)),
     (''effective_to'', optional_value time_value (cl_effective_to r)), (''source'', V_Text (cl_source r)),
     (''source_metadata'', json_column (cl_source_metadata r)),
     (''recorded_at'', time_value (cl_recorded_at r))]"

definition risk_policy_sql :: "risk_policy_row \<Rightarrow> sql_row" where
  "risk_policy_sql r = column_values [(''id'', V_Uuid (rp_id r)), (''fund_id'', V_Uuid (rp_fund_id r)), (''name'', V_Text (rp_name r)),
     (''version'', int_value (rp_version r)), (''effective_from'', time_value (rp_effective_from r)),
     (''effective_to'', optional_value time_value (rp_effective_to r)),
     (''created_at'', time_value (rp_created_at r)),
     (''created_by_user_id'', optional_value V_Uuid (rp_created_by_user_id r))]"

definition risk_policy_rule_sql :: "risk_policy_rule_row \<Rightarrow> sql_row" where
  "risk_policy_rule_sql r = column_values [(''id'', V_Uuid (rule_id r)), (''policy_id'', V_Uuid (rule_policy_id r)),
     (''metric_key'', V_Text (rule_metric_key r)),
     (''operator'', enum_value policy_operator_name (rule_operator r)),
     (''threshold'', dec_value (rule_threshold r)), (''unit'', V_Text (rule_unit r)),
     (''explanation_template'', V_Text (rule_explanation_template r)),
     (''severity'', enum_value policy_rule_severity_name (rule_severity r))]"

definition risk_evaluation_sql :: "risk_evaluation_row \<Rightarrow> sql_row" where
  "risk_evaluation_sql r = column_values [(''id'', V_Uuid (re_id r)), (''fund_id'', V_Uuid (re_fund_id r)),
     (''policy_id'', V_Uuid (re_policy_id r)), (''as_of'', time_value (re_as_of r)),
     (''input_hash'', V_Text (re_input_hash r)),
     (''calculation_version'', V_Text (re_calculation_version r)),
     (''created_at'', time_value (re_created_at r))]"

definition risk_evaluation_item_sql :: "risk_evaluation_item_row \<Rightarrow> sql_row" where
  "risk_evaluation_item_sql r = column_values [(''id'', V_Uuid (rei_id r)), (''evaluation_id'', V_Uuid (rei_evaluation_id r)),
     (''rule_id'', V_Uuid (rei_rule_id r)),
     (''status'', enum_value policy_evaluation_status_name (rei_status r)),
     (''observed_value'', optional_value dec_value (rei_observed_value r)),
     (''threshold'', dec_value (rei_threshold r)),
     (''breach_amount'', optional_value dec_value (rei_breach_amount r)), (''unit'', V_Text (rei_unit r)),
     (''explanation'', V_Text (rei_explanation r))]"

definition scenario_definition_sql :: "scenario_definition_row \<Rightarrow> sql_row" where
  "scenario_definition_sql r = column_values [(''id'', V_Uuid (sd_id r)), (''fund_id'', V_Uuid (sd_fund_id r)), (''name'', V_Text (sd_name r)),
     (''version'', int_value (sd_version r)), (''kind'', enum_value scenario_kind_name (sd_kind r)),
     (''description'', V_Text (sd_description r)), (''source_metadata'', json_column (sd_source_metadata r)),
     (''created_at'', time_value (sd_created_at r)),
     (''created_by_user_id'', optional_value V_Uuid (sd_created_by_user_id r))]"

definition scenario_shock_sql :: "scenario_shock_row \<Rightarrow> sql_row" where
  "scenario_shock_sql r = column_values [(''id'', V_Uuid (shr_id r)), (''scenario_id'', V_Uuid (shr_scenario_id r)),
     (''target_type'', enum_value shock_target_type_name (shr_target_type r)),
     (''target'', V_Text (shr_target r)), (''magnitude'', dec_value (shr_magnitude r)),
     (''unit'', enum_value shock_unit_name (shr_unit r)), (''sequence'', int_value (shr_sequence r))]"

definition instrument_risk_sensitivity_sql :: "instrument_risk_sensitivity_row \<Rightarrow> sql_row" where
  "instrument_risk_sensitivity_sql r = column_values [(''id'', V_Uuid (irs_id r)), (''instrument_id'', V_Uuid (irs_instrument_id r)),
     (''effective_from'', time_value (irs_effective_from r)),
     (''effective_to'', optional_value time_value (irs_effective_to r)),
     (''rate_duration'', optional_value dec_value (irs_rate_duration r)),
     (''factor_loadings'', json_column (irs_factor_loadings r)), (''source'', V_Text (irs_source r)),
     (''source_metadata'', json_column (irs_source_metadata r)),
     (''recorded_at'', time_value (irs_recorded_at r))]"

definition scenario_run_sql :: "scenario_run_row \<Rightarrow> sql_row" where
  "scenario_run_sql r = column_values [(''id'', V_Uuid (sr_id r)), (''fund_id'', V_Uuid (sr_fund_id r)),
     (''scenario_id'', V_Uuid (sr_scenario_id r)), (''policy_id'', V_Uuid (sr_policy_id r)),
     (''as_of'', time_value (sr_as_of r)), (''canonical_input_hash'', V_Text (sr_canonical_input_hash r)),
     (''calculation_version'', V_Text (sr_calculation_version r)),
     (''baseline_value'', dec_value (sr_baseline_value r)),
     (''projected_value'', dec_value (sr_projected_value r)), (''pnl_impact'', dec_value (sr_pnl_impact r)),
     (''portfolio_return_impact'', dec_value (sr_portfolio_return_impact r)),
     (''benchmark_scenario_return'', dec_value (sr_benchmark_scenario_return r)),
     (''result_summary'', json_column (sr_result_summary r)), (''created_at'', time_value (sr_created_at r))]"

definition scenario_position_result_sql :: "scenario_position_result_row \<Rightarrow> sql_row" where
  "scenario_position_result_sql r = column_values [(''id'', V_Uuid (spr_id r)), (''scenario_run_id'', V_Uuid (spr_scenario_run_id r)),
     (''instrument_id'', V_Uuid (spr_instrument_id r)),
     (''baseline_market_value'', dec_value (spr_baseline_market_value r)),
     (''projected_market_value'', dec_value (spr_projected_market_value r)),
     (''return_impact'', dec_value (spr_return_impact r)), (''pnl_impact'', dec_value (spr_pnl_impact r)),
     (''contribution_evidence'', json_column (spr_contribution_evidence r))]"

definition investment_proposal_sql :: "investment_proposal_row \<Rightarrow> sql_row" where
  "investment_proposal_sql r = column_values [(''id'', V_Uuid (ip_id r)), (''fund_id'', V_Uuid (ip_fund_id r)),
     (''created_by_user_id'', V_Uuid (ip_created_by_user_id r)),
     (''status'', enum_value proposal_status_name (ip_status r)),
     (''current_version'', int_value (ip_current_version r)),
     (''row_version'', int_value (ip_row_version r)), (''created_at'', time_value (ip_created_at r)),
     (''updated_at'', time_value (ip_updated_at r))]"

definition proposal_version_sql :: "proposal_version_row \<Rightarrow> sql_row" where
  "proposal_version_sql r = column_values [(''id'', V_Uuid (pv_id r)), (''proposal_id'', V_Uuid (pv_proposal_id r)),
     (''version'', int_value (pv_version r)), (''title'', V_Text (pv_title r)),
     (''thesis'', V_Text (pv_thesis r)), (''portfolio_input_hash'', V_Text (pv_portfolio_input_hash r)),
     (''portfolio_as_of'', time_value (pv_portfolio_as_of r)),
     (''content_hash'', V_Text (pv_content_hash r)),
     (''created_by_user_id'', V_Uuid (pv_created_by_user_id r)),
     (''created_at'', time_value (pv_created_at r)),
     (''supersedes_version_id'', optional_value V_Uuid (pv_supersedes_version_id r))]"

definition proposal_line_sql :: "proposal_line_row \<Rightarrow> sql_row" where
  "proposal_line_sql r = column_values [(''id'', V_Uuid (pl_id r)), (''proposal_version_id'', V_Uuid (pl_proposal_version_id r)),
     (''instrument_id'', V_Uuid (pl_instrument_id r)),
     (''action'', enum_value proposal_action_name (pl_action r)),
     (''current_weight'', dec_value (pl_current_weight r)),
     (''proposed_weight'', dec_value (pl_proposed_weight r)),
     (''estimated_notional'', dec_value (pl_estimated_notional r)),
     (''rationale'', V_Text (pl_rationale r))]"

definition proposal_analysis_sql :: "proposal_analysis_row \<Rightarrow> sql_row" where
  "proposal_analysis_sql r = column_values [(''id'', V_Uuid (pa_id r)), (''proposal_version_id'', V_Uuid (pa_proposal_version_id r)),
     (''risk_evaluation_id'', V_Uuid (pa_risk_evaluation_id r)),
     (''scenario_run_id'', optional_value V_Uuid (pa_scenario_run_id r)),
     (''recorded_by_user_id'', V_Uuid (pa_recorded_by_user_id r)),
     (''recorded_at'', time_value (pa_recorded_at r)), (''evidence_hash'', V_Text (pa_evidence_hash r))]"

definition proposal_review_sql :: "proposal_review_row \<Rightarrow> sql_row" where
  "proposal_review_sql r = column_values [(''id'', V_Uuid (prv_id r)), (''proposal_id'', V_Uuid (prv_proposal_id r)),
     (''proposal_version_id'', V_Uuid (prv_proposal_version_id r)),
     (''reviewer_user_id'', V_Uuid (prv_reviewer_user_id r)),
     (''reviewer_role'', V_Text (prv_reviewer_role r)),
     (''recommendation'', enum_value review_recommendation_name (prv_recommendation r)),
     (''comment'', V_Text (prv_comment r)), (''created_at'', time_value (prv_created_at r))]"

definition proposal_transition_sql :: "proposal_transition_row \<Rightarrow> sql_row" where
  "proposal_transition_sql r = column_values [(''id'', V_Uuid (pt_id r)), (''proposal_id'', V_Uuid (pt_proposal_id r)),
     (''proposal_version_id'', V_Uuid (pt_proposal_version_id r)),
     (''action'', enum_value workflow_action_name (pt_action r)),
     (''from_status'', optional_value (enum_value proposal_status_name) (pt_from_status r)),
     (''to_status'', enum_value proposal_status_name (pt_to_status r)),
     (''actor_user_id'', V_Uuid (pt_actor_user_id r)), (''actor_role'', V_Text (pt_actor_role r)),
     (''reason'', optional_value V_Text (pt_reason r)),
     (''decision_provenance'', json_column (pt_decision_provenance r)),
     (''occurred_at'', time_value (pt_occurred_at r)),
     (''resulting_row_version'', int_value (pt_resulting_row_version r))]"

definition ai_conversation_sql :: "ai_conversation_row \<Rightarrow> sql_row" where
  "ai_conversation_sql r = column_values [(''id'', V_Uuid (aic_id r)), (''fund_id'', V_Uuid (aic_fund_id r)),
     (''actor_user_id'', V_Uuid (aic_actor_user_id r)),
     (''status'', enum_value conversation_status_name (aic_status r)), (''model'', V_Text (aic_model r)),
     (''created_at'', time_value (aic_created_at r)),
     (''completed_at'', optional_value time_value (aic_completed_at r))]"

definition ai_message_sql :: "ai_message_row \<Rightarrow> sql_row" where
  "ai_message_sql r = column_values [(''id'', V_Uuid (aim_id r)), (''conversation_id'', V_Uuid (aim_conversation_id r)),
     (''role'', enum_value ai_message_role_name (aim_role r)), (''content'', V_Text (aim_content r)),
     (''content_hash'', V_Text (aim_content_hash r)), (''citations'', json_column (aim_citations r)),
     (''provider_response_id'', optional_value V_Text (aim_provider_response_id r)),
     (''created_at'', time_value (aim_created_at r))]"

definition ai_tool_call_sql :: "ai_tool_call_row \<Rightarrow> sql_row" where
  "ai_tool_call_sql r = column_values [(''id'', V_Uuid (atc_id r)), (''conversation_id'', V_Uuid (atc_conversation_id r)),
     (''provider_call_id'', V_Text (atc_provider_call_id r)), (''tool_name'', V_Text (atc_tool_name r)),
     (''arguments'', json_column (atc_arguments r)),
     (''status'', enum_value tool_execution_status_name (atc_status r)),
     (''result'', optional_value json_column (atc_result r)),
     (''result_hash'', optional_value V_Text (atc_result_hash r)), (''sources'', json_column (atc_sources r)),
     (''error'', optional_value V_Text (atc_error r)), (''occurred_at'', time_value (atc_occurred_at r))]"

section \<open>The database\<close>

definition database_sql :: "database \<Rightarrow> string \<Rightarrow> sql_row list" where
  "database_sql db = (\<lambda>n.
     if n = ''funds'' then map fund_sql (db_funds db) else
     if n = ''users'' then map user_sql (db_users db) else
     if n = ''roles'' then map role_sql (db_roles db) else
     if n = ''user_roles'' then map user_role_sql (db_user_roles db) else
     if n = ''instruments'' then map instrument_sql (db_instruments db) else
     if n = ''accounts'' then map account_sql (db_accounts db) else
     if n = ''import_batches'' then map import_batch_sql (db_import_batches db) else
     if n = ''transactions'' then map transaction_sql (db_transactions db) else
     if n = ''import_conflicts'' then map import_conflict_sql (db_import_conflicts db) else
     if n = ''import_records'' then map import_record_sql (db_import_records db) else
     if n = ''audit_events'' then map audit_event_sql (db_audit_events db) else
     if n = ''portfolio_snapshots'' then map portfolio_snapshot_sql (db_portfolio_snapshots db) else
     if n = ''snapshot_cash'' then map snapshot_cash_sql (db_snapshot_cash db) else
     if n = ''snapshot_positions'' then map snapshot_position_sql (db_snapshot_positions db) else
     if n = ''reconciliation_observations'' then map reconciliation_observation_sql (db_reconciliation_observations db) else
     if n = ''reconciliation_runs'' then map reconciliation_run_sql (db_reconciliation_runs db) else
     if n = ''reconciliation_items'' then map reconciliation_item_sql (db_reconciliation_items db) else
     if n = ''security_identifiers'' then map security_identifier_sql (db_security_identifiers db) else
     if n = ''market_data_batches'' then map market_data_batch_sql (db_market_data_batches db) else
     if n = ''market_prices'' then map market_price_sql (db_market_prices db) else
     if n = ''market_price_conflicts'' then map market_price_conflict_sql (db_market_price_conflicts db) else
     if n = ''instrument_classifications'' then map instrument_classification_sql (db_instrument_classifications db) else
     if n = ''risk_policies'' then map risk_policy_sql (db_risk_policies db) else
     if n = ''risk_policy_rules'' then map risk_policy_rule_sql (db_risk_policy_rules db) else
     if n = ''risk_evaluations'' then map risk_evaluation_sql (db_risk_evaluations db) else
     if n = ''risk_evaluation_items'' then map risk_evaluation_item_sql (db_risk_evaluation_items db) else
     if n = ''scenario_definitions'' then map scenario_definition_sql (db_scenario_definitions db) else
     if n = ''scenario_shocks'' then map scenario_shock_sql (db_scenario_shocks db) else
     if n = ''instrument_risk_sensitivities'' then map instrument_risk_sensitivity_sql (db_instrument_risk_sensitivities db) else
     if n = ''scenario_runs'' then map scenario_run_sql (db_scenario_runs db) else
     if n = ''scenario_position_results'' then map scenario_position_result_sql (db_scenario_position_results db) else
     if n = ''investment_proposals'' then map investment_proposal_sql (db_investment_proposals db) else
     if n = ''proposal_versions'' then map proposal_version_sql (db_proposal_versions db) else
     if n = ''proposal_lines'' then map proposal_line_sql (db_proposal_lines db) else
     if n = ''proposal_analyses'' then map proposal_analysis_sql (db_proposal_analyses db) else
     if n = ''proposal_reviews'' then map proposal_review_sql (db_proposal_reviews db) else
     if n = ''proposal_transitions'' then map proposal_transition_sql (db_proposal_transitions db) else
     if n = ''ai_conversations'' then map ai_conversation_sql (db_ai_conversations db) else
     if n = ''ai_messages'' then map ai_message_sql (db_ai_messages db) else
     if n = ''ai_tool_calls'' then map ai_tool_call_sql (db_ai_tool_calls db) else
     [])"

section \<open>Evaluating the constraints of a table\<close>

lemma column_values_simps [row_simps]:
  "column_values [] c = V_Null" "column_values ((n, v) # vs) c = (if c = n then v else column_values vs c)"
  by (simp_all add: column_values_def)

lemma admitted_simps [row_simps]:
  "value_admitted (required n t) (V_Text s) \<longleftrightarrow> (case t of Varchar m \<Rightarrow> varchar m s | _ \<Rightarrow> False)"
  "value_admitted (defaulted n t d) v = value_admitted (required n t) v"
  "value_admitted (primary n t) v = value_admitted (required n t) v"
  "value_admitted (unique n t) v = value_admitted (required n t) v"
  "value_admitted (required n t) (V_Uuid k) \<longleftrightarrow> t = Uuid"
  "value_admitted (required n t) (V_Bool q) \<longleftrightarrow> t = Boolean"
  "value_admitted (required n t) (int_value i) \<longleftrightarrow> (case t of Timestamptz \<Rightarrow> True | Date \<Rightarrow> True | Integer \<Rightarrow> True | Numeric p s \<Rightarrow> True | _ \<Rightarrow> False)"
  "value_admitted (required n t) (dec_value x) \<longleftrightarrow> (case t of Timestamptz \<Rightarrow> True | Date \<Rightarrow> True | Integer \<Rightarrow> True | Numeric p s \<Rightarrow> True | _ \<Rightarrow> False)"
  "value_admitted (required n t) (time_value dt) \<longleftrightarrow> (case t of Timestamptz \<Rightarrow> True | Date \<Rightarrow> True | Integer \<Rightarrow> True | Numeric p s \<Rightarrow> True | _ \<Rightarrow> False)"
  "value_admitted (required n t) (json_column j) \<longleftrightarrow> t = Jsonb"
  "value_admitted (required n t) (enum_value g e) = value_admitted (required n t) (V_Text (g e))"
  by (auto simp: value_admitted_def column_kinds int_value_def dec_value_def time_value_def json_column_def enum_value_def
      optional_value_def varchar_def split: option.splits column_type.splits sql_value.splits)

lemma optional_admitted [row_simps]:
  "(\<And>x. f x \<noteq> V_Null) \<Longrightarrow>
     value_admitted (optional n t) (optional_value f v) = pred_option (\<lambda>x. value_admitted (required n t) (f x)) v"
  by (cases v) (auto simp: value_admitted_def column_kinds optional_value_def split: sql_value.splits)

lemma pred_option_top [row_simps]: "pred_option (\<lambda>x. True) v"
  by (cases v) simp_all

lemma col_name_simps [row_simps]:
  "col_name (required n t) = n" "col_name (defaulted n t d) = n" "col_name (primary n t) = n"
  "col_name (unique n t) = n" "col_name (optional n t) = n"
  by (simp_all add: column_kinds)

lemma value_eq_simps [row_simps]:
  "int_value i = int_value i' \<longleftrightarrow> i = i'" "dec_value x = dec_value y \<longleftrightarrow> dval x = dval y"
  "time_value s = time_value t \<longleftrightarrow> instant s = instant t"
  "enum_value g e = enum_value g e' \<longleftrightarrow> g e = g e'"
  "int_value i \<noteq> V_Null" "dec_value x \<noteq> V_Null" "time_value t \<noteq> V_Null" "enum_value g e \<noteq> V_Null" "json_column j \<noteq> V_Null"
  by (simp_all add: int_value_def dec_value_def time_value_def json_column_def enum_value_def)

lemma optional_null [row_simps]:
  "(\<And>x. f x \<noteq> V_Null) \<Longrightarrow> optional_value f v = V_Null \<longleftrightarrow> v = None"
  by (auto simp: optional_value_def split: option.splits)

lemma optional_eq [row_simps]:
  "optional_value V_Uuid v = optional_value V_Uuid w \<longleftrightarrow> v = w"
  "optional_value V_Text v' = optional_value V_Text w' \<longleftrightarrow> v' = w'"
  "optional_value V_Uuid v = V_Uuid i \<longleftrightarrow> v = Some i"
  by (auto simp: optional_value_def split: option.splits)

lemma expr_simps [row_simps]:
  "expr_value r (Col c) = r c" "expr_value r (Lit s) = V_Text s" "expr_value r (Num n) = int_value n"
  "expr_value r (Len c) = (case r c of V_Text s \<Rightarrow> int_value (int (length s)) | _ \<Rightarrow> V_Null)"
  "(case optional_value V_Text v of V_Text s \<Rightarrow> int_value (h s) | _ \<Rightarrow> V_Null) = optional_value (\<lambda>s. int_value (h s)) v"
  by (simp_all add: expr_value_def int_value_def optional_value_def split: sql_value.splits option.splits)

definition compare_numbers :: "sql_comparison \<Rightarrow> rat \<Rightarrow> rat \<Rightarrow> bool" where
  "compare_numbers cmp x y = (case cmp of Eq \<Rightarrow> x = y | Gt \<Rightarrow> x > y | Ge \<Rightarrow> x \<ge> y | Le \<Rightarrow> x \<le> y)"

lemma compare_simps [row_simps]:
  "compare_values cmp (V_Text s) (V_Text t) = Some (s = t)"
  "compare_values cmp (enum_value g e) (V_Text t) = Some (g e = t)"
  "compare_values cmp (int_value i) (int_value i') = Some (compare_numbers cmp (of_int i) (of_int i'))"
  "compare_values cmp (dec_value x) (int_value i') = Some (compare_numbers cmp (dval x) (of_int i'))"
  "compare_values cmp (time_value a) (time_value b) = Some (compare_numbers cmp (of_int (instant a)) (of_int (instant b)))"
  "compare_values cmp V_Null w = None"
  "compare_values cmp v V_Null = None"
  by (simp_all add: compare_values_def compare_numbers_def int_value_def dec_value_def time_value_def enum_value_def split: sql_value.splits)

lemma numbers_simps [row_simps]:
  "compare_numbers Eq x y \<longleftrightarrow> x = y" "compare_numbers Gt x y \<longleftrightarrow> y < x"
  "compare_numbers Ge x y \<longleftrightarrow> y \<le> x" "compare_numbers Le x y \<longleftrightarrow> x \<le> y"
  by (simp_all add: compare_numbers_def)

lemma check_admits_simps [row_simps]:
  "check_admits r (Check n b) \<longleftrightarrow> cond_value r b \<noteq> Some False"
  "check_admits r (Foreign_Key cs tab ds d)" "check_admits r (Unique_Key n cs)" "check_admits r (Primary_Key cs)"
  by (simp_all add: check_admits_def)

lemma logic_simps [row_simps]:
  "and3 (Some a) (Some b) = Some (a \<and> b)" "or3 (Some a) (Some b) = Some (a \<or> b)"
  "or3 p q = Some False \<longleftrightarrow> p = Some False \<and> q = Some False"
  by (auto simp: and3_def or3_def)

lemma one_of_simps [row_simps]:
  "(case enum_value g e of V_Text s \<Rightarrow> P s | _ \<Rightarrow> Q) = P (g e)"
  by (simp add: enum_value_def)

lemma compare_optional [row_simps]:
  "(compare_values cmp (optional_value f v) w = Some False) = (\<exists>x. v = Some x \<and> compare_values cmp (f x) w = Some False)"
  "(compare_values cmp w (optional_value f v) = Some False) = (\<exists>x. v = Some x \<and> compare_values cmp w (f x) = Some False)"
  by (auto simp: optional_value_def compare_simps split: option.splits)

lemmas table_simps [row_simps] = table_admits_def column_admits_def same_key_def table_clash_def

end
