(* ===== verification/Schema_Refinement.thy ===== *)
theory Schema_Refinement
  imports Migration_Properties Schema_Rows
begin

text \<open>
  \<open>app/models.py\<close> against the migrations: for every table the constraints the mapped class declares are
  those of the table at the head of the chain, except for the named differences; a flush of one row is
  an insert into the migrated database.
\<close>

section \<open>What only the migrations declare\<close>

definition governance_roles :: "string list" where
  "governance_roles = [''analyst'', ''manager'', ''advisor'']"

text \<open>The partial unique indexes on the opening transactions.\<close>

definition opening_clash :: "transaction_row \<Rightarrow> transaction_row \<Rightarrow> bool" where
  "opening_clash r r' \<longleftrightarrow> tx_account_id r = tx_account_id r' \<and> tx_status r = POSTED \<and> tx_status r' = POSTED
     \<and> (tx_transaction_type r = OPENING_CASH \<and> tx_transaction_type r' = OPENING_CASH
        \<or> tx_transaction_type r = OPENING_POSITION \<and> tx_transaction_type r' = OPENING_POSITION
          \<and> tx_instrument_id r \<noteq> None \<and> tx_instrument_id r = tx_instrument_id r')"

text \<open>The partial unique indexes on the snapshots of a fund or of an account at a cutoff.\<close>

definition snapshot_scope_clash :: "portfolio_snapshot_row \<Rightarrow> portfolio_snapshot_row \<Rightarrow> bool" where
  "snapshot_scope_clash r r' \<longleftrightarrow> snap_fund_id r = snap_fund_id r' \<and> snap_account_id r = snap_account_id r'
     \<and> instant (snap_as_of r) = instant (snap_as_of r')
     \<and> (snap_revision r = snap_revision r' \<or> snap_status r = Snapshot_CURRENT \<and> snap_status r' = Snapshot_CURRENT)"

section \<open>The interface\<close>

text \<open>
  A mapped class stored in a table: the encoded rows, and the constraints of the table as those of the class
  and an extra part. A flush of one row is then an insert into the table, and fails exactly where
  the insert fails or the extra part does.
\<close>

locale stored_table =
  fixes c :: catalog and name :: string and t :: sql_table and enc :: "'r \<Rightarrow> sql_row"
    and rows :: "database \<Rightarrow> 'r list" and put :: "'r list \<Rightarrow> database \<Rightarrow> database"
    and clash :: "'r \<Rightarrow> 'r \<Rightarrow> bool" and checks :: "'r \<Rightarrow> bool" and refs :: "database \<Rightarrow> 'r \<Rightarrow> bool"
    and extra :: "'r \<Rightarrow> bool" and extra_clash :: "'r \<Rightarrow> 'r \<Rightarrow> bool"
    and insert_one :: "database \<Rightarrow> 'r \<Rightarrow> app_error + database"
  assumes found: "find_table c name = Some t"
    and rows_sql: "database_sql db name = map enc (rows db)"
    and put_sql: "database_sql (put rs db) = (database_sql db)(name := map enc rs)"
    and admits: "table_admits t (enc r) \<longleftrightarrow> checks r \<and> extra r"
    and clashes: "table_clash t (enc r) (enc r') \<longleftrightarrow> clash r r'"
    and index_clashes: "list_ex (\<lambda>i. index_clash i (enc r) (enc r')) (unique_indexes c name) \<longleftrightarrow> extra_clash r r'"
    and references: "list_all (resolves ((database_sql db)(name := database_sql db name @ [enc r])) (enc r)) (foreign_keys t)
      \<longleftrightarrow> refs db r"
    and insert_one: "insert_one db r = bindR (insert_row name clash checks (refs db) r (rows db)) (\<lambda>rs. Inr (put rs db))"
begin

lemma insert_refines:
  "sql_insert c (database_sql db) name (enc r) = (case insert_one db r of Inl _ \<Rightarrow> None
     | Inr db' \<Rightarrow> if extra r \<and> (\<forall>r' \<in> set (rows db). \<not> extra_clash r' r) then Some (database_sql db') else None)"
proof -
  have clash_free: "list_ex (\<lambda>r'. table_clash t r' (enc r) \<or> list_ex (\<lambda>i. index_clash i r' (enc r)) (unique_indexes c name))
      (map enc (rows db)) \<longleftrightarrow> (\<exists>r' \<in> set (rows db). clash r' r \<or> extra_clash r' r)"
    by (auto simp: list_ex_iff clashes index_clashes [unfolded list_ex_iff])
  show ?thesis
    unfolding sql_insert_def found option.case Let_def references admits
    by (auto simp: rows_sql clash_free insert_one put_sql insert_row_def)
qed

end

section \<open>Tables, indexes and foreign keys of the head\<close>

lemma find_table_head: "find_table catalog_0009 n = find (\<lambda>t. tab_name t = n) (cat_tables catalog_0009)"
  by (simp add: schema_facts)

lemma indexes_enlarge:
  "cat_indexes (enlarge c (Create_Table t)) = cat_indexes c"
  "cat_indexes (enlarge c (Create_Index i)) = cat_indexes c @ [i]"
  "cat_indexes (enlarge c (Add_Column n col)) = cat_indexes c"
  "cat_indexes (enlarge c (Create_Check n tab b)) = cat_indexes c"
  "cat_indexes (enlarge c (Create_Function f)) = cat_indexes c"
  "cat_indexes (enlarge c (Create_Trigger g)) = cat_indexes c"
  by (simp_all add: enlarge.simps)

lemma unique_indexes_head: "unique_indexes catalog_0009 n = filter (\<lambda>i. ix_table i = n)
    [\<lparr>ix_name = ''uq_transactions_opening_cash'', ix_table = ''transactions'',
       ix_columns = [Asc ''account_id''], ix_unique = True,
       ix_where = Some (Conj (Compare (Col ''transaction_type'') Eq (Lit ''OPENING_CASH'')) (Compare (Col ''status'') Eq (Lit ''POSTED'')))\<rparr>,
     \<lparr>ix_name = ''uq_transactions_opening_position'', ix_table = ''transactions'',
       ix_columns = [Asc ''account_id'', Asc ''instrument_id''], ix_unique = True,
       ix_where = Some (Conj (Compare (Col ''transaction_type'') Eq (Lit ''OPENING_POSITION'')) (Compare (Col ''status'') Eq (Lit ''POSTED'')))\<rparr>,
     \<lparr>ix_name = ''uq_snapshots_fund_revision'', ix_table = ''portfolio_snapshots'',
       ix_columns = [Asc ''fund_id'', Asc ''as_of'', Asc ''revision''], ix_unique = True, ix_where = Some (Is_Null ''account_id'')\<rparr>,
     \<lparr>ix_name = ''uq_snapshots_account_revision'', ix_table = ''portfolio_snapshots'',
       ix_columns = [Asc ''fund_id'', Asc ''account_id'', Asc ''as_of'', Asc ''revision''], ix_unique = True,
       ix_where = Some (Not_Null ''account_id'')\<rparr>,
     \<lparr>ix_name = ''uq_snapshots_current_fund'', ix_table = ''portfolio_snapshots'',
       ix_columns = [Asc ''fund_id'', Asc ''as_of''], ix_unique = True,
       ix_where = Some (Conj (Is_Null ''account_id'') (Compare (Col ''status'') Eq (Lit ''CURRENT'')))\<rparr>,
     \<lparr>ix_name = ''uq_snapshots_current_account'', ix_table = ''portfolio_snapshots'',
       ix_columns = [Asc ''fund_id'', Asc ''account_id'', Asc ''as_of''], ix_unique = True,
       ix_where = Some (Conj (Not_Null ''account_id'') (Compare (Col ''status'') Eq (Lit ''CURRENT'')))\<rparr>]"
  by (simp add: unique_indexes_def catalog_0001_def catalog_0002_def catalog_0003_def catalog_0004_def catalog_0005_def catalog_0006_def catalog_0007_def catalog_0008_def catalog_0009_def
    upgrade_0001_def indexes_0002_def triggers_0002_def upgrade_0002_def indexes_0003_def indexes_0003b_def triggers_0003_def upgrade_0003_def indexes_0004_def indexes_0004b_def triggers_0004_def upgrade_0004_def indexes_0005_def indexes_0005b_def triggers_0005_def upgrade_0005_def indexes_0006_def triggers_0006_def upgrade_0006_def indexes_0007_def triggers_0007_def upgrade_0007_def constraints_0008_def indexes_0008_def triggers_0008_def upgrade_0008_def indexes_0009_def triggers_0009_def upgrade_0009_def
    indexes_enlarge empty_catalog_def)

lemma transaction_index_clash:
  "list_ex (\<lambda>i. index_clash i (transaction_sql r) (transaction_sql r')) (unique_indexes catalog_0009 ''transactions'')
     \<longleftrightarrow> opening_clash r r'"
  by (simp add: unique_indexes_head index_clash_def covered_def transaction_sql_def row_simps opening_clash_def;
      cases "tx_transaction_type r"; cases "tx_transaction_type r'"; cases "tx_status r"; cases "tx_status r'"; auto)

lemma portfolio_snapshot_index_clash:
  "list_ex (\<lambda>i. index_clash i (portfolio_snapshot_sql r) (portfolio_snapshot_sql r')) (unique_indexes catalog_0009 ''portfolio_snapshots'')
     \<longleftrightarrow> snapshot_scope_clash r r'"
  by (simp add: unique_indexes_head index_clash_def covered_def portfolio_snapshot_sql_def row_simps snapshot_scope_clash_def;
      cases "snap_status r"; cases "snap_status r'"; cases "snap_account_id r'"; auto)

lemma refers_simps:
  "list_ex P (map f rs) \<longleftrightarrow> (\<exists>r \<in> set rs. P (f r))"
  "refers key rs v \<longleftrightarrow> (\<exists>r \<in> set rs. v = key r)"
  by (auto simp: list_ex_iff refers_def)

lemma refers_optional: "pred_option (refers key rs) w \<longleftrightarrow> w = None \<or> (\<exists>r \<in> set rs. w = Some (key r))"
  by (cases w) (auto simp: refers_def)

lemma pred_option_all: "pred_option P v \<longleftrightarrow> (\<forall>x. v = Some x \<longrightarrow> P x)"
  by (cases v) auto

lemmas reference_simps = foreign_keys_def List.map_filter_def refers_simps refers_optional

lemma database_sql_lookup:
  "database_sql db ''funds'' = map fund_sql (db_funds db)"
  "database_sql db ''users'' = map user_sql (db_users db)"
  "database_sql db ''roles'' = map role_sql (db_roles db)"
  "database_sql db ''user_roles'' = map user_role_sql (db_user_roles db)"
  "database_sql db ''instruments'' = map instrument_sql (db_instruments db)"
  "database_sql db ''accounts'' = map account_sql (db_accounts db)"
  "database_sql db ''import_batches'' = map import_batch_sql (db_import_batches db)"
  "database_sql db ''transactions'' = map transaction_sql (db_transactions db)"
  "database_sql db ''import_conflicts'' = map import_conflict_sql (db_import_conflicts db)"
  "database_sql db ''import_records'' = map import_record_sql (db_import_records db)"
  "database_sql db ''audit_events'' = map audit_event_sql (db_audit_events db)"
  "database_sql db ''portfolio_snapshots'' = map portfolio_snapshot_sql (db_portfolio_snapshots db)"
  "database_sql db ''snapshot_cash'' = map snapshot_cash_sql (db_snapshot_cash db)"
  "database_sql db ''snapshot_positions'' = map snapshot_position_sql (db_snapshot_positions db)"
  "database_sql db ''reconciliation_observations'' = map reconciliation_observation_sql (db_reconciliation_observations db)"
  "database_sql db ''reconciliation_runs'' = map reconciliation_run_sql (db_reconciliation_runs db)"
  "database_sql db ''reconciliation_items'' = map reconciliation_item_sql (db_reconciliation_items db)"
  "database_sql db ''security_identifiers'' = map security_identifier_sql (db_security_identifiers db)"
  "database_sql db ''market_data_batches'' = map market_data_batch_sql (db_market_data_batches db)"
  "database_sql db ''market_prices'' = map market_price_sql (db_market_prices db)"
  "database_sql db ''market_price_conflicts'' = map market_price_conflict_sql (db_market_price_conflicts db)"
  "database_sql db ''instrument_classifications'' = map instrument_classification_sql (db_instrument_classifications db)"
  "database_sql db ''risk_policies'' = map risk_policy_sql (db_risk_policies db)"
  "database_sql db ''risk_policy_rules'' = map risk_policy_rule_sql (db_risk_policy_rules db)"
  "database_sql db ''risk_evaluations'' = map risk_evaluation_sql (db_risk_evaluations db)"
  "database_sql db ''risk_evaluation_items'' = map risk_evaluation_item_sql (db_risk_evaluation_items db)"
  "database_sql db ''scenario_definitions'' = map scenario_definition_sql (db_scenario_definitions db)"
  "database_sql db ''scenario_shocks'' = map scenario_shock_sql (db_scenario_shocks db)"
  "database_sql db ''instrument_risk_sensitivities'' = map instrument_risk_sensitivity_sql (db_instrument_risk_sensitivities db)"
  "database_sql db ''scenario_runs'' = map scenario_run_sql (db_scenario_runs db)"
  "database_sql db ''scenario_position_results'' = map scenario_position_result_sql (db_scenario_position_results db)"
  "database_sql db ''investment_proposals'' = map investment_proposal_sql (db_investment_proposals db)"
  "database_sql db ''proposal_versions'' = map proposal_version_sql (db_proposal_versions db)"
  "database_sql db ''proposal_lines'' = map proposal_line_sql (db_proposal_lines db)"
  "database_sql db ''proposal_analyses'' = map proposal_analysis_sql (db_proposal_analyses db)"
  "database_sql db ''proposal_reviews'' = map proposal_review_sql (db_proposal_reviews db)"
  "database_sql db ''proposal_transitions'' = map proposal_transition_sql (db_proposal_transitions db)"
  "database_sql db ''ai_conversations'' = map ai_conversation_sql (db_ai_conversations db)"
  "database_sql db ''ai_messages'' = map ai_message_sql (db_ai_messages db)"
  "database_sql db ''ai_tool_calls'' = map ai_tool_call_sql (db_ai_tool_calls db)"
  by (simp_all add: database_sql_def)

lemma update_funI: "f x = v \<Longrightarrow> (\<And>y. y \<noteq> x \<Longrightarrow> f y = g y) \<Longrightarrow> f = g(x := v)"
  by auto

lemma database_sql_put:
  "database_sql (db\<lparr>db_funds := rows_fund\<rparr>) = (database_sql db)(''funds'' := map fund_sql rows_fund)"
  "database_sql (db\<lparr>db_users := rows_user\<rparr>) = (database_sql db)(''users'' := map user_sql rows_user)"
  "database_sql (db\<lparr>db_roles := rows_role\<rparr>) = (database_sql db)(''roles'' := map role_sql rows_role)"
  "database_sql (db\<lparr>db_user_roles := rows_user_role\<rparr>) = (database_sql db)(''user_roles'' := map user_role_sql rows_user_role)"
  "database_sql (db\<lparr>db_instruments := rows_instrument\<rparr>) = (database_sql db)(''instruments'' := map instrument_sql rows_instrument)"
  "database_sql (db\<lparr>db_accounts := rows_account\<rparr>) = (database_sql db)(''accounts'' := map account_sql rows_account)"
  "database_sql (db\<lparr>db_import_batches := rows_import_batch\<rparr>) = (database_sql db)(''import_batches'' := map import_batch_sql rows_import_batch)"
  "database_sql (db\<lparr>db_transactions := rows_transaction\<rparr>) = (database_sql db)(''transactions'' := map transaction_sql rows_transaction)"
  "database_sql (db\<lparr>db_import_conflicts := rows_import_conflict\<rparr>) = (database_sql db)(''import_conflicts'' := map import_conflict_sql rows_import_conflict)"
  "database_sql (db\<lparr>db_import_records := rows_import_record\<rparr>) = (database_sql db)(''import_records'' := map import_record_sql rows_import_record)"
  "database_sql (db\<lparr>db_audit_events := rows_audit_event\<rparr>) = (database_sql db)(''audit_events'' := map audit_event_sql rows_audit_event)"
  "database_sql (db\<lparr>db_portfolio_snapshots := rows_portfolio_snapshot\<rparr>) = (database_sql db)(''portfolio_snapshots'' := map portfolio_snapshot_sql rows_portfolio_snapshot)"
  "database_sql (db\<lparr>db_snapshot_cash := rows_snapshot_cash\<rparr>) = (database_sql db)(''snapshot_cash'' := map snapshot_cash_sql rows_snapshot_cash)"
  "database_sql (db\<lparr>db_snapshot_positions := rows_snapshot_position\<rparr>) = (database_sql db)(''snapshot_positions'' := map snapshot_position_sql rows_snapshot_position)"
  "database_sql (db\<lparr>db_reconciliation_observations := rows_reconciliation_observation\<rparr>) = (database_sql db)(''reconciliation_observations'' := map reconciliation_observation_sql rows_reconciliation_observation)"
  "database_sql (db\<lparr>db_reconciliation_runs := rows_reconciliation_run\<rparr>) = (database_sql db)(''reconciliation_runs'' := map reconciliation_run_sql rows_reconciliation_run)"
  "database_sql (db\<lparr>db_reconciliation_items := rows_reconciliation_item\<rparr>) = (database_sql db)(''reconciliation_items'' := map reconciliation_item_sql rows_reconciliation_item)"
  "database_sql (db\<lparr>db_security_identifiers := rows_security_identifier\<rparr>) = (database_sql db)(''security_identifiers'' := map security_identifier_sql rows_security_identifier)"
  "database_sql (db\<lparr>db_market_data_batches := rows_market_data_batch\<rparr>) = (database_sql db)(''market_data_batches'' := map market_data_batch_sql rows_market_data_batch)"
  "database_sql (db\<lparr>db_market_prices := rows_market_price\<rparr>) = (database_sql db)(''market_prices'' := map market_price_sql rows_market_price)"
  "database_sql (db\<lparr>db_market_price_conflicts := rows_market_price_conflict\<rparr>) = (database_sql db)(''market_price_conflicts'' := map market_price_conflict_sql rows_market_price_conflict)"
  "database_sql (db\<lparr>db_instrument_classifications := rows_instrument_classification\<rparr>) = (database_sql db)(''instrument_classifications'' := map instrument_classification_sql rows_instrument_classification)"
  "database_sql (db\<lparr>db_risk_policies := rows_risk_policy\<rparr>) = (database_sql db)(''risk_policies'' := map risk_policy_sql rows_risk_policy)"
  "database_sql (db\<lparr>db_risk_policy_rules := rows_risk_policy_rule\<rparr>) = (database_sql db)(''risk_policy_rules'' := map risk_policy_rule_sql rows_risk_policy_rule)"
  "database_sql (db\<lparr>db_risk_evaluations := rows_risk_evaluation\<rparr>) = (database_sql db)(''risk_evaluations'' := map risk_evaluation_sql rows_risk_evaluation)"
  "database_sql (db\<lparr>db_risk_evaluation_items := rows_risk_evaluation_item\<rparr>) = (database_sql db)(''risk_evaluation_items'' := map risk_evaluation_item_sql rows_risk_evaluation_item)"
  "database_sql (db\<lparr>db_scenario_definitions := rows_scenario_definition\<rparr>) = (database_sql db)(''scenario_definitions'' := map scenario_definition_sql rows_scenario_definition)"
  "database_sql (db\<lparr>db_scenario_shocks := rows_scenario_shock\<rparr>) = (database_sql db)(''scenario_shocks'' := map scenario_shock_sql rows_scenario_shock)"
  "database_sql (db\<lparr>db_instrument_risk_sensitivities := rows_instrument_risk_sensitivity\<rparr>) = (database_sql db)(''instrument_risk_sensitivities'' := map instrument_risk_sensitivity_sql rows_instrument_risk_sensitivity)"
  "database_sql (db\<lparr>db_scenario_runs := rows_scenario_run\<rparr>) = (database_sql db)(''scenario_runs'' := map scenario_run_sql rows_scenario_run)"
  "database_sql (db\<lparr>db_scenario_position_results := rows_scenario_position_result\<rparr>) = (database_sql db)(''scenario_position_results'' := map scenario_position_result_sql rows_scenario_position_result)"
  "database_sql (db\<lparr>db_investment_proposals := rows_investment_proposal\<rparr>) = (database_sql db)(''investment_proposals'' := map investment_proposal_sql rows_investment_proposal)"
  "database_sql (db\<lparr>db_proposal_versions := rows_proposal_version\<rparr>) = (database_sql db)(''proposal_versions'' := map proposal_version_sql rows_proposal_version)"
  "database_sql (db\<lparr>db_proposal_lines := rows_proposal_line\<rparr>) = (database_sql db)(''proposal_lines'' := map proposal_line_sql rows_proposal_line)"
  "database_sql (db\<lparr>db_proposal_analyses := rows_proposal_analysis\<rparr>) = (database_sql db)(''proposal_analyses'' := map proposal_analysis_sql rows_proposal_analysis)"
  "database_sql (db\<lparr>db_proposal_reviews := rows_proposal_review\<rparr>) = (database_sql db)(''proposal_reviews'' := map proposal_review_sql rows_proposal_review)"
  "database_sql (db\<lparr>db_proposal_transitions := rows_proposal_transition\<rparr>) = (database_sql db)(''proposal_transitions'' := map proposal_transition_sql rows_proposal_transition)"
  "database_sql (db\<lparr>db_ai_conversations := rows_ai_conversation\<rparr>) = (database_sql db)(''ai_conversations'' := map ai_conversation_sql rows_ai_conversation)"
  "database_sql (db\<lparr>db_ai_messages := rows_ai_message\<rparr>) = (database_sql db)(''ai_messages'' := map ai_message_sql rows_ai_message)"
  "database_sql (db\<lparr>db_ai_tool_calls := rows_ai_tool_call\<rparr>) = (database_sql db)(''ai_tool_calls'' := map ai_tool_call_sql rows_ai_tool_call)"
  by (rule update_funI; simp add: database_sql_def cong: if_cong split del: if_split)+

lemma key_columns [row_simps]:
  "fund_sql rfund ''id'' = V_Uuid (fd_id rfund)"
  "user_sql ruser ''id'' = V_Uuid (usr_id ruser)"
  "role_sql rrole ''id'' = V_Uuid (rl_id rrole)"
  "instrument_sql rinstrument ''id'' = V_Uuid (ins_id rinstrument)"
  "account_sql raccount ''id'' = V_Uuid (acct_id raccount)"
  "import_batch_sql rimport_batch ''id'' = V_Uuid (ib_id rimport_batch)"
  "transaction_sql rtransaction ''id'' = V_Uuid (tx_id rtransaction)"
  "import_conflict_sql rimport_conflict ''id'' = V_Uuid (ic_id rimport_conflict)"
  "import_record_sql rimport_record ''id'' = V_Uuid (ir_id rimport_record)"
  "audit_event_sql raudit_event ''id'' = V_Uuid (ae_id raudit_event)"
  "portfolio_snapshot_sql rportfolio_snapshot ''id'' = V_Uuid (snap_id rportfolio_snapshot)"
  "snapshot_cash_sql rsnapshot_cash ''id'' = V_Uuid (sc_id rsnapshot_cash)"
  "snapshot_position_sql rsnapshot_position ''id'' = V_Uuid (sp_id rsnapshot_position)"
  "reconciliation_observation_sql rreconciliation_observation ''id'' = V_Uuid (ob_id rreconciliation_observation)"
  "reconciliation_run_sql rreconciliation_run ''id'' = V_Uuid (rr_id rreconciliation_run)"
  "reconciliation_item_sql rreconciliation_item ''id'' = V_Uuid (ri_id rreconciliation_item)"
  "security_identifier_sql rsecurity_identifier ''id'' = V_Uuid (si_id rsecurity_identifier)"
  "market_data_batch_sql rmarket_data_batch ''id'' = V_Uuid (mb_id rmarket_data_batch)"
  "market_price_sql rmarket_price ''id'' = V_Uuid (mp_id rmarket_price)"
  "market_price_conflict_sql rmarket_price_conflict ''id'' = V_Uuid (mpc_id rmarket_price_conflict)"
  "instrument_classification_sql rinstrument_classification ''id'' = V_Uuid (cl_id rinstrument_classification)"
  "risk_policy_sql rrisk_policy ''id'' = V_Uuid (rp_id rrisk_policy)"
  "risk_policy_rule_sql rrisk_policy_rule ''id'' = V_Uuid (rule_id rrisk_policy_rule)"
  "risk_evaluation_sql rrisk_evaluation ''id'' = V_Uuid (re_id rrisk_evaluation)"
  "risk_evaluation_item_sql rrisk_evaluation_item ''id'' = V_Uuid (rei_id rrisk_evaluation_item)"
  "scenario_definition_sql rscenario_definition ''id'' = V_Uuid (sd_id rscenario_definition)"
  "scenario_shock_sql rscenario_shock ''id'' = V_Uuid (shr_id rscenario_shock)"
  "instrument_risk_sensitivity_sql rinstrument_risk_sensitivity ''id'' = V_Uuid (irs_id rinstrument_risk_sensitivity)"
  "scenario_run_sql rscenario_run ''id'' = V_Uuid (sr_id rscenario_run)"
  "scenario_position_result_sql rscenario_position_result ''id'' = V_Uuid (spr_id rscenario_position_result)"
  "investment_proposal_sql rinvestment_proposal ''id'' = V_Uuid (ip_id rinvestment_proposal)"
  "proposal_version_sql rproposal_version ''id'' = V_Uuid (pv_id rproposal_version)"
  "proposal_line_sql rproposal_line ''id'' = V_Uuid (pl_id rproposal_line)"
  "proposal_analysis_sql rproposal_analysis ''id'' = V_Uuid (pa_id rproposal_analysis)"
  "proposal_review_sql rproposal_review ''id'' = V_Uuid (prv_id rproposal_review)"
  "proposal_transition_sql rproposal_transition ''id'' = V_Uuid (pt_id rproposal_transition)"
  "ai_conversation_sql rai_conversation ''id'' = V_Uuid (aic_id rai_conversation)"
  "ai_message_sql rai_message ''id'' = V_Uuid (aim_id rai_message)"
  "ai_tool_call_sql rai_tool_call ''id'' = V_Uuid (atc_id rai_tool_call)"
  "account_sql a ''fund_id'' = V_Uuid (acct_fund_id a)"
  by (simp_all add: fund_sql_def user_sql_def role_sql_def user_role_sql_def instrument_sql_def account_sql_def import_batch_sql_def transaction_sql_def import_conflict_sql_def import_record_sql_def audit_event_sql_def portfolio_snapshot_sql_def snapshot_cash_sql_def snapshot_position_sql_def reconciliation_observation_sql_def reconciliation_run_sql_def reconciliation_item_sql_def security_identifier_sql_def market_data_batch_sql_def market_price_sql_def market_price_conflict_sql_def instrument_classification_sql_def risk_policy_sql_def risk_policy_rule_sql_def risk_evaluation_sql_def risk_evaluation_item_sql_def scenario_definition_sql_def scenario_shock_sql_def instrument_risk_sensitivity_sql_def scenario_run_sql_def scenario_position_result_sql_def investment_proposal_sql_def proposal_version_sql_def proposal_line_sql_def proposal_analysis_sql_def proposal_review_sql_def proposal_transition_sql_def ai_conversation_sql_def ai_message_sql_def ai_tool_call_sql_def row_simps)

lemma fund_admits: "table_admits table_funds (fund_sql r) \<longleftrightarrow> fund_checks r"
  by (simp add: table_funds_def fund_sql_def fund_checks_def row_simps dec_simps; auto simp: pred_option_all split: option.splits)

lemma fund_clashes: "table_clash table_funds (fund_sql r) (fund_sql r') \<longleftrightarrow> fund_clash r r'"
  by (simp add: fund_sql_def fund_clash_def schema_facts row_simps dec_simps; blast)

lemma fund_references:
  "list_all (resolves ((database_sql db)(''funds'' := map fund_sql (db_funds db) @ [fund_sql r])) (fund_sql r)) (foreign_keys table_funds)
     \<longleftrightarrow> True"
  by (simp add: table_funds_def fund_sql_def reference_simps database_sql_lookup row_simps; blast)

lemma user_admits: "table_admits table_users (user_sql r) \<longleftrightarrow> user_checks r"
  by (simp add: table_users_def user_sql_def user_checks_def row_simps dec_simps; auto simp: pred_option_all split: option.splits)

lemma user_clashes: "table_clash table_users (user_sql r) (user_sql r') \<longleftrightarrow> user_clash r r'"
  by (simp add: user_sql_def user_clash_def schema_facts row_simps dec_simps; blast)

lemma user_references:
  "list_all (resolves ((database_sql db)(''users'' := map user_sql (db_users db) @ [user_sql r])) (user_sql r)) (foreign_keys table_users)
     \<longleftrightarrow> True"
  by (simp add: table_users_def user_sql_def reference_simps database_sql_lookup row_simps; blast)

lemma role_admits: "table_admits table_roles (role_sql r) \<longleftrightarrow> role_checks r"
  by (simp add: table_roles_def role_sql_def role_checks_def row_simps dec_simps; auto simp: pred_option_all split: option.splits)

lemma role_clashes: "table_clash table_roles (role_sql r) (role_sql r') \<longleftrightarrow> role_clash r r'"
  by (simp add: role_sql_def role_clash_def schema_facts row_simps dec_simps; blast)

lemma role_references:
  "list_all (resolves ((database_sql db)(''roles'' := map role_sql (db_roles db) @ [role_sql r])) (role_sql r)) (foreign_keys table_roles)
     \<longleftrightarrow> True"
  by (simp add: table_roles_def role_sql_def reference_simps database_sql_lookup row_simps; blast)

lemma user_role_admits: "table_admits table_user_roles (user_role_sql r) \<longleftrightarrow> user_role_checks r"
  by (simp add: table_user_roles_def user_role_sql_def user_role_checks_def row_simps dec_simps; auto simp: pred_option_all split: option.splits)

lemma user_role_clashes: "table_clash table_user_roles (user_role_sql r) (user_role_sql r') \<longleftrightarrow> user_role_clash r r'"
  by (simp add: user_role_sql_def user_role_clash_def schema_facts row_simps dec_simps; blast)

lemma user_role_references:
  "list_all (resolves ((database_sql db)(''user_roles'' := map user_role_sql (db_user_roles db) @ [user_role_sql r])) (user_role_sql r)) (foreign_keys table_user_roles)
     \<longleftrightarrow> user_role_refs db r"
  by (simp add: table_user_roles_def user_role_sql_def user_role_refs_def reference_simps database_sql_lookup row_simps; blast)

lemma instrument_admits: "table_admits table_instruments (instrument_sql r) \<longleftrightarrow> instrument_checks r"
  by (simp add: table_instruments_def instrument_sql_def instrument_checks_def row_simps dec_simps; auto simp: pred_option_all split: option.splits)

lemma instrument_clashes: "table_clash table_instruments (instrument_sql r) (instrument_sql r') \<longleftrightarrow> instrument_clash r r'"
  by (simp add: instrument_sql_def instrument_clash_def schema_facts row_simps dec_simps; blast)

lemma instrument_references:
  "list_all (resolves ((database_sql db)(''instruments'' := map instrument_sql (db_instruments db) @ [instrument_sql r])) (instrument_sql r)) (foreign_keys table_instruments)
     \<longleftrightarrow> True"
  by (simp add: table_instruments_def instrument_sql_def reference_simps database_sql_lookup row_simps; blast)

lemma account_admits: "table_admits table_accounts (account_sql r) \<longleftrightarrow> account_checks r"
  by (simp add: table_accounts_def account_sql_def account_checks_def row_simps dec_simps; auto simp: pred_option_all split: option.splits)

lemma account_clashes: "table_clash table_accounts (account_sql r) (account_sql r') \<longleftrightarrow> account_clash r r'"
  by (simp add: account_sql_def account_clash_def schema_facts row_simps dec_simps; blast)

lemma account_references:
  "list_all (resolves ((database_sql db)(''accounts'' := map account_sql (db_accounts db) @ [account_sql r])) (account_sql r)) (foreign_keys table_accounts)
     \<longleftrightarrow> account_refs db r"
  by (simp add: table_accounts_def account_sql_def account_refs_def reference_simps database_sql_lookup row_simps; blast)

lemma import_batch_admits: "table_admits table_import_batches (import_batch_sql r) \<longleftrightarrow> import_batch_checks r"
  by (simp add: table_import_batches_def import_batch_sql_def import_batch_checks_def row_simps dec_simps; auto simp: pred_option_all split: option.splits)

lemma import_batch_clashes: "table_clash table_import_batches (import_batch_sql r) (import_batch_sql r') \<longleftrightarrow> import_batch_clash r r'"
  by (simp add: import_batch_sql_def import_batch_clash_def schema_facts row_simps dec_simps; blast)

lemma import_batch_references:
  "list_all (resolves ((database_sql db)(''import_batches'' := map import_batch_sql (db_import_batches db) @ [import_batch_sql r])) (import_batch_sql r)) (foreign_keys table_import_batches)
     \<longleftrightarrow> import_batch_refs db r"
  by (simp add: table_import_batches_def import_batch_sql_def import_batch_refs_def reference_simps database_sql_lookup row_simps; blast)

lemma transaction_admits: "table_admits table_transactions (transaction_sql r) \<longleftrightarrow> transaction_checks r"
  by (simp add: table_transactions_def transaction_sql_def transaction_checks_def row_simps dec_simps ck_transactions_type_fields_def; cases "tx_transaction_type r"; auto simp: pred_option_all)

lemma transaction_clashes: "table_clash table_transactions (transaction_sql r) (transaction_sql r') \<longleftrightarrow> transaction_clash r r'"
  by (simp add: transaction_sql_def transaction_clash_def schema_facts row_simps dec_simps; blast)

lemma transaction_references:
  "list_all (resolves ((database_sql db)(''transactions'' := map transaction_sql (db_transactions db) @ [transaction_sql r])) (transaction_sql r)) (foreign_keys table_transactions)
     \<longleftrightarrow> transaction_refs db r"
  by (simp add: table_transactions_def transaction_sql_def transaction_refs_def reference_simps database_sql_lookup row_simps; blast)

lemma import_conflict_admits: "table_admits table_import_conflicts (import_conflict_sql r) \<longleftrightarrow> import_conflict_checks r"
  by (simp add: table_import_conflicts_def import_conflict_sql_def import_conflict_checks_def row_simps dec_simps; auto simp: pred_option_all split: option.splits)

lemma import_conflict_clashes: "table_clash table_import_conflicts (import_conflict_sql r) (import_conflict_sql r') \<longleftrightarrow> import_conflict_clash r r'"
  by (simp add: import_conflict_sql_def import_conflict_clash_def schema_facts row_simps dec_simps; blast)

lemma import_conflict_references:
  "list_all (resolves ((database_sql db)(''import_conflicts'' := map import_conflict_sql (db_import_conflicts db) @ [import_conflict_sql r])) (import_conflict_sql r)) (foreign_keys table_import_conflicts)
     \<longleftrightarrow> import_conflict_refs db r"
  by (simp add: table_import_conflicts_def import_conflict_sql_def import_conflict_refs_def reference_simps database_sql_lookup row_simps; blast)

lemma import_record_admits: "table_admits table_import_records (import_record_sql r) \<longleftrightarrow> import_record_checks r"
  by (simp add: table_import_records_def import_record_sql_def import_record_checks_def row_simps dec_simps; auto simp: pred_option_all split: option.splits)

lemma import_record_clashes: "table_clash table_import_records (import_record_sql r) (import_record_sql r') \<longleftrightarrow> import_record_clash r r'"
  by (simp add: import_record_sql_def import_record_clash_def schema_facts row_simps dec_simps; blast)

lemma import_record_references:
  "list_all (resolves ((database_sql db)(''import_records'' := map import_record_sql (db_import_records db) @ [import_record_sql r])) (import_record_sql r)) (foreign_keys table_import_records)
     \<longleftrightarrow> import_record_refs db r"
  by (simp add: table_import_records_def import_record_sql_def import_record_refs_def reference_simps database_sql_lookup row_simps; blast)

lemma audit_event_admits: "table_admits table_audit_events (audit_event_sql r) \<longleftrightarrow> audit_event_checks r"
  by (simp add: table_audit_events_def audit_event_sql_def audit_event_checks_def row_simps dec_simps; auto simp: pred_option_all split: option.splits)

lemma audit_event_clashes: "table_clash table_audit_events (audit_event_sql r) (audit_event_sql r') \<longleftrightarrow> audit_event_clash r r'"
  by (simp add: audit_event_sql_def audit_event_clash_def schema_facts row_simps dec_simps; blast)

lemma audit_event_references:
  "list_all (resolves ((database_sql db)(''audit_events'' := map audit_event_sql (db_audit_events db) @ [audit_event_sql r])) (audit_event_sql r)) (foreign_keys table_audit_events)
     \<longleftrightarrow> audit_event_refs db r"
  by (simp add: table_audit_events_def audit_event_sql_def audit_event_refs_def reference_simps database_sql_lookup row_simps; blast)

lemma portfolio_snapshot_admits: "table_admits table_portfolio_snapshots (portfolio_snapshot_sql r) \<longleftrightarrow> portfolio_snapshot_checks r"
  by (simp add: table_portfolio_snapshots_def portfolio_snapshot_sql_def portfolio_snapshot_checks_def row_simps dec_simps; auto simp: pred_option_all split: option.splits)

lemma portfolio_snapshot_clashes: "table_clash table_portfolio_snapshots (portfolio_snapshot_sql r) (portfolio_snapshot_sql r') \<longleftrightarrow> portfolio_snapshot_clash r r'"
  by (simp add: portfolio_snapshot_sql_def portfolio_snapshot_clash_def schema_facts row_simps dec_simps; blast)

lemma portfolio_snapshot_references:
  "list_all (resolves ((database_sql db)(''portfolio_snapshots'' := map portfolio_snapshot_sql (db_portfolio_snapshots db) @ [portfolio_snapshot_sql r])) (portfolio_snapshot_sql r)) (foreign_keys table_portfolio_snapshots)
     \<longleftrightarrow> portfolio_snapshot_refs db r"
  by (simp add: table_portfolio_snapshots_def portfolio_snapshot_sql_def portfolio_snapshot_refs_def reference_simps database_sql_lookup row_simps; blast)

lemma snapshot_cash_admits: "table_admits table_snapshot_cash (snapshot_cash_sql r) \<longleftrightarrow> snapshot_cash_checks r"
  by (simp add: table_snapshot_cash_def snapshot_cash_sql_def snapshot_cash_checks_def row_simps dec_simps; auto simp: pred_option_all split: option.splits)

lemma snapshot_cash_clashes: "table_clash table_snapshot_cash (snapshot_cash_sql r) (snapshot_cash_sql r') \<longleftrightarrow> snapshot_cash_clash r r'"
  by (simp add: snapshot_cash_sql_def snapshot_cash_clash_def schema_facts row_simps dec_simps; blast)

lemma snapshot_cash_references:
  "list_all (resolves ((database_sql db)(''snapshot_cash'' := map snapshot_cash_sql (db_snapshot_cash db) @ [snapshot_cash_sql r])) (snapshot_cash_sql r)) (foreign_keys table_snapshot_cash)
     \<longleftrightarrow> snapshot_cash_refs db r"
  by (simp add: table_snapshot_cash_def snapshot_cash_sql_def snapshot_cash_refs_def reference_simps database_sql_lookup row_simps; blast)

lemma snapshot_position_admits: "table_admits table_snapshot_positions (snapshot_position_sql r) \<longleftrightarrow> snapshot_position_checks r"
  by (simp add: table_snapshot_positions_def snapshot_position_sql_def snapshot_position_checks_def row_simps dec_simps; cases "sp_cost_basis_status r"; auto)

lemma snapshot_position_clashes: "table_clash table_snapshot_positions (snapshot_position_sql r) (snapshot_position_sql r') \<longleftrightarrow> snapshot_position_clash r r'"
  by (simp add: snapshot_position_sql_def snapshot_position_clash_def schema_facts row_simps dec_simps; blast)

lemma snapshot_position_references:
  "list_all (resolves ((database_sql db)(''snapshot_positions'' := map snapshot_position_sql (db_snapshot_positions db) @ [snapshot_position_sql r])) (snapshot_position_sql r)) (foreign_keys table_snapshot_positions)
     \<longleftrightarrow> snapshot_position_refs db r"
  by (simp add: table_snapshot_positions_def snapshot_position_sql_def snapshot_position_refs_def reference_simps database_sql_lookup row_simps; blast)

lemma reconciliation_observation_admits: "table_admits table_reconciliation_observations (reconciliation_observation_sql r) \<longleftrightarrow> reconciliation_observation_checks r"
  by (simp add: table_reconciliation_observations_def reconciliation_observation_sql_def reconciliation_observation_checks_def row_simps dec_simps; cases "ob_kind r"; auto simp: dec_simps)

lemma reconciliation_observation_clashes: "table_clash table_reconciliation_observations (reconciliation_observation_sql r) (reconciliation_observation_sql r') \<longleftrightarrow> reconciliation_observation_clash r r'"
  by (simp add: reconciliation_observation_sql_def reconciliation_observation_clash_def schema_facts row_simps dec_simps; blast)

lemma reconciliation_observation_references:
  "list_all (resolves ((database_sql db)(''reconciliation_observations'' := map reconciliation_observation_sql (db_reconciliation_observations db) @ [reconciliation_observation_sql r])) (reconciliation_observation_sql r)) (foreign_keys table_reconciliation_observations)
     \<longleftrightarrow> reconciliation_observation_refs db r"
  by (simp add: table_reconciliation_observations_def reconciliation_observation_sql_def reconciliation_observation_refs_def reference_simps database_sql_lookup row_simps; blast)

lemma reconciliation_run_admits: "table_admits table_reconciliation_runs (reconciliation_run_sql r) \<longleftrightarrow> reconciliation_run_checks r"
  by (simp add: table_reconciliation_runs_def reconciliation_run_sql_def reconciliation_run_checks_def row_simps dec_simps; auto simp: pred_option_all split: option.splits)

lemma reconciliation_run_clashes: "table_clash table_reconciliation_runs (reconciliation_run_sql r) (reconciliation_run_sql r') \<longleftrightarrow> reconciliation_run_clash r r'"
  by (simp add: reconciliation_run_sql_def reconciliation_run_clash_def schema_facts row_simps dec_simps; blast)

lemma reconciliation_run_references:
  "list_all (resolves ((database_sql db)(''reconciliation_runs'' := map reconciliation_run_sql (db_reconciliation_runs db) @ [reconciliation_run_sql r])) (reconciliation_run_sql r)) (foreign_keys table_reconciliation_runs)
     \<longleftrightarrow> reconciliation_run_refs db r"
  by (simp add: table_reconciliation_runs_def reconciliation_run_sql_def reconciliation_run_refs_def reference_simps database_sql_lookup row_simps; blast)

lemma reconciliation_item_admits: "table_admits table_reconciliation_items (reconciliation_item_sql r) \<longleftrightarrow> reconciliation_item_checks r \<and> ri_status r \<noteq> Recon_UNAVAILABLE"
  by (simp add: table_reconciliation_items_def reconciliation_item_sql_def reconciliation_item_checks_def row_simps dec_simps; cases "ri_status r"; simp)

lemma reconciliation_item_clashes: "table_clash table_reconciliation_items (reconciliation_item_sql r) (reconciliation_item_sql r') \<longleftrightarrow> reconciliation_item_clash r r'"
  by (simp add: reconciliation_item_sql_def reconciliation_item_clash_def schema_facts row_simps dec_simps; blast)

lemma reconciliation_item_references:
  "list_all (resolves ((database_sql db)(''reconciliation_items'' := map reconciliation_item_sql (db_reconciliation_items db) @ [reconciliation_item_sql r])) (reconciliation_item_sql r)) (foreign_keys table_reconciliation_items)
     \<longleftrightarrow> reconciliation_item_refs db r"
  by (simp add: table_reconciliation_items_def reconciliation_item_sql_def reconciliation_item_refs_def reference_simps database_sql_lookup row_simps; blast)

lemma security_identifier_admits: "table_admits table_security_identifiers (security_identifier_sql r) \<longleftrightarrow> security_identifier_checks r"
  by (simp add: table_security_identifiers_def security_identifier_sql_def security_identifier_checks_def row_simps dec_simps; auto simp: pred_option_all split: option.splits)

lemma security_identifier_clashes: "table_clash table_security_identifiers (security_identifier_sql r) (security_identifier_sql r') \<longleftrightarrow> security_identifier_clash r r'"
  by (simp add: security_identifier_sql_def security_identifier_clash_def schema_facts row_simps dec_simps; blast)

lemma security_identifier_references:
  "list_all (resolves ((database_sql db)(''security_identifiers'' := map security_identifier_sql (db_security_identifiers db) @ [security_identifier_sql r])) (security_identifier_sql r)) (foreign_keys table_security_identifiers)
     \<longleftrightarrow> security_identifier_refs db r"
  by (simp add: table_security_identifiers_def security_identifier_sql_def security_identifier_refs_def reference_simps database_sql_lookup row_simps; blast)

lemma market_data_batch_admits: "table_admits table_market_data_batches (market_data_batch_sql r) \<longleftrightarrow> market_data_batch_checks r"
  by (simp add: table_market_data_batches_def market_data_batch_sql_def market_data_batch_checks_def row_simps dec_simps; auto simp: pred_option_all split: option.splits)

lemma market_data_batch_clashes: "table_clash table_market_data_batches (market_data_batch_sql r) (market_data_batch_sql r') \<longleftrightarrow> market_data_batch_clash r r'"
  by (simp add: market_data_batch_sql_def market_data_batch_clash_def schema_facts row_simps dec_simps; blast)

lemma market_data_batch_references:
  "list_all (resolves ((database_sql db)(''market_data_batches'' := map market_data_batch_sql (db_market_data_batches db) @ [market_data_batch_sql r])) (market_data_batch_sql r)) (foreign_keys table_market_data_batches)
     \<longleftrightarrow> True"
  by (simp add: table_market_data_batches_def market_data_batch_sql_def reference_simps database_sql_lookup row_simps; blast)

lemma market_price_admits: "table_admits table_market_prices (market_price_sql r) \<longleftrightarrow> market_price_checks r"
  by (simp add: table_market_prices_def market_price_sql_def market_price_checks_def row_simps dec_simps; auto simp: pred_option_all split: option.splits)

lemma market_price_clashes: "table_clash table_market_prices (market_price_sql r) (market_price_sql r') \<longleftrightarrow> market_price_clash r r'"
  by (simp add: market_price_sql_def market_price_clash_def schema_facts row_simps dec_simps; blast)

lemma market_price_references:
  "list_all (resolves ((database_sql db)(''market_prices'' := map market_price_sql (db_market_prices db) @ [market_price_sql r])) (market_price_sql r)) (foreign_keys table_market_prices)
     \<longleftrightarrow> market_price_refs db r"
  by (simp add: table_market_prices_def market_price_sql_def market_price_refs_def reference_simps database_sql_lookup row_simps; blast)

lemma market_price_conflict_admits: "table_admits table_market_price_conflicts (market_price_conflict_sql r) \<longleftrightarrow> market_price_conflict_checks r"
  by (simp add: table_market_price_conflicts_def market_price_conflict_sql_def market_price_conflict_checks_def row_simps dec_simps; auto simp: pred_option_all split: option.splits)

lemma market_price_conflict_clashes: "table_clash table_market_price_conflicts (market_price_conflict_sql r) (market_price_conflict_sql r') \<longleftrightarrow> market_price_conflict_clash r r'"
  by (simp add: market_price_conflict_sql_def market_price_conflict_clash_def schema_facts row_simps dec_simps; blast)

lemma market_price_conflict_references:
  "list_all (resolves ((database_sql db)(''market_price_conflicts'' := map market_price_conflict_sql (db_market_price_conflicts db) @ [market_price_conflict_sql r])) (market_price_conflict_sql r)) (foreign_keys table_market_price_conflicts)
     \<longleftrightarrow> market_price_conflict_refs db r"
  by (simp add: table_market_price_conflicts_def market_price_conflict_sql_def market_price_conflict_refs_def reference_simps database_sql_lookup row_simps; blast)

lemma instrument_classification_admits: "table_admits table_instrument_classifications (instrument_classification_sql r) \<longleftrightarrow> instrument_classification_checks r"
  by (simp add: table_instrument_classifications_def instrument_classification_sql_def instrument_classification_checks_def row_simps dec_simps; auto simp: pred_option_all split: option.splits)

lemma instrument_classification_clashes: "table_clash table_instrument_classifications (instrument_classification_sql r) (instrument_classification_sql r') \<longleftrightarrow> instrument_classification_clash r r'"
  by (simp add: instrument_classification_sql_def instrument_classification_clash_def schema_facts row_simps dec_simps; blast)

lemma instrument_classification_references:
  "list_all (resolves ((database_sql db)(''instrument_classifications'' := map instrument_classification_sql (db_instrument_classifications db) @ [instrument_classification_sql r])) (instrument_classification_sql r)) (foreign_keys table_instrument_classifications)
     \<longleftrightarrow> instrument_classification_refs db r"
  by (simp add: table_instrument_classifications_def instrument_classification_sql_def instrument_classification_refs_def reference_simps database_sql_lookup row_simps; blast)

lemma risk_policy_admits: "table_admits table_risk_policies (risk_policy_sql r) \<longleftrightarrow> risk_policy_checks r"
  by (simp add: table_risk_policies_def risk_policy_sql_def risk_policy_checks_def row_simps dec_simps; auto simp: pred_option_all split: option.splits)

lemma risk_policy_clashes: "table_clash table_risk_policies (risk_policy_sql r) (risk_policy_sql r') \<longleftrightarrow> risk_policy_clash r r'"
  by (simp add: risk_policy_sql_def risk_policy_clash_def schema_facts row_simps dec_simps; blast)

lemma risk_policy_references:
  "list_all (resolves ((database_sql db)(''risk_policies'' := map risk_policy_sql (db_risk_policies db) @ [risk_policy_sql r])) (risk_policy_sql r)) (foreign_keys table_risk_policies)
     \<longleftrightarrow> risk_policy_refs db r"
  by (simp add: table_risk_policies_def risk_policy_sql_def risk_policy_refs_def reference_simps database_sql_lookup row_simps; blast)

lemma risk_policy_rule_admits: "table_admits table_risk_policy_rules_0008 (risk_policy_rule_sql r) \<longleftrightarrow> risk_policy_rule_checks r"
  by (simp add: table_risk_policy_rules_def risk_policy_rule_sql_def table_risk_policy_rules_0008_def risk_policy_rule_checks_def row_simps dec_simps; auto simp: pred_option_all split: option.splits)

lemma risk_policy_rule_clashes: "table_clash table_risk_policy_rules_0008 (risk_policy_rule_sql r) (risk_policy_rule_sql r') \<longleftrightarrow> risk_policy_rule_clash r r'"
  by (simp add: risk_policy_rule_sql_def risk_policy_rule_clash_def schema_facts row_simps dec_simps; blast)

lemma risk_policy_rule_references:
  "list_all (resolves ((database_sql db)(''risk_policy_rules'' := map risk_policy_rule_sql (db_risk_policy_rules db) @ [risk_policy_rule_sql r])) (risk_policy_rule_sql r)) (foreign_keys table_risk_policy_rules_0008)
     \<longleftrightarrow> risk_policy_rule_refs db r"
  by (simp add: table_risk_policy_rules_def risk_policy_rule_sql_def table_risk_policy_rules_0008_def risk_policy_rule_refs_def reference_simps database_sql_lookup row_simps; blast)

lemma risk_evaluation_admits: "table_admits table_risk_evaluations (risk_evaluation_sql r) \<longleftrightarrow> risk_evaluation_checks r"
  by (simp add: table_risk_evaluations_def risk_evaluation_sql_def risk_evaluation_checks_def row_simps dec_simps; auto simp: pred_option_all split: option.splits)

lemma risk_evaluation_clashes: "table_clash table_risk_evaluations (risk_evaluation_sql r) (risk_evaluation_sql r') \<longleftrightarrow> risk_evaluation_clash r r'"
  by (simp add: risk_evaluation_sql_def risk_evaluation_clash_def schema_facts row_simps dec_simps; blast)

lemma risk_evaluation_references:
  "list_all (resolves ((database_sql db)(''risk_evaluations'' := map risk_evaluation_sql (db_risk_evaluations db) @ [risk_evaluation_sql r])) (risk_evaluation_sql r)) (foreign_keys table_risk_evaluations)
     \<longleftrightarrow> risk_evaluation_refs db r"
  by (simp add: table_risk_evaluations_def risk_evaluation_sql_def risk_evaluation_refs_def reference_simps database_sql_lookup row_simps; blast)

lemma risk_evaluation_item_admits: "table_admits table_risk_evaluation_items (risk_evaluation_item_sql r) \<longleftrightarrow> risk_evaluation_item_checks r"
  by (simp add: table_risk_evaluation_items_def risk_evaluation_item_sql_def risk_evaluation_item_checks_def row_simps dec_simps; auto simp: pred_option_all split: option.splits)

lemma risk_evaluation_item_clashes: "table_clash table_risk_evaluation_items (risk_evaluation_item_sql r) (risk_evaluation_item_sql r') \<longleftrightarrow> risk_evaluation_item_clash r r'"
  by (simp add: risk_evaluation_item_sql_def risk_evaluation_item_clash_def schema_facts row_simps dec_simps; blast)

lemma risk_evaluation_item_references:
  "list_all (resolves ((database_sql db)(''risk_evaluation_items'' := map risk_evaluation_item_sql (db_risk_evaluation_items db) @ [risk_evaluation_item_sql r])) (risk_evaluation_item_sql r)) (foreign_keys table_risk_evaluation_items)
     \<longleftrightarrow> risk_evaluation_item_refs db r"
  by (simp add: table_risk_evaluation_items_def risk_evaluation_item_sql_def risk_evaluation_item_refs_def reference_simps database_sql_lookup row_simps; blast)

lemma scenario_definition_admits: "table_admits table_scenario_definitions (scenario_definition_sql r) \<longleftrightarrow> scenario_definition_checks r"
  by (simp add: table_scenario_definitions_def scenario_definition_sql_def scenario_definition_checks_def row_simps dec_simps; auto simp: pred_option_all split: option.splits)

lemma scenario_definition_clashes: "table_clash table_scenario_definitions (scenario_definition_sql r) (scenario_definition_sql r') \<longleftrightarrow> scenario_definition_clash r r'"
  by (simp add: scenario_definition_sql_def scenario_definition_clash_def schema_facts row_simps dec_simps; blast)

lemma scenario_definition_references:
  "list_all (resolves ((database_sql db)(''scenario_definitions'' := map scenario_definition_sql (db_scenario_definitions db) @ [scenario_definition_sql r])) (scenario_definition_sql r)) (foreign_keys table_scenario_definitions)
     \<longleftrightarrow> scenario_definition_refs db r"
  by (simp add: table_scenario_definitions_def scenario_definition_sql_def scenario_definition_refs_def reference_simps database_sql_lookup row_simps; blast)

lemma scenario_shock_admits: "table_admits table_scenario_shocks (scenario_shock_sql r) \<longleftrightarrow> scenario_shock_checks r"
  by (simp add: table_scenario_shocks_def scenario_shock_sql_def scenario_shock_checks_def row_simps dec_simps; auto simp: pred_option_all split: option.splits)

lemma scenario_shock_clashes: "table_clash table_scenario_shocks (scenario_shock_sql r) (scenario_shock_sql r') \<longleftrightarrow> scenario_shock_clash r r'"
  by (simp add: scenario_shock_sql_def scenario_shock_clash_def schema_facts row_simps dec_simps; blast)

lemma scenario_shock_references:
  "list_all (resolves ((database_sql db)(''scenario_shocks'' := map scenario_shock_sql (db_scenario_shocks db) @ [scenario_shock_sql r])) (scenario_shock_sql r)) (foreign_keys table_scenario_shocks)
     \<longleftrightarrow> scenario_shock_refs db r"
  by (simp add: table_scenario_shocks_def scenario_shock_sql_def scenario_shock_refs_def reference_simps database_sql_lookup row_simps; blast)

lemma instrument_risk_sensitivity_admits: "table_admits table_instrument_risk_sensitivities (instrument_risk_sensitivity_sql r) \<longleftrightarrow> instrument_risk_sensitivity_checks r"
  by (simp add: table_instrument_risk_sensitivities_def instrument_risk_sensitivity_sql_def instrument_risk_sensitivity_checks_def row_simps dec_simps; auto simp: pred_option_all split: option.splits)

lemma instrument_risk_sensitivity_clashes: "table_clash table_instrument_risk_sensitivities (instrument_risk_sensitivity_sql r) (instrument_risk_sensitivity_sql r') \<longleftrightarrow> instrument_risk_sensitivity_clash r r'"
  by (simp add: instrument_risk_sensitivity_sql_def instrument_risk_sensitivity_clash_def schema_facts row_simps dec_simps; blast)

lemma instrument_risk_sensitivity_references:
  "list_all (resolves ((database_sql db)(''instrument_risk_sensitivities'' := map instrument_risk_sensitivity_sql (db_instrument_risk_sensitivities db) @ [instrument_risk_sensitivity_sql r])) (instrument_risk_sensitivity_sql r)) (foreign_keys table_instrument_risk_sensitivities)
     \<longleftrightarrow> instrument_risk_sensitivity_refs db r"
  by (simp add: table_instrument_risk_sensitivities_def instrument_risk_sensitivity_sql_def instrument_risk_sensitivity_refs_def reference_simps database_sql_lookup row_simps; blast)

lemma scenario_run_admits: "table_admits table_scenario_runs (scenario_run_sql r) \<longleftrightarrow> scenario_run_checks r"
  by (simp add: table_scenario_runs_def scenario_run_sql_def scenario_run_checks_def row_simps dec_simps; auto simp: pred_option_all split: option.splits)

lemma scenario_run_clashes: "table_clash table_scenario_runs (scenario_run_sql r) (scenario_run_sql r') \<longleftrightarrow> scenario_run_clash r r'"
  by (simp add: scenario_run_sql_def scenario_run_clash_def schema_facts row_simps dec_simps; blast)

lemma scenario_run_references:
  "list_all (resolves ((database_sql db)(''scenario_runs'' := map scenario_run_sql (db_scenario_runs db) @ [scenario_run_sql r])) (scenario_run_sql r)) (foreign_keys table_scenario_runs)
     \<longleftrightarrow> scenario_run_refs db r"
  by (simp add: table_scenario_runs_def scenario_run_sql_def scenario_run_refs_def reference_simps database_sql_lookup row_simps; blast)

lemma scenario_position_result_admits: "table_admits table_scenario_position_results (scenario_position_result_sql r) \<longleftrightarrow> scenario_position_result_checks r"
  by (simp add: table_scenario_position_results_def scenario_position_result_sql_def scenario_position_result_checks_def row_simps dec_simps; auto simp: pred_option_all split: option.splits)

lemma scenario_position_result_clashes: "table_clash table_scenario_position_results (scenario_position_result_sql r) (scenario_position_result_sql r') \<longleftrightarrow> scenario_position_result_clash r r'"
  by (simp add: scenario_position_result_sql_def scenario_position_result_clash_def schema_facts row_simps dec_simps; blast)

lemma scenario_position_result_references:
  "list_all (resolves ((database_sql db)(''scenario_position_results'' := map scenario_position_result_sql (db_scenario_position_results db) @ [scenario_position_result_sql r])) (scenario_position_result_sql r)) (foreign_keys table_scenario_position_results)
     \<longleftrightarrow> scenario_position_result_refs db r"
  by (simp add: table_scenario_position_results_def scenario_position_result_sql_def scenario_position_result_refs_def reference_simps database_sql_lookup row_simps; blast)

lemma investment_proposal_admits: "table_admits table_investment_proposals (investment_proposal_sql r) \<longleftrightarrow> investment_proposal_checks r"
  by (simp add: table_investment_proposals_def investment_proposal_sql_def investment_proposal_checks_def row_simps dec_simps; auto simp: pred_option_all split: option.splits)

lemma investment_proposal_clashes: "table_clash table_investment_proposals (investment_proposal_sql r) (investment_proposal_sql r') \<longleftrightarrow> investment_proposal_clash r r'"
  by (simp add: investment_proposal_sql_def investment_proposal_clash_def schema_facts row_simps dec_simps; blast)

lemma investment_proposal_references:
  "list_all (resolves ((database_sql db)(''investment_proposals'' := map investment_proposal_sql (db_investment_proposals db) @ [investment_proposal_sql r])) (investment_proposal_sql r)) (foreign_keys table_investment_proposals)
     \<longleftrightarrow> investment_proposal_refs db r"
  by (simp add: table_investment_proposals_def investment_proposal_sql_def investment_proposal_refs_def reference_simps database_sql_lookup row_simps; blast)

lemma proposal_version_admits: "table_admits table_proposal_versions (proposal_version_sql r) \<longleftrightarrow> proposal_version_checks r"
  by (simp add: table_proposal_versions_def proposal_version_sql_def proposal_version_checks_def row_simps dec_simps; auto simp: pred_option_all split: option.splits)

lemma proposal_version_clashes: "table_clash table_proposal_versions (proposal_version_sql r) (proposal_version_sql r') \<longleftrightarrow> proposal_version_clash r r'"
  by (simp add: proposal_version_sql_def proposal_version_clash_def schema_facts row_simps dec_simps; blast)

lemma proposal_version_references:
  "list_all (resolves ((database_sql db)(''proposal_versions'' := map proposal_version_sql (db_proposal_versions db) @ [proposal_version_sql r])) (proposal_version_sql r)) (foreign_keys table_proposal_versions)
     \<longleftrightarrow> proposal_version_refs db r"
  by (simp add: table_proposal_versions_def proposal_version_sql_def proposal_version_refs_def reference_simps database_sql_lookup row_simps; blast)

lemma proposal_line_admits: "table_admits table_proposal_lines (proposal_line_sql r) \<longleftrightarrow> proposal_line_checks r"
  by (simp add: table_proposal_lines_def proposal_line_sql_def proposal_line_checks_def row_simps dec_simps; auto simp: pred_option_all split: option.splits)

lemma proposal_line_clashes: "table_clash table_proposal_lines (proposal_line_sql r) (proposal_line_sql r') \<longleftrightarrow> proposal_line_clash r r'"
  by (simp add: proposal_line_sql_def proposal_line_clash_def schema_facts row_simps dec_simps; blast)

lemma proposal_line_references:
  "list_all (resolves ((database_sql db)(''proposal_lines'' := map proposal_line_sql (db_proposal_lines db) @ [proposal_line_sql r])) (proposal_line_sql r)) (foreign_keys table_proposal_lines)
     \<longleftrightarrow> proposal_line_refs db r"
  by (simp add: table_proposal_lines_def proposal_line_sql_def proposal_line_refs_def reference_simps database_sql_lookup row_simps; blast)

lemma proposal_analysis_admits: "table_admits table_proposal_analyses (proposal_analysis_sql r) \<longleftrightarrow> proposal_analysis_checks r"
  by (simp add: table_proposal_analyses_def proposal_analysis_sql_def proposal_analysis_checks_def row_simps dec_simps; auto simp: pred_option_all split: option.splits)

lemma proposal_analysis_clashes: "table_clash table_proposal_analyses (proposal_analysis_sql r) (proposal_analysis_sql r') \<longleftrightarrow> proposal_analysis_clash r r'"
  by (simp add: proposal_analysis_sql_def proposal_analysis_clash_def schema_facts row_simps dec_simps; blast)

lemma proposal_analysis_references:
  "list_all (resolves ((database_sql db)(''proposal_analyses'' := map proposal_analysis_sql (db_proposal_analyses db) @ [proposal_analysis_sql r])) (proposal_analysis_sql r)) (foreign_keys table_proposal_analyses)
     \<longleftrightarrow> proposal_analysis_refs db r"
  by (simp add: table_proposal_analyses_def proposal_analysis_sql_def proposal_analysis_refs_def reference_simps database_sql_lookup row_simps; blast)

lemma proposal_review_admits: "table_admits table_proposal_reviews (proposal_review_sql r) \<longleftrightarrow> proposal_review_checks r \<and> prv_reviewer_role r \<in> set governance_roles"
  by (simp add: table_proposal_reviews_def proposal_review_sql_def proposal_review_checks_def row_simps dec_simps governance_roles_def; auto simp: pred_option_all split: option.splits)

lemma proposal_review_clashes: "table_clash table_proposal_reviews (proposal_review_sql r) (proposal_review_sql r') \<longleftrightarrow> proposal_review_clash r r'"
  by (simp add: proposal_review_sql_def proposal_review_clash_def schema_facts row_simps dec_simps; blast)

lemma proposal_review_references:
  "list_all (resolves ((database_sql db)(''proposal_reviews'' := map proposal_review_sql (db_proposal_reviews db) @ [proposal_review_sql r])) (proposal_review_sql r)) (foreign_keys table_proposal_reviews)
     \<longleftrightarrow> proposal_review_refs db r"
  by (simp add: table_proposal_reviews_def proposal_review_sql_def proposal_review_refs_def reference_simps database_sql_lookup row_simps; blast)

lemma proposal_transition_admits: "table_admits table_proposal_transitions (proposal_transition_sql r) \<longleftrightarrow> proposal_transition_checks r \<and> pt_actor_role r \<in> set governance_roles"
  by (simp add: table_proposal_transitions_def proposal_transition_sql_def proposal_transition_checks_def row_simps dec_simps governance_roles_def; auto simp: pred_option_all split: option.splits)

lemma proposal_transition_clashes: "table_clash table_proposal_transitions (proposal_transition_sql r) (proposal_transition_sql r') \<longleftrightarrow> proposal_transition_clash r r'"
  by (simp add: proposal_transition_sql_def proposal_transition_clash_def schema_facts row_simps dec_simps; blast)

lemma proposal_transition_references:
  "list_all (resolves ((database_sql db)(''proposal_transitions'' := map proposal_transition_sql (db_proposal_transitions db) @ [proposal_transition_sql r])) (proposal_transition_sql r)) (foreign_keys table_proposal_transitions)
     \<longleftrightarrow> proposal_transition_refs db r"
  by (simp add: table_proposal_transitions_def proposal_transition_sql_def proposal_transition_refs_def reference_simps database_sql_lookup row_simps; blast)

lemma ai_conversation_admits: "table_admits table_ai_conversations (ai_conversation_sql r) \<longleftrightarrow> ai_conversation_checks r"
  by (simp add: table_ai_conversations_def ai_conversation_sql_def ai_conversation_checks_def row_simps dec_simps; auto simp: pred_option_all split: option.splits)

lemma ai_conversation_clashes: "table_clash table_ai_conversations (ai_conversation_sql r) (ai_conversation_sql r') \<longleftrightarrow> ai_conversation_clash r r'"
  by (simp add: ai_conversation_sql_def ai_conversation_clash_def schema_facts row_simps dec_simps; blast)

lemma ai_conversation_references:
  "list_all (resolves ((database_sql db)(''ai_conversations'' := map ai_conversation_sql (db_ai_conversations db) @ [ai_conversation_sql r])) (ai_conversation_sql r)) (foreign_keys table_ai_conversations)
     \<longleftrightarrow> ai_conversation_refs db r"
  by (simp add: table_ai_conversations_def ai_conversation_sql_def ai_conversation_refs_def reference_simps database_sql_lookup row_simps; blast)

lemma ai_message_admits: "table_admits table_ai_messages (ai_message_sql r) \<longleftrightarrow> ai_message_checks r"
  by (simp add: table_ai_messages_def ai_message_sql_def ai_message_checks_def row_simps dec_simps; auto simp: pred_option_all split: option.splits)

lemma ai_message_clashes: "table_clash table_ai_messages (ai_message_sql r) (ai_message_sql r') \<longleftrightarrow> ai_message_clash r r'"
  by (simp add: ai_message_sql_def ai_message_clash_def schema_facts row_simps dec_simps; blast)

lemma ai_message_references:
  "list_all (resolves ((database_sql db)(''ai_messages'' := map ai_message_sql (db_ai_messages db) @ [ai_message_sql r])) (ai_message_sql r)) (foreign_keys table_ai_messages)
     \<longleftrightarrow> ai_message_refs db r"
  by (simp add: table_ai_messages_def ai_message_sql_def ai_message_refs_def reference_simps database_sql_lookup row_simps; blast)

lemma ai_tool_call_admits: "table_admits table_ai_tool_calls (ai_tool_call_sql r) \<longleftrightarrow> ai_tool_call_checks r"
  by (simp add: table_ai_tool_calls_def ai_tool_call_sql_def ai_tool_call_checks_def row_simps dec_simps; auto simp: pred_option_all split: option.splits)

lemma ai_tool_call_clashes: "table_clash table_ai_tool_calls (ai_tool_call_sql r) (ai_tool_call_sql r') \<longleftrightarrow> ai_tool_call_clash r r'"
  by (simp add: ai_tool_call_sql_def ai_tool_call_clash_def schema_facts row_simps dec_simps; blast)

lemma ai_tool_call_references:
  "list_all (resolves ((database_sql db)(''ai_tool_calls'' := map ai_tool_call_sql (db_ai_tool_calls db) @ [ai_tool_call_sql r])) (ai_tool_call_sql r)) (foreign_keys table_ai_tool_calls)
     \<longleftrightarrow> ai_tool_call_refs db r"
  by (simp add: table_ai_tool_calls_def ai_tool_call_sql_def ai_tool_call_refs_def reference_simps database_sql_lookup row_simps; blast)


section \<open>Every mapped class is stored in its table\<close>

interpretation funds_stored: stored_table catalog_0009 "''funds''" table_funds fund_sql db_funds "\<lambda>rs. db_funds_update (\<lambda>_. rs)"
  fund_clash fund_checks "\<lambda>db r. True" "\<lambda>r. True" "\<lambda>r r'. False" insert_fund
  by unfold_locales
    (simp_all add: find_table_head catalog_0009_facts schema_facts fund_admits fund_clashes fund_references insert_fund_def database_sql_lookup database_sql_put
       unique_indexes_head)

interpretation users_stored: stored_table catalog_0009 "''users''" table_users user_sql db_users "\<lambda>rs. db_users_update (\<lambda>_. rs)"
  user_clash user_checks "\<lambda>db r. True" "\<lambda>r. True" "\<lambda>r r'. False" insert_user
  by unfold_locales
    (simp_all add: find_table_head catalog_0009_facts schema_facts user_admits user_clashes user_references insert_user_def database_sql_lookup database_sql_put
       unique_indexes_head)

interpretation roles_stored: stored_table catalog_0009 "''roles''" table_roles role_sql db_roles "\<lambda>rs. db_roles_update (\<lambda>_. rs)"
  role_clash role_checks "\<lambda>db r. True" "\<lambda>r. True" "\<lambda>r r'. False" insert_role
  by unfold_locales
    (simp_all add: find_table_head catalog_0009_facts schema_facts role_admits role_clashes role_references insert_role_def database_sql_lookup database_sql_put
       unique_indexes_head)

interpretation user_roles_stored: stored_table catalog_0009 "''user_roles''" table_user_roles user_role_sql db_user_roles "\<lambda>rs. db_user_roles_update (\<lambda>_. rs)"
  user_role_clash user_role_checks user_role_refs "\<lambda>r. True" "\<lambda>r r'. False" insert_user_role
  by unfold_locales
    (simp_all add: find_table_head catalog_0009_facts schema_facts user_role_admits user_role_clashes user_role_references insert_user_role_def database_sql_lookup database_sql_put
       unique_indexes_head)

interpretation instruments_stored: stored_table catalog_0009 "''instruments''" table_instruments instrument_sql db_instruments "\<lambda>rs. db_instruments_update (\<lambda>_. rs)"
  instrument_clash instrument_checks "\<lambda>db r. True" "\<lambda>r. True" "\<lambda>r r'. False" insert_instrument
  by unfold_locales
    (simp_all add: find_table_head catalog_0009_facts schema_facts instrument_admits instrument_clashes instrument_references insert_instrument_def database_sql_lookup database_sql_put
       unique_indexes_head)

interpretation accounts_stored: stored_table catalog_0009 "''accounts''" table_accounts account_sql db_accounts "\<lambda>rs. db_accounts_update (\<lambda>_. rs)"
  account_clash account_checks account_refs "\<lambda>r. True" "\<lambda>r r'. False" insert_account
  by unfold_locales
    (simp_all add: find_table_head catalog_0009_facts schema_facts account_admits account_clashes account_references insert_account_def database_sql_lookup database_sql_put
       unique_indexes_head)

interpretation import_batches_stored: stored_table catalog_0009 "''import_batches''" table_import_batches import_batch_sql db_import_batches "\<lambda>rs. db_import_batches_update (\<lambda>_. rs)"
  import_batch_clash import_batch_checks import_batch_refs "\<lambda>r. True" "\<lambda>r r'. False" insert_import_batch
  by unfold_locales
    (simp_all add: find_table_head catalog_0009_facts schema_facts import_batch_admits import_batch_clashes import_batch_references insert_import_batch_def database_sql_lookup database_sql_put
       unique_indexes_head)

interpretation transactions_stored: stored_table catalog_0009 "''transactions''" table_transactions transaction_sql db_transactions "\<lambda>rs. db_transactions_update (\<lambda>_. rs)"
  transaction_clash transaction_checks transaction_refs "\<lambda>r. True" opening_clash insert_transaction
  by unfold_locales
    (simp_all add: find_table_head catalog_0009_facts schema_facts transaction_admits transaction_clashes transaction_references insert_transaction_def database_sql_lookup database_sql_put
       transaction_index_clash)

interpretation import_conflicts_stored: stored_table catalog_0009 "''import_conflicts''" table_import_conflicts import_conflict_sql db_import_conflicts "\<lambda>rs. db_import_conflicts_update (\<lambda>_. rs)"
  import_conflict_clash import_conflict_checks import_conflict_refs "\<lambda>r. True" "\<lambda>r r'. False" insert_import_conflict
  by unfold_locales
    (simp_all add: find_table_head catalog_0009_facts schema_facts import_conflict_admits import_conflict_clashes import_conflict_references insert_import_conflict_def database_sql_lookup database_sql_put
       unique_indexes_head)

interpretation import_records_stored: stored_table catalog_0009 "''import_records''" table_import_records import_record_sql db_import_records "\<lambda>rs. db_import_records_update (\<lambda>_. rs)"
  import_record_clash import_record_checks import_record_refs "\<lambda>r. True" "\<lambda>r r'. False" insert_import_record
  by unfold_locales
    (simp_all add: find_table_head catalog_0009_facts schema_facts import_record_admits import_record_clashes import_record_references insert_import_record_def database_sql_lookup database_sql_put
       unique_indexes_head)

interpretation audit_events_stored: stored_table catalog_0009 "''audit_events''" table_audit_events audit_event_sql db_audit_events "\<lambda>rs. db_audit_events_update (\<lambda>_. rs)"
  audit_event_clash audit_event_checks audit_event_refs "\<lambda>r. True" "\<lambda>r r'. False" insert_audit_event
  by unfold_locales
    (simp_all add: find_table_head catalog_0009_facts schema_facts audit_event_admits audit_event_clashes audit_event_references insert_audit_event_def database_sql_lookup database_sql_put
       unique_indexes_head)

interpretation portfolio_snapshots_stored: stored_table catalog_0009 "''portfolio_snapshots''" table_portfolio_snapshots portfolio_snapshot_sql db_portfolio_snapshots "\<lambda>rs. db_portfolio_snapshots_update (\<lambda>_. rs)"
  portfolio_snapshot_clash portfolio_snapshot_checks portfolio_snapshot_refs "\<lambda>r. True" snapshot_scope_clash insert_portfolio_snapshot
  by unfold_locales
    (simp_all add: find_table_head catalog_0009_facts schema_facts portfolio_snapshot_admits portfolio_snapshot_clashes portfolio_snapshot_references insert_portfolio_snapshot_def database_sql_lookup database_sql_put
       portfolio_snapshot_index_clash)

interpretation snapshot_cash_stored: stored_table catalog_0009 "''snapshot_cash''" table_snapshot_cash snapshot_cash_sql db_snapshot_cash "\<lambda>rs. db_snapshot_cash_update (\<lambda>_. rs)"
  snapshot_cash_clash snapshot_cash_checks snapshot_cash_refs "\<lambda>r. True" "\<lambda>r r'. False" insert_snapshot_cash
  by unfold_locales
    (simp_all add: find_table_head catalog_0009_facts schema_facts snapshot_cash_admits snapshot_cash_clashes snapshot_cash_references insert_snapshot_cash_def database_sql_lookup database_sql_put
       unique_indexes_head)

interpretation snapshot_positions_stored: stored_table catalog_0009 "''snapshot_positions''" table_snapshot_positions snapshot_position_sql db_snapshot_positions "\<lambda>rs. db_snapshot_positions_update (\<lambda>_. rs)"
  snapshot_position_clash snapshot_position_checks snapshot_position_refs "\<lambda>r. True" "\<lambda>r r'. False" insert_snapshot_position
  by unfold_locales
    (simp_all add: find_table_head catalog_0009_facts schema_facts snapshot_position_admits snapshot_position_clashes snapshot_position_references insert_snapshot_position_def database_sql_lookup database_sql_put
       unique_indexes_head)

interpretation reconciliation_observations_stored: stored_table catalog_0009 "''reconciliation_observations''" table_reconciliation_observations reconciliation_observation_sql db_reconciliation_observations "\<lambda>rs. db_reconciliation_observations_update (\<lambda>_. rs)"
  reconciliation_observation_clash reconciliation_observation_checks reconciliation_observation_refs "\<lambda>r. True" "\<lambda>r r'. False" insert_reconciliation_observation
  by unfold_locales
    (simp_all add: find_table_head catalog_0009_facts schema_facts reconciliation_observation_admits reconciliation_observation_clashes reconciliation_observation_references insert_reconciliation_observation_def database_sql_lookup database_sql_put
       unique_indexes_head)

interpretation reconciliation_runs_stored: stored_table catalog_0009 "''reconciliation_runs''" table_reconciliation_runs reconciliation_run_sql db_reconciliation_runs "\<lambda>rs. db_reconciliation_runs_update (\<lambda>_. rs)"
  reconciliation_run_clash reconciliation_run_checks reconciliation_run_refs "\<lambda>r. True" "\<lambda>r r'. False" insert_reconciliation_run
  by unfold_locales
    (simp_all add: find_table_head catalog_0009_facts schema_facts reconciliation_run_admits reconciliation_run_clashes reconciliation_run_references insert_reconciliation_run_def database_sql_lookup database_sql_put
       unique_indexes_head)

interpretation reconciliation_items_stored: stored_table catalog_0009 "''reconciliation_items''" table_reconciliation_items reconciliation_item_sql db_reconciliation_items "\<lambda>rs. db_reconciliation_items_update (\<lambda>_. rs)"
  reconciliation_item_clash reconciliation_item_checks reconciliation_item_refs "\<lambda>r. ri_status r \<noteq> Recon_UNAVAILABLE" "\<lambda>r r'. False" insert_reconciliation_item
  by unfold_locales
    (simp_all add: find_table_head catalog_0009_facts schema_facts reconciliation_item_admits reconciliation_item_clashes reconciliation_item_references insert_reconciliation_item_def database_sql_lookup database_sql_put
       unique_indexes_head)

interpretation security_identifiers_stored: stored_table catalog_0009 "''security_identifiers''" table_security_identifiers security_identifier_sql db_security_identifiers "\<lambda>rs. db_security_identifiers_update (\<lambda>_. rs)"
  security_identifier_clash security_identifier_checks security_identifier_refs "\<lambda>r. True" "\<lambda>r r'. False" insert_security_identifier
  by unfold_locales
    (simp_all add: find_table_head catalog_0009_facts schema_facts security_identifier_admits security_identifier_clashes security_identifier_references insert_security_identifier_def database_sql_lookup database_sql_put
       unique_indexes_head)

interpretation market_data_batches_stored: stored_table catalog_0009 "''market_data_batches''" table_market_data_batches market_data_batch_sql db_market_data_batches "\<lambda>rs. db_market_data_batches_update (\<lambda>_. rs)"
  market_data_batch_clash market_data_batch_checks "\<lambda>db r. True" "\<lambda>r. True" "\<lambda>r r'. False" insert_market_data_batch
  by unfold_locales
    (simp_all add: find_table_head catalog_0009_facts schema_facts market_data_batch_admits market_data_batch_clashes market_data_batch_references insert_market_data_batch_def database_sql_lookup database_sql_put
       unique_indexes_head)

interpretation market_prices_stored: stored_table catalog_0009 "''market_prices''" table_market_prices market_price_sql db_market_prices "\<lambda>rs. db_market_prices_update (\<lambda>_. rs)"
  market_price_clash market_price_checks market_price_refs "\<lambda>r. True" "\<lambda>r r'. False" insert_market_price
  by unfold_locales
    (simp_all add: find_table_head catalog_0009_facts schema_facts market_price_admits market_price_clashes market_price_references insert_market_price_def database_sql_lookup database_sql_put
       unique_indexes_head)

interpretation market_price_conflicts_stored: stored_table catalog_0009 "''market_price_conflicts''" table_market_price_conflicts market_price_conflict_sql db_market_price_conflicts "\<lambda>rs. db_market_price_conflicts_update (\<lambda>_. rs)"
  market_price_conflict_clash market_price_conflict_checks market_price_conflict_refs "\<lambda>r. True" "\<lambda>r r'. False" insert_market_price_conflict
  by unfold_locales
    (simp_all add: find_table_head catalog_0009_facts schema_facts market_price_conflict_admits market_price_conflict_clashes market_price_conflict_references insert_market_price_conflict_def database_sql_lookup database_sql_put
       unique_indexes_head)

interpretation instrument_classifications_stored: stored_table catalog_0009 "''instrument_classifications''" table_instrument_classifications instrument_classification_sql db_instrument_classifications "\<lambda>rs. db_instrument_classifications_update (\<lambda>_. rs)"
  instrument_classification_clash instrument_classification_checks instrument_classification_refs "\<lambda>r. True" "\<lambda>r r'. False" insert_instrument_classification
  by unfold_locales
    (simp_all add: find_table_head catalog_0009_facts schema_facts instrument_classification_admits instrument_classification_clashes instrument_classification_references insert_instrument_classification_def database_sql_lookup database_sql_put
       unique_indexes_head)

interpretation risk_policies_stored: stored_table catalog_0009 "''risk_policies''" table_risk_policies risk_policy_sql db_risk_policies "\<lambda>rs. db_risk_policies_update (\<lambda>_. rs)"
  risk_policy_clash risk_policy_checks risk_policy_refs "\<lambda>r. True" "\<lambda>r r'. False" insert_risk_policy
  by unfold_locales
    (simp_all add: find_table_head catalog_0009_facts schema_facts risk_policy_admits risk_policy_clashes risk_policy_references insert_risk_policy_def database_sql_lookup database_sql_put
       unique_indexes_head)

interpretation risk_policy_rules_stored: stored_table catalog_0009 "''risk_policy_rules''" table_risk_policy_rules_0008 risk_policy_rule_sql db_risk_policy_rules "\<lambda>rs. db_risk_policy_rules_update (\<lambda>_. rs)"
  risk_policy_rule_clash risk_policy_rule_checks risk_policy_rule_refs "\<lambda>r. True" "\<lambda>r r'. False" insert_risk_policy_rule
  by unfold_locales
    (simp_all add: find_table_head catalog_0009_facts schema_facts risk_policy_rule_admits risk_policy_rule_clashes risk_policy_rule_references insert_risk_policy_rule_def database_sql_lookup database_sql_put
       unique_indexes_head)

interpretation risk_evaluations_stored: stored_table catalog_0009 "''risk_evaluations''" table_risk_evaluations risk_evaluation_sql db_risk_evaluations "\<lambda>rs. db_risk_evaluations_update (\<lambda>_. rs)"
  risk_evaluation_clash risk_evaluation_checks risk_evaluation_refs "\<lambda>r. True" "\<lambda>r r'. False" insert_risk_evaluation
  by unfold_locales
    (simp_all add: find_table_head catalog_0009_facts schema_facts risk_evaluation_admits risk_evaluation_clashes risk_evaluation_references insert_risk_evaluation_def database_sql_lookup database_sql_put
       unique_indexes_head)

interpretation risk_evaluation_items_stored: stored_table catalog_0009 "''risk_evaluation_items''" table_risk_evaluation_items risk_evaluation_item_sql db_risk_evaluation_items "\<lambda>rs. db_risk_evaluation_items_update (\<lambda>_. rs)"
  risk_evaluation_item_clash risk_evaluation_item_checks risk_evaluation_item_refs "\<lambda>r. True" "\<lambda>r r'. False" insert_risk_evaluation_item
  by unfold_locales
    (simp_all add: find_table_head catalog_0009_facts schema_facts risk_evaluation_item_admits risk_evaluation_item_clashes risk_evaluation_item_references insert_risk_evaluation_item_def database_sql_lookup database_sql_put
       unique_indexes_head)

interpretation scenario_definitions_stored: stored_table catalog_0009 "''scenario_definitions''" table_scenario_definitions scenario_definition_sql db_scenario_definitions "\<lambda>rs. db_scenario_definitions_update (\<lambda>_. rs)"
  scenario_definition_clash scenario_definition_checks scenario_definition_refs "\<lambda>r. True" "\<lambda>r r'. False" insert_scenario_definition
  by unfold_locales
    (simp_all add: find_table_head catalog_0009_facts schema_facts scenario_definition_admits scenario_definition_clashes scenario_definition_references insert_scenario_definition_def database_sql_lookup database_sql_put
       unique_indexes_head)

interpretation scenario_shocks_stored: stored_table catalog_0009 "''scenario_shocks''" table_scenario_shocks scenario_shock_sql db_scenario_shocks "\<lambda>rs. db_scenario_shocks_update (\<lambda>_. rs)"
  scenario_shock_clash scenario_shock_checks scenario_shock_refs "\<lambda>r. True" "\<lambda>r r'. False" insert_scenario_shock
  by unfold_locales
    (simp_all add: find_table_head catalog_0009_facts schema_facts scenario_shock_admits scenario_shock_clashes scenario_shock_references insert_scenario_shock_def database_sql_lookup database_sql_put
       unique_indexes_head)

interpretation instrument_risk_sensitivities_stored: stored_table catalog_0009 "''instrument_risk_sensitivities''" table_instrument_risk_sensitivities instrument_risk_sensitivity_sql db_instrument_risk_sensitivities "\<lambda>rs. db_instrument_risk_sensitivities_update (\<lambda>_. rs)"
  instrument_risk_sensitivity_clash instrument_risk_sensitivity_checks instrument_risk_sensitivity_refs "\<lambda>r. True" "\<lambda>r r'. False" insert_instrument_risk_sensitivity
  by unfold_locales
    (simp_all add: find_table_head catalog_0009_facts schema_facts instrument_risk_sensitivity_admits instrument_risk_sensitivity_clashes instrument_risk_sensitivity_references insert_instrument_risk_sensitivity_def database_sql_lookup database_sql_put
       unique_indexes_head)

interpretation scenario_runs_stored: stored_table catalog_0009 "''scenario_runs''" table_scenario_runs scenario_run_sql db_scenario_runs "\<lambda>rs. db_scenario_runs_update (\<lambda>_. rs)"
  scenario_run_clash scenario_run_checks scenario_run_refs "\<lambda>r. True" "\<lambda>r r'. False" insert_scenario_run
  by unfold_locales
    (simp_all add: find_table_head catalog_0009_facts schema_facts scenario_run_admits scenario_run_clashes scenario_run_references insert_scenario_run_def database_sql_lookup database_sql_put
       unique_indexes_head)

interpretation scenario_position_results_stored: stored_table catalog_0009 "''scenario_position_results''" table_scenario_position_results scenario_position_result_sql db_scenario_position_results "\<lambda>rs. db_scenario_position_results_update (\<lambda>_. rs)"
  scenario_position_result_clash scenario_position_result_checks scenario_position_result_refs "\<lambda>r. True" "\<lambda>r r'. False" insert_scenario_position_result
  by unfold_locales
    (simp_all add: find_table_head catalog_0009_facts schema_facts scenario_position_result_admits scenario_position_result_clashes scenario_position_result_references insert_scenario_position_result_def database_sql_lookup database_sql_put
       unique_indexes_head)

interpretation investment_proposals_stored: stored_table catalog_0009 "''investment_proposals''" table_investment_proposals investment_proposal_sql db_investment_proposals "\<lambda>rs. db_investment_proposals_update (\<lambda>_. rs)"
  investment_proposal_clash investment_proposal_checks investment_proposal_refs "\<lambda>r. True" "\<lambda>r r'. False" insert_investment_proposal
  by unfold_locales
    (simp_all add: find_table_head catalog_0009_facts schema_facts investment_proposal_admits investment_proposal_clashes investment_proposal_references insert_investment_proposal_def database_sql_lookup database_sql_put
       unique_indexes_head)

interpretation proposal_versions_stored: stored_table catalog_0009 "''proposal_versions''" table_proposal_versions proposal_version_sql db_proposal_versions "\<lambda>rs. db_proposal_versions_update (\<lambda>_. rs)"
  proposal_version_clash proposal_version_checks proposal_version_refs "\<lambda>r. True" "\<lambda>r r'. False" insert_proposal_version
  by unfold_locales
    (simp_all add: find_table_head catalog_0009_facts schema_facts proposal_version_admits proposal_version_clashes proposal_version_references insert_proposal_version_def database_sql_lookup database_sql_put
       unique_indexes_head)

interpretation proposal_lines_stored: stored_table catalog_0009 "''proposal_lines''" table_proposal_lines proposal_line_sql db_proposal_lines "\<lambda>rs. db_proposal_lines_update (\<lambda>_. rs)"
  proposal_line_clash proposal_line_checks proposal_line_refs "\<lambda>r. True" "\<lambda>r r'. False" insert_proposal_line
  by unfold_locales
    (simp_all add: find_table_head catalog_0009_facts schema_facts proposal_line_admits proposal_line_clashes proposal_line_references insert_proposal_line_def database_sql_lookup database_sql_put
       unique_indexes_head)

interpretation proposal_analyses_stored: stored_table catalog_0009 "''proposal_analyses''" table_proposal_analyses proposal_analysis_sql db_proposal_analyses "\<lambda>rs. db_proposal_analyses_update (\<lambda>_. rs)"
  proposal_analysis_clash proposal_analysis_checks proposal_analysis_refs "\<lambda>r. True" "\<lambda>r r'. False" insert_proposal_analysis
  by unfold_locales
    (simp_all add: find_table_head catalog_0009_facts schema_facts proposal_analysis_admits proposal_analysis_clashes proposal_analysis_references insert_proposal_analysis_def database_sql_lookup database_sql_put
       unique_indexes_head)

interpretation proposal_reviews_stored: stored_table catalog_0009 "''proposal_reviews''" table_proposal_reviews proposal_review_sql db_proposal_reviews "\<lambda>rs. db_proposal_reviews_update (\<lambda>_. rs)"
  proposal_review_clash proposal_review_checks proposal_review_refs "\<lambda>r. prv_reviewer_role r \<in> set governance_roles" "\<lambda>r r'. False" insert_proposal_review
  by unfold_locales
    (simp_all add: find_table_head catalog_0009_facts schema_facts proposal_review_admits proposal_review_clashes proposal_review_references insert_proposal_review_def database_sql_lookup database_sql_put
       unique_indexes_head)

interpretation proposal_transitions_stored: stored_table catalog_0009 "''proposal_transitions''" table_proposal_transitions proposal_transition_sql db_proposal_transitions "\<lambda>rs. db_proposal_transitions_update (\<lambda>_. rs)"
  proposal_transition_clash proposal_transition_checks proposal_transition_refs "\<lambda>r. pt_actor_role r \<in> set governance_roles" "\<lambda>r r'. False" insert_proposal_transition
  by unfold_locales
    (simp_all add: find_table_head catalog_0009_facts schema_facts proposal_transition_admits proposal_transition_clashes proposal_transition_references insert_proposal_transition_def database_sql_lookup database_sql_put
       unique_indexes_head)

interpretation ai_conversations_stored: stored_table catalog_0009 "''ai_conversations''" table_ai_conversations ai_conversation_sql db_ai_conversations "\<lambda>rs. db_ai_conversations_update (\<lambda>_. rs)"
  ai_conversation_clash ai_conversation_checks ai_conversation_refs "\<lambda>r. True" "\<lambda>r r'. False" insert_ai_conversation
  by unfold_locales
    (simp_all add: find_table_head catalog_0009_facts schema_facts ai_conversation_admits ai_conversation_clashes ai_conversation_references insert_ai_conversation_def database_sql_lookup database_sql_put
       unique_indexes_head)

interpretation ai_messages_stored: stored_table catalog_0009 "''ai_messages''" table_ai_messages ai_message_sql db_ai_messages "\<lambda>rs. db_ai_messages_update (\<lambda>_. rs)"
  ai_message_clash ai_message_checks ai_message_refs "\<lambda>r. True" "\<lambda>r r'. False" insert_ai_message
  by unfold_locales
    (simp_all add: find_table_head catalog_0009_facts schema_facts ai_message_admits ai_message_clashes ai_message_references insert_ai_message_def database_sql_lookup database_sql_put
       unique_indexes_head)

interpretation ai_tool_calls_stored: stored_table catalog_0009 "''ai_tool_calls''" table_ai_tool_calls ai_tool_call_sql db_ai_tool_calls "\<lambda>rs. db_ai_tool_calls_update (\<lambda>_. rs)"
  ai_tool_call_clash ai_tool_call_checks ai_tool_call_refs "\<lambda>r. True" "\<lambda>r r'. False" insert_ai_tool_call
  by unfold_locales
    (simp_all add: find_table_head catalog_0009_facts schema_facts ai_tool_call_admits ai_tool_call_clashes ai_tool_call_references insert_ai_tool_call_def database_sql_lookup database_sql_put
       unique_indexes_head)


end
