(* ===== verification/Schema_Properties.thy ===== *)
theory Schema_Properties
  imports Schema_Refinement Ledger_Properties Snapshot_Properties
begin

text \<open>
  The flush of one row of any mapped class, as an insert into the migrated database; and the services
  whose rows always satisfy what only the migrations declare.
\<close>

section \<open>A row of some mapped class\<close>

datatype stored_row =
    Fund_Row fund_row
  | User_Row user_row
  | Role_Row role_row
  | UserRole_Row user_role_row
  | Instrument_Row instrument_row
  | Account_Row account_row
  | ImportBatch_Row import_batch_row
  | Transaction_Row transaction_row
  | ImportConflict_Row import_conflict_row
  | ImportRecord_Row import_record_row
  | AuditEvent_Row audit_event_row
  | PortfolioSnapshot_Row portfolio_snapshot_row
  | SnapshotCash_Row snapshot_cash_row
  | SnapshotPosition_Row snapshot_position_row
  | ReconciliationObservation_Row reconciliation_observation_row
  | ReconciliationRun_Row reconciliation_run_row
  | ReconciliationItem_Row reconciliation_item_row
  | SecurityIdentifier_Row security_identifier_row
  | MarketDataBatch_Row market_data_batch_row
  | MarketPrice_Row market_price_row
  | MarketPriceConflict_Row market_price_conflict_row
  | InstrumentClassification_Row instrument_classification_row
  | RiskPolicy_Row risk_policy_row
  | RiskPolicyRule_Row risk_policy_rule_row
  | RiskEvaluation_Row risk_evaluation_row
  | RiskEvaluationItem_Row risk_evaluation_item_row
  | ScenarioDefinition_Row scenario_definition_row
  | ScenarioShock_Row scenario_shock_row
  | InstrumentRiskSensitivity_Row instrument_risk_sensitivity_row
  | ScenarioRun_Row scenario_run_row
  | ScenarioPositionResult_Row scenario_position_result_row
  | InvestmentProposal_Row investment_proposal_row
  | ProposalVersion_Row proposal_version_row
  | ProposalLine_Row proposal_line_row
  | ProposalAnalysis_Row proposal_analysis_row
  | ProposalReview_Row proposal_review_row
  | ProposalTransition_Row proposal_transition_row
  | AIConversation_Row ai_conversation_row
  | AIMessage_Row ai_message_row
  | AIToolCall_Row ai_tool_call_row

fun stored_name :: "stored_row \<Rightarrow> string" where
  "stored_name (Fund_Row r) = ''funds''"
| "stored_name (User_Row r) = ''users''"
| "stored_name (Role_Row r) = ''roles''"
| "stored_name (UserRole_Row r) = ''user_roles''"
| "stored_name (Instrument_Row r) = ''instruments''"
| "stored_name (Account_Row r) = ''accounts''"
| "stored_name (ImportBatch_Row r) = ''import_batches''"
| "stored_name (Transaction_Row r) = ''transactions''"
| "stored_name (ImportConflict_Row r) = ''import_conflicts''"
| "stored_name (ImportRecord_Row r) = ''import_records''"
| "stored_name (AuditEvent_Row r) = ''audit_events''"
| "stored_name (PortfolioSnapshot_Row r) = ''portfolio_snapshots''"
| "stored_name (SnapshotCash_Row r) = ''snapshot_cash''"
| "stored_name (SnapshotPosition_Row r) = ''snapshot_positions''"
| "stored_name (ReconciliationObservation_Row r) = ''reconciliation_observations''"
| "stored_name (ReconciliationRun_Row r) = ''reconciliation_runs''"
| "stored_name (ReconciliationItem_Row r) = ''reconciliation_items''"
| "stored_name (SecurityIdentifier_Row r) = ''security_identifiers''"
| "stored_name (MarketDataBatch_Row r) = ''market_data_batches''"
| "stored_name (MarketPrice_Row r) = ''market_prices''"
| "stored_name (MarketPriceConflict_Row r) = ''market_price_conflicts''"
| "stored_name (InstrumentClassification_Row r) = ''instrument_classifications''"
| "stored_name (RiskPolicy_Row r) = ''risk_policies''"
| "stored_name (RiskPolicyRule_Row r) = ''risk_policy_rules''"
| "stored_name (RiskEvaluation_Row r) = ''risk_evaluations''"
| "stored_name (RiskEvaluationItem_Row r) = ''risk_evaluation_items''"
| "stored_name (ScenarioDefinition_Row r) = ''scenario_definitions''"
| "stored_name (ScenarioShock_Row r) = ''scenario_shocks''"
| "stored_name (InstrumentRiskSensitivity_Row r) = ''instrument_risk_sensitivities''"
| "stored_name (ScenarioRun_Row r) = ''scenario_runs''"
| "stored_name (ScenarioPositionResult_Row r) = ''scenario_position_results''"
| "stored_name (InvestmentProposal_Row r) = ''investment_proposals''"
| "stored_name (ProposalVersion_Row r) = ''proposal_versions''"
| "stored_name (ProposalLine_Row r) = ''proposal_lines''"
| "stored_name (ProposalAnalysis_Row r) = ''proposal_analyses''"
| "stored_name (ProposalReview_Row r) = ''proposal_reviews''"
| "stored_name (ProposalTransition_Row r) = ''proposal_transitions''"
| "stored_name (AIConversation_Row r) = ''ai_conversations''"
| "stored_name (AIMessage_Row r) = ''ai_messages''"
| "stored_name (AIToolCall_Row r) = ''ai_tool_calls''"

fun stored_sql :: "stored_row \<Rightarrow> sql_row" where
  "stored_sql (Fund_Row r) = fund_sql r"
| "stored_sql (User_Row r) = user_sql r"
| "stored_sql (Role_Row r) = role_sql r"
| "stored_sql (UserRole_Row r) = user_role_sql r"
| "stored_sql (Instrument_Row r) = instrument_sql r"
| "stored_sql (Account_Row r) = account_sql r"
| "stored_sql (ImportBatch_Row r) = import_batch_sql r"
| "stored_sql (Transaction_Row r) = transaction_sql r"
| "stored_sql (ImportConflict_Row r) = import_conflict_sql r"
| "stored_sql (ImportRecord_Row r) = import_record_sql r"
| "stored_sql (AuditEvent_Row r) = audit_event_sql r"
| "stored_sql (PortfolioSnapshot_Row r) = portfolio_snapshot_sql r"
| "stored_sql (SnapshotCash_Row r) = snapshot_cash_sql r"
| "stored_sql (SnapshotPosition_Row r) = snapshot_position_sql r"
| "stored_sql (ReconciliationObservation_Row r) = reconciliation_observation_sql r"
| "stored_sql (ReconciliationRun_Row r) = reconciliation_run_sql r"
| "stored_sql (ReconciliationItem_Row r) = reconciliation_item_sql r"
| "stored_sql (SecurityIdentifier_Row r) = security_identifier_sql r"
| "stored_sql (MarketDataBatch_Row r) = market_data_batch_sql r"
| "stored_sql (MarketPrice_Row r) = market_price_sql r"
| "stored_sql (MarketPriceConflict_Row r) = market_price_conflict_sql r"
| "stored_sql (InstrumentClassification_Row r) = instrument_classification_sql r"
| "stored_sql (RiskPolicy_Row r) = risk_policy_sql r"
| "stored_sql (RiskPolicyRule_Row r) = risk_policy_rule_sql r"
| "stored_sql (RiskEvaluation_Row r) = risk_evaluation_sql r"
| "stored_sql (RiskEvaluationItem_Row r) = risk_evaluation_item_sql r"
| "stored_sql (ScenarioDefinition_Row r) = scenario_definition_sql r"
| "stored_sql (ScenarioShock_Row r) = scenario_shock_sql r"
| "stored_sql (InstrumentRiskSensitivity_Row r) = instrument_risk_sensitivity_sql r"
| "stored_sql (ScenarioRun_Row r) = scenario_run_sql r"
| "stored_sql (ScenarioPositionResult_Row r) = scenario_position_result_sql r"
| "stored_sql (InvestmentProposal_Row r) = investment_proposal_sql r"
| "stored_sql (ProposalVersion_Row r) = proposal_version_sql r"
| "stored_sql (ProposalLine_Row r) = proposal_line_sql r"
| "stored_sql (ProposalAnalysis_Row r) = proposal_analysis_sql r"
| "stored_sql (ProposalReview_Row r) = proposal_review_sql r"
| "stored_sql (ProposalTransition_Row r) = proposal_transition_sql r"
| "stored_sql (AIConversation_Row r) = ai_conversation_sql r"
| "stored_sql (AIMessage_Row r) = ai_message_sql r"
| "stored_sql (AIToolCall_Row r) = ai_tool_call_sql r"

fun flush_row :: "database \<Rightarrow> stored_row \<Rightarrow> app_error + database" where
  "flush_row db (Fund_Row r) = insert_fund db r"
| "flush_row db (User_Row r) = insert_user db r"
| "flush_row db (Role_Row r) = insert_role db r"
| "flush_row db (UserRole_Row r) = insert_user_role db r"
| "flush_row db (Instrument_Row r) = insert_instrument db r"
| "flush_row db (Account_Row r) = insert_account db r"
| "flush_row db (ImportBatch_Row r) = insert_import_batch db r"
| "flush_row db (Transaction_Row r) = insert_transaction db r"
| "flush_row db (ImportConflict_Row r) = insert_import_conflict db r"
| "flush_row db (ImportRecord_Row r) = insert_import_record db r"
| "flush_row db (AuditEvent_Row r) = insert_audit_event db r"
| "flush_row db (PortfolioSnapshot_Row r) = insert_portfolio_snapshot db r"
| "flush_row db (SnapshotCash_Row r) = insert_snapshot_cash db r"
| "flush_row db (SnapshotPosition_Row r) = insert_snapshot_position db r"
| "flush_row db (ReconciliationObservation_Row r) = insert_reconciliation_observation db r"
| "flush_row db (ReconciliationRun_Row r) = insert_reconciliation_run db r"
| "flush_row db (ReconciliationItem_Row r) = insert_reconciliation_item db r"
| "flush_row db (SecurityIdentifier_Row r) = insert_security_identifier db r"
| "flush_row db (MarketDataBatch_Row r) = insert_market_data_batch db r"
| "flush_row db (MarketPrice_Row r) = insert_market_price db r"
| "flush_row db (MarketPriceConflict_Row r) = insert_market_price_conflict db r"
| "flush_row db (InstrumentClassification_Row r) = insert_instrument_classification db r"
| "flush_row db (RiskPolicy_Row r) = insert_risk_policy db r"
| "flush_row db (RiskPolicyRule_Row r) = insert_risk_policy_rule db r"
| "flush_row db (RiskEvaluation_Row r) = insert_risk_evaluation db r"
| "flush_row db (RiskEvaluationItem_Row r) = insert_risk_evaluation_item db r"
| "flush_row db (ScenarioDefinition_Row r) = insert_scenario_definition db r"
| "flush_row db (ScenarioShock_Row r) = insert_scenario_shock db r"
| "flush_row db (InstrumentRiskSensitivity_Row r) = insert_instrument_risk_sensitivity db r"
| "flush_row db (ScenarioRun_Row r) = insert_scenario_run db r"
| "flush_row db (ScenarioPositionResult_Row r) = insert_scenario_position_result db r"
| "flush_row db (InvestmentProposal_Row r) = insert_investment_proposal db r"
| "flush_row db (ProposalVersion_Row r) = insert_proposal_version db r"
| "flush_row db (ProposalLine_Row r) = insert_proposal_line db r"
| "flush_row db (ProposalAnalysis_Row r) = insert_proposal_analysis db r"
| "flush_row db (ProposalReview_Row r) = insert_proposal_review db r"
| "flush_row db (ProposalTransition_Row r) = insert_proposal_transition db r"
| "flush_row db (AIConversation_Row r) = insert_ai_conversation db r"
| "flush_row db (AIMessage_Row r) = insert_ai_message db r"
| "flush_row db (AIToolCall_Row r) = insert_ai_tool_call db r"

text \<open>The constraints that only the migrations declare.\<close>

fun migration_admits :: "database \<Rightarrow> stored_row \<Rightarrow> bool" where
  "migration_admits db (Transaction_Row r) = (\<forall>r' \<in> set (db_transactions db). \<not> opening_clash r' r)"
| "migration_admits db (PortfolioSnapshot_Row r) = (\<forall>r' \<in> set (db_portfolio_snapshots db). \<not> snapshot_scope_clash r' r)"
| "migration_admits db (ReconciliationItem_Row r) = (ri_status r \<noteq> Recon_UNAVAILABLE)"
| "migration_admits db (ProposalReview_Row r) = (prv_reviewer_role r \<in> set governance_roles)"
| "migration_admits db (ProposalTransition_Row r) = (pt_actor_role r \<in> set governance_roles)"
| "migration_admits db _ = True"

text \<open>C30: The constraints of models.py are those the migrations create: for a row of any of the 40
  mapped classes, the INSERT into the schema at the head of the nine migrations (types and lengths
  of the columns, NOT NULL, CHECK, primary and unique keys, partial unique indexes, foreign keys;
  not numeric ranges or triggers) succeeds exactly when the flush of the row does and a short list
  of constraints holds that only the migrations declare, and then leaves the same rows. The list:
  no second POSTED opening balance for an account (an account and instrument); no second snapshot
  of a scope and cutoff with the same revision, or current at the same time; no reconciliation
  item with status UNAVAILABLE; reviewer and actor roles among analyst, manager and advisor.\<close>

theorem flush_refines_migrations:
  "sql_insert catalog_0009 (database_sql db) (stored_name x) (stored_sql x)
     = (case flush_row db x of Inl _ \<Rightarrow> None
        | Inr db' \<Rightarrow> if migration_admits db x then Some (database_sql db') else None)"
  by (cases x) (simp_all add: funds_stored.insert_refines
    users_stored.insert_refines
    roles_stored.insert_refines
    user_roles_stored.insert_refines
    instruments_stored.insert_refines
    accounts_stored.insert_refines
    import_batches_stored.insert_refines
    transactions_stored.insert_refines
    import_conflicts_stored.insert_refines
    import_records_stored.insert_refines
    audit_events_stored.insert_refines
    portfolio_snapshots_stored.insert_refines
    snapshot_cash_stored.insert_refines
    snapshot_positions_stored.insert_refines
    reconciliation_observations_stored.insert_refines
    reconciliation_runs_stored.insert_refines
    reconciliation_items_stored.insert_refines
    security_identifiers_stored.insert_refines
    market_data_batches_stored.insert_refines
    market_prices_stored.insert_refines
    market_price_conflicts_stored.insert_refines
    instrument_classifications_stored.insert_refines
    risk_policies_stored.insert_refines
    risk_policy_rules_stored.insert_refines
    risk_evaluations_stored.insert_refines
    risk_evaluation_items_stored.insert_refines
    scenario_definitions_stored.insert_refines
    scenario_shocks_stored.insert_refines
    instrument_risk_sensitivities_stored.insert_refines
    scenario_runs_stored.insert_refines
    scenario_position_results_stored.insert_refines
    investment_proposals_stored.insert_refines
    proposal_versions_stored.insert_refines
    proposal_lines_stored.insert_refines
    proposal_analyses_stored.insert_refines
    proposal_reviews_stored.insert_refines
    proposal_transitions_stored.insert_refines
    ai_conversations_stored.insert_refines
    ai_messages_stored.insert_refines
    ai_tool_calls_stored.insert_refines
    cong: sum.case_cong)

section \<open>What the services store\<close>

lemma ledger_opening_free:
  assumes "transaction_service_create H i now db c = Inr (res, db')" and "cr_status res = CREATED"
    and "r \<in> set (db_transactions db)"
  shows "\<not> opening_clash r (cr_transaction res)"
  using assms(1)
proof (cases rule: create_cases)
  case (existing e)
  with assms(2) show ?thesis by simp
next
  case (created target db1)
  from created(2) assms(3) show ?thesis
    by (auto simp: created(4) transaction_of_def opening_clash_def validate_opening_order_def requireR_def
        has_posted_cash_activity_def has_posted_quantity_activity_def first_row_None split: if_splits option.splits)
qed

end
