(* ===== verification/Spec2Isabelle.thy ===== *)
theory Spec2Isabelle
  imports Liquidity_Properties Market_Witnesses Platform_Witnesses Service_Witnesses Risk_Witnesses
    Scenario_Witnesses Import_Witnesses Csv_Provider_Witnesses
    Ai_Witnesses Migration_Properties Schema_Properties
begin

text \<open>
  \<^bold>\<open>HawkFund, the investment platform: a verification library.\<close>

  \<^bold>\<open>The program.\<close> The API under \<open>src/apps/api/app\<close> keeps an append-only ledger of transactions per fund
  and derives everything else from it: positions and cash at a cutoff (\<open>portfolio\<close>), stored snapshots
  and their reconciliation with outside reports (\<open>snapshots\<close>), valuations at stored prices
  (\<open>market_data\<close>, \<open>valuation\<close>), exposures, risk figures and policy checks (\<open>exposures\<close>, \<open>risk\<close>),
  return analytics (\<open>analytics\<close>), stress scenarios (\<open>scenarios\<close>), a proposal workflow that approves
  only analysed and compliant proposals (\<open>governance\<close>), CSV imports into the ledger (\<open>imports\<close>) and an
  assistant that lets a language model call read-only tools (\<open>ai\<close>). \<open>models.py\<close> maps the tables,
  \<open>src/db/migrations\<close> creates them. The components meet in the database and in direct calls: imports
  call the ledger; snapshots, valuation and the tools call the engine; scenarios call the exposure,
  risk and policy engines; approval reads the evaluation the policy service stored.

  \<^bold>\<open>The foundations.\<close> \<open>Prelude\<close>: exceptions as \<open>app_error + 'a\<close> with \<open>bindR\<close> and \<open>foldR\<close>, dictionaries in
  insertion order, identifiers, timestamps (an aware one is an instant with an offset, a naive one a
  reading), and the locale \<open>history_invariant\<close> for loops. \<open>Decimal\<close> and \<open>Rounding\<close>: the decimal module with
  28 digits, rounding half to even, and its correct-rounding function \<open>rnd\<close> on the rationals.
  \<open>Rendering\<close>, \<open>Literals\<close>, \<open>Csv_Reader\<close>, \<open>Json_Text\<close>, \<open>Floats\<close>: what the code uses of \<open>str\<close>,
  \<open>Decimal(text)\<close>, \<open>datetime.fromisoformat\<close>, \<open>csv.DictReader\<close>, \<open>json\<close> and floats. \<open>Models\<close> and \<open>Schema\<close>:
  every class of \<open>models.py\<close> as a record (\<open>x_row\<close>), its constraints (\<open>x_checks\<close>, \<open>x_clash\<close>, \<open>x_refs\<close>), the
  state \<open>database\<close> with one list per table and the flush of a row (\<open>insert_x\<close>).

  \<^bold>\<open>Components\<close> (theory of the definitions; theories of the lemmas; sources under \<open>app\<close>):
  \<^item> \<open>Portfolio_Types\<close>, \<open>Portfolio_Engine\<close>; \<open>Portfolio_Invariant\<close>, \<open>_Properties\<close>, \<open>_Exact\<close>, \<open>_Accounts\<close>:
    \<open>portfolio/types.py\<close>, \<open>engine.py\<close>. The replay as a fold of \<open>engine_step\<close> over the sorted ledger. An
    invariant ties the state to the history; the result is a function of the set of records, ignores
    later ones, is exact within bounds and does not mix accounts.
  \<^item> \<open>Ledger\<close>; \<open>Ledger_Properties\<close>: \<open>ledger\<close>. \<open>transaction_service_create\<close> with all validations. Every reachable
    table obeys \<open>ledger_ok\<close>: what a row requires of the rows before it, reversals and opening balances
    included; commands are idempotent and nothing is left for the database to refuse.
  \<^item> \<open>Snapshots\<close>, \<open>Reconciliation\<close>; \<open>Snapshot_Properties\<close>, \<open>Reconciliation_Properties\<close>: \<open>snapshots\<close>. Stored
    snapshots verify for ever, also when superseded; revision chains; the status of a reconciliation.
  \<^item> \<open>Market_Data\<close>, \<open>Csv_Provider\<close>, \<open>Valuation\<close>; \<open>Market_Data_Properties\<close>, \<open>Csv_Provider_Properties\<close>,
    \<open>Valuation_Properties\<close>: \<open>market_data\<close>, \<open>valuation\<close>. Ingestion accounts for every price; quotes and
    valuations never look ahead; when a valuation succeeds and with which error it fails.
  \<^item> \<open>Exposures\<close>, \<open>Risk_Engine\<close>, \<open>Risk_Policy\<close>, \<open>Analytics\<close>, \<open>Numerics\<close>; their \<open>_Properties\<close>: \<open>exposures\<close>,
    \<open>risk\<close>, \<open>analytics\<close>. Exact partitions, value at risk as a quantile, verdicts of rules, prefix
    properties of return series.
  \<^item> \<open>Scenarios\<close>, \<open>Scenario_Service\<close>; \<open>Scenario_Properties\<close>: \<open>scenarios\<close>. Direction of a stress, recorded runs.
  \<^item> \<open>Governance\<close>, \<open>Liquidity\<close>; \<open>Governance_Steps\<close>, \<open>Governance_Properties\<close>, \<open>Liquidity_Properties\<close>:
    \<open>governance\<close>. The stored transitions follow an abstract workflow; optimistic locking; what an approval
    requires. \<open>Platform\<close> composes it with policy evaluation.
  \<^item> \<open>Imports\<close>; \<open>Csv_Properties\<close>, \<open>Literals_Properties\<close>, \<open>Import_Properties\<close>, \<open>Import_Completion\<close>: \<open>imports\<close>. Every
    row is accounted for, no row stops an import, a file is imported once, postings can be traced.
  \<^item> \<open>Ai_Tools\<close>, \<open>Sql_Tools\<close>, \<open>Ai_Service\<close>, \<open>Openai_Responses\<close>; \<open>Ai_Properties\<close>, \<open>Ai_Tool_Properties\<close>: \<open>ai\<close>. The
    model is a parameter; whatever it answers, a question only appends its evidence, citations come from
    recorded calls, and tools see one fund up to one cutoff.
  \<^item> \<open>Sql_Schema\<close>, \<open>Migrations\<close>; \<open>Migration_Properties\<close>: \<open>db/migrations/versions\<close>. The statements of the nine
    revisions over a catalog; each downgrade undoes its upgrade.
  \<^item> \<open>Sql_Insert\<close>, \<open>Schema_Rows\<close>; \<open>Schema_Refinement\<close>, \<open>Schema_Properties\<close>: an INSERT into a migrated table, the
    rows of \<open>models.py\<close> as SQL rows, and the locale \<open>stored_table\<close>, interpreted for each of the 40 tables:
    the flush of the model refines the insert.
  \<^item> \<open>Examples\<close> and the \<open>_Witnesses\<close> theories: concrete databases and calls on which the hypotheses hold.

  \<^bold>\<open>Interfaces.\<close> A locale states each contract, and is interpreted on the definitions of the component that
  provides it: \<open>history_invariant\<close> (loops and replays), \<open>exact_flow\<close> (cash and quantities), the tables of the
  schema, the read-only tools of the assistant, \<open>stored_table\<close> (migrated tables).

  \<^bold>\<open>Parameters.\<close> Results of \<open>uuid4()\<close> and of clocks are arguments, in the order of the calls; SHA-256 over
  canonical JSON is a digest \<open>H\<close> (over a text \<open>D\<close>), of which at most the length 64 is assumed; \<open>str.format\<close>
  beyond bare names is \<open>F\<close>; price providers, the language model and the HTTP client are records of
  functions. A call that raises leaves the database as it was: the session rolls back.

  \<^bold>\<open>Bounds.\<close> No recursion uses fuel: every loop runs over a list. Decimals have 28 digits; sums are exact for
  transactions within the column scales (12, 8 and 4 decimals) while gross cash stays below \<open>10^8\<close>, and
  separately gross quantity below \<open>10^16\<close>, because 20 + 8 and 12 + 16 digits fit. Series shorter than \<open>10^28\<close>
  have exact lengths. Tool arguments have at most 8192 bytes, integers in JSON at most 4300 digits, price
  ages fewer than \<open>10^9\<close> days.

  \<^bold>\<open>Not modelled.\<close> NaN, the infinities, signed zero and exponent limits of \<open>Decimal\<close>: a NaN or infinite cell
  ends the call with \<open>InvalidOperation\<close>, earlier than the code in some rows. The rounding of a value to the
  scale of its \<open>Numeric\<close> column and the ranges of numeric columns. Unicode beyond ASCII, except as UTF-8
  bytes in the texts of the assistant; collations; recursion limits; the firing of triggers (they are
  created and dropped by the migrations only); sessions, locks and isolation; the Alembic environment,
  the sample-data loader, FastAPI wiring, settings and logging; the TypeScript client.

  \<^bold>\<open>What is shown\<close>, most important first: an approved proposal rests on a recorded evaluation within the
  limits (\<open>Platform.approved_within_limits\<close>); cash and quantities are conserved exactly; valuations succeed
  exactly when they should and never look ahead; the workflow history refines its specification; the
  assistant is grounded, confined and read-only; imports, ingestions and snapshots account for, trace and
  reproduce what they store; stress, exposure, risk and policy figures mean what they say; and the schema
  of the mapped classes agrees with the migrations up to a listed difference.
\<close>

end
